(* ===== verification/Prelude.thy ===== *)
theory Prelude
  imports Main "HOL-Library.Sublist"
begin

text \<open>
  Shared vocabulary of the development: Python text, decoded JSON values, and the
  effects of the interpreters (an exception or a result, plus the ghost trace of
  the calls made on external ports).
  The collections \<open>emit_intros\<close>, \<open>raise_intros\<close> and \<open>text_facts\<close> gather the rules the component
  theories reason with.
\<close>

named_theorems emit_intros "compositional rules for the effect traces"
named_theorems raise_intros "compositional rules for the exceptions a computation raises"
named_theorems text_facts "facts about the text operations"

section \<open>Python text\<close>

text \<open>
  Text is modelled as lists of characters, that is Python text whose code points are
  below 256.  On that domain \<open>py_lower\<close>, \<open>py_isspace\<close> and \<open>py_strip\<close> agree with
  \<open>str.lower\<close>, \<open>str.isspace\<close> and \<open>str.strip\<close>.
\<close>

definition code_of :: "char \<Rightarrow> nat" where
  "code_of c = of_char c"

definition in_range :: "nat \<Rightarrow> nat \<Rightarrow> char \<Rightarrow> bool" where
  "in_range lo hi c \<longleftrightarrow> lo \<le> code_of c \<and> code_of c \<le> hi"

definition is_lower_alpha :: "char \<Rightarrow> bool" where
  "is_lower_alpha c \<longleftrightarrow> in_range 97 122 c"

definition is_upper_alpha :: "char \<Rightarrow> bool" where
  "is_upper_alpha c \<longleftrightarrow> in_range 65 90 c"

definition is_digit :: "char \<Rightarrow> bool" where
  "is_digit c \<longleftrightarrow> in_range 48 57 c"

definition py_lower_char :: "char \<Rightarrow> char" where
  "py_lower_char c =
     (if is_upper_alpha c \<or> (in_range 192 222 c \<and> code_of c \<noteq> 215)
      then char_of (code_of c + 32) else c)"

definition py_lower :: "string \<Rightarrow> string" where
  "py_lower s = map py_lower_char s"

definition py_isspace :: "char \<Rightarrow> bool" where
  "py_isspace c \<longleftrightarrow>
     in_range 9 13 c \<or> in_range 28 32 c \<or> code_of c = 133 \<or> code_of c = 160"

definition py_strip :: "string \<Rightarrow> string" where
  "py_strip s = rev (dropWhile py_isspace (rev (dropWhile py_isspace s)))"

definition py_startswith :: "string \<Rightarrow> string \<Rightarrow> bool" where
  "py_startswith s p \<longleftrightarrow> take (length p) s = p"

definition py_endswith :: "string \<Rightarrow> string \<Rightarrow> bool" where
  "py_endswith s p \<longleftrightarrow> length p \<le> length s \<and> drop (length s - length p) s = p"

definition py_removesuffix :: "string \<Rightarrow> string \<Rightarrow> string" where
  "py_removesuffix s p =
     (if p \<noteq> [] \<and> py_endswith s p then take (length s - length p) s else s)"

fun py_contains :: "string \<Rightarrow> string \<Rightarrow> bool" where
  "py_contains m [] = (m = [])"
| "py_contains m (c # cs) = (py_startswith (c # cs) m \<or> py_contains m cs)"

fun py_split :: "char \<Rightarrow> string \<Rightarrow> string list" where
  "py_split d [] = [[]]"
| "py_split d (c # cs) =
     (if c = d then [] # py_split d cs
      else (case py_split d cs of [] \<Rightarrow> [[c]] | x # xs \<Rightarrow> (c # x) # xs))"

definition is_ascii :: "string \<Rightarrow> bool" where
  "is_ascii s = list_all (\<lambda>c. code_of c < 128) s"

fun py_join :: "string \<Rightarrow> string list \<Rightarrow> string" where
  "py_join d [] = []"
| "py_join d [x] = x"
| "py_join d (x # y # ys) = x @ d @ py_join d (y # ys)"

text \<open>Decimal rendering, as \<open>str(int)\<close>.\<close>

fun show_nat :: "nat \<Rightarrow> string" where
  "show_nat n =
     (if n < 10 then [char_of (48 + n)] else show_nat (n div 10) @ [char_of (48 + n mod 10)])"

declare show_nat.simps [simp del]

definition show_int :: "int \<Rightarrow> string" where
  "show_int i = (if i < 0 then CHR ''-'' # show_nat (nat (- i)) else show_nat (nat i))"

lemma code_of_less [simp]: "code_of c < 256"
  by (metis code_of_def mod_less_divisor of_char_mod_256 zero_less_numeral)

lemma char_of_code_of [simp]: "char_of (code_of c) = c"
  by (simp add: code_of_def)

lemma code_of_char_of [simp]: "n < 256 \<Longrightarrow> code_of (char_of n) = n"
  by (simp add: code_of_def)

lemma code_of_inject [simp]: "code_of a = code_of b \<longleftrightarrow> a = b"
  by (simp add: code_of_def)

lemma py_split_not_Nil [simp]: "py_split d s \<noteq> []"
  by (induction s) (auto split: list.splits)

lemma py_split_pieces [text_facts]: "x \<in> set (py_split d s) \<Longrightarrow> d \<notin> set x"
  by (induction s arbitrary: x) (auto split: list.splits if_splits)

lemma py_split_join [text_facts]: "py_join [d] (py_split d s) = s"
proof (induction s)
  case Nil
  then show ?case by simp
next
  case (Cons c cs)
  obtain x xs where split: "py_split d cs = x # xs"
    by (meson list.exhaust py_split_not_Nil)
  with Cons show ?case by (cases xs) auto
qed

lemma py_split_single [text_facts]: "d \<notin> set s \<Longrightarrow> py_split d s = [s]"
  by (induction s) auto

lemma py_split_append [text_facts]:
  "d \<notin> set a \<Longrightarrow> py_split d (a @ d # b) = a # py_split d b"
  by (induction a) auto

lemma py_startswith_iff [text_facts]: "py_startswith s p \<longleftrightarrow> prefix p s"
  unfolding py_startswith_def by (metis append_eq_conv_conj prefix_def take_is_prefix)

lemma py_endswith_iff [text_facts]: "py_endswith s p \<longleftrightarrow> suffix p s"
  unfolding py_endswith_def suffix_def
  by (metis append_take_drop_id diff_diff_cancel length_append length_drop le_add2
      append_eq_append_conv)

lemma py_contains_iff [text_facts]: "py_contains m s \<longleftrightarrow> sublist m s"
  by (induction s) (auto simp: py_startswith_iff sublist_Cons_right)

lemma py_removesuffix_append [simp]: "py_removesuffix (s @ p) p = s"
  by (simp add: py_removesuffix_def py_endswith_def)

lemma py_lower_append [simp]: "py_lower (a @ b) = py_lower a @ py_lower b"
  by (simp add: py_lower_def)

lemma py_lower_Nil [simp]: "py_lower [] = []"
  by (simp add: py_lower_def)

lemma py_lower_Cons [simp]: "py_lower (c # cs) = py_lower_char c # py_lower cs"
  by (simp add: py_lower_def)

lemma py_lower_char_idem [simp]: "py_lower_char (py_lower_char c) = py_lower_char c"
proof (cases "is_upper_alpha c \<or> (in_range 192 222 c \<and> code_of c \<noteq> 215)")
  case True
  then have "code_of c + 32 < 256"
    by (auto simp: is_upper_alpha_def in_range_def)
  with True show ?thesis
    by (auto simp: py_lower_char_def is_upper_alpha_def in_range_def)
next
  case False
  then have "py_lower_char c = c"
    by (auto simp: py_lower_char_def)
  then show ?thesis by simp
qed

lemma py_lower_idem [simp]: "py_lower (py_lower s) = py_lower s"
  by (induction s) auto

lemma length_py_lower [simp]: "length (py_lower s) = length s"
  by (simp add: py_lower_def)

text \<open>
  Decoded JSON values, as \<open>json.loads\<close> returns them.  A dictionary is an association
  list; \<open>json_get\<close> is \<open>dict.get\<close>, whose default for an absent key is \<open>None\<close>.
  A float is kept by its spelling: the modelled code only tells floats from integers.
\<close>

datatype json =
    JNull
  | JBool bool
  | JInt int
  | JFloat string
  | JStr string
  | JList "json list"
  | JObj "(string \<times> json) list"

fun is_mapping :: "json \<Rightarrow> bool" where
  "is_mapping (JObj kvs) = True"
| "is_mapping _ = False"

fun json_get :: "json \<Rightarrow> string \<Rightarrow> json" where
  "json_get (JObj kvs) k = (case map_of kvs k of None \<Rightarrow> JNull | Some v \<Rightarrow> v)"
| "json_get _ k = JNull"

fun json_keys :: "json \<Rightarrow> string set" where
  "json_keys (JObj kvs) = set (map fst kvs)"
| "json_keys _ = {}"

fun json_is_str :: "json \<Rightarrow> bool" where
  "json_is_str (JStr s) = True"
| "json_is_str _ = False"

lemma json_get_not_mapping [simp]: "\<not> is_mapping j \<Longrightarrow> json_get j k = JNull"
  by (cases j) auto

lemma is_mapping_iff: "is_mapping j \<longleftrightarrow> (\<exists>kvs. j = JObj kvs)"
  by (cases j) auto

text \<open>No object repeats a key.\<close>

fun unique_keys :: "json \<Rightarrow> bool" where
  "unique_keys (JList xs) = list_all unique_keys xs"
| "unique_keys (JObj kvs) \<longleftrightarrow> distinct (map fst kvs) \<and> list_all (\<lambda>kv. unique_keys (snd kv)) kvs"
| "unique_keys _ = True"

end
