(* ===== verification/Effects.thy ===== *)
theory Effects
  imports Prelude
begin

text \<open>
  Computations with exceptions and external effects.  A computation takes the state and
  returns an exception (\<open>Inl\<close>) or a result (\<open>Inr\<close>) with the next state.  The state
  holds the world of the external ports, which the model never looks into, and a ghost
  trace: every call on an external port appends one event.  \<open>emits m R\<close> says that the
  events a run of \<open>m\<close> appends, and its outcome, are related by \<open>R\<close> from every state.
\<close>

section \<open>Computations\<close>

record ('ev, 'w) st =
  trace :: "'ev list"
  world :: 'w

type_synonym ('e, 'a) fallible = "'e + 'a"
type_synonym ('s, 'e, 'a) eff = "'s \<Rightarrow> ('e + 'a) \<times> 's"
type_synonym ('w, 'e, 'a) port = "'w \<Rightarrow> ('e + 'a) \<times> 'w"

definition returnE :: "'a \<Rightarrow> ('s, 'e, 'a) eff" where
  "returnE a s = (Inr a, s)"

definition raiseE :: "'e \<Rightarrow> ('s, 'e, 'a) eff" where
  "raiseE e s = (Inl e, s)"

definition liftE :: "'e + 'a \<Rightarrow> ('s, 'e, 'a) eff" where
  "liftE r s = (r, s)"

definition bindE ::
  "('s, 'e, 'a) eff \<Rightarrow> ('a \<Rightarrow> ('s, 'e, 'b) eff) \<Rightarrow> ('s, 'e, 'b) eff" where
  "bindE m k s = (case m s of (Inl e, s') \<Rightarrow> (Inl e, s') | (Inr a, s') \<Rightarrow> k a s')"

text \<open>\<open>attemptE m h k\<close> is \<open>try: a = m; except BaseException as e: h(e); else: k(a)\<close>.\<close>

definition attemptE ::
  "('s, 'e, 'a) eff \<Rightarrow> ('e \<Rightarrow> ('s, 'f, 'b) eff) \<Rightarrow> ('a \<Rightarrow> ('s, 'f, 'b) eff)
    \<Rightarrow> ('s, 'f, 'b) eff" where
  "attemptE m h k s = (case m s of (Inl e, s') \<Rightarrow> h e s' | (Inr a, s') \<Rightarrow> k a s')"

text \<open>\<open>catchE p m h\<close> is \<open>try: m; except p as e: h(e)\<close>: other exceptions propagate.\<close>

definition catchE ::
  "('e \<Rightarrow> bool) \<Rightarrow> ('s, 'e, 'a) eff \<Rightarrow> ('e \<Rightarrow> ('s, 'e, 'a) eff) \<Rightarrow> ('s, 'e, 'a) eff" where
  "catchE p m h = attemptE m (\<lambda>e. if p e then h e else raiseE e) returnE"

definition requireE :: "bool \<Rightarrow> 'e \<Rightarrow> ('s, 'e, unit) eff" where
  "requireE b e = (if b then returnE () else raiseE e)"

definition callE ::
  "('e + 'a \<Rightarrow> 'ev) \<Rightarrow> ('w, 'e, 'a) port \<Rightarrow> (('ev, 'w) st, 'e, 'a) eff" where
  "callE mk f s =
     (case f (world s) of (r, w) \<Rightarrow> (r, \<lparr>trace = trace s @ [mk r], world = w\<rparr>))"

section \<open>Fallible pure computations\<close>

definition requireR :: "bool \<Rightarrow> 'e \<Rightarrow> 'e + unit" where
  "requireR b e = (if b then Inr () else Inl e)"

fun bindR :: "'e + 'a \<Rightarrow> ('a \<Rightarrow> 'e + 'b) \<Rightarrow> 'e + 'b" where
  "bindR (Inl e) k = Inl e"
| "bindR (Inr a) k = k a"

lemma bindR_Inr_iff: "bindR m k = Inr b \<longleftrightarrow> (\<exists>a. m = Inr a \<and> k a = Inr b)"
  by (cases m) auto

lemma bindR_Inl_iff:
  "bindR m k = Inl e \<longleftrightarrow> m = Inl e \<or> (\<exists>a. m = Inr a \<and> k a = Inl e)"
  by (cases m) auto

lemma requireR_Inr [simp]: "requireR b e = Inr u \<longleftrightarrow> b"
  by (simp add: requireR_def)

lemma requireR_Inl [simp]: "requireR b e = Inl e' \<longleftrightarrow> \<not> b \<and> e' = e"
  by (auto simp: requireR_def)

lemma requireR_True [simp]: "requireR True e = Inr ()"
  by (simp add: requireR_def)

lemma requireR_False [simp]: "requireR False e = Inl e"
  by (simp add: requireR_def)

section \<open>Evaluation\<close>

lemma bindE_returnE [simp]: "bindE (returnE a) k = k a"
  by (rule ext) (simp add: bindE_def returnE_def)

lemma bindE_raiseE [simp]: "bindE (raiseE e) k = raiseE e"
  by (rule ext) (simp add: bindE_def raiseE_def)

lemma bindE_assoc: "bindE (bindE m k) l = bindE m (\<lambda>a. bindE (k a) l)"
  by (rule ext) (simp add: bindE_def split: prod.splits sum.splits)

lemma liftE_simps [simp]: "liftE (Inr a) = returnE a" "liftE (Inl e) = raiseE e"
  by (auto simp: liftE_def returnE_def raiseE_def)

lemma attemptE_returnE [simp]: "attemptE (returnE a) h k = k a"
  by (rule ext) (simp add: attemptE_def returnE_def)

lemma attemptE_raiseE [simp]: "attemptE (raiseE e) h k = h e"
  by (rule ext) (simp add: attemptE_def raiseE_def)

lemma requireE_simps [simp]:
  "requireE True e = returnE ()" "requireE False e = raiseE e"
  by (simp_all add: requireE_def)

lemmas eff_defs =
  bindE_def attemptE_def catchE_def returnE_def raiseE_def liftE_def requireE_def callE_def

section \<open>What a computation emits\<close>

definition emits ::
  "(('ev, 'w) st, 'e, 'a) eff \<Rightarrow> ('ev list \<Rightarrow> 'e + 'a \<Rightarrow> bool) \<Rightarrow> bool" where
  "emits m R \<longleftrightarrow> (\<forall>s. \<exists>evs. trace (snd (m s)) = trace s @ evs \<and> R evs (fst (m s)))"

lemma emitsD:
  "emits m R \<Longrightarrow> m s = (r, s') \<Longrightarrow> trace s' = trace s @ evs \<Longrightarrow> R evs r"
  unfolding emits_def by (metis append_eq_append_conv fst_conv snd_conv same_append_eq)

lemma emitsE:
  assumes "emits m R" and "m s = (r, s')"
  obtains evs where "trace s' = trace s @ evs" and "R evs r"
  using assms unfolding emits_def by (metis fst_conv snd_conv)

lemma emitsI:
  "(\<And>s r s'. m s = (r, s') \<Longrightarrow> \<exists>evs. trace s' = trace s @ evs \<and> R evs r) \<Longrightarrow> emits m R"
  unfolding emits_def by (metis prod.collapse)

lemma emits_mono:
  "emits m R \<Longrightarrow> (\<And>evs r. R evs r \<Longrightarrow> S evs r) \<Longrightarrow> emits m S"
  unfolding emits_def by blast

lemma emits_conj: "emits m R \<Longrightarrow> emits m S \<Longrightarrow> emits m (\<lambda>evs r. R evs r \<and> S evs r)"
  unfolding emits_def by (metis same_append_eq)

lemma emits_returnE [emit_intros]: "R [] (Inr a) \<Longrightarrow> emits (returnE a) R"
  by (simp add: emits_def returnE_def)

lemma emits_raiseE [emit_intros]: "R [] (Inl e) \<Longrightarrow> emits (raiseE e) R"
  by (simp add: emits_def raiseE_def)

lemma emits_liftE [emit_intros]: "R [] r \<Longrightarrow> emits (liftE r) R"
  by (simp add: emits_def liftE_def)

lemma emits_requireE [emit_intros]:
  "(b \<Longrightarrow> R [] (Inr ())) \<Longrightarrow> (\<not> b \<Longrightarrow> R [] (Inl e)) \<Longrightarrow> emits (requireE b e) R"
  by (simp add: emits_def requireE_def returnE_def raiseE_def)

lemma emits_callE [emit_intros]: "(\<And>r. R [mk r] r) \<Longrightarrow> emits (callE mk f) R"
  by (simp add: emits_def callE_def split: prod.splits)

lemma emits_callE_eq: "emits (callE mk f) (\<lambda>evs r. evs = [mk r])"
  by (rule emits_callE) simp

lemma emits_bindE:
  assumes m: "emits m P"
    and k: "\<And>a evs. P evs (Inr a) \<Longrightarrow> emits (k a) (\<lambda>evs'. R (evs @ evs'))"
    and e: "\<And>e evs. P evs (Inl e) \<Longrightarrow> R evs (Inl e)"
  shows "emits (bindE m k) R"
proof (rule emitsI)
  fix s r s'
  assume run: "bindE m k s = (r, s')"
  obtain x t where x: "m s = (x, t)" by (cases "m s")
  with m obtain evs where t: "trace t = trace s @ evs" and P: "P evs x"
    by (rule emitsE)
  show "\<exists>evs. trace s' = trace s @ evs \<and> R evs r"
  proof (cases x)
    case (Inl a)
    with run x t P e show ?thesis by (auto simp: bindE_def)
  next
    case (Inr a)
    with run x have "k a t = (r, s')" by (simp add: bindE_def)
    with k P Inr obtain evs' where "trace s' = trace t @ evs'" "R (evs @ evs') r"
      by (metis emitsE)
    with t show ?thesis by auto
  qed
qed

lemma emits_validated:
  "(\<And>a. v = Inr a \<Longrightarrow> emits (k a) R) \<Longrightarrow> (\<And>e. v = Inl e \<Longrightarrow> R [] (Inl e))
    \<Longrightarrow> emits (bindE (liftE v) k) R"
  by (cases v) (auto intro: emits_raiseE)

lemma emits_required:
  "(b \<Longrightarrow> emits (k ()) R) \<Longrightarrow> (\<not> b \<Longrightarrow> R [] (Inl e)) \<Longrightarrow> emits (bindE (requireE b e) k) R"
  by (cases b) (auto intro: emits_raiseE)

lemma emits_attemptE:
  assumes m: "emits m P"
    and k: "\<And>a evs. P evs (Inr a) \<Longrightarrow> emits (k a) (\<lambda>evs'. R (evs @ evs'))"
    and h: "\<And>e evs. P evs (Inl e) \<Longrightarrow> emits (h e) (\<lambda>evs'. R (evs @ evs'))"
  shows "emits (attemptE m h k) R"
proof (rule emitsI)
  fix s r s'
  assume run: "attemptE m h k s = (r, s')"
  obtain x t where x: "m s = (x, t)" by (cases "m s")
  with m obtain evs where t: "trace t = trace s @ evs" and P: "P evs x"
    by (rule emitsE)
  have "\<exists>evs'. trace s' = trace t @ evs' \<and> R (evs @ evs') r"
  proof (cases x)
    case (Inl a)
    with run x have "h a t = (r, s')" by (simp add: attemptE_def)
    with h P Inl show ?thesis by (metis emitsE)
  next
    case (Inr a)
    with run x have "k a t = (r, s')" by (simp add: attemptE_def)
    with k P Inr show ?thesis by (metis emitsE)
  qed
  with t show "\<exists>evs. trace s' = trace s @ evs \<and> R evs r" by auto
qed

lemma emits_catchE:
  assumes m: "emits m P"
    and h: "\<And>e evs. P evs (Inl e) \<Longrightarrow> p e \<Longrightarrow> emits (h e) (\<lambda>evs'. R (evs @ evs'))"
    and n: "\<And>a evs. P evs (Inr a) \<Longrightarrow> R evs (Inr a)"
    and e: "\<And>e evs. P evs (Inl e) \<Longrightarrow> \<not> p e \<Longrightarrow> R evs (Inl e)"
  shows "emits (catchE p m h) R"
  unfolding catchE_def
  by (rule emits_attemptE[OF m]) (auto intro!: emits_returnE emits_raiseE h simp: n e)

lemma emits_if [emit_intros]:
  "(b \<Longrightarrow> emits m R) \<Longrightarrow> (\<not> b \<Longrightarrow> emits n R) \<Longrightarrow> emits (if b then m else n) R"
  by simp

lemma emits_case_option [emit_intros]:
  "(x = None \<Longrightarrow> emits m R) \<Longrightarrow> (\<And>a. x = Some a \<Longrightarrow> emits (k a) R)
    \<Longrightarrow> emits (case x of None \<Rightarrow> m | Some a \<Rightarrow> k a) R"
  by (cases x) auto

lemma emits_case_sum [emit_intros]:
  "(\<And>e. x = Inl e \<Longrightarrow> emits (h e) R) \<Longrightarrow> (\<And>a. x = Inr a \<Longrightarrow> emits (k a) R)
    \<Longrightarrow> emits (case x of Inl e \<Rightarrow> h e | Inr a \<Rightarrow> k a) R"
  by (cases x) auto

lemma emits_case_prod [emit_intros]:
  "(\<And>a b. x = (a, b) \<Longrightarrow> emits (k a b) R) \<Longrightarrow> emits (case x of (a, b) \<Rightarrow> k a b) R"
  by (cases x) auto

text \<open>
  The special case for safety properties: every event of a run satisfies \<open>P\<close>,
  whatever the outcome.
\<close>

definition only_emits :: "('ev \<Rightarrow> bool) \<Rightarrow> (('ev, 'w) st, 'e, 'a) eff \<Rightarrow> bool" where
  "only_emits P m \<longleftrightarrow> emits m (\<lambda>evs r. \<forall>ev\<in>set evs. P ev)"

lemma only_emits_emits: "only_emits P m \<Longrightarrow> emits m (\<lambda>evs r. list_all P evs)"
  by (simp add: only_emits_def list_all_iff)

lemma only_emitsI: "emits m R \<Longrightarrow> (\<And>evs r. R evs r \<Longrightarrow> list_all P evs) \<Longrightarrow> only_emits P m"
  unfolding only_emits_def list_all_iff by (rule emits_mono)

lemma only_emits_mono: "only_emits P m \<Longrightarrow> (\<And>ev. P ev \<Longrightarrow> Q ev) \<Longrightarrow> only_emits Q m"
  unfolding only_emits_def by (erule emits_mono) blast

lemma only_emits_returnE [emit_intros, simp]: "only_emits P (returnE a)"
  by (simp add: only_emits_def emits_returnE)

lemma only_emits_raiseE [emit_intros, simp]: "only_emits P (raiseE e)"
  by (simp add: only_emits_def emits_raiseE)

lemma only_emits_liftE [emit_intros, simp]: "only_emits P (liftE r)"
  by (simp add: only_emits_def emits_liftE)

lemma only_emits_requireE [emit_intros, simp]: "only_emits P (requireE b e)"
  by (simp add: only_emits_def emits_requireE)

lemma only_emits_callE [emit_intros]: "(\<And>r. P (mk r)) \<Longrightarrow> only_emits P (callE mk f)"
  by (simp add: only_emits_def emits_callE)

lemma only_emits_bindE [emit_intros]:
  assumes "only_emits P m" and "\<And>a. only_emits P (k a)"
  shows "only_emits P (bindE m k)"
  unfolding only_emits_def
  by (rule emits_bindE[OF assms(1)[unfolded only_emits_def]])
    (auto intro: emits_mono[OF assms(2)[unfolded only_emits_def]])

lemma only_emits_attemptE [emit_intros]:
  assumes "only_emits P m" and "\<And>e. only_emits P (h e)" and "\<And>a. only_emits P (k a)"
  shows "only_emits P (attemptE m h k)"
  unfolding only_emits_def
  by (rule emits_attemptE[OF assms(1)[unfolded only_emits_def]])
    (auto intro: emits_mono[OF assms(2)[unfolded only_emits_def]]
      emits_mono[OF assms(3)[unfolded only_emits_def]])

lemma only_emits_catchE [emit_intros]:
  "only_emits P m \<Longrightarrow> (\<And>e. p e \<Longrightarrow> only_emits P (h e)) \<Longrightarrow> only_emits P (catchE p m h)"
  unfolding catchE_def by (rule only_emits_attemptE) auto

lemma only_emits_if [emit_intros]:
  "(b \<Longrightarrow> only_emits P m) \<Longrightarrow> (\<not> b \<Longrightarrow> only_emits P n) \<Longrightarrow> only_emits P (if b then m else n)"
  by simp

lemma only_emits_case_option [emit_intros]:
  "(x = None \<Longrightarrow> only_emits P m) \<Longrightarrow> (\<And>a. x = Some a \<Longrightarrow> only_emits P (k a))
    \<Longrightarrow> only_emits P (case x of None \<Rightarrow> m | Some a \<Rightarrow> k a)"
  by (cases x) auto

lemma only_emits_case_sum [emit_intros]:
  "(\<And>e. x = Inl e \<Longrightarrow> only_emits P (h e)) \<Longrightarrow> (\<And>a. x = Inr a \<Longrightarrow> only_emits P (k a))
    \<Longrightarrow> only_emits P (case x of Inl e \<Rightarrow> h e | Inr a \<Rightarrow> k a)"
  by (cases x) auto

lemma only_emits_case_prod [emit_intros]:
  "(\<And>a b. x = (a, b) \<Longrightarrow> only_emits P (k a b))
    \<Longrightarrow> only_emits P (case x of (a, b) \<Rightarrow> k a b)"
  by (cases x) auto

section \<open>What a computation raises\<close>

definition raises_only :: "('e \<Rightarrow> bool) \<Rightarrow> ('s, 'e, 'a) eff \<Rightarrow> bool" where
  "raises_only Q m \<longleftrightarrow> (\<forall>s e s'. m s = (Inl e, s') \<longrightarrow> Q e)"

lemma raises_onlyD: "raises_only Q m \<Longrightarrow> m s = (Inl e, s') \<Longrightarrow> Q e"
  unfolding raises_only_def by blast

lemma raises_only_mono: "raises_only P m \<Longrightarrow> (\<And>e. P e \<Longrightarrow> Q e) \<Longrightarrow> raises_only Q m"
  by (auto simp: raises_only_def)

lemma raises_only_returnE [raise_intros]: "raises_only Q (returnE a)"
  by (simp add: raises_only_def returnE_def)

lemma raises_only_raiseE [raise_intros]: "Q e \<Longrightarrow> raises_only Q (raiseE e)"
  by (simp add: raises_only_def raiseE_def)

lemma raises_only_liftE [raise_intros]: "(\<And>e. r = Inl e \<Longrightarrow> Q e) \<Longrightarrow> raises_only Q (liftE r)"
  by (simp add: raises_only_def liftE_def)

lemma raises_only_requireE [raise_intros]: "(\<not> b \<Longrightarrow> Q e) \<Longrightarrow> raises_only Q (requireE b e)"
  by (simp add: raises_only_def requireE_def returnE_def raiseE_def)

lemma raises_only_callE [raise_intros]:
  "(\<And>w e. fst (f w) = Inl e \<Longrightarrow> Q e) \<Longrightarrow> raises_only Q (callE mk f)"
  by (auto simp: raises_only_def callE_def split: prod.splits) (metis fst_conv)

lemma raises_only_bindE [raise_intros]:
  "raises_only Q m \<Longrightarrow> (\<And>a. raises_only Q (k a)) \<Longrightarrow> raises_only Q (bindE m k)"
  by (auto simp: raises_only_def bindE_def split: prod.splits sum.splits)

lemma raises_only_attemptE:
  "raises_only P m \<Longrightarrow> (\<And>e. P e \<Longrightarrow> raises_only Q (h e)) \<Longrightarrow> (\<And>a. raises_only Q (k a))
    \<Longrightarrow> raises_only Q (attemptE m h k)"
  unfolding raises_only_def attemptE_def by (auto split: prod.splits sum.splits) blast+

lemma raises_only_attemptE_any [raise_intros]:
  "(\<And>e. raises_only Q (h e)) \<Longrightarrow> (\<And>a. raises_only Q (k a)) \<Longrightarrow> raises_only Q (attemptE m h k)"
  by (auto simp: raises_only_def attemptE_def split: prod.splits sum.splits)

lemma raises_only_catchE [raise_intros]:
  "raises_only P m \<Longrightarrow> (\<And>e. P e \<Longrightarrow> p e \<Longrightarrow> raises_only Q (h e)) \<Longrightarrow> (\<And>e. P e \<Longrightarrow> \<not> p e \<Longrightarrow> Q e)
    \<Longrightarrow> raises_only Q (catchE p m h)"
  unfolding catchE_def
  by (rule raises_only_attemptE, assumption) (auto intro: raises_only_raiseE raises_only_returnE)

lemma raises_only_if [raise_intros]:
  "(b \<Longrightarrow> raises_only Q m) \<Longrightarrow> (\<not> b \<Longrightarrow> raises_only Q n) \<Longrightarrow> raises_only Q (if b then m else n)"
  by simp

lemma raises_only_case_option [raise_intros]:
  "(x = None \<Longrightarrow> raises_only Q m) \<Longrightarrow> (\<And>a. x = Some a \<Longrightarrow> raises_only Q (k a))
    \<Longrightarrow> raises_only Q (case x of None \<Rightarrow> m | Some a \<Rightarrow> k a)"
  by (cases x) auto

lemma raises_only_case_sum [raise_intros]:
  "(\<And>e. x = Inl e \<Longrightarrow> raises_only Q (h e)) \<Longrightarrow> (\<And>a. x = Inr a \<Longrightarrow> raises_only Q (k a))
    \<Longrightarrow> raises_only Q (case x of Inl e \<Rightarrow> h e | Inr a \<Rightarrow> k a)"
  by (cases x) auto

lemma raises_only_case_prod [raise_intros]:
  "(\<And>a b. x = (a, b) \<Longrightarrow> raises_only Q (k a b))
    \<Longrightarrow> raises_only Q (case x of (a, b) \<Rightarrow> k a b)"
  by (cases x) auto

end
