(* ===== verification/Cloudflare_Types.thy ===== *)
theory Cloudflare_Types
  imports Effects Prelude
begin

text \<open>
  The values of \<open>src/control_plane_kit_interpreters/cloudflare/client.py\<close>: its
  exceptions, closed enumerations, dataclasses with the validation their
  \<open>__post_init__\<close> performs, and the text validators.  Type checks that Python performs
  with \<open>isinstance\<close> on arguments of a fixed HOL type hold by typing and have no
  counterpart.
\<close>

section \<open>Closed enumerations\<close>

datatype failure_stage =
    DNS_PRE_OBSERVATION
  | TUNNEL_ALLOCATION
  | TUNNEL_CONFIGURATION
  | DNS_PRE_MUTATION_OBSERVATION
  | DNS_CREATE
  | DNS_RECONCILIATION
  | TUNNEL_TOKEN
  | SECRET_CUSTODY_STAGE
  | CLEANUP_STAGE

fun stage_value :: "failure_stage \<Rightarrow> string" where
  "stage_value DNS_PRE_OBSERVATION = ''dns-pre-observation''"
| "stage_value TUNNEL_ALLOCATION = ''tunnel-allocation''"
| "stage_value TUNNEL_CONFIGURATION = ''tunnel-configuration''"
| "stage_value DNS_PRE_MUTATION_OBSERVATION = ''dns-pre-mutation-observation''"
| "stage_value DNS_CREATE = ''dns-create''"
| "stage_value DNS_RECONCILIATION = ''dns-reconciliation''"
| "stage_value TUNNEL_TOKEN = ''tunnel-token''"
| "stage_value SECRET_CUSTODY_STAGE = ''secret-custody''"
| "stage_value CLEANUP_STAGE = ''cleanup''"

datatype failure_category =
    HOSTNAME_OCCUPIED
  | DNS_CONFLICT
  | MALFORMED_RESPONSE
  | PROVIDER_STATUS
  | TRANSPORT
  | SECRET_CUSTODY_CATEGORY
  | CLEANUP_CATEGORY

fun category_value :: "failure_category \<Rightarrow> string" where
  "category_value HOSTNAME_OCCUPIED = ''hostname-occupied''"
| "category_value DNS_CONFLICT = ''dns-conflict''"
| "category_value MALFORMED_RESPONSE = ''malformed-response''"
| "category_value PROVIDER_STATUS = ''provider-status''"
| "category_value TRANSPORT = ''transport''"
| "category_value SECRET_CUSTODY_CATEGORY = ''secret-custody''"
| "category_value CLEANUP_CATEGORY = ''cleanup''"

datatype mutation_certainty =
  MUT_NONE | TUNNEL_CREATED | DNS_AND_TUNNEL_CREATED | MUT_UNCERTAIN

fun certainty_value :: "mutation_certainty \<Rightarrow> string" where
  "certainty_value MUT_NONE = ''none''"
| "certainty_value TUNNEL_CREATED = ''tunnel-created''"
| "certainty_value DNS_AND_TUNNEL_CREATED = ''dns-and-tunnel-created''"
| "certainty_value MUT_UNCERTAIN = ''uncertain''"

datatype cleanup_result = NOT_REQUIRED | COMPLETE | WITHHELD | CLEANUP_UNCERTAIN

fun cleanup_value :: "cleanup_result \<Rightarrow> string" where
  "cleanup_value NOT_REQUIRED = ''not-required''"
| "cleanup_value COMPLETE = ''complete''"
| "cleanup_value WITHHELD = ''withheld''"
| "cleanup_value CLEANUP_UNCERTAIN = ''uncertain''"

datatype hostname_state = HOST_ABSENT | OCCUPIED | TARGETS_TUNNEL | DUPLICATE | MALFORMED

datatype resource_presence = PRESENT | RES_ABSENT

section \<open>Exceptions\<close>

record failure_evidence =
  ev_stage :: failure_stage
  ev_category :: failure_category
  ev_mutation_certainty :: mutation_certainty
  ev_tunnel_id :: "string option"
  ev_dns_record_id :: "string option"
  ev_cleanup_result :: cleanup_result

text \<open>
  \<open>SecretResolutionCode\<close> belongs to the core package; the two codes this module raises
  are named, any other code a resolver raises is carried by its value.
\<close>

datatype resolution_code = RES_MISSING | RES_DENIED | RES_CODE string

text \<open>
  The first seven constructors are \<open>CloudflareApiError\<close> and its subclasses.
  \<open>PublicIngressContractError\<close> and \<open>SecretResolutionError\<close> come from the core package,
  \<open>OtherException\<close> is any other subclass of \<open>Exception\<close>; \<open>CancelledError\<close> (of
  \<open>asyncio\<close>) and \<open>OtherBaseException\<close> (an interrupt) lie outside it.
\<close>

datatype cf_exn =
    CloudflareApiError string
  | CloudflareApiNotFound string
  | CloudflareApiTransportError string
  | CloudflareMalformedResponse string
  | CloudflareProviderOperationError string failure_evidence
  | InvalidIngressResult string
  | RemovalIncomplete "string list"
  | PublicIngressContractError string
  | SecretResolutionError resolution_code string
  | InvocationPortError string
  | OtherException string
  | CancelledError
  | OtherBaseException string

fun is_exception :: "cf_exn \<Rightarrow> bool" where
  "is_exception CancelledError = False"
| "is_exception (OtherBaseException m) = False"
| "is_exception _ = True"

fun is_cloudflare_error :: "cf_exn \<Rightarrow> bool" where
  "is_cloudflare_error (CloudflareApiError m) = True"
| "is_cloudflare_error (CloudflareApiNotFound m) = True"
| "is_cloudflare_error (CloudflareApiTransportError m) = True"
| "is_cloudflare_error (CloudflareMalformedResponse m) = True"
| "is_cloudflare_error (CloudflareProviderOperationError m ev) = True"
| "is_cloudflare_error (InvalidIngressResult m) = True"
| "is_cloudflare_error (RemovalIncomplete st) = True"
| "is_cloudflare_error _ = False"

fun is_transport_error :: "cf_exn \<Rightarrow> bool" where
  "is_transport_error (CloudflareApiTransportError m) = True"
| "is_transport_error _ = False"

fun is_not_found :: "cf_exn \<Rightarrow> bool" where
  "is_not_found (CloudflareApiNotFound m) = True"
| "is_not_found _ = False"

fun exn_message :: "cf_exn \<Rightarrow> string" where
  "exn_message (CloudflareApiError m) = m"
| "exn_message (CloudflareApiNotFound m) = m"
| "exn_message (CloudflareApiTransportError m) = m"
| "exn_message (CloudflareMalformedResponse m) = m"
| "exn_message (CloudflareProviderOperationError m ev) = m"
| "exn_message (InvalidIngressResult r) = ''Cloudflare custody returned invalid material''"
| "exn_message (RemovalIncomplete st) = ''Cloudflare exact provider cleanup is uncertain''"
| "exn_message (PublicIngressContractError m) = m"
| "exn_message (SecretResolutionError c m) = m"
| "exn_message (InvocationPortError m) = m"
| "exn_message (OtherException m) = m"
| "exn_message CancelledError = []"
| "exn_message (OtherBaseException m) = m"

section \<open>Text validators\<close>

definition identifier_char :: "char \<Rightarrow> bool" where
  "identifier_char c \<longleftrightarrow>
     is_lower_alpha c \<or> is_upper_alpha c \<or> is_digit c \<or> c \<in> set ''._:-''"

definition identifier_ok :: "string \<Rightarrow> bool" where
  "identifier_ok s \<longleftrightarrow> 1 \<le> length s \<and> length s \<le> 128 \<and> list_all identifier_char s"

definition host_edge :: "char \<Rightarrow> bool" where
  "host_edge c \<longleftrightarrow> is_lower_alpha c \<or> is_digit c"

definition host_char :: "char \<Rightarrow> bool" where
  "host_char c \<longleftrightarrow> host_edge c \<or> c = CHR ''-''"

definition host_label_ok :: "string \<Rightarrow> bool" where
  "host_label_ok s \<longleftrightarrow>
     s \<noteq> [] \<and> length s \<le> 63 \<and> host_edge (hd s) \<and> host_edge (last s) \<and> list_all host_char s"

definition pattern_edge :: "char \<Rightarrow> bool" where
  "pattern_edge c \<longleftrightarrow> host_edge c \<or> c = CHR ''*''"

definition pattern_label_ok :: "string \<Rightarrow> bool" where
  "pattern_label_ok s \<longleftrightarrow>
     s \<noteq> [] \<and> length s \<le> 63 \<and> pattern_edge (hd s) \<and> pattern_edge (last s)
     \<and> list_all (\<lambda>c. pattern_edge c \<or> c = CHR ''-'') s"

definition reject_secret_text :: "string \<Rightarrow> string \<Rightarrow> cf_exn + unit" where
  "reject_secret_text value label =
     (let lowered = py_lower value
      in requireR (\<not> list_ex (\<lambda>marker. py_contains marker lowered)
             [''token'', ''secret'', ''password'', ''key''])
           (CloudflareApiError (label @ '' must not contain secret material'')))"

definition validate_identifier :: "string \<Rightarrow> string \<Rightarrow> cf_exn + unit" where
  "validate_identifier value label =
     bindR (requireR (identifier_ok value) (CloudflareApiError (label @ '' is invalid'')))
       (\<lambda>_. reject_secret_text value label)"

definition validate_hostname :: "string \<Rightarrow> cf_exn + unit" where
  "validate_hostname value =
     (let labels = py_split CHR ''.'' (py_lower value)
      in bindR (requireR (2 \<le> length labels \<and> list_all host_label_ok labels)
                  (CloudflareApiError ''hostname is invalid''))
           (\<lambda>_. reject_secret_text value ''hostname''))"

definition validate_zone_name :: "string \<Rightarrow> cf_exn + unit" where
  "validate_zone_name value = validate_hostname value"

definition validate_hostname_pattern :: "string \<Rightarrow> string \<Rightarrow> cf_exn + unit" where
  "validate_hostname_pattern value zone_name =
     bindR (requireR (py_endswith value (CHR ''.'' # zone_name))
              (CloudflareApiError ''allowed hostname pattern must belong to zone''))
     (\<lambda>_. let labels = py_split CHR ''.'' (py_lower value)
      in bindR (requireR (length (filter (\<lambda>l. l = ''*'') labels) \<le> 1)
                  (CloudflareApiError ''allowed hostname pattern may contain one wildcard''))
     (\<lambda>_. bindR (requireR (list_all pattern_label_ok labels)
                  (CloudflareApiError ''allowed hostname pattern is invalid''))
     (\<lambda>_. reject_secret_text value ''allowed hostname pattern'')))"

definition validate_origin_service :: "string \<Rightarrow> cf_exn + unit" where
  "validate_origin_service value =
     bindR (requireR (py_startswith value ''http://'')
              (CloudflareApiError ''origin service must be internal http URL''))
     (\<lambda>_. bindR (requireR (py_contains ''://'' value
                         \<and> \<not> py_startswith value ''http://127.0.0.1'')
              (CloudflareApiError ''origin service must target runtime-local service''))
     (\<lambda>_. reject_secret_text value ''origin service''))"

definition tunnel_target :: "string \<Rightarrow> cf_exn + string" where
  "tunnel_target tunnel_id =
     bindR (validate_identifier tunnel_id ''tunnel_id'')
       (\<lambda>_. Inr (tunnel_id @ ''.cfargotunnel.com''))"

definition mapping_text :: "json \<Rightarrow> string \<Rightarrow> cf_exn + string" where
  "mapping_text mapping key =
     (case json_get mapping key of
        JStr value \<Rightarrow>
          if py_strip value = [] then Inl (CloudflareApiError (''Cloudflare API result missing '' @ key))
          else Inr value
      | _ \<Rightarrow> Inl (CloudflareApiError (''Cloudflare API result missing '' @ key)))"

definition result_text :: "json \<Rightarrow> string \<Rightarrow> cf_exn + string" where
  "result_text body key =
     (let result = json_get body ''result''
      in bindR (requireR (is_mapping result)
                  (CloudflareApiError ''Cloudflare API result is malformed''))
           (\<lambda>_. mapping_text result key))"

text \<open>
  The hostname policy: the pattern's \<open>*\<close> stands for \<open>[a-z0-9-]+\<close>, every other
  character for itself.
\<close>

fun glob_match :: "string \<Rightarrow> string \<Rightarrow> bool" where
  "glob_match [] s = (s = [])"
| "glob_match (p # ps) [] = False"
| "glob_match (p # ps) (c # cs) =
     (if p = CHR ''*''
      then host_char c \<and> (glob_match ps cs \<or> glob_match (p # ps) cs)
      else p = c \<and> glob_match ps cs)"

section \<open>Dataclasses\<close>

record secret_reference =
  reference_id :: string

record zone_authority =
  account_id :: string
  zone_id :: string
  zone_name :: string
  api_token_ref :: secret_reference
  allowed_hostname_pattern :: string

definition make_zone_authority ::
  "string \<Rightarrow> string \<Rightarrow> string \<Rightarrow> secret_reference \<Rightarrow> string \<Rightarrow> cf_exn + zone_authority" where
  "make_zone_authority account zone name token_ref pattern =
     bindR (validate_identifier account ''account_id'') (\<lambda>_.
     bindR (validate_identifier zone ''zone_id'') (\<lambda>_.
     bindR (validate_zone_name name) (\<lambda>_.
     bindR (validate_hostname_pattern pattern name) (\<lambda>_.
     Inr \<lparr>account_id = account, zone_id = zone, zone_name = name,
          api_token_ref = token_ref, allowed_hostname_pattern = pattern\<rparr>))))"

definition allows_hostname :: "zone_authority \<Rightarrow> string \<Rightarrow> bool" where
  "allows_hostname a hostname =
     (case validate_hostname hostname of
        Inl _ \<Rightarrow> False
      | Inr _ \<Rightarrow> glob_match (py_lower (allowed_hostname_pattern a)) (py_lower hostname))"

definition make_failure_evidence ::
  "failure_stage \<Rightarrow> failure_category \<Rightarrow> mutation_certainty \<Rightarrow> string option \<Rightarrow> string option
    \<Rightarrow> cleanup_result \<Rightarrow> cf_exn + failure_evidence" where
  "make_failure_evidence stage category certainty tunnel dns cleanup =
     bindR (case tunnel of None \<Rightarrow> Inr () | Some t \<Rightarrow> validate_identifier t ''tunnel_id'') (\<lambda>_.
     bindR (case dns of None \<Rightarrow> Inr () | Some d \<Rightarrow> validate_identifier d ''dns_record_id'') (\<lambda>_.
     Inr \<lparr>ev_stage = stage, ev_category = category, ev_mutation_certainty = certainty,
          ev_tunnel_id = tunnel, ev_dns_record_id = dns, ev_cleanup_result = cleanup\<rparr>))"

record hostname_observation =
  ob_state :: hostname_state
  ob_dns_record_id :: "string option"

record 'rc ingress_allocation =
  al_tunnel_id :: string
  al_tunnel_name :: string
  al_secret_custody_receipt :: 'rc
  al_dns_record_id :: string
  al_hostname :: string
  al_endpoint_url :: string

text \<open>The receipt's \<open>isinstance\<close> test is the argument \<open>is_receipt\<close>.\<close>

definition make_ingress_allocation ::
  "('rc \<Rightarrow> bool) \<Rightarrow> string \<Rightarrow> string \<Rightarrow> 'rc \<Rightarrow> string \<Rightarrow> string \<Rightarrow> string
    \<Rightarrow> cf_exn + 'rc ingress_allocation" where
  "make_ingress_allocation is_receipt tunnel name receipt dns hostname url =
     bindR (validate_identifier tunnel ''tunnel_id'') (\<lambda>_.
     bindR (validate_identifier dns ''dns_record_id'') (\<lambda>_.
     bindR (validate_identifier name ''tunnel_name'') (\<lambda>_.
     bindR (validate_hostname hostname) (\<lambda>_.
     bindR (requireR (py_startswith url ''https://'')
              (CloudflareApiError ''endpoint_url must be https'')) (\<lambda>_.
     bindR (requireR (is_receipt receipt)
              (CloudflareApiError ''allocation requires secret custody receipt'')) (\<lambda>_.
     Inr \<lparr>al_tunnel_id = tunnel, al_tunnel_name = name, al_secret_custody_receipt = receipt,
          al_dns_record_id = dns, al_hostname = hostname, al_endpoint_url = url\<rparr>))))))"

record owned_resources =
  or_tunnel_id :: string
  or_dns_record_id :: string
  or_tunnel_name :: string
  or_hostname :: string

definition make_owned_resources ::
  "string \<Rightarrow> string \<Rightarrow> string \<Rightarrow> string \<Rightarrow> cf_exn + owned_resources" where
  "make_owned_resources tunnel dns name hostname =
     bindR (validate_identifier tunnel ''tunnel_id'') (\<lambda>_.
     bindR (validate_identifier dns ''dns_record_id'') (\<lambda>_.
     bindR (validate_identifier name ''tunnel_name'') (\<lambda>_.
     bindR (validate_hostname hostname) (\<lambda>_.
     Inr \<lparr>or_tunnel_id = tunnel, or_dns_record_id = dns, or_tunnel_name = name,
          or_hostname = hostname\<rparr>))))"

record hostname_reservation =
  rv_dns_record_id :: string
  rv_hostname :: string
  rv_expected_tunnel_id :: string

definition make_hostname_reservation ::
  "string \<Rightarrow> string \<Rightarrow> string \<Rightarrow> cf_exn + hostname_reservation" where
  "make_hostname_reservation dns hostname tunnel =
     bindR (validate_identifier dns ''dns_record_id'') (\<lambda>_.
     bindR (validate_hostname hostname) (\<lambda>_.
     bindR (validate_identifier tunnel ''expected_tunnel_id'') (\<lambda>_.
     Inr \<lparr>rv_dns_record_id = dns, rv_hostname = hostname, rv_expected_tunnel_id = tunnel\<rparr>)))"

record reservation_observation =
  ro_dns_record_id :: string
  ro_hostname :: string
  ro_presence :: resource_presence
  ro_tunnel_id :: "string option"

definition make_reservation_observation ::
  "string \<Rightarrow> string \<Rightarrow> resource_presence \<Rightarrow> string option \<Rightarrow> cf_exn + reservation_observation" where
  "make_reservation_observation dns hostname presence tunnel =
     bindR (validate_identifier dns ''dns_record_id'') (\<lambda>_.
     bindR (validate_hostname hostname) (\<lambda>_.
     bindR (case presence of
         PRESENT \<Rightarrow>
           (case tunnel of
              None \<Rightarrow> Inl (CloudflareApiError ''present reservation observation requires tunnel_id'')
            | Some t \<Rightarrow> validate_identifier t ''tunnel_id'')
       | RES_ABSENT \<Rightarrow>
           requireR (tunnel = None)
             (CloudflareApiError ''absent reservation observation cannot include tunnel_id'')) (\<lambda>_.
     Inr \<lparr>ro_dns_record_id = dns, ro_hostname = hostname, ro_presence = presence,
          ro_tunnel_id = tunnel\<rparr>)))"

record tunnel_observation =
  to_tunnel_id :: string
  to_presence :: resource_presence

definition make_tunnel_observation ::
  "string \<Rightarrow> resource_presence \<Rightarrow> cf_exn + tunnel_observation" where
  "make_tunnel_observation tunnel presence =
     bindR (validate_identifier tunnel ''tunnel_id'') (\<lambda>_.
     Inr \<lparr>to_tunnel_id = tunnel, to_presence = presence\<rparr>)"

record retained_deactivation =
  rd_reservation :: reservation_observation
  rd_tunnel :: tunnel_observation

definition make_retained_deactivation ::
  "reservation_observation \<Rightarrow> tunnel_observation \<Rightarrow> cf_exn + retained_deactivation" where
  "make_retained_deactivation reservation tunnel =
     bindR (requireR (ro_presence reservation = PRESENT)
              (CloudflareApiError ''retained deactivation requires a present reservation'')) (\<lambda>_.
     bindR (requireR (to_presence tunnel = RES_ABSENT)
              (CloudflareApiError ''retained deactivation requires tunnel absence'')) (\<lambda>_.
     Inr \<lparr>rd_reservation = reservation, rd_tunnel = tunnel\<rparr>))"

definition provider_failure_category :: "cf_exn \<Rightarrow> failure_category" where
  "provider_failure_category e =
     (case e of
        CloudflareMalformedResponse _ \<Rightarrow> MALFORMED_RESPONSE
      | PublicIngressContractError _ \<Rightarrow> MALFORMED_RESPONSE
      | CloudflareApiTransportError _ \<Rightarrow> TRANSPORT
      | _ \<Rightarrow> PROVIDER_STATUS)"

definition is_provider_operation_failure :: "cf_exn \<Rightarrow> bool" where
  "is_provider_operation_failure e =
     (is_cloudflare_error e \<or> (case e of PublicIngressContractError _ \<Rightarrow> True | _ \<Rightarrow> False))"

text \<open>
  \<open>provider_operation_error\<close> is the exception the Python raises with it: building the
  evidence validates the identifiers, and a rejected identifier raises its own error.
\<close>

definition provider_operation_error ::
  "string \<Rightarrow> failure_stage \<Rightarrow> failure_category \<Rightarrow> mutation_certainty
    \<Rightarrow> string option \<Rightarrow> string option \<Rightarrow> cleanup_result \<Rightarrow> cf_exn" where
  "provider_operation_error message stage category certainty tunnel dns cleanup =
     (case make_failure_evidence stage category certainty tunnel dns cleanup of
        Inl e \<Rightarrow> e
      | Inr evidence \<Rightarrow> CloudflareProviderOperationError message evidence)"

definition hostname_observation_error ::
  "hostname_observation \<Rightarrow> failure_stage \<Rightarrow> string option \<Rightarrow> mutation_certainty
    \<Rightarrow> cleanup_result \<Rightarrow> cf_exn" where
  "hostname_observation_error ob stage tunnel certainty cleanup =
     (let (category, message) =
        (case ob_state ob of
           OCCUPIED \<Rightarrow> (HOSTNAME_OCCUPIED, ''Cloudflare DNS hostname is already allocated'')
         | MALFORMED \<Rightarrow> (MALFORMED_RESPONSE, ''Cloudflare DNS observation is malformed'')
         | _ \<Rightarrow> (DNS_CONFLICT, ''Cloudflare DNS hostname observation is conflicting''))
      in provider_operation_error message stage category certainty tunnel
           (ob_dns_record_id ob) cleanup)"

end
