(* ===== verification/Cloudflare_Policy.thy ===== *)
theory Cloudflare_Policy
  imports Cloudflare_Types
begin

text \<open>
  What the text validators and the hostname policy of \<open>cloudflare/client.py\<close> guarantee:
  the grammar of accepted names, the absence of secret markers, and the confinement of
  admitted hostnames to the authority's zone.
\<close>

section \<open>Grammar\<close>

definition secret_free :: "string \<Rightarrow> bool" where
  "secret_free s \<longleftrightarrow>
     (\<forall>marker \<in> {''token'', ''secret'', ''password'', ''key''}. \<not> sublist marker (py_lower s))"

lemma reject_secret_text_iff: "reject_secret_text s label = Inr u \<longleftrightarrow> secret_free s"
  by (simp add: reject_secret_text_def secret_free_def py_contains_iff Let_def)

lemma validate_identifier_iff:
  "validate_identifier s label = Inr u \<longleftrightarrow> identifier_ok s \<and> secret_free s"
  by (simp add: validate_identifier_def bindR_Inr_iff reject_secret_text_iff)

lemma validate_identifier_Inl:
  "validate_identifier s label = Inl e \<Longrightarrow> \<exists>m. e = CloudflareApiError m"
  by (auto simp: validate_identifier_def bindR_Inl_iff reject_secret_text_def Let_def)

lemma validate_hostname_iff:
  "validate_hostname h = Inr u \<longleftrightarrow>
     2 \<le> length (py_split CHR ''.'' (py_lower h))
     \<and> list_all host_label_ok (py_split CHR ''.'' (py_lower h)) \<and> secret_free h"
  by (auto simp: validate_hostname_def Let_def bindR_Inr_iff reject_secret_text_iff)

lemma host_label_chars: "host_label_ok l \<Longrightarrow> c \<in> set l \<Longrightarrow> host_char c"
  by (auto simp: host_label_ok_def list_all_iff)

lemma host_char_simps [simp]: "\<not> host_char CHR ''*''" "\<not> host_char CHR ''.''"
  by (simp_all add: host_char_def host_edge_def is_lower_alpha_def is_digit_def in_range_def
      code_of_def)

lemma py_split_chars: "c \<in> set s \<Longrightarrow> c = d \<or> (\<exists>l \<in> set (py_split d s). c \<in> set l)"
  by (induction s) (auto split: list.splits)

lemma hostname_chars:
  assumes "validate_hostname h = Inr u" and "c \<in> set (py_lower h)"
  shows "c = CHR ''.'' \<or> host_char c"
  using py_split_chars[OF assms(2), of "CHR ''.''"] assms(1)
  by (auto simp: validate_hostname_iff list_all_iff dest: host_label_chars)

section \<open>The wildcard match\<close>

lemma glob_match_append:
  "glob_match (p @ q) s \<longleftrightarrow> (\<exists>a b. s = a @ b \<and> glob_match p a \<and> glob_match q b)"
proof (induction p s rule: glob_match.induct)
  case (3 p ps c cs)
  show ?case (is "?L \<longleftrightarrow> ?R")
  proof
    assume ?L
    then show ?R
    proof (cases "p = CHR ''*''")
      case True
      with \<open>?L\<close> have c: "host_char c"
        and "glob_match (ps @ q) cs \<or> glob_match ((p # ps) @ q) cs" by auto
      with 3 True obtain a b where "cs = a @ b" "glob_match q b"
        and "glob_match ps a \<or> glob_match (p # ps) a" by blast
      with c True show ?R by (intro exI[of _ "c # a"] exI[of _ b]) auto
    next
      case False
      with \<open>?L\<close> 3 obtain a b where "cs = a @ b" "glob_match ps a" "glob_match q b" "p = c"
        by auto
      with False show ?R by (intro exI[of _ "c # a"] exI[of _ b]) auto
    qed
  next
    assume ?R
    then obtain a b where ab: "c # cs = a @ b" "glob_match (p # ps) a" "glob_match q b" by blast
    then obtain a' where a: "a = c # a'" "cs = a' @ b"
      by (cases a) auto
    show ?L
    proof (cases "p = CHR ''*''")
      case True
      with ab a have "host_char c" "glob_match ps a' \<or> glob_match (p # ps) a'" by auto
      with 3 True ab a show ?L by auto
    next
      case False
      with ab a have "p = c" "glob_match ps a'" by auto
      with 3 False ab a show ?L by auto
    qed
  qed
qed auto

lemma glob_match_literal: "CHR ''*'' \<notin> set p \<Longrightarrow> glob_match p s \<longleftrightarrow> s = p"
  by (induction p s rule: glob_match.induct) auto

lemma glob_match_count_dots:
  "glob_match p s \<Longrightarrow> count_list s CHR ''.'' = count_list p CHR ''.''"
  by (induction p s rule: glob_match.induct) (auto split: if_splits)

lemma length_py_split: "length (py_split d s) = Suc (count_list s d)"
  by (induction s) (auto split: list.splits)

section \<open>Admitted hostnames\<close>

lemma zone_authority_pattern:
  assumes "make_zone_authority acc zid name ref pattern = Inr a"
  shows "validate_hostname name = Inr ()" "suffix (CHR ''.'' # name) pattern"
    "allowed_hostname_pattern a = pattern" "zone_name a = name"
  using assms
  by (auto simp: make_zone_authority_def bindR_Inr_iff validate_zone_name_def
      validate_hostname_pattern_def py_endswith_iff)

text \<open>
  C17 (safety).  The hostname policy confines an authority to its zone: a hostname it admits
  is a valid hostname, ends in a dot and the zone name, has as many labels as the pattern
  (a wildcard never crosses a dot), and carries no secret marker.
\<close>

theorem allowed_hostname_in_zone:
  assumes a: "make_zone_authority acc zid name ref pattern = Inr a"
    and h: "allows_hostname a h"
  shows "suffix (CHR ''.'' # py_lower name) (py_lower h)
    \<and> length (py_split CHR ''.'' (py_lower h)) = length (py_split CHR ''.'' (py_lower pattern))
    \<and> secret_free h"
proof -
  note za = zone_authority_pattern[OF a]
  obtain pre where pattern: "pattern = pre @ CHR ''.'' # name"
    using za(2) by (auto simp: suffix_def)
  from h za have valid: "validate_hostname h = Inr ()"
    and m: "glob_match (py_lower pattern) (py_lower h)"
    by (auto simp: allows_hostname_def split: sum.splits)
  have dot: "py_lower_char CHR ''.'' = CHR ''.''"
    by (simp add: py_lower_char_def is_upper_alpha_def in_range_def code_of_def)
  have "CHR ''*'' \<notin> set (CHR ''.'' # py_lower name)"
    using hostname_chars[OF za(1)] by fastforce
  then have "\<exists>x. py_lower h = x @ CHR ''.'' # py_lower name"
    using m unfolding pattern by (auto simp: dot glob_match_append glob_match_literal)
  moreover have "secret_free h"
    using valid by (simp add: validate_hostname_iff)
  ultimately show ?thesis
    using m by (auto simp: suffix_def length_py_split glob_match_count_dots)
qed

theorem allowed_hostname_in_zone_witness:
  "\<exists>a. make_zone_authority ''acc'' ''zid'' ''example.com'' \<lparr>reference_id = ''r''\<rparr>
         ''*.example.com'' = Inr a
     \<and> allows_hostname a ''App-1.example.com''
     \<and> suffix (CHR ''.'' # py_lower ''example.com'') (py_lower ''App-1.example.com'')"
proof -
  let ?a = "\<lparr>account_id = ''acc'', zone_id = ''zid'', zone_name = ''example.com'',
    api_token_ref = \<lparr>reference_id = ''r''\<rparr>, allowed_hostname_pattern = ''*.example.com''\<rparr>"
  have a: "make_zone_authority ''acc'' ''zid'' ''example.com'' \<lparr>reference_id = ''r''\<rparr>
      ''*.example.com'' = Inr ?a"
    by code_simp
  have h: "allows_hostname ?a ''App-1.example.com''"
    by code_simp
  from allowed_hostname_in_zone[OF a h] a h show ?thesis by blast
qed

text \<open>
  C18 (bounds).  The identifiers and the hostname that failure evidence, allocations and owned
  resources carry are well formed and free of secret markers: evidence can only be built
  from identifiers of at most 128 characters without one.
\<close>

theorem evidence_identifiers_secret_free:
  "make_failure_evidence stage category certainty tunnel dns cleanup = Inr evidence
    \<longleftrightarrow> (\<forall>t \<in> set_option tunnel. identifier_ok t \<and> secret_free t)
        \<and> (\<forall>d \<in> set_option dns. identifier_ok d \<and> secret_free d)
        \<and> evidence = \<lparr>ev_stage = stage, ev_category = category,
            ev_mutation_certainty = certainty, ev_tunnel_id = tunnel,
            ev_dns_record_id = dns, ev_cleanup_result = cleanup\<rparr>"
  by (auto simp: make_failure_evidence_def bindR_Inr_iff validate_identifier_iff
      split: option.splits)

theorem evidence_identifiers_secret_free_witness:
  "make_failure_evidence TUNNEL_TOKEN TRANSPORT DNS_AND_TUNNEL_CREATED (Some ''t-1'') (Some ''d-1'')
     COMPLETE \<noteq> Inl (CloudflareApiError ''x'')
   \<and> (\<forall>e. make_failure_evidence TUNNEL_TOKEN TRANSPORT DNS_AND_TUNNEL_CREATED (Some ''my-token'')
         None COMPLETE \<noteq> Inr e)"
proof
  show "make_failure_evidence TUNNEL_TOKEN TRANSPORT DNS_AND_TUNNEL_CREATED (Some ''t-1'')
     (Some ''d-1'') COMPLETE \<noteq> Inl (CloudflareApiError ''x'')"
    by code_simp
  have "\<not> secret_free ''my-token''"
    unfolding secret_free_def py_contains_iff[symmetric] by code_simp
  then show "\<forall>e. make_failure_evidence TUNNEL_TOKEN TRANSPORT DNS_AND_TUNNEL_CREATED
      (Some ''my-token'') None COMPLETE \<noteq> Inr e"
    by (simp add: evidence_identifiers_secret_free)
qed

end
