(* ===== verification/Cloudflare_Api.thy ===== *)
theory Cloudflare_Api
  imports Cloudflare_Types
begin

text \<open>
  \<open>CloudflareApiClient\<close> of \<open>cloudflare/client.py\<close>: one HTTP exchange per operation, over
  a transport that is a parameter of the client.  The locales state what the
  interpreter relies on: an operation makes at most one request, of a fixed shape, and
  returns normally only when the provider accepted it.
\<close>

section \<open>Exchanges and events\<close>

record http_request =
  rq_method :: string
  rq_url :: string
  rq_headers :: "(string \<times> string) list"
  rq_json :: "json option"
  rq_params :: "(string \<times> string) list option"

record http_response =
  rs_status_code :: int
  rs_body :: json

text \<open>
  The events of the ingress interpreter: HTTP exchanges, calls of the secret custodian and
  of the token resolver, and calls of the invocation port.
\<close>

datatype cf_event =
    Http http_request "cf_exn + http_response"
  | CustodyStore "cf_exn + unit"
  | CustodyRevoke "cf_exn + unit"
  | TokenResolve "cf_exn + unit"
  | Admit string "cf_exn + unit"
  | RecordOutcome string "cf_exn + unit"
  | RecordResult string json "cf_exn + unit"

definition outcome_of :: "cf_exn + 'a \<Rightarrow> cf_exn + unit" where
  "outcome_of r = map_sum id (\<lambda>_. ()) r"

type_synonym ('w, 'a) cf_eff = "((cf_event, 'w) st, cf_exn, 'a) eff"

text \<open>
  \<open>cl_control_errors\<close> is the tuple of control-exception classes, each as the predicate of
  its instances; \<open>cl_secret_value\<close> is the core constructor \<open>SecretValue\<close>, giving the text
  \<open>reveal\<close> returns.
\<close>

record 'w api_client =
  cl_authority :: zone_authority
  cl_api_token :: string
  cl_transport :: "http_request \<Rightarrow> ('w, cf_exn, http_response) port"
  cl_control_errors :: "(cf_exn \<Rightarrow> bool) list"
  cl_secret_value :: "string \<Rightarrow> cf_exn + string"

definition caught_by :: "(cf_exn \<Rightarrow> bool) list \<Rightarrow> cf_exn \<Rightarrow> bool" where
  "caught_by controls e = list_ex (\<lambda>p. p e) controls"

definition base_url :: string where
  "base_url = ''https://api.cloudflare.com/client/v4''"

definition api_request ::
  "'w api_client \<Rightarrow> string \<Rightarrow> string \<Rightarrow> json option \<Rightarrow> (string \<times> string) list option
    \<Rightarrow> http_request" where
  "api_request cl method path json params =
     \<lparr>rq_method = method, rq_url = base_url @ path,
      rq_headers = [(''Authorization'', ''Bearer '' @ cl_api_token cl),
                    (''Content-Type'', ''application/json'')],
      rq_json = json, rq_params = params\<rparr>"

definition check_response :: "http_response \<Rightarrow> cf_exn + json" where
  "check_response response =
     (let status = rs_status_code response; body = rs_body response
      in if status = 404 then Inl (CloudflareApiNotFound ''Cloudflare API resource was not found'')
         else if status < 200 \<or> 300 \<le> status
           then Inl (CloudflareApiError (''Cloudflare API request failed with status '' @ show_int status))
         else if \<not> is_mapping body then Inl (OtherException ''AttributeError'')
         else if json_get body ''success'' = JBool False
           then Inl (CloudflareApiError ''Cloudflare API request failed'')
         else Inr body)"

definition request ::
  "'w api_client \<Rightarrow> string \<Rightarrow> string \<Rightarrow> json option \<Rightarrow> (string \<times> string) list option
    \<Rightarrow> ('w, json) cf_eff" where
  "request cl method path json params =
     (let rq = api_request cl method path json params
      in attemptE (callE (Http rq) (cl_transport cl rq))
           (\<lambda>e. if caught_by (cl_control_errors cl) e then raiseE e
                 else if is_exception e
                   then raiseE (CloudflareApiTransportError ''Cloudflare API transport failed'')
                 else raiseE e)
           (\<lambda>response. liftE (check_response response)))"

section \<open>Operations\<close>

definition account_path :: "'w api_client \<Rightarrow> string" where
  "account_path cl = ''/accounts/'' @ account_id (cl_authority cl) @ ''/cfd_tunnel''"

definition tunnel_path :: "'w api_client \<Rightarrow> string \<Rightarrow> string" where
  "tunnel_path cl tunnel = account_path cl @ ''/'' @ tunnel"

definition records_path :: "'w api_client \<Rightarrow> string" where
  "records_path cl = ''/zones/'' @ zone_id (cl_authority cl) @ ''/dns_records''"

definition record_path :: "'w api_client \<Rightarrow> string \<Rightarrow> string" where
  "record_path cl rid = records_path cl @ ''/'' @ rid"

text \<open>
  \<open>except self._control_errors: raise / except CloudflareApiError: raise Malformed\<close> around
  the reading of a response field.
\<close>

definition or_malformed :: "'w api_client \<Rightarrow> string \<Rightarrow> cf_exn + 'a \<Rightarrow> cf_exn + 'a" where
  "or_malformed cl message r =
     (case r of
        Inr a \<Rightarrow> Inr a
      | Inl e \<Rightarrow>
          if caught_by (cl_control_errors cl) e then Inl e
          else if is_cloudflare_error e then Inl (CloudflareMalformedResponse message)
          else Inl e)"

definition create_tunnel :: "'w api_client \<Rightarrow> string \<Rightarrow> ('w, string) cf_eff" where
  "create_tunnel cl name =
     bindE (liftE (validate_identifier name ''tunnel name'')) (\<lambda>_.
     bindE (request cl ''POST'' (account_path cl)
              (Some (JObj [(''name'', JStr name), (''config_src'', JStr ''cloudflare'')])) None)
       (\<lambda>result.
     liftE (or_malformed cl ''Cloudflare tunnel allocation response malformed''
              (result_text result ''id''))))"

definition tunnel_configuration :: "string \<Rightarrow> string \<Rightarrow> json" where
  "tunnel_configuration hostname origin_service_url =
     JObj [(''config'', JObj [(''ingress'', JList [
        JObj [(''hostname'', JStr hostname), (''service'', JStr origin_service_url),
              (''originRequest'', JObj [])],
        JObj [(''service'', JStr ''http_status:404'')]])])]"

definition configure_tunnel ::
  "'w api_client \<Rightarrow> string \<Rightarrow> string \<Rightarrow> string \<Rightarrow> ('w, unit) cf_eff" where
  "configure_tunnel cl tunnel hostname origin_service_url =
     bindE (liftE (validate_identifier tunnel ''tunnel_id'')) (\<lambda>_.
     bindE (liftE (validate_hostname hostname)) (\<lambda>_.
     bindE (liftE (validate_origin_service origin_service_url)) (\<lambda>_.
     bindE (request cl ''PUT'' (tunnel_path cl tunnel @ ''/configurations'')
              (Some (tunnel_configuration hostname origin_service_url)) None) (\<lambda>_.
     returnE ()))))"

definition list_dns_records_for_hostname ::
  "'w api_client \<Rightarrow> string \<Rightarrow> ('w, json list) cf_eff" where
  "list_dns_records_for_hostname cl hostname =
     bindE (liftE (validate_hostname hostname)) (\<lambda>_.
     bindE (request cl ''GET'' (records_path cl) None (Some [(''name'', hostname)])) (\<lambda>body.
     case json_get body ''result'' of
       JList records \<Rightarrow> returnE records
     | _ \<Rightarrow> raiseE (CloudflareMalformedResponse ''Cloudflare DNS lookup response malformed'')))"

definition read_dns_reconciliation_page :: "'w api_client \<Rightarrow> string \<Rightarrow> ('w, json) cf_eff" where
  "read_dns_reconciliation_page cl hostname =
     bindE (liftE (validate_hostname hostname)) (\<lambda>_.
     request cl ''GET'' (records_path cl) None
       (Some [(''name'', hostname), (''page'', ''1''), (''per_page'', ''2'')]))"

definition dns_record_body :: "string \<Rightarrow> string \<Rightarrow> json" where
  "dns_record_body hostname content =
     JObj [(''type'', JStr ''CNAME''), (''proxied'', JBool True), (''name'', JStr hostname),
           (''content'', JStr content)]"

definition create_dns_cname_unchecked ::
  "'w api_client \<Rightarrow> string \<Rightarrow> string \<Rightarrow> ('w, string) cf_eff" where
  "create_dns_cname_unchecked cl hostname tunnel =
     bindE (liftE (validate_hostname hostname)) (\<lambda>_.
     bindE (liftE (validate_identifier tunnel ''tunnel_id'')) (\<lambda>_.
     bindE (liftE (tunnel_target tunnel)) (\<lambda>target.
     bindE (request cl ''POST'' (records_path cl) (Some (dns_record_body hostname target)) None)
       (\<lambda>created.
     liftE (or_malformed cl ''Cloudflare DNS create response malformed''
              (result_text created ''id''))))))"

definition create_dns_cname :: "'w api_client \<Rightarrow> string \<Rightarrow> string \<Rightarrow> ('w, string) cf_eff" where
  "create_dns_cname cl hostname tunnel =
     bindE (liftE (validate_hostname hostname)) (\<lambda>_.
     bindE (liftE (validate_identifier tunnel ''tunnel_id'')) (\<lambda>_.
     bindE (list_dns_records_for_hostname cl hostname) (\<lambda>records.
     if records \<noteq> []
     then raiseE (CloudflareApiError ''Cloudflare DNS hostname is already allocated'')
     else create_dns_cname_unchecked cl hostname tunnel)))"

definition get_dns_record :: "'w api_client \<Rightarrow> string \<Rightarrow> ('w, json) cf_eff" where
  "get_dns_record cl rid =
     bindE (liftE (validate_identifier rid ''dns_record_id'')) (\<lambda>_.
     bindE (request cl ''GET'' (record_path cl rid) None None) (\<lambda>body.
     if is_mapping (json_get body ''result'') then returnE (json_get body ''result'')
     else raiseE (CloudflareApiError ''Cloudflare DNS record response malformed'')))"

definition update_dns_cname ::
  "'w api_client \<Rightarrow> string \<Rightarrow> string \<Rightarrow> string \<Rightarrow> ('w, unit) cf_eff" where
  "update_dns_cname cl rid hostname tunnel =
     bindE (liftE (validate_identifier rid ''dns_record_id'')) (\<lambda>_.
     bindE (liftE (validate_hostname hostname)) (\<lambda>_.
     bindE (liftE (validate_identifier tunnel ''tunnel_id'')) (\<lambda>_.
     bindE (liftE (tunnel_target tunnel)) (\<lambda>target.
     bindE (request cl ''PATCH'' (record_path cl rid) (Some (dns_record_body hostname target)) None)
       (\<lambda>_. returnE ())))))"

definition get_tunnel_token :: "'w api_client \<Rightarrow> string \<Rightarrow> ('w, string) cf_eff" where
  "get_tunnel_token cl tunnel =
     bindE (liftE (validate_identifier tunnel ''tunnel_id'')) (\<lambda>_.
     bindE (request cl ''GET'' (tunnel_path cl tunnel @ ''/token'') None None) (\<lambda>result.
     case json_get result ''result'' of
       JStr token \<Rightarrow>
         if py_strip token = []
         then raiseE (CloudflareMalformedResponse ''Cloudflare tunnel token response malformed'')
         else liftE (cl_secret_value cl token)
     | _ \<Rightarrow> raiseE (CloudflareMalformedResponse ''Cloudflare tunnel token response malformed'')))"

definition get_tunnel :: "'w api_client \<Rightarrow> string \<Rightarrow> ('w, json) cf_eff" where
  "get_tunnel cl tunnel =
     bindE (liftE (validate_identifier tunnel ''tunnel_id'')) (\<lambda>_.
     bindE (request cl ''GET'' (tunnel_path cl tunnel) None None) (\<lambda>body.
     if is_mapping (json_get body ''result'') then returnE (json_get body ''result'')
     else raiseE (CloudflareApiError ''Cloudflare tunnel response malformed'')))"

definition delete_dns_record :: "'w api_client \<Rightarrow> string \<Rightarrow> ('w, unit) cf_eff" where
  "delete_dns_record cl rid =
     bindE (liftE (validate_identifier rid ''dns_record_id'')) (\<lambda>_.
     bindE (request cl ''DELETE'' (record_path cl rid) None None) (\<lambda>_. returnE ()))"

definition delete_tunnel_connections :: "'w api_client \<Rightarrow> string \<Rightarrow> ('w, unit) cf_eff" where
  "delete_tunnel_connections cl tunnel =
     bindE (liftE (validate_identifier tunnel ''tunnel_id'')) (\<lambda>_.
     bindE (request cl ''DELETE'' (tunnel_path cl tunnel @ ''/connections'') None None)
       (\<lambda>_. returnE ()))"

definition delete_tunnel :: "'w api_client \<Rightarrow> string \<Rightarrow> ('w, unit) cf_eff" where
  "delete_tunnel cl tunnel =
     bindE (liftE (validate_identifier tunnel ''tunnel_id'')) (\<lambda>_.
     bindE (request cl ''DELETE'' (tunnel_path cl tunnel) None None) (\<lambda>_. returnE ()))"

section \<open>What one exchange does\<close>

definition accepted :: "cf_exn + http_response \<Rightarrow> bool" where
  "accepted hr = (case hr of Inl _ \<Rightarrow> False | Inr response \<Rightarrow> \<not> isl (check_response response))"

text \<open>An ambiguous exchange: the transport failed, so the provider may have acted.\<close>

definition ambiguous :: "cf_exn + http_response \<Rightarrow> bool" where
  "ambiguous hr = isl hr"

lemma request_emits:
  "emits (request cl method path json params)
     (\<lambda>evs r. \<exists>hr. evs = [Http (api_request cl method path json params) hr]
        \<and> (accepted hr \<longleftrightarrow> \<not> isl r)
        \<and> (\<forall>body. r = Inr body \<longrightarrow> (\<exists>resp. hr = Inr resp \<and> check_response resp = Inr body)))"
  unfolding request_def Let_def
  by (rule emits_attemptE[OF emits_callE_eq])
    (auto intro!: emit_intros simp: accepted_def)

section \<open>Interfaces of the operations\<close>

text \<open>
  What the interpreter relies on.  \<open>op k\<close> makes at most one request, \<open>req k\<close>; when it
  makes none, or the provider does not accept it, it raises.
\<close>

locale single_request =
  fixes op :: "'k \<Rightarrow> ('w, 'a) cf_eff"
    and req :: "'k \<Rightarrow> http_request"
  assumes shape: "emits (op k)
     (\<lambda>evs r. (evs = [] \<and> isl r) \<or> (\<exists>hr. evs = [Http (req k) hr] \<and> (\<not> accepted hr \<longrightarrow> isl r)))"
begin

lemma at_most_one: "emits (op k) (\<lambda>evs r. length evs \<le> 1)"
  by (rule emits_mono[OF shape]) auto

lemma only_this: "only_emits (\<lambda>ev. \<exists>hr. ev = Http (req k) hr) (op k)"
  by (rule only_emitsI[OF shape]) auto

lemma result_accepted:
  "emits (op k) (\<lambda>evs r. \<not> isl r \<longrightarrow> (\<exists>hr. evs = [Http (req k) hr] \<and> accepted hr))"
  by (rule emits_mono[OF shape]) auto

end

text \<open>A read never asks the provider to change anything.\<close>

locale read_request = single_request +
  assumes read_only: "rq_method (req k) = ''GET''"
begin

lemma only_reads: "only_emits (\<lambda>ev. \<exists>rq hr. ev = Http rq hr \<and> rq_method rq = ''GET'') (op k)"
  by (rule only_emits_mono[OF only_this]) (use read_only in auto)

end

text \<open>An acknowledged mutation returns normally exactly when the provider accepted it.\<close>

locale acknowledged_request = single_request +
  assumes acknowledged:
    "emits (op k) (\<lambda>evs r. \<forall>hr. evs = [Http (req k) hr] \<and> accepted hr \<longrightarrow> \<not> isl r)"
begin

lemma returns_iff_accepted:
  "emits (op k) (\<lambda>evs r. \<not> isl r \<longleftrightarrow> (\<exists>hr. evs = [Http (req k) hr] \<and> accepted hr))"
  by (rule emits_mono[OF emits_conj[OF shape acknowledged]]) auto

end

text \<open>The operations of the client provide these interfaces.\<close>

definition single_shape ::
  "http_request \<Rightarrow> cf_event list \<Rightarrow> cf_exn + 'a \<Rightarrow> bool" where
  "single_shape rq evs r \<longleftrightarrow>
     (evs = [] \<and> isl r) \<or> (\<exists>hr. evs = [Http rq hr] \<and> (\<not> accepted hr \<longrightarrow> isl r))"

definition acknowledged_shape ::
  "http_request \<Rightarrow> cf_event list \<Rightarrow> cf_exn + 'a \<Rightarrow> bool" where
  "acknowledged_shape rq evs r \<longleftrightarrow>
     (evs = [] \<and> isl r) \<or> (\<exists>hr. evs = [Http rq hr] \<and> (accepted hr \<longleftrightarrow> \<not> isl r))"

lemma single_validated:
  "(\<And>a. v = Inr a \<Longrightarrow> emits (k a) (single_shape rq))
    \<Longrightarrow> emits (bindE (liftE v) k) (single_shape rq)"
  by (rule emits_validated) (auto simp: single_shape_def)

lemma acknowledged_validated:
  "(\<And>a. v = Inr a \<Longrightarrow> emits (k a) (acknowledged_shape rq))
    \<Longrightarrow> emits (bindE (liftE v) k) (acknowledged_shape rq)"
  by (rule emits_validated) (auto simp: acknowledged_shape_def)

lemma single_exchange:
  assumes "\<And>body. emits (k body) (\<lambda>evs r. evs = [])"
    and "rq = api_request cl m p j q"
  shows "emits (bindE (request cl m p j q) k) (single_shape rq)"
  unfolding single_shape_def assms(2)
  by (rule emits_bindE[OF request_emits]) (auto intro: emits_mono[OF assms(1)])

lemma single_request_alone:
  "rq = api_request cl m p j q \<Longrightarrow> emits (request cl m p j q) (single_shape rq)"
  by (auto intro: emits_mono[OF request_emits] simp: single_shape_def)

lemma acknowledged_exchange:
  "rq = api_request cl m p j q
    \<Longrightarrow> emits (bindE (request cl m p j q) (\<lambda>_. returnE ())) (acknowledged_shape rq)"
  unfolding acknowledged_shape_def
  by (rule emits_bindE[OF request_emits]) (auto intro: emits_returnE)

lemma emits_nothing:
  "emits (returnE a) (\<lambda>evs r. evs = [])" "emits (raiseE e) (\<lambda>evs r. evs = [])"
  "emits (liftE r) (\<lambda>evs r. evs = [])"
  by (auto intro: emit_intros)

lemmas exchange_intros =
  single_validated acknowledged_validated single_exchange single_request_alone
  acknowledged_exchange emits_nothing emits_if

definition delete_dns_record_request :: "'w api_client \<Rightarrow> string \<Rightarrow> http_request" where
  "delete_dns_record_request cl rid = api_request cl ''DELETE'' (record_path cl rid) None None"

definition delete_connections_request :: "'w api_client \<Rightarrow> string \<Rightarrow> http_request" where
  "delete_connections_request cl tunnel =
     api_request cl ''DELETE'' (tunnel_path cl tunnel @ ''/connections'') None None"

definition delete_tunnel_request :: "'w api_client \<Rightarrow> string \<Rightarrow> http_request" where
  "delete_tunnel_request cl tunnel = api_request cl ''DELETE'' (tunnel_path cl tunnel) None None"

definition create_tunnel_request :: "'w api_client \<Rightarrow> string \<Rightarrow> http_request" where
  "create_tunnel_request cl name =
     api_request cl ''POST'' (account_path cl)
       (Some (JObj [(''name'', JStr name), (''config_src'', JStr ''cloudflare'')])) None"

definition configure_tunnel_request ::
  "'w api_client \<Rightarrow> string \<times> string \<times> string \<Rightarrow> http_request" where
  "configure_tunnel_request cl k = (case k of (tunnel, hostname, origin) \<Rightarrow>
     api_request cl ''PUT'' (tunnel_path cl tunnel @ ''/configurations'')
       (Some (tunnel_configuration hostname origin)) None)"

definition create_dns_request :: "'w api_client \<Rightarrow> string \<times> string \<Rightarrow> http_request" where
  "create_dns_request cl k = (case k of (hostname, tunnel) \<Rightarrow>
     api_request cl ''POST'' (records_path cl)
       (Some (dns_record_body hostname (tunnel @ ''.cfargotunnel.com''))) None)"

definition update_dns_request :: "'w api_client \<Rightarrow> string \<times> string \<times> string \<Rightarrow> http_request" where
  "update_dns_request cl k = (case k of (rid, hostname, tunnel) \<Rightarrow>
     api_request cl ''PATCH'' (record_path cl rid)
       (Some (dns_record_body hostname (tunnel @ ''.cfargotunnel.com''))) None)"

lemmas request_shapes =
  delete_dns_record_request_def delete_connections_request_def delete_tunnel_request_def
  create_tunnel_request_def configure_tunnel_request_def create_dns_request_def
  update_dns_request_def

lemma tunnel_target_Inr:
  "tunnel_target t = Inr x \<Longrightarrow> x = t @ ''.cfargotunnel.com''"
  by (auto simp: tunnel_target_def bindR_Inr_iff)

lemma api_request_method [simp]: "rq_method (api_request cl m p j q) = m"
  by (simp add: api_request_def)

lemma acknowledgedI:
  assumes "\<And>k. emits (op k) (acknowledged_shape (req k))"
  shows "acknowledged_request op req"
proof
  fix k
  show "emits (op k) (\<lambda>evs r. (evs = [] \<and> isl r)
      \<or> (\<exists>hr. evs = [Http (req k) hr] \<and> (\<not> accepted hr \<longrightarrow> isl r)))"
    by (rule emits_mono[OF assms]) (auto simp: acknowledged_shape_def)
  show "emits (op k) (\<lambda>evs r. \<forall>hr. evs = [Http (req k) hr] \<and> accepted hr \<longrightarrow> \<not> isl r)"
    by (rule emits_mono[OF assms]) (auto simp: acknowledged_shape_def)
qed

lemma singleI:
  "(\<And>k. emits (op k) (single_shape (req k))) \<Longrightarrow> single_request op req"
  unfolding single_shape_def by unfold_locales

interpretation del_dns: acknowledged_request "delete_dns_record cl" "delete_dns_record_request cl"
  for cl
  by (rule acknowledgedI)
    (auto simp: delete_dns_record_def request_shapes intro!: exchange_intros)

interpretation del_conn:
  acknowledged_request "delete_tunnel_connections cl" "delete_connections_request cl"
  for cl
  by (rule acknowledgedI)
    (auto simp: delete_tunnel_connections_def request_shapes intro!: exchange_intros)

interpretation del_tunnel: acknowledged_request "delete_tunnel cl" "delete_tunnel_request cl"
  for cl
  by (rule acknowledgedI)
    (auto simp: delete_tunnel_def request_shapes intro!: exchange_intros)

interpretation conf_tunnel: acknowledged_request
  "\<lambda>k. case k of (t, h, origin) \<Rightarrow> configure_tunnel cl t h origin" "configure_tunnel_request cl"
  for cl
  by (rule acknowledgedI)
    (auto simp: configure_tunnel_def request_shapes intro!: exchange_intros)

interpretation upd_dns: acknowledged_request
  "\<lambda>k. case k of (rid, h, t) \<Rightarrow> update_dns_cname cl rid h t" "update_dns_request cl"
  for cl
  by (rule acknowledgedI)
    (auto simp: update_dns_cname_def request_shapes dest!: tunnel_target_Inr
       intro!: exchange_intros)

interpretation new_tunnel: single_request "create_tunnel cl" "create_tunnel_request cl"
  for cl
  by (rule singleI)
    (auto simp: create_tunnel_def request_shapes intro!: exchange_intros)

interpretation new_dns: single_request
  "\<lambda>k. case k of (h, t) \<Rightarrow> create_dns_cname_unchecked cl h t" "create_dns_request cl"
  for cl
  by (rule singleI)
    (auto simp: create_dns_cname_unchecked_def request_shapes dest!: tunnel_target_Inr
       intro!: exchange_intros)

lemma emits_nothing_json:
  "(\<And>records. emits (f records) (\<lambda>evs r. evs = [])) \<Longrightarrow> emits g (\<lambda>evs r. evs = [])
    \<Longrightarrow> emits (case j of JList records \<Rightarrow> f records | _ \<Rightarrow> g) (\<lambda>evs r. evs = [])"
  "(\<And>token. emits (h token) (\<lambda>evs r. evs = [])) \<Longrightarrow> emits g (\<lambda>evs r. evs = [])
    \<Longrightarrow> emits (case j of JStr token \<Rightarrow> h token | _ \<Rightarrow> g) (\<lambda>evs r. evs = [])"
  by (cases j; simp)+

interpretation list_dns: read_request "list_dns_records_for_hostname cl"
  "\<lambda>h. api_request cl ''GET'' (records_path cl) None (Some [(''name'', h)])"
  for cl
  by (intro read_request.intro read_request_axioms.intro singleI)
    (auto simp: list_dns_records_for_hostname_def intro!: exchange_intros emits_nothing_json)

interpretation read_page: read_request "read_dns_reconciliation_page cl"
  "\<lambda>h. api_request cl ''GET'' (records_path cl) None
     (Some [(''name'', h), (''page'', ''1''), (''per_page'', ''2'')])"
  for cl
  by (intro read_request.intro read_request_axioms.intro singleI)
    (auto simp: read_dns_reconciliation_page_def intro!: exchange_intros)

interpretation get_dns: read_request "get_dns_record cl"
  "\<lambda>rid. api_request cl ''GET'' (record_path cl rid) None None"
  for cl
  by (intro read_request.intro read_request_axioms.intro singleI)
    (auto simp: get_dns_record_def intro!: exchange_intros)

interpretation get_token: read_request "get_tunnel_token cl"
  "\<lambda>t. api_request cl ''GET'' (tunnel_path cl t @ ''/token'') None None"
  for cl
  by (intro read_request.intro read_request_axioms.intro singleI)
    (auto simp: get_tunnel_token_def intro!: exchange_intros emits_nothing_json)

interpretation get_tun: read_request "get_tunnel cl"
  "\<lambda>t. api_request cl ''GET'' (tunnel_path cl t) None None"
  for cl
  by (intro read_request.intro read_request_axioms.intro singleI)
    (auto simp: get_tunnel_def intro!: exchange_intros)

end
