(* ===== verification/Invocations.thy ===== *)
theory Invocations
  imports Effects Prelude
begin

text \<open>
  \<open>src/control_plane_kit_interpreters/invocations.py\<close>: calls of a semantic admission port
  around a capability, and the call-local secret resolver of \<open>secrets.py\<close> that uses it.
  The module is used with the exceptions and events of several components, so both are
  type parameters: a \<open>vocabulary\<close> names the exception classes and the trace events.
\<close>

section \<open>The port\<close>

text \<open>
  The classes \<open>Exception\<close> and \<open>asyncio.CancelledError\<close> as predicates, the constructor
  \<open>InvocationPortError\<close>, the \<open>TypeError\<close> of calling a missing attribute, and the events
  of \<open>admit\<close> and \<open>record_outcome\<close>.
\<close>

record ('e, 'ev) vocabulary =
  vo_is_exception :: "'e \<Rightarrow> bool"
  vo_is_cancelled :: "'e \<Rightarrow> bool"
  vo_port_error :: "string \<Rightarrow> 'e"
  vo_type_error :: 'e
  vo_admit :: "string \<Rightarrow> 'e + unit \<Rightarrow> 'ev"
  vo_record :: "string \<Rightarrow> 'e + unit \<Rightarrow> 'ev"

text \<open>
  The attributes of a port.  \<open>ip_control_error\<close> is \<open>Some\<close> predicate of its instances
  exactly when the attribute is a proper subclass of \<open>Exception\<close>; the others are \<open>Some\<close>
  exactly when the attribute is callable.
\<close>

record ('w, 'e, 'p) invocation_port =
  ip_control_error :: "('e \<Rightarrow> bool) option"
  ip_admit :: "(string \<Rightarrow> string option \<Rightarrow> ('w, 'e, 'p) port) option"
  ip_record_outcome :: "('p \<Rightarrow> string \<Rightarrow> ('w, 'e, unit) port) option"
  ip_record_result :: "('p \<Rightarrow> string \<Rightarrow> json \<Rightarrow> ('w, 'e, unit) port) option"

definition unit_outcome :: "'e + 'a \<Rightarrow> 'e + unit" where
  "unit_outcome r = map_sum id (\<lambda>_. ()) r"

definition matches_any :: "('e \<Rightarrow> bool) list \<Rightarrow> 'e \<Rightarrow> bool" where
  "matches_any controls e = list_ex (\<lambda>p. p e) controls"

definition control_errors ::
  "('e, 'ev) vocabulary \<Rightarrow> ('w, 'e, 'p) invocation_port option \<Rightarrow> bool
    \<Rightarrow> 'e + ('e \<Rightarrow> bool) list" where
  "control_errors V port required =
     (case port of
        None \<Rightarrow>
          if required then Inl (vo_port_error V ''semantic invocation port is required'')
          else Inr []
      | Some p \<Rightarrow>
          (case (ip_control_error p, ip_admit p, ip_record_outcome p) of
             (Some base, Some _, Some _) \<Rightarrow> Inr [\<lambda>e. vo_is_exception V e \<and> base e]
           | _ \<Rightarrow> Inl (vo_port_error V ''semantic invocation port is invalid'')))"

definition port_admit ::
  "('e, 'ev) vocabulary \<Rightarrow> ('w, 'e, 'p) invocation_port \<Rightarrow> string \<Rightarrow> string option
    \<Rightarrow> (('ev, 'w) st, 'e, 'p) eff" where
  "port_admit V p kind authorization =
     (case ip_admit p of
        None \<Rightarrow> raiseE (vo_type_error V)
      | Some f \<Rightarrow> callE (\<lambda>r. vo_admit V kind (unit_outcome r)) (f kind authorization))"

definition port_record ::
  "('e, 'ev) vocabulary \<Rightarrow> ('w, 'e, 'p) invocation_port \<Rightarrow> 'p \<Rightarrow> string
    \<Rightarrow> (('ev, 'w) st, 'e, unit) eff" where
  "port_record V p permit outcome =
     (case ip_record_outcome p of
        None \<Rightarrow> raiseE (vo_type_error V)
      | Some f \<Rightarrow> callE (vo_record V outcome) (f permit outcome))"

definition finish ::
  "('e, 'ev) vocabulary \<Rightarrow> ('w, 'e, 'p) invocation_port \<Rightarrow> 'p \<Rightarrow> 'e option
    \<Rightarrow> (('ev, 'w) st, 'e, unit) eff" where
  "finish V p permit error =
     (case error of
        Some e \<Rightarrow>
          if vo_is_cancelled V e
          then bindE (catchE (vo_is_exception V) (port_record V p permit ''unknown'')
                        (\<lambda>_. returnE ())) (\<lambda>_. raiseE e)
          else bindE (port_record V p permit ''unknown'') (\<lambda>_. raiseE e)
      | None \<Rightarrow> port_record V p permit ''returned'')"

definition invoke ::
  "('e, 'ev) vocabulary \<Rightarrow> ('w, 'e, 'p) invocation_port option \<Rightarrow> string
    \<Rightarrow> (('ev, 'w) st, 'e, 'a) eff \<Rightarrow> string option \<Rightarrow> (('ev, 'w) st, 'e, 'a) eff" where
  "invoke V port kind call authorization =
     bindE (liftE (control_errors V port False)) (\<lambda>controls.
     case port of
       None \<Rightarrow> call
     | Some p \<Rightarrow>
         bindE (port_admit V p kind authorization) (\<lambda>permit.
         attemptE call
           (\<lambda>e. if matches_any controls e then raiseE e
                 else bindE (finish V p permit (Some e)) (\<lambda>_. raiseE e))
           (\<lambda>result. bindE (finish V p permit None) (\<lambda>_. returnE result))))"

section \<open>Admission brackets\<close>

text \<open>
  The contract of a bracketed capability: nothing happens before the port admitted the
  call, and everything the capability did is followed by one recorded outcome, unless the
  capability stopped with a control error, which is passed on unrecorded.
  \<open>shown r\<close> is the outcome the caller sees when the capability ended with \<open>r\<close> and its
  recording succeeded.
\<close>

locale admission_bracket =
  fixes run :: "(('ev, 'w) st, 'e, 'a) eff \<Rightarrow> (('ev, 'w) st, 'e, 'a) eff"
    and admission :: "'ev \<Rightarrow> bool"
    and recording :: "'e + 'a \<Rightarrow> 'ev \<Rightarrow> bool"
    and control :: "'e \<Rightarrow> bool"
  assumes bracket: "emits call R \<Longrightarrow> emits (run call)
    (\<lambda>evs r. (evs = [] \<and> isl r)
      \<or> (\<exists>a. admission a \<and> evs = [a] \<and> isl r)
      \<or> (\<exists>a inner e. admission a \<and> evs = a # inner \<and> R inner (Inl e) \<and> control e \<and> r = Inl e)
      \<or> (\<exists>a inner r0 b. admission a \<and> evs = a # inner @ [b] \<and> R inner r0 \<and> recording r0 b
            \<and> (\<forall>v. r = Inr v \<longrightarrow> r0 = Inr v)))"
begin

lemma admitted_first:
  assumes "emits call R"
  shows "emits (run call) (\<lambda>evs r. evs = [] \<and> isl r \<or> evs \<noteq> [] \<and> admission (hd evs))"
  by (rule emits_mono[OF bracket[OF assms]]) auto

lemma returned_recorded:
  assumes "emits call R"
  shows "emits (run call)
    (\<lambda>evs r. \<forall>v. r = Inr v \<longrightarrow>
       (\<exists>a inner b. evs = a # inner @ [b] \<and> admission a \<and> R inner (Inr v) \<and> recording (Inr v) b))"
  by (rule emits_mono[OF bracket[OF assms]]) auto

end

lemma emits_port_admit:
  "emits (port_admit V p kind authorization)
     (\<lambda>evs r. (evs = [] \<and> isl r) \<or> evs = [vo_admit V kind (unit_outcome r)])"
  by (auto simp: port_admit_def split: option.split intro!: emit_intros)

lemma emits_port_record:
  "emits (port_record V p permit outcome)
     (\<lambda>evs r. (ip_record_outcome p = None \<and> evs = [] \<and> isl r) \<or> evs = [vo_record V outcome r])"
  by (auto simp: port_record_def split: option.split intro!: emit_intros)

lemma emits_finish_error:
  assumes "ip_record_outcome p \<noteq> None"
  shows "emits (finish V p permit (Some e))
     (\<lambda>evs r. isl r \<and> (\<exists>r'. evs = [vo_record V ''unknown'' r']))"
proof -
  let ?one = "\<lambda>evs r. \<exists>r'. evs = [vo_record V ''unknown'' r']"
  have recorded: "emits (port_record V p permit ''unknown'') ?one"
    by (rule emits_mono[OF emits_port_record]) (use assms in auto)
  have caught: "emits (catchE (vo_is_exception V) (port_record V p permit ''unknown'')
      (\<lambda>_. returnE ())) ?one"
    by (rule emits_catchE[OF recorded]) (auto intro: emits_returnE)
  show ?thesis
    unfolding finish_def option.case
    by (intro emits_if emits_bindE[OF caught] emits_bindE[OF recorded] emits_raiseE) auto
qed

lemma control_errors_Some:
  "control_errors V (Some p) required = Inr controls \<Longrightarrow>
     ip_record_outcome p \<noteq> None \<and>
     (\<exists>base. ip_control_error p = Some base \<and> controls = [\<lambda>e. vo_is_exception V e \<and> base e])"
  by (auto simp: control_errors_def split: option.splits)

lemma emits_finish_returned:
  "ip_record_outcome p \<noteq> None \<Longrightarrow> emits (finish V p permit None)
     (\<lambda>evs r. \<exists>r'. evs = [vo_record V ''returned'' r'])"
  by (auto simp: finish_def intro!: emits_mono[OF emits_port_record])

definition recorded_as :: "('e, 'ev) vocabulary \<Rightarrow> 'e + 'a \<Rightarrow> 'ev \<Rightarrow> bool" where
  "recorded_as V r b \<longleftrightarrow>
     (\<exists>r'. b = vo_record V (if isl r then ''unknown'' else ''returned'') r')"

definition port_control :: "('e, 'ev) vocabulary \<Rightarrow> ('w, 'e, 'p) invocation_port \<Rightarrow> 'e \<Rightarrow> bool" where
  "port_control V p e \<longleftrightarrow>
     vo_is_exception V e \<and> (case ip_control_error p of None \<Rightarrow> False | Some base \<Rightarrow> base e)"

lemma invoke_bracket:
  assumes call: "emits call R"
  shows "emits (invoke V (Some p) kind call authorization)
    (\<lambda>evs r. (evs = [] \<and> isl r)
      \<or> (\<exists>a. (\<exists>x. a = vo_admit V kind x) \<and> evs = [a] \<and> isl r)
      \<or> (\<exists>a inner e. (\<exists>x. a = vo_admit V kind x) \<and> evs = a # inner \<and> R inner (Inl e)
            \<and> port_control V p e \<and> r = Inl e)
      \<or> (\<exists>a inner r0 b. (\<exists>x. a = vo_admit V kind x) \<and> evs = a # inner @ [b] \<and> R inner r0
            \<and> recorded_as V r0 b \<and> (\<forall>v. r = Inr v \<longrightarrow> r0 = Inr v)))"
    (is "emits _ ?S")
proof (cases "control_errors V (Some p) False")
  case (Inl e)
  then show ?thesis by (auto simp: invoke_def intro: emits_raiseE)
next
  case (Inr controls)
  then obtain base where base: "ip_control_error p = Some base" "ip_record_outcome p \<noteq> None"
    and controls: "controls = [\<lambda>e. vo_is_exception V e \<and> base e]"
    by (auto dest: control_errors_Some)
  let ?a = "\<lambda>evs r. (evs = [] \<and> isl r) \<or> evs = [vo_admit V kind (unit_outcome r)]"
  have body: "emits (attemptE call
       (\<lambda>e. if matches_any controls e then raiseE e
             else bindE (finish V p permit (Some e)) (\<lambda>_. raiseE e))
       (\<lambda>result. bindE (finish V p permit None) (\<lambda>_. returnE result)))
     (\<lambda>evs r. (\<exists>e. R evs (Inl e) \<and> port_control V p e \<and> r = Inl e)
       \<or> (\<exists>inner r0 b. evs = inner @ [b] \<and> R inner r0 \<and> recorded_as V r0 b
             \<and> (\<forall>v. r = Inr v \<longrightarrow> r0 = Inr v)))" (is "emits _ ?B") for permit
    apply (rule emits_attemptE[OF call])
     apply (rule emits_bindE[OF emits_finish_returned[OF base(2)]])
      apply (rule emits_returnE, fastforce simp: recorded_as_def)
     apply (fastforce simp: recorded_as_def)
    apply (rule emits_if)
     apply (rule emits_raiseE)
     apply (simp add: controls matches_any_def port_control_def base)
    apply (rule emits_bindE[OF emits_finish_error[OF base(2)]])
     apply (rule emits_raiseE, fastforce simp: recorded_as_def)
    apply (fastforce simp: recorded_as_def)
    done
  show ?thesis
    unfolding invoke_def Inr liftE_simps bindE_returnE option.case
    by (rule emits_bindE[OF emits_port_admit]) (auto intro!: emits_mono[OF body])
qed

interpretation ordinary: admission_bracket
  "\<lambda>call. invoke V (Some p) kind call authorization"
  "\<lambda>ev. \<exists>x. ev = vo_admit V kind x" "recorded_as V" "port_control V p"
  for V p kind authorization
  by unfold_locales (rule invoke_bracket)

section \<open>The prepared secret resolver\<close>

text \<open>
  \<open>_PreparedSecretResolver\<close> of \<open>secrets.py\<close>: call-local entries, reused for an equal
  grant of the same type, and refused for a new grant once sealed.  \<open>grant_ok\<close> is the
  test on the grant's class, \<open>authorization\<close> its \<open>authorization_id\<close>, and \<open>resolve_call\<close>
  the call of the wrapped resolver.
\<close>

record ('g, 'res) prepared_resolver =
  pr_entries :: "('g \<times> 'res) list"
  pr_sealed :: bool

definition fresh_prepared :: "('g, 'res) prepared_resolver" where
  "fresh_prepared = \<lparr>pr_entries = [], pr_sealed = False\<rparr>"

definition prepared_resolve ::
  "('e, 'ev) vocabulary \<Rightarrow> ('w, 'e, 'p) invocation_port option \<Rightarrow> ('g \<Rightarrow> bool)
    \<Rightarrow> ('g \<Rightarrow> string) \<Rightarrow> ('g \<Rightarrow> (('ev, 'w) st, 'e, 'res) eff)
    \<Rightarrow> ('g, 'res) prepared_resolver \<Rightarrow> 'g
    \<Rightarrow> (('ev, 'w) st, 'e, 'res \<times> ('g, 'res) prepared_resolver) eff" where
  "prepared_resolve V port grant_ok authorization resolve_call prep grant =
     (if \<not> grant_ok grant then raiseE (vo_port_error V ''prepared secret grant is invalid'')
      else case map_of (pr_entries prep) grant of
          Some result \<Rightarrow> returnE (result, prep)
        | None \<Rightarrow>
            if pr_sealed prep
            then raiseE (vo_port_error V ''secret grant was not prepared for this dispatch'')
            else bindE (invoke V port ''secret-resolution'' (resolve_call grant)
                          (Some (authorization grant)))
                   (\<lambda>result. returnE
                      (result, prep\<lparr>pr_entries := pr_entries prep @ [(grant, result)]\<rparr>)))"

definition seal :: "('g, 'res) prepared_resolver \<Rightarrow> ('g, 'res) prepared_resolver" where
  "seal prep = prep\<lparr>pr_sealed := True\<rparr>"

end
