(* ===== verification/Cloudflare_Ingress.thy ===== *)
theory Cloudflare_Ingress
  imports Cloudflare_Api Invocations
begin

text \<open>
  Observation and cleanup helpers of \<open>cloudflare/client.py\<close>: the classification of DNS
  records by hostname, the observation of one exact reservation or tunnel, and the
  cleanup that attempts every stage.
\<close>

section \<open>Hostname observations\<close>

definition observed :: "hostname_state \<Rightarrow> string option \<Rightarrow> hostname_observation" where
  "observed state rid = \<lparr>ob_state = state, ob_dns_record_id = rid\<rparr>"

text \<open>The fields the Python reads inside its \<open>try\<close>: id, type, name and content.\<close>

definition dns_record_fields :: "json \<Rightarrow> cf_exn + string \<times> string \<times> string \<times> string" where
  "dns_record_fields rec =
     bindR (mapping_text rec ''id'') (\<lambda>rid.
     bindR (validate_identifier rid ''dns_record_id'') (\<lambda>_.
     bindR (mapping_text rec ''type'') (\<lambda>rtype.
     bindR (mapping_text rec ''name'') (\<lambda>rname.
     bindR (mapping_text rec ''content'') (\<lambda>content.
     Inr (rid, rtype, rname, content))))))"

definition classify_exact_records ::
  "(cf_exn \<Rightarrow> bool) list \<Rightarrow> json list \<Rightarrow> string \<Rightarrow> string option
    \<Rightarrow> cf_exn + hostname_observation" where
  "classify_exact_records controls records hostname tunnel =
     (case records of
        [] \<Rightarrow> Inr (observed HOST_ABSENT None)
      | [rec] \<Rightarrow>
          if \<not> is_mapping rec then Inr (observed MALFORMED None)
          else (case dns_record_fields rec of
              Inl e \<Rightarrow>
                if caught_by controls e then Inl e
                else if is_cloudflare_error e then Inr (observed MALFORMED None)
                else Inl e
            | Inr (rid, rtype, rname, content) \<Rightarrow>
                if py_lower rname \<noteq> py_lower hostname then Inr (observed MALFORMED None)
                else (case tunnel of
                    None \<Rightarrow> Inr (observed OCCUPIED (Some rid))
                  | Some t \<Rightarrow>
                      if rtype = ''CNAME''
                      then bindR (tunnel_target t) (\<lambda>target.
                        Inr (if content = target then observed TARGETS_TUNNEL (Some rid)
                             else observed OCCUPIED (Some rid)))
                      else Inr (observed OCCUPIED (Some rid))))
      | _ \<Rightarrow> Inr (observed DUPLICATE None))"

definition observe_exact_hostname ::
  "'w api_client \<Rightarrow> string \<Rightarrow> string option \<Rightarrow> ('w, hostname_observation) cf_eff" where
  "observe_exact_hostname cl hostname tunnel =
     bindE (list_dns_records_for_hostname cl hostname) (\<lambda>records.
     liftE (classify_exact_records (cl_control_errors cl) records hostname tunnel))"

definition classify_reconciled_dns_records ::
  "(cf_exn \<Rightarrow> bool) list \<Rightarrow> json list \<Rightarrow> string \<Rightarrow> string \<Rightarrow> cf_exn + hostname_observation" where
  "classify_reconciled_dns_records controls records hostname tunnel =
     (case records of
        [] \<Rightarrow> Inr (observed HOST_ABSENT None)
      | [rec] \<Rightarrow>
          if \<not> is_mapping rec then Inr (observed MALFORMED None)
          else (case dns_record_fields rec of
              Inl e \<Rightarrow>
                if caught_by controls e then Inl e
                else if is_cloudflare_error e then Inr (observed MALFORMED None)
                else Inl e
            | Inr (rid, rtype, rname, content) \<Rightarrow>
                if rname \<noteq> hostname then Inr (observed MALFORMED None)
                else if rtype \<noteq> ''CNAME'' \<or> json_get rec ''proxied'' \<noteq> JBool True
                  then Inr (observed MALFORMED (Some rid))
                else bindR (tunnel_target tunnel) (\<lambda>target.
                  Inr (if content = target then observed TARGETS_TUNNEL (Some rid)
                       else observed OCCUPIED (Some rid))))
      | _ \<Rightarrow> Inr (observed DUPLICATE None))"

definition page_consistent :: "json \<Rightarrow> json list \<Rightarrow> bool" where
  "page_consistent page records =
     (let info = json_get page ''result_info''
      in is_mapping info
         \<and> json_get page ''success'' = JBool True
         \<and> json_get info ''page'' = JInt 1
         \<and> json_get info ''per_page'' = JInt 2
         \<and> json_get info ''count'' = JInt (int (length records))
         \<and> length records \<le> 2)"

definition observe_reconciled_exact_hostname ::
  "'w api_client \<Rightarrow> string \<Rightarrow> string \<Rightarrow> ('w, hostname_observation) cf_eff" where
  "observe_reconciled_exact_hostname cl hostname tunnel =
     bindE (read_dns_reconciliation_page cl hostname) (\<lambda>page.
     case json_get page ''result'' of
       JList records \<Rightarrow>
         bindE (liftE (classify_reconciled_dns_records (cl_control_errors cl) records hostname tunnel))
           (\<lambda>observation.
         returnE (if page_consistent page records then observation
                  else observed MALFORMED (ob_dns_record_id observation)))
     | _ \<Rightarrow> raiseE (CloudflareMalformedResponse
              ''Cloudflare DNS reconciliation response malformed''))"

section \<open>Exact reservations and tunnels\<close>

definition tunnel_suffix :: string where
  "tunnel_suffix = ''.cfargotunnel.com''"

definition read_reservation_record ::
  "hostname_reservation \<Rightarrow> json \<Rightarrow> cf_exn + reservation_observation" where
  "read_reservation_record rv rec =
     bindR (mapping_text rec ''id'') (\<lambda>rid.
     bindR (mapping_text rec ''type'') (\<lambda>rtype.
     bindR (mapping_text rec ''name'') (\<lambda>hostname.
     bindR (mapping_text rec ''content'') (\<lambda>content.
     bindR (requireR (rid = rv_dns_record_id rv)
              (CloudflareApiError ''Cloudflare DNS record id mismatch'')) (\<lambda>_.
     bindR (requireR (rtype = ''CNAME'')
              (CloudflareApiError ''Cloudflare DNS reservation type mismatch'')) (\<lambda>_.
     bindR (requireR (py_lower hostname = py_lower (rv_hostname rv))
              (CloudflareApiError ''Cloudflare DNS reservation hostname mismatch'')) (\<lambda>_.
     bindR (requireR (json_get rec ''proxied'' = JBool True)
              (CloudflareApiError ''Cloudflare DNS reservation proxy mismatch'')) (\<lambda>_.
     bindR (requireR (py_endswith content tunnel_suffix)
              (CloudflareApiError ''Cloudflare DNS reservation target mismatch'')) (\<lambda>_.
     let tunnel = py_removesuffix content tunnel_suffix
     in bindR (validate_identifier tunnel ''DNS reservation tunnel_id'') (\<lambda>_.
        make_reservation_observation rid hostname PRESENT (Some tunnel)))))))))))"

definition observe_hostname_reservation ::
  "'w api_client \<Rightarrow> hostname_reservation \<Rightarrow> ('w, reservation_observation) cf_eff" where
  "observe_hostname_reservation cl rv =
     attemptE (get_dns_record cl (rv_dns_record_id rv))
       (\<lambda>e. if is_not_found e
             then liftE (make_reservation_observation (rv_dns_record_id rv) (rv_hostname rv)
                           RES_ABSENT None)
             else raiseE e)
       (\<lambda>rec. liftE (read_reservation_record rv rec))"

definition require_observed_tunnel ::
  "reservation_observation \<Rightarrow> string \<Rightarrow> cf_exn + reservation_observation" where
  "require_observed_tunnel ob tunnel =
     bindR (requireR (ro_presence ob = PRESENT \<and> ro_tunnel_id ob = Some tunnel)
              (CloudflareApiError ''Cloudflare DNS reservation target mismatch''))
       (\<lambda>_. Inr ob)"

definition require_expected_reservation ::
  "reservation_observation \<Rightarrow> hostname_reservation \<Rightarrow> cf_exn + reservation_observation" where
  "require_expected_reservation ob rv =
     (if ro_presence ob = RES_ABSENT
      then Inl (CloudflareApiError ''Cloudflare DNS reservation is missing'')
      else require_observed_tunnel ob (rv_expected_tunnel_id rv))"

definition observe_tunnel :: "'w api_client \<Rightarrow> string \<Rightarrow> ('w, tunnel_observation) cf_eff" where
  "observe_tunnel cl tunnel =
     attemptE (get_tunnel cl tunnel)
       (\<lambda>e. if is_not_found e then liftE (make_tunnel_observation tunnel RES_ABSENT) else raiseE e)
       (\<lambda>result. liftE
         (bindR (mapping_text result ''id'') (\<lambda>tid.
          bindR (requireR (tid = tunnel) (CloudflareApiError ''Cloudflare tunnel id mismatch''))
            (\<lambda>_.
          case json_get result ''deleted_at'' of
            JNull \<Rightarrow> make_tunnel_observation tunnel PRESENT
          | JStr deleted_at \<Rightarrow>
              if py_strip deleted_at = []
              then Inl (CloudflareApiError ''Cloudflare tunnel deletion marker is malformed'')
              else make_tunnel_observation tunnel RES_ABSENT
          | _ \<Rightarrow> Inl (CloudflareApiError ''Cloudflare tunnel deletion marker is malformed'')))))"

definition restore_rebind_reservation ::
  "'w api_client \<Rightarrow> hostname_reservation \<Rightarrow> string \<Rightarrow> ('w, unit) cf_eff" where
  "restore_rebind_reservation cl rv new_tunnel =
     bindE (observe_hostname_reservation cl rv) (\<lambda>ob.
     if ro_presence ob = RES_ABSENT
     then raiseE (CloudflareApiError ''Cloudflare DNS reservation is missing'')
     else if ro_tunnel_id ob = Some (rv_expected_tunnel_id rv) then returnE ()
     else if ro_tunnel_id ob \<noteq> Some new_tunnel
     then raiseE (CloudflareApiError ''Cloudflare DNS reservation target mismatch'')
     else bindE (update_dns_cname cl (rv_dns_record_id rv) (rv_hostname rv)
                   (rv_expected_tunnel_id rv)) (\<lambda>_.
          bindE (observe_hostname_reservation cl rv) (\<lambda>ob'.
          bindE (liftE (require_expected_reservation ob' rv)) (\<lambda>_. returnE ()))))"

section \<open>Cleanup\<close>

fun attempt_exact_cleanup ::
  "(cf_exn \<Rightarrow> bool) list \<Rightarrow> (string \<times> ('w, unit) cf_eff) list \<Rightarrow> ('w, string list) cf_eff" where
  "attempt_exact_cleanup controls [] = returnE []"
| "attempt_exact_cleanup controls ((stage, cleanup) # stages) =
     attemptE cleanup
       (\<lambda>e. if caught_by controls e then raiseE e
             else if is_exception e
               then bindE (attempt_exact_cleanup controls stages) (\<lambda>failed. returnE (stage # failed))
             else raiseE e)
       (\<lambda>_. attempt_exact_cleanup controls stages)"

definition delete_known_tunnel :: "'w api_client \<Rightarrow> string \<Rightarrow> ('w, cleanup_result) cf_eff" where
  "delete_known_tunnel cl tunnel =
     bindE (attempt_exact_cleanup (cl_control_errors cl) [(''tunnel'', delete_tunnel cl tunnel)])
       (\<lambda>failed. returnE (if failed \<noteq> [] then CLEANUP_UNCERTAIN else COMPLETE))"

definition cleanup_created_ingress ::
  "'w api_client \<Rightarrow> string \<Rightarrow> string \<Rightarrow> (string \<times> ('w, unit) cf_eff) option
    \<Rightarrow> ('w, cleanup_result \<times> string list) cf_eff" where
  "cleanup_created_ingress cl tunnel rid custody =
     bindE (attempt_exact_cleanup (cl_control_errors cl)
              ((case custody of None \<Rightarrow> [] | Some stage \<Rightarrow> [stage])
               @ [(''dns'', delete_dns_record cl rid), (''tunnel'', delete_tunnel cl tunnel)]))
       (\<lambda>failed. returnE (if failed \<noteq> [] then (CLEANUP_UNCERTAIN, failed) else (COMPLETE, [])))"

definition stage_list :: "string list \<Rightarrow> string" where
  "stage_list failed = py_join '','' failed"

section \<open>Preconditions\<close>

definition require_reservation_authority ::
  "zone_authority \<Rightarrow> hostname_reservation \<Rightarrow> cf_exn + unit" where
  "require_reservation_authority a rv =
     requireR (allows_hostname a (rv_hostname rv))
       (CloudflareApiError ''owned hostname is outside admitted authority policy'')"

definition require_reservation_resource_agreement ::
  "hostname_reservation \<Rightarrow> owned_resources \<Rightarrow> cf_exn + unit" where
  "require_reservation_resource_agreement rv res =
     requireR (or_dns_record_id res = rv_dns_record_id rv
               \<and> or_hostname res = rv_hostname rv
               \<and> or_tunnel_id res = rv_expected_tunnel_id rv)
       (CloudflareApiError ''reservation and tunnel realization coordinates disagree'')"

text \<open>
  \<open>CloudflareNamedIngressInterpreter\<close> of \<open>cloudflare/client.py\<close>: creation of an ingress
  with its staged compensation, custody of the generated token, rebinding, deactivation
  and release of a retained reservation, and teardown.  The secret resolver, the custodian
  and the classes of the core package are parameters of the environment record.
\<close>

section \<open>The environment\<close>

record ('w, 'cg, 'rc) custodian =
  cu_store :: "'cg \<Rightarrow> string \<Rightarrow> ('w, cf_exn, 'rc) port"
  cu_revoke :: "'cg \<Rightarrow> ('w, cf_exn, bool) port"

text \<open>
  \<open>cu_revoke\<close> returns whether the Python result is \<open>None\<close>.  The fields from
  \<open>ie_resolution_permits\<close> on are the core package's operations on grants and receipts:
  \<open>ie_authorized_value g r\<close> is what \<open>require_authorized_secret\<close> makes of the outcome \<open>r\<close>
  of the one call \<open>resolver.resolve(g)\<close>; \<open>ie_receipt_replace\<close> is the validation that
  \<open>dataclasses.replace\<close> repeats; \<open>ie_receipt_version\<close> the version number as a value
  whose Python type is known.
\<close>

record ('w, 'rg, 'res, 'cg, 'rc) ingress_env =
  ie_transport :: "http_request \<Rightarrow> ('w, cf_exn, http_response) port"
  ie_secret_value :: "string \<Rightarrow> cf_exn + string"
  ie_resolver :: "('rg \<Rightarrow> ('w, cf_exn, 'res) port) option"
  ie_custodian :: "('w, 'cg, 'rc) custodian option"
  ie_require_invocations :: bool
  ie_resolution_permits :: "'rg \<Rightarrow> secret_reference \<Rightarrow> bool"
  ie_prepared_grant_ok :: "'rg \<Rightarrow> bool"
  ie_authorization_id :: "'rg \<Rightarrow> string"
  ie_authorized_value :: "'rg \<Rightarrow> cf_exn + 'res \<Rightarrow> cf_exn + string"
  ie_custody_permits :: "'cg \<Rightarrow> bool"
  ie_receipt_is :: "'rc \<Rightarrow> bool"
  ie_receipt_exact :: "'rc \<Rightarrow> bool"
  ie_receipt_replace :: "'rc \<Rightarrow> cf_exn + unit"
  ie_receipt_matches :: "'rc \<Rightarrow> 'cg \<Rightarrow> cf_exn + bool"
  ie_receipt_active :: "'rc \<Rightarrow> bool"
  ie_receipt_version :: "'rc \<Rightarrow> json"
  ie_receipt_reference :: "'rc \<Rightarrow> secret_reference option"
  ie_receipt_descriptor :: "'rc \<Rightarrow> json"

type_synonym ('w, 'p) ingress_port = "('w, cf_exn, 'p) invocation_port"

definition cf_vocabulary :: "(cf_exn, cf_event) vocabulary" where
  "cf_vocabulary =
     \<lparr>vo_is_exception = is_exception, vo_is_cancelled = (\<lambda>e. e = CancelledError),
      vo_port_error = InvocationPortError, vo_type_error = OtherException ''TypeError'',
      vo_admit = Admit, vo_record = RecordOutcome\<rparr>"

fun is_port_error :: "cf_exn \<Rightarrow> bool" where
  "is_port_error (InvocationPortError m) = True"
| "is_port_error _ = False"

section \<open>Admission of ingress capabilities\<close>

datatype ingress_kind =
  INGRESS_PROVIDER_CREATE | INGRESS_CUSTODY_WRITE | INGRESS_CUSTODY_REVOKE | INGRESS_PROVIDER_REMOVE

fun kind_value :: "ingress_kind \<Rightarrow> string" where
  "kind_value INGRESS_PROVIDER_CREATE = ''ingress-provider-create''"
| "kind_value INGRESS_CUSTODY_WRITE = ''ingress-custody-write''"
| "kind_value INGRESS_CUSTODY_REVOKE = ''ingress-custody-revoke''"
| "kind_value INGRESS_PROVIDER_REMOVE = ''ingress-provider-remove''"

definition ingress_controls ::
  "('w, 'p) ingress_port option \<Rightarrow> bool \<Rightarrow> cf_exn + (cf_exn \<Rightarrow> bool) list" where
  "ingress_controls port required =
     bindR (control_errors cf_vocabulary port required) (\<lambda>controls.
     case port of
       None \<Rightarrow> Inr []
     | Some p \<Rightarrow>
         bindR (requireR (ip_record_result p \<noteq> None)
                  (InvocationPortError ''ingress invocation port requires result recording''))
           (\<lambda>_. Inr (is_port_error # controls)))"

definition provider_attempt ::
  "('w, 'a) cf_eff \<Rightarrow> (cf_exn \<Rightarrow> bool) list \<Rightarrow> ('w, cf_exn + 'a) cf_eff" where
  "provider_attempt call controls =
     attemptE call
       (\<lambda>e. if caught_by controls e \<or> \<not> is_exception e then raiseE e else returnE (Inl e))
       (\<lambda>a. returnE (Inr a))"

fun optional_text :: "string option \<Rightarrow> json" where
  "optional_text None = JNull"
| "optional_text (Some s) = JStr s"

definition classified_failure :: "cf_exn \<Rightarrow> failure_evidence option" where
  "classified_failure e =
     (case e of
        CloudflareProviderOperationError _ evidence \<Rightarrow>
          if ev_stage evidence = SECRET_CUSTODY_STAGE then None else Some evidence
      | _ \<Rightarrow> None)"

definition dns_provenance :: "failure_evidence \<Rightarrow> string" where
  "dns_provenance evidence =
     (if ev_dns_record_id evidence = None then ''none''
      else if ev_stage evidence = TUNNEL_TOKEN \<or> ev_stage evidence = CLEANUP_STAGE
        then ''owned'' else ''observed-only'')"

definition ingress_failure :: "ingress_kind \<Rightarrow> cf_exn \<Rightarrow> string \<times> json \<times> cf_exn" where
  "ingress_failure kind e =
     (if kind = INGRESS_PROVIDER_CREATE
      then (case classified_failure e of
          Some evidence \<Rightarrow>
            (if ev_mutation_certainty evidence = MUT_UNCERTAIN
                \<or> ev_cleanup_result evidence = CLEANUP_UNCERTAIN then ''unknown'' else ''failed'',
             JObj [(''version'', JInt 1), (''tag'', JStr ''provider-create-stopped''),
               (''stage'', JStr (stage_value (ev_stage evidence))),
               (''category'', JStr (category_value (ev_category evidence))),
               (''mutation_certainty'', JStr (certainty_value (ev_mutation_certainty evidence))),
               (''cleanup_result'', JStr (cleanup_value (ev_cleanup_result evidence))),
               (''tunnel_id'', optional_text (ev_tunnel_id evidence)),
               (''dns_record_id'', optional_text (ev_dns_record_id evidence)),
               (''dns_provenance'', JStr (dns_provenance evidence))],
             CloudflareProviderOperationError ''Cloudflare provider creation stopped'' evidence)
        | None \<Rightarrow>
            (''unknown'',
             JObj [(''version'', JInt 1), (''tag'', JStr ''provider-create-unclassified'')],
             CloudflareApiError ''Cloudflare provider creation is uncertain''))
      else
        (let tag = (case kind of
               INGRESS_CUSTODY_WRITE \<Rightarrow> ''custody-write-unknown''
             | INGRESS_CUSTODY_REVOKE \<Rightarrow> ''custody-revoke-unknown''
             | _ \<Rightarrow> ''provider-removal-unknown'');
             reason = (if \<not> is_exception e then ''interrupted''
               else (case e of InvalidIngressResult r \<Rightarrow> r | _ \<Rightarrow> ''provider-error''));
             base = [(''version'', JInt 1), (''tag'', JStr tag), (''reason'', JStr reason)];
             payload = (if kind = INGRESS_PROVIDER_REMOVE
               then base @ [(''failed_stages'',
                  case e of RemovalIncomplete stages \<Rightarrow> JList (map JStr stages) | _ \<Rightarrow> JNull)]
               else base)
         in (''unknown'', JObj payload,
             CloudflareApiError ''Cloudflare ingress capability is uncertain'')))"

definition port_record_result ::
  "('w, 'p) ingress_port \<Rightarrow> 'p \<Rightarrow> string \<Rightarrow> json \<Rightarrow> ('w, unit) cf_eff" where
  "port_record_result p permit outcome payload =
     (case ip_record_result p of
        None \<Rightarrow> raiseE (OtherException ''TypeError'')
      | Some f \<Rightarrow> callE (RecordResult outcome payload) (f permit outcome payload))"

definition invoke_ingress ::
  "('w, 'p) ingress_port option \<Rightarrow> ingress_kind \<Rightarrow> ('w, 'a) cf_eff \<Rightarrow> ('a \<Rightarrow> json)
    \<Rightarrow> ('w, 'a) cf_eff" where
  "invoke_ingress port kind call returned =
     bindE (liftE (ingress_controls port False)) (\<lambda>controls.
     case port of
       None \<Rightarrow> call
     | Some p \<Rightarrow>
         bindE (port_admit cf_vocabulary p (kind_value kind) None) (\<lambda>permit.
         attemptE call
           (\<lambda>e. if caught_by controls e then raiseE e
             else (case ingress_failure kind e of (outcome, payload, public_error) \<Rightarrow>
               if \<not> is_exception e
               then bindE (catchE is_exception (port_record_result p permit outcome payload)
                             (\<lambda>_. returnE ())) (\<lambda>_. raiseE e)
               else bindE (port_record_result p permit outcome payload)
                      (\<lambda>_. raiseE public_error)))
           (\<lambda>value.
             bindE (port_record_result p permit ''returned'' (returned value))
               (\<lambda>_. returnE value))))"

section \<open>Custody and token resolution\<close>

definition custody_store ::
  "('w, 'cg, 'rc) custodian \<Rightarrow> 'cg \<Rightarrow> string \<Rightarrow> ('w, 'rc) cf_eff" where
  "custody_store cu grant token = callE (\<lambda>r. CustodyStore (outcome_of r)) (cu_store cu grant token)"

definition custody_revoke :: "('w, 'cg, 'rc) custodian \<Rightarrow> 'cg \<Rightarrow> ('w, bool) cf_eff" where
  "custody_revoke cu grant = callE (\<lambda>r. CustodyRevoke (outcome_of r)) (cu_revoke cu grant)"

definition receipt_valid ::
  "('w, 'rg, 'res, 'cg, 'rc) ingress_env \<Rightarrow> 'cg \<Rightarrow> 'rc \<Rightarrow> cf_exn + bool" where
  "receipt_valid env grant receipt =
     (if \<not> ie_receipt_exact env receipt then Inr False
      else bindR (ie_receipt_replace env receipt) (\<lambda>_.
           bindR (ie_receipt_matches env receipt grant) (\<lambda>matches.
           Inr (matches \<and> ie_receipt_active env receipt
                \<and> (case ie_receipt_version env receipt of
                     JInt n \<Rightarrow> 1 \<le> n \<and> n \<le> 2 ^ 53 - 1 | _ \<Rightarrow> False)
                \<and> (case ie_receipt_reference env receipt of
                     Some reference \<Rightarrow> length (reference_id reference) \<le> 1024 | None \<Rightarrow> False)))))"

definition store_ingress_token ::
  "('w, 'rg, 'res, 'cg, 'rc) ingress_env \<Rightarrow> ('w, 'cg, 'rc) custodian \<Rightarrow> 'cg \<Rightarrow> string
    \<Rightarrow> (cf_exn \<Rightarrow> bool) list \<Rightarrow> ('w, 'rc) cf_eff" where
  "store_ingress_token env cu grant token controls =
     bindE (custody_store cu grant token) (\<lambda>receipt.
     case receipt_valid env grant receipt of
       Inr True \<Rightarrow> returnE receipt
     | Inr False \<Rightarrow> raiseE (InvalidIngressResult ''invalid-receipt'')
     | Inl e \<Rightarrow>
         if caught_by controls e then raiseE e
         else if is_exception e then raiseE (InvalidIngressResult ''invalid-receipt'')
         else raiseE e)"

definition revoke_ingress_token ::
  "('w, 'cg, 'rc) custodian \<Rightarrow> 'cg \<Rightarrow> ('w, unit) cf_eff" where
  "revoke_ingress_token cu grant =
     bindE (custody_revoke cu grant) (\<lambda>is_none.
     if is_none then returnE () else raiseE (InvalidIngressResult ''invalid-result''))"

definition require_tunnel_token_custody_grant ::
  "('w, 'rg, 'res, 'cg, 'rc) ingress_env \<Rightarrow> 'cg \<Rightarrow> cf_exn + unit" where
  "require_tunnel_token_custody_grant env grant =
     requireR (ie_custody_permits env grant)
       (CloudflareApiError ''tunnel token custody grant is invalid'')"

definition resolver_resolve ::
  "('w, 'rg, 'res, 'cg, 'rc) ingress_env \<Rightarrow> ('rg \<Rightarrow> ('w, cf_exn, 'res) port) \<Rightarrow> 'rg
    \<Rightarrow> ('w, 'res) cf_eff" where
  "resolver_resolve env resolver grant = callE (\<lambda>r. TokenResolve (outcome_of r)) (resolver grant)"

definition resolve_api_token ::
  "('w, 'rg, 'res, 'cg, 'rc) ingress_env \<Rightarrow> ('rg \<Rightarrow> ('w, 'res) cf_eff) \<Rightarrow> zone_authority
    \<Rightarrow> 'rg \<Rightarrow> (cf_exn \<Rightarrow> bool) list \<Rightarrow> ('w, string) cf_eff" where
  "resolve_api_token env resolve a grant controls =
     (if \<not> ie_resolution_permits env grant (api_token_ref a)
      then raiseE (SecretResolutionError RES_DENIED
             ''Cloudflare API token requires exact committed authorization'')
      else
        attemptE (attemptE (resolve grant)
                    (\<lambda>e. liftE (ie_authorized_value env grant (Inl e)))
                    (\<lambda>res. liftE (ie_authorized_value env grant (Inr res))))
          (\<lambda>e. if caught_by controls e then raiseE e
             else (case e of
                 SecretResolutionError code _ \<Rightarrow>
                   raiseE (SecretResolutionError code ''Cloudflare API token could not be resolved'')
               | _ \<Rightarrow> if is_exception e
                    then raiseE (CloudflareApiError ''Cloudflare API token resolution failed'')
                    else raiseE e))
          returnE)"

definition ingress_client ::
  "('w, 'rg, 'res, 'cg, 'rc) ingress_env \<Rightarrow> zone_authority \<Rightarrow> 'rg
    \<Rightarrow> ('w, 'p) ingress_port option \<Rightarrow> ('w, 'w api_client) cf_eff" where
  "ingress_client env a grant port =
     bindE (liftE (ingress_controls port False)) (\<lambda>controls.
     case ie_resolver env of
       None \<Rightarrow> raiseE (SecretResolutionError RES_MISSING
                 ''Cloudflare API token resolver is not configured'')
     | Some resolver \<Rightarrow>
         bindE (resolve_api_token env
                  (case port of
                     None \<Rightarrow> resolver_resolve env resolver
                   | Some p \<Rightarrow> \<lambda>g. bindE (prepared_resolve cf_vocabulary port
                         (ie_prepared_grant_ok env) (ie_authorization_id env)
                         (resolver_resolve env resolver) fresh_prepared g)
                       (\<lambda>r. returnE (fst r)))
                  a grant controls) (\<lambda>api_token.
         returnE \<lparr>cl_authority = a, cl_api_token = api_token, cl_transport = ie_transport env,
                  cl_control_errors = controls, cl_secret_value = ie_secret_value env\<rparr>))"

end
