(* ===== verification/Cloudflare_Retain.thy ===== *)
theory Cloudflare_Retain
  imports Cloudflare_Ingress
begin

text \<open>
  The retained lifecycle of \<open>CloudflareNamedIngressInterpreter\<close>: \<open>rebind\<close>,
  \<open>observe_reservation\<close>, \<open>deactivate_preserving_reservation\<close>,
  \<open>release_reservation\<close>, and \<open>observe\<close> and \<open>teardown\<close> of owned resources.
\<close>

section \<open>Rebinding\<close>

text \<open>
  The \<open>except\<close> block of \<open>rebind\<close>.  Its local variables are the arguments: the tunnel if
  it was created, and whether the DNS update and the custody write were attempted.
\<close>

definition rebind_failure ::
  "'w api_client \<Rightarrow> ('w, 'cg, 'rc) custodian \<Rightarrow> 'cg \<Rightarrow> hostname_reservation
    \<Rightarrow> string option \<Rightarrow> bool \<Rightarrow> bool \<Rightarrow> cf_exn \<Rightarrow> ('w, 'a) cf_eff" where
  "rebind_failure cl cu grant rv tunnel dns_attempted custody_attempted e =
     (if \<not> is_exception e then raiseE e
      else
        bindE (attempt_exact_cleanup []
          ((if custody_attempted
            then [(''custody'', bindE (custody_revoke cu grant) (\<lambda>_. returnE ()))] else [])
           @ (case tunnel of
                None \<Rightarrow> []
              | Some t \<Rightarrow>
                  (if dns_attempted then [(''dns'', restore_rebind_reservation cl rv t)] else [])
                  @ [(''tunnel'', delete_tunnel cl t)]))) (\<lambda>failed.
        if failed \<noteq> []
        then raiseE (CloudflareApiError
               (''Cloudflare exact rebind cleanup is uncertain: '' @ stage_list failed))
        else if dns_attempted \<and> is_transport_error e
        then raiseE (CloudflareApiError ''Cloudflare exact rebind is uncertain'')
        else raiseE e))"

text \<open>The body of the \<open>try\<close>, from the last point where each flag is still unset.\<close>

definition rebind_custody ::
  "('w, 'rg, 'res, 'cg, 'rc) ingress_env \<Rightarrow> 'w api_client \<Rightarrow> ('w, 'cg, 'rc) custodian \<Rightarrow> 'cg
    \<Rightarrow> hostname_reservation \<Rightarrow> string \<Rightarrow> string \<Rightarrow> ('w, 'rc) cf_eff" where
  "rebind_custody env cl cu grant rv tunnel token =
     bindE (catchE is_exception (custody_store cu grant token)
              (\<lambda>_. raiseE (CloudflareApiError ''Cloudflare generated secret custody failed'')))
       (\<lambda>receipt.
     bindE (liftE (ie_receipt_matches env receipt grant)) (\<lambda>matches.
     bindE (requireE matches
              (CloudflareApiError ''secret custodian returned mismatched receipt'')) (\<lambda>_.
     bindE (observe_hostname_reservation cl rv) (\<lambda>ob.
     bindE (liftE (require_observed_tunnel ob tunnel)) (\<lambda>_.
     returnE receipt)))))"

definition rebind_dns ::
  "'w api_client \<Rightarrow> hostname_reservation \<Rightarrow> string \<Rightarrow> ('w, string) cf_eff" where
  "rebind_dns cl rv tunnel =
     bindE (update_dns_cname cl (rv_dns_record_id rv) (rv_hostname rv) tunnel) (\<lambda>_.
     bindE (observe_hostname_reservation cl rv) (\<lambda>ob.
     bindE (liftE (require_observed_tunnel ob tunnel)) (\<lambda>_.
     get_tunnel_token cl tunnel)))"

definition rebind_tunnel ::
  "'w api_client \<Rightarrow> hostname_reservation \<Rightarrow> string \<Rightarrow> string \<Rightarrow> ('w, unit) cf_eff" where
  "rebind_tunnel cl rv origin_service_url tunnel =
     bindE (configure_tunnel cl tunnel (rv_hostname rv) origin_service_url) (\<lambda>_.
     bindE (observe_hostname_reservation cl rv) (\<lambda>ob.
     bindE (liftE (require_expected_reservation ob rv)) (\<lambda>_.
     returnE ())))"

definition rebind_provider ::
  "('w, 'rg, 'res, 'cg, 'rc) ingress_env \<Rightarrow> 'w api_client \<Rightarrow> ('w, 'cg, 'rc) custodian \<Rightarrow> 'cg
    \<Rightarrow> hostname_reservation \<Rightarrow> string \<Rightarrow> string \<Rightarrow> ('w, string \<times> 'rc) cf_eff" where
  "rebind_provider env cl cu grant rv allocation_name origin_service_url =
     attemptE (create_tunnel cl allocation_name)
       (rebind_failure cl cu grant rv None False False)
     (\<lambda>tunnel. attemptE (rebind_tunnel cl rv origin_service_url tunnel)
       (rebind_failure cl cu grant rv (Some tunnel) False False)
     (\<lambda>_. attemptE (rebind_dns cl rv tunnel)
       (rebind_failure cl cu grant rv (Some tunnel) True False)
     (\<lambda>token. attemptE (rebind_custody env cl cu grant rv tunnel token)
       (rebind_failure cl cu grant rv (Some tunnel) True True)
     (\<lambda>receipt. returnE (tunnel, receipt)))))"

definition rebind ::
  "('w, 'rg, 'res, 'cg, 'rc) ingress_env \<Rightarrow> string \<Rightarrow> zone_authority \<Rightarrow> hostname_reservation
    \<Rightarrow> string \<Rightarrow> string \<Rightarrow> 'rg \<Rightarrow> 'cg \<Rightarrow> ('w, 'rc ingress_allocation) cf_eff" where
  "rebind env hostname a rv allocation_name origin_service_url resolution_grant custody_grant =
     bindE (liftE (require_reservation_authority a rv)) (\<lambda>_.
     bindE (requireE (hostname = rv_hostname rv)
              (CloudflareApiError ''ingress and reservation hostname mismatch'')) (\<lambda>_.
     bindE (liftE (validate_identifier allocation_name ''allocation_name'')) (\<lambda>_.
     bindE (liftE (validate_origin_service origin_service_url)) (\<lambda>_.
     case ie_custodian env of
       None \<Rightarrow> raiseE (SecretResolutionError RES_MISSING
                 ''generated secret custodian is not configured'')
     | Some cu \<Rightarrow>
     bindE (liftE (require_tunnel_token_custody_grant env custody_grant)) (\<lambda>_.
     bindE (ingress_client env a resolution_grant (None :: ('w, unit) ingress_port option)) (\<lambda>cl.
     bindE (rebind_provider env cl cu custody_grant rv allocation_name origin_service_url)
       (\<lambda>(tunnel, receipt).
     liftE (make_ingress_allocation (ie_receipt_is env) tunnel allocation_name receipt
              (rv_dns_record_id rv) (rv_hostname rv) (''https://'' @ rv_hostname rv)))))))))"

section \<open>Observation, deactivation and release of a reservation\<close>

definition observe_reservation ::
  "('w, 'rg, 'res, 'cg, 'rc) ingress_env \<Rightarrow> zone_authority \<Rightarrow> hostname_reservation \<Rightarrow> 'rg
    \<Rightarrow> ('w, reservation_observation) cf_eff" where
  "observe_reservation env a rv resolution_grant =
     bindE (liftE (require_reservation_authority a rv)) (\<lambda>_.
     bindE (ingress_client env a resolution_grant (None :: ('w, unit) ingress_port option)) (\<lambda>cl.
     bindE (observe_hostname_reservation cl rv) (\<lambda>ob.
     if ro_presence ob = PRESENT
     then bindE (liftE (require_expected_reservation ob rv)) (\<lambda>_. returnE ob)
     else returnE ob)))"

definition expect_reservation ::
  "'w api_client \<Rightarrow> hostname_reservation \<Rightarrow> ('w, reservation_observation) cf_eff" where
  "expect_reservation cl rv =
     bindE (observe_hostname_reservation cl rv) (\<lambda>ob.
     liftE (require_expected_reservation ob rv))"

definition expect_tunnel_absent ::
  "'w api_client \<Rightarrow> string \<Rightarrow> ('w, tunnel_observation) cf_eff" where
  "expect_tunnel_absent cl tunnel =
     bindE (observe_tunnel cl tunnel) (\<lambda>ob.
     if to_presence ob \<noteq> RES_ABSENT
     then raiseE (CloudflareApiError ''exact tunnel remains present'') else returnE ob)"

text \<open>\<open>try: x = m; except Exception: x = None\<close>, with the stage recorded as failed.\<close>

definition observation_or_failed ::
  "('w, 'a) cf_eff \<Rightarrow> ('w, 'a option) cf_eff" where
  "observation_or_failed m =
     attemptE m (\<lambda>e. if is_exception e then returnE None else raiseE e) (\<lambda>a. returnE (Some a))"

definition deactivate_provider ::
  "'w api_client \<Rightarrow> ('w, 'cg, 'rc) custodian \<Rightarrow> 'cg \<Rightarrow> hostname_reservation \<Rightarrow> owned_resources
    \<Rightarrow> ('w, retained_deactivation) cf_eff" where
  "deactivate_provider cl cu grant rv res =
     bindE (expect_reservation cl rv) (\<lambda>_.
     bindE (attempt_exact_cleanup []
       [(''custody'', bindE (custody_revoke cu grant) (\<lambda>_. returnE ())),
        (''connections'', delete_tunnel_connections cl (or_tunnel_id res)),
        (''tunnel'', delete_tunnel cl (or_tunnel_id res))]) (\<lambda>failed.
     bindE (observation_or_failed (expect_reservation cl rv)) (\<lambda>reservation.
     bindE (observation_or_failed (expect_tunnel_absent cl (or_tunnel_id res))) (\<lambda>tunnel.
     case (failed, reservation, tunnel) of
       ([], Some rob, Some tob) \<Rightarrow> liftE (make_retained_deactivation rob tob)
     | _ \<Rightarrow> raiseE (CloudflareApiError
          (''Cloudflare retained deactivation is uncertain: '' @ stage_list
             (failed @ (if reservation = None then [''reservation-observation''] else [])
                     @ (if tunnel = None then [''tunnel-observation''] else []))))))))"

definition deactivate_preserving_reservation ::
  "('w, 'rg, 'res, 'cg, 'rc) ingress_env \<Rightarrow> zone_authority \<Rightarrow> hostname_reservation
    \<Rightarrow> owned_resources \<Rightarrow> 'rg \<Rightarrow> 'cg \<Rightarrow> ('w, retained_deactivation) cf_eff" where
  "deactivate_preserving_reservation env a rv res resolution_grant custody_grant =
     bindE (liftE (require_reservation_authority a rv)) (\<lambda>_.
     bindE (liftE (require_reservation_resource_agreement rv res)) (\<lambda>_.
     case ie_custodian env of
       None \<Rightarrow> raiseE (SecretResolutionError RES_MISSING
                 ''generated secret custodian is not configured'')
     | Some cu \<Rightarrow>
     bindE (liftE (require_tunnel_token_custody_grant env custody_grant)) (\<lambda>_.
     bindE (ingress_client env a resolution_grant (None :: ('w, unit) ingress_port option)) (\<lambda>cl.
     deactivate_provider cl cu custody_grant rv res))))"

definition release_provider ::
  "'w api_client \<Rightarrow> hostname_reservation \<Rightarrow> ('w, reservation_observation) cf_eff" where
  "release_provider cl rv =
     bindE (expect_reservation cl rv) (\<lambda>_.
     bindE (observation_or_failed (delete_dns_record cl (rv_dns_record_id rv))) (\<lambda>deleted.
     bindE (observation_or_failed (observe_hostname_reservation cl rv)) (\<lambda>observation.
     case (deleted, observation) of
       (Some _, Some ob) \<Rightarrow>
         if ro_presence ob = RES_ABSENT then returnE ob
         else raiseE (CloudflareApiError ''Cloudflare reservation release is uncertain: absence'')
     | _ \<Rightarrow> raiseE (CloudflareApiError
          (''Cloudflare reservation release is uncertain: '' @ stage_list
             ((if deleted = None then [''dns''] else [])
              @ (case observation of
                   Some ob \<Rightarrow> if ro_presence ob = RES_ABSENT then [] else [''absence'']
                 | None \<Rightarrow> [''absence''])))))))"

definition release_reservation ::
  "('w, 'rg, 'res, 'cg, 'rc) ingress_env \<Rightarrow> zone_authority \<Rightarrow> hostname_reservation \<Rightarrow> 'rg
    \<Rightarrow> ('w, reservation_observation) cf_eff" where
  "release_reservation env a rv resolution_grant =
     bindE (liftE (require_reservation_authority a rv)) (\<lambda>_.
     bindE (ingress_client env a resolution_grant (None :: ('w, unit) ingress_port option)) (\<lambda>cl.
     release_provider cl rv))"

section \<open>Owned resources\<close>

definition observe ::
  "('w, 'rg, 'res, 'cg, 'rc) ingress_env \<Rightarrow> zone_authority \<Rightarrow> owned_resources \<Rightarrow> 'rg
    \<Rightarrow> ('w, json) cf_eff" where
  "observe env a res resolution_grant =
     bindE (ingress_client env a resolution_grant (None :: ('w, unit) ingress_port option)) (\<lambda>cl.
     get_tunnel cl (or_tunnel_id res))"

definition provider_stages ::
  "'w api_client \<Rightarrow> owned_resources \<Rightarrow> (string \<times> ('w, unit) cf_eff) list" where
  "provider_stages cl res =
     [(''dns'', delete_dns_record cl (or_dns_record_id res)),
      (''connections'', delete_tunnel_connections cl (or_tunnel_id res)),
      (''tunnel'', delete_tunnel cl (or_tunnel_id res))]"

definition remove_provider ::
  "'w api_client \<Rightarrow> owned_resources \<Rightarrow> (cf_exn \<Rightarrow> bool) list \<Rightarrow> ('w, unit) cf_eff" where
  "remove_provider cl res controls =
     bindE (attempt_exact_cleanup controls (provider_stages cl res)) (\<lambda>failed.
     if failed \<noteq> [] then raiseE (RemovalIncomplete failed) else returnE ())"

definition teardown_provider ::
  "'w api_client \<Rightarrow> ('w, 'cg, 'rc) custodian \<Rightarrow> 'cg \<Rightarrow> owned_resources \<Rightarrow> ('w, unit) cf_eff" where
  "teardown_provider cl cu grant res =
     bindE (attempt_exact_cleanup []
              ((''custody'', bindE (custody_revoke cu grant) (\<lambda>_. returnE ()))
               # provider_stages cl res)) (\<lambda>failed.
     if failed \<noteq> []
     then raiseE (CloudflareApiError
            (''Cloudflare exact cleanup is uncertain: '' @ stage_list failed))
     else returnE ())"

definition teardown ::
  "('w, 'rg, 'res, 'cg, 'rc) ingress_env \<Rightarrow> zone_authority \<Rightarrow> owned_resources \<Rightarrow> 'rg \<Rightarrow> 'cg
    \<Rightarrow> ('w, 'p) ingress_port option \<Rightarrow> ('w, unit) cf_eff" where
  "teardown env a res resolution_grant custody_grant port =
     bindE (liftE (ingress_controls port (ie_require_invocations env))) (\<lambda>controls.
     bindE (requireE (allows_hostname a (or_hostname res))
              (CloudflareApiError ''owned hostname is outside admitted authority policy'')) (\<lambda>_.
     case ie_custodian env of
       None \<Rightarrow> raiseE (SecretResolutionError RES_MISSING
                 ''generated secret custodian is not configured'')
     | Some cu \<Rightarrow>
     bindE (liftE (require_tunnel_token_custody_grant env custody_grant)) (\<lambda>_.
     bindE (ingress_client env a resolution_grant port) (\<lambda>cl.
     case port of
       None \<Rightarrow> teardown_provider cl cu custody_grant res
     | Some p \<Rightarrow>
         bindE (invoke_ingress port INGRESS_CUSTODY_REVOKE (revoke_ingress_token cu custody_grant)
                  (\<lambda>_. JObj [(''version'', JInt 1), (''tag'', JStr ''custody-revoke-returned'')]))
           (\<lambda>_.
         invoke_ingress port INGRESS_PROVIDER_REMOVE (remove_provider cl res controls)
           (\<lambda>_. JObj [(''version'', JInt 1), (''tag'', JStr ''provider-removal-returned'')]))))))"

end
