(* ===== verification/Cloudflare_Create.thy ===== *)
theory Cloudflare_Create
  imports Cloudflare_Ingress
begin

text \<open>
  Creation of a named ingress (\<open>CloudflareNamedIngressInterpreter.create\<close> and
  \<open>_create_provider\<close>): the provider sequence, split at the points where its
  compensation changes, the custody of the generated token and the whole operation.
\<close>

section \<open>The provider sequence\<close>

record created_ingress =
  ci_tunnel_id :: string
  ci_dns_record_id :: string
  ci_token :: string

text \<open>
  The common compensation once a tunnel exists: delete it, then raise the provider
  operation error, or for a foreign exception the exception itself unless the deletion
  failed.
\<close>

definition compensate_tunnel ::
  "'w api_client \<Rightarrow> string \<Rightarrow> cf_exn \<Rightarrow> failure_stage \<Rightarrow> mutation_certainty
    \<Rightarrow> ('w, 'a) cf_eff" where
  "compensate_tunnel cl tunnel e stage certainty =
     bindE (delete_known_tunnel cl tunnel) (\<lambda>cleanup.
     if \<not> is_provider_operation_failure e
     then (if cleanup = CLEANUP_UNCERTAIN
           then raiseE (CloudflareApiError ''Cloudflare exact cleanup is uncertain: tunnel'')
           else raiseE e)
     else raiseE (provider_operation_error (exn_message e) stage (provider_failure_category e)
                    certainty (Some tunnel) None cleanup))"

definition configure_stage :: "'w api_client \<Rightarrow> string \<Rightarrow> string \<Rightarrow> string \<Rightarrow> ('w, unit) cf_eff" where
  "configure_stage cl hostname origin_service_url tunnel =
     bindE (provider_attempt (configure_tunnel cl tunnel hostname origin_service_url)
              (cl_control_errors cl)) (\<lambda>r.
     case r of
       Inl e \<Rightarrow> compensate_tunnel cl tunnel e TUNNEL_CONFIGURATION
                  (if is_transport_error e then MUT_UNCERTAIN else TUNNEL_CREATED)
     | Inr _ \<Rightarrow> returnE ())"

definition pre_mutation_stage :: "'w api_client \<Rightarrow> string \<Rightarrow> string \<Rightarrow> ('w, unit) cf_eff" where
  "pre_mutation_stage cl hostname tunnel =
     bindE (provider_attempt (observe_exact_hostname cl hostname (Some tunnel))
              (cl_control_errors cl)) (\<lambda>r.
     case r of
       Inl e \<Rightarrow> compensate_tunnel cl tunnel e DNS_PRE_MUTATION_OBSERVATION TUNNEL_CREATED
     | Inr ob \<Rightarrow>
         if ob_state ob = HOST_ABSENT then returnE ()
         else if ob_state ob = OCCUPIED
         then bindE (delete_known_tunnel cl tunnel) (\<lambda>cleanup.
              raiseE (hostname_observation_error ob DNS_PRE_MUTATION_OBSERVATION (Some tunnel)
                        TUNNEL_CREATED cleanup))
         else raiseE (hostname_observation_error ob DNS_PRE_MUTATION_OBSERVATION (Some tunnel)
                        MUT_UNCERTAIN WITHHELD))"

definition reconcile_dns ::
  "'w api_client \<Rightarrow> string \<Rightarrow> string \<Rightarrow> cf_exn \<Rightarrow> ('w, string) cf_eff" where
  "reconcile_dns cl hostname tunnel create_error =
     bindE (provider_attempt (observe_reconciled_exact_hostname cl hostname tunnel)
              (cl_control_errors cl)) (\<lambda>r.
     case r of
       Inl e \<Rightarrow>
         if \<not> is_provider_operation_failure e then raiseE e
         else raiseE (provider_operation_error ''Cloudflare DNS reconciliation failed''
                DNS_RECONCILIATION (provider_failure_category e) MUT_UNCERTAIN (Some tunnel) None
                WITHHELD)
     | Inr ob \<Rightarrow>
         (case (is_transport_error create_error, ob_state ob, ob_dns_record_id ob) of
            (True, TARGETS_TUNNEL, Some rid) \<Rightarrow> returnE rid
          | _ \<Rightarrow>
            bindE (if ob_state ob = HOST_ABSENT \<or> ob_state ob = OCCUPIED
                   then delete_known_tunnel cl tunnel else returnE WITHHELD) (\<lambda>cleanup.
            if \<not> is_provider_operation_failure create_error
            then (if cleanup = CLEANUP_UNCERTAIN
                  then raiseE (CloudflareApiError ''Cloudflare exact cleanup is uncertain: tunnel'')
                  else raiseE create_error)
            else raiseE (provider_operation_error (exn_message create_error) DNS_CREATE
                   (provider_failure_category create_error) MUT_UNCERTAIN (Some tunnel)
                   (ob_dns_record_id ob) cleanup))))"

definition dns_stage :: "'w api_client \<Rightarrow> string \<Rightarrow> string \<Rightarrow> ('w, string) cf_eff" where
  "dns_stage cl hostname tunnel =
     bindE (provider_attempt (create_dns_cname_unchecked cl hostname tunnel)
              (cl_control_errors cl)) (\<lambda>r.
     case r of
       Inl e \<Rightarrow> reconcile_dns cl hostname tunnel e
     | Inr rid \<Rightarrow> returnE rid)"

definition token_stage :: "'w api_client \<Rightarrow> string \<Rightarrow> string \<Rightarrow> ('w, string) cf_eff" where
  "token_stage cl tunnel rid =
     bindE (provider_attempt (get_tunnel_token cl tunnel) (cl_control_errors cl)) (\<lambda>r.
     case r of
       Inr token \<Rightarrow> returnE token
     | Inl e \<Rightarrow>
         bindE (cleanup_created_ingress cl tunnel rid None) (\<lambda>(cleanup, failed).
         if \<not> is_provider_operation_failure e
         then (if failed \<noteq> []
               then raiseE (CloudflareApiError
                      (''Cloudflare exact cleanup is uncertain: '' @ stage_list failed))
               else raiseE e)
         else if failed \<noteq> []
         then raiseE (provider_operation_error
                (''Cloudflare exact cleanup is uncertain: '' @ stage_list failed)
                CLEANUP_STAGE CLEANUP_CATEGORY MUT_UNCERTAIN (Some tunnel) (Some rid) cleanup)
         else raiseE (provider_operation_error (exn_message e) TUNNEL_TOKEN
                (provider_failure_category e) DNS_AND_TUNNEL_CREATED (Some tunnel) (Some rid)
                cleanup)))"

definition checked_id :: "'w api_client \<Rightarrow> string \<Rightarrow> string \<Rightarrow> ('w, unit) cf_eff" where
  "checked_id cl value label =
     (if cl_control_errors cl \<noteq> [] then liftE (validate_identifier value label) else returnE ())"

definition allocate_tunnel :: "'w api_client \<Rightarrow> string \<Rightarrow> string \<Rightarrow> ('w, string) cf_eff" where
  "allocate_tunnel cl hostname tunnel_name =
     bindE (provider_attempt (observe_exact_hostname cl hostname None) (cl_control_errors cl))
       (\<lambda>r.
     case r of
       Inl e \<Rightarrow>
         if \<not> is_provider_operation_failure e then raiseE e
         else raiseE (provider_operation_error (exn_message e) DNS_PRE_OBSERVATION
                (provider_failure_category e) MUT_NONE None None NOT_REQUIRED)
     | Inr ob \<Rightarrow>
         if ob_state ob \<noteq> HOST_ABSENT
         then raiseE (hostname_observation_error ob DNS_PRE_OBSERVATION None MUT_NONE NOT_REQUIRED)
         else
           bindE (provider_attempt (create_tunnel cl tunnel_name) (cl_control_errors cl)) (\<lambda>r'.
           case r' of
             Inl e \<Rightarrow>
               if \<not> is_provider_operation_failure e then raiseE e
               else raiseE (provider_operation_error (exn_message e) TUNNEL_ALLOCATION
                      (provider_failure_category e) MUT_UNCERTAIN None None WITHHELD)
           | Inr tunnel \<Rightarrow> returnE tunnel))"

definition create_provider ::
  "'w api_client \<Rightarrow> string \<Rightarrow> string \<Rightarrow> string \<Rightarrow> ('w, created_ingress) cf_eff" where
  "create_provider cl hostname allocation_name origin_service_url =
     bindE (allocate_tunnel cl hostname allocation_name) (\<lambda>tunnel.
     bindE (checked_id cl tunnel ''tunnel_id'') (\<lambda>_.
     bindE (configure_stage cl hostname origin_service_url tunnel) (\<lambda>_.
     bindE (pre_mutation_stage cl hostname tunnel) (\<lambda>_.
     bindE (dns_stage cl hostname tunnel) (\<lambda>rid.
     bindE (checked_id cl rid ''dns_record_id'') (\<lambda>_.
     bindE (token_stage cl tunnel rid) (\<lambda>token.
     returnE \<lparr>ci_tunnel_id = tunnel, ci_dns_record_id = rid, ci_token = token\<rparr>)))))))"

section \<open>Custody and the whole operation\<close>

definition store_legacy_token ::
  "('w, 'rg, 'res, 'cg, 'rc) ingress_env \<Rightarrow> 'w api_client \<Rightarrow> ('w, 'cg, 'rc) custodian
    \<Rightarrow> created_ingress \<Rightarrow> 'cg \<Rightarrow> ('w, 'rc) cf_eff" where
  "store_legacy_token env cl cu created grant =
     attemptE
       (bindE (custody_store cu grant (ci_token created)) (\<lambda>receipt.
        bindE (liftE (ie_receipt_matches env receipt grant)) (\<lambda>matches.
        if matches then returnE receipt
        else raiseE (CloudflareApiError ''secret custodian returned mismatched receipt''))))
       (\<lambda>e. if caught_by (cl_control_errors cl) e \<or> \<not> is_exception e then raiseE e
         else
           bindE (cleanup_created_ingress cl (ci_tunnel_id created) (ci_dns_record_id created)
                    (Some (''custody'', bindE (custody_revoke cu grant) (\<lambda>_. returnE ()))))
             (\<lambda>(cleanup, failed).
           if failed \<noteq> []
           then raiseE (provider_operation_error
                  (''Cloudflare exact cleanup is uncertain: '' @ stage_list failed)
                  CLEANUP_STAGE CLEANUP_CATEGORY MUT_UNCERTAIN (Some (ci_tunnel_id created))
                  (Some (ci_dns_record_id created)) cleanup)
           else raiseE (provider_operation_error ''Cloudflare generated secret custody failed''
                  SECRET_CUSTODY_STAGE SECRET_CUSTODY_CATEGORY DNS_AND_TUNNEL_CREATED
                  (Some (ci_tunnel_id created)) (Some (ci_dns_record_id created)) cleanup)))
       returnE"

definition provider_created_payload :: "created_ingress \<Rightarrow> json" where
  "provider_created_payload created =
     JObj [(''version'', JInt 1), (''tag'', JStr ''provider-created''),
           (''tunnel_id'', JStr (ci_tunnel_id created)),
           (''dns_record_id'', JStr (ci_dns_record_id created))]"

text \<open>\<open>create\<close>; the ingress of the core package enters by its \<open>hostname\<close>.\<close>

definition create ::
  "('w, 'rg, 'res, 'cg, 'rc) ingress_env \<Rightarrow> string \<Rightarrow> zone_authority \<Rightarrow> string \<Rightarrow> string
    \<Rightarrow> 'rg \<Rightarrow> 'cg \<Rightarrow> ('w, 'p) ingress_port option \<Rightarrow> ('w, 'rc ingress_allocation) cf_eff" where
  "create env hostname a allocation_name origin_service_url resolution_grant custody_grant port =
     bindE (liftE (ingress_controls port (ie_require_invocations env))) (\<lambda>controls.
     bindE (liftE (validate_identifier allocation_name ''allocation_name'')) (\<lambda>_.
     bindE (liftE (validate_origin_service origin_service_url)) (\<lambda>_.
     bindE (requireE (allows_hostname a hostname)
              (CloudflareApiError ''hostname is outside admitted authority policy'')) (\<lambda>_.
     bindE (requireE (ie_resolver env \<noteq> None)
              (SecretResolutionError RES_MISSING
                 ''Cloudflare API token resolver is not configured'')) (\<lambda>_.
     case ie_custodian env of
       None \<Rightarrow> raiseE (SecretResolutionError RES_MISSING
                 ''generated secret custodian is not configured'')
     | Some cu \<Rightarrow>
     bindE (liftE (require_tunnel_token_custody_grant env custody_grant)) (\<lambda>_.
     bindE (ingress_client env a resolution_grant port) (\<lambda>cl.
     bindE (invoke_ingress port INGRESS_PROVIDER_CREATE
              (create_provider cl hostname allocation_name origin_service_url)
              provider_created_payload) (\<lambda>created.
     bindE (case port of
              None \<Rightarrow> store_legacy_token env cl cu created custody_grant
            | Some p \<Rightarrow> invoke_ingress port INGRESS_CUSTODY_WRITE
                (store_ingress_token env cu custody_grant (ci_token created) controls)
                (\<lambda>receipt. JObj [(''version'', JInt 1), (''tag'', JStr ''custody-write-returned''),
                   (''receipt'', ie_receipt_descriptor env receipt)])) (\<lambda>receipt.
     liftE (make_ingress_allocation (ie_receipt_is env) (ci_tunnel_id created) allocation_name
              receipt (ci_dns_record_id created) hostname (''https://'' @ hostname)))))))))))"

end
