(* ===== verification/Cloudflare_Trace.thy ===== *)
theory Cloudflare_Trace
  imports Cloudflare_Ingress
begin

text \<open>
  The vocabulary in which the properties of the ingress operations are stated (which
  requests a trace holds, what its answers establish), and the laws of the shared
  helpers: attempts, cleanup stages, observations.
\<close>

section \<open>Reading a trace\<close>

definition mutations :: "cf_event list \<Rightarrow> http_request set" where
  "mutations evs = {rq. \<exists>hr. Http rq hr \<in> set evs \<and> rq_method rq \<noteq> ''GET''}"

definition acknowledged :: "http_request \<Rightarrow> cf_event list \<Rightarrow> bool" where
  "acknowledged rq evs \<longleftrightarrow> (\<exists>hr. Http rq hr \<in> set evs \<and> accepted hr)"

text \<open>The body with which the provider answered an accepted request.\<close>

definition answered :: "http_request \<Rightarrow> json \<Rightarrow> cf_event list \<Rightarrow> bool" where
  "answered rq body evs \<longleftrightarrow>
     (\<exists>response. Http rq (Inr response) \<in> set evs \<and> check_response response = Inr body)"

definition unanswered :: "http_request \<Rightarrow> cf_event list \<Rightarrow> bool" where
  "unanswered rq evs \<longleftrightarrow> (\<exists>e. Http rq (Inl e) \<in> set evs)"

definition list_request :: "'w api_client \<Rightarrow> string \<Rightarrow> http_request" where
  "list_request cl h = api_request cl ''GET'' (records_path cl) None (Some [(''name'', h)])"

definition page_request :: "'w api_client \<Rightarrow> string \<Rightarrow> http_request" where
  "page_request cl h = api_request cl ''GET'' (records_path cl) None
     (Some [(''name'', h), (''page'', ''1''), (''per_page'', ''2'')])"

definition record_request :: "'w api_client \<Rightarrow> string \<Rightarrow> http_request" where
  "record_request cl rid = api_request cl ''GET'' (record_path cl rid) None None"

definition tunnel_request :: "'w api_client \<Rightarrow> string \<Rightarrow> http_request" where
  "tunnel_request cl t = api_request cl ''GET'' (tunnel_path cl t) None None"

definition token_request :: "'w api_client \<Rightarrow> string \<Rightarrow> http_request" where
  "token_request cl t = api_request cl ''GET'' (tunnel_path cl t @ ''/token'') None None"

text \<open>The requests that change the provider, in the order they were sent.\<close>

fun changes :: "cf_event list \<Rightarrow> http_request list" where
  "changes [] = []"
| "changes (Http rq hr # evs) =
     (if rq_method rq = ''GET'' then changes evs else rq # changes evs)"
| "changes (_ # evs) = changes evs"

lemma mutations_simps [simp]:
  "mutations [] = {}"
  "mutations (a @ b) = mutations a \<union> mutations b"
  "mutations (Http rq hr # evs) =
     (if rq_method rq = ''GET'' then mutations evs else insert rq (mutations evs))"
  "mutations (CustodyStore r # evs) = mutations evs"
  "mutations (CustodyRevoke r # evs) = mutations evs"
  "mutations (TokenResolve r # evs) = mutations evs"
  "mutations (Admit k r # evs) = mutations evs"
  "mutations (RecordOutcome k r # evs) = mutations evs"
  "mutations (RecordResult k j r # evs) = mutations evs"
  by (auto simp: mutations_def)

lemma mutations_changes: "mutations evs = set (changes evs)"
  by (induction evs rule: changes.induct) simp_all

lemma acknowledged_simps [simp]:
  "\<not> acknowledged rq []"
  "acknowledged rq (a @ b) \<longleftrightarrow> acknowledged rq a \<or> acknowledged rq b"
  "acknowledged rq (ev # evs) \<longleftrightarrow>
     (\<exists>hr. ev = Http rq hr \<and> accepted hr) \<or> acknowledged rq evs"
  by (auto simp: acknowledged_def)

lemma answered_simps [simp]:
  "\<not> answered rq body []"
  "answered rq body (a @ b) \<longleftrightarrow> answered rq body a \<or> answered rq body b"
  "answered rq body (ev # evs) \<longleftrightarrow>
     (\<exists>response. ev = Http rq (Inr response) \<and> check_response response = Inr body)
     \<or> answered rq body evs"
  by (auto simp: answered_def)

lemma unanswered_simps [simp]:
  "\<not> unanswered rq []"
  "unanswered rq (a @ b) \<longleftrightarrow> unanswered rq a \<or> unanswered rq b"
  "unanswered rq (ev # evs) \<longleftrightarrow> (\<exists>e. ev = Http rq (Inl e)) \<or> unanswered rq evs"
  by (auto simp: unanswered_def)

lemma request_methods [simp]:
  "rq_method (delete_dns_record_request cl rid) = ''DELETE''"
  "rq_method (delete_connections_request cl t) = ''DELETE''"
  "rq_method (delete_tunnel_request cl t) = ''DELETE''"
  "rq_method (create_tunnel_request cl name) = ''POST''"
  "rq_method (configure_tunnel_request cl (t, h, origin)) = ''PUT''"
  "rq_method (create_dns_request cl (h, t)) = ''POST''"
  "rq_method (update_dns_request cl (rid, h, t)) = ''PATCH''"
  "rq_method (list_request cl h) = ''GET''"
  "rq_method (page_request cl h) = ''GET''"
  "rq_method (record_request cl rid) = ''GET''"
  "rq_method (tunnel_request cl t) = ''GET''"
  "rq_method (token_request cl t) = ''GET''"
  by (simp_all add: request_shapes list_request_def page_request_def record_request_def
      tunnel_request_def token_request_def)

lemma requests_differ [simp]:
  "create_dns_request cl (h, t) \<noteq> create_tunnel_request cl name"
  "create_tunnel_request cl name \<noteq> create_dns_request cl (h, t)"
  by (simp_all add: request_shapes api_request_def dns_record_body_def)

lemma methods_differ:
  "rq_method a \<noteq> rq_method b \<Longrightarrow> a \<noteq> b"
  by auto

section \<open>Attempts and cleanup\<close>

definition stops :: "(cf_exn \<Rightarrow> bool) list \<Rightarrow> cf_exn \<Rightarrow> bool" where
  "stops controls e \<longleftrightarrow> caught_by controls e \<or> \<not> is_exception e"

text \<open>
  An attempt turns an exception into a value, except for the exceptions that stop the
  whole operation: control errors and exceptions outside \<open>Exception\<close>.
\<close>

lemma emits_provider_attempt:
  "emits m R \<Longrightarrow> emits (provider_attempt m controls)
     (\<lambda>evs r. (\<exists>x. r = Inr x \<and> R evs x \<and> (\<forall>e. x = Inl e \<longrightarrow> \<not> stops controls e))
        \<or> (\<exists>e. r = Inl e \<and> R evs (Inl e) \<and> stops controls e))"
  unfolding provider_attempt_def
  by (rule emits_attemptE, assumption) (auto intro!: emit_intros simp: stops_def)

text \<open>The stages run in order; the result names exactly the stages that raised.\<close>

fun cleanup_outcome ::
  "(string \<times> (cf_event list \<Rightarrow> cf_exn + unit \<Rightarrow> bool)) list \<Rightarrow> cf_event list \<Rightarrow> string list
    \<Rightarrow> bool" where
  "cleanup_outcome [] evs failed \<longleftrightarrow> evs = [] \<and> failed = []"
| "cleanup_outcome ((stage, R) # specs) evs failed \<longleftrightarrow>
     (\<exists>now later r failed'. evs = now @ later \<and> R now r \<and> cleanup_outcome specs later failed'
        \<and> failed = (if isl r then stage # failed' else failed'))"

definition implements ::
  "(string \<times> ('w, unit) cf_eff) list
    \<Rightarrow> (string \<times> (cf_event list \<Rightarrow> cf_exn + unit \<Rightarrow> bool)) list \<Rightarrow> bool" where
  "implements stages specs =
     list_all2 (\<lambda>(name, m) (name', R). name = name' \<and> emits m R) stages specs"

lemma implements_simps [simp]:
  "implements [] []"
  "implements ((name, m) # stages) ((name', R) # specs) \<longleftrightarrow>
     name = name' \<and> emits m R \<and> implements stages specs"
  by (simp_all add: implements_def)

lemma emits_cleanup:
  assumes "implements stages specs"
  shows "emits (attempt_exact_cleanup controls stages)
    (\<lambda>evs r. (\<forall>failed. r = Inr failed \<longrightarrow> cleanup_outcome specs evs failed)
       \<and> (\<forall>e. r = Inl e \<longrightarrow> stops controls e))"
  using assms[unfolded implements_def]
proof (induction rule: list_all2_induct)
  case Nil
  then show ?case by (simp add: emits_returnE)
next
  case (Cons x stages y specs)
  obtain name m where x: "x = (name, m)" by (cases x)
  obtain name' R where y: "y = (name', R)" by (cases y)
  from Cons x y have m: "emits m R" and name: "name' = name" by auto
  show ?case
    unfolding x y name attempt_exact_cleanup.simps
    apply (rule emits_attemptE[OF m])
     apply (rule emits_mono[OF Cons.IH], fastforce)
    apply (intro emits_if emits_raiseE)
      apply (simp add: stops_def)
     apply (rule emits_bindE[OF Cons.IH])
      apply (rule emits_returnE, fastforce)
     apply (auto simp: stops_def)
    done
qed

lemma only_emits_cleanup [emit_intros]:
  "(\<And>name m. (name, m) \<in> set stages \<Longrightarrow> only_emits P m)
    \<Longrightarrow> only_emits P (attempt_exact_cleanup controls stages)"
proof (induction stages)
  case Nil
  then show ?case by simp
next
  case (Cons x stages)
  have rest: "only_emits P (attempt_exact_cleanup controls stages)"
    by (rule Cons.IH) (auto intro: Cons.prems)
  obtain name m where x: "x = (name, m)" by (cases x)
  show ?case
    unfolding x attempt_exact_cleanup.simps
    by (intro only_emits_attemptE only_emits_if only_emits_bindE only_emits_raiseE
        only_emits_returnE rest Cons.prems[of name]) (simp add: x)
qed

section \<open>Deletions\<close>

definition deletion_shape ::
  "http_request \<Rightarrow> cf_event list \<Rightarrow> cf_exn + unit \<Rightarrow> bool" where
  "deletion_shape rq evs r \<longleftrightarrow> mutations evs \<subseteq> {rq} \<and> (\<not> isl r \<longleftrightarrow> acknowledged rq evs)"

lemma emits_deletions:
  "emits (delete_dns_record cl rid) (deletion_shape (delete_dns_record_request cl rid))"
  "emits (delete_tunnel_connections cl t) (deletion_shape (delete_connections_request cl t))"
  "emits (delete_tunnel cl t) (deletion_shape (delete_tunnel_request cl t))"
  by (rule emits_mono[OF emits_conj[OF del_dns.shape del_dns.returns_iff_accepted]]
      emits_mono[OF emits_conj[OF del_conn.shape del_conn.returns_iff_accepted]]
      emits_mono[OF emits_conj[OF del_tunnel.shape del_tunnel.returns_iff_accepted]];
      auto simp: deletion_shape_def)+

lemma emits_delete_known_tunnel:
  "emits (delete_known_tunnel cl t)
     (\<lambda>evs r. mutations evs \<subseteq> {delete_tunnel_request cl t}
        \<and> (\<forall>e. r = Inl e \<longrightarrow> stops (cl_control_errors cl) e)
        \<and> (\<forall>c. r = Inr c \<longrightarrow>
              c = (if acknowledged (delete_tunnel_request cl t) evs then COMPLETE
                   else CLEANUP_UNCERTAIN)))"
proof -
  have spec: "implements [(''tunnel'', delete_tunnel cl t)]
      [(''tunnel'', deletion_shape (delete_tunnel_request cl t))]"
    by (simp add: emits_deletions)
  have muts: "emits (attempt_exact_cleanup (cl_control_errors cl) [(''tunnel'', delete_tunnel cl t)])
      (\<lambda>evs r. list_all (\<lambda>ev. \<exists>hr. ev = Http (delete_tunnel_request cl t) hr) evs)"
    by (rule only_emits_emits, rule only_emits_cleanup) (auto intro: del_tunnel.only_this)
  show ?thesis
    unfolding delete_known_tunnel_def
    by (rule emits_bindE[OF emits_conj[OF emits_cleanup[OF spec] muts]])
      (auto intro!: emits_returnE simp: deletion_shape_def list_all_iff mutations_def
        acknowledged_def split: if_splits)
qed

end
