(* ===== verification/Cloudflare_Create_Facts.thy ===== *)
theory Cloudflare_Create_Facts
  imports Cloudflare_Create Cloudflare_Trace Cloudflare_Policy
begin

text \<open>
  What creating an ingress does to the provider, for every transport: which requests it
  may send, what a normal return has established, and that the evidence of a failure is
  true of the exchanges that were made.
\<close>

section \<open>The exchanges of one operation\<close>

lemma request_trace:
  "emits (request cl m p j q)
     (\<lambda>evs r. mutations evs \<subseteq> (if m = ''GET'' then {} else {api_request cl m p j q})
        \<and> (\<forall>body. r = Inr body \<longrightarrow> answered (api_request cl m p j q) body evs)
        \<and> (\<forall>e. r = Inl e \<and> is_transport_error e \<longrightarrow> unanswered (api_request cl m p j q) evs))"
  unfolding request_def Let_def
  by (rule emits_attemptE[OF emits_callE_eq])
    (auto intro!: emit_intros simp: check_response_def Let_def split: if_splits)

definition tunnel_allocated :: "'w api_client \<Rightarrow> string \<Rightarrow> cf_event list \<Rightarrow> string \<Rightarrow> bool" where
  "tunnel_allocated cl name evs t \<longleftrightarrow>
     (\<exists>body. answered (create_tunnel_request cl name) body evs \<and> result_text body ''id'' = Inr t)"

definition record_created ::
  "'w api_client \<Rightarrow> string \<Rightarrow> string \<Rightarrow> cf_event list \<Rightarrow> string \<Rightarrow> bool" where
  "record_created cl h t evs rid \<longleftrightarrow>
     (\<exists>body. answered (create_dns_request cl (h, t)) body evs \<and> result_text body ''id'' = Inr rid)"

text \<open>
  The creation of the record stayed unanswered, and a consistent page of the provider then
  showed exactly one record of the hostname: a proxied CNAME that targets the tunnel.
\<close>

definition record_reconciled ::
  "'w api_client \<Rightarrow> string \<Rightarrow> string \<Rightarrow> cf_event list \<Rightarrow> string \<Rightarrow> bool" where
  "record_reconciled cl h t evs rid \<longleftrightarrow>
     unanswered (create_dns_request cl (h, t)) evs
     \<and> (\<exists>page rec. answered (page_request cl h) page evs
          \<and> json_get page ''result'' = JList [rec] \<and> page_consistent page [rec]
          \<and> json_get rec ''proxied'' = JBool True
          \<and> dns_record_fields rec = Inr (rid, ''CNAME'', h, t @ ''.cfargotunnel.com''))"

definition record_owned ::
  "'w api_client \<Rightarrow> string \<Rightarrow> string \<Rightarrow> cf_event list \<Rightarrow> string \<Rightarrow> bool" where
  "record_owned cl h t evs rid \<longleftrightarrow>
     record_created cl h t evs rid \<or> record_reconciled cl h t evs rid"

definition hostname_free :: "'w api_client \<Rightarrow> string \<Rightarrow> cf_event list \<Rightarrow> bool" where
  "hostname_free cl h evs \<longleftrightarrow>
     (\<exists>body. answered (list_request cl h) body evs \<and> json_get body ''result'' = JList [])"

lemma trace_facts_append [simp]:
  "tunnel_allocated cl name a t \<Longrightarrow> tunnel_allocated cl name (a @ b) t"
  "tunnel_allocated cl name b t \<Longrightarrow> tunnel_allocated cl name (a @ b) t"
  "record_owned cl h t a rid \<Longrightarrow> record_owned cl h t (a @ b) rid"
  "record_owned cl h t b rid \<Longrightarrow> record_owned cl h t (a @ b) rid"
  "hostname_free cl h a \<Longrightarrow> hostname_free cl h (a @ b)"
  "hostname_free cl h b \<Longrightarrow> hostname_free cl h (a @ b)"
  by (auto simp: tunnel_allocated_def record_owned_def record_created_def record_reconciled_def
      hostname_free_def; metis)+

lemma or_malformed_Inr: "or_malformed cl m r = Inr a \<longleftrightarrow> r = Inr a"
  by (auto simp: or_malformed_def split: sum.splits if_splits)

lemma emits_create_tunnel:
  "emits (create_tunnel cl name)
     (\<lambda>evs r. mutations evs \<subseteq> {create_tunnel_request cl name}
        \<and> (\<forall>t. r = Inr t \<longrightarrow> tunnel_allocated cl name evs t))"
  unfolding create_tunnel_def
  by (rule emits_validated, rule emits_bindE[OF request_trace])
    (auto intro!: emit_intros simp: tunnel_allocated_def create_tunnel_request_def or_malformed_Inr)

lemma emits_configure_tunnel:
  "emits (configure_tunnel cl t h origin)
     (\<lambda>evs r. mutations evs \<subseteq> {configure_tunnel_request cl (t, h, origin)}
        \<and> (\<not> isl r \<longrightarrow> acknowledged (configure_tunnel_request cl (t, h, origin)) evs))"
  using emits_conj[OF conf_tunnel.shape conf_tunnel.result_accepted, of cl "(t, h, origin)"]
  by (auto elim!: emits_mono)

lemma classify_exact_absent:
  "classify_exact_records controls records h tunnel = Inr ob \<Longrightarrow> ob_state ob = HOST_ABSENT
    \<Longrightarrow> records = []"
  by (auto simp: classify_exact_records_def observed_def bindR_Inr_iff
      split: list.splits if_splits sum.splits option.splits)

lemma emits_observe_exact:
  "emits (observe_exact_hostname cl h tunnel)
     (\<lambda>evs r. mutations evs = {}
        \<and> (\<forall>ob. r = Inr ob \<and> ob_state ob = HOST_ABSENT \<longrightarrow> hostname_free cl h evs))"
proof -
  have list: "emits (list_dns_records_for_hostname cl h)
     (\<lambda>evs r. mutations evs = {} \<and> (\<forall>records. r = Inr records \<longrightarrow>
        (\<exists>body. answered (list_request cl h) body evs \<and> json_get body ''result'' = JList records)))"
    unfolding list_dns_records_for_hostname_def
    by (rule emits_validated, rule emits_bindE[OF request_trace])
      (auto intro!: emit_intros simp: list_request_def split: json.split)
  show ?thesis
    unfolding observe_exact_hostname_def
    by (rule emits_bindE[OF list])
      (auto intro!: emit_intros simp: hostname_free_def dest!: classify_exact_absent)
qed

section \<open>Failure reports\<close>

text \<open>What the evidence of a failure after the tunnel was allocated says, and its truth.\<close>

definition tunnel_report ::
  "'w api_client \<Rightarrow> string \<Rightarrow> cf_event list \<Rightarrow> failure_evidence \<Rightarrow> bool" where
  "tunnel_report cl t evs ev \<longleftrightarrow>
     ev_tunnel_id ev = Some t
     \<and> ev_mutation_certainty ev \<noteq> MUT_NONE \<and> ev_cleanup_result ev \<noteq> NOT_REQUIRED
     \<and> (ev_cleanup_result ev = COMPLETE \<longrightarrow> acknowledged (delete_tunnel_request cl t) evs)
     \<and> (ev_cleanup_result ev = WITHHELD \<longrightarrow> (\<forall>rq \<in> mutations evs. rq_method rq \<noteq> ''DELETE''))
     \<and> (ev_mutation_certainty ev = TUNNEL_CREATED \<longrightarrow>
          (\<forall>h t'. create_dns_request cl (h, t') \<notin> mutations evs))
     \<and> (ev_mutation_certainty ev = DNS_AND_TUNNEL_CREATED \<longrightarrow>
          ev_cleanup_result ev = COMPLETE \<and> (\<exists>rid. ev_dns_record_id ev = Some rid
             \<and> acknowledged (delete_dns_record_request cl rid) evs))"

definition reports ::
  "'w api_client \<Rightarrow> string \<Rightarrow> cf_event list \<Rightarrow> cf_exn \<Rightarrow> bool" where
  "reports cl t evs e \<longleftrightarrow> stops (cl_control_errors cl) e
     \<or> (\<forall>m ev. e = CloudflareProviderOperationError m ev \<longrightarrow> tunnel_report cl t evs ev)"

lemma provider_operation_error_cases:
  "provider_operation_error m st cat cert t d cl = CloudflareProviderOperationError m' ev
    \<Longrightarrow> m' = m \<and> ev = \<lparr>ev_stage = st, ev_category = cat, ev_mutation_certainty = cert,
          ev_tunnel_id = t, ev_dns_record_id = d, ev_cleanup_result = cl\<rparr>"
  by (auto simp: provider_operation_error_def make_failure_evidence_def bindR_Inl_iff bindR_Inr_iff
      dest: validate_identifier_Inl split: sum.splits option.splits)

lemma operation_error_is_operation [simp]:
  "is_provider_operation_failure (CloudflareProviderOperationError m ev)"
  by (simp add: is_provider_operation_failure_def)

lemma foreign_not_operation [simp]:
  "\<not> is_provider_operation_failure e \<Longrightarrow> e \<noteq> CloudflareProviderOperationError m ev"
  by (auto simp: is_provider_operation_failure_def)

lemma hostname_observation_error_cases:
  "hostname_observation_error ob st t cert cl = CloudflareProviderOperationError m ev
    \<Longrightarrow> \<exists>cat. ev = \<lparr>ev_stage = st, ev_category = cat, ev_mutation_certainty = cert,
          ev_tunnel_id = t, ev_dns_record_id = ob_dns_record_id ob, ev_cleanup_result = cl\<rparr>"
  by (auto simp: hostname_observation_error_def Let_def split: prod.splits
      dest!: provider_operation_error_cases)

section \<open>The stages\<close>

definition compensated ::
  "'w api_client \<Rightarrow> string \<Rightarrow> http_request set \<Rightarrow> cf_event list \<Rightarrow> cf_exn + 'a \<Rightarrow> bool" where
  "compensated cl t M evs r \<longleftrightarrow>
     mutations evs \<subseteq> M \<and> (\<exists>e. r = Inl e \<and> reports cl t evs e)"

lemma delete_not_post [simp]:
  "create_dns_request cl (h, t) \<noteq> delete_tunnel_request cl' t'"
  "create_dns_request cl (h, t) \<noteq> configure_tunnel_request cl' (t', h', origin)"
  "create_dns_request cl (h, t) \<noteq> delete_dns_record_request cl' rid"
  by (rule methods_differ, simp)+

lemma only_deletion_no_post:
  "mutations evs \<subseteq> {delete_tunnel_request cl t} \<Longrightarrow> create_dns_request cl' (h, t') \<notin> mutations evs"
  by (auto dest: subsetD)

lemma emits_compensate_tunnel:
  assumes "certainty = TUNNEL_CREATED \<or> certainty = MUT_UNCERTAIN"
  shows "emits (compensate_tunnel cl t e stage certainty)
     (compensated cl t {delete_tunnel_request cl t})"
  unfolding compensate_tunnel_def compensated_def
  by (rule emits_bindE[OF emits_delete_known_tunnel])
    (use assms in \<open>auto intro!: emit_intros simp: reports_def tunnel_report_def only_deletion_no_post
      split: if_splits dest!: provider_operation_error_cases\<close>)

lemma compensated_after:
  assumes "compensated cl t M evs' r" and "mutations evs \<subseteq> N"
    and "\<And>rq. rq \<in> N \<Longrightarrow> rq_method rq \<noteq> ''DELETE''"
    and "\<And>h t'. create_dns_request cl (h, t') \<notin> N" and "N \<union> M \<subseteq> M'"
  shows "compensated cl t M' (evs @ evs') r"
proof -
  from assms(1) obtain e where r: "r = Inl e" and rep: "reports cl t evs' e"
    and M: "mutations evs' \<subseteq> M"
    by (auto simp: compensated_def)
  have "tunnel_report cl t (evs @ evs') ev" if "tunnel_report cl t evs' ev" for ev
    using that assms(2,3,4) unfolding tunnel_report_def by (auto; blast)
  with rep have "reports cl t (evs @ evs') e"
    by (auto simp: reports_def)
  with r M assms(2,5) show ?thesis by (auto simp: compensated_def)
qed

lemma emits_configure_stage:
  "emits (configure_stage cl h origin t)
     (\<lambda>evs r. (r = Inr () \<and> mutations evs \<subseteq> {configure_tunnel_request cl (t, h, origin)}
           \<and> acknowledged (configure_tunnel_request cl (t, h, origin)) evs)
        \<or> compensated cl t
            {configure_tunnel_request cl (t, h, origin), delete_tunnel_request cl t} evs r)"
  unfolding configure_stage_def
proof (rule emits_bindE[OF emits_provider_attempt[OF emits_configure_tunnel]], goal_cases)
  case (1 x evs)
  show ?case
  proof (cases x)
    case (Inl e)
    have "emits (compensate_tunnel cl t e TUNNEL_CONFIGURATION
        (if is_transport_error e then MUT_UNCERTAIN else TUNNEL_CREATED))
        (compensated cl t {delete_tunnel_request cl t})"
      by (rule emits_compensate_tunnel) simp
    then show ?thesis
      unfolding Inl sum.case
      by (rule emits_mono, intro disjI2,
        elim compensated_after[where N="{configure_tunnel_request cl (t, h, origin)}"])
        (use 1 in auto)
  next
    case (Inr u)
    with 1 show ?thesis by (auto intro: emits_returnE)
  qed
next
  case (2 e evs)
  then show ?case by (auto simp: compensated_def reports_def)
qed

lemma emits_pre_mutation_stage:
  "emits (pre_mutation_stage cl h t)
     (\<lambda>evs r. (r = Inr () \<and> mutations evs = {} \<and> hostname_free cl h evs)
        \<or> compensated cl t {delete_tunnel_request cl t} evs r)"
  unfolding pre_mutation_stage_def
proof (rule emits_bindE[OF emits_provider_attempt[OF emits_observe_exact]], goal_cases)
  case (1 x evs)
  show ?case
  proof (cases x)
    case (Inl e)
    have "emits (compensate_tunnel cl t e DNS_PRE_MUTATION_OBSERVATION TUNNEL_CREATED)
        (compensated cl t {delete_tunnel_request cl t})"
      by (rule emits_compensate_tunnel) simp
    then show ?thesis
      unfolding Inl sum.case
      by (rule emits_mono, intro disjI2, elim compensated_after[where N="{}"]) (use 1 in auto)
  next
    case (Inr ob)
    have gone: "emits (bindE (delete_known_tunnel cl t) (\<lambda>cleanup.
        raiseE (hostname_observation_error ob DNS_PRE_MUTATION_OBSERVATION (Some t)
          TUNNEL_CREATED cleanup))) (compensated cl t {delete_tunnel_request cl t})"
      unfolding compensated_def
      by (rule emits_bindE[OF emits_delete_known_tunnel])
        (auto intro!: emit_intros simp: reports_def tunnel_report_def only_deletion_no_post
          split: if_splits dest!: hostname_observation_error_cases)
    have withheld: "emits (raiseE (hostname_observation_error ob DNS_PRE_MUTATION_OBSERVATION
        (Some t) MUT_UNCERTAIN WITHHELD)) (compensated cl t {delete_tunnel_request cl t})"
      unfolding compensated_def
      by (rule emits_raiseE)
        (auto simp: reports_def tunnel_report_def dest!: hostname_observation_error_cases)
    have [simp]: "mutations evs = {}" using 1 Inr by auto
    have after: "compensated cl t M evs' r \<Longrightarrow> compensated cl t M (evs @ evs') r" for M evs' r
      by (elim compensated_after[where N="{}"]) auto
    show ?thesis
      unfolding Inr sum.case
      by (intro emits_if emits_returnE emits_mono[OF gone] emits_mono[OF withheld])
        (use 1 Inr in \<open>auto intro: after\<close>)
  qed
next
  case (2 e evs)
  then show ?case by (auto simp: compensated_def reports_def)
qed

lemma validate_hostname_Inl:
  "validate_hostname s = Inl e \<Longrightarrow> \<exists>m. e = CloudflareApiError m"
  by (auto simp: validate_hostname_def Let_def bindR_Inl_iff reject_secret_text_def)

lemma tunnel_target_Inl:
  "tunnel_target s = Inl e \<Longrightarrow> \<exists>m. e = CloudflareApiError m"
  by (auto simp: tunnel_target_def bindR_Inl_iff dest: validate_identifier_Inl)

lemmas validation_errors = validate_identifier_Inl validate_hostname_Inl tunnel_target_Inl

lemma or_malformed_not_transport:
  "or_malformed cl m r = Inl e \<Longrightarrow> (\<And>e. r = Inl e \<Longrightarrow> \<not> is_transport_error e)
    \<Longrightarrow> \<not> is_transport_error e"
  by (auto simp: or_malformed_def split: sum.splits if_splits)

lemma result_text_not_transport: "result_text b k = Inl e \<Longrightarrow> \<not> is_transport_error e"
  by (auto simp: result_text_def mapping_text_def Let_def bindR_Inl_iff
      split: json.splits if_splits)

lemma emits_create_dns:
  "emits (create_dns_cname_unchecked cl h t)
     (\<lambda>evs r. mutations evs \<subseteq> {create_dns_request cl (h, t)}
        \<and> (\<forall>rid. r = Inr rid \<longrightarrow> record_created cl h t evs rid)
        \<and> (\<forall>e. r = Inl e \<and> is_transport_error e
              \<longrightarrow> unanswered (create_dns_request cl (h, t)) evs))"
proof -
  have post: "emits (bindE (request cl ''POST'' (records_path cl)
        (Some (dns_record_body h (t @ ''.cfargotunnel.com''))) None) (\<lambda>created.
        liftE (or_malformed cl ''Cloudflare DNS create response malformed''
          (result_text created ''id''))))
     (\<lambda>evs r. mutations evs \<subseteq> {create_dns_request cl (h, t)}
        \<and> (\<forall>rid. r = Inr rid \<longrightarrow> record_created cl h t evs rid)
        \<and> (\<forall>e. r = Inl e \<and> is_transport_error e
              \<longrightarrow> unanswered (create_dns_request cl (h, t)) evs))"
    by (rule emits_bindE[OF request_trace])
      (auto intro!: emit_intros simp: record_created_def create_dns_request_def or_malformed_Inr
        dest!: or_malformed_not_transport result_text_not_transport)
  show ?thesis
    unfolding create_dns_cname_unchecked_def
    by (rule emits_validated, rule emits_validated, rule emits_validated)
      (auto dest!: tunnel_target_Inr validation_errors intro: emits_mono[OF post])
qed

lemma classify_reconciled_targets:
  "classify_reconciled_dns_records controls records h t = Inr ob \<Longrightarrow>
     ob_state ob = TARGETS_TUNNEL \<Longrightarrow> ob_dns_record_id ob = Some rid \<Longrightarrow>
     \<exists>rec. records = [rec] \<and> json_get rec ''proxied'' = JBool True
       \<and> dns_record_fields rec = Inr (rid, ''CNAME'', h, t @ ''.cfargotunnel.com'')"
  by (auto simp: classify_reconciled_dns_records_def observed_def bindR_Inr_iff
      split: list.splits if_splits sum.splits prod.splits dest!: tunnel_target_Inr)

lemma emits_reconciled:
  "emits (observe_reconciled_exact_hostname cl h t)
     (\<lambda>evs r. mutations evs = {}
        \<and> (\<forall>ob rid. r = Inr ob \<and> ob_state ob = TARGETS_TUNNEL \<and> ob_dns_record_id ob = Some rid
             \<longrightarrow> (\<exists>page rec. answered (page_request cl h) page evs
                    \<and> json_get page ''result'' = JList [rec] \<and> page_consistent page [rec]
                    \<and> json_get rec ''proxied'' = JBool True
                    \<and> dns_record_fields rec
                        = Inr (rid, ''CNAME'', h, t @ ''.cfargotunnel.com''))))"
proof -
  have page: "emits (read_dns_reconciliation_page cl h)
     (\<lambda>evs r. mutations evs = {}
        \<and> (\<forall>page. r = Inr page \<longrightarrow> answered (page_request cl h) page evs))"
    unfolding read_dns_reconciliation_page_def
    by (rule emits_validated) (auto intro!: emits_mono[OF request_trace] simp: page_request_def)
  show ?thesis
    unfolding observe_reconciled_exact_hostname_def
  proof (rule emits_bindE[OF page], goal_cases)
    case (1 body evs)
    then show ?case
      by (cases "json_get body ''result''")
        (auto intro!: emits_raiseE emits_validated emits_returnE simp: observed_def
          split: if_splits dest!: classify_reconciled_targets)
  qed auto
qed

lemma emits_reconcile_dns:
  assumes "mutations evs0 \<subseteq> {create_dns_request cl (h, t)}"
    and "is_transport_error e0 \<Longrightarrow> unanswered (create_dns_request cl (h, t)) evs0"
  shows "emits (reconcile_dns cl h t e0)
     (\<lambda>evs r. (\<exists>rid. r = Inr rid \<and> mutations evs = {} \<and> record_owned cl h t (evs0 @ evs) rid)
        \<or> compensated cl t {create_dns_request cl (h, t), delete_tunnel_request cl t}
            (evs0 @ evs) r)"
  unfolding reconcile_dns_def
proof (rule emits_bindE[OF emits_provider_attempt[OF emits_reconciled]], goal_cases)
  case (1 x evs)
  have nodel: "\<forall>rq\<in>mutations evs0. rq_method rq \<noteq> ''DELETE''"
    using assms(1) by auto
  show ?case
  proof (cases x)
    case (Inl e)
    with 1 assms(1) nodel show ?thesis
      by (auto intro!: emit_intros simp: compensated_def reports_def tunnel_report_def
          dest!: provider_operation_error_cases)
  next
    case (Inr ob)
    with 1 have [simp]: "mutations evs = {}" by auto
    let ?fail = "bindE (if ob_state ob = HOST_ABSENT \<or> ob_state ob = OCCUPIED
         then delete_known_tunnel cl t else returnE WITHHELD) (\<lambda>cleanup.
       if \<not> is_provider_operation_failure e0
       then (if cleanup = CLEANUP_UNCERTAIN
             then raiseE (CloudflareApiError ''Cloudflare exact cleanup is uncertain: tunnel'')
             else raiseE e0)
       else raiseE (provider_operation_error (exn_message e0) DNS_CREATE
              (provider_failure_category e0) MUT_UNCERTAIN (Some t)
              (ob_dns_record_id ob) cleanup))"
    have cleanup: "emits (if ob_state ob = HOST_ABSENT \<or> ob_state ob = OCCUPIED
         then delete_known_tunnel cl t else returnE WITHHELD)
       (\<lambda>evs r. mutations evs \<subseteq> {delete_tunnel_request cl t}
          \<and> (\<forall>e. r = Inl e \<longrightarrow> stops (cl_control_errors cl) e)
          \<and> (\<forall>c. r = Inr c \<longrightarrow> (c = WITHHELD \<and> mutations evs = {})
               \<or> (c = COMPLETE \<and> acknowledged (delete_tunnel_request cl t) evs)
               \<or> c = CLEANUP_UNCERTAIN))"
      by (rule emits_if)
        (auto intro!: emits_mono[OF emits_delete_known_tunnel] emits_returnE split: if_splits)
    have fail: "emits ?fail (\<lambda>evs' r.
        compensated cl t {create_dns_request cl (h, t), delete_tunnel_request cl t}
          (evs0 @ evs @ evs') r)"
      apply (rule emits_bindE[OF cleanup])
      using assms(1) nodel
      by (auto intro!: emit_intros simp: compensated_def reports_def tunnel_report_def
          dest!: provider_operation_error_cases)
    have owned: "record_owned cl h t (evs0 @ evs) rid"
      if "is_transport_error e0" "ob_state ob = TARGETS_TUNNEL" "ob_dns_record_id ob = Some rid"
      for rid
    proof -
      from 1 Inr that obtain page rec where "answered (page_request cl h) page evs"
        "json_get page ''result'' = JList [rec]" "page_consistent page [rec]"
        "json_get rec ''proxied'' = JBool True"
        "dns_record_fields rec = Inr (rid, ''CNAME'', h, t @ ''.cfargotunnel.com'')"
        by auto
      with assms(2)[OF that(1)] show ?thesis
        by (auto simp: record_owned_def record_reconciled_def)
    qed
    show ?thesis
    proof (cases "is_transport_error e0 \<and> ob_state ob = TARGETS_TUNNEL
        \<and> ob_dns_record_id ob \<noteq> None")
      case True
      with owned show ?thesis by (auto simp: Inr intro!: emits_returnE)
    next
      case False
      then have eq: "(case (is_transport_error e0, ob_state ob, ob_dns_record_id ob) of
           (True, TARGETS_TUNNEL, Some rid) \<Rightarrow> returnE rid | _ \<Rightarrow> ?fail) = ?fail"
        by (cases "is_transport_error e0"; cases "ob_state ob"; cases "ob_dns_record_id ob"; simp)
      show ?thesis
        unfolding Inr sum.case eq by (rule emits_mono[OF fail]) simp
    qed
  qed
next
  case (2 e evs)
  then show ?case using assms(1) by (auto simp: compensated_def reports_def)
qed

lemma emits_dns_stage:
  "emits (dns_stage cl h t)
     (\<lambda>evs r. (\<exists>rid. r = Inr rid \<and> mutations evs \<subseteq> {create_dns_request cl (h, t)}
            \<and> record_owned cl h t evs rid)
        \<or> compensated cl t {create_dns_request cl (h, t), delete_tunnel_request cl t} evs r)"
  unfolding dns_stage_def
proof (rule emits_bindE[OF emits_provider_attempt[OF emits_create_dns]], goal_cases)
  case (1 x evs)
  show ?case
  proof (cases x)
    case (Inl e)
    with 1 show ?thesis
      by (auto intro!: emits_mono[OF emits_reconcile_dns[of evs]])
  next
    case (Inr rid)
    with 1 show ?thesis by (auto intro!: emits_returnE simp: record_owned_def)
  qed
next
  case (2 e evs)
  then show ?case by (auto simp: compensated_def reports_def)
qed

text \<open>After the record is owned, a failure is compensated on both resources.\<close>

definition late_compensated ::
  "'w api_client \<Rightarrow> string \<Rightarrow> http_request set \<Rightarrow> cf_event list \<Rightarrow> cf_exn + 'a \<Rightarrow> bool" where
  "late_compensated cl t M evs r \<longleftrightarrow>
     mutations evs \<subseteq> M \<and> (\<exists>e. r = Inl e \<and> (stops (cl_control_errors cl) e
        \<or> (\<forall>m ev. e = CloudflareProviderOperationError m ev \<longrightarrow>
             tunnel_report cl t evs ev \<and> ev_mutation_certainty ev \<noteq> TUNNEL_CREATED
             \<and> ev_cleanup_result ev \<noteq> WITHHELD)))"

lemma late_compensated_after:
  assumes "late_compensated cl t M evs' r"
  shows "compensated cl t (mutations evs \<union> M) (evs @ evs') r"
  using assms unfolding late_compensated_def compensated_def reports_def tunnel_report_def by auto

lemma emits_get_token:
  "emits (get_tunnel_token cl t)
     (\<lambda>evs r. mutations evs = {} \<and> (\<forall>tok. r = Inr tok \<longrightarrow>
        (\<exists>body text. answered (token_request cl t) body evs \<and> json_get body ''result'' = JStr text
           \<and> cl_secret_value cl text = Inr tok)))"
  unfolding get_tunnel_token_def
  by (rule emits_validated, rule emits_bindE[OF request_trace])
    (auto intro!: emit_intros simp: token_request_def split: json.split)

lemma emits_cleanup_created:
  "emits (cleanup_created_ingress cl t rid None)
     (\<lambda>evs r. mutations evs \<subseteq> {delete_dns_record_request cl rid, delete_tunnel_request cl t}
        \<and> (\<forall>e. r = Inl e \<longrightarrow> stops (cl_control_errors cl) e)
        \<and> (\<forall>c failed. r = Inr (c, failed) \<longrightarrow>
              failed = [] \<and> c = COMPLETE \<and> acknowledged (delete_dns_record_request cl rid) evs
                  \<and> acknowledged (delete_tunnel_request cl t) evs
              \<or> failed \<noteq> [] \<and> c = CLEANUP_UNCERTAIN))"
proof -
  let ?stages = "[(''dns'', delete_dns_record cl rid), (''tunnel'', delete_tunnel cl t)]"
  have spec: "implements ?stages
      [(''dns'', deletion_shape (delete_dns_record_request cl rid)),
       (''tunnel'', deletion_shape (delete_tunnel_request cl t))]"
    by (simp add: emits_deletions)
  have muts: "emits (attempt_exact_cleanup (cl_control_errors cl) ?stages)
      (\<lambda>evs r. list_all (\<lambda>ev. \<exists>rq hr. ev = Http rq hr
         \<and> rq \<in> {delete_dns_record_request cl rid, delete_tunnel_request cl t}) evs)"
    by (rule only_emits_emits, rule only_emits_cleanup)
      (auto intro: only_emits_mono[OF del_tunnel.only_this] only_emits_mono[OF del_dns.only_this])
  show ?thesis
    unfolding cleanup_created_ingress_def option.case append.simps
    by (rule emits_bindE[OF emits_conj[OF emits_cleanup[OF spec] muts]])
      (auto intro!: emits_returnE simp: deletion_shape_def list_all_iff mutations_def
        split: if_splits)
qed

lemma emits_token_stage:
  "emits (token_stage cl t rid)
     (\<lambda>evs r. (\<exists>tok. r = Inr tok \<and> mutations evs = {})
        \<or> late_compensated cl t
            {delete_dns_record_request cl rid, delete_tunnel_request cl t} evs r)"
  unfolding token_stage_def
proof (rule emits_bindE[OF emits_provider_attempt[OF emits_get_token]], goal_cases)
  case (1 x evs)
  show ?case
  proof (cases x)
    case (Inr tok)
    with 1 show ?thesis by (auto intro!: emits_returnE)
  next
    case (Inl e)
    with 1 have [simp]: "mutations evs = {}" by auto
    show ?thesis
      unfolding Inl sum.case
      by (rule emits_bindE[OF emits_cleanup_created])
        (auto intro!: emit_intros simp: late_compensated_def tunnel_report_def
          split: if_splits dest!: provider_operation_error_cases)
  qed
next
  case (2 e evs)
  then show ?case by (auto simp: late_compensated_def)
qed

section \<open>The whole sequence\<close>

text \<open>The requests an ingress creation may send that change the provider.\<close>

definition owned_mutation ::
  "'w api_client \<Rightarrow> string \<Rightarrow> string \<Rightarrow> string \<Rightarrow> cf_event list \<Rightarrow> http_request \<Rightarrow> bool" where
  "owned_mutation cl name h origin evs rq \<longleftrightarrow>
     rq = create_tunnel_request cl name
     \<or> (\<exists>t. tunnel_allocated cl name evs t
          \<and> (rq = configure_tunnel_request cl (t, h, origin)
             \<or> rq = create_dns_request cl (h, t)
             \<or> rq = delete_tunnel_request cl t
             \<or> (\<exists>rid. record_owned cl h t evs rid \<and> rq = delete_dns_record_request cl rid)))"

definition evidence_true ::
  "'w api_client \<Rightarrow> string \<Rightarrow> cf_event list \<Rightarrow> failure_evidence \<Rightarrow> bool" where
  "evidence_true cl name evs ev \<longleftrightarrow>
     (ev_mutation_certainty ev = MUT_NONE \<longrightarrow>
        mutations evs = {} \<and> ev_cleanup_result ev = NOT_REQUIRED \<and> ev_tunnel_id ev = None)
     \<and> (\<forall>t. ev_tunnel_id ev = Some t \<longrightarrow>
          tunnel_allocated cl name evs t \<and> tunnel_report cl t evs ev)
     \<and> (ev_tunnel_id ev = None \<and> ev_mutation_certainty ev \<noteq> MUT_NONE \<longrightarrow>
          ev_mutation_certainty ev = MUT_UNCERTAIN \<and> ev_cleanup_result ev = WITHHELD
          \<and> mutations evs \<subseteq> {create_tunnel_request cl name})"

definition established ::
  "'w api_client \<Rightarrow> string \<Rightarrow> string \<Rightarrow> string \<Rightarrow> cf_event list \<Rightarrow> created_ingress \<Rightarrow> bool" where
  "established cl name h origin evs c \<longleftrightarrow>
     hostname_free cl h evs
     \<and> tunnel_allocated cl name evs (ci_tunnel_id c)
     \<and> acknowledged (configure_tunnel_request cl (ci_tunnel_id c, h, origin)) evs
     \<and> record_owned cl h (ci_tunnel_id c) evs (ci_dns_record_id c)
     \<and> (\<forall>rq \<in> mutations evs. rq_method rq \<noteq> ''DELETE'')"

definition create_outcome ::
  "'w api_client \<Rightarrow> string \<Rightarrow> string \<Rightarrow> string \<Rightarrow> cf_event list \<Rightarrow> cf_exn + created_ingress
    \<Rightarrow> bool" where
  "create_outcome cl name h origin evs r \<longleftrightarrow>
     (\<forall>rq \<in> mutations evs. owned_mutation cl name h origin evs rq)
     \<and> (mutations evs \<noteq> {} \<longrightarrow> hostname_free cl h evs)
     \<and> (case r of
          Inr c \<Rightarrow> established cl name h origin evs c
        | Inl e \<Rightarrow> stops (cl_control_errors cl) e
            \<or> (\<forall>m ev. e = CloudflareProviderOperationError m ev \<longrightarrow>
                 evidence_true cl name evs ev))"

lemma emits_allocate_tunnel:
  "emits (allocate_tunnel cl h name)
     (\<lambda>evs r. mutations evs \<subseteq> {create_tunnel_request cl name}
        \<and> (mutations evs \<noteq> {} \<or> \<not> isl r \<longrightarrow> hostname_free cl h evs)
        \<and> (\<forall>t. r = Inr t \<longrightarrow> tunnel_allocated cl name evs t)
        \<and> (\<forall>e m ev. r = Inl e \<and> e = CloudflareProviderOperationError m ev \<longrightarrow>
             stops (cl_control_errors cl) e \<or> evidence_true cl name evs ev))"
  unfolding allocate_tunnel_def
proof (rule emits_bindE[OF emits_provider_attempt[OF emits_observe_exact]], goal_cases)
  case (1 x evs)
  show ?case
  proof (cases x)
    case (Inl e)
    with 1 show ?thesis
      by (auto intro!: emit_intros simp: evidence_true_def dest!: provider_operation_error_cases)
  next
    case (Inr ob)
    with 1 have [simp]: "mutations evs = {}" by auto
    show ?thesis
    proof (cases "ob_state ob = HOST_ABSENT")
      case False
      with Inr show ?thesis
        by (auto intro!: emit_intros simp: evidence_true_def
            dest!: hostname_observation_error_cases)
    next
      case True
      with 1 Inr have free: "hostname_free cl h evs" by auto
      show ?thesis
        unfolding Inr sum.case
        apply (simp add: True)
        apply (rule emits_bindE[OF emits_provider_attempt[OF emits_create_tunnel[of cl name]]])
        using free
        by (auto intro!: emit_intros simp: evidence_true_def split: sum.split
            dest!: provider_operation_error_cases)
    qed
  qed
next
  case (2 e evs)
  then show ?case by auto
qed

lemma owned_mutation_intros [intro]:
  "owned_mutation cl name h origin evs (create_tunnel_request cl name)"
  "tunnel_allocated cl name evs t
    \<Longrightarrow> owned_mutation cl name h origin evs (configure_tunnel_request cl (t, h, origin))"
  "tunnel_allocated cl name evs t
    \<Longrightarrow> owned_mutation cl name h origin evs (create_dns_request cl (h, t))"
  "tunnel_allocated cl name evs t
    \<Longrightarrow> owned_mutation cl name h origin evs (delete_tunnel_request cl t)"
  "tunnel_allocated cl name evs t \<Longrightarrow> record_owned cl h t evs rid
    \<Longrightarrow> owned_mutation cl name h origin evs (delete_dns_record_request cl rid)"
  unfolding owned_mutation_def by blast+

lemma outcome_compensated:
  assumes "compensated cl t M evs r" "tunnel_allocated cl name evs t" "hostname_free cl h evs"
    and "\<And>rq. rq \<in> M \<Longrightarrow> owned_mutation cl name h origin evs rq"
  shows "create_outcome cl name h origin evs r"
  using assms unfolding create_outcome_def compensated_def reports_def
  by (auto simp: evidence_true_def tunnel_report_def)

lemma emits_checked_id:
  "emits (checked_id cl v label)
     (\<lambda>evs r. evs = [] \<and> (\<forall>e. r = Inl e \<longrightarrow> (\<exists>m. e = CloudflareApiError m)))"
  by (auto simp: checked_id_def intro!: emit_intros dest: validate_identifier_Inl)

text \<open>The facts a prefix of the sequence has established.\<close>

definition prepared_trace ::
  "'w api_client \<Rightarrow> string \<Rightarrow> string \<Rightarrow> cf_event list \<Rightarrow> string \<Rightarrow> http_request set \<Rightarrow> bool" where
  "prepared_trace cl name h evs t M \<longleftrightarrow>
     tunnel_allocated cl name evs t \<and> hostname_free cl h evs \<and> mutations evs \<subseteq> M"

lemma outcome_raised:
  assumes "prepared_trace cl name h evs t M"
    and "\<And>rq. rq \<in> M \<Longrightarrow> owned_mutation cl name h origin evs rq"
    and "stops (cl_control_errors cl) e \<or> (\<exists>m. e = CloudflareApiError m)"
  shows "create_outcome cl name h origin evs (Inl e)"
  using assms unfolding create_outcome_def prepared_trace_def by auto

lemma emits_after_dns:
  assumes pre: "prepared_trace cl name h evs0 t
      {create_tunnel_request cl name, configure_tunnel_request cl (t, h, origin),
       create_dns_request cl (h, t)}"
    and conf: "acknowledged (configure_tunnel_request cl (t, h, origin)) evs0"
    and own: "record_owned cl h t evs0 rid"
  shows "emits (bindE (checked_id cl rid ''dns_record_id'') (\<lambda>_.
      bindE (token_stage cl t rid) (\<lambda>token.
      returnE \<lparr>ci_tunnel_id = t, ci_dns_record_id = rid, ci_token = token\<rparr>)))
    (\<lambda>evs. create_outcome cl name h origin (evs0 @ evs))"
proof (rule emits_bindE[OF emits_checked_id], goal_cases)
  case (1 u evs)
  have alloc: "tunnel_allocated cl name evs0 t" using pre by (simp add: prepared_trace_def)
  have owned: "owned_mutation cl name h origin (evs0 @ evs) rq"
    if "rq \<in> mutations evs0 \<union> {delete_dns_record_request cl rid, delete_tunnel_request cl t}"
    for rq evs
    using that pre own
    by (auto simp: prepared_trace_def dest!: subsetD intro: owned_mutation_intros(5)[where t=t])
  from 1 have [simp]: "evs = []" by simp
  show ?case
  proof (rule emits_bindE[OF emits_token_stage], goal_cases)
    case (1 token evs)
    have "\<forall>rq \<in> mutations evs0. rq_method rq \<noteq> ''DELETE''"
      using pre by (auto simp: prepared_trace_def dest: subsetD)
    with 1 pre conf own owned show ?case
      by (auto intro!: emits_returnE
          simp: create_outcome_def established_def prepared_trace_def late_compensated_def)
  next
    case (2 e evs)
    then have "late_compensated cl t {delete_dns_record_request cl rid, delete_tunnel_request cl t}
        evs (Inl e :: cf_exn + created_ingress)"
      by (auto simp: late_compensated_def)
    from late_compensated_after[OF this, of evs0] pre owned show ?case
      by (auto intro!: outcome_compensated simp: prepared_trace_def)
  qed
next
  case (2 e evs)
  with pre own show ?case
    by (auto intro!: outcome_raised[OF pre] simp: prepared_trace_def)
qed

lemma emits_after_configure:
  assumes pre: "prepared_trace cl name h evs0 t
      {create_tunnel_request cl name, configure_tunnel_request cl (t, h, origin)}"
    and conf: "acknowledged (configure_tunnel_request cl (t, h, origin)) evs0"
  shows "emits (bindE (pre_mutation_stage cl h t) (\<lambda>_.
      bindE (dns_stage cl h t) (\<lambda>rid.
      bindE (checked_id cl rid ''dns_record_id'') (\<lambda>_.
      bindE (token_stage cl t rid) (\<lambda>token.
      returnE \<lparr>ci_tunnel_id = t, ci_dns_record_id = rid, ci_token = token\<rparr>)))))
    (\<lambda>evs. create_outcome cl name h origin (evs0 @ evs))"
proof -
  let ?N = "{create_tunnel_request cl name, configure_tunnel_request cl (t, h, origin)}"
  have muts: "mutations evs0 \<subseteq> ?N" and nodel: "\<And>rq. rq \<in> ?N \<Longrightarrow> rq_method rq \<noteq> ''DELETE''"
    and nopost: "\<And>h' t'. create_dns_request cl (h', t') \<notin> ?N"
    using pre by (auto simp: prepared_trace_def)
  have owned: "owned_mutation cl name h origin (evs0 @ evs) rq"
    if "rq \<in> ?N \<union> {create_dns_request cl (h, t), delete_tunnel_request cl t}" for rq evs
    using that pre by (auto simp: prepared_trace_def)
  have fail: "create_outcome cl name h origin (evs0 @ evs) r"
    if "compensated cl t {create_dns_request cl (h, t), delete_tunnel_request cl t} evs r"
    for evs r
    by (rule outcome_compensated[OF compensated_after[OF that muts nodel nopost order.refl]])
      (use pre owned in \<open>auto simp: prepared_trace_def\<close>)
  have weaker: "compensated cl t {create_dns_request cl (h, t), delete_tunnel_request cl t} evs r"
    if "compensated cl t {delete_tunnel_request cl t} evs r"
    for evs and r :: "cf_exn + created_ingress"
    using that by (auto simp: compensated_def)
  show ?thesis
  proof (rule emits_bindE[OF emits_pre_mutation_stage], goal_cases)
    case (1 u evs1)
    then have evs1: "mutations evs1 = {}" by (auto simp: compensated_def)
    show ?case
    proof (rule emits_bindE[OF emits_dns_stage], goal_cases)
      case (1 rid evs2)
      then have "emits (bindE (checked_id cl rid ''dns_record_id'') (\<lambda>_.
          bindE (token_stage cl t rid) (\<lambda>token.
          returnE \<lparr>ci_tunnel_id = t, ci_dns_record_id = rid, ci_token = token\<rparr>)))
        (\<lambda>evs. create_outcome cl name h origin ((evs0 @ evs1 @ evs2) @ evs))"
        using pre conf evs1
        by (intro emits_after_dns) (auto simp: prepared_trace_def compensated_def)
      then show ?case by simp
    next
      case (2 e evs2)
      then have "compensated cl t {create_dns_request cl (h, t), delete_tunnel_request cl t}
          evs2 (Inl e :: cf_exn + created_ingress)"
        by (auto simp: compensated_def)
      from compensated_after[OF this, of evs1 "{}"] evs1 show ?case
        by (auto intro!: fail)
    qed
  next
    case (2 e evs1)
    then show ?case
      by (intro fail weaker) (auto simp: compensated_def)
  qed
qed

lemma emits_create_provider:
  "emits (create_provider cl h name origin) (create_outcome cl name h origin)"
  unfolding create_provider_def
proof (rule emits_bindE[OF emits_allocate_tunnel], goal_cases)
  case (1 t evs1)
  then have pre: "prepared_trace cl name h evs1 t {create_tunnel_request cl name}"
    by (auto simp: prepared_trace_def)
  have owned: "owned_mutation cl name h origin (evs1 @ evs) rq"
    if "rq \<in> {create_tunnel_request cl name, configure_tunnel_request cl (t, h, origin),
          delete_tunnel_request cl t}" for rq evs
    using that pre by (auto simp: prepared_trace_def)
  show ?case
  proof (rule emits_bindE[OF emits_checked_id], goal_cases)
    case (1 u evs)
    then have [simp]: "evs = []" by simp
    show ?case
    proof (rule emits_bindE[OF emits_configure_stage], goal_cases)
      case (1 u evs2)
      then have "emits (bindE (pre_mutation_stage cl h t) (\<lambda>_.
          bindE (dns_stage cl h t) (\<lambda>rid.
          bindE (checked_id cl rid ''dns_record_id'') (\<lambda>_.
          bindE (token_stage cl t rid) (\<lambda>token.
          returnE \<lparr>ci_tunnel_id = t, ci_dns_record_id = rid, ci_token = token\<rparr>)))))
        (\<lambda>evs. create_outcome cl name h origin ((evs1 @ evs2) @ evs))"
        using pre by (intro emits_after_configure) (auto simp: prepared_trace_def compensated_def)
      then show ?case by simp
    next
      case (2 e evs2)
      then have "compensated cl t {configure_tunnel_request cl (t, h, origin),
          delete_tunnel_request cl t} evs2 (Inl e :: cf_exn + created_ingress)"
        by (auto simp: compensated_def)
      then have "compensated cl t ({create_tunnel_request cl name} \<union>
          {configure_tunnel_request cl (t, h, origin), delete_tunnel_request cl t})
          (evs1 @ evs2) (Inl e :: cf_exn + created_ingress)"
        by (rule compensated_after) (use pre in \<open>auto simp: prepared_trace_def\<close>)
      then have "create_outcome cl name h origin (evs1 @ evs2) (Inl e)"
        by (rule outcome_compensated) (use pre owned in \<open>auto simp: prepared_trace_def\<close>)
      then show ?case by simp
    qed
  next
    case (2 e evs)
    with pre owned[of _ "[]"] show ?case by (auto intro!: outcome_raised[OF pre])
  qed
next
  case (2 e evs)
  then show ?case
    by (auto simp: create_outcome_def dest: subsetD)
qed

end
