(* ===== verification/Cloudflare_Retain_Facts.thy ===== *)
theory Cloudflare_Retain_Facts
  imports Cloudflare_Retain Cloudflare_Create_Facts
begin

text \<open>
  What the retained lifecycle does to the provider: the observations of a reservation and of
  a tunnel, and the laws of rebinding, deactivation, release and teardown for one client.
\<close>

section \<open>Observations\<close>

text \<open>
  The provider answered with the reserved record: its exact identifier, a proxied CNAME of the
  reserved hostname, targeting the tunnel.
\<close>

definition reservation_at ::
  "'w api_client \<Rightarrow> hostname_reservation \<Rightarrow> string \<Rightarrow> cf_event list \<Rightarrow> bool" where
  "reservation_at cl rv t evs \<longleftrightarrow>
     (\<exists>body name. answered (record_request cl (rv_dns_record_id rv)) body evs
        \<and> mapping_text (json_get body ''result'') ''id'' = Inr (rv_dns_record_id rv)
        \<and> mapping_text (json_get body ''result'') ''type'' = Inr ''CNAME''
        \<and> mapping_text (json_get body ''result'') ''name'' = Inr name
        \<and> py_lower name = py_lower (rv_hostname rv)
        \<and> json_get (json_get body ''result'') ''proxied'' = JBool True
        \<and> mapping_text (json_get body ''result'') ''content'' = Inr (t @ tunnel_suffix))"

definition not_found :: "http_request \<Rightarrow> cf_event list \<Rightarrow> bool" where
  "not_found rq evs \<longleftrightarrow>
     (\<exists>response. Http rq (Inr response) \<in> set evs \<and> rs_status_code response = 404)"

text \<open>The provider no longer has the tunnel: it is not found, or carries a deletion marker.\<close>

definition tunnel_gone :: "'w api_client \<Rightarrow> string \<Rightarrow> cf_event list \<Rightarrow> bool" where
  "tunnel_gone cl t evs \<longleftrightarrow>
     not_found (tunnel_request cl t) evs
     \<or> (\<exists>body marker. answered (tunnel_request cl t) body evs
          \<and> json_get (json_get body ''result'') ''deleted_at'' = JStr marker \<and> py_strip marker \<noteq> [])"

lemma observation_append [simp]:
  "reservation_at cl rv t a \<Longrightarrow> reservation_at cl rv t (a @ b)"
  "reservation_at cl rv t b \<Longrightarrow> reservation_at cl rv t (a @ b)"
  "not_found rq a \<Longrightarrow> not_found rq (a @ b)"
  "not_found rq b \<Longrightarrow> not_found rq (a @ b)"
  "tunnel_gone cl u a \<Longrightarrow> tunnel_gone cl u (a @ b)"
  "tunnel_gone cl u b \<Longrightarrow> tunnel_gone cl u (a @ b)"
  by (auto simp: reservation_at_def not_found_def tunnel_gone_def; metis)+

lemma not_found_is_exception [simp]: "is_not_found e \<Longrightarrow> is_exception e"
  by (cases e) auto

lemma get_trace:
  assumes "cl_control_errors cl = []"
  shows "emits (request cl ''GET'' p None None)
    (\<lambda>evs r. mutations evs = {}
       \<and> (\<forall>body. r = Inr body \<longrightarrow> answered (api_request cl ''GET'' p None None) body evs)
       \<and> (\<forall>e. r = Inl e \<and> is_not_found e \<longrightarrow> not_found (api_request cl ''GET'' p None None) evs))"
  unfolding request_def Let_def
  by (rule emits_attemptE[OF emits_callE_eq])
    (use assms in \<open>auto intro!: emit_intros simp: check_response_def caught_by_def not_found_def
       Let_def split: if_splits dest: not_found_is_exception\<close>)

lemma emits_get_dns:
  assumes "cl_control_errors cl = []"
  shows "emits (get_dns_record cl rid)
    (\<lambda>evs r. mutations evs = {}
       \<and> (\<forall>rec. r = Inr rec \<longrightarrow> (\<exists>body. answered (record_request cl rid) body evs
            \<and> json_get body ''result'' = rec))
       \<and> (\<forall>e. r = Inl e \<and> is_not_found e \<longrightarrow> not_found (record_request cl rid) evs))"
  unfolding get_dns_record_def
  by (rule emits_validated, rule emits_bindE[OF get_trace[OF assms]])
    (auto intro!: emit_intros simp: record_request_def dest: validate_identifier_Inl)

lemma emits_get_tunnel:
  assumes "cl_control_errors cl = []"
  shows "emits (get_tunnel cl t)
    (\<lambda>evs r. mutations evs = {}
       \<and> (\<forall>j. r = Inr j \<longrightarrow> (\<exists>body. answered (tunnel_request cl t) body evs
            \<and> json_get body ''result'' = j))
       \<and> (\<forall>e. r = Inl e \<and> is_not_found e \<longrightarrow> not_found (tunnel_request cl t) evs))"
  unfolding get_tunnel_def
  by (rule emits_validated, rule emits_bindE[OF get_trace[OF assms]])
    (auto intro!: emit_intros simp: tunnel_request_def dest: validate_identifier_Inl)

lemma removesuffix_append: "py_endswith s x \<Longrightarrow> py_removesuffix s x @ x = s"
  by (auto simp: py_endswith_def py_removesuffix_def) (metis append_take_drop_id)

lemma read_reservation_record_Inr:
  assumes "read_reservation_record rv rec = Inr ob"
  obtains name t where "ro_presence ob = PRESENT" "ro_tunnel_id ob = Some t"
    "mapping_text rec ''id'' = Inr (rv_dns_record_id rv)"
    "mapping_text rec ''type'' = Inr ''CNAME''" "mapping_text rec ''name'' = Inr name"
    "py_lower name = py_lower (rv_hostname rv)" "json_get rec ''proxied'' = JBool True"
    "mapping_text rec ''content'' = Inr (t @ tunnel_suffix)"
  using assms
  by (auto dest!: removesuffix_append[symmetric] simp: read_reservation_record_def bindR_Inr_iff Let_def make_reservation_observation_def)

lemma emits_observe_reservation:
  assumes "cl_control_errors cl = []"
  shows "emits (observe_hostname_reservation cl rv)
    (\<lambda>evs r. mutations evs = {}
       \<and> (\<forall>ob. r = Inr ob \<longrightarrow>
            (ro_presence ob = PRESENT
               \<longrightarrow> (\<exists>t. ro_tunnel_id ob = Some t \<and> reservation_at cl rv t evs))
            \<and> (ro_presence ob = RES_ABSENT
               \<longrightarrow> not_found (record_request cl (rv_dns_record_id rv)) evs)))"
  unfolding observe_hostname_reservation_def
proof (rule emits_attemptE[OF emits_get_dns[OF assms]], goal_cases)
  case (1 rec evs)
  then show ?case
    by (auto intro!: emit_intros elim!: read_reservation_record_Inr simp: reservation_at_def)
next
  case (2 e evs)
  then show ?case
    by (auto intro!: emit_intros simp: make_reservation_observation_def bindR_Inr_iff)
qed

lemma emits_expect_reservation:
  assumes "cl_control_errors cl = []"
  shows "emits (expect_reservation cl rv)
    (\<lambda>evs r. mutations evs = {}
       \<and> (\<forall>ob. r = Inr ob \<longrightarrow> reservation_at cl rv (rv_expected_tunnel_id rv) evs))"
  unfolding expect_reservation_def
  by (rule emits_bindE[OF emits_observe_reservation[OF assms]])
    (auto intro!: emit_intros simp: require_expected_reservation_def require_observed_tunnel_def
      bindR_Inr_iff split: if_splits)

lemma emits_observe_tunnel:
  assumes "cl_control_errors cl = []"
  shows "emits (observe_tunnel cl t)
    (\<lambda>evs r. mutations evs = {}
       \<and> (\<forall>ob. r = Inr ob \<and> to_presence ob = RES_ABSENT \<longrightarrow> tunnel_gone cl t evs))"
  unfolding observe_tunnel_def
proof (rule emits_attemptE[OF emits_get_tunnel[OF assms]], goal_cases)
  case (1 j evs)
  then show ?case
    by (auto intro!: emit_intros simp: bindR_Inr_iff tunnel_gone_def make_tunnel_observation_def
        split: json.splits if_splits)
next
  case (2 e evs)
  then show ?case
    by (auto intro!: emit_intros simp: tunnel_gone_def)
qed

section \<open>Stages\<close>

definition revocation :: "cf_event list \<Rightarrow> cf_exn + unit \<Rightarrow> bool" where
  "revocation evs r \<longleftrightarrow> evs = [CustodyRevoke r]"

definition revoked :: "cf_event list \<Rightarrow> bool" where
  "revoked evs \<longleftrightarrow> CustodyRevoke (Inr ()) \<in> set evs"

definition revocation_tried :: "cf_event list \<Rightarrow> bool" where
  "revocation_tried evs \<longleftrightarrow> (\<exists>r. CustodyRevoke r \<in> set evs)"

lemma emits_revocation:
  "emits (bindE (custody_revoke cu grant) (\<lambda>_. returnE ())) revocation"
  unfolding custody_revoke_def
  by (rule emits_bindE[OF emits_callE_eq]) (auto intro!: emits_returnE simp: revocation_def outcome_of_def)

lemma revocation_facts:
  "revocation evs r \<Longrightarrow> mutations evs = {} \<and> (r = Inr () \<longrightarrow> revoked evs)"
  by (auto simp: revocation_def revoked_def)

lemma revoked_append [simp]:
  "revoked (a @ b) \<longleftrightarrow> revoked a \<or> revoked b"
  by (auto simp: revoked_def)

lemma deletion_facts:
  "deletion_shape rq evs r \<Longrightarrow> mutations evs \<subseteq> {rq} \<and> (r = Inr () \<longrightarrow> acknowledged rq evs)"
  by (auto simp: deletion_shape_def)

lemma unit_outcome_cases: "isl r \<or> r = Inr ()" for r :: "'e + unit"
  by (cases r) auto

text \<open>
  A cleanup whose stages each change at most the requests \<open>M\<close> changes at most these, and a
  cleanup that names no failed stage completed every one.
\<close>

definition stage_within :: "http_request set \<Rightarrow> (cf_event list \<Rightarrow> cf_exn + unit \<Rightarrow> bool) \<Rightarrow> bool" where
  "stage_within M R \<longleftrightarrow> (\<forall>evs r. R evs r \<longrightarrow> mutations evs \<subseteq> M)"

lemma cleanup_within:
  "cleanup_outcome specs evs failed \<Longrightarrow> \<forall>(name, R) \<in> set specs. stage_within M R
    \<Longrightarrow> mutations evs \<subseteq> M"
proof (induction specs arbitrary: evs failed)
  case Nil
  then show ?case by simp
next
  case (Cons spec specs)
  obtain stage S where spec: "spec = (stage, S)" by (cases spec)
  from Cons.prems(1) spec obtain now later r failed' where
    evs: "evs = now @ later" "S now r" "cleanup_outcome specs later failed'"
    by auto
  with Cons.IH[OF evs(3)] Cons.prems(2) spec show ?case
    by (auto simp: stage_within_def)
qed

lemma stages_within [simp]:
  "stage_within M revocation"
  "rq \<in> M \<Longrightarrow> stage_within M (deletion_shape rq)"
  by (auto simp: stage_within_def dest!: revocation_facts deletion_facts)

lemma cleanup_complete:
  "cleanup_outcome specs evs [] \<Longrightarrow> (name, R) \<in> set specs
    \<Longrightarrow> \<exists>before part after. evs = before @ part @ after \<and> R part (Inr ())"
proof (induction specs arbitrary: evs)
  case Nil
  then show ?case by simp
next
  case (Cons spec specs)
  obtain stage S where spec: "spec = (stage, S)" by (cases spec)
  from Cons.prems(1) spec obtain now later r where
    evs: "evs = now @ later" and now: "S now r" "\<not> isl r" and later: "cleanup_outcome specs later []"
    by (auto split: if_splits)
  show ?case
  proof (cases "(name, R) = spec")
    case True
    with spec now unit_outcome_cases[of r] have "evs = [] @ now @ later \<and> R now (Inr ())"
      by (auto simp: evs)
    then show ?thesis by blast
  next
    case False
    with Cons.prems(2) Cons.IH[OF later] obtain before part after where
      "later = before @ part @ after" "R part (Inr ())" by auto
    then have "evs = (now @ before) @ part @ after \<and> R part (Inr ())" by (simp add: evs)
    then show ?thesis by blast
  qed
qed

lemma cleanup_complete_deletion:
  assumes "cleanup_outcome specs evs []" "(name, deletion_shape rq) \<in> set specs"
  shows "acknowledged rq evs"
  using cleanup_complete[OF assms] by (auto dest!: deletion_facts)

lemma cleanup_complete_revocation:
  assumes "cleanup_outcome specs evs []" "(name, revocation) \<in> set specs"
  shows "revoked evs"
  using cleanup_complete[OF assms] by (auto dest!: revocation_facts)

lemma not_stops_nil: "stops [] e \<longleftrightarrow> \<not> is_exception e"
  by (auto simp: stops_def caught_by_def)

section \<open>Deactivation and release\<close>

lemma emits_observation_or_failed:
  "emits m R \<Longrightarrow> emits (observation_or_failed m)
     (\<lambda>evs r. (\<exists>a. r = Inr (Some a) \<and> R evs (Inr a))
        \<or> (\<exists>e. r = Inr None \<and> R evs (Inl e)) \<or> (\<exists>e. r = Inl e \<and> R evs (Inl e)))"
  unfolding observation_or_failed_def
  by (rule emits_attemptE, assumption) (auto intro!: emit_intros)

lemma emits_expect_tunnel_absent:
  assumes "cl_control_errors cl = []"
  shows "emits (expect_tunnel_absent cl t)
    (\<lambda>evs r. mutations evs = {} \<and> (\<forall>ob. r = Inr ob \<longrightarrow> tunnel_gone cl t evs))"
  unfolding expect_tunnel_absent_def
proof (rule emits_bindE[OF emits_observe_tunnel[OF assms]], goal_cases)
  case (1 ob evs)
  then show ?case by (cases "to_presence ob") (auto intro!: emit_intros)
qed simp

definition deactivated ::
  "'w api_client \<Rightarrow> hostname_reservation \<Rightarrow> string \<Rightarrow> cf_event list \<Rightarrow> bool" where
  "deactivated cl rv t evs \<longleftrightarrow>
     (\<exists>before after. evs = before @ after \<and> revoked before
        \<and> acknowledged (delete_connections_request cl t) before
        \<and> acknowledged (delete_tunnel_request cl t) before
        \<and> reservation_at cl rv (rv_expected_tunnel_id rv) after \<and> tunnel_gone cl t after)"

lemma emits_cleanup_within:
  assumes "implements stages specs" "\<forall>(name, R) \<in> set specs. stage_within M R"
  shows "emits (attempt_exact_cleanup controls stages) (\<lambda>evs r. mutations evs \<subseteq> M)"
  using assms unfolding implements_def
proof (induction rule: list_all2_induct)
  case Nil
  then show ?case by (simp add: emits_returnE)
next
  case (Cons x stages y specs)
  obtain name m where x: "x = (name, m)" by (cases x)
  obtain name' R where y: "y = (name', R)" by (cases y)
  from Cons x y have m: "emits m (\<lambda>evs r. mutations evs \<subseteq> M)"
    by (auto simp: stage_within_def intro: emits_mono)
  have rest: "emits (attempt_exact_cleanup controls stages) (\<lambda>evs r. mutations evs \<subseteq> M)"
    using Cons by simp
  show ?case
    unfolding x attempt_exact_cleanup.simps
    by (rule emits_attemptE[OF m])
      (auto intro!: emit_intros emits_mono[OF rest] emits_bindE[OF rest])
qed

text \<open>One law for all cleanups: what they may change, and what naming no stage means.\<close>

lemma emits_cleanup_law:
  assumes "implements stages specs" "\<forall>(name, R) \<in> set specs. stage_within M R"
    and "\<And>evs. cleanup_outcome specs evs [] \<Longrightarrow> D evs"
  shows "emits (attempt_exact_cleanup controls stages)
    (\<lambda>evs r. mutations evs \<subseteq> M \<and> (r = Inr [] \<longrightarrow> D evs))"
  by (rule emits_mono[OF emits_conj[OF emits_cleanup_within[OF assms(1,2)] emits_cleanup[OF assms(1)]]])
    (use assms(3) in auto)

lemma emits_deactivation_cleanup:
  "emits (attempt_exact_cleanup []
       [(''custody'', bindE (custody_revoke cu grant) (\<lambda>_. returnE ())),
        (''connections'', delete_tunnel_connections cl t), (''tunnel'', delete_tunnel cl t)])
     (\<lambda>evs r. mutations evs \<subseteq> {delete_connections_request cl t, delete_tunnel_request cl t}
        \<and> (r = Inr [] \<longrightarrow> revoked evs \<and> acknowledged (delete_connections_request cl t) evs
             \<and> acknowledged (delete_tunnel_request cl t) evs))"
  by (rule emits_cleanup_law[where specs="[(''custody'', revocation),
      (''connections'', deletion_shape (delete_connections_request cl t)),
      (''tunnel'', deletion_shape (delete_tunnel_request cl t))]"])
    (auto simp: emits_revocation emits_deletions
      dest: cleanup_complete_revocation[where name="''custody''"]
        cleanup_complete_deletion[where name="''connections''"]
        cleanup_complete_deletion[where name="''tunnel''"]
      simp del: cleanup_outcome.simps)

lemma deactivatedI:
  "revoked evs1 \<Longrightarrow> acknowledged (delete_connections_request cl t) evs1
    \<Longrightarrow> acknowledged (delete_tunnel_request cl t) evs1
    \<Longrightarrow> reservation_at cl rv (rv_expected_tunnel_id rv) evs2 \<Longrightarrow> tunnel_gone cl t evs3
    \<Longrightarrow> deactivated cl rv t (evs0 @ evs1 @ evs2 @ evs3)"
  unfolding deactivated_def
  by (rule exI[of _ "evs0 @ evs1"], rule exI[of _ "evs2 @ evs3"]) simp

lemma emits_deactivate_provider:
  assumes cl: "cl_control_errors cl = []"
  shows "emits (deactivate_provider cl cu grant rv res)
    (\<lambda>evs r. mutations evs \<subseteq>
         {delete_connections_request cl (or_tunnel_id res), delete_tunnel_request cl (or_tunnel_id res)}
       \<and> (mutations evs \<noteq> {} \<longrightarrow> reservation_at cl rv (rv_expected_tunnel_id rv) evs)
       \<and> (\<forall>d. r = Inr d \<longrightarrow> deactivated cl rv (or_tunnel_id res) evs))"
  unfolding deactivate_provider_def
  apply (rule emits_bindE[OF emits_expect_reservation[OF cl]])
   apply (rule emits_bindE[OF emits_deactivation_cleanup])
    apply (rule emits_bindE[OF emits_observation_or_failed[OF emits_expect_reservation[OF cl]]])
     apply (rule emits_bindE[OF emits_observation_or_failed[OF emits_expect_tunnel_absent[OF cl]]])
  by (auto intro!: emit_intros deactivatedI split: list.split option.split)

definition released ::
  "'w api_client \<Rightarrow> hostname_reservation \<Rightarrow> cf_event list \<Rightarrow> bool" where
  "released cl rv evs \<longleftrightarrow>
     (\<exists>before after. evs = before @ after
        \<and> acknowledged (delete_dns_record_request cl (rv_dns_record_id rv)) before
        \<and> not_found (record_request cl (rv_dns_record_id rv)) after)"

lemma emits_delete_record:
  "emits (delete_dns_record cl rid)
     (\<lambda>evs r. mutations evs \<subseteq> {delete_dns_record_request cl rid}
        \<and> (r = Inr () \<longrightarrow> acknowledged (delete_dns_record_request cl rid) evs))"
  by (rule emits_mono[OF emits_deletions(1)]) (auto simp: deletion_shape_def)

lemma releasedI:
  "acknowledged (delete_dns_record_request cl (rv_dns_record_id rv)) evs1
    \<Longrightarrow> not_found (record_request cl (rv_dns_record_id rv)) evs2
    \<Longrightarrow> released cl rv (evs0 @ evs1 @ evs2)"
  unfolding released_def by (rule exI[of _ "evs0 @ evs1"], rule exI[of _ evs2]) simp

lemma emits_release_provider:
  assumes cl: "cl_control_errors cl = []"
  shows "emits (release_provider cl rv)
    (\<lambda>evs r. mutations evs \<subseteq> {delete_dns_record_request cl (rv_dns_record_id rv)}
       \<and> (mutations evs \<noteq> {} \<longrightarrow> reservation_at cl rv (rv_expected_tunnel_id rv) evs)
       \<and> (\<forall>ob. r = Inr ob \<longrightarrow> released cl rv evs \<and> ro_presence ob = RES_ABSENT))"
  unfolding release_provider_def
  apply (rule emits_bindE[OF emits_expect_reservation[OF cl]])
   apply (rule emits_bindE[OF emits_observation_or_failed[OF emits_delete_record]])
    apply (rule emits_bindE[OF emits_observation_or_failed[OF emits_observe_reservation[OF cl]]])
  by (auto intro!: emit_intros releasedI split: option.split)

section \<open>Teardown\<close>

lemma emits_provider_stages:
  "implements (provider_stages cl res)
     [(''dns'', deletion_shape (delete_dns_record_request cl (or_dns_record_id res))),
      (''connections'', deletion_shape (delete_connections_request cl (or_tunnel_id res))),
      (''tunnel'', deletion_shape (delete_tunnel_request cl (or_tunnel_id res)))]"
  by (simp add: provider_stages_def emits_deletions)

definition removed :: "'w api_client \<Rightarrow> owned_resources \<Rightarrow> cf_event list \<Rightarrow> bool" where
  "removed cl res evs \<longleftrightarrow>
     acknowledged (delete_dns_record_request cl (or_dns_record_id res)) evs
     \<and> acknowledged (delete_connections_request cl (or_tunnel_id res)) evs
     \<and> acknowledged (delete_tunnel_request cl (or_tunnel_id res)) evs"

definition removal_requests :: "'w api_client \<Rightarrow> owned_resources \<Rightarrow> http_request set" where
  "removal_requests cl res =
     {delete_dns_record_request cl (or_dns_record_id res),
      delete_connections_request cl (or_tunnel_id res),
      delete_tunnel_request cl (or_tunnel_id res)}"

definition teardown_specs ::
  "'w api_client \<Rightarrow> owned_resources
    \<Rightarrow> (string \<times> (cf_event list \<Rightarrow> cf_exn + unit \<Rightarrow> bool)) list" where
  "teardown_specs cl res =
     [(''custody'', revocation),
      (''dns'', deletion_shape (delete_dns_record_request cl (or_dns_record_id res))),
      (''connections'', deletion_shape (delete_connections_request cl (or_tunnel_id res))),
      (''tunnel'', deletion_shape (delete_tunnel_request cl (or_tunnel_id res)))]"

lemma teardown_specs_complete:
  assumes "cleanup_outcome (teardown_specs cl res) evs []"
  shows "revoked evs" "removed cl res evs"
  using cleanup_complete_revocation[OF assms, of "''custody''"]
    cleanup_complete_deletion[OF assms, of "''dns''"]
    cleanup_complete_deletion[OF assms, of "''connections''"]
    cleanup_complete_deletion[OF assms, of "''tunnel''"]
  by (auto simp: teardown_specs_def removed_def simp del: cleanup_outcome.simps)

lemma emits_teardown_provider:
  "emits (teardown_provider cl cu grant res)
    (\<lambda>evs r. mutations evs \<subseteq> removal_requests cl res
       \<and> (r = Inr () \<longrightarrow> revoked evs \<and> removed cl res evs)
       \<and> (\<forall>e. r = Inl e \<and> is_exception e \<longrightarrow>
            (\<exists>failed. failed \<noteq> [] \<and> cleanup_outcome (teardown_specs cl res) evs failed
               \<and> e = CloudflareApiError
                   (''Cloudflare exact cleanup is uncertain: '' @ stage_list failed))))"
proof -
  let ?stages = "(''custody'', bindE (custody_revoke cu grant) (\<lambda>_. returnE ()))
      # provider_stages cl res"
  have spec: "implements ?stages (teardown_specs cl res)"
    using emits_provider_stages by (simp add: teardown_specs_def emits_revocation)
  have within: "\<forall>(name, R) \<in> set (teardown_specs cl res). stage_within (removal_requests cl res) R"
    by (simp add: teardown_specs_def removal_requests_def)
  show ?thesis
    unfolding teardown_provider_def
    by (rule emits_bindE[OF emits_conj[OF emits_cleanup_within[OF spec within] emits_cleanup[OF spec]]])
      (auto intro!: emit_intros dest: teardown_specs_complete simp: not_stops_nil)
qed

lemma emits_remove_provider:
  "emits (remove_provider cl res controls)
    (\<lambda>evs r. mutations evs \<subseteq> removal_requests cl res \<and> (r = Inr () \<longrightarrow> removed cl res evs)
       \<and> (\<forall>failed. r = Inl (RemovalIncomplete failed) \<longrightarrow> failed \<noteq> [] \<or> stops controls (RemovalIncomplete failed)))"
proof -
  let ?specs = "tl (teardown_specs cl res)"
  have spec: "implements (provider_stages cl res) ?specs"
    using emits_provider_stages by (simp add: teardown_specs_def)
  have within: "\<forall>(name, R) \<in> set ?specs. stage_within (removal_requests cl res) R"
    by (simp add: teardown_specs_def removal_requests_def)
  have complete: "removed cl res evs" if "cleanup_outcome ?specs evs []" for evs
    using cleanup_complete_deletion[OF that, of "''dns''"]
      cleanup_complete_deletion[OF that, of "''connections''"]
      cleanup_complete_deletion[OF that, of "''tunnel''"]
    by (auto simp: teardown_specs_def removed_def simp del: cleanup_outcome.simps)
  show ?thesis
    unfolding remove_provider_def
    by (rule emits_bindE[OF emits_conj[OF emits_cleanup_within[OF spec within] emits_cleanup[OF spec]]])
      (auto intro!: emit_intros dest: complete)
qed

end
