(* ===== verification/Cloudflare_Rebind_Facts.thy ===== *)
theory Cloudflare_Rebind_Facts
  imports Cloudflare_Retain_Facts
begin

text \<open>
  What rebinding a retained reservation does to the provider: the requests it may send, what
  a normal return has established, and what a failed run has undone.
\<close>

section \<open>The compensation\<close>

definition restore_request :: "'w api_client \<Rightarrow> hostname_reservation \<Rightarrow> http_request" where
  "restore_request cl rv =
     update_dns_request cl (rv_dns_record_id rv, rv_hostname rv, rv_expected_tunnel_id rv)"

definition bind_request :: "'w api_client \<Rightarrow> hostname_reservation \<Rightarrow> string \<Rightarrow> http_request" where
  "bind_request cl rv t = update_dns_request cl (rv_dns_record_id rv, rv_hostname rv, t)"

lemma emits_update:
  "emits (update_dns_cname cl rid h t)
     (\<lambda>evs r. mutations evs \<subseteq> {update_dns_request cl (rid, h, t)}
        \<and> (r = Inr () \<longrightarrow> acknowledged (update_dns_request cl (rid, h, t)) evs))"
  using emits_conj[OF upd_dns.shape upd_dns.result_accepted, of cl "(rid, h, t)"]
  by (auto elim!: emits_mono)

lemma emits_restore:
  assumes cl: "cl_control_errors cl = []"
  shows "emits (restore_rebind_reservation cl rv t)
    (\<lambda>evs r. mutations evs \<subseteq> {restore_request cl rv}
       \<and> (r = Inr () \<longrightarrow> reservation_at cl rv (rv_expected_tunnel_id rv) evs))"
  unfolding restore_rebind_reservation_def restore_request_def
proof (rule emits_bindE[OF emits_observe_reservation[OF cl]], goal_cases)
  case (1 ob evs)
  then have quiet: "mutations evs = {}" by simp
  have again: "emits (bindE (observe_hostname_reservation cl rv) (\<lambda>ob'.
       bindE (liftE (require_expected_reservation ob' rv)) (\<lambda>_. returnE ())))
     (\<lambda>evs r. mutations evs = {}
        \<and> (r = Inr () \<longrightarrow> reservation_at cl rv (rv_expected_tunnel_id rv) evs))"
    by (rule emits_bindE[OF emits_observe_reservation[OF cl]], rule emits_validated)
      (auto intro!: emit_intros simp: require_expected_reservation_def
        require_observed_tunnel_def bindR_Inr_iff split: if_splits)
  have rewrite: "emits (bindE (update_dns_cname cl (rv_dns_record_id rv) (rv_hostname rv)
        (rv_expected_tunnel_id rv)) (\<lambda>_. bindE (observe_hostname_reservation cl rv) (\<lambda>ob'.
       bindE (liftE (require_expected_reservation ob' rv)) (\<lambda>_. returnE ()))))
     (\<lambda>evs r. mutations evs \<subseteq> {update_dns_request cl
          (rv_dns_record_id rv, rv_hostname rv, rv_expected_tunnel_id rv)}
        \<and> (r = Inr () \<longrightarrow> reservation_at cl rv (rv_expected_tunnel_id rv) evs))"
    by (rule emits_bindE[OF emits_update]) (auto intro!: emits_mono[OF again])
  show ?case
    using 1 by (cases "ro_presence ob") (auto intro!: emit_intros emits_mono[OF rewrite])
qed simp

definition rebind_uncertain :: "cf_exn \<Rightarrow> bool" where
  "rebind_uncertain e \<longleftrightarrow> (\<exists>failed. failed \<noteq> []
     \<and> e = CloudflareApiError
         (''Cloudflare exact rebind cleanup is uncertain: '' @ stage_list failed))"

text \<open>Everything the run had reached was undone, in the provider's own answers.\<close>

definition undone ::
  "'w api_client \<Rightarrow> hostname_reservation \<Rightarrow> string \<Rightarrow> bool \<Rightarrow> bool \<Rightarrow> cf_event list \<Rightarrow> bool" where
  "undone cl rv t dns custody evs \<longleftrightarrow>
     acknowledged (delete_tunnel_request cl t) evs
     \<and> (dns \<longrightarrow> reservation_at cl rv (rv_expected_tunnel_id rv) evs)
     \<and> (custody \<longrightarrow> revoked evs)"

definition restoration :: "'w api_client \<Rightarrow> hostname_reservation \<Rightarrow> cf_event list \<Rightarrow> cf_exn + unit \<Rightarrow> bool"
  where
  "restoration cl rv evs r \<longleftrightarrow> mutations evs \<subseteq> {restore_request cl rv}
     \<and> (r = Inr () \<longrightarrow> reservation_at cl rv (rv_expected_tunnel_id rv) evs)"

lemma restoration_within [simp]:
  "restore_request cl rv \<in> M \<Longrightarrow> stage_within M (restoration cl rv)"
  by (auto simp: stage_within_def restoration_def)

lemma cleanup_complete_restoration:
  assumes "cleanup_outcome specs evs []" "(name, restoration cl rv) \<in> set specs"
  shows "reservation_at cl rv (rv_expected_tunnel_id rv) evs"
  using cleanup_complete[OF assms] by (auto simp: restoration_def)

definition undo_specs ::
  "'w api_client \<Rightarrow> hostname_reservation \<Rightarrow> string \<Rightarrow> bool \<Rightarrow> bool
    \<Rightarrow> (string \<times> (cf_event list \<Rightarrow> cf_exn + unit \<Rightarrow> bool)) list" where
  "undo_specs cl rv t dns custody =
     (if custody then [(''custody'', revocation)] else [])
     @ (if dns then [(''dns'', restoration cl rv)] else [])
     @ [(''tunnel'', deletion_shape (delete_tunnel_request cl t))]"

lemma undo_specs_complete:
  assumes "cleanup_outcome (undo_specs cl rv t dns custody) evs []"
  shows "undone cl rv t dns custody evs"
  using cleanup_complete_revocation[OF assms, of "''custody''"]
    cleanup_complete_restoration[OF assms, of "''dns''"]
    cleanup_complete_deletion[OF assms, of "''tunnel''"]
  by (auto simp: undo_specs_def undone_def simp del: cleanup_outcome.simps)

definition undo_requests ::
  "'w api_client \<Rightarrow> hostname_reservation \<Rightarrow> string \<Rightarrow> bool \<Rightarrow> http_request set" where
  "undo_requests cl rv t dns =
     insert (delete_tunnel_request cl t) (if dns then {restore_request cl rv} else {})"

lemma emits_rebind_failure:
  assumes cl: "cl_control_errors cl = []"
  shows "emits (rebind_failure cl cu grant rv (Some t) dns custody e)
    (\<lambda>evs r. mutations evs \<subseteq> undo_requests cl rv t dns
       \<and> (\<exists>e'. r = Inl e' \<and> (\<not> is_exception e' \<or> rebind_uncertain e'
            \<or> undone cl rv t dns custody evs)))"
proof (cases "is_exception e")
  case False
  then show ?thesis by (auto simp: rebind_failure_def intro: emits_raiseE)
next
  case True
  let ?stages = "(if custody then [(''custody'', bindE (custody_revoke cu grant) (\<lambda>_. returnE ()))] else [])
     @ (if dns then [(''dns'', restore_rebind_reservation cl rv t)] else [])
     @ [(''tunnel'', delete_tunnel cl t)]"
  have "emits (restore_rebind_reservation cl rv t) (restoration cl rv)"
    using emits_restore[OF cl] by (simp add: restoration_def[abs_def])
  then have spec: "implements ?stages (undo_specs cl rv t dns custody)"
    by (simp add: undo_specs_def emits_revocation emits_deletions)
  have within: "\<forall>(name, R) \<in> set (undo_specs cl rv t dns custody).
      stage_within (undo_requests cl rv t dns) R"
    by (auto simp: undo_specs_def undo_requests_def)
  note law = emits_conj[OF emits_cleanup[OF spec] emits_cleanup_within[OF spec within]]
  show ?thesis
    unfolding rebind_failure_def option.case
    by (rule emits_if, simp add: True, rule emits_bindE[OF law])
      (auto intro!: emit_intros simp: rebind_uncertain_def not_stops_nil dest: undo_specs_complete)
qed

section \<open>The stages\<close>

definition tried_stores :: "cf_event list \<Rightarrow> bool" where
  "tried_stores evs \<longleftrightarrow> (\<exists>r. CustodyStore r \<in> set evs)"

lemma tried_stores_append [simp]:
  "\<not> tried_stores []"
  "tried_stores (a @ b) \<longleftrightarrow> tried_stores a \<or> tried_stores b"
  by (auto simp: tried_stores_def)

lemma emits_rebind_tunnel:
  assumes cl: "cl_control_errors cl = []"
  shows "emits (rebind_tunnel cl rv origin t)
    (\<lambda>evs r. mutations evs \<subseteq> {configure_tunnel_request cl (t, rv_hostname rv, origin)}
       \<and> (r = Inr () \<longrightarrow> acknowledged (configure_tunnel_request cl (t, rv_hostname rv, origin)) evs
            \<and> reservation_at cl rv (rv_expected_tunnel_id rv) evs))"
  unfolding rebind_tunnel_def
  apply (rule emits_bindE[OF emits_configure_tunnel])
   apply (rule emits_bindE[OF emits_observe_reservation[OF cl]])
    apply (rule emits_validated)
  by (auto intro!: emit_intros simp: require_expected_reservation_def require_observed_tunnel_def
      bindR_Inr_iff split: if_splits)

lemma emits_confirmed:
  assumes cl: "cl_control_errors cl = []"
    and k: "emits k (\<lambda>evs r. mutations evs = {})"
  shows "emits (bindE (observe_hostname_reservation cl rv) (\<lambda>ob.
      bindE (liftE (require_observed_tunnel ob t)) (\<lambda>_. k)))
    (\<lambda>evs r. mutations evs = {} \<and> (\<not> isl r \<longrightarrow> reservation_at cl rv t evs))"
  by (rule emits_bindE[OF emits_observe_reservation[OF cl]], rule emits_validated)
    (auto intro!: emits_mono[OF k] simp: require_observed_tunnel_def bindR_Inr_iff)

lemma emits_rebind_dns:
  assumes cl: "cl_control_errors cl = []"
  shows "emits (rebind_dns cl rv t)
    (\<lambda>evs r. mutations evs \<subseteq> {bind_request cl rv t}
       \<and> (\<not> isl r \<longrightarrow> acknowledged (bind_request cl rv t) evs \<and> reservation_at cl rv t evs))"
  unfolding rebind_dns_def bind_request_def
  apply (rule emits_bindE[OF emits_update])
   apply (rule emits_mono[OF emits_confirmed[OF cl emits_mono[OF emits_get_token]]])
  by auto

lemma emits_rebind_custody:
  assumes cl: "cl_control_errors cl = []"
  shows "emits (rebind_custody env cl cu grant rv t token)
    (\<lambda>evs r. mutations evs = {}
       \<and> (\<forall>receipt. r = Inr receipt \<longrightarrow> CustodyStore (Inr ()) \<in> set evs
            \<and> ie_receipt_matches env receipt grant = Inr True \<and> reservation_at cl rv t evs))"
proof -
  have store: "emits (catchE is_exception (custody_store cu grant token)
      (\<lambda>_. raiseE (CloudflareApiError ''Cloudflare generated secret custody failed'')))
    (\<lambda>evs r. mutations evs = {} \<and> (\<not> isl r \<longrightarrow> CustodyStore (Inr ()) \<in> set evs))"
    unfolding custody_store_def
    by (rule emits_catchE[OF emits_callE_eq])
      (auto intro!: emits_raiseE simp: outcome_of_def)
  have returned: "emits (returnE receipt) (\<lambda>evs r. mutations evs = {})" for receipt
    by (rule emits_returnE) simp
  have confirmed: "emits (bindE (observe_hostname_reservation cl rv) (\<lambda>ob.
      bindE (liftE (require_observed_tunnel ob t)) (\<lambda>_. returnE receipt)))
    (\<lambda>evs r. mutations evs = {} \<and> (\<not> isl r \<longrightarrow> reservation_at cl rv t evs)
       \<and> (\<forall>receipt'. r = Inr receipt' \<longrightarrow> receipt' = receipt))" for receipt
    apply (rule emits_conj[OF emits_confirmed[OF cl returned], THEN emits_mono])
     apply (rule emits_bindE[OF emits_observe_reservation[OF cl]])
    by (auto intro!: emits_validated emits_returnE)
  show ?thesis
    unfolding rebind_custody_def
    apply (rule emits_bindE[OF store])
     apply (rule emits_validated)
      apply (rule emits_required)
       apply (rule emits_mono[OF confirmed])
    by auto
qed

text \<open>Before the token is handed to the custodian, only the provider is called.\<close>

lemma not_storing [simp]: "only_emits (\<lambda>ev. \<exists>rq hr. ev = Http rq hr) m \<Longrightarrow>
    emits m (\<lambda>evs r. \<not> tried_stores evs)"
  unfolding only_emits_def by (rule emits_mono, assumption) (auto simp: tried_stores_def)

lemma provider_only:
  "only_emits (\<lambda>ev. \<exists>rq hr. ev = Http rq hr) (create_tunnel cl name)"
  "only_emits (\<lambda>ev. \<exists>rq hr. ev = Http rq hr) (rebind_tunnel cl rv origin t)"
  "only_emits (\<lambda>ev. \<exists>rq hr. ev = Http rq hr) (rebind_dns cl rv t)"
proof -
  note ops = only_emits_mono[OF new_tunnel.only_this] only_emits_mono[OF get_dns.only_this]
    only_emits_mono[OF get_token.only_this]
    only_emits_mono[OF conf_tunnel.only_this[where k="(t, rv_hostname rv, origin)", simplified]]
    only_emits_mono[OF upd_dns.only_this[where k="(rv_dns_record_id rv, rv_hostname rv, t)", simplified]]
  show "only_emits (\<lambda>ev. \<exists>rq hr. ev = Http rq hr) (create_tunnel cl name)"
    by (rule ops(1)) auto
  have observation: "only_emits (\<lambda>ev. \<exists>rq hr. ev = Http rq hr) (observe_hostname_reservation cl rv)"
    unfolding observe_hostname_reservation_def by (auto intro!: emit_intros ops(2))
  show "only_emits (\<lambda>ev. \<exists>rq hr. ev = Http rq hr) (rebind_tunnel cl rv origin t)"
    unfolding rebind_tunnel_def by (auto intro!: emit_intros observation ops(4))
  show "only_emits (\<lambda>ev. \<exists>rq hr. ev = Http rq hr) (rebind_dns cl rv t)"
    unfolding rebind_dns_def by (auto intro!: emit_intros observation ops(3,5))
qed

section \<open>The whole sequence\<close>

text \<open>The requests a rebinding may send that change the provider.\<close>

definition rebind_mutation ::
  "'w api_client \<Rightarrow> hostname_reservation \<Rightarrow> string \<Rightarrow> string \<Rightarrow> cf_event list \<Rightarrow> http_request \<Rightarrow> bool"
  where
  "rebind_mutation cl rv name origin evs rq \<longleftrightarrow>
     rq = create_tunnel_request cl name
     \<or> (\<exists>t. tunnel_allocated cl name evs t
          \<and> (rq = configure_tunnel_request cl (t, rv_hostname rv, origin)
             \<or> rq = bind_request cl rv t \<or> rq = restore_request cl rv
             \<or> rq = delete_tunnel_request cl t))"

text \<open>
  A completed rebinding: the last exchanges, after the record was bound, stored the token and
  saw the record target the new tunnel.
\<close>

definition rebound ::
  "'w api_client \<Rightarrow> hostname_reservation \<Rightarrow> string \<Rightarrow> string \<Rightarrow> cf_event list \<Rightarrow> string \<Rightarrow> bool"
  where
  "rebound cl rv name origin evs t \<longleftrightarrow>
     (\<exists>before after. evs = before @ after \<and> tunnel_allocated cl name before t
        \<and> acknowledged (configure_tunnel_request cl (t, rv_hostname rv, origin)) before
        \<and> reservation_at cl rv (rv_expected_tunnel_id rv) before
        \<and> acknowledged (bind_request cl rv t) before
        \<and> mutations after = {} \<and> CustodyStore (Inr ()) \<in> set after \<and> reservation_at cl rv t after)"

text \<open>
  A failed rebinding that is not reported as uncertain: after the last step it took, the tunnel
  was deleted, a record that was bound was seen at the expected tunnel again, and a stored
  token was revoked.
\<close>

definition rolled_back ::
  "'w api_client \<Rightarrow> hostname_reservation \<Rightarrow> string \<Rightarrow> cf_event list \<Rightarrow> bool" where
  "rolled_back cl rv name evs \<longleftrightarrow>
     mutations evs \<subseteq> {create_tunnel_request cl name} \<and> \<not> tried_stores evs
     \<or> (\<exists>t before after. evs = before @ after \<and> tunnel_allocated cl name before t
          \<and> undone cl rv t (bind_request cl rv t \<in> mutations before) (tried_stores before) after)"

lemma undone_mono:
  "undone cl rv t dns custody evs \<Longrightarrow> (dns' \<longrightarrow> dns) \<Longrightarrow> (custody' \<longrightarrow> custody)
    \<Longrightarrow> undone cl rv t dns' custody' evs"
  by (auto simp: undone_def)

definition rebind_outcome ::
  "'w api_client \<Rightarrow> hostname_reservation \<Rightarrow> string \<Rightarrow> string \<Rightarrow> cf_event list
    \<Rightarrow> cf_exn + string \<times> 'rc \<Rightarrow> bool" where
  "rebind_outcome cl rv name origin evs r \<longleftrightarrow>
     (\<forall>rq \<in> mutations evs. rebind_mutation cl rv name origin evs rq)
     \<and> (case r of
          Inr (t, receipt) \<Rightarrow> rebound cl rv name origin evs t
        | Inl e \<Rightarrow> \<not> is_exception e \<or> rebind_uncertain e \<or> rolled_back cl rv name evs)"

lemma bind_not_others [simp]:
  "bind_request cl rv t \<noteq> create_tunnel_request cl name"
  "bind_request cl rv t \<noteq> configure_tunnel_request cl (t', h, origin)"
  by (rule methods_differ, simp add: bind_request_def)+

lemma rebind_failed:
  assumes cl: "cl_control_errors cl = []"
    and t: "tunnel_allocated cl name before t"
    and M: "\<forall>rq \<in> mutations before. rq = create_tunnel_request cl name
        \<or> rq = configure_tunnel_request cl (t, rv_hostname rv, origin) \<or> dns \<and> rq = bind_request cl rv t"
    and stores: "tried_stores before \<longrightarrow> custody"
  shows "emits (rebind_failure cl cu grant rv (Some t) dns custody e)
    (\<lambda>evs. rebind_outcome cl rv name origin (before @ evs))"
proof (rule emits_mono[OF emits_rebind_failure[OF cl]], goal_cases)
  case (1 evs r)
  then obtain e' where r: "r = Inl e'" and e': "\<not> is_exception e' \<or> rebind_uncertain e'
      \<or> undone cl rv t dns custody evs" and muts: "mutations evs \<subseteq> undo_requests cl rv t dns"
    by blast
  have "\<forall>rq \<in> mutations (before @ evs). rebind_mutation cl rv name origin (before @ evs) rq"
  proof
    fix rq assume "rq \<in> mutations (before @ evs)"
    then have "rq \<in> mutations before \<or> rq \<in> undo_requests cl rv t dns" using muts by auto
    with M t show "rebind_mutation cl rv name origin (before @ evs) rq"
      unfolding rebind_mutation_def undo_requests_def
      by (auto split: if_splits dest: trace_facts_append(1))
  qed
  moreover have "rolled_back cl rv name (before @ evs)" if "undone cl rv t dns custody evs"
  proof -
    have "bind_request cl rv t \<in> mutations before \<longrightarrow> dns" using M by auto
    from undone_mono[OF that this stores] t show ?thesis
      unfolding rolled_back_def by blast
  qed
  ultimately show ?case using r e' by (auto simp: rebind_outcome_def)
qed

lemma emits_rebind_provider:
  assumes cl: "cl_control_errors cl = []"
  shows "emits (rebind_provider env cl cu grant rv name origin)
    (rebind_outcome cl rv name origin)"
  unfolding rebind_provider_def
proof (rule emits_attemptE[OF emits_conj[OF emits_create_tunnel not_storing[OF provider_only(1)]]],
    goal_cases)
  case (2 e evs)
  then have "rolled_back cl rv name evs" "\<forall>rq \<in> mutations evs. rebind_mutation cl rv name origin evs rq"
    by (auto simp: rolled_back_def rebind_mutation_def dest: subsetD)
  then show ?case
    by (auto simp: rebind_failure_def rebind_outcome_def intro!: emit_intros)
next
  case (1 t evs1)
  then have t: "tunnel_allocated cl name evs1 t" and m1: "mutations evs1 \<subseteq> {create_tunnel_request cl name}"
    and s1: "\<not> tried_stores evs1" by auto
  show ?case
  proof (rule emits_attemptE[OF emits_conj[OF emits_rebind_tunnel[OF cl] not_storing[OF provider_only(2)]]],
      goal_cases)
    case (2 e evs2)
    then show ?case
      unfolding append_assoc[symmetric]
      by (intro rebind_failed[OF cl]) (use t m1 s1 in \<open>auto dest: subsetD\<close>)
  next
    case (1 u evs2)
    then have m2: "mutations evs2 \<subseteq> {configure_tunnel_request cl (t, rv_hostname rv, origin)}"
      and conf: "acknowledged (configure_tunnel_request cl (t, rv_hostname rv, origin)) evs2"
      and seen: "reservation_at cl rv (rv_expected_tunnel_id rv) evs2"
      and s2: "\<not> tried_stores evs2" by auto
    show ?case
    proof (rule emits_attemptE[OF emits_conj[OF emits_rebind_dns[OF cl] not_storing[OF provider_only(3)]]],
        goal_cases)
      case (2 e evs3)
      have "emits (rebind_failure cl cu grant rv (Some t) True False e)
          (\<lambda>evs. rebind_outcome cl rv name origin ((evs1 @ evs2 @ evs3) @ evs))"
        by (intro rebind_failed[OF cl]) (use 2 t m1 m2 s1 s2 in \<open>auto dest: subsetD\<close>)
      then show ?case by simp
    next
      case (1 token evs3)
      then have m3: "mutations evs3 \<subseteq> {bind_request cl rv t}"
        and bound: "acknowledged (bind_request cl rv t) evs3" by auto
      show ?case
      proof (rule emits_attemptE[OF emits_rebind_custody[OF cl]], goal_cases)
        case (2 e evs4)
        have "emits (rebind_failure cl cu grant rv (Some t) True True e)
            (\<lambda>evs. rebind_outcome cl rv name origin ((evs1 @ evs2 @ evs3 @ evs4) @ evs))"
          by (intro rebind_failed[OF cl]) (use 2 t m1 m2 m3 in \<open>auto dest: subsetD\<close>)
        then show ?case by simp
      next
        case (1 receipt evs4)
        have "rebound cl rv name origin ((evs1 @ evs2 @ evs3) @ evs4) t"
          unfolding rebound_def
          by (intro exI conjI, rule refl) (use 1 t conf seen bound in auto)
        moreover have "\<forall>rq \<in> mutations (evs1 @ evs2 @ evs3 @ evs4).
            rebind_mutation cl rv name origin (evs1 @ evs2 @ evs3 @ evs4) rq"
        proof
          fix rq assume "rq \<in> mutations (evs1 @ evs2 @ evs3 @ evs4)"
          then have "rq = create_tunnel_request cl name \<or> rq = bind_request cl rv t
              \<or> rq = configure_tunnel_request cl (t, rv_hostname rv, origin)"
            using 1 m1 m2 m3 by auto
          moreover have "tunnel_allocated cl name (evs1 @ evs2 @ evs3 @ evs4) t"
            using t by simp
          ultimately show "rebind_mutation cl rv name origin (evs1 @ evs2 @ evs3 @ evs4) rq"
            unfolding rebind_mutation_def by blast
        qed
        ultimately show ?case
          by (auto intro!: emits_returnE simp: rebind_outcome_def)
      qed
    qed
  qed
qed

end
