(* ===== verification/Cloudflare_Create_Props.thy ===== *)
theory Cloudflare_Create_Props
  imports Cloudflare_Create_Facts
begin

text \<open>
  The properties of ingress creation, each with a run of the model over a scripted
  transport that meets its hypotheses.
\<close>

section \<open>A scripted provider\<close>

text \<open>
  For the concrete runs the world of the transport is the list of the answers to come.
\<close>

definition scripted_transport ::
  "http_request \<Rightarrow> ((cf_exn + http_response) list, cf_exn, http_response) port" where
  "scripted_transport rq w =
     (case w of [] \<Rightarrow> (Inl (OtherException ''no answer''), []) | r # rs \<Rightarrow> (r, rs))"

definition sample_authority :: zone_authority where
  "sample_authority =
     \<lparr>account_id = ''acc'', zone_id = ''zone'', zone_name = ''example.com'',
      api_token_ref = \<lparr>reference_id = ''ref''\<rparr>, allowed_hostname_pattern = ''*.example.com''\<rparr>"

definition sample_client :: "(cf_exn + http_response) list api_client" where
  "sample_client =
     \<lparr>cl_authority = sample_authority, cl_api_token = ''t0'', cl_transport = scripted_transport,
      cl_control_errors = [], cl_secret_value = Inr\<rparr>"

definition answer :: "(string \<times> json) list \<Rightarrow> cf_exn + http_response" where
  "answer kvs =
     Inr \<lparr>rs_status_code = 200, rs_body = JObj ((''success'', JBool True) # kvs)\<rparr>"

definition refusal :: "int \<Rightarrow> cf_exn + http_response" where
  "refusal status = Inr \<lparr>rs_status_code = status, rs_body = JObj []\<rparr>"

definition with_script :: "(cf_exn + http_response) list \<Rightarrow> (cf_event, (cf_exn + http_response) list) st" where
  "with_script script = \<lparr>trace = [], world = script\<rparr>"

definition script_success :: "(cf_exn + http_response) list" where
  "script_success =
     [answer [(''result'', JList [])],
      answer [(''result'', JObj [(''id'', JStr ''tun-1'')])],
      answer [],
      answer [(''result'', JList [])],
      answer [(''result'', JObj [(''id'', JStr ''rec-1'')])],
      answer [(''result'', JStr ''generated'')]]"

definition script_token_refused :: "(cf_exn + http_response) list" where
  "script_token_refused = take 5 script_success @ [refusal 500, answer [], answer []]"

definition sample_create ::
  "(cf_exn + http_response) list
    \<Rightarrow> (cf_exn + created_ingress) \<times> (cf_event, (cf_exn + http_response) list) st" where
  "sample_create script =
     create_provider sample_client ''app.example.com'' ''alloc-1'' ''http://gateway:8080''
       (with_script script)"

lemma scripted_transport_Cons [simp]: "scripted_transport rq (r # rs) = (r, rs)"
  by (simp add: scripted_transport_def)

lemma sample_client_simps [simp]:
  "cl_transport sample_client = scripted_transport" "cl_control_errors sample_client = []"
  "cl_secret_value sample_client = Inr"
  by (simp_all add: sample_client_def)

lemma answer_check [simp]:
  "check_response \<lparr>rs_status_code = 200, rs_body = JObj ((''success'', JBool True) # kvs)\<rparr>
     = Inr (JObj ((''success'', JBool True) # kvs))"
  by (simp add: check_response_def Let_def)

lemma samples_valid [simp]:
  "validate_hostname ''app.example.com'' = Inr ()"
  "validate_origin_service ''http://gateway:8080'' = Inr ()"
  "reject_secret_text ''tun-1'' l = Inr ()"
  "reject_secret_text ''rec-1'' l = Inr ()"
  "reject_secret_text ''alloc-1'' l = Inr ()"
  by (code_simp; simp add: reject_secret_text_def)+

lemma trace_with_script [simp]: "trace (with_script script) = []"
  by (simp add: with_script_def)

lemma show_500 [simp]: "show_nat 500 = ''500''"
  by code_simp

lemma sample_does_not_stop:
  "\<not> stops (cl_control_errors sample_client) (CloudflareProviderOperationError m ev)"
  by (simp add: stops_def caught_by_def)

text \<open>Unfolding the client, to run it on concrete answers.\<close>

lemmas client_run =
  eff_defs request_def Let_def or_malformed_def result_text_def mapping_text_def
  create_tunnel_def configure_tunnel_def list_dns_records_for_hostname_def
  create_dns_cname_unchecked_def get_tunnel_token_def delete_tunnel_def delete_dns_record_def
  tunnel_target_def validate_identifier_def identifier_ok_def identifier_char_def
  py_strip_def py_isspace_def is_lower_alpha_def is_upper_alpha_def is_digit_def in_range_def
  code_of_def

lemmas create_run =
  create_provider_def allocate_tunnel_def provider_attempt_def observe_exact_hostname_def
  classify_exact_records_def observed_def checked_id_def configure_stage_def
  pre_mutation_stage_def dns_stage_def token_stage_def

lemmas script_run =
  sample_create_def with_script_def script_success_def script_token_refused_def answer_def refusal_def

lemma sample_create_eq:
  "create_provider sample_client ''app.example.com'' ''alloc-1'' ''http://gateway:8080''
     (with_script script) = (fst (sample_create script), snd (sample_create script))"
  by (simp add: sample_create_def)

lemma sample_create_success:
  "fst (sample_create script_success) =
     Inr \<lparr>ci_tunnel_id = ''tun-1'', ci_dns_record_id = ''rec-1'', ci_token = ''generated''\<rparr>"
  "changes (trace (snd (sample_create script_success))) =
     [create_tunnel_request sample_client ''alloc-1'',
      configure_tunnel_request sample_client
        (''tun-1'', ''app.example.com'', ''http://gateway:8080''),
      create_dns_request sample_client (''app.example.com'', ''tun-1'')]"
  by (simp_all add: client_run create_run script_run request_shapes)

lemma sample_create_refused:
  "fst (sample_create script_token_refused) =
     Inl (CloudflareProviderOperationError ''Cloudflare API request failed with status 500''
       \<lparr>ev_stage = TUNNEL_TOKEN, ev_category = PROVIDER_STATUS,
        ev_mutation_certainty = DNS_AND_TUNNEL_CREATED, ev_tunnel_id = Some ''tun-1'',
        ev_dns_record_id = Some ''rec-1'', ev_cleanup_result = COMPLETE\<rparr>)"
  "changes (trace (snd (sample_create script_token_refused))) =
     [create_tunnel_request sample_client ''alloc-1'',
      configure_tunnel_request sample_client
        (''tun-1'', ''app.example.com'', ''http://gateway:8080''),
      create_dns_request sample_client (''app.example.com'', ''tun-1''),
      delete_dns_record_request sample_client ''rec-1'',
      delete_tunnel_request sample_client ''tun-1'']"
  by (simp_all add: client_run create_run script_run request_shapes check_response_def
      cleanup_created_ingress_def caught_by_def show_int_def
      is_provider_operation_failure_def provider_failure_category_def
      provider_operation_error_def make_failure_evidence_def)

section \<open>Nothing is changed before the hostname was seen free\<close>

definition guarded_by_absence :: "'w api_client \<Rightarrow> string \<Rightarrow> cf_event list \<Rightarrow> bool" where
  "guarded_by_absence cl h evs \<longleftrightarrow>
     (\<forall>before ev after. evs = before @ ev # after \<and> mutations [ev] \<noteq> {} \<longrightarrow> hostname_free cl h before)"

lemma mutations_middle:
  "mutations (before @ ev # after) = mutations before \<union> mutations [ev] \<union> mutations after"
  by (cases ev) auto

lemma guarded_no_mutations: "mutations evs = {} \<Longrightarrow> guarded_by_absence cl h evs"
  unfolding guarded_by_absence_def using mutations_middle by blast

lemma guarded_append:
  "guarded_by_absence cl h a \<Longrightarrow> hostname_free cl h a \<or> mutations b = {}
    \<Longrightarrow> guarded_by_absence cl h (a @ b)"
  unfolding guarded_by_absence_def
proof (intro allI impI, elim conjE)
  fix before ev after
  assume a: "\<forall>before ev after. a = before @ ev # after \<and> mutations [ev] \<noteq> {} \<longrightarrow> hostname_free cl h before"
    and b: "hostname_free cl h a \<or> mutations b = {}"
    and eq: "a @ b = before @ ev # after" and ev: "mutations [ev] \<noteq> {}"
  from eq consider (left) us where "a = before @ ev # us"
    | (right) us where "before = a @ us" "b = us @ ev # after"
    by (auto simp: append_eq_append_conv2 Cons_eq_append_conv append_eq_Cons_conv)
  then show "hostname_free cl h before"
  proof cases
    case left
    with a ev show ?thesis by blast
  next
    case right
    with mutations_middle[of us ev after] ev b have "hostname_free cl h a" by auto
    with right show ?thesis by simp
  qed
qed

lemma emits_allocate_guarded:
  "emits (allocate_tunnel cl h name)
     (\<lambda>evs r. guarded_by_absence cl h evs \<and> (\<not> isl r \<longrightarrow> hostname_free cl h evs))"
  unfolding allocate_tunnel_def
proof (rule emits_bindE[OF emits_provider_attempt[OF emits_observe_exact]], goal_cases)
  case (1 x evs)
  show ?case
  proof (cases "\<exists>ob. x = Inr ob \<and> ob_state ob = HOST_ABSENT")
    case False
    with 1 show ?thesis
      by (auto intro!: emit_intros simp: guarded_no_mutations split: sum.split)
  next
    case True
    with 1 have "guarded_by_absence cl h evs" "hostname_free cl h evs"
      by (auto intro: guarded_no_mutations)
    moreover from True obtain ob where "x = Inr ob" "ob_state ob = HOST_ABSENT" by auto
    ultimately show ?thesis
      by (simp, intro emits_bindE[OF emits_provider_attempt[OF emits_create_tunnel[of cl name]]])
        (auto intro!: emit_intros guarded_append split: sum.split)
  qed
next
  case (2 e evs)
  then show ?case by (auto intro: guarded_no_mutations)
qed

lemma emits_then_any:
  "emits m R \<Longrightarrow> (\<And>a. emits (k a) (\<lambda>evs r. True)) \<Longrightarrow> emits (bindE m k) (\<lambda>evs r. True)"
  by (rule emits_bindE) auto

lemma emits_create_guarded:
  "emits (create_provider cl h name origin) (\<lambda>evs r. guarded_by_absence cl h evs)"
proof -
  have rest: "emits (bindE (checked_id cl tunnel ''tunnel_id'') (\<lambda>_.
     bindE (configure_stage cl h origin tunnel) (\<lambda>_.
     bindE (pre_mutation_stage cl h tunnel) (\<lambda>_.
     bindE (dns_stage cl h tunnel) (\<lambda>rid.
     bindE (checked_id cl rid ''dns_record_id'') (\<lambda>_.
     bindE (token_stage cl tunnel rid) (\<lambda>token.
     returnE \<lparr>ci_tunnel_id = tunnel, ci_dns_record_id = rid, ci_token = token\<rparr>)))))))
     (\<lambda>evs r. True)" for tunnel
    by (intro emits_then_any[OF emits_checked_id] emits_then_any[OF emits_configure_stage]
        emits_then_any[OF emits_pre_mutation_stage] emits_then_any[OF emits_dns_stage]
        emits_then_any[OF emits_token_stage] emits_returnE) simp
  show ?thesis
    unfolding create_provider_def
    by (rule emits_bindE[OF emits_allocate_guarded])
      (auto intro!: emits_mono[OF rest] guarded_append)
qed

section \<open>Properties\<close>

text \<open>
  C1: whatever the provider answers and wherever the creation stops, a creation changes
  only what it owns.  It may create the tunnel of the allocation; configure or delete
  the tunnel whose identifier the provider returned for that creation; create the record of the
  hostname that targets that tunnel; and delete a record only if the provider returned its
  identifier for that creation, or a consistent page of the provider proved that the record
  targets the new tunnel.
\<close>

theorem create_changes_only_owned:
  assumes "create_provider cl h name origin s = (r, s')"
  shows "\<exists>evs. trace s' = trace s @ evs
    \<and> (\<forall>rq \<in> mutations evs. owned_mutation cl name h origin evs rq)"
  using emitsE[OF emits_create_provider assms] by (metis create_outcome_def)

lemma create_changes_only_owned_witness:
  "\<exists>evs. trace (snd (sample_create script_token_refused)) = evs
    \<and> drop 3 (changes evs) =
         [delete_dns_record_request sample_client ''rec-1'',
          delete_tunnel_request sample_client ''tun-1'']
    \<and> (\<forall>rq \<in> mutations evs.
         owned_mutation sample_client ''alloc-1'' ''app.example.com'' ''http://gateway:8080'' evs rq)"
  using create_changes_only_owned[OF sample_create_eq[of script_token_refused]]
    sample_create_refused(2)
  by (simp add: with_script_def)

text \<open>
  the first change of a creation comes after the provider has answered the lookup of the
  hostname with no record at all: every prefix of the trace that ends before a change holds such
  an answer.  A hostname in use is never taken over.
\<close>

theorem create_needs_free_hostname:
  assumes "create_provider cl h name origin s = (r, s')"
  shows "\<exists>evs. trace s' = trace s @ evs
    \<and> (\<forall>before ev after. evs = before @ ev # after \<and> mutations [ev] \<noteq> {}
         \<longrightarrow> hostname_free cl h before)"
  using emitsE[OF emits_create_guarded assms] unfolding guarded_by_absence_def by metis

lemma create_needs_free_hostname_witness:
  "\<exists>evs. trace (snd (sample_create script_success)) = evs \<and> length (changes evs) = 3
    \<and> (\<forall>before ev after. evs = before @ ev # after \<and> mutations [ev] \<noteq> {}
         \<longrightarrow> hostname_free sample_client ''app.example.com'' before)"
  using create_needs_free_hostname[OF sample_create_eq[of script_success]] sample_create_success(2)
  by (simp add: with_script_def)

text \<open>
  C3: a creation that returns has been established by the provider's own answers: the hostname
  was free, the tunnel identifier was returned for the tunnel of this allocation, its
  configuration for this hostname and origin was acknowledged, the record is owned, and nothing
  was deleted on the way.
\<close>

theorem create_returns_established:
  assumes "create_provider cl h name origin s = (Inr c, s')"
  shows "\<exists>evs. trace s' = trace s @ evs \<and> established cl name h origin evs c"
  using emitsE[OF emits_create_provider assms] unfolding create_outcome_def
  by (metis sum.simps(6))

lemma create_returns_established_witness:
  "established sample_client ''alloc-1'' ''app.example.com'' ''http://gateway:8080''
     (trace (snd (sample_create script_success)))
     \<lparr>ci_tunnel_id = ''tun-1'', ci_dns_record_id = ''rec-1'', ci_token = ''generated''\<rparr>"
  using create_returns_established[OF sample_create_eq[of script_success, unfolded sample_create_success(1)]]
  by (simp add: with_script_def)

text \<open>
  C2: the evidence of a failed creation is true of the exchanges that were made.  Evidence of no
  mutation means that nothing was changed; a tunnel identifier is one the provider returned;
  a complete cleanup was acknowledged; withheld cleanup deleted nothing; and evidence that only
  the tunnel was created means that the record was never requested.
\<close>

theorem create_failure_evidence_true:
  assumes "create_provider cl h name origin s = (Inl (CloudflareProviderOperationError m ev), s')"
    and "\<not> stops (cl_control_errors cl) (CloudflareProviderOperationError m ev)"
  shows "\<exists>evs. trace s' = trace s @ evs \<and> evidence_true cl name evs ev"
proof -
  from emits_create_provider assms(1) obtain evs where "trace s' = trace s @ evs"
    and "create_outcome cl name h origin evs (Inl (CloudflareProviderOperationError m ev))"
    by (rule emitsE)
  with assms(2) show ?thesis by (auto simp: create_outcome_def)
qed

lemma create_failure_evidence_true_witness:
  "evidence_true sample_client ''alloc-1'' (trace (snd (sample_create script_token_refused)))
     \<lparr>ev_stage = TUNNEL_TOKEN, ev_category = PROVIDER_STATUS,
      ev_mutation_certainty = DNS_AND_TUNNEL_CREATED, ev_tunnel_id = Some ''tun-1'',
      ev_dns_record_id = Some ''rec-1'', ev_cleanup_result = COMPLETE\<rparr>"
  using create_failure_evidence_true
    [OF sample_create_eq[of script_token_refused, unfolded sample_create_refused(1)]
      sample_does_not_stop]
  by simp

section \<open>A creation the provider answers completes\<close>

definition exchanged ::
  "'w api_client \<Rightarrow> http_request \<Rightarrow> json \<Rightarrow> 'w \<Rightarrow> 'w \<Rightarrow> bool" where
  "exchanged cl rq body w w' \<longleftrightarrow>
     (\<exists>response. cl_transport cl rq w = (Inr response, w') \<and> check_response response = Inr body)"

lemma request_exchange:
  assumes "exchanged cl (api_request cl m p j q) body w w'"
  shows "\<exists>ev. request cl m p j q \<lparr>trace = tr, world = w\<rparr> =
    (Inr body, \<lparr>trace = tr @ [ev], world = w'\<rparr>)"
  using assms unfolding exchanged_def by (auto simp: request_def Let_def eff_defs)

text \<open>A step of the sequence: an exchange, and what the reading of its body returns.\<close>

definition yields ::
  "('w, 'a) cf_eff \<Rightarrow> 'a \<Rightarrow> 'w \<Rightarrow> 'w \<Rightarrow> bool" where
  "yields m a w w' \<longleftrightarrow>
     (\<forall>tr. \<exists>tr'. m \<lparr>trace = tr, world = w\<rparr> = (Inr a, \<lparr>trace = tr', world = w'\<rparr>))"

lemma yields_returnE: "yields (returnE a) a w w"
  by (simp add: yields_def returnE_def)

lemma yields_bindE: "yields m a w w' \<Longrightarrow> yields (k a) b w' w'' \<Longrightarrow> yields (bindE m k) b w w''"
  unfolding yields_def bindE_def by (metis (no_types, lifting) case_prod_conv sum.simps(6))

lemma yields_attempt:
  "yields m a w w' \<Longrightarrow> yields (provider_attempt m controls) (Inr a) w w'"
  unfolding yields_def provider_attempt_def attemptE_def returnE_def
  by (metis (no_types, lifting) case_prod_conv sum.simps(6))

lemma yields_request:
  "exchanged cl (api_request cl m p j q) body w w' \<Longrightarrow> yields (request cl m p j q) body w w'"
  unfolding yields_def using request_exchange by metis

lemma yields_request_then:
  assumes "exchanged cl (api_request cl m p j q) body w w'" and "k body = returnE a"
  shows "yields (bindE (request cl m p j q) k) a w w'"
  by (rule yields_bindE[OF yields_request[OF assms(1)]]) (simp add: assms(2) yields_returnE)

text \<open>
  C4: a creation whose requests the provider accepts completes.  When the hostname is listed
  free before and after the tunnel is configured, and the tunnel, the record and
  the token are returned, the operation returns exactly these three values after the
  six exchanges, whatever else the answers contain.
\<close>

theorem create_completes:
  assumes "validate_hostname h = Inr ()" "validate_identifier name ''tunnel name'' = Inr ()"
    "validate_origin_service origin = Inr ()"
    and "\<And>l. validate_identifier t l = Inr ()" "\<And>l. validate_identifier rid l = Inr ()"
    and "exchanged cl (list_request cl h) b0 w0 w1" "json_get b0 ''result'' = JList []"
    and "exchanged cl (create_tunnel_request cl name) b1 w1 w2" "result_text b1 ''id'' = Inr t"
    and "exchanged cl (configure_tunnel_request cl (t, h, origin)) b2 w2 w3"
    and "exchanged cl (list_request cl h) b3 w3 w4" "json_get b3 ''result'' = JList []"
    and "exchanged cl (create_dns_request cl (h, t)) b4 w4 w5" "result_text b4 ''id'' = Inr rid"
    and "exchanged cl (token_request cl t) b5 w5 w6" "json_get b5 ''result'' = JStr token"
    and "py_strip token \<noteq> []" "cl_secret_value cl token = Inr value"
  shows "\<exists>tr'. create_provider cl h name origin \<lparr>trace = tr, world = w0\<rparr> =
    (Inr \<lparr>ci_tunnel_id = t, ci_dns_record_id = rid, ci_token = value\<rparr>,
     \<lparr>trace = tr', world = w6\<rparr>)"
proof -
  have free: "yields (observe_exact_hostname cl h u) (observed HOST_ABSENT None) w w'"
    if "exchanged cl (list_request cl h) b w w'" "json_get b ''result'' = JList []" for b u w w'
    unfolding observe_exact_hostname_def list_dns_records_for_hostname_def assms(1)
    using that unfolding list_request_def
    by (auto intro!: yields_bindE[OF yields_request_then] yields_returnE
        simp: classify_exact_records_def)
  have tunnel: "yields (create_tunnel cl name) t w1 w2"
    using assms(8,9) unfolding create_tunnel_def assms(2) create_tunnel_request_def
    by (auto intro!: yields_request_then simp: or_malformed_def)
  have configured: "yields (configure_tunnel cl t h origin) () w2 w3"
    using assms(10) unfolding configure_tunnel_def assms(1,3,4) configure_tunnel_request_def
    by (auto intro!: yields_request_then)
  have recorded: "yields (create_dns_cname_unchecked cl h t) rid w4 w5"
    using assms(13,14) unfolding create_dns_cname_unchecked_def assms(1,4) create_dns_request_def
    by (auto intro!: yields_request_then simp: or_malformed_def tunnel_target_def assms(4))
  have fetched: "yields (get_tunnel_token cl t) value w5 w6"
    using assms(15-18) unfolding get_tunnel_token_def assms(4) token_request_def
    by (auto intro!: yields_request_then)
  have checked: "yields (checked_id cl x label) () w w"
    if "validate_identifier x label = Inr ()" for x label w
    using that by (simp add: checked_id_def yields_returnE)
  have "yields (allocate_tunnel cl h name) t w0 w2"
    unfolding allocate_tunnel_def
    by (rule yields_bindE[OF yields_attempt[OF free[OF assms(6,7)]]])
      (auto intro!: yields_bindE[OF yields_attempt[OF tunnel]] yields_returnE simp: observed_def)
  moreover have "yields (configure_stage cl h origin t) () w2 w3"
    unfolding configure_stage_def
    by (rule yields_bindE[OF yields_attempt[OF configured]]) (simp add: yields_returnE)
  moreover have "yields (pre_mutation_stage cl h t) () w3 w4"
    unfolding pre_mutation_stage_def
    by (rule yields_bindE[OF yields_attempt[OF free[OF assms(11,12)]]])
      (simp add: yields_returnE observed_def)
  moreover have "yields (dns_stage cl h t) rid w4 w5"
    unfolding dns_stage_def
    by (rule yields_bindE[OF yields_attempt[OF recorded]]) (simp add: yields_returnE)
  moreover have "yields (token_stage cl t rid) value w5 w6"
    unfolding token_stage_def
    by (rule yields_bindE[OF yields_attempt[OF fetched]]) (simp add: yields_returnE)
  ultimately have "yields (create_provider cl h name origin)
      \<lparr>ci_tunnel_id = t, ci_dns_record_id = rid, ci_token = value\<rparr> w0 w6"
    unfolding create_provider_def
    by (auto intro!: yields_bindE yields_returnE checked assms(4,5))
  then show ?thesis unfolding yields_def by metis
qed

lemma sample_exchange [simp]:
  "exchanged sample_client rq (JObj ((''success'', JBool True) # kvs)) (answer kvs # rest) rest"
  by (simp add: exchanged_def answer_def)

lemma create_completes_witness:
  "\<exists>tr'. create_provider sample_client ''app.example.com'' ''alloc-1'' ''http://gateway:8080''
       \<lparr>trace = [], world = script_success\<rparr> =
     (Inr \<lparr>ci_tunnel_id = ''tun-1'', ci_dns_record_id = ''rec-1'', ci_token = ''generated''\<rparr>,
      \<lparr>trace = tr', world = []\<rparr>)"
  unfolding script_success_def
  by (rule create_completes[OF _ _ _ _ _ sample_exchange _ sample_exchange _ sample_exchange
        sample_exchange _ sample_exchange _ sample_exchange])
    (simp_all add: client_run)

end
