(* ===== verification/Cloudflare_Retain_Props.thy ===== *)
theory Cloudflare_Retain_Props
  imports Cloudflare_Rebind_Facts Cloudflare_Create_Props
begin

text \<open>
  The properties of the retained lifecycle: rebinding, deactivation, release and teardown,
  for every transport, custodian and resolver, each with a run that meets its hypotheses.
\<close>

section \<open>The client of an operation\<close>

lemma emits_resolve_api_token:
  assumes "\<And>g. emits (res g) (\<lambda>evs r. mutations evs = {} \<and> \<not> tried_stores evs)"
  shows "emits (resolve_api_token env res a g controls)
    (\<lambda>evs r. mutations evs = {} \<and> \<not> tried_stores evs)"
proof -
  have "emits (attemptE (res g) (\<lambda>e. liftE (ie_authorized_value env g (Inl e)))
      (\<lambda>x. liftE (ie_authorized_value env g (Inr x))))
    (\<lambda>evs r. mutations evs = {} \<and> \<not> tried_stores evs)"
    by (rule emits_attemptE[OF assms]) (auto intro!: emit_intros)
  then show ?thesis
    unfolding resolve_api_token_def
    by (intro emits_if emits_raiseE, simp)
      (rule emits_attemptE, assumption, auto intro!: emit_intros split: cf_exn.split)
qed

lemma emits_resolver:
  "emits (resolver_resolve env resolver g) (\<lambda>evs r. mutations evs = {} \<and> \<not> tried_stores evs)"
  unfolding resolver_resolve_def by (rule emits_callE) (simp add: tried_stores_def)

lemma emits_ingress_client:
  "emits (ingress_client env a g (None :: ('w, 'p) ingress_port option))
    (\<lambda>evs r. mutations evs = {} \<and> \<not> tried_stores evs
       \<and> (\<forall>cl. r = Inr cl \<longrightarrow> cl_authority cl = a \<and> cl_control_errors cl = []))"
  unfolding ingress_client_def ingress_controls_def control_errors_def
  by (auto intro!: emits_bindE[OF emits_resolve_api_token[OF emits_resolver]] emit_intros
      simp: tried_stores_def split: option.split)


text \<open>
  An operation that first checks its arguments, then obtains a client for its authority: the
  relation \<open>R\<close> holds of the client and of the events after it was obtained, unless the
  operation was refused before.
\<close>

definition with_client ::
  "zone_authority \<Rightarrow> ('w api_client \<Rightarrow> cf_event list \<Rightarrow> cf_exn + 'a \<Rightarrow> bool)
    \<Rightarrow> cf_event list \<Rightarrow> cf_exn + 'a \<Rightarrow> bool" where
  "with_client a R evs r \<longleftrightarrow>
     (\<exists>cl evs0 evs'. cl_authority cl = a \<and> evs = evs0 @ evs' \<and> mutations evs0 = {}
        \<and> \<not> tried_stores evs0 \<and> (isl r \<and> evs' = [] \<or> R cl evs' r))"

lemma with_client_refused:
  "mutations evs = {} \<Longrightarrow> \<not> tried_stores evs \<Longrightarrow> with_client a R evs (Inl e)"
  unfolding with_client_def
  by (rule exI[of _ "\<lparr>cl_authority = a, cl_api_token = [], cl_transport = undefined,
      cl_control_errors = [], cl_secret_value = undefined\<rparr>"], rule exI[of _ evs]) simp

lemma with_clientI:
  "cl_authority cl = a \<Longrightarrow> mutations evs0 = {} \<Longrightarrow> \<not> tried_stores evs0 \<Longrightarrow> R cl evs' r
    \<Longrightarrow> with_client a R (evs0 @ evs') r"
  unfolding with_client_def by blast

lemma emits_with_client:
  assumes "\<And>cl. cl_control_errors cl = [] \<Longrightarrow> emits (k cl) (R cl)"
  shows "emits (bindE (ingress_client env a g (None :: ('w, 'p) ingress_port option)) k)
    (with_client a R)"
  by (rule emits_bindE[OF emits_ingress_client])
    (auto intro!: with_client_refused with_clientI emits_mono[OF assms])

lemma with_client_refused_nil: "with_client a R [] (Inl e)"
  by (rule with_client_refused) simp_all

lemmas client_intros =
  emits_validated emits_required emits_case_option emits_raiseE with_client_refused_nil
  emits_with_client

lemma run_with_client:
  assumes "emits m (with_client a R)" "m s = (r, s')"
    and "\<And>cl evs. R cl evs r \<Longrightarrow> T cl evs"
    and "\<And>cl. isl r \<Longrightarrow> T cl []"
  shows "\<exists>cl evs0 evs. cl_authority cl = a \<and> trace s' = trace s @ evs0 @ evs
    \<and> mutations evs0 = {} \<and> T cl evs"
proof -
  from assms(1,2) obtain evs where t: "trace s' = trace s @ evs" and w: "with_client a R evs r"
    by (rule emitsE)
  from w obtain cl evs0 evs' where "cl_authority cl = a" "evs = evs0 @ evs'" "mutations evs0 = {}"
    "isl r \<and> evs' = [] \<or> R cl evs' r"
    unfolding with_client_def by blast
  with t assms(3,4) show ?thesis by blast
qed

lemma emits_rebind:
  "emits (rebind (env :: ('w, 'rg, 'res, 'cg, 'rc) ingress_env) h a rv name origin rg cg)
    (with_client a (\<lambda>(cl :: 'w api_client) evs r.
       (\<forall>rq \<in> mutations evs. rebind_mutation cl rv name origin evs rq)
       \<and> (\<forall>alloc. r = Inr alloc \<longrightarrow> rebound cl rv name origin evs (al_tunnel_id alloc)
            \<and> al_hostname alloc = rv_hostname rv \<and> al_dns_record_id alloc = rv_dns_record_id rv)))"
  unfolding rebind_def
  apply (intro client_intros)
  apply (rule emits_bindE[OF emits_rebind_provider], assumption)
   apply (auto intro!: emit_intros simp: rebind_outcome_def make_ingress_allocation_def bindR_Inr_iff)
  done

lemma emits_deactivate:
  "emits (deactivate_preserving_reservation (env :: ('w, 'rg, 'res, 'cg, 'rc) ingress_env)
        a rv res rg cg)
    (with_client a (\<lambda>(cl :: 'w api_client) evs r.
       mutations evs \<subseteq> {delete_connections_request cl (or_tunnel_id res),
                         delete_tunnel_request cl (or_tunnel_id res)}
       \<and> (mutations evs \<noteq> {} \<longrightarrow> reservation_at cl rv (rv_expected_tunnel_id rv) evs)
       \<and> (\<forall>d. r = Inr d \<longrightarrow> deactivated cl rv (or_tunnel_id res) evs)))"
  unfolding deactivate_preserving_reservation_def
  by (intro client_intros emits_deactivate_provider)

lemma emits_release:
  "emits (release_reservation (env :: ('w, 'rg, 'res, 'cg, 'rc) ingress_env) a rv rg)
    (with_client a (\<lambda>(cl :: 'w api_client) evs r.
       mutations evs \<subseteq> {delete_dns_record_request cl (rv_dns_record_id rv)}
       \<and> (mutations evs \<noteq> {} \<longrightarrow> reservation_at cl rv (rv_expected_tunnel_id rv) evs)
       \<and> (\<forall>ob. r = Inr ob \<longrightarrow> released cl rv evs \<and> ro_presence ob = RES_ABSENT)))"
  unfolding release_reservation_def
  by (intro client_intros emits_release_provider)

lemma emits_teardown:
  "emits (teardown (env :: ('w, 'rg, 'res, 'cg, 'rc) ingress_env) a res rg cg
        (None :: ('w, 'p) ingress_port option))
    (with_client a (\<lambda>(cl :: 'w api_client) evs r.
       mutations evs \<subseteq> removal_requests cl res
       \<and> (r = Inr () \<longrightarrow> revoked evs \<and> removed cl res evs)))"
  unfolding teardown_def option.case
  by (intro client_intros emits_mono[OF emits_teardown_provider]) auto

section \<open>Samples\<close>

definition sample_env ::
  "((cf_exn + http_response) list, unit, unit, unit, unit) ingress_env" where
  "sample_env =
     \<lparr>ie_transport = scripted_transport, ie_secret_value = Inr,
      ie_resolver = Some (\<lambda>g w. (Inr (), w)),
      ie_custodian = Some \<lparr>cu_store = (\<lambda>g token w. (Inr (), w)), cu_revoke = (\<lambda>g w. (Inr True, w))\<rparr>,
      ie_require_invocations = False, ie_resolution_permits = (\<lambda>g reference. True),
      ie_prepared_grant_ok = (\<lambda>g. True), ie_authorization_id = (\<lambda>g. ''auth''),
      ie_authorized_value = (\<lambda>g r. Inr ''t0''), ie_custody_permits = (\<lambda>g. True),
      ie_receipt_is = (\<lambda>r. True), ie_receipt_exact = (\<lambda>r. True),
      ie_receipt_replace = (\<lambda>r. Inr ()), ie_receipt_matches = (\<lambda>r g. Inr True),
      ie_receipt_active = (\<lambda>r. True), ie_receipt_version = (\<lambda>r. JInt 1),
      ie_receipt_reference = (\<lambda>r. None), ie_receipt_descriptor = (\<lambda>r. JNull)\<rparr>"

definition sample_reservation :: hostname_reservation where
  "sample_reservation =
     \<lparr>rv_dns_record_id = ''rec-1'', rv_hostname = ''app.example.com'', rv_expected_tunnel_id = ''tun-1''\<rparr>"

definition sample_resources :: owned_resources where
  "sample_resources =
     \<lparr>or_tunnel_id = ''tun-1'', or_dns_record_id = ''rec-1'', or_tunnel_name = ''alloc-1'',
      or_hostname = ''app.example.com''\<rparr>"

definition record_answer :: "string \<Rightarrow> cf_exn + http_response" where
  "record_answer t = answer [(''result'', JObj
     [(''id'', JStr ''rec-1''), (''type'', JStr ''CNAME''), (''name'', JStr ''app.example.com''),
      (''proxied'', JBool True), (''content'', JStr (t @ ''.cfargotunnel.com''))])]"

lemma samples_admitted [simp]:
  "allows_hostname sample_authority ''app.example.com''"
  by code_simp

lemma sample_env_simps [simp]:
  "ie_custodian sample_env = Some \<lparr>cu_store = (\<lambda>g token w. (Inr (), w)), cu_revoke = (\<lambda>g w. (Inr True, w))\<rparr>"
  "ie_receipt_matches sample_env r g = Inr True" "ie_receipt_is sample_env r"
  "ie_require_invocations sample_env = False"
  "require_tunnel_token_custody_grant sample_env g = Inr ()"
  by (simp_all add: sample_env_def require_tunnel_token_custody_grant_def)

lemma sample_ingress_client [simp]:
  "ingress_client sample_env sample_authority g (None :: ((cf_exn + http_response) list, unit) ingress_port option) s =
     (Inr sample_client, s\<lparr>trace := trace s @ [TokenResolve (Inr ())]\<rparr>)"
  by (simp add: ingress_client_def ingress_controls_def control_errors_def resolve_api_token_def
      resolver_resolve_def sample_env_def eff_defs outcome_of_def sample_client_def)

lemmas retain_run =
  client_run get_dns_record_def update_dns_cname_def delete_tunnel_connections_def get_tunnel_def
  observe_hostname_reservation_def read_reservation_record_def require_observed_tunnel_def
  require_expected_reservation_def make_reservation_observation_def tunnel_suffix_def
  py_startswith_def py_endswith_def py_removesuffix_def py_lower_def check_response_def show_int_def
  record_answer_def answer_def refusal_def with_script_def
  custody_store_def custody_revoke_def outcome_of_def

lemmas rebind_run =
  rebind_def rebind_provider_def rebind_tunnel_def rebind_dns_def rebind_custody_def
  rebind_failure_def restore_rebind_reservation_def make_ingress_allocation_def
  require_reservation_authority_def sample_reservation_def caught_by_def

definition rebind_script :: "(cf_exn + http_response) list" where
  "rebind_script =
     [answer [(''result'', JObj [(''id'', JStr ''tun-2'')])], answer [], record_answer ''tun-1'',
      answer [], record_answer ''tun-2'', answer [(''result'', JStr ''generated'')],
      record_answer ''tun-2'']"

definition rebind_script_refused :: "(cf_exn + http_response) list" where
  "rebind_script_refused =
     take 5 rebind_script @ [refusal 500, record_answer ''tun-2'', answer [], record_answer ''tun-1'',
       answer []]"

definition sample_rebind where
  "sample_rebind =
     rebind sample_env ''app.example.com'' sample_authority sample_reservation ''alloc-2''
       ''http://gateway:8080'' () () (with_script rebind_script)"

definition sample_rebind_failed where
  "sample_rebind_failed =
     rebind_provider sample_env sample_client
       \<lparr>cu_store = (\<lambda>g token w. (Inr (), w)), cu_revoke = (\<lambda>g w. (Inr True, w))\<rparr> ()
       sample_reservation ''alloc-2'' ''http://gateway:8080'' (with_script rebind_script_refused)"

lemma rebind_samples_valid [simp]:
  "reject_secret_text ''tun-2'' l = Inr ()"
  "reject_secret_text ''alloc-2'' l = Inr ()"
  by (code_simp; simp add: reject_secret_text_def)+

lemma sample_rebind_eq:
  "fst sample_rebind =
     Inr \<lparr>al_tunnel_id = ''tun-2'', al_tunnel_name = ''alloc-2'', al_secret_custody_receipt = (),
          al_dns_record_id = ''rec-1'', al_hostname = ''app.example.com'',
          al_endpoint_url = ''https://app.example.com''\<rparr>"
  by (simp add: sample_rebind_def rebind_script_def retain_run rebind_run)

lemma sample_rebind_failed_eq:
  "fst sample_rebind_failed =
     Inl (CloudflareApiError ''Cloudflare API request failed with status 500'')"
  "changes (trace (snd sample_rebind_failed)) =
     [create_tunnel_request sample_client ''alloc-2'',
      configure_tunnel_request sample_client
        (''tun-2'', ''app.example.com'', ''http://gateway:8080''),
      bind_request sample_client sample_reservation ''tun-2'',
      restore_request sample_client sample_reservation, delete_tunnel_request sample_client ''tun-2'']"
  by (simp_all add: sample_rebind_failed_def rebind_script_refused_def rebind_script_def retain_run
      rebind_run request_shapes bind_request_def restore_request_def)

definition deactivation_script :: "(cf_exn + http_response) list" where
  "deactivation_script =
     [record_answer ''tun-1'', answer [], answer [], record_answer ''tun-1'', refusal 404]"

definition sample_deactivation where
  "sample_deactivation =
     deactivate_preserving_reservation sample_env sample_authority sample_reservation
       sample_resources () () (with_script deactivation_script)"

lemma sample_deactivation_eq:
  "\<exists>d. fst sample_deactivation = Inr d"
  by (simp add: sample_deactivation_def deactivation_script_def retain_run
      deactivate_preserving_reservation_def deactivate_provider_def observation_or_failed_def
      expect_reservation_def expect_tunnel_absent_def observe_tunnel_def make_tunnel_observation_def
      make_retained_deactivation_def require_reservation_authority_def sample_reservation_def
      sample_resources_def require_reservation_resource_agreement_def caught_by_def)

definition sample_release where
  "sample_release =
     release_reservation sample_env sample_authority sample_reservation ()
       (with_script [record_answer ''tun-1'', answer [], refusal 404])"

lemma sample_release_eq:
  "\<exists>ob. fst sample_release = Inr ob"
  by (simp add: sample_release_def retain_run release_reservation_def release_provider_def
      observation_or_failed_def expect_reservation_def require_reservation_authority_def
      sample_reservation_def caught_by_def)

definition sample_teardown where
  "sample_teardown =
     teardown sample_env sample_authority sample_resources () ()
       (None :: ((cf_exn + http_response) list, unit) ingress_port option)
       (with_script [answer [], answer [], answer []])"

definition sample_teardown_failed where
  "sample_teardown_failed =
     teardown_provider sample_client
       \<lparr>cu_store = (\<lambda>g token w. (Inr (), w)), cu_revoke = (\<lambda>g w. (Inr True, w))\<rparr> ()
       sample_resources (with_script [answer [], refusal 500, answer []])"

lemma sample_teardown_eq:
  "fst sample_teardown = Inr ()"
  by (simp add: sample_teardown_def retain_run teardown_def teardown_provider_def provider_stages_def
      sample_resources_def caught_by_def ingress_controls_def control_errors_def)

lemma sample_teardown_failed_eq:
  "fst sample_teardown_failed =
     Inl (CloudflareApiError ''Cloudflare exact cleanup is uncertain: connections'')"
  by (simp add: sample_teardown_failed_def retain_run teardown_provider_def provider_stages_def
      sample_resources_def caught_by_def stage_list_def)

lemma sample_pair: "fst p = a \<Longrightarrow> p = (a, snd p)"
  by (cases p) simp

section \<open>Properties\<close>

text \<open>
  a rebinding never creates or deletes a DNS record and patches no record but the
  reserved one, to the tunnel that the provider returned for this rebinding or back to the
  expected one.  Besides, it only creates a tunnel and configures or deletes that tunnel.
\<close>

theorem rebind_changes_only_reservation:
  fixes env :: "('w, 'rg, 'res, 'cg, 'rc) ingress_env"
  assumes "rebind env h a rv name origin rg cg s = (r, s')"
  shows "\<exists>(cl :: 'w api_client) evs0 evs. cl_authority cl = a \<and> trace s' = trace s @ evs0 @ evs
    \<and> mutations evs0 = {} \<and> (\<forall>rq \<in> mutations evs. rebind_mutation cl rv name origin evs rq)"
  by (rule run_with_client[OF emits_rebind assms]) auto

lemma rebind_changes_only_reservation_witness:
  "\<exists>cl evs0 evs. cl_authority cl = sample_authority
    \<and> trace (snd sample_rebind) = evs0 @ evs \<and> mutations evs0 = {}
    \<and> (\<forall>rq \<in> mutations evs. rebind_mutation (cl :: (cf_exn + http_response) list api_client)
          sample_reservation ''alloc-2'' ''http://gateway:8080'' evs rq)"
  using rebind_changes_only_reservation[OF sample_rebind_def[symmetric, THEN trans, OF prod.collapse[symmetric]]]
  by simp

text \<open>
  C6: a rebinding that returns has bound the retained hostname to the new tunnel: the record was
  seen at the expected tunnel, the tunnel was created and configured, the patch was
  acknowledged, and the last exchanges stored the token and saw the record at the new
  tunnel.  The allocation names that tunnel and the reserved record.
\<close>

theorem rebind_returns_rebound:
  fixes env :: "('w, 'rg, 'res, 'cg, 'rc) ingress_env"
  assumes "rebind env h a rv name origin rg cg s = (Inr alloc, s')"
  shows "\<exists>(cl :: 'w api_client) evs0 evs. cl_authority cl = a \<and> trace s' = trace s @ evs0 @ evs
    \<and> mutations evs0 = {} \<and> rebound cl rv name origin evs (al_tunnel_id alloc)
    \<and> al_hostname alloc = rv_hostname rv \<and> al_dns_record_id alloc = rv_dns_record_id rv"
  by (rule run_with_client[OF emits_rebind assms]) auto

lemma rebind_returns_rebound_witness:
  "\<exists>cl evs0 evs. cl_authority cl = sample_authority
    \<and> trace (snd sample_rebind) = evs0 @ evs \<and> mutations evs0 = {}
    \<and> rebound (cl :: (cf_exn + http_response) list api_client) sample_reservation ''alloc-2''
        ''http://gateway:8080'' evs ''tun-2''"
  using rebind_returns_rebound[OF sample_rebind_def[symmetric, THEN trans,
      OF sample_pair[OF sample_rebind_eq]]]
  by auto



text \<open>
  C7: deactivating a realization never touches DNS.  It deletes at most the connections and the
  tunnel of the realization, and only after the reserved record was seen at that tunnel; when it
  returns, the token was revoked and both deletions were acknowledged, and afterwards the record was seen
  still targeting the expected tunnel and the tunnel was seen gone.
\<close>

theorem deactivation_preserves_reservation:
  fixes env :: "('w, 'rg, 'res, 'cg, 'rc) ingress_env"
  assumes "deactivate_preserving_reservation env a rv res rg cg s = (r, s')"
  shows "\<exists>(cl :: 'w api_client) evs0 evs. cl_authority cl = a \<and> trace s' = trace s @ evs0 @ evs
    \<and> mutations evs0 = {}
    \<and> mutations evs \<subseteq> {delete_connections_request cl (or_tunnel_id res),
                        delete_tunnel_request cl (or_tunnel_id res)}
    \<and> (mutations evs \<noteq> {} \<longrightarrow> reservation_at cl rv (rv_expected_tunnel_id rv) evs)
    \<and> (\<forall>d. r = Inr d \<longrightarrow> deactivated cl rv (or_tunnel_id res) evs)"
  by (rule run_with_client[OF emits_deactivate assms]) auto

lemma deactivation_preserves_reservation_witness:
  "\<exists>cl evs0 evs. cl_authority cl = sample_authority
    \<and> trace (snd sample_deactivation) = evs0 @ evs \<and> mutations evs0 = {}
    \<and> deactivated (cl :: (cf_exn + http_response) list api_client) sample_reservation ''tun-1'' evs"
proof -
  obtain d where "fst sample_deactivation = Inr d" using sample_deactivation_eq by blast
  from deactivation_preserves_reservation[OF sample_deactivation_def[symmetric, THEN trans,
      OF sample_pair[OF this]]]
  show ?thesis by (simp add: sample_resources_def) blast
qed

text \<open>
  releasing a reservation deletes at most the one reserved record, only after it was seen at the
  expected tunnel, and returns only when the deletion was acknowledged and the record was afterwards
  not found.
\<close>

theorem release_deletes_exact_record:
  fixes env :: "('w, 'rg, 'res, 'cg, 'rc) ingress_env"
  assumes "release_reservation env a rv rg s = (r, s')"
  shows "\<exists>(cl :: 'w api_client) evs0 evs. cl_authority cl = a \<and> trace s' = trace s @ evs0 @ evs
    \<and> mutations evs0 = {}
    \<and> mutations evs \<subseteq> {delete_dns_record_request cl (rv_dns_record_id rv)}
    \<and> (mutations evs \<noteq> {} \<longrightarrow> reservation_at cl rv (rv_expected_tunnel_id rv) evs)
    \<and> (\<forall>ob. r = Inr ob \<longrightarrow> released cl rv evs \<and> ro_presence ob = RES_ABSENT)"
  by (rule run_with_client[OF emits_release assms]) auto

lemma release_deletes_exact_record_witness:
  "\<exists>cl evs0 evs. cl_authority cl = sample_authority
    \<and> trace (snd sample_release) = evs0 @ evs \<and> mutations evs0 = {}
    \<and> released (cl :: (cf_exn + http_response) list api_client) sample_reservation evs"
proof -
  obtain ob where "fst sample_release = Inr ob" using sample_release_eq by blast
  from release_deletes_exact_record[OF sample_release_def[symmetric, THEN trans,
      OF sample_pair[OF this]]]
  show ?thesis by simp blast
qed

text \<open>
  a teardown without an invocation port requests nothing but the deletion of the owned record,
  connections and tunnel, and returns only when the token was revoked and all three deletions were
  acknowledged.
\<close>

theorem teardown_returns_removed:
  fixes env :: "('w, 'rg, 'res, 'cg, 'rc) ingress_env"
  assumes "teardown env a res rg cg (None :: ('w, 'p) ingress_port option) s = (r, s')"
  shows "\<exists>(cl :: 'w api_client) evs0 evs. cl_authority cl = a \<and> trace s' = trace s @ evs0 @ evs
    \<and> mutations evs0 = {} \<and> mutations evs \<subseteq> removal_requests cl res
    \<and> (r = Inr () \<longrightarrow> revoked evs \<and> removed cl res evs)"
  by (rule run_with_client[OF emits_teardown assms]) auto

lemma teardown_returns_removed_witness:
  "\<exists>cl evs0 evs. cl_authority cl = sample_authority
    \<and> trace (snd sample_teardown) = evs0 @ evs \<and> mutations evs0 = {}
    \<and> removed (cl :: (cf_exn + http_response) list api_client) sample_resources evs"
  using teardown_returns_removed[OF sample_teardown_def[symmetric, THEN trans,
      OF sample_pair[OF sample_teardown_eq]]]
  by auto

text \<open>
  the teardown of the owned resources attempts the revocation and then the three deletions in
  order, whatever fails in between, and its exception names exactly the stages that failed.
\<close>

theorem teardown_failure_names_stages:
  assumes "teardown_provider cl cu grant res s = (Inl e, s')" and "is_exception e"
  shows "\<exists>evs failed. trace s' = trace s @ evs \<and> failed \<noteq> []
    \<and> cleanup_outcome (teardown_specs cl res) evs failed
    \<and> e = CloudflareApiError (''Cloudflare exact cleanup is uncertain: '' @ stage_list failed)"
proof -
  from emits_teardown_provider assms(1) obtain evs where "trace s' = trace s @ evs"
    "\<forall>e'. Inl e = (Inl e' :: cf_exn + unit) \<and> is_exception e' \<longrightarrow>
       (\<exists>failed. failed \<noteq> [] \<and> cleanup_outcome (teardown_specs cl res) evs failed
          \<and> e' = CloudflareApiError (''Cloudflare exact cleanup is uncertain: '' @ stage_list failed))"
    by (rule emitsE) blast
  with assms(2) show ?thesis by blast
qed

lemma teardown_failure_names_stages_witness:
  "\<exists>failed. cleanup_outcome (teardown_specs sample_client sample_resources)
       (trace (snd sample_teardown_failed)) failed \<and> stage_list failed = ''connections''"
  using teardown_failure_names_stages[OF sample_teardown_failed_def[symmetric, THEN trans,
      OF sample_pair[OF sample_teardown_failed_eq]]]
  by auto

end
