(* ===== verification/Cloudflare_Custody_Props.thy ===== *)
theory Cloudflare_Custody_Props
  imports Cloudflare_Retain_Props
begin

text \<open>
  The bracket of an admitted ingress capability, the custody of the generated token, the
  whole creation without an invocation port, and the call-local resolver.
\<close>

section \<open>Ingress capabilities\<close>

definition capability_recorded ::
  "ingress_kind \<Rightarrow> ('a \<Rightarrow> json) \<Rightarrow> cf_exn + 'a \<Rightarrow> cf_event \<Rightarrow> bool" where
  "capability_recorded kind returned r b \<longleftrightarrow>
     (case r of
        Inr v \<Rightarrow> (\<exists>x. b = RecordResult ''returned'' (returned v) x)
      | Inl e \<Rightarrow> (\<exists>x. b = RecordResult (fst (ingress_failure kind e))
                                (fst (snd (ingress_failure kind e))) x))"

definition capability_control :: "('w, 'p) ingress_port \<Rightarrow> cf_exn \<Rightarrow> bool" where
  "capability_control p e \<longleftrightarrow> is_port_error e \<or> port_control cf_vocabulary p e"

lemma emits_port_record_result:
  "ip_record_result p \<noteq> None \<Longrightarrow> emits (port_record_result p permit outcome payload)
     (\<lambda>evs r. \<exists>x. evs = [RecordResult outcome payload x])"
  by (auto simp: port_record_result_def intro!: emits_callE)

lemma ingress_controls_Some:
  "ingress_controls (Some p) required = Inr controls \<Longrightarrow>
     ip_record_result p \<noteq> None \<and> (\<forall>e. caught_by controls e \<longleftrightarrow> capability_control p e)"
  by (auto simp: ingress_controls_def control_errors_def bindR_Inr_iff caught_by_def
      capability_control_def port_control_def split: option.splits)

text \<open>The exception the caller sees when the capability raised \<open>e\<close> and the recording succeeded.\<close>

definition public_failure :: "ingress_kind \<Rightarrow> cf_exn \<Rightarrow> cf_exn" where
  "public_failure kind e = (if is_exception e then snd (snd (ingress_failure kind e)) else e)"

lemma emits_capability_failure:
  assumes "ip_record_result p \<noteq> None"
  shows "emits (case ingress_failure kind e of (outcome, payload, public_error) \<Rightarrow>
       if \<not> is_exception e
       then bindE (catchE is_exception (port_record_result p permit outcome payload)
                     (\<lambda>_. returnE ())) (\<lambda>_. raiseE e)
       else bindE (port_record_result p permit outcome payload) (\<lambda>_. raiseE public_error))
     (\<lambda>evs r. isl r \<and> (\<exists>b. evs = [b] \<and> capability_recorded kind returned (Inl e) b))"
proof -
  obtain outcome payload pub where f: "ingress_failure kind e = (outcome, payload, pub)"
    by (cases "ingress_failure kind e")
  note recorded = emits_port_record_result[OF assms, of permit outcome payload]
  have caught: "emits (catchE is_exception (port_record_result p permit outcome payload)
      (\<lambda>_. returnE ())) (\<lambda>evs r. \<exists>x. evs = [RecordResult outcome payload x])"
    by (rule emits_catchE[OF recorded]) (auto intro: emits_returnE)
  show ?thesis
    unfolding f prod.case capability_recorded_def
    by (intro emits_if emits_bindE[OF caught] emits_bindE[OF recorded] emits_raiseE)
      (auto simp: f)
qed

lemma ingress_bracket:
  assumes call: "emits call R"
  shows "emits (invoke_ingress (Some p) kind call returned)
    (\<lambda>evs r. (evs = [] \<and> isl r)
      \<or> (\<exists>a. (\<exists>x. a = Admit (kind_value kind) x) \<and> evs = [a] \<and> isl r)
      \<or> (\<exists>a inner e. (\<exists>x. a = Admit (kind_value kind) x) \<and> evs = a # inner \<and> R inner (Inl e)
            \<and> capability_control p e \<and> r = Inl e)
      \<or> (\<exists>a inner r0 b. (\<exists>x. a = Admit (kind_value kind) x) \<and> evs = a # inner @ [b] \<and> R inner r0
            \<and> capability_recorded kind returned r0 b \<and> (\<forall>v. r = Inr v \<longrightarrow> r0 = Inr v)))"
proof (cases "ingress_controls (Some p) False")
  case (Inl e)
  then show ?thesis by (auto simp: invoke_ingress_def intro: emits_raiseE)
next
  case (Inr controls)
  then have rec: "ip_record_result p \<noteq> None"
    and caught: "\<And>e. caught_by controls e \<longleftrightarrow> capability_control p e"
    using ingress_controls_Some by blast+
  have body: "emits (attemptE call
       (\<lambda>e. if caught_by controls e then raiseE e
         else (case ingress_failure kind e of (outcome, payload, public_error) \<Rightarrow>
           if \<not> is_exception e
           then bindE (catchE is_exception (port_record_result p permit outcome payload)
                         (\<lambda>_. returnE ())) (\<lambda>_. raiseE e)
           else bindE (port_record_result p permit outcome payload) (\<lambda>_. raiseE public_error)))
       (\<lambda>value. bindE (port_record_result p permit ''returned'' (returned value))
           (\<lambda>_. returnE value)))
     (\<lambda>evs r. (\<exists>e. R evs (Inl e) \<and> capability_control p e \<and> r = Inl e)
       \<or> (\<exists>inner r0 b. evs = inner @ [b] \<and> R inner r0 \<and> capability_recorded kind returned r0 b
             \<and> (\<forall>v. r = Inr v \<longrightarrow> r0 = Inr v)))" for permit
    apply (rule emits_attemptE[OF call])
     apply (rule emits_bindE[OF emits_port_record_result[OF rec]])
      apply (rule emits_returnE, fastforce simp: capability_recorded_def)
     apply (fastforce simp: capability_recorded_def)
    apply (rule emits_if)
     apply (rule emits_raiseE, simp add: caught)
    apply (rule emits_mono[OF emits_capability_failure[OF rec, where returned=returned]])
    subgoal for e evs evs' r
      by (rule disjI2, elim conjE exE, rule exI[of _ evs], rule exI[of _ "Inl e"]) (auto simp: isl_def)
    done
  show ?thesis
    unfolding invoke_ingress_def Inr liftE_simps bindE_returnE option.case
    by (rule emits_bindE[OF emits_port_admit]) (auto intro!: emits_mono[OF body] simp: cf_vocabulary_def)
qed

interpretation ingress: admission_bracket
  "\<lambda>call. invoke_ingress (Some p) kind call returned"
  "\<lambda>ev. \<exists>x. ev = Admit (kind_value kind) x" "capability_recorded kind returned"
  "capability_control p"
  for p kind returned
  by unfold_locales (rule ingress_bracket)

section \<open>Custody of the generated token\<close>

definition custody_cleanup_specs ::
  "'w api_client \<Rightarrow> created_ingress \<Rightarrow> (string \<times> (cf_event list \<Rightarrow> cf_exn + unit \<Rightarrow> bool)) list" where
  "custody_cleanup_specs cl created =
     [(''custody'', revocation),
      (''dns'', deletion_shape (delete_dns_record_request cl (ci_dns_record_id created))),
      (''tunnel'', deletion_shape (delete_tunnel_request cl (ci_tunnel_id created)))]"

definition created_removal :: "'w api_client \<Rightarrow> created_ingress \<Rightarrow> http_request set" where
  "created_removal cl created =
     {delete_dns_record_request cl (ci_dns_record_id created),
      delete_tunnel_request cl (ci_tunnel_id created)}"

definition identified :: "created_ingress \<Rightarrow> bool" where
  "identified created \<longleftrightarrow>
     validate_identifier (ci_tunnel_id created) ''tunnel_id'' = Inr ()
     \<and> validate_identifier (ci_dns_record_id created) ''dns_record_id'' = Inr ()"

text \<open>
  The custodian kept the token under a receipt that matches the grant, or the failure is an
  operation error whose evidence says whether everything was taken back: a complete cleanup
  revoked the token and deleted the record and the tunnel.
\<close>

definition custody_outcome ::
  "('w, 'rg, 'res, 'cg, 'rc) ingress_env \<Rightarrow> 'w api_client \<Rightarrow> created_ingress \<Rightarrow> 'cg
    \<Rightarrow> cf_event list \<Rightarrow> cf_exn + 'rc \<Rightarrow> bool" where
  "custody_outcome env cl created grant evs r \<longleftrightarrow>
     (case r of
        Inr receipt \<Rightarrow> evs = [CustodyStore (Inr ())] \<and> ie_receipt_matches env receipt grant = Inr True
      | Inl e \<Rightarrow> mutations evs \<subseteq> created_removal cl created
          \<and> (\<not> stops (cl_control_errors cl) e \<and> identified created \<longrightarrow>
               (\<exists>m ev. e = CloudflareProviderOperationError m ev
                  \<and> ev_tunnel_id ev = Some (ci_tunnel_id created)
                  \<and> ev_dns_record_id ev = Some (ci_dns_record_id created)
                  \<and> (ev_cleanup_result ev = COMPLETE \<and> ev_stage ev = SECRET_CUSTODY_STAGE
                       \<and> revoked evs \<and> (\<forall>rq \<in> created_removal cl created. acknowledged rq evs)
                     \<or> ev_cleanup_result ev = CLEANUP_UNCERTAIN \<and> ev_stage ev = CLEANUP_STAGE))))"

lemma operation_error_identified:
  "identified created \<Longrightarrow>
     provider_operation_error m st cat cert (Some (ci_tunnel_id created))
       (Some (ci_dns_record_id created)) c =
     CloudflareProviderOperationError m
       \<lparr>ev_stage = st, ev_category = cat, ev_mutation_certainty = cert,
        ev_tunnel_id = Some (ci_tunnel_id created),
        ev_dns_record_id = Some (ci_dns_record_id created), ev_cleanup_result = c\<rparr>"
  by (simp add: identified_def provider_operation_error_def make_failure_evidence_def)

lemma emits_custody_cleanup:
  "emits (cleanup_created_ingress cl (ci_tunnel_id created) (ci_dns_record_id created)
      (Some (''custody'', bindE (custody_revoke cu grant) (\<lambda>_. returnE ()))))
    (\<lambda>evs r. mutations evs \<subseteq> created_removal cl created
       \<and> (\<forall>e. r = Inl e \<longrightarrow> stops (cl_control_errors cl) e)
       \<and> (\<forall>c failed. r = Inr (c, failed) \<longrightarrow>
            failed = [] \<and> c = COMPLETE \<and> revoked evs
                \<and> (\<forall>rq \<in> created_removal cl created. acknowledged rq evs)
            \<or> failed \<noteq> [] \<and> c = CLEANUP_UNCERTAIN))"
proof -
  let ?specs = "custody_cleanup_specs cl created"
  have spec: "implements
      ((case Some (''custody'', bindE (custody_revoke cu grant) (\<lambda>_. returnE ())) of
          None \<Rightarrow> [] | Some stage \<Rightarrow> [stage])
       @ [(''dns'', delete_dns_record cl (ci_dns_record_id created)),
          (''tunnel'', delete_tunnel cl (ci_tunnel_id created))]) ?specs"
    by (simp add: custody_cleanup_specs_def emits_revocation emits_deletions)
  have within: "\<forall>(name, R) \<in> set ?specs. stage_within (created_removal cl created) R"
    by (simp add: custody_cleanup_specs_def created_removal_def)
  have complete: "revoked evs \<and> (\<forall>rq \<in> created_removal cl created. acknowledged rq evs)"
    if "cleanup_outcome ?specs evs []" for evs
    using cleanup_complete_revocation[OF that, of "''custody''"]
      cleanup_complete_deletion[OF that, of "''dns''"]
      cleanup_complete_deletion[OF that, of "''tunnel''"]
    by (auto simp: custody_cleanup_specs_def created_removal_def simp del: cleanup_outcome.simps)
  show ?thesis
    unfolding cleanup_created_ingress_def
    by (rule emits_bindE[OF emits_conj[OF emits_cleanup_within[OF spec within] emits_cleanup[OF spec]]])
      (auto intro!: emits_returnE dest: complete)
qed

lemma emits_store_legacy:
  "emits (store_legacy_token env cl cu created grant) (custody_outcome env cl created grant)"
proof -
  have store: "emits (bindE (custody_store cu grant (ci_token created)) (\<lambda>receipt.
        bindE (liftE (ie_receipt_matches env receipt grant)) (\<lambda>matches.
        if matches then returnE receipt
        else raiseE (CloudflareApiError ''secret custodian returned mismatched receipt''))))
     (\<lambda>evs r. mutations evs = {} \<and> (\<forall>receipt. r = Inr receipt \<longrightarrow>
        evs = [CustodyStore (Inr ())] \<and> ie_receipt_matches env receipt grant = Inr True))"
    unfolding custody_store_def
    by (rule emits_bindE[OF emits_callE_eq], rule emits_validated)
      (auto intro!: emit_intros simp: outcome_of_def)
  show ?thesis
    unfolding store_legacy_token_def
  proof (rule emits_attemptE[OF store], goal_cases)
    case (1 receipt evs)
    then show ?case by (auto intro!: emits_returnE simp: custody_outcome_def)
  next
    case (2 e evs)
    show ?case
      apply (rule emits_if)
       apply (rule emits_raiseE)
      using 2 apply (auto simp: custody_outcome_def stops_def)[1]
      apply (rule emits_bindE[OF emits_custody_cleanup])
      using 2 by (auto intro!: emit_intros simp: custody_outcome_def operation_error_identified)
  qed
qed

section \<open>The whole creation\<close>

lemma owned_mutation_append:
  "owned_mutation cl name h origin evs rq \<Longrightarrow> owned_mutation cl name h origin (evs @ evs') rq"
  unfolding owned_mutation_def by (auto dest: trace_facts_append(1) trace_facts_append(3))

lemma established_then_stored:
  "established cl name h origin evs c \<Longrightarrow>
     established cl name h origin (evs @ [CustodyStore r])
       \<lparr>ci_tunnel_id = ci_tunnel_id c, ci_dns_record_id = ci_dns_record_id c, ci_token = token\<rparr>"
  by (auto simp: established_def)

lemma created_removal_owned:
  assumes "established cl name h origin evs c" "rq \<in> created_removal cl c"
  shows "owned_mutation cl name h origin (evs @ evs') rq"
  using assms unfolding established_def created_removal_def
  by (auto intro!: owned_mutation_append)

lemma invoke_ingress_None [simp]: "invoke_ingress None kind call returned = call"
  by (simp add: invoke_ingress_def ingress_controls_def control_errors_def)

definition creation_outcome ::
  "string \<Rightarrow> string \<Rightarrow> string \<Rightarrow> 'w api_client \<Rightarrow> cf_event list
    \<Rightarrow> cf_exn + 'rc ingress_allocation \<Rightarrow> bool" where
  "creation_outcome name h origin cl evs r \<longleftrightarrow>
     (\<forall>rq \<in> mutations evs. owned_mutation cl name h origin evs rq)
     \<and> (mutations evs \<noteq> {} \<longrightarrow> hostname_free cl h evs)
     \<and> (\<forall>alloc. r = Inr alloc \<longrightarrow> CustodyStore (Inr ()) \<in> set evs \<and> al_hostname alloc = h
          \<and> (\<exists>token. established cl name h origin evs
               \<lparr>ci_tunnel_id = al_tunnel_id alloc, ci_dns_record_id = al_dns_record_id alloc,
                ci_token = token\<rparr>))"

lemma emits_create_legacy:
  "emits (create (env :: ('w, 'rg, 'res, 'cg, 'rc) ingress_env) h a name origin rg cg
        (None :: ('w, 'p) ingress_port option))
    (with_client a (creation_outcome name h origin :: 'w api_client \<Rightarrow> _))"
  unfolding create_def option.case invoke_ingress_None
  apply (intro client_intros)
  apply (rule emits_bindE[OF emits_create_provider])
   prefer 2 subgoal by (auto simp: creation_outcome_def create_outcome_def)
  apply (rule emits_bindE[OF emits_store_legacy])
   subgoal by (rule emits_liftE)
      (auto simp: creation_outcome_def create_outcome_def custody_outcome_def bindR_Inr_iff
        make_ingress_allocation_def intro!: owned_mutation_append established_then_stored)
  subgoal for cu _ cl created evs e evs'
    by (auto simp: creation_outcome_def create_outcome_def custody_outcome_def established_def
        intro: owned_mutation_append created_removal_owned[unfolded established_def] dest!: subsetD)
  done

section \<open>Properties\<close>

text \<open>
  without an invocation port, a creation that returns an allocation has created it for the
  requested hostname, with everything established that the provider sequence establishes, and the
  custodian holds the token.  Whatever the outcome, it changes only what it owns, custody
  compensation included.
\<close>

theorem create_without_port:
  fixes env :: "('w, 'rg, 'res, 'cg, 'rc) ingress_env"
  assumes "create env h a name origin rg cg (None :: ('w, 'p) ingress_port option) s = (r, s')"
  shows "\<exists>(cl :: 'w api_client) evs0 evs. cl_authority cl = a \<and> trace s' = trace s @ evs0 @ evs
    \<and> mutations evs0 = {} \<and> creation_outcome name h origin cl evs r"
  by (rule run_with_client[OF emits_create_legacy assms]) (auto simp: creation_outcome_def isl_def)

definition sample_whole_create where
  "sample_whole_create script =
     create sample_env ''app.example.com'' sample_authority ''alloc-1'' ''http://gateway:8080'' () ()
       (None :: ((cf_exn + http_response) list, unit) ingress_port option) (with_script script)"

lemma create_without_port_witness:
  "\<exists>cl evs0 evs. cl_authority cl = sample_authority
    \<and> trace (snd (sample_whole_create script_success)) = evs0 @ evs \<and> mutations evs0 = {}
    \<and> creation_outcome ''alloc-1'' ''app.example.com'' ''http://gateway:8080''
        (cl :: (cf_exn + http_response) list api_client) evs
        (fst (sample_whole_create script_success))"
  using create_without_port[OF sample_whole_create_def[symmetric, THEN trans,
      OF prod.collapse[symmetric], of script_success]]
  by simp

text \<open>
  C8: when the custody of the generated token fails, the creation takes everything back, and the
  evidence says so truthfully: with a complete cleanup the token was revoked and the deletions of
  the record and of the tunnel were acknowledged; otherwise the cleanup is reported uncertain.  A
  token that is kept is held under a receipt that matches the grant.
\<close>

theorem custody_failure_compensated:
  assumes "store_legacy_token env cl cu created grant s = (r, s')"
  shows "\<exists>evs. trace s' = trace s @ evs \<and> custody_outcome env cl created grant evs r"
  using emitsE[OF emits_store_legacy assms] by metis

definition refusing_custodian ::
  "((cf_exn + http_response) list, unit, unit) custodian" where
  "refusing_custodian =
     \<lparr>cu_store = (\<lambda>g token w. (Inl (OtherException ''full''), w)), cu_revoke = (\<lambda>g w. (Inr True, w))\<rparr>"

definition sample_created :: created_ingress where
  "sample_created = \<lparr>ci_tunnel_id = ''tun-1'', ci_dns_record_id = ''rec-1'', ci_token = ''generated''\<rparr>"

definition sample_custody where
  "sample_custody =
     store_legacy_token sample_env sample_client refusing_custodian sample_created ()
       (with_script [answer [], answer []])"

lemma sample_custody_eq:
  "changes (trace (snd sample_custody)) =
     [delete_dns_record_request sample_client ''rec-1'', delete_tunnel_request sample_client ''tun-1'']"
  by (simp add: sample_custody_def store_legacy_token_def refusing_custodian_def sample_created_def
      retain_run cleanup_created_ingress_def caught_by_def request_shapes)

lemma custody_failure_compensated_witness:
  "custody_outcome sample_env sample_client sample_created () (trace (snd sample_custody))
     (fst sample_custody)
   \<and> length (changes (trace (snd sample_custody))) = 2"
  using custody_failure_compensated[OF sample_custody_def[symmetric, THEN trans,
      OF prod.collapse[symmetric]]]
  by (simp add: sample_custody_eq)

text \<open>
  C15: under an invocation port an ingress capability runs only after the port admitted
  its kind, and it returns a value only when the capability returned that value and the outcome
  \<open>returned\<close> was recorded after everything the capability did.
\<close>

theorem ingress_capability_bracketed:
  assumes "emits call R" and "invoke_ingress (Some p) kind call returned s = (r, s')"
  shows "\<exists>evs. trace s' = trace s @ evs
    \<and> (evs = [] \<and> isl r \<or> (\<exists>x inner. evs = Admit (kind_value kind) x # inner))
    \<and> (\<forall>v. r = Inr v \<longrightarrow> (\<exists>x y inner. R inner (Inr v)
         \<and> evs = Admit (kind_value kind) x # inner @ [RecordResult ''returned'' (returned v) y]))"
proof -
  from emits_conj[OF ingress.admitted_first[OF assms(1)] ingress.returned_recorded[OF assms(1)]] assms(2)
  obtain evs where "trace s' = trace s @ evs"
    and "(evs = [] \<and> isl r \<or> evs \<noteq> [] \<and> (\<exists>x. hd evs = Admit (kind_value kind) x))
      \<and> (\<forall>v. r = Inr v \<longrightarrow> (\<exists>a inner b. evs = a # inner @ [b] \<and> (\<exists>x. a = Admit (kind_value kind) x)
           \<and> R inner (Inr v) \<and> capability_recorded kind returned (Inr v) b))"
    by (rule emitsE)
  then show ?thesis
    by (intro exI[of _ evs]) (cases evs; fastforce simp: capability_recorded_def)
qed

definition sample_port :: "(unit, unit) ingress_port" where
  "sample_port =
     \<lparr>ip_control_error = Some (\<lambda>e. False), ip_admit = Some (\<lambda>k a w. (Inr (), w)),
      ip_record_outcome = Some (\<lambda>p k w. (Inr (), w)),
      ip_record_result = Some (\<lambda>p k j w. (Inr (), w))\<rparr>"

lemma ingress_capability_bracketed_witness:
  "\<exists>x y inner. trace (snd (invoke_ingress (Some sample_port) INGRESS_PROVIDER_CREATE
       (callE (\<lambda>r. TokenResolve r) (\<lambda>w. (Inr (), w))) (\<lambda>_. JNull) \<lparr>trace = [], world = ()\<rparr>)) =
     Admit ''ingress-provider-create'' x # inner @ [RecordResult ''returned'' JNull y]"
proof -
  have run: "invoke_ingress (Some sample_port) INGRESS_PROVIDER_CREATE
       (callE (\<lambda>r. TokenResolve r) (\<lambda>w. (Inr (), w))) (\<lambda>_. JNull) \<lparr>trace = [], world = ()\<rparr> =
     (Inr (), snd (invoke_ingress (Some sample_port) INGRESS_PROVIDER_CREATE
       (callE (\<lambda>r. TokenResolve r) (\<lambda>w. (Inr (), w))) (\<lambda>_. JNull) \<lparr>trace = [], world = ()\<rparr>))"
    by (simp add: invoke_ingress_def sample_port_def ingress_controls_def control_errors_def
        port_admit_def port_record_result_def cf_vocabulary_def eff_defs)
  from ingress_capability_bracketed[OF emits_callE_eq run] show ?thesis by auto
qed

text \<open>
  C9: when an admitted capability raises, the caller sees a control error of the port, an
  interruption, an error of the port's own calls, or one of three fixed texts: no
  message of the provider or of the custodian passes the boundary.
\<close>

definition public_messages :: "string set" where
  "public_messages =
     {''Cloudflare provider creation stopped'', ''Cloudflare provider creation is uncertain'',
      ''Cloudflare ingress capability is uncertain''}"

definition port_raises :: "('w, 'p) ingress_port \<Rightarrow> cf_exn \<Rightarrow> bool" where
  "port_raises p e \<longleftrightarrow>
     (\<exists>f k a w. ip_admit p = Some f \<and> fst (f k a w) = Inl e)
     \<or> (\<exists>f permit k j w. ip_record_result p = Some f \<and> fst (f permit k j w) = Inl e)"

lemma public_failure_message:
  "exn_message (snd (snd (ingress_failure kind e))) \<in> public_messages"
  by (auto simp: ingress_failure_def public_messages_def Let_def split: option.split)

lemma ingress_controls_Inl:
  "ingress_controls port False = Inl e \<Longrightarrow> is_port_error e"
  by (auto simp: ingress_controls_def control_errors_def cf_vocabulary_def bindR_Inl_iff
      split: option.splits)

lemma raises_port_record_result:
  assumes "ip_record_result p \<noteq> None"
  shows "raises_only (port_raises p) (port_record_result p permit outcome payload)"
  using assms unfolding port_record_result_def
  by (auto intro!: raise_intros simp: port_raises_def)

lemma raises_invoke_ingress:
  "raises_only (\<lambda>e. capability_control p e \<or> \<not> is_exception e \<or> port_raises p e
       \<or> exn_message e \<in> public_messages) (invoke_ingress (Some p) kind call returned)"
    (is "raises_only ?Q _")
proof (cases "ingress_controls (Some p) False")
  case (Inl e)
  then show ?thesis
    by (auto simp: invoke_ingress_def capability_control_def intro!: raises_only_raiseE
        dest: ingress_controls_Inl)
next
  case (Inr controls)
  then have caught: "\<And>e. caught_by controls e \<longleftrightarrow> capability_control p e"
    and some: "ip_record_result p \<noteq> None" "\<exists>f. ip_admit p = Some f"
    using ingress_controls_Some
    by (blast, blast, auto simp: ingress_controls_def control_errors_def bindR_Inr_iff
        split: option.splits)
  note recorded = raises_port_record_result[OF some(1)]
  have "raises_only ?Q (port_admit cf_vocabulary p (kind_value kind) None)"
    using some(2) by (auto simp: port_admit_def port_raises_def intro!: raise_intros)
  moreover have "raises_only ?Q (port_record_result p permit outcome payload)"
    for permit outcome payload
    by (rule raises_only_mono[OF recorded]) simp
  moreover have "raises_only ?Q (catchE is_exception (port_record_result p permit outcome payload)
      (\<lambda>_. returnE ()))" for permit outcome payload
    by (rule raises_only_catchE[OF recorded]) (auto intro: raises_only_returnE)
  moreover have "ingress_failure kind e = (outcome, payload, err) \<Longrightarrow> exn_message err \<in> public_messages"
    for e outcome payload err
    using public_failure_message[of kind e] by simp
  ultimately show ?thesis
    unfolding invoke_ingress_def Inr liftE_simps bindE_returnE option.case
    by (intro raise_intros) (auto simp: caught)
qed

theorem ingress_failure_is_public:
  assumes "invoke_ingress (Some p) kind call returned s = (Inl e, s')"
  shows "capability_control p e \<or> \<not> is_exception e \<or> port_raises p e \<or> exn_message e \<in> public_messages"
  using raises_onlyD[OF raises_invoke_ingress assms] .

definition sample_refused where
  "sample_refused =
     invoke_ingress (Some sample_port) INGRESS_CUSTODY_WRITE
       (raiseE (OtherException ''token abc'') :: (unit, unit) cf_eff) (\<lambda>_. JNull)
       \<lparr>trace = [], world = ()\<rparr>"

lemma sample_refused_eq:
  "fst sample_refused = Inl (CloudflareApiError ''Cloudflare ingress capability is uncertain'')"
  by (simp add: sample_refused_def invoke_ingress_def sample_port_def ingress_controls_def
      control_errors_def port_admit_def port_record_result_def cf_vocabulary_def caught_by_def
      ingress_failure_def eff_defs)

lemma ingress_failure_is_public_witness:
  "exn_message (CloudflareApiError ''Cloudflare ingress capability is uncertain'') \<in> public_messages"
  using ingress_failure_is_public[OF sample_refused_def[symmetric, THEN trans,
      OF sample_pair[OF sample_refused_eq]]]
  by (simp add: capability_control_def port_control_def port_raises_def sample_port_def)

end
