(* ===== verification/Encoding.thy ===== *)
theory Encoding
  imports Prelude
begin

text \<open>
  The byte encodings of the provider protocol: UTF-8 of code points, the Base64 of the
  standard library with its URL-safe alphabet, and percent-encoding of a path segment.
  Bytes are natural numbers below 256, code points natural numbers.
\<close>

section \<open>UTF-8\<close>

fun utf8_point :: "nat \<Rightarrow> nat list option" where
  "utf8_point c =
     (if c < 128 then Some [c]
      else if c < 2048 then Some [192 + c div 64, 128 + c mod 64]
      else if 55296 \<le> c \<and> c \<le> 57343 then None
      else if c < 65536
        then Some [224 + c div 4096, 128 + c div 64 mod 64, 128 + c mod 64]
      else if c < 1114112
        then Some [240 + c div 262144, 128 + c div 4096 mod 64, 128 + c div 64 mod 64, 128 + c mod 64]
      else None)"

fun utf8_encode :: "nat list \<Rightarrow> nat list option" where
  "utf8_encode [] = Some []"
| "utf8_encode (c # cs) =
     (case (utf8_point c, utf8_encode cs) of (Some b, Some bs) \<Rightarrow> Some (b @ bs) | _ \<Rightarrow> None)"

definition continuation :: "nat \<Rightarrow> bool" where
  "continuation b \<longleftrightarrow> 128 \<le> b \<and> b < 192"

text \<open>Strict decoding: overlong forms, surrogates and code points past the last plane fail.\<close>

fun utf8_decode :: "nat list \<Rightarrow> nat list option" where
  "utf8_decode [] = Some []"
| "utf8_decode (a # bs) =
     (if a < 128 then map_option ((#) a) (utf8_decode bs)
      else if 194 \<le> a \<and> a < 224 then
        (case bs of
           b # cs \<Rightarrow> if continuation b
             then map_option ((#) ((a - 192) * 64 + (b - 128))) (utf8_decode cs) else None
         | _ \<Rightarrow> None)
      else if 224 \<le> a \<and> a < 240 then
        (case bs of
           b # c # ds \<Rightarrow>
             let p = (a - 224) * 4096 + (b - 128) * 64 + (c - 128)
             in if continuation b \<and> continuation c \<and> 2048 \<le> p \<and> \<not> (55296 \<le> p \<and> p \<le> 57343)
                then map_option ((#) p) (utf8_decode ds) else None
         | _ \<Rightarrow> None)
      else if 240 \<le> a \<and> a < 245 then
        (case bs of
           b # c # d # es \<Rightarrow>
             let p = (a - 240) * 262144 + (b - 128) * 4096 + (c - 128) * 64 + (d - 128)
             in if continuation b \<and> continuation c \<and> continuation d \<and> 65536 \<le> p \<and> p < 1114112
                then map_option ((#) p) (utf8_decode es) else None
         | _ \<Rightarrow> None)
      else None)"

lemma utf8_point_decode:
  assumes "utf8_point c = Some b"
  shows "utf8_decode (b @ bs) = map_option ((#) c) (utf8_decode bs)"
proof -
  have mod64: "x mod 64 < 64" for x :: nat by simp
  have three: "c div 4096 * 4096 + c div 64 mod 64 * 64 + c mod 64 = c"
    using div_mult_mod_eq[of c 64] div_mult_mod_eq[of "c div 64" 64]
    unfolding div_mult2_eq[of c 64 64, simplified] by linarith
  have four: "c div 262144 * 262144 + c div 4096 mod 64 * 4096 + c div 64 mod 64 * 64 + c mod 64 = c"
    using three div_mult_mod_eq[of "c div 4096" 64]
    unfolding div_mult2_eq[of c 4096 64, simplified] by linarith
  have bounds: "c < 2048 \<Longrightarrow> c div 64 < 32" "c < 65536 \<Longrightarrow> c div 4096 < 16"
    "c < 1114112 \<Longrightarrow> c div 262144 < 5" "128 \<le> c \<Longrightarrow> 2 \<le> c div 64"
    by auto
  consider (one) "c < 128" | (two) "128 \<le> c" "c < 2048"
    | (three) "2048 \<le> c" "c < 65536" "\<not> (55296 \<le> c \<and> c \<le> 57343)"
    | (four) "65536 \<le> c" "c < 1114112"
    using assms by (simp split: if_splits)
  then show ?thesis
  proof cases
    case two
    with assms bounds(1,4) show ?thesis by (auto simp: continuation_def)
  next
    case three
    with assms have b: "b = [224 + c div 4096, 128 + c div 64 mod 64, 128 + c mod 64]"
      by (simp split: if_splits)
    have "c div 4096 < 16" using three(2) by auto
    then show ?thesis
      using three \<open>c div 4096 * 4096 + _ + _ = c\<close> mod64 by (simp add: b continuation_def Let_def)
  next
    case four
    with assms have b: "b = [240 + c div 262144, 128 + c div 4096 mod 64, 128 + c div 64 mod 64,
        128 + c mod 64]" by simp
    have "c div 262144 < 5" using four(2) by auto
    then show ?thesis
      using four \<open>c div 262144 * 262144 + _ + _ + _ = c\<close> mod64
      by (simp add: b continuation_def Let_def)
  qed (use assms in auto)
qed

lemma utf8_roundtrip: "utf8_encode cs = Some bs \<Longrightarrow> utf8_decode bs = Some cs"
  by (induction cs arbitrary: bs)
    (auto simp del: utf8_point.simps simp: utf8_point_decode split: option.splits)

section \<open>Base64\<close>

text \<open>The six-bit groups of a byte string, the last one filled up with zero bits.\<close>

fun sextets :: "nat list \<Rightarrow> nat list" where
  "sextets [] = []"
| "sextets [a] = [a div 4, a mod 4 * 16]"
| "sextets [a, b] = [a div 4, a mod 4 * 16 + b div 16, b mod 16 * 4]"
| "sextets (a # b # c # bs) =
     a div 4 # (a mod 4 * 16 + b div 16) # (b mod 16 * 4 + c div 64) # c mod 64 # sextets bs"

definition b64_digit :: "nat \<Rightarrow> char" where
  "b64_digit n =
     (if n < 26 then char_of (65 + n) else if n < 52 then char_of (71 + n)
      else if n < 62 then char_of (n - 4) else if n = 62 then CHR ''+'' else CHR ''/'')"

definition b64_padding :: "nat list \<Rightarrow> string" where
  "b64_padding bs = (case length bs mod 3 of 0 \<Rightarrow> [] | Suc 0 \<Rightarrow> ''=='' | _ \<Rightarrow> ''='')"

definition b64encode :: "nat list \<Rightarrow> string" where
  "b64encode bs = map b64_digit (sextets bs) @ b64_padding bs"

definition urlsafe_char :: "char \<Rightarrow> char" where
  "urlsafe_char c = (if c = CHR ''+'' then CHR ''-'' else if c = CHR ''/'' then CHR ''_'' else c)"

definition urlsafe_b64encode :: "nat list \<Rightarrow> string" where
  "urlsafe_b64encode bs = map urlsafe_char (b64encode bs)"

definition rstrip_char :: "char \<Rightarrow> string \<Rightarrow> string" where
  "rstrip_char p s = rev (dropWhile (\<lambda>c. c = p) (rev s))"

fun b64_value :: "char \<Rightarrow> nat option" where
  "b64_value c =
     (let n = code_of c in
      if 65 \<le> n \<and> n \<le> 90 then Some (n - 65) else if 97 \<le> n \<and> n \<le> 122 then Some (n - 71)
      else if 48 \<le> n \<and> n \<le> 57 then Some (n + 4) else if c = CHR ''+'' then Some 62
      else if c = CHR ''/'' then Some 63 else None)"

text \<open>
  The strict decoder (\<open>binascii.a2b_base64\<close> with \<open>strict_mode\<close>) as its state machine: the
  position in the quad, the bits left over, the pads seen, and whether padding has
  started.
\<close>

fun a2b :: "nat \<Rightarrow> nat \<Rightarrow> nat \<Rightarrow> bool \<Rightarrow> string \<Rightarrow> nat list option" where
  "a2b quad left pads padding [] = (if quad = 0 then Some [] else None)"
| "a2b quad left pads padding (c # cs) =
     (if c = CHR ''='' then
        if 2 \<le> quad \<and> 4 \<le> quad + pads + 1 then (if cs = [] then Some [] else None)
        else a2b quad left (if 2 \<le> quad then pads + 1 else pads) True cs
      else (case b64_value c of
          None \<Rightarrow> None
        | Some v \<Rightarrow>
            if padding then None
            else if quad = 0 then a2b 1 v 0 False cs
            else if quad = 1 then map_option ((#) (left * 4 + v div 16)) (a2b 2 (v mod 16) 0 False cs)
            else if quad = 2 then map_option ((#) (left * 16 + v div 4)) (a2b 3 (v mod 4) 0 False cs)
            else map_option ((#) (left * 64 + v)) (a2b 0 0 0 False cs)))"

definition b64decode :: "string \<Rightarrow> nat list option" where
  "b64decode s = (if s \<noteq> [] \<and> hd s = CHR ''='' then None else a2b 0 0 0 False s)"

abbreviation is_bytes :: "nat list \<Rightarrow> bool" where
  "is_bytes bs \<equiv> \<forall>b \<in> set bs. b < 256"

lemma sextets_bound: "is_bytes bs \<Longrightarrow> n \<in> set (sextets bs) \<Longrightarrow> n < 64"
  by (induction bs rule: sextets.induct) auto

lemma b64_digit_value: "n < 64 \<Longrightarrow> b64_value (b64_digit n) = Some n"
  by (auto simp: b64_digit_def code_of_def Let_def)

lemma b64_digit_not_pad: "n < 64 \<Longrightarrow> b64_digit n \<noteq> CHR ''=''"
  using b64_digit_value[of n] by (auto simp: code_of_def)

lemma b64_padding_simps [simp]:
  "b64_padding [] = []" "b64_padding [a] = ''==''" "b64_padding [a, b] = ''=''"
  "b64_padding (a # b # c # bs) = b64_padding bs"
  by (simp_all add: b64_padding_def)

lemma a2b_encode: "is_bytes bs \<Longrightarrow> a2b 0 0 0 False (b64encode bs) = Some bs"
proof (induction bs rule: sextets.induct)
  case (4 a b c bs)
  have parts: "a div 4 < 64" "a mod 4 * 16 + b div 16 < 64" "b mod 16 * 4 + c div 64 < 64"
    "c mod 64 < 64"
    using 4 by auto
  have sums: "(a mod 4 * 16 + b div 16) div 16 = a mod 4" "(a mod 4 * 16 + b div 16) mod 16 = b div 16"
    "(b mod 16 * 4 + c div 64) div 4 = b mod 16" "(b mod 16 * 4 + c div 64) mod 4 = c div 64"
    using 4 by auto
  show ?case
    using 4 parts sums
    by (simp add: b64encode_def b64_digit_value b64_digit_not_pad del: b64_value.simps)
qed (auto simp: b64encode_def b64_digit_value b64_digit_not_pad simp del: b64_value.simps)

theorem b64_roundtrip: "is_bytes bs \<Longrightarrow> b64decode (b64encode bs) = Some bs"
proof -
  assume bs: "is_bytes bs"
  have "b64encode bs = [] \<or> hd (b64encode bs) \<noteq> CHR ''=''"
    using bs by (cases bs rule: sextets.cases) (auto simp: b64encode_def b64_digit_not_pad)
  with a2b_encode[OF bs] show ?thesis by (auto simp: b64decode_def)
qed

section \<open>The unpadded URL-safe form\<close>

fun unsextets :: "nat list \<Rightarrow> nat list" where
  "unsextets (p # q # r # s # ns) =
     (p * 4 + q div 16) # (q mod 16 * 16 + r div 4) # (r mod 4 * 64 + s) # unsextets ns"
| "unsextets [p, q, r] = [p * 4 + q div 16, q mod 16 * 16 + r div 4]"
| "unsextets [p, q] = [p * 4 + q div 16]"
| "unsextets _ = []"

lemma unsextets_sextets: "is_bytes bs \<Longrightarrow> unsextets (sextets bs) = bs"
  by (induction bs rule: sextets.induct) auto

lemma sextets_inject: "is_bytes a \<Longrightarrow> is_bytes b \<Longrightarrow> sextets a = sextets b \<Longrightarrow> a = b"
  by (metis unsextets_sextets)

definition urlsafe_digit :: "nat \<Rightarrow> char" where
  "urlsafe_digit n = urlsafe_char (b64_digit n)"

definition segment_char :: "char \<Rightarrow> bool" where
  "segment_char c \<longleftrightarrow> is_lower_alpha c \<or> is_upper_alpha c \<or> is_digit c \<or> c = CHR ''-'' \<or> c = CHR ''_''"

lemma less_64_cases:
  "(n :: nat) < 64 \<Longrightarrow> (n < 26 \<Longrightarrow> P) \<Longrightarrow> (26 \<le> n \<Longrightarrow> n < 52 \<Longrightarrow> P) \<Longrightarrow> (52 \<le> n \<Longrightarrow> n < 62 \<Longrightarrow> P)
    \<Longrightarrow> (n = 62 \<Longrightarrow> P) \<Longrightarrow> (n = 63 \<Longrightarrow> P) \<Longrightarrow> P"
  by linarith

lemma urlsafe_digit_segment: "n < 64 \<Longrightarrow> segment_char (urlsafe_digit n)"
  by (erule less_64_cases)
    (auto simp: urlsafe_digit_def urlsafe_char_def b64_digit_def segment_char_def is_lower_alpha_def
      is_upper_alpha_def is_digit_def in_range_def code_of_def)

lemma pad_not_segment [simp]: "\<not> segment_char CHR ''=''"
  by (simp add: segment_char_def is_lower_alpha_def is_upper_alpha_def is_digit_def in_range_def
      code_of_def)

lemma urlsafe_char_inject:
  "urlsafe_char a = urlsafe_char b \<Longrightarrow> a \<notin> set ''-_'' \<Longrightarrow> b \<notin> set ''-_'' \<Longrightarrow> a = b"
  by (auto simp: urlsafe_char_def split: if_splits)

lemma b64_digit_plain: "n < 64 \<Longrightarrow> b64_digit n \<notin> set ''-_''"
  using b64_digit_value[of n] by (auto simp: code_of_def)

lemma urlsafe_digit_inject: "m < 64 \<Longrightarrow> n < 64 \<Longrightarrow> urlsafe_digit m = urlsafe_digit n \<Longrightarrow> m = n"
  unfolding urlsafe_digit_def
  by (metis urlsafe_char_inject b64_digit_plain b64_digit_value option.inject)

lemma urlsafe_stripped:
  assumes "is_bytes bs"
  shows "rstrip_char CHR ''='' (urlsafe_b64encode bs) = map urlsafe_digit (sextets bs)"
proof -
  let ?digits = "map urlsafe_digit (sextets bs)"
  have digits: "c \<noteq> CHR ''=''" if c: "c \<in> set ?digits" for c
  proof -
    from c obtain n where "c = urlsafe_digit n" "n \<in> set (sextets bs)" by auto
    with sextets_bound[OF assms] have "segment_char c" by (simp add: urlsafe_digit_segment)
    then show ?thesis by auto
  qed
  have "b64_padding bs \<in> {[], ''=='', ''=''}"
    by (auto simp: b64_padding_def split: nat.split)
  then have padding: "set (map urlsafe_char (b64_padding bs)) \<subseteq> {CHR ''=''}"
    by (auto simp: urlsafe_char_def)
  have "dropWhile (\<lambda>c. c = CHR ''='') (rev ?digits) = rev ?digits"
    using digits by (intro dropWhile_eq_self_iff[THEN iffD2] disjCI) (metis hd_in_set set_rev)
  moreover have "dropWhile (\<lambda>c. c = CHR ''='') (rev (map urlsafe_char (b64_padding bs)) @ rev ?digits)
      = dropWhile (\<lambda>c. c = CHR ''='') (rev ?digits)"
    using padding by (intro dropWhile_append2) auto
  moreover have "urlsafe_b64encode bs = ?digits @ map urlsafe_char (b64_padding bs)"
    by (simp add: urlsafe_b64encode_def b64encode_def urlsafe_digit_def)
  ultimately show ?thesis
    by (simp only: rstrip_char_def rev_append rev_rev_ident)
qed

lemma urlsafe_stripped_inject:
  assumes "is_bytes a" "is_bytes b"
    and "rstrip_char CHR ''='' (urlsafe_b64encode a) = rstrip_char CHR ''='' (urlsafe_b64encode b)"
  shows "a = b"
proof -
  have "map urlsafe_digit (sextets a) = map urlsafe_digit (sextets b)"
    using assms by (simp add: urlsafe_stripped)
  moreover have "inj_on urlsafe_digit (set (sextets a) \<union> set (sextets b))"
    using sextets_bound[OF assms(1)] sextets_bound[OF assms(2)]
    by (intro inj_onI urlsafe_digit_inject) auto
  ultimately have "sextets a = sextets b" by (rule map_inj_on)
  with assms(1,2) show ?thesis by (rule sextets_inject)
qed

section \<open>Percent-encoding\<close>

text \<open>\<open>urllib.parse.quote\<close> with \<open>safe=''\<close>.\<close>

definition unreserved :: "char \<Rightarrow> bool" where
  "unreserved c \<longleftrightarrow>
     is_lower_alpha c \<or> is_upper_alpha c \<or> is_digit c \<or> c \<in> set ''_.-~''"

definition hex_digit :: "nat \<Rightarrow> char" where
  "hex_digit n = (if n < 10 then char_of (48 + n) else char_of (55 + n))"

definition quote_byte :: "nat \<Rightarrow> string" where
  "quote_byte b = [CHR ''%'', hex_digit (b div 16), hex_digit (b mod 16)]"

definition quote_char :: "char \<Rightarrow> string" where
  "quote_char c =
     (if unreserved c then [c]
      else concat (map quote_byte (case utf8_point (code_of c) of None \<Rightarrow> [] | Some bs \<Rightarrow> bs)))"

definition py_quote :: "string \<Rightarrow> string" where
  "py_quote s = concat (map quote_char s)"

lemma quote_unreserved: "list_all unreserved s \<Longrightarrow> py_quote s = s"
  by (induction s) (auto simp: py_quote_def quote_char_def)

lemma segment_unreserved: "segment_char c \<Longrightarrow> unreserved c"
  by (auto simp: segment_char_def unreserved_def)

text \<open>On the characters of identifiers only the colon is escaped.\<close>

definition name_char :: "char \<Rightarrow> bool" where
  "name_char c \<longleftrightarrow> unreserved c \<or> c = CHR '':''"

lemma quote_colon: "quote_char CHR '':'' = ''%3A''"
  by code_simp

lemma quote_name_char: "name_char c \<Longrightarrow> quote_char c = (if c = CHR '':'' then ''%3A'' else [c])"
proof (cases "c = CHR '':''")
  case True
  with quote_colon show ?thesis by simp
next
  case False
  then show "name_char c \<Longrightarrow> ?thesis" by (simp add: name_char_def quote_char_def)
qed

lemma percent_not_name [simp]: "\<not> name_char CHR ''%''"
  by (simp add: name_char_def unreserved_def is_lower_alpha_def is_upper_alpha_def is_digit_def
      in_range_def code_of_def)

lemma quote_name_inject:
  "list_all name_char s \<Longrightarrow> list_all name_char t \<Longrightarrow> py_quote s = py_quote t \<Longrightarrow> s = t"
proof (induction s arbitrary: t)
  case Nil
  then show ?case
    by (cases t) (auto simp: py_quote_def quote_name_char split: if_splits)
next
  case (Cons c s)
  then obtain d t' where t: "t = d # t'"
    by (cases t) (auto simp: py_quote_def quote_name_char split: if_splits)
  have "c = d \<and> py_quote s = py_quote t'"
    using Cons.prems percent_not_name
    by (auto simp: t py_quote_def quote_name_char split: if_splits)
  with Cons t show ?case by auto
qed

lemma slash_not_name [simp]: "\<not> name_char CHR ''/''"
  by (simp add: name_char_def unreserved_def is_lower_alpha_def is_upper_alpha_def is_digit_def
      in_range_def code_of_def)

lemma quote_name_segment:
  assumes "list_all name_char s"
  shows "CHR ''/'' \<notin> set (py_quote s)"
proof -
  have "CHR ''/'' \<notin> set (quote_char c)" if "c \<in> set s" for c
  proof -
    have "name_char c" using assms that by (simp add: list_all_iff)
    then show ?thesis by (auto simp: quote_name_char split: if_splits)
  qed
  then show ?thesis by (auto simp: py_quote_def)
qed

end
