(* ===== verification/Provider_Client.thy ===== *)
theory Provider_Client
  imports Complex_Main Effects Prelude Encoding
begin

text \<open>
  The data of \<open>secret_provider/client.py\<close> and \<open>secret_provider/bootstrap.py\<close>: closed failure
  codes with their outcome certainty, the validated records, the bootstrap registry.  The
  enums and constructors of the core package enter through the record \<open>core_secrets\<close>.
\<close>

section \<open>Failures\<close>

datatype provider_code =
    MALFORMED_CONFIGURATION | MALFORMED_REQUEST | DENIED | MISSING | REVOKED | ALREADY_EXISTS
  | CONFLICT | REDIRECTED | TIMED_OUT | TRANSPORT_FAILED | RESPONSE_TOO_LARGE | MALFORMED_ANSWER
  | INTEGRITY_FAILURE | UNAVAILABLE

datatype certainty = DEFINITE | UNCERTAIN

text \<open>
  \<open>MALFORMED_ANSWER\<close> is \<open>SecretProviderClientCode.MALFORMED_RESPONSE\<close>.  \<open>ForeignError\<close> is an
  exception of another module that passes through.
\<close>

datatype sp_exn =
    SecretProviderClientError provider_code certainty
  | SecretProviderBootstrapError
  | SpTypeError string
  | SpRuntimeError string
  | ForeignError string

definition certainty_of :: "bool \<Rightarrow> certainty" where
  "certainty_of mutation = (if mutation then UNCERTAIN else DEFINITE)"

definition definite :: "provider_code \<Rightarrow> sp_exn" where
  "definite code = SecretProviderClientError code DEFINITE"

definition uncertain :: "provider_code \<Rightarrow> sp_exn" where
  "uncertain code = SecretProviderClientError code UNCERTAIN"

section \<open>Core vocabulary\<close>

datatype secret_intent =
    GATEWAY_PROBE_SIGNING_KEY | GATEWAY_NODE_CONTROL_TRANSIT_SIGNING_KEY
  | WORKLOAD_NODE_CONTROL_SIGNING_KEY | OTHER_INTENT string

datatype key_purpose =
    GATEWAY_PROBE | GATEWAY_NODE_CONTROL_TRANSIT | WORKLOAD_NODE_CONTROL
  | WORKLOAD_NODE_CONTROL_SURFACE_READ | GATEWAY_NODE_HEALTH_READ_TRANSIT
  | WORKLOAD_NODE_HEALTH_READ | OTHER_PURPOSE string

record public_key =
  pk_key_id :: string
  pk_fingerprint :: string

text \<open>
  The values of the core enums, \<open>health_signing_intent_for\<close>, the constructors of
  \<open>DelegationPublicKey\<close> (with \<open>DelegationKeyAlgorithm\<close>; \<open>None\<close> when they raise a
  \<open>TypeError\<close> or a \<open>ValueError\<close>) and of \<open>SecretValue\<close>.
\<close>

record core_secrets =
  cs_intent_value :: "secret_intent \<Rightarrow> string"
  cs_purpose_value :: "key_purpose \<Rightarrow> string"
  cs_health_intent :: "key_purpose \<Rightarrow> secret_intent"
  cs_public_key :: "json \<Rightarrow> json \<Rightarrow> json \<Rightarrow> public_key option"
  cs_secret_value :: "nat list \<Rightarrow> string + nat list"

definition generation_intent :: "core_secrets \<Rightarrow> key_purpose \<Rightarrow> secret_intent option" where
  "generation_intent core purpose =
     (case purpose of
        GATEWAY_PROBE \<Rightarrow> Some GATEWAY_PROBE_SIGNING_KEY
      | GATEWAY_NODE_CONTROL_TRANSIT \<Rightarrow> Some GATEWAY_NODE_CONTROL_TRANSIT_SIGNING_KEY
      | WORKLOAD_NODE_CONTROL \<Rightarrow> Some WORKLOAD_NODE_CONTROL_SIGNING_KEY
      | WORKLOAD_NODE_CONTROL_SURFACE_READ \<Rightarrow> Some GATEWAY_PROBE_SIGNING_KEY
      | GATEWAY_NODE_HEALTH_READ_TRANSIT \<Rightarrow> Some (cs_health_intent core purpose)
      | WORKLOAD_NODE_HEALTH_READ \<Rightarrow> Some (cs_health_intent core purpose)
      | OTHER_PURPOSE _ \<Rightarrow> None)"

text \<open>A secret reference is its \<open>reference_id\<close>.\<close>

type_synonym reference = string

section \<open>Validators\<close>

definition id_head :: "char \<Rightarrow> bool" where
  "id_head c \<longleftrightarrow> is_lower_alpha c \<or> is_upper_alpha c \<or> is_digit c"

definition id_tail :: "char \<Rightarrow> bool" where
  "id_tail c \<longleftrightarrow> id_head c \<or> c \<in> set ''._:-''"

definition provider_identifier :: "string \<Rightarrow> bool" where
  "provider_identifier s \<longleftrightarrow>
     (case s of [] \<Rightarrow> False | c # cs \<Rightarrow> id_head c \<and> list_all id_tail cs \<and> length cs \<le> 199)"

definition string_mapping :: "json \<Rightarrow> sp_exn + (string \<times> string) list" where
  "string_mapping value =
     (case value of
        JObj kvs \<Rightarrow>
          if length kvs \<le> 16 \<and>
             list_all (\<lambda>(k, v). length k \<le> 64 \<and> (case v of JStr s \<Rightarrow> length s \<le> 256 | _ \<Rightarrow> False)) kvs
          then Inr (map (\<lambda>(k, v). (k, case v of JStr s \<Rightarrow> s | _ \<Rightarrow> [])) kvs)
          else Inl (definite MALFORMED_ANSWER)
      | _ \<Rightarrow> Inl (definite MALFORMED_ANSWER))"

record version_metadata =
  vm_reference :: reference
  vm_version_id :: string
  vm_version_number :: int
  vm_status :: string
  vm_labels :: "(string \<times> string) list"

definition make_version_metadata ::
  "reference \<Rightarrow> json \<Rightarrow> json \<Rightarrow> string \<Rightarrow> json \<Rightarrow> sp_exn + version_metadata" where
  "make_version_metadata reference version_id version_number status labels =
     (case (version_id, version_number) of
        (JStr v, JInt n) \<Rightarrow>
          if \<not> provider_identifier v \<or> n < 1 \<or> status \<notin> {''active'', ''revoked''}
          then Inl (definite MALFORMED_ANSWER)
          else bindR (string_mapping labels) (\<lambda>ls.
               Inr \<lparr>vm_reference = reference, vm_version_id = v, vm_version_number = n,
                    vm_status = status, vm_labels = ls\<rparr>)
      | _ \<Rightarrow> Inl (definite MALFORMED_ANSWER))"

record resolved_secret =
  rs_metadata :: version_metadata
  rs_value :: "nat list"

record revoked_secret =
  rv_reference :: reference
  rv_version_ids :: "string list"

definition make_revoked :: "reference \<Rightarrow> string list \<Rightarrow> sp_exn + revoked_secret" where
  "make_revoked reference version_ids =
     (if version_ids = [] \<or> \<not> list_all provider_identifier version_ids
      then Inl (definite MALFORMED_ANSWER)
      else Inr \<lparr>rv_reference = reference, rv_version_ids = version_ids\<rparr>)"

record generated_key =
  gk_reference :: reference
  gk_metadata :: version_metadata
  gk_purpose :: key_purpose
  gk_issuer :: string
  gk_correlation_id :: string
  gk_public_key :: public_key
  gk_replayed :: bool

definition label :: "version_metadata \<Rightarrow> string \<Rightarrow> string option" where
  "label m k = map_of (vm_labels m) k"

definition make_generated_key ::
  "core_secrets \<Rightarrow> reference \<Rightarrow> version_metadata \<Rightarrow> key_purpose \<Rightarrow> string \<Rightarrow> string
    \<Rightarrow> public_key \<Rightarrow> bool \<Rightarrow> sp_exn + generated_key" where
  "make_generated_key core reference m purpose issuer correlation_id key replayed =
     (case generation_intent core purpose of
        Some intent \<Rightarrow>
          if vm_reference m = reference \<and> provider_identifier issuer
             \<and> provider_identifier correlation_id
             \<and> label m ''intent'' = Some (cs_intent_value core intent)
             \<and> label m ''purpose'' = Some (cs_purpose_value core purpose)
             \<and> label m ''issuer'' = Some issuer
             \<and> label m ''key_id'' = Some (pk_key_id key)
          then Inr \<lparr>gk_reference = reference, gk_metadata = m, gk_purpose = purpose,
                    gk_issuer = issuer, gk_correlation_id = correlation_id,
                    gk_public_key = key, gk_replayed = replayed\<rparr>
          else Inl (uncertain MALFORMED_ANSWER)
      | None \<Rightarrow> Inl (uncertain MALFORMED_ANSWER))"

text \<open>Timeouts are seconds, kept exact.\<close>

record client_policy =
  cp_connect :: rat
  cp_read :: rat
  cp_total :: rat
  cp_max_request :: nat
  cp_max_response :: nat

definition max_secret_bytes :: nat where "max_secret_bytes = 64 * 1024"
definition max_reference_bytes :: nat where "max_reference_bytes = 1024"
definition max_credential_bytes :: nat where "max_credential_bytes = 4096"
definition max_request_bytes :: nat where "max_request_bytes = 96 * 1024"
definition max_response_bytes :: nat where "max_response_bytes = 128 * 1024"

definition make_client_policy ::
  "rat \<Rightarrow> rat \<Rightarrow> rat \<Rightarrow> nat \<Rightarrow> nat \<Rightarrow> sp_exn + client_policy" where
  "make_client_policy connect_s read_s total_s max_request max_response =
     (if \<not> list_all (\<lambda>v. 0 < v \<and> v \<le> 60) [connect_s, read_s, total_s]
      then Inl (definite MALFORMED_CONFIGURATION)
      else if total_s < max connect_s read_s then Inl (definite MALFORMED_CONFIGURATION)
      else if \<not> (1 \<le> max_request \<and> max_request \<le> max_request_bytes
               \<and> 1 \<le> max_response \<and> max_response \<le> max_response_bytes)
      then Inl (definite MALFORMED_CONFIGURATION)
      else Inr \<lparr>cp_connect = connect_s, cp_read = read_s, cp_total = total_s,
                cp_max_request = max_request, cp_max_response = max_response\<rparr>)"

text \<open>
  \<open>ControlPlaneKitSecretsClient\<close> of \<open>secret_provider/client.py\<close>: one bounded exchange with the
  secret provider per operation, and the validation of everything it answers.  The
  credential file, the HTTP transport with its clock, and the JSON codec of the standard library
  are parameters of the client.
\<close>

section \<open>Exchanges\<close>

record provider_request =
  pq_method :: string
  pq_path :: string
  pq_token :: string
  pq_correlation :: "string option"
  pq_body :: "nat list"

text \<open>\<open>httpx.TimeoutException\<close>, any other \<open>httpx.HTTPError\<close>, or a foreign exception.\<close>

datatype fault = TimeoutFault | HttpFault | ForeignFault string

text \<open>
  The body as it arrives: each chunk with the clock read after it, ended normally with a
  last reading of the clock, or by a fault.
\<close>

datatype stream = Chunk "nat list" rat stream | StreamEnd rat | StreamFault fault

record answer_head =
  ah_status :: int
  ah_content_length :: "string option"
  ah_content_type :: "string option"

datatype exchange = SendFault fault | Answer answer_head stream

datatype sp_event = ReadCredential bool | Sent provider_request exchange

type_synonym ('w, 'a) sp_eff = "((sp_event, 'w) st, sp_exn, 'a) eff"

text \<open>
  \<open>sc_credential\<close> reads at most \<open>max_credential_bytes + 1\<close> bytes (\<open>Inl\<close> is an \<open>OSError\<close>);
  \<open>sc_send\<close> returns the clock before the exchange and the exchange; \<open>sc_dumps\<close> is the
  compact sorted \<open>json.dumps\<close> (\<open>None\<close> when it raises) and \<open>sc_loads\<close> is \<open>json.loads\<close>
  (\<open>Inr None\<close> when it raises a decoding error, \<open>Inl\<close> for any other exception, as the
  \<open>ValueError\<close> of an integer with too many digits, which the code does not catch).
\<close>

record 'w sp_client =
  sc_core :: core_secrets
  sc_policy :: client_policy
  sc_credential :: "('w, sp_exn, nat list) port"
  sc_send :: "provider_request \<Rightarrow> 'w \<Rightarrow> (rat \<times> exchange) \<times> 'w"
  sc_dumps :: "json \<Rightarrow> nat list option"
  sc_loads :: "nat list \<Rightarrow> string + json option"

section \<open>The credential\<close>

definition token_char :: "nat \<Rightarrow> bool" where
  "token_char b \<longleftrightarrow> 33 \<le> b \<and> b \<le> 126"

text \<open>
  The token is ASCII, without its one trailing newline, non-empty and free of anything but
  visible characters, so stripping it changes nothing.
\<close>

definition parse_credential :: "nat list \<Rightarrow> sp_exn + string" where
  "parse_credential value =
     (let token = (if value \<noteq> [] \<and> last value = 10 then butlast value else value)
      in if max_credential_bytes < length value \<or> \<not> list_all (\<lambda>b. b < 128) value
            \<or> token = [] \<or> \<not> list_all token_char token
         then Inl (definite MALFORMED_CONFIGURATION)
         else Inr (map char_of token))"

definition read_credential :: "'w sp_client \<Rightarrow> ('w, string) sp_eff" where
  "read_credential cl =
     attemptE (callE (\<lambda>r. ReadCredential (\<not> isl r)) (sc_credential cl))
       (\<lambda>_. raiseE (definite MALFORMED_CONFIGURATION))
       (\<lambda>value. liftE (parse_credential value))"

section \<open>Reading the answer\<close>

text \<open>\<open>int(text)\<close>: surrounding white space, a sign, digits with single underscores between.\<close>

fun digits_value :: "int \<Rightarrow> string \<Rightarrow> int option" where
  "digits_value acc [] = Some acc"
| "digits_value acc (c # cs) =
     (if is_digit c then digits_value (10 * acc + int (code_of c - 48)) cs
      else if c = CHR ''_'' \<and> cs \<noteq> [] \<and> is_digit (hd cs) then digits_value acc cs
      else None)"

definition unsigned_value :: "string \<Rightarrow> int option" where
  "unsigned_value s =
     (if s \<noteq> [] \<and> is_digit (hd s) \<and> length (filter is_digit s) \<le> 4300
      then digits_value 0 s else None)"

definition py_int :: "string \<Rightarrow> int option" where
  "py_int text =
     (case py_strip text of
        [] \<Rightarrow> None
      | c # cs \<Rightarrow>
          if c = CHR ''-'' then map_option uminus (unsigned_value cs)
          else if c = CHR ''+'' then unsigned_value cs
          else unsigned_value (c # cs))"

definition check_declared :: "client_policy \<Rightarrow> certainty \<Rightarrow> string option \<Rightarrow> sp_exn + unit" where
  "check_declared policy certainty declared =
     (case declared of
        None \<Rightarrow> Inr ()
      | Some text \<Rightarrow>
          (case py_int text of
             None \<Rightarrow> Inl (SecretProviderClientError MALFORMED_ANSWER certainty)
           | Some n \<Rightarrow>
               if int (cp_max_response policy) < n
               then Inl (SecretProviderClientError RESPONSE_TOO_LARGE certainty) else Inr ()))"

definition fault_error :: "certainty \<Rightarrow> fault \<Rightarrow> sp_exn" where
  "fault_error certainty f =
     (case f of
        TimeoutFault \<Rightarrow> SecretProviderClientError TIMED_OUT certainty
      | HttpFault \<Rightarrow> SecretProviderClientError TRANSPORT_FAILED certainty
      | ForeignFault m \<Rightarrow> ForeignError m)"

fun read_stream ::
  "client_policy \<Rightarrow> certainty \<Rightarrow> rat \<Rightarrow> nat list \<Rightarrow> stream \<Rightarrow> sp_exn + nat list" where
  "read_stream policy certainty started content (Chunk bytes now rest) =
     (let content' = content @ bytes
      in if cp_max_response policy < length content'
         then Inl (SecretProviderClientError RESPONSE_TOO_LARGE certainty)
         else if cp_total policy < now - started
         then Inl (SecretProviderClientError TIMED_OUT certainty)
         else read_stream policy certainty started content' rest)"
| "read_stream policy certainty started content (StreamEnd now) =
     (if cp_total policy < now - started
      then Inl (SecretProviderClientError TIMED_OUT certainty) else Inr content)"
| "read_stream policy certainty started content (StreamFault f) = Inl (fault_error certainty f)"

definition media_type :: "string option \<Rightarrow> string" where
  "media_type header =
     py_strip (hd (py_split CHR '';'' (case header of None \<Rightarrow> [] | Some text \<Rightarrow> text)))"

definition decode_json ::
  "(nat list \<Rightarrow> string + json option) \<Rightarrow> certainty \<Rightarrow> nat list \<Rightarrow> sp_exn + json" where
  "decode_json loads certainty content =
     (case loads content of
        Inl m \<Rightarrow> Inl (ForeignError m)
      | Inr (Some (JObj kvs)) \<Rightarrow> Inr (JObj kvs)
      | _ \<Rightarrow> Inl (SecretProviderClientError MALFORMED_ANSWER certainty))"

text \<open>The text value of a key, when it has one.\<close>

definition json_text :: "json \<Rightarrow> string \<Rightarrow> string option" where
  "json_text j k = (case json_get j k of JStr s \<Rightarrow> Some s | _ \<Rightarrow> None)"

definition provider_error :: "int \<Rightarrow> json \<Rightarrow> bool \<Rightarrow> sp_exn" where
  "provider_error status payload mutation =
     (let detail = json_get payload ''detail''
      in case (json_text detail ''outcome'', json_text detail ''code'') of
           (Some outcome, Some code) \<Rightarrow>
             if json_keys payload \<noteq> {''detail''} \<or> json_keys detail \<noteq> {''outcome'', ''code''}
             then SecretProviderClientError MALFORMED_ANSWER (certainty_of mutation)
             else SecretProviderClientError
               (if status \<in> {401, 403} \<and> outcome = ''denied'' then DENIED
                else if status = 404 \<and> outcome = ''missing'' then MISSING
                else if status = 409 \<and> outcome = ''revoked'' then REVOKED
                else if status = 409 \<and> outcome = ''already-exists'' then ALREADY_EXISTS
                else if status = 409 \<and> outcome = ''conflict'' then CONFLICT
                else if status \<in> {400, 422} \<and> outcome = ''malformed'' then MALFORMED_REQUEST
                else if status = 503 \<and> code = ''integrity-failure'' then INTEGRITY_FAILURE
                else if 500 \<le> status then UNAVAILABLE
                else MALFORMED_ANSWER)
               (certainty_of (mutation \<and> 500 \<le> status))
         | _ \<Rightarrow> SecretProviderClientError MALFORMED_ANSWER (certainty_of mutation))"

text \<open>What the client makes of one exchange.\<close>

definition read_answer ::
  "'w sp_client \<Rightarrow> bool \<Rightarrow> rat \<times> exchange \<Rightarrow> sp_exn + json" where
  "read_answer cl mutation sent =
     (case sent of
        (started, SendFault f) \<Rightarrow> Inl (fault_error (certainty_of mutation) f)
      | (started, Answer head body) \<Rightarrow>
          let certainty = certainty_of mutation; status = ah_status head
          in bindR (check_declared (sc_policy cl) certainty (ah_content_length head)) (\<lambda>_.
             bindR (read_stream (sc_policy cl) certainty started [] body) (\<lambda>content.
             bindR (requireR (\<not> (300 \<le> status \<and> status < 400))
                      (SecretProviderClientError REDIRECTED certainty)) (\<lambda>_.
             bindR (requireR (media_type (ah_content_type head) = ''application/json'')
                      (SecretProviderClientError MALFORMED_ANSWER certainty)) (\<lambda>_.
             bindR (decode_json (sc_loads cl) certainty content) (\<lambda>decoded.
             if \<not> (200 \<le> status \<and> status < 300)
             then Inl (provider_error status decoded mutation)
             else Inr decoded))))))"

definition send_request ::
  "'w sp_client \<Rightarrow> provider_request \<Rightarrow> ('w, rat \<times> exchange) sp_eff" where
  "send_request cl rq s =
     (case sc_send cl rq (world s) of
        ((started, x), w) \<Rightarrow> (Inr (started, x), \<lparr>trace = trace s @ [Sent rq x], world = w\<rparr>))"

definition correlation_ok :: "string \<Rightarrow> bool" where
  "correlation_ok s \<longleftrightarrow> py_strip s \<noteq> [] \<and> length s \<le> 128 \<and> list_all (in_range 32 126) s"

definition request_json ::
  "'w sp_client \<Rightarrow> string \<Rightarrow> string \<Rightarrow> json option \<Rightarrow> bool \<Rightarrow> string option \<Rightarrow> ('w, json) sp_eff"
  where
  "request_json cl method path payload mutation audit =
     bindE (requireE (case audit of None \<Rightarrow> True | Some c \<Rightarrow> correlation_ok c)
              (definite MALFORMED_REQUEST)) (\<lambda>_.
     case (case payload of None \<Rightarrow> Some [] | Some j \<Rightarrow> sc_dumps cl j) of
       None \<Rightarrow> raiseE (definite MALFORMED_REQUEST)
     | Some body \<Rightarrow>
     bindE (requireE (length body \<le> cp_max_request (sc_policy cl)) (definite MALFORMED_REQUEST)) (\<lambda>_.
     bindE (read_credential cl) (\<lambda>token.
     let rq = \<lparr>pq_method = method, pq_path = path, pq_token = token, pq_correlation = audit,
               pq_body = body\<rparr>
     in bindE (send_request cl rq) (\<lambda>sent. liftE (read_answer cl mutation sent)))))"

end
