(* ===== verification/Provider_Operations.thy ===== *)
theory Provider_Operations
  imports Provider_Client
begin

text \<open>
  The operations of \<open>ControlPlaneKitSecretsClient\<close>: writing, generating, reading, resolving and
  revoking one secret, each one request and the validation of its answer.
\<close>

section \<open>Paths\<close>

definition canonical_provider_secret_id :: "reference \<Rightarrow> sp_exn + string" where
  "canonical_provider_secret_id ref =
     (case utf8_encode (map code_of ref) of
        None \<Rightarrow> Inl (ForeignError ''UnicodeEncodeError'')
      | Some encoded \<Rightarrow>
          if max_reference_bytes < length encoded then Inl (definite MALFORMED_REQUEST)
          else Inr (''cpk1_'' @ rstrip_char CHR ''='' (urlsafe_b64encode encoded)))"

definition secret_path :: "string \<Rightarrow> string \<Rightarrow> string" where
  "secret_path workspace secret_id =
     ''/v1/workspaces/'' @ py_quote workspace @ ''/secrets/'' @ py_quote secret_id"

definition delegation_key_path :: "string \<Rightarrow> string \<Rightarrow> string" where
  "delegation_key_path workspace secret_id =
     ''/v1/workspaces/'' @ py_quote workspace @ ''/delegation-keys/'' @ py_quote secret_id
     @ ''/generate''"

section \<open>Validation of requests and answers\<close>

definition request_identity :: "string \<Rightarrow> string \<Rightarrow> string \<Rightarrow> sp_exn + unit" where
  "request_identity workspace caller correlation =
     requireR (list_all provider_identifier [workspace, caller, correlation])
       (definite MALFORMED_REQUEST)"

text \<open>
  \<open>round_trips r\<close> is whether \<open>SecretReference(r.reference_id)\<close> succeeds and equals \<open>r\<close>.  Every
  failure of the check, an unusable reference included, is the same error.
\<close>

definition metadata_request ::
  "(reference \<Rightarrow> bool) \<Rightarrow> string \<Rightarrow> reference \<Rightarrow> string \<Rightarrow> sp_exn + unit" where
  "metadata_request round_trips workspace ref version_id =
     requireR (provider_identifier workspace \<and> provider_identifier version_id \<and> round_trips ref
               \<and> \<not> isl (canonical_provider_secret_id ref)) (definite MALFORMED_REQUEST)"

definition metadata_keys :: "string set" where
  "metadata_keys =
     {''workspace_id'', ''secret_id'', ''version_id'', ''version_number'', ''status'', ''algorithm'',
      ''key_fingerprint'', ''key_version'', ''labels'', ''created_at'', ''revoked_at''}"

definition read_version_metadata ::
  "json \<Rightarrow> string \<Rightarrow> string \<Rightarrow> reference \<Rightarrow> string \<Rightarrow> certainty \<Rightarrow> sp_exn + version_metadata" where
  "read_version_metadata value workspace secret_id ref expected certainty =
     (let malformed = SecretProviderClientError MALFORMED_ANSWER certainty
      in bindR (requireR (is_mapping value \<and> json_keys value = metadata_keys) malformed) (\<lambda>_.
         bindR (requireR (json_text value ''workspace_id'' = Some workspace
                  \<and> json_text value ''secret_id'' = Some secret_id
                  \<and> json_text value ''status'' = Some expected) malformed) (\<lambda>_.
         bindR (requireR (list_all (\<lambda>k. json_text value k \<notin> {None, Some []})
                  [''algorithm'', ''key_fingerprint'', ''key_version'', ''created_at'']) malformed) (\<lambda>_.
         bindR (requireR (json_get value ''revoked_at'' = JNull
                  \<or> json_is_str (json_get value ''revoked_at'')) malformed) (\<lambda>_.
         case make_version_metadata ref (json_get value ''version_id'')
                (json_get value ''version_number'') expected (json_get value ''labels'') of
           Inr m \<Rightarrow> Inr m
         | Inl _ \<Rightarrow> Inl malformed)))))"

text \<open>The shape \<open>{outcome, ...}\<close> of a successful answer.\<close>

definition check_outcome :: "json \<Rightarrow> string set \<Rightarrow> string \<Rightarrow> certainty \<Rightarrow> sp_exn + unit" where
  "check_outcome response keys outcome certainty =
     requireR (json_keys response = keys \<and> json_text response ''outcome'' = Some outcome)
       (SecretProviderClientError MALFORMED_ANSWER certainty)"

section \<open>Operations\<close>

definition write_secret ::
  "'w sp_client \<Rightarrow> string \<Rightarrow> reference \<Rightarrow> nat list \<Rightarrow> secret_intent \<Rightarrow> string \<Rightarrow> string
    \<Rightarrow> ('w, version_metadata) sp_eff" where
  "write_secret cl workspace ref secret intent caller correlation =
     bindE (liftE (request_identity workspace caller correlation)) (\<lambda>_.
     case utf8_encode secret of
       None \<Rightarrow> raiseE (ForeignError ''UnicodeEncodeError'')
     | Some material \<Rightarrow>
     bindE (requireE (length material \<le> max_secret_bytes) (definite MALFORMED_REQUEST)) (\<lambda>_.
     bindE (liftE (canonical_provider_secret_id ref)) (\<lambda>secret_id.
     bindE (request_json cl ''POST'' (secret_path workspace secret_id)
              (Some (JObj [(''value_base64'', JStr (b64encode material)),
                 (''intent'', JStr (cs_intent_value (sc_core cl) intent)), (''labels'', JObj []),
                 (''caller_subject'', JStr caller), (''correlation_id'', JStr correlation)]))
              True None) (\<lambda>response.
     bindE (liftE (check_outcome response {''outcome'', ''metadata''} ''stored'' UNCERTAIN)) (\<lambda>_.
     liftE (read_version_metadata (json_get response ''metadata'') workspace secret_id ref
              ''active'' UNCERTAIN))))))"

definition generated_keys :: "string set" where
  "generated_keys =
     {''outcome'', ''secret_reference'', ''metadata'', ''purpose'', ''issuer'', ''correlation_id'',
      ''key_id'', ''algorithm'', ''public_key_pem'', ''fingerprint_sha256'', ''replayed''}"

definition read_generated_key ::
  "core_secrets \<Rightarrow> json \<Rightarrow> string \<Rightarrow> string \<Rightarrow> reference \<Rightarrow> key_purpose \<Rightarrow> string \<Rightarrow> string
    \<Rightarrow> sp_exn + generated_key" where
  "read_generated_key core response workspace secret_id ref purpose issuer correlation =
     bindR (check_outcome response generated_keys ''generated'' UNCERTAIN) (\<lambda>_.
     bindR (requireR (json_text response ''secret_reference'' = Some ref
              \<and> json_text response ''purpose'' = Some (cs_purpose_value core purpose)
              \<and> json_text response ''issuer'' = Some issuer
              \<and> json_text response ''correlation_id'' = Some correlation)
              (uncertain MALFORMED_ANSWER)) (\<lambda>_.
     case json_get response ''replayed'' of
       JBool replayed \<Rightarrow>
         bindR (read_version_metadata (json_get response ''metadata'') workspace secret_id ref
                  ''active'' UNCERTAIN) (\<lambda>m.
         case cs_public_key core (json_get response ''key_id'') (json_get response ''algorithm'')
                (json_get response ''public_key_pem'') of
           None \<Rightarrow> Inl (uncertain MALFORMED_ANSWER)
         | Some key \<Rightarrow>
             bindR (requireR (json_text response ''fingerprint_sha256'' = Some (pk_fingerprint key))
                      (uncertain MALFORMED_ANSWER)) (\<lambda>_.
             make_generated_key core ref m purpose issuer correlation key replayed))
     | _ \<Rightarrow> Inl (uncertain MALFORMED_ANSWER)))"

definition generate_delegation_key ::
  "'w sp_client \<Rightarrow> string \<Rightarrow> reference \<Rightarrow> key_purpose \<Rightarrow> string \<Rightarrow> string \<Rightarrow> string
    \<Rightarrow> ('w, generated_key) sp_eff" where
  "generate_delegation_key cl workspace ref purpose issuer caller correlation =
     bindE (liftE (request_identity workspace caller correlation)) (\<lambda>_.
     bindE (requireE (generation_intent (sc_core cl) purpose \<noteq> None \<and> provider_identifier issuer)
              (definite MALFORMED_REQUEST)) (\<lambda>_.
     bindE (liftE (canonical_provider_secret_id ref)) (\<lambda>secret_id.
     bindE (request_json cl ''POST'' (delegation_key_path workspace secret_id)
              (Some (JObj [(''secret_reference'', JStr ref),
                 (''purpose'', JStr (cs_purpose_value (sc_core cl) purpose)),
                 (''issuer'', JStr issuer), (''caller_subject'', JStr caller),
                 (''correlation_id'', JStr correlation)])) True None) (\<lambda>response.
     liftE (read_generated_key (sc_core cl) response workspace secret_id ref purpose issuer
              correlation)))))"

definition read_metadata ::
  "'w sp_client \<Rightarrow> (reference \<Rightarrow> bool) \<Rightarrow> string \<Rightarrow> reference \<Rightarrow> string
    \<Rightarrow> ('w, version_metadata) sp_eff" where
  "read_metadata cl round_trips workspace ref version_id =
     bindE (liftE (metadata_request round_trips workspace ref version_id)) (\<lambda>_.
     bindE (liftE (canonical_provider_secret_id ref)) (\<lambda>secret_id.
     bindE (request_json cl ''GET''
              (secret_path workspace secret_id @ ''/metadata?version_id='' @ py_quote version_id)
              None False None) (\<lambda>response.
     bindE (liftE (check_outcome response {''outcome'', ''metadata''} ''metadata'' DEFINITE)) (\<lambda>_.
     let document = json_get response ''metadata''
     in case json_text document ''status'' of
          Some status \<Rightarrow>
            bindE (requireE (status \<in> {''active'', ''revoked''}) (definite MALFORMED_ANSWER)) (\<lambda>_.
            bindE (liftE (read_version_metadata document workspace secret_id ref status DEFINITE))
              (\<lambda>observed.
            bindE (requireE (vm_version_id observed = version_id) (definite MALFORMED_ANSWER)) (\<lambda>_.
            returnE observed)))
        | None \<Rightarrow> raiseE (definite MALFORMED_ANSWER)))))"

definition read_resolved ::
  "core_secrets \<Rightarrow> json \<Rightarrow> string \<Rightarrow> string \<Rightarrow> reference \<Rightarrow> secret_intent \<Rightarrow> string option
    \<Rightarrow> sp_exn + resolved_secret" where
  "read_resolved core response workspace secret_id ref intent version_id =
     bindR (check_outcome response {''outcome'', ''metadata'', ''value_base64''} ''resolved'' DEFINITE)
       (\<lambda>_.
     bindR (read_version_metadata (json_get response ''metadata'') workspace secret_id ref ''active''
              DEFINITE) (\<lambda>m.
     bindR (requireR (case version_id of None \<Rightarrow> True
              | Some v \<Rightarrow> vm_version_id m = v \<and> label m ''intent'' = Some (cs_intent_value core intent))
              (definite MALFORMED_ANSWER)) (\<lambda>_.
     case json_get response ''value_base64'' of
       JStr encoded \<Rightarrow>
         (case b64decode encoded of
            None \<Rightarrow> Inl (definite MALFORMED_ANSWER)
          | Some material \<Rightarrow>
              (case utf8_decode material of
                 None \<Rightarrow> Inl (definite MALFORMED_ANSWER)
               | Some text \<Rightarrow>
                   if material = [] \<or> max_secret_bytes < length material
                   then Inl (definite MALFORMED_ANSWER)
                   else (case cs_secret_value core text of
                       Inl message \<Rightarrow> Inl (ForeignError message)
                     | Inr v \<Rightarrow> Inr \<lparr>rs_metadata = m, rs_value = v\<rparr>)))
     | _ \<Rightarrow> Inl (definite MALFORMED_ANSWER))))"

definition resolve ::
  "'w sp_client \<Rightarrow> string \<Rightarrow> reference \<Rightarrow> secret_intent \<Rightarrow> string \<Rightarrow> string \<Rightarrow> string option
    \<Rightarrow> ('w, resolved_secret) sp_eff" where
  "resolve cl workspace ref intent caller correlation version_id =
     bindE (liftE (request_identity workspace caller correlation)) (\<lambda>_.
     bindE (requireE (case version_id of None \<Rightarrow> True | Some v \<Rightarrow> provider_identifier v)
              (definite MALFORMED_REQUEST)) (\<lambda>_.
     bindE (liftE (canonical_provider_secret_id ref)) (\<lambda>secret_id.
     bindE (request_json cl ''POST'' (secret_path workspace secret_id @ ''/resolve'')
              (Some (JObj [(''intent'', JStr (cs_intent_value (sc_core cl) intent)),
                 (''caller_subject'', JStr caller), (''correlation_id'', JStr correlation),
                 (''version_id'', case version_id of None \<Rightarrow> JNull | Some v \<Rightarrow> JStr v)])) False None)
       (\<lambda>response.
     liftE (read_resolved (sc_core cl) response workspace secret_id ref intent version_id)))))"

fun read_revoked_items ::
  "json list \<Rightarrow> string \<Rightarrow> string \<Rightarrow> reference \<Rightarrow> sp_exn + version_metadata list" where
  "read_revoked_items [] workspace secret_id ref = Inr []"
| "read_revoked_items (item # items) workspace secret_id ref =
     bindR (read_version_metadata item workspace secret_id ref ''revoked'' UNCERTAIN) (\<lambda>m.
     bindR (read_revoked_items items workspace secret_id ref) (\<lambda>ms. Inr (m # ms)))"

definition revoke ::
  "'w sp_client \<Rightarrow> string \<Rightarrow> reference \<Rightarrow> string \<Rightarrow> string \<Rightarrow> ('w, revoked_secret) sp_eff" where
  "revoke cl workspace ref caller correlation =
     bindE (liftE (request_identity workspace caller correlation)) (\<lambda>_.
     bindE (liftE (canonical_provider_secret_id ref)) (\<lambda>secret_id.
     bindE (request_json cl ''POST'' (secret_path workspace secret_id @ ''/revoke'')
              (Some (JObj [(''caller_subject'', JStr caller), (''correlation_id'', JStr correlation)]))
              True None) (\<lambda>response.
     bindE (liftE (check_outcome response {''outcome'', ''metadata''} ''revoked'' UNCERTAIN)) (\<lambda>_.
     case json_get response ''metadata'' of
       JList items \<Rightarrow>
         bindE (requireE (items \<noteq> []) (uncertain MALFORMED_ANSWER)) (\<lambda>_.
         bindE (liftE (read_revoked_items items workspace secret_id ref)) (\<lambda>ms.
         liftE (make_revoked ref (map vm_version_id ms))))
     | _ \<Rightarrow> raiseE (uncertain MALFORMED_ANSWER)))))"

definition revoke_version ::
  "'w sp_client \<Rightarrow> string \<Rightarrow> reference \<Rightarrow> string \<Rightarrow> int \<Rightarrow> string \<Rightarrow> string
    \<Rightarrow> ('w, version_metadata) sp_eff" where
  "revoke_version cl workspace ref version_id version_number caller correlation =
     bindE (liftE (request_identity workspace caller correlation)) (\<lambda>_.
     bindE (requireE (provider_identifier version_id \<and> 1 \<le> version_number)
              (definite MALFORMED_REQUEST)) (\<lambda>_.
     bindE (liftE (canonical_provider_secret_id ref)) (\<lambda>secret_id.
     bindE (request_json cl ''POST''
              (secret_path workspace secret_id @ ''/versions/'' @ py_quote version_id @ ''/revoke'')
              (Some (JObj [(''version_number'', JInt version_number), (''caller_subject'', JStr caller),
                 (''correlation_id'', JStr correlation)])) True None) (\<lambda>response.
     bindE (liftE (check_outcome response {''outcome'', ''metadata''} ''revoked'' UNCERTAIN)) (\<lambda>_.
     bindE (liftE (read_version_metadata (json_get response ''metadata'') workspace secret_id ref
              ''revoked'' UNCERTAIN)) (\<lambda>m.
     bindE (requireE (vm_version_id m = version_id \<and> vm_version_number m = version_number)
              (uncertain MALFORMED_ANSWER)) (\<lambda>_. returnE m)))))))"

end
