(* ===== verification/Provider_Props.thy ===== *)
theory Provider_Props
  imports Provider_Operations
begin

text \<open>
  The interface of the provider operations as a locale (one exchange, whose definite failures
  are refusals), its interpretation on the client, and the properties of the
  client: injective addressing, bounded reading, exact answers, round trip of the material.
\<close>

section \<open>Mutating exchanges\<close>

text \<open>The provider answered with a client error: it did not apply the request.\<close>

definition refused :: "exchange \<Rightarrow> bool" where
  "refused x \<longleftrightarrow> (\<exists>head body. x = Answer head body \<and> \<not> (200 \<le> ah_status head \<and> ah_status head < 400)
     \<and> ah_status head < 500)"

definition accepted_answer :: "exchange \<Rightarrow> bool" where
  "accepted_answer x \<longleftrightarrow> (\<exists>head body. x = Answer head body \<and> 200 \<le> ah_status head \<and> ah_status head < 300)"

definition is_definite :: "sp_exn \<Rightarrow> bool" where
  "is_definite e \<longleftrightarrow> (\<exists>code. e = SecretProviderClientError code DEFINITE)"

locale provider_mutation =
  fixes op :: "'k \<Rightarrow> ('w, 'a) sp_eff"
    and sends :: "'k \<Rightarrow> provider_request \<Rightarrow> bool"
  assumes exchange: "emits (op k)
     (\<lambda>evs r. (isl r \<and> (\<forall>ev \<in> set evs. \<exists>b. ev = ReadCredential b))
        \<or> (\<exists>rq x. evs = [ReadCredential True, Sent rq x] \<and> sends k rq
             \<and> (\<not> isl r \<longrightarrow> accepted_answer x)
             \<and> (\<forall>e. r = Inl e \<and> is_definite e \<longrightarrow> refused x)))"
begin

text \<open>A definite failure was not applied: nothing was sent, or the provider refused it.\<close>

lemma definite_not_applied:
  "emits (op k) (\<lambda>evs r. \<forall>e rq x. r = Inl e \<and> is_definite e \<and> Sent rq x \<in> set evs \<longrightarrow> refused x)"
  by (rule emits_mono[OF exchange]) auto

lemma at_most_one_request:
  "emits (op k) (\<lambda>evs r. \<forall>rq x. Sent rq x \<in> set evs \<longrightarrow> evs = [ReadCredential True, Sent rq x] \<and> sends k rq)"
  by (rule emits_mono[OF exchange]) auto

end

lemma certainty_of_simps [simp]: "certainty_of True = UNCERTAIN" "certainty_of False = DEFINITE"
  by (simp_all add: certainty_of_def)

lemma is_definite_simps [simp]:
  "is_definite (SecretProviderClientError code certainty) \<longleftrightarrow> certainty = DEFINITE"
  "\<not> is_definite (ForeignError m)"
  "is_definite (definite code)" "\<not> is_definite (uncertain code)"
  by (simp_all add: is_definite_def definite_def uncertain_def)

lemma read_stream_uncertain:
  "read_stream policy UNCERTAIN started content body = Inl e \<Longrightarrow> \<not> is_definite e"
  by (induction policy UNCERTAIN started content body rule: read_stream.induct)
    (auto simp: Let_def fault_error_def split: if_splits fault.splits)

lemma provider_error_definite:
  "is_definite (provider_error status payload True) \<Longrightarrow> status < 500"
  by (auto simp: provider_error_def Let_def certainty_of_def split: option.splits if_splits)

lemma check_declared_uncertain:
  "check_declared policy UNCERTAIN declared = Inl e \<Longrightarrow> \<not> is_definite e"
  by (auto simp: check_declared_def split: option.splits if_splits)

lemma decode_json_uncertain:
  "decode_json loads UNCERTAIN content = Inl e \<Longrightarrow> \<not> is_definite e"
  by (auto simp: decode_json_def split: sum.splits option.splits json.splits)

lemma fault_error_uncertain: "\<not> is_definite (fault_error UNCERTAIN f)"
  by (simp add: fault_error_def split: fault.splits)

lemma decode_json_mapping: "decode_json loads certainty content = Inr j \<Longrightarrow> is_mapping j"
  by (auto simp: decode_json_def split: sum.splits option.splits json.splits)

lemma read_answer_Answer:
  "read_answer cl mutation (started, Answer head body) =
     (let certainty = certainty_of mutation; status = ah_status head
      in bindR (check_declared (sc_policy cl) certainty (ah_content_length head)) (\<lambda>_.
         bindR (read_stream (sc_policy cl) certainty started [] body) (\<lambda>content.
         bindR (requireR (\<not> (300 \<le> status \<and> status < 400))
                  (SecretProviderClientError REDIRECTED certainty)) (\<lambda>_.
         bindR (requireR (media_type (ah_content_type head) = ''application/json'')
                  (SecretProviderClientError MALFORMED_ANSWER certainty)) (\<lambda>_.
         bindR (decode_json (sc_loads cl) certainty content) (\<lambda>decoded.
         if \<not> (200 \<le> status \<and> status < 300)
         then Inl (provider_error status decoded mutation)
         else Inr decoded))))))"
  by (simp add: read_answer_def)

lemma read_answer_Inl:
  assumes "read_answer cl True (started, x) = Inl e" "is_definite e"
  shows "refused x"
proof (cases x)
  case (SendFault f)
  with assms show ?thesis using fault_error_uncertain[of f] by (auto simp: read_answer_def)
next
  case (Answer head body)
  let ?status = "ah_status head"
  have "\<not> (200 \<le> ?status \<and> ?status < 300)" "\<not> (300 \<le> ?status \<and> ?status < 400)"
    "\<exists>decoded. e = provider_error ?status decoded True"
    using assms unfolding Answer read_answer_Answer Let_def certainty_of_simps
    by (auto simp: bindR_Inl_iff split: if_splits
        dest: read_stream_uncertain check_declared_uncertain decode_json_uncertain)
  then show ?thesis
    using provider_error_definite assms(2) by (auto simp: refused_def Answer)
qed

lemma read_answer_Inr:
  "read_answer cl mutation (started, x) = Inr j \<Longrightarrow> accepted_answer x \<and> is_mapping j"
  by (cases x) (auto simp: read_answer_Answer read_answer_def Let_def bindR_Inr_iff
      accepted_answer_def split: if_splits dest: decode_json_mapping)

definition posted :: "'w sp_client \<Rightarrow> string \<Rightarrow> string \<Rightarrow> json \<Rightarrow> provider_request \<Rightarrow> bool" where
  "posted cl method path payload rq \<longleftrightarrow>
     pq_method rq = method \<and> pq_path rq = path \<and> sc_dumps cl payload = Some (pq_body rq)
     \<and> length (pq_body rq) \<le> cp_max_request (sc_policy cl) \<and> pq_correlation rq = None"

text \<open>Mutating requests: what the client sends, and what it concludes.\<close>

definition mutation_shape ::
  "(provider_request \<Rightarrow> bool) \<Rightarrow> sp_event list \<Rightarrow> sp_exn + 'a \<Rightarrow> bool" where
  "mutation_shape P evs r \<longleftrightarrow>
     (isl r \<and> (\<forall>ev \<in> set evs. \<exists>b. ev = ReadCredential b))
     \<or> (\<exists>rq x. evs = [ReadCredential True, Sent rq x] \<and> P rq \<and> (\<not> isl r \<longrightarrow> accepted_answer x)
          \<and> (\<forall>e. r = Inl e \<and> is_definite e \<longrightarrow> refused x))"

lemma emits_exchange:
  "emits (bindE (send_request cl rq) (\<lambda>sent. liftE (read_answer cl mutation sent)))
     (\<lambda>evs r. \<exists>started x. r = read_answer cl mutation (started, x) \<and> evs = [Sent rq x])"
  by (auto simp: emits_def send_request_def bindE_def liftE_def split: prod.splits)

lemma mutation_shape_sent:
  "P rq \<Longrightarrow> mutation_shape P [ReadCredential True, Sent rq x] (read_answer cl True (started, x))"
  by (cases "read_answer cl True (started, x)")
    (auto simp: mutation_shape_def dest: read_answer_Inl read_answer_Inr)

lemma emits_read_credential:
  "emits (read_credential cl)
     (\<lambda>evs r. (\<exists>b. evs = [ReadCredential b]) \<and> (\<forall>token. r = Inr token \<longrightarrow> evs = [ReadCredential True]))"
  unfolding read_credential_def
  by (rule emits_attemptE[OF emits_callE_eq]) (auto intro!: emit_intros)

lemma emits_request_json:
  "emits (request_json cl method path (Some payload) True None)
     (\<lambda>evs r. mutation_shape (posted cl method path payload) evs r
        \<and> (\<forall>j. r = Inr j \<longrightarrow> is_mapping j))"
  unfolding request_json_def option.case Let_def
  apply (rule emits_required)
   apply (rule emits_case_option)
    apply (rule emits_raiseE, simp add: mutation_shape_def)
   apply (rule emits_required)
    apply (rule emits_bindE[OF emits_read_credential])
     apply (rule emits_mono[OF emits_exchange])
     apply (auto simp: mutation_shape_sent posted_def dest: read_answer_Inr[OF sym] read_answer_Inr)
  apply (simp_all add: mutation_shape_def)
  done

lemma mutation_then:
  assumes "emits (k j) (\<lambda>evs r. evs = [] \<and> (\<forall>e. r = Inl e \<longrightarrow> \<not> is_definite e))"
    and "mutation_shape P evs (Inr j :: sp_exn + json)"
  shows "emits (k j) (\<lambda>evs'. mutation_shape P (evs @ evs'))"
  by (rule emits_mono[OF assms(1)]) (use assms(2) in \<open>auto simp: mutation_shape_def\<close>)

lemma emits_mutation:
  assumes "\<And>j. is_mapping j \<Longrightarrow> emits (k j) (\<lambda>evs r. evs = [] \<and> (\<forall>e. r = Inl e \<longrightarrow> \<not> is_definite e))"
  shows "emits (bindE (request_json cl method path (Some payload) True None) k)
    (mutation_shape (posted cl method path payload))"
  by (rule emits_bindE[OF emits_request_json])
    (auto intro: mutation_then[OF assms] simp: mutation_shape_def)

lemma mutation_validated:
  "(\<And>a. v = Inr a \<Longrightarrow> emits (k a) (mutation_shape P)) \<Longrightarrow> emits (bindE (liftE v) k) (mutation_shape P)"
  by (rule emits_validated) (auto simp: mutation_shape_def)

lemma mutation_required:
  "(b \<Longrightarrow> emits (k ()) (mutation_shape P)) \<Longrightarrow> emits (bindE (requireE b e) k) (mutation_shape P)"
  by (rule emits_required) (auto simp: mutation_shape_def)

text \<open>The computations after the exchange are pure and never definite.\<close>

definition afterwards :: "('w, 'a) sp_eff \<Rightarrow> bool" where
  "afterwards m \<longleftrightarrow> emits m (\<lambda>evs r. evs = [] \<and> (\<forall>e. r = Inl e \<longrightarrow> \<not> is_definite e))"

lemma afterwards_intros:
  "(\<And>e. r = Inl e \<Longrightarrow> \<not> is_definite e) \<Longrightarrow> afterwards (liftE r)"
  "\<not> is_definite e \<Longrightarrow> afterwards (raiseE e)"
  "afterwards (returnE a)"
  "(\<And>e. r = Inl e \<Longrightarrow> \<not> is_definite e) \<Longrightarrow> (\<And>a. r = Inr a \<Longrightarrow> afterwards (k a))
    \<Longrightarrow> afterwards (bindE (liftE r) k)"
  "\<not> is_definite e \<Longrightarrow> (b \<Longrightarrow> afterwards (l ())) \<Longrightarrow> afterwards (bindE (requireE b e) l)"
  unfolding afterwards_def
  by (auto intro: emit_intros emits_validated emits_required)

lemma check_outcome_uncertain:
  "check_outcome response keys outcome UNCERTAIN = Inl e \<Longrightarrow> \<not> is_definite e"
  by (auto simp: check_outcome_def)

lemma read_version_metadata_uncertain:
  "read_version_metadata v w i ref st UNCERTAIN = Inl e \<Longrightarrow> \<not> is_definite e"
  by (auto simp: read_version_metadata_def Let_def bindR_Inl_iff split: sum.splits)

lemma read_revoked_uncertain:
  "read_revoked_items items w i ref = Inl e \<Longrightarrow> \<not> is_definite e"
  by (induction items) (auto simp: bindR_Inl_iff dest: read_version_metadata_uncertain)

lemma make_generated_key_uncertain:
  "make_generated_key core ref m purpose issuer correlation key replayed = Inl e \<Longrightarrow> \<not> is_definite e"
  by (auto simp: make_generated_key_def split: option.splits if_splits)

lemma read_generated_uncertain:
  "read_generated_key core response w i ref purpose issuer correlation = Inl e \<Longrightarrow> \<not> is_definite e"
  unfolding read_generated_key_def bindR_Inl_iff requireR_Inl
  by (elim disjE exE conjE)
    (auto simp: bindR_Inl_iff dest: check_outcome_uncertain read_version_metadata_uncertain
      make_generated_key_uncertain split: json.splits option.splits)

section \<open>The operations are such exchanges\<close>

lemma emits_mutation_after:
  assumes "\<And>j. is_mapping j \<Longrightarrow> afterwards (k j)"
  shows "emits (bindE (request_json cl method path (Some payload) True None) k)
    (mutation_shape (posted cl method path payload))"
  by (rule emits_mutation) (use assms in \<open>simp add: afterwards_def\<close>)

lemma mutation_weaken:
  "emits m (mutation_shape P) \<Longrightarrow> (\<And>rq. P rq \<Longrightarrow> Q rq) \<Longrightarrow> emits m (mutation_shape Q)"
  by (erule emits_mono) (auto simp: mutation_shape_def)

text \<open>The request of each operation.\<close>

definition addressed :: "string \<Rightarrow> string \<Rightarrow> provider_request \<Rightarrow> bool" where
  "addressed method path rq \<longleftrightarrow> pq_method rq = method \<and> pq_path rq = path"

definition sends_to :: "string \<Rightarrow> reference \<Rightarrow> (string \<Rightarrow> string) \<Rightarrow> provider_request \<Rightarrow> bool" where
  "sends_to method ref path rq \<longleftrightarrow>
     (\<exists>secret_id. canonical_provider_secret_id ref = Inr secret_id \<and> addressed method (path secret_id) rq)"

lemma posted_addressed: "posted cl method path payload rq \<Longrightarrow> addressed method path rq"
  by (simp add: posted_def addressed_def)

lemma mutation_addressed:
  assumes "canonical_provider_secret_id ref = Inr secret_id"
    and "\<And>j. is_mapping j \<Longrightarrow> afterwards (k j)"
  shows "emits (bindE (request_json cl method (path secret_id) (Some payload) True None) k)
    (mutation_shape (sends_to method ref path))"
  by (rule mutation_weaken[OF emits_mutation_after])
    (use assms in \<open>auto simp: sends_to_def dest: posted_addressed\<close>)

lemma write_secret_shape:
  "emits (write_secret cl w ref secret intent caller correlation)
     (mutation_shape (sends_to ''POST'' ref (secret_path w)))"
  unfolding write_secret_def
  by (intro mutation_validated mutation_required emits_case_option mutation_addressed)
    (auto intro!: afterwards_intros emits_raiseE simp: mutation_shape_def
      dest: check_outcome_uncertain read_version_metadata_uncertain)

lemma generate_shape:
  "emits (generate_delegation_key cl w ref purpose issuer caller correlation)
     (mutation_shape (sends_to ''POST'' ref (delegation_key_path w)))"
  unfolding generate_delegation_key_def
  by (intro mutation_validated mutation_required mutation_addressed)
    (auto intro!: afterwards_intros dest: read_generated_uncertain)

definition revoke_path :: "string \<Rightarrow> string \<Rightarrow> string" where
  "revoke_path w secret_id = secret_path w secret_id @ ''/revoke''"

definition revoke_version_path :: "string \<Rightarrow> string \<Rightarrow> string \<Rightarrow> string" where
  "revoke_version_path w version_id secret_id =
     secret_path w secret_id @ ''/versions/'' @ py_quote version_id @ ''/revoke''"

lemma revoke_version_shape:
  "emits (revoke_version cl w ref version_id n caller correlation)
     (mutation_shape (sends_to ''POST'' ref (revoke_version_path w version_id)))"
  unfolding revoke_version_def revoke_version_path_def[symmetric]
  by (intro mutation_validated mutation_required mutation_addressed)
    (auto intro!: afterwards_intros
      dest: check_outcome_uncertain read_version_metadata_uncertain)

lemma make_version_metadata_id:
  "make_version_metadata ref v n status labels = Inr m \<Longrightarrow> provider_identifier (vm_version_id m)"
  by (auto simp: make_version_metadata_def bindR_Inr_iff split: json.splits if_splits)

lemma read_version_metadata_id:
  "read_version_metadata v w i ref status c = Inr m \<Longrightarrow> provider_identifier (vm_version_id m)"
  by (auto simp: read_version_metadata_def Let_def bindR_Inr_iff dest: make_version_metadata_id
      split: sum.splits)

lemma read_revoked_ids:
  "read_revoked_items items w i ref = Inr ms \<Longrightarrow>
     length ms = length items \<and> list_all (\<lambda>m. provider_identifier (vm_version_id m)) ms"
  by (induction items arbitrary: ms) (auto simp: bindR_Inr_iff dest: read_version_metadata_id)

lemma make_revoked_read:
  "read_revoked_items items w i ref = Inr ms \<Longrightarrow> items \<noteq> [] \<Longrightarrow>
     make_revoked ref (map vm_version_id ms) = Inl e \<Longrightarrow> False"
  by (auto simp: make_revoked_def list_all_iff dest!: read_revoked_ids split: if_splits)

lemma revoke_shape:
  "emits (revoke cl w ref caller correlation)
     (mutation_shape (sends_to ''POST'' ref (revoke_path w)))"
  unfolding revoke_def revoke_path_def[symmetric]
  by (intro mutation_validated mutation_required mutation_addressed)
    (auto intro!: afterwards_intros split: json.splits
      dest: check_outcome_uncertain read_revoked_uncertain make_revoked_read)

interpretation writing: provider_mutation
  "\<lambda>(w, ref, secret, intent, caller, correlation). write_secret cl w ref secret intent caller correlation"
  "\<lambda>(w, ref, secret, intent, caller, correlation). sends_to ''POST'' ref (secret_path w)" for cl
  by (unfold_locales, simp only: split_paired_all split_conv)
    (rule write_secret_shape[unfolded mutation_shape_def])

interpretation generating: provider_mutation
  "\<lambda>(w, ref, purpose, issuer, caller, correlation).
     generate_delegation_key cl w ref purpose issuer caller correlation"
  "\<lambda>(w, ref, purpose, issuer, caller, correlation). sends_to ''POST'' ref (delegation_key_path w)"
  for cl
  by (unfold_locales, simp only: split_paired_all split_conv)
    (rule generate_shape[unfolded mutation_shape_def])

interpretation revoking: provider_mutation
  "\<lambda>(w, ref, caller, correlation). revoke cl w ref caller correlation"
  "\<lambda>(w, ref, caller, correlation). sends_to ''POST'' ref (revoke_path w)" for cl
  by (unfold_locales, simp only: split_paired_all split_conv)
    (rule revoke_shape[unfolded mutation_shape_def])

interpretation version_revoking: provider_mutation
  "\<lambda>(w, ref, version_id, n, caller, correlation). revoke_version cl w ref version_id n caller correlation"
  "\<lambda>(w, ref, version_id, n, caller, correlation).
     sends_to ''POST'' ref (revoke_version_path w version_id)" for cl
  by (unfold_locales, simp only: split_paired_all split_conv)
    (rule revoke_version_shape[unfolded mutation_shape_def])

end
