(* ===== verification/Provider_Answers.thy ===== *)
theory Provider_Answers
  imports Provider_Props
begin

text \<open>
  What the operations of the provider client return: exactly the version of the secret the caller
  asked for, from one accepted answer, with the material it was written with.
\<close>

section \<open>Accepted answers\<close>

text \<open>The one exchange behind a returned value, and what the request looked like.\<close>

definition wire_safe :: "client_policy \<Rightarrow> provider_request \<Rightarrow> bool" where
  "wire_safe policy rq \<longleftrightarrow>
     pq_token rq \<noteq> [] \<and> list_all (in_range 33 126) (pq_token rq)
     \<and> length (pq_token rq) \<le> max_credential_bytes
     \<and> length (pq_body rq) \<le> cp_max_request policy
     \<and> (case pq_correlation rq of None \<Rightarrow> True | Some c \<Rightarrow> list_all (in_range 32 126) c)"

lemma token_char_printable: "token_char b \<Longrightarrow> in_range 33 126 (char_of b)"
  by (simp add: token_char_def in_range_def)

lemma parse_credential_token:
  "parse_credential value = Inr token \<Longrightarrow>
     token \<noteq> [] \<and> list_all (in_range 33 126) token \<and> length token \<le> max_credential_bytes"
  by (auto simp: parse_credential_def Let_def list_all_iff token_char_printable split: if_splits)

lemma emits_read_token:
  "emits (read_credential cl) (\<lambda>evs r. (\<exists>b. evs = [ReadCredential b])
     \<and> (\<forall>token. r = Inr token \<longrightarrow> evs = [ReadCredential True] \<and> token \<noteq> []
          \<and> list_all (in_range 33 126) token \<and> length token \<le> max_credential_bytes))"
  unfolding read_credential_def
  by (rule emits_attemptE[OF emits_callE_eq])
    (auto intro!: emit_intros dest: parse_credential_token)

text \<open>
  One operation makes at most one request; whatever it sends is safe on the wire, and a result
  comes from the accepted answer to the request.
\<close>

definition answered_at_most_once ::
  "client_policy \<Rightarrow> string \<Rightarrow> string \<Rightarrow> ('a \<Rightarrow> bool) \<Rightarrow> sp_event list \<Rightarrow> sp_exn + 'a \<Rightarrow> bool" where
  "answered_at_most_once policy method path G evs r \<longleftrightarrow>
     (isl r \<and> (\<forall>ev \<in> set evs. \<exists>b. ev = ReadCredential b))
     \<or> (\<exists>rq x. evs = [ReadCredential True, Sent rq x] \<and> wire_safe policy rq
          \<and> addressed method path rq \<and> (\<forall>v. r = Inr v \<longrightarrow> accepted_answer x \<and> G v))"

lemma correlation_printable: "correlation_ok c \<Longrightarrow> list_all (in_range 32 126) c"
  by (simp add: correlation_ok_def)

lemma answered_sent:
  assumes "wire_safe policy rq" "addressed method path rq" "\<And>v. r = Inr v \<Longrightarrow> accepted_answer x \<and> G v"
  shows "answered_at_most_once policy method path G [ReadCredential True, Sent rq x] r"
  using assms by (auto simp: answered_at_most_once_def)

lemma emits_answered:
  "emits (request_json cl method path payload mutation audit)
     (answered_at_most_once (sc_policy cl) method path is_mapping)"
  unfolding request_json_def Let_def
  apply (rule emits_required)
   apply (rule emits_case_option)
    apply (rule emits_raiseE, simp add: answered_at_most_once_def)
   apply (rule emits_required)
    apply (rule emits_bindE[OF emits_read_token])
     apply (rule emits_mono[OF emits_exchange])
     apply (auto intro!: answered_sent simp: wire_safe_def addressed_def correlation_printable
      dest: read_answer_Inr split: option.splits)
  apply (auto simp: answered_at_most_once_def)
  done

lemma answered_then:
  assumes "answered_at_most_once policy method path P evs (Inr j :: sp_exn + json)"
    and "\<And>v. r = Inr v \<Longrightarrow> P j \<Longrightarrow> G v"
  shows "answered_at_most_once policy method path G evs r"
  using assms by (auto simp: answered_at_most_once_def)

text \<open>The computations after the exchange send nothing.\<close>

definition later_yields :: "('a \<Rightarrow> bool) \<Rightarrow> ('w, 'a) sp_eff \<Rightarrow> bool" where
  "later_yields G m \<longleftrightarrow> emits m (\<lambda>evs r. evs = [] \<and> (\<forall>v. r = Inr v \<longrightarrow> G v))"

lemma later_yields_intros:
  "(\<And>v. r = Inr v \<Longrightarrow> G v) \<Longrightarrow> later_yields G (liftE r)"
  "later_yields G (raiseE e)"
  "G a \<Longrightarrow> later_yields G (returnE a)"
  "(\<And>a. r' = Inr a \<Longrightarrow> later_yields G (k a)) \<Longrightarrow> later_yields G (bindE (liftE r') k)"
  "(b \<Longrightarrow> later_yields G (l ())) \<Longrightarrow> later_yields G (bindE (requireE b e) l)"
  "later_yields G m \<Longrightarrow> (\<And>c. later_yields G (n c)) \<Longrightarrow> later_yields G (case x of None \<Rightarrow> m | Some c \<Rightarrow> n c)"
  unfolding later_yields_def by (auto intro: emit_intros emits_validated emits_required split: option.splits)

lemma later_yields_list:
  "(\<And>items. later_yields G (l items)) \<Longrightarrow>
     later_yields G (case j of JList items \<Rightarrow> l items | _ \<Rightarrow> raiseE e)"
  by (cases j) (auto intro: later_yields_intros)

lemma emits_answered_after:
  assumes "\<And>j. is_mapping j \<Longrightarrow> later_yields G (k j)"
  shows "emits (bindE (request_json cl method path payload mutation audit) k)
    (answered_at_most_once (sc_policy cl) method path G)"
proof (rule emits_bindE[OF emits_answered])
  fix j evs
  assume j: "answered_at_most_once (sc_policy cl) method path is_mapping evs (Inr j)"
  then have "is_mapping j" by (auto simp: answered_at_most_once_def)
  then show "emits (k j) (\<lambda>evs'. answered_at_most_once (sc_policy cl) method path G (evs @ evs'))"
    by (rule emits_mono[OF assms[unfolded later_yields_def]]) (use j in \<open>auto elim: answered_then\<close>)
qed (simp add: answered_at_most_once_def)

lemma answered_run:
  assumes "emits m (answered_at_most_once policy method path G)" "m s = (r, s')" "trace s' = trace s @ evs"
    "Sent rq x \<in> set evs"
  shows "evs = [ReadCredential True, Sent rq x]" "wire_safe policy rq" "addressed method path rq"
    "r = Inr v \<Longrightarrow> accepted_answer x \<and> G v"
  using emitsD[OF assms(1-3)] assms(4) by (auto simp: answered_at_most_once_def)

lemma answered_result:
  assumes "emits m (answered_at_most_once policy method path G)" "m s = (Inr v, s')"
  obtains rq x where "trace s' = trace s @ [ReadCredential True, Sent rq x]" "wire_safe policy rq"
    "addressed method path rq" "accepted_answer x" "G v"
proof -
  obtain evs where "trace s' = trace s @ evs" "answered_at_most_once policy method path G evs (Inr v)"
    using assms by (rule emitsE)
  then show thesis by (auto simp: answered_at_most_once_def intro!: that)
qed

lemma answered_validated:
  "(\<And>a. v = Inr a \<Longrightarrow> emits (k a) (answered_at_most_once policy m p G)) \<Longrightarrow>
     emits (bindE (liftE v) k) (answered_at_most_once policy m p G)"
  by (rule emits_validated) (auto simp: answered_at_most_once_def)

lemma answered_required:
  "(b \<Longrightarrow> emits (k ()) (answered_at_most_once policy m p G)) \<Longrightarrow>
     emits (bindE (requireE b e) k) (answered_at_most_once policy m p G)"
  by (rule emits_required) (auto simp: answered_at_most_once_def)

section \<open>The material\<close>

text \<open>The metadata an operation asked for: the reference, the version, the status.\<close>

definition exact_version ::
  "reference \<Rightarrow> string \<Rightarrow> version_metadata \<Rightarrow> bool" where
  "exact_version ref status m \<longleftrightarrow>
     vm_reference m = ref \<and> vm_status m = status \<and> provider_identifier (vm_version_id m)
     \<and> 1 \<le> vm_version_number m"

lemma make_version_metadata_exact:
  "make_version_metadata ref v n status labels = Inr m \<Longrightarrow>
     exact_version ref status m \<and> v = JStr (vm_version_id m) \<and> n = JInt (vm_version_number m)
     \<and> status \<in> {''active'', ''revoked''} \<and> string_mapping labels = Inr (vm_labels m)"
  by (auto simp: make_version_metadata_def bindR_Inr_iff exact_version_def split: json.splits if_splits)

definition document_of :: "json \<Rightarrow> string \<Rightarrow> string \<Rightarrow> version_metadata \<Rightarrow> bool" where
  "document_of j w secret_id m \<longleftrightarrow>
     json_keys j = metadata_keys
     \<and> json_get j ''workspace_id'' = JStr w \<and> json_get j ''secret_id'' = JStr secret_id
     \<and> json_get j ''status'' = JStr (vm_status m)
     \<and> json_get j ''version_id'' = JStr (vm_version_id m)
     \<and> json_get j ''version_number'' = JInt (vm_version_number m)
     \<and> string_mapping (json_get j ''labels'') = Inr (vm_labels m)"

lemma json_text_iff: "json_text j k = Some s \<longleftrightarrow> json_get j k = JStr s"
  by (auto simp: json_text_def split: json.splits)

lemma read_version_metadata_exact:
  "read_version_metadata j w secret_id ref status c = Inr m \<Longrightarrow>
     exact_version ref status m \<and> document_of j w secret_id m"
  by (auto simp: read_version_metadata_def Let_def bindR_Inr_iff document_of_def json_text_iff
      exact_version_def dest!: make_version_metadata_exact split: sum.splits)

lemma check_outcome_simps [simp]:
  "check_outcome response keys outcome c = Inr u \<longleftrightarrow>
     json_keys response = keys \<and> json_get response ''outcome'' = JStr outcome"
  by (simp add: check_outcome_def json_text_iff)

section \<open>The operations\<close>

definition stored_version ::
  "string \<Rightarrow> reference \<Rightarrow> string \<Rightarrow> string \<Rightarrow> string \<Rightarrow> json \<Rightarrow> version_metadata \<Rightarrow> bool" where
  "stored_version w ref secret_id outcome status response m \<longleftrightarrow>
     json_get response ''outcome'' = JStr outcome \<and> exact_version ref status m
     \<and> document_of (json_get response ''metadata'') w secret_id m"

definition material_of :: "core_secrets \<Rightarrow> json \<Rightarrow> nat list \<Rightarrow> bool" where
  "material_of core response v \<longleftrightarrow>
     (\<exists>encoded material text. json_get response ''value_base64'' = JStr encoded
        \<and> b64decode encoded = Some material \<and> utf8_decode material = Some text
        \<and> material \<noteq> [] \<and> length material \<le> max_secret_bytes \<and> cs_secret_value core text = Inr v)"

definition resolved_material :: "core_secrets \<Rightarrow> version_metadata \<Rightarrow> json \<Rightarrow> sp_exn + resolved_secret" where
  "resolved_material core m value =
     (case value of
       JStr encoded \<Rightarrow>
         (case b64decode encoded of
            None \<Rightarrow> Inl (definite MALFORMED_ANSWER)
          | Some material \<Rightarrow>
              (case utf8_decode material of
                 None \<Rightarrow> Inl (definite MALFORMED_ANSWER)
               | Some text \<Rightarrow>
                   if material = [] \<or> max_secret_bytes < length material
                   then Inl (definite MALFORMED_ANSWER)
                   else (case cs_secret_value core text of
                       Inl message \<Rightarrow> Inl (ForeignError message)
                     | Inr v \<Rightarrow> Inr \<lparr>rs_metadata = m, rs_value = v\<rparr>)))
     | _ \<Rightarrow> Inl (definite MALFORMED_ANSWER))"

lemma resolved_material_Inr:
  "resolved_material core m value = Inr r \<Longrightarrow> json_get response ''value_base64'' = value \<Longrightarrow>
     rs_metadata r = m \<and> material_of core response (rs_value r)"
  by (cases "value")
    (auto simp: resolved_material_def material_of_def not_less split: option.splits if_splits sum.splits)

lemma read_resolved_exact:
  assumes "read_resolved core response w secret_id ref intent version_id = Inr r"
  shows "stored_version w ref secret_id ''resolved'' ''active'' response (rs_metadata r)"
    and "material_of core response (rs_value r)"
    and "version_id = Some v \<Longrightarrow> vm_version_id (rs_metadata r) = v
           \<and> label (rs_metadata r) ''intent'' = Some (cs_intent_value core intent)"
proof -
  from assms obtain m where
    outcome: "json_get response ''outcome'' = JStr ''resolved''"
    and m: "read_version_metadata (json_get response ''metadata'') w secret_id ref ''active'' DEFINITE
      = Inr m"
    and selected: "case version_id of None \<Rightarrow> True | Some v \<Rightarrow>
      vm_version_id m = v \<and> label m ''intent'' = Some (cs_intent_value core intent)"
    and r: "resolved_material core m (json_get response ''value_base64'') = Inr r"
    unfolding read_resolved_def bindR_Inr_iff requireR_Inr check_outcome_simps
      resolved_material_def[symmetric] by blast
  from resolved_material_Inr[OF r refl] have r: "rs_metadata r = m" "material_of core response (rs_value r)"
    by simp_all
  show "stored_version w ref secret_id ''resolved'' ''active'' response (rs_metadata r)"
    using outcome read_version_metadata_exact[OF m] by (simp add: stored_version_def r)
  show "material_of core response (rs_value r)" by (rule r)
  show "version_id = Some v \<Longrightarrow> vm_version_id (rs_metadata r) = v
      \<and> label (rs_metadata r) ''intent'' = Some (cs_intent_value core intent)"
    using selected by (simp add: r)
qed

definition path_of :: "reference \<Rightarrow> (string \<Rightarrow> string) \<Rightarrow> string" where
  "path_of ref path =
     (case canonical_provider_secret_id ref of Inr secret_id \<Rightarrow> path secret_id | Inl _ \<Rightarrow> [])"

lemma path_of_Inr [simp]: "canonical_provider_secret_id ref = Inr secret_id \<Longrightarrow> path_of ref path = path secret_id"
  by (simp add: path_of_def)

lemma answered_at:
  assumes "canonical_provider_secret_id ref = Inr secret_id"
    and "\<And>j. is_mapping j \<Longrightarrow> later_yields G (k j)"
  shows "emits (bindE (request_json cl method (path secret_id) payload mutation audit) k)
    (answered_at_most_once (sc_policy cl) method (path_of ref path) G)"
  using emits_answered_after[OF assms(2)] by (simp add: assms(1))

definition for_reference :: "reference \<Rightarrow> (string \<Rightarrow> 'a \<Rightarrow> bool) \<Rightarrow> 'a \<Rightarrow> bool" where
  "for_reference ref G v \<longleftrightarrow> (\<exists>secret_id. canonical_provider_secret_id ref = Inr secret_id \<and> G secret_id v)"

lemma for_referenceI: "canonical_provider_secret_id ref = Inr i \<Longrightarrow> G i v \<Longrightarrow> for_reference ref G v"
  by (auto simp: for_reference_def)

definition resolved_exactly ::
  "core_secrets \<Rightarrow> string \<Rightarrow> reference \<Rightarrow> secret_intent \<Rightarrow> string option \<Rightarrow> string
    \<Rightarrow> resolved_secret \<Rightarrow> bool" where
  "resolved_exactly core w ref intent version_id secret_id r \<longleftrightarrow>
     (\<exists>response. stored_version w ref secret_id ''resolved'' ''active'' response (rs_metadata r)
        \<and> material_of core response (rs_value r))
     \<and> (\<forall>v. version_id = Some v \<longrightarrow> vm_version_id (rs_metadata r) = v
           \<and> label (rs_metadata r) ''intent'' = Some (cs_intent_value core intent))"

lemma resolve_answered:
  "emits (resolve cl w ref intent caller correlation version_id)
     (answered_at_most_once (sc_policy cl) ''POST'' (path_of ref (\<lambda>i. secret_path w i @ ''/resolve''))
       (for_reference ref (resolved_exactly (sc_core cl) w ref intent version_id)))"
  unfolding resolve_def
  by (intro answered_validated answered_required answered_at later_yields_intros for_referenceI)
    (auto simp: resolved_exactly_def dest: read_resolved_exact)

definition stored_exactly ::
  "string \<Rightarrow> reference \<Rightarrow> string \<Rightarrow> string \<Rightarrow> string \<Rightarrow> version_metadata \<Rightarrow> bool" where
  "stored_exactly w ref outcome status secret_id m \<longleftrightarrow>
     (\<exists>response. stored_version w ref secret_id outcome status response m)"

lemma stored_exactlyI:
  "check_outcome response keys outcome c = Inr u \<Longrightarrow>
   read_version_metadata (json_get response ''metadata'') w secret_id ref status c' = Inr m \<Longrightarrow>
   stored_exactly w ref outcome status secret_id m"
  by (auto simp: stored_exactly_def stored_version_def dest: read_version_metadata_exact)

lemma stored_exactlyD:
  "for_reference ref (stored_exactly w ref outcome status) m \<Longrightarrow> exact_version ref status m"
  by (auto simp: for_reference_def stored_exactly_def stored_version_def)

lemma stored_exactly_status:
  "check_outcome response keys outcome c = Inr u \<Longrightarrow>
   read_version_metadata (json_get response ''metadata'') w secret_id ref status c' = Inr m \<Longrightarrow>
   stored_exactly w ref outcome (vm_status m) secret_id m \<and> vm_status m = status"
  using stored_exactlyI[of response keys outcome c u w secret_id ref status c' m]
    read_version_metadata_exact[of "json_get response ''metadata''" w secret_id ref status c' m]
  by (simp add: exact_version_def)

lemma write_answered:
  "emits (write_secret cl w ref secret intent caller correlation)
     (answered_at_most_once (sc_policy cl) ''POST'' (path_of ref (secret_path w))
       (for_reference ref (stored_exactly w ref ''stored'' ''active'')))"
  unfolding write_secret_def
  by (intro answered_validated answered_required emits_case_option answered_at later_yields_intros
      for_referenceI stored_exactlyI) (auto simp: answered_at_most_once_def intro: emits_raiseE)

lemma revoke_version_answered:
  "emits (revoke_version cl w ref version_id n caller correlation)
     (answered_at_most_once (sc_policy cl) ''POST'' (path_of ref (revoke_version_path w version_id))
       (\<lambda>m. for_reference ref (stored_exactly w ref ''revoked'' ''revoked'') m
          \<and> vm_version_id m = version_id \<and> vm_version_number m = n))"
  unfolding revoke_version_def revoke_version_path_def[symmetric]
  by (intro answered_validated answered_required answered_at later_yields_intros conjI
      for_referenceI stored_exactlyI) auto

lemma read_metadata_answered:
  "emits (read_metadata cl round_trips w ref version_id)
     (answered_at_most_once (sc_policy cl) ''GET''
       (path_of ref (\<lambda>i. secret_path w i @ ''/metadata?version_id='' @ py_quote version_id))
       (\<lambda>m. for_reference ref (stored_exactly w ref ''metadata'' (vm_status m)) m
          \<and> vm_version_id m = version_id \<and> vm_status m \<in> {''active'', ''revoked''}))"
  unfolding read_metadata_def Let_def
  apply (intro answered_validated answered_at later_yields_intros conjI; (assumption)?)
  subgoal by (rule for_referenceI, assumption, rule stored_exactly_status[THEN conjunct1])
  subgoal by (drule read_version_metadata_exact) (simp add: exact_version_def)
  done

definition generated_exactly ::
  "core_secrets \<Rightarrow> string \<Rightarrow> reference \<Rightarrow> key_purpose \<Rightarrow> string \<Rightarrow> string \<Rightarrow> string
    \<Rightarrow> generated_key \<Rightarrow> bool" where
  "generated_exactly core w ref purpose issuer correlation secret_id g \<longleftrightarrow>
     gk_reference g = ref \<and> gk_purpose g = purpose \<and> gk_issuer g = issuer
     \<and> gk_correlation_id g = correlation
     \<and> stored_exactly w ref ''generated'' ''active'' secret_id (gk_metadata g)
     \<and> label (gk_metadata g) ''issuer'' = Some issuer
     \<and> label (gk_metadata g) ''key_id'' = Some (pk_key_id (gk_public_key g))
     \<and> label (gk_metadata g) ''purpose'' = Some (cs_purpose_value core purpose)
     \<and> (\<exists>intent. generation_intent core purpose = Some intent
          \<and> label (gk_metadata g) ''intent'' = Some (cs_intent_value core intent))"

lemma make_generated_key_exact:
  "make_generated_key core ref m purpose issuer correlation key replayed = Inr g \<Longrightarrow>
   stored_exactly w ref ''generated'' ''active'' secret_id m \<Longrightarrow>
   generated_exactly core w ref purpose issuer correlation secret_id g"
  by (auto simp: make_generated_key_def generated_exactly_def split: option.splits if_splits)

lemma read_generated_exact:
  "read_generated_key core response w secret_id ref purpose issuer correlation = Inr g \<Longrightarrow>
   generated_exactly core w ref purpose issuer correlation secret_id g"
  unfolding read_generated_key_def bindR_Inr_iff
  by (elim exE conjE)
    (auto simp: bindR_Inr_iff simp del: check_outcome_simps split: json.splits option.splits
      intro!: make_generated_key_exact intro: stored_exactlyI)

lemma generate_answered:
  "emits (generate_delegation_key cl w ref purpose issuer caller correlation)
     (answered_at_most_once (sc_policy cl) ''POST'' (path_of ref (delegation_key_path w))
       (for_reference ref (generated_exactly (sc_core cl) w ref purpose issuer correlation)))"
  unfolding generate_delegation_key_def
  by (intro answered_validated answered_required answered_at later_yields_intros for_referenceI)
    (auto dest: read_generated_exact)

end
