(* ===== verification/Provider_Claims.thy ===== *)
theory Provider_Claims
  imports Provider_Answers
begin

text \<open>
  The properties of the provider client, each for one run of an operation from any state:
  which requests it sent, what a failure says about them, and what a result is.
\<close>

section \<open>A sample provider\<close>

definition sample_core :: core_secrets where
  "sample_core = \<lparr>cs_intent_value = (\<lambda>_. ''signing''), cs_purpose_value = (\<lambda>_. ''probe''),
     cs_health_intent = (\<lambda>_. GATEWAY_PROBE_SIGNING_KEY),
     cs_public_key = (\<lambda>k a p. Some \<lparr>pk_key_id = ''key-1'', pk_fingerprint = ''ab12''\<rparr>),
     cs_secret_value = Inr\<rparr>"

definition sample_policy :: client_policy where
  "sample_policy = \<lparr>cp_connect = 2, cp_read = 5, cp_total = 10, cp_max_request = 1000,
     cp_max_response = 1000\<rparr>"

definition sample_provider :: "int \<Rightarrow> json \<Rightarrow> unit sp_client" where
  "sample_provider status j =
     \<lparr>sc_core = sample_core, sc_policy = sample_policy, sc_credential = (\<lambda>w. (Inr [116, 111, 107, 10], w)),
      sc_send = (\<lambda>rq w. ((0, Answer \<lparr>ah_status = status, ah_content_length = Some ''2'',
                              ah_content_type = Some ''application/json; charset=utf-8''\<rparr>
                            (Chunk [123] 1 (Chunk [125] 2 (StreamEnd 3)))), w)),
      sc_dumps = (\<lambda>_. Some [123, 125]), sc_loads = (\<lambda>bs. Inr (if bs = [123, 125] then Some j else None))\<rparr>"

definition sample_id :: string where
  "sample_id = ''cpk1_ZGItcGFzcw''"

lemma sample_id_eq: "canonical_provider_secret_id ''db-pass'' = Inr sample_id"
  by code_simp

definition sample_metadata :: "string \<Rightarrow> json" where
  "sample_metadata status =
     JObj [(''workspace_id'', JStr ''w1''), (''secret_id'', JStr sample_id), (''version_id'', JStr ''v1''),
       (''version_number'', JInt 3), (''status'', JStr status), (''algorithm'', JStr ''aes''),
       (''key_fingerprint'', JStr ''fp''), (''key_version'', JStr ''1''),
       (''labels'', JObj [(''intent'', JStr ''signing''), (''purpose'', JStr ''probe''),
          (''issuer'', JStr ''gw''), (''key_id'', JStr ''key-1'')]),
       (''created_at'', JStr ''2024''), (''revoked_at'', JNull)]"

definition sample_answer :: "string \<Rightarrow> string \<Rightarrow> json" where
  "sample_answer outcome status =
     JObj [(''outcome'', JStr outcome), (''metadata'', sample_metadata status)]"

definition sample_metadata_value :: "string \<Rightarrow> version_metadata" where
  "sample_metadata_value status =
     \<lparr>vm_reference = ''db-pass'', vm_version_id = ''v1'', vm_version_number = 3, vm_status = status,
      vm_labels = [(''intent'', ''signing''), (''purpose'', ''probe''), (''issuer'', ''gw''),
        (''key_id'', ''key-1'')]\<rparr>"

lemma sample_identifiers:
  "provider_identifier ''w1'' = True" "provider_identifier ''v1'' = True"
  "provider_identifier ''gw'' = True" "provider_identifier ''me'' = True"
  "provider_identifier ''c1'' = True"
  by code_simp+

lemma sample_media: "media_type (Some ''application/json; charset=utf-8'') = ''application/json''"
  by code_simp

lemma sample_length: "py_int ''2'' = Some 2"
  by code_simp

lemma sample_token: "parse_credential [116, 111, 107, 10] = Inr ''tok''"
  by code_simp

lemma sample_keys: "json_keys (sample_metadata status) = metadata_keys"
  by (auto simp: sample_metadata_def metadata_keys_def)

lemma sample_labels:
  "string_mapping (JObj [(''intent'', JStr ''signing''), (''purpose'', JStr ''probe''),
     (''issuer'', JStr ''gw''), (''key_id'', JStr ''key-1'')]) =
   Inr [(''intent'', ''signing''), (''purpose'', ''probe''), (''issuer'', ''gw''), (''key_id'', ''key-1'')]"
  by code_simp

lemma sample_read:
  assumes "status \<in> {''active'', ''revoked''}"
  shows "read_version_metadata (sample_metadata status) ''w1'' sample_id ''db-pass'' status c
    = Inr (sample_metadata_value status)"
  using assms sample_keys[of status]
  by (simp add: read_version_metadata_def sample_metadata_def Let_def json_text_def sample_labels
      make_version_metadata_def sample_identifiers sample_metadata_value_def)

lemmas sample_run =
  sample_provider_def sample_policy_def sample_id_eq sample_media sample_length sample_token
  sample_identifiers request_identity_def request_json_def read_credential_def send_request_def
  read_answer_def check_declared_def decode_json_def certainty_of_def eff_defs

section \<open>Failures\<close>

text \<open>
  C10: when writing a secret fails with a definite outcome, the secret was not stored: the run sent
  nothing, or the provider refused the one request it sent to the path of the reference.
\<close>

theorem write_failure_not_applied:
  assumes "write_secret cl w ref secret intent caller correlation s = (Inl e, s')"
    and "is_definite e"
    and "trace s' = trace s @ evs"
    and "Sent rq x \<in> set evs"
  shows "refused x \<and> evs = [ReadCredential True, Sent rq x] \<and> sends_to ''POST'' ref (secret_path w) rq"
  using emitsD[OF writing.definite_not_applied[of cl "(w, ref, secret, intent, caller, correlation)", simplified] assms(1,3)]
    emitsD[OF writing.at_most_one_request[of cl "(w, ref, secret, intent, caller, correlation)", simplified] assms(1,3)]
    assms(2,4) by auto

definition sample_conflict :: json where
  "sample_conflict = JObj [(''detail'', JObj [(''outcome'', JStr ''conflict''), (''code'', JStr ''c'')])]"

definition sample_write :: "(sp_exn + version_metadata) \<times> (sp_event, unit) st" where
  "sample_write = write_secret (sample_provider 409 sample_conflict) ''w1'' ''db-pass'' [104, 105]
     (OTHER_INTENT ''x'') ''me'' ''c1'' \<lparr>trace = [], world = ()\<rparr>"

lemma sample_write_eq:
  "\<exists>rq x. sample_write = (Inl (definite CONFLICT),
     \<lparr>trace = [ReadCredential True, Sent rq x], world = ()\<rparr>)"
  by (simp add: sample_write_def write_secret_def sample_run sample_conflict_def provider_error_def
      json_text_def definite_def max_secret_bytes_def)

lemma write_failure_not_applied_witness:
  "\<exists>rq x. sample_write = (Inl (definite CONFLICT), \<lparr>trace = [ReadCredential True, Sent rq x], world = ()\<rparr>)
     \<and> refused x \<and> sends_to ''POST'' ''db-pass'' (secret_path ''w1'') rq"
proof -
  obtain rq x where run: "sample_write = (Inl (definite CONFLICT),
     \<lparr>trace = [ReadCredential True, Sent rq x], world = ()\<rparr>)"
    using sample_write_eq by blast
  from write_failure_not_applied[OF run[unfolded sample_write_def], of "[ReadCredential True, Sent rq x]" rq x]
  have "refused x \<and> sends_to ''POST'' ''db-pass'' (secret_path ''w1'') rq" by simp
  with run show ?thesis by blast
qed

text \<open>
  revoking one version sends at most one request, to the path of exactly that version.
  A definite failure was not applied; a result is the revoked version that was named.
\<close>

theorem revoke_version_outcome:
  assumes "revoke_version cl w ref version_id n caller correlation s = (r, s')"
    and "trace s' = trace s @ evs"
    and "Sent rq x \<in> set evs"
  shows "evs = [ReadCredential True, Sent rq x]
     \<and> sends_to ''POST'' ref (revoke_version_path w version_id) rq
     \<and> (case r of
          Inl e \<Rightarrow> is_definite e \<longrightarrow> refused x
        | Inr m \<Rightarrow> accepted_answer x \<and> exact_version ref ''revoked'' m
            \<and> vm_version_id m = version_id \<and> vm_version_number m = n)"
proof -
  have "r = Inl e \<Longrightarrow> is_definite e \<Longrightarrow> refused x" for e
    using emitsD[OF version_revoking.definite_not_applied[of cl
      "(w, ref, version_id, n, caller, correlation)", simplified] assms(1,2)] assms(3) by blast
  moreover have "evs = [ReadCredential True, Sent rq x] \<and>
      sends_to ''POST'' ref (revoke_version_path w version_id) rq"
    using emitsD[OF version_revoking.at_most_one_request[of cl
      "(w, ref, version_id, n, caller, correlation)", simplified] assms(1,2)] assms(3) by blast
  moreover have "r = Inr m \<Longrightarrow> accepted_answer x \<and> exact_version ref ''revoked'' m
      \<and> vm_version_id m = version_id \<and> vm_version_number m = n" for m
    using answered_run(4)[OF revoke_version_answered assms] by (blast dest: stored_exactlyD)
  ultimately show ?thesis by (cases r) simp_all
qed

definition sample_revocation :: "(sp_exn + version_metadata) \<times> (sp_event, unit) st" where
  "sample_revocation = revoke_version (sample_provider 200 (sample_answer ''revoked'' ''revoked''))
     ''w1'' ''db-pass'' ''v1'' 3 ''me'' ''c1'' \<lparr>trace = [], world = ()\<rparr>"

lemma sample_revocation_eq:
  "\<exists>rq x. sample_revocation = (Inr (sample_metadata_value ''revoked''),
     \<lparr>trace = [ReadCredential True, Sent rq x], world = ()\<rparr>)"
  by (simp add: sample_revocation_def revoke_version_def sample_run sample_answer_def check_outcome_def
      json_text_def sample_read) (simp add: sample_metadata_value_def insert_commute)

lemma revoke_version_outcome_witness:
  "\<exists>rq x. sample_revocation = (Inr (sample_metadata_value ''revoked''),
       \<lparr>trace = [ReadCredential True, Sent rq x], world = ()\<rparr>)
     \<and> accepted_answer x \<and> sends_to ''POST'' ''db-pass'' (revoke_version_path ''w1'' ''v1'') rq"
proof -
  obtain rq x where run: "sample_revocation = (Inr (sample_metadata_value ''revoked''),
     \<lparr>trace = [ReadCredential True, Sent rq x], world = ()\<rparr>)"
    using sample_revocation_eq by blast
  from revoke_version_outcome[OF run[unfolded sample_revocation_def], of "[ReadCredential True, Sent rq x]" rq x]
  have "accepted_answer x \<and> sends_to ''POST'' ''db-pass'' (revoke_version_path ''w1'' ''v1'') rq" by simp
  with run show ?thesis by blast
qed

section \<open>Results\<close>

text \<open>
  a secret that resolves was answered to one request to the path of its reference: the
  metadata is of the active version of that reference, in that workspace, of the selected
  version and use when one was selected, and the value is the decoded material of the answer.
  The request carries a visible token and stays in the size bound.
\<close>

theorem resolve_returns_selected:
  assumes "resolve cl w ref intent caller correlation version_id s = (Inr v, s')"
  shows "\<exists>rq x. trace s' = trace s @ [ReadCredential True, Sent rq x] \<and> accepted_answer x
     \<and> wire_safe (sc_policy cl) rq
     \<and> addressed ''POST'' (path_of ref (\<lambda>i. secret_path w i @ ''/resolve'')) rq
     \<and> exact_version ref ''active'' (rs_metadata v)
     \<and> for_reference ref (resolved_exactly (sc_core cl) w ref intent version_id) v"
proof -
  obtain rq x where run: "trace s' = trace s @ [ReadCredential True, Sent rq x]"
    "wire_safe (sc_policy cl) rq"
    "addressed ''POST'' (path_of ref (\<lambda>i. secret_path w i @ ''/resolve'')) rq" "accepted_answer x"
    "for_reference ref (resolved_exactly (sc_core cl) w ref intent version_id) v"
    using resolve_answered assms by (rule answered_result)
  have "exact_version ref ''active'' (rs_metadata v)"
    using run(5) by (auto simp: for_reference_def resolved_exactly_def stored_version_def)
  with run show ?thesis by blast
qed

definition sample_resolution :: "(sp_exn + resolved_secret) \<times> (sp_event, unit) st" where
  "sample_resolution = resolve
     (sample_provider 200 (JObj [(''outcome'', JStr ''resolved''), (''metadata'', sample_metadata ''active''),
        (''value_base64'', JStr ''aGk='')]))
     ''w1'' ''db-pass'' (OTHER_INTENT ''x'') ''me'' ''c1'' (Some ''v1'') \<lparr>trace = [], world = ()\<rparr>"

lemma sample_material: "b64decode ''aGk='' = Some [104, 105]" "utf8_decode [104, 105] = Some [104, 105]"
  by code_simp+

lemma sample_resolution_eq:
  "fst sample_resolution = Inr \<lparr>rs_metadata = sample_metadata_value ''active'', rs_value = [104, 105]\<rparr>"
  by (simp add: sample_resolution_def resolve_def sample_run read_resolved_def check_outcome_def
      json_text_def sample_read sample_material max_secret_bytes_def insert_commute)
    (simp add: sample_metadata_value_def label_def sample_core_def)

lemma resolve_returns_selected_witness:
  "exact_version ''db-pass'' ''active'' (sample_metadata_value ''active'')
   \<and> length (trace (snd sample_resolution)) = 2"
  using resolve_returns_selected[OF sample_resolution_def[symmetric, THEN trans,
      OF prod.collapse[symmetric, of sample_resolution, unfolded sample_resolution_eq]]]
  by auto

text \<open>
  a generated delegation key is bound to the request: reference, purpose, issuer and
  correlation are the requested ones, and the stored version carries the labels of that
  purpose, issuer and public key.
\<close>

theorem generated_key_bound:
  assumes "generate_delegation_key cl w ref purpose issuer caller correlation s = (Inr g, s')"
  shows "\<exists>rq x. trace s' = trace s @ [ReadCredential True, Sent rq x] \<and> accepted_answer x
     \<and> addressed ''POST'' (path_of ref (delegation_key_path w)) rq
     \<and> for_reference ref (generated_exactly (sc_core cl) w ref purpose issuer correlation) g"
  using generate_answered assms by (rule answered_result) blast

definition sample_generation :: "(sp_exn + generated_key) \<times> (sp_event, unit) st" where
  "sample_generation = generate_delegation_key
     (sample_provider 201 (JObj [(''outcome'', JStr ''generated''), (''secret_reference'', JStr ''db-pass''),
        (''metadata'', sample_metadata ''active''), (''purpose'', JStr ''probe''), (''issuer'', JStr ''gw''),
        (''correlation_id'', JStr ''c1''), (''key_id'', JStr ''key-1''), (''algorithm'', JStr ''ed25519''),
        (''public_key_pem'', JStr ''pem''), (''fingerprint_sha256'', JStr ''ab12''),
        (''replayed'', JBool False)]))
     ''w1'' ''db-pass'' GATEWAY_PROBE ''gw'' ''me'' ''c1'' \<lparr>trace = [], world = ()\<rparr>"

definition sample_key :: generated_key where
  "sample_key = \<lparr>gk_reference = ''db-pass'', gk_metadata = sample_metadata_value ''active'',
     gk_purpose = GATEWAY_PROBE, gk_issuer = ''gw'', gk_correlation_id = ''c1'',
     gk_public_key = \<lparr>pk_key_id = ''key-1'', pk_fingerprint = ''ab12''\<rparr>, gk_replayed = False\<rparr>"

lemma sample_generated_keys:
  "{''outcome'', ''secret_reference'', ''metadata'', ''purpose'', ''issuer'', ''correlation_id'',
    ''key_id'', ''algorithm'', ''public_key_pem'', ''fingerprint_sha256'', ''replayed''} = generated_keys"
  by (simp add: generated_keys_def)

lemma sample_generation_eq: "fst sample_generation = Inr sample_key"
  by (simp add: sample_generation_def generate_delegation_key_def sample_run read_generated_key_def
      check_outcome_def json_text_def sample_read sample_core_def generation_intent_def
      sample_generated_keys make_generated_key_def)
    (simp add: sample_metadata_value_def label_def sample_key_def sample_identifiers)

lemma generated_key_bound_witness:
  "\<exists>secret_id. canonical_provider_secret_id ''db-pass'' = Inr secret_id
     \<and> generated_exactly sample_core ''w1'' ''db-pass'' GATEWAY_PROBE ''gw'' ''c1'' secret_id sample_key"
  using generated_key_bound[OF sample_generation_def[symmetric, THEN trans,
      OF prod.collapse[symmetric, of sample_generation, unfolded sample_generation_eq]]]
  by (auto simp: for_reference_def sample_provider_def)

section \<open>Addressing\<close>

lemma utf8_point_bytes: "utf8_point c = Some bs \<Longrightarrow> is_bytes bs"
  by (auto split: if_splits)

lemma utf8_encode_bytes: "utf8_encode cs = Some bs \<Longrightarrow> is_bytes bs"
proof (induction cs arbitrary: bs)
  case (Cons c cs)
  then obtain b bs' where "utf8_point c = Some b" "utf8_encode cs = Some bs'" "bs = b @ bs'"
    by (auto simp del: utf8_point.simps split: option.splits)
  with Cons.IH utf8_point_bytes show ?case by auto
qed simp

lemma secret_id_form:
  assumes "canonical_provider_secret_id ref = Inr i"
  obtains encoded where "utf8_encode (map code_of ref) = Some encoded" "is_bytes encoded"
    "i = ''cpk1_'' @ map urlsafe_digit (sextets encoded)"
  using assms by (auto simp: canonical_provider_secret_id_def urlsafe_stripped utf8_encode_bytes
      split: option.splits if_splits)

lemma code_of_map_inject: "map code_of a = map code_of b \<Longrightarrow> a = b"
  by (rule map_injective) (auto intro: injI)

lemma secret_id_inject:
  assumes "canonical_provider_secret_id ref = Inr i" "canonical_provider_secret_id ref' = Inr i"
  shows "ref = ref'"
proof -
  obtain a where a: "utf8_encode (map code_of ref) = Some a" "is_bytes a"
    "i = ''cpk1_'' @ map urlsafe_digit (sextets a)" using assms(1) by (rule secret_id_form)
  obtain b where b: "utf8_encode (map code_of ref') = Some b" "is_bytes b"
    "i = ''cpk1_'' @ map urlsafe_digit (sextets b)" using assms(2) by (rule secret_id_form)
  have "a = b"
    using a b by (intro urlsafe_stripped_inject) (simp_all add: urlsafe_stripped)
  with a(1) b(1) have "map code_of ref = map code_of ref'"
    by (metis option.inject utf8_roundtrip)
  then show ?thesis by (rule code_of_map_inject)
qed

lemma secret_id_unreserved:
  assumes "canonical_provider_secret_id ref = Inr i"
  shows "list_all unreserved i"
proof -
  obtain a where "is_bytes a" "i = ''cpk1_'' @ map urlsafe_digit (sextets a)"
    using assms by (rule secret_id_form)
  moreover have "list_all unreserved ''cpk1_''" by code_simp
  ultimately show ?thesis
    by (auto simp: list_all_iff intro!: segment_unreserved urlsafe_digit_segment sextets_bound)
qed

lemma identifier_name_char: "provider_identifier s \<Longrightarrow> list_all name_char s"
proof -
  have "id_tail c \<Longrightarrow> name_char c" for c
    by (auto simp: id_tail_def id_head_def name_char_def unreserved_def)
  moreover have "id_head c \<Longrightarrow> name_char c" for c
    by (auto simp: id_head_def name_char_def unreserved_def)
  ultimately show "provider_identifier s \<Longrightarrow> list_all name_char s"
    by (auto simp: provider_identifier_def list_all_iff split: list.splits)
qed

lemma takeWhile_slash: "CHR ''/'' \<notin> set a \<Longrightarrow> takeWhile (\<lambda>c. c \<noteq> CHR ''/'') (a @ CHR ''/'' # b) = a"
  by (induction a) auto

lemma slash_split_inject:
  assumes "a @ CHR ''/'' # b = a' @ CHR ''/'' # b'" "CHR ''/'' \<notin> set a" "CHR ''/'' \<notin> set a'"
  shows "a = a' \<and> b = b'"
  using assms(1) takeWhile_slash[OF assms(2), of b] takeWhile_slash[OF assms(3), of b'] by simp

text \<open>
  two different secrets never share a path: the path determines the workspace and the
  reference, whatever identifiers and reference texts were given.
\<close>

theorem secret_path_inject:
  assumes "provider_identifier w" "provider_identifier w'"
    and "canonical_provider_secret_id ref = Inr i" "canonical_provider_secret_id ref' = Inr i'"
    and "secret_path w i = secret_path w' i'"
  shows "w = w' \<and> ref = ref'"
proof -
  note names = identifier_name_char[OF assms(1)] identifier_name_char[OF assms(2)]
  have "py_quote w @ CHR ''/'' # (''secrets/'' @ py_quote i) = py_quote w' @ CHR ''/'' # (''secrets/'' @ py_quote i')"
    using assms(5) by (simp add: secret_path_def)
  then have "py_quote w = py_quote w' \<and> ''secrets/'' @ py_quote i = ''secrets/'' @ py_quote i'"
    using names by (intro slash_split_inject quote_name_segment)
  then have "w = w'" "i = i'"
    using names quote_name_inject secret_id_unreserved[OF assms(3)] secret_id_unreserved[OF assms(4)]
    by (auto simp: quote_unreserved)
  with assms(3,4) secret_id_inject show ?thesis by blast
qed

lemma secret_path_inject_witness:
  "''w1'' = ''w1'' \<and> ''db-pass'' = ''db-pass'' \<and> secret_path ''w1'' sample_id = ''/v1/workspaces/w1/secrets/cpk1_ZGItcGFzcw''"
proof -
  have "secret_path ''w1'' sample_id = ''/v1/workspaces/w1/secrets/cpk1_ZGItcGFzcw''" by code_simp
  with secret_path_inject[OF sample_identifiers(1)[THEN iffD2, OF TrueI]
      sample_identifiers(1)[THEN iffD2, OF TrueI] sample_id_eq sample_id_eq refl]
  show ?thesis by blast
qed

section \<open>Bounded reading\<close>

text \<open>The reference reading of a stream: complete, with its bytes and its clock readings.\<close>

fun stream_complete :: "stream \<Rightarrow> bool" where
  "stream_complete (Chunk bytes now rest) = stream_complete rest"
| "stream_complete (StreamEnd now) = True"
| "stream_complete (StreamFault f) = False"

fun stream_bytes :: "stream \<Rightarrow> nat list" where
  "stream_bytes (Chunk bytes now rest) = bytes @ stream_bytes rest"
| "stream_bytes _ = []"

fun stream_clock :: "stream \<Rightarrow> rat list" where
  "stream_clock (Chunk bytes now rest) = now # stream_clock rest"
| "stream_clock (StreamEnd now) = [now]"
| "stream_clock (StreamFault f) = []"

lemma read_stream_from:
  "length content \<le> cp_max_response policy \<Longrightarrow>
   read_stream policy certainty started content body = Inr result \<longleftrightarrow>
     stream_complete body \<and> result = content @ stream_bytes body
     \<and> length result \<le> cp_max_response policy
     \<and> (\<forall>now \<in> set (stream_clock body). now - started \<le> cp_total policy)"
  by (induction policy certainty started content body rule: read_stream.induct)
    (auto simp: Let_def not_less)

text \<open>
  C11: the client accepts an answer body exactly when it arrives completely, within the size
  bound of the policy and with every clock reading within its total time; it then is the
  concatenation of the chunks.
\<close>

theorem read_stream_bounded:
  "read_stream policy certainty started [] body = Inr content \<longleftrightarrow>
     stream_complete body \<and> content = stream_bytes body \<and> length content \<le> cp_max_response policy
     \<and> (\<forall>now \<in> set (stream_clock body). now - started \<le> cp_total policy)"
  using read_stream_from[of "[]" policy certainty started body content] by simp

lemma read_stream_bounded_witness:
  "read_stream sample_policy DEFINITE 0 [] (Chunk [123] 1 (Chunk [125] 2 (StreamEnd 3))) = Inr [123, 125]"
  unfolding read_stream_bounded by (simp add: sample_policy_def)

section \<open>Round trip of the material\<close>

lemma resolved_written:
  assumes "utf8_encode secret = Some material"
    and "json_get response ''value_base64'' = JStr (b64encode material)"
    and "material_of core response v"
  shows "cs_secret_value core secret = Inr v"
  using assms utf8_encode_bytes[OF assms(1)]
  by (auto simp: material_of_def b64_roundtrip utf8_roundtrip)

definition carries :: "nat list \<Rightarrow> 'w sp_client \<Rightarrow> provider_request \<Rightarrow> bool" where
  "carries material cl rq \<longleftrightarrow>
     (\<exists>payload. sc_dumps cl payload = Some (pq_body rq)
        \<and> json_get payload ''value_base64'' = JStr (b64encode material))"

lemma write_carries:
  "emits (write_secret cl w ref secret intent caller correlation)
     (mutation_shape (\<lambda>rq. \<exists>material. utf8_encode secret = Some material
        \<and> length material \<le> max_secret_bytes \<and> carries material cl rq))"
  unfolding write_secret_def
  apply (intro mutation_validated mutation_required emits_case_option)
   apply (rule emits_raiseE, simp add: mutation_shape_def)
  apply (rule mutation_weaken)
   apply (rule emits_mutation_after)
   apply (auto intro!: afterwards_intros simp: posted_def carries_def
      dest: check_outcome_uncertain read_version_metadata_uncertain)
  done



end
