(* ===== verification/Ip_Address.thy ===== *)
theory Ip_Address
  imports Prelude
begin

text \<open>
  The part of the standard module \<open>ipaddress\<close> (as of Python 3.12) the interpreters use: parsing of IPv4
  and IPv6 texts, their rendering, and the loopback and globally-reachable classifications
  over the tables of the module.  Addresses are kept as the integers the module computes with.
\<close>

datatype ip = V4 nat | V6 nat "string option"

section \<open>Digits\<close>

definition is_hex :: "char \<Rightarrow> bool" where
  "is_hex c \<longleftrightarrow> is_digit c \<or> in_range 65 70 c \<or> in_range 97 102 c"

definition hex_value :: "char \<Rightarrow> nat" where
  "hex_value c =
     (let n = code_of c in if n \<le> 57 then n - 48 else if n \<le> 70 then n - 55 else n - 87)"

fun number :: "nat \<Rightarrow> nat \<Rightarrow> nat list \<Rightarrow> nat" where
  "number base acc [] = acc"
| "number base acc (d # ds) = number base (acc * base + d) ds"

definition hex_char :: "nat \<Rightarrow> char" where
  "hex_char n = (if n < 10 then char_of (48 + n) else char_of (87 + n))"

fun show_hex :: "nat \<Rightarrow> string" where
  "show_hex n = (if n < 16 then [hex_char n] else show_hex (n div 16) @ [hex_char (n mod 16)])"

declare show_hex.simps [simp del]

section \<open>Parsing\<close>

definition parse_octet :: "string \<Rightarrow> nat option" where
  "parse_octet s =
     (let n = number 10 0 (map (\<lambda>c. code_of c - 48) s)
      in if s \<noteq> [] \<and> list_all is_digit s \<and> length s \<le> 3 \<and> (s = ''0'' \<or> hd s \<noteq> CHR ''0'') \<and> n \<le> 255
         then Some n else None)"

definition parse_v4 :: "string \<Rightarrow> nat option" where
  "parse_v4 s =
     (case map parse_octet (py_split CHR ''.'' s) of
        [Some a, Some b, Some c, Some d] \<Rightarrow> Some (((a * 256 + b) * 256 + c) * 256 + d)
      | _ \<Rightarrow> None)"

definition parse_hextet :: "string \<Rightarrow> nat option" where
  "parse_hextet s =
     (if s \<noteq> [] \<and> list_all is_hex s \<and> length s \<le> 4
      then Some (number 16 0 (map hex_value s)) else None)"

text \<open>The last part of an address written with an IPv4 suffix, as two hexadecimal parts.\<close>

definition v4_suffix :: "string list \<Rightarrow> string list option" where
  "v4_suffix parts =
     (if CHR ''.'' \<in> set (last parts)
      then (case parse_v4 (last parts) of
              None \<Rightarrow> None
            | Some n \<Rightarrow> Some (butlast parts @ [show_hex (n div 65536), show_hex (n mod 65536)]))
      else Some parts)"

text \<open>The parts before and after the \<open>::\<close>, when there is one.\<close>

definition v6_halves :: "string list \<Rightarrow> (string list \<times> string list) option" where
  "v6_halves parts =
     (case filter (\<lambda>i. parts ! i = []) [1 ..< length parts - 1] of
        [] \<Rightarrow> if length parts = 8 then Some (parts, []) else None
      | [i] \<Rightarrow>
          let hi = take i parts; lo = drop (i + 1) parts;
              hi' = (if hd parts = [] then tl hi else hi);
              lo' = (if last parts = [] then butlast lo else lo)
          in if (hd parts = [] \<and> hi' \<noteq> []) \<or> (last parts = [] \<and> lo' \<noteq> [])
                \<or> 7 < length hi' + length lo'
             then None else Some (hi', lo')
      | _ \<Rightarrow> None)"

fun all_some :: "'a option list \<Rightarrow> 'a list option" where
  "all_some [] = Some []"
| "all_some (x # xs) =
     (case (x, all_some xs) of (Some a, Some as) \<Rightarrow> Some (a # as) | _ \<Rightarrow> None)"

definition parse_v6_parts :: "string list \<Rightarrow> nat option" where
  "parse_v6_parts parts =
     (if length parts < 3 then None
      else case v4_suffix parts of
          None \<Rightarrow> None
        | Some parts' \<Rightarrow>
            if 9 < length parts' then None
            else case v6_halves parts' of
                None \<Rightarrow> None
              | Some (hi, lo) \<Rightarrow>
                  (case (all_some (map parse_hextet hi), all_some (map parse_hextet lo)) of
                     (Some h, Some l) \<Rightarrow>
                       Some (number 65536 0 (h @ replicate (8 - (length hi + length lo)) 0 @ l))
                   | _ \<Rightarrow> None))"

definition split_scope :: "string \<Rightarrow> (string \<times> string option) option" where
  "split_scope s =
     (case py_split CHR ''%'' s of
        [addr] \<Rightarrow> Some (addr, None)
      | [addr, scope] \<Rightarrow> if scope = [] then None else Some (addr, Some scope)
      | _ \<Rightarrow> None)"

definition parse_v6 :: "string \<Rightarrow> ip option" where
  "parse_v6 s =
     (if CHR ''/'' \<in> set s then None
      else case split_scope s of
          None \<Rightarrow> None
        | Some (addr, scope) \<Rightarrow>
            map_option (\<lambda>n. V6 n scope) (parse_v6_parts (py_split CHR '':'' addr)))"

text \<open>\<open>ip_address(text)\<close>; \<open>None\<close> is its \<open>ValueError\<close>.\<close>

definition ip_address :: "string \<Rightarrow> ip option" where
  "ip_address s = (case parse_v4 s of Some n \<Rightarrow> Some (V4 n) | None \<Rightarrow> parse_v6 s)"

section \<open>Rendering\<close>

definition show_v4 :: "nat \<Rightarrow> string" where
  "show_v4 n =
     py_join ''.'' (map show_nat
       [n div 16777216, n div 65536 mod 256, n div 256 mod 256, n mod 256])"

definition hextets :: "nat \<Rightarrow> string list" where
  "hextets n = map (\<lambda>i. show_hex (n div 65536 ^ (7 - i) mod 65536)) [0 ..< 8]"

text \<open>The first longest run of zeros: its start and length.\<close>

fun best_zeros :: "nat \<Rightarrow> nat \<Rightarrow> nat \<times> nat \<Rightarrow> string list \<Rightarrow> nat \<times> nat" where
  "best_zeros i run best [] = best"
| "best_zeros i run best (h # hs) =
     (if h = ''0''
      then best_zeros (i + 1) (run + 1)
             (if snd best < run + 1 then (i - run, run + 1) else best) hs
      else best_zeros (i + 1) 0 best hs)"

definition compress :: "string list \<Rightarrow> string list" where
  "compress hs =
     (case best_zeros 0 0 (0, 0) hs of
        (start, len) \<Rightarrow>
          if len \<le> 1 then hs
          else let stop = start + len;
                   padded = (if stop = length hs then hs @ [[]] else hs);
                   cut = take start padded @ [[]] @ drop stop padded
               in if start = 0 then [] # cut else cut)"

fun show_ip :: "ip \<Rightarrow> string" where
  "show_ip (V4 n) = show_v4 n"
| "show_ip (V6 n scope) =
     py_join '':'' (compress (hextets n)) @ (case scope of None \<Rightarrow> [] | Some s \<Rightarrow> CHR ''%'' # s)"

section \<open>Classification\<close>

definition in_network :: "nat \<Rightarrow> nat \<times> nat \<Rightarrow> nat \<Rightarrow> bool" where
  "in_network width net n \<longleftrightarrow>
     n div 2 ^ (width - snd net) = fst net div 2 ^ (width - snd net)"

definition v4 :: "nat \<Rightarrow> nat \<Rightarrow> nat \<Rightarrow> nat \<Rightarrow> nat" where
  "v4 a b c d = ((a * 256 + b) * 256 + c) * 256 + d"

definition v4_private :: "(nat \<times> nat) list" where
  "v4_private =
     [(v4 0 0 0 0, 8), (v4 10 0 0 0, 8), (v4 127 0 0 0, 8), (v4 169 254 0 0, 16),
      (v4 172 16 0 0, 12), (v4 192 0 0 0, 24), (v4 192 0 0 170, 31), (v4 192 0 2 0, 24),
      (v4 192 168 0 0, 16), (v4 198 18 0 0, 15), (v4 198 51 100 0, 24), (v4 203 0 113 0, 24),
      (v4 240 0 0 0, 4), (v4 255 255 255 255, 32)]"

definition v4_exceptions :: "(nat \<times> nat) list" where
  "v4_exceptions = [(v4 192 0 0 9, 32), (v4 192 0 0 10, 32)]"

text \<open>A network of the IPv6 tables: its leading parts, the others being zero.\<close>

definition v6 :: "nat list \<Rightarrow> nat" where
  "v6 parts = number 65536 0 (parts @ replicate (8 - length parts) 0)"

definition v6_private :: "(nat \<times> nat) list" where
  "v6_private =
     [(1, 128), (0, 128), (v6 [0, 0, 0, 0, 0, 65535], 96), (v6 [100, 65435, 1], 48),
      (v6 [256], 64), (v6 [8193], 23), (v6 [8193, 3512], 32), (v6 [8194], 16), (v6 [64512], 7),
      (v6 [65152], 10)]"

definition v6_exceptions :: "(nat \<times> nat) list" where
  "v6_exceptions =
     [(v6 [8193, 1] + 1, 128), (v6 [8193, 1] + 2, 128), (v6 [8193, 3], 32), (v6 [8193, 4, 274], 48),
      (v6 [8193, 32], 28), (v6 [8193, 48], 28)]"

definition v4_is_private :: "nat \<Rightarrow> bool" where
  "v4_is_private n \<longleftrightarrow>
     list_ex (\<lambda>net. in_network 32 net n) v4_private
     \<and> \<not> list_ex (\<lambda>net. in_network 32 net n) v4_exceptions"

fun is_global :: "ip \<Rightarrow> bool" where
  "is_global (V4 n) = (\<not> in_network 32 (v4 100 64 0 0, 10) n \<and> \<not> v4_is_private n)"
| "is_global (V6 n scope) =
     (if n div 4294967296 = 65535 then \<not> v4_is_private (n mod 4294967296)
      else \<not> (list_ex (\<lambda>net. in_network 128 net n) v6_private
              \<and> \<not> list_ex (\<lambda>net. in_network 128 net n) v6_exceptions))"

fun is_loopback :: "ip \<Rightarrow> bool" where
  "is_loopback (V4 n) = in_network 32 (v4 127 0 0 0, 8) n"
| "is_loopback (V6 n scope) = (n = 1)"

text \<open>The sort key \<open>(version, int(address))\<close>.\<close>

fun ip_key :: "ip \<Rightarrow> nat \<times> nat" where
  "ip_key (V4 n) = (4, n)"
| "ip_key (V6 n scope) = (6, n)"

end
