(* ===== verification/Url.thy ===== *)
theory Url
  imports Ip_Address
begin

text \<open>
  \<open>urllib.parse.urlsplit\<close> and \<open>urlunsplit\<close> (as of Python 3.12) with the attributes of the split
  result the interpreters read.  \<open>None\<close> is the \<open>ValueError\<close> of a malformed authority.  The
  check of the authority under NFKC normalization never fails on code points below 256.
\<close>

record split_url =
  su_scheme :: string
  su_netloc :: string
  su_path :: string
  su_query :: string
  su_fragment :: string

section \<open>Text\<close>

text \<open>\<open>str.partition\<close> and \<open>str.rpartition\<close> with a one-character separator, and whether it occurs.\<close>

fun partition_at :: "char \<Rightarrow> string \<Rightarrow> string \<times> bool \<times> string" where
  "partition_at d [] = ([], False, [])"
| "partition_at d (c # cs) =
     (if c = d then ([], True, cs)
      else (case partition_at d cs of (a, found, b) \<Rightarrow> (c # a, found, b)))"

definition rpartition_at :: "char \<Rightarrow> string \<Rightarrow> string \<times> bool \<times> string" where
  "rpartition_at d s =
     (case partition_at d (rev s) of
        (a, True, b) \<Rightarrow> (rev b, True, rev a)
      | (a, False, b) \<Rightarrow> ([], False, s))"

definition ascii_alpha :: "char \<Rightarrow> bool" where
  "ascii_alpha c \<longleftrightarrow> is_lower_alpha c \<or> is_upper_alpha c"

definition scheme_char :: "char \<Rightarrow> bool" where
  "scheme_char c \<longleftrightarrow> ascii_alpha c \<or> is_digit c \<or> c \<in> set ''+-.''"

definition unsafe_char :: "char \<Rightarrow> bool" where
  "unsafe_char c \<longleftrightarrow> code_of c \<in> {9, 10, 13}"

definition authority_end :: "char \<Rightarrow> bool" where
  "authority_end c \<longleftrightarrow> c \<in> set ''/?#''"

section \<open>Splitting\<close>

definition clean_url :: "string \<Rightarrow> string" where
  "clean_url url = filter (\<lambda>c. \<not> unsafe_char c) (dropWhile (\<lambda>c. code_of c \<le> 32) url)"

definition split_scheme :: "string \<Rightarrow> string \<times> string" where
  "split_scheme url =
     (case partition_at CHR '':'' url of
        (pre, True, post) \<Rightarrow>
          if pre \<noteq> [] \<and> ascii_alpha (hd pre) \<and> list_all scheme_char pre then (py_lower pre, post)
          else ([], url)
      | (pre, False, post) \<Rightarrow> ([], url))"

definition split_netloc :: "string \<Rightarrow> string \<times> string" where
  "split_netloc url =
     (if take 2 url = ''//''
      then (takeWhile (\<lambda>c. \<not> authority_end c) (drop 2 url),
            dropWhile (\<lambda>c. \<not> authority_end c) (drop 2 url))
      else ([], url))"

text \<open>The host and port texts of an authority, as \<open>_hostinfo\<close> reads them.\<close>

definition after_userinfo :: "string \<Rightarrow> string" where
  "after_userinfo netloc =
     (case rpartition_at CHR ''@'' netloc of (_, _, rest) \<Rightarrow> rest)"

definition host_info :: "string \<Rightarrow> string \<times> string option" where
  "host_info netloc =
     (let info = after_userinfo netloc;
          (host, port) =
            (case partition_at CHR ''['' info of
               (_, True, bracketed) \<Rightarrow>
                 (case partition_at CHR '']'' bracketed of
                    (host, _, rest) \<Rightarrow> (host, snd (snd (partition_at CHR '':'' rest))))
             | (_, False, _) \<Rightarrow>
                 (case partition_at CHR '':'' info of (host, _, port) \<Rightarrow> (host, port)))
      in (host, if port = [] then None else Some port))"

definition future_host :: "string \<Rightarrow> bool" where
  "future_host s \<longleftrightarrow>
     (case partition_at CHR ''.'' (tl s) of
        (version, dot, rest) \<Rightarrow>
          version \<noteq> [] \<and> list_all is_hex version \<and> dot \<and> rest \<noteq> [] \<and> CHR 0x0A \<notin> set rest)"

definition bracketed_host_ok :: "string \<Rightarrow> bool" where
  "bracketed_host_ok host \<longleftrightarrow>
     (if py_startswith host ''v'' then future_host host
      else (case ip_address host of Some (V6 n scope) \<Rightarrow> True | _ \<Rightarrow> False))"

definition bracketed_netloc_ok :: "string \<Rightarrow> bool" where
  "bracketed_netloc_ok netloc \<longleftrightarrow>
     (let info = after_userinfo netloc
      in case partition_at CHR ''['' info of
           (front, True, bracketed) \<Rightarrow>
             (case partition_at CHR '']'' bracketed of
                (host, _, port) \<Rightarrow>
                  front = [] \<and> (port = [] \<or> py_startswith port '':'') \<and> bracketed_host_ok host)
         | (_, False, _) \<Rightarrow>
             bracketed_host_ok (fst (partition_at CHR '':'' info)))"

definition netloc_ok :: "string \<Rightarrow> bool" where
  "netloc_ok netloc \<longleftrightarrow>
     (CHR ''['' \<in> set netloc \<longleftrightarrow> CHR '']'' \<in> set netloc)
     \<and> (CHR ''['' \<in> set netloc \<longrightarrow> bracketed_netloc_ok netloc)"

definition urlsplit :: "string \<Rightarrow> split_url option" where
  "urlsplit url =
     (case split_scheme (clean_url url) of
        (scheme, rest) \<Rightarrow>
          (case split_netloc rest of
             (netloc, rest') \<Rightarrow>
               if \<not> netloc_ok netloc then None
               else (case partition_at CHR ''#'' rest' of
                  (front, _, fragment) \<Rightarrow>
                    (case partition_at CHR ''?'' front of
                       (path, _, query) \<Rightarrow>
                         Some \<lparr>su_scheme = scheme, su_netloc = netloc, su_path = path,
                               su_query = query, su_fragment = fragment\<rparr>))))"

section \<open>Attributes\<close>

definition has_username :: "split_url \<Rightarrow> bool" where
  "has_username u \<longleftrightarrow> CHR ''@'' \<in> set (su_netloc u)"

definition has_password :: "split_url \<Rightarrow> bool" where
  "has_password u \<longleftrightarrow>
     (case rpartition_at CHR ''@'' (su_netloc u) of
        (userinfo, found, _) \<Rightarrow> found \<and> CHR '':'' \<in> set userinfo)"

definition url_hostname :: "split_url \<Rightarrow> string option" where
  "url_hostname u =
     (let host = fst (host_info (su_netloc u))
      in if host = [] then None
         else (case partition_at CHR ''%'' host of
            (name, percent, zone) \<Rightarrow>
              Some (py_lower name @ (if percent then ''%'' else []) @ zone)))"

text \<open>\<open>port\<close>: \<open>None\<close> is its \<open>ValueError\<close>, \<open>Some None\<close> an absent port.\<close>

definition url_port :: "split_url \<Rightarrow> nat option option" where
  "url_port u =
     (case snd (host_info (su_netloc u)) of
        None \<Rightarrow> Some None
      | Some port \<Rightarrow>
          let n = number 10 0 (map (\<lambda>c. code_of c - 48) port)
          in if list_all is_digit port \<and> length port \<le> 4300 \<and> n \<le> 65535 then Some (Some n) else None)"

text \<open>\<open>urlunsplit((scheme, netloc, '', '', ''))\<close> with a non-empty authority.\<close>

definition unsplit_authority :: "split_url \<Rightarrow> string" where
  "unsplit_authority u =
     (if su_scheme u = [] then [] else su_scheme u @ '':'') @ ''//'' @ su_netloc u"

section \<open>Facts\<close>

lemma partition_at_found: "partition_at d (a @ d # b) = (a, True, b)" if "d \<notin> set a"
  using that by (induction a) auto

lemma partition_at_absent: "partition_at d s = (s, False, [])" if "d \<notin> set s"
  using that by (induction s) auto

lemma partition_at_cases:
  obtains (absent) "d \<notin> set s" "partition_at d s = (s, False, [])"
  | (found) a b where "s = a @ d # b" "d \<notin> set a" "partition_at d s = (a, True, b)"
proof (cases "d \<in> set s")
  case True
  then obtain a b where "s = a @ d # b" "d \<notin> set a" by (auto dest: split_list_first)
  with found partition_at_found show ?thesis by blast
next
  case False
  with absent partition_at_absent show ?thesis by blast
qed

lemma partition_at_length:
  "partition_at d s = (a, found, b) \<Longrightarrow> length s = length a + (if found then 1 else 0) + length b"
  by (cases rule: partition_at_cases[of d s]) auto

lemma clean_url_safe: "c \<in> set (clean_url url) \<Longrightarrow> \<not> unsafe_char c"
  by (simp add: clean_url_def)

lemma clean_url_length: "length (clean_url url) \<le> length url"
  unfolding clean_url_def using length_filter_le length_dropWhile_le le_trans by blast

lemma split_scheme_length:
  "split_scheme url = (scheme, rest) \<Longrightarrow>
     length url = length rest + (if scheme = [] then 0 else length scheme + 1)"
  by (auto simp: split_scheme_def py_lower_def split: prod.splits bool.splits if_splits
      dest: partition_at_length)

lemma split_scheme_rest: "split_scheme url = (scheme, rest) \<Longrightarrow> set rest \<subseteq> set url"
  by (cases rule: partition_at_cases[of "CHR '':''" url]) (auto simp: split_scheme_def split: if_splits)

lemma split_netloc_parts:
  assumes "split_netloc url = (netloc, rest)"
  shows "set netloc \<subseteq> set url" "\<forall>c \<in> set netloc. \<not> authority_end c"
    "netloc \<noteq> [] \<Longrightarrow> length url = 2 + length netloc + length rest"
proof -
  have w: "length (takeWhile P xs) + length (dropWhile P xs) = length xs" for P and xs :: string
    by (metis length_append takeWhile_dropWhile_id)
  show "set netloc \<subseteq> set url"
    using assms by (auto simp: split_netloc_def split: if_splits dest!: set_takeWhileD in_set_dropD)
  show "\<forall>c \<in> set netloc. \<not> authority_end c"
    using assms by (auto simp: split_netloc_def split: if_splits dest: set_takeWhileD)
  assume "netloc \<noteq> []"
  with assms have "take 2 url = ''//''" and parts: "netloc = takeWhile (\<lambda>c. \<not> authority_end c) (drop 2 url)"
    "rest = dropWhile (\<lambda>c. \<not> authority_end c) (drop 2 url)"
    by (auto simp: split_netloc_def split: if_splits)
  from this(1) have "2 \<le> length url"
    by (metis length_Cons length_take list.size(3) min.cobounded1 numeral_2_eq_2)
  with w[of "\<lambda>c. \<not> authority_end c" "drop 2 url"] parts show "length url = 2 + length netloc + length rest"
    by simp
qed

text \<open>What a split establishes about its scheme and authority.\<close>

lemma urlsplit_parts:
  assumes "urlsplit url = Some u"
  shows "netloc_ok (su_netloc u)"
    and "\<forall>c \<in> set (su_netloc u). \<not> authority_end c \<and> \<not> unsafe_char c"
    and "su_scheme u \<noteq> [] \<Longrightarrow> su_netloc u \<noteq> [] \<Longrightarrow>
           length (su_scheme u) + 3 + length (su_netloc u) \<le> length url"
proof -
  obtain scheme rest where s: "split_scheme (clean_url url) = (scheme, rest)" by fastforce
  obtain netloc rest' where n: "split_netloc rest = (netloc, rest')" by fastforce
  have u: "netloc_ok netloc" "su_scheme u = scheme" "su_netloc u = netloc"
    using assms by (auto simp: urlsplit_def s n split: if_splits prod.splits)
  show "netloc_ok (su_netloc u)" using u by simp
  have "set netloc \<subseteq> set (clean_url url)"
    using split_netloc_parts(1)[OF n] split_scheme_rest[OF s] by blast
  then show "\<forall>c \<in> set (su_netloc u). \<not> authority_end c \<and> \<not> unsafe_char c"
    using split_netloc_parts(2)[OF n] clean_url_safe u(3) by blast
  assume "su_scheme u \<noteq> []" "su_netloc u \<noteq> []"
  then show "length (su_scheme u) + 3 + length (su_netloc u) \<le> length url"
    using split_scheme_length[OF s] split_netloc_parts(3)[OF n] clean_url_length[of url] u by simp
qed

text \<open>An authority text splits into its scheme and authority, and a path after it.\<close>

lemma takeWhile_authority:
  assumes "\<forall>c \<in> set netloc. \<not> authority_end c" "path = [] \<or> authority_end (hd path)"
  shows "takeWhile (\<lambda>c. \<not> authority_end c) (netloc @ path) = netloc"
    "dropWhile (\<lambda>c. \<not> authority_end c) (netloc @ path) = path"
  using assms by (cases path; simp add: takeWhile_append dropWhile_append)+

lemma split_scheme_http:
  assumes "scheme \<in> {''http'', ''https''}"
  shows "split_scheme (scheme @ CHR '':'' # rest) = (scheme, rest)"
proof -
  have ok: "ascii_alpha (hd scheme)" "list_all scheme_char scheme" "py_lower scheme = scheme" "scheme \<noteq> []"
    "CHR '':'' \<notin> set scheme"
    using assms by (elim insertE emptyE; hypsubst; code_simp)+
  show ?thesis
    by (simp add: split_scheme_def partition_at_found[OF ok(5)] ok)
qed

lemma clean_http:
  assumes "scheme \<in> {''http'', ''https''}" "\<forall>c \<in> set rest. \<not> unsafe_char c"
  shows "clean_url (scheme @ rest) = scheme @ rest"
proof -
  have "\<forall>c \<in> set scheme. \<not> unsafe_char c" "\<exists>cs. scheme = CHR ''h'' # cs"
    using assms(1) by (auto simp: unsafe_char_def code_of_def)
  then show ?thesis
    using assms(2) by (auto simp: clean_url_def filter_id_conv code_of_def)
qed

definition no_delimiter :: "string \<Rightarrow> bool" where
  "no_delimiter path \<longleftrightarrow> CHR ''#'' \<notin> set path \<and> CHR ''?'' \<notin> set path"

lemma urlsplit_authority:
  assumes "scheme \<in> {''http'', ''https''}" "netloc_ok netloc"
    and "\<forall>c \<in> set netloc. \<not> authority_end c \<and> \<not> unsafe_char c"
    and "path = [] \<or> hd path = CHR ''/''" "\<forall>c \<in> set path. \<not> unsafe_char c" "no_delimiter path"
  shows "urlsplit (scheme @ CHR '':'' # ''//'' @ netloc @ path) =
    Some \<lparr>su_scheme = scheme, su_netloc = netloc, su_path = path, su_query = [], su_fragment = []\<rparr>"
proof -
  have "clean_url (scheme @ (CHR '':'' # ''//'' @ netloc @ path)) = scheme @ (CHR '':'' # ''//'' @ netloc @ path)"
    using assms by (intro clean_http) (auto simp: unsafe_char_def code_of_def)
  moreover have "split_netloc (''//'' @ netloc @ path) = (netloc, path)"
  proof -
    have "path = [] \<or> authority_end (hd path)" using assms(4) by (auto simp: authority_end_def)
    then show ?thesis
      using assms(3) by (cases path) (simp_all add: split_netloc_def takeWhile_authority)
  qed
  ultimately show ?thesis
    using assms(2,6)
    by (simp add: urlsplit_def split_scheme_http[OF assms(1)] partition_at_absent no_delimiter_def)
qed

end
