(* ===== verification/Provider_Custody.thy ===== *)
theory Provider_Custody
  imports Provider_Operations Url
begin

text \<open>
  The provider at the interpreter boundary: the bootstrap registry of
  \<open>secret_provider/bootstrap.py\<close>, the grant-bound resolver of \<open>resolver.py\<close>, the custodian of
  \<open>custody.py\<close> and the metadata reader of \<open>metadata.py\<close>.  Each builds the client of the
  configuration its grant names; \<open>connect\<close> is that construction, the client with the ports of
  the configuration.
\<close>

section \<open>Bootstrap configuration\<close>

record client_configuration =
  cfg_endpoint :: reference
  cfg_base_url :: string
  cfg_credential :: reference
  cfg_file :: string

definition normalized_base_url :: "string \<Rightarrow> sp_exn + string" where
  "normalized_base_url value =
     (if 2048 < length value then Inl SecretProviderBootstrapError
      else case urlsplit value of
          None \<Rightarrow> Inl (ForeignError ''ValueError'')
        | Some u \<Rightarrow>
            if su_scheme u \<notin> {''http'', ''https''} \<or> su_netloc u = [] \<or> has_username u \<or> has_password u
               \<or> su_query u \<noteq> [] \<or> su_fragment u \<noteq> [] \<or> su_path u \<notin> {[], ''/''}
            then Inl SecretProviderBootstrapError
            else (case url_port u of
                None \<Rightarrow> Inl SecretProviderBootstrapError
              | Some None \<Rightarrow> Inr (unsplit_authority u)
              | Some (Some port) \<Rightarrow>
                  if 1 \<le> port \<and> port \<le> 65535 then Inr (unsplit_authority u)
                  else Inl SecretProviderBootstrapError))"

definition absolute_path :: "string \<Rightarrow> bool" where
  "absolute_path path \<longleftrightarrow> py_startswith path ''/''"

definition make_configuration ::
  "reference \<Rightarrow> string \<Rightarrow> reference \<Rightarrow> string \<Rightarrow> sp_exn + client_configuration" where
  "make_configuration endpoint base_url credential file =
     bindR (normalized_base_url base_url) (\<lambda>url.
     bindR (requireR (absolute_path file) SecretProviderBootstrapError) (\<lambda>_.
     Inr \<lparr>cfg_endpoint = endpoint, cfg_base_url = url, cfg_credential = credential, cfg_file = file\<rparr>))"

record registry =
  rg_endpoints :: "(reference \<times> string) list"
  rg_files :: "(reference \<times> string) list"

fun normalized_endpoints :: "(reference \<times> string) list \<Rightarrow> sp_exn + (reference \<times> string) list" where
  "normalized_endpoints [] = Inr []"
| "normalized_endpoints ((ref, url) # rest) =
     bindR (normalized_base_url url) (\<lambda>u.
     bindR (normalized_endpoints rest) (\<lambda>es. Inr ((ref, u) # es)))"

text \<open>Every failure of the construction, the \<open>ValueError\<close> of a url included, is the same error.\<close>

definition make_registry ::
  "(reference \<times> string) list \<Rightarrow> (reference \<times> string) list \<Rightarrow> sp_exn + registry" where
  "make_registry endpoints files =
     (case normalized_endpoints endpoints of
        Inl _ \<Rightarrow> Inl SecretProviderBootstrapError
      | Inr es \<Rightarrow>
          if es = [] \<or> files = [] \<or> \<not> list_all (\<lambda>(_, path). absolute_path path) files
          then Inl SecretProviderBootstrapError
          else Inr \<lparr>rg_endpoints = es, rg_files = files\<rparr>)"

definition configuration_for ::
  "registry \<Rightarrow> reference \<Rightarrow> reference \<Rightarrow> sp_exn + client_configuration" where
  "configuration_for reg endpoint credential =
     (case (map_of (rg_endpoints reg) endpoint, map_of (rg_files reg) credential) of
        (Some url, Some file) \<Rightarrow> make_configuration endpoint url credential file
      | _ \<Rightarrow> Inl SecretProviderBootstrapError)"

section \<open>Resolution of a grant\<close>

text \<open>
  \<open>gr_version\<close> is \<open>Some\<close> version exactly for a \<open>SecretVersionResolutionGrant\<close>; \<open>gr_reference\<close> and
  \<open>gr_intent\<close> are then those of its selection.
\<close>

record resolution_grant =
  gr_workspace :: string
  gr_endpoint :: reference
  gr_credential :: reference
  gr_reference :: reference
  gr_intent :: secret_intent
  gr_actor :: string
  gr_correlation :: string
  gr_version :: "string option"

datatype secret_resolution =
    SecretResolved reference "nat list"
  | SecretMissing reference
  | SecretDenied reference

text \<open>\<open>valid\<close> is \<open>validate_resolution_grant\<close> of the core package.\<close>

definition grant_resolve ::
  "(client_configuration \<Rightarrow> 'w sp_client) \<Rightarrow> registry \<Rightarrow> (resolution_grant \<Rightarrow> bool)
    \<Rightarrow> resolution_grant \<Rightarrow> ('w, secret_resolution) sp_eff" where
  "grant_resolve connect reg valid grant =
     bindE (requireE (valid grant) (definite MALFORMED_REQUEST)) (\<lambda>_.
     bindE (liftE (configuration_for reg (gr_endpoint grant) (gr_credential grant))) (\<lambda>cfg.
     attemptE (resolve (connect cfg) (gr_workspace grant) (gr_reference grant) (gr_intent grant)
                 (gr_actor grant) (gr_correlation grant) (gr_version grant))
       (\<lambda>e. case e of
           SecretProviderClientError code _ \<Rightarrow>
             if code = MISSING then returnE (SecretMissing (gr_reference grant))
             else if code \<in> {DENIED, REVOKED} then returnE (SecretDenied (gr_reference grant))
             else raiseE e
         | _ \<Rightarrow> raiseE e)
       (\<lambda>resolved. returnE
          (SecretResolved (vm_reference (rs_metadata resolved)) (rs_value resolved)))))"

section \<open>Custody of generated values\<close>

record custody_grant =
  cu_custody_id :: string
  cu_registration_id :: string
  cu_workspace :: string
  cu_endpoint :: reference
  cu_credential :: reference
  cu_reference :: reference
  cu_intent :: secret_intent
  cu_actor :: string
  cu_correlation :: string

record revocation_grant =
  rk_revocation_id :: string
  rk_registration_id :: string
  rk_workspace :: string
  rk_endpoint :: reference
  rk_credential :: reference
  rk_reference :: reference
  rk_version_id :: string
  rk_version_number :: int
  rk_actor :: string
  rk_correlation :: string

text \<open>
  The arguments of \<open>SecretCustodyReceipt\<close> and of \<open>SecretVersionRevocationReceipt\<close>; what these
  core constructors refuse is \<open>receipt_ok\<close>'s exception.
\<close>

record custody_receipt =
  rp_id :: string
  rp_registration_id :: string
  rp_reference :: reference
  rp_version_id :: string
  rp_version_number :: int
  rp_status :: string

definition receipt_of :: "string \<Rightarrow> string \<Rightarrow> version_metadata \<Rightarrow> custody_receipt" where
  "receipt_of custody_id registration_id m =
     \<lparr>rp_id = custody_id, rp_registration_id = registration_id, rp_reference = vm_reference m,
      rp_version_id = vm_version_id m, rp_version_number = vm_version_number m,
      rp_status = vm_status m\<rparr>"

definition custodian_store ::
  "(client_configuration \<Rightarrow> 'w sp_client) \<Rightarrow> registry \<Rightarrow> (custody_receipt \<Rightarrow> sp_exn + custody_receipt)
    \<Rightarrow> custody_grant \<Rightarrow> nat list \<Rightarrow> ('w, custody_receipt) sp_eff" where
  "custodian_store connect reg receipt_ok grant value =
     bindE (liftE (configuration_for reg (cu_endpoint grant) (cu_credential grant))) (\<lambda>cfg.
     bindE (write_secret (connect cfg) (cu_workspace grant) (cu_reference grant) value
              (cu_intent grant) (cu_actor grant) (cu_correlation grant)) (\<lambda>m.
     liftE (receipt_ok (receipt_of (cu_custody_id grant) (cu_registration_id grant) m))))"

definition custodian_revoke ::
  "(client_configuration \<Rightarrow> 'w sp_client) \<Rightarrow> registry \<Rightarrow> custody_grant \<Rightarrow> ('w, unit) sp_eff" where
  "custodian_revoke connect reg grant =
     bindE (liftE (configuration_for reg (cu_endpoint grant) (cu_credential grant))) (\<lambda>cfg.
     attemptE (revoke (connect cfg) (cu_workspace grant) (cu_reference grant) (cu_actor grant)
                 (cu_correlation grant @ '':revoke''))
       (\<lambda>e. case e of
           SecretProviderClientError code _ \<Rightarrow> if code = MISSING then returnE () else raiseE e
         | _ \<Rightarrow> raiseE e)
       (\<lambda>revoked.
          if rv_reference revoked \<noteq> cu_reference grant
          then raiseE (SpRuntimeError ''secret custody revocation returned mismatched reference'')
          else returnE ()))"

definition custodian_revoke_version ::
  "(client_configuration \<Rightarrow> 'w sp_client) \<Rightarrow> registry \<Rightarrow> (custody_receipt \<Rightarrow> sp_exn + custody_receipt)
    \<Rightarrow> revocation_grant \<Rightarrow> ('w, custody_receipt) sp_eff" where
  "custodian_revoke_version connect reg receipt_ok grant =
     bindE (liftE (configuration_for reg (rk_endpoint grant) (rk_credential grant))) (\<lambda>cfg.
     bindE (revoke_version (connect cfg) (rk_workspace grant) (rk_reference grant)
              (rk_version_id grant) (rk_version_number grant) (rk_actor grant)
              (rk_correlation grant)) (\<lambda>m.
     liftE (receipt_ok (receipt_of (rk_revocation_id grant) (rk_registration_id grant) m))))"

section \<open>Metadata of one version\<close>

text \<open>\<open>references_ok\<close> is whether both binding references survive their constructors unchanged.\<close>

definition read_version ::
  "(client_configuration \<Rightarrow> 'w sp_client) \<Rightarrow> registry \<Rightarrow> (reference \<Rightarrow> bool) \<Rightarrow> bool \<Rightarrow> string
    \<Rightarrow> reference \<Rightarrow> reference \<Rightarrow> reference \<Rightarrow> string \<Rightarrow> secret_intent \<Rightarrow> ('w, version_metadata) sp_eff"
  where
  "read_version connect reg round_trips references_ok workspace endpoint credential ref version_id
      intent =
     bindE (liftE (metadata_request round_trips workspace ref version_id)) (\<lambda>_.
     bindE (requireE references_ok (definite MALFORMED_REQUEST)) (\<lambda>_.
     bindE (liftE (configuration_for reg endpoint credential)) (\<lambda>cfg.
     bindE (read_metadata (connect cfg) round_trips workspace ref version_id) (\<lambda>m.
     bindE (requireE (vm_status m = ''active'') (definite REVOKED)) (\<lambda>_.
     bindE (requireE (label m ''intent'' = Some (cs_intent_value (sc_core (connect cfg)) intent))
              (definite DENIED)) (\<lambda>_. returnE m))))))"

end
