(* ===== verification/Provider_Policy.thy ===== *)
theory Provider_Policy
  imports Provider_Custody "HOL-Library.List_Lexorder" "HOL-Library.Char_ord"
begin

text \<open>
  \<open>ControlPlaneKitSecretsPolicyClient\<close> of \<open>secret_provider/policy.py\<close>: granting, revoking, reading and
  listing provider policy over the bounded request of the provider client.  The record
  types of the core package are kept with the fields the client reads; their constructors and
  \<open>matches\<close> are parameters.  Identifiers are compared as Python compares text, by code points.
\<close>

section \<open>Core vocabulary\<close>

datatype policy_code =
  POL_UNAVAILABLE | POL_INVALID | POL_DENIED | POL_MISSING | POL_CONFLICT | POL_TRANSPORT
  | POL_MALFORMED_RESULT

text \<open>\<open>PolicyFailure code effect_may_have_occurred\<close>; any other exception passes through.\<close>

datatype policy_exn = PolicyFailure policy_code bool | PolicyForeign sp_exn

record coordinate =
  co_subject :: string
  co_workspace :: string
  co_action :: string
  co_intent :: "string option"

record policy_grant =
  pg_provider_id :: string
  pg_grant_id :: string
  pg_coordinate :: coordinate
  pg_revoked :: bool

record command_result =
  cr_provider_id :: string
  cr_correlation :: string
  cr_raw :: json

datatype policy_mutation = GrantCommand | RevokeCommand string

record policy_command =
  pm_logical :: string
  pm_provider_id :: string
  pm_correlation :: string
  pm_coordinate :: coordinate
  pm_expected_revision :: json
  pm_kind :: policy_mutation

datatype intent_mode = ANY_INTENT | NO_INTENT | EXACT_INTENT

record grant_page_request =
  lr_logical :: string
  lr_subject :: "string option"
  lr_workspace :: "string option"
  lr_action :: "string option"
  lr_intent :: "string option"
  lr_mode :: intent_mode
  lr_limit :: nat
  lr_after :: "string option"

record policy_page =
  pp_revision :: json
  pp_grants :: "policy_grant list"
  pp_next :: "string option"

text \<open>
  The core constructors, \<open>None\<close> for the exceptions \<open>_request\<close> turns into a malformed result:
  the command result and grant record of the fields of an answer, the page of a revision,
  grants and cursor, the read result, and \<open>matches\<close>, the descriptor of a coordinate, the intent
  mode values.
\<close>

record policy_core =
  pc_result :: "json \<Rightarrow> coordinate \<Rightarrow> command_result option"
  pc_coordinate :: "json \<Rightarrow> coordinate option"
  pc_grant :: "json \<Rightarrow> coordinate \<Rightarrow> policy_grant option"
  pc_page :: "json \<Rightarrow> policy_grant list \<Rightarrow> json \<Rightarrow> policy_page option"
  pc_read :: "json \<Rightarrow> policy_grant \<Rightarrow> (json \<times> policy_grant) option"
  pc_matches :: "command_result \<Rightarrow> policy_command \<Rightarrow> bool"
  pc_descriptor :: "coordinate \<Rightarrow> (string \<times> json) list"
  pc_mode_value :: "intent_mode \<Rightarrow> string"

record 'w policy_client =
  po_logical :: string
  po_provider_id :: string
  po_core :: policy_core
  po_client :: "'w sp_client"

type_synonym ('w, 'a) policy_eff = "((sp_event, 'w) st, policy_exn, 'a) eff"

section \<open>Failures\<close>

definition policy_failure :: "policy_code \<Rightarrow> bool \<Rightarrow> policy_exn" where
  "policy_failure code mutation =
     PolicyFailure code
       (mutation \<and> code \<in> {POL_UNAVAILABLE, POL_TRANSPORT, POL_MALFORMED_RESULT})"

definition policy_code_of :: "provider_code \<Rightarrow> policy_code" where
  "policy_code_of code =
     (case code of
        MALFORMED_CONFIGURATION \<Rightarrow> POL_UNAVAILABLE
      | MALFORMED_REQUEST \<Rightarrow> POL_INVALID
      | DENIED \<Rightarrow> POL_DENIED
      | MISSING \<Rightarrow> POL_MISSING
      | CONFLICT \<Rightarrow> POL_CONFLICT
      | UNAVAILABLE \<Rightarrow> POL_UNAVAILABLE
      | INTEGRITY_FAILURE \<Rightarrow> POL_UNAVAILABLE
      | REDIRECTED \<Rightarrow> POL_TRANSPORT
      | TIMED_OUT \<Rightarrow> POL_TRANSPORT
      | TRANSPORT_FAILED \<Rightarrow> POL_TRANSPORT
      | _ \<Rightarrow> POL_MALFORMED_RESULT)"

section \<open>Decoding\<close>

definition coordinate_fields :: "string set" where
  "coordinate_fields = {''subject'', ''workspace_id'', ''action'', ''intent''}"

definition result_fields :: "string set" where
  "result_fields = coordinate_fields \<union>
     {''provider_id'', ''correlation_id'', ''operation'', ''expected_revision'', ''outcome'', ''code'',
      ''grant_id'', ''resulting_revision'', ''actor'', ''occurred_at''}"

definition grant_fields :: "string set" where
  "grant_fields = coordinate_fields \<union>
     {''grant_id'', ''provider_id'', ''origin'', ''granted_by'', ''grant_correlation_id'',
      ''granted_at'', ''revoked_by'', ''revoke_correlation_id'', ''revoked_at''}"

definition decode_object :: "json \<Rightarrow> string set \<Rightarrow> json option" where
  "decode_object value names =
     (if is_mapping value \<and> json_keys value = names then Some value else None)"

definition decode_result :: "policy_core \<Rightarrow> json \<Rightarrow> command_result option" where
  "decode_result core value =
     Option.bind (decode_object value result_fields) (\<lambda>v.
     Option.bind (pc_coordinate core v) (pc_result core v))"

definition decode_grant :: "policy_core \<Rightarrow> json \<Rightarrow> policy_grant option" where
  "decode_grant core value =
     Option.bind (decode_object value grant_fields) (\<lambda>v.
     Option.bind (pc_coordinate core v) (pc_grant core v))"

fun decode_grants :: "policy_core \<Rightarrow> json list \<Rightarrow> policy_grant list option" where
  "decode_grants core [] = Some []"
| "decode_grants core (v # vs) =
     Option.bind (decode_grant core v) (\<lambda>g.
     Option.bind (decode_grants core vs) (\<lambda>gs. Some (g # gs)))"

section \<open>The request\<close>

definition policy_request ::
  "'w policy_client \<Rightarrow> string \<Rightarrow> string \<Rightarrow> string \<Rightarrow> json option \<Rightarrow> (json \<Rightarrow> 'a option)
    \<Rightarrow> ('w, 'a) policy_eff" where
  "policy_request pc uuid method path payload decode =
     (let mutation = (method = ''POST'')
      in attemptE
           (request_json (po_client pc) method path payload mutation
              (if mutation then None else Some (''cpk-policy-read.'' @ uuid)))
           (\<lambda>e. case e of
               SecretProviderClientError c certainty \<Rightarrow>
                 let code = policy_code_of c
                 in raiseE (policy_failure code
                      (mutation \<and> (certainty = UNCERTAIN \<or> code = POL_MALFORMED_RESULT)))
             | _ \<Rightarrow> raiseE (PolicyForeign e))
           (\<lambda>raw. case decode raw of
               Some a \<Rightarrow> returnE a
             | None \<Rightarrow> raiseE (policy_failure POL_MALFORMED_RESULT mutation)))"

definition policy_validate :: "'w policy_client \<Rightarrow> string \<Rightarrow> policy_exn + unit" where
  "policy_validate pc logical =
     requireR (logical = po_logical pc) (policy_failure POL_INVALID False)"

definition make_policy_client ::
  "(string \<Rightarrow> bool) \<Rightarrow> string \<Rightarrow> string \<Rightarrow> policy_core \<Rightarrow> 'w sp_client
    \<Rightarrow> policy_exn + 'w policy_client" where
  "make_policy_client read_request_ok logical provider_id core cl =
     (if read_request_ok logical \<and> py_strip provider_id \<noteq> [] \<and> length provider_id \<le> 512
         \<and> list_all (\<lambda>c. 32 \<le> code_of c) provider_id
      then Inr \<lparr>po_logical = logical, po_provider_id = provider_id, po_core = core, po_client = cl\<rparr>
      else Inl (policy_failure POL_INVALID False))"

section \<open>Operations\<close>

definition mutation_path :: "policy_mutation \<Rightarrow> string" where
  "mutation_path kind =
     ''/v1/provider-policy/grants'' @
     (case kind of
        GrantCommand \<Rightarrow> []
      | RevokeCommand grant_id \<Rightarrow> ''/'' @ py_quote grant_id @ ''/revoke'')"

definition mutation_payload :: "policy_core \<Rightarrow> policy_command \<Rightarrow> json" where
  "mutation_payload core command =
     JObj (filter (\<lambda>(k, _). k \<notin> {''expected_revision'', ''correlation_id''})
             (pc_descriptor core (pm_coordinate command))
           @ [(''expected_revision'', pm_expected_revision command),
              (''correlation_id'', JStr (pm_correlation command))])"

definition decode_command :: "policy_core \<Rightarrow> policy_command \<Rightarrow> json \<Rightarrow> command_result option" where
  "decode_command core command raw =
     Option.bind (decode_result core raw) (\<lambda>result.
     if pc_matches core result command then Some result else None)"

definition policy_mutate ::
  "'w policy_client \<Rightarrow> policy_command \<Rightarrow> ('w, command_result) policy_eff" where
  "policy_mutate pc command =
     bindE (liftE (policy_validate pc (pm_logical command))) (\<lambda>_.
     bindE (requireE (pm_provider_id command = po_provider_id pc \<and> length (pm_correlation command) \<le> 128)
              (policy_failure POL_INVALID False)) (\<lambda>_.
     policy_request pc [] ''POST'' (mutation_path (pm_kind command))
       (Some (mutation_payload (po_core pc) command)) (decode_command (po_core pc) command)))"

definition decode_read :: "'w policy_client \<Rightarrow> string \<Rightarrow> json \<Rightarrow> (json \<times> policy_grant) option" where
  "decode_read pc grant_id raw =
     Option.bind (decode_object raw {''revision'', ''grant''}) (\<lambda>v.
     Option.bind (decode_grant (po_core pc) (json_get v ''grant'')) (\<lambda>g.
     Option.bind (pc_read (po_core pc) (json_get v ''revision'') g) (\<lambda>result.
     if pg_provider_id (snd result) = po_provider_id pc \<and> pg_grant_id (snd result) = grant_id
     then Some result else None)))"

definition policy_read ::
  "'w policy_client \<Rightarrow> string \<Rightarrow> string \<Rightarrow> string \<Rightarrow> ('w, json \<times> policy_grant) policy_eff" where
  "policy_read pc uuid logical grant_id =
     bindE (liftE (policy_validate pc logical)) (\<lambda>_.
     policy_request pc uuid ''GET'' (''/v1/provider-policy/grants/'' @ py_quote grant_id) None
       (decode_read pc grant_id))"

text \<open>\<open>urlencode\<close> of the query dictionary.\<close>

definition quote_plus :: "string \<Rightarrow> string" where
  "quote_plus s = concat (map (\<lambda>c. if c = CHR '' '' then ''+'' else quote_char c) s)"

definition urlencode :: "(string \<times> string) list \<Rightarrow> string" where
  "urlencode query = py_join ''&'' (map (\<lambda>(k, v). quote_plus k @ ''='' @ quote_plus v) query)"

definition list_query :: "policy_core \<Rightarrow> grant_page_request \<Rightarrow> (string \<times> string) list" where
  "list_query core rq =
     concat (map (\<lambda>(k, v). case v of None \<Rightarrow> [] | Some x \<Rightarrow> [(k, x)])
       [(''subject'', lr_subject rq), (''workspace_id'', lr_workspace rq), (''action'', lr_action rq),
        (''intent'', lr_intent rq), (''limit'', Some (show_nat (lr_limit rq))),
        (''after_grant_id'', lr_after rq)])
     @ [(''intent_mode'', pc_mode_value core (lr_mode rq))]"

definition wanted :: "string option \<Rightarrow> string \<Rightarrow> bool" where
  "wanted filter_value value = (case filter_value of None \<Rightarrow> True | Some x \<Rightarrow> value = x)"

definition grant_admitted :: "string \<Rightarrow> grant_page_request \<Rightarrow> string \<Rightarrow> policy_grant \<Rightarrow> bool" where
  "grant_admitted provider_id rq previous g \<longleftrightarrow>
     pg_provider_id g = provider_id \<and> \<not> pg_revoked g \<and> previous < pg_grant_id g
     \<and> wanted (lr_subject rq) (co_subject (pg_coordinate g))
     \<and> wanted (lr_workspace rq) (co_workspace (pg_coordinate g))
     \<and> wanted (lr_action rq) (co_action (pg_coordinate g))
     \<and> (lr_mode rq = NO_INTENT \<longrightarrow> co_intent (pg_coordinate g) = None)
     \<and> (lr_mode rq = EXACT_INTENT \<longrightarrow> co_intent (pg_coordinate g) = lr_intent rq)"

text \<open>The loop over the page: the last identifier, or \<open>None\<close> when it raises.\<close>

fun check_page :: "string \<Rightarrow> grant_page_request \<Rightarrow> string \<Rightarrow> policy_grant list \<Rightarrow> string option" where
  "check_page provider_id rq previous [] = Some previous"
| "check_page provider_id rq previous (g # gs) =
     (if grant_admitted provider_id rq previous g
      then check_page provider_id rq (pg_grant_id g) gs else None)"

definition decode_page :: "'w policy_client \<Rightarrow> grant_page_request \<Rightarrow> json \<Rightarrow> policy_page option" where
  "decode_page pc rq raw =
     Option.bind (decode_object raw {''revision'', ''grants'', ''next_after''}) (\<lambda>v.
     case json_get v ''grants'' of
       JList items \<Rightarrow>
         if lr_limit rq < length items then None
         else Option.bind (decode_grants (po_core pc) items) (\<lambda>gs.
              Option.bind (pc_page (po_core pc) (json_get v ''revision'') gs (json_get v ''next_after''))
                (\<lambda>page.
              Option.bind (check_page (po_provider_id pc) rq
                  (case lr_after rq of None \<Rightarrow> [] | Some a \<Rightarrow> a) (pp_grants page)) (\<lambda>previous.
              if pp_next page \<noteq> None \<and> (length (pp_grants page) \<noteq> lr_limit rq \<or> pp_next page \<noteq> Some previous)
              then None else Some page)))
     | _ \<Rightarrow> None)"

definition policy_list ::
  "'w policy_client \<Rightarrow> string \<Rightarrow> grant_page_request \<Rightarrow> ('w, policy_page) policy_eff" where
  "policy_list pc uuid rq =
     bindE (liftE (policy_validate pc (lr_logical rq))) (\<lambda>_.
     policy_request pc uuid ''GET''
       (''/v1/provider-policy/grants?'' @ urlencode (list_query (po_core pc) rq)) None
       (decode_page pc rq))"

definition decode_command_result :: "'w policy_client \<Rightarrow> string \<Rightarrow> json \<Rightarrow> command_result option" where
  "decode_command_result pc correlation raw =
     Option.bind (decode_result (po_core pc) raw) (\<lambda>result.
     if cr_provider_id result = po_provider_id pc \<and> cr_correlation result = correlation
     then Some result else None)"

definition policy_command_result ::
  "'w policy_client \<Rightarrow> string \<Rightarrow> string \<Rightarrow> string \<Rightarrow> ('w, command_result) policy_eff" where
  "policy_command_result pc uuid logical correlation =
     bindE (liftE (policy_validate pc logical)) (\<lambda>_.
     policy_request pc uuid ''GET'' (''/v1/provider-policy/commands/'' @ py_quote correlation) None
       (decode_command_result pc correlation))"

end
