(* ===== verification/Provider_Outcomes.thy ===== *)
theory Provider_Outcomes
  imports Provider_Claims Provider_Policy
begin

text \<open>
  The boundary of the provider: registered configurations are usable, the outcome a grant resolves
  to is what the provider said, custody receipts and revocations are exact, and the failures
  and pages of the policy client mean what they say.
\<close>

section \<open>What the provider said\<close>

definition status_of_code :: "provider_code \<Rightarrow> int set" where
  "status_of_code code =
     (if code = MISSING then {404} else if code = DENIED then {401, 403}
      else if code = REVOKED then {409} else {})"

definition verdict :: "sp_exn \<Rightarrow> provider_code option" where
  "verdict e =
     (case e of
        SecretProviderClientError code _ \<Rightarrow> if code \<in> {MISSING, DENIED, REVOKED} then Some code else None
      | _ \<Rightarrow> None)"

definition said :: "provider_code \<Rightarrow> sp_event list \<Rightarrow> bool" where
  "said code evs \<longleftrightarrow>
     (\<exists>rq head body. evs = [ReadCredential True, Sent rq (Answer head body)]
        \<and> ah_status head \<in> status_of_code code)"

definition truthful :: "sp_event list \<Rightarrow> sp_exn + 'a \<Rightarrow> bool" where
  "truthful evs r \<longleftrightarrow> (\<forall>e code. r = Inl e \<and> verdict e = Some code \<longrightarrow> said code evs)"

lemma verdict_simps [simp]:
  "verdict (SecretProviderClientError code c) = (if code \<in> {MISSING, DENIED, REVOKED} then Some code else None)"
  "verdict (ForeignError m) = None" "verdict SecretProviderBootstrapError = None"
  "verdict (definite code) = (if code \<in> {MISSING, DENIED, REVOKED} then Some code else None)"
  "verdict (uncertain code) = (if code \<in> {MISSING, DENIED, REVOKED} then Some code else None)"
  by (simp_all add: verdict_def definite_def uncertain_def)

lemma fault_verdict [simp]: "verdict (fault_error c f) = None"
  by (simp add: fault_error_def split: fault.splits)

lemma read_stream_verdict: "read_stream policy c started content body = Inl e \<Longrightarrow> verdict e = None"
  by (induction policy c started content body rule: read_stream.induct)
    (auto simp: Let_def split: if_splits)

lemma check_declared_verdict: "check_declared policy c declared = Inl e \<Longrightarrow> verdict e = None"
  by (auto simp: check_declared_def split: option.splits if_splits)

lemma decode_json_verdict: "decode_json loads c content = Inl e \<Longrightarrow> verdict e = None"
  by (auto simp: decode_json_def split: sum.splits option.splits json.splits)

lemma provider_error_verdict:
  "verdict (provider_error status payload mutation) = Some code \<Longrightarrow> status \<in> status_of_code code"
  by (auto simp: provider_error_def Let_def status_of_code_def split: option.splits if_splits)

lemma read_answer_verdict:
  assumes "read_answer cl mutation (started, x) = Inl e" "verdict e = Some code"
  shows "\<exists>head body. x = Answer head body \<and> ah_status head \<in> status_of_code code"
proof (cases x)
  case (SendFault f)
  with assms show ?thesis by (auto simp: read_answer_def)
next
  case (Answer head body)
  have "\<exists>decoded. e = provider_error (ah_status head) decoded mutation"
    using assms unfolding Answer read_answer_Answer Let_def
    by (auto simp: bindR_Inl_iff split: if_splits
        dest: read_stream_verdict check_declared_verdict decode_json_verdict)
  with assms(2) Answer show ?thesis by (auto dest: provider_error_verdict)
qed

lemma parse_credential_Inl: "parse_credential value = Inl e \<Longrightarrow> e = definite MALFORMED_CONFIGURATION"
  by (auto simp: parse_credential_def Let_def split: if_splits)

lemma emits_read_verdict:
  "emits (read_credential cl)
     (\<lambda>evs r. (\<forall>e. r = Inl e \<longrightarrow> verdict e = None) \<and> (\<forall>token. r = Inr token \<longrightarrow> evs = [ReadCredential True]))"
  unfolding read_credential_def
  by (rule emits_attemptE[OF emits_callE_eq]) (auto intro!: emit_intros dest: parse_credential_Inl)

lemma emits_truthful:
  "emits (request_json cl method path payload mutation audit) truthful"
  unfolding request_json_def Let_def
  apply (rule emits_required)
   apply (rule emits_case_option)
    apply (rule emits_raiseE, simp add: truthful_def)
   apply (rule emits_required)
    apply (rule emits_bindE[OF emits_read_verdict])
     apply (rule emits_mono[OF emits_exchange])
     apply (auto simp: truthful_def said_def dest: read_answer_verdict)
  done

text \<open>After the exchange nothing more is claimed of the provider.\<close>

definition silent :: "('w, 'a) sp_eff \<Rightarrow> bool" where
  "silent m \<longleftrightarrow> emits m (\<lambda>evs r. evs = [] \<and> (\<forall>e. r = Inl e \<longrightarrow> verdict e = None))"

lemma silent_intros:
  "(\<And>e. r = Inl e \<Longrightarrow> verdict e = None) \<Longrightarrow> silent (liftE r)"
  "verdict e = None \<Longrightarrow> silent (raiseE e)"
  "silent (returnE a)"
  "(\<And>e. r' = Inl e \<Longrightarrow> verdict e = None) \<Longrightarrow> (\<And>a. r' = Inr a \<Longrightarrow> silent (k a)) \<Longrightarrow> silent (bindE (liftE r') k)"
  "verdict e = None \<Longrightarrow> silent (l ()) \<Longrightarrow> silent (bindE (requireE b e) l)"
  unfolding silent_def by (auto intro: emit_intros emits_validated emits_required)

lemma emits_truthful_then:
  assumes "\<And>j. silent (k j)"
  shows "emits (bindE (request_json cl method path payload mutation audit) k) truthful"
  by (rule emits_bindE[OF emits_truthful], rule emits_mono[OF assms[unfolded silent_def]])
    (auto simp: truthful_def)

lemma truthful_validated:
  "(\<And>e. v = Inl e \<Longrightarrow> verdict e = None) \<Longrightarrow> (\<And>a. v = Inr a \<Longrightarrow> emits (k a) truthful) \<Longrightarrow>
     emits (bindE (liftE v) k) truthful"
  by (rule emits_validated) (auto simp: truthful_def)

lemma truthful_required:
  "verdict e = None \<Longrightarrow> (b \<Longrightarrow> emits (k ()) truthful) \<Longrightarrow> emits (bindE (requireE b e) k) truthful"
  by (rule emits_required) (auto simp: truthful_def)

lemma request_identity_verdict: "request_identity w c i = Inl e \<Longrightarrow> verdict e = None"
  by (auto simp: request_identity_def)

lemma secret_id_verdict: "canonical_provider_secret_id ref = Inl e \<Longrightarrow> verdict e = None"
  by (auto simp: canonical_provider_secret_id_def split: option.splits if_splits)

lemma check_outcome_verdict: "check_outcome j ks outcome c = Inl e \<Longrightarrow> verdict e = None"
  by (auto simp: check_outcome_def)

lemma read_version_metadata_verdict:
  "read_version_metadata v w i ref st c = Inl e \<Longrightarrow> verdict e = None"
  by (auto simp: read_version_metadata_def Let_def bindR_Inl_iff split: sum.splits)

lemma read_resolved_verdict:
  assumes "read_resolved core response w i ref intent version_id = Inl e"
  shows "verdict e = None"
proof -
  have "resolved_material core m j = Inl e \<Longrightarrow> verdict e = None" for m j
    by (auto simp: resolved_material_def split: json.splits option.splits if_splits sum.splits)
  with assms show ?thesis
    unfolding read_resolved_def resolved_material_def[symmetric] bindR_Inl_iff requireR_Inl
    by (auto dest: check_outcome_verdict read_version_metadata_verdict)
qed

lemma resolve_truthful: "emits (resolve cl w ref intent caller correlation version_id) truthful"
  unfolding resolve_def
  by (intro truthful_validated truthful_required emits_truthful_then silent_intros)
    (auto dest: request_identity_verdict secret_id_verdict read_resolved_verdict)

lemma read_revoked_items_verdict: "read_revoked_items items w i ref = Inl e \<Longrightarrow> verdict e = None"
  by (induction items) (auto simp: bindR_Inl_iff dest: read_version_metadata_verdict)

lemma make_revoked_verdict: "make_revoked ref ids = Inl e \<Longrightarrow> verdict e = None"
  by (auto simp: make_revoked_def split: if_splits)

lemma silent_case_list:
  "(\<And>items. silent (l items)) \<Longrightarrow> verdict e = None \<Longrightarrow>
     silent (case j of JList items \<Rightarrow> l items | _ \<Rightarrow> raiseE e)"
  by (cases j) (auto intro: silent_intros)

lemma revoke_truthful: "emits (revoke cl w ref caller correlation) truthful"
  unfolding revoke_def
  by (intro truthful_validated emits_truthful_then silent_intros silent_case_list)
    (auto dest: request_identity_verdict secret_id_verdict
      check_outcome_verdict read_revoked_items_verdict make_revoked_verdict)

lemma revoke_answered:
  "emits (revoke cl w ref caller correlation)
     (answered_at_most_once (sc_policy cl) ''POST'' (path_of ref (revoke_path w)) (\<lambda>_. True))"
  unfolding revoke_def revoke_path_def[symmetric]
  by (intro answered_validated answered_at later_yields_intros later_yields_list) simp_all

section \<open>Registered configurations\<close>

lemma normalized_shape:
  assumes "normalized_base_url value = Inr url"
  obtains u where "urlsplit value = Some u" "su_scheme u \<in> {''http'', ''https''}" "su_netloc u \<noteq> []"
    "\<not> has_username u" "\<not> has_password u" "url = su_scheme u @ CHR '':'' # ''//'' @ su_netloc u"
    "\<exists>port. url_port u = Some port \<and> (\<forall>n. port = Some n \<longrightarrow> 1 \<le> n \<and> n \<le> 65535)" "length value \<le> 2048"
  using assms
  by (auto simp: normalized_base_url_def unsplit_authority_def split: if_splits option.splits)

lemma normalized_again:
  assumes "normalized_base_url value = Inr url"
  shows "normalized_base_url url = Inr url"
proof -
  obtain u where u: "urlsplit value = Some u" "su_scheme u \<in> {''http'', ''https''}" "su_netloc u \<noteq> []"
    "\<not> has_username u" "\<not> has_password u" "url = su_scheme u @ CHR '':'' # ''//'' @ su_netloc u"
    "\<exists>port. url_port u = Some port \<and> (\<forall>n. port = Some n \<longrightarrow> 1 \<le> n \<and> n \<le> 65535)" "length value \<le> 2048"
    using assms by (rule normalized_shape)
  let ?v = "\<lparr>su_scheme = su_scheme u, su_netloc = su_netloc u, su_path = [], su_query = [], su_fragment = []\<rparr>"
  have split: "urlsplit url = Some ?v"
    using urlsplit_authority[OF u(2) urlsplit_parts(1,2)[OF u(1)], of "[]"]
    by (simp add: u(6) no_delimiter_def)
  have "su_scheme u \<noteq> []" using u(2) by auto
  then have "length url \<le> 2048"
    using urlsplit_parts(3)[OF u(1)] u(3,6,8) by simp
  moreover have "has_username ?v = has_username u" "has_password ?v = has_password u" "url_port ?v = url_port u"
    by (simp_all add: has_username_def has_password_def url_port_def)
  moreover have "unsplit_authority ?v = url"
    using \<open>su_scheme u \<noteq> []\<close> by (simp add: unsplit_authority_def u(6))
  ultimately show ?thesis
    using u(2-5,7) unfolding normalized_base_url_def split by (auto split: option.splits)
qed

lemma normalized_endpoints_Inr:
  "normalized_endpoints es = Inr es' \<Longrightarrow> map_of es' ref = Some url \<Longrightarrow> normalized_base_url url = Inr url"
  by (induction es arbitrary: es' rule: normalized_endpoints.induct)
    (auto simp: bindR_Inr_iff normalized_again split: if_splits)

text \<open>
  every configuration of a registry that could be constructed is usable: for a registered
  endpoint and a registered credential the configuration is built, with exactly the
  registered url and file, so normalizing a url again changes nothing and never fails.
\<close>

theorem registered_configuration:
  assumes "make_registry endpoints files = Inr reg"
    and "map_of (rg_endpoints reg) endpoint = Some url"
    and "map_of files credential = Some file"
  shows "configuration_for reg endpoint credential =
    Inr \<lparr>cfg_endpoint = endpoint, cfg_base_url = url, cfg_credential = credential, cfg_file = file\<rparr>"
proof -
  obtain es where es: "normalized_endpoints endpoints = Inr es"
    and reg: "reg = \<lparr>rg_endpoints = es, rg_files = files\<rparr>" "list_all (\<lambda>(_, path). absolute_path path) files"
    using assms(1) by (auto simp: make_registry_def split: sum.splits if_splits)
  have "normalized_base_url url = Inr url"
    using normalized_endpoints_Inr[OF es] assms(2) reg by simp
  moreover have "absolute_path file"
    using reg(2) map_of_SomeD[OF assms(3)] by (auto simp: list_all_iff)
  ultimately show ?thesis
    using assms(2,3) reg(1) by (simp add: configuration_for_def make_configuration_def)
qed

definition sample_registry :: registry where
  "sample_registry = \<lparr>rg_endpoints = [(''ep'', ''https://secrets:8443'')], rg_files = [(''cred'', ''/run/token'')]\<rparr>"

lemma sample_netloc: "netloc_ok ''secrets:8443''" "\<forall>c \<in> set ''secrets:8443''. \<not> authority_end c \<and> \<not> unsafe_char c"
  by (auto simp: netloc_ok_def authority_end_def unsafe_char_def code_of_def)

lemma sample_split:
  "urlsplit ''https://secrets:8443'' = Some \<lparr>su_scheme = ''https'', su_netloc = ''secrets:8443'',
     su_path = [], su_query = [], su_fragment = []\<rparr>"
  using urlsplit_authority[OF _ sample_netloc, of "''https''" "[]"] by (simp add: no_delimiter_def)

lemma sample_port: "snd (host_info ''secrets:8443'') = Some ''8443''"
  by code_simp

lemma sample_url: "normalized_base_url ''https://secrets:8443'' = Inr ''https://secrets:8443''"
  by (simp add: normalized_base_url_def sample_split has_username_def has_password_def url_port_def
      sample_port rpartition_at_def is_digit_def in_range_def code_of_def unsplit_authority_def)

lemma sample_registry_made:
  "make_registry [(''ep'', ''https://secrets:8443'')] [(''cred'', ''/run/token'')] = Inr sample_registry"
  by (simp add: make_registry_def sample_url absolute_path_def py_startswith_def sample_registry_def)

definition sample_configuration :: client_configuration where
  "sample_configuration = \<lparr>cfg_endpoint = ''ep'', cfg_base_url = ''https://secrets:8443'',
     cfg_credential = ''cred'', cfg_file = ''/run/token''\<rparr>"

lemma registered_configuration_witness:
  "configuration_for sample_registry ''ep'' ''cred'' = Inr sample_configuration"
  unfolding sample_configuration_def
  by (rule registered_configuration[OF sample_registry_made]) (simp_all add: sample_registry_def)

lemma sample_configuration_for:
  "configuration_for sample_registry ''ep'' ''cred'' = Inr sample_configuration"
  by (simp add: configuration_for_def sample_registry_def make_configuration_def sample_url
      absolute_path_def py_startswith_def sample_configuration_def)

section \<open>Resolution of grants\<close>


definition sample_missing :: json where
  "sample_missing = JObj [(''detail'', JObj [(''outcome'', JStr ''missing''), (''code'', JStr ''c'')])]"

definition sample_grant :: resolution_grant where
  "sample_grant = \<lparr>gr_workspace = ''w1'', gr_endpoint = ''ep'', gr_credential = ''cred'',
     gr_reference = ''db-pass'', gr_intent = OTHER_INTENT ''x'', gr_actor = ''me'', gr_correlation = ''c1'',
     gr_version = None\<rparr>"

definition sample_missed :: "(sp_exn + secret_resolution) \<times> (sp_event, unit) st" where
  "sample_missed = grant_resolve (\<lambda>_. sample_provider 404 sample_missing) sample_registry (\<lambda>_. True)
     sample_grant \<lparr>trace = [], world = ()\<rparr>"

lemma sample_missed_eq: "fst sample_missed = Inr (SecretMissing ''db-pass'')"
  by (simp add: sample_missed_def grant_resolve_def sample_grant_def sample_configuration_for
      resolve_def sample_run sample_missing_def provider_error_def json_text_def)


section \<open>Custody\<close>

lemma store_run:
  assumes "custodian_store connect reg receipt_ok grant value s = (Inr receipt, s')"
  obtains cfg m where "configuration_for reg (cu_endpoint grant) (cu_credential grant) = Inr cfg"
    "write_secret (connect cfg) (cu_workspace grant) (cu_reference grant) value
       (cu_intent grant) (cu_actor grant) (cu_correlation grant) s = (Inr m, s')"
    "receipt_ok (receipt_of (cu_custody_id grant) (cu_registration_id grant) m) = Inr receipt"
  using assms unfolding custodian_store_def
  by (cases "configuration_for reg (cu_endpoint grant) (cu_credential grant)")
    (auto simp: eff_defs split: prod.splits sum.splits)

text \<open>
  a value taken into custody is stored by the provider, and the receipt is made of exactly
  what was stored: the custody and registration of the grant, its reference, the active version
  the provider named; the request carried the value of the grant.
\<close>

theorem custody_receipt_exact:
  assumes "custodian_store connect reg receipt_ok grant value s = (Inr receipt, s')"
  shows "\<exists>cfg m rq x. configuration_for reg (cu_endpoint grant) (cu_credential grant) = Inr cfg
    \<and> trace s' = trace s @ [ReadCredential True, Sent rq x] \<and> accepted_answer x
    \<and> (\<exists>material. utf8_encode value = Some material \<and> carries material (connect cfg) rq)
    \<and> exact_version (cu_reference grant) ''active'' m
    \<and> receipt_ok (receipt_of (cu_custody_id grant) (cu_registration_id grant) m) = Inr receipt"
proof -
  obtain cfg m where cfg: "configuration_for reg (cu_endpoint grant) (cu_credential grant) = Inr cfg"
    and run: "write_secret (connect cfg) (cu_workspace grant) (cu_reference grant) value
       (cu_intent grant) (cu_actor grant) (cu_correlation grant) s = (Inr m, s')"
    and receipt: "receipt_ok (receipt_of (cu_custody_id grant) (cu_registration_id grant) m) = Inr receipt"
    using assms by (rule store_run)
  obtain rq x where x: "trace s' = trace s @ [ReadCredential True, Sent rq x]" "accepted_answer x"
    "for_reference (cu_reference grant) (stored_exactly (cu_workspace grant) (cu_reference grant) ''stored'' ''active'') m"
    using write_answered run by (rule answered_result)
  have "\<exists>material. utf8_encode value = Some material \<and> carries material (connect cfg) rq"
    using emitsD[OF write_carries run x(1)] by (auto simp: mutation_shape_def)
  with cfg receipt x stored_exactlyD[OF x(3)] show ?thesis by blast
qed

definition sample_custody_grant :: "string \<Rightarrow> custody_grant" where
  "sample_custody_grant correlation = \<lparr>cu_custody_id = ''cu1'', cu_registration_id = ''reg1'',
     cu_workspace = ''w1'', cu_endpoint = ''ep'', cu_credential = ''cred'', cu_reference = ''db-pass'',
     cu_intent = OTHER_INTENT ''x'', cu_actor = ''me'', cu_correlation = correlation\<rparr>"

definition sample_stored :: "(sp_exn + custody_receipt) \<times> (sp_event, unit) st" where
  "sample_stored = custodian_store (\<lambda>_. sample_provider 201 (sample_answer ''stored'' ''active''))
     sample_registry Inr (sample_custody_grant ''c1'') [104, 105] \<lparr>trace = [], world = ()\<rparr>"

lemma sample_stored_eq:
  "fst sample_stored = Inr (receipt_of ''cu1'' ''reg1'' (sample_metadata_value ''active''))"
  by (simp add: sample_stored_def custodian_store_def sample_custody_grant_def sample_configuration_for
      write_secret_def sample_run sample_answer_def check_outcome_def json_text_def sample_read
      max_secret_bytes_def insert_commute)

lemma custody_receipt_exact_witness:
  "\<exists>rq x. trace (snd sample_stored) = [ReadCredential True, Sent rq x] \<and> accepted_answer x"
  using custody_receipt_exact[OF sample_stored_def[symmetric, THEN trans,
      OF prod.collapse[symmetric, of sample_stored, unfolded sample_stored_eq]]]
  by auto

text \<open>
  revoking the custody of a grant returns only when the provider acknowledged the revocation
  of its reference, or answered 404, and the one request was the revocation of that reference.
\<close>

theorem custody_revocation_acknowledged:
  assumes "custodian_revoke connect reg grant s = (Inr (), s')"
  shows "\<exists>rq x. trace s' = trace s @ [ReadCredential True, Sent rq x]
    \<and> addressed ''POST'' (path_of (cu_reference grant) (revoke_path (cu_workspace grant))) rq
    \<and> (accepted_answer x \<or> said MISSING [ReadCredential True, Sent rq x])"
proof -
  obtain cfg where cfg: "configuration_for reg (cu_endpoint grant) (cu_credential grant) = Inr cfg"
    using assms unfolding custodian_revoke_def
    by (cases "configuration_for reg (cu_endpoint grant) (cu_credential grant)") (auto simp: raiseE_def)
  obtain r t where run: "revoke (connect cfg) (cu_workspace grant) (cu_reference grant) (cu_actor grant)
      (cu_correlation grant @ '':revoke'') s = (r, t)"
    by fastforce
  have rest: "t = s'" "\<And>e. r = Inl e \<Longrightarrow> \<exists>c. e = SecretProviderClientError MISSING c"
    using assms by (auto simp: custodian_revoke_def cfg attemptE_def run returnE_def raiseE_def
        split: sum.splits sp_exn.splits if_splits)
  obtain evs where evs: "trace t = trace s @ evs" "truthful evs r"
    using revoke_truthful run by (rule emitsE)
  have shape: "answered_at_most_once (sc_policy (connect cfg)) ''POST''
      (path_of (cu_reference grant) (revoke_path (cu_workspace grant))) (\<lambda>_. True) evs r"
    using emitsD[OF revoke_answered run evs(1)] by simp
  show ?thesis
  proof (cases r)
    case (Inl e)
    with rest(2) obtain c where e: "e = SecretProviderClientError MISSING c" by blast
    with evs(2) Inl have "said MISSING evs" by (auto simp: truthful_def)
    with shape evs(1) rest(1) show ?thesis by (auto simp: answered_at_most_once_def said_def)
  next
    case (Inr v)
    with shape evs(1) rest(1) show ?thesis by (auto simp: answered_at_most_once_def)
  qed
qed

definition sample_revoked :: "(sp_exn + unit) \<times> (sp_event, unit) st" where
  "sample_revoked = custodian_revoke (\<lambda>_. sample_provider 404 sample_missing) sample_registry
     (sample_custody_grant ''c1'') \<lparr>trace = [], world = ()\<rparr>"

lemma sample_revoke_identifier: "provider_identifier ''c1:revoke'' = True"
  by code_simp

lemma sample_revoked_eq: "fst sample_revoked = Inr ()"
  by (simp add: sample_revoked_def custodian_revoke_def sample_custody_grant_def sample_configuration_for
      revoke_def sample_run sample_missing_def provider_error_def json_text_def sample_revoke_identifier)

lemma custody_revocation_acknowledged_witness:
  "\<exists>rq x. trace (snd sample_revoked) = [ReadCredential True, Sent rq x]
     \<and> addressed ''POST'' (path_of ''db-pass'' (revoke_path ''w1'')) rq"
  using custody_revocation_acknowledged[OF sample_revoked_def[symmetric, THEN trans,
      OF prod.collapse[symmetric, of sample_revoked, unfolded sample_revoked_eq]]]
  by (auto simp: sample_custody_grant_def)

lemma provider_identifier_length: "provider_identifier s \<Longrightarrow> length s \<le> 200"
  by (auto simp: provider_identifier_def split: list.splits)

text \<open>
  a value can be in custody without a way to revoke it: a correlation of 194 to 200
  characters is admitted for the storing request, and the custodian's revocation, which appends
  to it, refuses before anything is sent.
\<close>

theorem long_correlation_not_revocable:
  assumes "194 \<le> length (cu_correlation grant)"
    and "configuration_for reg (cu_endpoint grant) (cu_credential grant) = Inr cfg"
  shows "custodian_revoke connect reg grant s = (Inl (definite MALFORMED_REQUEST), s)"
proof -
  have "\<not> provider_identifier (cu_correlation grant @ '':revoke'')"
    using assms(1) provider_identifier_length by fastforce
  then show ?thesis
    by (simp add: custodian_revoke_def assms(2) revoke_def request_identity_def requireR_def
        attemptE_def raiseE_def definite_def)
qed

definition long_correlation :: string where
  "long_correlation = replicate 194 CHR ''a''"

lemma long_correlation_identifier: "provider_identifier long_correlation"
proof -
  have "id_head CHR ''a''" "id_tail CHR ''a''"
    by (simp_all add: id_head_def id_tail_def is_lower_alpha_def in_range_def code_of_def)
  moreover have eq: "long_correlation = CHR ''a'' # replicate 193 CHR ''a''"
    by (simp add: long_correlation_def numeral_eq_Suc)
  ultimately show ?thesis
    unfolding provider_identifier_def eq list.case by (simp add: list_all_iff)
qed

lemma long_correlation_not_revocable_witness:
  "provider_identifier (cu_correlation (sample_custody_grant long_correlation))
   \<and> custodian_revoke (\<lambda>_. sample_provider 200 sample_missing) sample_registry
       (sample_custody_grant long_correlation) \<lparr>trace = [], world = ()\<rparr>
     = (Inl (definite MALFORMED_REQUEST), \<lparr>trace = [], world = ()\<rparr>)"
proof
  show "provider_identifier (cu_correlation (sample_custody_grant long_correlation))"
    using long_correlation_identifier by (simp add: sample_custody_grant_def)
  show "custodian_revoke (\<lambda>_. sample_provider 200 sample_missing) sample_registry
       (sample_custody_grant long_correlation) \<lparr>trace = [], world = ()\<rparr>
     = (Inl (definite MALFORMED_REQUEST), \<lparr>trace = [], world = ()\<rparr>)"
    by (rule long_correlation_not_revocable[of _ _ sample_configuration])
      (simp_all add: sample_custody_grant_def long_correlation_def sample_configuration_for)
qed

section \<open>Metadata\<close>

text \<open>
  the metadata reader observes without choosing: it returns only the version that was asked
  for, active and labelled with the use that was asked for, from one answered GET.
\<close>

theorem observed_version_exact:
  assumes "read_version connect reg round_trips references_ok workspace endpoint credential ref
      version_id intent s = (Inr m, s')"
  shows "\<exists>cfg rq x. configuration_for reg endpoint credential = Inr cfg
    \<and> trace s' = trace s @ [ReadCredential True, Sent rq x] \<and> pq_method rq = ''GET'' \<and> accepted_answer x
    \<and> exact_version ref ''active'' m \<and> vm_version_id m = version_id
    \<and> label m ''intent'' = Some (cs_intent_value (sc_core (connect cfg)) intent)"
proof -
  obtain cfg where cfg: "configuration_for reg endpoint credential = Inr cfg"
    and run: "read_metadata (connect cfg) round_trips workspace ref version_id s = (Inr m, s')"
    and checks: "vm_status m = ''active''"
      "label m ''intent'' = Some (cs_intent_value (sc_core (connect cfg)) intent)"
    using assms unfolding read_version_def
    by (cases "configuration_for reg endpoint credential")
      (auto simp: eff_defs split: prod.splits sum.splits if_splits)
  obtain rq x where x: "trace s' = trace s @ [ReadCredential True, Sent rq x]" "accepted_answer x"
    "addressed ''GET'' (path_of ref (\<lambda>i. secret_path workspace i @ ''/metadata?version_id='' @ py_quote version_id)) rq"
    "for_reference ref (stored_exactly workspace ref ''metadata'' (vm_status m)) m" "vm_version_id m = version_id"
    using read_metadata_answered run by (rule answered_result) blast
  from x cfg checks stored_exactlyD[OF x(4)] show ?thesis by (auto simp: addressed_def)
qed

definition sample_observed :: "(sp_exn + version_metadata) \<times> (sp_event, unit) st" where
  "sample_observed = read_version (\<lambda>_. sample_provider 200 (sample_answer ''metadata'' ''active''))
     sample_registry (\<lambda>_. True) True ''w1'' ''ep'' ''cred'' ''db-pass'' ''v1'' (OTHER_INTENT ''x'')
     \<lparr>trace = [], world = ()\<rparr>"

lemma sample_status: "json_get (sample_metadata status) ''status'' = JStr status"
  by (simp add: sample_metadata_def)

lemma sample_observed_eq: "fst sample_observed = Inr (sample_metadata_value ''active'')"
  by (simp add: sample_observed_def read_version_def sample_configuration_for metadata_request_def
      read_metadata_def sample_run sample_answer_def check_outcome_def json_text_def sample_status
      sample_read insert_commute) (simp add: sample_metadata_value_def label_def sample_core_def)

lemma observed_version_exact_witness:
  "exact_version ''db-pass'' ''active'' (sample_metadata_value ''active'')
   \<and> length (trace (snd sample_observed)) = 2"
  using observed_version_exact[OF sample_observed_def[symmetric, THEN trans,
      OF prod.collapse[symmetric, of sample_observed, unfolded sample_observed_eq]]]
  by auto

section \<open>Policy\<close>

text \<open>What an uncertain failure of the client is for the policy client.\<close>

definition flagged :: "sp_exn \<Rightarrow> bool" where
  "flagged e \<longleftrightarrow> (case e of
     SecretProviderClientError code certainty \<Rightarrow> certainty = UNCERTAIN \<longrightarrow>
       policy_code_of code \<in> {POL_UNAVAILABLE, POL_TRANSPORT, POL_MALFORMED_RESULT}
   | _ \<Rightarrow> True)"

lemma flagged_simps [simp]:
  "flagged (SecretProviderClientError code c) \<longleftrightarrow>
     (c = UNCERTAIN \<longrightarrow> policy_code_of code \<in> {POL_UNAVAILABLE, POL_TRANSPORT, POL_MALFORMED_RESULT})"
  "flagged (ForeignError m)" "flagged (definite code)"
  by (simp_all add: flagged_def definite_def)

lemma policy_code_of_simps [simp]:
  "policy_code_of MALFORMED_ANSWER = POL_MALFORMED_RESULT" "policy_code_of RESPONSE_TOO_LARGE = POL_MALFORMED_RESULT"
  "policy_code_of TIMED_OUT = POL_TRANSPORT" "policy_code_of TRANSPORT_FAILED = POL_TRANSPORT"
  "policy_code_of REDIRECTED = POL_TRANSPORT" "policy_code_of UNAVAILABLE = POL_UNAVAILABLE"
  "policy_code_of INTEGRITY_FAILURE = POL_UNAVAILABLE"
  by (simp_all add: policy_code_of_def)

lemma read_stream_flagged: "read_stream policy c started content body = Inl e \<Longrightarrow> flagged e"
  by (induction policy c started content body rule: read_stream.induct)
    (auto simp: Let_def fault_error_def split: if_splits fault.splits)

lemma check_declared_flagged: "check_declared policy c declared = Inl e \<Longrightarrow> flagged e"
  by (auto simp: check_declared_def split: option.splits if_splits)

lemma decode_json_flagged: "decode_json loads c content = Inl e \<Longrightarrow> flagged e"
  by (auto simp: decode_json_def split: sum.splits option.splits json.splits)

lemma provider_error_flagged: "flagged (provider_error status payload True)"
  by (auto simp: provider_error_def Let_def certainty_of_def split: option.splits)

lemma read_answer_flagged:
  assumes "read_answer cl True (started, x) = Inl e"
  shows "flagged e"
proof (cases x)
  case (SendFault f)
  with assms show ?thesis by (auto simp: read_answer_def fault_error_def split: fault.splits)
next
  case (Answer head body)
  then show ?thesis
    using assms unfolding Answer read_answer_Answer Let_def
    by (auto simp: bindR_Inl_iff provider_error_flagged split: if_splits
        dest: read_stream_flagged check_declared_flagged decode_json_flagged)
qed

lemma emits_read_flagged:
  "emits (read_credential cl) (\<lambda>evs r. \<forall>e. r = Inl e \<longrightarrow> flagged e)"
  unfolding read_credential_def
  by (rule emits_attemptE[OF emits_callE_eq]) (auto intro!: emit_intros dest: parse_credential_Inl)

lemma emits_flagged:
  "emits (request_json cl method path payload True audit) (\<lambda>evs r. \<forall>e. r = Inl e \<longrightarrow> flagged e)"
  unfolding request_json_def Let_def
  apply (rule emits_required)
   apply (rule emits_case_option)
    apply (rule emits_raiseE, simp)
   apply (rule emits_required)
    apply (rule emits_bindE[OF emits_read_flagged])
     apply (rule emits_mono[OF emits_exchange])
     apply (auto dest: read_answer_flagged)
  done

definition policy_applied_only :: "string \<Rightarrow> sp_event list \<Rightarrow> policy_exn + 'a \<Rightarrow> bool" where
  "policy_applied_only path evs r \<longleftrightarrow>
     (\<forall>code rq x. r = Inl (PolicyFailure code False) \<and> Sent rq x \<in> set evs \<longrightarrow>
        refused x \<and> evs = [ReadCredential True, Sent rq x] \<and> addressed ''POST'' path rq)"

lemma policy_request_shape:
  "emits (policy_request pc uuid ''POST'' path (Some payload) decode) (policy_applied_only path)"
proof -
  let ?call = "request_json (po_client pc) ''POST'' path (Some payload) True None"
  let ?S = "mutation_shape (posted (po_client pc) ''POST'' path payload)"
  have call: "emits ?call (\<lambda>evs r. ?S evs r \<and> (\<forall>e. r = Inl e \<longrightarrow> flagged e))"
    by (rule emits_conj[OF emits_mono[OF emits_request_json] emits_flagged]) simp
  have failed: "policy_applied_only path evs (Inl (policy_failure (policy_code_of code)
      (certainty = UNCERTAIN \<or> policy_code_of code = POL_MALFORMED_RESULT)))"
    if "?S evs (Inl (SecretProviderClientError code certainty) :: sp_exn + json)"
      "flagged (SecretProviderClientError code certainty)" for evs code certainty
    using that posted_addressed
    by (cases certainty) (fastforce simp: policy_applied_only_def policy_failure_def mutation_shape_def)+
  show ?thesis
    unfolding policy_request_def Let_def simp_thms if_True
    apply (rule emits_attemptE[OF call])
    subgoal for raw evs
      by (cases "decode raw") (auto intro!: emit_intros simp: policy_applied_only_def policy_failure_def)
    subgoal for e evs
      by (cases e) (auto intro!: emit_intros failed, auto simp: policy_applied_only_def)
    done
qed

text \<open>
  when a policy command fails without the flag that its effect may have occurred, it was not
  applied: nothing was sent, or the provider refused the one request.
\<close>

theorem policy_failure_not_applied:
  assumes "policy_mutate pc command s = (Inl (PolicyFailure code False), s')"
    and "trace s' = trace s @ evs" and "Sent rq x \<in> set evs"
  shows "refused x \<and> evs = [ReadCredential True, Sent rq x]
    \<and> addressed ''POST'' (mutation_path (pm_kind command)) rq"
proof -
  have "emits (policy_mutate pc command) (policy_applied_only (mutation_path (pm_kind command)))"
    unfolding policy_mutate_def
    by (intro emits_validated emits_required policy_request_shape) (simp_all add: policy_applied_only_def)
  from emitsD[OF this assms(1,2)] assms(3) show ?thesis by (simp add: policy_applied_only_def)
qed

definition sample_policy_core :: policy_core where
  "sample_policy_core = \<lparr>pc_result = (\<lambda>_ _. None), pc_coordinate = (\<lambda>_. None), pc_grant = (\<lambda>_ _. None),
     pc_page = (\<lambda>_ _ _. None), pc_read = (\<lambda>_ _. None), pc_matches = (\<lambda>_ _. True),
     pc_descriptor = (\<lambda>c. [(''subject'', JStr (co_subject c))]), pc_mode_value = (\<lambda>_. ''any'')\<rparr>"

definition sample_command :: policy_command where
  "sample_command = \<lparr>pm_logical = ''l'', pm_provider_id = ''p'', pm_correlation = ''c1'',
     pm_coordinate = \<lparr>co_subject = ''me'', co_workspace = ''w1'', co_action = ''read'', co_intent = None\<rparr>,
     pm_expected_revision = JInt 1, pm_kind = GrantCommand\<rparr>"

definition sample_command_run :: "(policy_exn + command_result) \<times> (sp_event, unit) st" where
  "sample_command_run = policy_mutate \<lparr>po_logical = ''l'', po_provider_id = ''p'',
     po_core = sample_policy_core, po_client = sample_provider 409 sample_conflict\<rparr> sample_command
     \<lparr>trace = [], world = ()\<rparr>"

lemma sample_command_eq:
  "\<exists>rq x. sample_command_run = (Inl (PolicyFailure POL_CONFLICT False),
     \<lparr>trace = [ReadCredential True, Sent rq x], world = ()\<rparr>)"
  by (simp add: sample_command_run_def policy_mutate_def policy_validate_def sample_command_def
      policy_request_def sample_run sample_conflict_def provider_error_def json_text_def
      policy_code_of_def policy_failure_def)

lemma policy_failure_not_applied_witness:
  "\<exists>rq x. sample_command_run = (Inl (PolicyFailure POL_CONFLICT False),
       \<lparr>trace = [ReadCredential True, Sent rq x], world = ()\<rparr>) \<and> refused x"
proof -
  obtain rq x where run: "sample_command_run = (Inl (PolicyFailure POL_CONFLICT False),
     \<lparr>trace = [ReadCredential True, Sent rq x], world = ()\<rparr>)"
    using sample_command_eq by blast
  from policy_failure_not_applied[OF run[unfolded sample_command_run_def], of "[ReadCredential True, Sent rq x]" rq x]
  have "refused x" by simp
  with run show ?thesis by blast
qed

section \<open>Pages\<close>

lemma check_page_Some:
  "check_page provider_id rq previous gs = Some final \<Longrightarrow>
     sorted_wrt (<) (previous # map pg_grant_id gs)
     \<and> list_all (\<lambda>g. pg_provider_id g = provider_id \<and> \<not> pg_revoked g
          \<and> wanted (lr_subject rq) (co_subject (pg_coordinate g))
          \<and> wanted (lr_workspace rq) (co_workspace (pg_coordinate g))
          \<and> wanted (lr_action rq) (co_action (pg_coordinate g))
          \<and> (lr_mode rq = EXACT_INTENT \<longrightarrow> co_intent (pg_coordinate g) = lr_intent rq)) gs
     \<and> final = last (previous # map pg_grant_id gs)"
  by (induction provider_id rq previous gs rule: check_page.induct)
    (fastforce simp: grant_admitted_def split: if_splits)+

definition cursor :: "grant_page_request \<Rightarrow> string" where
  "cursor rq = (case lr_after rq of None \<Rightarrow> [] | Some a \<Rightarrow> a)"

definition page_sound :: "string \<Rightarrow> grant_page_request \<Rightarrow> policy_page \<Rightarrow> bool" where
  "page_sound provider_id rq page \<longleftrightarrow>
     sorted_wrt (<) (cursor rq # map pg_grant_id (pp_grants page))
     \<and> list_all (\<lambda>g. pg_provider_id g = provider_id \<and> \<not> pg_revoked g
          \<and> wanted (lr_subject rq) (co_subject (pg_coordinate g))
          \<and> wanted (lr_workspace rq) (co_workspace (pg_coordinate g))
          \<and> wanted (lr_action rq) (co_action (pg_coordinate g))
          \<and> (lr_mode rq = EXACT_INTENT \<longrightarrow> co_intent (pg_coordinate g) = lr_intent rq)) (pp_grants page)
     \<and> (\<forall>c. pp_next page = Some c \<longrightarrow> length (pp_grants page) = lr_limit rq
          \<and> c = last (cursor rq # map pg_grant_id (pp_grants page)))"

lemma decode_page_sound:
  assumes "decode_page pc rq raw = Some page"
  shows "page_sound (po_provider_id pc) rq page"
proof -
  obtain final where "check_page (po_provider_id pc) rq (cursor rq) (pp_grants page) = Some final"
    and cut: "\<not> (pp_next page \<noteq> None \<and> (length (pp_grants page) \<noteq> lr_limit rq \<or> pp_next page \<noteq> Some final))"
    using assms unfolding decode_page_def bind_eq_Some_conv cursor_def[symmetric]
    by (elim exE conjE, rename_tac v, case_tac "json_get v ''grants''")
      (auto simp: bind_eq_Some_conv split: if_splits)
  note page = check_page_Some[OF this(1)]
  with cut show ?thesis by (auto simp: page_sound_def)
qed

lemma policy_request_decoded:
  "policy_request pc uuid method path payload decode s = (Inr a, s') \<Longrightarrow> \<exists>raw. decode raw = Some a"
  by (auto simp: policy_request_def Let_def attemptE_def returnE_def raiseE_def
      split: prod.splits sum.splits sp_exn.splits option.splits)


definition sample_listing :: "(policy_exn + policy_page) \<times> (sp_event, unit) st" where
  "sample_listing = policy_list \<lparr>po_logical = ''l'', po_provider_id = ''p'',
     po_core = sample_policy_core\<lparr>pc_coordinate := (\<lambda>_. Some (pm_coordinate sample_command)),
         pc_grant := (\<lambda>j c. Some \<lparr>pg_provider_id = ''p'', pg_grant_id = ''g1'', pg_coordinate = c, pg_revoked = False\<rparr>),
         pc_page := (\<lambda>r gs n. Some \<lparr>pp_revision = r, pp_grants = gs, pp_next = Some ''g1''\<rparr>)\<rparr>,
     po_client = sample_provider 200 (JObj [(''revision'', JInt 4),
       (''grants'', JList [JObj (map (\<lambda>k. (k, JNull)) [''subject'', ''workspace_id'', ''action'', ''intent'',
          ''grant_id'', ''provider_id'', ''origin'', ''granted_by'', ''grant_correlation_id'',
          ''granted_at'', ''revoked_by'', ''revoke_correlation_id'', ''revoked_at''])]),
       (''next_after'', JStr ''g1'')])\<rparr> ''0a''
     \<lparr>lr_logical = ''l'', lr_subject = Some ''me'', lr_workspace = None, lr_action = None, lr_intent = None,
      lr_mode = ANY_INTENT, lr_limit = 1, lr_after = None\<rparr> \<lparr>trace = [], world = ()\<rparr>"

lemma sample_audit: "correlation_ok ''cpk-policy-read.0a'' = True"
  by code_simp

lemma sample_listing_eq:
  "fst sample_listing = Inr \<lparr>pp_revision = JInt 4, pp_grants = [\<lparr>pg_provider_id = ''p'', pg_grant_id = ''g1'',
     pg_coordinate = pm_coordinate sample_command, pg_revoked = False\<rparr>], pp_next = Some ''g1''\<rparr>"
  by (simp add: sample_listing_def policy_list_def policy_validate_def policy_request_def sample_run
      sample_audit decode_page_def decode_object_def decode_grant_def grant_fields_def coordinate_fields_def
      grant_admitted_def wanted_def sample_policy_core_def insert_commute)
    (simp add: sample_command_def)


end
