(* ===== verification/Probe_Security.thy ===== *)
theory Probe_Security
  imports Complex_Main Invocations Url
begin

text \<open>
  \<open>probes/security.py\<close>: authorization of one observed endpoint against an address policy, with
  pinning of public hostnames to an address resolved for the same request.  The endpoint
  records, the schemes of a protocol and both resolvers are parameters.
\<close>

section \<open>Values\<close>

datatype security_code = INVALID_ENDPOINT | UNRESOLVED_ENDPOINT | UNTRUSTED_ADDRESS | UNSAFE_URL

datatype endpoint_context = RUNTIME_PRIVATE | HOST_LOCAL | PUBLIC

datatype endpoint_address = LiteralEndpoint string | SecretEndpoint string

record probe_endpoint =
  ep_subject :: string
  ep_graph :: string
  ep_socket :: string
  ep_protocol :: string
  ep_context :: endpoint_context
  ep_address :: endpoint_address

record address_policy =
  ap_private :: "string list"
  ap_public_hosts :: "string list"
  ap_host_local :: bool
  ap_plaintext :: bool

record probe_target =
  pt_context :: endpoint_context
  pt_base_url :: string
  pt_host :: string
  pt_port :: nat
  pt_host_header :: "string option"
  pt_sni :: "string option"

text \<open>
  The exceptions by the classes the code tells apart: its own, those of the socket and HTTP
  libraries, any other \<open>Exception\<close>, and those that are not.
\<close>

datatype secret_code = SECRET_MISSING | SECRET_DENIED | INVALID_RESOLVER_RESULT | MALFORMED_REFERENCE

datatype probe_exn =
    ProbeSecurityError security_code
  | UnsupportedTransportProbe string
  | SecretResolutionError secret_code
  | InvocationPortError string
  | PortControl string
  | Cancelled
  | ConnectionRefused
  | ConnectionReset
  | TimedOut
  | OtherOSError string
  | HttpTimeout
  | HttpConnect bool
  | HttpProtocol
  | OtherHttpError
  | OrdinaryError string
  | BaseError string

fun is_ordinary :: "probe_exn \<Rightarrow> bool" where
  "is_ordinary (BaseError _) = False"
| "is_ordinary Cancelled = False"
| "is_ordinary _ = True"

text \<open>
  One HTTP request with what the adapters add to it, and its response: the status, the body as
  it arrives (chunk by chunk, ended normally or by an exception).  \<open>hq_timeouts\<close> are the connect,
  read, write and pool timeouts.
\<close>

record probe_request =
  hq_url :: string
  hq_host :: "string option"
  hq_sni :: "string option"
  hq_timeouts :: "rat list"

record probe_response =
  hr_status :: int
  hr_chunks :: "nat list list"
  hr_fault :: "probe_exn option"

datatype probe_event =
    EndpointResolved string bool
  | HostResolved string "probe_exn + string list"
  | SocketConnected string nat "probe_exn option"
  | SocketClosed
  | DatagramExchanged string nat "nat list" "probe_exn + nat list"
  | HttpSent probe_request "probe_exn + probe_response"
  | ResponseClosed "probe_exn option"
  | Slept rat
  | Pinged string nat "probe_exn + nat list"
  | BytesSent "nat list"
  | BytesReceived nat "probe_exn + nat list"
  | Admitted string "probe_exn + unit"
  | Recorded string "probe_exn + unit"
  | CredentialResolved string
  | Queried probe_target "probe_exn + bool"

type_synonym ('w, 'a) probe_eff = "((probe_event, 'w) st, probe_exn, 'a) eff"

section \<open>Paths\<close>

definition unsafe_endpoint :: probe_exn where
  "unsafe_endpoint = ProbeSecurityError UNSAFE_URL"

definition untrusted_endpoint :: probe_exn where
  "untrusted_endpoint = ProbeSecurityError UNTRUSTED_ADDRESS"

definition unresolved_endpoint :: probe_exn where
  "unresolved_endpoint = ProbeSecurityError UNRESOLVED_ENDPOINT"

definition request_url :: "probe_target \<Rightarrow> string \<Rightarrow> probe_exn + string" where
  "request_url target path =
     (case urlsplit path of
        None \<Rightarrow> Inl (OrdinaryError ''ValueError'')
      | Some u \<Rightarrow>
          if \<not> py_startswith path ''/'' \<or> py_startswith path ''//'' \<or> su_scheme u \<noteq> [] \<or> su_netloc u \<noteq> []
             \<or> su_query u \<noteq> [] \<or> su_fragment u \<noteq> []
          then Inl unsafe_endpoint
          else Inr (pt_base_url target @ path))"

section \<open>Authorization\<close>

definition resolve_address ::
  "probe_endpoint \<Rightarrow> (string \<Rightarrow> ('w, probe_exn, string) port) option \<Rightarrow> ('w, string) probe_eff" where
  "resolve_address ep resolver =
     (case ep_address ep of
        LiteralEndpoint v \<Rightarrow> returnE v
      | SecretEndpoint ref \<Rightarrow>
          (case resolver of
             None \<Rightarrow> raiseE unresolved_endpoint
           | Some f \<Rightarrow>
               attemptE (callE (\<lambda>r. EndpointResolved ref (\<not> isl r)) (f ref))
                 (\<lambda>e. case e of
                     ProbeSecurityError code \<Rightarrow> raiseE e
                   | _ \<Rightarrow> if is_ordinary e then raiseE unresolved_endpoint else raiseE e)
                 (\<lambda>v. if v = [] then raiseE unresolved_endpoint else returnE v)))"

text \<open>The checks of \<open>_validate_shape\<close>: the scheme, hostname and port of an acceptable authority.\<close>

definition validated_shape ::
  "(string \<Rightarrow> string list) \<Rightarrow> probe_endpoint \<Rightarrow> split_url \<Rightarrow> (string \<times> nat) option" where
  "validated_shape schemes ep u =
     (case (url_hostname u, url_port u) of
        (Some host, Some (Some port)) \<Rightarrow>
          if su_scheme u \<in> set (schemes (ep_protocol ep)) \<and> \<not> has_username u \<and> \<not> has_password u
             \<and> su_path u \<in> {[], ''/''} \<and> su_query u = [] \<and> su_fragment u = []
          then Some (host, port) else None
      | _ \<Rightarrow> None)"

definition bracketed :: "string \<Rightarrow> string" where
  "bracketed host = (if CHR '':'' \<in> set host then ''['' @ host @ '']'' else host)"

definition origin_of :: "string \<Rightarrow> string \<Rightarrow> nat \<Rightarrow> string" where
  "origin_of scheme host port = scheme @ ''://'' @ bracketed host @ '':'' @ show_nat port"

definition loopback_host :: "string \<Rightarrow> bool" where
  "loopback_host host \<longleftrightarrow>
     py_lower host = ''localhost''
     \<or> (case ip_address host of None \<Rightarrow> False | Some a \<Rightarrow> is_loopback a)"

definition ip_less :: "ip \<Rightarrow> ip \<Rightarrow> bool" where
  "ip_less a b \<longleftrightarrow>
     fst (ip_key a) < fst (ip_key b)
     \<or> (fst (ip_key a) = fst (ip_key b) \<and> snd (ip_key a) < snd (ip_key b))"

text \<open>The first element of the addresses sorted by version and value.\<close>

fun least_ip :: "ip \<Rightarrow> ip list \<Rightarrow> ip" where
  "least_ip a [] = a"
| "least_ip a (b # bs) = least_ip (if ip_less b a then b else a) bs"

definition pinned_choice :: "string list \<Rightarrow> probe_exn + string" where
  "pinned_choice values =
     (case all_some (map ip_address values) of
        Some (a # as) \<Rightarrow>
          if list_all is_global (a # as) then Inr (show_ip (least_ip a as)) else Inl untrusted_endpoint
      | _ \<Rightarrow> Inl unresolved_endpoint)"

definition pinned_address ::
  "string \<Rightarrow> (string \<Rightarrow> ('w, probe_exn, string list) port) \<Rightarrow> ('w, string) probe_eff" where
  "pinned_address host resolver =
     attemptE (callE (HostResolved host) (resolver host))
       (\<lambda>e. if is_ordinary e then raiseE unresolved_endpoint else raiseE e)
       (\<lambda>values. liftE (pinned_choice values))"

definition authorize_target ::
  "address_policy \<Rightarrow> probe_endpoint \<Rightarrow> (string \<Rightarrow> ('w, probe_exn, string list) port) option
    \<Rightarrow> string \<Rightarrow> string \<Rightarrow> nat \<Rightarrow> ('w, probe_target) probe_eff" where
  "authorize_target policy ep public scheme host port =
     (let origin = origin_of scheme host port;
          direct = \<lparr>pt_context = ep_context ep, pt_base_url = origin, pt_host = host, pt_port = port,
                    pt_host_header = None, pt_sni = None\<rparr>
      in case ep_context ep of
           RUNTIME_PRIVATE \<Rightarrow>
             if origin \<notin> set (ap_private policy) then raiseE untrusted_endpoint else returnE direct
         | HOST_LOCAL \<Rightarrow>
             if \<not> ap_host_local policy \<or> \<not> loopback_host host then raiseE untrusted_endpoint
             else returnE direct
         | PUBLIC \<Rightarrow>
             (case public of
                None \<Rightarrow> raiseE untrusted_endpoint
              | Some resolver \<Rightarrow>
                  if host \<notin> set (ap_public_hosts policy)
                     \<or> (scheme \<noteq> ''https'' \<and> \<not> ap_plaintext policy)
                  then raiseE untrusted_endpoint
                  else bindE (pinned_address host resolver) (\<lambda>pinned.
                       returnE \<lparr>pt_context = ep_context ep,
                         pt_base_url = scheme @ ''://'' @ bracketed pinned @ '':'' @ show_nat port,
                         pt_host = pinned, pt_port = port,
                         pt_host_header = Some (host @ '':'' @ show_nat port), pt_sni = Some host\<rparr>)))"

definition authorize_probe_endpoint ::
  "(string \<Rightarrow> string list) \<Rightarrow> probe_endpoint \<Rightarrow> address_policy
    \<Rightarrow> (string \<Rightarrow> ('w, probe_exn, string) port) option
    \<Rightarrow> (string \<Rightarrow> ('w, probe_exn, string list) port) option \<Rightarrow> ('w, probe_target) probe_eff" where
  "authorize_probe_endpoint schemes ep policy secret public =
     bindE (resolve_address ep secret) (\<lambda>v.
     case urlsplit v of
       None \<Rightarrow> raiseE unsafe_endpoint
     | Some u \<Rightarrow>
         (case validated_shape schemes ep u of
            None \<Rightarrow> raiseE unsafe_endpoint
          | Some (host, port) \<Rightarrow> authorize_target policy ep public (su_scheme u) host port))"

section \<open>Facts\<close>

lemma least_ip_in: "least_ip a as \<in> set (a # as)"
  by (induction a as rule: least_ip.induct) auto

lemma ip_less_trans: "ip_less a b \<Longrightarrow> ip_less b c \<Longrightarrow> ip_less a c"
  by (auto simp: ip_less_def)

lemma ip_less_total: "\<not> ip_less b a \<Longrightarrow> ip_less c a \<Longrightarrow> ip_less c b"
  by (auto simp: ip_less_def)

lemma least_ip_least: "b \<in> set (a # as) \<Longrightarrow> \<not> ip_less b (least_ip a as)"
proof (induction a as arbitrary: b rule: least_ip.induct)
  case (1 a)
  then show ?case by (simp add: ip_less_def)
next
  case (2 a c cs)
  let ?m = "if ip_less c a then c else a"
  have step: "\<not> ip_less x (least_ip ?m cs)" if "x \<in> set (?m # cs)" for x
    using "2.IH" that by blast
  show ?case
  proof (cases "b \<in> set (?m # cs)")
    case True
    with step show ?thesis by simp
  next
    case False
    with "2.prems" have "\<not> ip_less b ?m"
      by (auto simp: ip_less_def split: if_splits)
    with step[of ?m] show ?thesis
      by (auto simp: ip_less_def split: if_splits)
  qed
qed

lemma all_some_Some: "all_some xs = Some ys \<Longrightarrow> xs = map Some ys"
  by (induction xs arbitrary: ys) (auto split: option.splits)

text \<open>What the chosen address is: the least of the answer, all of whose addresses are global.\<close>

definition pinned_from :: "string list \<Rightarrow> string \<Rightarrow> bool" where
  "pinned_from values pinned \<longleftrightarrow>
     (\<exists>v a. v \<in> set values \<and> ip_address v = Some a \<and> pinned = show_ip a
        \<and> (\<forall>w \<in> set values. \<exists>b. ip_address w = Some b \<and> is_global b \<and> \<not> ip_less b a))"

lemma pinned_choice_Inr:
  assumes "pinned_choice values = Inr pinned"
  shows "pinned_from values pinned"
proof -
  obtain a as where all: "all_some (map ip_address values) = Some (a # as)" "list_all is_global (a # as)"
    "pinned = show_ip (least_ip a as)"
    using assms by (auto simp: pinned_choice_def split: option.splits list.splits if_splits)
  from all_some_Some[OF all(1)] have map: "map ip_address values = map Some (a # as)" .
  then have image: "ip_address ` set values = Some ` set (a # as)"
    by (metis list.set_map)
  have "Some (least_ip a as) \<in> ip_address ` set values"
    unfolding image by (rule imageI[OF least_ip_in])
  then obtain v where v: "v \<in> set values" "ip_address v = Some (least_ip a as)" by auto
  have "\<exists>b. ip_address w = Some b \<and> is_global b \<and> \<not> ip_less b (least_ip a as)" if "w \<in> set values" for w
  proof -
    from that image obtain b where b: "ip_address w = Some b" "b \<in> set (a # as)"
      by (metis imageE imageI)
    with all(2) least_ip_least[OF b(2)] show ?thesis by (auto simp: list_all_iff)
  qed
  with v all(3) show ?thesis unfolding pinned_from_def by blast
qed

end
