(* ===== verification/Probe_Clients.thy ===== *)
theory Probe_Clients
  imports Probe_Security
begin

text \<open>
  \<open>probes/clients.py\<close>: the TCP, UDP and HTTP probe adapters, the router of transport probes
  and the static endpoint provider.  Each observation authorizes its endpoint and makes at
  most one exchange with the authorized target.  The socket, datagram and HTTP libraries are ports.
\<close>

section \<open>Intents and observations\<close>

datatype transport = TCP | UDP | OtherTransport string

datatype probe_outcome =
  REACHABLE | REFUSED | TIMED_OUT | UNKNOWN | HEALTHY | UNHEALTHY | MALFORMED

record transport_intent =
  ti_subject :: string
  ti_graph :: string
  ti_kind :: string
  ti_endpoint :: probe_endpoint

record health_intent =
  hi_subject :: string
  hi_graph :: string
  hi_kind :: string
  hi_endpoint :: probe_endpoint
  hi_path :: string
  hi_maximum :: nat
  hi_statuses :: "int list"

record observation =
  ob_subject :: string
  ob_graph :: string
  ob_kind :: string
  ob_outcome :: probe_outcome
  ob_context :: endpoint_context

text \<open>
  What the adapters share: the schemes and the transport of a protocol, the two resolvers, and
  what the core constructor of observations refuses (\<open>None\<close> when it accepts).
\<close>

record 'w probe_setting =
  se_schemes :: "string \<Rightarrow> string list"
  se_transport :: "string \<Rightarrow> transport"
  se_policy :: address_policy
  se_secret :: "(string \<Rightarrow> ('w, probe_exn, string) port) option"
  se_public :: "(string \<Rightarrow> ('w, probe_exn, string list) port) option"
  se_refuses :: "observation \<Rightarrow> probe_exn option"

definition transport_text :: "transport \<Rightarrow> string" where
  "transport_text t = (case t of TCP \<Rightarrow> ''tcp'' | UDP \<Rightarrow> ''udp'' | OtherTransport name \<Rightarrow> name)"

definition authorized :: "'w probe_setting \<Rightarrow> probe_endpoint \<Rightarrow> ('w, probe_target) probe_eff" where
  "authorized se ep = authorize_probe_endpoint (se_schemes se) ep (se_policy se) (se_secret se) (se_public se)"

definition make_observation :: "'w probe_setting \<Rightarrow> observation \<Rightarrow> ('w, observation) probe_eff" where
  "make_observation se ob = (case se_refuses se ob of None \<Rightarrow> returnE ob | Some e \<Rightarrow> raiseE e)"

definition transport_observation :: "'w probe_setting \<Rightarrow> transport_intent \<Rightarrow> probe_outcome \<Rightarrow> ('w, observation) probe_eff" where
  "transport_observation se intent out =
     make_observation se \<lparr>ob_subject = ti_subject intent, ob_graph = ti_graph intent, ob_kind = ti_kind intent,
       ob_outcome = out, ob_context = ep_context (ti_endpoint intent)\<rparr>"

definition health_observation :: "'w probe_setting \<Rightarrow> health_intent \<Rightarrow> probe_outcome \<Rightarrow> ('w, observation) probe_eff" where
  "health_observation se intent out =
     make_observation se \<lparr>ob_subject = hi_subject intent, ob_graph = hi_graph intent, ob_kind = hi_kind intent,
       ob_outcome = out, ob_context = ep_context (hi_endpoint intent)\<rparr>"

definition endpoint_for ::
  "((string \<times> string) \<times> probe_endpoint) list \<Rightarrow> string \<Rightarrow> string \<Rightarrow> probe_exn + probe_endpoint" where
  "endpoint_for endpoints subject graph =
     (case map_of endpoints (subject, graph) of
        None \<Rightarrow> Inl (OrdinaryError ''KeyError'')
      | Some ep \<Rightarrow>
          if ep_subject ep \<noteq> subject \<or> ep_graph ep \<noteq> graph then Inl (OrdinaryError ''ValueError'')
          else Inr ep)"

section \<open>Transport probes\<close>

text \<open>The outcome of a socket exception the adapters catch.\<close>

fun socket_outcome :: "probe_exn \<Rightarrow> probe_outcome option" where
  "socket_outcome ConnectionRefused = Some REFUSED"
| "socket_outcome ConnectionReset = Some REFUSED"
| "socket_outcome TimedOut = Some TIMED_OUT"
| "socket_outcome (OtherOSError _) = Some UNKNOWN"
| "socket_outcome _ = None"

definition error_of :: "probe_exn + 'a \<Rightarrow> probe_exn option" where
  "error_of r = (case r of Inl e \<Rightarrow> Some e | Inr _ \<Rightarrow> None)"

text \<open>\<open>connect\<close> is the connector and \<open>close\<close> the \<open>close\<close> of its connection.\<close>

definition tcp_observe ::
  "'w probe_setting \<Rightarrow> (string \<Rightarrow> nat \<Rightarrow> rat \<Rightarrow> ('w, probe_exn, 'c) port) \<Rightarrow> ('c \<Rightarrow> ('w, probe_exn, unit) port)
    \<Rightarrow> transport_intent \<Rightarrow> rat \<Rightarrow> ('w, observation) probe_eff" where
  "tcp_observe se connect close intent timeout =
     (let kind = se_transport se (ep_protocol (ti_endpoint intent))
      in if kind \<noteq> TCP then raiseE (UnsupportedTransportProbe (transport_text kind))
         else bindE (authorized se (ti_endpoint intent)) (\<lambda>target.
           attemptE (callE (\<lambda>r. SocketConnected (pt_host target) (pt_port target) (error_of r))
               (connect (pt_host target) (pt_port target) timeout))
             (\<lambda>e. case socket_outcome e of
                 None \<Rightarrow> raiseE e
               | Some out \<Rightarrow> transport_observation se intent out)
             (\<lambda>c. bindE (callE (\<lambda>_. SocketClosed) (close c)) (\<lambda>_.
                transport_observation se intent REACHABLE))))"

record udp_settings =
  us_payload :: "nat list"
  us_maximum :: int

definition make_udp_settings :: "nat list \<Rightarrow> int \<Rightarrow> probe_exn + udp_settings" where
  "make_udp_settings payload maximum =
     (if payload = [] \<or> 512 < length payload then Inl (OrdinaryError ''ValueError'')
      else if maximum < 1 \<or> 65536 < maximum then Inl (OrdinaryError ''ValueError'')
      else Inr \<lparr>us_payload = payload, us_maximum = maximum\<rparr>)"

definition udp_observe ::
  "'w probe_setting \<Rightarrow> udp_settings \<Rightarrow> (string \<Rightarrow> nat \<Rightarrow> nat list \<Rightarrow> int \<Rightarrow> rat \<Rightarrow> ('w, probe_exn, nat list) port)
    \<Rightarrow> transport_intent \<Rightarrow> rat \<Rightarrow> ('w, observation) probe_eff" where
  "udp_observe se us exchange intent timeout =
     (let kind = se_transport se (ep_protocol (ti_endpoint intent))
      in if kind \<noteq> UDP then raiseE (UnsupportedTransportProbe (transport_text kind))
         else bindE (authorized se (ti_endpoint intent)) (\<lambda>target.
           attemptE (callE (DatagramExchanged (pt_host target) (pt_port target) (us_payload us))
               (exchange (pt_host target) (pt_port target) (us_payload us) (us_maximum us) timeout))
             (\<lambda>e. case socket_outcome e of
                 None \<Rightarrow> raiseE e
               | Some out \<Rightarrow> transport_observation se intent out)
             (\<lambda>response. transport_observation se intent
                (if response \<noteq> [] \<and> int (length response) \<le> us_maximum us then REACHABLE else UNKNOWN))))"

definition route_transport ::
  "'w probe_setting \<Rightarrow> (transport_intent \<Rightarrow> rat \<Rightarrow> ('w, observation) probe_eff)
    \<Rightarrow> (transport_intent \<Rightarrow> rat \<Rightarrow> ('w, observation) probe_eff)
    \<Rightarrow> transport_intent \<Rightarrow> rat \<Rightarrow> ('w, observation) probe_eff" where
  "route_transport se tcp udp intent timeout =
     (case se_transport se (ep_protocol (ti_endpoint intent)) of
        TCP \<Rightarrow> tcp intent timeout
      | UDP \<Rightarrow> udp intent timeout
      | kind \<Rightarrow> raiseE (UnsupportedTransportProbe (transport_text kind)))"

section \<open>Application health\<close>

text \<open>
  The bounded reading of a response: \<open>Inl\<close> the exception of the stream, otherwise the size
  read and whether it passed the bound.
\<close>

fun read_bounded :: "nat \<Rightarrow> nat \<Rightarrow> nat list list \<Rightarrow> probe_exn option \<Rightarrow> probe_exn + nat \<times> bool" where
  "read_bounded maximum n [] fault =
     (case fault of None \<Rightarrow> Inr (n, False) | Some e \<Rightarrow> Inl e)"
| "read_bounded maximum n (chunk # chunks) fault =
     (let n' = n + length chunk
      in if maximum < n' then Inr (n', True) else read_bounded maximum n' chunks fault)"

text \<open>\<open>try: read finally: response.close()\<close>: an exception of the close replaces any other outcome.\<close>

definition read_closing ::
  "nat \<Rightarrow> ('w, probe_exn, unit) port \<Rightarrow> probe_response \<Rightarrow> ('w, nat \<times> bool) probe_eff" where
  "read_closing maximum close response =
     bindE (callE (\<lambda>r. ResponseClosed (error_of r)) close) (\<lambda>_.
     liftE (read_bounded maximum 0 (hr_chunks response) (hr_fault response)))"

definition redirected :: "int \<Rightarrow> bool" where
  "redirected status \<longleftrightarrow> 300 \<le> status \<and> status < 400"

text \<open>The exceptions the adapter turns into an outcome, in the order of its handlers.\<close>

fun http_outcome :: "probe_exn \<Rightarrow> probe_outcome option" where
  "http_outcome HttpTimeout = Some TIMED_OUT"
| "http_outcome (HttpConnect refused) = Some (if refused then REFUSED else UNKNOWN)"
| "http_outcome HttpProtocol = Some MALFORMED"
| "http_outcome OtherHttpError = Some UNKNOWN"
| "http_outcome _ = None"

definition health_outcome :: "health_intent \<Rightarrow> int \<Rightarrow> probe_outcome" where
  "health_outcome intent status =
     (if redirected status then MALFORMED
      else if status \<in> set (hi_statuses intent) then HEALTHY else UNHEALTHY)"

text \<open>
  \<open>send\<close> builds and sends one request, without redirects and without the environment's proxies,
  and \<open>close\<close> closes its response; the client around them closes when the block ends.
\<close>

definition http_exchange ::
  "(probe_request \<Rightarrow> ('w, probe_exn, probe_response) port) \<Rightarrow> ('w, probe_exn, unit) port \<Rightarrow> nat \<Rightarrow> rat list
    \<Rightarrow> probe_target \<Rightarrow> string \<Rightarrow> ('w, probe_response \<times> nat \<times> bool) probe_eff" where
  "http_exchange send close maximum timeouts target path =
     bindE (liftE (request_url target path)) (\<lambda>url.
     let rq = \<lparr>hq_url = url, hq_host = pt_host_header target, hq_sni = pt_sni target, hq_timeouts = timeouts\<rparr>
     in bindE (callE (HttpSent rq) (send rq)) (\<lambda>response.
        bindE (read_closing maximum close response) (\<lambda>read. returnE (response, read))))"

definition health_timeouts :: "rat \<Rightarrow> rat list" where
  "health_timeouts t = [min t 5, t, t, min t 5]"

definition http_health_observe ::
  "'w probe_setting \<Rightarrow> (probe_request \<Rightarrow> ('w, probe_exn, probe_response) port) \<Rightarrow> ('w, probe_exn, unit) port
    \<Rightarrow> health_intent \<Rightarrow> rat \<Rightarrow> ('w, observation) probe_eff" where
  "http_health_observe se send close intent timeout =
     attemptE
       (bindE (authorized se (hi_endpoint intent)) (\<lambda>target.
        bindE (http_exchange send close (hi_maximum intent) (health_timeouts timeout) target (hi_path intent))
          (\<lambda>(response, _, overflow).
             health_observation se intent
               (if overflow then MALFORMED else health_outcome intent (hr_status response)))))
       (\<lambda>e. case http_outcome e of
           None \<Rightarrow> raiseE e
         | Some out \<Rightarrow> health_observation se intent out)
       returnE"

end
