(* ===== verification/Verification.thy ===== *)
theory Verification
  imports Probe_Clients
begin

text \<open>
  \<open>verification.py\<close> and \<open>timing.py\<close>: the interpreters of the HTTP, Redis and Postgres checks, each a
  bounded number of exchanges with an authorized target.  The core's constructors of evidence and
  of results are represented by what they refuse.
\<close>

section \<open>Checks\<close>

datatype capability = HTTP_CHECK | REDIS_CHECK | POSTGRES_CHECK

datatype check_verdict = PASSED | FAILED | REJECTED | CHECK_TIMED_OUT | CHECK_MALFORMED

text \<open>Status and size, the expected digest and whether the body had it; the size of an answer.\<close>

datatype evidence = HttpEvidence int nat "string option" "bool option" | RedisEvidence nat

record check_policy =
  kp_attempts :: nat
  kp_interval :: rat
  kp_timeout :: rat
  kp_maximum :: nat

record check_base =
  kb_id :: string
  kb_socket :: string
  kb_policy :: check_policy

record http_check =
  hc_path :: string
  hc_statuses :: "int list"
  hc_sha256 :: "string option"

record postgres_authentication =
  pa_database :: string
  pa_username :: string
  pa_reference :: string

datatype check =
    HttpCheck check_base http_check
  | PostgresQueryCheck check_base "postgres_authentication option"
  | RedisCheck check_base

fun check_base_of :: "check \<Rightarrow> check_base" where
  "check_base_of (HttpCheck b _) = b"
| "check_base_of (PostgresQueryCheck b _) = b"
| "check_base_of (RedisCheck b) = b"

record check_material =
  km_node :: string
  km_graph :: string
  km_check :: check
  km_endpoint :: probe_endpoint

definition make_material :: "string \<Rightarrow> string \<Rightarrow> check \<Rightarrow> probe_endpoint \<Rightarrow> probe_exn + check_material" where
  "make_material node graph check ep =
     bindR (requireR (py_strip node \<noteq> []) (OrdinaryError ''ValueError'')) (\<lambda>_.
     bindR (requireR (py_strip graph \<noteq> []) (OrdinaryError ''ValueError'')) (\<lambda>_.
     bindR (requireR (ep_subject ep = node \<and> ep_graph ep = graph) (OrdinaryError ''ValueError'')) (\<lambda>_.
     bindR (requireR (ep_socket ep = kb_socket (check_base_of check)) (OrdinaryError ''ValueError'')) (\<lambda>_.
     Inr \<lparr>km_node = node, km_graph = graph, km_check = check, km_endpoint = ep\<rparr>))))"

type_synonym check_identity = "string \<times> string \<times> string"

definition verification_identity :: "check_material \<Rightarrow> check_identity" where
  "verification_identity m = (km_node m, km_graph m, kb_id (check_base_of (km_check m)))"

record completed =
  co_identity :: check_identity
  co_capability :: capability
  co_outcome :: check_verdict
  co_attempts :: nat
  co_evidence :: "evidence option"

datatype check_result = Completed completed | Unsupported check_identity capability

record 'w check_setting =
  cs_probe :: "'w probe_setting"
  cs_evidence_refuses :: "evidence \<Rightarrow> probe_exn option"
  cs_refuses :: "completed \<Rightarrow> probe_exn option"
  cs_sleep :: "rat \<Rightarrow> ('w, probe_exn, unit) port"

definition check_observation ::
  "'w check_setting \<Rightarrow> check_material \<Rightarrow> capability \<Rightarrow> check_verdict \<Rightarrow> nat \<Rightarrow> evidence option
    \<Rightarrow> ('w, completed) probe_eff" where
  "check_observation se m cap out attempts ev =
     (let c = \<lparr>co_identity = verification_identity m, co_capability = cap, co_outcome = out,
                co_attempts = attempts, co_evidence = ev\<rparr>
      in case cs_refuses se c of None \<Rightarrow> returnE c | Some e \<Rightarrow> raiseE e)"

definition make_evidence :: "'w check_setting \<Rightarrow> evidence \<Rightarrow> ('w, evidence) probe_eff" where
  "make_evidence se ev = (case cs_evidence_refuses se ev of None \<Rightarrow> returnE ev | Some e \<Rightarrow> raiseE e)"

section \<open>Attempts\<close>

definition verification_attempts :: "check_policy \<Rightarrow> nat list" where
  "verification_attempts policy = [1..<kp_attempts policy + 1]"

definition pause :: "'w check_setting \<Rightarrow> check_policy \<Rightarrow> nat \<Rightarrow> ('w, unit) probe_eff" where
  "pause se policy n =
     (if 1 < n then callE (\<lambda>_. Slept (kp_interval policy)) (cs_sleep se (kp_interval policy)) else returnE ())"

text \<open>
  The loop over the attempts: the body yields the last result and whether it is returned at once.
\<close>

fun over_attempts ::
  "'w check_setting \<Rightarrow> check_policy \<Rightarrow> nat list \<Rightarrow> completed \<Rightarrow> (nat \<Rightarrow> ('w, bool \<times> completed) probe_eff)
    \<Rightarrow> ('w, completed) probe_eff" where
  "over_attempts se policy [] last_one body = returnE last_one"
| "over_attempts se policy (n # ns) last_one body =
     bindE (pause se policy n) (\<lambda>_.
     bindE (body n) (\<lambda>(stop, c).
       if stop then returnE c else over_attempts se policy ns c body))"

definition returns_passed :: "('w, completed) probe_eff \<Rightarrow> ('w, bool \<times> completed) probe_eff" where
  "returns_passed m = bindE m (\<lambda>c. returnE (co_outcome c = PASSED, c))"

definition completing :: "('w, completed) probe_eff \<Rightarrow> ('w, check_result) probe_eff" where
  "completing m = bindE m (\<lambda>c. returnE (Completed c))"

section \<open>HTTP\<close>

fun http_check_outcome :: "probe_exn \<Rightarrow> check_verdict option" where
  "http_check_outcome HttpTimeout = Some CHECK_TIMED_OUT"
| "http_check_outcome HttpProtocol = Some CHECK_MALFORMED"
| "http_check_outcome (HttpConnect _) = Some FAILED"
| "http_check_outcome OtherHttpError = Some FAILED"
| "http_check_outcome _ = None"

definition response_verdict :: "http_check \<Rightarrow> int \<Rightarrow> bool \<Rightarrow> check_verdict" where
  "response_verdict hc status overflow =
     (if overflow \<or> redirected status then CHECK_MALFORMED
      else if status \<in> set (hc_statuses hc) then PASSED else FAILED)"

definition http_attempt ::
  "'w check_setting \<Rightarrow> (probe_request \<Rightarrow> ('w, probe_exn, probe_response) port) \<Rightarrow> ('w, probe_exn, unit) port
    \<Rightarrow> check_material \<Rightarrow> check_policy \<Rightarrow> http_check \<Rightarrow> probe_target \<Rightarrow> nat \<Rightarrow> ('w, completed) probe_eff" where
  "http_attempt se send close m policy hc target n =
     (let t = kp_timeout policy
      in attemptE
           (bindE (http_exchange send close (kp_maximum policy) [t, t, t, t] target (hc_path hc))
             (\<lambda>(response, size_read, overflow).
              bindE (make_evidence se (HttpEvidence (hr_status response) (min size_read (kp_maximum policy)) None None))
                (\<lambda>ev. check_observation se m HTTP_CHECK (response_verdict hc (hr_status response) overflow) n (Some ev))))
           (\<lambda>e. case http_check_outcome e of
               None \<Rightarrow> raiseE e
             | Some out \<Rightarrow> check_observation se m HTTP_CHECK out n None)
           returnE)"

definition security_code_of :: "probe_exn \<Rightarrow> security_code option" where
  "security_code_of e = (case e of ProbeSecurityError code \<Rightarrow> Some code | _ \<Rightarrow> None)"

text \<open>One attempt at a public endpoint: it is authorized, and its name resolved, anew.\<close>

definition public_attempt ::
  "'w check_setting \<Rightarrow> (probe_request \<Rightarrow> ('w, probe_exn, probe_response) port) \<Rightarrow> ('w, probe_exn, unit) port
    \<Rightarrow> check_material \<Rightarrow> check_policy \<Rightarrow> http_check \<Rightarrow> nat \<Rightarrow> ('w, bool \<times> completed) probe_eff" where
  "public_attempt se send close m policy hc n =
     attemptE (authorized (cs_probe se) (km_endpoint m))
       (\<lambda>e. case security_code_of e of
           None \<Rightarrow> raiseE e
         | Some code \<Rightarrow> bindE (check_observation se m HTTP_CHECK REJECTED n None)
               (\<lambda>c. returnE (code \<noteq> UNRESOLVED_ENDPOINT, c)))
       (\<lambda>target. returns_passed (http_attempt se send close m policy hc target n))"

definition http_execute ::
  "'w check_setting \<Rightarrow> (probe_request \<Rightarrow> ('w, probe_exn, probe_response) port) \<Rightarrow> ('w, probe_exn, unit) port
    \<Rightarrow> check_material \<Rightarrow> ('w, check_result) probe_eff" where
  "http_execute se send close m =
     (case km_check m of
        HttpCheck base hc \<Rightarrow>
          let policy = kb_policy base;
              attempts = (\<lambda>body. bindE (check_observation se m HTTP_CHECK FAILED 1 None) (\<lambda>c.
                over_attempts se policy (verification_attempts policy) c body))
          in completing
            (if ep_context (km_endpoint m) = PUBLIC
             then attempts (public_attempt se send close m policy hc)
             else attemptE (authorized (cs_probe se) (km_endpoint m))
                    (\<lambda>e. case security_code_of e of
                        None \<Rightarrow> raiseE e
                      | Some _ \<Rightarrow> check_observation se m HTTP_CHECK REJECTED 1 None)
                    (\<lambda>target. attempts (\<lambda>n. returns_passed (http_attempt se send close m policy hc target n))))
      | _ \<Rightarrow> returnE (Unsupported (verification_identity m) HTTP_CHECK))"

section \<open>Redis\<close>

definition pong :: "nat list" where
  "pong = map code_of ''+PONG'' @ [13, 10]"

definition ping_command :: "nat list" where
  "ping_command = map code_of ''*1'' @ [13, 10] @ map code_of ''$4'' @ [13, 10] @ map code_of ''PING'' @ [13, 10]"

definition ends_line :: "nat list \<Rightarrow> bool" where
  "ends_line bs \<longleftrightarrow> 2 \<le> length bs \<and> drop (length bs - 2) bs = [13, 10]"

definition ping_outcome :: "nat \<Rightarrow> nat list \<Rightarrow> check_verdict" where
  "ping_outcome maximum response =
     (if maximum < length response then CHECK_MALFORMED
      else if response = pong then PASSED else FAILED)"

text \<open>The outcome of the socket exceptions the interpreters catch.\<close>

definition socket_check_outcome :: "probe_exn \<Rightarrow> check_verdict option" where
  "socket_check_outcome e =
     (case socket_outcome e of None \<Rightarrow> None | Some out \<Rightarrow> Some (if out = TIMED_OUT then CHECK_TIMED_OUT else FAILED))"

definition redis_attempt ::
  "'w check_setting \<Rightarrow> (string \<Rightarrow> nat \<Rightarrow> rat \<Rightarrow> nat \<Rightarrow> ('w, probe_exn, nat list) port)
    \<Rightarrow> check_material \<Rightarrow> check_policy \<Rightarrow> probe_target \<Rightarrow> nat \<Rightarrow> ('w, completed) probe_eff" where
  "redis_attempt se ping m policy target n =
     attemptE
       (bindE (callE (Pinged (pt_host target) (pt_port target))
                 (ping (pt_host target) (pt_port target) (kp_timeout policy) (kp_maximum policy))) (\<lambda>response.
        bindE (make_evidence se (RedisEvidence (min (length response) (kp_maximum policy)))) (\<lambda>ev.
        check_observation se m REDIS_CHECK (ping_outcome (kp_maximum policy) response) n (Some ev))))
       (\<lambda>e. case socket_check_outcome e of
           None \<Rightarrow> raiseE e
         | Some out \<Rightarrow> check_observation se m REDIS_CHECK out n None)
       returnE"

definition redis_execute ::
  "'w check_setting \<Rightarrow> (string \<Rightarrow> nat \<Rightarrow> rat \<Rightarrow> nat \<Rightarrow> ('w, probe_exn, nat list) port)
    \<Rightarrow> check_material \<Rightarrow> ('w, check_result) probe_eff" where
  "redis_execute se ping m =
     (case km_check m of
        RedisCheck base \<Rightarrow>
          let policy = kb_policy base
          in completing
            (attemptE (authorized (cs_probe se) (km_endpoint m))
              (\<lambda>e. case security_code_of e of
                  None \<Rightarrow> raiseE e
                | Some _ \<Rightarrow> check_observation se m REDIS_CHECK REJECTED 1 None)
              (\<lambda>target. bindE (check_observation se m REDIS_CHECK FAILED 1 None) (\<lambda>c.
                 over_attempts se policy (verification_attempts policy) c
                   (\<lambda>n. returns_passed (redis_attempt se ping m policy target n)))))
      | _ \<Rightarrow> returnE (Unsupported (verification_identity m) REDIS_CHECK))"

text \<open>
  The default transport: one PING over a fresh socket.  \<open>connect\<close> opens it, \<open>send_all\<close>,
  \<open>receive\<close> (at most so many bytes) and \<open>close\<close> are its methods.
\<close>

function receive_line ::
  "(nat \<Rightarrow> ('w, probe_exn, nat list) port) \<Rightarrow> nat \<Rightarrow> nat list \<Rightarrow> ('w, nat list) probe_eff" where
  "receive_line receive maximum response s =
     (if ends_line response then (Inr response, s)
      else let n = min 4096 (maximum + 1 - length response)
           in case callE (BytesReceived n) (receive n) s of
                (Inl e, s') \<Rightarrow> (Inl e, s')
              | (Inr chunk, s') \<Rightarrow>
                  if chunk = [] then (Inr response, s')
                  else if maximum < length (response @ chunk) then (Inr (response @ chunk), s')
                  else receive_line receive maximum (response @ chunk) s')"
  by pat_completeness auto
termination
  by (relation "measure (\<lambda>(_, maximum, response, _). maximum + 1 - length response)")
    (auto simp: neq_Nil_conv)

definition socket_ping ::
  "(string \<Rightarrow> nat \<Rightarrow> rat \<Rightarrow> ('w, probe_exn, unit) port) \<Rightarrow> (nat list \<Rightarrow> ('w, probe_exn, unit) port)
    \<Rightarrow> (nat \<Rightarrow> ('w, probe_exn, nat list) port) \<Rightarrow> ('w, probe_exn, unit) port
    \<Rightarrow> string \<Rightarrow> nat \<Rightarrow> rat \<Rightarrow> nat \<Rightarrow> ('w, nat list) probe_eff" where
  "socket_ping connect send_all receive close host port timeout maximum =
     bindE (callE (\<lambda>r. SocketConnected host port (error_of r)) (connect host port timeout)) (\<lambda>_.
     attemptE
       (bindE (callE (\<lambda>_. BytesSent ping_command) (send_all ping_command)) (\<lambda>_.
        receive_line receive maximum []))
       (\<lambda>e. bindE (callE (\<lambda>_. SocketClosed) close) (\<lambda>_. raiseE e))
       (\<lambda>response. bindE (callE (\<lambda>_. SocketClosed) close) (\<lambda>_. returnE response)))"

section \<open>Postgres\<close>

text \<open>
  The interpreter's resolvers and transport.  \<open>pg_read\<close> and \<open>pg_read_reference\<close> are what
  \<open>require_authorized_secret\<close> and \<open>require_resolved_secret\<close> make of the one resolution they ask
  for; \<open>pg_grant_ok\<close> and \<open>pg_authorization\<close> are the class test and the authorization id of a
  grant.
\<close>

record ('w, 'g, 'res, 'v) postgres_interpreter =
  pg_select :: "probe_target \<Rightarrow> string \<Rightarrow> string \<Rightarrow> 'v \<Rightarrow> rat \<Rightarrow> ('w, probe_exn, bool) port"
  pg_credential :: "(string \<Rightarrow> ('w, probe_exn, 'res) port) option"
  pg_authorized :: "('g \<Rightarrow> ('w, probe_exn, 'res) port) option"
  pg_grant :: "'g option"
  pg_permits :: "'g \<Rightarrow> string \<Rightarrow> bool"
  pg_grant_ok :: "'g \<Rightarrow> bool"
  pg_authorization :: "'g \<Rightarrow> string"
  pg_read :: "'g \<Rightarrow> 'res \<Rightarrow> probe_exn + 'v"
  pg_read_reference :: "string \<Rightarrow> 'res \<Rightarrow> probe_exn + 'v"

definition probe_vocabulary :: "(probe_exn, probe_event) vocabulary" where
  "probe_vocabulary =
     \<lparr>vo_is_exception = is_ordinary, vo_is_cancelled = (\<lambda>e. e = Cancelled), vo_port_error = InvocationPortError,
      vo_type_error = OrdinaryError ''TypeError'', vo_admit = Admitted, vo_record = Recorded\<rparr>"

definition invocation_port_error :: "probe_exn \<Rightarrow> bool" where
  "invocation_port_error e = (case e of InvocationPortError _ \<Rightarrow> True | _ \<Rightarrow> False)"

definition is_secret_error :: "probe_exn \<Rightarrow> bool" where
  "is_secret_error e = (case e of SecretResolutionError _ \<Rightarrow> True | _ \<Rightarrow> False)"

definition resolved_for ::
  "('w, 'g, 'res, 'v) postgres_interpreter \<Rightarrow> ('w, probe_exn, 'p) invocation_port option
    \<Rightarrow> ('g \<Rightarrow> ('w, probe_exn, 'res) port) \<Rightarrow> 'g \<Rightarrow> ('w, 'res) probe_eff" where
  "resolved_for pg port resolver grant =
     (let call = (\<lambda>g. callE (\<lambda>_. CredentialResolved (pg_authorization pg g)) (resolver g))
      in case port of
           None \<Rightarrow> call grant
         | Some p \<Rightarrow> bindE (prepared_resolve probe_vocabulary (Some p) (pg_grant_ok pg) (pg_authorization pg) call
               fresh_prepared grant) (\<lambda>(result, prep). returnE result))"

definition postgres_password ::
  "('w, 'g, 'res, 'v) postgres_interpreter \<Rightarrow> ('w, probe_exn, 'p) invocation_port option
    \<Rightarrow> postgres_authentication \<Rightarrow> ('w, 'v) probe_eff" where
  "postgres_password pg port auth =
     (case pg_authorized pg of
        Some resolver \<Rightarrow>
          (case pg_grant pg of
             None \<Rightarrow> raiseE (SecretResolutionError SECRET_DENIED)
           | Some grant \<Rightarrow>
               if \<not> pg_permits pg grant (pa_reference auth) then raiseE (SecretResolutionError SECRET_DENIED)
               else bindE (resolved_for pg port resolver grant) (\<lambda>result. liftE (pg_read pg grant result)))
      | None \<Rightarrow>
          (case pg_credential pg of
             None \<Rightarrow> raiseE (OrdinaryError ''AssertionError'')
           | Some resolver \<Rightarrow>
               bindE (callE (\<lambda>_. CredentialResolved (pa_reference auth)) (resolver (pa_reference auth)))
                 (\<lambda>result. liftE (pg_read_reference pg (pa_reference auth) result))))"

definition query_attempt ::
  "'w check_setting \<Rightarrow> ('w, 'g, 'res, 'v) postgres_interpreter \<Rightarrow> check_material \<Rightarrow> check_policy
    \<Rightarrow> postgres_authentication \<Rightarrow> probe_target \<Rightarrow> 'v \<Rightarrow> (probe_exn \<Rightarrow> bool) \<Rightarrow> nat \<Rightarrow> ('w, completed) probe_eff" where
  "query_attempt se pg m policy auth target password control n =
     attemptE (callE (Queried target)
         (pg_select pg target (pa_database auth) (pa_username auth) password (kp_timeout policy)))
       (\<lambda>e. if control e then raiseE e
             else case socket_check_outcome e of
                 None \<Rightarrow> raiseE e
               | Some out \<Rightarrow> check_observation se m POSTGRES_CHECK out n None)
       (\<lambda>selected. check_observation se m POSTGRES_CHECK (if selected then PASSED else FAILED) n None)"

definition query_attempts ::
  "'w check_setting \<Rightarrow> ('w, 'g, 'res, 'v) postgres_interpreter \<Rightarrow> check_material \<Rightarrow> check_policy
    \<Rightarrow> postgres_authentication \<Rightarrow> probe_target \<Rightarrow> 'v \<Rightarrow> (probe_exn \<Rightarrow> bool) \<Rightarrow> ('w, completed) probe_eff" where
  "query_attempts se pg m policy auth target password control =
     bindE (check_observation se m POSTGRES_CHECK FAILED 1 None) (\<lambda>c.
     over_attempts se policy (verification_attempts policy) c
       (\<lambda>n. returns_passed (query_attempt se pg m policy auth target password control n)))"

definition postgres_rejected :: "'w check_setting \<Rightarrow> check_material \<Rightarrow> ('w, completed) probe_eff" where
  "postgres_rejected se m = check_observation se m POSTGRES_CHECK REJECTED 1 None"

definition postgres_execute ::
  "'w check_setting \<Rightarrow> ('w, 'g, 'res, 'v) postgres_interpreter \<Rightarrow> ('w, probe_exn, 'p) invocation_port option
    \<Rightarrow> check_material \<Rightarrow> ('w, check_result) probe_eff" where
  "postgres_execute se pg port m =
     bindE (liftE (control_errors probe_vocabulary port False)) (\<lambda>controls.
     let control = (\<lambda>e. invocation_port_error e \<or> matches_any controls e)
     in case km_check m of
       PostgresQueryCheck base (Some auth) \<Rightarrow>
         completing
           (if pg_authorized pg = None \<and> (port \<noteq> None \<or> pg_credential pg = None) then postgres_rejected se m
            else attemptE (authorized (cs_probe se) (km_endpoint m))
              (\<lambda>e. if control e \<or> security_code_of e = None then raiseE e else postgres_rejected se m)
              (\<lambda>target. attemptE (postgres_password pg port auth)
                (\<lambda>e. if control e \<or> \<not> is_secret_error e then raiseE e else postgres_rejected se m)
                (\<lambda>password. invoke probe_vocabulary port ''ordinary-verification-check''
                   (query_attempts se pg m (kb_policy base) auth target password control) None)))
     | PostgresQueryCheck base None \<Rightarrow> completing (postgres_rejected se m)
     | _ \<Rightarrow> returnE (Unsupported (verification_identity m) POSTGRES_CHECK))"

text \<open>
  The default transport: \<open>session\<close> is one psycopg connection on which \<open>SELECT 1\<close> is executed, and
  the row it fetched; \<open>connect_timeout\<close> is its whole number of seconds.
\<close>

definition connect_timeout :: "rat \<Rightarrow> int" where
  "connect_timeout t = max 1 (if 0 \<le> t then \<lfloor>t\<rfloor> else \<lceil>t\<rceil>)"

definition psycopg_select_one ::
  "(string \<Rightarrow> nat \<Rightarrow> string \<Rightarrow> string \<Rightarrow> 'v \<Rightarrow> int \<Rightarrow> ('w, probe_exn, int list option) port)
    \<Rightarrow> probe_target \<Rightarrow> string \<Rightarrow> string \<Rightarrow> 'v \<Rightarrow> rat \<Rightarrow> ('w, probe_exn, bool) port" where
  "psycopg_select_one session target database username password timeout w =
     (case session (pt_host target) (pt_port target) database username password (connect_timeout timeout) w of
        (Inr row, w') \<Rightarrow> (Inr (row = Some [1]), w')
      | (Inl e, w') \<Rightarrow>
          (Inl (if e = TimedOut \<or> \<not> is_ordinary e then e
                else OtherOSError ''Postgres select-one verification failed''), w'))"

end
