(* ===== verification/Probe_Security_Props.thy ===== *)
theory Probe_Security_Props
  imports Probe_Security
begin

text \<open>
  An authorized target is one the policy trusts, a public one is pinned to an address resolved for
  this very request, and a request path never changes the authority of its target.
\<close>

section \<open>Trusted targets\<close>

definition direct_trusted :: "address_policy \<Rightarrow> probe_target \<Rightarrow> bool" where
  "direct_trusted policy t \<longleftrightarrow>
     (case pt_context t of
        RUNTIME_PRIVATE \<Rightarrow> pt_base_url t \<in> set (ap_private policy)
      | HOST_LOCAL \<Rightarrow> ap_host_local policy \<and> loopback_host (pt_host t)
      | PUBLIC \<Rightarrow> False)"

definition pinned_trusted :: "address_policy \<Rightarrow> probe_event \<Rightarrow> probe_target \<Rightarrow> bool" where
  "pinned_trusted policy ev t \<longleftrightarrow>
     (\<exists>host values. ev = HostResolved host (Inr values) \<and> host \<in> set (ap_public_hosts policy)
        \<and> pt_context t = PUBLIC \<and> pt_sni t = Some host
        \<and> pt_host_header t = Some (host @ '':'' @ show_nat (pt_port t))
        \<and> pinned_from values (pt_host t)
        \<and> (py_startswith (pt_base_url t) ''https://'' \<or> ap_plaintext policy))"

definition endpoint_only :: "probe_event list \<Rightarrow> bool" where
  "endpoint_only evs \<longleftrightarrow> (\<forall>ev \<in> set evs. \<exists>ref ok. ev = EndpointResolved ref ok)"

definition trusted_outcome ::
  "address_policy \<Rightarrow> probe_endpoint \<Rightarrow> probe_event list \<Rightarrow> probe_exn + probe_target \<Rightarrow> bool" where
  "trusted_outcome policy ep evs r \<longleftrightarrow>
     (\<exists>front rest. evs = front @ rest \<and> endpoint_only front \<and> length front \<le> 1 \<and> length rest \<le> 1
        \<and> (\<forall>ev \<in> set rest. \<exists>host x. ev = HostResolved host x \<and> host \<in> set (ap_public_hosts policy)
             \<and> ep_context ep = PUBLIC)
        \<and> (\<forall>t. r = Inr t \<longrightarrow> pt_context t = ep_context ep
             \<and> (rest = [] \<and> direct_trusted policy t \<or> (\<exists>ev. rest = [ev] \<and> pinned_trusted policy ev t))))"

lemma trusted_failed: "endpoint_only evs \<Longrightarrow> length evs \<le> 1 \<Longrightarrow> trusted_outcome policy ep evs (Inl e)"
  unfolding trusted_outcome_def by (intro exI[of _ evs] exI[of _ "[]"]) simp

lemma emits_resolve_address:
  "emits (resolve_address ep resolver) (\<lambda>evs r. endpoint_only evs \<and> length evs \<le> 1)"
  unfolding resolve_address_def
  by (auto split: endpoint_address.split option.split intro!: emit_intros emits_attemptE[OF emits_callE_eq]
      simp: endpoint_only_def split: probe_exn.split)

lemma emits_pinned:
  "emits (pinned_address host resolver)
     (\<lambda>evs r. \<exists>x. evs = [HostResolved host x]
        \<and> (\<forall>p. r = Inr p \<longrightarrow> (\<exists>values. x = Inr values \<and> pinned_from values p)))"
  unfolding pinned_address_def
  by (rule emits_attemptE[OF emits_callE_eq]) (auto intro!: emit_intros dest: pinned_choice_Inr)

lemma startswith_append [simp]: "py_startswith (p @ s) p"
  by (simp add: py_startswith_def)

lemma emits_authorize_target:
  "emits (authorize_target policy ep public scheme host port)
     (\<lambda>evs r. \<forall>front. endpoint_only front \<and> length front \<le> 1 \<longrightarrow> trusted_outcome policy ep (front @ evs) r)"
proof -
  have direct: "trusted_outcome policy ep (front @ []) (Inr t)"
    if "endpoint_only front" "length front \<le> 1" "pt_context t = ep_context ep" "direct_trusted policy t" for front t
    using that unfolding trusted_outcome_def by (intro exI[of _ front] exI[of _ "[]"]) simp
  have pinned: "trusted_outcome policy ep (front @ [HostResolved host x]) r"
    if "endpoint_only front" "length front \<le> 1" "host \<in> set (ap_public_hosts policy)" "ep_context ep = PUBLIC"
      "\<And>t. r = Inr t \<Longrightarrow> pt_context t = ep_context ep \<and> pinned_trusted policy (HostResolved host x) t"
    for front x r
    using that unfolding trusted_outcome_def
    by (intro exI[of _ front] exI[of _ "[HostResolved host x]"]) auto
  show ?thesis
  proof (cases "ep_context ep")
    case PUBLIC
    then show ?thesis
      unfolding authorize_target_def Let_def
      apply (simp only: endpoint_context.case)
      apply (rule emits_case_option)
       apply (rule emits_raiseE, simp add: trusted_failed)
      apply (rule emits_if)
       apply (rule emits_raiseE, simp add: trusted_failed)
      apply (rule emits_bindE[OF emits_pinned])
       apply (rule emits_returnE, clarsimp, rule pinned)
           apply (auto simp: pinned_trusted_def py_startswith_def)[5]
      apply (clarsimp, rule pinned)
          apply auto
      done
  qed (auto simp: authorize_target_def Let_def direct_trusted_def intro!: emits_if emits_raiseE emits_returnE
      trusted_failed direct)
qed

lemma emits_authorize_probe_endpoint:
  "emits (authorize_probe_endpoint schemes ep policy secret public) (trusted_outcome policy ep)"
  unfolding authorize_probe_endpoint_def
  apply (rule emits_bindE[OF emits_resolve_address])
   apply (rule emits_case_option)
    apply (rule emits_raiseE, simp add: trusted_failed)
   apply (rule emits_case_option)
    apply (rule emits_raiseE, simp add: trusted_failed)
   apply (rule emits_case_prod)
   apply (rule emits_mono[OF emits_authorize_target], simp)
  apply (simp add: trusted_failed)
  done


definition sample_endpoint :: "string \<Rightarrow> endpoint_context \<Rightarrow> probe_endpoint" where
  "sample_endpoint address ctx = \<lparr>ep_subject = ''n1'', ep_graph = ''g1'', ep_socket = ''http'',
     ep_protocol = ''http'', ep_context = ctx, ep_address = LiteralEndpoint address\<rparr>"

definition sample_address_policy :: address_policy where
  "sample_address_policy = \<lparr>ap_private = [''http://gw:8080''], ap_public_hosts = [''h.io''], ap_host_local = False,
     ap_plaintext = False\<rparr>"

definition sample_authorized :: "(probe_exn + probe_target) \<times> (probe_event, unit) st" where
  "sample_authorized = authorize_probe_endpoint (\<lambda>_. [''http'', ''https'']) (sample_endpoint ''https://h.io:443'' PUBLIC)
     sample_address_policy None (Some (\<lambda>_ w. (Inr [''9.9.9.9'', ''8.8.8.8''], w))) \<lparr>trace = [], world = ()\<rparr>"

lemma sample_octets: "parse_octet ''8'' = Some 8" "parse_octet ''9'' = Some 9"
  by (simp_all add: parse_octet_def is_digit_def in_range_def code_of_def)

lemma sample_split_dots:
  "py_split CHR ''.'' ''9.9.9.9'' = [''9'', ''9'', ''9'', ''9'']"
  "py_split CHR ''.'' ''8.8.8.8'' = [''8'', ''8'', ''8'', ''8'']"
  by simp_all

lemma sample_addresses: "ip_address ''9.9.9.9'' = Some (V4 151587081)" "ip_address ''8.8.8.8'' = Some (V4 134744072)"
  by (simp_all add: ip_address_def parse_v4_def sample_split_dots sample_octets del: py_split.simps)

lemma sample_global: "is_global (V4 151587081)" "is_global (V4 134744072)"
  by (simp_all add: v4_is_private_def v4_private_def in_network_def v4_def)

lemma sample_digits:
  "char_of (46::nat) = CHR ''.''" "char_of (56::nat) = CHR ''8''" "char_of (51::nat) = CHR ''3''" "char_of (52::nat) = CHR ''4''"
  by code_simp+

lemma sample_shown: "show_ip (V4 134744072) = ''8.8.8.8''"
  by (simp add: show_v4_def show_nat.simps sample_digits)

lemma sample_pinned: "pinned_choice [''9.9.9.9'', ''8.8.8.8''] = Inr ''8.8.8.8''"
  using sample_global by (simp add: pinned_choice_def sample_addresses ip_less_def sample_shown del: is_global.simps show_ip.simps)

lemma sample_public_split:
  "urlsplit ''https://h.io:443'' = Some \<lparr>su_scheme = ''https'', su_netloc = ''h.io:443'', su_path = [],
     su_query = [], su_fragment = []\<rparr>"
proof -
  have "netloc_ok ''h.io:443''" "\<forall>c \<in> set ''h.io:443''. \<not> authority_end c \<and> \<not> unsafe_char c"
    by (auto simp: netloc_ok_def authority_end_def unsafe_char_def code_of_def)
  from urlsplit_authority[OF _ this, of "''https''" "[]"] show ?thesis by (simp add: no_delimiter_def)
qed

lemma sample_host_info: "host_info ''h.io:443'' = (''h.io'', Some ''443'')"
  by code_simp

lemma sample_shape:
  "validated_shape (\<lambda>_. [''http'', ''https'']) ep \<lparr>su_scheme = ''https'', su_netloc = ''h.io:443'', su_path = [],
     su_query = [], su_fragment = []\<rparr> = Some (''h.io'', 443)"
proof -
  have "url_hostname \<lparr>su_scheme = ''https'', su_netloc = ''h.io:443'', su_path = [], su_query = [], su_fragment = []\<rparr>
      = Some ''h.io''"
    by (simp add: url_hostname_def sample_host_info py_lower_char_def is_upper_alpha_def in_range_def code_of_def)
  then show ?thesis
    by (simp add: validated_shape_def url_port_def sample_host_info has_username_def has_password_def
        rpartition_at_def is_digit_def in_range_def code_of_def)
qed

lemma sample_authorized_eq:
  "sample_authorized = (Inr \<lparr>pt_context = PUBLIC, pt_base_url = ''https://8.8.8.8:443'', pt_host = ''8.8.8.8'',
     pt_port = 443, pt_host_header = Some ''h.io:443'', pt_sni = Some ''h.io''\<rparr>,
     \<lparr>trace = [HostResolved ''h.io'' (Inr [''9.9.9.9'', ''8.8.8.8''])], world = ()\<rparr>)"
  by (simp add: sample_authorized_def authorize_probe_endpoint_def resolve_address_def sample_endpoint_def
      sample_public_split sample_shape authorize_target_def sample_address_policy_def pinned_address_def
      eff_defs sample_pinned bracketed_def show_nat.simps sample_digits)


section \<open>Request paths\<close>

lemma filter_safe: "\<forall>c \<in> set s. \<not> unsafe_char c \<Longrightarrow> filter (\<lambda>c. \<not> unsafe_char c) s = s"
  by (simp add: filter_id_conv)

lemma clean_http_path:
  assumes "scheme \<in> {''http'', ''https''}" "\<forall>c \<in> set netloc. \<not> unsafe_char c"
  shows "clean_url (scheme @ CHR '':'' # ''//'' @ netloc @ path)
    = scheme @ CHR '':'' # ''//'' @ netloc @ filter (\<lambda>c. \<not> unsafe_char c) path"
proof -
  have "filter (\<lambda>c. \<not> unsafe_char c) scheme = scheme" "\<exists>cs. scheme = CHR ''h'' # cs"
    using assms(1) by (auto simp: unsafe_char_def code_of_def)
  then show ?thesis
    using assms(2) by (auto simp: clean_url_def filter_safe unsafe_char_def code_of_def)
qed

lemma clean_path:
  assumes "path = CHR ''/'' # rest"
  shows "clean_url path = CHR ''/'' # filter (\<lambda>c. \<not> unsafe_char c) rest"
  using assms by (simp add: clean_url_def unsafe_char_def code_of_def)

lemma split_scheme_slash: "split_scheme (CHR ''/'' # rest) = ([], CHR ''/'' # rest)"
  by (auto simp: split_scheme_def ascii_alpha_def is_lower_alpha_def is_upper_alpha_def in_range_def code_of_def
      split: prod.splits bool.splits)

definition bare_path :: "string \<Rightarrow> bool" where
  "bare_path s \<longleftrightarrow>
     (\<exists>front a p b. partition_at CHR ''#'' s = (front, a, []) \<and> partition_at CHR ''?'' front = (p, b, []))"

lemma bare_path_slash: "bare_path s \<Longrightarrow> bare_path (CHR ''/'' # s)"
  by (auto simp: bare_path_def split: prod.splits)

lemma bare_path_hd:
  assumes "bare_path (CHR ''/'' # s)"
  obtains front a p b where "partition_at CHR ''#'' (CHR ''/'' # s) = (front, a, [])"
    "partition_at CHR ''?'' front = (CHR ''/'' # p, b, [])"
proof -
  obtain front a p b where s: "partition_at CHR ''#'' (CHR ''/'' # s) = (front, a, [])"
    "partition_at CHR ''?'' front = (p, b, [])"
    using assms unfolding bare_path_def by blast
  from s(1) obtain f where "front = CHR ''/'' # f"
    by (auto split: prod.splits)
  with s(2) obtain p' where "p = CHR ''/'' # p'" by (auto split: prod.splits)
  with s that show thesis by blast
qed

text \<open>
  a request path never moves a request to another authority: the url made of a target's
  base url and an accepted path splits into the scheme and authority of the base url and the
  path, without query or fragment.
\<close>

theorem request_keeps_authority:
  assumes "pt_base_url target = scheme @ ''://'' @ netloc" "scheme \<in> {''http'', ''https''}"
    and "netloc_ok netloc" "\<forall>c \<in> set netloc. \<not> authority_end c \<and> \<not> unsafe_char c"
    and "request_url target path = Inr url"
  shows "\<exists>path'. urlsplit url =
      Some \<lparr>su_scheme = scheme, su_netloc = netloc, su_path = CHR ''/'' # path', su_query = [], su_fragment = []\<rparr>"
proof -
  obtain u where u: "urlsplit path = Some u" "py_startswith path ''/''" "su_scheme u = []" "su_netloc u = []"
      "su_query u = []" "su_fragment u = []" "url = pt_base_url target @ path"
    using assms(5) by (auto simp: request_url_def split: option.splits if_splits)
  then obtain rest where rest: "path = CHR ''/'' # rest"
    by (cases path) (auto simp: py_startswith_def)
  define cleaned where "cleaned = CHR ''/'' # filter (\<lambda>c. \<not> unsafe_char c) rest"
  obtain netloc0 rest0 where n: "split_netloc cleaned = (netloc0, rest0)" by fastforce
  have "split_scheme (clean_url path) = ([], cleaned)"
    by (simp add: clean_path[OF rest] cleaned_def split_scheme_slash)
  then have split: "urlsplit path = (if \<not> netloc_ok netloc0 then None else
      (case partition_at CHR ''#'' rest0 of (front, _, fragment) \<Rightarrow>
        (case partition_at CHR ''?'' front of (path, _, query) \<Rightarrow>
           Some \<lparr>su_scheme = [], su_netloc = netloc0, su_path = path, su_query = query, su_fragment = fragment\<rparr>)))"
    by (simp add: urlsplit_def n)
  have "netloc0 = []" using split u(1,4) by (auto split: if_splits prod.splits)
  from split u(1,5,6) have "bare_path rest0"
    by (auto simp: bare_path_def split: if_splits prod.splits)
  moreover have "rest0 = cleaned \<or> cleaned = ''//'' @ rest0"
  proof (cases "take 2 cleaned = ''//''")
    case True
    with n have "takeWhile (\<lambda>c. \<not> authority_end c) (drop 2 cleaned) = []"
        "rest0 = dropWhile (\<lambda>c. \<not> authority_end c) (drop 2 cleaned)"
      using \<open>netloc0 = []\<close> by (auto simp: split_netloc_def)
    then have "rest0 = drop 2 cleaned"
      by (metis append_Nil takeWhile_dropWhile_id)
    with True show ?thesis by (metis append_take_drop_id)
  qed (use n in \<open>auto simp: split_netloc_def\<close>)
  ultimately have "bare_path cleaned"
    by (auto intro!: bare_path_slash)
  then obtain front a p b where parts: "partition_at CHR ''#'' cleaned = (front, a, [])"
    "partition_at CHR ''?'' front = (CHR ''/'' # p, b, [])"
    unfolding cleaned_def by (rule bare_path_hd)
  have "url = scheme @ CHR '':'' # ''//'' @ netloc @ path" using u(7) assms(1) by simp
  then have "clean_url url = scheme @ CHR '':'' # ''//'' @ netloc @ cleaned"
    using clean_http_path[OF assms(2), of netloc path] assms(4)
    by (simp add: rest cleaned_def unsafe_char_def code_of_def)
  then have "split_scheme (clean_url url) = (scheme, ''//'' @ netloc @ cleaned)"
    using split_scheme_http[OF assms(2)] by simp
  moreover have "split_netloc (''//'' @ netloc @ cleaned) = (netloc, cleaned)"
    using takeWhile_authority[of netloc cleaned] assms(4)
    by (simp add: split_netloc_def cleaned_def authority_end_def)
  ultimately show ?thesis
    using assms(3) by (simp add: urlsplit_def parts)
qed

lemma request_keeps_authority_witness:
  "\<exists>path'. urlsplit ''http://gw:80/a'' =
     Some \<lparr>su_scheme = ''http'', su_netloc = ''gw:80'', su_path = CHR ''/'' # path', su_query = [], su_fragment = []\<rparr>"
  by (rule request_keeps_authority[where path = "''/a''"
      and target = "\<lparr>pt_context = RUNTIME_PRIVATE, pt_base_url = ''http://gw:80'', pt_host = ''gw'', pt_port = 80,
        pt_host_header = None, pt_sni = None\<rparr>"]; code_simp)

end
