(* ===== verification/Probe_Clients_Props.thy ===== *)
theory Probe_Clients_Props
  imports Probe_Clients Probe_Security_Props
begin

text \<open>
  An observation contacts only the target the policy authorized for it, and its outcome is what
  the one exchange with that target was.
\<close>

section \<open>Exchanges with the authorized target\<close>

definition contacted :: "probe_target \<Rightarrow> probe_event \<Rightarrow> bool" where
  "contacted t ev \<longleftrightarrow>
     (case ev of
        SocketConnected host port _ \<Rightarrow> host = pt_host t \<and> port = pt_port t
      | DatagramExchanged host port _ _ \<Rightarrow> host = pt_host t \<and> port = pt_port t
      | Pinged host port _ \<Rightarrow> host = pt_host t \<and> port = pt_port t
      | Queried t' _ \<Rightarrow> t' = t
      | HttpSent rq _ \<Rightarrow>
          (\<exists>path. request_url t path = Inr (hq_url rq)) \<and> hq_host rq = pt_host_header t \<and> hq_sni rq = pt_sni t
      | _ \<Rightarrow> False)"

definition one_contact ::
  "(probe_event list \<Rightarrow> 'o \<Rightarrow> bool) \<Rightarrow> probe_target \<Rightarrow> probe_event list \<Rightarrow> probe_exn + 'o \<Rightarrow> bool" where
  "one_contact says t rest r \<longleftrightarrow>
     rest = [] \<and> isl r
     \<or> (\<exists>ev after. rest = ev # after \<and> contacted t ev \<and> (\<forall>e \<in> set after. \<forall>t. \<not> contacted t e)
          \<and> (\<forall>ob. r = Inr ob \<longrightarrow> says rest ob))"

text \<open>
  A run first authorizes the endpoint; unless that fails, what follows is either nothing (and
  a failure) or starts with the one contact of the authorized target, and \<open>says\<close> relates what
  follows to the observation.
\<close>

definition observed_via ::
  "address_policy \<Rightarrow> probe_endpoint \<Rightarrow> (probe_event list \<Rightarrow> 'o \<Rightarrow> bool)
    \<Rightarrow> probe_event list \<Rightarrow> probe_exn + 'o \<Rightarrow> bool" where
  "observed_via policy ep says evs r \<longleftrightarrow>
     (\<exists>front rest x. evs = front @ rest \<and> trusted_outcome policy ep front x
        \<and> (case x of Inl e \<Rightarrow> rest = [] \<and> r = Inl e | Inr t \<Rightarrow> one_contact says t rest r))"

lemma emits_authorized: "emits (authorized se ep) (trusted_outcome (se_policy se) ep)"
  unfolding authorized_def by (rule emits_authorize_probe_endpoint)

lemma observed_viaI:
  "trusted_outcome policy ep front (Inr t) \<Longrightarrow> one_contact says t rest r \<Longrightarrow> observed_via policy ep says (front @ rest) r"
  unfolding observed_via_def by (intro exI[of _ front] exI[of _ rest] exI[of _ "Inr t"]) simp

lemma observed_via_failed:
  "trusted_outcome policy ep front (Inl e) \<Longrightarrow> observed_via policy ep says front (Inl e)"
  unfolding observed_via_def by (intro exI[of _ front] exI[of _ "[]"] exI[of _ "Inl e"]) simp

lemma emits_observed_via:
  assumes "\<And>t. emits (k t) (one_contact says t)" "se_policy se = policy"
  shows "emits (bindE (authorized se ep) k) (observed_via policy ep says)"
proof (rule emits_bindE[OF emits_authorized])
  fix a evs assume "trusted_outcome (se_policy se) ep evs (Inr a)"
  then show "emits (k a) (\<lambda>evs'. observed_via policy ep says (evs @ evs'))"
    using assms(2) by (intro emits_mono[OF assms(1)]) (simp add: observed_viaI)
qed (simp add: assms(2) observed_via_failed)

lemma attemptE_bindE:
  assumes "raises_only Q m" "\<And>e. Q e \<Longrightarrow> h e = raiseE e"
  shows "attemptE (bindE m k) h l = bindE m (\<lambda>a. attemptE (k a) h l)"
proof
  fix s
  show "attemptE (bindE m k) h l s = bindE m (\<lambda>a. attemptE (k a) h l) s"
    using raises_onlyD[OF assms(1), of s] assms(2)
    by (auto simp: attemptE_def bindE_def raiseE_def split: prod.splits sum.splits)
qed

section \<open>Transport probes\<close>

definition tcp_says :: "probe_event list \<Rightarrow> probe_outcome \<Rightarrow> bool" where
  "tcp_says rest out \<longleftrightarrow>
     (\<exists>host port. rest = [SocketConnected host port None, SocketClosed] \<and> out = REACHABLE
        \<or> (\<exists>e. rest = [SocketConnected host port (Some e)] \<and> socket_outcome e = Some out))"

definition udp_says :: "udp_settings \<Rightarrow> probe_event list \<Rightarrow> probe_outcome \<Rightarrow> bool" where
  "udp_says us rest out \<longleftrightarrow>
     (\<exists>host port x. rest = [DatagramExchanged host port (us_payload us) x]
        \<and> (case x of
             Inl e \<Rightarrow> socket_outcome e = Some out
           | Inr response \<Rightarrow>
               out = (if response \<noteq> [] \<and> int (length response) \<le> us_maximum us then REACHABLE else UNKNOWN)))"

definition transport_says :: "udp_settings \<Rightarrow> transport_intent \<Rightarrow> probe_event list \<Rightarrow> observation \<Rightarrow> bool" where
  "transport_says us intent rest ob \<longleftrightarrow>
     ob_subject ob = ti_subject intent \<and> ob_graph ob = ti_graph intent \<and> ob_kind ob = ti_kind intent
     \<and> ob_context ob = ep_context (ti_endpoint intent)
     \<and> (tcp_says rest (ob_outcome ob) \<or> udp_says us rest (ob_outcome ob))"

lemma emits_transport_observation:
  "emits (transport_observation se intent out)
     (\<lambda>evs r. evs = [] \<and> (\<forall>ob. r = Inr ob \<longrightarrow> ob_subject ob = ti_subject intent \<and> ob_graph ob = ti_graph intent
        \<and> ob_kind ob = ti_kind intent \<and> ob_context ob = ep_context (ti_endpoint intent) \<and> ob_outcome ob = out))"
  by (auto simp: transport_observation_def make_observation_def intro!: emit_intros)

lemma emits_unsupported: "emits (raiseE e) (observed_via policy ep says)"
  by (rule emits_raiseE, rule observed_via_failed) (simp add: trusted_failed endpoint_only_def)

lemma emits_tcp_observe:
  "emits (tcp_observe se connect close intent timeout)
     (observed_via (se_policy se) (ti_endpoint intent) (transport_says us intent))"
  unfolding tcp_observe_def Let_def
  apply (rule emits_if, rule emits_unsupported)
  apply (rule emits_observed_via[OF _ refl])
  apply (rule emits_attemptE[OF emits_callE_eq])
   apply (rule emits_bindE[OF emits_callE_eq])
    apply (rule emits_mono[OF emits_transport_observation])
    apply (fastforce simp: one_contact_def contacted_def transport_says_def tcp_says_def error_of_def)
   apply (simp add: one_contact_def contacted_def error_of_def)
  apply (rule emits_case_option)
   apply (rule emits_raiseE, simp add: one_contact_def contacted_def)
  apply (rule emits_mono[OF emits_transport_observation])
  apply (fastforce simp: one_contact_def contacted_def transport_says_def tcp_says_def error_of_def)
  done

lemma emits_udp_observe:
  "emits (udp_observe se us exchange intent timeout)
     (observed_via (se_policy se) (ti_endpoint intent) (transport_says us intent))"
  unfolding udp_observe_def Let_def
  apply (rule emits_if, rule emits_unsupported)
  apply (rule emits_observed_via[OF _ refl])
  apply (rule emits_attemptE[OF emits_callE_eq])
   apply (rule emits_mono[OF emits_transport_observation])
   apply (simp add: one_contact_def contacted_def transport_says_def udp_says_def)
  apply (rule emits_case_option)
   apply (rule emits_raiseE, simp add: one_contact_def contacted_def)
  apply (rule emits_mono[OF emits_transport_observation])
  apply (simp add: one_contact_def contacted_def transport_says_def udp_says_def)
  done


section \<open>Application health\<close>

lemma read_bounded_within:
  "read_bounded maximum n chunks fault = Inr (m, False) \<longleftrightarrow>
     fault = None \<and> m = n + length (concat chunks) \<and> (chunks \<noteq> [] \<longrightarrow> m \<le> maximum)"
proof (induction maximum n chunks fault rule: read_bounded.induct)
  case (1 maximum n fault)
  then show ?case by (auto split: option.splits)
next
  case (2 maximum n chunk chunks fault)
  then show ?case by (cases chunks) (auto simp: Let_def)
qed

lemma read_bounded_over:
  "read_bounded maximum n chunks fault = Inr (m, True) \<Longrightarrow> maximum < m \<and> m \<le> n + length (concat chunks)"
  by (induction maximum n chunks fault rule: read_bounded.induct) (auto simp: Let_def split: option.splits if_splits)

text \<open>The response of a healthy application: read to its end within the bound, with an expected status.\<close>

definition healthy_response :: "health_intent \<Rightarrow> probe_response \<Rightarrow> bool" where
  "healthy_response intent response \<longleftrightarrow>
     hr_fault response = None \<and> length (concat (hr_chunks response)) \<le> hi_maximum intent
     \<and> hr_status response \<in> set (hi_statuses intent) \<and> \<not> redirected (hr_status response)"

definition response_outcome :: "health_intent \<Rightarrow> probe_response \<Rightarrow> probe_outcome option" where
  "response_outcome intent response =
     (case read_bounded (hi_maximum intent) 0 (hr_chunks response) (hr_fault response) of
        Inl e \<Rightarrow> http_outcome e
      | Inr (n, overflow) \<Rightarrow> Some (if overflow then MALFORMED else health_outcome intent (hr_status response)))"

definition health_says :: "health_intent \<Rightarrow> probe_event list \<Rightarrow> observation \<Rightarrow> bool" where
  "health_says intent rest ob \<longleftrightarrow>
     ob_subject ob = hi_subject intent \<and> ob_graph ob = hi_graph intent \<and> ob_kind ob = hi_kind intent
     \<and> ob_context ob = ep_context (hi_endpoint intent)
     \<and> (\<exists>rq. (\<exists>e. rest = [HttpSent rq (Inl e)] \<and> http_outcome e = Some (ob_outcome ob))
          \<or> (\<exists>response e. rest = [HttpSent rq (Inr response), ResponseClosed (Some e)]
               \<and> http_outcome e = Some (ob_outcome ob))
          \<or> (\<exists>response. rest = [HttpSent rq (Inr response), ResponseClosed None]
               \<and> response_outcome intent response = Some (ob_outcome ob)
               \<and> (ob_outcome ob = HEALTHY \<longleftrightarrow> healthy_response intent response)))"

lemma http_outcome_not_healthy: "http_outcome e \<noteq> Some HEALTHY"
  by (cases e) auto

lemma response_outcome_healthy:
  "response_outcome intent response = Some HEALTHY \<longleftrightarrow> healthy_response intent response"
proof (cases "read_bounded (hi_maximum intent) 0 (hr_chunks response) (hr_fault response)")
  case (Inl e)
  then have "\<not> healthy_response intent response"
    using read_bounded_within[of "hi_maximum intent" 0 "hr_chunks response" "hr_fault response"
        "length (concat (hr_chunks response))"] by (auto simp: healthy_response_def)
  with Inl show ?thesis by (simp add: response_outcome_def http_outcome_not_healthy)
next
  case (Inr x)
  then obtain n overflow where x: "x = (n, overflow)" by fastforce
  show ?thesis
  proof (cases overflow)
    case True
    with read_bounded_over[of "hi_maximum intent" 0 "hr_chunks response" "hr_fault response" n] Inr x show ?thesis
      by (auto simp: response_outcome_def healthy_response_def)
  next
    case False
    with Inr x read_bounded_within[of "hi_maximum intent" 0 "hr_chunks response" "hr_fault response" n]
    show ?thesis
      by (cases "hr_chunks response") (auto simp: response_outcome_def healthy_response_def health_outcome_def)
  qed
qed

lemma raises_only_authorized: "raises_only (\<lambda>e. http_outcome e = None) (authorized se ep)"
proof -
  have base: "http_outcome e = None" if "\<not> is_ordinary e" for e
    using that by (cases e) auto
  have address: "raises_only (\<lambda>e. http_outcome e = None) (resolve_address ep resolver)" for resolver :: "(string \<Rightarrow> ('a, probe_exn, string) port) option"
    by (auto simp: resolve_address_def unresolved_endpoint_def base intro!: raise_intros split: endpoint_address.split option.split probe_exn.split)
  have choice: "pinned_choice vs = Inl e \<Longrightarrow> http_outcome e = None" for vs e
    by (auto simp: pinned_choice_def untrusted_endpoint_def unresolved_endpoint_def split: option.splits list.splits if_splits)
  have pinned: "raises_only (\<lambda>e. http_outcome e = None) (pinned_address host resolver)" for host and resolver :: "string \<Rightarrow> ('a, probe_exn, string list) port"
    by (auto simp: pinned_address_def unresolved_endpoint_def base intro!: raise_intros dest: choice)
  have target: "raises_only (\<lambda>e. http_outcome e = None) (authorize_target policy ep public scheme host port)"
    for policy scheme host port and public :: "(string \<Rightarrow> ('a, probe_exn, string list) port) option"
    by (auto simp: authorize_target_def Let_def untrusted_endpoint_def intro!: raise_intros pinned split: endpoint_context.split)
  show ?thesis
    unfolding authorized_def authorize_probe_endpoint_def unsafe_endpoint_def
    by (intro raise_intros address target) auto
qed

definition exchange_left :: "health_intent \<Rightarrow> probe_target \<Rightarrow> probe_event list \<Rightarrow> probe_exn + observation \<Rightarrow> bool" where
  "exchange_left intent t evs r \<longleftrightarrow>
     (case r of
        Inr ob \<Rightarrow> (\<exists>rq response. evs = [HttpSent rq (Inr response), ResponseClosed None]
            \<and> contacted t (HttpSent rq (Inr response)) \<and> health_says intent evs ob)
      | Inl e \<Rightarrow>
          http_outcome e = None \<and> evs = []
          \<or> (\<exists>rq x after. evs = HttpSent rq x # after \<and> contacted t (HttpSent rq x)
               \<and> (\<forall>out. http_outcome e = Some out \<longrightarrow>
                    x = Inl e \<and> after = []
                    \<or> (\<exists>response. x = Inr response \<and> (after = [ResponseClosed (Some e)]
                         \<or> after = [ResponseClosed None] \<and> response_outcome intent response = Some out)))
               \<and> (after = [] \<or> (\<exists>y. after = [ResponseClosed y]))))"

lemma request_url_refuses: "request_url t path = Inl e \<Longrightarrow> http_outcome e = None"
  by (auto simp: request_url_def unsafe_endpoint_def split: option.splits if_splits)

lemma emits_health_observation:
  assumes "\<And>ob e. se_refuses se ob = Some e \<Longrightarrow> http_outcome e = None"
  shows "emits (health_observation se intent out) (\<lambda>evs r. evs = []
     \<and> (case r of Inl e \<Rightarrow> http_outcome e = None
        | Inr ob \<Rightarrow> ob_subject ob = hi_subject intent \<and> ob_graph ob = hi_graph intent
            \<and> ob_kind ob = hi_kind intent \<and> ob_context ob = ep_context (hi_endpoint intent) \<and> ob_outcome ob = out))"
  using assms by (auto simp: health_observation_def make_observation_def intro!: emit_intros)

text \<open>The events of one exchange and what it returned.\<close>

definition http_exchanged ::
  "nat \<Rightarrow> probe_request \<Rightarrow> probe_event list \<Rightarrow> probe_exn + probe_response \<times> nat \<times> bool \<Rightarrow> bool" where
  "http_exchanged maximum rq evs r \<longleftrightarrow>
     (\<exists>e. evs = [HttpSent rq (Inl e)] \<and> r = Inl e)
     \<or> (\<exists>response e. evs = [HttpSent rq (Inr response), ResponseClosed (Some e)] \<and> r = Inl e)
     \<or> (\<exists>response. evs = [HttpSent rq (Inr response), ResponseClosed None]
          \<and> r = map_sum id (\<lambda>read. (response, read))
                  (read_bounded maximum 0 (hr_chunks response) (hr_fault response)))"

lemma http_exchanged_InrE:
  assumes "http_exchanged maximum rq evs (Inr a)"
  obtains response n overflow where "a = (response, n, overflow)"
    "evs = [HttpSent rq (Inr response), ResponseClosed None]"
    "read_bounded maximum 0 (hr_chunks response) (hr_fault response) = Inr (n, overflow)"
proof -
  obtain response where evs: "evs = [HttpSent rq (Inr response), ResponseClosed None]"
    and r: "Inr a = map_sum id (\<lambda>read. (response, read)) (read_bounded maximum 0 (hr_chunks response) (hr_fault response))"
    using assms by (auto simp: http_exchanged_def)
  from r obtain read where "read_bounded maximum 0 (hr_chunks response) (hr_fault response) = Inr read" "a = (response, read)"
    by (cases "read_bounded maximum 0 (hr_chunks response) (hr_fault response)") auto
  with evs that show thesis by (cases read) auto
qed

lemma http_exchanged_InlE:
  assumes "http_exchanged maximum rq evs (Inl e)"
  obtains (sent) "evs = [HttpSent rq (Inl e)]"
    | (closed) response where "evs = [HttpSent rq (Inr response), ResponseClosed (Some e)]"
    | (read) response where "evs = [HttpSent rq (Inr response), ResponseClosed None]"
        "read_bounded maximum 0 (hr_chunks response) (hr_fault response) = Inl e"
proof -
  have read: "x = Inl e" if "Inl e = map_sum id f x" for f :: "nat \<times> bool \<Rightarrow> probe_response \<times> nat \<times> bool" and x
    using that by (cases x) auto
  show thesis
    using assms that read unfolding http_exchanged_def by blast
qed

lemma emits_read_closing:
  "emits (read_closing maximum close response)
     (\<lambda>evs r. (\<exists>e. evs = [ResponseClosed (Some e)] \<and> r = Inl e)
        \<or> evs = [ResponseClosed None] \<and> r = read_bounded maximum 0 (hr_chunks response) (hr_fault response))"
  unfolding read_closing_def
  by (rule emits_bindE[OF emits_callE_eq]) (auto simp: error_of_def intro!: emits_liftE)

lemma emits_http_exchange:
  "emits (http_exchange send close maximum timeouts t path) (\<lambda>evs r.
     (\<exists>e. request_url t path = Inl e \<and> evs = [] \<and> r = Inl e)
     \<or> (\<exists>rq. (\<forall>x. contacted t (HttpSent rq x)) \<and> http_exchanged maximum rq evs r))"
proof (cases "request_url t path")
  case (Inl e)
  then show ?thesis by (auto simp: http_exchange_def intro: emits_raiseE)
next
  case (Inr url)
  let ?rq = "\<lparr>hq_url = url, hq_host = pt_host_header t, hq_sni = pt_sni t, hq_timeouts = timeouts\<rparr>"
  have reached: "\<forall>x. contacted t (HttpSent ?rq x)" using Inr by (auto simp: contacted_def)
  have run: "emits (http_exchange send close maximum timeouts t path) (http_exchanged maximum ?rq)"
    unfolding http_exchange_def Inr liftE_simps bindE_returnE Let_def
    apply (rule emits_bindE[OF emits_callE_eq])
     apply (rule emits_bindE[OF emits_read_closing])
      apply (rule emits_returnE)
      apply (auto simp: http_exchanged_def)[1]
       apply (metis map_sum.simps(2))
      apply (auto simp: http_exchanged_def)[1]
      apply (metis id_apply map_sum.simps(1))
    apply (auto simp: http_exchanged_def)
    done
  show ?thesis
    by (rule emits_mono[OF run]) (intro disjI2 exI[of _ ?rq] conjI reached)
qed

lemma contacted_only: "\<not> contacted t (ResponseClosed y)"
  by (simp add: contacted_def)

lemma http_exchanged_failed:
  assumes "http_exchanged (hi_maximum intent) rq evs (Inl e)" "\<forall>x. contacted t (HttpSent rq x)"
  shows "exchange_left intent t evs (Inl e)"
  using assms(1)
  by (cases rule: http_exchanged_InlE) (use assms(2) in \<open>auto simp: exchange_left_def response_outcome_def\<close>)

lemma exchange_left_refused:
  assumes "http_outcome e = None" "\<forall>x. contacted t (HttpSent rq x)"
  shows "exchange_left intent t [HttpSent rq x, ResponseClosed y] (Inl e)"
  using assms by (auto simp: exchange_left_def)

lemma exchange_left_said:
  assumes "\<forall>x. contacted t (HttpSent rq x)" "ob_subject ob = hi_subject intent" "ob_graph ob = hi_graph intent"
    "ob_kind ob = hi_kind intent" "ob_context ob = ep_context (hi_endpoint intent)"
    "read_bounded (hi_maximum intent) 0 (hr_chunks response) (hr_fault response) = Inr (n, overflow)"
    "ob_outcome ob = (if overflow then MALFORMED else health_outcome intent (hr_status response))"
  shows "exchange_left intent t [HttpSent rq (Inr response), ResponseClosed None] (Inr ob)"
proof -
  have out: "response_outcome intent response = Some (ob_outcome ob)"
    using assms(6,7) by (simp add: response_outcome_def)
  with response_outcome_healthy[of intent response] assms show ?thesis
    by (auto simp: exchange_left_def health_says_def)
qed

lemma emits_exchange_left:
  assumes core: "\<And>ob e. se_refuses se ob = Some e \<Longrightarrow> http_outcome e = None"
  shows "emits (bindE (http_exchange send close (hi_maximum intent) timeouts t path)
      (\<lambda>(response, _, overflow). health_observation se intent
         (if overflow then MALFORMED else health_outcome intent (hr_status response)))) (exchange_left intent t)"
proof (rule emits_bindE[OF emits_http_exchange], goal_cases)
  case (1 a evs)
  then obtain rq where rq: "\<forall>x. contacted t (HttpSent rq x)" "http_exchanged (hi_maximum intent) rq evs (Inr a)"
    by auto
  then obtain response n overflow where a: "a = (response, n, overflow)"
      "evs = [HttpSent rq (Inr response), ResponseClosed None]"
      "read_bounded (hi_maximum intent) 0 (hr_chunks response) (hr_fault response) = Inr (n, overflow)"
    by (elim http_exchanged_InrE)
  show ?case
    unfolding a(1) prod.case
    by (rule emits_mono[OF emits_health_observation[OF core]])
      (auto simp: a(2) split: sum.splits intro: exchange_left_refused[OF _ rq(1)] exchange_left_said[OF rq(1) _ _ _ _ a(3)])
next
  case (2 e evs)
  then show ?case
    using request_url_refuses[of t path] http_exchanged_failed[of intent _ evs e t]
    by (auto simp: exchange_left_def)
qed

lemma exchange_left_outcome:
  assumes "exchange_left intent t evs (Inl e)" "http_outcome e = Some out"
    "ob_subject ob = hi_subject intent" "ob_graph ob = hi_graph intent" "ob_kind ob = hi_kind intent"
    "ob_context ob = ep_context (hi_endpoint intent)" "ob_outcome ob = out"
  shows "health_says intent evs ob"
proof -
  obtain rq x after where evs: "evs = HttpSent rq x # after"
    and how: "x = Inl e \<and> after = []
        \<or> (\<exists>response. x = Inr response \<and> (after = [ResponseClosed (Some e)]
             \<or> after = [ResponseClosed None] \<and> response_outcome intent response = Some out))"
    using assms(1,2) by (auto simp: exchange_left_def)
  have "response_outcome intent response = Some out \<Longrightarrow> out = HEALTHY \<longleftrightarrow> healthy_response intent response" for response
    using response_outcome_healthy[of intent response] by auto
  with how show ?thesis
    using assms(2-) by (auto simp: health_says_def evs)
qed

lemma exchange_left_contact:
  assumes "exchange_left intent t evs r" "\<And>ob. r' = Inr ob \<Longrightarrow> health_says intent evs ob" "evs = [] \<Longrightarrow> isl r'"
  shows "one_contact (health_says intent) t evs r'"
proof -
  consider "evs = []" | rq x after where "evs = HttpSent rq x # after" "contacted t (HttpSent rq x)"
      "after = [] \<or> (\<exists>y. after = [ResponseClosed y])"
    using assms(1) by (auto simp: exchange_left_def split: sum.splits)
  then show ?thesis
    by cases (use assms(2,3) in \<open>auto simp: one_contact_def contacted_only\<close>)
qed

text \<open>
  an application-health probe makes at most one request, to the authorized target with its
  host header and server name; its observation carries the intent's coordinates and the
  outcome of that request, and it is healthy exactly when the response was read to its end
  within the bound, is no redirect and has one of the expected statuses.  The core constructor
  of observations is assumed to raise no exception of the HTTP library.
\<close>

theorem health_probe_truthful:
  assumes "\<And>ob e. se_refuses se ob = Some e \<Longrightarrow> http_outcome e = None"
    and "http_health_observe se send close intent timeout s = (r, s')" "trace s' = trace s @ evs"
  shows "observed_via (se_policy se) (hi_endpoint intent) (health_says intent) evs r"
proof -
  let ?h = "\<lambda>e. case http_outcome e of None \<Rightarrow> raiseE e | Some out \<Rightarrow> health_observation se intent out"
  have later: "emits (attemptE (bindE (http_exchange send close (hi_maximum intent) (health_timeouts timeout) t (hi_path intent))
      (\<lambda>(response, _, overflow). health_observation se intent
         (if overflow then MALFORMED else health_outcome intent (hr_status response)))) ?h returnE)
      (one_contact (health_says intent) t)" for t
  proof (rule emits_attemptE[OF emits_exchange_left[OF assms(1)]], assumption, goal_cases)
    case (1 a evs)
    then have "one_contact (health_says intent) t evs (Inr a)"
      by (intro exchange_left_contact[OF 1]) (auto simp: exchange_left_def)
    then show ?case by (auto intro: emits_returnE)
  next
    case (2 e evs)
    show ?case
    proof (cases "http_outcome e")
      case None
      have "one_contact (health_says intent) t evs (Inl e)"
        by (rule exchange_left_contact[OF 2]) auto
      with None show ?thesis by (auto intro: emits_raiseE)
    next
      case (Some out)
      have "evs \<noteq> []" using 2 Some by (auto simp: exchange_left_def)
      with Some show ?thesis
        by (auto intro!: emits_mono[OF emits_health_observation[OF assms(1)]] exchange_left_contact[OF 2]
            intro: exchange_left_outcome[OF 2 Some] split: sum.splits)
    qed
  qed
  have "emits (http_health_observe se send close intent timeout)
      (observed_via (se_policy se) (hi_endpoint intent) (health_says intent))"
    unfolding http_health_observe_def
    by (subst attemptE_bindE[OF raises_only_authorized])
      (auto intro!: emits_observed_via later)
  from emitsD[OF this assms(2,3)] show ?thesis .
qed

section \<open>Witnesses\<close>

text \<open>One probe of a public endpoint over each adapter, with the answers of the sample resolver.\<close>

definition sample_public_endpoint :: probe_endpoint where
  "sample_public_endpoint = sample_endpoint ''https://h.io:443'' PUBLIC"

definition sample_setting :: "unit probe_setting" where
  "sample_setting = \<lparr>se_schemes = \<lambda>_. [''http'', ''https''], se_transport = \<lambda>_. TCP, se_policy = sample_address_policy,
     se_secret = None, se_public = Some (\<lambda>_ w. (Inr [''9.9.9.9'', ''8.8.8.8''], w)), se_refuses = \<lambda>_. None\<rparr>"

definition sample_target :: probe_target where
  "sample_target = \<lparr>pt_context = PUBLIC, pt_base_url = ''https://8.8.8.8:443'', pt_host = ''8.8.8.8'',
     pt_port = 443, pt_host_header = Some ''h.io:443'', pt_sni = Some ''h.io''\<rparr>"

definition sample_resolved :: probe_event where
  "sample_resolved = HostResolved ''h.io'' (Inr [''9.9.9.9'', ''8.8.8.8''])"

lemma sample_setting_authorized:
  "authorized sample_setting sample_public_endpoint \<lparr>trace = [], world = ()\<rparr>
    = (Inr sample_target, \<lparr>trace = [sample_resolved], world = ()\<rparr>)"
  using sample_authorized_eq
  by (simp add: sample_authorized_def authorized_def sample_setting_def sample_public_endpoint_def sample_target_def
      sample_resolved_def)

definition sample_transport_intent :: transport_intent where
  "sample_transport_intent = \<lparr>ti_subject = ''n1'', ti_graph = ''g1'', ti_kind = ''transport'',
     ti_endpoint = sample_public_endpoint\<rparr>"

definition sample_reached :: observation where
  "sample_reached = \<lparr>ob_subject = ''n1'', ob_graph = ''g1'', ob_kind = ''transport'', ob_outcome = REACHABLE,
     ob_context = PUBLIC\<rparr>"

definition sample_tcp :: "(probe_exn + observation) \<times> (probe_event, unit) st" where
  "sample_tcp =
     route_transport sample_setting (tcp_observe sample_setting (\<lambda>_ _ _ w. (Inr (), w)) (\<lambda>_ w. (Inr (), w)))
       (udp_observe sample_setting \<lparr>us_payload = [0], us_maximum = 512\<rparr> (\<lambda>_ _ _ _ _ w. (Inr [], w)))
       sample_transport_intent 1 \<lparr>trace = [], world = ()\<rparr>"

lemma sample_tcp_eq:
  "sample_tcp = (Inr sample_reached,
     \<lparr>trace = [sample_resolved, SocketConnected ''8.8.8.8'' 443 None, SocketClosed], world = ()\<rparr>)"
proof -
  have kind: "se_transport sample_setting (ep_protocol sample_public_endpoint) = TCP" "se_refuses sample_setting ob = None"
    "ep_context sample_public_endpoint = PUBLIC" for ob
    by (simp_all add: sample_setting_def sample_public_endpoint_def sample_endpoint_def)
  show ?thesis
    by (simp add: sample_tcp_def route_transport_def tcp_observe_def sample_transport_intent_def kind bindE_def
        sample_setting_authorized attemptE_def callE_def sample_target_def error_of_def transport_observation_def
        make_observation_def returnE_def sample_reached_def)
qed


definition sample_health_intent :: health_intent where
  "sample_health_intent = \<lparr>hi_subject = ''n1'', hi_graph = ''g1'', hi_kind = ''health'',
     hi_endpoint = sample_public_endpoint, hi_path = ''/up'', hi_maximum = 4, hi_statuses = [200]\<rparr>"

definition sample_response :: probe_response where
  "sample_response = \<lparr>hr_status = 200, hr_chunks = [[79], [75]], hr_fault = None\<rparr>"

definition sample_request :: probe_request where
  "sample_request = \<lparr>hq_url = ''https://8.8.8.8:443/up'', hq_host = Some ''h.io:443'', hq_sni = Some ''h.io'',
     hq_timeouts = [1, 1, 1, 1]\<rparr>"

definition sample_health :: "(probe_exn + observation) \<times> (probe_event, unit) st" where
  "sample_health = http_health_observe sample_setting (\<lambda>_ w. (Inr sample_response, w)) (\<lambda>w. (Inr (), w))
     sample_health_intent 1 \<lparr>trace = [], world = ()\<rparr>"

definition sample_healthy :: observation where
  "sample_healthy = \<lparr>ob_subject = ''n1'', ob_graph = ''g1'', ob_kind = ''health'', ob_outcome = HEALTHY,
     ob_context = PUBLIC\<rparr>"

lemma sample_request_url: "request_url sample_target ''/up'' = Inr ''https://8.8.8.8:443/up''"
  by code_simp

lemma sample_health_eq:
  "sample_health = (Inr sample_healthy,
     \<lparr>trace = [sample_resolved, HttpSent sample_request (Inr sample_response), ResponseClosed None], world = ()\<rparr>)"
proof -
  have kind: "se_refuses sample_setting ob = None" "ep_context sample_public_endpoint = PUBLIC" for ob
    by (simp_all add: sample_setting_def sample_public_endpoint_def sample_endpoint_def)
  have target: "pt_host_header sample_target = Some ''h.io:443''" "pt_sni sample_target = Some ''h.io''"
    by (simp_all add: sample_target_def)
  have read: "read_bounded 4 0 (hr_chunks sample_response) (hr_fault sample_response) = Inr (2, False)"
    by (simp add: sample_response_def)
  show ?thesis
    by (simp add: sample_health_def http_health_observe_def sample_health_intent_def kind bindE_def liftE_def
        sample_setting_authorized attemptE_def callE_def target error_of_def health_observation_def http_exchange_def
        make_observation_def returnE_def sample_healthy_def sample_request_url read_closing_def read
        health_timeouts_def health_outcome_def redirected_def sample_request_def)
      (simp add: sample_response_def)
qed

lemma health_probe_truthful_witness:
  "observed_via sample_address_policy sample_public_endpoint (health_says sample_health_intent)
     [sample_resolved, HttpSent sample_request (Inr sample_response), ResponseClosed None] (Inr sample_healthy)"
  using health_probe_truthful[OF _ sample_health_eq[unfolded sample_health_def],
      of "[sample_resolved, HttpSent sample_request (Inr sample_response), ResponseClosed None]"]
  by (simp add: sample_setting_def sample_health_intent_def)

end
