(* ===== verification/Verification_Props.thy ===== *)
theory Verification_Props
  imports Verification Probe_Clients_Props
begin

text \<open>
  The checks contact only authorized targets, at most as often as their policy allows, and
  pass only on the answer they ask for.
\<close>

section \<open>Contacts\<close>

definition is_contact :: "probe_event \<Rightarrow> bool" where
  "is_contact ev \<longleftrightarrow>
     (case ev of
        SocketConnected _ _ _ \<Rightarrow> True | DatagramExchanged _ _ _ _ \<Rightarrow> True | HttpSent _ _ \<Rightarrow> True
      | Pinged _ _ _ \<Rightarrow> True | Queried _ _ \<Rightarrow> True | _ \<Rightarrow> False)"

definition contacts :: "probe_event list \<Rightarrow> probe_event list" where
  "contacts evs = filter is_contact evs"

text \<open>
  Every contact of \<open>evs\<close>, which come after \<open>pre\<close>, is with a target that was authorized before it;
  immediately before it when \<open>fresh\<close>.
\<close>

definition justified ::
  "address_policy \<Rightarrow> probe_endpoint \<Rightarrow> bool \<Rightarrow> probe_event list \<Rightarrow> probe_event list \<Rightarrow> bool" where
  "justified policy ep fresh pre evs \<longleftrightarrow>
     (\<forall>a ev b. evs = a @ ev # b \<longrightarrow> is_contact ev \<longrightarrow>
        (\<exists>x front mid t. pre @ a = x @ front @ mid \<and> trusted_outcome policy ep front (Inr t) \<and> contacted t ev
           \<and> (fresh \<longrightarrow> mid = [])))"

lemma contacts_simps [simp]:
  "contacts [] = []" "contacts (a @ b) = contacts a @ contacts b"
  "contacts (ev # evs) = (if is_contact ev then ev # contacts evs else contacts evs)"
  by (simp_all add: contacts_def)

lemma is_contact_simps [simp]:
  "is_contact (HttpSent rq x)" "is_contact (Pinged host port y)" "is_contact (Queried t z)"
  "\<not> is_contact (ResponseClosed e)" "\<not> is_contact (Slept i)" "\<not> is_contact (EndpointResolved ref ok)"
  "\<not> is_contact (HostResolved host v)" "\<not> is_contact (CredentialResolved k)" "\<not> is_contact (Admitted k u)"
  "\<not> is_contact (Recorded k u)"
  by (simp_all add: is_contact_def)

lemma justified_silent: "contacts evs = [] \<Longrightarrow> justified policy ep fresh pre evs"
  by (auto simp: justified_def contacts_def filter_empty_conv)

lemma justified_before: "justified policy ep fresh pre evs \<Longrightarrow> justified policy ep fresh (y @ pre) evs"
  unfolding justified_def by (metis append.assoc)

lemma justified_append:
  assumes "justified policy ep fresh pre a" "justified policy ep fresh (pre @ a) b"
  shows "justified policy ep fresh pre (a @ b)"
  unfolding justified_def
proof (intro allI impI)
  fix u ev v assume split: "a @ b = u @ ev # v" and ev: "is_contact ev"
  from split consider us where "a = u @ ev # us" | us where "u = a @ us" "b = us @ ev # v"
    by (auto simp: append_eq_append_conv2 append_eq_Cons_conv)
  then show "\<exists>x front mid t. pre @ u = x @ front @ mid \<and> trusted_outcome policy ep front (Inr t) \<and> contacted t ev
      \<and> (fresh \<longrightarrow> mid = [])"
  proof cases
    case 1
    with assms(1) ev show ?thesis unfolding justified_def by blast
  next
    case 2
    with assms(2) ev show ?thesis unfolding justified_def by (metis append.assoc)
  qed
qed

lemma justified_target:
  assumes "trusted_outcome policy ep front (Inr t)" "\<forall>ev \<in> set evs. is_contact ev \<longrightarrow> contacted t ev"
    and "fresh \<longrightarrow> mid = []" "fresh \<longrightarrow> length (takeWhile (\<lambda>ev. \<not> is_contact ev) evs) = 0 \<and> length (contacts evs) \<le> 1"
  shows "justified policy ep fresh (x @ front @ mid) evs"
  unfolding justified_def
proof (intro allI impI)
  fix a ev b assume split: "evs = a @ ev # b" and ev: "is_contact ev"
  have "fresh \<longrightarrow> a = []"
    using assms(4) split ev by (cases a) (auto split: if_splits)
  with assms(1,2,3) split ev
  show "\<exists>y front' mid' t. (x @ front @ mid) @ a = y @ front' @ mid' \<and> trusted_outcome policy ep front' (Inr t)
      \<and> contacted t ev \<and> (fresh \<longrightarrow> mid' = [])"
    by (intro exI[of _ x] exI[of _ front] exI[of _ "mid @ a"] exI[of _ t]) auto
qed

section \<open>Bounded attempts\<close>

text \<open>What one attempt promises: at most one contact, and a result that passes only on a good one.\<close>

definition attempt_judged ::
  "(probe_event \<Rightarrow> bool) \<Rightarrow> check_material \<Rightarrow> capability \<Rightarrow> nat \<Rightarrow> probe_event list \<Rightarrow> completed \<Rightarrow> bool" where
  "attempt_judged passed m cap n evs c \<longleftrightarrow>
     co_identity c = verification_identity m \<and> co_capability c = cap \<and> co_attempts c = n
     \<and> (co_outcome c = PASSED \<longrightarrow> contacts evs \<noteq> [] \<and> passed (last (contacts evs)))"

text \<open>The result of a whole loop, and its contacts.\<close>

definition concluded ::
  "check_policy \<Rightarrow> check_material \<Rightarrow> capability \<Rightarrow> (probe_event \<Rightarrow> bool) \<Rightarrow> probe_event list \<Rightarrow> completed \<Rightarrow> bool" where
  "concluded kp m cap passed evs c \<longleftrightarrow>
     co_identity c = verification_identity m \<and> co_capability c = cap
     \<and> 1 \<le> co_attempts c \<and> co_attempts c \<le> max 1 (kp_attempts kp)
     \<and> (co_outcome c = PASSED \<longrightarrow> contacts evs \<noteq> [] \<and> passed (last (contacts evs)))"

lemma emits_check_observation:
  "emits (check_observation se m cap out n ev) (\<lambda>evs r. evs = []
     \<and> (\<forall>c. r = Inr c \<longrightarrow> co_identity c = verification_identity m \<and> co_capability c = cap \<and> co_attempts c = n
          \<and> co_outcome c = out))"
  by (auto simp: check_observation_def Let_def intro!: emit_intros)

lemma emits_concluded_without:
  assumes "out \<noteq> PASSED"
  shows "emits (check_observation se m cap out 1 ev) (\<lambda>evs r. evs = [] \<and> (\<forall>c. r = Inr c \<longrightarrow> concluded kp m cap passed [] c))"
  by (rule emits_mono[OF emits_check_observation]) (use assms in \<open>auto simp: concluded_def\<close>)

locale check_attempts =
  fixes body :: "nat \<Rightarrow> ('w, bool \<times> completed) probe_eff"
    and guarded :: "probe_event list \<Rightarrow> bool"
    and passed :: "probe_event \<Rightarrow> bool" and m :: check_material and cap :: capability
  assumes attempt: "emits (body n) (\<lambda>evs r. length (contacts evs) \<le> 1 \<and> guarded evs
      \<and> (\<forall>stop c. r = Inr (stop, c) \<longrightarrow> attempt_judged passed m cap n evs c))"
    and silent: "contacts evs = [] \<Longrightarrow> guarded evs"
    and guarded_append: "guarded a \<Longrightarrow> guarded b \<Longrightarrow> guarded (a @ b)"
begin

lemma attempt_judged_later:
  "attempt_judged passed m cap n b c \<Longrightarrow> attempt_judged passed m cap n (a @ b) c"
  by (auto simp: attempt_judged_def)

lemma attempt_judged_silent:
  "attempt_judged passed m cap n a c \<Longrightarrow> contacts b = [] \<Longrightarrow> attempt_judged passed m cap n (a @ b) c"
  by (auto simp: attempt_judged_def)

definition attempts_made :: "nat list \<Rightarrow> completed \<Rightarrow> probe_event list \<Rightarrow> probe_exn + completed \<Rightarrow> bool" where
  "attempts_made ns c evs r \<longleftrightarrow>
     length (contacts evs) \<le> length ns \<and> guarded evs
     \<and> (\<forall>c'. r = Inr c' \<longrightarrow> c' = c \<and> ns = [] \<and> evs = [] \<or> (\<exists>n \<in> set ns. attempt_judged passed m cap n evs c'))"

lemma attempts_made_step:
  assumes "contacts p = []" "length (contacts evs) \<le> 1" "guarded evs" "attempt_judged passed m cap n evs d"
    and "attempts_made ns d rest r"
  shows "attempts_made (n # ns) c (p @ evs @ rest) r"
proof -
  have "guarded (p @ evs @ rest)"
    using assms(5) guarded_append[OF silent[OF assms(1)] guarded_append[OF assms(3)]] by (simp add: attempts_made_def)
  moreover have "length (contacts (p @ evs @ rest)) \<le> length (n # ns)"
    using assms(1,2,5) by (simp add: attempts_made_def)
  moreover have "\<exists>k \<in> set (n # ns). attempt_judged passed m cap k (p @ evs @ rest) c'" if "r = Inr c'" for c'
  proof -
    from assms(5) that consider "c' = d" "rest = []" | k where "k \<in> set ns" "attempt_judged passed m cap k rest c'"
      by (auto simp: attempts_made_def)
    then show ?thesis
    proof cases
      case 1
      with attempt_judged_later[OF assms(4)] show ?thesis by simp
    next
      case 2
      with attempt_judged_later[of k rest c' "p @ evs"] show ?thesis by auto
    qed
  qed
  ultimately show ?thesis by (auto simp: attempts_made_def)
qed

lemma attempts_made_last:
  assumes "contacts p = []" "length (contacts evs) \<le> 1" "guarded evs"
    and "\<And>d. r = Inr d \<Longrightarrow> attempt_judged passed m cap n evs d"
  shows "attempts_made (n # ns) c (p @ evs) r"
  using guarded_append[OF silent[OF assms(1)] assms(3)] assms(1,2,4) attempt_judged_later[of n evs _ p]
  by (auto simp: attempts_made_def)

lemma emits_attempts: "emits (over_attempts se policy ns c body) (attempts_made ns c)"
proof (induction ns arbitrary: c)
  case Nil
  show ?case by (auto intro!: emits_returnE silent simp: attempts_made_def)
next
  case (Cons n ns)
  have pause: "emits (pause se policy n) (\<lambda>evs r. contacts evs = [])"
    by (auto simp: pause_def intro!: emit_intros)
  show ?case
    unfolding over_attempts.simps
  proof (rule emits_bindE[OF pause], goal_cases)
    case (1 u p)
    show ?case
    proof (rule emits_bindE[OF attempt], goal_cases)
      case (1 x evs)
      obtain stop d where x: "x = (stop, d)" by fastforce
      with 1 have d: "attempt_judged passed m cap n evs d" and one: "length (contacts evs) \<le> 1" "guarded evs"
        by auto
      note step = \<open>contacts p = []\<close> one
      show ?case
        unfolding x prod.case
      proof (rule emits_if)
        assume stop
        have "attempts_made (n # ns) c (p @ evs) (Inr d)"
          by (rule attempts_made_last[OF step]) (use d in simp)
        then show "emits (returnE d) (\<lambda>rest. attempts_made (n # ns) c (p @ evs @ rest))"
          by (intro emits_returnE) simp
      next
        show "emits (over_attempts se policy ns d body) (\<lambda>rest. attempts_made (n # ns) c (p @ evs @ rest))"
          by (rule emits_mono[OF Cons.IH]) (rule attempts_made_step[OF step d])
      qed
    next
      case (2 e evs)
      then show ?case by (intro attempts_made_last[OF \<open>contacts p = []\<close>]) auto
    qed
  next
    case (2 e p)
    then show ?case by (simp add: attempts_made_def silent)
  qed
qed

lemma emits_attempt_loop:
  "emits (bindE (check_observation se m cap FAILED 1 None)
      (\<lambda>c. over_attempts se policy (verification_attempts policy) c body))
    (\<lambda>evs r. length (contacts evs) \<le> kp_attempts policy \<and> guarded evs
      \<and> (\<forall>c. r = Inr c \<longrightarrow> concluded policy m cap passed evs c))"
proof (rule emits_bindE[OF emits_concluded_without[where passed = passed and kp = policy]], goal_cases)
  case (2 c evs)
  have "attempt_judged passed m cap n evs' c' \<Longrightarrow> n \<in> set (verification_attempts policy) \<Longrightarrow> concluded policy m cap passed evs' c'"
    for n evs' c'
    by (auto simp: attempt_judged_def concluded_def verification_attempts_def)
  moreover have "length (verification_attempts policy) = kp_attempts policy"
    by (simp add: verification_attempts_def)
  ultimately show ?case
    using 2 by (auto intro!: emits_mono[OF emits_attempts] simp: attempts_made_def)
qed (auto intro: silent)

end

section \<open>The attempts of each check\<close>

definition http_passed :: "check_policy \<Rightarrow> http_check \<Rightarrow> probe_event \<Rightarrow> bool" where
  "http_passed policy hc ev \<longleftrightarrow>
     (\<exists>rq response. ev = HttpSent rq (Inr response) \<and> hr_fault response = None
        \<and> length (concat (hr_chunks response)) \<le> kp_maximum policy \<and> hr_status response \<in> set (hc_statuses hc)
        \<and> \<not> redirected (hr_status response))"

definition redis_passed :: "probe_event \<Rightarrow> bool" where
  "redis_passed ev \<longleftrightarrow> (\<exists>host port. ev = Pinged host port (Inr pong))"

definition postgres_passed :: "probe_event \<Rightarrow> bool" where
  "postgres_passed ev \<longleftrightarrow> (\<exists>t. ev = Queried t (Inr True))"

definition to_target :: "probe_target \<Rightarrow> probe_event list \<Rightarrow> bool" where
  "to_target t evs \<longleftrightarrow> (\<forall>ev \<in> set evs. is_contact ev \<longrightarrow> contacted t ev)"

lemma to_target_silent: "contacts evs = [] \<Longrightarrow> to_target t evs"
  by (auto simp: to_target_def contacts_def filter_empty_conv)

lemma to_target_append: "to_target t a \<Longrightarrow> to_target t b \<Longrightarrow> to_target t (a @ b)"
  by (auto simp: to_target_def)

lemma emits_make_evidence: "emits (make_evidence se ev) (\<lambda>evs r. evs = [])"
  by (auto simp: make_evidence_def intro!: emit_intros)

text \<open>An attempt whose contacts are with \<open>t\<close>.\<close>

definition one_attempt ::
  "probe_target \<Rightarrow> (probe_event \<Rightarrow> bool) \<Rightarrow> check_material \<Rightarrow> capability \<Rightarrow> nat
    \<Rightarrow> probe_event list \<Rightarrow> probe_exn + completed \<Rightarrow> bool" where
  "one_attempt t passed m cap n evs r \<longleftrightarrow>
     length (contacts evs) \<le> 1 \<and> to_target t evs \<and> (contacts evs \<noteq> [] \<longrightarrow> is_contact (hd evs))
     \<and> (\<forall>c. r = Inr c \<longrightarrow> attempt_judged passed m cap n evs c)"

lemma one_attempt_after:
  assumes "contacts evs = [] \<or> (\<exists>ev rest. evs = ev # rest \<and> is_contact ev \<and> contacted t ev \<and> contacts rest = [])"
    and "out = PASSED \<Longrightarrow> contacts evs \<noteq> [] \<and> passed (last (contacts evs))"
  shows "emits (check_observation se m cap out n ev) (\<lambda>evs'. one_attempt t passed m cap n (evs @ evs'))"
proof (rule emits_mono[OF emits_check_observation], goal_cases)
  case (1 evs' r)
  have "to_target t evs"
    using assms(1) to_target_silent[of _ t] by (auto simp: to_target_def)
  with 1 assms show ?case
    by (auto simp: one_attempt_def attempt_judged_def)
qed

lemma one_attempt_raise:
  assumes "contacts evs = [] \<or> (\<exists>ev rest. evs = ev # rest \<and> is_contact ev \<and> contacted t ev \<and> contacts rest = [])"
  shows "one_attempt t passed m cap n evs (Inl e)"
  using assms to_target_silent[of _ t] by (auto simp: one_attempt_def to_target_def)

lemma http_check_outcome_not_passed [simp]: "http_check_outcome e \<noteq> Some PASSED"
  by (cases e) auto

lemma socket_check_outcome_not_passed [simp]: "socket_check_outcome e \<noteq> Some PASSED"
  by (auto simp: socket_check_outcome_def split: option.splits if_splits)

lemma http_exchanged_contact:
  assumes "http_exchanged maximum rq evs r" "\<forall>x. contacted t (HttpSent rq x)"
  shows "\<exists>ev rest. evs = ev # rest \<and> is_contact ev \<and> contacted t ev \<and> contacts rest = []"
  using assms by (auto simp: http_exchanged_def)

lemma emits_http_attempt:
  "emits (http_attempt se send close m policy hc t n) (one_attempt t (http_passed policy hc) m HTTP_CHECK n)"
proof -
  let ?one = "\<lambda>evs. contacts evs = [] \<or> (\<exists>ev rest. evs = ev # rest \<and> is_contact ev \<and> contacted t ev \<and> contacts rest = [])"
  have exchange: "emits (http_exchange send close (kp_maximum policy) timeouts t (hc_path hc)) (\<lambda>evs r. ?one evs
      \<and> (\<forall>response k overflow. r = Inr (response, k, overflow) \<longrightarrow> response_verdict hc (hr_status response) overflow = PASSED
          \<longrightarrow> contacts evs \<noteq> [] \<and> http_passed policy hc (last (contacts evs))))" for timeouts
  proof (rule emits_mono[OF emits_http_exchange], goal_cases)
    case (1 evs r)
    then consider (refused) "evs = []" "isl r" | (sent) rq where "\<forall>x. contacted t (HttpSent rq x)"
        "http_exchanged (kp_maximum policy) rq evs r" by auto
    then show ?case
    proof cases
      case sent
      have "contacts evs \<noteq> [] \<and> http_passed policy hc (last (contacts evs))"
        if "r = Inr (response, k, overflow)" "response_verdict hc (hr_status response) overflow = PASSED"
        for response k overflow
      proof -
        have evs: "evs = [HttpSent rq (Inr response), ResponseClosed None]"
          and read: "read_bounded (kp_maximum policy) 0 (hr_chunks response) (hr_fault response) = Inr (k, overflow)"
          using sent(2)[unfolded that(1)] by (auto elim: http_exchanged_InrE)
        have check_verdict: "overflow = False" "\<not> redirected (hr_status response)" "hr_status response \<in> set (hc_statuses hc)"
          using that(2) by (auto simp: response_verdict_def split: if_splits)
        with read read_bounded_within[of "kp_maximum policy" 0 "hr_chunks response" "hr_fault response" k]
        have "hr_fault response = None" "length (concat (hr_chunks response)) \<le> kp_maximum policy"
          by (cases "hr_chunks response"; simp)+
        with check_verdict evs show ?thesis by (auto simp: http_passed_def)
      qed
      with http_exchanged_contact[OF sent(2,1)] show ?thesis by blast
    qed auto
  qed
  show ?thesis
    unfolding http_attempt_def Let_def
  proof (rule emits_attemptE[where P = "one_attempt t (http_passed policy hc) m HTTP_CHECK n"], goal_cases)
    case 1
    show ?case
    proof (rule emits_bindE[OF exchange], goal_cases)
      case (1 a evs)
      obtain response k overflow where a: "a = (response, k, overflow)" by (cases a) auto
      show ?case
        unfolding a prod.case
        apply (rule emits_bindE[OF emits_make_evidence])
        using 1 a apply (auto intro: one_attempt_after one_attempt_raise)
        done
    next
      case (2 e evs)
      then show ?case by (auto intro: one_attempt_raise)
    qed
  next
    case (2 c evs)
    then show ?case by (auto intro: emits_returnE)
  next
    case (3 e evs)
    then have one: "?one evs"
      unfolding one_attempt_def to_target_def
      by (cases evs) (auto simp: contacts_def filter_empty_conv split: if_splits)
    show ?case
      by (intro emits_case_option emits_raiseE one_attempt_after) (use one in \<open>auto intro: one_attempt_raise\<close>)
  qed
qed

lemma emits_returns_passed:
  assumes "emits k (one_attempt t passed m cap n)"
  shows "emits (returns_passed k) (\<lambda>evs r. length (contacts evs) \<le> 1 \<and> to_target t evs
      \<and> (contacts evs \<noteq> [] \<longrightarrow> is_contact (hd evs))
      \<and> (\<forall>stop c. r = Inr (stop, c) \<longrightarrow> attempt_judged passed m cap n evs c))"
  unfolding returns_passed_def
  by (rule emits_bindE[OF assms]) (auto simp: one_attempt_def intro: emits_returnE)

lemma targeted_attempts:
  assumes "\<And>n. emits (k n) (one_attempt t passed m cap n)"
  shows "check_attempts (\<lambda>n. returns_passed (k n)) (to_target t) passed m cap"
proof
  fix n
  show "emits (returns_passed (k n)) (\<lambda>evs r. length (contacts evs) \<le> 1 \<and> to_target t evs
      \<and> (\<forall>stop c. r = Inr (stop, c) \<longrightarrow> attempt_judged passed m cap n evs c))"
    by (rule emits_mono[OF emits_returns_passed[OF assms]]) blast
qed (simp_all add: to_target_silent to_target_append)

interpretation http_attempts: check_attempts
  "\<lambda>n. returns_passed (http_attempt se send close m policy hc t n)" "to_target t" "http_passed policy hc" m HTTP_CHECK
  for se send close m policy hc t
  by (rule targeted_attempts, rule emits_http_attempt)

lemma emits_redis_attempt:
  "emits (redis_attempt se ping m policy t n) (one_attempt t redis_passed m REDIS_CHECK n)"
proof -
  have contact: "contacted t (Pinged (pt_host t) (pt_port t) x)" for x
    by (simp add: contacted_def)
  show ?thesis
    unfolding redis_attempt_def
  proof (rule emits_attemptE[where P = "\<lambda>evs r. one_attempt t redis_passed m REDIS_CHECK n evs r
      \<and> (\<exists>x. evs = [Pinged (pt_host t) (pt_port t) x])"], goal_cases)
    case 1
    show ?case
    proof (rule emits_bindE[OF emits_callE_eq], goal_cases)
      case (1 response evs)
      have passed: "ping_outcome (kp_maximum policy) response = PASSED \<Longrightarrow> contacts evs \<noteq> [] \<and> redis_passed (last (contacts evs))"
        by (auto simp: 1 redis_passed_def ping_outcome_def split: if_splits)
      show ?case
      proof (rule emits_bindE[OF emits_make_evidence], goal_cases)
        case (1 ev evs')
        have "emits (check_observation se m REDIS_CHECK (ping_outcome (kp_maximum policy) response) n (Some ev))
            (\<lambda>evs'. one_attempt t redis_passed m REDIS_CHECK n (evs @ evs'))"
          by (rule one_attempt_after) (use passed contact \<open>evs = _\<close> in auto)
        from emits_conj[OF this emits_check_observation] show ?case
          by (rule emits_mono) (auto simp: 1 \<open>evs = [_]\<close>)
      next
        case (2 e evs')
        then show ?case using contact \<open>evs = _\<close> by (auto intro: one_attempt_raise)
      qed
    next
      case (2 e evs)
      then show ?case using contact by (auto intro: one_attempt_raise)
    qed
  next
    case (2 c evs)
    then show ?case by (auto intro: emits_returnE)
  next
    case (3 e evs)
    then have "\<exists>ev rest. evs = ev # rest \<and> is_contact ev \<and> contacted t ev \<and> contacts rest = []"
      using contact by auto
    then show ?case
      by (intro emits_case_option emits_raiseE one_attempt_after) (auto intro: one_attempt_raise)
  qed
qed

interpretation redis_attempts: check_attempts
  "\<lambda>n. returns_passed (redis_attempt se ping m policy t n)" "to_target t" redis_passed m REDIS_CHECK
  for se ping m policy t
  by (rule targeted_attempts, rule emits_redis_attempt)

lemma emits_query_attempt:
  "emits (query_attempt se pg m policy auth t password control n) (one_attempt t postgres_passed m POSTGRES_CHECK n)"
proof -
  have contact: "contacted t (Queried t x)" for x
    by (simp add: contacted_def)
  show ?thesis
    unfolding query_attempt_def
  proof (rule emits_attemptE[OF emits_callE_eq], goal_cases)
    case (1 selected evs)
    then show ?case
      by (intro one_attempt_after) (auto simp: contact postgres_passed_def split: if_splits)
  next
    case (2 e evs)
    then have one: "\<exists>ev rest. evs = ev # rest \<and> is_contact ev \<and> contacted t ev \<and> contacts rest = []"
      using contact by auto
    then show ?case
      by (intro emits_if emits_case_option emits_raiseE one_attempt_after) (auto intro: one_attempt_raise)
  qed
qed

interpretation query_attempts: check_attempts
  "\<lambda>n. returns_passed (query_attempt se pg m policy auth t password control n)" "to_target t" postgres_passed m POSTGRES_CHECK
  for se pg m policy auth t password control
  by (rule targeted_attempts, rule emits_query_attempt)

text \<open>An attempt at a public endpoint is justified wherever it stands: it authorizes its own target.\<close>

definition freshly_justified :: "address_policy \<Rightarrow> probe_endpoint \<Rightarrow> probe_event list \<Rightarrow> bool" where
  "freshly_justified policy ep evs \<longleftrightarrow> (\<forall>pre. justified policy ep True pre evs)"

lemma trusted_silent: "trusted_outcome policy ep front x \<Longrightarrow> contacts front = []"
  by (fastforce simp: trusted_outcome_def endpoint_only_def contacts_def filter_empty_conv)

lemma freshly_justified_target:
  assumes "trusted_outcome policy ep front (Inr t)" "to_target t evs" "length (contacts evs) \<le> 1"
    and "contacts evs \<noteq> [] \<longrightarrow> is_contact (hd evs)"
  shows "freshly_justified policy ep (front @ evs)"
  unfolding freshly_justified_def
proof (intro allI justified_append)
  fix pre
  show "justified policy ep True pre front" by (rule justified_silent[OF trusted_silent[OF assms(1)]])
  show "justified policy ep True (pre @ front) evs"
  proof (cases "contacts evs = []")
    case True
    then show ?thesis by (rule justified_silent)
  next
    case False
    with assms(4) have "takeWhile (\<lambda>ev. \<not> is_contact ev) evs = []" by (cases evs) auto
    with justified_target[OF assms(1), of evs True "[]" pre] assms(2,3) show ?thesis
      by (simp add: to_target_def)
  qed
qed

lemma emits_public_attempt:
  assumes "se_policy (cs_probe se) = policy" "km_endpoint m = ep"
  shows "emits (public_attempt se send close m kp hc n) (\<lambda>evs r. length (contacts evs) \<le> 1 \<and> freshly_justified policy ep evs
      \<and> (\<forall>stop c. r = Inr (stop, c) \<longrightarrow> attempt_judged (http_passed kp hc) m HTTP_CHECK n evs c))"
  unfolding public_attempt_def assms(2)
proof (rule emits_attemptE[OF emits_authorized], goal_cases)
  case (1 t front)
  show ?case
    by (rule emits_mono[OF emits_returns_passed[OF emits_http_attempt]])
      (use 1 trusted_silent[OF 1] assms(1) in
        \<open>auto intro: freshly_justified_target http_attempts.attempt_judged_later\<close>)
next
  case (2 e front)
  have front: "contacts front = []" "freshly_justified policy ep front"
    using trusted_silent[OF 2] by (auto simp: freshly_justified_def intro: justified_silent)
  show ?case
    apply (rule emits_case_option)
     apply (rule emits_raiseE, simp add: front)
    apply (rule emits_bindE[OF emits_check_observation])
     apply (auto intro!: emits_returnE simp: front attempt_judged_def)
    done
qed

interpretation public_attempts: check_attempts
  "public_attempt se send close m kp hc" "freshly_justified (se_policy (cs_probe se)) (km_endpoint m)"
  "http_passed kp hc" m HTTP_CHECK
  for se send close m kp hc
proof
  fix n
  show "emits (public_attempt se send close m kp hc n) (\<lambda>evs r. length (contacts evs) \<le> 1
      \<and> freshly_justified (se_policy (cs_probe se)) (km_endpoint m) evs
      \<and> (\<forall>stop c. r = Inr (stop, c) \<longrightarrow> attempt_judged (http_passed kp hc) m HTTP_CHECK n evs c))"
    by (rule emits_public_attempt[OF refl refl])
qed (simp_all add: freshly_justified_def justified_silent justified_append)

section \<open>Verified checks\<close>

text \<open>
  What a check has done and returned: at most as many contacts as attempts, each with an
  authorized target, and a result with the check's identity that passes only when its last
  contact got the answer the check asks for.
\<close>

definition verified_result ::
  "address_policy \<Rightarrow> check_policy \<Rightarrow> check_material \<Rightarrow> capability \<Rightarrow> bool \<Rightarrow> (probe_event \<Rightarrow> bool)
    \<Rightarrow> probe_event list \<Rightarrow> probe_exn + completed \<Rightarrow> bool" where
  "verified_result policy kp m cap fresh passed evs r \<longleftrightarrow>
     length (contacts evs) \<le> kp_attempts kp \<and> justified policy (km_endpoint m) fresh [] evs
     \<and> (\<forall>c. r = Inr c \<longrightarrow> concluded kp m cap passed evs c)"

definition verified ::
  "address_policy \<Rightarrow> check_policy \<Rightarrow> check_material \<Rightarrow> capability \<Rightarrow> bool \<Rightarrow> (probe_event \<Rightarrow> bool)
    \<Rightarrow> probe_event list \<Rightarrow> probe_exn + check_result \<Rightarrow> bool" where
  "verified policy kp m cap fresh passed evs r \<longleftrightarrow>
     length (contacts evs) \<le> kp_attempts kp \<and> justified policy (km_endpoint m) fresh [] evs
     \<and> (\<forall>res. r = Inr res \<longrightarrow> (\<exists>c. res = Completed c \<and> concluded kp m cap passed evs c))"

lemma emits_completing:
  "emits k (verified_result policy kp m cap fresh passed) \<Longrightarrow> emits (completing k) (verified policy kp m cap fresh passed)"
  unfolding completing_def
  by (erule emits_bindE) (auto simp: verified_def verified_result_def intro: emits_returnE)

lemma concluded_later: "concluded kp m cap passed evs c \<Longrightarrow> concluded kp m cap passed (front @ evs) c"
  by (auto simp: concluded_def)

lemma verified_silent:
  "contacts evs = [] \<Longrightarrow> (\<And>c. r = Inr c \<Longrightarrow> concluded kp m cap passed evs c)
    \<Longrightarrow> verified_result policy kp m cap fresh passed evs r"
  by (auto simp: verified_result_def justified_silent)

lemma verified_failed: "contacts evs = [] \<Longrightarrow> verified_result policy kp m cap fresh passed evs (Inl e)"
  by (rule verified_silent) simp_all

lemma verified_target:
  assumes "trusted_outcome policy (km_endpoint m) front (Inr t)"
    and "length (contacts evs) \<le> kp_attempts kp" "to_target t evs" "\<And>c. r = Inr c \<Longrightarrow> concluded kp m cap passed evs c"
  shows "verified_result policy kp m cap False passed (front @ evs) r"
proof -
  have "justified policy (km_endpoint m) False [] (front @ evs)"
  proof (rule justified_append)
    show "justified policy (km_endpoint m) False [] front"
      by (rule justified_silent[OF trusted_silent[OF assms(1)]])
    show "justified policy (km_endpoint m) False ([] @ front) evs"
      using justified_target[OF assms(1), of evs False "[]" "[]"] assms(3) by (simp add: to_target_def)
  qed
  with assms(2,4) trusted_silent[OF assms(1)] show ?thesis
    by (auto simp: verified_result_def intro: concluded_later)
qed

lemma emits_rejected:
  assumes "contacts front = []"
  shows "emits (check_observation se m cap REJECTED 1 None)
    (\<lambda>evs. verified_result policy kp m cap fresh passed (front @ evs))"
  by (rule emits_mono[OF emits_concluded_without[where kp = kp and passed = passed]])
    (use assms concluded_later[of kp m cap passed "[]" _ front] in \<open>auto intro!: verified_silent\<close>)

lemma emits_http_execute:
  assumes "km_check m = HttpCheck base hc"
  shows "emits (http_execute se send close m)
      (verified (se_policy (cs_probe se)) (kb_policy base) m HTTP_CHECK (ep_context (km_endpoint m) = PUBLIC)
        (http_passed (kb_policy base) hc))"
  unfolding http_execute_def assms check.case Let_def
proof (rule emits_completing, rule emits_if)
  assume "ep_context (km_endpoint m) = PUBLIC"
  then show "emits (bindE (check_observation se m HTTP_CHECK FAILED 1 None)
      (\<lambda>c. over_attempts se (kb_policy base) (verification_attempts (kb_policy base)) c
              (public_attempt se send close m (kb_policy base) hc))) (verified_result (se_policy (cs_probe se)) (kb_policy base) m HTTP_CHECK (ep_context (km_endpoint m) = PUBLIC)
        (http_passed (kb_policy base) hc))"
    by (intro emits_mono[OF public_attempts.emits_attempt_loop]) (simp add: verified_result_def freshly_justified_def)
next
  assume other: "ep_context (km_endpoint m) \<noteq> PUBLIC"
  show "emits (attemptE (authorized (cs_probe se) (km_endpoint m))
      (\<lambda>e. case security_code_of e of None \<Rightarrow> raiseE e | Some _ \<Rightarrow> check_observation se m HTTP_CHECK REJECTED 1 None)
      (\<lambda>target. bindE (check_observation se m HTTP_CHECK FAILED 1 None)
        (\<lambda>c. over_attempts se (kb_policy base) (verification_attempts (kb_policy base)) c
          (\<lambda>n. returns_passed (http_attempt se send close m (kb_policy base) hc target n))))) (verified_result (se_policy (cs_probe se)) (kb_policy base) m HTTP_CHECK (ep_context (km_endpoint m) = PUBLIC)
        (http_passed (kb_policy base) hc))"
  proof (rule emits_attemptE[OF emits_authorized], goal_cases)
    case (1 t front)
    have "(ep_context (km_endpoint m) = PUBLIC) = False" using other by simp
    then show ?case
      by (simp only:) (rule emits_mono[OF http_attempts.emits_attempt_loop], rule verified_target[OF 1], auto)
  next
    case (2 e front)
    note silent = trusted_silent[OF 2]
    show ?case
      by (intro emits_case_option emits_raiseE emits_rejected silent) (simp add: verified_failed silent)
  qed
qed


text \<open>
  A Redis check sends at most as many PINGs as its policy has attempts, all to the one target
  the address policy authorized first, and passes only when the last answer was exactly \<open>+PONG\<close>
  and a line end.
\<close>

theorem redis_check_verified:
  assumes "km_check m = RedisCheck base"
    and "redis_execute se ping m s = (r, s')" "trace s' = trace s @ evs"
  shows "verified (se_policy (cs_probe se)) (kb_policy base) m REDIS_CHECK False redis_passed evs r"
proof -
  have "emits (redis_execute se ping m)
      (verified (se_policy (cs_probe se)) (kb_policy base) m REDIS_CHECK False redis_passed)"
    unfolding redis_execute_def assms(1) check.case Let_def
  proof (rule emits_completing, rule emits_attemptE[OF emits_authorized], goal_cases)
    case (1 t front)
    show ?case
      by (rule emits_mono[OF redis_attempts.emits_attempt_loop], rule verified_target[OF 1]) auto
  next
    case (2 e front)
    note silent = trusted_silent[OF 2]
    show ?case
      by (intro emits_case_option emits_raiseE emits_rejected silent) (simp add: verified_failed silent)
  qed
  from emitsD[OF this assms(2,3)] show ?thesis .
qed

lemma vocabulary_silent [simp]:
  "\<not> is_contact (vo_admit probe_vocabulary k x)" "\<not> is_contact (vo_record probe_vocabulary k x)"
  by (simp_all add: probe_vocabulary_def)

text \<open>Bracketing by an invocation port adds no contact.\<close>

lemma emits_invoked:
  assumes "emits call R"
  shows "emits (invoke probe_vocabulary port kind call authorization)
    (\<lambda>evs r. (\<exists>evs' r'. R evs' r' \<and> contacts evs = contacts evs' \<and> (to_target t evs' \<longrightarrow> to_target t evs)
        \<and> (\<forall>v. r = Inr v \<longrightarrow> r' = Inr v)) \<or> contacts evs = [] \<and> isl r)"
proof (cases port)
  case None
  then show ?thesis
    unfolding invoke_def
    by (auto simp: control_errors_def intro!: emits_mono[OF assms])
next
  case (Some p)
  show ?thesis
    unfolding Some
    by (rule emits_mono[OF invoke_bracket[OF assms]]) (fastforce simp: recorded_as_def to_target_def)
qed

lemma emits_resolved_for: "emits (resolved_for pg port resolver grant) (\<lambda>evs r. contacts evs = [])"
proof -
  have call: "emits (callE (\<lambda>_. CredentialResolved k) f) (\<lambda>evs r. contacts evs = [])" for k f
    by (rule emits_callE) simp
  have prepared: "emits (prepared_resolve probe_vocabulary port ok aid
      (\<lambda>g. callE (\<lambda>_. CredentialResolved (pg_authorization pg g)) (resolver g)) prep grant) (\<lambda>evs r. contacts evs = [])"
    for port :: "('a, probe_exn, 'e) invocation_port option" and ok aid prep
    unfolding prepared_resolve_def
    apply (intro emits_if emits_raiseE emits_case_option emits_returnE)
        apply simp_all
    apply (rule emits_bindE[OF emits_invoked[OF call]])
     apply (auto intro: emits_returnE)
    done
  show ?thesis
    unfolding resolved_for_def Let_def
    by (intro emits_case_option call emits_bindE[OF prepared]) (auto intro: emits_returnE)
qed

lemma emits_postgres_password: "emits (postgres_password pg port auth) (\<lambda>evs r. contacts evs = [])"
  unfolding postgres_password_def
  by (intro emits_case_option emits_if emits_raiseE emits_bindE[OF emits_resolved_for] emits_bindE[OF emits_callE_eq] emits_liftE)
    simp_all

lemma emits_invoked_queries:
  "emits (invoke probe_vocabulary port kind (query_attempts se pg m kp auth t password control) authorization)
     (\<lambda>evs r. length (contacts evs) \<le> kp_attempts kp \<and> to_target t evs
        \<and> (\<forall>c. r = Inr c \<longrightarrow> concluded kp m POSTGRES_CHECK postgres_passed evs c))"
  unfolding query_attempts_def
proof (rule emits_mono[OF emits_invoked[OF query_attempts.emits_attempt_loop, where t = t]], elim disjE exE conjE)
  fix evs r evs' r'
  assume run: "length (contacts evs') \<le> kp_attempts kp" "to_target t evs'"
      "\<forall>c. r' = Inr c \<longrightarrow> concluded kp m POSTGRES_CHECK postgres_passed evs' c"
    and same: "contacts evs = contacts evs'" "to_target t evs' \<longrightarrow> to_target t evs" "\<forall>v. r = Inr v \<longrightarrow> r' = Inr v"
  have "concluded kp m POSTGRES_CHECK postgres_passed evs c" if "r = Inr c" for c
    using run(3) same(1,3) that by (simp add: concluded_def)
  with run same show "length (contacts evs) \<le> kp_attempts kp \<and> to_target t evs
      \<and> (\<forall>c. r = Inr c \<longrightarrow> concluded kp m POSTGRES_CHECK postgres_passed evs c)"
    by simp
next
  fix evs and r :: "probe_exn + completed"
  assume "contacts evs = []" "isl r"
  then show "length (contacts evs) \<le> kp_attempts kp \<and> to_target t evs
      \<and> (\<forall>c. r = Inr c \<longrightarrow> concluded kp m POSTGRES_CHECK postgres_passed evs c)"
    by (cases r) (simp_all add: to_target_silent)
qed

lemma emits_postgres_execute:
  assumes "km_check m = PostgresQueryCheck base auth"
  shows "emits (postgres_execute se pg port m)
    (verified (se_policy (cs_probe se)) (kb_policy base) m POSTGRES_CHECK False postgres_passed)"
proof -
  have rejected: "emits (postgres_rejected se m)
      (\<lambda>evs. verified_result (se_policy (cs_probe se)) (kb_policy base) m POSTGRES_CHECK False postgres_passed (front @ evs))"
    if "contacts front = []" for front
    unfolding postgres_rejected_def using that by (rule emits_rejected)
  note rejected0 = rejected[of "[]", simplified]
  have queried: "emits (attemptE (postgres_password pg port au)
        (\<lambda>e. if control e \<or> \<not> is_secret_error e then raiseE e else postgres_rejected se m)
        (\<lambda>password. invoke probe_vocabulary port kind (query_attempts se pg m (kb_policy base) au t password control) None))
      (\<lambda>evs. verified_result (se_policy (cs_probe se)) (kb_policy base) m POSTGRES_CHECK False postgres_passed (front @ evs))"
    if "trusted_outcome (se_policy (cs_probe se)) (km_endpoint m) front (Inr t)" for front t control au kind
  proof (rule emits_attemptE[OF emits_postgres_password], goal_cases)
    case (1 password evs)
    show ?case
      by (rule emits_mono[OF emits_invoked_queries], rule verified_target[OF that])
        (use 1 in \<open>auto intro: to_target_append to_target_silent concluded_later\<close>)
  next
    case (2 e evs)
    then have "contacts (front @ evs) = []" using trusted_silent[OF that] by simp
    from rejected[OF this] verified_failed[OF this] show ?case
      by (intro emits_if emits_raiseE) simp_all
  qed
  show "emits (postgres_execute se pg port m)
      (verified (se_policy (cs_probe se)) (kb_policy base) m POSTGRES_CHECK False postgres_passed)"
    unfolding postgres_execute_def assms check.case Let_def
    apply (rule emits_validated)
     apply (rule emits_case_option)
      apply (rule emits_completing, rule rejected0)
     apply (rule emits_completing)
     apply (rule emits_if, rule rejected0)
     apply (rule emits_attemptE[OF emits_authorized])
      apply (erule queried)
     apply (frule trusted_silent)
     apply (rule emits_if)
      apply (rule emits_raiseE, simp add: verified_failed)
     apply (erule rejected)
    apply (simp add: verified_def justified_silent)
    done
qed


section \<open>The Redis transport\<close>

declare receive_line.simps [simp del]

fun received :: "probe_event list \<Rightarrow> nat list" where
  "received [] = []"
| "received (BytesReceived _ (Inr chunk) # evs) = chunk @ received evs"
| "received (_ # evs) = received evs"

definition receiving :: "nat \<Rightarrow> probe_event list \<Rightarrow> bool" where
  "receiving maximum evs \<longleftrightarrow> (\<forall>ev \<in> set evs. \<exists>n x. ev = BytesReceived n x \<and> 1 \<le> n \<and> n \<le> 4096 \<and> n \<le> maximum + 1)"

definition bounded_receive :: "(nat \<Rightarrow> ('w, probe_exn, nat list) port) \<Rightarrow> bool" where
  "bounded_receive receive \<longleftrightarrow> (\<forall>n w chunk w'. receive n w = (Inr chunk, w') \<longrightarrow> length chunk \<le> n)"

lemma receive_line_emits:
  assumes "bounded_receive receive" "length response \<le> maximum"
    and "receive_line receive maximum response s = (r, s')"
  shows "\<exists>evs. trace s' = trace s @ evs \<and> receiving maximum evs
    \<and> (\<forall>v. r = Inr v \<longrightarrow> v = response @ received evs \<and> length v \<le> maximum + 1)"
  using assms
proof (induction receive maximum response s rule: receive_line.induct)
  case (1 receive maximum response s)
  show ?case
  proof (cases "ends_line response")
    case True
    with 1(3,4) show ?thesis by (auto simp: receiving_def receive_line.simps)
  next
    case False
    define n where "n = min 4096 (maximum + 1 - length response)"
    have n: "1 \<le> n" "n \<le> 4096" "n \<le> maximum + 1" "length response + n \<le> maximum + 1"
      using 1(3) by (auto simp: n_def)
    obtain x w where x: "receive n (world s) = (x, w)" by fastforce
    define t where "t = \<lparr>trace = trace s @ [BytesReceived n x], world = w\<rparr>"
    have call: "callE (BytesReceived n) (receive n) s = (x, t)"
      by (simp add: callE_def x t_def)
    have t: "trace t = trace s @ [BytesReceived n x]" by (simp add: t_def)
    have run: "(case x of Inl e \<Rightarrow> (Inl e, t) | Inr chunk \<Rightarrow>
        if chunk = [] then (Inr response, t)
        else if maximum < length (response @ chunk) then (Inr (response @ chunk), t)
        else receive_line receive maximum (response @ chunk) t) = (r, s')"
      using 1(4) by (simp only: receive_line.simps[of receive maximum response s] if_not_P[OF False] Let_def
          n_def[symmetric] call prod.case)
    show ?thesis
    proof (cases x)
      case (Inl e)
      with run have "r = Inl e" "s' = t" by simp_all
      with t n show ?thesis by (intro exI[of _ "[BytesReceived n x]"]) (auto simp: receiving_def)
    next
      case (Inr chunk)
      have short: "length chunk \<le> n" using 1(2) x Inr by (auto simp: bounded_receive_def)
      consider (final) "r = Inr (response @ chunk)" "s' = t"
        | (more) "chunk \<noteq> []" "length (response @ chunk) \<le> maximum"
            "receive_line receive maximum (response @ chunk) t = (r, s')"
        using run Inr by (auto split: if_splits)
      then show ?thesis
      proof cases
        case final
        with t n short Inr show ?thesis
          by (intro exI[of _ "[BytesReceived n x]"]) (auto simp: receiving_def)
      next
        case more
        have "\<exists>evs. trace s' = trace t @ evs \<and> receiving maximum evs
            \<and> (\<forall>v. r = Inr v \<longrightarrow> v = (response @ chunk) @ received evs \<and> length v \<le> maximum + 1)"
          by (rule 1(1)[OF False n_def call[symmetric] Inr more(1) _ 1(2) more(2,3)]) (use more(2) in simp)
        then obtain evs where "trace s' = trace t @ evs" "receiving maximum evs"
            "\<forall>v. r = Inr v \<longrightarrow> v = (response @ chunk) @ received evs \<and> length v \<le> maximum + 1" by blast
        with t n Inr show ?thesis
          by (intro exI[of _ "BytesReceived n x # evs"]) (auto simp: receiving_def)
      qed
    qed
  qed
qed

text \<open>
  the Redis transport opens one socket to the given address and closes it however the exchange
  ends; every read asks for at most 4096 bytes and never for more than one past the bound,
  and the response is exactly the bytes received, at most one more than the bound.  A read is
  assumed to return no more bytes than asked for.
\<close>

theorem redis_transport_bounded:
  assumes "bounded_receive receive"
    and "socket_ping connect send_all receive close host port timeout maximum s = (r, s')"
    and "trace s' = trace s @ evs"
  shows "(\<exists>e. evs = [SocketConnected host port (Some e)] \<and> r = Inl e)
    \<or> (\<exists>reads. evs = [SocketConnected host port None, BytesSent ping_command] @ reads @ [SocketClosed]
         \<and> receiving maximum reads
         \<and> (\<forall>v. r = Inr v \<longrightarrow> v = received reads \<and> length v \<le> maximum + 1))"
proof -
  have reading: "emits (receive_line receive maximum []) (\<lambda>evs r. receiving maximum evs
      \<and> (\<forall>v. r = Inr v \<longrightarrow> v = received evs \<and> length v \<le> maximum + 1))"
    using receive_line_emits[OF assms(1), of "[]" maximum] by (intro emitsI) fastforce
  have sent: "emits (bindE (callE (\<lambda>_. BytesSent ping_command) (send_all ping_command)) (\<lambda>_. receive_line receive maximum []))
      (\<lambda>evs r. \<exists>reads. evs = BytesSent ping_command # reads \<and> receiving maximum reads
        \<and> (\<forall>v. r = Inr v \<longrightarrow> v = received reads \<and> length v \<le> maximum + 1))"
    by (rule emits_bindE[OF emits_callE_eq], rule emits_mono[OF reading]) (simp_all add: receiving_def)
  have "emits (socket_ping connect send_all receive close host port timeout maximum) (\<lambda>evs r.
      (\<exists>e. evs = [SocketConnected host port (Some e)] \<and> r = Inl e)
      \<or> (\<exists>reads. evs = [SocketConnected host port None, BytesSent ping_command] @ reads @ [SocketClosed]
           \<and> receiving maximum reads \<and> (\<forall>v. r = Inr v \<longrightarrow> v = received reads \<and> length v \<le> maximum + 1)))"
    unfolding socket_ping_def
  proof (rule emits_bindE[OF emits_callE_eq], goal_cases)
    case (1 u opened)
    have close: "emits (bindE (callE (\<lambda>_. SocketClosed) close) k) (\<lambda>evs r. evs = [SocketClosed] \<and> (\<forall>v. r = Inr v \<longrightarrow> x = Inr v))"
      if "k = (\<lambda>_. liftE x)" for k and x :: "probe_exn + nat list"
      unfolding that by (rule emits_bindE[OF emits_callE_eq]) (auto intro: emits_liftE)
    show ?case
    proof (rule emits_attemptE[OF sent], goal_cases)
      case (1 v evs)
      then obtain reads where reads: "evs = BytesSent ping_command # reads" "receiving maximum reads"
          "v = received reads" "length v \<le> maximum + 1" by auto
      show ?case
        by (rule emits_mono[OF close[where x = "Inr v"]], simp, intro disjI2 exI[of _ reads])
          (use reads \<open>opened = _\<close> in \<open>auto simp: error_of_def\<close>)
    next
      case (2 e evs)
      then obtain reads where reads: "evs = BytesSent ping_command # reads" "receiving maximum reads" by auto
      show ?case
        by (rule emits_mono[OF close[where x = "Inl e"]], simp, intro disjI2 exI[of _ reads])
          (use reads \<open>opened = _\<close> in \<open>auto simp: error_of_def\<close>)
    qed
  qed (simp add: error_of_def)
  from emitsD[OF this assms(2,3)] show ?thesis .
qed

section \<open>Witnesses\<close>

text \<open>Checks of the sample public endpoint with one attempt and good answers.\<close>

definition sample_check_policy :: check_policy where
  "sample_check_policy = \<lparr>kp_attempts = 1, kp_interval = 1, kp_timeout = 1, kp_maximum = 16\<rparr>"

definition sample_base :: check_base where
  "sample_base = \<lparr>kb_id = ''c1'', kb_socket = ''http'', kb_policy = sample_check_policy\<rparr>"

definition sample_http_check :: http_check where
  "sample_http_check = \<lparr>hc_path = ''/up'', hc_statuses = [200], hc_sha256 = None\<rparr>"

definition sample_authentication :: postgres_authentication where
  "sample_authentication = \<lparr>pa_database = ''db'', pa_username = ''u'', pa_reference = ''r''\<rparr>"

definition sample_material :: "check \<Rightarrow> check_material" where
  "sample_material c = \<lparr>km_node = ''n1'', km_graph = ''g1'', km_check = c, km_endpoint = sample_public_endpoint\<rparr>"

definition sample_check_setting :: "unit check_setting" where
  "sample_check_setting = \<lparr>cs_probe = sample_setting, cs_evidence_refuses = \<lambda>_. None, cs_refuses = \<lambda>_. None,
     cs_sleep = \<lambda>_ w. (Inr (), w)\<rparr>"

definition sample_passed :: "check \<Rightarrow> capability \<Rightarrow> evidence option \<Rightarrow> check_result" where
  "sample_passed c cap ev = Completed \<lparr>co_identity = (''n1'', ''g1'', ''c1''), co_capability = cap, co_outcome = PASSED,
     co_attempts = 1, co_evidence = ev\<rparr>"

lemma sample_attempts: "verification_attempts sample_check_policy = [1]"
  by (simp add: verification_attempts_def sample_check_policy_def)

lemma sample_check_simps:
  "km_check (sample_material c) = c" "km_endpoint (sample_material c) = sample_public_endpoint"
  "km_node (sample_material c) = ''n1''" "km_graph (sample_material c) = ''g1''"
  "cs_probe sample_check_setting = sample_setting" "cs_evidence_refuses sample_check_setting e = None"
  "cs_refuses sample_check_setting d = None" "kb_policy sample_base = sample_check_policy" "kb_id sample_base = ''c1''"
  "kp_timeout sample_check_policy = 1" "kp_maximum sample_check_policy = 16"
  "ep_context sample_public_endpoint = PUBLIC"
  by (simp_all add: sample_material_def sample_check_setting_def sample_base_def sample_check_policy_def
      sample_public_endpoint_def sample_endpoint_def)

lemmas sample_check_run =
  bindE_def attemptE_def callE_def returnE_def liftE_def completing_def returns_passed_def check_observation_def make_evidence_def
  sample_attempts pause_def sample_check_simps sample_setting_authorized verification_identity_def Let_def

definition sample_http_run :: "(probe_exn + check_result) \<times> (probe_event, unit) st" where
  "sample_http_run = http_execute sample_check_setting (\<lambda>_ w. (Inr sample_response, w)) (\<lambda>w. (Inr (), w))
     (sample_material (HttpCheck sample_base sample_http_check)) \<lparr>trace = [], world = ()\<rparr>"

lemma sample_http_run_eq:
  "sample_http_run = (Inr (sample_passed (HttpCheck sample_base sample_http_check) HTTP_CHECK (Some (HttpEvidence 200 2 None None))),
     \<lparr>trace = [sample_resolved, HttpSent sample_request (Inr sample_response), ResponseClosed None], world = ()\<rparr>)"
proof -
  have target: "pt_host_header sample_target = Some ''h.io:443''" "pt_sni sample_target = Some ''h.io''"
    by (simp_all add: sample_target_def)
  have read: "read_bounded 16 0 (hr_chunks sample_response) (hr_fault sample_response) = Inr (2, False)"
    "hr_status sample_response = 200"
    by (simp_all add: sample_response_def)
  have check: "hc_path sample_http_check = ''/up''" "hc_statuses sample_http_check = [200]"
    by (simp_all add: sample_http_check_def)
  show ?thesis
    by (simp add: sample_http_run_def http_execute_def sample_check_run public_attempt_def http_attempt_def http_exchange_def
        check target read sample_request_url read_closing_def error_of_def response_verdict_def redirected_def sample_passed_def
        sample_request_def)
qed


definition sample_redis_run :: "(probe_exn + check_result) \<times> (probe_event, unit) st" where
  "sample_redis_run = redis_execute sample_check_setting (\<lambda>_ _ _ _ w. (Inr pong, w))
     (sample_material (RedisCheck sample_base)) \<lparr>trace = [], world = ()\<rparr>"

lemma sample_redis_run_eq:
  "sample_redis_run = (Inr (sample_passed (RedisCheck sample_base) REDIS_CHECK (Some (RedisEvidence 7))),
     \<lparr>trace = [sample_resolved, Pinged ''8.8.8.8'' 443 (Inr pong)], world = ()\<rparr>)"
  by (simp add: sample_redis_run_def redis_execute_def sample_check_run redis_attempt_def ping_outcome_def sample_passed_def
      sample_target_def) (simp add: pong_def)

lemma redis_check_verified_witness:
  "verified sample_address_policy sample_check_policy (sample_material (RedisCheck sample_base)) REDIS_CHECK False redis_passed
     [sample_resolved, Pinged ''8.8.8.8'' 443 (Inr pong)]
     (Inr (sample_passed (RedisCheck sample_base) REDIS_CHECK (Some (RedisEvidence 7))))"
  using redis_check_verified[OF _ sample_redis_run_eq[unfolded sample_redis_run_def], of sample_base
      "[sample_resolved, Pinged ''8.8.8.8'' 443 (Inr pong)]"]
  by (simp add: sample_check_simps sample_setting_def)

definition sample_postgres :: "(unit, string, string, string) postgres_interpreter" where
  "sample_postgres = \<lparr>pg_select = \<lambda>_ _ _ _ _ w. (Inr True, w), pg_credential = None,
     pg_authorized = Some (\<lambda>g w. (Inr ''pw'', w)), pg_grant = Some ''g'', pg_permits = \<lambda>_ _. True, pg_grant_ok = \<lambda>_. True,
     pg_authorization = id, pg_read = \<lambda>_. Inr, pg_read_reference = \<lambda>_. Inr\<rparr>"

definition sample_postgres_run :: "(probe_exn + check_result) \<times> (probe_event, unit) st" where
  "sample_postgres_run = postgres_execute sample_check_setting sample_postgres
     (None :: (unit, probe_exn, unit) invocation_port option)
     (sample_material (PostgresQueryCheck sample_base (Some sample_authentication))) \<lparr>trace = [], world = ()\<rparr>"

lemma sample_postgres_run_eq:
  "sample_postgres_run = (Inr (sample_passed (PostgresQueryCheck sample_base (Some sample_authentication)) POSTGRES_CHECK None),
     \<lparr>trace = [sample_resolved, CredentialResolved ''g'', Queried sample_target (Inr True)], world = ()\<rparr>)"
  by (simp add: sample_postgres_run_def postgres_execute_def sample_check_run control_errors_def postgres_password_def
      sample_postgres_def resolved_for_def invoke_def query_attempts_def query_attempt_def sample_passed_def)


definition sample_receive :: "nat \<Rightarrow> (unit, probe_exn, nat list) port" where
  "sample_receive n w = (Inr (take n pong), w)"

lemma sample_ping_eq:
  "socket_ping (\<lambda>_ _ _ w. (Inr (), w)) (\<lambda>_ w. (Inr (), w)) sample_receive (\<lambda>w. (Inr (), w)) ''gw'' 6379 1 16
     \<lparr>trace = [], world = ()\<rparr>
   = (Inr pong, \<lparr>trace = [SocketConnected ''gw'' 6379 None, BytesSent ping_command, BytesReceived 17 (Inr pong), SocketClosed],
        world = ()\<rparr>)"
  by (simp add: socket_ping_def eff_defs error_of_def receive_line.simps ends_line_def sample_receive_def pong_def)

lemma redis_transport_bounded_witness:
  "\<exists>reads. [SocketConnected ''gw'' 6379 None, BytesSent ping_command, BytesReceived 17 (Inr pong), SocketClosed]
      = [SocketConnected ''gw'' 6379 None, BytesSent ping_command] @ reads @ [SocketClosed]
    \<and> receiving 16 reads \<and> pong = received reads \<and> length pong \<le> 17"
  using redis_transport_bounded[OF _ sample_ping_eq,
      of "[SocketConnected ''gw'' 6379 None, BytesSent ping_command, BytesReceived 17 (Inr pong), SocketClosed]"]
  by (simp add: bounded_receive_def sample_receive_def)

end
