(* ===== verification/Sha256.thy ===== *)
theory Sha256
  imports Prelude "HOL-Library.Word"
begin

unbundle bit_operations_syntax

text \<open>
  \<open>hashlib.sha256(...).hexdigest()\<close> of a byte string, as FIPS 180-4 specifies it, on 32-bit words.
  The Docker resources are named and labelled by these digests.
\<close>

type_synonym w32 = "32 word"

text \<open>
  The first 32 bits of the fractional parts of the cube roots of the first 64 primes, and of the
  square roots of the first eight.
\<close>

definition round_constants :: "w32 list" where
  "round_constants =
   [1116352408, 1899447441, 3049323471, 3921009573, 961987163, 1508970993, 2453635748, 2870763221,
    3624381080, 310598401, 607225278, 1426881987, 1925078388, 2162078206, 2614888103, 3248222580,
    3835390401, 4022224774, 264347078, 604807628, 770255983, 1249150122, 1555081692, 1996064986,
    2554220882, 2821834349, 2952996808, 3210313671, 3336571891, 3584528711, 113926993, 338241895,
    666307205, 773529912, 1294757372, 1396182291, 1695183700, 1986661051, 2177026350, 2456956037,
    2730485921, 2820302411, 3259730800, 3345764771, 3516065817, 3600352804, 4094571909, 275423344,
    430227734, 506948616, 659060556, 883997877, 958139571, 1322822218, 1537002063, 1747873779,
    1955562222, 2024104815, 2227730452, 2361852424, 2428436474, 2756734187, 3204031479, 3329325298]"

definition initial_hash :: "w32 list" where
  "initial_hash =
   [1779033703, 3144134277, 1013904242, 2773480762, 1359893119, 2600822924, 528734635, 1541459225]"

definition small_sigma :: "nat \<Rightarrow> nat \<Rightarrow> nat \<Rightarrow> w32 \<Rightarrow> w32" where
  "small_sigma a b c x = word_rotr a x XOR word_rotr b x XOR drop_bit c x"

definition big_sigma :: "nat \<Rightarrow> nat \<Rightarrow> nat \<Rightarrow> w32 \<Rightarrow> w32" where
  "big_sigma a b c x = word_rotr a x XOR word_rotr b x XOR word_rotr c x"

fun word_of_bytes :: "nat list \<Rightarrow> w32" where
  "word_of_bytes bs = of_nat (foldl (\<lambda>acc b. 256 * acc + b) 0 bs)"

text \<open>The pieces of \<open>n\<close> elements of a list, the last one possibly shorter.\<close>

function chunks :: "nat \<Rightarrow> 'a list \<Rightarrow> 'a list list" where
  "chunks n xs = (if xs = [] \<or> n = 0 then [] else take n xs # chunks n (drop n xs))"
  by pat_completeness auto
termination by (relation "measure (length \<circ> snd)") auto

declare chunks.simps [simp del]

definition big_endian :: "nat \<Rightarrow> nat \<Rightarrow> nat list" where
  "big_endian k n = rev (map (\<lambda>i. n div 256 ^ i mod 256) [0..<k])"

definition sha_padding :: "nat \<Rightarrow> nat list" where
  "sha_padding len = 128 # replicate ((119 - len mod 64) mod 64) 0 @ big_endian 8 (8 * len)"

text \<open>The message schedule: each round appends one word to the sixteen words of the block.\<close>

fun schedule :: "nat \<Rightarrow> w32 list \<Rightarrow> w32 list" where
  "schedule 0 ws = ws"
| "schedule (Suc k) ws =
     (let t = length ws
      in schedule k (ws @ [small_sigma 17 19 10 (ws ! (t - 2)) + ws ! (t - 7)
           + small_sigma 7 18 3 (ws ! (t - 15)) + ws ! (t - 16)]))"

fun sha_round :: "w32 list \<Rightarrow> w32 \<times> w32 \<Rightarrow> w32 list" where
  "sha_round [a, b, c, d, e, f, g, h] (k, w) =
     (let t1 = h + big_sigma 6 11 25 e + ((e AND f) XOR (NOT e AND g)) + k + w;
          t2 = big_sigma 2 13 22 a + ((a AND b) XOR (a AND c) XOR (b AND c))
      in [t1 + t2, a, b, c, d + t1, e, f, g])"
| "sha_round state kw = state"

definition sha_block :: "w32 list \<Rightarrow> nat list \<Rightarrow> w32 list" where
  "sha_block state block =
     map2 (+) state (foldl sha_round state
       (zip round_constants (schedule 48 (map word_of_bytes (chunks 4 block)))))"

definition sha_words :: "nat list \<Rightarrow> w32 list" where
  "sha_words bs = foldl sha_block initial_hash (chunks 64 (bs @ sha_padding (length bs)))"

definition lower_hex_digit :: "nat \<Rightarrow> char" where
  "lower_hex_digit n = (if n < 10 then char_of (48 + n) else char_of (87 + n))"

definition hex_word :: "w32 \<Rightarrow> string" where
  "hex_word w = map (\<lambda>i. lower_hex_digit (unat w div 16 ^ (7 - i) mod 16)) [0..<8]"

definition sha256_hex :: "nat list \<Rightarrow> string" where
  "sha256_hex bs = concat (map hex_word (sha_words bs))"

section \<open>The shape of a digest\<close>

definition lower_hex :: "char \<Rightarrow> bool" where
  "lower_hex c \<longleftrightarrow> is_digit c \<or> in_range 97 102 c"

definition hex64 :: "string \<Rightarrow> bool" where
  "hex64 s \<longleftrightarrow> length s = 64 \<and> list_all lower_hex s"

lemma length_sha_round [simp]: "length (sha_round state kw) = length state"
  by (cases "(state, kw)" rule: sha_round.cases) (simp_all add: Let_def)

lemma length_sha_block [simp]: "length (sha_block state block) = length state"
proof -
  have "length (foldl sha_round state kws) = length state" for kws
    by (induction kws arbitrary: state) simp_all
  then show ?thesis by (simp add: sha_block_def)
qed

lemma length_sha_words: "length (sha_words bs) = 8"
proof -
  have "length (foldl sha_block state blocks) = length state" for state blocks
    by (induction blocks arbitrary: state) simp_all
  then show ?thesis by (simp add: sha_words_def initial_hash_def)
qed

lemma lower_hex_digits: "n < 16 \<Longrightarrow> lower_hex (lower_hex_digit n)"
  by (auto simp: lower_hex_digit_def lower_hex_def is_digit_def in_range_def)

lemma hex64_sha256: "hex64 (sha256_hex bs)"
proof -
  have "length (concat (map hex_word ws)) = 8 * length ws" for ws
    by (induction ws) (simp_all add: hex_word_def)
  then have "length (sha256_hex bs) = 64"
    by (simp add: sha256_hex_def length_sha_words)
  moreover have "list_all lower_hex (sha256_hex bs)"
    by (auto simp: sha256_hex_def hex_word_def list_all_iff intro!: lower_hex_digits)
  ultimately show ?thesis by (simp add: hex64_def)
qed

end
