(* ===== verification/Runtime_Types.thy ===== *)
theory Runtime_Types
  imports Verification Sha256
begin

text \<open>
  What the Docker interpreters share: their exceptions, the request they are given, and the
  names, labels and fingerprints of the resources of a request (\<open>docker/runtime.py\<close>).
\<close>

section \<open>Exceptions\<close>

datatype start_phase =
  IMAGE_AVAILABILITY | NETWORK | CONFIGURATION | CONTAINER_CREATE | CONTAINER_START | FINAL_INSPECT

fun phase_value :: "start_phase \<Rightarrow> string" where
  "phase_value IMAGE_AVAILABILITY = ''image-availability''"
| "phase_value NETWORK = ''network''"
| "phase_value CONFIGURATION = ''configuration''"
| "phase_value CONTAINER_CREATE = ''container-create''"
| "phase_value CONTAINER_START = ''container-start''"
| "phase_value FINAL_INSPECT = ''final-inspect''"

datatype create_suboperation =
  INSPECTION | REQUEST_CONSTRUCTION | ENDPOINT_CONSTRUCTION | SDK_CREATE | SUBOPERATION_UNKNOWN

fun suboperation_value :: "create_suboperation \<Rightarrow> string" where
  "suboperation_value INSPECTION = ''container-inspection''"
| "suboperation_value REQUEST_CONSTRUCTION = ''request-construction''"
| "suboperation_value ENDPOINT_CONSTRUCTION = ''endpoint-construction''"
| "suboperation_value SDK_CREATE = ''sdk-create''"
| "suboperation_value SUBOPERATION_UNKNOWN = ''unknown''"

datatype docker_category =
  DOCKER_TIMEOUT | DOCKER_TRANSPORT | DOCKER_API | DOCKER_MATERIAL | DOCKER_UNEXPECTED

fun docker_category_value :: "docker_category \<Rightarrow> string" where
  "docker_category_value DOCKER_TIMEOUT = ''timeout''"
| "docker_category_value DOCKER_TRANSPORT = ''transport''"
| "docker_category_value DOCKER_API = ''provider-api''"
| "docker_category_value DOCKER_MATERIAL = ''invalid-request-material''"
| "docker_category_value DOCKER_UNEXPECTED = ''unexpected''"

text \<open>
  An exception of a health check that no interpreter caught, with the name of its type, is a
  \<open>ProbeFault\<close>.  Foreign exceptions by the classes \<open>_docker_failure_category\<close> tells apart, with the name of their
  type; \<open>MaterialClass\<close> are those whose type is exactly \<open>TypeError\<close>, \<open>ValueError\<close> or
  \<open>InvalidArgument\<close>.
\<close>

datatype fault_class = TimeoutClass | TransportClass | ApiClass | MaterialClass | OtherClass

datatype dk_exn =
    PreconditionError string string
  | UnsupportedAuthority string
  | StartNodeUncertain start_phase create_suboperation docker_category
  | ContainerCreateError create_suboperation docker_category
  | ContractError
  | DkSecretError secret_code
  | DkPortError string
  | DkControl string
  | ObservationUnknown
  | MaterialConflict
  | SecretFileEvidenceError
  | ConfigurationEvidenceError
  | ConfigurationVolumeInUse
  | MalformedInspection
  | UnixAcquisitionError
  | ProviderFault fault_class string
  | ProbeFault probe_exn string
  | DkCancelled
  | DkBase string

fun dk_is_exception :: "dk_exn \<Rightarrow> bool" where
  "dk_is_exception DkCancelled = False"
| "dk_is_exception (DkBase _) = False"
| "dk_is_exception _ = True"

definition docker_failure_category :: "dk_exn \<Rightarrow> create_suboperation \<Rightarrow> docker_category" where
  "docker_failure_category e sub =
     (case e of
        ProviderFault TimeoutClass _ \<Rightarrow> DOCKER_TIMEOUT
      | ProviderFault TransportClass _ \<Rightarrow> DOCKER_TRANSPORT
      | ProviderFault ApiClass _ \<Rightarrow> DOCKER_API
      | ProviderFault MaterialClass _ \<Rightarrow>
          if sub \<in> {REQUEST_CONSTRUCTION, ENDPOINT_CONSTRUCTION} then DOCKER_MATERIAL else DOCKER_UNEXPECTED
      | _ \<Rightarrow> DOCKER_UNEXPECTED)"

text \<open>\<open>type(error).__name__\<close>.\<close>

fun error_name :: "dk_exn \<Rightarrow> string" where
  "error_name (PreconditionError _ _) = ''_DockerInterpreterPreconditionError''"
| "error_name (UnsupportedAuthority _) = ''_DockerInterpreterUnsupportedAuthorityError''"
| "error_name (StartNodeUncertain _ _ _) = ''_DockerStartNodeUncertainError''"
| "error_name (ContainerCreateError _ _) = ''_DockerContainerCreateError''"
| "error_name ContractError = ''RuntimeEffectContractError''"
| "error_name (DkSecretError _) = ''SecretResolutionError''"
| "error_name (DkPortError _) = ''InvocationPortError''"
| "error_name (DkControl name) = name"
| "error_name ObservationUnknown = ''ConfigurationObservationUnknown''"
| "error_name MaterialConflict = ''ConfigurationMaterialConflict''"
| "error_name SecretFileEvidenceError = ''DockerSdkSecretFileEvidenceError''"
| "error_name ConfigurationEvidenceError = ''DockerSdkConfigurationEvidenceError''"
| "error_name ConfigurationVolumeInUse = ''DockerSdkConfigurationVolumeInUse''"
| "error_name MalformedInspection = ''RuntimeError''"
| "error_name UnixAcquisitionError = ''_DockerUnixClientAcquisitionError''"
| "error_name (ProviderFault _ name) = name"
| "error_name (ProbeFault _ name) = name"
| "error_name DkCancelled = ''CancelledError''"
| "error_name (DkBase name) = name"

definition bounded_error_message :: "dk_exn \<Rightarrow> string" where
  "bounded_error_message e = take 512 (error_name e)"

section \<open>JSON and Python texts\<close>

fun str_le :: "string \<Rightarrow> string \<Rightarrow> bool" where
  "str_le [] _ = True"
| "str_le (c # cs) [] = False"
| "str_le (c # cs) (d # ds) = (code_of c < code_of d \<or> (c = d \<and> str_le cs ds))"

definition escaped_char :: "char \<Rightarrow> string" where
  "escaped_char c =
     (if c = CHR 0x22 then [CHR 0x5C, CHR 0x22] else if c = CHR 0x5C then [CHR 0x5C, CHR 0x5C]
      else if code_of c = 10 then [CHR 0x5C, CHR ''n''] else if code_of c = 13 then [CHR 0x5C, CHR ''r'']
      else if code_of c = 9 then [CHR 0x5C, CHR ''t''] else if code_of c = 8 then [CHR 0x5C, CHR ''b'']
      else if code_of c = 12 then [CHR 0x5C, CHR ''f'']
      else if 32 \<le> code_of c \<and> code_of c \<le> 126 then [c]
      else CHR 0x5C # ''u00'' @ [lower_hex_digit (code_of c div 16), lower_hex_digit (code_of c mod 16)])"

definition json_text_of :: "string \<Rightarrow> string" where
  "json_text_of s = [CHR 0x22] @ concat (map escaped_char s) @ [CHR 0x22]"

fun insert_entry :: "string \<times> 'a \<Rightarrow> (string \<times> 'a) list \<Rightarrow> (string \<times> 'a) list" where
  "insert_entry e [] = [e]"
| "insert_entry e (f # fs) = (if str_le (fst e) (fst f) then e # f # fs else f # insert_entry e fs)"

text \<open>\<open>json.dumps(value, sort_keys=True, separators=(",", ":"), ensure_ascii=True)\<close>.\<close>

fun canonical_json :: "json \<Rightarrow> string" where
  "canonical_json JNull = ''null''"
| "canonical_json (JBool b) = (if b then ''true'' else ''false'')"
| "canonical_json (JInt i) = show_int i"
| "canonical_json (JFloat s) = s"
| "canonical_json (JStr s) = json_text_of s"
| "canonical_json (JList xs) = ''['' @ py_join '','' (map canonical_json xs) @ '']''"
| "canonical_json (JObj kvs) =
     ''{'' @ py_join '',''
       (map (\<lambda>(k, v). json_text_of k @ '':'' @ v)
         (foldr insert_entry (map (\<lambda>(k, v). (k, canonical_json v)) kvs) [])) @ ''}''"

text \<open>\<open>repr\<close> of a text and of a tuple of texts.\<close>

definition repr_char :: "char \<Rightarrow> char \<Rightarrow> string" where
  "repr_char quote c =
     (if c = quote \<or> c = CHR 0x5C then [CHR 0x5C, c]
      else if code_of c = 10 then [CHR 0x5C, CHR ''n''] else if code_of c = 13 then [CHR 0x5C, CHR ''r'']
      else if code_of c = 9 then [CHR 0x5C, CHR ''t'']
      else if code_of c < 32 \<or> (127 \<le> code_of c \<and> code_of c \<le> 160) \<or> code_of c = 173
      then CHR 0x5C # ''x'' @ [lower_hex_digit (code_of c div 16), lower_hex_digit (code_of c mod 16)]
      else [c])"

definition py_repr :: "string \<Rightarrow> string" where
  "py_repr s =
     (let quote = (if CHR 0x27 \<in> set s \<and> CHR 0x22 \<notin> set s then CHR 0x22 else CHR 0x27)
      in [quote] @ concat (map (repr_char quote) s) @ [quote])"

definition repr_tuple :: "string list \<Rightarrow> string" where
  "repr_tuple xs =
     (case xs of [x] \<Rightarrow> ''('' @ py_repr x @ '',)'' | _ \<Rightarrow> ''('' @ py_join '', '' (map py_repr xs) @ '')'')"

text \<open>UTF-8 of a text, and the reading of an octal file mode.\<close>

definition utf8_bytes :: "string \<Rightarrow> nat list" where
  "utf8_bytes s =
     concat (map (\<lambda>c. if code_of c < 128 then [code_of c] else [192 + code_of c div 64, 128 + code_of c mod 64]) s)"

definition octal_value :: "string \<Rightarrow> nat" where
  "octal_value s = foldl (\<lambda>acc c. 8 * acc + (code_of c - 48)) 0 s"

section \<open>Requests\<close>

record secret_selection =
  sel_reference :: string
  sel_intent :: string
  sel_version :: string

datatype secret_delivery =
    SecretEnvironmentDelivery string string string
  | SecretReferenceEnvironmentDelivery string string
  | SecretFileDelivery string string string string "string option"

text \<open>
  A grant: an operational one for its references and uses, or one for an exact selection;
  each has its authorization id.
\<close>

datatype secret_grant = UseGrant string "(string \<times> string) list" | VersionGrant string secret_selection

fun grant_authorization :: "secret_grant \<Rightarrow> string" where
  "grant_authorization (UseGrant k _) = k"
| "grant_authorization (VersionGrant k _) = k"

record configuration_artifact =
  ca_id :: string
  ca_digest :: string
  ca_content :: string
  ca_target :: string
  ca_mode :: string

record provider_port =
  pp_socket :: string
  pp_protocol :: string
  pp_port :: nat

text \<open>
  The material of one product.  The descriptors of core values (the contract's as its
  \<open>repr\<close>, the others as JSON) are data of the request.
\<close>

record product_material =
  pm_node :: string
  pm_runtime :: string
  pm_product_key :: string
  pm_descriptor :: string
  pm_image_digest :: string
  pm_image_reference :: string
  pm_contract_repr :: string
  pm_public_environment :: "(string \<times> string \<times> json) list"
  pm_socket_environment :: "(string \<times> string \<times> json) list"
  pm_authority_descriptors :: "json list"
  pm_artifacts :: "configuration_artifact list"
  pm_retained :: "(string \<times> string) list"
  pm_deliveries :: "secret_delivery list"
  pm_selections :: "(secret_selection \<times> json) list"
  pm_ports :: "provider_port list"
  pm_pull :: "(string \<times> bool) option"
  pm_checks :: "check list"

datatype runtime_operation =
    StartRuntime "string option"
  | ReconcileRuntime "string option"
  | StopRuntime "string option"
  | RemoveRuntimeResource "string option"
  | StartNode
  | ReconcileNode
  | StopNode
  | RemoveNodeResource
  | WaitForHealthy
  | CleanupConfigurationInstances
  | OtherOperation

text \<open>
  A reference to the allocation of a configuration instance, with the canonical bytes of the core's
  codec.
\<close>

record configuration_reference =
  ki_workspace :: string
  ki_runtime :: string
  ki_node :: string
  ki_allocation :: string
  ki_artifact :: string
  ki_digest :: string
  ki_bytes :: "nat list"

datatype effect_kind = REALIZE_ACTIVITY | CONFIGURATION_ACTIVITY_V1 | OTHER_EFFECT

datatype authority_delivery = LocalDockerSocketMount | OtherDelivery

text \<open>
  A request.  The fingerprints the core computes of it are data: of the request itself, of the
  selection of its configuration, and of its selected secret material.  \<open>rr_instances\<close> are the
  configuration instances of its operation or activity.
\<close>

record runtime_request =
  rr_effect :: string
  rr_kind :: effect_kind
  rr_docker :: bool
  rr_workspace :: string
  rr_plan :: string
  rr_graph :: string
  rr_operation :: runtime_operation
  rr_products :: "product_material list"
  rr_grants :: "secret_grant list"
  rr_deliveries :: "authority_delivery list"
  rr_fingerprint :: string
  rr_selection :: string
  rr_secret_selection :: string
  rr_instances :: "configuration_reference list"

datatype result_kind = SUCCEEDED | FAILED_EFFECT | UNSUPPORTED_EFFECT | UNCERTAIN_EFFECT

record effect_failure =
  ef_code :: string
  ef_message :: string
  ef_details :: "(string \<times> json) list"

record 'o runtime_result =
  re_effect :: string
  re_kind :: result_kind
  re_evidence :: "(string \<times> json) list"
  re_failure :: "effect_failure option"
  re_observations :: "'o list"

text \<open>Entries whose values are texts.\<close>

definition text_entries :: "(string \<times> string) list \<Rightarrow> (string \<times> json) list" where
  "text_entries es = map (\<lambda>(k, v). (k, JStr v)) es"

definition effect_succeeded :: "runtime_request \<Rightarrow> (string \<times> string) list \<Rightarrow> 'o list \<Rightarrow> 'o runtime_result" where
  "effect_succeeded rq evidence observations =
     \<lparr>re_effect = rr_effect rq, re_kind = SUCCEEDED, re_evidence = text_entries evidence, re_failure = None,
      re_observations = observations\<rparr>"

definition effect_ended :: "runtime_request \<Rightarrow> result_kind \<Rightarrow> effect_failure \<Rightarrow> 'o runtime_result" where
  "effect_ended rq kind failure =
     \<lparr>re_effect = rr_effect rq, re_kind = kind, re_evidence = [], re_failure = Some failure, re_observations = []\<rparr>"

definition effect_unsupported :: "runtime_request \<Rightarrow> string \<Rightarrow> 'o runtime_result" where
  "effect_unsupported rq code =
     effect_ended rq UNSUPPORTED_EFFECT
       \<lparr>ef_code = code, ef_message = ''Docker runtime interpreter does not support request'', ef_details = []\<rparr>"

definition effect_failed :: "runtime_request \<Rightarrow> string \<Rightarrow> string \<Rightarrow> 'o runtime_result" where
  "effect_failed rq code message =
     effect_ended rq FAILED_EFFECT \<lparr>ef_code = code, ef_message = message, ef_details = []\<rparr>"

definition single_product :: "runtime_request \<Rightarrow> dk_exn + product_material" where
  "single_product rq =
     (case rr_products rq of
        [m] \<Rightarrow> Inr m
      | _ \<Rightarrow> Inl (PreconditionError ''docker.product-material-required''
                ''Docker node activity requires exactly one product material''))"

fun operation_target :: "runtime_operation \<Rightarrow> string option" where
  "operation_target (StartRuntime t) = t"
| "operation_target (ReconcileRuntime t) = t"
| "operation_target (StopRuntime t) = t"
| "operation_target (RemoveRuntimeResource t) = t"
| "operation_target _ = None"

definition runtime_target :: "runtime_operation \<Rightarrow> dk_exn + string" where
  "runtime_target op =
     (case operation_target op of
        Some t \<Rightarrow> if t = [] then Inl (PreconditionError ''docker.runtime-target-required''
                    ''Docker runtime activity requires a runtime target'') else Inr t
      | None \<Rightarrow> Inl (PreconditionError ''docker.runtime-target-required''
                    ''Docker runtime activity requires a runtime target''))"

section \<open>Names\<close>

definition kept_char :: "char \<Rightarrow> bool" where
  "kept_char c \<longleftrightarrow> ascii_alpha c \<or> is_digit c \<or> c \<in> set ''_.-''"

text \<open>Each maximal run of other characters becomes one \<open>-\<close>; the flag says whether one is open.\<close>

fun dashed :: "bool \<Rightarrow> string \<Rightarrow> string" where
  "dashed r [] = []"
| "dashed r (c # cs) =
     (if kept_char c then c # dashed False cs
      else if r then dashed True cs else CHR ''-'' # dashed True cs)"

definition rstrip_of :: "char set \<Rightarrow> string \<Rightarrow> string" where
  "rstrip_of S s = rev (dropWhile (\<lambda>c. c \<in> S) (rev s))"

definition strip_of :: "char set \<Rightarrow> string \<Rightarrow> string" where
  "strip_of S s = rstrip_of S (dropWhile (\<lambda>c. c \<in> S) s)"

definition name_segment :: "string \<Rightarrow> string" where
  "name_segment value =
     (let cleaned = py_lower (strip_of (set ''-.'') (dashed False value))
      in if cleaned = [] then ''x'' else cleaned)"

definition digest_of :: "string list \<Rightarrow> string" where
  "digest_of parts = sha256_hex (concat (map (\<lambda>p. utf8_bytes p @ [0]) parts))"

definition resource_name :: "string \<Rightarrow> string list \<Rightarrow> string" where
  "resource_name kind parts =
     (let readable = py_join ''-'' (map name_segment (kind # parts));
          suffix = take 12 (digest_of (kind # parts));
          prefix = rstrip_of (set ''-.'') (take (63 - length suffix - 1) (''cpk-'' @ readable))
      in prefix @ ''-'' @ suffix)"

definition network_name :: "runtime_request \<Rightarrow> string \<Rightarrow> string" where
  "network_name rq runtime = resource_name ''net'' [rr_workspace rq, runtime]"

definition container_name :: "runtime_request \<Rightarrow> string \<Rightarrow> string" where
  "container_name rq node = resource_name ''node'' [rr_workspace rq, node]"

definition volume_name :: "runtime_request \<Rightarrow> string \<Rightarrow> string \<Rightarrow> string" where
  "volume_name rq node material = resource_name ''vol'' [rr_workspace rq, node, material]"

section \<open>Labels\<close>

text \<open>
  A dictionary of labels as its entries, an earlier entry overriding a later one;
  \<open>same_labels\<close> is equality of dictionaries.
\<close>

type_synonym labels = "(string \<times> string) list"

definition label_prefix :: string where
  "label_prefix = ''org.openj92.cpk.''"

definition label_of :: "labels \<Rightarrow> string \<Rightarrow> string option" where
  "label_of ls key = map_of ls (label_prefix @ key)"

definition labelled :: "labels \<Rightarrow> labels" where
  "labelled ls = map (\<lambda>(k, v). (label_prefix @ k, v)) ls"

definition same_labels :: "labels \<Rightarrow> labels \<Rightarrow> bool" where
  "same_labels a b \<longleftrightarrow> list_all (\<lambda>k. map_of a k = map_of b k) (map fst a @ map fst b)"

definition node_material_profile :: string where
  "node_material_profile = ''node-material.v1''"

definition canonical_descriptors :: "json list \<Rightarrow> string" where
  "canonical_descriptors ds = canonical_json (JList ds)"

definition node_fingerprint :: "runtime_request \<Rightarrow> product_material \<Rightarrow> string" where
  "node_fingerprint rq m =
     digest_of ([node_material_profile, rr_workspace rq, pm_node m, pm_runtime m, pm_product_key m, pm_descriptor m,
         pm_image_reference m, pm_contract_repr m,
         canonical_descriptors (map (snd \<circ> snd) (pm_public_environment m)),
         canonical_descriptors (map (snd \<circ> snd) (pm_socket_environment m)),
         canonical_descriptors (pm_authority_descriptors m),
         repr_tuple (map ca_digest (pm_artifacts m)),
         repr_tuple (map fst (pm_retained m))]
       @ (if pm_selections m = [] then [] else [canonical_descriptors (map snd (pm_selections m))]))"

definition runtime_labels :: "runtime_request \<Rightarrow> string \<Rightarrow> labels" where
  "runtime_labels rq runtime =
     labelled [(''kind'', ''runtime-network''), (''workspace'', rr_workspace rq), (''runtime'', runtime),
       (''plan'', rr_plan rq), (''desired-graph'', rr_graph rq),
       (''fingerprint'', digest_of [''runtime'', rr_workspace rq, rr_graph rq, runtime])]"

definition node_labels :: "runtime_request \<Rightarrow> product_material \<Rightarrow> labels" where
  "node_labels rq m =
     labelled [(''kind'', ''container''), (''workspace'', rr_workspace rq), (''runtime'', pm_runtime m),
       (''node'', pm_node m), (''plan'', rr_plan rq), (''desired-graph'', rr_graph rq),
       (''product'', pm_product_key m), (''descriptor'', pm_descriptor m), (''image'', pm_image_digest m),
       (''material-profile'', node_material_profile), (''fingerprint'', node_fingerprint rq m)]"

definition ownership_conflict :: "string \<Rightarrow> string \<Rightarrow> dk_exn" where
  "ownership_conflict code resource =
     PreconditionError (''docker.'' @ code @ ''-ownership-conflict'')
       (''Docker '' @ resource @ '' is not owned by this runtime effect'')"

definition fingerprint_matches :: "labels \<Rightarrow> labels \<Rightarrow> bool" where
  "fingerprint_matches observed expected \<longleftrightarrow> label_of observed ''fingerprint'' = label_of expected ''fingerprint''"

definition require_owned :: "labels \<Rightarrow> labels \<Rightarrow> string \<Rightarrow> dk_exn + unit" where
  "require_owned observed expected resource =
     requireR (fingerprint_matches observed expected) (ownership_conflict resource resource)"

definition owned_by :: "string list \<Rightarrow> labels \<Rightarrow> labels \<Rightarrow> bool" where
  "owned_by keys observed expected \<longleftrightarrow> list_all (\<lambda>k. label_of observed k = label_of expected k) keys"

definition require_label_owner :: "labels \<Rightarrow> labels \<Rightarrow> string \<Rightarrow> string list \<Rightarrow> dk_exn + unit" where
  "require_label_owner observed expected resource keys =
     requireR (owned_by keys observed expected) (ownership_conflict (name_segment resource) resource)"

definition runtime_keys :: "string list" where
  "runtime_keys = [''kind'', ''workspace'', ''runtime'']"

definition node_keys :: "string list" where
  "node_keys = [''kind'', ''workspace'', ''runtime'', ''node'']"

definition require_runtime_owner :: "labels \<Rightarrow> labels \<Rightarrow> string \<Rightarrow> dk_exn + unit" where
  "require_runtime_owner observed expected resource = require_label_owner observed expected resource runtime_keys"

definition require_node_owner :: "labels \<Rightarrow> labels \<Rightarrow> string \<Rightarrow> dk_exn + unit" where
  "require_node_owner observed expected resource = require_label_owner observed expected resource node_keys"

definition require_material_evidence :: "labels \<Rightarrow> dk_exn + unit" where
  "require_material_evidence ls =
     requireR (label_of ls ''material-profile'' = Some node_material_profile
         \<and> (case label_of ls ''fingerprint'' of Some f \<Rightarrow> hex64 f | None \<Rightarrow> False)
         \<and> list_all (\<lambda>k. case label_of ls k of Some v \<Rightarrow> py_strip v \<noteq> [] | None \<Rightarrow> False) [''plan'', ''desired-graph''])
       (PreconditionError ''docker.container-material-evidence-unsupported''
         ''Docker container material evidence is unsupported'')"

text \<open>The labels of this program, with the plan or graph of an earlier one made anonymous.\<close>

definition cpk_labels :: "labels \<Rightarrow> labels" where
  "cpk_labels ls = filter (\<lambda>(k, _). py_startswith k label_prefix) ls"

definition anonymous :: "string \<Rightarrow> string \<Rightarrow> labels \<Rightarrow> labels" where
  "anonymous key text ls =
     (case label_of ls key of
        Some v \<Rightarrow> if v \<noteq> [] then (label_prefix @ key, text) # ls else ls
      | None \<Rightarrow> ls)"

definition correlation_labels :: "bool \<Rightarrow> bool \<Rightarrow> labels \<Rightarrow> labels" where
  "correlation_labels prior_plan prior_graph ls =
     (let own = cpk_labels ls;
          own' = (if prior_plan then anonymous ''plan'' ''<recorded-plan>'' own else own)
      in if prior_graph then anonymous ''desired-graph'' ''<recorded-graph>'' own' else own')"

end
