(* ===== verification/Docker_Names.thy ===== *)
theory Docker_Names
  imports Runtime_Types
begin

text \<open>
  The names of Docker resources: every name the runtime makes is short enough and made of the
  characters Docker accepts, whatever the identifiers of the request are.
\<close>

definition resource_char :: "char \<Rightarrow> bool" where
  "resource_char c \<longleftrightarrow> is_lower_alpha c \<or> is_digit c \<or> c \<in> set ''_.-''"

lemma lower_kept_char: "kept_char c \<Longrightarrow> resource_char (py_lower_char c)"
proof -
  assume c: "kept_char c"
  show "resource_char (py_lower_char c)"
  proof (cases "is_upper_alpha c")
    case True
    then have "code_of c + 32 < 256" by (simp add: is_upper_alpha_def in_range_def)
    with True show ?thesis
      by (auto simp: py_lower_char_def resource_char_def is_lower_alpha_def is_upper_alpha_def in_range_def code_of_def)
  next
    case False
    with c have "resource_char c" by (auto simp: kept_char_def resource_char_def ascii_alpha_def)
    moreover from c False have "py_lower_char c = c"
      by (auto simp: py_lower_char_def kept_char_def ascii_alpha_def is_lower_alpha_def is_digit_def in_range_def code_of_def)
    ultimately show ?thesis by simp
  qed
qed

lemma dashed_chars: "list_all kept_char (dashed r s)"
  by (induction r s rule: dashed.induct) (auto simp: kept_char_def)

lemma list_all_dropWhile: "list_all p s \<Longrightarrow> list_all p (dropWhile q s)"
  by (auto simp: list_all_iff dest: set_dropWhileD)

lemma list_all_rstrip: "list_all p s \<Longrightarrow> list_all p (rstrip_of S s)"
  by (auto simp: rstrip_of_def list_all_iff dest: set_dropWhileD)

lemma length_rstrip: "length (rstrip_of S s) \<le> length s"
  using length_dropWhile_le[of _ "rev s"] by (simp add: rstrip_of_def)

lemma rstrip_keeps: "c \<notin> S \<Longrightarrow> \<exists>w. rstrip_of S (u @ c # v) = u @ c # w"
  by (cases "set v \<subseteq> S") (auto simp: rstrip_of_def dropWhile_append subset_iff)

lemma name_segment_chars: "list_all resource_char (name_segment v)"
proof -
  have "list_all kept_char (strip_of (set ''-.'') (dashed False v))"
    unfolding strip_of_def by (intro list_all_rstrip list_all_dropWhile dashed_chars)
  then have "list_all resource_char (py_lower (strip_of (set ''-.'') (dashed False v)))"
    by (auto simp: py_lower_def list_all_iff intro: lower_kept_char)
  moreover have "resource_char CHR ''x''" by code_simp
  ultimately show ?thesis by (auto simp: name_segment_def Let_def)
qed

lemma list_all_join: "list_all p d \<Longrightarrow> list_all (list_all p) xs \<Longrightarrow> list_all p (py_join d xs)"
  by (induction d xs rule: py_join.induct) auto

lemma lower_hex_name: "lower_hex c \<Longrightarrow> resource_char c"
  by (auto simp: lower_hex_def resource_char_def is_lower_alpha_def in_range_def)

lemma digest_suffix: "length (take 12 (digest_of ps)) = 12" "list_all lower_hex (take 12 (digest_of ps))"
  using hex64_sha256 by (auto simp: digest_of_def hex64_def list_all_iff dest: in_set_takeD)

lemma resource_name_shape:
  "length (resource_name kind parts) \<le> 63 \<and> list_all resource_char (resource_name kind parts)
   \<and> (\<exists>stem. resource_name kind parts = ''cpk'' @ stem @ ''-'' @ take 12 (digest_of (kind # parts)))"
proof -
  let ?readable = "py_join ''-'' (map name_segment (kind # parts))" and ?suffix = "take 12 (digest_of (kind # parts))"
  let ?text = "''cpk-'' @ ?readable"
  let ?prefix = "rstrip_of (set ''-.'') (take 50 ?text)"
  have name: "resource_name kind parts = ?prefix @ ''-'' @ ?suffix"
    unfolding resource_name_def Let_def digest_suffix(1) by simp
  have "length ?prefix \<le> 50"
    using length_rstrip[of "set ''-.''" "take 50 ?text"] by simp
  moreover have "list_all resource_char ?prefix"
  proof (intro list_all_rstrip)
    have cpk: "list_all resource_char ''cpk-''" "list_all resource_char ''-''" by code_simp+
    moreover have "list_all resource_char ?readable"
      by (intro list_all_join cpk) (auto simp del: list.map simp: list_all_iff[where P = "list_all resource_char"] name_segment_chars)
    ultimately have "list_all resource_char ?text" by simp
    then show "list_all resource_char (take 50 ?text)"
      by (auto simp: list_all_iff dest: in_set_takeD)
  qed
  moreover have "list_all resource_char ?suffix"
    using digest_suffix(2) by (auto simp: list_all_iff intro: lower_hex_name)
  moreover obtain w where "?prefix = ''cp'' @ CHR ''k'' # w"
    using rstrip_keeps[of "CHR ''k''" "set ''-.''" "''cp''" "take 47 (CHR ''-'' # ?readable)"] by auto
  moreover have "resource_char CHR ''-''" by code_simp
  ultimately show ?thesis
    unfolding name by (auto simp: digest_suffix)
qed

text \<open>
  C40: every resource name is at most 63 characters long, starts with \<open>cpk\<close>, uses only lower-case
  letters, digits, underscores, dots and dashes, and ends with a dash and twelve hexadecimal digits
  of the digest of its kind and parts.
\<close>

theorem resource_name_valid:
  "length (resource_name kind parts) \<le> 63 \<and> list_all resource_char (resource_name kind parts)
   \<and> (\<exists>stem. resource_name kind parts = ''cpk'' @ stem @ ''-'' @ take 12 (digest_of (kind # parts)))"
  by (rule resource_name_shape)

end
