(* ===== verification/Docker_Client.thy ===== *)
theory Docker_Client
  imports Runtime_Types
begin

text \<open>
  The values and calls of \<open>DockerSdkClient\<close> (\<open>docker/sdk.py\<close>) the runtime interpreter uses.  Every
  call is a port and appends one event; the calls that change the provider are \<open>Mutated\<close>.
\<close>

section \<open>Values\<close>

record bind_mount =
  bm_source :: string
  bm_target :: string
  bm_read_only :: bool

record configured_mount =
  cm_source :: string
  cm_target :: string
  cm_read_only :: "bool option"

record secret_mount =
  sm_target :: string
  sm_volume :: string

record published_port =
  pu_container :: nat
  pu_transport :: string
  pu_address :: string
  pu_host :: nat

record image_inspection =
  ii_id :: string
  ii_digests :: "string list"
  ii_user :: "string option"

record network_attachment =
  na_network :: string
  na_address :: "string option"

text \<open>\<open>DockerSdkResourceInspection\<close> of a container.\<close>

record container_inspection =
  ci_name :: string
  ci_identity :: "string option"
  ci_running :: bool
  ci_image_id :: "string option"
  ci_labels :: labels
  ci_published :: "published_port list"
  ci_addresses :: "(string \<times> string) list"
  ci_networks :: "string list"
  ci_user :: "string option"
  ci_secret_mounts :: "secret_mount list"
  ci_binds :: "bind_mount list option"
  ci_groups :: "string list option"
  ci_configured :: "configured_mount list option"
  ci_image :: "string option"
  ci_attachments :: "network_attachment list option"

record network_inspection =
  ni_name :: string
  ni_labels :: labels
  ni_identity :: "string option"

record configuration_volume =
  cv_name :: string
  cv_created :: string
  cv_labels :: labels
  cv_local :: bool

record configuration_file =
  cf_digest :: string
  cf_mode :: nat
  cf_regular :: bool

record configuration_mount =
  mi_container :: string
  mi_volume :: string
  mi_target :: string
  mi_subpath :: string
  mi_read_only :: bool
  mi_file :: configuration_file

datatype probe_category = COMPLETED | RESPONSE_REJECTED | RESPONSE_OVERSIZED | PROBE_TIMED_OUT | UNAVAILABLE_PROBE

record http_probe =
  hp_status :: "int option"
  hp_size :: int
  hp_exit :: int
  hp_category :: probe_category
  hp_matches :: "bool option"

text \<open>The arguments of a probe, and of the readback of a secret recipient: target, text and mode of each file.\<close>

record probe_arguments =
  pb_network :: string
  pb_url :: string
  pb_timeout :: rat
  pb_maximum :: int
  pb_expected :: "string option"

record recipient_request =
  rp_container :: string
  rp_environment :: "(string \<times> string) list"
  rp_mounts :: "secret_mount list"
  rp_files :: "(string \<times> string \<times> string) list"
  rp_image :: image_inspection
  rp_owner :: "nat option"

record secret_file =
  sf_digest :: string
  sf_uid :: nat
  sf_mode :: nat
  sf_regular :: bool

record provider_facts =
  pf_system :: string
  pf_type :: string
  pf_engine :: string
  pf_api :: string

datatype registry_auth = IdentityToken string | UsernamePassword string string

record container_spec =
  sp_name :: string
  sp_image :: string
  sp_environment :: "(string \<times> string) list"
  sp_labels :: labels
  sp_volumes :: "(string \<times> string) list"
  sp_configurations :: "(configuration_artifact \<times> string) list"
  sp_secrets :: "secret_mount list"
  sp_binds :: "bind_mount list"
  sp_groups :: "string list"
  sp_network :: string
  sp_aliases :: "string list"

section \<open>Calls\<close>

datatype mutation =
    CreateNetwork string labels
  | RemoveNetwork string
  | PullImage string "registry_auth option"
  | CreateVolume string labels
  | MaterializeArtifact string configuration_artifact
  | MaterializeSecret string string string nat
  | CreateContainer container_spec
  | RunContainer container_spec
  | StartContainer string
  | StopContainer string
  | RemoveContainer string
  | RemoveConfigurationVolume configuration_volume

text \<open>What a client of an authority connects to.\<close>

datatype client_target = UnixTarget | TlsTarget string string string string

datatype docker_event =
    ContainerRead string "dk_exn + container_inspection option"
  | NetworkRead string "dk_exn + network_inspection option"
  | ImageRead string "dk_exn + image_inspection option"
  | VolumeRead string "dk_exn + labels option"
  | ArtifactDigestRead string "dk_exn + string option"
  | SecretFileRead string "dk_exn + secret_file option"
  | LocalityRead "dk_exn + bool"
  | FactsRead "dk_exn + provider_facts option"
  | SocketGroupRead "dk_exn + nat"
  | Mutated mutation "dk_exn + string"
  | GrantResolved string
  | ReferenceResolved string
  | PullAuthorityResolved string
  | ConfigurationVolumeRead string "dk_exn + configuration_volume option"
  | VolumeUseRead string "dk_exn + bool"
  | ConfigurationFileRead string "dk_exn + configuration_file option"
  | ConfigurationMountRead string configuration_artifact string "dk_exn + configuration_mount option"
  | RecipientVerified string "dk_exn + unit"
  | HttpProbed probe_arguments "dk_exn + http_probe"
  | Probed probe_event
  | InvocationAdmitted string "dk_exn + unit"
  | OutcomeRecorded string "dk_exn + unit"
  | ClientOpened client_target "dk_exn option"
  | ClientClosed "dk_exn option"

type_synonym ('w, 'a) dk_eff = "((docker_event, 'w) st, dk_exn, 'a) eff"

text \<open>
  The client.  \<open>dc_mutate\<close> is the method of that name; it returns the identity of a created
  container and nothing (the empty text) otherwise.
\<close>

record 'w docker_client =
  dc_container :: "string \<Rightarrow> ('w, dk_exn, container_inspection option) port"
  dc_network :: "string \<Rightarrow> ('w, dk_exn, network_inspection option) port"
  dc_image :: "string \<Rightarrow> ('w, dk_exn, image_inspection option) port"
  dc_volume :: "string \<Rightarrow> ('w, dk_exn, labels option) port"
  dc_artifact_digest :: "string \<Rightarrow> ('w, dk_exn, string option) port"
  dc_secret_file :: "string \<Rightarrow> ('w, dk_exn, secret_file option) port"
  dc_local_socket :: "string \<Rightarrow> ('w, dk_exn, bool) port"
  dc_facts :: "('w, dk_exn, provider_facts option) port"
  dc_config_volume :: "string \<Rightarrow> ('w, dk_exn, configuration_volume option) port"
  dc_volume_used :: "string \<Rightarrow> ('w, dk_exn, bool) port"
  dc_config_file :: "string \<Rightarrow> ('w, dk_exn, configuration_file option) port"
  dc_config_mount :: "string \<Rightarrow> configuration_artifact \<Rightarrow> string \<Rightarrow> ('w, dk_exn, configuration_mount option) port"
  dc_recipient :: "recipient_request \<Rightarrow> ('w, dk_exn, unit) port"
  dc_probe :: "probe_arguments \<Rightarrow> ('w, dk_exn, http_probe) port"
  dc_mutate :: "mutation \<Rightarrow> ('w, dk_exn, string) port"
  dc_close :: "('w, dk_exn, unit) port"

definition inspect_container :: "'w docker_client \<Rightarrow> string \<Rightarrow> ('w, container_inspection option) dk_eff" where
  "inspect_container dc name = callE (ContainerRead name) (dc_container dc name)"

definition inspect_network :: "'w docker_client \<Rightarrow> string \<Rightarrow> ('w, network_inspection option) dk_eff" where
  "inspect_network dc name = callE (NetworkRead name) (dc_network dc name)"

definition inspect_image :: "'w docker_client \<Rightarrow> string \<Rightarrow> ('w, image_inspection option) dk_eff" where
  "inspect_image dc name = callE (ImageRead name) (dc_image dc name)"

definition inspect_volume :: "'w docker_client \<Rightarrow> string \<Rightarrow> ('w, labels option) dk_eff" where
  "inspect_volume dc name = callE (VolumeRead name) (dc_volume dc name)"

definition configuration_artifact_digest :: "'w docker_client \<Rightarrow> string \<Rightarrow> ('w, string option) dk_eff" where
  "configuration_artifact_digest dc name = callE (ArtifactDigestRead name) (dc_artifact_digest dc name)"

definition inspect_secret_file :: "'w docker_client \<Rightarrow> string \<Rightarrow> ('w, secret_file option) dk_eff" where
  "inspect_secret_file dc name = callE (SecretFileRead name) (dc_secret_file dc name)"

definition uses_local_socket :: "'w docker_client \<Rightarrow> string \<Rightarrow> ('w, bool) dk_eff" where
  "uses_local_socket dc path = callE LocalityRead (dc_local_socket dc path)"

definition inspect_facts :: "'w docker_client \<Rightarrow> ('w, provider_facts option) dk_eff" where
  "inspect_facts dc = callE FactsRead (dc_facts dc)"

definition inspect_configuration_volume :: "'w docker_client \<Rightarrow> string \<Rightarrow> ('w, configuration_volume option) dk_eff" where
  "inspect_configuration_volume dc name = callE (ConfigurationVolumeRead name) (dc_config_volume dc name)"

definition configuration_volume_in_use :: "'w docker_client \<Rightarrow> string \<Rightarrow> ('w, bool) dk_eff" where
  "configuration_volume_in_use dc name = callE (VolumeUseRead name) (dc_volume_used dc name)"

definition inspect_configuration_file :: "'w docker_client \<Rightarrow> string \<Rightarrow> ('w, configuration_file option) dk_eff" where
  "inspect_configuration_file dc name = callE (ConfigurationFileRead name) (dc_config_file dc name)"

definition inspect_configuration_mount ::
  "'w docker_client \<Rightarrow> string \<Rightarrow> configuration_artifact \<Rightarrow> string \<Rightarrow> ('w, configuration_mount option) dk_eff" where
  "inspect_configuration_mount dc ident a volume =
     callE (ConfigurationMountRead ident a volume) (dc_config_mount dc ident a volume)"

definition verify_secret_recipient :: "'w docker_client \<Rightarrow> recipient_request \<Rightarrow> ('w, unit) dk_eff" where
  "verify_secret_recipient dc rp = callE (RecipientVerified (rp_container rp)) (dc_recipient dc rp)"

definition run_http_probe :: "'w docker_client \<Rightarrow> probe_arguments \<Rightarrow> ('w, http_probe) dk_eff" where
  "run_http_probe dc pb = callE (HttpProbed pb) (dc_probe dc pb)"

definition mutate :: "'w docker_client \<Rightarrow> mutation \<Rightarrow> ('w, string) dk_eff" where
  "mutate dc mu = callE (Mutated mu) (dc_mutate dc mu)"

definition perform :: "'w docker_client \<Rightarrow> mutation \<Rightarrow> ('w, unit) dk_eff" where
  "perform dc mu = bindE (mutate dc mu) (\<lambda>_. returnE ())"

fun mutation_of :: "docker_event \<Rightarrow> mutation option" where
  "mutation_of (Mutated mu r) = Some mu"
| "mutation_of _ = None"

section \<open>Values of the client\<close>

text \<open>
  \<open>matches_image_reference\<close>.  \<open>ok\<close> is the validation of \<open>OciImageReference\<close>, which keeps
  its three parts.
\<close>

definition matches_image_reference :: "(string \<Rightarrow> string \<Rightarrow> string \<Rightarrow> bool) \<Rightarrow> string \<Rightarrow> string list \<Rightarrow> bool" where
  "matches_image_reference ok expected repo_digests =
     (case partition_at CHR ''@'' expected of
        (name, separator, digest) \<Rightarrow>
          (case partition_at CHR ''/'' name of
             (registry, slash, repository) \<Rightarrow>
               if \<not> separator \<or> \<not> slash \<or> \<not> ok registry repository digest then False
               else let official = drop (length ''library/'') repository;
                        permitted = expected #
                          (if registry = ''docker.io'' \<and> py_startswith repository ''library/'' \<and> CHR ''/'' \<notin> set official
                           then map (\<lambda>p. p @ official @ ''@'' @ digest) [[], ''library/'', ''docker.io/''] else [])
                    in list_ex (\<lambda>reference. reference \<in> set permitted) repo_digests))"

text \<open>\<open>_secret_file_owner_uid\<close>: \<open>None\<close> is its \<open>ValueError\<close>.\<close>

definition uid_component :: "string \<Rightarrow> bool" where
  "uid_component s \<longleftrightarrow>
     s \<noteq> [] \<and> list_all is_digit s \<and> (s = ''0'' \<or> hd s \<noteq> CHR ''0'') \<and> length s \<le> 10
     \<and> number 10 0 (map (\<lambda>c. code_of c - 48) s) \<le> 2147483647"

definition secret_file_owner_uid :: "string option \<Rightarrow> nat option" where
  "secret_file_owner_uid user =
     (case user of
        None \<Rightarrow> None
      | Some u \<Rightarrow>
          if u = [] then Some 0
          else if 21 < length u then None
          else let components = py_split CHR '':'' u
               in if length components \<le> 2 \<and> list_all uid_component components
                  then Some (number 10 0 (map (\<lambda>c. code_of c - 48) (hd components))) else None)"

text \<open>The endpoints of a started node, all private to its runtime (the ports are not published).\<close>

record endpoint_observation =
  eo_subject :: string
  eo_socket :: string
  eo_graph :: string
  eo_protocol :: string
  eo_address :: string

text \<open>An observation in the result of an effect.\<close>

datatype runtime_observation = EndpointSeen endpoint_observation | CheckSeen completed

definition url_host :: "string \<Rightarrow> string" where
  "url_host host =
     (case ip_address host of
        Some (V6 n scope) \<Rightarrow> ''['' @ host @ '']''
      | _ \<Rightarrow> host)"

text \<open>\<open>scheme\<close> is the first of the sorted schemes of a protocol.\<close>

definition endpoint_url :: "(string \<Rightarrow> string) \<Rightarrow> string \<Rightarrow> string \<Rightarrow> nat \<Rightarrow> string" where
  "endpoint_url scheme protocol host port = scheme protocol @ ''://'' @ url_host host @ '':'' @ show_nat port"

text \<open>Port bindings are sorted by their fields; socket names are distinct, so the name decides.\<close>

fun insert_port :: "provider_port \<Rightarrow> provider_port list \<Rightarrow> provider_port list" where
  "insert_port p [] = [p]"
| "insert_port p (q # qs) = (if str_le (pp_socket p) (pp_socket q) then p # q # qs else q # insert_port p qs)"

definition private_endpoints ::
  "(string \<Rightarrow> string) \<Rightarrow> string \<Rightarrow> string \<Rightarrow> string \<Rightarrow> provider_port list \<Rightarrow> endpoint_observation list" where
  "private_endpoints scheme subject graph host ports =
     map (\<lambda>p. \<lparr>eo_subject = subject, eo_socket = pp_socket p, eo_graph = graph, eo_protocol = pp_protocol p,
               eo_address = endpoint_url scheme (pp_protocol p) host (pp_port p)\<rparr>)
       (foldr insert_port ports [])"

end
