(* ===== verification/Docker_Inspect.thy ===== *)
theory Docker_Inspect
  imports Docker_Client Provider_Client
begin

text \<open>
  How \<open>DockerSdkClient\<close> reads what the Docker daemon says of a resource (\<open>docker/sdk.py\<close>): the
  decoded attributes become an inspection, or the reading fails as malformed.  What cannot be
  read completely is unknown (\<open>None\<close>), never empty.
\<close>

section \<open>Values\<close>

fun insert_by :: "('a \<Rightarrow> 'a \<Rightarrow> bool) \<Rightarrow> 'a \<Rightarrow> 'a list \<Rightarrow> 'a list" where
  "insert_by le x [] = [x]"
| "insert_by le x (y # ys) = (if le x y then x # y # ys else y # insert_by le x ys)"

definition sort_by :: "('a \<Rightarrow> 'a \<Rightarrow> bool) \<Rightarrow> 'a list \<Rightarrow> 'a list" where
  "sort_by le xs = foldr (insert_by le) xs []"

definition json_get_or :: "json \<Rightarrow> string \<Rightarrow> json \<Rightarrow> json" where
  "json_get_or j k d = (case j of JObj kvs \<Rightarrow> (case map_of kvs k of None \<Rightarrow> d | Some v \<Rightarrow> v) | _ \<Rightarrow> d)"

definition json_has :: "json \<Rightarrow> string \<Rightarrow> bool" where
  "json_has j k = (case j of JObj kvs \<Rightarrow> map_of kvs k \<noteq> None | _ \<Rightarrow> False)"

fun truthy :: "json \<Rightarrow> bool" where
  "truthy JNull = False"
| "truthy (JBool b) = b"
| "truthy (JInt i) = (i \<noteq> 0)"
| "truthy (JFloat s) = (s \<noteq> ''0.0'' \<and> s \<noteq> ''-0.0'')"
| "truthy (JStr s) = (s \<noteq> [])"
| "truthy (JList xs) = (xs \<noteq> [])"
| "truthy (JObj kvs) = (kvs \<noteq> [])"

text \<open>\<open>repr\<close> and \<open>str\<close> of a decoded value.\<close>

fun json_repr :: "json \<Rightarrow> string" where
  "json_repr JNull = ''None''"
| "json_repr (JBool b) = (if b then ''True'' else ''False'')"
| "json_repr (JInt i) = show_int i"
| "json_repr (JFloat s) = s"
| "json_repr (JStr s) = py_repr s"
| "json_repr (JList xs) = ''['' @ py_join '', '' (map json_repr xs) @ '']''"
| "json_repr (JObj kvs) = ''{'' @ py_join '', '' (map (\<lambda>(k, v). py_repr k @ '': '' @ json_repr v) kvs) @ ''}''"

definition json_str :: "json \<Rightarrow> string" where
  "json_str j = (case j of JStr s \<Rightarrow> s | _ \<Rightarrow> json_repr j)"

definition is_canonical_image_id :: "string option \<Rightarrow> bool" where
  "is_canonical_image_id v = (case v of None \<Rightarrow> False | Some s \<Rightarrow> py_startswith s ''sha256:'' \<and> hex64 (drop 7 s))"

definition is_docker_identity :: "json \<Rightarrow> bool" where
  "is_docker_identity j = (case j of JStr s \<Rightarrow> hex64 s | _ \<Rightarrow> False)"

text \<open>
  A fetched resource: its name, its attributes, and the identity and names of its image (for a
  container).
\<close>

record sdk_resource =
  sr_name :: string
  sr_attrs :: json
  sr_image_id :: "string option"
  sr_tags :: "string list"
  sr_short_id :: "string option"

section \<open>Names and states\<close>

definition resource_labels :: "json \<Rightarrow> labels" where
  "resource_labels attrs =
     (let config = json_get_or attrs ''Config'' (JObj []);
          ls = json_get_or attrs ''Labels'' (JObj []);
          chosen = (if \<not> truthy ls \<and> is_mapping config then json_get_or config ''Labels'' (JObj []) else ls)
      in case chosen of JObj kvs \<Rightarrow> map (\<lambda>(k, v). (k, json_str v)) kvs | _ \<Rightarrow> [])"

definition container_running :: "json \<Rightarrow> dk_exn + bool" where
  "container_running attrs =
     (case json_get (json_get attrs ''State'') ''Running'' of
        JBool b \<Rightarrow> Inr b
      | _ \<Rightarrow> Inl MalformedInspection)"

definition image_name :: "sdk_resource \<Rightarrow> string option" where
  "image_name r = (case sr_tags r of t # _ \<Rightarrow> Some t | [] \<Rightarrow> sr_short_id r)"

definition container_image_id :: "sdk_resource \<Rightarrow> dk_exn + string option" where
  "container_image_id r = (if is_canonical_image_id (sr_image_id r) then Inr (sr_image_id r) else Inl MalformedInspection)"

definition network_settings :: "json \<Rightarrow> string \<Rightarrow> json" where
  "network_settings attrs key = json_get_or (json_get_or attrs ''NetworkSettings'' (JObj [])) key (JObj [])"

definition network_names :: "json \<Rightarrow> dk_exn + string list" where
  "network_names attrs =
     (case network_settings attrs ''Networks'' of
        JObj kvs \<Rightarrow>
          if list_all (\<lambda>(k, _). py_strip k \<noteq> []) kvs then Inr (sort_by str_le (map fst kvs)) else Inl MalformedInspection
      | _ \<Rightarrow> Inl MalformedInspection)"

definition configured_user :: "json \<Rightarrow> string option" where
  "configured_user attrs =
     (case json_get (json_get attrs ''Config'') ''User'' of JStr s \<Rightarrow> Some s | _ \<Rightarrow> None)"

definition image_configured_user :: "json \<Rightarrow> string option" where
  "image_configured_user attrs =
     (if is_mapping (json_get attrs ''Config'') \<and> \<not> json_has (json_get attrs ''Config'') ''User'' then Some []
      else configured_user attrs)"

definition resource_identity :: "json \<Rightarrow> string option" where
  "resource_identity attrs = (case json_get attrs ''Id'' of JStr s \<Rightarrow> if hex64 s then Some s else None | _ \<Rightarrow> None)"

definition network_identity :: "json \<Rightarrow> dk_exn + string option" where
  "network_identity attrs =
     (if \<not> json_has attrs ''Id'' then Inr None
      else case json_get attrs ''Id'' of
          JStr s \<Rightarrow> if hex64 s then Inr (Some s) else Inl MalformedInspection
        | _ \<Rightarrow> Inl MalformedInspection)"

section \<open>Ports and addresses\<close>

definition valid_port :: "int \<Rightarrow> bool" where
  "valid_port i \<longleftrightarrow> 1 \<le> i \<and> i \<le> 65535"

text \<open>\<open>transports\<close> are the values of the core's \<open>Transport\<close>.\<close>

definition port_key :: "string list \<Rightarrow> string \<Rightarrow> (int \<times> string) option" where
  "port_key transports key =
     (case rev (py_split CHR ''/'' key) of
        transport # port # rest \<Rightarrow>
          (case py_int (py_join ''/'' (rev (port # rest))) of
             None \<Rightarrow> None
           | Some n \<Rightarrow> if transport \<in> set transports then Some (n, transport) else None)
      | _ \<Rightarrow> None)"

definition port_binding :: "int \<Rightarrow> string \<Rightarrow> json \<Rightarrow> published_port option" where
  "port_binding container transport binding =
     (case (json_get binding ''HostIp'', json_get binding ''HostPort'') of
        (JStr address, JStr port) \<Rightarrow>
          (case py_int port of
             None \<Rightarrow> None
           | Some n \<Rightarrow>
               if valid_port container \<and> valid_port n \<and> ip_address address \<noteq> None
               then Some \<lparr>pu_container = nat container, pu_transport = transport, pu_address = address, pu_host = nat n\<rparr>
               else None)
      | _ \<Rightarrow> None)"

fun port_entries :: "string list \<Rightarrow> (string \<times> json) list \<Rightarrow> published_port list option" where
  "port_entries transports [] = Some []"
| "port_entries transports ((key, bindings) # rest) =
     (case port_key transports key of
        None \<Rightarrow> None
      | Some (container, transport) \<Rightarrow>
          (case bindings of
             JNull \<Rightarrow> port_entries transports rest
           | JList bs \<Rightarrow>
               (case all_some (map (port_binding container transport) bs) of
                  None \<Rightarrow> None
                | Some ps \<Rightarrow> map_option ((@) ps) (port_entries transports rest))
           | _ \<Rightarrow> None))"

definition published_le :: "published_port \<Rightarrow> published_port \<Rightarrow> bool" where
  "published_le a b \<longleftrightarrow>
     (if pu_container a \<noteq> pu_container b then pu_container a < pu_container b
      else if pu_transport a \<noteq> pu_transport b then str_le (pu_transport a) (pu_transport b)
      else if pu_address a \<noteq> pu_address b then str_le (pu_address a) (pu_address b)
      else pu_host a \<le> pu_host b)"

definition published_ports :: "string list \<Rightarrow> json \<Rightarrow> dk_exn + published_port list" where
  "published_ports transports attrs =
     (case network_settings attrs ''Ports'' of
        JNull \<Rightarrow> Inr []
      | JObj kvs \<Rightarrow>
          (case port_entries transports kvs of None \<Rightarrow> Inl MalformedInspection | Some ps \<Rightarrow> Inr (sort_by published_le ps))
      | _ \<Rightarrow> Inl MalformedInspection)"

fun address_entries :: "(string \<times> json) list \<Rightarrow> (string \<times> string) list option" where
  "address_entries [] = Some []"
| "address_entries ((name, details) # rest) =
     (if \<not> is_mapping details then None
      else case json_get details ''IPAddress'' of
          JStr address \<Rightarrow>
            if address = [] then address_entries rest
            else if ip_address address = None then None
            else map_option ((#) (name, address)) (address_entries rest)
        | _ \<Rightarrow> address_entries rest)"

definition private_addresses :: "json \<Rightarrow> dk_exn + (string \<times> string) list" where
  "private_addresses attrs =
     (case network_settings attrs ''Networks'' of
        JObj kvs \<Rightarrow>
          (case address_entries kvs of
             None \<Rightarrow> Inl MalformedInspection
           | Some as \<Rightarrow> Inr (sort_by (\<lambda>a b. str_le (fst a) (fst b)) as))
      | _ \<Rightarrow> Inl MalformedInspection)"

section \<open>Mounts and groups\<close>

definition is_absolute_path :: "string \<Rightarrow> bool" where
  "is_absolute_path s \<longleftrightarrow> py_startswith s ''/'' \<and> CHR 0x00 \<notin> set s \<and> \<not> py_contains ''://'' s"

definition other_mount_kinds :: "json list" where
  "other_mount_kinds = map JStr [''volume'', ''tmpfs'', ''image'', ''cluster'']"

definition docker_socket_path :: string where
  "docker_socket_path = ''/var/run/docker.sock''"

text \<open>The observed bind mounts: \<open>Inr (Some m)\<close> is a bind mount, \<open>Inr None\<close> another one, \<open>Inl ()\<close> unknown.\<close>

definition observed_mount :: "json \<Rightarrow> unit + bind_mount option" where
  "observed_mount mount =
     (case json_get mount ''Destination'' of
        JStr target \<Rightarrow>
          if \<not> py_startswith target ''/'' then Inl ()
          else if json_get mount ''Type'' \<noteq> JStr ''bind''
          then (if json_get mount ''Type'' \<notin> set other_mount_kinds \<or> target = docker_socket_path then Inl () else Inr None)
          else (case (json_get mount ''Source'', json_get mount ''RW'') of
              (JStr source, JBool writable) \<Rightarrow>
                if is_absolute_path source \<and> is_absolute_path target
                then Inr (Some \<lparr>bm_source = source, bm_target = target, bm_read_only = \<not> writable\<rparr>) else Inl ()
            | _ \<Rightarrow> Inl ())
      | _ \<Rightarrow> Inl ())"

fun observed_mounts :: "json list \<Rightarrow> bind_mount list option" where
  "observed_mounts [] = Some []"
| "observed_mounts (mount # mounts) =
     (case observed_mount mount of
        Inl _ \<Rightarrow> None
      | Inr None \<Rightarrow> observed_mounts mounts
      | Inr (Some m) \<Rightarrow> map_option ((#) m) (observed_mounts mounts))"

definition observed_bind_mounts :: "json \<Rightarrow> bind_mount list option" where
  "observed_bind_mounts attrs =
     (if \<not> json_has attrs ''Mounts'' then None
      else case json_get attrs ''Mounts'' of
          JNull \<Rightarrow> Some []
        | JList mounts \<Rightarrow> observed_mounts mounts
        | _ \<Rightarrow> None)"

text \<open>The configured bind mounts; at most 64 entries with at most 4 bind mounts are read.\<close>

definition configured_entry :: "json \<Rightarrow> unit + configured_mount option" where
  "configured_entry mount =
     (case json_get mount ''Target'' of
        JStr target \<Rightarrow>
          if \<not> py_startswith target ''/'' \<or> 1024 < length target then Inl ()
          else if json_get mount ''Type'' \<noteq> JStr ''bind''
          then (if json_get mount ''Type'' \<notin> set other_mount_kinds \<or> target = docker_socket_path then Inl () else Inr None)
          else (case json_get mount ''Source'' of
              JStr source \<Rightarrow>
                if \<not> py_startswith source ''/'' \<or> 1024 < length source then Inl ()
                else if \<not> json_has mount ''ReadOnly''
                then Inr (Some \<lparr>cm_source = source, cm_target = target, cm_read_only = None\<rparr>)
                else (case json_get mount ''ReadOnly'' of
                    JBool b \<Rightarrow> Inr (Some \<lparr>cm_source = source, cm_target = target, cm_read_only = Some b\<rparr>)
                  | _ \<Rightarrow> Inl ())
            | _ \<Rightarrow> Inl ())
      | _ \<Rightarrow> Inl ())"

fun configured_entries :: "configured_mount list \<Rightarrow> json list \<Rightarrow> configured_mount list option" where
  "configured_entries acc [] = Some acc"
| "configured_entries acc (mount # mounts) =
     (case configured_entry mount of
        Inl _ \<Rightarrow> None
      | Inr None \<Rightarrow> configured_entries acc mounts
      | Inr (Some m) \<Rightarrow> if 4 < length (acc @ [m]) then None else configured_entries (acc @ [m]) mounts)"

definition configured_bind_mounts :: "json \<Rightarrow> configured_mount list option" where
  "configured_bind_mounts attrs =
     (if \<not> json_has (json_get attrs ''HostConfig'') ''Mounts'' then None
      else case json_get (json_get attrs ''HostConfig'') ''Mounts'' of
          JNull \<Rightarrow> Some []
        | JList mounts \<Rightarrow> if 64 < length mounts then None else configured_entries [] mounts
        | _ \<Rightarrow> None)"

definition group_text :: "json \<Rightarrow> string option" where
  "group_text j = (case j of JStr s \<Rightarrow> if s = [] then None else Some s | _ \<Rightarrow> None)"

definition observed_groups :: "json \<Rightarrow> string list option" where
  "observed_groups attrs =
     (if \<not> json_has (json_get attrs ''HostConfig'') ''GroupAdd'' then None
      else case json_get (json_get attrs ''HostConfig'') ''GroupAdd'' of
          JNull \<Rightarrow> Some []
        | JList groups \<Rightarrow> all_some (map group_text groups)
        | _ \<Rightarrow> None)"

text \<open>The secret mounts: configured read-only mounts of the file \<open>content\<close>, confirmed by the observed one.\<close>

definition content_mount :: "json \<Rightarrow> bool" where
  "content_mount mount \<longleftrightarrow>
     json_get mount ''Type'' = JStr ''volume'' \<and> json_get mount ''ReadOnly'' = JBool True
     \<and> is_mapping (json_get mount ''VolumeOptions'')
     \<and> json_get (json_get mount ''VolumeOptions'') ''Subpath'' = JStr ''content''"

definition mounted_at :: "string \<Rightarrow> json list \<Rightarrow> json list" where
  "mounted_at target observed = filter (\<lambda>item. json_get item ''Destination'' = JStr target) observed"

definition readonly_volume :: "string \<Rightarrow> json \<Rightarrow> bool" where
  "readonly_volume source item \<longleftrightarrow>
     json_get item ''Type'' = JStr ''volume'' \<and> json_get item ''Name'' = JStr source \<and> json_get item ''RW'' = JBool False"

definition confirmed_mount :: "json list \<Rightarrow> json \<Rightarrow> secret_mount option" where
  "confirmed_mount observed mount =
     (if \<not> content_mount mount then None
      else case (json_get mount ''Source'', json_get mount ''Target'') of
          (JStr source, JStr target) \<Rightarrow>
            (case mounted_at target observed of
               [item] \<Rightarrow> if readonly_volume source item then Some \<lparr>sm_target = target, sm_volume = source\<rparr> else None
             | _ \<Rightarrow> None)
        | _ \<Rightarrow> None)"

definition readonly_secret_mounts :: "json \<Rightarrow> secret_mount list" where
  "readonly_secret_mounts attrs =
     (case (json_get (json_get attrs ''HostConfig'') ''Mounts'', json_get attrs ''Mounts'') of
        (JList configured, JList observed) \<Rightarrow> List.map_filter (confirmed_mount observed) configured
      | _ \<Rightarrow> [])"

text \<open>The facts of one mount that must be read-only content; \<open>ConfigurationEvidenceError\<close> when they are not.\<close>

definition mount_list :: "json \<Rightarrow> json list option" where
  "mount_list j = (case j of JList ms \<Rightarrow> if length ms \<le> 64 \<and> list_all is_mapping ms then Some ms else None | _ \<Rightarrow> None)"

definition readonly_content_mount_facts :: "json \<Rightarrow> string \<Rightarrow> string \<Rightarrow> dk_exn + string \<times> string \<times> string" where
  "readonly_content_mount_facts attrs target volume =
     (case (mount_list (json_get (json_get attrs ''HostConfig'') ''Mounts''), mount_list (json_get attrs ''Mounts'')) of
        (Some configured, Some observed) \<Rightarrow>
          (case (filter (\<lambda>v. json_get v ''Target'' = JStr target) configured, mounted_at target observed) of
             ([selected], [effective]) \<Rightarrow>
               if content_mount selected \<and> json_get selected ''Source'' = JStr volume \<and> readonly_volume volume effective
               then Inr (volume, target, ''content'') else Inl ConfigurationEvidenceError
           | _ \<Rightarrow> Inl ConfigurationEvidenceError)
      | _ \<Rightarrow> Inl ConfigurationEvidenceError)"

section \<open>Network attachments\<close>

definition attachment_address :: "json \<Rightarrow> dk_exn + string option" where
  "attachment_address j =
     (case j of
        JNull \<Rightarrow> Inr None
      | JStr s \<Rightarrow>
          if s = [] then Inr None
          else if length s \<le> 45 \<and> CHR ''%'' \<notin> set s
            \<and> (case ip_address s of Some a \<Rightarrow> show_ip a = s | None \<Rightarrow> False)
          then Inr (Some s) else Inl MalformedInspection
      | _ \<Rightarrow> Inl MalformedInspection)"

definition unassigned :: "bool \<Rightarrow> json \<Rightarrow> bool" where
  "unassigned nonrunning details \<longleftrightarrow>
     \<not> json_has details ''NetworkID''
     \<or> (nonrunning \<and> json_get details ''NetworkID'' = JStr [] \<and> json_get details ''IPAddress'' = JStr [])"

definition attachment_of :: "json \<Rightarrow> dk_exn + network_attachment" where
  "attachment_of details =
     bindR (requireR (is_docker_identity (json_get details ''NetworkID'')) MalformedInspection) (\<lambda>_.
     bindR (attachment_address (json_get details ''IPAddress'')) (\<lambda>address.
     Inr \<lparr>na_network = json_str (json_get details ''NetworkID''), na_address = address\<rparr>))"

fun attachment_entries ::
  "bool \<Rightarrow> bool \<Rightarrow> network_attachment list \<Rightarrow> json list \<Rightarrow> dk_exn + bool \<times> network_attachment list" where
  "attachment_entries nonrunning unavailable acc [] = Inr (unavailable, acc)"
| "attachment_entries nonrunning unavailable acc (details # rest) =
     (if \<not> is_mapping details then Inl MalformedInspection
      else if unassigned nonrunning details then attachment_entries nonrunning True acc rest
      else bindR (attachment_of details) (\<lambda>a.
        if na_network a \<in> set (map na_network acc) then Inl MalformedInspection
        else attachment_entries nonrunning unavailable (acc @ [a]) rest))"

definition network_attachments :: "json \<Rightarrow> dk_exn + network_attachment list option" where
  "network_attachments attrs =
     (if \<not> json_has attrs ''NetworkSettings'' then Inr None
      else let settings = json_get attrs ''NetworkSettings''
           in if is_mapping settings \<and> \<not> json_has settings ''Networks'' then Inr None
              else case json_get settings ''Networks'' of
                  JObj kvs \<Rightarrow>
                    if 64 < length kvs then Inl MalformedInspection
                    else bindR (attachment_entries (json_get (json_get attrs ''State'') ''Running'' = JBool False) False []
                            (map snd kvs)) (\<lambda>(unavailable, as).
                         Inr (if unavailable then None else Some (sort_by (\<lambda>a b. str_le (na_network a) (na_network b)) as)))
                | _ \<Rightarrow> Inl MalformedInspection)"

section \<open>Inspections\<close>

definition container_of :: "string list \<Rightarrow> sdk_resource \<Rightarrow> dk_exn + container_inspection" where
  "container_of transports r =
     (let attrs = sr_attrs r
      in bindR (container_running attrs) (\<lambda>running.
         bindR (network_attachments attrs) (\<lambda>attachments.
         bindR (published_ports transports attrs) (\<lambda>ports.
         bindR (private_addresses attrs) (\<lambda>addresses.
         bindR (container_image_id r) (\<lambda>image_id.
         bindR (network_names attrs) (\<lambda>names.
         Inr \<lparr>ci_name = sr_name r, ci_identity = resource_identity attrs, ci_running = running,
               ci_image_id = image_id, ci_labels = resource_labels attrs, ci_published = ports,
               ci_addresses = addresses, ci_networks = names, ci_user = configured_user attrs,
               ci_secret_mounts = readonly_secret_mounts attrs, ci_binds = observed_bind_mounts attrs,
               ci_groups = observed_groups attrs, ci_configured = configured_bind_mounts attrs,
               ci_image = image_name r, ci_attachments = attachments\<rparr>)))))))"

text \<open>Networks and volumes are inspected by the same code, without what only containers have.\<close>

definition plain_facts :: "string list \<Rightarrow> sdk_resource \<Rightarrow> dk_exn + labels" where
  "plain_facts transports r =
     bindR (published_ports transports (sr_attrs r)) (\<lambda>_.
     bindR (private_addresses (sr_attrs r)) (\<lambda>_.
     Inr (resource_labels (sr_attrs r))))"

definition network_facts :: "string list \<Rightarrow> sdk_resource \<Rightarrow> dk_exn + network_inspection" where
  "network_facts transports r =
     bindR (network_identity (sr_attrs r)) (\<lambda>identity.
     bindR (plain_facts transports r) (\<lambda>ls.
     Inr \<lparr>ni_name = sr_name r, ni_labels = ls, ni_identity = identity\<rparr>))"

definition digest_text :: "json \<Rightarrow> string option" where
  "digest_text j = (case j of JStr s \<Rightarrow> if py_strip s = [] then None else Some s | _ \<Rightarrow> None)"

definition image_facts :: "sdk_resource \<Rightarrow> dk_exn + image_inspection" where
  "image_facts r =
     (let digests = (case json_get_or (sr_attrs r) ''RepoDigests'' (JList []) of
            JNull \<Rightarrow> Some []
          | JList ds \<Rightarrow> all_some (map digest_text ds)
          | _ \<Rightarrow> None)
      in case (sr_image_id r, digests) of
           (Some ident, Some ds) \<Rightarrow>
             if is_canonical_image_id (sr_image_id r)
             then Inr \<lparr>ii_id = ident, ii_digests = sort_by str_le ds, ii_user = image_configured_user (sr_attrs r)\<rparr>
             else Inl MalformedInspection
         | _ \<Rightarrow> Inl MalformedInspection)"

definition bounded_text :: "json \<Rightarrow> string option" where
  "bounded_text j =
     (case j of JStr s \<Rightarrow> if 1 \<le> length s \<and> length s \<le> 128 \<and> CHR 0x00 \<notin> set s then Some s else None | _ \<Rightarrow> None)"

definition label_entry :: "string \<times> json \<Rightarrow> (string \<times> string) option" where
  "label_entry kv =
     (case kv of
        (k, JStr v) \<Rightarrow> if length k \<le> 512 \<and> length v \<le> 512 then Some (k, v) else None
      | _ \<Rightarrow> None)"

definition volume_labels :: "json \<Rightarrow> labels option" where
  "volume_labels j =
     (case j of
        JNull \<Rightarrow> Some []
      | JObj kvs \<Rightarrow> if 128 < length kvs then None else all_some (map label_entry kvs)
      | _ \<Rightarrow> None)"

definition configuration_volume_inspection :: "json \<Rightarrow> string \<Rightarrow> dk_exn + configuration_volume" where
  "configuration_volume_inspection attrs name =
     (case (bounded_text (json_get attrs ''CreatedAt''), volume_labels (json_get attrs ''Labels'')) of
        (Some created, Some ls) \<Rightarrow>
          if json_get attrs ''Name'' = JStr name
            \<and> list_all (\<lambda>k. bounded_text (json_get attrs k) \<noteq> None) [''Name'', ''Driver'', ''Scope'']
            \<and> (json_get attrs ''Options'' = JNull \<or> is_mapping (json_get attrs ''Options''))
          then Inr \<lparr>cv_name = name, cv_created = created, cv_labels = ls,
                 cv_local = (json_get attrs ''Driver'' = JStr ''local'' \<and> json_get attrs ''Scope'' = JStr ''local''
                   \<and> \<not> truthy (json_get attrs ''Options'') \<and> json_get attrs ''ClusterVolume'' = JNull)\<rparr>
          else Inl ConfigurationEvidenceError
      | _ \<Rightarrow> Inl ConfigurationEvidenceError)"

section \<open>Results of helpers\<close>

definition wait_status_code :: "json \<Rightarrow> dk_exn + int" where
  "wait_status_code j =
     (let as_int = (\<lambda>v. case v of JInt i \<Rightarrow> Some i | JBool b \<Rightarrow> Some (if b then 1 else 0) | _ \<Rightarrow> None)
      in case as_int (json_get j ''StatusCode'') of
           Some i \<Rightarrow> Inr i
         | None \<Rightarrow> (case as_int j of Some i \<Rightarrow> Inr i | None \<Rightarrow> Inl (ProviderFault OtherClass ''RuntimeError'')))"

definition unavailable_probe :: http_probe where
  "unavailable_probe = \<lparr>hp_status = None, hp_size = 0, hp_exit = 1, hp_category = UNAVAILABLE_PROBE, hp_matches = None\<rparr>"

definition status_between :: "json \<Rightarrow> int \<Rightarrow> int \<Rightarrow> bool" where
  "status_between j lo hi = (case j of JInt i \<Rightarrow> lo \<le> i \<and> i \<le> hi | _ \<Rightarrow> False)"

definition category_of :: "json \<Rightarrow> probe_category option" where
  "category_of j =
     (if j = JStr ''completed'' then Some COMPLETED else if j = JStr ''response-rejected'' then Some RESPONSE_REJECTED
      else if j = JStr ''response-oversized'' then Some RESPONSE_OVERSIZED
      else if j = JStr ''timed-out'' then Some PROBE_TIMED_OUT
      else if j = JStr ''unavailable'' then Some UNAVAILABLE_PROBE else None)"

definition is_json_bool :: "json \<Rightarrow> bool" where
  "is_json_bool j = (case j of JBool _ \<Rightarrow> True | _ \<Rightarrow> False)"

definition category_consistent ::
  "probe_category \<Rightarrow> json \<Rightarrow> int \<Rightarrow> json \<Rightarrow> int \<Rightarrow> int \<Rightarrow> bool \<Rightarrow> bool" where
  "category_consistent category status bytes matches code maximum expected =
     (case category of
        COMPLETED \<Rightarrow>
          code = 0 \<and> status_between status 100 599 \<and> (if expected then is_json_bool matches else matches = JNull)
      | RESPONSE_REJECTED \<Rightarrow> code = 0 \<and> status_between status 300 399 \<and> bytes = 0 \<and> matches = JNull
      | RESPONSE_OVERSIZED \<Rightarrow> code = 0 \<and> status_between status 100 599 \<and> bytes = maximum \<and> matches = JNull
      | PROBE_TIMED_OUT \<Rightarrow> code = 124 \<and> status = JNull \<and> bytes = 0 \<and> matches = JNull
      | UNAVAILABLE_PROBE \<Rightarrow> code = 1 \<and> status = JNull \<and> bytes = 0 \<and> matches = JNull)"

definition http_probe_result ::
  "(string \<Rightarrow> dk_exn + json) \<Rightarrow> string \<Rightarrow> int \<Rightarrow> int \<Rightarrow> bool \<Rightarrow> dk_exn + http_probe" where
  "http_probe_result loads output code maximum expected =
     (case loads output of
        Inl (ProviderFault MaterialClass _) \<Rightarrow> Inr unavailable_probe
      | Inl e \<Rightarrow> Inl e
      | Inr row \<Rightarrow>
          if json_keys row \<noteq> {''category'', ''match'', ''response_bytes'', ''status_code''} then Inr unavailable_probe
          else case (category_of (json_get row ''category''), json_get row ''response_bytes'') of
              (Some category, JInt bytes) \<Rightarrow>
                if bytes < 0 \<or> maximum < bytes
                  \<or> \<not> category_consistent category (json_get row ''status_code'') bytes (json_get row ''match'') code maximum expected
                then Inr unavailable_probe
                else Inr \<lparr>hp_status = (case json_get row ''status_code'' of JInt i \<Rightarrow> Some i | _ \<Rightarrow> None), hp_size = bytes,
                       hp_exit = code, hp_category = category,
                       hp_matches = (case json_get row ''match'' of JBool b \<Rightarrow> Some b | _ \<Rightarrow> None)\<rparr>
            | _ \<Rightarrow> Inr unavailable_probe)"

end
