(* ===== verification/Secret_Delivery.thy ===== *)
theory Secret_Delivery
  imports Docker_Client
begin

text \<open>
  The delivery of secrets to a node (\<open>secrets.py\<close>): grants are selected exactly, resolved
  through the runtime's resolver, and their values become environment entries and file
  material.  The resolvers are effects, so that the direct and the prepared one both fit.
\<close>

section \<open>Material\<close>

datatype secret_result = ResultResolved string string | ResultMissing | ResultDenied | ResultMalformed

record secret_material =
  fm_reference :: string
  fm_target :: string
  fm_value :: string
  fm_mode :: string
  fm_path_name :: "string option"
  fm_selection :: "secret_selection option"

record secret_deliveries =
  rd_environment :: "(string \<times> string) list"
  rd_files :: "secret_material list"

text \<open>
  The resolvers of an interpreter, the core's \<open>permits\<close> of a grant, and what
  \<open>require_authorized_secret\<close> and \<open>require_resolved_secret\<close> make of one resolution.
\<close>

record 'w secret_ports =
  ss_grant :: "(secret_grant \<Rightarrow> ('w, secret_result) dk_eff) option"
  ss_reference :: "(string \<Rightarrow> ('w, secret_result) dk_eff) option"
  ss_permits :: "(string \<times> string) list \<Rightarrow> string \<Rightarrow> string \<Rightarrow> bool"
  ss_read_grant :: "secret_grant \<Rightarrow> secret_result \<Rightarrow> dk_exn + string"
  ss_read_reference :: "string \<Rightarrow> secret_result \<Rightarrow> dk_exn + string"

definition put_environment ::
  "(string \<times> string) list \<Rightarrow> string \<Rightarrow> string \<Rightarrow> dk_exn + (string \<times> string) list" where
  "put_environment env name v =
     (case map_of env name of
        None \<Rightarrow> Inr (env @ [(name, v)])
      | Some previous \<Rightarrow> if previous \<noteq> v then Inl (DkSecretError MALFORMED_REFERENCE) else Inr env)"

definition add_environment :: "secret_deliveries \<Rightarrow> string \<Rightarrow> string \<Rightarrow> dk_exn + secret_deliveries" where
  "add_environment acc name v =
     bindR (put_environment (rd_environment acc) name v) (\<lambda>env. Inr (acc\<lparr>rd_environment := env\<rparr>))"

text \<open>A file, and the environment entry with its path when the delivery binds one.\<close>

definition add_file :: "secret_deliveries \<Rightarrow> secret_material \<Rightarrow> dk_exn + secret_deliveries" where
  "add_file acc f =
     (let acc' = acc\<lparr>rd_files := rd_files acc @ [f]\<rparr>
      in case fm_path_name f of None \<Rightarrow> Inr acc' | Some name \<Rightarrow> add_environment acc' name (fm_target f))"

definition no_deliveries :: secret_deliveries where
  "no_deliveries = \<lparr>rd_environment = [], rd_files = []\<rparr>"

section \<open>Grants\<close>

definition use_grant_permits :: "'w secret_ports \<Rightarrow> string \<Rightarrow> string \<Rightarrow> secret_grant \<Rightarrow> bool" where
  "use_grant_permits ss reference intent g =
     (case g of UseGrant _ uses \<Rightarrow> ss_permits ss uses reference intent | VersionGrant _ _ \<Rightarrow> False)"

definition secret_resolution_grant_for ::
  "'w secret_ports \<Rightarrow> secret_grant list \<Rightarrow> string \<Rightarrow> string \<Rightarrow> dk_exn + secret_grant" where
  "secret_resolution_grant_for ss grants reference intent =
     (case filter (use_grant_permits ss reference intent) grants of
        [g] \<Rightarrow> Inr g
      | _ \<Rightarrow> Inl (DkSecretError SECRET_DENIED))"

definition version_grant_of :: "secret_selection \<Rightarrow> secret_grant \<Rightarrow> bool" where
  "version_grant_of sel g = (case g of VersionGrant _ s \<Rightarrow> s = sel | UseGrant _ _ \<Rightarrow> False)"

definition selected_secret_grant_for :: "secret_grant list \<Rightarrow> secret_selection \<Rightarrow> dk_exn + secret_grant" where
  "selected_secret_grant_for grants sel =
     (case filter (version_grant_of sel) grants of [g] \<Rightarrow> Inr g | _ \<Rightarrow> Inl (DkSecretError SECRET_DENIED))"

fun grants_selected :: "secret_grant list \<Rightarrow> secret_selection list \<Rightarrow> dk_exn + unit" where
  "grants_selected grants [] = Inr ()"
| "grants_selected grants (sel # sels) =
     bindR (selected_secret_grant_for grants sel) (\<lambda>_. grants_selected grants sels)"

definition validate_selected_secret_grants :: "runtime_request \<Rightarrow> bool \<Rightarrow> dk_exn + unit" where
  "validate_selected_secret_grants rq has_resolver =
     (if rr_operation rq \<notin> {StartNode, ReconcileNode} then Inr ()
      else case rr_products rq of
          [m] \<Rightarrow>
            if pm_selections m \<noteq> [] \<and> \<not> has_resolver then Inl (DkSecretError SECRET_MISSING)
            else grants_selected (rr_grants rq) (map fst (pm_selections m))
        | _ \<Rightarrow> Inl (ProviderFault MaterialClass ''ValueError''))"

section \<open>Operational deliveries\<close>

fun legacy_deliveries ::
  "'w secret_ports \<Rightarrow> (string \<Rightarrow> ('w, secret_result) dk_eff) \<Rightarrow> secret_delivery list \<Rightarrow> secret_deliveries
    \<Rightarrow> ('w, secret_deliveries) dk_eff" where
  "legacy_deliveries ss resolve [] acc = returnE acc"
| "legacy_deliveries ss resolve (SecretEnvironmentDelivery name reference _ # ds) acc =
     bindE (resolve reference) (\<lambda>result.
     bindE (liftE (ss_read_reference ss reference result)) (\<lambda>v.
     bindE (liftE (add_environment acc name v)) (legacy_deliveries ss resolve ds)))"
| "legacy_deliveries ss resolve (SecretReferenceEnvironmentDelivery name reference # ds) acc =
     bindE (liftE (add_environment acc name reference)) (legacy_deliveries ss resolve ds)"
| "legacy_deliveries ss resolve (SecretFileDelivery target reference _ mode binding # ds) acc =
     bindE (resolve reference) (\<lambda>result.
     bindE (liftE (ss_read_reference ss reference result)) (\<lambda>v.
     bindE (liftE (add_file acc \<lparr>fm_reference = reference, fm_target = target, fm_value = v, fm_mode = mode,
              fm_path_name = binding, fm_selection = None\<rparr>)) (legacy_deliveries ss resolve ds)))"

definition resolve_secret_deliveries ::
  "'w secret_ports \<Rightarrow> secret_delivery list \<Rightarrow> ('w, secret_deliveries) dk_eff" where
  "resolve_secret_deliveries ss deliveries =
     (case ss_reference ss of
        None \<Rightarrow> if deliveries \<noteq> [] then raiseE (DkSecretError SECRET_MISSING) else returnE no_deliveries
      | Some resolve \<Rightarrow> legacy_deliveries ss resolve deliveries no_deliveries)"

definition granted_value ::
  "'w secret_ports \<Rightarrow> (secret_grant \<Rightarrow> ('w, secret_result) dk_eff) \<Rightarrow> secret_grant list \<Rightarrow> string \<Rightarrow> string
    \<Rightarrow> ('w, string) dk_eff" where
  "granted_value ss resolve grants reference intent =
     bindE (liftE (secret_resolution_grant_for ss grants reference intent)) (\<lambda>g.
     bindE (resolve g) (\<lambda>result. liftE (ss_read_grant ss g result)))"

fun resolve_authorized_secret_deliveries ::
  "'w secret_ports \<Rightarrow> (secret_grant \<Rightarrow> ('w, secret_result) dk_eff) \<Rightarrow> secret_grant list \<Rightarrow> secret_delivery list
    \<Rightarrow> secret_deliveries \<Rightarrow> ('w, secret_deliveries) dk_eff" where
  "resolve_authorized_secret_deliveries ss resolve grants [] acc = returnE acc"
| "resolve_authorized_secret_deliveries ss resolve grants (SecretEnvironmentDelivery name reference intent # ds) acc =
     bindE (granted_value ss resolve grants reference intent) (\<lambda>v.
     bindE (liftE (add_environment acc name v)) (resolve_authorized_secret_deliveries ss resolve grants ds))"
| "resolve_authorized_secret_deliveries ss resolve grants (SecretReferenceEnvironmentDelivery name reference # ds) acc =
     bindE (liftE (add_environment acc name reference)) (resolve_authorized_secret_deliveries ss resolve grants ds)"
| "resolve_authorized_secret_deliveries ss resolve grants (SecretFileDelivery target reference intent mode binding # ds) acc =
     bindE (granted_value ss resolve grants reference intent) (\<lambda>v.
     bindE (liftE (add_file acc \<lparr>fm_reference = reference, fm_target = target, fm_value = v, fm_mode = mode,
              fm_path_name = binding, fm_selection = None\<rparr>)) (resolve_authorized_secret_deliveries ss resolve grants ds))"

section \<open>Selected deliveries\<close>

type_synonym selected_values = "((string \<times> string) \<times> secret_selection \<times> string) list"

definition selected_value :: "secret_selection \<Rightarrow> secret_result \<Rightarrow> dk_exn + string" where
  "selected_value sel result =
     (case result of
        ResultMissing \<Rightarrow> Inl (DkSecretError SECRET_MISSING)
      | ResultDenied \<Rightarrow> Inl (DkSecretError SECRET_DENIED)
      | ResultMalformed \<Rightarrow> Inl (DkSecretError INVALID_RESOLVER_RESULT)
      | ResultResolved reference v \<Rightarrow>
          if reference \<noteq> sel_reference sel \<or> 65536 < length (utf8_bytes v)
          then Inl (DkSecretError INVALID_RESOLVER_RESULT) else Inr v)"

fun resolve_selections ::
  "(secret_grant \<Rightarrow> ('w, secret_result) dk_eff) \<Rightarrow> secret_grant list \<Rightarrow> secret_selection list \<Rightarrow> selected_values
    \<Rightarrow> ('w, selected_values) dk_eff" where
  "resolve_selections resolve grants [] acc = returnE acc"
| "resolve_selections resolve grants (sel # sels) acc =
     bindE (liftE (selected_secret_grant_for grants sel)) (\<lambda>g.
     bindE (resolve g) (\<lambda>result.
     bindE (liftE (selected_value sel result)) (\<lambda>v.
     resolve_selections resolve grants sels (((sel_reference sel, sel_intent sel), (sel, v)) # acc))))"

definition lookup_value :: "selected_values \<Rightarrow> string \<Rightarrow> string \<Rightarrow> dk_exn + secret_selection \<times> string" where
  "lookup_value vs reference intent =
     (case map_of vs (reference, intent) of None \<Rightarrow> Inl (ProviderFault OtherClass ''KeyError'') | Some x \<Rightarrow> Inr x)"

fun deliver_selected :: "selected_values \<Rightarrow> secret_delivery list \<Rightarrow> secret_deliveries \<Rightarrow> dk_exn + secret_deliveries" where
  "deliver_selected vs [] acc = Inr acc"
| "deliver_selected vs (SecretReferenceEnvironmentDelivery name reference # ds) acc =
     bindR (add_environment acc name reference) (deliver_selected vs ds)"
| "deliver_selected vs (SecretEnvironmentDelivery name reference intent # ds) acc =
     bindR (lookup_value vs reference intent) (\<lambda>(sel, v).
     bindR (requireR (CHR 0x00 \<notin> set v) (DkSecretError INVALID_RESOLVER_RESULT)) (\<lambda>_.
     bindR (add_environment acc name v) (deliver_selected vs ds)))"
| "deliver_selected vs (SecretFileDelivery target reference intent mode binding # ds) acc =
     bindR (lookup_value vs reference intent) (\<lambda>(sel, v).
     bindR (add_file acc \<lparr>fm_reference = reference, fm_target = target, fm_value = v, fm_mode = mode,
              fm_path_name = binding, fm_selection = Some sel\<rparr>) (deliver_selected vs ds))"

definition file_le :: "secret_material \<Rightarrow> secret_material \<Rightarrow> bool" where
  "file_le a b \<longleftrightarrow>
     (if fm_target a \<noteq> fm_target b then str_le (fm_target a) (fm_target b)
      else if fm_reference a \<noteq> fm_reference b then str_le (fm_reference a) (fm_reference b)
      else str_le (case fm_selection a of None \<Rightarrow> [] | Some s \<Rightarrow> sel_intent s)
                  (case fm_selection b of None \<Rightarrow> [] | Some s \<Rightarrow> sel_intent s))"

fun insert_file :: "secret_material \<Rightarrow> secret_material list \<Rightarrow> secret_material list" where
  "insert_file f [] = [f]"
| "insert_file f (g # gs) = (if file_le f g then f # g # gs else g # insert_file f gs)"

definition environment_size :: "(string \<times> string) list \<Rightarrow> nat" where
  "environment_size env = sum_list (map (\<lambda>(k, v). length (utf8_bytes (k @ ''='' @ v))) env)"

definition resolve_selected_secret_deliveries ::
  "(secret_grant \<Rightarrow> ('w, secret_result) dk_eff) option \<Rightarrow> secret_grant list \<Rightarrow> secret_selection list
    \<Rightarrow> secret_delivery list \<Rightarrow> ('w, secret_deliveries) dk_eff" where
  "resolve_selected_secret_deliveries resolver grants selections deliveries =
     (let resolve = (case resolver of
          None \<Rightarrow> (\<lambda>_. raiseE (ProviderFault OtherClass ''AttributeError'')) | Some f \<Rightarrow> f)
      in bindE (resolve_selections resolve grants selections []) (\<lambda>vs.
         bindE (liftE (deliver_selected vs deliveries no_deliveries)) (\<lambda>d.
         if 1024 < length (rd_environment d) \<or> 1048576 < environment_size (rd_environment d)
         then raiseE (DkSecretError INVALID_RESOLVER_RESULT)
         else returnE (d\<lparr>rd_files := foldr insert_file (rd_files d) []\<rparr>))))"

section \<open>Image pull credentials\<close>

text \<open>\<open>_unique_json_object\<close> is applied to every object of the decoded text.\<close>

fun unique_objects :: "json \<Rightarrow> bool" where
  "unique_objects (JObj kvs) = (distinct (map fst kvs) \<and> list_all (\<lambda>(_, v). unique_objects v) kvs)"
| "unique_objects (JList xs) = list_all unique_objects xs"
| "unique_objects _ = True"

definition credential_field :: "json \<Rightarrow> dk_exn + string" where
  "credential_field v =
     (case v of
        JStr s \<Rightarrow> if s = [] \<or> 4096 < length (utf8_bytes s) then Inl (DkSecretError INVALID_RESOLVER_RESULT) else Inr s
      | _ \<Rightarrow> Inl (DkSecretError INVALID_RESOLVER_RESULT))"

text \<open>
  \<open>loads\<close> is \<open>json.loads\<close>: \<open>MaterialClass\<close> faults are its \<open>TypeError\<close> and \<open>ValueError\<close>, which
  the code turns into its own error; others, as a \<open>RecursionError\<close>, pass.
\<close>

definition parse_image_pull_credential ::
  "(string \<Rightarrow> dk_exn + json) \<Rightarrow> string \<Rightarrow> dk_exn + registry_auth" where
  "parse_image_pull_credential loads v =
     (let malformed = Inl (DkSecretError INVALID_RESOLVER_RESULT)
      in if v = [] \<or> 16384 < length (utf8_bytes v) then malformed
         else case loads v of
             Inl (ProviderFault MaterialClass _) \<Rightarrow> malformed
           | Inl e \<Rightarrow> Inl e
           | Inr decoded \<Rightarrow>
               if \<not> unique_objects decoded \<or> \<not> is_mapping decoded then malformed
               else if json_keys decoded = {''identitytoken''}
               then bindR (credential_field (json_get decoded ''identitytoken'')) (\<lambda>t. Inr (IdentityToken t))
               else if json_keys decoded = {''username'', ''password''}
               then bindR (credential_field (json_get decoded ''username'')) (\<lambda>u.
                    bindR (credential_field (json_get decoded ''password'')) (\<lambda>p.
                    if py_strip u = [] then malformed else Inr (UsernamePassword u p)))
               else malformed)"

end
