(* ===== verification/Docker_Sdk.thy ===== *)
theory Docker_Sdk
  imports Docker_Inspect Secret_Delivery
begin

text \<open>
  The calls of \<open>DockerSdkClient\<close> (\<open>docker/sdk.py\<close>) on the Docker SDK.  The SDK's own methods are
  ports, each call one event; \<open>sdk_docker_client\<close> is the client the runtime interpreter uses,
  whose world is the state of these effects.
\<close>

section \<open>Calls of the Docker SDK\<close>

record archive_entry =
  ae_body :: "nat list"
  ae_mode :: nat
  ae_uid :: nat

text \<open>One member of a decoded archive; \<open>ar_body\<close> is \<open>None\<close> when it has no content.\<close>

record archive_member =
  ar_name :: string
  ar_regular :: bool
  ar_sparse :: bool
  ar_size :: int
  ar_uid :: int
  ar_mode :: int
  ar_body :: "nat list option"

datatype exec_answer = ExecPair int | ExecObject "int option"
datatype log_output = LogBytes "nat list" | LogText string | OtherLog

datatype chunk_stream =
    ChunkEnd
  | ChunkFault dk_exn
  | ByteChunk "nat list" chunk_stream
  | OtherChunk chunk_stream

record create_arguments =
  ka_name :: string
  ka_environment :: "(string \<times> string) list"
  ka_labels :: labels
  ka_volumes :: "(string \<times> string) list"
  ka_configurations :: "(configuration_artifact \<times> string) list"
  ka_secrets :: "secret_mount list"
  ka_binds :: "bind_mount list"
  ka_groups :: "string list option"

datatype sdk_call =
    GetNetwork string
  | GetVolume string
  | GetImage string
  | GetContainer string
  | NetworkCreate string labels
  | VolumeCreate string labels
  | ImagePull string "registry_auth option"
  | EndpointConfig "string list"
  | ContainerCreate string create_arguments "(string \<times> json) option"
  | NetworkConnect string string "string list"
  | ContainerStart string
  | ContainerStop string
  | ContainerRemove string
  | NetworkRemove string
  | VolumeRemove string
  | HelperCreate string bool
  | ProbeCreate string "string list"
  | HelperStart string
  | HelperPut string archive_entry
  | HelperGet string string
  | HelperChmod string string
  | HelperWait string int
  | HelperLogs string
  | HelperRemove string
  | AttributesReload string
  | ArchiveGet string string
  | ContainersUsing string
  | DaemonInfo
  | DaemonVersion
  | TransportPath

text \<open>
  An event: the call and what it returned, for a call that returns no data of the provider the
  handle it created (empty for other calls).
\<close>

datatype sdk_event =
    SdkCalled sdk_call "dk_exn + string"
  | SdkAnswered sdk_call "dk_exn + json"
  | ResourceFetched sdk_call "dk_exn + sdk_resource"
  | ArchiveFetched sdk_call "dk_exn + chunk_stream"

fun call_of :: "sdk_event \<Rightarrow> sdk_call" where
  "call_of (SdkCalled call _) = call"
| "call_of (SdkAnswered call _) = call"
| "call_of (ResourceFetched call _) = call"
| "call_of (ArchiveFetched call _) = call"

type_synonym ('w, 'a) sdk_eff = "((sdk_event, 'w) st, dk_exn, 'a) eff"

text \<open>
  The SDK: a container or helper that was created is its handle, with the attributes it had
  then.  \<open>sdk_members\<close> and \<open>sdk_content\<close> decode archives (\<open>tarfile\<close>), \<open>sdk_archive_error\<close> are
  \<open>ValueError\<close>, \<open>TypeError\<close>, \<open>OSError\<close> and \<open>tarfile.TarError\<close>, \<open>sdk_json\<close> is \<open>json.loads\<close> and
  \<open>sdk_replace\<close> decodes text with replacement characters.  \<open>sdk_maximum\<close> is the core's
  \<open>MAX_CONFIGURATION_BYTES\<close>, \<open>sdk_transports\<close> are its transports, and \<open>sdk_tls\<close> says that the client is
  configured for a remote daemon.
\<close>

record 'w docker_sdk =
  sdk_network :: "string \<Rightarrow> ('w, dk_exn, sdk_resource) port"
  sdk_volume :: "string \<Rightarrow> ('w, dk_exn, sdk_resource) port"
  sdk_image :: "string \<Rightarrow> ('w, dk_exn, sdk_resource) port"
  sdk_container :: "string \<Rightarrow> ('w, dk_exn, sdk_resource) port"
  sdk_change :: "sdk_call \<Rightarrow> ('w, dk_exn, unit) port"
  sdk_create :: "sdk_call \<Rightarrow> ('w, dk_exn, string \<times> json) port"
  sdk_exec :: "string \<Rightarrow> string \<Rightarrow> ('w, dk_exn, exec_answer) port"
  sdk_archive :: "sdk_call \<Rightarrow> ('w, dk_exn, chunk_stream) port"
  sdk_wait :: "string \<Rightarrow> int \<Rightarrow> ('w, dk_exn, json) port"
  sdk_logs :: "string \<Rightarrow> ('w, dk_exn, log_output) port"
  sdk_query :: "sdk_call \<Rightarrow> ('w, dk_exn, json) port"
  sdk_unix_path :: "('w, dk_exn, string option) port"
  sdk_members :: "nat list \<Rightarrow> dk_exn + archive_member list"
  sdk_content :: "nat list \<Rightarrow> dk_exn + nat list option"
  sdk_json :: "string \<Rightarrow> dk_exn + json"
  sdk_archive_error :: "dk_exn \<Rightarrow> bool"
  sdk_replace :: "nat list \<Rightarrow> string"
  sdk_maximum :: nat
  sdk_transports :: "string list"
  sdk_tls :: bool

definition sdk_done :: "sdk_call \<Rightarrow> dk_exn + 'a \<Rightarrow> sdk_event" where
  "sdk_done call r = SdkCalled call (case r of Inl e \<Rightarrow> Inl e | Inr _ \<Rightarrow> Inr [])"

definition sdk_created :: "sdk_call \<Rightarrow> dk_exn + string \<times> json \<Rightarrow> sdk_event" where
  "sdk_created call r = SdkCalled call (map_sum id fst r)"

definition change_call :: "'w docker_sdk \<Rightarrow> sdk_call \<Rightarrow> ('w, unit) sdk_eff" where
  "change_call sdk call = callE (sdk_done call) (sdk_change sdk call)"

definition create_call :: "'w docker_sdk \<Rightarrow> sdk_call \<Rightarrow> ('w, string \<times> json) sdk_eff" where
  "create_call sdk call = callE (sdk_created call) (sdk_create sdk call)"

definition query_call :: "'w docker_sdk \<Rightarrow> sdk_call \<Rightarrow> ('w, json) sdk_eff" where
  "query_call sdk call = callE (SdkAnswered call) (sdk_query sdk call)"

section \<open>Inspections\<close>

definition sdk_not_found :: "dk_exn \<Rightarrow> bool" where
  "sdk_not_found e \<longleftrightarrow> e \<in> {ProviderFault ApiClass ''NotFound'', ProviderFault ApiClass ''ImageNotFound''}"

text \<open>\<open>get\<close>, and \<open>None\<close> for a resource that does not exist.\<close>

definition get_or_none ::
  "(dk_exn + sdk_resource \<Rightarrow> sdk_event) \<Rightarrow> ('w, dk_exn, sdk_resource) port \<Rightarrow> (sdk_resource \<Rightarrow> dk_exn + 'a)
    \<Rightarrow> ('w, 'a option) sdk_eff" where
  "get_or_none mk get read =
     attemptE (callE mk get)
       (\<lambda>e. if sdk_not_found e then returnE None else raiseE e)
       (\<lambda>r. bindE (liftE (read r)) (\<lambda>a. returnE (Some a)))"

definition sdk_inspect_network :: "'w docker_sdk \<Rightarrow> string \<Rightarrow> ('w, network_inspection option) sdk_eff" where
  "sdk_inspect_network sdk name =
     get_or_none (ResourceFetched (GetNetwork name)) (sdk_network sdk name)
       (network_facts (sdk_transports sdk))"

definition sdk_inspect_volume :: "'w docker_sdk \<Rightarrow> string \<Rightarrow> ('w, labels option) sdk_eff" where
  "sdk_inspect_volume sdk name =
     get_or_none (ResourceFetched (GetVolume name)) (sdk_volume sdk name) (plain_facts (sdk_transports sdk))"

definition sdk_inspect_image :: "'w docker_sdk \<Rightarrow> string \<Rightarrow> ('w, image_inspection option) sdk_eff" where
  "sdk_inspect_image sdk name = get_or_none (ResourceFetched (GetImage name)) (sdk_image sdk name) image_facts"

definition sdk_inspect_container :: "'w docker_sdk \<Rightarrow> string \<Rightarrow> ('w, container_inspection option) sdk_eff" where
  "sdk_inspect_container sdk name =
     get_or_none (ResourceFetched (GetContainer name)) (sdk_container sdk name) (container_of (sdk_transports sdk))"

definition sdk_inspect_configuration_volume :: "'w docker_sdk \<Rightarrow> string \<Rightarrow> ('w, configuration_volume option) sdk_eff" where
  "sdk_inspect_configuration_volume sdk name =
     get_or_none (ResourceFetched (GetVolume name)) (sdk_volume sdk name) (\<lambda>r. configuration_volume_inspection (sr_attrs r) name)"

text \<open>Whether a container, running or not, mounts a volume.\<close>

definition volume_holder :: "string \<Rightarrow> json \<Rightarrow> bool" where
  "volume_holder name row \<longleftrightarrow>
     is_docker_identity (json_get row ''Id'')
     \<and> (case json_get row ''Mounts'' of
          JList ms \<Rightarrow> length ms \<le> 256
            \<and> list_ex (\<lambda>m. json_get m ''Type'' = JStr ''volume'' \<and> json_get m ''Name'' = JStr name) ms
        | _ \<Rightarrow> False)"

definition sdk_configuration_volume_in_use :: "'w docker_sdk \<Rightarrow> string \<Rightarrow> ('w, bool) sdk_eff" where
  "sdk_configuration_volume_in_use sdk name =
     bindE (query_call sdk (ContainersUsing name)) (\<lambda>rows. case rows of
         JList [] \<Rightarrow> returnE False
       | JList [row] \<Rightarrow> if volume_holder name row then returnE True else raiseE ConfigurationEvidenceError
       | _ \<Rightarrow> raiseE ConfigurationEvidenceError)"

text \<open>
  A configuration volume is removed only when it still is the one that was inspected; the API
  conflict of a volume in use is \<open>ProviderFault ApiClass ''Conflict''\<close>.
\<close>

definition sdk_remove_configuration_volume :: "'w docker_sdk \<Rightarrow> configuration_volume \<Rightarrow> ('w, unit) sdk_eff" where
  "sdk_remove_configuration_volume sdk expected =
     (if \<not> cv_local expected then raiseE ConfigurationEvidenceError
      else bindE (callE (ResourceFetched (GetVolume (cv_name expected))) (sdk_volume sdk (cv_name expected))) (\<lambda>r.
        bindE (liftE (configuration_volume_inspection (sr_attrs r) (cv_name expected))) (\<lambda>observed.
        if cv_created observed \<noteq> cv_created expected \<or> \<not> same_labels (cv_labels observed) (cv_labels expected)
          \<or> cv_local observed \<noteq> cv_local expected
        then raiseE ConfigurationEvidenceError
        else catchE (\<lambda>e. e = ProviderFault ApiClass ''Conflict'')
               (change_call sdk (VolumeRemove (cv_name expected))) (\<lambda>_. raiseE ConfigurationVolumeInUse))))"

text \<open>
  The short-lived helper containers of \<open>DockerSdkClient\<close> (\<open>docker/sdk.py\<close>): writing and reading the
  file of a volume, and the HTTP probe.  A helper that was created is removed however its use ends.
\<close>

section \<open>Helpers\<close>

text \<open>\<open>helper = create(...)\<close>, \<open>try: use(helper)\<close>, \<open>finally: helper.remove(force=True)\<close>.\<close>

definition with_helper :: "'w docker_sdk \<Rightarrow> sdk_call \<Rightarrow> (string \<Rightarrow> ('w, 'a) sdk_eff) \<Rightarrow> ('w, 'a) sdk_eff" where
  "with_helper sdk call use =
     bindE (create_call sdk call) (\<lambda>(helper, _).
     attemptE (use helper)
       (\<lambda>e. bindE (change_call sdk (HelperRemove helper)) (\<lambda>_. raiseE e))
       (\<lambda>a. bindE (change_call sdk (HelperRemove helper)) (\<lambda>_. returnE a)))"

definition archive_call :: "'w docker_sdk \<Rightarrow> sdk_call \<Rightarrow> ('w, chunk_stream) sdk_eff" where
  "archive_call sdk call = callE (ArchiveFetched call) (sdk_archive sdk call)"

definition archive_or_none ::
  "'w docker_sdk \<Rightarrow> sdk_call \<Rightarrow> (chunk_stream \<Rightarrow> dk_exn + 'a) \<Rightarrow> ('w, 'a option) sdk_eff" where
  "archive_or_none sdk call read =
     attemptE (archive_call sdk call)
       (\<lambda>e. if sdk_not_found e then returnE None else raiseE e)
       (\<lambda>s. bindE (liftE (read s)) (\<lambda>a. returnE (Some a)))"

definition runtime_error :: dk_exn where
  "runtime_error = ProviderFault OtherClass ''RuntimeError''"

definition type_error :: dk_exn where
  "type_error = ProviderFault MaterialClass ''TypeError''"

definition value_error :: dk_exn where
  "value_error = ProviderFault MaterialClass ''ValueError''"

fun exit_code :: "exec_answer \<Rightarrow> dk_exn + int" where
  "exit_code (ExecPair i) = Inr i"
| "exit_code (ExecObject (Some i)) = Inr i"
| "exit_code (ExecObject None) = Inl runtime_error"

definition chmod_content :: "'w docker_sdk \<Rightarrow> string \<Rightarrow> string \<Rightarrow> ('w, unit) sdk_eff" where
  "chmod_content sdk helper mode =
     bindE (callE (sdk_done (HelperChmod helper mode)) (sdk_exec sdk helper mode)) (\<lambda>answer.
     bindE (liftE (exit_code answer)) (\<lambda>code. requireE (code = 0) runtime_error))"

section \<open>Archives\<close>

definition artifact_archive :: "configuration_artifact \<Rightarrow> archive_entry" where
  "artifact_archive a = \<lparr>ae_body = utf8_bytes (ca_content a), ae_mode = octal_value (ca_mode a), ae_uid = 0\<rparr>"

definition secret_archive :: "string \<Rightarrow> string \<Rightarrow> nat \<Rightarrow> archive_entry" where
  "secret_archive secret mode uid = \<lparr>ae_body = utf8_bytes secret, ae_mode = octal_value mode, ae_uid = uid\<rparr>"

text \<open>At most 1024 chunks and \<open>maximum\<close> bytes are read; a fault of the stream is not malformed material.\<close>

fun collect_chunks :: "dk_exn \<Rightarrow> nat \<Rightarrow> nat \<Rightarrow> nat list \<Rightarrow> chunk_stream \<Rightarrow> dk_exn + nat list" where
  "collect_chunks bad maximum index acc ChunkEnd = Inr acc"
| "collect_chunks bad maximum index acc (ChunkFault e) = Inl e"
| "collect_chunks bad maximum index acc (OtherChunk rest) = Inl bad"
| "collect_chunks bad maximum index acc (ByteChunk b rest) =
     (if 1024 \<le> index \<or> maximum < length acc + length b then Inl bad
      else collect_chunks bad maximum (Suc index) (acc @ b) rest)"

text \<open>\<open>b"".join\<close> reads the whole stream before it rejects a chunk that is not bytes.\<close>

fun join_chunks :: "bool \<Rightarrow> nat list \<Rightarrow> chunk_stream \<Rightarrow> dk_exn + nat list" where
  "join_chunks ok acc ChunkEnd = (if ok then Inr acc else Inl type_error)"
| "join_chunks ok acc (ChunkFault e) = Inl e"
| "join_chunks ok acc (OtherChunk rest) = join_chunks False acc rest"
| "join_chunks ok acc (ByteChunk b rest) = join_chunks ok (acc @ b) rest"

definition content_digest :: "'w docker_sdk \<Rightarrow> chunk_stream \<Rightarrow> dk_exn + string" where
  "content_digest sdk s =
     bindR (join_chunks True [] s) (\<lambda>bytes.
     bindR (sdk_content sdk bytes) (\<lambda>content.
     case content of None \<Rightarrow> Inl runtime_error | Some body \<Rightarrow> Inr (sha256_hex body)))"

text \<open>The member of an archive that is one regular file of the expected name, with its whole body.\<close>

definition sound_member :: "string \<Rightarrow> int \<Rightarrow> int \<Rightarrow> archive_member \<Rightarrow> bool" where
  "sound_member name lo hi m \<longleftrightarrow>
     ar_name m = name \<and> ar_regular m \<and> \<not> ar_sparse m \<and> lo \<le> ar_size m \<and> ar_size m \<le> hi
     \<and> 0 \<le> ar_mode m \<and> ar_mode m \<le> 4095"

definition member_body :: "archive_member \<Rightarrow> nat list option" where
  "member_body m =
     (case ar_body m of Some body \<Rightarrow> if int (length body) = ar_size m then Some body else None | None \<Rightarrow> None)"

definition maximum_archive :: nat where
  "maximum_archive = 16 * 1024 * 1024"

definition secret_file_inspection :: "'w docker_sdk \<Rightarrow> string \<Rightarrow> chunk_stream \<Rightarrow> dk_exn + secret_file" where
  "secret_file_inspection sdk name s =
     bindR (collect_chunks SecretFileEvidenceError maximum_archive 0 [] s) (\<lambda>bytes.
     case sdk_members sdk bytes of
       Inr [m] \<Rightarrow>
         if sound_member name 0 (int maximum_archive) m \<and> 0 \<le> ar_uid m \<and> ar_uid m \<le> 2147483647
         then (case member_body m of
             Some body \<Rightarrow> Inr \<lparr>sf_digest = sha256_hex body, sf_uid = nat (ar_uid m), sf_mode = nat (ar_mode m), sf_regular = True\<rparr>
           | None \<Rightarrow> Inl SecretFileEvidenceError)
         else Inl SecretFileEvidenceError
     | Inl e \<Rightarrow> Inl (if dk_is_exception e then SecretFileEvidenceError else e)
     | _ \<Rightarrow> Inl SecretFileEvidenceError)"

definition configuration_file_inspection :: "'w docker_sdk \<Rightarrow> string \<Rightarrow> chunk_stream \<Rightarrow> dk_exn + configuration_file" where
  "configuration_file_inspection sdk name s =
     bindR (collect_chunks ConfigurationEvidenceError 1048576 0 [] s) (\<lambda>bytes.
     case sdk_members sdk bytes of
       Inr [m] \<Rightarrow>
         if sound_member name 1 (int (sdk_maximum sdk)) m
         then (case member_body m of
             Some body \<Rightarrow> Inr \<lparr>cf_digest = sha256_hex body, cf_mode = nat (ar_mode m), cf_regular = True\<rparr>
           | None \<Rightarrow> Inl ConfigurationEvidenceError)
         else Inl ConfigurationEvidenceError
     | Inl e \<Rightarrow> Inl (if sdk_archive_error sdk e then ConfigurationEvidenceError else e)
     | _ \<Rightarrow> Inl ConfigurationEvidenceError)"

section \<open>Files of volumes\<close>

definition materialize_configuration_artifact ::
  "'w docker_sdk \<Rightarrow> string \<Rightarrow> configuration_artifact \<Rightarrow> ('w, unit) sdk_eff" where
  "materialize_configuration_artifact sdk volume a =
     with_helper sdk (HelperCreate volume False) (\<lambda>helper.
       bindE (change_call sdk (HelperStart helper)) (\<lambda>_.
       bindE (change_call sdk (HelperPut helper (artifact_archive a))) (\<lambda>_.
       chmod_content sdk helper (ca_mode a))))"

definition materialize_secret_file ::
  "'w docker_sdk \<Rightarrow> string \<Rightarrow> string \<Rightarrow> string \<Rightarrow> nat \<Rightarrow> ('w, unit) sdk_eff" where
  "materialize_secret_file sdk volume secret mode uid =
     (if 2147483647 < uid then raiseE value_error
      else with_helper sdk (HelperCreate volume False) (\<lambda>helper.
        bindE (change_call sdk (HelperStart helper)) (\<lambda>_.
        bindE (change_call sdk (HelperPut helper (secret_archive secret mode uid))) (\<lambda>_.
        if uid = 0 then chmod_content sdk helper mode else returnE ()))))"

text \<open>The file \<open>/artifact/content\<close> of a volume; \<open>None\<close> when the volume has none.\<close>

definition read_volume_file ::
  "'w docker_sdk \<Rightarrow> string \<Rightarrow> (chunk_stream \<Rightarrow> dk_exn + 'a) \<Rightarrow> ('w, 'a option) sdk_eff" where
  "read_volume_file sdk volume read =
     with_helper sdk (HelperCreate volume True) (\<lambda>helper.
       bindE (change_call sdk (HelperStart helper)) (\<lambda>_.
       archive_or_none sdk (HelperGet helper ''/artifact/content'') read))"

definition sdk_artifact_digest :: "'w docker_sdk \<Rightarrow> string \<Rightarrow> ('w, string option) sdk_eff" where
  "sdk_artifact_digest sdk volume = read_volume_file sdk volume (content_digest sdk)"

definition sdk_inspect_configuration_file :: "'w docker_sdk \<Rightarrow> string \<Rightarrow> ('w, configuration_file option) sdk_eff" where
  "sdk_inspect_configuration_file sdk volume = read_volume_file sdk volume (configuration_file_inspection sdk ''content'')"

definition sdk_inspect_secret_file :: "'w docker_sdk \<Rightarrow> string \<Rightarrow> ('w, secret_file option) sdk_eff" where
  "sdk_inspect_secret_file sdk volume = read_volume_file sdk volume (secret_file_inspection sdk ''content'')"

section \<open>Installed material\<close>

definition last_segment :: "string \<Rightarrow> string" where
  "last_segment path = last (py_split CHR ''/'' path)"

text \<open>The container's attributes are those of its one inspection.\<close>

definition sdk_inspect_configuration_mount ::
  "'w docker_sdk \<Rightarrow> string \<Rightarrow> configuration_artifact \<Rightarrow> string \<Rightarrow> ('w, configuration_mount option) sdk_eff" where
  "sdk_inspect_configuration_mount sdk ident a volume =
     (if \<not> hex64 ident then raiseE value_error
      else attemptE (callE (ResourceFetched (GetContainer ident)) (sdk_container sdk ident))
        (\<lambda>e. if sdk_not_found e then returnE None else raiseE e)
        (\<lambda>r. bindE (requireE (resource_identity (sr_attrs r) = Some ident) ConfigurationEvidenceError) (\<lambda>_.
             bindE (liftE (readonly_content_mount_facts (sr_attrs r) (ca_target a) volume)) (\<lambda>(v, target, subpath).
             archive_or_none sdk (ArchiveGet ident target) (\<lambda>s.
               bindR (configuration_file_inspection sdk (last_segment target) s) (\<lambda>file.
               bindR (requireR (resource_identity (sr_attrs r) = Some ident
                         \<and> readonly_content_mount_facts (sr_attrs r) (ca_target a) volume = Inr (v, target, subpath))
                       ConfigurationEvidenceError) (\<lambda>_.
               Inr \<lparr>mi_container = ident, mi_volume = v, mi_target = target, mi_subpath = subpath,
                    mi_read_only = True, mi_file = file\<rparr>)))))))"

end
