(* ===== verification/Docker_Sdk_Client.thy ===== *)
theory Docker_Sdk_Client
  imports Docker_Sdk
begin

text \<open>
  The rest of \<open>DockerSdkClient\<close> (\<open>docker/sdk.py\<close>): readback of a secret recipient, HTTP probes,
  creation of containers, and \<open>sdk_docker_client\<close>, the client that the runtime interpreter is given.
\<close>

section \<open>Recipients of secrets\<close>

text \<open>The environment of a container, split at the first \<open>=\<close>, with the size read so far.\<close>

fun environment_entries :: "nat \<Rightarrow> (string \<times> string) list \<Rightarrow> json list \<Rightarrow> (string \<times> string) list option" where
  "environment_entries read env [] = Some env"
| "environment_entries read env (item # items) =
     (case item of
        JStr s \<Rightarrow>
          (case partition_at CHR ''='' s of
             (key, separator, v) \<Rightarrow>
               if \<not> separator \<or> CHR 0x00 \<in> set s \<or> key = [] \<or> map_of env key \<noteq> None
                 \<or> 1048576 < read + length (utf8_bytes s)
               then None
               else environment_entries (read + length (utf8_bytes s)) (env @ [(key, v)]) items)
      | _ \<Rightarrow> None)"

definition container_variables :: "json \<Rightarrow> (string \<times> string) list option" where
  "container_variables raw =
     (case raw of JList items \<Rightarrow> if 1024 < length items then None else environment_entries 0 [] items | _ \<Rightarrow> None)"

record recipient_facts =
  rf_identity :: json
  rf_image :: json
  rf_user :: json
  rf_environment :: "(string \<times> string) list"
  rf_mounts :: "(string \<times> string \<times> string) list"

fun mount_facts :: "json \<Rightarrow> secret_mount list \<Rightarrow> dk_exn + (string \<times> string \<times> string) list" where
  "mount_facts attrs [] = Inr []"
| "mount_facts attrs (m # ms) =
     bindR (readonly_content_mount_facts attrs (sm_target m) (sm_volume m)) (\<lambda>f.
     bindR (mount_facts attrs ms) (\<lambda>fs. Inr (f # fs)))"

definition user_value :: "string option \<Rightarrow> json" where
  "user_value u = (case u of None \<Rightarrow> JNull | Some s \<Rightarrow> JStr s)"

definition user_text :: "json \<Rightarrow> string option" where
  "user_text j = (case j of JStr s \<Rightarrow> Some s | _ \<Rightarrow> None)"

definition running_recipient :: "string \<Rightarrow> image_inspection \<Rightarrow> json \<Rightarrow> bool" where
  "running_recipient ident img attrs \<longleftrightarrow>
     is_mapping (json_get attrs ''Config'') \<and> is_mapping (json_get attrs ''State'')
     \<and> resource_identity attrs = Some ident
     \<and> json_get attrs ''Image'' = JStr (ii_id img)
     \<and> json_get (json_get attrs ''Config'') ''User'' = user_value (ii_user img)
     \<and> json_get (json_get attrs ''State'') ''Running'' = JBool True
     \<and> json_get_or (json_get attrs ''State'') ''Paused'' (JBool False) = JBool False
     \<and> json_get_or (json_get attrs ''State'') ''Restarting'' (JBool False) = JBool False"

definition recipient_owner :: "bool \<Rightarrow> nat option \<Rightarrow> json \<Rightarrow> dk_exn + unit" where
  "recipient_owner some_files uid attrs =
     (if \<not> some_files then Inr ()
      else case secret_file_owner_uid (user_text (json_get (json_get attrs ''Config'') ''User'')) of
          None \<Rightarrow> Inl value_error
        | Some owner \<Rightarrow> requireR (Some owner = uid) SecretFileEvidenceError)"

definition recipient_of ::
  "string \<Rightarrow> image_inspection \<Rightarrow> (string \<times> string) list \<Rightarrow> secret_mount list \<Rightarrow> bool \<Rightarrow> nat option \<Rightarrow> json
    \<Rightarrow> dk_exn + recipient_facts" where
  "recipient_of ident img expected mounts some_files uid attrs =
     bindR (requireR (running_recipient ident img attrs) SecretFileEvidenceError) (\<lambda>_.
     bindR (recipient_owner some_files uid attrs) (\<lambda>_.
     case container_variables (json_get (json_get attrs ''Config'') ''Env'') of
       None \<Rightarrow> Inl SecretFileEvidenceError
     | Some env \<Rightarrow>
         bindR (requireR (list_all (\<lambda>(k, v). map_of env k = Some v) expected) SecretFileEvidenceError) (\<lambda>_.
         bindR (mount_facts attrs mounts) (\<lambda>fs.
         Inr \<lparr>rf_identity = json_get attrs ''Id'', rf_image = json_get attrs ''Image'',
              rf_user = json_get (json_get attrs ''Config'') ''User'',
              rf_environment = sort_by (\<lambda>a b. str_le (fst a) (fst b)) env, rf_mounts = fs\<rparr>))))"

definition recipient_file_matches :: "string \<Rightarrow> string \<Rightarrow> nat option \<Rightarrow> secret_file \<Rightarrow> bool" where
  "recipient_file_matches secret mode uid observed \<longleftrightarrow>
     sf_digest observed = sha256_hex (utf8_bytes secret) \<and> Some (sf_uid observed) = uid
     \<and> sf_mode observed = octal_value mode \<and> sf_regular observed"

fun verify_recipient_files ::
  "'w docker_sdk \<Rightarrow> string \<Rightarrow> nat option \<Rightarrow> (secret_mount \<times> string \<times> string \<times> string) list \<Rightarrow> ('w, unit) sdk_eff" where
  "verify_recipient_files sdk ident uid [] = returnE ()"
| "verify_recipient_files sdk ident uid ((m, target, secret, mode) # rest) =
     bindE (requireE (sm_target m = target) SecretFileEvidenceError) (\<lambda>_.
     bindE (archive_call sdk (ArchiveGet ident (sm_target m))) (\<lambda>s.
     bindE (liftE (secret_file_inspection sdk (last_segment (sm_target m)) s)) (\<lambda>observed.
     bindE (requireE (recipient_file_matches secret mode uid observed) SecretFileEvidenceError) (\<lambda>_.
     verify_recipient_files sdk ident uid rest))))"

definition read_recipient ::
  "'w docker_sdk \<Rightarrow> string \<Rightarrow> (json \<Rightarrow> dk_exn + recipient_facts) \<Rightarrow> ('w, recipient_facts) sdk_eff" where
  "read_recipient sdk ident facts = bindE (query_call sdk (AttributesReload ident)) (\<lambda>attrs. liftE (facts attrs))"

definition sdk_verify_secret_recipient ::
  "'w docker_sdk \<Rightarrow> recipient_request \<Rightarrow> ('w, unit) sdk_eff" where
  "sdk_verify_secret_recipient sdk rp =
     (let ident = rp_container rp; mounts = rp_mounts rp; files = rp_files rp; uid = rp_owner rp
      in if \<not> hex64 ident \<or> length files \<noteq> length mounts \<or> 32 < length mounts \<or> (files = [] \<and> uid \<noteq> None)
      then raiseE SecretFileEvidenceError
      else bindE (callE (ResourceFetched (GetContainer ident)) (sdk_container sdk ident)) (\<lambda>_.
        let facts = recipient_of ident (rp_image rp) (rp_environment rp) mounts (files \<noteq> []) uid
        in bindE (read_recipient sdk ident facts) (\<lambda>seen.
           bindE (verify_recipient_files sdk ident uid (zip mounts files)) (\<lambda>_.
           bindE (read_recipient sdk ident facts) (\<lambda>again.
           requireE (again = seen) SecretFileEvidenceError)))))"

section \<open>HTTP probes\<close>

definition py_trunc :: "rat \<Rightarrow> int" where
  "py_trunc r = (if r < 0 then \<lceil>r\<rceil> else \<lfloor>r\<rfloor>)"

definition container_logs :: "'w docker_sdk \<Rightarrow> string \<Rightarrow> ('w, string) sdk_eff" where
  "container_logs sdk helper =
     bindE (callE (sdk_done (HelperLogs helper)) (sdk_logs sdk helper)) (\<lambda>logs. case logs of
         LogBytes bs \<Rightarrow> returnE (sdk_replace sdk (take 256 bs))
       | LogText s \<Rightarrow> returnE (take 256 s)
       | OtherLog \<Rightarrow> raiseE runtime_error)"

text \<open>
  The probe runs in a helper container on the runtime's network: its program is the fixed
  script of the source, its arguments are the url, the bound, the timeout and the expected digest.
\<close>

definition sdk_run_http_probe ::
  "'w docker_sdk \<Rightarrow> probe_arguments \<Rightarrow> ('w, http_probe) sdk_eff" where
  "sdk_run_http_probe sdk pb =
     (let network = pb_network pb; url = pb_url pb; expected = pb_expected pb
      in if py_strip network = [] \<or> \<not> (py_startswith url ''http://'' \<or> py_startswith url ''https://'')
        \<or> (\<exists>d \<in> set_option expected. \<not> hex64 d)
      then raiseE value_error
      else let timeout = max 1 (min (py_trunc (pb_timeout pb)) 30);
               bound = max 0 (min (pb_maximum pb) 65536);
               arguments = [url, show_int bound, show_int timeout, case expected of None \<Rightarrow> [] | Some d \<Rightarrow> d]
           in bindE (with_helper sdk (ProbeCreate network arguments) (\<lambda>helper.
                bindE (change_call sdk (HelperStart helper)) (\<lambda>_.
                bindE (callE (SdkAnswered (HelperWait helper (timeout + 2))) (sdk_wait sdk helper (timeout + 2))) (\<lambda>waited.
                bindE (liftE (wait_status_code waited)) (\<lambda>code.
                bindE (container_logs sdk helper) (\<lambda>output. returnE (code, py_strip output))))))) (\<lambda>(code, output).
              liftE (http_probe_result (sdk_json sdk) output code bound (expected \<noteq> None))))"

section \<open>Containers\<close>

definition bind_le :: "bind_mount \<Rightarrow> bind_mount \<Rightarrow> bool" where
  "bind_le a b \<longleftrightarrow>
     (if bm_target a \<noteq> bm_target b then str_le (bm_target a) (bm_target b) else str_le (bm_source a) (bm_source b))"

definition container_create_kwargs :: "container_spec \<Rightarrow> create_arguments" where
  "container_create_kwargs sp =
     \<lparr>ka_name = sp_name sp, ka_environment = sp_environment sp, ka_labels = sp_labels sp,
      ka_volumes = sp_volumes sp,
      ka_configurations = sort_by (\<lambda>a b. str_le (ca_id (fst a)) (ca_id (fst b))) (sp_configurations sp),
      ka_secrets = sort_by (\<lambda>a b. str_le (sm_target a) (sm_target b)) (sp_secrets sp),
      ka_binds = sort_by bind_le (sp_binds sp),
      ka_groups = (if sp_groups sp = [] then None else Some (sp_groups sp))\<rparr>"

definition container_create_call :: "create_suboperation \<Rightarrow> ('w, 'a) sdk_eff \<Rightarrow> ('w, 'a) sdk_eff" where
  "container_create_call sub m =
     catchE dk_is_exception m (\<lambda>e. raiseE (ContainerCreateError sub (docker_failure_category e sub)))"

text \<open>The runtime creates containers without command and port bindings.  The identity is empty when unknown.\<close>

definition sdk_create_container :: "'w docker_sdk \<Rightarrow> container_spec \<Rightarrow> ('w, string) sdk_eff" where
  "sdk_create_container sdk sp =
     bindE (container_create_call REQUEST_CONSTRUCTION (returnE (container_create_kwargs sp))) (\<lambda>kwargs.
     bindE (container_create_call ENDPOINT_CONSTRUCTION (query_call sdk (EndpointConfig (sp_aliases sp)))) (\<lambda>endpoint.
     bindE (container_create_call SDK_CREATE
         (create_call sdk (ContainerCreate (sp_image sp) kwargs (Some (sp_network sp, endpoint))))) (\<lambda>(_, attrs).
     returnE (case resource_identity attrs of None \<Rightarrow> [] | Some i \<Rightarrow> i))))"

definition sdk_run_container :: "'w docker_sdk \<Rightarrow> container_spec \<Rightarrow> ('w, string) sdk_eff" where
  "sdk_run_container sdk sp =
     bindE (create_call sdk (ContainerCreate (sp_image sp) (container_create_kwargs sp) None)) (\<lambda>(handle, _).
     bindE (callE (ResourceFetched (GetNetwork (sp_network sp))) (sdk_network sdk (sp_network sp))) (\<lambda>_.
     bindE (change_call sdk (NetworkConnect (sp_network sp) handle (sp_aliases sp))) (\<lambda>_.
     bindE (change_call sdk (ContainerStart handle)) (\<lambda>_. returnE []))))"

text \<open>A change of an existing resource fetches it first.\<close>

definition on_container :: "'w docker_sdk \<Rightarrow> string \<Rightarrow> sdk_call \<Rightarrow> ('w, string) sdk_eff" where
  "on_container sdk name call =
     bindE (callE (ResourceFetched (GetContainer name)) (sdk_container sdk name)) (\<lambda>_.
     bindE (change_call sdk call) (\<lambda>_. returnE []))"

definition on_network :: "'w docker_sdk \<Rightarrow> string \<Rightarrow> sdk_call \<Rightarrow> ('w, string) sdk_eff" where
  "on_network sdk name call =
     bindE (callE (ResourceFetched (GetNetwork name)) (sdk_network sdk name)) (\<lambda>_.
     bindE (change_call sdk call) (\<lambda>_. returnE []))"

definition sdk_remove_volume :: "'w docker_sdk \<Rightarrow> string \<Rightarrow> ('w, unit) sdk_eff" where
  "sdk_remove_volume sdk name =
     bindE (callE (ResourceFetched (GetVolume name)) (sdk_volume sdk name)) (\<lambda>_. change_call sdk (VolumeRemove name))"

definition no_identity :: "('w, unit) sdk_eff \<Rightarrow> ('w, string) sdk_eff" where
  "no_identity m = bindE m (\<lambda>_. returnE [])"

section \<open>The client\<close>

definition sdk_uses_local_socket :: "'w docker_sdk \<Rightarrow> string \<Rightarrow> ('w, bool) sdk_eff" where
  "sdk_uses_local_socket sdk path =
     (if sdk_tls sdk then returnE False
      else bindE (callE (sdk_done TransportPath) (sdk_unix_path sdk)) (\<lambda>p. returnE (p = Some path)))"

definition fact_text :: "json \<Rightarrow> string option" where
  "fact_text j =
     (case j of
        JStr s \<Rightarrow> if s \<noteq> [] \<and> length s \<le> 128 \<and> list_all (\<lambda>c. 32 \<le> code_of c) s then Some s else None
      | _ \<Rightarrow> None)"

definition facts_of :: "json \<Rightarrow> json \<Rightarrow> provider_facts option" where
  "facts_of info version =
     (case (fact_text (json_get info ''OperatingSystem''), fact_text (json_get info ''OSType''),
            fact_text (json_get version ''Version''), fact_text (json_get version ''ApiVersion'')) of
        (Some a, Some b, Some c, Some d) \<Rightarrow> Some \<lparr>pf_system = a, pf_type = b, pf_engine = c, pf_api = d\<rparr>
      | _ \<Rightarrow> None)"

definition inspect_authority_provider_facts :: "'w docker_sdk \<Rightarrow> ('w, provider_facts option) sdk_eff" where
  "inspect_authority_provider_facts sdk =
     catchE dk_is_exception
       (bindE (query_call sdk DaemonInfo) (\<lambda>info.
        bindE (query_call sdk DaemonVersion) (\<lambda>version. returnE (facts_of info version))))
       (\<lambda>_. returnE None)"

fun sdk_mutate :: "'w docker_sdk \<Rightarrow> mutation \<Rightarrow> ('w, string) sdk_eff" where
  "sdk_mutate sdk (CreateNetwork name ls) = no_identity (change_call sdk (NetworkCreate name ls))"
| "sdk_mutate sdk (RemoveNetwork name) = on_network sdk name (NetworkRemove name)"
| "sdk_mutate sdk (PullImage reference auth) = no_identity (change_call sdk (ImagePull reference auth))"
| "sdk_mutate sdk (CreateVolume name ls) = no_identity (change_call sdk (VolumeCreate name ls))"
| "sdk_mutate sdk (MaterializeArtifact volume a) = no_identity (materialize_configuration_artifact sdk volume a)"
| "sdk_mutate sdk (MaterializeSecret volume secret mode uid) = no_identity (materialize_secret_file sdk volume secret mode uid)"
| "sdk_mutate sdk (CreateContainer sp) = sdk_create_container sdk sp"
| "sdk_mutate sdk (RunContainer sp) = sdk_run_container sdk sp"
| "sdk_mutate sdk (StartContainer name) = on_container sdk name (ContainerStart name)"
| "sdk_mutate sdk (StopContainer name) = on_container sdk name (ContainerStop name)"
| "sdk_mutate sdk (RemoveContainer name) = on_container sdk name (ContainerRemove name)"
| "sdk_mutate sdk (RemoveConfigurationVolume v) = no_identity (sdk_remove_configuration_volume sdk v)"

definition sdk_docker_client ::
  "(((sdk_event, 'w) st, dk_exn, unit) port) \<Rightarrow> 'w docker_sdk \<Rightarrow> ((sdk_event, 'w) st) docker_client" where
  "sdk_docker_client close sdk =
     \<lparr>dc_container = sdk_inspect_container sdk, dc_network = sdk_inspect_network sdk,
      dc_image = sdk_inspect_image sdk, dc_volume = sdk_inspect_volume sdk,
      dc_artifact_digest = sdk_artifact_digest sdk, dc_secret_file = sdk_inspect_secret_file sdk,
      dc_local_socket = sdk_uses_local_socket sdk, dc_facts = inspect_authority_provider_facts sdk,
      dc_config_volume = sdk_inspect_configuration_volume sdk, dc_volume_used = sdk_configuration_volume_in_use sdk,
      dc_config_file = sdk_inspect_configuration_file sdk, dc_config_mount = sdk_inspect_configuration_mount sdk,
      dc_recipient = sdk_verify_secret_recipient sdk, dc_probe = sdk_run_http_probe sdk,
      dc_mutate = sdk_mutate sdk, dc_close = close\<rparr>"

end
