(* ===== verification/Docker_Runtime.thy ===== *)
theory Docker_Runtime
  imports Secret_Delivery
begin

text \<open>
  The operations of \<open>DockerRuntimeInterpreter\<close> (\<open>docker/runtime.py\<close>) on networks and node
  containers, with the authority conformance of \<open>docker/authority.py\<close>: what is owned is
  established from labels before anything is changed.
\<close>

section \<open>Authority deliveries\<close>

definition docker_socket :: string where
  "docker_socket = ''/var/run/docker.sock''"

record authority_material =
  am_mounts :: "bind_mount list"
  am_groups :: "string list"

definition socket_mount :: bind_mount where
  "socket_mount = \<lparr>bm_source = docker_socket, bm_target = docker_socket, bm_read_only = False\<rparr>"

text \<open>
  The interpreter: its client, the group of the local socket (\<open>os.stat\<close>, whose \<open>OSError\<close> is
  \<open>Inl\<close>), its secret resolvers and the pull credentials, and core parameters: the first scheme of a
  protocol, the validation of image references, \<open>json.loads\<close>, and the values of the
  codes of secret errors.  \<open>dr_control\<close> are the control errors of its invocation port, and
  \<open>dr_port_missing\<close> whether a required port is absent.
\<close>

datatype pull_result = PullResolved registry_auth | PullMissing | PullDenied | PullMalformed

record 'w docker_runtime =
  dr_client :: "'w docker_client"
  dr_socket_group :: "('w, dk_exn, nat) port"
  dr_secrets :: "'w secret_ports"
  dr_pull :: "(string \<Rightarrow> ('w, dk_exn, pull_result) port) option"
  dr_control :: "dk_exn \<Rightarrow> bool"
  dr_port_missing :: bool
  dr_scheme :: "string \<Rightarrow> string"
  dr_image_ok :: "string \<Rightarrow> string \<Rightarrow> string \<Rightarrow> bool"
  dr_loads :: "string \<Rightarrow> dk_exn + json"
  dr_code_value :: "secret_code \<Rightarrow> string"
  dr_pull_intent :: string
  dr_request_ok :: "runtime_request \<Rightarrow> dk_exn option"

definition socket_delivery :: "'w docker_runtime \<Rightarrow> ('w, string) dk_eff" where
  "socket_delivery dr =
     bindE (uses_local_socket (dr_client dr) docker_socket) (\<lambda>is_local.
     if \<not> is_local then raiseE (UnsupportedAuthority ''docker.runtime-authority-delivery-unsupported'')
     else attemptE (callE SocketGroupRead (dr_socket_group dr))
       (\<lambda>_. raiseE (PreconditionError ''docker.local-socket-delivery-unavailable''
               ''local Docker socket delivery requires an accessible Docker socket''))
       (\<lambda>gid. returnE (show_nat gid)))"

fun delivery_material ::
  "'w docker_runtime \<Rightarrow> authority_delivery list \<Rightarrow> authority_material \<Rightarrow> ('w, authority_material) dk_eff" where
  "delivery_material dr [] acc = returnE acc"
| "delivery_material dr (LocalDockerSocketMount # ds) acc =
     bindE (socket_delivery dr) (\<lambda>group.
     delivery_material dr ds \<lparr>am_mounts = am_mounts acc @ [socket_mount], am_groups = am_groups acc @ [group]\<rparr>)"
| "delivery_material dr (OtherDelivery # ds) acc =
     raiseE (UnsupportedAuthority ''docker.runtime-authority-delivery-unsupported'')"

definition authority_delivery_material :: "'w docker_runtime \<Rightarrow> runtime_request \<Rightarrow> ('w, authority_material) dk_eff" where
  "authority_delivery_material dr rq = delivery_material dr (rr_deliveries rq) \<lparr>am_mounts = [], am_groups = []\<rparr>"

datatype conformance = CONFORMANT | CONFORMANCE_CONFLICT | CONFORMANCE_UNKNOWN

definition desktop_proxy :: string where
  "desktop_proxy = ''/run/host-services/docker.proxy.sock''"

definition desktop_provider :: provider_facts where
  "desktop_provider = \<lparr>pf_system = ''Docker Desktop'', pf_type = ''linux'', pf_engine = ''29.7.2'', pf_api = ''1.55''\<rparr>"

definition proxy_mount :: bind_mount where
  "proxy_mount = \<lparr>bm_source = desktop_proxy, bm_target = docker_socket, bm_read_only = False\<rparr>"

definition desktop_conformance :: "'w docker_client \<Rightarrow> ('w, conformance) dk_eff" where
  "desktop_conformance dc =
     catchE dk_is_exception
       (bindE (uses_local_socket dc docker_socket) (\<lambda>is_local.
        if \<not> is_local then returnE CONFORMANCE_CONFLICT
        else bindE (inspect_facts dc) (\<lambda>facts.
          returnE (case facts of
              None \<Rightarrow> CONFORMANCE_UNKNOWN
            | Some f \<Rightarrow> if f = desktop_provider then CONFORMANT else CONFORMANCE_CONFLICT))))
       (\<lambda>_. returnE CONFORMANCE_UNKNOWN)"

definition authority_conformance ::
  "'w docker_client \<Rightarrow> container_inspection \<Rightarrow> authority_material \<Rightarrow> ('w, conformance) dk_eff" where
  "authority_conformance dc ci am =
     (case (ci_binds ci, ci_groups ci) of
        (Some mounts, Some groups) \<Rightarrow>
          if mounts = am_mounts am \<and> groups = am_groups am then returnE CONFORMANT
          else if groups \<noteq> am_groups am \<or> am_mounts am \<noteq> [socket_mount] \<or> mounts \<noteq> [proxy_mount] then returnE CONFORMANCE_CONFLICT
          else (case ci_configured ci of
              None \<Rightarrow> returnE CONFORMANCE_UNKNOWN
            | Some [mount] \<Rightarrow>
                if cm_source mount \<noteq> desktop_proxy \<or> cm_target mount \<noteq> docker_socket \<or> cm_read_only mount = Some True
                then returnE CONFORMANCE_CONFLICT else desktop_conformance dc
            | Some _ \<Rightarrow> returnE CONFORMANCE_CONFLICT)
      | _ \<Rightarrow> returnE CONFORMANCE_UNKNOWN)"

definition require_container_authority ::
  "'w docker_client \<Rightarrow> container_inspection \<Rightarrow> authority_material \<Rightarrow> bool \<Rightarrow> ('w, unit) dk_eff" where
  "require_container_authority dc ci am final =
     bindE (authority_conformance dc ci am) (\<lambda>c. case c of
         CONFORMANCE_UNKNOWN \<Rightarrow>
           raiseE (StartNodeUncertain (if final then FINAL_INSPECT else CONTAINER_CREATE) SUBOPERATION_UNKNOWN DOCKER_UNEXPECTED)
       | CONFORMANCE_CONFLICT \<Rightarrow>
           if \<not> final then raiseE (UnsupportedAuthority ''docker.runtime-authority-delivery-conflict'')
           else raiseE (PreconditionError ''docker.container-authority-conflict''
                  ''Docker container authority does not match the declared delivery'')
       | CONFORMANT \<Rightarrow> returnE ())"

section \<open>Container evidence\<close>

definition require_node_network :: "container_inspection \<Rightarrow> string \<Rightarrow> dk_exn + unit" where
  "require_node_network ci net =
     requireR (ci_networks ci = [net]) (PreconditionError ''docker.container-network-conflict''
       ''Docker container network does not match the intended runtime'')"

definition require_correlation ::
  "container_inspection \<Rightarrow> labels \<Rightarrow> string \<Rightarrow> bool \<Rightarrow> bool \<Rightarrow> dk_exn + unit" where
  "require_correlation ci ls net prior_plan prior_graph =
     bindR (if prior_graph then require_material_evidence (ci_labels ci) else Inr ()) (\<lambda>_.
     bindR (requireR (same_labels (correlation_labels prior_plan prior_graph (ci_labels ci))
                                  (correlation_labels prior_plan prior_graph ls))
              (ownership_conflict ''container'' ''container'')) (\<lambda>_.
     require_node_network ci net))"

definition require_started ::
  "container_inspection \<Rightarrow> labels \<Rightarrow> image_inspection \<Rightarrow> string \<Rightarrow> bool \<Rightarrow> bool \<Rightarrow> bool \<Rightarrow> dk_exn + unit" where
  "require_started ci ls img net require_running prior_plan prior_graph =
     bindR (require_correlation ci ls net prior_plan prior_graph) (\<lambda>_.
     bindR (requireR (ci_image_id ci = Some (ii_id img)) (PreconditionError ''docker.container-image-conflict''
              ''Docker container image does not match the admitted image'')) (\<lambda>_.
     requireR (require_running \<longrightarrow> ci_running ci) (PreconditionError ''docker.container-not-running''
       ''Docker container is not running'')))"

section \<open>Provider calls of a start\<close>

definition uncertain_of :: "start_phase \<Rightarrow> create_suboperation option \<Rightarrow> dk_exn \<Rightarrow> dk_exn" where
  "uncertain_of phase sub e =
     (case (phase, sub, e) of
        (CONTAINER_CREATE, Some s, _) \<Rightarrow> StartNodeUncertain phase s (docker_failure_category e s)
      | (CONTAINER_CREATE, None, ContainerCreateError s c) \<Rightarrow> StartNodeUncertain phase s c
      | _ \<Rightarrow> StartNodeUncertain phase SUBOPERATION_UNKNOWN DOCKER_UNEXPECTED)"

definition is_precondition :: "dk_exn \<Rightarrow> bool" where
  "is_precondition e = (case e of PreconditionError _ _ \<Rightarrow> True | _ \<Rightarrow> False)"

definition start_node_call ::
  "start_phase \<Rightarrow> create_suboperation option \<Rightarrow> ('w, 'a) dk_eff \<Rightarrow> ('w, 'a) dk_eff" where
  "start_node_call phase sub operation =
     catchE (\<lambda>e. dk_is_exception e \<and> \<not> is_precondition e) operation (\<lambda>e. raiseE (uncertain_of phase sub e))"

section \<open>Networks\<close>

definition runtime_evidence :: "string \<Rightarrow> string \<Rightarrow> string \<Rightarrow> (string \<times> string) list" where
  "runtime_evidence action runtime net = [(''action'', action), (''runtime_id'', runtime), (''network'', net)]"

text \<open>The network of a runtime, created when it is missing and otherwise checked.\<close>

definition ensure_network ::
  "'w docker_client \<Rightarrow> (labels \<Rightarrow> labels \<Rightarrow> string \<Rightarrow> dk_exn + unit) \<Rightarrow> string \<Rightarrow> labels \<Rightarrow> ('w, string) dk_eff" where
  "ensure_network dc check net ls =
     bindE (inspect_network dc net) (\<lambda>found. case found of
         None \<Rightarrow> bindE (perform dc (CreateNetwork net ls)) (\<lambda>_. returnE ''created'')
       | Some observed \<Rightarrow> bindE (liftE (check (ni_labels observed) ls ''network'')) (\<lambda>_. returnE ''reused''))"

definition start_runtime :: "'w docker_runtime \<Rightarrow> runtime_request \<Rightarrow> ('w, runtime_observation runtime_result) dk_eff" where
  "start_runtime dr rq =
     bindE (liftE (runtime_target (rr_operation rq))) (\<lambda>runtime.
     let net = network_name rq runtime; ls = runtime_labels rq runtime
     in bindE (ensure_network (dr_client dr) require_owned net ls) (\<lambda>action.
        returnE (effect_succeeded rq (runtime_evidence action runtime net) [])))"

definition reconcile_runtime :: "'w docker_runtime \<Rightarrow> runtime_request \<Rightarrow> ('w, runtime_observation runtime_result) dk_eff" where
  "reconcile_runtime dr rq =
     bindE (liftE (runtime_target (rr_operation rq))) (\<lambda>runtime.
     let net = network_name rq runtime; ls = runtime_labels rq runtime
     in bindE (ensure_network (dr_client dr) require_runtime_owner net ls) (\<lambda>action.
        returnE (effect_succeeded rq (runtime_evidence action runtime net) [])))"

definition stop_runtime :: "'w docker_runtime \<Rightarrow> runtime_request \<Rightarrow> ('w, runtime_observation runtime_result) dk_eff" where
  "stop_runtime dr rq =
     bindE (liftE (runtime_target (rr_operation rq))) (\<lambda>runtime.
     let net = network_name rq runtime; ls = runtime_labels rq runtime
     in bindE (inspect_network (dr_client dr) net) (\<lambda>found.
        bindE (case found of
            None \<Rightarrow> returnE ()
          | Some observed \<Rightarrow> liftE (require_runtime_owner (ni_labels observed) ls ''network'')) (\<lambda>_.
        returnE (effect_succeeded rq (runtime_evidence ''logical-stop'' runtime net) []))))"

definition remove_runtime :: "'w docker_runtime \<Rightarrow> runtime_request \<Rightarrow> ('w, runtime_observation runtime_result) dk_eff" where
  "remove_runtime dr rq =
     bindE (liftE (runtime_target (rr_operation rq))) (\<lambda>runtime.
     let net = network_name rq runtime; ls = runtime_labels rq runtime
     in bindE (inspect_network (dr_client dr) net) (\<lambda>found.
        bindE (case found of
            None \<Rightarrow> returnE ''absent''
          | Some observed \<Rightarrow>
              bindE (liftE (require_runtime_owner (ni_labels observed) ls ''network'')) (\<lambda>_.
              bindE (perform (dr_client dr) (RemoveNetwork net)) (\<lambda>_. returnE ''removed''))) (\<lambda>action.
        returnE (effect_succeeded rq (runtime_evidence action runtime net) []))))"

section \<open>Secrets of a node\<close>

definition product_secrets :: "'w docker_runtime \<Rightarrow> runtime_request \<Rightarrow> product_material \<Rightarrow> ('w, secret_deliveries) dk_eff" where
  "product_secrets dr rq m =
     (let ss = dr_secrets dr; deliveries = pm_deliveries m
      in catchE (\<lambda>e. dk_is_exception e \<and> \<not> dr_control dr e)
           (if pm_selections m \<noteq> []
            then resolve_selected_secret_deliveries (ss_grant ss) (rr_grants rq) (map fst (pm_selections m)) deliveries
            else case ss_grant ss of
                Some resolve \<Rightarrow> resolve_authorized_secret_deliveries ss resolve (rr_grants rq) deliveries no_deliveries
              | None \<Rightarrow> resolve_secret_deliveries ss deliveries)
           (\<lambda>e. case e of
               DkSecretError code \<Rightarrow>
                 if ss_grant ss = None \<and> ss_reference ss = None \<and> deliveries \<noteq> []
                 then raiseE (PreconditionError ''docker.secret-resolution-required''
                        ''Docker runtime interpreter requires secret resolver'')
                 else raiseE (PreconditionError (''docker.secret-resolution-'' @ dr_code_value dr code)
                        ''secret delivery could not be resolved'')
             | _ \<Rightarrow> raiseE (PreconditionError ''docker.secret-resolution-malformed''
                        ''secret resolver returned malformed material'')))"

definition pull_error :: "secret_code \<Rightarrow> dk_exn" where
  "pull_error code =
     (if code = SECRET_MISSING
      then PreconditionError ''docker.image-pull-credential-missing'' ''image pull credential could not be resolved''
      else if code = SECRET_DENIED
      then PreconditionError ''docker.image-pull-credential-denied'' ''image pull credential is outside interpreter authority''
      else PreconditionError ''docker.image-pull-credential-malformed''
             ''image pull credential resolver returned malformed result'')"

definition image_pull_auth ::
  "'w docker_runtime \<Rightarrow> runtime_request \<Rightarrow> product_material \<Rightarrow> ('w, registry_auth option) dk_eff" where
  "image_pull_auth dr rq m =
     (case pm_pull m of
        None \<Rightarrow> returnE None
      | Some (reference, permitted) \<Rightarrow>
          if \<not> permitted
          then raiseE (PreconditionError ''docker.image-pull-authority-scope-mismatch''
                 ''image pull authority does not cover product image'')
          else case ss_grant (dr_secrets dr) of
              Some resolve \<Rightarrow>
                catchE (\<lambda>e. \<not> dr_control dr e \<and> (case e of DkSecretError _ \<Rightarrow> True | _ \<Rightarrow> False))
                  (bindE (granted_value (dr_secrets dr) resolve (rr_grants rq) reference (dr_pull_intent dr)) (\<lambda>v.
                   bindE (liftE (parse_image_pull_credential (dr_loads dr) v)) (\<lambda>auth. returnE (Some auth))))
                  (\<lambda>e. case e of DkSecretError code \<Rightarrow> raiseE (pull_error code) | _ \<Rightarrow> raiseE e)
            | None \<Rightarrow>
                (case dr_pull dr of
                   None \<Rightarrow> raiseE (PreconditionError ''docker.image-pull-authority-required''
                             ''image pull authority requires a configured credential resolver'')
                 | Some resolve \<Rightarrow>
                     bindE (callE (\<lambda>_. PullAuthorityResolved reference) (resolve reference)) (\<lambda>result.
                     case result of
                       PullResolved auth \<Rightarrow> returnE (Some auth)
                     | PullMissing \<Rightarrow> raiseE (pull_error SECRET_MISSING)
                     | PullDenied \<Rightarrow> raiseE (pull_error SECRET_DENIED)
                     | PullMalformed \<Rightarrow> raiseE (pull_error INVALID_RESOLVER_RESULT))))"

section \<open>Secret files\<close>

definition selected_secret_identity ::
  "runtime_request \<Rightarrow> product_material \<Rightarrow> secret_material \<Rightarrow> secret_selection \<Rightarrow> nat \<Rightarrow> string" where
  "selected_secret_identity rq m f sel uid =
     sha256_hex (utf8_bytes (canonical_json (JObj
       [(''profile'', JStr ''docker.selected-secret-file.v1''), (''workspace_id'', JStr (rr_workspace rq)),
        (''runtime_id'', JStr (pm_runtime m)), (''node_id'', JStr (pm_node m)),
        (''reference_id'', JStr (sel_reference sel)), (''intent'', JStr (sel_intent sel)),
        (''version_id'', JStr (sel_version sel)), (''target_path'', JStr (fm_target f)),
        (''file_mode'', JStr (fm_mode f)), (''owner_uid'', JInt (int uid))])))"

definition secret_volume_name :: "runtime_request \<Rightarrow> product_material \<Rightarrow> secret_material \<Rightarrow> nat \<Rightarrow> string" where
  "secret_volume_name rq m f uid =
     (case fm_selection f of
        Some sel \<Rightarrow> ''cpk-sec-'' @ take 55 (selected_secret_identity rq m f sel uid)
      | None \<Rightarrow> volume_name rq (pm_node m) (''secret-'' @ take 16 (digest_of [fm_target f, fm_reference f])))"

definition require_secret_identity :: "labels \<Rightarrow> runtime_request \<Rightarrow> product_material \<Rightarrow> secret_material \<Rightarrow> nat \<Rightarrow> dk_exn + unit"
  where
  "require_secret_identity ls rq m f uid =
     (case fm_selection f of
        None \<Rightarrow> Inr ()
      | Some sel \<Rightarrow> requireR (label_of ls ''secret.identity'' = Some (selected_secret_identity rq m f sel uid))
          (PreconditionError ''docker.secret-identity-conflict'' ''Secret volume does not match the selected immutable identity''))"

definition secret_labels :: "labels \<Rightarrow> secret_material \<Rightarrow> labels" where
  "secret_labels ls f =
     labelled [(''volume.kind'', ''secret-file''), (''secret.target'', fm_target f), (''secret.reference'', fm_reference f)] @ ls"

definition secret_value_digest :: "secret_material \<Rightarrow> string" where
  "secret_value_digest f = sha256_hex (utf8_bytes (fm_value f))"

text \<open>What a secret file on a volume must be.\<close>

definition secret_file_matches :: "secret_material \<Rightarrow> nat \<Rightarrow> secret_file option \<Rightarrow> bool" where
  "secret_file_matches f uid observed =
     (case observed of
        None \<Rightarrow> False
      | Some o' \<Rightarrow> sf_regular o' \<and> sf_uid o' = uid \<and> sf_mode o' = octal_value (fm_mode f) \<and> sf_digest o' = secret_value_digest f)"

definition require_secret_file :: "'w docker_client \<Rightarrow> string \<Rightarrow> secret_material \<Rightarrow> nat \<Rightarrow> ('w, unit) dk_eff" where
  "require_secret_file dc volume f uid =
     attemptE (inspect_secret_file dc volume)
       (\<lambda>e. if e = SecretFileEvidenceError
             then raiseE (PreconditionError ''docker.secret-material-conflict'' ''owned secret file evidence is invalid'')
             else raiseE e)
       (\<lambda>observed. if secret_file_matches f uid observed then returnE ()
             else raiseE (PreconditionError ''docker.secret-material-conflict''
                    ''owned secret file does not match approved material and recipient''))"

definition node_secret_owner :: "labels \<Rightarrow> labels \<Rightarrow> runtime_request \<Rightarrow> product_material \<Rightarrow> secret_material \<Rightarrow> nat \<Rightarrow> dk_exn + unit"
  where
  "node_secret_owner observed expected rq m f uid =
     bindR (require_node_owner observed expected ''secret volume'') (\<lambda>_. require_secret_identity observed rq m f uid)"

text \<open>
  The inspection of one secret file before anything is prepared; \<open>kept\<close> is the container that will
  keep running with it, if any.
\<close>

definition preflight_secret ::
  "'w docker_client \<Rightarrow> runtime_request \<Rightarrow> product_material \<Rightarrow> nat \<Rightarrow> container_inspection option \<Rightarrow> secret_material
    \<Rightarrow> ('w, unit) dk_eff" where
  "preflight_secret dc rq m uid kept f =
     (let volume = secret_volume_name rq m f uid
      in bindE (inspect_volume dc volume) (\<lambda>found.
         bindE (case found of
             Some ls \<Rightarrow>
               bindE (liftE (node_secret_owner ls (secret_labels (node_labels rq m) f) rq m f uid)) (\<lambda>_.
               require_secret_file dc volume f uid)
           | None \<Rightarrow>
               if kept \<noteq> None then raiseE (PreconditionError ''docker.secret-material-conflict''
                 ''existing container secret material is missing'')
               else returnE ()) (\<lambda>_.
         case kept of
           None \<Rightarrow> returnE ()
         | Some ci \<Rightarrow>
             if count_list (ci_secret_mounts ci) \<lparr>sm_target = fm_target f, sm_volume = volume\<rparr> \<noteq> 1
             then raiseE (PreconditionError ''docker.secret-mount-conflict''
                    ''existing container secret mount does not match the approved delivery'')
             else returnE ())))"

fun over_files :: "(secret_material \<Rightarrow> ('w, unit) dk_eff) \<Rightarrow> secret_material list \<Rightarrow> ('w, unit) dk_eff" where
  "over_files k [] = returnE ()"
| "over_files k (f # fs) = bindE (k f) (\<lambda>_. over_files k fs)"

definition preflight_secret_files ::
  "'w docker_client \<Rightarrow> runtime_request \<Rightarrow> product_material \<Rightarrow> secret_deliveries \<Rightarrow> image_inspection \<Rightarrow> ('w, nat) dk_eff"
  where
  "preflight_secret_files dc rq m secrets img =
     (if rd_files secrets = [] then returnE 0
      else case secret_file_owner_uid (ii_user img) of
          None \<Rightarrow> raiseE (PreconditionError ''docker.secret-recipient-unsupported''
                     ''secret file requires a supported numeric image user'')
        | Some uid \<Rightarrow>
            bindE (inspect_container dc (container_name rq (pm_node m))) (\<lambda>found.
            let ls = node_labels rq m;
                replacing = (case found of
                    Some ci \<Rightarrow> rr_operation rq = ReconcileNode \<and> \<not> fingerprint_matches (ci_labels ci) ls
                  | None \<Rightarrow> False)
            in bindE (liftE (case found of
                   None \<Rightarrow> Inr ()
                 | Some ci \<Rightarrow>
                     bindR (require_node_owner (ci_labels ci) ls ''container'') (\<lambda>_.
                     requireR (replacing \<or> (ci_image_id ci = Some (ii_id img) \<and> ci_user ci = ii_user img))
                       (PreconditionError ''docker.secret-recipient-conflict''
                         ''existing container does not match the admitted secret recipient'')))) (\<lambda>_.
               bindE (over_files (preflight_secret dc rq m uid (if replacing then None else found)) (rd_files secrets)) (\<lambda>_.
               returnE uid))))"

section \<open>Images\<close>

definition admit_image ::
  "'w docker_runtime \<Rightarrow> product_material \<Rightarrow> registry_auth option \<Rightarrow> ('w, image_inspection) dk_eff" where
  "admit_image dr m auth =
     (let dc = dr_client dr; reference = pm_image_reference m;
          inspect = start_node_call IMAGE_AVAILABILITY None (inspect_image dc reference)
      in bindE inspect (\<lambda>found.
         bindE (case found of
             Some img \<Rightarrow> returnE (Some img)
           | None \<Rightarrow>
               bindE (start_node_call IMAGE_AVAILABILITY None (perform dc (PullImage reference auth))) (\<lambda>_. inspect)) (\<lambda>found'.
         case found' of
           Some img \<Rightarrow>
             if matches_image_reference (dr_image_ok dr) reference (ii_digests img) then returnE img
             else raiseE (PreconditionError ''docker.image-reference-conflict''
                    ''Docker image does not match the declared immutable reference'')
         | None \<Rightarrow> raiseE (PreconditionError ''docker.image-reference-conflict''
                    ''Docker image does not match the declared immutable reference''))))"

section \<open>Preparation of a container\<close>

record create_material =
  cr_environment :: "(string \<times> string) list"
  cr_volumes :: "(string \<times> string) list"
  cr_configurations :: "(configuration_artifact \<times> string) list"
  cr_secrets :: "secret_mount list"

definition artifact_labels :: "labels \<Rightarrow> configuration_artifact \<Rightarrow> labels" where
  "artifact_labels ls a =
     labelled [(''volume.kind'', ''configuration''), (''artifact'', ca_id a), (''artifact.digest'', ca_digest a)] @ ls"

definition prepare_artifact ::
  "'w docker_client \<Rightarrow> runtime_request \<Rightarrow> product_material \<Rightarrow> labels \<Rightarrow> configuration_artifact
    \<Rightarrow> ('w, configuration_artifact \<times> string) dk_eff" where
  "prepare_artifact dc rq m ls a =
     (let volume = volume_name rq (pm_node m) (ca_id a); vls = artifact_labels ls a;
          materialize = (\<lambda>_. bindE (perform dc (MaterializeArtifact volume a)) (\<lambda>_. configuration_artifact_digest dc volume))
      in bindE (inspect_volume dc volume) (\<lambda>found.
         bindE (case found of
             None \<Rightarrow> bindE (perform dc (CreateVolume volume vls)) materialize
           | Some observed \<Rightarrow>
               bindE (liftE (require_node_owner observed vls ''configuration volume'')) (\<lambda>_.
               bindE (configuration_artifact_digest dc volume) (\<lambda>d.
               if d = None then materialize () else returnE d))) (\<lambda>digest.
         if digest \<noteq> Some (ca_digest a)
         then raiseE (PreconditionError ''docker.configuration-digest-conflict''
                ''owned configuration volume has unexpected digest'')
         else returnE (a, volume))))"

fun prepare_artifacts ::
  "'w docker_client \<Rightarrow> runtime_request \<Rightarrow> product_material \<Rightarrow> labels \<Rightarrow> configuration_artifact list
    \<Rightarrow> ('w, (configuration_artifact \<times> string) list) dk_eff" where
  "prepare_artifacts dc rq m ls [] = returnE []"
| "prepare_artifacts dc rq m ls (a # as) =
     bindE (prepare_artifact dc rq m ls a) (\<lambda>x. bindE (prepare_artifacts dc rq m ls as) (\<lambda>xs. returnE (x # xs)))"

definition retained_labels :: "labels \<Rightarrow> labels" where
  "retained_labels ls = labelled [(''volume.kind'', ''retained-data'')] @ ls"

fun prepare_retained :: "'w docker_client \<Rightarrow> labels \<Rightarrow> string list \<Rightarrow> ('w, unit) dk_eff" where
  "prepare_retained dc ls [] = returnE ()"
| "prepare_retained dc ls (volume # volumes) =
     bindE (inspect_volume dc volume) (\<lambda>found.
     bindE (case found of
         None \<Rightarrow> perform dc (CreateVolume volume (retained_labels ls))
       | Some observed \<Rightarrow> liftE (require_node_owner observed (retained_labels ls) ''retained volume'')) (\<lambda>_.
     prepare_retained dc ls volumes))"

definition identified_labels :: "labels \<Rightarrow> runtime_request \<Rightarrow> product_material \<Rightarrow> secret_material \<Rightarrow> nat \<Rightarrow> labels" where
  "identified_labels ls rq m f uid =
     (case fm_selection f of
        None \<Rightarrow> secret_labels ls f
      | Some sel \<Rightarrow> labelled [(''secret.identity'', selected_secret_identity rq m f sel uid)] @ secret_labels ls f)"

definition prepare_secret ::
  "'w docker_client \<Rightarrow> runtime_request \<Rightarrow> product_material \<Rightarrow> labels \<Rightarrow> nat \<Rightarrow> secret_material \<Rightarrow> ('w, secret_mount) dk_eff"
  where
  "prepare_secret dc rq m ls uid f =
     (let volume = secret_volume_name rq m f uid; vls = identified_labels ls rq m f uid;
          owner = (\<lambda>observed. liftE (node_secret_owner observed vls rq m f uid))
      in bindE (inspect_volume dc volume) (\<lambda>found.
         bindE (case found of
             None \<Rightarrow>
               bindE (perform dc (CreateVolume volume vls)) (\<lambda>_.
               bindE (inspect_volume dc volume) (\<lambda>created. case created of
                   None \<Rightarrow> raiseE ObservationUnknown
                 | Some observed \<Rightarrow>
                     bindE (owner observed) (\<lambda>_. perform dc (MaterializeSecret volume (fm_value f) (fm_mode f) uid))))
           | Some observed \<Rightarrow> owner observed) (\<lambda>_.
         bindE (require_secret_file dc volume f uid) (\<lambda>_.
         bindE (inspect_volume dc volume) (\<lambda>again. case again of
             None \<Rightarrow> raiseE ObservationUnknown
           | Some observed \<Rightarrow>
               bindE (owner observed) (\<lambda>_. returnE \<lparr>sm_target = fm_target f, sm_volume = volume\<rparr>))))))"

fun prepare_secrets ::
  "'w docker_client \<Rightarrow> runtime_request \<Rightarrow> product_material \<Rightarrow> labels \<Rightarrow> nat \<Rightarrow> secret_material list
    \<Rightarrow> ('w, secret_mount list) dk_eff" where
  "prepare_secrets dc rq m ls uid [] = returnE []"
| "prepare_secrets dc rq m ls uid (f # fs) =
     bindE (prepare_secret dc rq m ls uid f) (\<lambda>x. bindE (prepare_secrets dc rq m ls uid fs) (\<lambda>xs. returnE (x # xs)))"

text \<open>The environment of a container: later parts may only repeat the entries of earlier ones.\<close>

fun join_environment :: "(string \<times> string) list \<Rightarrow> (string \<times> string) list \<Rightarrow> dk_exn + (string \<times> string) list" where
  "join_environment env [] = Inr env"
| "join_environment env ((name, v) # rest) =
     (case map_of env name of
        None \<Rightarrow> join_environment (env @ [(name, v)]) rest
      | Some previous \<Rightarrow>
          if previous \<noteq> v
          then Inl (PreconditionError ''docker.environment-binding-conflict'' ''container environment bindings conflict'')
          else join_environment env rest)"

text \<open>The dictionary of a list of entries: an entry keeps its place and takes its last value.\<close>

definition dict_of :: "(string \<times> 'a) list \<Rightarrow> (string \<times> 'a) list" where
  "dict_of entries = map (\<lambda>k. (k, the (map_of (rev entries) k))) (rev (remdups (rev (map fst entries))))"

definition binding_entries :: "(string \<times> string \<times> json) list \<Rightarrow> (string \<times> string) list" where
  "binding_entries bs = dict_of (map (\<lambda>(name, v, _). (name, v)) bs)"

definition container_environment :: "product_material \<Rightarrow> secret_deliveries \<Rightarrow> dk_exn + (string \<times> string) list" where
  "container_environment m secrets =
     bindR (join_environment [] (binding_entries (pm_public_environment m))) (\<lambda>env.
     bindR (join_environment env (binding_entries (pm_socket_environment m))) (\<lambda>env'.
     join_environment env' (rd_environment secrets)))"

definition retained_volumes :: "runtime_request \<Rightarrow> product_material \<Rightarrow> (string \<times> string) list" where
  "retained_volumes rq m = dict_of (map (\<lambda>(resource, target). (volume_name rq (pm_node m) resource, target)) (pm_retained m))"

definition prepare_node_container ::
  "'w docker_client \<Rightarrow> runtime_request \<Rightarrow> product_material \<Rightarrow> labels \<Rightarrow> secret_deliveries \<Rightarrow> nat \<Rightarrow> ('w, create_material) dk_eff"
  where
  "prepare_node_container dc rq m ls secrets uid =
     bindE (prepare_artifacts dc rq m ls (pm_artifacts m)) (\<lambda>mounts.
     bindE (prepare_retained dc ls (map fst (retained_volumes rq m))) (\<lambda>_.
     bindE (prepare_secrets dc rq m ls uid (rd_files secrets)) (\<lambda>smounts.
     bindE (liftE (container_environment m secrets)) (\<lambda>env.
     returnE \<lparr>cr_environment = env, cr_volumes = retained_volumes rq m, cr_configurations = mounts, cr_secrets = smounts\<rparr>))))"

definition node_spec ::
  "runtime_request \<Rightarrow> product_material \<Rightarrow> labels \<Rightarrow> authority_material \<Rightarrow> create_material \<Rightarrow> container_spec" where
  "node_spec rq m ls am cr =
     \<lparr>sp_name = container_name rq (pm_node m), sp_image = pm_image_reference m, sp_environment = cr_environment cr,
      sp_labels = ls, sp_volumes = cr_volumes cr, sp_configurations = cr_configurations cr, sp_secrets = cr_secrets cr,
      sp_binds = am_mounts am, sp_groups = am_groups am, sp_network = network_name rq (pm_runtime m),
      sp_aliases = [pm_node m]\<rparr>"

definition create_node_container ::
  "'w docker_client \<Rightarrow> runtime_request \<Rightarrow> product_material \<Rightarrow> labels \<Rightarrow> secret_deliveries \<Rightarrow> authority_material \<Rightarrow> nat
    \<Rightarrow> ('w, unit) dk_eff" where
  "create_node_container dc rq m ls secrets am uid =
     bindE (prepare_node_container dc rq m ls secrets uid) (\<lambda>cr.
     perform dc (RunContainer (node_spec rq m ls am cr)))"

end
