(* ===== verification/Docker_Nodes.thy ===== *)
theory Docker_Nodes
  imports Docker_Runtime
begin

text \<open>
  The node operations of \<open>DockerRuntimeInterpreter\<close> and its \<open>execute\<close>, which turns every
  ordinary exception into a result.
\<close>

section \<open>Nodes\<close>

definition private_host :: "runtime_request \<Rightarrow> product_material \<Rightarrow> container_inspection \<Rightarrow> string" where
  "private_host rq m ci =
     (case map_of (ci_addresses ci) (network_name rq (pm_runtime m)) of None \<Rightarrow> pm_node m | Some address \<Rightarrow> address)"

definition node_evidence :: "runtime_request \<Rightarrow> product_material \<Rightarrow> string \<Rightarrow> (string \<times> string) list" where
  "node_evidence rq m action =
     [(''action'', action), (''node_id'', pm_node m), (''runtime_id'', pm_runtime m),
      (''container'', container_name rq (pm_node m)), (''network'', network_name rq (pm_runtime m)),
      (''image'', pm_image_reference m)]"

definition node_result ::
  "'w docker_runtime \<Rightarrow> runtime_request \<Rightarrow> product_material \<Rightarrow> string \<Rightarrow> container_inspection
    \<Rightarrow> runtime_observation runtime_result" where
  "node_result dr rq m action ci =
     effect_succeeded rq (node_evidence rq m action)
       (map EndpointSeen (private_endpoints (dr_scheme dr) (pm_node m) (rr_graph rq) (private_host rq m ci) (pm_ports m)))"

definition start_node :: "'w docker_runtime \<Rightarrow> runtime_request \<Rightarrow> ('w, runtime_observation runtime_result) dk_eff" where
  "start_node dr rq =
     bindE (liftE (single_product rq)) (\<lambda>m.
     bindE (authority_delivery_material dr rq) (\<lambda>am.
     let dc = dr_client dr; name = container_name rq (pm_node m); ls = node_labels rq m;
         net = network_name rq (pm_runtime m); rls = runtime_labels rq (pm_runtime m)
     in bindE (start_node_call CONTAINER_CREATE (Some INSPECTION) (inspect_container dc name)) (\<lambda>found.
        bindE (case found of
            None \<Rightarrow> returnE ()
          | Some ci \<Rightarrow>
              bindE (liftE (require_correlation ci ls net False False)) (\<lambda>_. require_container_authority dc ci am False)) (\<lambda>_.
        bindE (product_secrets dr rq m) (\<lambda>secrets.
        bindE (image_pull_auth dr rq m) (\<lambda>auth.
        bindE (admit_image dr m auth) (\<lambda>img.
        bindE (preflight_secret_files dc rq m secrets img) (\<lambda>uid.
        bindE (start_node_call NETWORK None (inspect_network dc net)) (\<lambda>existing.
        bindE (case existing of
            None \<Rightarrow> start_node_call NETWORK None (perform dc (CreateNetwork net rls))
          | Some observed \<Rightarrow> liftE (require_runtime_owner (ni_labels observed) rls ''network'')) (\<lambda>_.
        bindE (case found of
            None \<Rightarrow>
              bindE (start_node_call CONFIGURATION None (prepare_node_container dc rq m ls secrets uid)) (\<lambda>cr.
              bindE (start_node_call CONTAINER_CREATE None (perform dc (CreateContainer (node_spec rq m ls am cr)))) (\<lambda>_.
              bindE (start_node_call CONTAINER_START None (perform dc (StartContainer name))) (\<lambda>_. returnE ''created'')))
          | Some ci \<Rightarrow>
              bindE (liftE (require_started ci ls img net False False False)) (\<lambda>_.
              if ci_running ci then returnE ''reused''
              else bindE (start_node_call CONTAINER_START None (perform dc (StartContainer name)))
                     (\<lambda>_. returnE ''started''))) (\<lambda>action.
        bindE (start_node_call FINAL_INSPECT None (inspect_container dc name)) (\<lambda>final.
        case final of
          None \<Rightarrow> raiseE (StartNodeUncertain FINAL_INSPECT SUBOPERATION_UNKNOWN DOCKER_UNEXPECTED)
        | Some ci \<Rightarrow>
            bindE (liftE (require_started ci ls img net True False False)) (\<lambda>_.
            bindE (require_container_authority dc ci am True) (\<lambda>_.
            returnE (node_result dr rq m action ci)))))))))))))))"

definition reconcile_node :: "'w docker_runtime \<Rightarrow> runtime_request \<Rightarrow> ('w, runtime_observation runtime_result) dk_eff" where
  "reconcile_node dr rq =
     bindE (liftE (single_product rq)) (\<lambda>m.
     bindE (authority_delivery_material dr rq) (\<lambda>am.
     let dc = dr_client dr; name = container_name rq (pm_node m); ls = node_labels rq m;
         net = network_name rq (pm_runtime m); rls = runtime_labels rq (pm_runtime m)
     in bindE (inspect_container dc name) (\<lambda>found.
        bindE (case found of
            None \<Rightarrow> returnE ()
          | Some ci \<Rightarrow>
              bindE (liftE (require_node_owner (ci_labels ci) ls ''container'')) (\<lambda>_.
              bindE (liftE (require_material_evidence (ci_labels ci))) (\<lambda>_.
              bindE (liftE (require_node_network ci net)) (\<lambda>_.
              bindE (require_container_authority dc ci am False) (\<lambda>_.
              if rr_deliveries rq \<noteq> [] \<and> \<not> fingerprint_matches (ci_labels ci) ls
              then raiseE (UnsupportedAuthority ''docker.runtime-authority-change-unsupported'')
              else if fingerprint_matches (ci_labels ci) ls
              then liftE (require_correlation ci ls net True True)
              else returnE ()))))) (\<lambda>_.
        bindE (product_secrets dr rq m) (\<lambda>secrets.
        bindE (image_pull_auth dr rq m) (\<lambda>auth.
        bindE (admit_image dr m auth) (\<lambda>img.
        bindE (preflight_secret_files dc rq m secrets img) (\<lambda>uid.
        bindE (ensure_network dc require_runtime_owner net rls) (\<lambda>_.
        bindE (case found of
            None \<Rightarrow> bindE (create_node_container dc rq m ls secrets am uid) (\<lambda>_. returnE ''created'')
          | Some ci \<Rightarrow>
              if fingerprint_matches (ci_labels ci) ls
              then bindE (liftE (require_started ci ls img net False True True)) (\<lambda>_.
                   if ci_running ci then returnE ''reused''
                   else bindE (perform dc (StartContainer name)) (\<lambda>_. returnE ''started''))
              else bindE (liftE (require_node_owner (ci_labels ci) ls ''container'')) (\<lambda>_.
                   bindE (perform dc (RemoveContainer name)) (\<lambda>_.
                   bindE (create_node_container dc rq m ls secrets am uid) (\<lambda>_. returnE ''recreated'')))) (\<lambda>action.
        bindE (inspect_container dc name) (\<lambda>final.
        case final of
          None \<Rightarrow> raiseE (StartNodeUncertain FINAL_INSPECT SUBOPERATION_UNKNOWN DOCKER_UNEXPECTED)
        | Some ci \<Rightarrow>
            bindE (liftE (require_started ci ls img net True True True)) (\<lambda>_.
            bindE (require_container_authority dc ci am True) (\<lambda>_.
            returnE (node_result dr rq m action ci))))))))))))))"

definition stopped_evidence :: "runtime_request \<Rightarrow> product_material \<Rightarrow> string \<Rightarrow> (string \<times> string) list" where
  "stopped_evidence rq m action =
     [(''action'', action), (''node_id'', pm_node m), (''container'', container_name rq (pm_node m))]"

definition stop_node :: "'w docker_runtime \<Rightarrow> runtime_request \<Rightarrow> ('w, runtime_observation runtime_result) dk_eff" where
  "stop_node dr rq =
     bindE (liftE (single_product rq)) (\<lambda>m.
     let dc = dr_client dr; name = container_name rq (pm_node m); ls = node_labels rq m
     in bindE (inspect_container dc name) (\<lambda>found.
        bindE (case found of
            None \<Rightarrow> returnE ''absent''
          | Some ci \<Rightarrow>
              bindE (liftE (require_node_owner (ci_labels ci) ls ''container'')) (\<lambda>_.
              if ci_running ci then bindE (perform dc (StopContainer name)) (\<lambda>_. returnE ''stopped'')
              else returnE ''already-stopped'')) (\<lambda>action.
        returnE (effect_succeeded rq (stopped_evidence rq m action) []))))"

definition remove_node :: "'w docker_runtime \<Rightarrow> runtime_request \<Rightarrow> ('w, runtime_observation runtime_result) dk_eff" where
  "remove_node dr rq =
     bindE (liftE (single_product rq)) (\<lambda>m.
     let dc = dr_client dr; name = container_name rq (pm_node m); ls = node_labels rq m
     in bindE (inspect_container dc name) (\<lambda>found.
        bindE (case found of
            None \<Rightarrow> returnE ''absent''
          | Some ci \<Rightarrow>
              bindE (liftE (require_node_owner (ci_labels ci) ls ''container'')) (\<lambda>_.
              bindE (perform dc (RemoveContainer name)) (\<lambda>_. returnE ''removed''))) (\<lambda>action.
        returnE (effect_succeeded rq (stopped_evidence rq m action) []))))"

section \<open>Execution\<close>

definition has_selected_secrets :: "runtime_request \<Rightarrow> bool" where
  "has_selected_secrets rq \<longleftrightarrow>
     rr_operation rq \<in> {StartNode, ReconcileNode}
     \<and> (case rr_products rq of [m] \<Rightarrow> pm_selections m \<noteq> [] | _ \<Rightarrow> False)"

fun is_file_delivery :: "secret_delivery \<Rightarrow> bool" where
  "is_file_delivery (SecretFileDelivery _ _ _ _ _) = True"
| "is_file_delivery _ = False"

definition admit_selected_secrets :: "'w docker_runtime \<Rightarrow> runtime_request \<Rightarrow> dk_exn + unit" where
  "admit_selected_secrets dr rq =
     (case validate_selected_secret_grants rq (ss_grant (dr_secrets dr) \<noteq> None) of
        Inl (DkSecretError code) \<Rightarrow>
          Inl (PreconditionError (''docker.secret-resolution-'' @ (if code = SECRET_MISSING then ''required'' else dr_code_value dr code))
            ''selected secret grant coverage is incomplete'')
      | Inl e \<Rightarrow> Inl e
      | Inr _ \<Rightarrow>
          if has_selected_secrets rq \<and> 32 < length (filter is_file_delivery (concat (map pm_deliveries (rr_products rq))))
          then Inl (PreconditionError ''docker.secret-result-capacity''
                 ''Selected secret file slots exceed the bounded adapter capacity'')
          else Inr ())"

text \<open>
  The handlers around a dispatch: control errors pass, every other \<open>Exception\<close> becomes a
  result; only an interruption of the process passes as well.
\<close>

definition result_of_error :: "runtime_request \<Rightarrow> dk_exn \<Rightarrow> runtime_observation runtime_result" where
  "result_of_error rq e =
     (case e of
        ContractError \<Rightarrow> effect_failed rq ''docker.runtime-request-invalid'' ''Docker runtime request is invalid''
      | UnsupportedAuthority code \<Rightarrow> effect_unsupported rq code
      | PreconditionError code message \<Rightarrow> effect_failed rq code message
      | StartNodeUncertain phase sub category \<Rightarrow>
          effect_ended rq UNCERTAIN_EFFECT \<lparr>ef_code = ''docker.effect-uncertain'', ef_message = ''Docker runtime effect is uncertain'',
            ef_details = text_entries ((''phase'', phase_value phase) #
              (if phase = CONTAINER_CREATE
               then [(''suboperation'', suboperation_value sub), (''category'', docker_category_value category)] else []))\<rparr>
      | _ \<Rightarrow>
          effect_ended rq UNCERTAIN_EFFECT \<lparr>ef_code = ''docker.effect-uncertain'', ef_message = bounded_error_message e,
            ef_details = []\<rparr>)"

text \<open>
  \<open>other\<close> runs the operations modelled elsewhere: configuration activities and selected secrets,
  configuration cleanup and health checks.
\<close>

definition dispatch ::
  "'w docker_runtime \<Rightarrow> (runtime_request \<Rightarrow> ('w, runtime_observation runtime_result) dk_eff) \<Rightarrow> runtime_request
    \<Rightarrow> ('w, runtime_observation runtime_result) dk_eff" where
  "dispatch dr other rq =
     (if rr_operation rq = CleanupConfigurationInstances \<or> rr_kind rq = CONFIGURATION_ACTIVITY_V1 \<or> has_selected_secrets rq
      then other rq
      else case rr_operation rq of
          StartRuntime _ \<Rightarrow> start_runtime dr rq
        | ReconcileRuntime _ \<Rightarrow> reconcile_runtime dr rq
        | StopRuntime _ \<Rightarrow> stop_runtime dr rq
        | RemoveRuntimeResource _ \<Rightarrow> remove_runtime dr rq
        | StartNode \<Rightarrow> start_node dr rq
        | ReconcileNode \<Rightarrow> reconcile_node dr rq
        | WaitForHealthy \<Rightarrow> other rq
        | StopNode \<Rightarrow> stop_node dr rq
        | RemoveNodeResource \<Rightarrow> remove_node dr rq
        | _ \<Rightarrow> returnE (effect_unsupported rq ''docker.unsupported-activity-operation''))"

text \<open>
  \<open>dr_request_ok\<close> is \<open>runtime_effect_intent_for_request\<close> and the reconstruction of the request, which
  raise for one that breaks the core's contract; \<open>has_local\<close> is a configured local policy.
\<close>

definition execute ::
  "'w docker_runtime \<Rightarrow> (runtime_request \<Rightarrow> ('w, runtime_observation runtime_result) dk_eff) \<Rightarrow> bool \<Rightarrow> runtime_request
    \<Rightarrow> ('w, runtime_observation runtime_result) dk_eff" where
  "execute dr other has_local rq =
     (if dr_port_missing dr then raiseE (DkPortError ''semantic invocation port is required'')
      else if rr_kind rq \<notin> {REALIZE_ACTIVITY, CONFIGURATION_ACTIVITY_V1}
      then returnE (effect_unsupported rq ''docker.unsupported-effect-kind'')
      else if \<not> rr_docker rq then returnE (effect_unsupported rq ''docker.unsupported-runtime-kind'')
      else catchE (\<lambda>e. dk_is_exception e \<and> \<not> dr_control dr e)
        (bindE (case dr_request_ok dr rq of None \<Rightarrow> returnE () | Some e \<Rightarrow> raiseE e) (\<lambda>_.
         bindE (liftE (admit_selected_secrets dr rq)) (\<lambda>_.
         if has_local then returnE (effect_unsupported rq ''docker.runtime-authority-required'')
         else dispatch dr other rq)))
        (\<lambda>e. returnE (result_of_error rq e)))"

end
