(* ===== verification/Docker_Ownership.thy ===== *)
theory Docker_Ownership
  imports Docker_Nodes
begin

text \<open>
  Reasoning about the changes a run makes, given everything that happened before each of them.
  \<open>hist P h m Q\<close>: after the history \<open>h\<close>, every change of a run of \<open>m\<close> satisfies \<open>P\<close> of the history
  it is made in, and a result \<open>a\<close> with the history at its end satisfies \<open>Q\<close>.
\<close>

named_theorems hist_intros "rules for the histories of the Docker operations"

definition guarded ::
  "(docker_event list \<Rightarrow> mutation \<Rightarrow> bool) \<Rightarrow> docker_event list \<Rightarrow> docker_event list \<Rightarrow> bool" where
  "guarded P h evs \<longleftrightarrow> (\<forall>a mu r b. evs = a @ Mutated mu r # b \<longrightarrow> P (h @ a) mu)"

definition hist ::
  "(docker_event list \<Rightarrow> mutation \<Rightarrow> bool) \<Rightarrow> docker_event list \<Rightarrow> ('w, 'a) dk_eff
    \<Rightarrow> ('a \<Rightarrow> docker_event list \<Rightarrow> bool) \<Rightarrow> bool" where
  "hist P h m Q \<longleftrightarrow> emits m (\<lambda>evs r. guarded P h evs \<and> (\<forall>a. r = Inr a \<longrightarrow> Q a (h @ evs)))"

section \<open>Rules\<close>

lemma guarded_Nil [simp]: "guarded P h []"
  by (simp add: guarded_def)

lemma guarded_joined:
  assumes "guarded P h a" "guarded P (h @ a) b"
  shows "guarded P h (a @ b)"
  unfolding guarded_def
proof (intro allI impI)
  fix u mu r v assume split: "a @ b = u @ Mutated mu r # v"
  then consider us where "a = u @ Mutated mu r # us" | us where "u = a @ us" "b = us @ Mutated mu r # v"
    by (auto simp: append_eq_append_conv2 append_eq_Cons_conv)
  then show "P (h @ u) mu"
    by cases (use assms in \<open>fastforce simp: guarded_def\<close>)+
qed

lemma guarded_single: "(\<And>mu r. ev = Mutated mu r \<Longrightarrow> P h mu) \<Longrightarrow> guarded P h [ev]"
  unfolding guarded_def by (auto simp: Cons_eq_append_conv)

lemma hist_returnE: "Q a h \<Longrightarrow> hist P h (returnE a) Q"
  by (simp add: hist_def emits_returnE)

lemma hist_raiseE: "hist P h (raiseE e) Q"
  by (simp add: hist_def emits_raiseE)

lemma hist_liftE: "(\<And>a. v = Inr a \<Longrightarrow> Q a h) \<Longrightarrow> hist P h (liftE v) Q"
  by (simp add: hist_def emits_liftE)

lemma hist_mono:
  "hist P h m Q \<Longrightarrow> (\<And>a h'. set h \<subseteq> set h' \<Longrightarrow> Q a h' \<Longrightarrow> Q' a h') \<Longrightarrow> hist P h m Q'"
  unfolding hist_def by (erule emits_mono) auto

lemma hist_bindE:
  assumes "hist P h m Q" "\<And>a h'. set h \<subseteq> set h' \<Longrightarrow> Q a h' \<Longrightarrow> hist P h' (k a) R"
  shows "hist P h (bindE m k) R"
  unfolding hist_def
proof (rule emits_bindE[OF assms(1)[unfolded hist_def]], goal_cases)
  case (1 a evs)
  then have "hist P (h @ evs) (k a) R" by (intro assms(2)) auto
  with 1 show ?case
    unfolding hist_def by (elim emits_mono) (auto intro: guarded_joined)
qed auto

lemma hist_lift_bind:
  "(\<And>a. v = Inr a \<Longrightarrow> hist P h (k a) R) \<Longrightarrow> hist P h (bindE (liftE v) k) R"
  by (cases v) (auto intro: hist_raiseE)

lemma hist_return_bind: "hist P h (k a) R \<Longrightarrow> hist P h (bindE (returnE a) k) R"
  by simp

lemma hist_raise_bind: "hist P h (bindE (raiseE e) k) R"
  by (simp add: hist_raiseE)

lemma hist_if: "(b \<Longrightarrow> hist P h m Q) \<Longrightarrow> (\<not> b \<Longrightarrow> hist P h n Q) \<Longrightarrow> hist P h (if b then m else n) Q"
  by simp

lemma hist_call:
  assumes "\<And>r mu r'. mk r = Mutated mu r' \<Longrightarrow> P h mu" "\<And>a. Q a (h @ [mk (Inr a)])"
  shows "hist P h (callE mk f) Q"
  unfolding hist_def by (rule emits_callE) (auto intro: guarded_single assms)

lemma hist_catchE:
  assumes "hist P h m Q" "\<And>e h'. set h \<subseteq> set h' \<Longrightarrow> hist P h' (g e) Q"
  shows "hist P h (catchE p m g) Q"
  unfolding hist_def
proof (rule emits_catchE[OF assms(1)[unfolded hist_def]], goal_cases)
  case (1 e evs)
  then have "hist P (h @ evs) (g e) Q" by (intro assms(2)) auto
  with 1 show ?case
    unfolding hist_def by (elim emits_mono) (auto intro: guarded_joined)
qed auto

lemma hist_attemptE:
  assumes "hist P h m Q" "\<And>e h'. set h \<subseteq> set h' \<Longrightarrow> hist P h' (g e) R"
    and "\<And>a h'. set h \<subseteq> set h' \<Longrightarrow> Q a h' \<Longrightarrow> hist P h' (k a) R"
  shows "hist P h (attemptE m g k) R"
  unfolding hist_def
proof (rule emits_attemptE[OF assms(1)[unfolded hist_def]], goal_cases)
  case (1 a evs)
  then have "hist P (h @ evs) (k a) R" by (intro assms(3)) auto
  with 1 show ?case
    unfolding hist_def by (elim emits_mono) (auto intro: guarded_joined)
next
  case (2 e evs)
  then have "hist P (h @ evs) (g e) R" by (intro assms(2)) auto
  with 2 show ?case
    unfolding hist_def by (elim emits_mono) (auto intro: guarded_joined)
qed

text \<open>A wrapped provider call raises other exceptions, but does and returns the same.\<close>

lemma hist_start_node_call: "hist P h m Q \<Longrightarrow> hist P h (start_node_call phase sub m) Q"
  unfolding start_node_call_def by (erule hist_catchE) (rule hist_raiseE)

text \<open>A computation that makes no change.\<close>

definition quiet :: "('w, 'a) dk_eff \<Rightarrow> bool" where
  "quiet m \<longleftrightarrow> only_emits (\<lambda>ev. mutation_of ev = None) m"

lemma guarded_quiet: "\<forall>ev \<in> set evs. mutation_of ev = None \<Longrightarrow> guarded P h evs"
  by (auto simp: guarded_def)

definition unchanged :: "docker_event list \<Rightarrow> docker_event list \<Rightarrow> bool" where
  "unchanged h h' \<longleftrightarrow> (\<exists>evs. h' = h @ evs \<and> (\<forall>ev \<in> set evs. mutation_of ev = None))"

lemma hist_quiet_exact: "quiet m \<Longrightarrow> hist P h m (\<lambda>_ h'. unchanged h h')"
  unfolding hist_def quiet_def only_emits_def
  by (erule emits_mono) (auto simp: guarded_quiet unchanged_def)

lemma hist_quiet: "quiet m \<Longrightarrow> hist P h m (\<lambda>_ _. True)"
  by (rule hist_mono[OF hist_quiet_exact]) auto

lemma hist_quiet_bind:
  "quiet m \<Longrightarrow> (\<And>a h'. set h \<subseteq> set h' \<Longrightarrow> hist P h' (k a) R) \<Longrightarrow> hist P h (bindE m k) R"
  by (rule hist_bindE[OF hist_quiet])

lemma quiet_ends [hist_intros]: "quiet (returnE a)" "quiet (raiseE e)" "quiet (liftE v)"
  unfolding quiet_def by (auto intro!: emit_intros)

lemma quiet_callE [hist_intros]: "(\<And>r. mutation_of (mk r) = None) \<Longrightarrow> quiet (callE mk f)"
  unfolding quiet_def by (auto intro!: emit_intros)

lemma quiet_bindE [hist_intros]: "quiet m \<Longrightarrow> (\<And>a. quiet (k a)) \<Longrightarrow> quiet (bindE m k)"
  unfolding quiet_def by (auto intro!: emit_intros)

lemma quiet_attemptE [hist_intros]:
  "quiet m \<Longrightarrow> (\<And>e. quiet (g e)) \<Longrightarrow> (\<And>a. quiet (k a)) \<Longrightarrow> quiet (attemptE m g k)"
  unfolding quiet_def by (auto intro!: emit_intros)

lemma quiet_catchE [hist_intros]: "quiet m \<Longrightarrow> (\<And>e. p e \<Longrightarrow> quiet (g e)) \<Longrightarrow> quiet (catchE p m g)"
  unfolding quiet_def by (auto intro!: emit_intros)

lemma quiet_if [hist_intros]: "(b \<Longrightarrow> quiet m) \<Longrightarrow> (\<not> b \<Longrightarrow> quiet n) \<Longrightarrow> quiet (if b then m else n)"
  by simp

text \<open>The reads and changes of the client.\<close>

lemma hist_reads:
  "(\<And>a. Q a (h @ [ContainerRead name (Inr a)])) \<Longrightarrow> hist P h (inspect_container dc name) Q"
  "(\<And>a. Q2 a (h @ [NetworkRead name (Inr a)])) \<Longrightarrow> hist P h (inspect_network dc name) Q2"
  "(\<And>a. Q3 a (h @ [ImageRead name (Inr a)])) \<Longrightarrow> hist P h (inspect_image dc name) Q3"
  "(\<And>a. Q4 a (h @ [VolumeRead name (Inr a)])) \<Longrightarrow> hist P h (inspect_volume dc name) Q4"
  unfolding inspect_container_def inspect_network_def inspect_image_def inspect_volume_def
  by (rule hist_call; simp)+

lemma hist_perform:
  "P h mu \<Longrightarrow> (\<And>x. Q () (h @ [Mutated mu (Inr x)])) \<Longrightarrow> hist P h (perform dc mu) Q"
  unfolding perform_def mutate_def
  by (rule hist_bindE[where Q = "\<lambda>x h'. h' = h @ [Mutated mu (Inr x)]"]; (rule hist_call hist_returnE)?) auto

lemma quiet_reads [hist_intros]:
  "quiet (inspect_container dc name)" "quiet (inspect_network dc name)" "quiet (inspect_image dc name)"
  "quiet (inspect_volume dc name)" "quiet (inspect_secret_file dc name)" "quiet (configuration_artifact_digest dc name)"
  "quiet (uses_local_socket dc name)" "quiet (inspect_facts dc)"
  unfolding inspect_container_def inspect_network_def inspect_image_def inspect_volume_def inspect_secret_file_def
    configuration_artifact_digest_def uses_local_socket_def inspect_facts_def
  by (rule quiet_callE; simp)+

text \<open>
  What an operation may change, given what it has seen: \<open>may_change rq seen mu\<close> says that the
  change \<open>mu\<close> is allowed after the events \<open>seen\<close>.  Every operation on runtimes and nodes keeps to it
  (\<open>hist_dispatch\<close>), whatever the provider answers.
\<close>

section \<open>The contract\<close>

definition request_runtimes :: "runtime_request \<Rightarrow> string list" where
  "request_runtimes rq =
     (case runtime_target (rr_operation rq) of Inr r \<Rightarrow> [r] | Inl _ \<Rightarrow> map pm_runtime (rr_products rq))"

fun network_seen :: "docker_event \<Rightarrow> string \<Rightarrow> labels option \<Rightarrow> bool" where
  "network_seen (NetworkRead net (Inr (Some ni))) name expected =
     (net = name \<and> (case expected of Some e \<Rightarrow> owned_by runtime_keys (ni_labels ni) e | None \<Rightarrow> False))"
| "network_seen (NetworkRead net (Inr None)) name expected = (net = name \<and> expected = None)"
| "network_seen _ _ _ = False"

fun volume_seen :: "docker_event \<Rightarrow> string \<Rightarrow> labels \<Rightarrow> bool" where
  "volume_seen (VolumeRead v (Inr (Some ls))) name expected = (v = name \<and> owned_by node_keys ls expected)"
| "volume_seen (Mutated (CreateVolume v ls) (Inr _)) name expected = (v = name \<and> owned_by node_keys ls expected)"
| "volume_seen _ _ _ = False"

fun container_seen :: "docker_event \<Rightarrow> string \<Rightarrow> (container_inspection \<Rightarrow> bool) \<Rightarrow> bool" where
  "container_seen (ContainerRead n (Inr (Some ci))) name p = (n = name \<and> p ci)"
| "container_seen _ _ _ = False"

fun image_seen :: "docker_event \<Rightarrow> string \<Rightarrow> (image_inspection \<Rightarrow> bool) \<Rightarrow> bool" where
  "image_seen (ImageRead n (Inr (Some img))) name p = (n = name \<and> p img)"
| "image_seen _ _ _ = False"

text \<open>The events that show that there is no such container (any more).\<close>

definition container_gone :: "docker_event list \<Rightarrow> string \<Rightarrow> bool" where
  "container_gone seen name \<longleftrightarrow>
     ContainerRead name (Inr None) \<in> set seen \<or> list_ex (\<lambda>ev. case ev of
         Mutated (RemoveContainer n) (Inr _) \<Rightarrow> n = name | _ \<Rightarrow> False) seen"

definition container_made :: "docker_event list \<Rightarrow> string \<Rightarrow> bool" where
  "container_made seen name \<longleftrightarrow>
     list_ex (\<lambda>ev. case ev of Mutated (CreateContainer sp) (Inr _) \<Rightarrow> sp_name sp = name | _ \<Rightarrow> False) seen"

definition image_admitted :: "(string \<Rightarrow> string \<Rightarrow> string \<Rightarrow> bool) \<Rightarrow> docker_event list \<Rightarrow> string \<Rightarrow> bool" where
  "image_admitted ok seen reference \<longleftrightarrow>
     list_ex (\<lambda>ev. image_seen ev reference (\<lambda>img. matches_image_reference ok reference (ii_digests img))) seen"

text \<open>A container that was seen and that is the one of the product, whatever plan and graph made it.\<close>

definition own_container :: "runtime_request \<Rightarrow> product_material \<Rightarrow> container_inspection \<Rightarrow> bool" where
  "own_container rq m ci \<longleftrightarrow> owned_by node_keys (ci_labels ci) (node_labels rq m)"

definition same_container :: "runtime_request \<Rightarrow> product_material \<Rightarrow> container_inspection \<Rightarrow> bool" where
  "same_container rq m ci \<longleftrightarrow>
     same_labels (correlation_labels (rr_operation rq \<noteq> StartNode) (rr_operation rq \<noteq> StartNode) (ci_labels ci))
                 (correlation_labels (rr_operation rq \<noteq> StartNode) (rr_operation rq \<noteq> StartNode) (node_labels rq m))
     \<and> ci_networks ci = [network_name rq (pm_runtime m)]"

definition own_spec :: "runtime_request \<Rightarrow> product_material \<Rightarrow> container_spec \<Rightarrow> bool" where
  "own_spec rq m sp \<longleftrightarrow>
     sp_name sp = container_name rq (pm_node m) \<and> sp_labels sp = node_labels rq m
     \<and> sp_image sp = pm_image_reference m \<and> sp_network sp = network_name rq (pm_runtime m)"

text \<open>What may be changed for one product.\<close>

fun may_change_node ::
  "(string \<Rightarrow> string \<Rightarrow> string \<Rightarrow> bool) \<Rightarrow> runtime_request \<Rightarrow> docker_event list \<Rightarrow> product_material \<Rightarrow> mutation \<Rightarrow> bool" where
  "may_change_node ok rq seen m (PullImage reference auth) =
     (reference = pm_image_reference m \<and> ImageRead reference (Inr None) \<in> set seen)"
| "may_change_node ok rq seen m (CreateVolume v ls) =
     (VolumeRead v (Inr None) \<in> set seen \<and> owned_by node_keys ls (node_labels rq m))"
| "may_change_node ok rq seen m (MaterializeArtifact v a) =
     (a \<in> set (pm_artifacts m) \<and> v = volume_name rq (pm_node m) (ca_id a)
      \<and> list_ex (\<lambda>ev. volume_seen ev v (node_labels rq m)) seen)"
| "may_change_node ok rq seen m (MaterializeSecret v text mode uid) =
     (VolumeRead v (Inr None) \<in> set seen \<and> list_ex (\<lambda>ev. volume_seen ev v (node_labels rq m)) seen)"
| "may_change_node ok rq seen m (CreateContainer sp) =
     (own_spec rq m sp \<and> container_gone seen (sp_name sp) \<and> image_admitted ok seen (sp_image sp))"
| "may_change_node ok rq seen m (RunContainer sp) =
     (own_spec rq m sp \<and> container_gone seen (sp_name sp) \<and> image_admitted ok seen (sp_image sp))"
| "may_change_node ok rq seen m (StartContainer name) =
     (name = container_name rq (pm_node m) \<and> image_admitted ok seen (pm_image_reference m)
      \<and> (container_made seen name \<or> list_ex (\<lambda>ev. container_seen ev name (same_container rq m)) seen))"
| "may_change_node ok rq seen m (StopContainer name) =
     (name = container_name rq (pm_node m)
      \<and> list_ex (\<lambda>ev. container_seen ev name (\<lambda>ci. own_container rq m ci \<and> ci_running ci)) seen)"
| "may_change_node ok rq seen m (RemoveContainer name) =
     (name = container_name rq (pm_node m)
      \<and> list_ex (\<lambda>ev. container_seen ev name (\<lambda>ci. own_container rq m ci
           \<and> (rr_operation rq = ReconcileNode \<longrightarrow>
                rr_deliveries rq = [] \<and> \<not> fingerprint_matches (ci_labels ci) (node_labels rq m)))) seen)"
| "may_change_node ok rq seen m _ = False"

definition may_change ::
  "(string \<Rightarrow> string \<Rightarrow> string \<Rightarrow> bool) \<Rightarrow> runtime_request \<Rightarrow> docker_event list \<Rightarrow> mutation \<Rightarrow> bool" where
  "may_change ok rq seen mu =
     (case mu of
        CreateNetwork net ls \<Rightarrow>
          list_ex (\<lambda>r. net = network_name rq r \<and> ls = runtime_labels rq r) (request_runtimes rq)
          \<and> list_ex (\<lambda>ev. network_seen ev net None) seen
      | RemoveNetwork net \<Rightarrow>
          list_ex (\<lambda>r. net = network_name rq r \<and> list_ex (\<lambda>ev. network_seen ev net (Some (runtime_labels rq r))) seen)
            (request_runtimes rq)
      | _ \<Rightarrow> (case rr_products rq of [m] \<Rightarrow> may_change_node ok rq seen m mu | _ \<Rightarrow> False))"

text \<open>The secret resolvers of an interpreter make no change of their own.\<close>

definition quiet_resolvers :: "'w docker_runtime \<Rightarrow> bool" where
  "quiet_resolvers dr \<longleftrightarrow>
     (\<forall>f g. ss_grant (dr_secrets dr) = Some f \<longrightarrow> quiet (f g))
     \<and> (\<forall>f s. ss_reference (dr_secrets dr) = Some f \<longrightarrow> quiet (f s))"

end
