(* ===== verification/Docker_Owned.thy ===== *)
theory Docker_Owned
  imports Docker_Ownership
begin

text \<open>
  Every operation of the runtime keeps to \<open>may_change\<close>: first the computations that make no change,
  then the steps that make one, then the operations.
\<close>

section \<open>Computations that make no change\<close>

lemma quiet_case_option [hist_intros]:
  "(x = None \<Longrightarrow> quiet m) \<Longrightarrow> (\<And>a. x = Some a \<Longrightarrow> quiet (k a)) \<Longrightarrow> quiet (case x of None \<Rightarrow> m | Some a \<Rightarrow> k a)"
  by (cases x) auto

lemma quiet_start_node_call [hist_intros]: "quiet m \<Longrightarrow> quiet (start_node_call phase sub m)"
  unfolding start_node_call_def by (intro hist_intros)

lemma quiet_socket_delivery [hist_intros]: "quiet (socket_delivery dr)"
  unfolding socket_delivery_def by (intro hist_intros) simp

lemma quiet_delivery_material: "quiet (delivery_material dr ds acc)"
  by (induction dr ds acc rule: delivery_material.induct) (simp_all add: hist_intros)

lemma quiet_authority_material [hist_intros]: "quiet (authority_delivery_material dr rq)"
  unfolding authority_delivery_material_def by (rule quiet_delivery_material)

lemma quiet_desktop [hist_intros]: "quiet (desktop_conformance dc)"
  unfolding desktop_conformance_def by (intro hist_intros)

lemma quiet_conformance [hist_intros]: "quiet (authority_conformance dc ci am)"
  unfolding authority_conformance_def
  by (auto intro!: hist_intros split: option.splits list.splits)

lemma quiet_require_authority [hist_intros]: "quiet (require_container_authority dc ci am final)"
  unfolding require_container_authority_def by (intro hist_intros) (simp split: conformance.splits add: hist_intros)

lemma quiet_granted_value: "(\<And>g. quiet (resolve g)) \<Longrightarrow> quiet (granted_value ss resolve grants reference intent)"
  unfolding granted_value_def by (intro hist_intros)

lemma quiet_legacy: "(\<And>s. quiet (resolve s)) \<Longrightarrow> quiet (legacy_deliveries ss resolve ds acc)"
  by (induction ss resolve ds acc rule: legacy_deliveries.induct) (simp_all add: hist_intros)

lemma quiet_authorized:
  "(\<And>g. quiet (resolve g)) \<Longrightarrow> quiet (resolve_authorized_secret_deliveries ss resolve grants ds acc)"
  by (induction ss resolve grants ds acc rule: resolve_authorized_secret_deliveries.induct)
    (simp_all add: hist_intros quiet_granted_value)

lemma quiet_selections: "(\<And>g. quiet (resolve g)) \<Longrightarrow> quiet (resolve_selections resolve grants sels acc)"
  by (induction resolve grants sels acc rule: resolve_selections.induct) (simp_all add: hist_intros)

lemma quiet_selected:
  "(\<And>f g. r = Some f \<Longrightarrow> quiet (f g)) \<Longrightarrow> quiet (resolve_selected_secret_deliveries r grants sels ds)"
  unfolding resolve_selected_secret_deliveries_def Let_def
  by (intro hist_intros quiet_selections) (auto split: option.splits intro: hist_intros)

lemma quiet_resolve_deliveries:
  "(\<And>f s. ss_reference ss = Some f \<Longrightarrow> quiet (f s)) \<Longrightarrow> quiet (resolve_secret_deliveries ss ds)"
  unfolding resolve_secret_deliveries_def by (intro hist_intros quiet_legacy) auto

lemma quiet_product_secrets: "quiet_resolvers dr \<Longrightarrow> quiet (product_secrets dr rq m)"
  unfolding product_secrets_def Let_def quiet_resolvers_def
  by (intro quiet_catchE quiet_if quiet_case_option quiet_selected quiet_authorized quiet_resolve_deliveries)
    (auto split: dk_exn.splits intro: hist_intros)

lemma quiet_image_pull_auth: "quiet_resolvers dr \<Longrightarrow> quiet (image_pull_auth dr rq m)"
  unfolding image_pull_auth_def quiet_resolvers_def
  by (auto split: option.splits dk_exn.splits pull_result.splits prod.splits
      intro!: hist_intros quiet_granted_value)

lemma quiet_require_secret_file [hist_intros]: "quiet (require_secret_file dc volume f uid)"
  unfolding require_secret_file_def by (intro hist_intros)

lemma quiet_over_files: "(\<And>f. quiet (k f)) \<Longrightarrow> quiet (over_files k fs)"
  by (induction k fs rule: over_files.induct) (simp_all add: hist_intros)

lemma quiet_preflight_secret: "quiet (preflight_secret dc rq m uid kept f)"
  unfolding preflight_secret_def Let_def by (intro hist_intros)

lemma quiet_preflight: "quiet (preflight_secret_files dc rq m secrets img)"
  unfolding preflight_secret_files_def Let_def by (intro hist_intros quiet_over_files quiet_preflight_secret)

section \<open>Steps\<close>

lemma hist_volume: "hist P h (inspect_volume dc name) (\<lambda>a h'. VolumeRead name (Inr a) \<in> set h')"
  by (rule hist_reads) simp

lemma hist_container: "hist P h (inspect_container dc name) (\<lambda>a h'. ContainerRead name (Inr a) \<in> set h')"
  by (rule hist_reads) simp

lemma hist_network: "hist P h (inspect_network dc name) (\<lambda>a h'. NetworkRead name (Inr a) \<in> set h')"
  by (rule hist_reads) simp

lemma hist_image: "hist P h (inspect_image dc name) (\<lambda>a h'. ImageRead name (Inr a) \<in> set h')"
  by (rule hist_reads) simp

lemma hist_change: "P h mu \<Longrightarrow> hist P h (perform dc mu) (\<lambda>_ h'. \<exists>x. Mutated mu (Inr x) \<in> set h')"
  by (rule hist_perform) auto

lemma list_ex_seen: "ev \<in> set h \<Longrightarrow> p ev \<Longrightarrow> list_ex p h"
  by (auto simp: list_ex_iff)

lemma list_ex_later: "list_ex p h \<Longrightarrow> set h \<subseteq> set h' \<Longrightarrow> list_ex p h'"
  by (auto simp: list_ex_iff)

text \<open>Equality of dictionaries of labels.\<close>

lemma same_labels_iff: "same_labels a b \<longleftrightarrow> map_of a = map_of b"
proof
  assume s: "same_labels a b"
  show "map_of a = map_of b"
  proof
    fix k
    show "map_of a k = map_of b k"
    proof (cases "k \<in> set (map fst a @ map fst b)")
      case True
      with s show ?thesis by (auto simp: same_labels_def list_all_iff)
    next
      case False
      then have "map_of a k = None" "map_of b k = None"
        by (auto simp: map_of_eq_None_iff)
      then show ?thesis by simp
    qed
  qed
qed (simp add: same_labels_def list_all_iff)

lemma map_of_labelled: "map_of (labelled xs) (label_prefix @ k) = map_of xs k"
  by (induction xs) (auto simp: labelled_def)

lemma label_of_labelled:
  "label_of (labelled xs @ ls) k = (case map_of xs k of Some v \<Rightarrow> Some v | None \<Rightarrow> label_of ls k)"
  by (simp add: label_of_def map_of_labelled map_add_def split: option.splits)

lemma owned_by_extra:
  "list_all (\<lambda>k. map_of xs k = None) keys \<Longrightarrow> owned_by keys o' (labelled xs @ ls) \<longleftrightarrow> owned_by keys o' ls"
  by (auto simp: owned_by_def label_of_labelled list_all_iff)

lemma owned_by_self_extra:
  "list_all (\<lambda>k. map_of xs k = None) keys \<Longrightarrow> owned_by keys (labelled xs @ ls) ls"
  by (auto simp: owned_by_def label_of_labelled list_all_iff)

lemmas volume_labels_defs = artifact_labels_def retained_labels_def secret_labels_def identified_labels_def

lemma owned_volume_labels [simp]:
  "owned_by node_keys o' (artifact_labels ls a) = owned_by node_keys o' ls"
  "owned_by node_keys o' (retained_labels ls) = owned_by node_keys o' ls"
  "owned_by node_keys o' (identified_labels ls rq m f uid) = owned_by node_keys o' ls"
  by (simp_all add: volume_labels_defs node_keys_def owned_by_extra split: option.splits)

lemma volume_labels_own [simp]:
  "owned_by node_keys (artifact_labels ls a) ls"
  "owned_by node_keys (retained_labels ls) ls"
  "owned_by node_keys (identified_labels ls rq m f uid) ls"
  by (simp_all add: volume_labels_defs node_keys_def owned_by_def label_of_labelled split: option.splits)

lemma require_node_owner_Inr [simp]:
  "require_node_owner o' ls r = Inr u \<longleftrightarrow> owned_by node_keys o' ls"
  "require_runtime_owner o' ls r = Inr u \<longleftrightarrow> owned_by runtime_keys o' ls"
  by (simp_all add: require_node_owner_def require_runtime_owner_def require_label_owner_def)

text \<open>The changes for the product of a request.\<close>

abbreviation may :: "'w docker_runtime \<Rightarrow> runtime_request \<Rightarrow> docker_event list \<Rightarrow> mutation \<Rightarrow> bool" where
  "may dr rq \<equiv> may_change (dr_image_ok dr) rq"

lemma may_node:
  "rr_products rq = [m] \<Longrightarrow> may_change_node ok rq seen m mu \<Longrightarrow> may_change ok rq seen mu"
  by (cases mu) (simp_all add: may_change_def)

lemma hist_admit_image:
  assumes "rr_products rq = [m]"
  shows "hist (may dr rq) h (admit_image dr m auth) (\<lambda>img h'.
    ImageRead (pm_image_reference m) (Inr (Some img)) \<in> set h'
    \<and> matches_image_reference (dr_image_ok dr) (pm_image_reference m) (ii_digests img))"
  unfolding admit_image_def Let_def
proof (rule hist_bindE[OF hist_start_node_call[OF hist_image]], goal_cases)
  case (1 found h1)
  show ?case
  proof (rule hist_bindE[where Q = "\<lambda>found h'. ImageRead (pm_image_reference m) (Inr found) \<in> set h'"], goal_cases)
    case 1
    show ?case
    proof (cases found)
      case None
      with \<open>ImageRead _ _ \<in> set h1\<close> have "may dr rq h1 (PullImage (pm_image_reference m) auth)"
        by (intro may_node[OF assms]) simp
      then show ?thesis
        unfolding None option.case
        by (rule hist_bindE[OF hist_start_node_call[OF hist_change]]) (rule hist_start_node_call[OF hist_image])
    next
      case (Some img)
      with \<open>ImageRead _ _ \<in> set h1\<close> show ?thesis by (auto intro: hist_returnE)
    qed
  next
    case (2 found' h2)
    then show ?case by (cases found') (auto intro: hist_returnE hist_raiseE)
  qed
qed

text \<open>The labels of a container may extend those of its node, as long as the node owns them.\<close>

definition extends_node :: "runtime_request \<Rightarrow> product_material \<Rightarrow> labels \<Rightarrow> bool" where
  "extends_node rq m ls \<longleftrightarrow> owned_by node_keys ls (node_labels rq m)"

lemma extends_node_refl [simp]: "extends_node rq m (node_labels rq m)"
  by (simp add: extends_node_def owned_by_def list_all_iff)

lemma extends_node_owner: "extends_node rq m ls \<Longrightarrow> owned_by node_keys o' (node_labels rq m) = owned_by node_keys o' ls"
  by (auto simp: extends_node_def owned_by_def list_all_iff)

lemma hist_prepare_artifact:
  assumes "rr_products rq = [m]" "a \<in> set (pm_artifacts m)" and own: "extends_node rq m ls"
  shows "hist (may dr rq) h (prepare_artifact dc rq m ls a) (\<lambda>_ _. True)"
proof -
  let ?v = "volume_name rq (pm_node m) (ca_id a)"
  note extends_node_owner[OF own, simp]
  have fill: "hist (may dr rq) h1 (bindE (perform dc (MaterializeArtifact ?v a))
      (\<lambda>_. configuration_artifact_digest dc ?v)) (\<lambda>_ _. True)"
    if "list_ex (\<lambda>ev. volume_seen ev ?v (node_labels rq m)) h1" for h1
    by (rule hist_bindE[OF hist_change hist_quiet]) (use assms that in \<open>auto intro: may_node hist_intros\<close>)
  have owned: "hist (may dr rq) h1 (bindE (configuration_artifact_digest dc ?v) (\<lambda>d.
      if d = None then bindE (perform dc (MaterializeArtifact ?v a)) (\<lambda>_. configuration_artifact_digest dc ?v)
      else returnE d)) (\<lambda>_ _. True)"
    if "list_ex (\<lambda>ev. volume_seen ev ?v (node_labels rq m)) h1" for h1
    by (rule hist_quiet_bind, rule hist_intros) (auto intro!: hist_returnE fill list_ex_later[OF that])
  show ?thesis
    unfolding prepare_artifact_def Let_def
  proof (rule hist_bindE[OF hist_volume], rule hist_bindE[where Q = "\<lambda>_ _. True"], goal_cases)
    case (1 found h1)
    show ?case
    proof (cases found)
      case None
      have "may dr rq h1 (CreateVolume ?v (artifact_labels ls a))"
        by (rule may_node[OF assms(1)]) (use 1 None in simp)
      then show ?thesis
        unfolding None option.case
        by (rule hist_bindE[OF hist_change]) (auto intro!: fill list_ex_seen)
    next
      case (Some observed)
      with 1 show ?thesis
        by (auto intro!: hist_lift_bind owned list_ex_seen)
    qed
  qed (auto intro: hist_returnE hist_raiseE)
qed

lemma hist_each:
  assumes "\<And>h. hist P h m (\<lambda>_ _. True)" "\<And>a h. hist P h (k a) (\<lambda>_ _. True)"
  shows "hist P h (bindE m k) (\<lambda>_ _. True)"
  by (rule hist_bindE[OF assms(1)]) (rule assms(2))

lemma hist_prepare_artifacts:
  assumes "rr_products rq = [m]" "extends_node rq m ls"
  shows "set as \<subseteq> set (pm_artifacts m)
    \<Longrightarrow> hist (may dr rq) h (prepare_artifacts dc rq m ls as) (\<lambda>_ _. True)"
proof (induction as arbitrary: h)
  case (Cons a as)
  then show ?case
    unfolding prepare_artifacts.simps by (intro hist_each hist_prepare_artifact hist_returnE assms) auto
qed (simp add: hist_returnE)

lemma hist_prepare_retained:
  assumes "rr_products rq = [m]" "extends_node rq m ls"
  shows "hist (may dr rq) h (prepare_retained dc ls volumes) (\<lambda>_ _. True)"
proof (induction volumes arbitrary: h)
  case (Cons v vs)
  have "hist (may dr rq) h1 (perform dc (CreateVolume v (retained_labels ls))) (\<lambda>_ _. True)"
    if "VolumeRead v (Inr None) \<in> set h1" for h1
    by (rule hist_mono[OF hist_change]) (use that in \<open>auto intro: may_node[OF assms(1)] simp: extends_node_owner[OF assms(2)]\<close>)
  then show ?case
    unfolding prepare_retained.simps
    by (intro hist_bindE[OF hist_volume] hist_bindE[where Q = "\<lambda>_ _. True"] Cons.IH)
      (auto split: option.splits intro: hist_liftE)
qed (simp add: hist_returnE)

lemma hist_prepare_secret:
  assumes "rr_products rq = [m]" and own: "extends_node rq m ls"
  shows "hist (may dr rq) h (prepare_secret dc rq m ls uid f) (\<lambda>_ _. True)"
proof -
  let ?v = "secret_volume_name rq m f uid" and ?ls = "identified_labels ls rq m f uid"
  note extends_node_owner[OF own, simp]
  have fill: "hist (may dr rq) h1 (perform dc (MaterializeSecret ?v v mode uid)) (\<lambda>_ _. True)"
    if "VolumeRead ?v (Inr None) \<in> set h1" "list_ex (\<lambda>ev. volume_seen ev ?v (node_labels rq m)) h1" for h1 v mode
    by (rule hist_mono[OF hist_change]) (use that in \<open>auto intro: may_node[OF assms(1)]\<close>)
  have create: "hist (may dr rq) h1 (bindE (perform dc (CreateVolume ?v ?ls)) (\<lambda>_.
      bindE (inspect_volume dc ?v) (\<lambda>created. case created of None \<Rightarrow> raiseE ObservationUnknown
        | Some observed \<Rightarrow> bindE (liftE (node_secret_owner observed ?ls rq m f uid))
            (\<lambda>_. perform dc (MaterializeSecret ?v (fm_value f) (fm_mode f) uid))))) (\<lambda>_ _. True)"
    if "VolumeRead ?v (Inr None) \<in> set h1" for h1
  proof (rule hist_bindE[OF hist_change], goal_cases)
    case 1
    with that show ?case by (auto intro: may_node[OF assms(1)])
  next
    case (2 _ h2)
    then obtain x where made: "Mutated (CreateVolume ?v ?ls) (Inr x) \<in> set h2" by auto
    show ?case
    proof (rule hist_bindE[OF hist_volume], goal_cases)
      case (1 created h3)
      with made have "list_ex (\<lambda>ev. volume_seen ev ?v (node_labels rq m)) h3"
        by (intro list_ex_seen[of "Mutated (CreateVolume ?v ?ls) (Inr x)"]) auto
      moreover have "VolumeRead ?v (Inr None) \<in> set h3"
        using that 1 2 by blast
      ultimately show ?case
        by (cases created) (auto intro!: hist_raiseE hist_lift_bind fill)
    qed
  qed
  show ?thesis
    unfolding prepare_secret_def Let_def
  proof (rule hist_bindE[OF hist_volume], rule hist_bindE[where Q = "\<lambda>_ _. True"], goal_cases)
    case (1 found h1)
    then show ?case
      by (cases found) (simp_all add: create hist_liftE)
  next
    case 2
    then show ?case
      by (intro hist_quiet hist_intros)
  qed
qed

lemma hist_prepare_secrets:
  assumes "rr_products rq = [m]" "extends_node rq m ls"
  shows "hist (may dr rq) h (prepare_secrets dc rq m ls uid fs) (\<lambda>_ _. True)"
proof (induction fs arbitrary: h)
  case (Cons f fs)
  then show ?case
    unfolding prepare_secrets.simps by (intro hist_each hist_prepare_secret hist_returnE assms) auto
qed (simp add: hist_returnE)

lemma hist_prepare_node_container:
  assumes "rr_products rq = [m]"
  shows "hist (may dr rq) h (prepare_node_container dc rq m (node_labels rq m) secrets uid) (\<lambda>_ _. True)"
  unfolding prepare_node_container_def
  by (intro hist_each hist_prepare_artifacts[OF assms extends_node_refl] hist_prepare_retained[OF assms extends_node_refl]
      hist_prepare_secrets[OF assms extends_node_refl] hist_liftE hist_returnE) auto

lemma node_spec_own [simp]: "own_spec rq m (node_spec rq m (node_labels rq m) am cr)"
  by (simp add: own_spec_def node_spec_def)

lemma node_spec_sel [simp]:
  "sp_name (node_spec rq m ls am cr) = container_name rq (pm_node m)"
  "sp_image (node_spec rq m ls am cr) = pm_image_reference m"
  by (simp_all add: node_spec_def)

lemma container_gone_later: "container_gone h name \<Longrightarrow> set h \<subseteq> set h' \<Longrightarrow> container_gone h' name"
  unfolding container_gone_def by (auto dest: list_ex_later)

lemma container_made_later: "container_made h name \<Longrightarrow> set h \<subseteq> set h' \<Longrightarrow> container_made h' name"
  unfolding container_made_def by (rule list_ex_later)

lemma image_admitted_later: "image_admitted ok h r \<Longrightarrow> set h \<subseteq> set h' \<Longrightarrow> image_admitted ok h' r"
  unfolding image_admitted_def by (rule list_ex_later)

lemma hist_create_node_container:
  assumes "rr_products rq = [m]" "container_gone h (container_name rq (pm_node m))"
    "image_admitted (dr_image_ok dr) h (pm_image_reference m)"
  shows "hist (may dr rq) h (create_node_container dc rq m (node_labels rq m) secrets am uid) (\<lambda>_ _. True)"
  unfolding create_node_container_def
  by (rule hist_bindE[OF hist_prepare_node_container[OF assms(1)]], rule hist_mono[OF hist_change])
    (use assms in \<open>auto intro!: may_node[OF assms(1)] intro: container_gone_later image_admitted_later\<close>)

lemma hist_ensure_network:
  assumes "r \<in> set (request_runtimes rq)"
  shows "hist (may dr rq) h (ensure_network dc check (network_name rq r) (runtime_labels rq r)) (\<lambda>_ _. True)"
  unfolding ensure_network_def
proof (rule hist_bindE[OF hist_network], goal_cases)
  case (1 found h1)
  show ?case
  proof (cases found)
    case None
    with 1 have "list_ex (\<lambda>ev. network_seen ev (network_name rq r) None) h1"
      by (intro list_ex_seen[of "NetworkRead (network_name rq r) (Inr None)"]) auto
    with assms have "may dr rq h1 (CreateNetwork (network_name rq r) (runtime_labels rq r))"
      by (auto simp: may_change_def list_ex_iff)
    then show ?thesis
      unfolding None option.case by (intro hist_bindE[OF hist_change] hist_returnE) auto
  next
    case (Some observed)
    then show ?thesis by (auto intro!: hist_lift_bind hist_returnE)
  qed
qed

end
