(* ===== verification/Docker_Node_Facts.thy ===== *)
theory Docker_Node_Facts
  imports Docker_Owned
begin

text \<open>
  The operations as a whole: each keeps to \<open>may_change\<close>, and one that starts a node ends with
  the inspection that confirms it (\<open>confirmed\<close>).
\<close>

section \<open>The authority of a node\<close>

definition granted_authority :: "runtime_request \<Rightarrow> container_inspection \<Rightarrow> bool" where
  "granted_authority rq ci =
     (case (ci_binds ci, ci_groups ci) of
        (Some binds, Some groups) \<Rightarrow>
          length groups = length (rr_deliveries rq)
          \<and> (binds = replicate (length (rr_deliveries rq)) socket_mount
             \<or> (length (rr_deliveries rq) = 1 \<and> binds = [proxy_mount]))
      | _ \<Rightarrow> False)"

definition granted_material :: "runtime_request \<Rightarrow> authority_material \<Rightarrow> bool" where
  "granted_material rq am \<longleftrightarrow>
     am_mounts am = replicate (length (rr_deliveries rq)) socket_mount
     \<and> length (am_groups am) = length (rr_deliveries rq)"

lemma hist_delivery_material:
  "hist P h (delivery_material dr ds acc) (\<lambda>am _. am_mounts am = am_mounts acc @ replicate (length ds) socket_mount
     \<and> length (am_groups am) = length (am_groups acc) + length ds)"
proof (induction dr ds acc arbitrary: h rule: delivery_material.induct)
  case (2 dr ds acc)
  show ?case
    unfolding delivery_material.simps
    by (rule hist_quiet_bind, rule hist_intros, rule hist_mono[OF 2])
      (simp add: replicate_append_same[symmetric])
qed (simp_all add: hist_returnE hist_raiseE)

lemma hist_authority_material: "hist P h (authority_delivery_material dr rq) (\<lambda>am _. granted_material rq am)"
  unfolding authority_delivery_material_def
  by (rule hist_mono[OF hist_delivery_material]) (simp add: granted_material_def)

lemma hist_conformance:
  assumes "granted_material rq am"
  shows "hist P h (authority_conformance dc ci am) (\<lambda>c h'. unchanged h h' \<and> (c = CONFORMANT \<longrightarrow> granted_authority rq ci))"
proof (cases "granted_authority rq ci")
  case True
  then show ?thesis by (intro hist_mono[OF hist_quiet_exact[OF quiet_conformance]]) simp
next
  case False
  have "unchanged h h" by (simp add: unchanged_def)
  with False assms show ?thesis
    unfolding authority_conformance_def granted_authority_def granted_material_def
    by (auto split: option.splits intro!: hist_returnE hist_raiseE) (cases "rr_deliveries rq"; auto)+
qed

lemma hist_require_authority:
  assumes "granted_material rq am"
  shows "hist P h (require_container_authority dc ci am final) (\<lambda>_ h'. unchanged h h' \<and> granted_authority rq ci)"
  unfolding require_container_authority_def
  by (rule hist_bindE[OF hist_conformance[OF assms]]) (auto split: conformance.splits intro: hist_raiseE hist_returnE)

section \<open>The end of a start\<close>

definition confirmed ::
  "'w docker_runtime \<Rightarrow> runtime_request \<Rightarrow> product_material \<Rightarrow> docker_event list
    \<Rightarrow> runtime_observation runtime_result \<Rightarrow> bool" where
  "confirmed dr rq m seen r \<longleftrightarrow>
     (\<exists>before' ci img action.
        unchanged (before' @ [ContainerRead (container_name rq (pm_node m)) (Inr (Some ci))]) seen
        \<and> ci_running ci \<and> same_container rq m ci \<and> granted_authority rq ci
        \<and> ImageRead (pm_image_reference m) (Inr (Some img)) \<in> set seen
        \<and> matches_image_reference (dr_image_ok dr) (pm_image_reference m) (ii_digests img)
        \<and> ci_image_id ci = Some (ii_id img)
        \<and> r = node_result dr rq m action ci)"

lemma require_correlation_Inr:
  "require_correlation ci (node_labels rq m) (network_name rq (pm_runtime m)) b b = Inr u
    \<Longrightarrow> b = (rr_operation rq \<noteq> StartNode) \<Longrightarrow> same_container rq m ci"
  by (auto simp: require_correlation_def bindR_Inr_iff require_node_network_def same_container_def)

lemma require_started_Inr:
  assumes "require_started ci (node_labels rq m) img (network_name rq (pm_runtime m)) running b b = Inr u"
    "b = (rr_operation rq \<noteq> StartNode)"
  shows "same_container rq m ci" "ci_image_id ci = Some (ii_id img)" "running \<Longrightarrow> ci_running ci"
  using assms require_correlation_Inr[OF _ assms(2)]
  by (auto simp: require_started_def bindR_Inr_iff)

lemma hist_finish:
  fixes final_read :: "('w, container_inspection option) dk_eff"
  assumes "hist P h final_read (\<lambda>a h'. h' = h @ [ContainerRead (container_name rq (pm_node m)) (Inr a)])"
    "granted_material rq am" "b = (rr_operation rq \<noteq> StartNode)"
    "ImageRead (pm_image_reference m) (Inr (Some img)) \<in> set h"
    "matches_image_reference (dr_image_ok dr) (pm_image_reference m) (ii_digests img)"
  shows "hist P h (bindE final_read (\<lambda>final. case final of
      None \<Rightarrow> raiseE e
    | Some ci \<Rightarrow>
        bindE (liftE (require_started ci (node_labels rq m) img (network_name rq (pm_runtime m)) True b b)) (\<lambda>_.
        bindE (require_container_authority dc ci am True) (\<lambda>_.
        returnE (node_result dr rq m action ci))))) (\<lambda>r h'. confirmed dr rq m h' r)"
proof (rule hist_bindE[OF assms(1)], goal_cases)
  case (1 final h1)
  show ?case
  proof (cases final)
    case None
    then show ?thesis by (simp add: hist_raiseE)
  next
    case (Some ci)
    show ?thesis
      unfolding Some option.case
    proof (rule hist_lift_bind, rule hist_bindE[OF hist_require_authority[OF assms(2)]], rule hist_returnE, goal_cases)
      case (1 a _ h2)
      then show ?case
        unfolding confirmed_def
        using \<open>h1 = _\<close> Some assms(4,5) require_started_Inr[OF _ assms(3)]
        by (intro exI[of _ h] exI[of _ ci] exI[of _ img] exI[of _ action]) auto
    qed
  qed
qed

section \<open>Starting a node\<close>

lemma single_product_Inr: "single_product rq = Inr m \<longleftrightarrow> rr_products rq = [m]"
  by (auto simp: single_product_def split: list.splits)

lemma product_runtime:
  "rr_products rq = [m] \<Longrightarrow> operation_target (rr_operation rq) = None \<Longrightarrow> pm_runtime m \<in> set (request_runtimes rq)"
  by (simp add: request_runtimes_def runtime_target_def)

lemma hist_create_network:
  assumes "r \<in> set (request_runtimes rq)" "NetworkRead (network_name rq r) (Inr None) \<in> set h"
  shows "hist (may dr rq) h (perform dc (CreateNetwork (network_name rq r) (runtime_labels rq r))) (\<lambda>_ _. True)"
proof (rule hist_mono[OF hist_change])
  have "list_ex (\<lambda>ev. network_seen ev (network_name rq r) None) h"
    by (rule list_ex_seen[OF assms(2)]) simp
  with assms(1) show "may dr rq h (CreateNetwork (network_name rq r) (runtime_labels rq r))"
    by (auto simp: may_change_def list_ex_iff)
qed simp

lemma hist_start_container:
  assumes "rr_products rq = [m]" "image_admitted (dr_image_ok dr) h (pm_image_reference m)"
    "container_made h (container_name rq (pm_node m))
     \<or> list_ex (\<lambda>ev. container_seen ev (container_name rq (pm_node m)) (same_container rq m)) h"
  shows "hist (may dr rq) h (perform dc (StartContainer (container_name rq (pm_node m)))) (\<lambda>_ _. True)"
  by (rule hist_mono[OF hist_change]) (use assms in \<open>auto intro!: may_node[OF assms(1)]\<close>)

lemma admitted_of_read:
  "ImageRead r (Inr (Some img)) \<in> set h \<Longrightarrow> matches_image_reference ok r (ii_digests img) \<Longrightarrow> image_admitted ok h r"
  unfolding image_admitted_def by (rule list_ex_seen) auto

lemma hist_create_and_start:
  assumes "rr_products rq = [m]" "container_gone h (container_name rq (pm_node m))"
    "image_admitted (dr_image_ok dr) h (pm_image_reference m)"
  shows "hist (may dr rq) h
    (bindE (start_node_call CONFIGURATION None (prepare_node_container dc rq m (node_labels rq m) secrets uid)) (\<lambda>cr.
     bindE (start_node_call CONTAINER_CREATE None
        (perform dc (CreateContainer (node_spec rq m (node_labels rq m) am cr)))) (\<lambda>_.
     bindE (start_node_call CONTAINER_START None (perform dc (StartContainer (container_name rq (pm_node m)))))
        (\<lambda>_. returnE ''created'')))) (\<lambda>_ _. True)"
proof (rule hist_bindE[OF hist_start_node_call[OF hist_prepare_node_container[OF assms(1)]]], goal_cases)
  case (1 cr h1)
  show ?case
  proof (rule hist_bindE[OF hist_start_node_call[OF hist_change]], goal_cases)
    case 1
    show ?case
      using assms \<open>set h \<subseteq> set h1\<close>
      by (intro may_node[OF assms(1)]) (auto intro: container_gone_later image_admitted_later)
  next
    case (2 _ h2)
    then obtain x where "Mutated (CreateContainer (node_spec rq m (node_labels rq m) am cr)) (Inr x) \<in> set h2"
      by auto
    then have "container_made h2 (container_name rq (pm_node m))"
      unfolding container_made_def by (rule list_ex_seen) simp
    moreover have "image_admitted (dr_image_ok dr) h2 (pm_image_reference m)"
      using assms(3) \<open>set h \<subseteq> set h1\<close> 2 by (elim image_admitted_later) auto
    ultimately show ?case
      by (intro hist_bindE[OF hist_start_node_call[OF hist_start_container[OF assms(1)]]] hist_returnE) auto
  qed
qed

lemma hist_start_node:
  assumes "quiet_resolvers dr" "rr_operation rq = StartNode"
  shows "hist (may dr rq) h (start_node dr rq) (\<lambda>r h'. \<exists>m. rr_products rq = [m] \<and> confirmed dr rq m h' r)"
  unfolding start_node_def
proof (rule hist_lift_bind, goal_cases)
  case (1 m)
  then have m: "rr_products rq = [m]" by (simp add: single_product_Inr)
  let ?name = "container_name rq (pm_node m)" and ?ref = "pm_image_reference m"
  have runtime: "pm_runtime m \<in> set (request_runtimes rq)"
    by (rule product_runtime[OF m]) (simp add: assms)
  show ?case
    unfolding Let_def
  proof (rule hist_mono[where Q = "\<lambda>r h'. confirmed dr rq m h' r"],
      rule hist_bindE[OF hist_authority_material], rule hist_bindE[OF hist_start_node_call[OF hist_container]],
      rule hist_bindE[where Q = "\<lambda>_ _. True"], goal_cases)
    case (1 am h1 found h2)
    then show ?case by (cases found) (auto intro!: hist_returnE hist_quiet hist_intros)
  next
    case (2 am h1 found h2 a h3)
    show ?case
    proof (rule hist_quiet_bind[OF quiet_product_secrets[OF assms(1)]], rule hist_quiet_bind[OF quiet_image_pull_auth[OF assms(1)]],
        rule hist_bindE[OF hist_admit_image[OF m]], rule hist_quiet_bind[OF quiet_preflight],
        rule hist_bindE[OF hist_start_node_call[OF hist_network]], rule hist_bindE[where Q = "\<lambda>_ _. True"], goal_cases)
      case (1 secrets h4 auth h5 img h6 uid h7 existing h8)
      then show ?case
        by (cases existing) (auto intro!: hist_start_node_call hist_create_network runtime hist_liftE)
    next
      case (2 secrets h4 auth h5 img h6 uid h7 existing h8 b h9)
      then have img: "ImageRead ?ref (Inr (Some img)) \<in> set h9"
        and match: "matches_image_reference (dr_image_ok dr) ?ref (ii_digests img)" by auto
      have found: "ContainerRead ?name (Inr found) \<in> set h9"
        using \<open>ContainerRead _ _ \<in> set h2\<close> \<open>set h2 \<subseteq> set h3\<close> 2 by blast
      show ?case
      proof (rule hist_bindE[where Q = "\<lambda>_ _. True"], goal_cases)
        case 1
        show ?case
        proof (cases found)
          case None
          with found have "container_gone h9 ?name" by (auto simp: container_gone_def)
          then show ?thesis
            unfolding None option.case by (rule hist_create_and_start[OF m _ admitted_of_read[OF img match]])
        next
          case (Some ci)
          have "list_ex (\<lambda>ev. container_seen ev ?name (same_container rq m)) h9" if "same_container rq m ci"
            by (rule list_ex_seen[OF found]) (simp add: Some that)
          then show ?thesis
            unfolding Some option.case
            by (intro hist_lift_bind hist_if hist_returnE hist_bindE[OF hist_start_node_call[OF hist_start_container[OF m]]]
                admitted_of_read[OF img match]) (auto simp: assms(2) dest: require_started_Inr)
        qed
      next
        case (2 action h10)
        with img match show ?case
          by (intro hist_finish hist_start_node_call hist_reads \<open>granted_material rq am\<close>) (auto simp: assms(2))
      qed
    qed
  qed (use m in auto)
qed

section \<open>Reconciling, stopping and removing a node\<close>

lemma own_container_seen:
  "ContainerRead name (Inr (Some ci)) \<in> set h \<Longrightarrow> p ci \<Longrightarrow> list_ex (\<lambda>ev. container_seen ev name p) h"
  by (rule list_ex_seen) auto

lemma hist_recreate:
  assumes "rr_products rq = [m]" "ContainerRead (container_name rq (pm_node m)) (Inr (Some ci)) \<in> set h"
    "own_container rq m ci" "rr_deliveries rq = []" "\<not> fingerprint_matches (ci_labels ci) (node_labels rq m)"
    "image_admitted (dr_image_ok dr) h (pm_image_reference m)"
  shows "hist (may dr rq) h
    (bindE (perform dc (RemoveContainer (container_name rq (pm_node m)))) (\<lambda>_.
     bindE (create_node_container dc rq m (node_labels rq m) secrets am uid) (\<lambda>_. returnE ''recreated''))) (\<lambda>_ _. True)"
proof (rule hist_bindE[OF hist_change], goal_cases)
  case 1
  show ?case
    by (rule may_node[OF assms(1)]) (use assms in \<open>auto intro: own_container_seen\<close>)
next
  case (2 _ h1)
  then obtain x where "Mutated (RemoveContainer (container_name rq (pm_node m))) (Inr x) \<in> set h1" by auto
  then have "container_gone h1 (container_name rq (pm_node m))"
    unfolding container_gone_def by (intro disjI2 list_ex_seen) auto
  moreover have "image_admitted (dr_image_ok dr) h1 (pm_image_reference m)"
    by (rule image_admitted_later[OF assms(6)]) (rule 2)
  ultimately show ?case
    by (intro hist_bindE[OF hist_create_node_container[OF assms(1)]] hist_returnE) auto
qed

lemma hist_replace:
  fixes found :: "container_inspection option"
  assumes m: "rr_products rq = [m]" and op: "rr_operation rq = ReconcileNode"
    and read: "ContainerRead (container_name rq (pm_node m)) (Inr found) \<in> set h"
    and img: "ImageRead (pm_image_reference m) (Inr (Some img)) \<in> set h"
    and match: "matches_image_reference (dr_image_ok dr) (pm_image_reference m) (ii_digests img)"
    and replaced: "\<forall>ci. found = Some ci \<longrightarrow> \<not> fingerprint_matches (ci_labels ci) (node_labels rq m) \<longrightarrow> rr_deliveries rq = []"
  shows "hist (may dr rq) h (case found of
      None \<Rightarrow> bindE (create_node_container dc rq m (node_labels rq m) secrets am uid) (\<lambda>_. returnE ''created'')
    | Some ci \<Rightarrow>
        if fingerprint_matches (ci_labels ci) (node_labels rq m)
        then bindE (liftE (require_started ci (node_labels rq m) img (network_name rq (pm_runtime m)) False True True)) (\<lambda>_.
             if ci_running ci then returnE ''reused''
             else bindE (perform dc (StartContainer (container_name rq (pm_node m)))) (\<lambda>_. returnE ''started''))
        else bindE (liftE (require_node_owner (ci_labels ci) (node_labels rq m) ''container'')) (\<lambda>_.
             bindE (perform dc (RemoveContainer (container_name rq (pm_node m)))) (\<lambda>_.
             bindE (create_node_container dc rq m (node_labels rq m) secrets am uid) (\<lambda>_. returnE ''recreated''))))
    (\<lambda>_ _. True)"
proof (cases found)
  case None
  with read have "container_gone h (container_name rq (pm_node m))" by (auto simp: container_gone_def)
  then show ?thesis
    unfolding None option.case
    by (intro hist_bindE[OF hist_create_node_container[OF m _ admitted_of_read[OF img match]]] hist_returnE) auto
next
  case (Some ci)
  note seen = read[unfolded Some]
  have start: "hist (may dr rq) h (perform dc (StartContainer (container_name rq (pm_node m)))) (\<lambda>_ _. True)"
    if "same_container rq m ci"
    by (rule hist_start_container[OF m admitted_of_read[OF img match]])
      (use that in \<open>auto intro: own_container_seen[OF seen]\<close>)
  show ?thesis
    unfolding Some option.case
  proof (rule hist_if, goal_cases)
    case 1
    show ?case
      by (intro hist_lift_bind hist_if hist_returnE hist_bindE[OF start]) (auto simp: op dest: require_started_Inr)
  next
    case 2
    then show ?case
      using replaced Some
      by (intro hist_lift_bind hist_recreate[OF m seen _ _ _ admitted_of_read[OF img match]]) (auto simp: own_container_def)
  qed
qed

lemma hist_reconcile_node:
  assumes "quiet_resolvers dr" "rr_operation rq = ReconcileNode"
  shows "hist (may dr rq) h (reconcile_node dr rq) (\<lambda>r h'. \<exists>m. rr_products rq = [m] \<and> confirmed dr rq m h' r)"
  unfolding reconcile_node_def
proof (rule hist_lift_bind, goal_cases)
  case (1 m)
  then have m: "rr_products rq = [m]" by (simp add: single_product_Inr)
  let ?name = "container_name rq (pm_node m)" and ?ref = "pm_image_reference m" and ?ls = "node_labels rq m"
  have runtime: "pm_runtime m \<in> set (request_runtimes rq)"
    by (rule product_runtime[OF m]) (simp add: assms)
  show ?case
    unfolding Let_def
  proof (rule hist_mono[where Q = "\<lambda>r h'. confirmed dr rq m h' r"],
      rule hist_bindE[OF hist_authority_material], rule hist_bindE[OF hist_container], goal_cases)
    case (1 am h1 found h2)
    note read = \<open>ContainerRead _ _ \<in> set h2\<close> and material = \<open>granted_material rq am\<close>
    show ?case
    proof (rule hist_bindE[where Q = "\<lambda>_ _. \<forall>ci. found = Some ci \<longrightarrow> \<not> fingerprint_matches (ci_labels ci) ?ls
        \<longrightarrow> rr_deliveries rq = []"], goal_cases)
      case 1
      show ?case
        by (cases found)
          (auto intro!: hist_lift_bind hist_quiet_bind[OF quiet_require_authority] hist_raiseE hist_liftE hist_returnE)
    next
      case (2 _ h3)
      note replaced = 2(2)
      show ?case
      proof (rule hist_quiet_bind[OF quiet_product_secrets[OF assms(1)]],
          rule hist_quiet_bind[OF quiet_image_pull_auth[OF assms(1)]],
          rule hist_bindE[OF hist_admit_image[OF m]], rule hist_quiet_bind[OF quiet_preflight],
          rule hist_bindE[OF hist_ensure_network[OF runtime]], goal_cases)
        case (1 secrets h4 auth h5 img h6 uid h7 action h8)
        then have img: "ImageRead ?ref (Inr (Some img)) \<in> set h8"
          and match: "matches_image_reference (dr_image_ok dr) ?ref (ii_digests img)" by auto
        have read: "ContainerRead ?name (Inr found) \<in> set h8"
          using read 2(1) 1 by blast
        show ?case
        proof (rule hist_bindE[where Q = "\<lambda>_ _. True"], goal_cases)
          case 1
          show ?case by (rule hist_replace[OF m assms(2) read img match replaced])
        next
          case (2 action h10)
          with img match show ?case
            by (intro hist_finish hist_reads material) (auto simp: assms(2))
        qed
      qed
    qed
  qed (use m in auto)
qed

lemma hist_stop_node:
  assumes "rr_operation rq = StopNode"
  shows "hist (may dr rq) h (stop_node dr rq) (\<lambda>_ _. True)"
  unfolding stop_node_def Let_def
proof (rule hist_lift_bind, rule hist_bindE[OF hist_container], rule hist_bindE[where Q = "\<lambda>_ _. True"], goal_cases)
  case (1 m found h1)
  then have m: "rr_products rq = [m]" by (simp add: single_product_Inr)
  show ?case
  proof (cases found)
    case (Some ci)
    have "may dr rq h1 (StopContainer (container_name rq (pm_node m)))" if "own_container rq m ci" "ci_running ci"
      by (rule may_node[OF m]) (use 1 Some that in \<open>auto intro: own_container_seen\<close>)
    then show ?thesis
      unfolding Some option.case
      by (intro hist_lift_bind hist_if hist_bindE[OF hist_change] hist_returnE) (auto simp: own_container_def)
  qed (simp add: hist_returnE)
qed (auto intro: hist_returnE)

lemma hist_remove_node:
  assumes "rr_operation rq = RemoveNodeResource"
  shows "hist (may dr rq) h (remove_node dr rq) (\<lambda>_ _. True)"
  unfolding remove_node_def Let_def
proof (rule hist_lift_bind, rule hist_bindE[OF hist_container], rule hist_bindE[where Q = "\<lambda>_ _. True"], goal_cases)
  case (1 m found h1)
  then have m: "rr_products rq = [m]" by (simp add: single_product_Inr)
  show ?case
  proof (cases found)
    case (Some ci)
    have "may dr rq h1 (RemoveContainer (container_name rq (pm_node m)))" if "own_container rq m ci"
      by (rule may_node[OF m]) (use 1 Some that assms in \<open>auto intro: own_container_seen\<close>)
    then show ?thesis
      unfolding Some option.case
      by (intro hist_lift_bind hist_bindE[OF hist_change] hist_returnE) (auto simp: own_container_def)
  qed (simp add: hist_returnE)
qed (auto intro: hist_returnE)

section \<open>Runtimes\<close>

lemma runtime_of_request:
  "runtime_target (rr_operation rq) = Inr r \<Longrightarrow> r \<in> set (request_runtimes rq)"
  by (simp add: request_runtimes_def)

lemma hist_start_runtime: "hist (may dr rq) h (start_runtime dr rq) (\<lambda>_ _. True)"
  unfolding start_runtime_def Let_def
  by (intro hist_lift_bind hist_bindE[OF hist_ensure_network] hist_returnE runtime_of_request) auto

lemma hist_reconcile_runtime: "hist (may dr rq) h (reconcile_runtime dr rq) (\<lambda>_ _. True)"
  unfolding reconcile_runtime_def Let_def
  by (intro hist_lift_bind hist_bindE[OF hist_ensure_network] hist_returnE runtime_of_request) auto

lemma hist_stop_runtime: "hist (may dr rq) h (stop_runtime dr rq) (\<lambda>_ _. True)"
  unfolding stop_runtime_def Let_def by (intro hist_quiet hist_intros)

lemma hist_remove_runtime: "hist (may dr rq) h (remove_runtime dr rq) (\<lambda>_ _. True)"
  unfolding remove_runtime_def Let_def
proof (rule hist_lift_bind, rule hist_bindE[OF hist_network], rule hist_bindE[where Q = "\<lambda>_ _. True"], goal_cases)
  case (1 r found h1)
  show ?case
  proof (cases found)
    case (Some observed)
    have "may dr rq h1 (RemoveNetwork (network_name rq r))" if "owned_by runtime_keys (ni_labels observed) (runtime_labels rq r)"
      using runtime_of_request[OF 1(1)] 1 that Some
        list_ex_seen[of "NetworkRead (network_name rq r) (Inr (Some observed))" h1
          "\<lambda>ev. network_seen ev (network_name rq r) (Some (runtime_labels rq r))"]
      by (auto simp: may_change_def list_ex_iff)
    then show ?thesis
      unfolding Some option.case by (intro hist_lift_bind hist_bindE[OF hist_change] hist_returnE) auto
  qed (simp add: hist_returnE)
qed (auto intro: hist_returnE)

end
