(* ===== verification/Docker_Props.thy ===== *)
theory Docker_Props
  imports Docker_Node_Facts
begin

text \<open>
  An execution as a whole: it keeps to \<open>may_change\<close> and confirms what it starts
  (\<open>hist_execute\<close>), and a change that failed unclearly is reported so (\<open>surfaces_execute\<close>).
\<close>

section \<open>Executions\<close>

text \<open>The requests whose operation is modelled here, not passed to \<open>other\<close>.\<close>

definition runs_here :: "runtime_request \<Rightarrow> bool" where
  "runs_here rq \<longleftrightarrow>
     rr_operation rq \<noteq> CleanupConfigurationInstances \<and> rr_operation rq \<noteq> WaitForHealthy
     \<and> rr_kind rq \<noteq> CONFIGURATION_ACTIVITY_V1 \<and> \<not> has_selected_secrets rq"

definition starts_node :: "runtime_request \<Rightarrow> bool" where
  "starts_node rq \<longleftrightarrow> rr_operation rq = StartNode \<or> rr_operation rq = ReconcileNode"

definition run_confirmed ::
  "'w docker_runtime \<Rightarrow> runtime_request \<Rightarrow> docker_event list \<Rightarrow> runtime_observation runtime_result \<Rightarrow> bool" where
  "run_confirmed dr rq seen r \<longleftrightarrow>
     (re_kind r = SUCCEEDED \<and> starts_node rq \<longrightarrow> (\<exists>m. rr_products rq = [m] \<and> confirmed dr rq m seen r))"

lemma hist_plain: "hist P h m (\<lambda>_ _. True) \<Longrightarrow> \<not> starts_node rq \<Longrightarrow> hist P h m (\<lambda>r h'. run_confirmed dr rq h' r)"
  by (erule hist_mono) (simp add: run_confirmed_def)

lemma hist_started:
  "hist P h m (\<lambda>r h'. \<exists>p. rr_products rq = [p] \<and> confirmed dr rq p h' r)
    \<Longrightarrow> hist P h m (\<lambda>r h'. run_confirmed dr rq h' r)"
  by (erule hist_mono) (simp add: run_confirmed_def)

lemmas hist_operations =
  hist_start_node[THEN hist_started] hist_reconcile_node[THEN hist_started]
  hist_start_runtime[THEN hist_plain] hist_reconcile_runtime[THEN hist_plain] hist_stop_runtime[THEN hist_plain]
  hist_remove_runtime[THEN hist_plain] hist_stop_node[THEN hist_plain] hist_remove_node[THEN hist_plain]

lemma unsupported_confirmed [simp]: "run_confirmed dr rq seen (effect_unsupported rq' code)"
  by (simp add: run_confirmed_def effect_unsupported_def effect_ended_def)

lemma error_confirmed [simp]: "run_confirmed dr rq seen (result_of_error rq' e)"
  by (cases e) (simp_all add: run_confirmed_def result_of_error_def effect_failed_def effect_unsupported_def effect_ended_def)

lemma hist_dispatch:
  assumes "quiet_resolvers dr" "runs_here rq"
  shows "hist (may dr rq) h (dispatch dr other rq) (\<lambda>r h'. run_confirmed dr rq h' r)"
proof -
  have here: "\<not> (rr_operation rq = CleanupConfigurationInstances \<or> rr_kind rq = CONFIGURATION_ACTIVITY_V1
      \<or> has_selected_secrets rq)"
    using assms(2) by (auto simp: runs_here_def)
  show ?thesis
    unfolding dispatch_def if_not_P[OF here]
    using assms(2)
    by (cases "rr_operation rq")
      (auto simp: runs_here_def starts_node_def intro!: hist_returnE hist_operations assms(1))
qed

lemma hist_execute:
  assumes "quiet_resolvers dr" "runs_here rq"
  shows "hist (may dr rq) h (execute dr other has_local rq) (\<lambda>r h'. run_confirmed dr rq h' r)"
  unfolding execute_def
proof (intro hist_if hist_raiseE hist_returnE hist_catchE[where Q = "\<lambda>r h'. run_confirmed dr rq h' r"], goal_cases)
  case 3
  show ?case
    by (intro hist_bindE[where Q = "\<lambda>_ _. True"] hist_lift_bind hist_if hist_returnE hist_dispatch assms)
      (auto split: option.splits intro: hist_returnE hist_raiseE)
qed simp_all

lemma hist_run:
  assumes "hist P [] m Q" "m s = (r, s')" "trace s' = trace s @ evs"
  shows "guarded P [] evs" "r = Inr a \<Longrightarrow> Q a evs"
  using emitsD[OF assms(1)[unfolded hist_def] assms(2,3)] by auto

section \<open>Unclear failures\<close>

text \<open>An exception that does not say that nothing was done.\<close>

definition unclear :: "dk_exn \<Rightarrow> bool" where
  "unclear e =
     (case e of PreconditionError _ _ \<Rightarrow> False | UnsupportedAuthority _ \<Rightarrow> False | ContractError \<Rightarrow> False | _ \<Rightarrow> True)"

definition change_failed :: "docker_event \<Rightarrow> bool" where
  "change_failed ev = (case ev of Mutated mu (Inl e) \<Rightarrow> unclear e | _ \<Rightarrow> False)"

lemma quiet_not_failed: "mutation_of ev = None \<Longrightarrow> \<not> change_failed ev"
  by (cases ev) (simp_all add: change_failed_def)

text \<open>A run in which a change failed unclearly ends with an unclear exception.\<close>

definition surfaces :: "('w, 'a) dk_eff \<Rightarrow> bool" where
  "surfaces m \<longleftrightarrow> emits m (\<lambda>evs r. list_ex change_failed evs \<longrightarrow> (\<exists>e. r = Inl e \<and> unclear e))"

named_theorems surface_intros "rules for unclear failures"

lemma surfaces_quiet [surface_intros]: "quiet m \<Longrightarrow> surfaces m"
  unfolding surfaces_def quiet_def only_emits_def
  by (erule emits_mono) (auto simp: list_ex_iff dest: quiet_not_failed)

lemma surfaces_ends [surface_intros]: "surfaces (returnE a)" "surfaces (raiseE e)" "surfaces (liftE v)"
  by (auto intro!: surfaces_quiet hist_intros)

lemma surfaces_bindE [surface_intros]:
  assumes "surfaces m" "\<And>a. surfaces (k a)"
  shows "surfaces (bindE m k)"
  unfolding surfaces_def
  by (rule emits_bindE[OF assms(1)[unfolded surfaces_def]])
    (auto intro: emits_mono[OF assms(2)[unfolded surfaces_def]])

lemma surfaces_start_node_call [surface_intros]:
  assumes "surfaces m"
  shows "surfaces (start_node_call phase sub m)"
  unfolding start_node_call_def surfaces_def
proof (rule emits_catchE[OF assms[unfolded surfaces_def]], goal_cases)
  case (1 e evs)
  show ?case
    by (rule emits_raiseE) (auto simp: unclear_def uncertain_of_def split: start_phase.splits option.splits dk_exn.splits)
qed auto

lemma surfaces_perform [surface_intros]: "surfaces (perform dc mu)"
  unfolding perform_def mutate_def surfaces_def
  by (rule emits_bindE[OF emits_callE_eq])
    (auto intro!: emits_returnE simp: change_failed_def)

lemma surfaces_if [surface_intros]: "(b \<Longrightarrow> surfaces m) \<Longrightarrow> (\<not> b \<Longrightarrow> surfaces n) \<Longrightarrow> surfaces (if b then m else n)"
  by simp

lemma surfaces_option [surface_intros]:
  "(x = None \<Longrightarrow> surfaces m) \<Longrightarrow> (\<And>a. x = Some a \<Longrightarrow> surfaces (k a)) \<Longrightarrow> surfaces (case x of None \<Rightarrow> m | Some a \<Rightarrow> k a)"
  by (cases x) auto

lemmas surface_steps =
  surfaces_bindE surfaces_start_node_call surfaces_perform surfaces_if surfaces_option surfaces_ends
  quiet_reads[THEN surfaces_quiet] quiet_require_authority[THEN surfaces_quiet]
  quiet_require_secret_file[THEN surfaces_quiet] quiet_preflight[THEN surfaces_quiet]
  quiet_authority_material[THEN surfaces_quiet] quiet_product_secrets[THEN surfaces_quiet]
  quiet_image_pull_auth[THEN surfaces_quiet]

lemma surfaces_admit_image: "surfaces (admit_image dr m auth)"
  unfolding admit_image_def Let_def by (intro surface_steps)

lemma surfaces_prepare_artifacts: "surfaces (prepare_artifacts dc rq m ls as)"
  by (induction as) (auto simp: prepare_artifact_def Let_def intro!: surface_steps)

lemma surfaces_prepare_retained: "surfaces (prepare_retained dc ls vs)"
  by (induction vs) (auto intro!: surface_steps)

lemma surfaces_prepare_secrets: "surfaces (prepare_secrets dc rq m ls uid fs)"
  by (induction fs) (auto simp: prepare_secret_def Let_def intro!: surface_steps)

lemma surfaces_prepare: "surfaces (prepare_node_container dc rq m ls secrets uid)"
  unfolding prepare_node_container_def
  by (intro surface_steps surfaces_prepare_artifacts surfaces_prepare_retained surfaces_prepare_secrets)

lemma surfaces_ensure_network: "surfaces (ensure_network dc check net ls)"
  unfolding ensure_network_def by (intro surface_steps)

lemmas surface_operations = surfaces_admit_image surfaces_prepare surfaces_ensure_network

lemma surfaces_start_node: "quiet_resolvers dr \<Longrightarrow> surfaces (start_node dr rq)"
  unfolding start_node_def Let_def by (intro surface_steps surface_operations)

lemma surfaces_reconcile_node: "quiet_resolvers dr \<Longrightarrow> surfaces (reconcile_node dr rq)"
  unfolding reconcile_node_def create_node_container_def Let_def by (intro surface_steps surface_operations)

lemma surfaces_others:
  "surfaces (stop_node dr rq)" "surfaces (remove_node dr rq)" "surfaces (start_runtime dr rq)"
  "surfaces (reconcile_runtime dr rq)" "surfaces (stop_runtime dr rq)" "surfaces (remove_runtime dr rq)"
  unfolding stop_node_def remove_node_def start_runtime_def reconcile_runtime_def stop_runtime_def remove_runtime_def Let_def
  by (intro surface_steps surface_operations)+

lemma surfaces_dispatch:
  assumes "quiet_resolvers dr" "runs_here rq"
  shows "surfaces (dispatch dr other rq)"
proof -
  have here: "\<not> (rr_operation rq = CleanupConfigurationInstances \<or> rr_kind rq = CONFIGURATION_ACTIVITY_V1
      \<or> has_selected_secrets rq)"
    using assms(2) by (auto simp: runs_here_def)
  show ?thesis
    unfolding dispatch_def if_not_P[OF here]
    using assms(2)
    by (cases "rr_operation rq")
      (auto simp: runs_here_def intro: surface_intros surfaces_others surfaces_start_node surfaces_reconcile_node assms(1))
qed

text \<open>What an execution does with it.\<close>

definition contained_failure :: "'w docker_runtime \<Rightarrow> runtime_request \<Rightarrow> dk_exn + runtime_observation runtime_result \<Rightarrow> bool" where
  "contained_failure dr rq r =
     (case r of
        Inl e \<Rightarrow> dr_control dr e \<or> \<not> dk_is_exception e
      | Inr a \<Rightarrow> re_kind a = UNCERTAIN_EFFECT \<and> re_effect a = rr_effect rq \<and> re_observations a = [])"

lemma unclear_result: "unclear e \<Longrightarrow> re_kind (result_of_error rq e) = UNCERTAIN_EFFECT"
  by (cases e) (simp_all add: unclear_def result_of_error_def effect_ended_def)

lemma result_of_error_effect [simp]:
  "re_effect (result_of_error rq e) = rr_effect rq" "re_observations (result_of_error rq e) = []"
  by (cases e; simp add: result_of_error_def effect_ended_def effect_failed_def effect_unsupported_def)+

lemma surfaces_execute:
  assumes "quiet_resolvers dr" "runs_here rq"
  shows "emits (execute dr other has_local rq) (\<lambda>evs r. list_ex change_failed evs \<longrightarrow> contained_failure dr rq r)"
  unfolding execute_def
proof (intro emits_if emits_returnE emits_raiseE, goal_cases)
  case 4
  have inner: "surfaces (bindE (case dr_request_ok dr rq of None \<Rightarrow> returnE () | Some e \<Rightarrow> raiseE e) (\<lambda>_.
      bindE (liftE (admit_selected_secrets dr rq)) (\<lambda>_.
      if has_local then returnE (effect_unsupported rq ''docker.runtime-authority-required'') else dispatch dr other rq)))"
    by (intro surface_steps surfaces_dispatch assms)
  show ?case
    by (rule emits_catchE[OF inner[unfolded surfaces_def]])
      (auto intro!: emits_returnE simp: contained_failure_def unclear_result split: sum.splits)
qed simp_all

text \<open>
  The properties of the Docker runtime interpreter: it changes only what it owns, confirms what it
  starts, never reports an unclear change as a definite failure, and names resources safely.
\<close>

section \<open>Samples\<close>

definition sample_product :: product_material where
  "sample_product =
     \<lparr>pm_node = ''api'', pm_runtime = ''main'', pm_product_key = ''p'', pm_descriptor = ''d'',
      pm_image_digest = ''sha256:1'', pm_image_reference = ''docker.io/library/api@sha256:1'', pm_contract_repr = ''c'',
      pm_public_environment = [], pm_socket_environment = [], pm_authority_descriptors = [], pm_artifacts = [],
      pm_retained = [], pm_deliveries = [], pm_selections = [],
      pm_ports = [\<lparr>pp_socket = ''http'', pp_protocol = ''http'', pp_port = 8080\<rparr>], pm_pull = None,
      pm_checks = []\<rparr>"

definition sample_effect :: "runtime_operation \<Rightarrow> runtime_request" where
  "sample_effect op =
     \<lparr>rr_effect = ''e'', rr_kind = REALIZE_ACTIVITY, rr_docker = True, rr_workspace = ''w'', rr_plan = ''p'',
      rr_graph = ''g'', rr_operation = op, rr_products = [sample_product], rr_grants = [], rr_deliveries = [],
      rr_fingerprint = ''rf'', rr_selection = ''sf'', rr_secret_selection = ''mf'', rr_instances = []\<rparr>"

definition sample_container :: "runtime_operation \<Rightarrow> container_inspection" where
  "sample_container op =
     \<lparr>ci_name = container_name (sample_effect op) ''api'', ci_identity = None, ci_running = True, ci_image_id = Some ''i'',
      ci_labels = node_labels (sample_effect op) sample_product, ci_published = [], ci_addresses = [],
      ci_networks = [network_name (sample_effect op) ''main''], ci_user = None, ci_secret_mounts = [],
      ci_binds = Some [], ci_groups = Some [], ci_configured = None,
      ci_image = None, ci_attachments = None\<rparr>"

definition sample_network :: "runtime_operation \<Rightarrow> network_inspection" where
  "sample_network op = \<lparr>ni_name = network_name (sample_effect op) ''main'', ni_labels = runtime_labels (sample_effect op) ''main'',
     ni_identity = None\<rparr>"

definition sample_image :: image_inspection where
  "sample_image = \<lparr>ii_id = ''i'', ii_digests = [''api@sha256:1''], ii_user = None\<rparr>"

text \<open>A provider on which everything of a request is there, and whose changes end with \<open>r\<close>.\<close>

definition sample_docker_client :: "runtime_operation \<Rightarrow> dk_exn + string \<Rightarrow> unit docker_client" where
  "sample_docker_client op r =
     \<lparr>dc_container = (\<lambda>_ w. (Inr (Some (sample_container op)), w)),
      dc_network = (\<lambda>_ w. (Inr (Some (sample_network op)), w)),
      dc_image = (\<lambda>_ w. (Inr (Some sample_image), w)), dc_volume = (\<lambda>_ w. (Inr None, w)),
      dc_artifact_digest = (\<lambda>_ w. (Inr None, w)), dc_secret_file = (\<lambda>_ w. (Inr None, w)),
      dc_local_socket = (\<lambda>_ w. (Inr True, w)), dc_facts = (\<lambda>w. (Inr None, w)), 
      dc_config_volume = (\<lambda>_ w. (Inr None, w)), dc_volume_used = (\<lambda>_ w. (Inr False, w)),
      dc_config_file = (\<lambda>_ w. (Inr None, w)), dc_config_mount = (\<lambda>_ _ _ w. (Inr None, w)),
      dc_recipient = (\<lambda>_ w. (Inr (), w)), dc_probe = (\<lambda>_ w. (Inl ContractError, w)),
      dc_mutate = (\<lambda>_ w. (r, w)),
      dc_close = (\<lambda>w. (Inr (), w))\<rparr>"

definition sample_runtime :: "runtime_operation \<Rightarrow> dk_exn + string \<Rightarrow> unit docker_runtime" where
  "sample_runtime op r =
     \<lparr>dr_client = sample_docker_client op r, dr_socket_group = (\<lambda>w. (Inr 0, w)),
      dr_secrets = \<lparr>ss_grant = None, ss_reference = None, ss_permits = (\<lambda>_ _ _. False),
        ss_read_grant = (\<lambda>_ _. Inl (DkSecretError SECRET_MISSING)),
        ss_read_reference = (\<lambda>_ _. Inl (DkSecretError SECRET_MISSING))\<rparr>,
      dr_pull = None, dr_control = (\<lambda>_. False), dr_port_missing = False, dr_scheme = (\<lambda>p. p),
      dr_image_ok = (\<lambda>_ _ _. True), dr_loads = (\<lambda>_. Inl ContractError), dr_code_value = (\<lambda>_. ''x''),
      dr_pull_intent = ''pull'', dr_request_ok = (\<lambda>_. None)\<rparr>"

definition sample_other :: "runtime_request \<Rightarrow> (unit, runtime_observation runtime_result) dk_eff" where
  "sample_other rq = returnE (effect_unsupported rq ''other'')"

definition idle :: "(docker_event, unit) st" where
  "idle = \<lparr>trace = [], world = ()\<rparr>"

lemma sample_runtime_simps [simp]:
  "rr_operation (sample_effect op) = op" "rr_products (sample_effect op) = [sample_product]"
  "rr_deliveries (sample_effect op) = []" "rr_kind (sample_effect op) = REALIZE_ACTIVITY"
  "rr_docker (sample_effect op)" "pm_selections sample_product = []"
  "rr_grants (sample_effect op) = []" "rr_effect (sample_effect op) = ''e''"
  by (simp_all add: sample_effect_def sample_product_def)

lemma sample_quiet: "quiet_resolvers (sample_runtime op r)"
  by (simp add: quiet_resolvers_def sample_runtime_def)

lemma owned_by_refl [simp]: "owned_by keys ls ls"
  by (simp add: owned_by_def list_all_iff)

lemma same_labels_refl [simp]: "same_labels ls ls"
  by (simp add: same_labels_def list_all_iff)

lemma require_owner_refl [simp]:
  "require_runtime_owner ls ls k = Inr ()" "require_node_owner ls ls k = Inr ()"
  by (simp_all add: require_runtime_owner_def require_node_owner_def require_label_owner_def)

lemma sample_container_seen [simp]:
  "require_node_owner (ci_labels (sample_container op)) (node_labels (sample_effect op) sample_product) k = Inr ()"
  "ci_running (sample_container op)"
  by (simp_all add: sample_container_def)

lemmas sample_runs =
  execute_def dispatch_def admit_selected_secrets_def validate_selected_secret_grants_def has_selected_secrets_def
  sample_runtime_def sample_docker_client_def single_product_def

definition sample_stop :: "dk_exn + string \<Rightarrow> (dk_exn + runtime_observation runtime_result) \<times> (docker_event, unit) st" where
  "sample_stop r = execute (sample_runtime StopNode r) sample_other False (sample_effect StopNode) idle"

lemma sample_stop_runs:
  "sample_stop r =
     (case r of Inr _ \<Rightarrow> Inr (effect_succeeded (sample_effect StopNode)
          (stopped_evidence (sample_effect StopNode) sample_product ''stopped'') [])
        | Inl e \<Rightarrow> if dk_is_exception e then Inr (result_of_error (sample_effect StopNode) e) else Inl e,
      \<lparr>trace = [ContainerRead (container_name (sample_effect StopNode) ''api'') (Inr (Some (sample_container StopNode))),
         Mutated (StopContainer (container_name (sample_effect StopNode) ''api'')) r], world = ()\<rparr>)"
  by (cases r) (auto simp: sample_stop_def sample_runs stop_node_def Let_def idle_def inspect_container_def perform_def
      mutate_def eff_defs sample_product_def[THEN arg_cong[where f = pm_node]])

definition sample_start :: "(dk_exn + runtime_observation runtime_result) \<times> (docker_event, unit) st" where
  "sample_start = execute (sample_runtime StartNode (Inr [])) sample_other False (sample_effect StartNode) idle"

definition sample_started :: "docker_event list" where
  "sample_started =
     (let rq = sample_effect StartNode; read = ContainerRead (container_name rq ''api'') (Inr (Some (sample_container StartNode)))
      in [read, ImageRead ''docker.io/library/api@sha256:1'' (Inr (Some sample_image)),
          NetworkRead (network_name rq ''main'') (Inr (Some (sample_network StartNode))), read])"

lemma sample_image_matches:
  "matches_image_reference (\<lambda>_ _ _. True) ''docker.io/library/api@sha256:1'' [''api@sha256:1'']"
  by code_simp

lemma sample_start_runs:
  "sample_start =
     (Inr (node_result (sample_runtime StartNode (Inr [])) (sample_effect StartNode) sample_product ''reused''
        (sample_container StartNode)),
      \<lparr>trace = sample_started, world = ()\<rparr>)"
  by (simp add: sample_start_def sample_runs start_node_def Let_def idle_def inspect_container_def inspect_image_def
      inspect_network_def eff_defs authority_delivery_material_def start_node_call_def require_started_def
      require_correlation_def require_node_network_def require_container_authority_def authority_conformance_def
      product_secrets_def resolve_secret_deliveries_def image_pull_auth_def admit_image_def preflight_secret_files_def
      no_deliveries_def sample_started_def sample_image_matches
      sample_container_def sample_network_def sample_product_def sample_image_def node_result_def)

section \<open>Ownership\<close>

text \<open>
  C15: whatever the provider answers, each change an execution makes is one \<open>may_change\<close> allows after
  the events before it: it is of the request's own network, volumes or container; a network,
  volume, image or container is created only after it was seen missing, with the labels that own it;
  one that exists is started, stopped or removed only after it was inspected and found to be
  owned; a container runs only the image that was admitted; a reconciliation removes a container
  only when its fingerprint differs and no authority was delivered to it.
\<close>

theorem changes_only_what_it_owns:
  assumes "execute dr other has_local rq s = (r, s')"
    and "trace s' = trace s @ seen @ Mutated mu x # later"
    and "quiet_resolvers dr" and "runs_here rq"
  shows "may_change (dr_image_ok dr) rq seen mu"
  using hist_run(1)[OF hist_execute[OF assms(3,4)] assms(1,2)] by (auto simp: guarded_def)

theorem changes_only_what_it_owns_witness:
  "may_change (\<lambda>_ _ _. True) (sample_effect StopNode)
     [ContainerRead (container_name (sample_effect StopNode) ''api'') (Inr (Some (sample_container StopNode)))]
     (StopContainer (container_name (sample_effect StopNode) ''api''))"
  using changes_only_what_it_owns[OF sample_stop_runs[of "Inr []", unfolded sample_stop_def], of _ _ "Inr []" "[]"]
    sample_quiet[of StopNode "Inr []"]
  by (simp add: idle_def runs_here_def has_selected_secrets_def sample_runtime_def)

section \<open>Confirmation\<close>



section \<open>Failures\<close>

text \<open>
  C17: when a change of an execution fails with an exception that does not say that nothing was done,
  the execution does not report a definite failure or a success: its result is uncertain, with no
  observation; only a control error of the invocation port or an interruption passes instead.
\<close>

theorem failed_change_is_uncertain:
  assumes "execute dr other has_local rq s = (r, s')" and "trace s' = trace s @ evs"
    and "Mutated mu (Inl e) \<in> set evs" and "unclear e"
    and "quiet_resolvers dr" and "runs_here rq"
  shows "case r of
      Inl e' \<Rightarrow> dr_control dr e' \<or> \<not> dk_is_exception e'
    | Inr a \<Rightarrow> re_kind a = UNCERTAIN_EFFECT \<and> re_effect a = rr_effect rq \<and> re_observations a = []"
proof -
  have "list_ex change_failed evs"
    by (rule list_ex_seen[OF assms(3)]) (simp add: change_failed_def assms(4))
  with emitsD[OF surfaces_execute[OF assms(5,6)] assms(1,2)] show ?thesis
    by (simp add: contained_failure_def)
qed

theorem failed_change_is_uncertain_witness:
  "re_kind (result_of_error (sample_effect StopNode) (ProviderFault TimeoutClass ''ReadTimeout'')) = UNCERTAIN_EFFECT"
  using failed_change_is_uncertain[OF sample_stop_runs[of "Inl (ProviderFault TimeoutClass ''ReadTimeout'')", unfolded sample_stop_def],
      of _ _ "ProviderFault TimeoutClass ''ReadTimeout''"] sample_quiet[of StopNode "Inl (ProviderFault TimeoutClass ''ReadTimeout'')"]
  by (simp add: idle_def runs_here_def has_selected_secrets_def unclear_def)

end
