(* ===== verification/Computations.thy ===== *)
theory Computations
  imports Effects
begin

text \<open>
  What holds when a computation returns: \<open>delivers m Q\<close> relates the result of \<open>m\<close> to the events it
  appended, and says nothing of a run that raises.
\<close>

named_theorems deliver_intros "compositional rules for what a computation returns"

definition delivers :: "(('ev, 'w) st, 'e, 'a) eff \<Rightarrow> ('a \<Rightarrow> 'ev list \<Rightarrow> bool) \<Rightarrow> bool" where
  "delivers m Q \<longleftrightarrow> emits m (\<lambda>evs r. \<forall>a. r = Inr a \<longrightarrow> Q a evs)"

lemma deliversD: "delivers m Q \<Longrightarrow> m s = (Inr a, s') \<Longrightarrow> trace s' = trace s @ evs \<Longrightarrow> Q a evs"
  unfolding delivers_def by (auto dest: emitsD)

lemma delivers_mono: "delivers m Q \<Longrightarrow> (\<And>a evs. Q a evs \<Longrightarrow> Q' a evs) \<Longrightarrow> delivers m Q'"
  unfolding delivers_def by (erule emits_mono) blast

lemma delivers_return [deliver_intros]: "Q a [] \<Longrightarrow> delivers (returnE a) Q"
  by (simp add: delivers_def emits_returnE)

lemma delivers_raise [deliver_intros, simp]: "delivers (raiseE e) Q"
  by (simp add: delivers_def emits_raiseE)

lemma delivers_lift [deliver_intros]: "(\<And>a. v = Inr a \<Longrightarrow> Q a []) \<Longrightarrow> delivers (liftE v) Q"
  by (simp add: delivers_def emits_liftE)

lemma delivers_require [deliver_intros]: "(b \<Longrightarrow> Q () []) \<Longrightarrow> delivers (requireE b e) Q"
  by (cases b) (auto intro: delivers_return)

lemma delivers_call [deliver_intros]: "(\<And>a. Q a [mk (Inr a)]) \<Longrightarrow> delivers (callE mk f) Q"
  unfolding delivers_def by (rule emits_callE) auto

lemma delivers_bind:
  assumes "delivers m P" "\<And>a evs. P a evs \<Longrightarrow> delivers (k a) (\<lambda>b evs'. Q b (evs @ evs'))"
  shows "delivers (bindE m k) Q"
  unfolding delivers_def
  by (rule emits_bindE[OF assms(1)[unfolded delivers_def]])
    (auto dest!: assms(2)[unfolded delivers_def] elim!: emits_mono)

lemma delivers_bind_lift:
  "(\<And>a. v = Inr a \<Longrightarrow> delivers (k a) Q) \<Longrightarrow> delivers (bindE (liftE v) k) Q"
  by (cases v) simp_all

lemma delivers_bind_require:
  "(b \<Longrightarrow> delivers (k ()) Q) \<Longrightarrow> delivers (bindE (requireE b e) k) Q"
  by (cases b) simp_all

lemma delivers_bind_call:
  "(\<And>a. delivers (k a) (\<lambda>b evs. Q b (mk (Inr a) # evs))) \<Longrightarrow> delivers (bindE (callE mk f) k) Q"
  by (rule delivers_bind[where P = "\<lambda>a evs. evs = [mk (Inr a)]"]) (auto intro: delivers_call)

lemma delivers_if [deliver_intros]:
  "(b \<Longrightarrow> delivers m Q) \<Longrightarrow> (\<not> b \<Longrightarrow> delivers n Q) \<Longrightarrow> delivers (if b then m else n) Q"
  by simp

lemma delivers_attempt:
  assumes "emits m R" "\<And>a evs. R evs (Inr a) \<Longrightarrow> delivers (k a) (\<lambda>b evs'. Q b (evs @ evs'))"
    and "\<And>e evs. R evs (Inl e) \<Longrightarrow> delivers (h e) (\<lambda>b evs'. Q b (evs @ evs'))"
  shows "delivers (attemptE m h k) Q"
  unfolding delivers_def
  by (rule emits_attemptE[OF assms(1)]) (auto dest!: assms(2,3)[unfolded delivers_def] elim!: emits_mono)

lemma delivers_option [deliver_intros]:
  "(x = None \<Longrightarrow> delivers m Q) \<Longrightarrow> (\<And>a. x = Some a \<Longrightarrow> delivers (k a) Q)
    \<Longrightarrow> delivers (case x of None \<Rightarrow> m | Some a \<Rightarrow> k a) Q"
  by (cases x) auto

text \<open>
  A component that runs another one: the events and exceptions of the inner computation become events
  and exceptions of the outer one.
\<close>

definition via :: "('ev \<Rightarrow> 'ev2) \<Rightarrow> ('e \<Rightarrow> 'e2) \<Rightarrow> (('ev, 'w) st, 'e, 'a) eff \<Rightarrow> (('ev2, 'w) st, 'e2, 'a) eff" where
  "via f g m s =
     (case m \<lparr>trace = [], world = world s\<rparr> of
        (r, s') \<Rightarrow> (map_sum g id r, \<lparr>trace = trace s @ map f (trace s'), world = world s'\<rparr>))"

lemma emits_via:
  assumes "emits m R"
  shows "emits (via f g m) (\<lambda>evs r. \<exists>inner r'. evs = map f inner \<and> r = map_sum g id r' \<and> R inner r')"
proof (rule emitsI)
  fix s r s'
  assume run: "via f g m s = (r, s')"
  obtain x t where x: "m \<lparr>trace = [], world = world s\<rparr> = (x, t)" by (cases "m \<lparr>trace = [], world = world s\<rparr>")
  from emitsE[OF assms x] obtain evs where "trace t = [] @ evs" "R evs x" by auto
  moreover have "r = map_sum g id x" "trace s' = trace s @ map f (trace t)"
    using x run by (auto simp: via_def)
  ultimately show "\<exists>evs. trace s' = trace s @ evs \<and> (\<exists>inner r'. evs = map f inner \<and> r = map_sum g id r' \<and> R inner r')"
    by (intro exI[of _ "map f (trace t)"] conjI) (simp, intro exI[of _ "trace t"] exI[of _ x], simp)
qed

lemma only_emits_via: "only_emits (\<lambda>ev. P (f ev)) m \<Longrightarrow> only_emits P (via f g m)"
  unfolding only_emits_def by (drule emits_via[where f = f and g = g], erule emits_mono) auto

text \<open>
  Computations with a local variable: a variable that inner functions assign, or the fields of an object
  that lives for one call.  The world is extended by its value while the computation runs.
\<close>

section \<open>Local variables\<close>

text \<open>
  A computation with a local variable runs in a world that is extended by its value: the resolver that
  a preparation fills, and the binding that an acquisition leaves behind when it fails.
\<close>

definition lift_port :: "('w, 'e, 'a) port \<Rightarrow> ('w \<times> 'c, 'e, 'a) port" where
  "lift_port p w = (case p (fst w) of (r, w') \<Rightarrow> (r, (w', snd w)))"

definition hoist :: "(('ev, 'w) st, 'e, 'a) eff \<Rightarrow> (('ev, 'w \<times> 'c) st, 'e, 'a) eff" where
  "hoist m s =
     (case m \<lparr>trace = trace s, world = fst (world s)\<rparr> of
        (r, s') \<Rightarrow> (r, \<lparr>trace = trace s', world = (world s', snd (world s))\<rparr>))"

definition with_local :: "('c \<Rightarrow> (('ev, 'w) st, 'e, 'a \<times> 'c) eff) \<Rightarrow> (('ev, 'w \<times> 'c) st, 'e, 'a) eff" where
  "with_local f s =
     (case f (snd (world s)) \<lparr>trace = trace s, world = fst (world s)\<rparr> of
        (Inl e, s') \<Rightarrow> (Inl e, \<lparr>trace = trace s', world = (world s', snd (world s))\<rparr>)
      | (Inr (a, c), s') \<Rightarrow> (Inr a, \<lparr>trace = trace s', world = (world s', c)\<rparr>))"

definition run_local :: "'c \<Rightarrow> (('ev, 'w \<times> 'c) st, 'e, 'a) eff \<Rightarrow> (('ev, 'w) st, 'f, ('e + 'a) \<times> 'c) eff" where
  "run_local c m s =
     (case m \<lparr>trace = trace s, world = (world s, c)\<rparr> of
        (r, s') \<Rightarrow> (Inr (r, snd (world s')), \<lparr>trace = trace s', world = fst (world s')\<rparr>))"

text \<open>\<open>on_local f\<close> reads and assigns the variable.\<close>

definition on_local :: "('c \<Rightarrow> 'a \<times> 'c) \<Rightarrow> (('ev, 'w \<times> 'c) st, 'e, 'a) eff" where
  "on_local f s = (case f (snd (world s)) of (a, c) \<Rightarrow> (Inr a, \<lparr>trace = trace s, world = (fst (world s), c)\<rparr>))"

section \<open>Computations with a local variable\<close>

text \<open>\<open>local_runs c m R\<close>: from the value \<open>c\<close>, the events, the outcome and the value at the end are related by \<open>R\<close>.\<close>

definition local_runs :: "'c \<Rightarrow> (('ev, 'w \<times> 'c) st, 'e, 'a) eff \<Rightarrow> ('ev list \<Rightarrow> 'e + 'a \<Rightarrow> 'c \<Rightarrow> bool) \<Rightarrow> bool" where
  "local_runs c m R \<longleftrightarrow>
     (\<forall>s. snd (world s) = c \<longrightarrow>
        (\<exists>evs. trace (snd (m s)) = trace s @ evs \<and> R evs (fst (m s)) (snd (world (snd (m s))))))"

lemma local_runsE:
  assumes "local_runs c m R" "snd (world s) = c" "m s = (r, s')"
  obtains evs where "trace s' = trace s @ evs" "R evs r (snd (world s'))"
  using assms unfolding local_runs_def by (metis fst_conv snd_conv)

lemma local_runsI:
  "(\<And>s r s'. snd (world s) = c \<Longrightarrow> m s = (r, s') \<Longrightarrow> \<exists>evs. trace s' = trace s @ evs \<and> R evs r (snd (world s'))) \<Longrightarrow> local_runs c m R"
  unfolding local_runs_def by (metis prod.collapse)

lemma local_mono: "local_runs c m R \<Longrightarrow> (\<And>evs r c'. R evs r c' \<Longrightarrow> R' evs r c') \<Longrightarrow> local_runs c m R'"
  unfolding local_runs_def by blast

lemma local_returnE: "R [] (Inr a) c \<Longrightarrow> local_runs c (returnE a) R"
  by (simp add: local_runs_def returnE_def)

lemma local_raiseE: "R [] (Inl e) c \<Longrightarrow> local_runs c (raiseE e) R"
  by (simp add: local_runs_def raiseE_def)

lemma local_liftE: "R [] r c \<Longrightarrow> local_runs c (liftE r) R"
  by (simp add: local_runs_def liftE_def)

lemma local_bindE:
  assumes m: "local_runs c m P"
    and k: "\<And>a evs c'. P evs (Inr a) c' \<Longrightarrow> local_runs c' (k a) (\<lambda>evs'. R (evs @ evs'))"
    and e: "\<And>e evs c'. P evs (Inl e) c' \<Longrightarrow> R evs (Inl e) c'"
  shows "local_runs c (bindE m k) R"
proof (rule local_runsI)
  fix s r s'
  assume s: "snd (world s) = c" and run: "bindE m k s = (r, s')"
  obtain x t where x: "m s = (x, t)" by (cases "m s")
  with m s obtain evs where t: "trace t = trace s @ evs" and P: "P evs x (snd (world t))" by (rule local_runsE)
  show "\<exists>evs. trace s' = trace s @ evs \<and> R evs r (snd (world s'))"
  proof (cases x)
    case (Inl a)
    with run x t P e show ?thesis by (auto simp: bindE_def)
  next
    case (Inr a)
    with run x have "k a t = (r, s')" by (simp add: bindE_def)
    with k[OF P[unfolded Inr]] obtain evs' where "trace s' = trace t @ evs'" "R (evs @ evs') r (snd (world s'))"
      by (metis local_runsE)
    with t show ?thesis by auto
  qed
qed

lemma local_attemptE:
  assumes m: "local_runs c m P"
    and k: "\<And>a evs c'. P evs (Inr a) c' \<Longrightarrow> local_runs c' (k a) (\<lambda>evs'. R (evs @ evs'))"
    and h: "\<And>e evs c'. P evs (Inl e) c' \<Longrightarrow> local_runs c' (h e) (\<lambda>evs'. R (evs @ evs'))"
  shows "local_runs c (attemptE m h k) R"
proof (rule local_runsI)
  fix s r s'
  assume s: "snd (world s) = c" and run: "attemptE m h k s = (r, s')"
  obtain x t where x: "m s = (x, t)" by (cases "m s")
  with m s obtain evs where t: "trace t = trace s @ evs" and P: "P evs x (snd (world t))" by (rule local_runsE)
  have "\<exists>evs'. trace s' = trace t @ evs' \<and> R (evs @ evs') r (snd (world s'))"
  proof (cases x)
    case (Inl a)
    with run x have "h a t = (r, s')" by (simp add: attemptE_def)
    with h[OF P[unfolded Inl]] show ?thesis by (metis local_runsE)
  next
    case (Inr a)
    with run x have "k a t = (r, s')" by (simp add: attemptE_def)
    with k[OF P[unfolded Inr]] show ?thesis by (metis local_runsE)
  qed
  with t show "\<exists>evs. trace s' = trace s @ evs \<and> R evs r (snd (world s'))" by auto
qed

lemma local_callE: "(\<And>r. R [mk r] r c) \<Longrightarrow> local_runs c (callE mk (lift_port f)) R"
  by (simp add: local_runs_def callE_def lift_port_def split: prod.splits)

lemma local_hoist: "emits m R \<Longrightarrow> local_runs c (hoist m) (\<lambda>evs r c'. R evs r \<and> c' = c)"
  unfolding local_runs_def emits_def hoist_def
  by (auto split: prod.splits) (metis fst_conv select_convs(1) snd_conv st.select_convs(1))

lemma local_with:
  assumes "emits (f c) R"
  shows "local_runs c (with_local f) (\<lambda>evs r c'. case r of
     Inl e \<Rightarrow> R evs (Inl e) \<and> c' = c | Inr a \<Rightarrow> R evs (Inr (a, c')))"
proof (rule local_runsI)
  fix s r s'
  assume s: "snd (world s) = c" and run: "with_local f s = (r, s')"
  let ?s = "\<lparr>trace = trace s, world = fst (world s)\<rparr>"
  obtain x t where x: "f c ?s = (x, t)" by (cases "f c ?s")
  from emitsE[OF assms x] obtain evs where evs: "trace t = trace s @ evs" "R evs x" by auto
  with x run s show "\<exists>evs. trace s' = trace s @ evs \<and> (case r of
     Inl e \<Rightarrow> R evs (Inl e) \<and> snd (world s') = c | Inr a \<Rightarrow> R evs (Inr (a, snd (world s'))))"
    by (auto simp: with_local_def split: sum.splits prod.splits)
qed

lemma emits_run_local:
  assumes "local_runs c m R"
  shows "emits (run_local c m) (\<lambda>evs x. \<exists>r c'. x = Inr (r, c') \<and> R evs r c')"
proof (rule emitsI)
  fix s x s'
  assume run: "run_local c m s = (x, s')"
  let ?s = "\<lparr>trace = trace s, world = (world s, c)\<rparr>"
  obtain r t where t: "m ?s = (r, t)" by (cases "m ?s")
  from local_runsE[OF assms _ t] obtain evs where "trace t = trace s @ evs" "R evs r (snd (world t))" by auto
  with t run show "\<exists>evs. trace s' = trace s @ evs \<and> (\<exists>r c'. x = Inr (r, c') \<and> R evs r c')"
    by (auto simp: run_local_def)
qed

lemma local_of_emits: "emits m R \<Longrightarrow> local_runs c m (\<lambda>evs r c'. R evs r)"
  unfolding emits_def local_runs_def by blast

lemma local_catchE:
  assumes "local_runs c m P"
    and "\<And>e evs c'. P evs (Inl e) c' \<Longrightarrow> local_runs c' (if p e then h e else raiseE e) (\<lambda>evs'. R (evs @ evs'))"
    and "\<And>a evs c'. P evs (Inr a) c' \<Longrightarrow> R evs (Inr a) c'"
  shows "local_runs c (catchE p m h) R"
  unfolding catchE_def by (rule local_attemptE[OF assms(1)], rule local_returnE) (simp_all add: assms(2,3))

lemma local_conj:
  assumes "local_runs c m R" "local_runs c m S"
  shows "local_runs c m (\<lambda>evs r c'. R evs r c' \<and> S evs r c')"
proof (rule local_runsI)
  fix s r s'
  assume s: "snd (world s) = c" and run: "m s = (r, s')"
  obtain evs where "trace s' = trace s @ evs" "R evs r (snd (world s'))" using local_runsE[OF assms(1) s run] .
  moreover obtain evs' where "trace s' = trace s @ evs'" "S evs' r (snd (world s'))" using local_runsE[OF assms(2) s run] .
  ultimately show "\<exists>evs. trace s' = trace s @ evs \<and> R evs r (snd (world s')) \<and> S evs r (snd (world s'))" by auto
qed

lemma local_on_local: "R [] (Inr (fst (f c))) (snd (f c)) \<Longrightarrow> local_runs c (on_local f) R"
  by (auto simp: local_runs_def on_local_def split: prod.splits)

text \<open>
  Counting the calls of a computation.  \<open>within n evs\<close> says that the events stay within a budget of
  \<open>n\<close> calls; budgets add up along a run, whatever a computation answers or raises.
\<close>

definition spends :: "(nat \<Rightarrow> 'ev list \<Rightarrow> bool) \<Rightarrow> nat \<Rightarrow> (('ev, 'w) st, 'e, 'a) eff \<Rightarrow> bool" where
  "spends within n m \<longleftrightarrow> emits m (\<lambda>evs r. within n evs)"

locale call_budget =
  fixes within :: "nat \<Rightarrow> 'ev list \<Rightarrow> bool"
  assumes within_none: "within n []"
    and within_more: "within a evs \<Longrightarrow> a \<le> b \<Longrightarrow> within b evs"
    and within_append: "within a xs \<Longrightarrow> within b ys \<Longrightarrow> within (a + b) (xs @ ys)"
begin

lemma ends:
  "spends within n (returnE a)" "spends within n (raiseE e)" "spends within n (liftE r)" "spends within n (requireE b f)"
  by (auto simp: spends_def within_none intro!: emit_intros)

lemma more: "spends within a m \<Longrightarrow> a \<le> b \<Longrightarrow> spends within b m"
  unfolding spends_def by (erule emits_mono) (rule within_more)

lemma in_turn:
  assumes "spends within a m" "\<And>x. spends within b (k x)"
  shows "spends within (a + b) (bindE m k)"
  unfolding spends_def
  by (rule emits_bindE[OF assms(1)[unfolded spends_def]])
    (auto intro: emits_mono[OF assms(2)[unfolded spends_def]] within_append within_more[where b = "a + b"])

lemma attempted:
  assumes "spends within a m" "\<And>e. spends within b (h e)" "\<And>x. spends within b (k x)"
  shows "spends within (a + b) (attemptE m h k)"
  unfolding spends_def
  by (rule emits_attemptE[OF assms(1)[unfolded spends_def]])
    (auto intro: emits_mono[OF assms(2)[unfolded spends_def]] emits_mono[OF assms(3)[unfolded spends_def]] within_append)

lemma free_first: "spends within 0 m \<Longrightarrow> (\<And>x. spends within n (k x)) \<Longrightarrow> spends within n (bindE m k)"
  using in_turn[of 0 m n k] by simp

lemma free_rest: "spends within n m \<Longrightarrow> (\<And>x. spends within 0 (k x)) \<Longrightarrow> spends within n (bindE m k)"
  using in_turn[of n m 0 k] by simp

lemma free_handling:
  "spends within n m \<Longrightarrow> (\<And>e. spends within 0 (h e)) \<Longrightarrow> (\<And>x. spends within 0 (k x)) \<Longrightarrow> spends within n (attemptE m h k)"
  using attempted[of n m 0 h k] by simp

lemma one_call: "(\<And>r. within n [mk r]) \<Longrightarrow> spends within n (callE mk f)"
  unfolding spends_def by (rule emits_callE)

end

end
