(* ===== verification/Docker_Sdk_Props.thy ===== *)
theory Docker_Sdk_Props
  imports Docker_Sdk_Client Docker_Props Computations "HOL-Library.Multiset"
begin

text \<open>
  The properties of the Docker SDK client: its helper containers are always removed, a change of the
  runtime is the calls it stands for, and what it reads is complete or unknown.
\<close>

section \<open>Helpers\<close>

text \<open>
  The protocol of helper containers: one at a time, used only between its creation and its removal,
  and written only when it was created writable.  The state is the open helper, if any.
\<close>

type_synonym open_helper = "(string \<times> bool) option"

fun helper_created :: "sdk_call \<Rightarrow> bool option" where
  "helper_created (HelperCreate _ read_only) = Some read_only"
| "helper_created (ProbeCreate _ _) = Some True"
| "helper_created _ = None"

fun helper_used :: "sdk_call \<Rightarrow> (string \<times> bool) option" where
  "helper_used (HelperStart h) = Some (h, False)"
| "helper_used (HelperPut h _) = Some (h, True)"
| "helper_used (HelperChmod h _) = Some (h, True)"
| "helper_used (HelperGet h _) = Some (h, False)"
| "helper_used (HelperWait h _) = Some (h, False)"
| "helper_used (HelperLogs h) = Some (h, False)"
| "helper_used _ = None"

definition uses_helper :: "string \<Rightarrow> bool \<Rightarrow> sdk_call \<Rightarrow> bool" where
  "uses_helper h read_only call \<longleftrightarrow>
     (case helper_used call of None \<Rightarrow> False | Some (h', writes) \<Rightarrow> h' = h \<and> \<not> (writes \<and> read_only))"

definition no_helper :: "sdk_call \<Rightarrow> bool" where
  "no_helper call \<longleftrightarrow> helper_created call = None \<and> helper_used call = None \<and> (\<forall>h. call \<noteq> HelperRemove h)"

fun helper_step :: "open_helper \<Rightarrow> sdk_event \<Rightarrow> open_helper option" where
  "helper_step (Some (h, ro)) ev =
     (if call_of ev = HelperRemove h then Some None
      else if uses_helper h ro (call_of ev) then Some (Some (h, ro)) else None)"
| "helper_step None (SdkCalled call r) =
     (case helper_created call of
        Some ro \<Rightarrow> Some (case r of Inr h \<Rightarrow> Some (h, ro) | Inl _ \<Rightarrow> None)
      | None \<Rightarrow> if no_helper call then Some None else None)"
| "helper_step None ev = (if no_helper (call_of ev) then Some None else None)"

fun helper_run :: "open_helper \<Rightarrow> sdk_event list \<Rightarrow> open_helper option" where
  "helper_run st [] = Some st"
| "helper_run st (ev # evs) = (case helper_step st ev of None \<Rightarrow> None | Some st' \<Rightarrow> helper_run st' evs)"

lemma helper_run_append:
  "helper_run st (evs @ evs') = (case helper_run st evs of None \<Rightarrow> None | Some st' \<Rightarrow> helper_run st' evs')"
  by (induction evs arbitrary: st) (auto split: option.splits)

definition settled :: "('w, 'a) sdk_eff \<Rightarrow> bool" where
  "settled m \<longleftrightarrow> emits m (\<lambda>evs r. helper_run None evs = Some None)"

named_theorems settled_intros "computations that leave no helper behind"

lemma settled_return [settled_intros]: "settled (returnE a)"
  by (simp add: settled_def emits_returnE)

lemma settled_raise [settled_intros]: "settled (raiseE e)"
  by (simp add: settled_def emits_raiseE)

lemma settled_lift [settled_intros]: "settled (liftE v)"
  by (simp add: settled_def emits_liftE)

lemma settled_require [settled_intros]: "settled (requireE b e)"
  by (simp add: settled_def emits_requireE)

lemma settled_bind [settled_intros]: "settled m \<Longrightarrow> (\<And>a. settled (k a)) \<Longrightarrow> settled (bindE m k)"
  unfolding settled_def
  by (erule emits_bindE) (auto simp: helper_run_append elim!: emits_mono[rotated])

lemma settled_attempt [settled_intros]:
  "settled m \<Longrightarrow> (\<And>e. settled (g e)) \<Longrightarrow> (\<And>a. settled (k a)) \<Longrightarrow> settled (attemptE m g k)"
  unfolding settled_def
  by (erule emits_attemptE) (auto simp: helper_run_append elim!: emits_mono[rotated])

lemma settled_catch [settled_intros]: "settled m \<Longrightarrow> (\<And>e. settled (g e)) \<Longrightarrow> settled (catchE p m g)"
  unfolding catchE_def by (auto intro!: settled_intros)

lemma settled_if [settled_intros]: "(b \<Longrightarrow> settled m) \<Longrightarrow> (\<not> b \<Longrightarrow> settled n) \<Longrightarrow> settled (if b then m else n)"
  by simp

lemma settled_fetch [settled_intros]:
  "no_helper call \<Longrightarrow> settled (callE (ResourceFetched call) f)"
  by (simp add: settled_def emits_callE)

lemma settled_archive [settled_intros]: "no_helper call \<Longrightarrow> settled (archive_call sdk call)"
  by (simp add: settled_def emits_callE archive_call_def)

lemma settled_query [settled_intros]: "no_helper call \<Longrightarrow> settled (query_call sdk call)"
  by (simp add: settled_def emits_callE query_call_def)

lemma settled_done [settled_intros]: "no_helper call \<Longrightarrow> settled (callE (sdk_done call) f)"
  by (auto simp: settled_def sdk_done_def no_helper_def intro!: emits_callE)

lemma settled_change [settled_intros]: "no_helper call \<Longrightarrow> settled (change_call sdk call)"
  unfolding change_call_def by (rule settled_done)

lemma settled_create [settled_intros]: "no_helper call \<Longrightarrow> settled (create_call sdk call)"
  by (auto simp: settled_def sdk_created_def create_call_def no_helper_def intro!: emits_callE)

lemma no_helper_simps [simp]:
  "no_helper (GetNetwork n)" "no_helper (GetVolume n)" "no_helper (GetImage n)" "no_helper (GetContainer n)"
  "no_helper (NetworkCreate n ls)" "no_helper (VolumeCreate n ls)" "no_helper (ImagePull n a)"
  "no_helper (EndpointConfig al)" "no_helper (ContainerCreate n k e)" "no_helper (NetworkConnect n h al)"
  "no_helper (ContainerStart n)" "no_helper (ContainerStop n)" "no_helper (ContainerRemove n)"
  "no_helper (NetworkRemove n)" "no_helper (VolumeRemove n)"
  by (simp_all add: no_helper_def)

text \<open>The bracket: whatever the use does with its helper, the helper is removed.\<close>

locale helper_bracket =
  fixes call :: sdk_call and use :: "string \<Rightarrow> ('w, 'a) sdk_eff" and read_only :: bool
  assumes creates: "helper_created call = Some read_only"
    and uses_own: "\<And>h. only_emits (\<lambda>ev. uses_helper h read_only (call_of ev)) (use h)"
begin

lemma not_removed: "uses_helper h read_only (HelperRemove h') \<Longrightarrow> False"
  by (simp add: uses_helper_def)

lemma own_run: "list_all (\<lambda>ev. uses_helper h read_only (call_of ev)) evs
    \<Longrightarrow> helper_run (Some (h, read_only)) evs = Some (Some (h, read_only))"
  by (induction evs) (auto dest: not_removed)

lemma removed: "emits (change_call sdk (HelperRemove h))
    (\<lambda>evs r. helper_run (Some (h, read_only)) evs = Some None)"
  unfolding change_call_def by (rule emits_callE) (simp add: sdk_done_def)

lemma closes: "emits (bindE (change_call sdk (HelperRemove h)) (\<lambda>_. liftE v))
    (\<lambda>evs r. helper_run (Some (h, read_only)) evs = Some None)"
  by (rule emits_bindE[OF removed]) (auto intro!: emits_liftE)

lemma settles: "settled (with_helper sdk call use)"
  unfolding settled_def with_helper_def create_call_def
proof (rule emits_bindE[OF emits_callE_eq], goal_cases)
  case (1 a evs)
  obtain h j where a: "a = (h, j)" by (cases a)
  with 1 creates have opened: "helper_run None evs = Some (Some (h, read_only))"
    by (simp add: sdk_created_def)
  have used: "emits (use h) (\<lambda>evs r. helper_run (Some (h, read_only)) evs = Some (Some (h, read_only)))"
    by (rule emits_mono[OF only_emits_emits[OF uses_own]]) (rule own_run)
  show ?case
    unfolding a prod.case
  proof (rule emits_attemptE[OF used], goal_cases)
    case (1 b evs')
    show ?case
      by (rule emits_mono[OF closes[of _ h "Inr b", unfolded liftE_simps]]) (simp add: helper_run_append opened 1)
  next
    case (2 e evs')
    show ?case
      by (rule emits_mono[OF closes[of _ h "Inl e", unfolded liftE_simps]]) (simp add: helper_run_append opened 2)
  qed
next
  case (2 e evs)
  with creates show ?case by (simp add: sdk_created_def)
qed

end

lemma uses_helper_simps [simp]:
  "uses_helper h ro (HelperStart h)" "uses_helper h ro (HelperGet h p)" "uses_helper h ro (HelperWait h t)"
  "uses_helper h ro (HelperLogs h)" "uses_helper h ro (HelperPut h e) \<longleftrightarrow> \<not> ro" "uses_helper h ro (HelperChmod h m) \<longleftrightarrow> \<not> ro"
  by (simp_all add: uses_helper_def)

lemma only_emits_change [emit_intros]:
  "uses_helper h ro call \<Longrightarrow> only_emits (\<lambda>ev. uses_helper h ro (call_of ev)) (change_call sdk call)"
  unfolding change_call_def by (rule only_emits_callE) (simp add: sdk_done_def)

lemma only_emits_chmod [emit_intros]: "only_emits (\<lambda>ev. uses_helper h False (call_of ev)) (chmod_content sdk h mode)"
  unfolding chmod_content_def
  by (intro emit_intros) (simp_all add: sdk_done_def)

lemma only_emits_logs [emit_intros]: "only_emits (\<lambda>ev. uses_helper h ro (call_of ev)) (container_logs sdk h)"
  unfolding container_logs_def
  by (intro emit_intros) (auto simp: sdk_done_def split: log_output.splits)

lemma only_emits_archive_or_none [emit_intros]:
  "only_emits (\<lambda>ev. uses_helper h ro (call_of ev)) (archive_or_none sdk (HelperGet h p) read)"
  unfolding archive_or_none_def archive_call_def
  by (intro emit_intros) simp_all

interpretation artifact_writer: helper_bracket "HelperCreate volume False"
  "\<lambda>helper. bindE (change_call sdk (HelperStart helper)) (\<lambda>_.
     bindE (change_call sdk (HelperPut helper (artifact_archive a))) (\<lambda>_. chmod_content sdk helper (ca_mode a)))" False
  for volume sdk a
  by (rule helper_bracket.intro; (intro emit_intros)?; simp)

interpretation secret_writer: helper_bracket "HelperCreate volume False"
  "\<lambda>helper. bindE (change_call sdk (HelperStart helper)) (\<lambda>_.
     bindE (change_call sdk (HelperPut helper (secret_archive secret mode uid))) (\<lambda>_.
     if uid = 0 then chmod_content sdk helper mode else returnE ()))" False
  for volume sdk secret mode uid
  by (rule helper_bracket.intro; (intro emit_intros)?; simp)

interpretation file_reader: helper_bracket "HelperCreate volume True"
  "\<lambda>helper. bindE (change_call sdk (HelperStart helper)) (\<lambda>_.
     archive_or_none sdk (HelperGet helper ''/artifact/content'') read)" True
  for volume sdk read
  by (rule helper_bracket.intro; (intro emit_intros)?; simp)

interpretation prober: helper_bracket "ProbeCreate network arguments"
  "\<lambda>helper. bindE (change_call sdk (HelperStart helper)) (\<lambda>_.
     bindE (callE (SdkAnswered (HelperWait helper t)) (sdk_wait sdk helper t)) (\<lambda>waited.
     bindE (liftE (wait_status_code waited)) (\<lambda>code.
     bindE (container_logs sdk helper) (\<lambda>output. returnE (code, py_strip output)))))" True
  for network arguments sdk t
  by (rule helper_bracket.intro; (intro emit_intros)?; simp add: sdk_done_def)

lemma settled_mutate: "settled (sdk_mutate sdk mu)"
  by (cases mu) (auto simp: no_identity_def on_container_def on_network_def sdk_remove_configuration_volume_def
      materialize_configuration_artifact_def materialize_secret_file_def sdk_create_container_def
      container_create_call_def sdk_run_container_def
      intro!: settled_intros artifact_writer.settles secret_writer.settles split: prod.splits)

text \<open>
  C24: whatever the provider answers, an operation that works through a helper container asks for
  its removal before it ends, uses no helper but its own, after its creation and before its
  removal, and writes to none that it created read-only.
\<close>

theorem helpers_always_removed:
  "settled (sdk_mutate sdk mu) \<and> settled (sdk_artifact_digest sdk volume)
   \<and> settled (sdk_inspect_secret_file sdk volume) \<and> settled (sdk_inspect_configuration_file sdk volume)
   \<and> settled (sdk_run_http_probe sdk pb)"
  using settled_mutate[of sdk mu]
  by (auto simp: sdk_artifact_digest_def sdk_inspect_secret_file_def sdk_inspect_configuration_file_def
      read_volume_file_def sdk_run_http_probe_def Let_def
      intro!: settled_intros file_reader.settles prober.settles split: prod.splits)

section \<open>Changes\<close>

text \<open>The SDK calls a change stands for; \<open>h\<close> is the handle of the container it creates.\<close>

fun mutation_calls :: "mutation \<Rightarrow> string \<Rightarrow> json \<Rightarrow> sdk_call list" where
  "mutation_calls (CreateNetwork name ls) h j = [NetworkCreate name ls]"
| "mutation_calls (RemoveNetwork name) h j = [GetNetwork name, NetworkRemove name]"
| "mutation_calls (PullImage reference auth) h j = [ImagePull reference auth]"
| "mutation_calls (CreateVolume name ls) h j = [VolumeCreate name ls]"
| "mutation_calls (MaterializeArtifact volume a) h j =
     [HelperCreate volume False, HelperStart h, HelperPut h (artifact_archive a), HelperChmod h (ca_mode a), HelperRemove h]"
| "mutation_calls (MaterializeSecret volume secret mode uid) h j =
     [HelperCreate volume False, HelperStart h, HelperPut h (secret_archive secret mode uid)]
     @ (if uid = 0 then [HelperChmod h mode] else []) @ [HelperRemove h]"
| "mutation_calls (CreateContainer sp) h j =
     [EndpointConfig (sp_aliases sp), ContainerCreate (sp_image sp) (container_create_kwargs sp) (Some (sp_network sp, j))]"
| "mutation_calls (RunContainer sp) h j =
     [ContainerCreate (sp_image sp) (container_create_kwargs sp) None, GetNetwork (sp_network sp),
      NetworkConnect (sp_network sp) h (sp_aliases sp), ContainerStart h]"
| "mutation_calls (StartContainer name) h j = [GetContainer name, ContainerStart name]"
| "mutation_calls (StopContainer name) h j = [GetContainer name, ContainerStop name]"
| "mutation_calls (RemoveContainer name) h j = [GetContainer name, ContainerRemove name]"
| "mutation_calls (RemoveConfigurationVolume v) h j = [GetVolume (cv_name v), VolumeRemove (cv_name v)]"

fun sdk_succeeded :: "sdk_event \<Rightarrow> bool" where
  "sdk_succeeded (SdkCalled _ r) = (\<not> isl r)"
| "sdk_succeeded (SdkAnswered _ r) = (\<not> isl r)"
| "sdk_succeeded (ResourceFetched _ r) = (\<not> isl r)"
| "sdk_succeeded (ArchiveFetched _ r) = (\<not> isl r)"

text \<open>A computation that returns \<open>a\<close> only after the calls \<open>cs\<close>, all successful, with \<open>Q a cs\<close>.\<close>

definition does :: "('w, 'a) sdk_eff \<Rightarrow> ('a \<Rightarrow> sdk_call list \<Rightarrow> bool) \<Rightarrow> bool" where
  "does m Q \<longleftrightarrow> emits m (\<lambda>evs r. \<forall>a. r = Inr a \<longrightarrow> list_all sdk_succeeded evs \<and> Q a (map call_of evs))"

named_theorems does_intros "the calls a computation makes"

lemma does_mono: "does m Q \<Longrightarrow> (\<And>a cs. Q a cs \<Longrightarrow> Q' a cs) \<Longrightarrow> does m Q'"
  unfolding does_def by (erule emits_mono) blast

lemma does_return: "Q a [] \<Longrightarrow> does (returnE a) Q"
  by (simp add: does_def emits_returnE)

lemma does_raise: "does (raiseE e) Q"
  by (simp add: does_def emits_raiseE)

lemma does_lift: "(\<And>a. v = Inr a \<Longrightarrow> Q a []) \<Longrightarrow> does (liftE v) Q"
  by (simp add: does_def emits_liftE)

lemma does_require: "Q () [] \<Longrightarrow> does (requireE b e) Q"
  by (cases b) (auto intro: does_return does_raise)

lemma does_bind:
  assumes "does m P" "\<And>a cs. P a cs \<Longrightarrow> does (k a) (\<lambda>b cs'. Q b (cs @ cs'))"
  shows "does (bindE m k) Q"
  unfolding does_def
  by (rule emits_bindE[OF assms(1)[unfolded does_def]])
    (auto dest!: assms(2)[unfolded does_def] elim!: emits_mono)

lemma does_if: "(b \<Longrightarrow> does m Q) \<Longrightarrow> (\<not> b \<Longrightarrow> does n Q) \<Longrightarrow> does (if b then m else n) Q"
  by simp

lemma does_fetch: "(\<And>a. Q a [call]) \<Longrightarrow> does (callE (ResourceFetched call) f) Q"
  unfolding does_def by (rule emits_callE) (auto split: sum.splits)

lemma does_query: "(\<And>a. Q a [call]) \<Longrightarrow> does (query_call sdk call) Q"
  unfolding does_def query_call_def by (rule emits_callE) auto

lemma does_done: "(\<And>a. Q a [call]) \<Longrightarrow> does (callE (sdk_done call) f) Q"
  unfolding does_def by (rule emits_callE) (auto simp: sdk_done_def)

lemma does_change: "Q () [call] \<Longrightarrow> does (change_call sdk call) Q"
  unfolding change_call_def by (rule does_done) simp

lemma does_create: "(\<And>a. Q a [call]) \<Longrightarrow> does (create_call sdk call) Q"
  unfolding does_def create_call_def by (rule emits_callE) (auto simp: sdk_created_def)

lemma does_change_exact: "does (change_call sdk call) (\<lambda>_ cs. cs = [call])"
  by (rule does_change) simp

lemma does_create_exact: "does (create_call sdk call) (\<lambda>_ cs. cs = [call])"
  by (rule does_create) simp

lemma does_catch_raise: "does m Q \<Longrightarrow> does (catchE p m (\<lambda>e. raiseE (g e))) Q"
  unfolding does_def
  by (erule emits_catchE) (auto intro: emits_raiseE)

text \<open>A use of a helper that is followed by its removal.\<close>

lemma does_with_helper:
  assumes "\<And>h. does (use h) (P h)" "\<And>h a cs. P h a cs \<Longrightarrow> Q a (call # cs @ [HelperRemove h])"
  shows "does (with_helper sdk call use) Q"
  unfolding with_helper_def
proof (rule does_bind[where P = "\<lambda>_ cs. cs = [call]"], goal_cases)
  case 1
  show ?case by (rule does_create) simp
next
  case (2 a cs)
  obtain h j where a: "a = (h, j)" by (cases a)
  have removed: "does (change_call sdk (HelperRemove h)) (\<lambda>_ cs. cs = [HelperRemove h])"
    by (rule does_change) simp
  have "emits (attemptE (use h) (\<lambda>e. bindE (change_call sdk (HelperRemove h)) (\<lambda>_. raiseE e))
      (\<lambda>a. bindE (change_call sdk (HelperRemove h)) (\<lambda>_. returnE a)))
      (\<lambda>evs r. \<forall>a. r = Inr a \<longrightarrow> list_all sdk_succeeded evs \<and> Q a (cs @ map call_of evs))"
  proof (rule emits_attemptE[OF assms(1)[unfolded does_def]], goal_cases)
    case (1 b evs)
    with 2 assms(2) have "does (bindE (change_call sdk (HelperRemove h)) (\<lambda>_. returnE b))
        (\<lambda>b cs'. Q b (cs @ map call_of evs @ cs'))"
      by (intro does_bind[OF removed] does_return) auto
    with 1 show ?case unfolding does_def by (auto elim!: emits_mono)
  next
    case (2 e evs)
    have "does (bindE (change_call sdk (HelperRemove h)) (\<lambda>_. raiseE e)) (\<lambda>_ _. False)"
      by (intro does_bind[OF removed] does_raise)
    then show ?case unfolding does_def by (auto elim!: emits_mono)
  qed
  with a show ?case by (simp add: does_def)
qed

lemma does_chmod: "Q () [HelperChmod h mode] \<Longrightarrow> does (chmod_content sdk h mode) Q"
  unfolding chmod_content_def
  by (rule does_bind[where P = "\<lambda>_ cs. cs = [HelperChmod h mode]"])
    (auto intro!: does_done does_bind[where P = "\<lambda>_ cs. cs = []"] does_lift does_require)

lemma does_materialize_artifact:
  "does (materialize_configuration_artifact sdk volume a)
     (\<lambda>_ cs. \<exists>h. cs = mutation_calls (MaterializeArtifact volume a) h j)"
  unfolding materialize_configuration_artifact_def
proof (rule does_with_helper[where P = "\<lambda>h _ cs. cs = [HelperStart h, HelperPut h (artifact_archive a), HelperChmod h (ca_mode a)]"],
    goal_cases)
  case (1 h)
  show ?case
    by (rule does_bind[where P = "\<lambda>_ cs. cs = [HelperStart h]"], rule does_change, simp,
        rule does_bind[where P = "\<lambda>_ cs. cs = [HelperPut h (artifact_archive a)]"], rule does_change, simp,
        rule does_chmod, simp)
qed simp

lemma does_materialize_secret:
  "does (materialize_secret_file sdk volume secret mode uid)
     (\<lambda>_ cs. \<exists>h. cs = mutation_calls (MaterializeSecret volume secret mode uid) h j)"
  unfolding materialize_secret_file_def
proof (rule does_if, rule does_raise, rule does_with_helper[where P = "\<lambda>h _ cs. cs =
      [HelperStart h, HelperPut h (secret_archive secret mode uid)] @ (if uid = 0 then [HelperChmod h mode] else [])"],
    goal_cases)
  case (1 h)
  show ?case
    by (rule does_bind[where P = "\<lambda>_ cs. cs = [HelperStart h]"], rule does_change, simp,
        rule does_bind[where P = "\<lambda>_ cs. cs = [HelperPut h (secret_archive secret mode uid)]"], rule does_change, simp)
      (auto intro!: does_if does_chmod does_return)
qed auto

lemma does_no_identity: "does m Q \<Longrightarrow> does (no_identity m) (\<lambda>_ cs. Q () cs)"
  unfolding no_identity_def by (erule does_bind) (auto intro: does_return)

lemma does_on_container: "does (on_container sdk name call) (\<lambda>_ cs. cs = [GetContainer name, call])"
  unfolding on_container_def
  by (rule does_bind[where P = "\<lambda>_ cs. cs = [GetContainer name]"], rule does_fetch, simp,
      rule does_bind[where P = "\<lambda>_ cs. cs = [call]"], rule does_change, simp, rule does_return, simp)

lemma does_on_network: "does (on_network sdk name call) (\<lambda>_ cs. cs = [GetNetwork name, call])"
  unfolding on_network_def
  by (rule does_bind[where P = "\<lambda>_ cs. cs = [GetNetwork name]"], rule does_fetch, simp,
      rule does_bind[where P = "\<lambda>_ cs. cs = [call]"], rule does_change, simp, rule does_return, simp)

lemma does_remove_configuration_volume:
  "does (sdk_remove_configuration_volume sdk v) (\<lambda>_ cs. cs = [GetVolume (cv_name v), VolumeRemove (cv_name v)])"
  unfolding sdk_remove_configuration_volume_def
  by (rule does_if, rule does_raise, rule does_bind[where P = "\<lambda>_ cs. cs = [GetVolume (cv_name v)]"], rule does_fetch, simp,
      rule does_bind[where P = "\<lambda>_ cs. cs = []"], rule does_lift, simp,
      rule does_if, rule does_raise, rule does_catch_raise, rule does_change, simp)

lemma does_create_container:
  "does (sdk_create_container sdk sp) (\<lambda>_ cs. \<exists>j. cs = mutation_calls (CreateContainer sp) h j)"
  unfolding sdk_create_container_def container_create_call_def
  by (rule does_bind[where P = "\<lambda>k cs. cs = [] \<and> k = container_create_kwargs sp"],
      rule does_catch_raise, rule does_return, simp,
      rule does_bind[where P = "\<lambda>_ cs. cs = [EndpointConfig (sp_aliases sp)]"],
      rule does_catch_raise, rule does_query, simp)
    (auto intro!: does_bind[OF does_catch_raise[OF does_create_exact]] does_return split: prod.splits)

lemma does_run_container:
  "does (sdk_run_container sdk sp) (\<lambda>_ cs. \<exists>h. cs = mutation_calls (RunContainer sp) h j)"
  unfolding sdk_run_container_def
proof (rule does_bind[where P = "\<lambda>_ cs. cs = [ContainerCreate (sp_image sp) (container_create_kwargs sp) None]"], goal_cases)
  case 1
  show ?case by (rule does_create) simp
next
  case (2 a cs)
  obtain h k where a: "a = (h, k)" by (cases a)
  show ?case
    unfolding a prod.case 2
    by (rule does_bind[where P = "\<lambda>_ cs. cs = [GetNetwork (sp_network sp)]"], rule does_fetch, simp,
        rule does_bind[where P = "\<lambda>_ cs. cs = [NetworkConnect (sp_network sp) h (sp_aliases sp)]"], rule does_change, simp,
        rule does_bind[where P = "\<lambda>_ cs. cs = [ContainerStart h]"], rule does_change, simp, rule does_return, auto)
qed

lemma does_mutate: "does (sdk_mutate sdk mu) (\<lambda>_ cs. \<exists>h j. cs = mutation_calls mu h j)"
proof (cases mu)
  case (CreateContainer sp)
  then show ?thesis by (auto intro: does_mono[OF does_create_container])
next
  case (RunContainer sp)
  then show ?thesis by (auto intro: does_mono[OF does_run_container])
qed (auto intro!: does_mono[OF does_no_identity[OF does_change_exact]] does_mono[OF does_on_container] does_mono[OF does_on_network]
    does_mono[OF does_no_identity[OF does_materialize_artifact]] does_mono[OF does_no_identity[OF does_materialize_secret]]
    does_mono[OF does_no_identity[OF does_remove_configuration_volume]])

text \<open>
  C25: a change of the runtime that returns has made exactly the SDK calls it stands for, in their
  order, each of them successful: the abstract changes the runtime reasons about are refined by the
  client.
\<close>

theorem change_refined:
  assumes "sdk_mutate sdk mu s = (Inr x, s')" and "trace s' = trace s @ evs"
  shows "list_all sdk_succeeded evs \<and> (\<exists>h j. map call_of evs = mutation_calls mu h j)"
  using emitsD[OF does_mutate[unfolded does_def] assms] by auto

section \<open>Orders\<close>

lemma str_le_refl [simp]: "str_le s s"
  by (induction s) auto

lemma str_le_total: "str_le a b \<or> str_le b a"
  by (induction a b rule: str_le.induct) (auto simp: linorder_neq_iff simp flip: code_of_inject)

lemma str_le_trans: "str_le a b \<Longrightarrow> str_le b c \<Longrightarrow> str_le a c"
proof (induction a b arbitrary: c rule: str_le.induct)
  case (3 x xs y ys)
  then show ?case by (cases c) auto
qed auto

lemma str_le_Nil [simp]: "str_le s [] \<longleftrightarrow> s = []"
  by (cases s) auto

lemma str_le_antisym: "str_le a b \<Longrightarrow> str_le b a \<Longrightarrow> a = b"
  by (induction a b rule: str_le.induct) auto

text \<open>The sorting of the SDK client, for any total preorder.\<close>

locale sorting =
  fixes le :: "'a \<Rightarrow> 'a \<Rightarrow> bool"
  assumes total: "le a b \<or> le b a" and transitive: "le a b \<Longrightarrow> le b c \<Longrightarrow> le a c"
begin

lemma mset_insert_by: "mset (insert_by le x ys) = add_mset x (mset ys)"
  by (induction ys) auto

lemma mset_sort_by: "mset (sort_by le xs) = mset xs"
  by (induction xs) (auto simp: sort_by_def mset_insert_by)

lemma sorted_insert_by: "sorted_wrt le ys \<Longrightarrow> sorted_wrt le (insert_by le x ys)"
proof (induction ys)
  case (Cons y ys)
  have "set (insert_by le x ys) = insert x (set ys)"
    using mset_insert_by[of x ys] by (metis set_mset_mset set_mset_add_mset_insert)
  with Cons total[of x y] show ?case by (auto intro: transitive)
qed simp

lemma sorted_sort_by: "sorted_wrt le (sort_by le xs)"
  by (induction xs) (auto simp: sort_by_def sorted_insert_by)

lemma set_sort_by: "set (sort_by le xs) = set xs"
  using mset_sort_by by (metis set_mset_mset)

lemma distinct_sort_by: "distinct (map f xs) \<Longrightarrow> distinct (map f (sort_by le xs))"
  by (metis mset_sort_by mset_map mset_eq_imp_distinct_iff)

end

interpretation by_network: sorting "\<lambda>a b. str_le (na_network a) (na_network b)"
  by (rule sorting.intro) (rule str_le_total, erule (1) str_le_trans)

interpretation by_text: sorting str_le
  by (rule sorting.intro) (rule str_le_total, erule (1) str_le_trans)

section \<open>Inspections\<close>

lemma attachment_of_Inr:
  "attachment_of details = Inr a \<Longrightarrow> hex64 (na_network a) \<and> json_get details ''NetworkID'' = JStr (na_network a)
     \<and> (\<forall>s. na_address a = Some s \<longrightarrow> (\<exists>ip. ip_address s = Some ip \<and> show_ip ip = s))"
  by (auto simp: attachment_of_def bindR_Inr_iff attachment_address_def is_docker_identity_def json_str_def
      split: json.splits if_splits option.splits)

lemma attachment_entries_Inr:
  "attachment_entries nonrunning unavailable acc details = Inr (un, as)
    \<Longrightarrow> (un \<longleftrightarrow> unavailable \<or> list_ex (unassigned nonrunning) details)
      \<and> (\<exists>new. as = acc @ new
          \<and> (\<not> list_ex (unassigned nonrunning) details \<longrightarrow> list_all2 (\<lambda>d a. attachment_of d = Inr a) details new)
          \<and> (distinct (map na_network acc) \<longrightarrow> distinct (map na_network as)))"
proof (induction details arbitrary: unavailable acc)
  case (Cons d ds)
  show ?case
  proof (cases "unassigned nonrunning d")
    case True
    with Cons.prems Cons.IH[of True acc] show ?thesis by (auto split: if_splits)
  next
    case False
    with Cons.prems obtain a where a: "attachment_of d = Inr a" "na_network a \<notin> set (map na_network acc)"
      and rest: "attachment_entries nonrunning unavailable (acc @ [a]) ds = Inr (un, as)"
      by (auto simp: bindR_Inr_iff split: if_splits)
    from Cons.IH[OF rest] False a show ?thesis by auto
  qed
qed simp

text \<open>
  the network attachments of a container are known only when the daemon assigned all of them;
  then they are all its attachments, ordered by the network's identity and without a repeated
  one, with canonical identities and addresses.
\<close>

theorem attachments_complete:
  assumes "network_attachments attrs = Inr (Some as)"
  shows "\<exists>networks. json_get (json_get attrs ''NetworkSettings'') ''Networks'' = JObj networks
    \<and> distinct (map na_network as) \<and> sorted_wrt (\<lambda>a b. str_le (na_network a) (na_network b)) as
    \<and> mset (map Inr as) = mset (map (attachment_of \<circ> snd) networks)
    \<and> (\<forall>a \<in> set as. hex64 (na_network a)
      \<and> (\<forall>s. na_address a = Some s \<longrightarrow> (\<exists>ip. ip_address s = Some ip \<and> show_ip ip = s)))"
proof -
  from assms obtain networks as' where n: "json_get (json_get attrs ''NetworkSettings'') ''Networks'' = JObj networks"
    and entries: "attachment_entries (json_get (json_get attrs ''State'') ''Running'' = JBool False) False []
        (map snd networks) = Inr (False, as')"
    and as: "as = sort_by (\<lambda>a b. str_le (na_network a) (na_network b)) as'"
    by (auto simp: network_attachments_def Let_def bindR_Inr_iff split: if_splits json.splits)
  from attachment_entries_Inr[OF entries]
  have all: "list_all2 (\<lambda>d a. attachment_of d = Inr a) (map snd networks) as'" and d: "distinct (map na_network as')"
    by auto
  have "map (attachment_of \<circ> snd) networks = map Inr as'"
    using all by (auto simp: list_all2_conv_all_nth intro!: nth_equalityI)
  then have "mset (map Inr as) = mset (map (attachment_of \<circ> snd) networks)"
    by (simp add: as by_network.mset_sort_by)
  moreover have "\<forall>a \<in> set as. hex64 (na_network a)
      \<and> (\<forall>s. na_address a = Some s \<longrightarrow> (\<exists>ip. ip_address s = Some ip \<and> show_ip ip = s))"
  proof
    fix a
    assume "a \<in> set as"
    with all obtain d where "attachment_of d = Inr a"
      by (auto simp: as by_network.set_sort_by list_all2_conv_all_nth in_set_conv_nth)
    from attachment_of_Inr[OF this] show "hex64 (na_network a)
      \<and> (\<forall>s. na_address a = Some s \<longrightarrow> (\<exists>ip. ip_address s = Some ip \<and> show_ip ip = s))" by blast
  qed
  ultimately show ?thesis
    using n d as by_network.distinct_sort_by by_network.sorted_sort_by by blast
qed

lemma observed_mounts_Some:
  "observed_mounts mounts = Some binds \<Longrightarrow> mount \<in> set mounts
    \<Longrightarrow> \<exists>x. observed_mount mount = Inr x \<and> (\<forall>m. x = Some m \<longrightarrow> m \<in> set binds)"
  by (induction mounts arbitrary: binds) (auto split: sum.splits option.splits)

lemma observed_mount_Inr:
  assumes "observed_mount mount = Inr x"
    and "json_get mount ''Type'' = JStr ''bind'' \<or> json_get mount ''Destination'' = JStr docker_socket_path"
  shows "\<exists>m. x = Some m \<and> json_get mount ''Type'' = JStr ''bind'' \<and> json_get mount ''Source'' = JStr (bm_source m)
    \<and> json_get mount ''Destination'' = JStr (bm_target m) \<and> json_get mount ''RW'' = JBool (\<not> bm_read_only m)"
  using assms by (auto simp: observed_mount_def split: json.splits if_splits)

lemma granted_binds:
  "granted_authority rq ci \<Longrightarrow> ci_binds ci = Some binds \<Longrightarrow> m \<in> set binds
    \<Longrightarrow> rr_deliveries rq \<noteq> [] \<and> m \<in> {socket_mount, proxy_mount}"
  by (auto simp: granted_authority_def split: option.splits if_splits)

text \<open>
  a container whose authority was found to be the granted one has, by the daemon's own account, no
  bind mount and nothing mounted at the Docker socket, unless the request delivers an authority; and
  then only the socket itself.
\<close>

theorem granted_container_has_no_other_mount:
  assumes "container_of transports r = Inr ci" and "granted_authority rq ci"
    and "json_get (sr_attrs r) ''Mounts'' = JList mounts" and "mount \<in> set mounts"
    and "json_get mount ''Type'' = JStr ''bind'' \<or> json_get mount ''Destination'' = JStr docker_socket_path"
  shows "rr_deliveries rq \<noteq> [] \<and> json_get mount ''Destination'' = JStr docker_socket_path
    \<and> json_get mount ''Source'' \<in> {JStr docker_socket_path, JStr desktop_proxy}"
proof -
  from assms(1) have "ci_binds ci = observed_bind_mounts (sr_attrs r)"
    by (auto simp: container_of_def Let_def bindR_Inr_iff)
  with assms(2,3) obtain binds where binds: "ci_binds ci = Some binds" "observed_mounts mounts = Some binds"
    by (auto simp: granted_authority_def observed_bind_mounts_def split: option.splits if_splits)
  from observed_mounts_Some[OF binds(2) assms(4)] obtain x where
    x: "observed_mount mount = Inr x" "\<forall>m. x = Some m \<longrightarrow> m \<in> set binds" by blast
  from observed_mount_Inr[OF x(1) assms(5)] obtain m where "x = Some m"
    and m: "json_get mount ''Source'' = JStr (bm_source m)" "json_get mount ''Destination'' = JStr (bm_target m)" by blast
  with x granted_binds[OF assms(2) binds(1)] have "rr_deliveries rq \<noteq> [] \<and> m \<in> {socket_mount, proxy_mount}" by blast
  with m show ?thesis by (auto simp: socket_mount_def proxy_mount_def docker_socket_def docker_socket_path_def)
qed

lemma http_probe_result_Inr:
  assumes "http_probe_result loads output code maximum expected = Inr p"
  shows "p = unavailable_probe \<or> (\<exists>row category bytes. 0 \<le> bytes \<and> bytes \<le> maximum
    \<and> category_consistent category (json_get row ''status_code'') bytes (json_get row ''match'') code maximum expected
    \<and> p = \<lparr>hp_status = (case json_get row ''status_code'' of JInt i \<Rightarrow> Some i | _ \<Rightarrow> None), hp_size = bytes,
           hp_exit = code, hp_category = category,
           hp_matches = (case json_get row ''match'' of JBool b \<Rightarrow> Some b | _ \<Rightarrow> None)\<rparr>)"
proof (cases "loads output")
  case (Inl e)
  with assms show ?thesis
    by (cases e) (auto simp: http_probe_result_def split: fault_class.splits)
next
  case (Inr row)
  show ?thesis
  proof (cases "category_of (json_get row ''category'')")
    case None
    with assms Inr show ?thesis by (simp add: http_probe_result_def split: if_splits)
  next
    case (Some category)
    show ?thesis
    proof (cases "json_get row ''response_bytes''")
      case (JInt bytes)
      with assms Inr Some show ?thesis
        unfolding http_probe_result_def by (simp split: if_splits) (metis not_less)
    qed (use assms Inr Some in \<open>simp_all add: http_probe_result_def split: if_splits\<close>)
  qed
qed

text \<open>
  the result of an HTTP probe never claims more than the helper's answer: its size is within
  the bound, a completed probe ended normally with a status between 100 and 599 and compared the
  body exactly when a digest was expected, and a rejected one saw a redirection.
\<close>

theorem probe_result_within_answer:
  assumes "http_probe_result loads output code maximum expected = Inr p" and "0 \<le> maximum"
  shows "0 \<le> hp_size p \<and> hp_size p \<le> maximum
    \<and> (hp_category p = COMPLETED \<longrightarrow> hp_exit p = 0 \<and> code = 0
         \<and> (\<exists>s. hp_status p = Some s \<and> 100 \<le> s \<and> s \<le> 599) \<and> (hp_matches p \<noteq> None \<longleftrightarrow> expected))
    \<and> (hp_category p = RESPONSE_REJECTED \<longrightarrow> (\<exists>s. hp_status p = Some s \<and> 300 \<le> s \<and> s \<le> 399) \<and> hp_size p = 0)
    \<and> (hp_category p \<in> {PROBE_TIMED_OUT, UNAVAILABLE_PROBE} \<longrightarrow> hp_status p = None \<and> hp_size p = 0 \<and> hp_exit p \<noteq> 0)"
proof -
  consider "p = unavailable_probe"
    | row category bytes where "0 \<le> bytes" "bytes \<le> maximum"
      "category_consistent category (json_get row ''status_code'') bytes (json_get row ''match'') code maximum expected"
      "p = \<lparr>hp_status = (case json_get row ''status_code'' of JInt i \<Rightarrow> Some i | _ \<Rightarrow> None), hp_size = bytes,
            hp_exit = code, hp_category = category,
            hp_matches = (case json_get row ''match'' of JBool b \<Rightarrow> Some b | _ \<Rightarrow> None)\<rparr>"
    using http_probe_result_Inr[OF assms(1)] by blast
  then show ?thesis
  proof cases
    case 1
    with assms(2) show ?thesis by (simp add: unavailable_probe_def)
  next
    case 2
    then show ?thesis
      by (cases category) (auto simp: category_consistent_def status_between_def is_json_bool_def split: json.splits if_splits)
  qed
qed

section \<open>Recipients\<close>

definition file_read_back :: "'w docker_sdk \<Rightarrow> recipient_request \<Rightarrow> sdk_event list \<Rightarrow> secret_mount \<times> string \<times> string \<times> string \<Rightarrow> bool" where
  "file_read_back sdk rp evs = (\<lambda>(m, target, secret, mode). sm_target m = target
     \<and> (\<exists>stream f. ArchiveFetched (ArchiveGet (rp_container rp) target) (Inr stream) \<in> set evs
         \<and> secret_file_inspection sdk (last_segment target) stream = Inr f
         \<and> recipient_file_matches secret mode (rp_owner rp) f))"

lemma delivers_recipient_files:
  "delivers (verify_recipient_files sdk (rp_container rp) (rp_owner rp) pairs)
     (\<lambda>_ evs. list_all (file_read_back sdk rp evs) pairs)"
proof (induction pairs)
  case (Cons p pairs)
  obtain m target secret mode where p: "p = (m, target, secret, mode)" by (cases p)
  show ?case
    unfolding p verify_recipient_files.simps archive_call_def
  proof (rule delivers_bind_require, rule delivers_bind_call, rule delivers_bind_lift, rule delivers_bind_require)
    fix stream f
    assume *: "sm_target m = target" "secret_file_inspection sdk (last_segment (sm_target m)) stream = Inr f"
      "recipient_file_matches secret mode (rp_owner rp) f"
    show "delivers (verify_recipient_files sdk (rp_container rp) (rp_owner rp) pairs)
        (\<lambda>_ evs. list_all (file_read_back sdk rp (ArchiveFetched (ArchiveGet (rp_container rp) (sm_target m)) (Inr stream) # evs))
           ((m, target, secret, mode) # pairs))"
      by (rule delivers_mono[OF Cons.IH]) (use * in \<open>fastforce simp: file_read_back_def list_all_iff\<close>)
  qed
qed (simp add: deliver_intros)

text \<open>
  a verified recipient of secrets was read twice with the same facts, before and after its files;
  each of its secret files was read from the container itself, and has the digest of the resolved
  value, its mode and its owner.
\<close>

theorem recipient_verified:
  assumes "sdk_verify_secret_recipient sdk rp s = (Inr (), s')" and "trace s' = trace s @ evs"
  shows "\<exists>first final facts. let ident = rp_container rp;
        facts_of = recipient_of ident (rp_image rp) (rp_environment rp) (rp_mounts rp) (rp_files rp \<noteq> []) (rp_owner rp)
      in SdkAnswered (AttributesReload ident) (Inr first) \<in> set evs \<and> facts_of first = Inr facts
       \<and> last evs = SdkAnswered (AttributesReload ident) (Inr final) \<and> facts_of final = Inr facts
       \<and> length (rp_files rp) = length (rp_mounts rp)
       \<and> list_all (file_read_back sdk rp evs) (zip (rp_mounts rp) (rp_files rp))"
    (is "?P () evs")
proof -
  have y: "delivers (sdk_verify_secret_recipient sdk rp) ?P"
    unfolding sdk_verify_secret_recipient_def Let_def read_recipient_def query_call_def bindE_assoc
    apply (rule delivers_if, rule delivers_raise)
    apply (rule delivers_bind_call, rule delivers_bind_call, rule delivers_bind_lift)
    apply (rule delivers_bind[OF delivers_recipient_files])
    apply (rule delivers_bind_call, rule delivers_bind_lift, rule delivers_require)
    apply (auto simp: list_all_iff file_read_back_def)
    done
  from deliversD[OF y assms] show ?thesis .
qed

section \<open>Samples\<close>

definition sample_identity :: string where
  "sample_identity = replicate 64 CHR ''a''"

definition sample_volume_mount :: json where
  "sample_volume_mount = JObj [(''Type'', JStr ''volume''), (''Name'', JStr ''v''), (''Source'', JStr ''v''),
     (''Target'', JStr ''/t''), (''Destination'', JStr ''/t''), (''ReadOnly'', JBool True), (''RW'', JBool False),
     (''VolumeOptions'', JObj [(''Subpath'', JStr ''content'')])]"

definition sample_image_id :: string where
  "sample_image_id = ''sha256:'' @ sample_identity"

definition sample_attrs :: json where
  "sample_attrs = JObj [(''Id'', JStr sample_identity), (''Image'', JStr sample_image_id),
     (''Config'', JObj [(''User'', JStr []), (''Env'', JList [JStr ''A=1''])]), (''State'', JObj [(''Running'', JBool True)]),
     (''NetworkSettings'', JObj [(''Networks'', JObj [(''n'', JObj [(''NetworkID'', JStr sample_identity), (''IPAddress'', JStr [])])])]),
     (''HostConfig'', JObj [(''Mounts'', JList [sample_volume_mount]), (''GroupAdd'', JNull)]),
     (''Mounts'', JList [sample_volume_mount])]"

definition sample_resource :: sdk_resource where
  "sample_resource = \<lparr>sr_name = ''n'', sr_attrs = sample_attrs, sr_image_id = Some sample_image_id, sr_tags = [], sr_short_id = None\<rparr>"

definition sample_secret :: "nat list" where
  "sample_secret = utf8_bytes ''s''"

text \<open>A daemon on which everything answers.\<close>

definition sample_sdk :: "unit docker_sdk" where
  "sample_sdk =
     \<lparr>sdk_network = (\<lambda>_ w. (Inr sample_resource, w)), sdk_volume = (\<lambda>_ w. (Inr sample_resource, w)),
      sdk_image = (\<lambda>_ w. (Inr sample_resource, w)), sdk_container = (\<lambda>_ w. (Inr sample_resource, w)),
      sdk_change = (\<lambda>_ w. (Inr (), w)), sdk_create = (\<lambda>_ w. (Inr (''h'', sample_attrs), w)),
      sdk_exec = (\<lambda>_ _ w. (Inr (ExecPair 0), w)), sdk_archive = (\<lambda>_ w. (Inr ChunkEnd, w)),
      sdk_wait = (\<lambda>_ _ w. (Inr JNull, w)), sdk_logs = (\<lambda>_ w. (Inr (LogText []), w)),
      sdk_query = (\<lambda>_ w. (Inr sample_attrs, w)), sdk_unix_path = (\<lambda>w. (Inr None, w)),
      sdk_members = (\<lambda>_. Inr [\<lparr>ar_name = ''t'', ar_regular = True, ar_sparse = False,
        ar_size = int (length sample_secret), ar_uid = 0, ar_mode = 256, ar_body = Some sample_secret\<rparr>]),
      sdk_content = (\<lambda>_. Inr None), sdk_json = (\<lambda>_. Inl value_error), sdk_archive_error = (\<lambda>_. True),
      sdk_replace = (\<lambda>_. []), sdk_maximum = 1, sdk_transports = [''tcp''], sdk_tls = False\<rparr>"

definition idle_sdk :: "(sdk_event, unit) st" where
  "idle_sdk = \<lparr>trace = [], world = ()\<rparr>"

definition sample_materialized :: "sdk_event list" where
  "sample_materialized = map (\<lambda>c. SdkCalled c (Inr []))
     [HelperStart ''h'', HelperPut ''h'' (secret_archive ''s'' ''0400'' 0), HelperChmod ''h'' ''0400'', HelperRemove ''h'']"

lemma sample_materializes:
  "sdk_mutate sample_sdk (MaterializeSecret ''v'' ''s'' ''0400'' 0) idle_sdk =
     (Inr [], \<lparr>trace = SdkCalled (HelperCreate ''v'' False) (Inr ''h'') # sample_materialized, world = ()\<rparr>)"
  by (simp add: no_identity_def materialize_secret_file_def with_helper_def create_call_def change_call_def chmod_content_def
      eff_defs sample_sdk_def idle_sdk_def sample_materialized_def sdk_done_def sdk_created_def)

lemma change_refined_witness:
  "\<exists>h j. map call_of (SdkCalled (HelperCreate ''v'' False) (Inr ''h'') # sample_materialized)
     = mutation_calls (MaterializeSecret ''v'' ''s'' ''0400'' 0) h j"
  using change_refined[OF sample_materializes] by (simp add: idle_sdk_def)

definition sample_attachment :: network_attachment where
  "sample_attachment = \<lparr>na_network = sample_identity, na_address = None\<rparr>"

lemma sample_identity_hex [simp]: "hex64 sample_identity"
  by (simp add: hex64_def sample_identity_def list_all_iff lower_hex_def is_digit_def in_range_def code_of_def)

lemma sample_attached: "network_attachments sample_attrs = Inr (Some [sample_attachment])"
  by (simp add: network_attachments_def sample_attrs_def json_has_def unassigned_def attachment_of_def
      attachment_address_def is_docker_identity_def json_str_def sort_by_def sample_attachment_def)

lemma attachments_complete_witness:
  "\<exists>networks. json_get (json_get sample_attrs ''NetworkSettings'') ''Networks'' = JObj networks
     \<and> mset (map Inr [sample_attachment]) = mset (map (attachment_of \<circ> snd) networks)"
  using attachments_complete[OF sample_attached] by blast

definition sample_bind_attrs :: json where
  "sample_bind_attrs = JObj [(''Id'', JStr sample_identity), (''State'', JObj [(''Running'', JBool True)]),
     (''NetworkSettings'', JObj [(''Networks'', JObj [])]), (''HostConfig'', JObj [(''GroupAdd'', JList [JStr ''999''])]),
     (''Mounts'', JList [JObj [(''Type'', JStr ''bind''), (''Source'', JStr ''/var/run/docker.sock''),
        (''Destination'', JStr ''/var/run/docker.sock''), (''RW'', JBool True)]])]"

definition sample_bind_resource :: sdk_resource where
  "sample_bind_resource = sample_resource\<lparr>sr_attrs := sample_bind_attrs\<rparr>"

definition sample_bound :: container_inspection where
  "sample_bound = (case container_of [] sample_bind_resource of Inr ci \<Rightarrow> ci | Inl _ \<Rightarrow> sample_container StartNode)"

definition sample_granting :: runtime_request where
  "sample_granting = (sample_effect StartNode)\<lparr>rr_deliveries := [LocalDockerSocketMount]\<rparr>"

lemma sample_image_canonical: "is_canonical_image_id (Some sample_image_id)"
  by (simp add: is_canonical_image_id_def sample_image_id_def py_startswith_def)

lemma sample_bound_of: "container_of [] sample_bind_resource = Inr sample_bound"
  by (simp add: sample_bound_def container_of_def Let_def sample_bind_resource_def sample_resource_def sample_bind_attrs_def
      container_running_def network_attachments_def json_has_def published_ports_def network_settings_def json_get_or_def
      private_addresses_def container_image_id_def sample_image_canonical network_names_def sort_by_def)

lemma sample_bound_granted: "granted_authority sample_granting sample_bound"
  by code_simp

lemma granted_container_has_no_other_mount_witness:
  "rr_deliveries sample_granting \<noteq> []"
  using granted_container_has_no_other_mount[OF sample_bound_of sample_bound_granted, of "[JObj [(''Type'', JStr ''bind''),
      (''Source'', JStr ''/var/run/docker.sock''), (''Destination'', JStr ''/var/run/docker.sock''), (''RW'', JBool True)]]"]
  by (simp add: sample_bind_resource_def sample_resource_def sample_bind_attrs_def docker_socket_path_def)

definition sample_probe_answer :: json where
  "sample_probe_answer = JObj [(''category'', JStr ''completed''), (''match'', JNull), (''response_bytes'', JInt 2), (''status_code'', JInt 200)]"

definition sample_probe :: http_probe where
  "sample_probe = \<lparr>hp_status = Some 200, hp_size = 2, hp_exit = 0, hp_category = COMPLETED, hp_matches = None\<rparr>"

lemma sample_probe_result: "http_probe_result (\<lambda>_. Inr sample_probe_answer) ''x'' 0 100 False = Inr sample_probe"
  by code_simp

lemma probe_result_within_answer_witness: "hp_size sample_probe \<le> 100 \<and> (\<exists>s. hp_status sample_probe = Some s \<and> s \<le> 599)"
  using probe_result_within_answer[OF sample_probe_result] by (simp add: sample_probe_def)

definition sample_recipient :: recipient_request where
  "sample_recipient = \<lparr>rp_container = sample_identity, rp_environment = [(''A'', ''1'')],
     rp_mounts = [\<lparr>sm_target = ''/t'', sm_volume = ''v''\<rparr>], rp_files = [(''/t'', ''s'', ''0400'')],
     rp_image = \<lparr>ii_id = sample_image_id, ii_digests = [], ii_user = Some []\<rparr>, rp_owner = Some 0\<rparr>"

definition sample_facts :: recipient_facts where
  "sample_facts = \<lparr>rf_identity = JStr sample_identity, rf_image = JStr sample_image_id, rf_user = JStr [],
     rf_environment = [(''A'', ''1'')], rf_mounts = [(''v'', ''/t'', ''content'')]\<rparr>"

lemma sample_owner: "secret_file_owner_uid (Some []) = Some 0"
  by (simp add: secret_file_owner_uid_def)

lemma sample_size: "length (utf8_bytes ''A=1'') = 3"
  by code_simp

lemma sample_recipient_facts:
  "recipient_of sample_identity (rp_image sample_recipient) [(''A'', ''1'')] [\<lparr>sm_target = ''/t'', sm_volume = ''v''\<rparr>] True (Some 0)
     sample_attrs = Inr sample_facts"
  by (simp add: recipient_of_def running_recipient_def sample_attrs_def json_get_or_def json_has_def sample_recipient_def
      user_value_def resource_identity_def recipient_owner_def user_text_def sample_owner container_variables_def
      sample_size readonly_content_mount_facts_def mount_list_def mounted_at_def sample_volume_mount_def
      content_mount_def readonly_volume_def sort_by_def sample_facts_def)

lemma sample_segment: "last_segment ''/t'' = ''t''"
  by code_simp

lemma sample_mode: "octal_value ''0400'' = 256"
  by code_simp

definition sample_read_back :: "sdk_event list" where
  "sample_read_back = [ResourceFetched (GetContainer sample_identity) (Inr sample_resource),
     SdkAnswered (AttributesReload sample_identity) (Inr sample_attrs),
     ArchiveFetched (ArchiveGet sample_identity ''/t'') (Inr ChunkEnd),
     SdkAnswered (AttributesReload sample_identity) (Inr sample_attrs)]"

lemma sample_recipient_simps:
  "rp_container sample_recipient = sample_identity" "rp_environment sample_recipient = [(''A'', ''1'')]"
  "rp_mounts sample_recipient = [\<lparr>sm_target = ''/t'', sm_volume = ''v''\<rparr>]"
  "rp_files sample_recipient = [(''/t'', ''s'', ''0400'')]" "rp_owner sample_recipient = Some 0"
  by (simp_all add: sample_recipient_def)

lemma sample_sdk_ports:
  "sdk_container sample_sdk n w = (Inr sample_resource, w)" "sdk_query sample_sdk c w = (Inr sample_attrs, w)"
  "sdk_archive sample_sdk c w = (Inr ChunkEnd, w)"
  by (simp_all add: sample_sdk_def)

lemma sample_file:
  "secret_file_inspection sample_sdk ''t'' ChunkEnd =
     Inr \<lparr>sf_digest = sha256_hex sample_secret, sf_uid = 0, sf_mode = 256, sf_regular = True\<rparr>"
  by (simp add: secret_file_inspection_def sample_sdk_def sound_member_def member_body_def maximum_archive_def
      sample_secret_def utf8_bytes_def)

lemma sample_verifies:
  "sdk_verify_secret_recipient sample_sdk sample_recipient idle_sdk = (Inr (), \<lparr>trace = sample_read_back, world = ()\<rparr>)"
  by (simp add: sdk_verify_secret_recipient_def sample_recipient_simps sample_recipient_facts sample_segment sample_file
      recipient_file_matches_def sample_mode sample_secret_def Let_def read_recipient_def)
    (simp add: query_call_def archive_call_def eff_defs sample_sdk_ports idle_sdk_def sample_read_back_def
      sample_recipient_facts sample_file sample_secret_def)

lemma recipient_verified_witness:
  "list_all (file_read_back sample_sdk sample_recipient sample_read_back)
     (zip (rp_mounts sample_recipient) (rp_files sample_recipient))"
  using recipient_verified[OF sample_verifies] by (auto simp: idle_sdk_def Let_def)

end
