(* ===== verification/Docker_Acquisition.thy ===== *)
theory Docker_Acquisition
  imports Docker_Inspect Computations
begin

text \<open>
  The life of a \<open>DockerSdkClient\<close> (\<open>docker/sdk.py\<close>): its connection is made on the first use or at
  construction, checked, and closed once.  A Docker handle is a text; the files of a TLS client live
  in one directory.
\<close>

section \<open>Policies\<close>

definition unix_path_ok :: "string \<Rightarrow> bool" where
  "unix_path_ok path \<longleftrightarrow>
     1 < length path \<and> length path \<le> 4096 \<and> py_startswith path ''/''
     \<and> list_all (\<lambda>part. part \<notin> {[], ''.'', ''..''}) (tl (py_split CHR ''/'' path))
     \<and> list_all (\<lambda>c. \<not> (code_of c < 32 \<or> (127 \<le> code_of c \<and> code_of c \<le> 159) \<or> c \<in> {CHR ''?'', CHR ''#''})) path"

text \<open>A request timeout is a number; \<open>None\<close> is one that is not finite.\<close>

definition unix_timeout_ok :: "rat option \<Rightarrow> bool" where
  "unix_timeout_ok t = (case t of None \<Rightarrow> False | Some r \<Rightarrow> 0 < r \<and> r \<le> 60)"

definition make_unix_policy :: "string \<Rightarrow> rat option \<Rightarrow> dk_exn + string \<times> rat" where
  "make_unix_policy path timeout =
     (if unix_path_ok path \<and> unix_timeout_ok timeout then Inr (path, the timeout)
      else Inl (ProviderFault MaterialClass ''ValueError''))"

definition version_part :: "string \<Rightarrow> nat option" where
  "version_part s =
     (if s \<noteq> [] \<and> length s \<le> 3 \<and> list_all is_digit s \<and> (s = ''0'' \<or> hd s \<noteq> CHR ''0'')
      then Some (number 10 0 (map (\<lambda>c. code_of c - 48) s)) else None)"

definition unix_api_version :: "json \<Rightarrow> dk_exn + nat \<times> nat" where
  "unix_api_version j =
     (case j of
        JStr s \<Rightarrow>
          if 7 < length s then Inl UnixAcquisitionError
          else (case py_split CHR ''.'' s of
              [a, b] \<Rightarrow>
                (case (version_part a, version_part b) of
                   (Some x, Some y) \<Rightarrow> Inr (x, y)
                 | _ \<Rightarrow> Inl UnixAcquisitionError)
            | _ \<Rightarrow> Inl UnixAcquisitionError)
      | _ \<Rightarrow> Inl UnixAcquisitionError)"

definition version_le :: "nat \<times> nat \<Rightarrow> nat \<times> nat \<Rightarrow> bool" where
  "version_le a b \<longleftrightarrow> fst a < fst b \<or> (fst a = fst b \<and> snd a \<le> snd b)"

definition verify_unix_api_range :: "json \<Rightarrow> dk_exn + unit" where
  "verify_unix_api_range version =
     (if \<not> is_mapping version then Inl UnixAcquisitionError
      else bindR (unix_api_version (json_get version ''MinAPIVersion'')) (\<lambda>lo.
           bindR (unix_api_version (json_get version ''ApiVersion'')) (\<lambda>hi.
           requireR (version_le lo (1, 45) \<and> version_le (1, 45) hi) UnixAcquisitionError)))"

section \<open>The Docker module\<close>

datatype connection = AmbientConnection | UnixConnection string rat | TlsConnection string string string string

datatype client_event =
    HandleOpened connection "dk_exn + string"
  | TransportRead string "dk_exn + string option"
  | VersionRead string "dk_exn + json"
  | HandleClosed string "dk_exn + unit"
  | DirectoryMade "dk_exn + unit"
  | FilesWritten "dk_exn + unit"
  | DirectoryRemoved "dk_exn + unit"
  | BudgetChecked

record 'w docker_module =
  mo_open :: "connection \<Rightarrow> ('w, dk_exn, string) port"
  mo_transport :: "string \<Rightarrow> ('w, dk_exn, string option) port"
  mo_version :: "string \<Rightarrow> ('w, dk_exn, json) port"
  mo_close :: "string \<Rightarrow> ('w, dk_exn, unit) port"
  mo_make_directory :: "('w, dk_exn, unit) port"
  mo_write_files :: "string \<Rightarrow> string \<Rightarrow> string \<Rightarrow> ('w, dk_exn, unit) port"
  mo_remove_directory :: "('w, dk_exn, unit) port"
  mo_before :: "('w, dk_exn, unit) port option"

type_synonym ('w, 'a) client_eff = "((client_event, 'w) st, dk_exn, 'a) eff"

text \<open>The fields of a client that its methods change.\<close>

record sdk_client =
  sc_handle :: "string option"
  sc_connection :: connection
  sc_directory :: bool
  sc_closed :: bool

definition new_client :: "connection \<Rightarrow> sdk_client" where
  "new_client c = \<lparr>sc_handle = None, sc_connection = c, sc_directory = False, sc_closed = False\<rparr>"

definition try_call :: "('w, 'a) client_eff \<Rightarrow> ('w, dk_exn + 'a) client_eff" where
  "try_call m = attemptE m (\<lambda>e. returnE (Inl e)) (\<lambda>a. returnE (Inr a))"

definition open_handle :: "'w docker_module \<Rightarrow> connection \<Rightarrow> ('w, string) client_eff" where
  "open_handle mo c = callE (HandleOpened c) (mo_open mo c)"

definition close_handle :: "'w docker_module \<Rightarrow> string \<Rightarrow> ('w, unit) client_eff" where
  "close_handle mo h = callE (HandleClosed h) (mo_close mo h)"

definition remove_directory :: "'w docker_module \<Rightarrow> ('w, unit) client_eff" where
  "remove_directory mo = callE DirectoryRemoved (mo_remove_directory mo)"

definition before_call :: "'w docker_module \<Rightarrow> ('w, unit) client_eff" where
  "before_call mo = (case mo_before mo of None \<Rightarrow> returnE () | Some p \<Rightarrow> callE (\<lambda>_. BudgetChecked) p)"

section \<open>Connecting\<close>

text \<open>
  A method returns the client's next fields with its outcome.  A connection through a socket is
  verified; when that fails, its handle is closed and the client stays closed.
\<close>

definition unix_checks :: "'w docker_module \<Rightarrow> string \<Rightarrow> string \<Rightarrow> ('w, unit) client_eff" where
  "unix_checks mo path h =
     bindE (callE (TransportRead h) (mo_transport mo h)) (\<lambda>transport.
     bindE (requireE (transport = Some path) UnixAcquisitionError) (\<lambda>_.
     bindE (before_call mo) (\<lambda>_.
     bindE (callE (VersionRead h) (mo_version mo h)) (\<lambda>version.
     liftE (verify_unix_api_range version)))))"

definition failed_acquisition :: "dk_exn \<Rightarrow> dk_exn + unit \<Rightarrow> dk_exn" where
  "failed_acquisition e shut =
     (if \<not> dk_is_exception e then e
      else case shut of
          Inl c \<Rightarrow> if dk_is_exception c then UnixAcquisitionError else c
        | Inr _ \<Rightarrow> e)"

definition unix_client ::
  "'w docker_module \<Rightarrow> string \<Rightarrow> rat \<Rightarrow> sdk_client \<Rightarrow> ('w, sdk_client \<times> (dk_exn + string)) client_eff" where
  "unix_client mo path timeout sc =
     (let ended = sc\<lparr>sc_closed := True, sc_handle := None\<rparr>
      in bindE (try_call (bindE (before_call mo) (\<lambda>_. open_handle mo (UnixConnection path timeout)))) (\<lambda>opened.
         case opened of
           Inl e \<Rightarrow> returnE (ended, Inl e)
         | Inr h \<Rightarrow>
             bindE (try_call (unix_checks mo path h)) (\<lambda>checked. case checked of
                 Inr _ \<Rightarrow> returnE (sc, Inr h)
               | Inl e \<Rightarrow>
                   bindE (try_call (close_handle mo h)) (\<lambda>shut. returnE (ended, Inl (failed_acquisition e shut))))))"

definition remote_tls_client ::
  "'w docker_module \<Rightarrow> string \<Rightarrow> string \<Rightarrow> string \<Rightarrow> string \<Rightarrow> sdk_client
    \<Rightarrow> ('w, sdk_client \<times> (dk_exn + string)) client_eff" where
  "remote_tls_client mo endpoint ca cert key sc =
     bindE (try_call (callE DirectoryMade (mo_make_directory mo))) (\<lambda>made. case made of
       Inl e \<Rightarrow> returnE (sc, Inl e)
     | Inr _ \<Rightarrow>
         bindE (try_call (bindE (callE FilesWritten (mo_write_files mo ca cert key)) (\<lambda>_.
                  open_handle mo (TlsConnection endpoint ca cert key)))) (\<lambda>opened. case opened of
             Inr h \<Rightarrow> returnE (sc\<lparr>sc_directory := True\<rparr>, Inr h)
           | Inl e \<Rightarrow>
               if \<not> dk_is_exception e then returnE (sc\<lparr>sc_directory := True\<rparr>, Inl e)
               else bindE (try_call (remove_directory mo)) (\<lambda>removed. returnE (sc\<lparr>sc_directory := False\<rparr>,
                 case removed of
                   Inl e' \<Rightarrow> if dk_is_exception e' then Inl e else Inl e'
                 | Inr _ \<Rightarrow> Inl e))))"

definition closed_error :: dk_exn where
  "closed_error = ProviderFault OtherClass ''RuntimeError''"

definition connect_client :: "'w docker_module \<Rightarrow> sdk_client \<Rightarrow> ('w, sdk_client \<times> (dk_exn + string)) client_eff" where
  "connect_client mo sc =
     (if sc_closed sc then returnE (sc, Inl closed_error)
      else case sc_connection sc of
          UnixConnection path timeout \<Rightarrow> unix_client mo path timeout sc
        | AmbientConnection \<Rightarrow> bindE (try_call (open_handle mo AmbientConnection)) (\<lambda>r. returnE (sc, r))
        | TlsConnection endpoint ca cert key \<Rightarrow> remote_tls_client mo endpoint ca cert key sc)"

text \<open>\<open>_client\<close>: the handle, connecting when there is none yet.\<close>

definition client_handle :: "'w docker_module \<Rightarrow> sdk_client \<Rightarrow> ('w, sdk_client \<times> (dk_exn + string)) client_eff" where
  "client_handle mo sc =
     (if sc_closed sc then returnE (sc, Inl closed_error)
      else case sc_handle sc of
          Some h \<Rightarrow> returnE (sc, Inr h)
        | None \<Rightarrow>
            bindE (connect_client mo sc) (\<lambda>(sc', r). returnE (case r of
                Inr h \<Rightarrow> (sc'\<lparr>sc_handle := Some h\<rparr>, Inr h)
              | Inl e \<Rightarrow> (sc', Inl e))))"

section \<open>Closing\<close>

text \<open>
  The directory is removed also when the handle's close failed with an exception; an interruption of
  the close passes at once.
\<close>

definition close_sdk_client :: "'w docker_module \<Rightarrow> sdk_client \<Rightarrow> ('w, sdk_client \<times> (dk_exn + unit)) client_eff" where
  "close_sdk_client mo sc =
     (if sc_closed sc then returnE (sc, Inr ())
      else let sc' = sc\<lparr>sc_closed := True, sc_handle := None, sc_directory := False\<rparr>
           in bindE (case sc_handle sc of None \<Rightarrow> returnE (Inr ()) | Some h \<Rightarrow> try_call (close_handle mo h)) (\<lambda>shut.
              case shut of
                Inl e \<Rightarrow>
                  if \<not> dk_is_exception e then returnE (sc', Inl e)
                  else bindE (if sc_directory sc then try_call (remove_directory mo) else returnE (Inr ())) (\<lambda>removed.
                       returnE (sc', case removed of
                           Inl e' \<Rightarrow> if dk_is_exception e' then Inl e else Inl e'
                         | Inr _ \<Rightarrow> Inl e))
              | Inr _ \<Rightarrow>
                  bindE (if sc_directory sc then try_call (remove_directory mo) else returnE (Inr ())) (\<lambda>removed.
                  returnE (sc', removed))))"

section \<open>Lives of a client\<close>

text \<open>
  \<open>client_life mo sc evs\<close>: a client can have the fields \<open>sc\<close> after uses and closes of it that made the
  calls \<open>evs\<close>, whatever the daemon answered.
\<close>

inductive client_life :: "'w docker_module \<Rightarrow> sdk_client \<Rightarrow> client_event list \<Rightarrow> bool" for mo where
  client_made: "client_life mo (new_client c) []"
| client_used: "client_life mo sc evs \<Longrightarrow> client_handle mo sc s = (Inr (sc', r), s') \<Longrightarrow> trace s' = trace s @ new
    \<Longrightarrow> client_life mo sc' (evs @ new)"
| client_shut: "client_life mo sc evs \<Longrightarrow> close_sdk_client mo sc s = (Inr (sc', r'), s') \<Longrightarrow> trace s' = trace s @ new
    \<Longrightarrow> client_life mo sc' (evs @ new)"

fun handle_opened :: "client_event \<Rightarrow> string list" where
  "handle_opened (HandleOpened _ (Inr h)) = [h]"
| "handle_opened _ = []"

fun handle_closed :: "client_event \<Rightarrow> string list" where
  "handle_closed (HandleClosed h _) = [h]"
| "handle_closed _ = []"

definition opened_handles :: "client_event list \<Rightarrow> string list" where
  "opened_handles evs = concat (map handle_opened evs)"

definition closed_handles :: "client_event list \<Rightarrow> string list" where
  "closed_handles evs = concat (map handle_closed evs)"

definition held_handles :: "sdk_client \<Rightarrow> string list" where
  "held_handles sc = (case sc_handle sc of None \<Rightarrow> [] | Some h \<Rightarrow> [h])"

definition verified_handle :: "connection \<Rightarrow> client_event list \<Rightarrow> string \<Rightarrow> bool" where
  "verified_handle c evs h \<longleftrightarrow>
     (case c of
        UnixConnection path _ \<Rightarrow>
          TransportRead h (Inr (Some path)) \<in> set evs
          \<and> (\<exists>v. VersionRead h (Inr v) \<in> set evs \<and> verify_unix_api_range v = Inr ())
      | _ \<Rightarrow> True)"

text \<open>What one use or close adds: its events, the fields after it and the handle it kept.\<close>

definition kept_handles :: "sdk_client \<Rightarrow> sdk_client \<Rightarrow> client_event list \<Rightarrow> bool" where
  "kept_handles sc sc' evs \<longleftrightarrow>
     held_handles sc @ opened_handles evs = closed_handles evs @ held_handles sc'
     \<and> sc_connection sc' = sc_connection sc \<and> (sc_closed sc \<longrightarrow> sc' = sc \<and> evs = [])
     \<and> (sc_closed sc' \<longrightarrow> sc_handle sc' = None)
     \<and> (\<forall>h. sc_handle sc' = Some h \<longrightarrow> sc_handle sc = Some h \<or> verified_handle (sc_connection sc) evs h)"

lemma handles_simps [simp]:
  "opened_handles [] = []" "closed_handles [] = []"
  "opened_handles (ev # evs) = handle_opened ev @ opened_handles evs"
  "closed_handles (ev # evs) = handle_closed ev @ closed_handles evs"
  "opened_handles (evs @ evs') = opened_handles evs @ opened_handles evs'"
  "closed_handles (evs @ evs') = closed_handles evs @ closed_handles evs'"
  by (simp_all add: opened_handles_def closed_handles_def)

lemma delivers_try_call: "emits m R \<Longrightarrow> delivers (try_call m) (\<lambda>r evs. R evs r)"
  unfolding try_call_def by (erule delivers_attempt) (auto intro: delivers_return)

lemma emits_before: "emits (before_call mo) (\<lambda>evs r. opened_handles evs = [] \<and> closed_handles evs = [])"
  by (auto simp: before_call_def split: option.splits intro!: emit_intros)

lemma emits_open: "emits (open_handle mo c) (\<lambda>evs r. evs = [HandleOpened c r])"
  unfolding open_handle_def by (rule emits_callE) simp

lemma emits_close: "emits (close_handle mo h) (\<lambda>evs r. evs = [HandleClosed h r])"
  unfolding close_handle_def by (rule emits_callE) simp

lemma emits_unix_checks:
  "emits (unix_checks mo path h) (\<lambda>evs r. opened_handles evs = [] \<and> closed_handles evs = []
     \<and> (r = Inr () \<longrightarrow> verified_handle (UnixConnection path t) evs h))"
  unfolding unix_checks_def
  apply (rule emits_bindE[OF emits_callE_eq])
   apply (rule emits_required)
    apply (rule emits_bindE[OF emits_before])
     apply (rule emits_bindE[OF emits_callE_eq])
      apply (rule emits_liftE)
      apply (auto simp: verified_handle_def)
  done

text \<open>A connection attempt without a handle leaves none open, or returns one verified handle.\<close>

definition acquired :: "sdk_client \<Rightarrow> sdk_client \<times> (dk_exn + string) \<Rightarrow> client_event list \<Rightarrow> bool" where
  "acquired sc res evs \<longleftrightarrow>
     (case res of (sc', r) \<Rightarrow>
        sc_connection sc' = sc_connection sc \<and> sc_handle sc' = sc_handle sc
        \<and> (case r of
             Inr h \<Rightarrow> opened_handles evs = closed_handles evs @ [h] \<and> \<not> sc_closed sc' \<and> verified_handle (sc_connection sc) evs h
           | Inl _ \<Rightarrow> opened_handles evs = closed_handles evs))"

lemma delivers_unix_client:
  assumes "sc_handle sc = None" "\<not> sc_closed sc" "sc_connection sc = UnixConnection path t"
  shows "delivers (unix_client mo path t sc) (acquired sc)"
proof -
  have connects: "emits (bindE (before_call mo) (\<lambda>_. open_handle mo (UnixConnection path t)))
      (\<lambda>evs r. closed_handles evs = [] \<and> opened_handles evs = (case r of Inr h \<Rightarrow> [h] | Inl _ \<Rightarrow> []))"
    by (rule emits_bindE[OF emits_before]) (auto intro!: emits_mono[OF emits_open] split: sum.splits)
  show ?thesis
    unfolding unix_client_def Let_def
  proof (rule delivers_bind[OF delivers_try_call[OF connects]], goal_cases)
    case (1 r evs)
    show ?case
    proof (cases r)
      case (Inl e)
      with 1 assms show ?thesis by (auto simp: acquired_def intro!: delivers_return)
    next
      case (Inr h)
      show ?thesis
        unfolding Inr sum.case
      proof (rule delivers_bind[OF delivers_try_call[OF emits_unix_checks[where t = t]]], goal_cases)
        case (1 c evs')
        show ?case
        proof (cases c)
          case (Inl e)
          with 1 \<open>closed_handles evs = [] \<and> _\<close> Inr assms show ?thesis
            by (auto simp: acquired_def intro!: delivers_bind[OF delivers_try_call[OF emits_close]] delivers_return)
        next
          case (Inr u)
          with 1 \<open>closed_handles evs = [] \<and> _\<close> \<open>r = Inr h\<close> assms show ?thesis
            by (auto simp: acquired_def verified_handle_def intro!: delivers_return)
        qed
      qed
    qed
  qed
qed

lemma delivers_tls_client:
  assumes "sc_handle sc = None" "\<not> sc_closed sc" "sc_connection sc = TlsConnection endpoint ca cert key"
  shows "delivers (remote_tls_client mo endpoint ca cert key sc) (acquired sc)"
proof -
  have connects: "emits (bindE (callE FilesWritten (mo_write_files mo ca cert key)) (\<lambda>_. open_handle mo (sc_connection sc)))
      (\<lambda>evs r. closed_handles evs = [] \<and> opened_handles evs = (case r of Inr h \<Rightarrow> [h] | Inl _ \<Rightarrow> []))"
    by (rule emits_bindE[OF emits_callE_eq]) (auto intro!: emits_mono[OF emits_open] split: sum.splits)
  have removing: "emits (remove_directory mo) (\<lambda>evs r. opened_handles evs = [] \<and> closed_handles evs = [])"
    unfolding remove_directory_def by (rule emits_callE) simp
  show ?thesis
    unfolding remote_tls_client_def
  proof (rule delivers_bind[OF delivers_try_call[OF emits_callE_eq]], goal_cases)
    case (1 made evs)
    show ?case
    proof (cases made)
      case (Inl e)
      with 1 assms show ?thesis by (auto simp: acquired_def intro!: delivers_return)
    next
      case (Inr u)
      show ?thesis
        unfolding Inr sum.case
      proof (rule delivers_bind[OF delivers_try_call[OF connects[unfolded assms(3)]]], goal_cases)
        case (1 r evs')
        with \<open>evs = _\<close> Inr assms show ?case
          by (cases r) (auto simp: acquired_def verified_handle_def
              intro!: delivers_return delivers_if delivers_bind[OF delivers_try_call[OF removing]] split: sum.splits if_splits)
      qed
    qed
  qed
qed

lemma delivers_connect:
  assumes "sc_handle sc = None" "\<not> sc_closed sc"
  shows "delivers (connect_client mo sc) (acquired sc)"
proof (cases "sc_connection sc")
  case AmbientConnection
  have "delivers (bindE (try_call (open_handle mo AmbientConnection)) (\<lambda>r. returnE (sc, r))) (acquired sc)"
    by (rule delivers_bind[OF delivers_try_call[OF emits_open]], rule delivers_return)
      (use assms AmbientConnection in \<open>auto simp: acquired_def verified_handle_def split: sum.splits\<close>)
  with assms AmbientConnection show ?thesis by (simp add: connect_client_def)
qed (use assms delivers_unix_client delivers_tls_client in \<open>auto simp: connect_client_def\<close>)

lemma delivers_client_handle:
  assumes "sc_closed sc \<longrightarrow> sc_handle sc = None"
  shows "delivers (client_handle mo sc) (\<lambda>(sc', r) evs. kept_handles sc sc' evs)"
proof (cases "sc_closed sc \<or> sc_handle sc \<noteq> None")
  case True
  with assms show ?thesis
    by (auto simp: client_handle_def kept_handles_def intro!: delivers_return split: option.splits)
next
  case False
  have "delivers (bindE (connect_client mo sc) (\<lambda>(sc', r). returnE (case r of
       Inr h \<Rightarrow> (sc'\<lparr>sc_handle := Some h\<rparr>, Inr h) | Inl e \<Rightarrow> (sc', Inl e)))) (\<lambda>(sc', r) evs. kept_handles sc sc' evs)"
  proof (rule delivers_bind[OF delivers_connect], goal_cases)
    case (3 res evs)
    obtain sc' r where res: "res = (sc', r)" by (cases res)
    with 3 False show ?case
      by (cases r) (auto simp: acquired_def kept_handles_def held_handles_def intro!: delivers_return)
  qed (use False in auto)
  with False show ?thesis by (auto simp: client_handle_def)
qed

lemma delivers_close_client:
  assumes "sc_closed sc \<longrightarrow> sc_handle sc = None"
  shows "delivers (close_sdk_client mo sc) (\<lambda>(sc', r) evs. kept_handles sc sc' evs)"
proof -
  have removing: "emits (remove_directory mo) (\<lambda>evs r. opened_handles evs = [] \<and> closed_handles evs = [])"
    unfolding remove_directory_def by (rule emits_callE) simp
  have cleaning: "delivers (if sc_directory sc then try_call (remove_directory mo) else returnE (Inr ()))
      (\<lambda>_ evs. opened_handles evs = [] \<and> closed_handles evs = [])"
    by (intro delivers_if delivers_return delivers_mono[OF delivers_try_call[OF removing]]) auto
  have closing: "delivers (case sc_handle sc of None \<Rightarrow> returnE (Inr ()) | Some h \<Rightarrow> try_call (close_handle mo h))
      (\<lambda>_ evs. opened_handles evs = [] \<and> closed_handles evs = held_handles sc)"
    by (cases "sc_handle sc") (auto simp: held_handles_def intro!: delivers_return delivers_mono[OF delivers_try_call[OF emits_close]])
  show ?thesis
  proof (cases "sc_closed sc")
    case True
    with assms show ?thesis
      by (auto simp: close_sdk_client_def kept_handles_def held_handles_def intro!: delivers_return)
  next
    case False
    have kept: "kept_handles sc (sc\<lparr>sc_closed := True, sc_handle := None, sc_directory := False\<rparr>) (evs @ evs')"
      if "opened_handles evs = [] \<and> closed_handles evs = held_handles sc" "opened_handles evs' = [] \<and> closed_handles evs' = []"
      for evs evs'
      using that False by (simp add: kept_handles_def held_handles_def)
    show ?thesis
      unfolding close_sdk_client_def Let_def
    proof (rule delivers_if, use False in simp, rule delivers_bind[OF closing], goal_cases)
      case (1 shut evs)
      show ?case
      proof (cases shut)
        case (Inl e)
        show ?thesis
          unfolding Inl sum.case
        proof (rule delivers_if)
          show "delivers (returnE (sc\<lparr>sc_closed := True, sc_handle := None, sc_directory := False\<rparr>, Inl e))
             (\<lambda>b evs'. (case b of (sc', r) \<Rightarrow> kept_handles sc sc') (evs @ evs'))"
            by (rule delivers_return) (use kept[OF 1(2), of "[]"] in simp)
        next
          show "delivers (bindE (if sc_directory sc then try_call (remove_directory mo) else returnE (Inr ())) (\<lambda>removed.
              returnE (sc\<lparr>sc_closed := True, sc_handle := None, sc_directory := False\<rparr>, case removed of
                  Inl e' \<Rightarrow> if dk_is_exception e' then Inl e else Inl e' | Inr _ \<Rightarrow> Inl e)))
             (\<lambda>b evs'. (case b of (sc', r) \<Rightarrow> kept_handles sc sc') (evs @ evs'))"
            by (rule delivers_bind[OF cleaning], rule delivers_return) (use kept[OF 1(2)] in simp)
        qed
      next
        case (Inr u)
        show ?thesis
          unfolding Inr sum.case
          by (rule delivers_bind[OF cleaning], rule delivers_return) (use kept[OF 1(2)] in simp)
      qed
    qed
  qed
qed

definition settled_client :: "sdk_client \<Rightarrow> client_event list \<Rightarrow> bool" where
  "settled_client sc evs \<longleftrightarrow>
     opened_handles evs = closed_handles evs @ held_handles sc \<and> (sc_closed sc \<longrightarrow> sc_handle sc = None)
     \<and> (\<forall>h. sc_handle sc = Some h \<longrightarrow> verified_handle (sc_connection sc) evs h)"

lemma verified_handle_append:
  "verified_handle c evs h \<Longrightarrow> verified_handle c (evs @ new) h" "verified_handle c new h \<Longrightarrow> verified_handle c (evs @ new) h"
  by (cases c; auto simp: verified_handle_def)+

lemma settled_step: "settled_client sc evs \<Longrightarrow> kept_handles sc sc' new \<Longrightarrow> settled_client sc' (evs @ new)"
  by (auto simp: settled_client_def kept_handles_def intro: verified_handle_append)

text \<open>
  C26: whatever the daemon answers, in every life of a client all handles it opened are closed but the
  one it holds, a closed client holds none, and a handle held through a socket was verified: it
  uses that very socket and its API range includes 1.45.
\<close>

theorem client_life_settled:
  assumes "client_life mo sc evs"
  shows "settled_client sc evs"
  using assms
proof induction
  case (client_used sc evs s sc' r s' new)
  have "sc_closed sc \<longrightarrow> sc_handle sc = None"
    using client_used.IH by (simp add: settled_client_def)
  from deliversD[OF delivers_client_handle[OF this] client_used(2,3)] client_used.IH show ?case
    by (auto intro: settled_step)
next
  case (client_shut sc evs s sc' r' s' new)
  have "sc_closed sc \<longrightarrow> sc_handle sc = None"
    using client_shut.IH by (simp add: settled_client_def)
  from deliversD[OF delivers_close_client[OF this] client_shut(2,3)] client_shut.IH show ?case
    by (auto intro: settled_step)
qed (simp add: settled_client_def new_client_def held_handles_def)

definition sample_module :: "unit docker_module" where
  "sample_module =
     \<lparr>mo_open = (\<lambda>_ w. (Inr ''h'', w)), mo_transport = (\<lambda>_ w. (Inr (Some ''/s''), w)),
      mo_version = (\<lambda>_ w. (Inr (JObj [(''MinAPIVersion'', JStr ''1.24''), (''ApiVersion'', JStr ''1.47'')]), w)),
      mo_close = (\<lambda>_ w. (Inr (), w)), mo_make_directory = (\<lambda>w. (Inr (), w)),
      mo_write_files = (\<lambda>_ _ _ w. (Inr (), w)), mo_remove_directory = (\<lambda>w. (Inr (), w)), mo_before = None\<rparr>"

definition sample_life :: "client_event list" where
  "sample_life =
     [HandleOpened (UnixConnection ''/s'' 5) (Inr ''h''), TransportRead ''h'' (Inr (Some ''/s'')),
      VersionRead ''h'' (Inr (JObj [(''MinAPIVersion'', JStr ''1.24''), (''ApiVersion'', JStr ''1.47'')]))]"

lemma sample_range: "verify_unix_api_range (JObj [(''MinAPIVersion'', JStr ''1.24''), (''ApiVersion'', JStr ''1.47'')]) = Inr ()"
  by code_simp

lemma sample_acquires:
  "client_handle sample_module (new_client (UnixConnection ''/s'' 5)) \<lparr>trace = [], world = ()\<rparr> =
     (Inr ((new_client (UnixConnection ''/s'' 5))\<lparr>sc_handle := Some ''h''\<rparr>, Inr ''h''), \<lparr>trace = sample_life, world = ()\<rparr>)"
  by (simp add: client_handle_def connect_client_def new_client_def unix_client_def Let_def try_call_def before_call_def
      open_handle_def unix_checks_def sample_module_def eff_defs sample_range sample_life_def)

lemma sample_lives: "client_life sample_module ((new_client (UnixConnection ''/s'' 5))\<lparr>sc_handle := Some ''h''\<rparr>) ([] @ sample_life)"
  by (rule client_used[OF client_made sample_acquires]) simp

lemma client_life_settled_witness: "opened_handles sample_life = [''h''] \<and> verified_handle (UnixConnection ''/s'' 5) sample_life ''h''"
  using client_life_settled[OF sample_lives]
  by (simp add: settled_client_def new_client_def held_handles_def sample_life_def)

end
