(* ===== verification/Docker_Observer.thy ===== *)
theory Docker_Observer
  imports Docker_Runtime Docker_Inspect Invocations
begin

text \<open>
  \<open>DockerRuntimeEffectObserver\<close> (\<open>docker/observer.py\<close>): whether the postcondition of an effect holds
  at the provider now.  It prepares the connection before it touches the daemon, reads under an
  admitted invocation, and closes a connection that it opened.
\<close>

section \<open>Values\<close>

datatype postcondition = POST_CONFIRMED | POST_ABSENT | POST_CONFLICT | POST_UNESTABLISHED | POST_UNSUPPORTED

fun postcondition_value :: "postcondition \<Rightarrow> string" where
  "postcondition_value POST_CONFIRMED = ''confirmed''"
| "postcondition_value POST_ABSENT = ''absent''"
| "postcondition_value POST_CONFLICT = ''conflict''"
| "postcondition_value POST_UNESTABLISHED = ''unestablished''"
| "postcondition_value POST_UNSUPPORTED = ''unsupported''"

fun operation_name :: "runtime_operation \<Rightarrow> string" where
  "operation_name StartNode = ''start-node''"
| "operation_name ReconcileNode = ''reconcile-node''"
| "operation_name StopNode = ''stop-node''"
| "operation_name RemoveNodeResource = ''remove-node-resource''"
| "operation_name (StartRuntime _) = ''start-runtime''"
| "operation_name (ReconcileRuntime _) = ''reconcile-runtime''"
| "operation_name (StopRuntime _) = ''stop-runtime''"
| "operation_name (RemoveRuntimeResource _) = ''remove-runtime-resource''"
| "operation_name WaitForHealthy = ''wait-for-healthy''"
| "operation_name _ = ''unsupported-operation''"

text \<open>
  An observation request: the effect request, the id its operation targets (a node or a runtime),
  whether it names an authority, and the references of its connection admission.
\<close>

record observation_request =
  oq_effect :: string
  oq_fingerprint :: string
  oq_request :: runtime_request
  oq_target :: string
  oq_authority_ref :: bool
  oq_admission :: "string list option"

text \<open>An authority; a reference is \<open>None\<close> when it is not a secret reference.\<close>

record authority_fact =
  au_runtime :: string
  au_kind :: string
  au_endpoint :: "string option"
  au_references :: "string option list"

record observation_result =
  or_effect :: string
  or_fingerprint :: string
  or_postcondition :: postcondition
  or_evidence :: "(string \<times> string) list"
  or_failure :: "(string \<times> string) option"

fun postcondition_failure :: "postcondition \<Rightarrow> (string \<times> string) option" where
  "postcondition_failure POST_CONFIRMED = None"
| "postcondition_failure POST_ABSENT = None"
| "postcondition_failure POST_CONFLICT =
     Some (''docker.observation-conflict'', ''Docker resource conflicts with the requested postcondition.'')"
| "postcondition_failure POST_UNESTABLISHED =
     Some (''docker.observation-indeterminate'', ''Docker resource postcondition could not be established.'')"
| "postcondition_failure POST_UNSUPPORTED =
     Some (''docker.observer-unsupported'', ''Docker observation is not supported for this request.'')"

definition observation_of :: "observation_request \<Rightarrow> postcondition \<Rightarrow> observation_result" where
  "observation_of oq p =
     \<lparr>or_effect = oq_effect oq, or_fingerprint = oq_fingerprint oq, or_postcondition = p,
      or_evidence = [(''operation'', operation_name (rr_operation (oq_request oq))), (''postcondition'', postcondition_value p)],
      or_failure = postcondition_failure p\<rparr>"

text \<open>
  The observer has a client or a local policy (\<open>None\<close>).  \<open>ob_runtime\<close> holds the ports it shares with
  the interpreter, \<open>ob_connect\<close> is \<open>DockerSdkClient.from_authority\<close>, \<open>ob_foreign\<close> are the names of the
  other \<open>OSError\<close> and \<open>DockerException\<close> classes, and \<open>ob_intents\<close> the three uses of a TLS connection.
\<close>

record ('w, 'p) docker_observer =
  ob_client :: "'w docker_client option"
  ob_runtime :: "'w docker_runtime"
  ob_connect :: "client_target \<Rightarrow> ('w, dk_exn, 'w docker_client) port"
  ob_port :: "('w, dk_exn, 'p) invocation_port option"
  ob_required :: bool
  ob_foreign :: "string \<Rightarrow> bool"
  ob_intents :: "string list"

definition docker_vocabulary :: "(dk_exn, docker_event) vocabulary" where
  "docker_vocabulary =
     \<lparr>vo_is_exception = dk_is_exception, vo_is_cancelled = (\<lambda>e. e = DkCancelled), vo_port_error = DkPortError,
      vo_type_error = ProviderFault MaterialClass ''TypeError'',
      vo_admit = InvocationAdmitted, vo_record = OutcomeRecorded\<rparr>"

fun docker_provider_error :: "(string \<Rightarrow> bool) \<Rightarrow> dk_exn \<Rightarrow> bool" where
  "docker_provider_error foreign UnixAcquisitionError = True"
| "docker_provider_error foreign MalformedInspection = True"
| "docker_provider_error foreign (ProviderFault MaterialClass name) = (name = ''InvalidArgument'')"
| "docker_provider_error foreign (ProviderFault OtherClass name) = foreign name"
| "docker_provider_error foreign (ProviderFault _ name) = True"
| "docker_provider_error foreign _ = False"

definition is_control :: "(dk_exn \<Rightarrow> bool) list \<Rightarrow> dk_exn \<Rightarrow> bool" where
  "is_control controls e \<longleftrightarrow> (case e of DkPortError _ \<Rightarrow> True | _ \<Rightarrow> matches_any controls e)"

section \<open>Admission\<close>

definition reads_runtime :: "runtime_operation \<Rightarrow> bool" where
  "reads_runtime op = (case op of StartRuntime _ \<Rightarrow> True | ReconcileRuntime _ \<Rightarrow> True | RemoveRuntimeResource _ \<Rightarrow> True | _ \<Rightarrow> False)"

definition starts_here :: "runtime_operation \<Rightarrow> bool" where
  "starts_here op \<longleftrightarrow> op \<in> {StartNode, ReconcileNode}"

definition unobservable :: "runtime_request \<Rightarrow> product_material \<Rightarrow> bool" where
  "unobservable rq m \<longleftrightarrow>
     pm_artifacts m \<noteq> [] \<or> pm_deliveries m \<noteq> [] \<or> pm_retained m \<noteq> []
     \<or> list_ex (\<lambda>d. d \<noteq> LocalDockerSocketMount) (rr_deliveries rq)
     \<or> (rr_operation rq = ReconcileNode \<and> pm_checks m \<noteq> [])"

definition admit_observation :: "observation_request \<Rightarrow> postcondition option" where
  "admit_observation oq =
     (let rq = oq_request oq; op = rr_operation rq
      in if rr_kind rq \<noteq> REALIZE_ACTIVITY \<or> \<not> rr_docker rq then Some POST_UNSUPPORTED
         else if reads_runtime op then None
         else if op \<notin> {StartNode, ReconcileNode, StopNode, RemoveNodeResource} then Some POST_UNSUPPORTED
         else case rr_products rq of
             [m] \<Rightarrow>
               if pm_node m \<noteq> oq_target oq then Some POST_UNESTABLISHED
               else if starts_here op \<and> unobservable rq m then Some POST_UNSUPPORTED
               else None
           | _ \<Rightarrow> Some POST_UNESTABLISHED)"

section \<open>Reading\<close>

definition resource_ownership :: "string \<Rightarrow> labels \<Rightarrow> string \<Rightarrow> labels \<Rightarrow> postcondition option" where
  "resource_ownership observed_name observed name expected =
     (if observed_name \<noteq> name \<or> \<not> same_labels observed expected then Some POST_CONFLICT else None)"

definition network_ownership :: "network_inspection \<Rightarrow> string \<Rightarrow> labels \<Rightarrow> postcondition option" where
  "network_ownership ni name ls = resource_ownership (ni_name ni) (ni_labels ni) name ls"

definition container_ownership :: "bool \<Rightarrow> container_inspection \<Rightarrow> string \<Rightarrow> labels \<Rightarrow> postcondition option" where
  "container_ownership prior_plan ci name ls =
     resource_ownership (ci_name ci) (correlation_labels prior_plan False (ci_labels ci)) name
       (correlation_labels prior_plan False ls)"

definition observe_network :: "'w docker_client \<Rightarrow> observation_request \<Rightarrow> ('w, postcondition) dk_eff" where
  "observe_network dc oq =
     (let rq = oq_request oq; name = network_name rq (oq_target oq)
      in bindE (inspect_network dc name) (\<lambda>found. returnE (case found of
          None \<Rightarrow> POST_ABSENT
        | Some ni \<Rightarrow>
            (case network_ownership ni name (runtime_labels rq (oq_target oq)) of
               Some p \<Rightarrow> p
             | None \<Rightarrow> (case rr_operation rq of RemoveRuntimeResource _ \<Rightarrow> POST_UNESTABLISHED | _ \<Rightarrow> POST_CONFIRMED)))))"

text \<open>The last part of a started node: its authority, image and networks.\<close>

definition observe_material ::
  "'w docker_runtime \<Rightarrow> runtime_request \<Rightarrow> product_material \<Rightarrow> authority_material \<Rightarrow> container_inspection
    \<Rightarrow> ('w, postcondition) dk_eff" where
  "observe_material dr rq m am ci =
     bindE (authority_conformance (dr_client dr) ci am) (\<lambda>c. case c of
         CONFORMANCE_UNKNOWN \<Rightarrow> returnE POST_UNESTABLISHED
       | CONFORMANCE_CONFLICT \<Rightarrow> returnE POST_CONFLICT
       | CONFORMANT \<Rightarrow>
           bindE (inspect_image (dr_client dr) (pm_image_reference m)) (\<lambda>found. returnE (case found of
             None \<Rightarrow> POST_UNESTABLISHED
           | Some img \<Rightarrow>
               if \<not> matches_image_reference (dr_image_ok dr) (pm_image_reference m) (ii_digests img)
                 \<or> \<not> is_canonical_image_id (ci_image_id ci)
               then POST_UNESTABLISHED
               else if ci_image_id ci \<noteq> Some (ii_id img) \<or> ci_networks ci \<noteq> [network_name rq (pm_runtime m)]
               then POST_CONFLICT else POST_CONFIRMED)))"

definition observe_container ::
  "'w docker_runtime \<Rightarrow> runtime_request \<Rightarrow> product_material \<Rightarrow> authority_material \<Rightarrow> bool
    \<Rightarrow> ('w, postcondition) dk_eff" where
  "observe_container dr rq m am network_found =
     (let name = container_name rq (pm_node m)
      in bindE (inspect_container (dr_client dr) name) (\<lambda>found. case found of
          None \<Rightarrow> returnE POST_ABSENT
        | Some ci \<Rightarrow>
            (case container_ownership (rr_operation rq = ReconcileNode) ci name (node_labels rq m) of
               Some p \<Rightarrow> returnE p
             | None \<Rightarrow>
                 if rr_operation rq = RemoveNodeResource then returnE POST_UNESTABLISHED
                 else if rr_operation rq = StopNode
                 then returnE (if ci_running ci then POST_UNESTABLISHED else POST_CONFIRMED)
                 else if \<not> network_found \<or> \<not> ci_running ci then returnE POST_UNESTABLISHED
                 else observe_material dr rq m am ci)))"

definition observe_node :: "'w docker_runtime \<Rightarrow> runtime_request \<Rightarrow> product_material \<Rightarrow> authority_material \<Rightarrow> ('w, postcondition) dk_eff" where
  "observe_node dr rq m am =
     (if \<not> starts_here (rr_operation rq) then observe_container dr rq m am False
      else let net = network_name rq (pm_runtime m)
           in bindE (inspect_network (dr_client dr) net) (\<lambda>found. case found of
               None \<Rightarrow> observe_container dr rq m am False
             | Some ni \<Rightarrow>
                 (case network_ownership ni net (runtime_labels rq (pm_runtime m)) of
                    Some p \<Rightarrow> returnE p
                  | None \<Rightarrow> observe_container dr rq m am True)))"

text \<open>The authority material is established first, for a request that starts a node.\<close>

definition observe_inspect :: "'w docker_runtime \<Rightarrow> observation_request \<Rightarrow> ('w, postcondition) dk_eff" where
  "observe_inspect dr oq =
     (let rq = oq_request oq
      in if reads_runtime (rr_operation rq) then observe_network (dr_client dr) oq
         else case rr_products rq of
             m # _ \<Rightarrow>
               if starts_here (rr_operation rq)
               then attemptE (authority_delivery_material dr rq)
                      (\<lambda>e. case e of
                          UnsupportedAuthority _ \<Rightarrow> returnE POST_UNSUPPORTED
                        | PreconditionError _ _ \<Rightarrow> returnE POST_UNESTABLISHED
                        | _ \<Rightarrow> raiseE e)
                      (observe_node dr rq m)
               else observe_node dr rq m \<lparr>am_mounts = [], am_groups = []\<rparr>
           | [] \<Rightarrow> raiseE (ProviderFault OtherClass ''IndexError''))"

section \<open>Connections\<close>

datatype 'w acquisition = UseClient "'w docker_client" | Connect client_target

type_synonym secret_cache = "(secret_grant, secret_result) prepared_resolver"

text \<open>The resolver of a prepared observation is asked once for each grant, under its own admission.\<close>

definition resolve_prepared ::
  "('w, 'p) docker_observer \<Rightarrow> (secret_grant \<Rightarrow> ('w, secret_result) dk_eff) \<Rightarrow> secret_cache \<Rightarrow> secret_grant
    \<Rightarrow> ('w, secret_result \<times> secret_cache) dk_eff" where
  "resolve_prepared ob resolve cache g =
     (if ob_port ob = None then bindE (resolve g) (\<lambda>r. returnE (r, cache))
      else prepared_resolve docker_vocabulary (ob_port ob) (\<lambda>_. True) grant_authorization resolve cache g)"

fun connection_secrets ::
  "('w, 'p) docker_observer \<Rightarrow> (secret_grant \<Rightarrow> ('w, secret_result) dk_eff) \<Rightarrow> secret_cache \<Rightarrow> secret_grant list
    \<Rightarrow> ('w, string list) dk_eff" where
  "connection_secrets ob resolve cache [] = returnE []"
| "connection_secrets ob resolve cache (g # gs) =
     bindE (resolve_prepared ob resolve cache g) (\<lambda>(result, cache').
     bindE (liftE (ss_read_grant (dr_secrets (ob_runtime ob)) g result)) (\<lambda>v.
     bindE (connection_secrets ob resolve cache' gs) (\<lambda>vs. returnE (v # vs))))"

fun connection_grants :: "'w secret_ports \<Rightarrow> secret_grant list \<Rightarrow> (string \<times> string) list \<Rightarrow> dk_exn + secret_grant list" where
  "connection_grants ss grants [] = Inr []"
| "connection_grants ss grants ((reference, intent) # uses) =
     bindR (secret_resolution_grant_for ss grants reference intent) (\<lambda>g.
     bindR (connection_grants ss grants uses) (\<lambda>gs. Inr (g # gs)))"

definition remote_tls ::
  "('w, 'p) docker_observer \<Rightarrow> observation_request \<Rightarrow> authority_fact
    \<Rightarrow> ('w, postcondition + 'w acquisition) dk_eff" where
  "remote_tls ob oq au =
     (let rq = oq_request oq; ss = dr_secrets (ob_runtime ob)
      in if rr_deliveries rq \<noteq> [] then returnE (Inl POST_UNSUPPORTED)
         else case (au_endpoint au, ss_grant ss, all_some (au_references au)) of
             (Some endpoint, Some resolve, Some references) \<Rightarrow>
               if \<not> py_startswith endpoint ''tcp://'' \<or> oq_admission oq \<noteq> Some references
               then returnE (Inl POST_UNESTABLISHED)
               else bindE (liftE (connection_grants ss (rr_grants rq) (zip references (ob_intents ob)))) (\<lambda>grants.
                    bindE (connection_secrets ob resolve fresh_prepared grants) (\<lambda>secrets. case secrets of
                        [ca, certificate, key] \<Rightarrow> returnE (Inr (Connect (TlsTarget endpoint ca certificate key)))
                      | _ \<Rightarrow> raiseE (ProviderFault MaterialClass ''ValueError'')))
           | _ \<Rightarrow> returnE (Inl POST_UNESTABLISHED))"

definition client_factory ::
  "('w, 'p) docker_observer \<Rightarrow> observation_request \<Rightarrow> authority_fact option
    \<Rightarrow> ('w, postcondition + 'w acquisition) dk_eff" where
  "client_factory ob oq authority =
     (case authority of
        None \<Rightarrow>
          (case ob_client ob of
             Some dc \<Rightarrow> if oq_authority_ref oq then returnE (Inl POST_UNESTABLISHED) else returnE (Inr (UseClient dc))
           | None \<Rightarrow> returnE (Inl POST_UNESTABLISHED))
      | Some au \<Rightarrow>
          if au_runtime au \<noteq> ''docker'' then returnE (Inl POST_UNSUPPORTED)
          else case ob_client ob of
              None \<Rightarrow>
                if au_kind au \<noteq> ''local-docker-socket'' then returnE (Inl POST_UNSUPPORTED)
                else returnE (Inr (Connect UnixTarget))
            | Some dc \<Rightarrow>
                if au_kind au = ''local-docker-socket'' then returnE (Inr (UseClient dc))
                else if au_kind au \<noteq> ''remote-docker-tls'' then returnE (Inl POST_UNSUPPORTED)
                else remote_tls ob oq au)"

section \<open>Observations\<close>

definition acquire_client ::
  "('w, 'p) docker_observer \<Rightarrow> 'w acquisition \<Rightarrow> ('w, 'w docker_client \<times> bool) dk_eff" where
  "acquire_client ob a =
     (case a of
        UseClient dc \<Rightarrow> returnE (dc, False)
      | Connect target \<Rightarrow>
          bindE (callE (\<lambda>r. ClientOpened target (case r of Inl e \<Rightarrow> Some e | Inr _ \<Rightarrow> None)) (ob_connect ob target))
            (\<lambda>dc. returnE (dc, True)))"

definition captured :: "('w, 'a) dk_eff \<Rightarrow> ('w, dk_exn + 'a) dk_eff" where
  "captured m = attemptE m (\<lambda>e. returnE (Inl e)) (\<lambda>a. returnE (Inr a))"

definition close_client :: "'w docker_client \<Rightarrow> ('w, unit) dk_eff" where
  "close_client dc = callE (\<lambda>r. ClientClosed (case r of Inl e \<Rightarrow> Some e | Inr _ \<Rightarrow> None)) (dc_close dc)"

definition observe_acquired ::
  "('w, 'p) docker_observer \<Rightarrow> observation_request \<Rightarrow> 'w acquisition \<Rightarrow> (dk_exn \<Rightarrow> bool) list
    \<Rightarrow> ('w, observation_result) dk_eff" where
  "observe_acquired ob oq a controls =
     attemptE (acquire_client ob a)
       (\<lambda>e. if is_control controls e \<or> \<not> docker_provider_error (ob_foreign ob) e then raiseE e
             else returnE (observation_of oq POST_UNESTABLISHED))
       (\<lambda>(dc, owned).
         bindE (captured (observe_inspect ((ob_runtime ob)\<lparr>dr_client := dc\<rparr>) oq)) (\<lambda>read.
         bindE (if owned then captured (close_client dc) else returnE (Inr ())) (\<lambda>closed.
         let passes = (\<lambda>e. is_control controls e \<or> \<not> docker_provider_error (ob_foreign ob) e)
         in case (read, closed) of
              (Inr p, Inr _) \<Rightarrow> returnE (observation_of oq p)
            | (Inl e, Inr _) \<Rightarrow> if passes e then raiseE e else returnE (observation_of oq POST_UNESTABLISHED)
            | (Inr _, Inl e) \<Rightarrow> if passes e then raiseE e else returnE (observation_of oq POST_UNESTABLISHED)
            | (Inl e, Inl e') \<Rightarrow>
                if passes e then raiseE e else if passes e' then raiseE e'
                else returnE (observation_of oq POST_UNESTABLISHED))))"

definition observe_effect ::
  "('w, 'p) docker_observer \<Rightarrow> observation_request \<Rightarrow> authority_fact option \<Rightarrow> ('w, observation_result) dk_eff" where
  "observe_effect ob oq authority =
     bindE (liftE (control_errors docker_vocabulary (ob_port ob) (ob_required ob))) (\<lambda>controls.
     case admit_observation oq of
       Some p \<Rightarrow> returnE (observation_of oq p)
     | None \<Rightarrow>
         attemptE (client_factory ob oq authority)
           (\<lambda>e. if is_control controls e \<or> \<not> dk_is_exception e then raiseE e
                 else case e of
                     DkSecretError _ \<Rightarrow> returnE (observation_of oq POST_UNESTABLISHED)
                   | _ \<Rightarrow> if docker_provider_error (ob_foreign ob) e then returnE (observation_of oq POST_UNESTABLISHED)
                          else raiseE e)
           (\<lambda>prepared. case prepared of
               Inl p \<Rightarrow> returnE (observation_of oq p)
             | Inr a \<Rightarrow>
                 invoke docker_vocabulary (ob_port ob) ''reconciliation-observation''
                   (observe_acquired ob oq a controls) None))"

end
