(* ===== verification/Docker_Observer_Props.thy ===== *)
theory Docker_Observer_Props
  imports Docker_Observer Docker_Props Computations
begin

text \<open>
  The properties of the observer: it only reads, closes what it opened, and what it confirms is
  what an execution would have confirmed.
\<close>

section \<open>Dictionaries of labels\<close>

lemma same_anonymous: "same_labels a b \<Longrightarrow> same_labels (anonymous key t a) (anonymous key t b)"
  by (auto simp: same_labels_iff anonymous_def label_of_def split: option.splits)

lemma same_correlation:
  "same_labels (correlation_labels p False a) (correlation_labels p False b)
    \<Longrightarrow> same_labels (correlation_labels p g a) (correlation_labels p g b)"
  by (auto simp: correlation_labels_def Let_def intro: same_anonymous)

section \<open>What was read\<close>

text \<open>What a confirmed observation established, from the answers it was given.\<close>

definition node_observed :: "'w docker_runtime \<Rightarrow> runtime_request \<Rightarrow> product_material \<Rightarrow> docker_event set \<Rightarrow> bool" where
  "node_observed dr rq m seen \<longleftrightarrow>
     (\<exists>ci img. ContainerRead (container_name rq (pm_node m)) (Inr (Some ci)) \<in> seen
        \<and> ci_running ci \<and> same_container rq m ci \<and> granted_authority rq ci
        \<and> ImageRead (pm_image_reference m) (Inr (Some img)) \<in> seen
        \<and> matches_image_reference (dr_image_ok dr) (pm_image_reference m) (ii_digests img)
        \<and> ci_image_id ci = Some (ii_id img))"

definition postcondition_observed :: "'w docker_runtime \<Rightarrow> observation_request \<Rightarrow> docker_event set \<Rightarrow> bool" where
  "postcondition_observed dr oq seen \<longleftrightarrow>
     (let rq = oq_request oq in
      if starts_here (rr_operation rq) then \<exists>m. m \<in> set (rr_products rq) \<and> node_observed dr rq m seen
      else if rr_operation rq = StopNode
      then \<exists>m ci. m \<in> set (rr_products rq) \<and> ContainerRead (container_name rq (pm_node m)) (Inr (Some ci)) \<in> seen
        \<and> \<not> ci_running ci
        \<and> same_labels (correlation_labels False False (ci_labels ci)) (correlation_labels False False (node_labels rq m))
      else (\<exists>t. rr_operation rq \<in> {StartRuntime t, ReconcileRuntime t})
        \<and> (\<exists>ni. NetworkRead (network_name rq (oq_target oq)) (Inr (Some ni)) \<in> seen
             \<and> ni_name ni = network_name rq (oq_target oq)
             \<and> same_labels (ni_labels ni) (runtime_labels rq (oq_target oq))))"

lemma postcondition_observed_mono:
  "postcondition_observed dr oq seen \<Longrightarrow> seen \<subseteq> seen' \<Longrightarrow> postcondition_observed dr oq seen'"
  unfolding postcondition_observed_def node_observed_def Let_def by (auto split: if_splits)

lemma delivers_of_hist: "hist (\<lambda>_ _. True) [] m Q \<Longrightarrow> delivers m Q"
  unfolding hist_def delivers_def by (erule emits_mono) auto

lemma delivers_conformance:
  assumes "granted_material rq am"
  shows "delivers (authority_conformance dc ci am) (\<lambda>c _. c = CONFORMANT \<longrightarrow> granted_authority rq ci)"
  by (rule delivers_mono[OF delivers_of_hist[OF hist_conformance[OF assms]]]) auto

lemma delivers_observe_material:
  assumes am: "granted_material rq am" and ci: "ci_running ci"
    "container_ownership (rr_operation rq = ReconcileNode) ci (container_name rq (pm_node m)) (node_labels rq m) = None"
    and op: "starts_here (rr_operation rq)"
  shows "delivers (observe_material dr rq m am ci) (\<lambda>p evs. p = POST_CONFIRMED \<longrightarrow>
     node_observed dr rq m (insert (ContainerRead (container_name rq (pm_node m)) (Inr (Some ci))) (set evs)))"
proof -
  have labels: "same_labels (correlation_labels (rr_operation rq \<noteq> StartNode) (rr_operation rq \<noteq> StartNode) (ci_labels ci))
      (correlation_labels (rr_operation rq \<noteq> StartNode) (rr_operation rq \<noteq> StartNode) (node_labels rq m))"
    using ci(2) op by (auto simp: container_ownership_def resource_ownership_def starts_here_def split: if_splits intro: same_correlation)
  show ?thesis
    unfolding observe_material_def
  proof (rule delivers_bind[OF delivers_conformance[OF am]], goal_cases)
    case (1 c evs)
    show ?case
    proof (cases c)
      case CONFORMANT
      have "node_observed dr rq m (insert (ContainerRead (container_name rq (pm_node m)) (Inr (Some ci)))
          (set (evs @ [ImageRead (pm_image_reference m) (Inr (Some img))])))"
        if "matches_image_reference (dr_image_ok dr) (pm_image_reference m) (ii_digests img)"
          "ci_image_id ci = Some (ii_id img)" "ci_networks ci = [network_name rq (pm_runtime m)]" for img
        unfolding node_observed_def same_container_def
        using that 1 CONFORMANT labels ci(1) by auto
      with CONFORMANT show ?thesis
        unfolding inspect_image_def
        by (auto intro!: delivers_bind_call delivers_return split: option.splits if_splits)
    qed (auto intro!: delivers_return)
  qed
qed

lemma delivers_observe_container:
  assumes "granted_material rq am \<or> \<not> starts_here (rr_operation rq)" "m \<in> set (rr_products rq)"
    and "\<not> reads_runtime (rr_operation rq)" "rr_operation rq \<in> {StartNode, ReconcileNode, StopNode, RemoveNodeResource}"
    and "oq_request oq = rq"
  shows "delivers (observe_container dr rq m am found) (\<lambda>p evs. p = POST_CONFIRMED \<longrightarrow> postcondition_observed dr oq (set evs))"
  unfolding observe_container_def Let_def inspect_container_def
proof (rule delivers_bind_call, goal_cases)
  case (1 a)
  show ?case
  proof (cases a)
    case None
    then show ?thesis by (auto intro: delivers_return)
  next
    case (Some ci)
    show ?thesis
    proof (cases "container_ownership (rr_operation rq = ReconcileNode) ci (container_name rq (pm_node m)) (node_labels rq m)")
      case None
      consider "starts_here (rr_operation rq)" | "rr_operation rq = StopNode" | "rr_operation rq = RemoveNodeResource"
        using assms(4) by (auto simp: starts_here_def)
      then show ?thesis
      proof cases
        case 1
        with assms(1) have am: "granted_material rq am" by simp
        from 1 have "\<not> rr_operation rq = RemoveNodeResource" "\<not> rr_operation rq = StopNode"
          by (auto simp: starts_here_def)
        show ?thesis
        proof (cases "found \<and> ci_running ci")
          case True
          then have running: "ci_running ci" by simp
          have "delivers (observe_material dr rq m am ci) (\<lambda>p evs. p = POST_CONFIRMED \<longrightarrow>
              postcondition_observed dr oq (set (ContainerRead (container_name rq (pm_node m)) (Inr a) # evs)))"
            by (rule delivers_mono[OF delivers_observe_material[OF am running None 1]])
              (use 1 Some assms(2,5) in \<open>auto simp: postcondition_observed_def\<close>)
          with True None Some \<open>\<not> rr_operation rq = RemoveNodeResource\<close> \<open>\<not> rr_operation rq = StopNode\<close> show ?thesis by simp
        next
          case False
          with None Some \<open>\<not> rr_operation rq = RemoveNodeResource\<close> \<open>\<not> rr_operation rq = StopNode\<close> show ?thesis
            by (auto intro: delivers_return)
        qed
      next
        case 2
        with None Some assms(2,5) show ?thesis
          by (auto intro!: delivers_return simp: postcondition_observed_def starts_here_def container_ownership_def
              resource_ownership_def split: if_splits)
      next
        case 3
        with None Some show ?thesis by (auto intro: delivers_return)
      qed
    next
      case (Some p)
      with \<open>a = Some ci\<close> show ?thesis
        by (auto intro!: delivers_return simp: container_ownership_def resource_ownership_def split: if_splits)
    qed
  qed
qed

lemma delivers_observe_node:
  assumes "granted_material rq am \<or> \<not> starts_here (rr_operation rq)" "m \<in> set (rr_products rq)"
    and "\<not> reads_runtime (rr_operation rq)" "rr_operation rq \<in> {StartNode, ReconcileNode, StopNode, RemoveNodeResource}"
    and "oq_request oq = rq"
  shows "delivers (observe_node dr rq m am) (\<lambda>p evs. p = POST_CONFIRMED \<longrightarrow> postcondition_observed dr oq (set evs))"
proof -
  have containers: "delivers (observe_container dr rq m am found)
      (\<lambda>p evs. p = POST_CONFIRMED \<longrightarrow> postcondition_observed dr oq (set (prior @ evs)))" for found prior
    by (rule delivers_mono[OF delivers_observe_container[OF assms]]) (auto elim: postcondition_observed_mono)
  show ?thesis
    unfolding observe_node_def Let_def inspect_network_def
    using containers[of _ "[]"] containers[of _ "[NetworkRead (network_name rq (pm_runtime m)) (Inr _)]"]
    by (auto intro!: delivers_bind_call delivers_return split: option.splits
        simp: network_ownership_def resource_ownership_def split: if_splits)
qed

lemma delivers_observe_inspect:
  assumes "admit_observation oq = None"
  shows "delivers (observe_inspect dr oq) (\<lambda>p evs. p = POST_CONFIRMED \<longrightarrow> postcondition_observed dr oq (set evs))"
proof -
  let ?rq = "oq_request oq"
  show ?thesis
  proof (cases "reads_runtime (rr_operation ?rq)")
    case True
    then show ?thesis
      unfolding observe_inspect_def observe_network_def Let_def inspect_network_def
      by (auto intro!: delivers_bind_call delivers_return split: option.splits runtime_operation.splits if_splits
          simp: postcondition_observed_def starts_here_def reads_runtime_def network_ownership_def resource_ownership_def)
  next
    case False
    with assms obtain m where m: "rr_products ?rq = [m]"
      and op: "rr_operation ?rq \<in> {StartNode, ReconcileNode, StopNode, RemoveNodeResource}"
      by (auto simp: admit_observation_def Let_def split: if_splits list.splits)
    have granted: "emits (authority_delivery_material dr ?rq) (\<lambda>evs r. \<forall>am. r = Inr am \<longrightarrow> granted_material ?rq am)"
      using delivers_of_hist[OF hist_authority_material] by (simp add: delivers_def)
    have node: "delivers (observe_node dr ?rq m am) (\<lambda>p evs. p = POST_CONFIRMED \<longrightarrow> postcondition_observed dr oq (set (prior @ evs)))"
      if "granted_material ?rq am \<or> \<not> starts_here (rr_operation ?rq)" for am prior
      by (rule delivers_mono[OF delivers_observe_node[OF that _ False op refl]])
        (use m in \<open>auto elim: postcondition_observed_mono\<close>)
    have "delivers (attemptE (authority_delivery_material dr ?rq)
        (\<lambda>e. case e of UnsupportedAuthority _ \<Rightarrow> returnE POST_UNSUPPORTED
           | PreconditionError _ _ \<Rightarrow> returnE POST_UNESTABLISHED | _ \<Rightarrow> raiseE e)
        (observe_node dr ?rq m)) (\<lambda>p evs. p = POST_CONFIRMED \<longrightarrow> postcondition_observed dr oq (set evs))"
    proof (rule delivers_attempt[OF granted], goal_cases)
      case (1 am evs)
      then show ?case by (intro node) auto
    next
      case (2 e evs)
      show ?case by (cases e) (auto intro: delivers_return)
    qed
    with False m node[of _ "[]"] show ?thesis by (simp add: observe_inspect_def Let_def)
  qed
qed

lemma delivers_invoke:
  assumes "delivers call Q" "\<And>a evs evs'. Q a evs \<Longrightarrow> set evs \<subseteq> set evs' \<Longrightarrow> Q a evs'"
  shows "delivers (invoke V port kind call authorization) Q"
proof (cases port)
  case None
  with assms(1) show ?thesis by (simp add: invoke_def control_errors_def)
next
  case (Some p)
  show ?thesis
    unfolding Some delivers_def
    by (rule emits_mono[OF invoke_bracket[OF assms(1)[unfolded delivers_def]]]) (auto intro: assms(2))
qed

abbreviation observation_true :: "('w, 'p) docker_observer \<Rightarrow> observation_request \<Rightarrow> observation_result \<Rightarrow> docker_event list \<Rightarrow> bool" where
  "observation_true ob oq r evs \<equiv>
     or_postcondition r = POST_CONFIRMED \<longrightarrow> postcondition_observed (ob_runtime ob) oq (set evs)"

lemma postcondition_observed_client [simp]:
  "postcondition_observed (dr\<lparr>dr_client := dc\<rparr>) oq seen = postcondition_observed dr oq seen"
  by (simp add: postcondition_observed_def node_observed_def)

lemma delivers_captured: "delivers m Q \<Longrightarrow> delivers (captured m) (\<lambda>r evs. \<forall>a. r = Inr a \<longrightarrow> Q a evs)"
  unfolding captured_def delivers_def[of m]
  by (erule delivers_attempt) (auto intro: delivers_return)

lemma observation_of_confirmed [simp]: "or_postcondition (observation_of oq p) = p"
  by (simp add: observation_of_def)

lemma delivers_observe_acquired:
  assumes "admit_observation oq = None"
  shows "delivers (observe_acquired ob oq a controls) (observation_true ob oq)"
  unfolding observe_acquired_def
proof (rule delivers_attempt[where R = "\<lambda>_ _. True"], goal_cases)
  case 1
  show ?case unfolding acquire_client_def by (auto split: acquisition.splits intro!: emit_intros emits_bindE[OF emits_callE_eq])
next
  case (2 res evs)
  obtain dc owned where res: "res = (dc, owned)" by (cases res)
  have read: "delivers (captured (observe_inspect ((ob_runtime ob)\<lparr>dr_client := dc\<rparr>) oq))
      (\<lambda>r evs. \<forall>p. r = Inr p \<longrightarrow> p = POST_CONFIRMED \<longrightarrow> postcondition_observed (ob_runtime ob) oq (set evs))"
    using delivers_captured[OF delivers_observe_inspect[OF assms, of "(ob_runtime ob)\<lparr>dr_client := dc\<rparr>"]] by simp
  have shut: "delivers (if owned then captured (close_client dc) else returnE (Inr ())) (\<lambda>_ _. True)"
    unfolding delivers_def captured_def close_client_def by (intro emit_intros emits_attemptE[OF emits_callE_eq]) auto
  show ?case
    unfolding res prod.case
  proof (rule delivers_bind[OF read], rule delivers_bind[OF shut], goal_cases)
    case (1 r evs' c evs'')
    then show ?case
      by (cases r; cases c) (auto simp: Let_def intro!: delivers_if delivers_return elim!: postcondition_observed_mono)
  qed
next
  case (3 e evs)
  show ?case by (auto intro!: delivers_if delivers_return)
qed

section \<open>Secrets and connections\<close>

text \<open>
  The events of preparing a connection, and of reading: no change, and no connection opened or
  closed.  The resolver of grants is assumed to keep to them.
\<close>

fun plain_event :: "docker_event \<Rightarrow> bool" where
  "plain_event (Mutated _ _) = False"
| "plain_event (ClientOpened _ _) = False"
| "plain_event (ClientClosed _) = False"
| "plain_event _ = True"

definition plain_grants :: "('w, 'p) docker_observer \<Rightarrow> bool" where
  "plain_grants ob \<longleftrightarrow>
     (\<forall>f g. ss_grant (dr_secrets (ob_runtime ob)) = Some f \<longrightarrow> only_emits plain_event (f g))"

lemma only_emits_invoke:
  assumes "only_emits P call" "\<And>k x. P (vo_admit V k x)" "\<And>o' x. P (vo_record V o' x)"
  shows "only_emits P (invoke V port kind call authorization)"
proof -
  have recording: "only_emits P (port_record V p permit outcome)" for p permit outcome
    by (auto simp: port_record_def assms split: option.splits intro!: emit_intros)
  have finishing: "only_emits P (finish V p permit e)" for p permit e
    unfolding finish_def by (auto split: option.splits intro!: emit_intros recording)
  have admitting: "only_emits P (port_admit V p kind authorization)" for p
    by (auto simp: port_admit_def assms split: option.splits intro!: emit_intros)
  show ?thesis
    unfolding invoke_def
    by (rule only_emits_bindE, simp, rule only_emits_case_option, rule assms(1),
        rule only_emits_bindE, rule admitting, rule only_emits_attemptE, rule assms(1))
      (auto intro!: emit_intros finishing)
qed

lemma plain_secrets:
  assumes "\<And>g. only_emits plain_event (resolve g)"
  shows "only_emits plain_event (connection_secrets ob resolve cache gs)"
proof (induction gs arbitrary: cache)
  case (Cons g gs)
  have "only_emits plain_event (resolve_prepared ob resolve cache g)"
    unfolding resolve_prepared_def prepared_resolve_def
    by (auto intro!: emit_intros only_emits_invoke assms simp: docker_vocabulary_def split: option.splits)
  then show ?case
    unfolding connection_secrets.simps
    by (auto intro!: emit_intros Cons.IH)
qed simp

lemma plain_factory:
  assumes "plain_grants ob"
  shows "only_emits plain_event (client_factory ob oq authority)"
proof -
  have "only_emits plain_event (remote_tls ob oq au)" for au
    unfolding remote_tls_def Let_def
    using assms
    by (auto simp: plain_grants_def split: option.splits list.splits intro!: emit_intros plain_secrets)
  then show ?thesis
    unfolding client_factory_def by (auto split: option.splits intro!: emit_intros)
qed

lemma delivers_of_only: "only_emits P m \<Longrightarrow> delivers m (\<lambda>_ _. True)"
  unfolding only_emits_def delivers_def by (erule emits_mono) simp

lemma delivers_factory:
  assumes "plain_grants ob"
  shows "delivers (client_factory ob oq authority) (\<lambda>r _. r \<noteq> Inl POST_CONFIRMED)"
proof -
  have "delivers (remote_tls ob oq au) (\<lambda>r _. r \<noteq> Inl POST_CONFIRMED)" for au
    unfolding remote_tls_def Let_def
    using assms
    by (auto simp: plain_grants_def split: option.splits list.splits
        intro!: delivers_return delivers_bind_lift delivers_bind[OF delivers_of_only[OF plain_secrets]])
  then show ?thesis
    unfolding client_factory_def by (auto split: option.splits intro!: delivers_return)
qed

section \<open>Observations\<close>


section \<open>Connections\<close>

text \<open>
  The protocol of an observation: no change at all, and a connection that was opened is closed before
  the end, once.  The state says whether one is open.
\<close>

fun observing_step :: "bool \<Rightarrow> docker_event \<Rightarrow> bool option" where
  "observing_step is_open (Mutated _ _) = None"
| "observing_step is_open (ClientOpened _ failure) =
     (if failure \<noteq> None then Some is_open else if is_open then None else Some True)"
| "observing_step is_open (ClientClosed _) = (if is_open then Some False else None)"
| "observing_step is_open _ = Some is_open"

fun observing_run :: "bool \<Rightarrow> docker_event list \<Rightarrow> bool option" where
  "observing_run is_open [] = Some is_open"
| "observing_run is_open (ev # evs) =
     (case observing_step is_open ev of None \<Rightarrow> None | Some st \<Rightarrow> observing_run st evs)"

lemma observing_append:
  "observing_run st (evs @ evs') = (case observing_run st evs of None \<Rightarrow> None | Some st' \<Rightarrow> observing_run st' evs')"
  by (induction evs arbitrary: st) (auto split: option.splits)

lemma observing_plain: "list_all plain_event evs \<Longrightarrow> observing_run st evs = Some st"
proof (induction evs)
  case (Cons ev evs)
  then show ?case by (cases ev) auto
qed simp

lemma emits_plain: "only_emits plain_event m \<Longrightarrow> emits m (\<lambda>evs r. observing_run st evs = Some st)"
  by (rule emits_mono[OF only_emits_emits]) (auto intro: observing_plain)

lemma plain_reads [emit_intros]:
  "only_emits plain_event (inspect_container dc n)" "only_emits plain_event (inspect_network dc n)"
  "only_emits plain_event (inspect_image dc n)" "only_emits plain_event (uses_local_socket dc n)"
  "only_emits plain_event (inspect_facts dc)"
  by (auto simp: inspect_container_def inspect_network_def inspect_image_def uses_local_socket_def inspect_facts_def
      intro!: emit_intros)

lemma plain_delivery_material: "only_emits plain_event (delivery_material dr ds acc)"
  by (induction dr ds acc rule: delivery_material.induct) (auto simp: socket_delivery_def intro!: emit_intros)

lemma plain_conformance [emit_intros]: "only_emits plain_event (authority_conformance dc ci am)"
  by (auto simp: authority_conformance_def desktop_conformance_def split: option.splits list.splits intro!: emit_intros)

lemma plain_observe_container: "only_emits plain_event (observe_container dr rq m am found)"
  by (auto simp: observe_container_def observe_material_def Let_def split: option.splits conformance.splits intro!: emit_intros)

lemma plain_observe_inspect: "only_emits plain_event (observe_inspect dr oq)"
proof -
  have "only_emits plain_event (observe_node dr rq m am)" for rq m am
    by (auto simp: observe_node_def Let_def split: option.splits intro!: emit_intros plain_observe_container)
  then show ?thesis
    unfolding observe_inspect_def observe_network_def authority_delivery_material_def Let_def
    by (auto split: list.splits dk_exn.splits intro!: emit_intros plain_delivery_material)
qed

lemma emits_observe_acquired:
  "emits (observe_acquired ob oq a controls) (\<lambda>evs r. observing_run False evs = Some False)"
proof -
  have acquire: "emits (acquire_client ob a) (\<lambda>evs r. case r of
      Inl e \<Rightarrow> observing_run False evs = Some False
    | Inr (dc, owned) \<Rightarrow> observing_run False evs = Some owned)"
    unfolding acquire_client_def
    by (cases a) (auto intro!: emits_returnE emits_bindE[OF emits_callE_eq])
  have shut: "emits (if owned then captured (close_client dc) else returnE (Inr ()))
      (\<lambda>evs r. observing_run owned evs = Some False \<and> \<not> isl r)" for owned dc
    unfolding captured_def close_client_def
    by (cases owned) (auto intro!: emits_returnE emits_attemptE[OF emits_callE_eq])
  have read: "emits (captured (observe_inspect dr oq)) (\<lambda>evs r. observing_run st evs = Some st \<and> \<not> isl r)" for dr st
    unfolding captured_def
    by (rule emits_attemptE[OF emits_plain[OF plain_observe_inspect, of dr oq st]]) (auto intro!: emits_returnE)
  show ?thesis
    unfolding observe_acquired_def
  proof (rule emits_attemptE[OF acquire], goal_cases)
    case opened: (1 res evs)
    obtain dc owned where res: "res = (dc, owned)" by (cases res)
    show ?case
      unfolding res prod.case
    proof (rule emits_bindE[OF read[of _ owned]], rule emits_bindE[OF shut], goal_cases)
      case (1 r evs' c evs'')
      with opened res have "observing_run False (evs @ evs' @ evs'') = Some False"
        by (auto simp: observing_append)
      then show ?case
        by (cases r; cases c) (auto simp: Let_def intro!: emits_if emits_returnE emits_raiseE)
    qed auto
  next
    case (2 e evs)
    then show ?case by (auto intro!: emits_if emits_raiseE emits_returnE)
  qed
qed

lemma emits_observing_invoke:
  assumes "emits call (\<lambda>evs r. observing_run False evs = Some False)"
  shows "emits (invoke docker_vocabulary port kind call authorization) (\<lambda>evs r. observing_run False evs = Some False)"
proof (cases port)
  case None
  with assms show ?thesis by (simp add: invoke_def control_errors_def)
next
  case (Some p)
  show ?thesis
    unfolding Some
    by (rule emits_mono[OF invoke_bracket[OF assms]])
      (auto simp: docker_vocabulary_def recorded_as_def observing_append)
qed

text \<open>
  C32: whatever the provider answers, and however it ends, an observation makes no change, and closes
  the connection it opened before it ends, exactly once; a client it was given stays open.
\<close>

theorem observation_only_reads:
  assumes "observe_effect ob oq authority s = (r, s')" and "trace s' = trace s @ evs" and "plain_grants ob"
  shows "observing_run False evs = Some False"
proof -
  have "emits (observe_effect ob oq authority) (\<lambda>evs r. observing_run False evs = Some False)"
    unfolding observe_effect_def
  proof (rule emits_validated, goal_cases)
    case (1 controls)
    show ?case
    proof (cases "admit_observation oq")
      case None
      show ?thesis
        unfolding None option.case
      proof (rule emits_attemptE[OF emits_plain[where st = False, OF plain_factory[OF assms(3)]]], goal_cases)
        case (1 prepared evs)
        show ?case
        proof (cases prepared)
          case (Inl p)
          with 1 show ?thesis by (simp add: emits_returnE)
        next
          case (Inr a)
          with 1 show ?thesis
            by (auto intro!: emits_mono[OF emits_observing_invoke[OF emits_observe_acquired]] simp: observing_append)
        qed
      next
        case (2 e evs)
        then show ?case by (cases e) (auto intro!: emits_if emits_raiseE emits_returnE)
      qed
    qed (auto intro: emits_returnE)
  qed simp
  from emitsD[OF this assms(1,2)] show ?thesis .
qed

section \<open>A sample observation\<close>

text \<open>A started node, observed through a connection of its own that is opened and closed.\<close>

definition observed_image_id :: string where
  "observed_image_id = ''sha256:'' @ replicate 64 CHR ''a''"

lemma observed_image_id_canonical: "is_canonical_image_id (Some observed_image_id)"
  by (simp add: is_canonical_image_id_def observed_image_id_def py_startswith_def hex64_def list_all_iff lower_hex_def
      is_digit_def in_range_def code_of_def)

definition observed_client :: "unit docker_client" where
  "observed_client =
     (sample_docker_client StartNode (Inr []))
       \<lparr>dc_container := (\<lambda>_ w. (Inr (Some ((sample_container StartNode)\<lparr>ci_image_id := Some observed_image_id\<rparr>)), w)),
        dc_image := (\<lambda>_ w. (Inr (Some (sample_image\<lparr>ii_id := observed_image_id\<rparr>)), w))\<rparr>"

definition sample_observer :: "(unit, unit) docker_observer" where
  "sample_observer =
     \<lparr>ob_client = None, ob_runtime = sample_runtime StartNode (Inr []),
      ob_connect = (\<lambda>_ w. (Inr observed_client, w)), ob_port = None, ob_required = False,
      ob_foreign = (\<lambda>_. False), ob_intents = []\<rparr>"

definition sample_question :: observation_request where
  "sample_question =
     \<lparr>oq_effect = ''e'', oq_fingerprint = ''f'', oq_request = sample_effect StartNode, oq_target = ''api'',
      oq_authority_ref = True, oq_admission = None\<rparr>"

definition observing_authority :: authority_fact where
  "observing_authority =
     \<lparr>au_runtime = ''docker'', au_kind = ''local-docker-socket'', au_endpoint = None, au_references = []\<rparr>"

definition observation_events :: "docker_event list" where
  "observation_events =
     (let rq = sample_effect StartNode
      in [ClientOpened UnixTarget None, NetworkRead (network_name rq ''main'') (Inr (Some (sample_network StartNode))),
          ContainerRead (container_name rq ''api'')
            (Inr (Some ((sample_container StartNode)\<lparr>ci_image_id := Some observed_image_id\<rparr>))),
          ImageRead ''docker.io/library/api@sha256:1'' (Inr (Some (sample_image\<lparr>ii_id := observed_image_id\<rparr>))),
          ClientClosed None])"

lemma sample_observation_runs:
  "observe_effect sample_observer sample_question (Some observing_authority) idle
     = (Inr (observation_of sample_question POST_CONFIRMED), \<lparr>trace = observation_events, world = ()\<rparr>)"
  by (simp add: observe_effect_def sample_observer_def sample_question_def observing_authority_def control_errors_def
      admit_observation_def reads_runtime_def starts_here_def unobservable_def client_factory_def invoke_def
      observe_acquired_def acquire_client_def captured_def close_client_def observe_inspect_def observe_node_def
      observe_container_def observe_material_def Let_def idle_def eff_defs authority_delivery_material_def
      inspect_network_def inspect_container_def inspect_image_def network_ownership_def container_ownership_def
      resource_ownership_def authority_conformance_def sample_runtime_def observed_client_def sample_docker_client_def
      sample_container_def sample_network_def sample_image_def sample_product_def sample_image_matches
      observed_image_id_canonical observation_events_def)

lemma sample_plain_grants: "plain_grants sample_observer"
  by (simp add: plain_grants_def sample_observer_def sample_runtime_def)


theorem observation_only_reads_witness: "observing_run False observation_events = Some False"
  by (rule observation_only_reads[OF sample_observation_runs _ sample_plain_grants]) (simp add: idle_def)

end
