(* ===== verification/Docker_Configuration.thy ===== *)
theory Docker_Configuration
  imports Docker_Client Computations
begin

text \<open>
  The allocations of configuration instances (\<open>docker/configuration.py\<close>) and their cleanup
  (\<open>docker/configuration_cleanup.py\<close>): names, labels and evidence of the volume of an
  allocation, and the removal of the volumes of a request, one after another.
\<close>

section \<open>Volumes of an allocation\<close>

definition configuration_volume_name :: "configuration_reference \<Rightarrow> string" where
  "configuration_volume_name ki =
     ''cpk-cfg-'' @ take 55 (sha256_hex (utf8_bytes (canonical_json
       (JList (map JStr [ki_workspace ki, ki_runtime ki, ki_node ki, ki_allocation ki])))))"

definition configuration_volume_labels :: "configuration_reference \<Rightarrow> labels" where
  "configuration_volume_labels ki =
     labelled [(''kind'', ''configuration-volume''), (''volume.kind'', ''configuration''),
       (''workspace'', ki_workspace ki), (''runtime'', ki_runtime ki), (''node'', ki_node ki),
       (''allocation'', ki_allocation ki), (''configuration.profile'', ''configuration-instance.v1''),
       (''configuration.reference'', sha256_hex (ki_bytes ki)),
       (''artifact'', ki_artifact ki), (''artifact.digest'', ki_digest ki)]"

definition configuration_owned :: "labels \<Rightarrow> configuration_reference \<Rightarrow> bool" where
  "configuration_owned observed ki \<longleftrightarrow> list_all (\<lambda>(k, v). map_of observed k = Some v) (configuration_volume_labels ki)"

definition require_configuration_owner :: "labels option \<Rightarrow> configuration_reference \<Rightarrow> dk_exn + unit" where
  "require_configuration_owner observed ki =
     (case observed of
        None \<Rightarrow> Inl MaterialConflict
      | Some ls \<Rightarrow> requireR (configuration_owned ls ki) MaterialConflict)"

definition configuration_file_matches :: "configuration_file \<Rightarrow> configuration_artifact \<Rightarrow> bool" where
  "configuration_file_matches f a \<longleftrightarrow> cf_regular f \<and> cf_digest f = ca_digest a \<and> cf_mode f = octal_value (ca_mode a)"

definition require_configuration_file :: "configuration_file option \<Rightarrow> configuration_artifact \<Rightarrow> dk_exn + unit" where
  "require_configuration_file observed a =
     (case observed of
        None \<Rightarrow> Inl MaterialConflict
      | Some f \<Rightarrow> requireR (configuration_file_matches f a) MaterialConflict)"

definition mount_matches :: "configuration_mount \<Rightarrow> configuration_artifact \<Rightarrow> string \<Rightarrow> bool" where
  "mount_matches mi a volume \<longleftrightarrow>
     mi_volume mi = volume \<and> mi_target mi = ca_target a \<and> mi_subpath mi = ''content'' \<and> mi_read_only mi"

text \<open>The mounts of an installed container, each with its file, as its daemon shows them.\<close>

fun installed_configuration_matches ::
  "'w docker_client \<Rightarrow> string option \<Rightarrow> (configuration_artifact \<times> string) list \<Rightarrow> ('w, unit) dk_eff" where
  "installed_configuration_matches dc None mounts = raiseE ObservationUnknown"
| "installed_configuration_matches dc (Some ident) [] = returnE ()"
| "installed_configuration_matches dc (Some ident) ((a, volume) # mounts) =
     bindE (inspect_configuration_mount dc ident a volume) (\<lambda>found. case found of
         None \<Rightarrow> raiseE ObservationUnknown
       | Some mi \<Rightarrow>
           if mi_container mi \<noteq> ident then raiseE ObservationUnknown
           else if \<not> mount_matches mi a volume then raiseE MaterialConflict
           else bindE (liftE (require_configuration_file (Some (mi_file mi)) a)) (\<lambda>_.
                installed_configuration_matches dc (Some ident) mounts))"

section \<open>Cleanup\<close>

datatype cleanup_status = CLEANUP_ABSENT | CLEANUP_REFUSED | RETAINED_IN_USE | CLEANUP_UNKNOWN | CLEANUP_REMOVED

datatype cleanup_reason =
  AUTHORITY_REFUSED | NOT_ATTEMPTED | PROVIDER_UNCERTAIN | OWNERSHIP_MISMATCH | PROVENANCE_UNPROVEN | IN_USE

record configuration_cleanup_outcome =
  ko_reference :: configuration_reference
  ko_status :: cleanup_status
  ko_reason :: "cleanup_reason option"

text \<open>
  One allocation: its volume is removed when it carries the allocation's labels, is local and is not
  used, and then it has to be gone.
\<close>

definition cleanup_one :: "'w docker_client \<Rightarrow> configuration_reference \<Rightarrow> ('w, cleanup_status \<times> cleanup_reason option) dk_eff" where
  "cleanup_one dc ki =
     (let name = configuration_volume_name ki
      in bindE (inspect_configuration_volume dc name) (\<lambda>found. case found of
          None \<Rightarrow> returnE (CLEANUP_ABSENT, None)
        | Some cv \<Rightarrow>
            if \<not> configuration_owned (cv_labels cv) ki then returnE (CLEANUP_REFUSED, Some OWNERSHIP_MISMATCH)
            else if \<not> cv_local cv then returnE (CLEANUP_REFUSED, Some PROVENANCE_UNPROVEN)
            else bindE (configuration_volume_in_use dc name) (\<lambda>used.
              if used then returnE (RETAINED_IN_USE, Some IN_USE)
              else attemptE (perform dc (RemoveConfigurationVolume cv))
                (\<lambda>e. if e = ConfigurationVolumeInUse then returnE (RETAINED_IN_USE, Some IN_USE) else raiseE e)
                (\<lambda>_. bindE (inspect_configuration_volume dc name) (\<lambda>after. returnE (case after of
                    None \<Rightarrow> (CLEANUP_REMOVED, None)
                  | Some _ \<Rightarrow> (CLEANUP_UNKNOWN, Some PROVIDER_UNCERTAIN)))))))"

fun cleanup_rows ::
  "'w docker_client \<Rightarrow> bool \<Rightarrow> configuration_reference list \<Rightarrow> ('w, configuration_cleanup_outcome list) dk_eff" where
  "cleanup_rows dc unknown [] = returnE []"
| "cleanup_rows dc unknown (ki # kis) =
     bindE (if unknown then returnE (CLEANUP_UNKNOWN, Some NOT_ATTEMPTED)
            else catchE dk_is_exception (cleanup_one dc ki) (\<lambda>_. returnE (CLEANUP_UNKNOWN, Some PROVIDER_UNCERTAIN)))
       (\<lambda>(status, reason).
         bindE (cleanup_rows dc (unknown \<or> status = CLEANUP_UNKNOWN) kis) (\<lambda>rows.
         returnE (\<lparr>ko_reference = ki, ko_status = status, ko_reason = reason\<rparr> # rows)))"

text \<open>\<open>result\<close> is the core's \<open>configuration_cleanup_result\<close>.\<close>

definition cleanup_configuration ::
  "'w docker_client \<Rightarrow> (runtime_request \<Rightarrow> configuration_cleanup_outcome list \<Rightarrow> dk_exn + runtime_observation runtime_result)
    \<Rightarrow> runtime_request \<Rightarrow> ('w, runtime_observation runtime_result) dk_eff" where
  "cleanup_configuration dc result rq =
     bindE (cleanup_rows dc False (rr_instances rq)) (\<lambda>rows. liftE (result rq rows))"

definition refused_cleanup_authority ::
  "(runtime_request \<Rightarrow> configuration_cleanup_outcome list \<Rightarrow> dk_exn + runtime_observation runtime_result)
    \<Rightarrow> runtime_request \<Rightarrow> dk_exn + runtime_observation runtime_result" where
  "refused_cleanup_authority result rq =
     result rq (map (\<lambda>ki. \<lparr>ko_reference = ki, ko_status = CLEANUP_REFUSED, ko_reason = Some AUTHORITY_REFUSED\<rparr>) (rr_instances rq))"

section \<open>What a cleanup did\<close>

text \<open>
  The events of one allocation, by the outcome that is reported for it.  An uncertain one stops at a
  failed call, or at a volume that is still there after its removal.
\<close>

definition removable :: "configuration_reference \<Rightarrow> configuration_volume \<Rightarrow> bool" where
  "removable ki cv \<longleftrightarrow> configuration_owned (cv_labels cv) ki \<and> cv_local cv"

definition seen_unused :: "configuration_reference \<Rightarrow> configuration_volume \<Rightarrow> docker_event list" where
  "seen_unused ki cv =
     [ConfigurationVolumeRead (configuration_volume_name ki) (Inr (Some cv)),
      VolumeUseRead (configuration_volume_name ki) (Inr False)]"

definition stopped_at_failure :: "configuration_reference \<Rightarrow> docker_event list \<Rightarrow> bool" where
  "stopped_at_failure ki evs \<longleftrightarrow>
     (let name = configuration_volume_name ki; seen = (\<lambda>cv. ConfigurationVolumeRead name (Inr (Some cv)))
      in (\<exists>e. evs = [ConfigurationVolumeRead name (Inl e)])
       \<or> (\<exists>cv e. removable ki cv \<and> evs = [seen cv, VolumeUseRead name (Inl e)])
       \<or> (\<exists>cv e. removable ki cv \<and> e \<noteq> ConfigurationVolumeInUse
            \<and> evs = seen_unused ki cv @ [Mutated (RemoveConfigurationVolume cv) (Inl e)])
       \<or> (\<exists>cv x r. removable ki cv \<and> r \<noteq> Inr None
            \<and> evs = seen_unused ki cv @ [Mutated (RemoveConfigurationVolume cv) (Inr x), ConfigurationVolumeRead name r]))"

definition row_explained :: "configuration_reference \<Rightarrow> cleanup_status \<Rightarrow> cleanup_reason option \<Rightarrow> docker_event list \<Rightarrow> bool" where
  "row_explained ki status reason evs \<longleftrightarrow>
     (let name = configuration_volume_name ki; seen = (\<lambda>cv. ConfigurationVolumeRead name (Inr (Some cv)))
      in case status of
          CLEANUP_ABSENT \<Rightarrow> reason = None \<and> evs = [ConfigurationVolumeRead name (Inr None)]
        | CLEANUP_REFUSED \<Rightarrow> (\<exists>cv. \<not> removable ki cv \<and> evs = [seen cv]
            \<and> reason = Some (if configuration_owned (cv_labels cv) ki then PROVENANCE_UNPROVEN else OWNERSHIP_MISMATCH))
        | RETAINED_IN_USE \<Rightarrow> reason = Some IN_USE \<and> (\<exists>cv. removable ki cv
            \<and> (evs = [seen cv, VolumeUseRead name (Inr True)]
               \<or> evs = seen_unused ki cv @ [Mutated (RemoveConfigurationVolume cv) (Inl ConfigurationVolumeInUse)]))
        | CLEANUP_REMOVED \<Rightarrow> reason = None \<and> (\<exists>cv x. removable ki cv
            \<and> evs = seen_unused ki cv @ [Mutated (RemoveConfigurationVolume cv) (Inr x), ConfigurationVolumeRead name (Inr None)])
        | CLEANUP_UNKNOWN \<Rightarrow> reason = Some NOT_ATTEMPTED \<and> evs = []
            \<or> reason = Some PROVIDER_UNCERTAIN \<and> stopped_at_failure ki evs)"

text \<open>The rows of a cleanup with the events of each; after an unknown one nothing is attempted.\<close>

fun rows_explained :: "bool \<Rightarrow> configuration_reference list \<Rightarrow> configuration_cleanup_outcome list \<Rightarrow> docker_event list \<Rightarrow> bool" where
  "rows_explained unknown [] rows evs \<longleftrightarrow> rows = [] \<and> evs = []"
| "rows_explained unknown (ki # kis) rows evs \<longleftrightarrow>
     (\<exists>row rest own later. rows = row # rest \<and> evs = own @ later \<and> ko_reference row = ki
        \<and> row_explained ki (ko_status row) (ko_reason row) own
        \<and> (ko_reason row = Some NOT_ATTEMPTED \<longleftrightarrow> unknown)
        \<and> rows_explained (unknown \<or> ko_status row = CLEANUP_UNKNOWN) kis rest later)"

lemma emits_cleanup_one:
  "emits (cleanup_one dc ki) (\<lambda>evs r. case r of
      Inr (status, reason) \<Rightarrow> row_explained ki status reason evs \<and> reason \<noteq> Some NOT_ATTEMPTED
    | Inl e \<Rightarrow> row_explained ki CLEANUP_UNKNOWN (Some PROVIDER_UNCERTAIN) evs)"
proof -
  let ?n = "configuration_volume_name ki"
  have removal: "emits (perform dc (RemoveConfigurationVolume cv)) (\<lambda>evs r. case r of
        Inr _ \<Rightarrow> \<exists>x. evs = [Mutated (RemoveConfigurationVolume cv) (Inr x)]
      | Inl e \<Rightarrow> evs = [Mutated (RemoveConfigurationVolume cv) (Inl e)])" for cv
    unfolding perform_def mutate_def by (rule emits_bindE[OF emits_callE_eq]) (auto intro: emits_returnE)
  show ?thesis
    unfolding cleanup_one_def Let_def inspect_configuration_volume_def configuration_volume_in_use_def
  proof (rule emits_bindE[OF emits_callE_eq], goal_cases)
    case (1 found evs)
    show ?case
    proof (cases found)
      case None
      with 1 show ?thesis by (auto simp: row_explained_def intro: emits_returnE)
    next
      case (Some cv)
      show ?thesis
      proof (cases "removable ki cv")
        case False
        with 1 Some show ?thesis by (auto simp: row_explained_def removable_def intro!: emits_returnE)
      next
        case True
        then have own: "configuration_owned (cv_labels cv) ki" "cv_local cv" by (auto simp: removable_def)
        show ?thesis
          unfolding Some option.case
          apply (rule emits_if, use own in simp)
          apply (rule emits_if, use own in simp)
          apply (rule emits_bindE[OF emits_callE_eq])
           apply (rule emits_if)
            apply (rule emits_returnE, use 1 Some True in \<open>auto simp: row_explained_def\<close>)[1]
           apply (rule emits_attemptE[OF removal])
            apply (rule emits_bindE[OF emits_callE_eq])
             apply (rule emits_returnE, use 1 Some True in \<open>fastforce simp: row_explained_def stopped_at_failure_def seen_unused_def split: option.splits\<close>)[1]
            apply (use 1 Some True in \<open>fastforce simp: row_explained_def stopped_at_failure_def seen_unused_def\<close>)[1]
           apply (rule emits_if)
            apply (rule emits_returnE, use 1 Some True in \<open>auto simp: row_explained_def seen_unused_def\<close>)[1]
           apply (rule emits_raiseE, use 1 Some True in \<open>auto simp: row_explained_def stopped_at_failure_def seen_unused_def\<close>)[1]
          apply (use 1 Some True in \<open>auto simp: row_explained_def stopped_at_failure_def\<close>)
          done
      qed
    qed
  next
    case 2
    then show ?case by (auto simp: row_explained_def stopped_at_failure_def)
  qed
qed

lemma row_not_attempted [simp]: "row_explained ki CLEANUP_UNKNOWN (Some NOT_ATTEMPTED) []"
  by (simp add: row_explained_def)

lemma delivers_cleanup_one:
  "delivers (catchE dk_is_exception (cleanup_one dc ki) (\<lambda>_. returnE (CLEANUP_UNKNOWN, Some PROVIDER_UNCERTAIN)))
     (\<lambda>(status, reason) evs. row_explained ki status reason evs \<and> reason \<noteq> Some NOT_ATTEMPTED)"
  unfolding catchE_def
proof (rule delivers_attempt[OF emits_cleanup_one], goal_cases)
  case (2 e evs)
  then show ?case by (auto intro!: delivers_if delivers_return)
qed (auto intro: delivers_return)

lemma delivers_cleanup_rows: "delivers (cleanup_rows dc unknown kis) (\<lambda>rows evs. rows_explained unknown kis rows evs)"
proof (induction kis arbitrary: unknown)
  case (Cons ki kis)
  have one: "delivers (if unknown then returnE (CLEANUP_UNKNOWN, Some NOT_ATTEMPTED)
        else catchE dk_is_exception (cleanup_one dc ki) (\<lambda>_. returnE (CLEANUP_UNKNOWN, Some PROVIDER_UNCERTAIN)))
      (\<lambda>(status, reason) evs. row_explained ki status reason evs \<and> (reason = Some NOT_ATTEMPTED \<longleftrightarrow> unknown))"
    by (cases unknown) (auto intro: delivers_return delivers_mono[OF delivers_cleanup_one])
  show ?case
    unfolding cleanup_rows.simps
  proof (rule delivers_bind[OF one], goal_cases)
    case (1 res evs)
    obtain status reason where res: "res = (status, reason)" by (cases res)
    from 1 show ?case
      unfolding res prod.case
      by (intro delivers_bind[OF Cons.IH] delivers_return) (fastforce simp: rows_explained.simps)
  qed
qed (simp add: delivers_return)

end
