(* ===== verification/Docker_Attempt.thy ===== *)
theory Docker_Attempt
  imports Docker_Configuration Docker_Nodes Docker_Inspect
begin

text \<open>
  \<open>ConfigurationAttempt\<close> (\<open>docker/configuration.py\<close>): the facts of one configuration activity, kept
  while it runs and reported however it ends.  An operation of the activity is a computation over
  the state and the attempt, so that what was marked before an exception is still there.
\<close>

section \<open>The attempt\<close>

text \<open>
  \<open>at_config\<close> and \<open>at_secret\<close> are the fingerprints of the request and of its selection, when the
  request has a configuration, or selected secrets.
\<close>

record attempt =
  at_config :: "(string \<times> string) option"
  at_secret :: "(string \<times> string) option"
  at_phase :: string
  at_attempted :: "nat list"
  at_staged :: "nat list"
  at_old :: "string option"
  at_container :: "string option"
  at_old_removed :: bool
  at_unknown_created :: bool
  at_action :: string
  at_uid :: "nat option"
  at_secret_attempted :: "nat list"
  at_secret_staged :: "nat list"
  at_retained :: "string list"
  at_unknown_material :: bool
  at_close_unknown :: bool

definition make_attempt :: "runtime_request \<Rightarrow> dk_exn + attempt" where
  "make_attempt rq =
     (case rr_products rq of
        [] \<Rightarrow> Inl (ProviderFault OtherClass ''IndexError'')
      | m # _ \<Rightarrow> Inr
          \<lparr>at_config = (if rr_kind rq = CONFIGURATION_ACTIVITY_V1 then Some (rr_fingerprint rq, rr_selection rq) else None),
           at_secret = (if pm_selections m \<noteq> [] then Some (rr_fingerprint rq, rr_secret_selection rq) else None),
           at_phase = ''preflight'', at_attempted = [], at_staged = [], at_old = None, at_container = None,
           at_old_removed = False, at_unknown_created = False, at_action = ''not-started'', at_uid = None,
           at_secret_attempted = [], at_secret_staged = [], at_retained = [], at_unknown_material = False,
           at_close_unknown = False\<rparr>)"

fun json_option :: "string option \<Rightarrow> json" where
  "json_option None = JNull"
| "json_option (Some s) = JStr s"

definition json_indices :: "nat list \<Rightarrow> json" where
  "json_indices is = JList (map (\<lambda>i. JInt (int i)) is)"

definition configuration_evidence :: "attempt \<Rightarrow> string \<Rightarrow> json" where
  "configuration_evidence att selection = JObj
     [(''profile'', JStr ''docker.configuration-attempt.v1''), (''phase'', JStr (at_phase att)),
      (''selection_fingerprint'', JStr selection),
      (''attempted_indices'', json_indices (at_attempted att)), (''staged_indices'', json_indices (at_staged att)),
      (''old_container_id'', json_option (at_old att)), (''container_id'', json_option (at_container att)),
      (''old_removed'', JBool (at_old_removed att)), (''unknown_created_resource'', JBool (at_unknown_created att)),
      (''configuration_volumes_removed'', JInt 0)]"

definition secret_evidence :: "attempt \<Rightarrow> string \<times> string \<Rightarrow> json" where
  "secret_evidence att = (\<lambda>(request, selection). JObj
     [(''profile'', JStr ''docker.secret-attempt.v1''), (''phase'', JStr (at_phase att)),
      (''file_identity_profile'', JStr ''docker.selected-secret-file.v1''),
      (''request_fingerprint'', JStr request), (''selection_fingerprint'', JStr selection),
      (''file_owner_uid'', case at_uid att of None \<Rightarrow> JNull | Some uid \<Rightarrow> JInt (int uid)),
      (''attempted_indices'', json_indices (at_secret_attempted att)),
      (''staged_indices'', json_indices (at_secret_staged att)),
      (''retained_mounts'', JList (map JStr (at_retained att))),
      (''old_container_id'', json_option (at_old att)), (''container_id'', json_option (at_container att)),
      (''old_removed'', JBool (at_old_removed att)), (''unknown_created_resource'', JBool (at_unknown_created att)),
      (''unknown_materialization'', JBool (at_unknown_material att)),
      (''authority_close_unknown'', JBool (at_close_unknown att)), (''secret_volumes_removed'', JInt 0)])"

definition attempt_evidence :: "attempt \<Rightarrow> (string \<times> json) list" where
  "attempt_evidence att =
     (''action'', JStr (at_action att))
     # (case at_config att of None \<Rightarrow> [] | Some (_, selection) \<Rightarrow> [(''configuration_attempt'', configuration_evidence att selection)])
     @ (case at_secret att of None \<Rightarrow> [] | Some s \<Rightarrow> [(''secret_attempt'', secret_evidence att s)])"

text \<open>
  The core's descriptors of completions and receipts, which may refuse their values, and its check of
  a result; an entry of \<open>extra\<close> overrides one of the attempt.
\<close>

datatype disposition = INSTALLATION_CREATED | INSTALLATION_REUSED | INSTALLATION_REPLACED

record configuration_core =
  kc_completion :: "string \<Rightarrow> string \<Rightarrow> dk_exn + json"
  kc_installation :: "string \<Rightarrow> string \<Rightarrow> disposition \<Rightarrow> string option \<Rightarrow> string \<Rightarrow> dk_exn + json"
  kc_resolution :: "string \<Rightarrow> string \<Rightarrow> dk_exn + json"
  kc_secret_installation :: "string \<Rightarrow> string \<Rightarrow> disposition \<Rightarrow> string option \<Rightarrow> string \<Rightarrow> dk_exn + json"
  kc_refuses :: "runtime_observation runtime_result \<Rightarrow> dk_exn option"
  kc_cleanup :: "runtime_request \<Rightarrow> configuration_cleanup_outcome list \<Rightarrow> dk_exn + runtime_observation runtime_result"

definition completion_entry :: "configuration_core \<Rightarrow> attempt \<Rightarrow> result_kind \<Rightarrow> dk_exn + (string \<times> json) list" where
  "completion_entry core att kind =
     (case at_config att of
        Some (request, selection) \<Rightarrow>
          if kind \<in> {SUCCEEDED, FAILED_EFFECT}
          then bindR (kc_completion core request selection) (\<lambda>d. Inr [(''configuration_invocation_completion'', d)])
          else Inr []
      | None \<Rightarrow> Inr [])"

definition attempt_result ::
  "configuration_core \<Rightarrow> runtime_request \<Rightarrow> attempt \<Rightarrow> result_kind \<Rightarrow> effect_failure option \<Rightarrow> runtime_observation list
    \<Rightarrow> (string \<times> json) list \<Rightarrow> dk_exn + runtime_observation runtime_result" where
  "attempt_result core rq att kind failure observations extra =
     bindR (completion_entry core att kind) (\<lambda>completion.
     let result = \<lparr>re_effect = rr_effect rq, re_kind = kind, re_evidence = completion @ extra @ attempt_evidence att,
                   re_failure = failure, re_observations = observations\<rparr>
     in case kc_refuses core result of None \<Rightarrow> Inr result | Some e \<Rightarrow> Inl e)"

definition attempt_failure :: "string \<Rightarrow> string \<Rightarrow> effect_failure" where
  "attempt_failure code message = \<lparr>ef_code = code, ef_message = message, ef_details = []\<rparr>"

definition attempt_uncertain ::
  "configuration_core \<Rightarrow> runtime_request \<Rightarrow> attempt \<Rightarrow> dk_exn + runtime_observation runtime_result" where
  "attempt_uncertain core rq att =
     attempt_result core rq att UNCERTAIN_EFFECT
       (Some (if at_config att = None
              then attempt_failure ''docker.secret-effect-uncertain'' ''Docker selected secret effect is uncertain''
              else attempt_failure ''docker.configuration-effect-uncertain'' ''Docker configuration effect is uncertain'')) [] []"

section \<open>Incarnations\<close>

definition incarnation_fingerprint :: "string option \<Rightarrow> dk_exn + string" where
  "incarnation_fingerprint identity =
     (case identity of
        Some i \<Rightarrow>
          if hex64 i
          then Inr (sha256_hex (utf8_bytes (canonical_json (JObj
            [(''profile'', JStr ''docker-container-incarnation.v1''), (''provider'', JStr ''docker''),
             (''resource_kind'', JStr ''container''), (''container_id'', JStr i)]))))
          else Inl ObservationUnknown
      | None \<Rightarrow> Inl ObservationUnknown)"

definition incarnation_fields :: "attempt \<Rightarrow> dk_exn + disposition \<times> string option \<times> string" where
  "incarnation_fields att =
     (if at_unknown_created att then Inl ObservationUnknown
      else bindR (incarnation_fingerprint (at_container att)) (\<lambda>current.
           bindR (case at_old att of None \<Rightarrow> Inr None
                    | Some i \<Rightarrow> bindR (incarnation_fingerprint (Some i)) (\<lambda>f. Inr (Some f))) (\<lambda>prior.
           if at_old att = None \<and> \<not> at_old_removed att then Inr (INSTALLATION_CREATED, prior, current)
           else if at_old att = at_container att \<and> \<not> at_old_removed att then Inr (INSTALLATION_REUSED, prior, current)
           else if at_old att \<noteq> None \<and> at_old att \<noteq> at_container att \<and> at_old_removed att
           then Inr (INSTALLATION_REPLACED, prior, current)
           else Inl ObservationUnknown)))"

definition secret_installation_evidence :: "configuration_core \<Rightarrow> attempt \<Rightarrow> dk_exn + (string \<times> json) list" where
  "secret_installation_evidence core att =
     (case at_secret att of
        None \<Rightarrow> Inr []
      | Some (request, selection) \<Rightarrow>
          bindR (incarnation_fields att) (\<lambda>(disposition, prior, current).
          bindR (kc_resolution core request selection) (\<lambda>resolution.
          bindR (kc_secret_installation core request selection disposition prior current) (\<lambda>installation.
          Inr [(''secret_resolution_receipt'', resolution), (''secret_installation_receipt'', installation)]))))"

definition installation_receipts :: "configuration_core \<Rightarrow> attempt \<Rightarrow> dk_exn + (string \<times> json) list" where
  "installation_receipts core att =
     bindR (secret_installation_evidence core att) (\<lambda>secrets.
     case at_config att of
       None \<Rightarrow> Inr secrets
     | Some (request, selection) \<Rightarrow>
         bindR (incarnation_fields att) (\<lambda>(disposition, prior, current).
         bindR (kc_installation core request selection disposition prior current) (\<lambda>installation.
         Inr ((''configuration_installation_receipt'', installation) # secrets))))"

section \<open>Computations with an attempt\<close>

type_synonym ('w, 'a) at_eff = "((docker_event, 'w) st \<times> attempt, dk_exn, 'a) eff"

definition on_docker :: "('w, 'a) dk_eff \<Rightarrow> ('w, 'a) at_eff" where
  "on_docker m s = (case m (fst s) of (r, s') \<Rightarrow> (r, (s', snd s)))"

definition mark :: "(attempt \<Rightarrow> attempt) \<Rightarrow> ('w, unit) at_eff" where
  "mark f s = (Inr (), (fst s, f (snd s)))"

definition attempt_now :: "('w, attempt) at_eff" where
  "attempt_now s = (Inr (snd s), s)"

definition enter :: "string \<Rightarrow> ('w, unit) at_eff" where
  "enter phase = mark (\<lambda>att. att\<lparr>at_phase := phase\<rparr>)"

text \<open>A run, with what the attempt is at its end.\<close>

definition run_attempt :: "('w, 'a) at_eff \<Rightarrow> attempt \<Rightarrow> ('w, (dk_exn + 'a) \<times> attempt) dk_eff" where
  "run_attempt m att s = (case m (s, att) of (r, (s', att')) \<Rightarrow> (Inr (r, att'), s'))"

text \<open>
  \<open>at_runs att m R\<close>: from the attempt \<open>att\<close>, the events of a run, its outcome and the attempt at its
  end are related by \<open>R\<close>.
\<close>

definition at_runs :: "attempt \<Rightarrow> ('w, 'a) at_eff \<Rightarrow> (docker_event list \<Rightarrow> dk_exn + 'a \<Rightarrow> attempt \<Rightarrow> bool) \<Rightarrow> bool" where
  "at_runs att m R \<longleftrightarrow>
     (\<forall>s. \<exists>evs. trace (fst (snd (m (s, att)))) = trace s @ evs \<and> R evs (fst (m (s, att))) (snd (snd (m (s, att)))))"

lemma emits_run_attempt:
  "at_runs att m R \<Longrightarrow> emits (run_attempt m att) (\<lambda>evs r. \<exists>r0 att'. r = Inr (r0, att') \<and> R evs r0 att')"
  unfolding emits_def at_runs_def run_attempt_def
proof
  fix s
  assume "\<forall>s. \<exists>evs. trace (fst (snd (m (s, att)))) = trace s @ evs \<and> R evs (fst (m (s, att))) (snd (snd (m (s, att))))"
  then obtain evs where *: "trace (fst (snd (m (s, att)))) = trace s @ evs" "R evs (fst (m (s, att))) (snd (snd (m (s, att))))" by blast
  then show "\<exists>evs. trace (snd (case m (s, att) of (r, s', att') \<Rightarrow> (Inr (r, att'), s'))) = trace s @ evs
      \<and> (\<exists>r0 att'. fst (case m (s, att) of (r, s', att') \<Rightarrow> (Inr (r, att'), s')) = Inr (r0, att') \<and> R evs r0 att')"
    by (cases "m (s, att)") auto
qed

lemma at_runs_mono: "at_runs att m R \<Longrightarrow> (\<And>evs r att'. R evs r att' \<Longrightarrow> R' evs r att') \<Longrightarrow> at_runs att m R'"
  unfolding at_runs_def by blast

lemma at_runs_return: "R [] (Inr a) att \<Longrightarrow> at_runs att (returnE a) R"
  by (simp add: at_runs_def returnE_def)

lemma at_runs_raise: "R [] (Inl e) att \<Longrightarrow> at_runs att (raiseE e) R"
  by (simp add: at_runs_def raiseE_def)

lemma at_runs_lift: "R [] v att \<Longrightarrow> at_runs att (liftE v) R"
  by (simp add: at_runs_def liftE_def)

lemma at_runs_mark: "R [] (Inr ()) (f att) \<Longrightarrow> at_runs att (mark f) R"
  by (simp add: at_runs_def mark_def)

lemma at_runs_now: "R [] (Inr att) att \<Longrightarrow> at_runs att attempt_now R"
  by (simp add: at_runs_def attempt_now_def)

lemma at_runs_docker: "emits m (\<lambda>evs r. R evs r att) \<Longrightarrow> at_runs att (on_docker m) R"
  unfolding at_runs_def on_docker_def emits_def by (auto split: prod.splits) (metis fst_conv snd_conv)

lemma at_runs_bind:
  assumes "at_runs att m Q"
    and "\<And>a att' evs. Q evs (Inr a) att' \<Longrightarrow> at_runs att' (k a) (\<lambda>evs' r att''. R (evs @ evs') r att'')"
    and "\<And>e att' evs. Q evs (Inl e) att' \<Longrightarrow> R evs (Inl e) att'"
  shows "at_runs att (bindE m k) R"
  unfolding at_runs_def
proof
  fix s
  obtain r s' att' where run: "m (s, att) = (r, s', att')" by (cases "m (s, att)") auto
  with assms(1) obtain evs where evs: "trace s' = trace s @ evs" "Q evs r att'"
    unfolding at_runs_def by (metis fst_conv snd_conv)
  show "\<exists>evs. trace (fst (snd (bindE m k (s, att)))) = trace s @ evs
      \<and> R evs (fst (bindE m k (s, att))) (snd (snd (bindE m k (s, att))))"
  proof (cases r)
    case (Inl e)
    with evs assms(3) show ?thesis by (auto simp: bindE_def run)
  next
    case (Inr a)
    with evs assms(2) obtain evs' where "trace (fst (snd (k a (s', att')))) = trace s' @ evs'"
      "R (evs @ evs') (fst (k a (s', att'))) (snd (snd (k a (s', att'))))"
      unfolding at_runs_def by blast
    with evs Inr show ?thesis by (auto simp: bindE_def run)
  qed
qed

end
