(* ===== verification/Docker_Configured.thy ===== *)
theory Docker_Configured
  imports Docker_Attempt
begin

text \<open>
  Nodes with allocated configuration or selected secrets: \<open>_configuration_node\<close> and
  \<open>_execute_configuration_node\<close> of \<open>docker/runtime.py\<close>, with the staging of \<open>docker/configuration.py\<close>.
  A container is handled by its identity, and replaced only when it was seen unchanged.
\<close>

section \<open>Staging\<close>

text \<open>The artifact of a reference: a later artifact with an id replaces an earlier one.\<close>

definition artifact_of :: "product_material \<Rightarrow> configuration_reference \<Rightarrow> dk_exn + configuration_artifact" where
  "artifact_of m ki =
     (case map_of (rev (map (\<lambda>a. (ca_id a, a)) (pm_artifacts m))) (ki_artifact ki) of
        None \<Rightarrow> Inl (ProviderFault OtherClass ''KeyError'')
      | Some a \<Rightarrow> Inr a)"

definition attempted :: "nat \<Rightarrow> ('w, unit) at_eff" where
  "attempted index = mark (\<lambda>att. att\<lparr>at_attempted := at_attempted att @ [index]\<rparr>)"

definition staged :: "nat \<Rightarrow> ('w, unit) at_eff" where
  "staged index = mark (\<lambda>att. att\<lparr>at_staged := at_staged att @ [index]\<rparr>)"

definition owned_volume :: "'w docker_client \<Rightarrow> configuration_reference \<Rightarrow> ('w, unit) at_eff" where
  "owned_volume dc ki =
     bindE (on_docker (inspect_volume dc (configuration_volume_name ki))) (\<lambda>observed.
     liftE (require_configuration_owner observed ki))"

definition stage_one :: "'w docker_client \<Rightarrow> product_material \<Rightarrow> nat \<Rightarrow> configuration_reference
    \<Rightarrow> ('w, configuration_artifact \<times> string) at_eff" where
  "stage_one dc m index ki =
     bindE (liftE (artifact_of m ki)) (\<lambda>a.
     let name = configuration_volume_name ki
     in bindE (on_docker (inspect_volume dc name)) (\<lambda>found.
        bindE (case found of
            None \<Rightarrow>
              bindE (attempted index) (\<lambda>_.
              bindE (on_docker (perform dc (CreateVolume name (configuration_volume_labels ki)))) (\<lambda>_.
              owned_volume dc ki))
          | Some observed \<Rightarrow>
              bindE (liftE (require_configuration_owner (Some observed) ki)) (\<lambda>_. attempted index)) (\<lambda>_.
        bindE (on_docker (inspect_configuration_file dc name)) (\<lambda>observed.
        bindE (case observed of
            Some f \<Rightarrow> returnE (Some f)
          | None \<Rightarrow>
              bindE (on_docker (perform dc (MaterializeArtifact name a))) (\<lambda>_.
              on_docker (inspect_configuration_file dc name))) (\<lambda>final.
        bindE (liftE (require_configuration_file final a)) (\<lambda>_.
        bindE (owned_volume dc ki) (\<lambda>_.
        bindE (staged index) (\<lambda>_. returnE (a, name)))))))))"

fun stage_from :: "'w docker_client \<Rightarrow> product_material \<Rightarrow> nat \<Rightarrow> configuration_reference list
    \<Rightarrow> ('w, (configuration_artifact \<times> string) list) at_eff" where
  "stage_from dc m index [] = returnE []"
| "stage_from dc m index (ki # kis) =
     bindE (stage_one dc m index ki) (\<lambda>mount.
     bindE (stage_from dc m (index + 1) kis) (\<lambda>mounts. returnE (mount # mounts)))"

definition stage_configuration :: "'w docker_client \<Rightarrow> runtime_request \<Rightarrow> product_material
    \<Rightarrow> ('w, (configuration_artifact \<times> string) list) at_eff" where
  "stage_configuration dc rq m =
     bindE (enter ''configuration-staging'') (\<lambda>_. stage_from dc m 0 (rr_instances rq))"

section \<open>Preparation\<close>

text \<open>The secret files of a container: what is created, and not yet read back, is marked unknown.\<close>

definition attempt_secret :: "'w docker_client \<Rightarrow> runtime_request \<Rightarrow> product_material \<Rightarrow> labels \<Rightarrow> nat \<Rightarrow> nat \<Rightarrow> secret_material
    \<Rightarrow> ('w, secret_mount) at_eff" where
  "attempt_secret dc rq m ls uid index f =
     (let volume = secret_volume_name rq m f uid; vls = identified_labels ls rq m f uid;
          owner = (\<lambda>observed. liftE (node_secret_owner observed vls rq m f uid));
          selected = (\<lambda>g. mark (\<lambda>att. if at_secret att = None then att else g att))
      in bindE (selected (\<lambda>att. att\<lparr>at_secret_attempted := at_secret_attempted att @ [index]\<rparr>)) (\<lambda>_.
         bindE (on_docker (inspect_volume dc volume)) (\<lambda>found.
         bindE (case found of
             None \<Rightarrow>
               bindE (mark (\<lambda>att. att\<lparr>at_unknown_created := True\<rparr>)) (\<lambda>_.
               bindE (on_docker (perform dc (CreateVolume volume vls))) (\<lambda>_.
               bindE (on_docker (inspect_volume dc volume)) (\<lambda>created. case created of
                   None \<Rightarrow> raiseE ObservationUnknown
                 | Some observed \<Rightarrow>
                     bindE (owner observed) (\<lambda>_.
                     bindE (mark (\<lambda>att. att\<lparr>at_unknown_created := False, at_unknown_material := True\<rparr>)) (\<lambda>_.
                     on_docker (perform dc (MaterializeSecret volume (fm_value f) (fm_mode f) uid)))))))
           | Some observed \<Rightarrow> owner observed) (\<lambda>_.
         bindE (on_docker (require_secret_file dc volume f uid)) (\<lambda>_.
         bindE (on_docker (inspect_volume dc volume)) (\<lambda>again. case again of
             None \<Rightarrow> raiseE ObservationUnknown
           | Some observed \<Rightarrow>
               bindE (owner observed) (\<lambda>_.
               bindE (selected (\<lambda>att. att\<lparr>at_unknown_material := False,
                  at_secret_staged := at_secret_staged att @ [index]\<rparr>)) (\<lambda>_.
               returnE \<lparr>sm_target = fm_target f, sm_volume = volume\<rparr>))))))))"

fun attempt_secrets :: "'w docker_client \<Rightarrow> runtime_request \<Rightarrow> product_material \<Rightarrow> labels \<Rightarrow> nat \<Rightarrow> nat \<Rightarrow> secret_material list
    \<Rightarrow> ('w, secret_mount list) at_eff" where
  "attempt_secrets dc rq m ls uid index [] = returnE []"
| "attempt_secrets dc rq m ls uid index (f # fs) =
     bindE (attempt_secret dc rq m ls uid index f) (\<lambda>x.
     bindE (attempt_secrets dc rq m ls uid (index + 1) fs) (\<lambda>xs. returnE (x # xs)))"

text \<open>\<open>allocated\<close> are the mounts of allocated configuration; without them the artifacts are prepared here.\<close>

definition attempt_container_material :: "'w docker_client \<Rightarrow> runtime_request \<Rightarrow> product_material \<Rightarrow> labels \<Rightarrow> secret_deliveries
    \<Rightarrow> nat \<Rightarrow> (configuration_artifact \<times> string) list option \<Rightarrow> ('w, create_material) at_eff" where
  "attempt_container_material dc rq m ls secrets uid allocated =
     bindE (case allocated of
         Some mounts \<Rightarrow> returnE mounts
       | None \<Rightarrow> on_docker (prepare_artifacts dc rq m ls (pm_artifacts m))) (\<lambda>mounts.
     bindE (on_docker (prepare_retained dc ls (map fst (retained_volumes rq m)))) (\<lambda>_.
     bindE (attempt_secrets dc rq m ls uid 0 (rd_files secrets)) (\<lambda>smounts.
     bindE (liftE (container_environment m secrets)) (\<lambda>env.
     returnE \<lparr>cr_environment = env, cr_volumes = retained_volumes rq m, cr_configurations = mounts, cr_secrets = smounts\<rparr>))))"

section \<open>Admission\<close>

definition selection_label :: string where
  "selection_label = ''configuration.selection''"

definition configured_labels :: "attempt \<Rightarrow> runtime_request \<Rightarrow> product_material \<Rightarrow> labels" where
  "configured_labels att rq m =
     (case at_config att of
        None \<Rightarrow> node_labels rq m
      | Some (_, selection) \<Rightarrow> labelled [(selection_label, selection)] @ node_labels rq m)"

text \<open>The volumes of the secret files an existing container has, in order and without a repeated one.\<close>

definition retained_of :: "container_inspection \<Rightarrow> string list" where
  "retained_of ci = sort_by str_le (remdups (map sm_volume (ci_secret_mounts ci)))"

definition retain_mounts :: "container_inspection option \<Rightarrow> ('w, unit) at_eff" where
  "retain_mounts found =
     bindE attempt_now (\<lambda>att. case (at_secret att, found) of
         (Some _, Some ci) \<Rightarrow>
           if 32 < length (retained_of ci) \<or> list_ex (\<lambda>v. 256 < length v) (retained_of ci)
           then raiseE (PreconditionError ''docker.secret-result-capacity'' ''Secret attempt exceeds its bounded resource context'')
           else mark (\<lambda>att. att\<lparr>at_retained := retained_of ci\<rparr>)
       | _ \<Rightarrow> returnE ())"

definition common_evidence :: "runtime_request \<Rightarrow> product_material \<Rightarrow> (string \<times> json) list" where
  "common_evidence rq m = text_entries (tl (node_evidence rq m []))"

definition endpoints_at :: "'w docker_runtime \<Rightarrow> runtime_request \<Rightarrow> product_material \<Rightarrow> string \<Rightarrow> runtime_observation list" where
  "endpoints_at dr rq m host = map EndpointSeen (private_endpoints (dr_scheme dr) (pm_node m) (rr_graph rq) host (pm_ports m))"

text \<open>
  The largest result the attempt can have has to fit its envelope, before anything is changed: a
  replaced container, every index, the receipts and a reserve for addresses.
\<close>

definition largest_attempt :: "runtime_request \<Rightarrow> product_material \<Rightarrow> attempt \<Rightarrow> attempt" where
  "largest_attempt rq m att =
     (let configurations = (if at_config att = None then 0 else length (rr_instances rq));
          files = length (filter is_file_delivery (pm_deliveries m))
      in att\<lparr>at_phase := ''installed-verification'', at_attempted := [0..<configurations], at_staged := [0..<configurations],
             at_secret_attempted := [0..<files], at_secret_staged := [0..<files],
             at_uid := (if files = 0 then None else Some 2147483647),
             at_old := Some (replicate 64 CHR ''e''), at_container := Some (replicate 64 CHR ''f''),
             at_old_removed := True, at_unknown_created := False\<rparr>)"

definition capacity_reserve :: "product_material \<Rightarrow> json" where
  "capacity_reserve m = JList (replicate ((1024 + 64 * length (pm_ports m) + 255) div 256) (JStr (replicate 256 CHR ''x'')))"

definition largest_result :: "configuration_core \<Rightarrow> 'w docker_runtime \<Rightarrow> runtime_request \<Rightarrow> product_material \<Rightarrow> attempt
    \<Rightarrow> dk_exn + runtime_observation runtime_result" where
  "largest_result core dr rq m att =
     bindR (installation_receipts core (largest_attempt rq m att)) (\<lambda>receipts.
     attempt_result core rq ((largest_attempt rq m att)\<lparr>at_unknown_created := True\<rparr>) SUCCEEDED None
       (endpoints_at dr rq m (pm_node m)) ((''capacity_reserve'', capacity_reserve m) # receipts @ common_evidence rq m))"

definition reserve_capacity :: "configuration_core \<Rightarrow> 'w docker_runtime \<Rightarrow> runtime_request \<Rightarrow> product_material \<Rightarrow> attempt \<Rightarrow> dk_exn + unit" where
  "reserve_capacity core dr rq m att =
     (case largest_result core dr rq m att of
        Inr _ \<Rightarrow> Inr ()
      | Inl ContractError \<Rightarrow>
          Inl (PreconditionError ''docker.configuration-result-capacity'' ''Configuration result cannot fit its bounded envelope'')
      | Inl e \<Rightarrow> Inl e)"

text \<open>
  An existing container: it is owned, conformant, on the node's network; the result says whether it
  is the installation that is asked for.
\<close>

definition same_installation :: "attempt \<Rightarrow> labels \<Rightarrow> container_inspection \<Rightarrow> bool" where
  "same_installation att ls ci \<longleftrightarrow>
     fingerprint_matches (ci_labels ci) ls
     \<and> (case at_config att of None \<Rightarrow> True | Some (_, selection) \<Rightarrow> label_of (ci_labels ci) selection_label = Some selection)"

definition admit_existing :: "'w docker_runtime \<Rightarrow> runtime_request \<Rightarrow> product_material \<Rightarrow> authority_material \<Rightarrow> labels
    \<Rightarrow> container_inspection option \<Rightarrow> ('w, bool) at_eff" where
  "admit_existing dr rq m am ls found =
     (case found of
        None \<Rightarrow> returnE False
      | Some ci \<Rightarrow>
          (case ci_identity ci of
             None \<Rightarrow> raiseE ObservationUnknown
           | Some identity \<Rightarrow>
               let net = network_name rq (pm_runtime m)
               in bindE (mark (\<lambda>att. att\<lparr>at_old := Some identity\<rparr>)) (\<lambda>_.
                  bindE (liftE (require_node_owner (ci_labels ci) ls ''container'')) (\<lambda>_.
                  bindE (liftE (require_material_evidence (ci_labels ci))) (\<lambda>_.
                  bindE (liftE (require_node_network ci net)) (\<lambda>_.
                  bindE (on_docker (require_container_authority (dr_client dr) ci am False)) (\<lambda>_.
                  bindE attempt_now (\<lambda>att.
                  bindE (if rr_operation rq \<noteq> ReconcileNode then liftE (require_correlation ci ls net False False)
                         else if rr_deliveries rq \<noteq> [] \<and> \<not> same_installation att ls ci
                         then raiseE (UnsupportedAuthority ''docker.runtime-authority-change-unsupported'')
                         else returnE ()) (\<lambda>_.
                  returnE (same_installation att ls ci))))))))))"

section \<open>Installation\<close>

text \<open>Equality of inspections, whose labels and addresses are dictionaries.\<close>

definition same_inspection :: "container_inspection \<Rightarrow> container_inspection \<Rightarrow> bool" where
  "same_inspection a b \<longleftrightarrow>
     a\<lparr>ci_labels := [], ci_addresses := []\<rparr> = b\<lparr>ci_labels := [], ci_addresses := []\<rparr>
     \<and> same_labels (ci_labels a) (ci_labels b) \<and> same_labels (ci_addresses a) (ci_addresses b)"

definition start_identity :: "'w docker_client \<Rightarrow> string \<Rightarrow> string \<Rightarrow> ('w, unit) at_eff" where
  "start_identity dc identity action =
     bindE (enter ''container-start'') (\<lambda>_.
     bindE (on_docker (perform dc (StartContainer identity))) (\<lambda>_.
     mark (\<lambda>att. att\<lparr>at_action := action\<rparr>)))"

definition reuse_installation :: "'w docker_runtime \<Rightarrow> runtime_request \<Rightarrow> product_material \<Rightarrow> labels \<Rightarrow> secret_deliveries
    \<Rightarrow> image_inspection \<Rightarrow> (configuration_artifact \<times> string) list \<Rightarrow> container_inspection \<Rightarrow> ('w, unit) at_eff" where
  "reuse_installation dr rq m ls secrets img mounts ci =
     (let dc = dr_client dr; again = rr_operation rq = ReconcileNode
      in bindE (mark (\<lambda>att. att\<lparr>at_container := ci_identity ci,
             at_secret_staged := [0..<length (rd_files secrets)]\<rparr>)) (\<lambda>_.
         bindE (liftE (require_started ci ls img (network_name rq (pm_runtime m)) False again again)) (\<lambda>_.
         bindE (enter ''installed-verification'') (\<lambda>_.
         bindE (on_docker (installed_configuration_matches dc (ci_identity ci) mounts)) (\<lambda>_.
         if ci_running ci then mark (\<lambda>att. att\<lparr>at_action := ''reused''\<rparr>)
         else case ci_identity ci of
             None \<Rightarrow> raiseE ObservationUnknown
           | Some identity \<Rightarrow> start_identity dc identity ''started'')))))"

text \<open>
  The old container is removed by its identity, when it is still what was admitted, and has to be
  gone.
\<close>

definition remove_old :: "'w docker_client \<Rightarrow> container_inspection \<Rightarrow> string \<Rightarrow> ('w, unit) at_eff" where
  "remove_old dc ci identity =
     bindE (on_docker (inspect_container dc identity)) (\<lambda>current.
     if (case current of None \<Rightarrow> True | Some ci' \<Rightarrow> \<not> same_inspection ci' ci) then raiseE ObservationUnknown
     else bindE (enter ''container-remove'') (\<lambda>_.
          bindE (on_docker (perform dc (RemoveContainer identity))) (\<lambda>_.
          bindE (on_docker (inspect_container dc identity)) (\<lambda>after.
          if after \<noteq> None then raiseE ObservationUnknown
          else mark (\<lambda>att. att\<lparr>at_old_removed := True\<rparr>)))))"

definition replace_installation :: "'w docker_runtime \<Rightarrow> runtime_request \<Rightarrow> product_material \<Rightarrow> labels \<Rightarrow> secret_deliveries
    \<Rightarrow> authority_material \<Rightarrow> nat \<Rightarrow> (configuration_artifact \<times> string) list \<Rightarrow> container_inspection option
    \<Rightarrow> ('w, (configuration_artifact \<times> string) list) at_eff" where
  "replace_installation dr rq m ls secrets am uid mounts found =
     (let dc = dr_client dr
      in bindE (enter ''container-preparation'') (\<lambda>_.
         bindE attempt_now (\<lambda>att.
         bindE (attempt_container_material dc rq m ls secrets uid (if at_config att = None then None else Some mounts)) (\<lambda>cr.
         bindE (case found of
             None \<Rightarrow> returnE ()
           | Some ci \<Rightarrow>
               (case ci_identity ci of None \<Rightarrow> raiseE ObservationUnknown | Some identity \<Rightarrow> remove_old dc ci identity)) (\<lambda>_.
         bindE (enter ''container-create'') (\<lambda>_.
         bindE (mark (\<lambda>att. att\<lparr>at_unknown_created := True\<rparr>)) (\<lambda>_.
         bindE (on_docker (mutate dc (CreateContainer (node_spec rq m ls am cr)))) (\<lambda>identity.
         if \<not> hex64 identity then raiseE ObservationUnknown
         else bindE (mark (\<lambda>att. att\<lparr>at_container := Some identity, at_unknown_created := False\<rparr>)) (\<lambda>_.
              bindE (start_identity dc identity (if found = None then ''created'' else ''recreated'')) (\<lambda>_.
              returnE (cr_configurations cr)))))))))))"

section \<open>Confirmation\<close>

definition recipient_of_node :: "runtime_request \<Rightarrow> product_material \<Rightarrow> secret_deliveries \<Rightarrow> image_inspection \<Rightarrow> nat
    \<Rightarrow> nat option \<Rightarrow> string \<Rightarrow> recipient_request" where
  "recipient_of_node rq m secrets img uid owner identity =
     \<lparr>rp_container = identity, rp_environment = rd_environment secrets,
      rp_mounts = map (\<lambda>f. \<lparr>sm_target = fm_target f, sm_volume = secret_volume_name rq m f uid\<rparr>) (rd_files secrets),
      rp_files = map (\<lambda>f. (fm_target f, fm_value f, fm_mode f)) (rd_files secrets),
      rp_image = img, rp_owner = owner\<rparr>"

definition confirm_installation :: "configuration_core \<Rightarrow> 'w docker_runtime \<Rightarrow> runtime_request \<Rightarrow> product_material \<Rightarrow> labels
    \<Rightarrow> secret_deliveries \<Rightarrow> authority_material \<Rightarrow> image_inspection \<Rightarrow> nat \<Rightarrow> (configuration_artifact \<times> string) list
    \<Rightarrow> ('w, runtime_observation runtime_result) at_eff" where
  "confirm_installation core dr rq m ls secrets am img uid mounts =
     (let dc = dr_client dr; again = rr_operation rq = ReconcileNode
      in bindE (enter ''installed-verification'') (\<lambda>_.
         bindE attempt_now (\<lambda>att.
         case at_container att of
           None \<Rightarrow> raiseE ObservationUnknown
         | Some identity \<Rightarrow>
             bindE (on_docker (inspect_container dc identity)) (\<lambda>final. case final of
                 None \<Rightarrow> raiseE ObservationUnknown
               | Some ci \<Rightarrow>
                   if ci_identity ci \<noteq> Some identity then raiseE ObservationUnknown
                   else bindE (liftE (require_started ci ls img (network_name rq (pm_runtime m)) True again again)) (\<lambda>_.
                        bindE (on_docker (require_container_authority dc ci am True)) (\<lambda>_.
                        bindE (on_docker (installed_configuration_matches dc (Some identity) mounts)) (\<lambda>_.
                        bindE (if at_secret att = None then returnE ()
                               else on_docker (verify_secret_recipient dc
                                 (recipient_of_node rq m secrets img uid (at_uid att) identity))) (\<lambda>_.
                        let host = private_host rq m ci
                        in if max 64 (length (pm_node m)) < length host then raiseE ObservationUnknown
                           else liftE (bindR (installation_receipts core att) (\<lambda>receipts.
                                attempt_result core rq att SUCCEEDED None (endpoints_at dr rq m host)
                                  (receipts @ common_evidence rq m)))))))))))"

section \<open>The activity\<close>

definition configuration_node :: "configuration_core \<Rightarrow> 'w docker_runtime \<Rightarrow> runtime_request
    \<Rightarrow> ('w, runtime_observation runtime_result) at_eff" where
  "configuration_node core dr rq =
     bindE (liftE (single_product rq)) (\<lambda>m.
     bindE attempt_now (\<lambda>att0.
     let dc = dr_client dr; ls = configured_labels att0 rq m; net = network_name rq (pm_runtime m);
         rls = runtime_labels rq (pm_runtime m)
     in bindE (on_docker (inspect_container dc (container_name rq (pm_node m)))) (\<lambda>found.
        bindE (retain_mounts found) (\<lambda>_.
        bindE attempt_now (\<lambda>att.
        bindE (liftE (reserve_capacity core dr rq m att)) (\<lambda>_.
        bindE (enter ''authority-preflight'') (\<lambda>_.
        bindE (on_docker (authority_delivery_material dr rq)) (\<lambda>am.
        bindE (admit_existing dr rq m am ls found) (\<lambda>same.
        bindE (on_docker (product_secrets dr rq m)) (\<lambda>secrets.
        bindE (on_docker (image_pull_auth dr rq m)) (\<lambda>auth.
        bindE (on_docker (admit_image dr m auth)) (\<lambda>img.
        bindE (on_docker (preflight_secret_files dc rq m secrets img)) (\<lambda>uid.
        bindE (mark (\<lambda>att. att\<lparr>at_uid := (if rd_files secrets = [] then None else Some uid), at_phase := ''network''\<rparr>)) (\<lambda>_.
        bindE (on_docker (ensure_network dc require_runtime_owner net rls)) (\<lambda>_.
        bindE (if at_config att \<noteq> None then stage_configuration dc rq m
               else returnE (map (\<lambda>a. (a, volume_name rq (pm_node m) (ca_id a))) (pm_artifacts m))) (\<lambda>mounts.
        bindE (case found of
            Some ci \<Rightarrow>
              if same then bindE (reuse_installation dr rq m ls secrets img mounts ci) (\<lambda>_. returnE mounts)
              else replace_installation dr rq m ls secrets am uid mounts found
          | None \<Rightarrow> replace_installation dr rq m ls secrets am uid mounts found) (\<lambda>installed.
        confirm_installation core dr rq m ls secrets am img uid installed)))))))))))))))))"

text \<open>The result of an activity that raised: what an unclear exception left is uncertain.\<close>

definition material_conflict_message :: string where
  "material_conflict_message = ''selected configuration material does not match owned provider evidence''"

definition attempt_rejected :: "configuration_core \<Rightarrow> runtime_request \<Rightarrow> attempt \<Rightarrow> string \<Rightarrow> string
    \<Rightarrow> dk_exn + runtime_observation runtime_result" where
  "attempt_rejected core rq att code message =
     (if at_secret att \<noteq> None \<and> (at_phase att = ''installed-verification'' \<or> at_unknown_material att \<or> at_unknown_created att)
      then attempt_uncertain core rq att
      else attempt_result core rq att FAILED_EFFECT (Some (attempt_failure code message)) [] [])"

definition configuration_failure :: "configuration_core \<Rightarrow> (dk_exn \<Rightarrow> bool) \<Rightarrow> runtime_request \<Rightarrow> attempt \<Rightarrow> dk_exn
    \<Rightarrow> dk_exn + runtime_observation runtime_result" where
  "configuration_failure core control rq att e =
     (if control e \<or> \<not> dk_is_exception e then Inl e
      else case e of
          UnsupportedAuthority code \<Rightarrow>
            attempt_result core rq att UNSUPPORTED_EFFECT
              (Some (attempt_failure code ''Docker runtime authority does not support this replacement'')) [] []
        | MaterialConflict \<Rightarrow>
            attempt_rejected core rq att ''docker.configuration-material-conflict'' material_conflict_message
        | PreconditionError code message \<Rightarrow> attempt_rejected core rq att code message
        | ConfigurationEvidenceError \<Rightarrow>
            if at_phase att = ''installed-verification'' then attempt_uncertain core rq att
            else attempt_result core rq att FAILED_EFFECT (Some (attempt_failure ''docker.configuration-evidence-invalid''
              ''Selected configuration evidence is invalid'')) [] []
        | _ \<Rightarrow> attempt_uncertain core rq att)"

definition execute_configuration_node :: "configuration_core \<Rightarrow> 'w docker_runtime \<Rightarrow> runtime_request
    \<Rightarrow> ('w, runtime_observation runtime_result) dk_eff" where
  "execute_configuration_node core dr rq =
     (if rr_operation rq \<notin> {StartNode, ReconcileNode}
      then returnE (effect_unsupported rq ''docker.unsupported-activity-operation'')
      else bindE (liftE (make_attempt rq)) (\<lambda>att.
           bindE (run_attempt (configuration_node core dr rq) att) (\<lambda>(r, att').
           liftE (case r of Inr result \<Rightarrow> Inr result | Inl e \<Rightarrow> configuration_failure core (dr_control dr) rq att' e))))"

end
