(* ===== verification/Docker_Configured_Facts.thy ===== *)
theory Docker_Configured_Facts
  imports Docker_Configured Docker_Owned Docker_Node_Facts Computations
begin

text \<open>
  Reasoning about the changes of a configuration activity and about its attempt: every change is
  allowed by what was seen before it, and what the attempt says stays true, also when the activity
  stops with an exception.
\<close>

section \<open>Rules\<close>

text \<open>The changes that concern no existing container.\<close>

fun calm_mutation :: "mutation \<Rightarrow> bool" where
  "calm_mutation (CreateNetwork _ _) = True"
| "calm_mutation (PullImage _ _) = True"
| "calm_mutation (CreateVolume _ _) = True"
| "calm_mutation (MaterializeArtifact _ _) = True"
| "calm_mutation (MaterializeSecret _ _ _ _) = True"
| "calm_mutation _ = False"

definition calm_event :: "docker_event \<Rightarrow> bool" where
  "calm_event ev = (case mutation_of ev of None \<Rightarrow> True | Some mu \<Rightarrow> calm_mutation mu)"

text \<open>A container is created or removed by other changes than these.\<close>

definition kept_event :: "docker_event \<Rightarrow> bool" where
  "kept_event ev \<longleftrightarrow> calm_event ev \<or> (\<exists>name. mutation_of ev = Some (StartContainer name))"

lemma kept_of_calm: "only_emits calm_event m \<Longrightarrow> only_emits kept_event m"
  unfolding only_emits_def by (erule emits_mono) (auto simp: kept_event_def)

lemma kept_start: "only_emits kept_event (perform dc (StartContainer name))"
  unfolding perform_def mutate_def by (intro only_emits_bindE only_emits_callE only_emits_returnE) (simp add: kept_event_def)

text \<open>
  \<open>at_hist P T I h att m Q\<close>: after the history \<open>h\<close>, with an attempt that satisfies \<open>I\<close>, every change of a
  run of \<open>m\<close> satisfies \<open>P\<close> of the history it is made in; the attempt satisfies \<open>T\<close> however the run
  ends, and \<open>I\<close> and \<open>Q\<close> when it returns.
\<close>

definition at_hist ::
  "(docker_event list \<Rightarrow> mutation \<Rightarrow> bool) \<Rightarrow> (attempt \<Rightarrow> docker_event list \<Rightarrow> bool) \<Rightarrow> (attempt \<Rightarrow> docker_event list \<Rightarrow> bool)
    \<Rightarrow> docker_event list \<Rightarrow> attempt \<Rightarrow> ('w, 'a) at_eff \<Rightarrow> ('a \<Rightarrow> attempt \<Rightarrow> docker_event list \<Rightarrow> bool) \<Rightarrow> bool" where
  "at_hist P T I h att m Q \<longleftrightarrow>
     (I att h \<longrightarrow> at_runs att m (\<lambda>evs r att'. guarded P h evs \<and> T att' (h @ evs)
        \<and> (\<forall>a. r = Inr a \<longrightarrow> I att' (h @ evs) \<and> Q a att' (h @ evs))))"

lemma at_hist_mono:
  "at_hist P T I h att m Q \<Longrightarrow> (\<And>a att' h'. set h \<subseteq> set h' \<Longrightarrow> I att' h' \<Longrightarrow> Q a att' h' \<Longrightarrow> Q' a att' h')
    \<Longrightarrow> at_hist P T I h att m Q'"
  unfolding at_hist_def by (auto elim: at_runs_mono)

lemma at_hist_bind:
  assumes "at_hist P T I h att m Q"
    and "\<And>a att' h'. set h \<subseteq> set h' \<Longrightarrow> I att' h' \<Longrightarrow> Q a att' h' \<Longrightarrow> at_hist P T I h' att' (k a) R"
  shows "at_hist P T I h att (bindE m k) R"
  unfolding at_hist_def
proof
  assume "I att h"
  with assms(1) have m: "at_runs att m (\<lambda>evs r att'. guarded P h evs \<and> T att' (h @ evs)
      \<and> (\<forall>a. r = Inr a \<longrightarrow> I att' (h @ evs) \<and> Q a att' (h @ evs)))"
    by (simp add: at_hist_def)
  show "at_runs att (bindE m k) (\<lambda>evs r att'. guarded P h evs \<and> T att' (h @ evs)
      \<and> (\<forall>a. r = Inr a \<longrightarrow> I att' (h @ evs) \<and> R a att' (h @ evs)))"
  proof (rule at_runs_bind[OF m], goal_cases)
    case (1 a att' evs)
    then have "at_hist P T I (h @ evs) att' (k a) R" by (intro assms(2)) auto
    with 1 show ?case
      unfolding at_hist_def by (auto elim!: at_runs_mono intro: guarded_joined)
  qed auto
qed

lemma at_hist_now_bind: "at_hist P T I h att (k att) R \<Longrightarrow> at_hist P T I h att (bindE attempt_now k) R"
  unfolding at_hist_def at_runs_def by (simp add: bindE_def attempt_now_def)

lemma at_hist_mark_bind:
  assumes "I att h \<Longrightarrow> I (f att) h" "at_hist P T I h (f att) (k ()) R"
  shows "at_hist P T I h att (bindE (mark f) k) R"
  using assms unfolding at_hist_def at_runs_def by (auto simp: bindE_def mark_def)

lemma at_hist_return_bind: "at_hist P T I h att (k a) R \<Longrightarrow> at_hist P T I h att (bindE (returnE a) k) R"
  by simp

lemma at_hist_if:
  "(b \<Longrightarrow> at_hist P T I h att m Q) \<Longrightarrow> (\<not> b \<Longrightarrow> at_hist P T I h att n Q) \<Longrightarrow> at_hist P T I h att (if b then m else n) Q"
  by simp

text \<open>
  What the attempt says, and what holds between two steps: the first is the weaker, and events that
  concern no existing container keep the second.
\<close>

locale attempt_report =
  fixes reported :: "attempt \<Rightarrow> docker_event list \<Rightarrow> bool"
    and between :: "attempt \<Rightarrow> docker_event list \<Rightarrow> bool"
  assumes between_reported: "between att h \<Longrightarrow> reported att h"
    and between_kept: "between att h \<Longrightarrow> list_all kept_event evs \<Longrightarrow> between att (h @ evs)"
begin

lemma at_return: "(between att h \<Longrightarrow> Q a att h) \<Longrightarrow> at_hist P reported between h att (returnE a) Q"
  unfolding at_hist_def by (auto intro!: at_runs_return between_reported)

lemma at_raise: "at_hist P reported between h att (raiseE e) Q"
  unfolding at_hist_def by (auto intro!: at_runs_raise between_reported)

lemma at_lift: "(\<And>a. v = Inr a \<Longrightarrow> between att h \<Longrightarrow> Q a att h) \<Longrightarrow> at_hist P reported between h att (liftE v) Q"
  unfolding at_hist_def by (auto intro!: at_runs_lift between_reported)

lemma at_lift_bind:
  "(\<And>a. v = Inr a \<Longrightarrow> at_hist P reported between h att (k a) R) \<Longrightarrow> at_hist P reported between h att (bindE (liftE v) k) R"
  by (cases v) (auto intro: at_raise)

lemma at_mark: "(between att h \<Longrightarrow> between (f att) h \<and> Q () (f att) h) \<Longrightarrow> at_hist P reported between h att (mark f) Q"
  unfolding at_hist_def by (auto intro!: at_runs_mark between_reported)

lemma at_docker:
  assumes "hist P h m Q" "only_emits kept_event m"
  shows "at_hist P reported between h att (on_docker m) (\<lambda>a att' h'. att' = att \<and> Q a h')"
  unfolding at_hist_def
proof
  assume "between att h"
  show "at_runs att (on_docker m) (\<lambda>evs r att'. guarded P h evs \<and> reported att' (h @ evs)
      \<and> (\<forall>a. r = Inr a \<longrightarrow> between att' (h @ evs) \<and> att' = att \<and> Q a (h @ evs)))"
  proof (rule at_runs_docker, unfold emits_def, rule)
    fix s
    from assms(1) obtain evs where "trace (snd (m s)) = trace s @ evs" "guarded P h evs"
      "\<forall>a. fst (m s) = Inr a \<longrightarrow> Q a (h @ evs)"
      unfolding hist_def emits_def by blast
    moreover from assms(2) obtain evs' where "trace (snd (m s)) = trace s @ evs'" "list_all kept_event evs'"
      unfolding only_emits_def emits_def list_all_iff by blast
    ultimately show "\<exists>evs. trace (snd (m s)) = trace s @ evs \<and> guarded P h evs \<and> reported att (h @ evs)
        \<and> (\<forall>a. fst (m s) = Inr a \<longrightarrow> between att (h @ evs) \<and> att = att \<and> Q a (h @ evs))"
      using between_kept[OF \<open>between att h\<close>] between_reported by auto
  qed
qed

lemma at_docker_bind:
  assumes "hist P h m Q" "only_emits kept_event m"
    and "\<And>a h'. set h \<subseteq> set h' \<Longrightarrow> Q a h' \<Longrightarrow> at_hist P reported between h' att (k a) R"
  shows "at_hist P reported between h att (bindE (on_docker m) k) R"
  by (rule at_hist_bind[OF at_docker[OF assms(1,2)]]) (auto intro: assms(3))

end

section \<open>Calm operations\<close>

lemma calm_reads [emit_intros]:
  "only_emits calm_event (inspect_container dc n)" "only_emits calm_event (inspect_network dc n)"
  "only_emits calm_event (inspect_image dc n)" "only_emits calm_event (inspect_volume dc n)"
  "only_emits calm_event (uses_local_socket dc n)" "only_emits calm_event (inspect_facts dc)"
  "only_emits calm_event (inspect_secret_file dc n)" "only_emits calm_event (configuration_artifact_digest dc n)"
  "only_emits calm_event (inspect_configuration_file dc n)" "only_emits calm_event (inspect_configuration_mount dc n a v)"
  "only_emits calm_event (verify_secret_recipient dc rp)"
  unfolding inspect_container_def inspect_network_def inspect_image_def inspect_volume_def uses_local_socket_def
    inspect_facts_def inspect_secret_file_def configuration_artifact_digest_def inspect_configuration_file_def
    inspect_configuration_mount_def verify_secret_recipient_def
  by (rule only_emits_callE; simp add: calm_event_def)+

lemma calm_quiet: "quiet m \<Longrightarrow> only_emits calm_event m"
  unfolding quiet_def only_emits_def by (erule emits_mono) (auto simp: calm_event_def)

lemma calm_perform [emit_intros]: "calm_mutation mu \<Longrightarrow> only_emits calm_event (perform dc mu)"
  unfolding perform_def mutate_def by (intro only_emits_bindE only_emits_callE only_emits_returnE) (simp add: calm_event_def)

lemma calm_start_node_call [emit_intros]:
  "only_emits calm_event m \<Longrightarrow> only_emits calm_event (start_node_call phase sub m)"
  unfolding start_node_call_def by (intro emit_intros)

lemma calm_admit_image: "only_emits calm_event (admit_image dr m auth)"
  by (auto simp: admit_image_def Let_def split: option.splits intro!: emit_intros)

lemma calm_ensure_network: "only_emits calm_event (ensure_network dc check net ls)"
  by (auto simp: ensure_network_def split: option.splits intro!: emit_intros)

lemma calm_prepare_artifacts: "only_emits calm_event (prepare_artifacts dc rq m ls as)"
proof (induction as)
  case (Cons a as)
  have "only_emits calm_event (prepare_artifact dc rq m ls a)"
    by (auto simp: prepare_artifact_def Let_def split: option.splits intro!: emit_intros)
  with Cons show ?case by (auto intro!: emit_intros)
qed (simp add: emit_intros)

lemma calm_prepare_retained: "only_emits calm_event (prepare_retained dc ls vs)"
  by (induction vs) (auto split: option.splits intro!: emit_intros)

lemma calm_require_secret_file [emit_intros]: "only_emits calm_event (require_secret_file dc v f uid)"
  by (rule calm_quiet[OF quiet_require_secret_file])

lemma calm_installed [emit_intros]: "only_emits calm_event (installed_configuration_matches dc ident mounts)"
  by (induction dc ident mounts rule: installed_configuration_matches.induct) (auto split: option.splits intro!: emit_intros)

text \<open>
  The parts of a configuration activity: each makes only the changes \<open>may_configure\<close> allows, keeps the
  attempt true, and establishes what the next ones rely on.
\<close>

section \<open>What may be changed\<close>

definition node_container_seen :: "runtime_request \<Rightarrow> docker_event list \<Rightarrow> string \<Rightarrow> (container_inspection \<Rightarrow> bool) \<Rightarrow> bool" where
  "node_container_seen rq seen identity p \<longleftrightarrow>
     (\<exists>m ci. rr_products rq = [m] \<and> ContainerRead (container_name rq (pm_node m)) (Inr (Some ci)) \<in> set seen
        \<and> ci_identity ci = Some identity \<and> own_container rq m ci \<and> p ci)"

definition removed_gone :: "string \<Rightarrow> docker_event list \<Rightarrow> bool" where
  "removed_gone identity seen \<longleftrightarrow>
     (\<exists>x. Mutated (RemoveContainer identity) (Inr x) \<in> set seen) \<and> ContainerRead identity (Inr None) \<in> set seen"

definition own_configured_spec :: "runtime_request \<Rightarrow> container_spec \<Rightarrow> bool" where
  "own_configured_spec rq sp \<longleftrightarrow>
     (\<exists>m. rr_products rq = [m] \<and> sp_name sp = container_name rq (pm_node m) \<and> sp_image sp = pm_image_reference m
        \<and> sp_network sp = network_name rq (pm_runtime m) \<and> extends_node rq m (sp_labels sp))"

text \<open>
  A container is removed by the identity that was seen twice, unchanged, by a reconciliation that
  delivers no authority; one is created when there was none, or after the old one is gone.
\<close>

fun may_configure :: "(string \<Rightarrow> string \<Rightarrow> string \<Rightarrow> bool) \<Rightarrow> runtime_request \<Rightarrow> docker_event list \<Rightarrow> mutation \<Rightarrow> bool" where
  "may_configure ok rq seen (RemoveContainer identity) =
     (rr_operation rq = ReconcileNode \<and> rr_deliveries rq = []
      \<and> node_container_seen rq seen identity (\<lambda>ci. \<exists>ci'. ContainerRead identity (Inr (Some ci')) \<in> set seen \<and> same_inspection ci' ci))"
| "may_configure ok rq seen (CreateContainer sp) =
     (own_configured_spec rq sp \<and> image_admitted ok seen (sp_image sp)
      \<and> (ContainerRead (sp_name sp) (Inr None) \<in> set seen
         \<or> (\<exists>identity. node_container_seen rq seen identity (\<lambda>_. True) \<and> removed_gone identity seen)))"
| "may_configure ok rq seen (StartContainer identity) =
     ((\<exists>sp. Mutated (CreateContainer sp) (Inr identity) \<in> set seen)
      \<or> node_container_seen rq seen identity (\<lambda>ci. \<exists>m. rr_products rq = [m] \<and> fingerprint_matches (ci_labels ci) (node_labels rq m)))"
| "may_configure ok rq seen (CreateVolume v ls) =
     ((VolumeRead v (Inr None) \<in> set seen
       \<and> (\<exists>ki \<in> set (rr_instances rq). v = configuration_volume_name ki \<and> ls = configuration_volume_labels ki))
      \<or> may_change ok rq seen (CreateVolume v ls))"
| "may_configure ok rq seen (MaterializeArtifact v a) =
     ((\<exists>ki \<in> set (rr_instances rq). v = configuration_volume_name ki \<and> ConfigurationFileRead v (Inr None) \<in> set seen
       \<and> (\<exists>ls. VolumeRead v (Inr (Some ls)) \<in> set seen \<and> configuration_owned ls ki))
      \<or> may_change ok rq seen (MaterializeArtifact v a))"
| "may_configure ok rq seen mu = (calm_mutation mu \<and> may_change ok rq seen mu)"

lemma may_configure_calm: "may_change ok rq seen mu \<Longrightarrow> calm_mutation mu \<Longrightarrow> may_configure ok rq seen mu"
  by (cases mu) simp_all

abbreviation may_at :: "'w docker_runtime \<Rightarrow> runtime_request \<Rightarrow> docker_event list \<Rightarrow> mutation \<Rightarrow> bool" where
  "may_at dr rq \<equiv> may_configure (dr_image_ok dr) rq"

lemma hist_calm:
  assumes "hist (may dr rq) h m Q" "only_emits calm_event m"
  shows "hist (may_at dr rq) h m Q"
  unfolding hist_def emits_def
proof
  fix s
  from assms(1) obtain evs where evs: "trace (snd (m s)) = trace s @ evs" "guarded (may dr rq) h evs"
    "\<forall>a. fst (m s) = Inr a \<longrightarrow> Q a (h @ evs)"
    unfolding hist_def emits_def by blast
  moreover from assms(2) obtain evs' where "trace (snd (m s)) = trace s @ evs'" "\<forall>ev \<in> set evs'. calm_event ev"
    unfolding only_emits_def emits_def by blast
  ultimately have calm: "\<forall>ev \<in> set evs. calm_event ev" by simp
  have "guarded (may_at dr rq) h evs"
    unfolding guarded_def
  proof (intro allI impI)
    fix a mu r b
    assume split: "evs = a @ Mutated mu r # b"
    with calm have "calm_mutation mu" by (auto simp: calm_event_def)
    with evs(2) split show "may_at dr rq (h @ a) mu" by (auto simp: guarded_def intro: may_configure_calm)
  qed
  with evs show "\<exists>evs. trace (snd (m s)) = trace s @ evs \<and> guarded (may_at dr rq) h evs
      \<and> (\<forall>a. fst (m s) = Inr a \<longrightarrow> Q a (h @ evs))" by blast
qed

lemma hist_delivers:
  assumes "hist P h m Q" "delivers m R"
  shows "hist P h m (\<lambda>a h'. Q a h' \<and> (\<exists>evs. h' = h @ evs \<and> R a evs))"
  unfolding hist_def emits_def
proof
  fix s
  from assms obtain evs evs' where "trace (snd (m s)) = trace s @ evs" "guarded P h evs"
    "\<forall>a. fst (m s) = Inr a \<longrightarrow> Q a (h @ evs)" "trace (snd (m s)) = trace s @ evs'"
    "\<forall>a. fst (m s) = Inr a \<longrightarrow> R a evs'"
    unfolding hist_def delivers_def emits_def by metis
  then show "\<exists>evs. trace (snd (m s)) = trace s @ evs \<and> guarded P h evs
      \<and> (\<forall>a. fst (m s) = Inr a \<longrightarrow> Q a (h @ evs) \<and> (\<exists>evs'. h @ evs = h @ evs' \<and> R a evs'))" by auto
qed

section \<open>What the attempt says\<close>

definition no_removal :: "docker_event list \<Rightarrow> bool" where
  "no_removal h \<longleftrightarrow> (\<forall>i r. Mutated (RemoveContainer i) r \<notin> set h)"

definition no_creation :: "docker_event list \<Rightarrow> bool" where
  "no_creation h \<longleftrightarrow> (\<forall>sp r. Mutated (CreateContainer sp) r \<notin> set h)"

definition staged_volume :: "runtime_request \<Rightarrow> product_material \<Rightarrow> docker_event list \<Rightarrow> nat \<Rightarrow> bool" where
  "staged_volume rq m h j \<longleftrightarrow>
     j < length (rr_instances rq)
     \<and> (\<exists>a f ls. let ki = rr_instances rq ! j; v = configuration_volume_name ki
         in artifact_of m ki = Inr a \<and> ConfigurationFileRead v (Inr (Some f)) \<in> set h \<and> configuration_file_matches f a
            \<and> VolumeRead v (Inr (Some ls)) \<in> set h \<and> configuration_owned ls ki)"

text \<open>
  The old container was seen at the node's name; it is removed when it says so, and not touched while
  the phase is another one; every created container is known unless it says that it is not; and
  every staged volume was found with its file.
\<close>

definition attempt_reported :: "runtime_request \<Rightarrow> product_material \<Rightarrow> attempt \<Rightarrow> docker_event list \<Rightarrow> bool" where
  "attempt_reported rq m att h \<longleftrightarrow>
     (\<forall>i. at_old att = Some i \<longrightarrow>
        (\<exists>ci. ContainerRead (container_name rq (pm_node m)) (Inr (Some ci)) \<in> set h \<and> ci_identity ci = Some i))
     \<and> (at_old_removed att \<longrightarrow> (\<exists>i. at_old att = Some i \<and> removed_gone i h))
     \<and> (\<not> at_old_removed att \<and> at_phase att \<noteq> ''container-remove'' \<longrightarrow> no_removal h)
     \<and> (\<forall>i. at_container att = Some i \<longrightarrow> at_old att = Some i \<or> (\<exists>sp. Mutated (CreateContainer sp) (Inr i) \<in> set h))
     \<and> (\<not> at_unknown_created att \<longrightarrow>
          (\<forall>sp r. Mutated (CreateContainer sp) r \<in> set h \<longrightarrow> (\<exists>i. at_container att = Some i \<and> r = Inr i)))
     \<and> list_all (staged_volume rq m h) (at_staged att)"

definition attempt_between :: "runtime_request \<Rightarrow> product_material \<Rightarrow> attempt \<Rightarrow> docker_event list \<Rightarrow> bool" where
  "attempt_between rq m att h \<longleftrightarrow>
     attempt_reported rq m att h \<and> (\<not> at_old_removed att \<longrightarrow> no_removal h)
     \<and> (at_container att = None \<longrightarrow> no_creation h)"

lemma staged_volume_later: "staged_volume rq m h j \<Longrightarrow> set h \<subseteq> set h' \<Longrightarrow> staged_volume rq m h' j"
  unfolding staged_volume_def Let_def by blast

lemma kept_no_change:
  assumes "list_all kept_event evs"
  shows "Mutated (RemoveContainer i) r \<notin> set evs" "Mutated (CreateContainer sp) r' \<notin> set evs"
  using assms by (auto simp: list_all_iff kept_event_def calm_event_def)

lemma between_kept_events:
  assumes "attempt_between rq m att h" "list_all kept_event evs"
  shows "attempt_between rq m att (h @ evs)"
proof -
  have later: "list_all (staged_volume rq m h) (at_staged att) \<Longrightarrow> list_all (staged_volume rq m (h @ evs)) (at_staged att)"
    by (auto simp: list_all_iff intro: staged_volume_later)
  have gone: "removed_gone i h \<Longrightarrow> removed_gone i (h @ evs)" for i
    by (auto simp: removed_gone_def)
  have same: "no_removal (h @ evs) = no_removal h" "no_creation (h @ evs) = no_creation h"
    "Mutated (CreateContainer sp) r \<in> set (h @ evs) \<longleftrightarrow> Mutated (CreateContainer sp) r \<in> set h" for sp r
    using kept_no_change[OF assms(2)] by (auto simp: no_removal_def no_creation_def)
  have seen: "ContainerRead n x \<in> set h \<Longrightarrow> ContainerRead n x \<in> set (h @ evs)" for n x
    by simp
  from assms(1) show ?thesis
    unfolding attempt_between_def attempt_reported_def same using later gone seen by blast
qed

interpretation rep: attempt_report "attempt_reported rq m" "attempt_between rq m" for rq m
  by (unfold_locales, simp add: attempt_between_def) (rule between_kept_events)

text \<open>Two attempts that agree on everything but their progress.\<close>

definition keeps :: "attempt \<Rightarrow> attempt \<Rightarrow> bool" where
  "keeps att att' \<longleftrightarrow>
     at_config att' = at_config att \<and> at_secret att' = at_secret att \<and> at_old att' = at_old att
     \<and> at_container att' = at_container att \<and> at_old_removed att' = at_old_removed att \<and> at_uid att' = at_uid att
     \<and> at_unknown_created att' = at_unknown_created att"

lemma keeps_refl [simp]: "keeps att att"
  by (simp add: keeps_def)

lemma keeps_trans: "keeps a b \<Longrightarrow> keeps b c \<Longrightarrow> keeps a c"
  by (simp add: keeps_def)

lemma between_progress:
  assumes "attempt_between rq m att h" "keeps att att'" "at_staged att' = at_staged att"
  shows "attempt_between rq m att' h"
  using assms by (auto simp: attempt_between_def attempt_reported_def keeps_def)

abbreviation at_step :: "'w docker_runtime \<Rightarrow> runtime_request \<Rightarrow> product_material \<Rightarrow> docker_event list \<Rightarrow> attempt
    \<Rightarrow> ('w, 'a) at_eff \<Rightarrow> ('a \<Rightarrow> attempt \<Rightarrow> docker_event list \<Rightarrow> bool) \<Rightarrow> bool" where
  "at_step dr rq m \<equiv> at_hist (may_at dr rq) (attempt_reported rq m) (attempt_between rq m)"

lemmas kept_calm = kept_of_calm[OF calm_reads(1)] kept_of_calm[OF calm_reads(2)] kept_of_calm[OF calm_reads(4)]
  kept_of_calm[OF calm_reads(9)] kept_of_calm[OF calm_reads(10)]

lemma at_quiet_bind:
  assumes "quiet m" "\<And>a h'. set h \<subseteq> set h' \<Longrightarrow> at_step dr rq p h' att (k a) R"
  shows "at_step dr rq p h att (bindE (on_docker m) k) R"
  by (rule rep.at_docker_bind[OF hist_quiet[OF assms(1)] kept_of_calm[OF calm_quiet[OF assms(1)]]]) (rule assms(2))

lemma at_volume_bind:
  assumes "\<And>a h'. set h \<subseteq> set h' \<Longrightarrow> VolumeRead v (Inr a) \<in> set h' \<Longrightarrow> at_step dr rq p h' att (k a) R"
  shows "at_step dr rq p h att (bindE (on_docker (inspect_volume dc v)) k) R"
  by (rule rep.at_docker_bind[OF hist_volume kept_of_calm[OF calm_reads(4)]]) (rule assms)

lemma at_change_bind:
  assumes "may_at dr rq h mu" "calm_mutation mu"
    and "\<And>h'. set h \<subseteq> set h' \<Longrightarrow> \<exists>x. Mutated mu (Inr x) \<in> set h' \<Longrightarrow> at_step dr rq p h' att (k ()) R"
  shows "at_step dr rq p h att (bindE (on_docker (perform dc mu)) k) R"
  by (rule rep.at_docker_bind[OF hist_change[where P = "may_at dr rq" and h = h, OF assms(1)] kept_of_calm[OF calm_perform[OF assms(2)]]]) (use assms(3) in simp)

lemma hist_configuration_file:
  "hist P h (inspect_configuration_file dc v) (\<lambda>a h'. ConfigurationFileRead v (Inr a) \<in> set h')"
  unfolding inspect_configuration_file_def by (rule hist_call) auto

lemma at_file_bind:
  assumes "\<And>a h'. set h \<subseteq> set h' \<Longrightarrow> ConfigurationFileRead v (Inr a) \<in> set h' \<Longrightarrow> at_step dr rq p h' att (k a) R"
  shows "at_step dr rq p h att (bindE (on_docker (inspect_configuration_file dc v)) k) R"
  by (rule rep.at_docker_bind[OF hist_configuration_file kept_of_calm[OF calm_reads(9)]]) (rule assms)

section \<open>Staging\<close>

definition configuration_seen :: "docker_event list \<Rightarrow> configuration_reference \<Rightarrow> bool" where
  "configuration_seen h ki \<longleftrightarrow> (\<exists>ls. VolumeRead (configuration_volume_name ki) (Inr (Some ls)) \<in> set h \<and> configuration_owned ls ki)"

lemma configuration_seen_later: "configuration_seen h ki \<Longrightarrow> set h \<subseteq> set h' \<Longrightarrow> configuration_seen h' ki"
  unfolding configuration_seen_def by blast

lemma require_configuration_owner_Inr [simp]:
  "require_configuration_owner observed ki = Inr u \<longleftrightarrow> (\<exists>ls. observed = Some ls \<and> configuration_owned ls ki)"
  by (auto simp: require_configuration_owner_def split: option.splits)

lemma require_configuration_file_Inr [simp]:
  "require_configuration_file observed a = Inr u \<longleftrightarrow> (\<exists>f. observed = Some f \<and> configuration_file_matches f a)"
  by (auto simp: require_configuration_file_def split: option.splits)

lemma at_owned_volume: "at_step dr rq m h att (owned_volume dc ki) (\<lambda>_ att' h'. att' = att \<and> configuration_seen h' ki)"
  unfolding owned_volume_def
  by (rule at_volume_bind, rule rep.at_lift) (auto simp: configuration_seen_def)

lemma at_attempted: "at_step dr rq m h att (attempted j) (\<lambda>_ att' _. keeps att att')"
  unfolding attempted_def
  by (rule rep.at_mark) (auto simp: keeps_def elim!: between_progress)

lemma at_staged_mark:
  assumes "staged_volume rq m h j"
  shows "at_step dr rq m h att (staged j) (\<lambda>_ att' _. keeps att att')"
  unfolding staged_def
proof (rule rep.at_mark, intro conjI)
  assume "attempt_between rq m att h"
  with assms show "attempt_between rq m (att\<lparr>at_staged := at_staged att @ [j]\<rparr>) h"
    by (auto simp: attempt_between_def attempt_reported_def)
qed (simp add: keeps_def)

lemma at_stage_one:
  assumes "j < length (rr_instances rq)" "rr_instances rq ! j = ki"
  shows "at_step dr rq m h att (stage_one dc m j ki)
    (\<lambda>(a, v) att' _. keeps att att' \<and> artifact_of m ki = Inr a \<and> v = configuration_volume_name ki)"
  unfolding stage_one_def Let_def
proof (rule rep.at_lift_bind, rule at_volume_bind, goal_cases)
  case (1 a found h1)
  let ?v = "configuration_volume_name ki"
  have ki: "ki \<in> set (rr_instances rq)" using assms by auto
  have made: "at_step dr rq m h1 att (case found of
      None \<Rightarrow> bindE (attempted j) (\<lambda>_. bindE (on_docker (perform dc (CreateVolume ?v (configuration_volume_labels ki)))) (\<lambda>_. owned_volume dc ki))
    | Some observed \<Rightarrow> bindE (liftE (require_configuration_owner (Some observed) ki)) (\<lambda>_. attempted j))
    (\<lambda>_ att' h'. keeps att att' \<and> configuration_seen h' ki)"
  proof (cases found)
    case None
    show ?thesis
      unfolding None option.case
      by (rule at_hist_bind[OF at_attempted], rule at_change_bind, use 1 None ki in auto)
        (auto intro: at_hist_mono[OF at_owned_volume])
  next
    case (Some observed)
    with 1 show ?thesis
      by (auto intro!: rep.at_lift_bind at_hist_mono[OF at_attempted] simp: configuration_seen_def)
  qed
  have filled: "at_step dr rq m h3 att2 (case observed of
        Some f \<Rightarrow> returnE (Some f)
      | None \<Rightarrow> bindE (on_docker (perform dc (MaterializeArtifact ?v a))) (\<lambda>_. on_docker (inspect_configuration_file dc ?v)))
      (\<lambda>final att' h'. att' = att2 \<and> ConfigurationFileRead ?v (Inr final) \<in> set h')"
    if "ConfigurationFileRead ?v (Inr observed) \<in> set h3" "configuration_seen h3 ki" for observed h3 att2
  proof (cases observed)
    case None
    show ?thesis
      unfolding None option.case
      by (rule at_change_bind, use that None ki in \<open>auto simp: configuration_seen_def\<close>)
        (rule rep.at_docker[OF hist_configuration_file kept_of_calm[OF calm_reads(9)]])
  next
    case (Some f)
    with that show ?thesis by (auto intro: rep.at_return)
  qed
  show ?case
  proof (rule at_hist_bind[OF made], rule at_file_bind, goal_cases)
    case (1 _ att2 h2 observed h3)
    then have seen: "configuration_seen h3 ki" by (blast intro: configuration_seen_later)
    show ?case
    proof (rule at_hist_bind[OF filled[OF \<open>ConfigurationFileRead _ _ \<in> set h3\<close> seen]], rule rep.at_lift_bind,
        rule at_hist_bind[OF at_owned_volume], goal_cases)
      case (1 final att3 h4 _ _ att4 h5)
      then have "staged_volume rq m h5 j"
        using assms \<open>artifact_of m ki = Inr a\<close> unfolding staged_volume_def Let_def configuration_seen_def by auto
      with 1 \<open>keeps att att2 \<and> _\<close> \<open>artifact_of m ki = Inr a\<close> show ?case
        by (auto intro!: at_hist_bind[OF at_staged_mark] rep.at_return intro: keeps_trans)
    qed
  qed
qed

definition mount_of_instance :: "product_material \<Rightarrow> configuration_reference \<Rightarrow> configuration_artifact \<times> string \<Rightarrow> bool" where
  "mount_of_instance m ki mount \<longleftrightarrow> artifact_of m ki = Inr (fst mount) \<and> snd mount = configuration_volume_name ki"

lemma at_stage_from:
  "kis = drop j (rr_instances rq)
    \<Longrightarrow> at_step dr rq m h att (stage_from dc m j kis) (\<lambda>mounts att' _. keeps att att' \<and> list_all2 (mount_of_instance m) kis mounts)"
proof (induction kis arbitrary: j h att)
  case (Cons ki kis)
  have len: "j < length (rr_instances rq)"
    using Cons.prems by (cases "j < length (rr_instances rq)") auto
  from trans[OF Cons.prems Cons_nth_drop_Suc[OF len, symmetric]]
  have j: "rr_instances rq ! j = ki" "kis = drop (j + 1) (rr_instances rq)" by auto
  show ?case
    unfolding stage_from.simps
  proof (rule at_hist_bind[OF at_stage_one[OF len j(1)]], rule at_hist_bind[OF Cons.IH[OF j(2)]], rule rep.at_return, goal_cases)
    case (1 mount att1 h1 mounts att2 h2)
    then show ?case by (cases mount) (auto simp: mount_of_instance_def intro: keeps_trans)
  qed
qed (auto intro: rep.at_return)

lemma at_enter:
  assumes "no_removal h \<or> at_old_removed att"
  shows "at_step dr rq m h att (enter phase) (\<lambda>_ att' h'. h' = h \<and> att' = att\<lparr>at_phase := phase\<rparr>)"
  unfolding enter_def
  by (rule rep.at_mark) (use assms in \<open>auto simp: attempt_between_def attempt_reported_def\<close>)

lemma at_enter_bind:
  assumes "\<And>att'. keeps att att' \<Longrightarrow> at_step dr rq m h att' (k ()) R"
  shows "at_step dr rq m h att (bindE (enter phase) k) R"
  unfolding enter_def
  by (rule at_hist_mark_bind) (auto intro: assms simp: keeps_def attempt_between_def attempt_reported_def)

lemma at_stage_configuration:
  "at_step dr rq m h att (stage_configuration dc rq m)
     (\<lambda>mounts att' _. keeps att att' \<and> list_all2 (mount_of_instance m) (rr_instances rq) mounts)"
  unfolding stage_configuration_def
  by (rule at_enter_bind, rule at_hist_mono[OF at_stage_from]) (auto intro: keeps_trans)

end
