(* ===== verification/Docker_Configured_Steps.thy ===== *)
theory Docker_Configured_Steps
  imports Docker_Configured_Facts
begin

text \<open>
  The steps of a configuration activity up to its confirmation, by the rules of the attempt: the
  preparation of secrets, the admission of an existing container, its reuse and its replacement.
\<close>

section \<open>Preparation\<close>

lemma at_keeps_mark_bind:
  assumes "\<And>a. keeps a (f a) \<and> at_staged (f a) = at_staged a" "\<And>att'. keeps att att' \<Longrightarrow> at_step dr rq m h att' (k ()) R"
  shows "at_step dr rq m h att (bindE (mark f) k) R"
  by (rule at_hist_mark_bind) (auto intro: between_progress assms simp: assms(1))

lemma between_unknown:
  "attempt_between rq m att h \<Longrightarrow> attempt_between rq m (att\<lparr>at_unknown_created := True\<rparr>) h"
  by (auto simp: attempt_between_def attempt_reported_def)

lemma between_known:
  "attempt_between rq m att h \<Longrightarrow> at_container att = None
    \<Longrightarrow> attempt_between rq m (att\<lparr>at_unknown_created := False, at_unknown_material := True\<rparr>) h"
  by (auto simp: attempt_between_def attempt_reported_def no_creation_def)

lemma at_attempt_secret:
  assumes "rr_products rq = [m]" "extends_node rq m ls" "at_container att = None" "\<not> at_unknown_created att"
  shows "at_step dr rq m h att (attempt_secret dc rq m ls uid j f) (\<lambda>_ att' _. keeps att att')"
proof -
  let ?v = "secret_volume_name rq m f uid" and ?ls = "identified_labels ls rq m f uid"
  note extends_node_owner[OF assms(2), simp]
  have create: "at_step dr rq m h1 att1 (bindE (mark (\<lambda>att. att\<lparr>at_unknown_created := True\<rparr>)) (\<lambda>_.
      bindE (on_docker (perform dc (CreateVolume ?v ?ls))) (\<lambda>_.
      bindE (on_docker (inspect_volume dc ?v)) (\<lambda>created. case created of None \<Rightarrow> raiseE ObservationUnknown
        | Some observed \<Rightarrow> bindE (liftE (node_secret_owner observed ?ls rq m f uid)) (\<lambda>_.
            bindE (mark (\<lambda>att. att\<lparr>at_unknown_created := False, at_unknown_material := True\<rparr>)) (\<lambda>_.
            on_docker (perform dc (MaterializeSecret ?v (fm_value f) (fm_mode f) uid)))))))) (\<lambda>_ att' _. keeps att att')"
    if "VolumeRead ?v (Inr None) \<in> set h1" "keeps att att1" for h1 att1
  proof (rule at_hist_mark_bind, erule between_unknown, rule at_change_bind, goal_cases)
    case 1
    with that show ?case by (auto intro: may_node[OF assms(1)])
  next
    case (3 h2)
    then obtain x where made: "Mutated (CreateVolume ?v ?ls) (Inr x) \<in> set h2" by auto
    show ?case
    proof (rule at_volume_bind, goal_cases)
      case (1 created h3)
      with made have own: "list_ex (\<lambda>ev. volume_seen ev ?v (node_labels rq m)) h3"
        by (intro list_ex_seen[of "Mutated (CreateVolume ?v ?ls) (Inr x)"]) auto
      have missing: "VolumeRead ?v (Inr None) \<in> set h3"
        using that 1 3 by blast
      have none: "at_container att1 = None" using that(2) assms(3) by (simp add: keeps_def)
      show ?case
      proof (cases created)
        case (Some observed)
        have fill: "at_step dr rq m h3 att2 (on_docker (perform dc (MaterializeSecret ?v (fm_value f) (fm_mode f) uid)))
            (\<lambda>_ att' _. att' = att2)" for att2
          by (rule at_hist_mono[OF rep.at_docker[OF hist_change[where P = "may_at dr rq" and h = h3] kept_of_calm[OF calm_perform]]])
            (use own missing in \<open>auto intro: may_node[OF assms(1)]\<close>)
        show ?thesis
          unfolding Some option.case
          by (rule rep.at_lift_bind, rule at_hist_mark_bind, rule between_known)
            (use none that(2) assms(4) in \<open>auto intro: at_hist_mono[OF fill] simp: keeps_def\<close>)
      qed (simp add: rep.at_raise)
    qed
  qed simp
  show ?thesis
    unfolding attempt_secret_def Let_def
  proof (rule at_keeps_mark_bind, simp add: keeps_def, rule at_volume_bind,
      rule at_hist_bind[where Q = "\<lambda>_ att' _. keeps att att'"], goal_cases)
    case (1 att1 found h1)
    then show ?case
      by (cases found) (simp_all add: create rep.at_lift)
  next
    case (2 att1 found h1 _ att2 h2)
    show ?case
    proof (rule at_quiet_bind, rule quiet_require_secret_file, rule at_volume_bind, goal_cases)
      case (1 _ h3 again h4)
      with 2 show ?case
        by (cases again) (auto intro!: rep.at_raise rep.at_lift_bind at_keeps_mark_bind rep.at_return
            intro: keeps_trans simp: keeps_def)
    qed
  qed
qed

lemma at_attempt_secrets:
  assumes "rr_products rq = [m]" "extends_node rq m ls"
  shows "at_container att = None \<Longrightarrow> \<not> at_unknown_created att
    \<Longrightarrow> at_step dr rq m h att (attempt_secrets dc rq m ls uid j fs) (\<lambda>_ att' _. keeps att att')"
proof (induction fs arbitrary: j h att)
  case (Cons f fs)
  show ?case
    unfolding attempt_secrets.simps
  proof (rule at_hist_bind[OF at_attempt_secret[OF assms Cons.prems]], rule at_hist_bind[OF Cons.IH], goal_cases)
    case (3 x att1 h1 xs att2 h2)
    then show ?case by (auto intro: rep.at_return keeps_trans)
  qed (use Cons.prems in \<open>auto simp: keeps_def\<close>)
qed (simp add: rep.at_return)

text \<open>What a computation returns, whatever happened.\<close>

definition returns :: "('s, 'e, 'a) eff \<Rightarrow> ('a \<Rightarrow> bool) \<Rightarrow> bool" where
  "returns m R \<longleftrightarrow> (\<forall>s a s'. m s = (Inr a, s') \<longrightarrow> R a)"

lemma returns_bind: "(\<And>a. returns (k a) R) \<Longrightarrow> returns (bindE m k) R"
  by (auto simp: returns_def bindE_def split: prod.splits sum.splits)

lemma returns_bind_of: "returns m Q \<Longrightarrow> (\<And>a. Q a \<Longrightarrow> returns (k a) R) \<Longrightarrow> returns (bindE m k) R"
  unfolding returns_def bindE_def by (simp split: prod.splits sum.splits) blast

lemma returns_ends: "R a \<Longrightarrow> returns (returnE a) R" "returns (raiseE e) R"
  by (auto simp: returns_def returnE_def raiseE_def)

lemma hist_returns: "hist P h m Q \<Longrightarrow> returns m R \<Longrightarrow> hist P h m (\<lambda>a h'. Q a h' \<and> R a)"
  unfolding hist_def emits_def returns_def by (metis surj_pair fst_conv)

lemma returns_prepare_artifacts:
  "returns (prepare_artifacts dc rq m ls as) (\<lambda>r. r = map (\<lambda>a. (a, volume_name rq (pm_node m) (ca_id a))) as)"
proof (induction as)
  case (Cons a as)
  have "returns (prepare_artifact dc rq m ls a) (\<lambda>r. r = (a, volume_name rq (pm_node m) (ca_id a)))"
    unfolding prepare_artifact_def Let_def by (intro returns_bind) (auto intro: returns_ends)
  then show ?case
    unfolding prepare_artifacts.simps
    by (rule returns_bind_of) (auto intro!: returns_bind_of[OF Cons.IH] returns_ends)
qed (simp add: returns_ends)

definition artifact_mounts :: "runtime_request \<Rightarrow> product_material \<Rightarrow> (configuration_artifact \<times> string) list" where
  "artifact_mounts rq m = map (\<lambda>a. (a, volume_name rq (pm_node m) (ca_id a))) (pm_artifacts m)"

lemma at_container_material:
  assumes "rr_products rq = [m]" "extends_node rq m ls" "at_container att = None" "\<not> at_unknown_created att"
  shows "at_step dr rq m h att (attempt_container_material dc rq m ls secrets uid allocated) (\<lambda>cr att' _. keeps att att'
    \<and> cr_configurations cr = (case allocated of Some mounts \<Rightarrow> mounts | None \<Rightarrow> artifact_mounts rq m))"
proof -
  have mounts: "at_step dr rq m h att (case allocated of Some mounts \<Rightarrow> returnE mounts
      | None \<Rightarrow> on_docker (prepare_artifacts dc rq m ls (pm_artifacts m))) (\<lambda>r att' _. att' = att
        \<and> r = (case allocated of Some mounts \<Rightarrow> mounts | None \<Rightarrow> artifact_mounts rq m))"
  proof (cases allocated)
    case None
    show ?thesis
      unfolding None option.case
      by (rule at_hist_mono[OF rep.at_docker[OF hist_returns[OF hist_calm[OF hist_prepare_artifacts[OF assms(1,2) order.refl]
              calm_prepare_artifacts] returns_prepare_artifacts] kept_of_calm[OF calm_prepare_artifacts]]])
        (simp add: artifact_mounts_def)
  qed (simp add: rep.at_return)
  have retained: "at_step dr rq m h1 att1 (on_docker (prepare_retained dc ls vs)) (\<lambda>_ att' _. att' = att1)" for h1 att1 vs
    by (rule at_hist_mono[OF rep.at_docker[OF hist_calm[OF hist_prepare_retained[OF assms(1,2)] calm_prepare_retained]
          kept_of_calm[OF calm_prepare_retained]]]) simp
  show ?thesis
    unfolding attempt_container_material_def
  proof (rule at_hist_bind[OF mounts], rule at_hist_bind[OF retained], rule at_hist_bind[OF at_attempt_secrets[OF assms(1,2)]], goal_cases)
    case (3 ms att1 h1 _ att2 h2 smounts att3 h3)
    then show ?case by (auto intro!: rep.at_lift_bind rep.at_return)
  qed (use assms in auto)
qed

section \<open>Admission of an existing container\<close>

lemma map_of_cpk: "map_of (cpk_labels ls) (label_prefix @ k) = label_of ls k"
proof (induction ls)
  case (Cons l ls)
  then show ?case by (cases l) (auto simp: cpk_labels_def label_of_def py_startswith_def)
qed (simp add: cpk_labels_def label_of_def)

lemma correlated_label:
  assumes "same_labels (correlation_labels False False a) (correlation_labels False False b)"
  shows "label_of a k = label_of b k"
proof -
  from assms have "same_labels (cpk_labels a) (cpk_labels b)"
    by (simp add: correlation_labels_def)
  then have "map_of (cpk_labels a) = map_of (cpk_labels b)" by (simp add: same_labels_iff)
  then show ?thesis by (simp flip: map_of_cpk)
qed

lemma configured_labels_extend [simp]: "extends_node rq m (configured_labels att rq m)"
  by (auto simp: extends_node_def configured_labels_def owned_by_def label_of_labelled node_keys_def selection_label_def
      split: option.splits)

lemma configured_fingerprint [simp]:
  "fingerprint_matches o' (configured_labels att rq m) \<longleftrightarrow> fingerprint_matches o' (node_labels rq m)"
  by (auto simp: fingerprint_matches_def configured_labels_def label_of_labelled selection_label_def split: option.splits)

lemma configured_selection:
  "at_config att = Some (request, selection) \<Longrightarrow> label_of (configured_labels att rq m) selection_label = Some selection"
  by (simp add: configured_labels_def label_of_labelled selection_label_def)

lemma configured_labels_keeps: "at_config att' = at_config att \<Longrightarrow> configured_labels att' rq m = configured_labels att rq m"
  by (simp add: configured_labels_def)

lemma correlated_installation:
  assumes "require_correlation ci (configured_labels att rq m) net False False = Inr u"
  shows "same_installation att (configured_labels att rq m) ci"
proof -
  have same: "label_of (ci_labels ci) k = label_of (configured_labels att rq m) k" for k
    using assms by (intro correlated_label) (auto simp: require_correlation_def bindR_Inr_iff)
  then show ?thesis
    by (auto simp: same_installation_def fingerprint_matches_def configured_selection split: option.splits)
qed

text \<open>The same facts of an attempt, whatever container it has.\<close>

definition goes :: "attempt \<Rightarrow> attempt \<Rightarrow> bool" where
  "goes att att' \<longleftrightarrow>
     at_config att' = at_config att \<and> at_secret att' = at_secret att \<and> at_uid att' = at_uid att"

definition admitted_container :: "runtime_request \<Rightarrow> product_material \<Rightarrow> container_inspection option \<Rightarrow> bool \<Rightarrow> bool" where
  "admitted_container rq m found same \<longleftrightarrow>
     (case found of
        None \<Rightarrow> \<not> same
      | Some ci \<Rightarrow> ci_identity ci \<noteq> None \<and> own_container rq m ci
          \<and> (if same then fingerprint_matches (ci_labels ci) (node_labels rq m)
             else rr_operation rq = ReconcileNode \<and> rr_deliveries rq = []))"

definition identity_of :: "container_inspection option \<Rightarrow> string option" where
  "identity_of found = (case found of None \<Rightarrow> None | Some ci \<Rightarrow> ci_identity ci)"

lemma at_admit_existing:
  assumes "rr_operation rq \<in> {StartNode, ReconcileNode}" "granted_material rq am"
    and "ContainerRead (container_name rq (pm_node m)) (Inr found) \<in> set h"
    and "at_old att = None" "\<not> at_old_removed att" "at_container att = None" "\<not> at_unknown_created att"
  shows "at_step dr rq m h att (admit_existing dr rq m am (configured_labels att rq m) found) (\<lambda>same att' h'.
    goes att att' \<and> at_old att' = identity_of found \<and> \<not> at_old_removed att' \<and> at_container att' = None
    \<and> \<not> at_unknown_created att' \<and> admitted_container rq m found same)"
proof (cases found)
  case None
  with assms show ?thesis
    by (auto simp: admit_existing_def goes_def identity_of_def admitted_container_def intro: rep.at_return)
next
  case (Some ci)
  show ?thesis
  proof (cases "ci_identity ci")
    case None
    with Some show ?thesis by (simp add: admit_existing_def rep.at_raise)
  next
    case identity: (Some i)
    have old: "attempt_between rq m att h \<Longrightarrow> attempt_between rq m (att\<lparr>at_old := Some i\<rparr>) h"
      using assms(3,5,6) Some identity by (auto simp: attempt_between_def attempt_reported_def)
    let ?ls = "configured_labels att rq m" and ?att = "att\<lparr>at_old := Some i\<rparr>" and ?net = "network_name rq (pm_runtime m)"
    have same: "same_installation ?att ls ci = same_installation att ls ci" for ls
      by (simp add: same_installation_def)
    have ended: "at_step dr rq m h1 ?att (returnE b) (\<lambda>same att' h'. goes att att' \<and> at_old att' = identity_of found
        \<and> \<not> at_old_removed att' \<and> at_container att' = None \<and> \<not> at_unknown_created att' \<and> admitted_container rq m found same)"
      if "admitted_container rq m found b" for h1 b
      by (rule rep.at_return) (use assms that Some identity in \<open>simp add: goes_def identity_of_def\<close>)
    have decided: "at_step dr rq m h1 ?att
        (bindE (if rr_operation rq \<noteq> ReconcileNode then liftE (require_correlation ci ?ls ?net False False)
            else if rr_deliveries rq \<noteq> [] \<and> \<not> same_installation ?att ?ls ci
            then raiseE (UnsupportedAuthority ''docker.runtime-authority-change-unsupported'') else returnE ())
          (\<lambda>_. returnE (same_installation ?att ?ls ci)))
        (\<lambda>same att' h'. goes att att' \<and> at_old att' = identity_of found \<and> \<not> at_old_removed att' \<and> at_container att' = None
          \<and> \<not> at_unknown_created att' \<and> admitted_container rq m found same)"
      if owner: "owned_by node_keys (ci_labels ci) ?ls" for h1
    proof -
      have own: "own_container rq m ci"
        using owner extends_node_owner[OF configured_labels_extend] by (simp add: own_container_def)
      have fingerprint: "same_installation att ?ls ci \<Longrightarrow> fingerprint_matches (ci_labels ci) (node_labels rq m)"
        by (simp add: same_installation_def)
      have admitted: "admitted_container rq m found (same_installation att ?ls ci)"
        if "same_installation att ?ls ci \<or> rr_operation rq = ReconcileNode \<and> rr_deliveries rq = []"
        using that own fingerprint Some identity by (auto simp: admitted_container_def)
      show ?thesis
      proof (cases "rr_operation rq = ReconcileNode")
        case True
        note reconcile = \<open>rr_operation rq = ReconcileNode\<close>
        show ?thesis
        proof (cases "rr_deliveries rq \<noteq> [] \<and> \<not> same_installation att ?ls ci")
          case True
          then show ?thesis
            unfolding same by (simp only: reconcile simp_thms if_True if_False) (simp add: rep.at_raise)
        next
          case False
          then have "admitted_container rq m found (same_installation att ?ls ci)"
            by (intro admitted) (use reconcile in blast)
          note step = ended[OF this, of h1]
          from False have "(rr_deliveries rq \<noteq> [] \<and> \<not> same_installation att ?ls ci) = False" by blast
          then show ?thesis
            unfolding same by (simp only: reconcile simp_thms if_True if_False) (simp add: step)
        qed
      next
        case False
        have "at_step dr rq m h1 ?att (bindE (liftE (require_correlation ci ?ls ?net False False))
            (\<lambda>_. returnE (same_installation ?att ?ls ci)))
          (\<lambda>same att' h'. goes att att' \<and> at_old att' = identity_of found \<and> \<not> at_old_removed att' \<and> at_container att' = None
            \<and> \<not> at_unknown_created att' \<and> admitted_container rq m found same)"
        proof (rule rep.at_lift_bind)
          fix u
          assume "require_correlation ci ?ls ?net False False = Inr u"
          then have "same_installation att ?ls ci" by (rule correlated_installation)
          then show "at_step dr rq m h1 ?att (returnE (same_installation ?att ?ls ci))
              (\<lambda>same att' h'. goes att att' \<and> at_old att' = identity_of found \<and> \<not> at_old_removed att' \<and> at_container att' = None
                \<and> \<not> at_unknown_created att' \<and> admitted_container rq m found same)"
            unfolding same by (intro ended admitted) simp
        qed
        with False show ?thesis by simp
      qed
    qed
    show ?thesis
      unfolding admit_existing_def Some option.case identity Let_def
      by (rule at_hist_mark_bind, erule old, rule rep.at_lift_bind, rule rep.at_lift_bind, rule rep.at_lift_bind,
          rule at_quiet_bind, rule quiet_require_authority, rule at_hist_now_bind, rule decided[unfolded Some]) simp
  qed
qed

section \<open>Installation\<close>

lemma quiet_installed: "quiet (installed_configuration_matches dc ident mounts)"
  by (induction dc ident mounts rule: installed_configuration_matches.induct)
    (auto simp: inspect_configuration_mount_def split: option.splits intro!: hist_intros)

lemma at_start_identity:
  assumes "may_at dr rq h (StartContainer identity)"
  shows "at_step dr rq m h att (start_identity dc identity action) (\<lambda>_ att' _. keeps att att')"
  unfolding start_identity_def
proof (rule at_enter_bind, rule rep.at_docker_bind[OF hist_change[where P = "may_at dr rq" and h = h, OF assms] kept_start], goal_cases)
  case (1 att1 _ h1)
  then show ?case
    by (intro rep.at_mark) (auto simp: keeps_def intro: between_progress)
qed

lemma at_reuse_installation:
  assumes "rr_products rq = [m]" "found = Some ci" "admitted_container rq m found True"
    and "ContainerRead (container_name rq (pm_node m)) (Inr found) \<in> set h"
    and "at_old att = identity_of found" "\<not> at_old_removed att" "at_container att = None" "\<not> at_unknown_created att"
  shows "at_step dr rq m h att (reuse_installation dr rq m ls secrets img mounts ci)
    (\<lambda>_ att' _. goes att att' \<and> at_container att' \<noteq> None \<and> \<not> at_unknown_created att')"
proof -
  from assms obtain i where i: "ci_identity ci = Some i" "at_old att = Some i"
    and own: "own_container rq m ci" "fingerprint_matches (ci_labels ci) (node_labels rq m)"
    by (auto simp: admitted_container_def identity_of_def)
  have held: "attempt_between rq m att h
      \<Longrightarrow> attempt_between rq m (att\<lparr>at_container := Some i, at_secret_staged := is\<rparr>) h" for "is"
    using assms(6,7,8) i by (auto simp: attempt_between_def attempt_reported_def no_creation_def)
  have may: "may_at dr rq h1 (StartContainer i)" if "set h \<subseteq> set h1" for h1
    using that assms(1,2,4) i own unfolding may_configure.simps node_container_seen_def by blast
  show ?thesis
    unfolding reuse_installation_def Let_def i option.case
  proof (rule at_hist_mark_bind, erule held, rule rep.at_lift_bind, rule at_enter_bind,
      rule rep.at_docker_bind[OF hist_quiet kept_of_calm[OF calm_installed]], goal_cases)
    case (2 _ att1 _ h1)
    show ?case
    proof (rule at_hist_if, goal_cases)
      case 1
      show ?case
        by (rule rep.at_mark) (use 2 assms in \<open>auto simp: keeps_def goes_def intro: between_progress\<close>)
    next
      case 3: 2
      show ?case
        by (rule at_hist_mono[OF at_start_identity[OF may[OF \<open>set h \<subseteq> set h1\<close>]]])
          (use \<open>keeps _ att1\<close> assms(8) in \<open>auto simp: keeps_def goes_def\<close>)
    qed
  qed (rule quiet_installed)
qed

text \<open>The removal itself: until it is confirmed, the attempt does not say that it was made.\<close>

lemma at_runs_if:
  "(b \<Longrightarrow> at_runs att m R) \<Longrightarrow> (\<not> b \<Longrightarrow> at_runs att n R) \<Longrightarrow> at_runs att (if b then m else n) R"
  by simp

lemma guarded_Cons: "guarded P h [ev] \<Longrightarrow> guarded P (h @ [ev]) evs \<Longrightarrow> guarded P h (ev # evs)"
  using guarded_joined[of P h "[ev]" evs] by simp

lemma guarded_removal:
  assumes "P h mu" "mutation_of ev = None"
  shows "guarded P h [Mutated mu r, ev]"
proof -
  have "guarded P h [Mutated mu r]" by (rule guarded_single) (use assms in auto)
  moreover have "guarded P (h @ [Mutated mu r]) [ev]" by (rule guarded_quiet) (use assms in auto)
  ultimately show ?thesis using guarded_joined[of P h "[Mutated mu r]" "[ev]"] by simp
qed

lemma at_remove_confirmed:
  assumes may: "may_at dr rq h (RemoveContainer i)"
    and att: "at_old att = Some i" "\<not> at_old_removed att" "at_phase att = ''container-remove''"
      "at_container att = None" "\<not> at_unknown_created att"
  shows "at_step dr rq m h att (bindE (on_docker (perform dc (RemoveContainer i))) (\<lambda>_.
      bindE (on_docker (inspect_container dc i)) (\<lambda>after.
      if after \<noteq> None then raiseE ObservationUnknown else mark (\<lambda>att. att\<lparr>at_old_removed := True\<rparr>))))
    (\<lambda>_ att' h'. att' = att\<lparr>at_old_removed := True\<rparr> \<and> removed_gone i h')"
  unfolding at_hist_def
proof
  assume between: "attempt_between rq m att h"
  have reported: "attempt_reported rq m att (h @ Mutated (RemoveContainer i) r # evs)"
    if "\<forall>ev \<in> set evs. mutation_of ev = None" for r evs
    using between att that staged_volume_later[of rq m h _ "h @ Mutated (RemoveContainer i) r # evs"]
    by (fastforce simp: attempt_between_def attempt_reported_def no_creation_def list_all_iff)
  have gone: "attempt_between rq m (att\<lparr>at_old_removed := True\<rparr>)
      (h @ [Mutated (RemoveContainer i) (Inr x), ContainerRead i (Inr None)])" for x
    using reported[of "[ContainerRead i (Inr None)]" "Inr x"] between att
    by (auto simp: attempt_between_def attempt_reported_def no_creation_def removed_gone_def)
  have remove: "emits (perform dc (RemoveContainer i)) (\<lambda>evs r. \<exists>x. evs = [Mutated (RemoveContainer i) x] \<and> (isl r \<longleftrightarrow> isl x))"
    unfolding perform_def mutate_def by (rule emits_bindE[OF emits_callE_eq]) (auto intro: emits_returnE)
  have read: "emits (inspect_container dc i) (\<lambda>evs r. evs = [ContainerRead i r])"
    unfolding inspect_container_def by (rule emits_callE) simp
  show "at_runs att (bindE (on_docker (perform dc (RemoveContainer i))) (\<lambda>_.
      bindE (on_docker (inspect_container dc i)) (\<lambda>after.
      if after \<noteq> None then raiseE ObservationUnknown else mark (\<lambda>att. att\<lparr>at_old_removed := True\<rparr>))))
    (\<lambda>evs r att'. guarded (may_at dr rq) h evs \<and> attempt_reported rq m att' (h @ evs)
        \<and> (\<forall>a. r = Inr a \<longrightarrow> attempt_between rq m att' (h @ evs)
              \<and> att' = att\<lparr>at_old_removed := True\<rparr> \<and> removed_gone i (h @ evs)))"
  proof (rule at_runs_bind[OF at_runs_docker[where R = "\<lambda>evs r att'. att' = att
        \<and> (\<exists>x. evs = [Mutated (RemoveContainer i) x] \<and> (isl r \<longleftrightarrow> isl x))"]], goal_cases)
    case 1
    show ?case by (rule emits_mono[OF remove]) simp
  next
    case (2 u att1 evs)
    then obtain y where y: "att1 = att" "evs = [Mutated (RemoveContainer i) y]" "\<not> isl y" by auto
    then obtain x where x: "att1 = att" "evs = [Mutated (RemoveContainer i) (Inr x)]" by (cases y) auto
    show ?case
      unfolding x
    proof (rule at_runs_bind[OF at_runs_docker[where R = "\<lambda>evs r att'. att' = att \<and> evs = [ContainerRead i r]"]], goal_cases)
      case 1
      show ?case by (rule emits_mono[OF read]) simp
    next
      case (2 after att2 evs2)
      show ?case
      proof (cases "after = None")
        case True
        with 2 show ?thesis
          using gone[of x] may
          by (auto intro!: at_runs_mark simp: guarded_removal attempt_between_def removed_gone_def)
      next
        case False
        with 2 show ?thesis
          using reported[of "[ContainerRead i (Inr after)]" "Inr x"] may
          by (auto intro!: at_runs_raise simp: guarded_removal)
      qed
    next
      case (3 e att2 evs2)
      then show ?case
        using reported[of "[ContainerRead i (Inl e)]" "Inr x"] may by (auto simp: guarded_removal)
    qed
  next
    case (3 e att1 evs)
    then show ?case using reported[of "[]"] may by (auto intro!: guarded_single)
  qed
qed

lemma hist_same_container:
  "hist P h (inspect_container dc name) (\<lambda>a h'. ContainerRead name (Inr a) \<in> set h')"
  by (rule hist_reads) simp

lemma at_container_bind:
  assumes "\<And>a h'. set h \<subseteq> set h' \<Longrightarrow> ContainerRead v (Inr a) \<in> set h' \<Longrightarrow> at_step dr rq p h' att (k a) R"
  shows "at_step dr rq p h att (bindE (on_docker (inspect_container dc v)) k) R"
  by (rule rep.at_docker_bind[OF hist_same_container kept_of_calm[OF calm_reads(1)]]) (rule assms)

lemma at_remove_old:
  assumes "rr_products rq = [m]" "admitted_container rq m (Some ci) False" "ci_identity ci = Some i"
    and "ContainerRead (container_name rq (pm_node m)) (Inr (Some ci)) \<in> set h"
    and "at_old att = Some i" "\<not> at_old_removed att" "at_container att = None" "\<not> at_unknown_created att"
  shows "at_step dr rq m h att (remove_old dc ci i) (\<lambda>_ att' h'. goes att att' \<and> at_old att' = Some i
    \<and> at_old_removed att' \<and> at_container att' = None \<and> \<not> at_unknown_created att' \<and> removed_gone i h')"
  unfolding remove_old_def
proof (rule at_container_bind, rule at_hist_if, rule rep.at_raise, goal_cases)
  case (1 current h1)
  then obtain ci' where ci': "current = Some ci'" "same_inspection ci' ci" by (auto split: option.splits)
  have may: "may_at dr rq h1 (RemoveContainer i)"
    using 1 ci' assms(1-4) unfolding may_configure.simps node_container_seen_def admitted_container_def
    by (auto dest: subsetD)
  show ?case
    unfolding enter_def
    by (rule at_hist_mark_bind, rule between_progress, assumption, simp add: keeps_def, simp,
        rule at_hist_mono[OF at_remove_confirmed[OF may]])
      (use assms in \<open>auto simp: goes_def\<close>)
qed

lemma at_create_bind:
  assumes may: "may_at dr rq h (CreateContainer sp)"
    and att: "at_container att = None" "at_unknown_created att"
    and k: "\<And>i h'. set h \<subseteq> set h' \<Longrightarrow> Mutated (CreateContainer sp) (Inr i) \<in> set h' \<Longrightarrow> hex64 i
      \<Longrightarrow> at_step dr rq m h' (att\<lparr>at_container := Some i, at_unknown_created := False\<rparr>) (k i) R"
  shows "at_step dr rq m h att (bindE (on_docker (mutate dc (CreateContainer sp))) (\<lambda>i. if \<not> hex64 i then raiseE ObservationUnknown
      else bindE (mark (\<lambda>att. att\<lparr>at_container := Some i, at_unknown_created := False\<rparr>)) (\<lambda>_. k i))) R"
  unfolding at_hist_def
proof
  assume between: "attempt_between rq m att h"
  have reported: "attempt_reported rq m att (h @ [Mutated (CreateContainer sp) r])" for r
    using between att staged_volume_later[of rq m h _ "h @ [Mutated (CreateContainer sp) r]"]
    by (auto simp: attempt_between_def attempt_reported_def no_removal_def removed_gone_def list_all_iff)
  have made: "attempt_between rq m (att\<lparr>at_container := Some i, at_unknown_created := False\<rparr>)
      (h @ [Mutated (CreateContainer sp) (Inr i)])" for i
    using reported[of "Inr i"] between att
    by (auto simp: attempt_between_def attempt_reported_def no_creation_def no_removal_def)
  have guard: "guarded (may_at dr rq) h [Mutated (CreateContainer sp) r]" for r
    using may by (intro guarded_single) auto
  have create: "emits (mutate dc (CreateContainer sp)) (\<lambda>evs r. evs = [Mutated (CreateContainer sp) r])"
    unfolding mutate_def by (rule emits_callE) simp
  show "at_runs att (bindE (on_docker (mutate dc (CreateContainer sp))) (\<lambda>i. if \<not> hex64 i then raiseE ObservationUnknown
      else bindE (mark (\<lambda>att. att\<lparr>at_container := Some i, at_unknown_created := False\<rparr>)) (\<lambda>_. k i)))
    (\<lambda>evs r att'. guarded (may_at dr rq) h evs \<and> attempt_reported rq m att' (h @ evs)
        \<and> (\<forall>a. r = Inr a \<longrightarrow> attempt_between rq m att' (h @ evs) \<and> R a att' (h @ evs)))"
  proof (rule at_runs_bind[OF at_runs_docker[where R = "\<lambda>evs r att'. att' = att \<and> evs = [Mutated (CreateContainer sp) r]"]],
      goal_cases)
    case 1
    show ?case by (rule emits_mono[OF create]) simp
  next
    case (2 i att1 evs)
    show ?case
    proof (cases "hex64 i")
      case False
      with 2 show ?thesis using guard reported by (auto intro!: at_runs_raise)
    next
      case True
      have "at_step dr rq m (h @ evs) (att\<lparr>at_container := Some i, at_unknown_created := False\<rparr>) (k i) R"
        by (rule k) (use 2 True in auto)
      with made[of i] 2 have later: "at_runs (att\<lparr>at_container := Some i, at_unknown_created := False\<rparr>) (k i)
          (\<lambda>evs' r att'. guarded (may_at dr rq) (h @ evs) evs' \<and> attempt_reported rq m att' ((h @ evs) @ evs')
            \<and> (\<forall>a. r = Inr a \<longrightarrow> attempt_between rq m att' ((h @ evs) @ evs') \<and> R a att' ((h @ evs) @ evs')))"
        by (simp add: at_hist_def)
      have "at_runs att (bindE (mark (\<lambda>att. att\<lparr>at_container := Some i, at_unknown_created := False\<rparr>)) (\<lambda>_. k i))
          (\<lambda>evs' r att'. guarded (may_at dr rq) (h @ evs) evs' \<and> attempt_reported rq m att' ((h @ evs) @ evs')
            \<and> (\<forall>a. r = Inr a \<longrightarrow> attempt_between rq m att' ((h @ evs) @ evs') \<and> R a att' ((h @ evs) @ evs')))"
        using later unfolding at_runs_def by (simp add: bindE_def mark_def)
      with 2 True show ?thesis
        using guard[of "Inr i"] by (auto elim!: at_runs_mono intro: guarded_Cons)
    qed
  next
    case (3 e att1 evs)
    then show ?case using guard reported by auto
  qed
qed

lemma at_replace_installation:
  assumes "rr_products rq = [m]" "admitted_container rq m found False" "configured_labels att rq m = ls"
    and "ContainerRead (container_name rq (pm_node m)) (Inr found) \<in> set h"
    and "image_admitted (dr_image_ok dr) h (pm_image_reference m)"
    and "at_old att = identity_of found" "\<not> at_old_removed att" "at_container att = None" "\<not> at_unknown_created att"
  shows "at_step dr rq m h att (replace_installation dr rq m ls secrets am uid mounts found) (\<lambda>installed att' _.
    goes att att' \<and> at_container att' \<noteq> None \<and> \<not> at_unknown_created att'
    \<and> installed = (if at_config att = None then artifact_mounts rq m else mounts))"
proof -
  let ?dc = "dr_client dr" and ?n = "container_name rq (pm_node m)"
  have own: "extends_node rq m ls" using assms(3) by auto
  have away: "at_step dr rq m h1 att1 (case found of None \<Rightarrow> returnE ()
      | Some ci \<Rightarrow> (case ci_identity ci of None \<Rightarrow> raiseE ObservationUnknown | Some i \<Rightarrow> remove_old ?dc ci i))
      (\<lambda>_ att' h'. goes att att' \<and> at_container att' = None \<and> \<not> at_unknown_created att'
        \<and> (\<forall>ci. found = Some ci \<longrightarrow> (\<exists>i. ci_identity ci = Some i \<and> removed_gone i h')))"
    if "set h \<subseteq> set h1" "keeps att att1" for h1 att1
  proof (cases found)
    case None
    with that assms show ?thesis by (auto intro: rep.at_return simp: keeps_def goes_def)
  next
    case (Some ci)
    with assms(2) obtain i where i: "ci_identity ci = Some i" by (auto simp: admitted_container_def)
    show ?thesis
      unfolding Some option.case i
      by (rule at_hist_mono[OF at_remove_old[OF assms(1) _ i]])
        (use assms that Some i in \<open>auto simp: keeps_def goes_def identity_of_def\<close>)
  qed
  have may: "may_at dr rq h2 (CreateContainer (node_spec rq m ls am cr))"
    if "set h \<subseteq> set h2" "\<forall>ci. found = Some ci \<longrightarrow> (\<exists>i. ci_identity ci = Some i \<and> removed_gone i h2)" for h2 cr
  proof -
    have "own_configured_spec rq (node_spec rq m ls am cr)"
      using assms(1) own by (auto simp: own_configured_spec_def node_spec_def)
    moreover have "image_admitted (dr_image_ok dr) h2 (pm_image_reference m)"
      using assms(5) that(1) by (rule image_admitted_later)
    moreover have "ContainerRead ?n (Inr None) \<in> set h2
        \<or> (\<exists>i. node_container_seen rq h2 i (\<lambda>_. True) \<and> removed_gone i h2)"
      using that assms(1,2,4) unfolding node_container_seen_def admitted_container_def
      by (cases found) (auto dest: subsetD)
    ultimately show ?thesis by (simp add: node_spec_def)
  qed
  show ?thesis
    unfolding replace_installation_def Let_def
  proof (rule at_enter_bind, rule at_hist_now_bind, rule at_hist_bind[OF at_container_material[OF assms(1) own]],
      goal_cases)
    case (3 att1 cr att2 h2)
    then have kept: "keeps att att2" by (auto intro: keeps_trans)
    show ?case
    proof (rule at_hist_bind[OF away[OF \<open>set h \<subseteq> set h2\<close> kept]], rule at_enter_bind,
        rule at_hist_mark_bind, erule between_unknown, rule at_create_bind, goal_cases)
      case (1 _ att3 h3 att4)
      then show ?case using 3 by (intro may) auto
    next
      case (4 _ att3 h3 att4 i h4)
      show ?case
        by (rule at_hist_bind[OF at_start_identity], use 4 in auto)
          (use 3 4 in \<open>auto intro!: rep.at_return simp: keeps_def goes_def\<close>)
    qed (auto simp: keeps_def)
  qed (use assms in \<open>auto simp: keeps_def\<close>)
qed

end
