(* ===== verification/Docker_Configured_Props.thy ===== *)
theory Docker_Configured_Props
  imports Docker_Configured_Steps Docker_Props
begin

text \<open>
  The configuration activity as a whole: what it changes, what its success and its evidence mean; and
  the cleanup of configuration allocations.
\<close>

section \<open>Confirmation\<close>

definition mount_seen :: "string \<Rightarrow> docker_event list \<Rightarrow> configuration_artifact \<times> string \<Rightarrow> bool" where
  "mount_seen ident seen = (\<lambda>(a, v). \<exists>mi. ConfigurationMountRead ident a v (Inr (Some mi)) \<in> set seen
     \<and> mi_container mi = ident \<and> mount_matches mi a v \<and> configuration_file_matches (mi_file mi) a)"

definition installed_seen :: "'w docker_runtime \<Rightarrow> runtime_request \<Rightarrow> product_material \<Rightarrow> attempt
    \<Rightarrow> (configuration_artifact \<times> string) list \<Rightarrow> docker_event list \<Rightarrow> container_inspection \<Rightarrow> bool" where
  "installed_seen dr rq m att mounts seen ci \<longleftrightarrow>
     (\<exists>h identity img again. again = (rr_operation rq = ReconcileNode)
        \<and> at_container att = Some identity \<and> ci_identity ci = Some identity
        \<and> unchanged (h @ [ContainerRead identity (Inr (Some ci))]) seen
        \<and> ci_running ci \<and> ci_networks ci = [network_name rq (pm_runtime m)] \<and> granted_authority rq ci
        \<and> same_labels (correlation_labels again again (ci_labels ci))
            (correlation_labels again again (configured_labels att rq m))
        \<and> ImageRead (pm_image_reference m) (Inr (Some img)) \<in> set seen
        \<and> matches_image_reference (dr_image_ok dr) (pm_image_reference m) (ii_digests img)
        \<and> ci_image_id ci = Some (ii_id img)
        \<and> list_all (mount_seen identity seen) mounts
        \<and> (at_secret att \<noteq> None \<longrightarrow> RecipientVerified identity (Inr ()) \<in> set seen))"

text \<open>The configuration a container has: the allocated volumes, or the node's artifacts.\<close>

definition asked_mounts :: "runtime_request \<Rightarrow> product_material \<Rightarrow> attempt \<Rightarrow> (configuration_artifact \<times> string) list \<Rightarrow> bool" where
  "asked_mounts rq m att mounts \<longleftrightarrow>
     (if at_config att = None then mounts = artifact_mounts rq m
      else list_all2 (mount_of_instance m) (rr_instances rq) mounts)"

definition configured_result :: "configuration_core \<Rightarrow> 'w docker_runtime \<Rightarrow> runtime_request \<Rightarrow> product_material \<Rightarrow> attempt
    \<Rightarrow> docker_event list \<Rightarrow> runtime_observation runtime_result \<Rightarrow> bool" where
  "configured_result core dr rq m att seen r \<longleftrightarrow>
     (\<exists>mounts ci receipts. asked_mounts rq m att mounts \<and> installed_seen dr rq m att mounts seen ci
        \<and> \<not> at_unknown_created att
        \<and> installation_receipts core att = Inr receipts
        \<and> attempt_result core rq att SUCCEEDED None (endpoints_at dr rq m (private_host rq m ci))
            (receipts @ common_evidence rq m) = Inr r)"

lemma unchanged_refl [simp]: "unchanged h h"
  by (simp add: unchanged_def)

lemma unchanged_trans: "unchanged a b \<Longrightarrow> unchanged b c \<Longrightarrow> unchanged a c"
  by (auto simp: unchanged_def)

lemma unchanged_set: "unchanged a b \<Longrightarrow> set a \<subseteq> set b"
  by (auto simp: unchanged_def)

lemma mount_seen_later: "mount_seen i h mo \<Longrightarrow> set h \<subseteq> set h' \<Longrightarrow> mount_seen i h' mo"
  unfolding mount_seen_def by (cases mo) blast

lemma hist_installed:
  "hist P h (installed_configuration_matches dc (Some i) mounts) (\<lambda>_ h'. unchanged h h' \<and> list_all (mount_seen i h') mounts)"
proof (induction mounts arbitrary: h)
  case (Cons mo mounts)
  obtain a v where mo: "mo = (a, v)" by (cases mo)
  show ?case
    unfolding mo installed_configuration_matches.simps inspect_configuration_mount_def
  proof (rule hist_bindE[OF hist_call[where Q = "\<lambda>x h'. h' = h @ [ConfigurationMountRead i a v (Inr x)]"]], goal_cases)
    case (3 found h1)
    show ?case
    proof (cases found)
      case (Some mi)
      show ?thesis
        unfolding Some option.case
      proof (rule hist_if, rule hist_raiseE, rule hist_if, rule hist_raiseE, rule hist_lift_bind,
          rule hist_mono[OF Cons.IH], goal_cases)
        case (1 u _ h2)
        have "unchanged h h1" using 3 by (simp add: unchanged_def)
        moreover have "mount_seen i h1 mo" using 1 3 Some mo by (auto simp: mount_seen_def)
        ultimately show ?case
          using 1 by (auto simp: mo intro: unchanged_trans mount_seen_later)
      qed
    qed (simp add: hist_raiseE)
  qed simp_all
qed (simp add: hist_returnE)

lemma hist_recipient:
  "hist P h (verify_secret_recipient dc rp) (\<lambda>_ h'. h' = h @ [RecipientVerified (rp_container rp) (Inr ())])"
  unfolding verify_secret_recipient_def by (rule hist_call) auto

lemma started_facts:
  assumes "require_started ci ls img net running b b = Inr u"
  shows "same_labels (correlation_labels b b (ci_labels ci)) (correlation_labels b b ls)" "ci_networks ci = [net]"
    "ci_image_id ci = Some (ii_id img)" "running \<Longrightarrow> ci_running ci"
  using assms by (auto simp: require_started_def require_correlation_def bindR_Inr_iff require_node_network_def)

lemma at_confirm_installation:
  assumes "granted_material rq am" "asked_mounts rq m att mounts" "\<not> at_unknown_created att"
    and "ImageRead (pm_image_reference m) (Inr (Some img)) \<in> set h"
    and "matches_image_reference (dr_image_ok dr) (pm_image_reference m) (ii_digests img)"
    and "ls = configured_labels att rq m"
  shows "at_step dr rq m h att (confirm_installation core dr rq m ls secrets am img uid mounts)
    (\<lambda>r att' h'. configured_result core dr rq m att' h' r)"
  unfolding confirm_installation_def Let_def
proof (rule at_enter_bind, rule at_hist_now_bind, goal_cases)
  case (1 att1)
  show ?case
  proof (cases "at_container att1")
    case (Some identity)
    show ?thesis
      unfolding Some option.case
    proof (rule rep.at_docker_bind[OF hist_reads(1)[where Q = "\<lambda>a h'. h' = h @ [ContainerRead identity (Inr a)]"]
          kept_of_calm[OF calm_reads(1)]], goal_cases)
      case (2 final h1)
      show ?case
      proof (cases final)
        case (Some ci)
        show ?thesis
          unfolding Some option.case
        proof (rule at_hist_if, rule rep.at_raise, rule rep.at_lift_bind,
            rule rep.at_docker_bind[OF hist_require_authority[OF assms(1)] kept_of_calm[OF calm_quiet[OF quiet_require_authority]]],
            rule rep.at_docker_bind[OF hist_installed kept_of_calm[OF calm_installed]], goal_cases)
          case (1 u v h2 w h3)
          note facts = started_facts[OF 1(2)]
          have last: "unchanged h1 h3" using 1 by (blast intro: unchanged_trans)
          have "installed_seen dr rq m att1 mounts h4 ci"
            if "unchanged h3 h4" "at_secret att1 \<noteq> None \<longrightarrow> RecipientVerified identity (Inr ()) \<in> set h4" for h4
            unfolding installed_seen_def
          proof (intro exI[of _ h] exI[of _ identity] exI[of _ img] exI[of _ "rr_operation rq = ReconcileNode"], intro conjI)
            show "unchanged (h @ [ContainerRead identity (Inr (Some ci))]) h4"
              using last that 2 \<open>final = Some ci\<close> by (auto intro: unchanged_trans)
            show "ImageRead (pm_image_reference m) (Inr (Some img)) \<in> set h4"
              using assms(4) 2(1) unchanged_set[OF last] unchanged_set[OF that(1)] by auto
            show "list_all (mount_seen identity h4) mounts"
              using 1 unchanged_set[OF that(1)] by (auto simp: list_all_iff intro: mount_seen_later)
            show "same_labels (correlation_labels (rr_operation rq = ReconcileNode) (rr_operation rq = ReconcileNode) (ci_labels ci))
                (correlation_labels (rr_operation rq = ReconcileNode) (rr_operation rq = ReconcileNode) (configured_labels att1 rq m))"
              using facts(1) \<open>keeps att att1\<close> assms(6) by (simp add: configured_labels_def keeps_def)
          qed (use facts 1 that \<open>at_container att1 = _\<close> assms(5) in auto)
          note seen = this
          have mounts: "asked_mounts rq m att1 mounts" "\<not> at_unknown_created att1"
            using assms(2,3) \<open>keeps att att1\<close> by (auto simp: asked_mounts_def keeps_def)
          have last: "at_step dr rq m h4 att1
              (if max 64 (length (pm_node m)) < length (private_host rq m ci) then raiseE ObservationUnknown
               else liftE (bindR (installation_receipts core att1) (\<lambda>receipts.
                  attempt_result core rq att1 SUCCEEDED None (endpoints_at dr rq m (private_host rq m ci))
                    (receipts @ common_evidence rq m)))) (\<lambda>r att' h'. configured_result core dr rq m att' h' r)"
            if "installed_seen dr rq m att1 mounts h4 ci" for h4
            using that mounts
            by (intro at_hist_if rep.at_raise rep.at_lift) (auto simp: bindR_Inr_iff configured_result_def)
          show ?case
          proof (cases "at_secret att1 = None")
            case True
            show ?thesis
              unfolding if_P[OF True] by (rule at_hist_return_bind, rule last, rule seen) (simp_all add: True)
          next
            case False
            show ?thesis
              unfolding if_not_P[OF False]
              by (rule rep.at_docker_bind[OF hist_recipient kept_of_calm[OF calm_reads(11)]], rule last, rule seen)
                (auto simp: recipient_of_node_def unchanged_def)
          qed
        qed
      qed (simp add: rep.at_raise)
    qed simp
  qed (simp add: rep.at_raise)
qed

section \<open>The activity\<close>

lemma at_retain_mounts: "at_step dr rq m h att (retain_mounts found) (\<lambda>_ att' _. keeps att att')"
  unfolding retain_mounts_def
  by (rule at_hist_now_bind)
    (auto split: option.splits intro!: rep.at_return rep.at_raise rep.at_mark intro: between_progress simp: keeps_def)

lemma between_uid: "attempt_between rq m att h \<Longrightarrow> attempt_between rq m (att\<lparr>at_uid := uid, at_phase := phase\<rparr>) h"
  by (auto simp: attempt_between_def attempt_reported_def)

lemma at_admit_labels:
  assumes "configured_labels att rq m = ls" "rr_operation rq \<in> {StartNode, ReconcileNode}" "granted_material rq am"
    and "ContainerRead (container_name rq (pm_node m)) (Inr found) \<in> set h"
    and "at_old att = None" "\<not> at_old_removed att" "at_container att = None" "\<not> at_unknown_created att"
  shows "at_step dr rq m h att (admit_existing dr rq m am ls found) (\<lambda>same att' h'.
    goes att att' \<and> at_old att' = identity_of found \<and> \<not> at_old_removed att' \<and> at_container att' = None
    \<and> \<not> at_unknown_created att' \<and> admitted_container rq m found same)"
  using at_admit_existing[OF assms(2-)] unfolding assms(1) .

lemma at_install:
  assumes "rr_products rq = [m]" "admitted_container rq m found same" "configured_labels att rq m = ls"
    and "ContainerRead (container_name rq (pm_node m)) (Inr found) \<in> set h"
    and "image_admitted (dr_image_ok dr) h (pm_image_reference m)"
    and "at_old att = identity_of found" "\<not> at_old_removed att" "at_container att = None" "\<not> at_unknown_created att"
    and "asked_mounts rq m att mounts"
  shows "at_step dr rq m h att (case found of
      Some ci \<Rightarrow>
        if same then bindE (reuse_installation dr rq m ls secrets img mounts ci) (\<lambda>_. returnE mounts)
        else replace_installation dr rq m ls secrets am uid mounts found
    | None \<Rightarrow> replace_installation dr rq m ls secrets am uid mounts found)
    (\<lambda>installed att' _. goes att att' \<and> \<not> at_unknown_created att' \<and> asked_mounts rq m att' installed)"
proof -
  have replaced: "at_step dr rq m h att (replace_installation dr rq m ls secrets am uid mounts found)
      (\<lambda>installed att' _. goes att att' \<and> \<not> at_unknown_created att' \<and> asked_mounts rq m att' installed)" if "\<not> same"
    by (rule at_hist_mono[OF at_replace_installation[OF assms(1) _ assms(3-9)]])
      (use assms(2,10) that in \<open>auto simp: asked_mounts_def goes_def\<close>)
  show ?thesis
  proof (cases found)
    case None
    with assms(2) have "\<not> same" by (simp add: admitted_container_def)
    from replaced[OF this] None show ?thesis by simp
  next
    case (Some ci)
    show ?thesis
    proof (cases same)
      case False
      from replaced[OF False] Some False show ?thesis by simp
    next
      case True
      have "at_step dr rq m h att (bindE (reuse_installation dr rq m ls secrets img mounts ci) (\<lambda>_. returnE mounts))
        (\<lambda>installed att' _. goes att att' \<and> \<not> at_unknown_created att' \<and> asked_mounts rq m att' installed)"
        by (rule at_hist_bind[OF at_reuse_installation[OF assms(1) Some _ assms(4) assms(6-9)]], use assms(2) True in simp,
            rule rep.at_return)
          (use assms(10) in \<open>auto simp: goes_def asked_mounts_def\<close>)
      with True Some show ?thesis by simp
    qed
  qed
qed

text \<open>An attempt before anything was done.\<close>

definition fresh_attempt :: "attempt \<Rightarrow> bool" where
  "fresh_attempt att \<longleftrightarrow>
     at_old att = None \<and> \<not> at_old_removed att \<and> at_container att = None \<and> \<not> at_unknown_created att \<and> at_staged att = []"

lemma make_attempt_fresh: "make_attempt rq = Inr att \<Longrightarrow> fresh_attempt att \<and> rr_products rq \<noteq> []"
  by (auto simp: make_attempt_def fresh_attempt_def split: list.splits)

lemma fresh_between: "fresh_attempt att \<Longrightarrow> attempt_between rq m att []"
  by (simp add: fresh_attempt_def attempt_between_def attempt_reported_def no_removal_def no_creation_def)

lemma at_configuration_node:
  assumes "quiet_resolvers dr" "rr_operation rq \<in> {StartNode, ReconcileNode}" "fresh_attempt att" "hd (rr_products rq) = m"
  shows "at_step dr rq m [] att (configuration_node core dr rq)
    (\<lambda>r att' h'. rr_products rq = [m] \<and> configured_result core dr rq m att' h' r)"
  unfolding configuration_node_def
proof (rule rep.at_lift_bind, rule at_hist_now_bind, goal_cases)
  case (1 m')
  then have m: "rr_products rq = [m]" "m' = m" using assms(4) by (auto simp: single_product_Inr)
  let ?name = "container_name rq (pm_node m)" and ?ls = "configured_labels att rq m"
  have runtime: "pm_runtime m \<in> set (request_runtimes rq)"
    by (rule product_runtime[OF m(1)]) (use assms(2) in auto)
  show ?case
    unfolding Let_def m(2)
  proof (rule at_container_bind, rule at_hist_bind[OF at_retain_mounts], rule at_hist_now_bind, rule rep.at_lift_bind,
      rule at_enter_bind, rule rep.at_docker_bind[OF hist_authority_material kept_of_calm[OF calm_quiet[OF quiet_authority_material]]],
      rule at_hist_bind[OF at_admit_labels], goal_cases)
    case (9 found h1 _ att1 h2 _ att2 am h3 same att3 h4)
    then have read: "ContainerRead ?name (Inr found) \<in> set h4" by blast
    have config: "at_config att3 = at_config att" "at_config att1 = at_config att"
      using 9 by (auto simp: keeps_def goes_def)
    show ?case
    proof (rule at_quiet_bind[OF quiet_product_secrets[OF assms(1)]], rule at_quiet_bind[OF quiet_image_pull_auth[OF assms(1)]],
        rule rep.at_docker_bind[OF hist_calm[OF hist_admit_image[OF m(1)] calm_admit_image] kept_of_calm[OF calm_admit_image]],
        rule at_quiet_bind[OF quiet_preflight], rule at_hist_mark_bind, erule between_uid,
        rule rep.at_docker_bind[OF hist_calm[OF hist_ensure_network[OF runtime] calm_ensure_network] kept_of_calm[OF calm_ensure_network]],
        goal_cases)
      case (1 secrets h5 auth h6 img h7 uid h8 _ h9)
      let ?att = "att3\<lparr>at_uid := if rd_files secrets = [] then None else Some uid, at_phase := ''network''\<rparr>"
      have img: "ImageRead (pm_image_reference m) (Inr (Some img)) \<in> set h9"
        and match: "matches_image_reference (dr_image_ok dr) (pm_image_reference m) (ii_digests img)" using 1 by auto
      have staged: "at_step dr rq m h9 ?att (if at_config att1 \<noteq> None then stage_configuration (dr_client dr) rq m
          else returnE (map (\<lambda>a. (a, volume_name rq (pm_node m) (ca_id a))) (pm_artifacts m)))
          (\<lambda>mounts att' _. keeps ?att att' \<and> asked_mounts rq m att' mounts)"
        by (rule at_hist_if, rule at_hist_mono[OF at_stage_configuration])
          (use config in \<open>auto intro: rep.at_return simp: asked_mounts_def artifact_mounts_def keeps_def\<close>)
      show ?case
      proof (rule at_hist_bind[OF staged], rule at_hist_bind[OF at_install[OF m(1)]], goal_cases)
        case (10 mounts att4 h10 installed att5 h11)
        show ?case
          by (rule at_hist_mono[OF at_confirm_installation])
            (use 10 9 img match m config in \<open>auto simp: keeps_def goes_def configured_labels_def\<close>)
      next
        case (3 mounts att4 h10)
        then show ?case using read 1 by blast
      next
        case (4 mounts att4 h10)
        show ?case by (rule admitted_of_read[OF _ match]) (use img 4 in blast)
      qed (use 9 config in \<open>auto simp: keeps_def goes_def configured_labels_def\<close>)
    qed
  qed (use assms in \<open>auto simp: keeps_def fresh_attempt_def configured_labels_def\<close>)
qed

text \<open>What a run of the activity says, whatever it ends with.\<close>

definition configuration_run :: "configuration_core \<Rightarrow> 'w docker_runtime \<Rightarrow> runtime_request \<Rightarrow> docker_event list
    \<Rightarrow> runtime_observation runtime_result \<Rightarrow> bool" where
  "configuration_run core dr rq evs r \<longleftrightarrow>
     (\<exists>m att. hd (rr_products rq) = m \<and> attempt_reported rq m att evs
        \<and> (\<exists>kind failure observations extra. attempt_result core rq att kind failure observations extra = Inr r)
        \<and> (re_kind r = SUCCEEDED \<longrightarrow> rr_products rq = [m] \<and> configured_result core dr rq m att evs r))"

lemma attempt_result_Inr:
  "attempt_result core rq att kind failure observations extra = Inr r
    \<Longrightarrow> re_kind r = kind \<and> re_effect r = rr_effect rq \<and> re_observations r = observations \<and> re_failure r = failure
      \<and> (\<exists>pre. re_evidence r = pre @ attempt_evidence att)"
  by (auto simp: attempt_result_def Let_def bindR_Inr_iff split: option.splits)

lemma configuration_failure_Inr:
  assumes "configuration_failure core control rq att e = Inr r"
  shows "re_kind r \<noteq> SUCCEEDED"
    "\<exists>kind failure observations extra. attempt_result core rq att kind failure observations extra = Inr r"
proof -
  from assms obtain kind failure where made: "attempt_result core rq att kind failure [] [] = Inr r" and "kind \<noteq> SUCCEEDED"
    by (cases e) (auto simp: configuration_failure_def attempt_rejected_def attempt_uncertain_def split: if_splits)
  then show "re_kind r \<noteq> SUCCEEDED" by (auto dest: attempt_result_Inr)
  from made show "\<exists>kind failure observations extra. attempt_result core rq att kind failure observations extra = Inr r" by blast
qed

lemma configured_result_made:
  "configured_result core dr rq m att seen r
    \<Longrightarrow> \<exists>kind failure observations extra. attempt_result core rq att kind failure observations extra = Inr r"
  unfolding configured_result_def by blast

lemma emits_execute_configuration:
  assumes "quiet_resolvers dr" "rr_operation rq \<in> {StartNode, ReconcileNode}"
  shows "emits (execute_configuration_node core dr rq) (\<lambda>evs r. guarded (may_at dr rq) [] evs
    \<and> (\<forall>a. r = Inr a \<longrightarrow> configuration_run core dr rq evs a))"
  unfolding execute_configuration_node_def
proof (rule emits_if, use assms in simp, cases "make_attempt rq")
  fix e
  assume "make_attempt rq = Inl e"
  then show "emits (bindE (liftE (make_attempt rq)) (\<lambda>att.
      bindE (run_attempt (configuration_node core dr rq) att) (\<lambda>(r, att').
      liftE (case r of Inr result \<Rightarrow> Inr result | Inl e \<Rightarrow> configuration_failure core (dr_control dr) rq att' e))))
    (\<lambda>evs r. guarded (may_at dr rq) [] evs \<and> (\<forall>a. r = Inr a \<longrightarrow> configuration_run core dr rq evs a))"
    by (simp add: emits_raiseE)
next
  fix att
  assume 2: "make_attempt rq = Inr att"
  let ?m = "hd (rr_products rq)"
  note fresh = make_attempt_fresh[OF 2, THEN conjunct1]
  have run: "at_runs att (configuration_node core dr rq) (\<lambda>evs r att'. guarded (may_at dr rq) [] evs \<and> attempt_reported rq ?m att' evs
      \<and> (\<forall>a. r = Inr a \<longrightarrow> rr_products rq = [?m] \<and> configured_result core dr rq ?m att' evs a))"
    using at_configuration_node[OF assms fresh refl, of core] fresh_between[OF fresh, of rq ?m]
    by (auto simp: at_hist_def elim!: at_runs_mono)
  show "emits (bindE (liftE (make_attempt rq)) (\<lambda>att.
      bindE (run_attempt (configuration_node core dr rq) att) (\<lambda>(r, att').
      liftE (case r of Inr result \<Rightarrow> Inr result | Inl e \<Rightarrow> configuration_failure core (dr_control dr) rq att' e))))
    (\<lambda>evs r. guarded (may_at dr rq) [] evs \<and> (\<forall>a. r = Inr a \<longrightarrow> configuration_run core dr rq evs a))"
    unfolding 2 liftE_simps bindE_returnE
  proof (rule emits_bindE[OF emits_run_attempt[OF run]], goal_cases)
    case (1 res evs)
    then obtain r0 att' where res: "res = (r0, att')" "guarded (may_at dr rq) [] evs" "attempt_reported rq ?m att' evs"
      "\<And>a. r0 = Inr a \<Longrightarrow> rr_products rq = [?m] \<and> configured_result core dr rq ?m att' evs a"
      by auto
    have "configuration_run core dr rq evs a"
      if "(case r0 of Inr a \<Rightarrow> Inr a | Inl e \<Rightarrow> configuration_failure core (dr_control dr) rq att' e) = Inr a" for a
    proof (cases r0)
      case (Inl e)
      with that res(3) configuration_failure_Inr[of core "dr_control dr" rq att' e a] show ?thesis
        unfolding configuration_run_def by (simp del: ex_simps) blast
    next
      case (Inr b)
      with that res(3) res(4)[OF Inr] configured_result_made show ?thesis
        unfolding configuration_run_def by (simp del: ex_simps) blast
    qed
    with res(1,2) show ?case by (auto intro!: emits_liftE)
  qed (auto simp: emits_raiseE)
qed

section \<open>Samples\<close>

definition created_identity :: string where
  "created_identity = replicate 64 CHR ''a''"

definition sample_configured :: runtime_request where
  "sample_configured = (sample_effect StartNode)\<lparr>rr_kind := CONFIGURATION_ACTIVITY_V1\<rparr>"

definition sample_attempt :: attempt where
  "sample_attempt =
     \<lparr>at_config = Some (''rf'', ''sf''), at_secret = None, at_phase = ''preflight'', at_attempted = [], at_staged = [],
      at_old = None, at_container = None, at_old_removed = False, at_unknown_created = False, at_action = ''not-started'',
      at_uid = None, at_secret_attempted = [], at_secret_staged = [], at_retained = [], at_unknown_material = False,
      at_close_unknown = False\<rparr>"

definition sample_installed :: container_inspection where
  "sample_installed = (sample_container StartNode)\<lparr>ci_identity := Some created_identity,
     ci_labels := configured_labels sample_attempt sample_configured sample_product\<rparr>"

definition sample_reference :: configuration_reference where
  "sample_reference = \<lparr>ki_workspace = ''w'', ki_runtime = ''main'', ki_node = ''api'', ki_allocation = ''a1'',
     ki_artifact = ''cfg'', ki_digest = ''d1'', ki_bytes = [1, 2, 3]\<rparr>"

definition sample_allocation :: configuration_volume where
  "sample_allocation = \<lparr>cv_name = configuration_volume_name sample_reference, cv_created = ''now'',
     cv_labels = configuration_volume_labels sample_reference, cv_local = True\<rparr>"

lemma sample_allocation_owned:
  "configuration_owned (cv_labels sample_allocation) sample_reference" "cv_local sample_allocation"
  by (simp_all add: sample_allocation_def configuration_owned_def configuration_volume_labels_def labelled_def)

text \<open>A provider without the container until one is created; the world says whether one was.\<close>

definition creating_client :: "bool docker_client" where
  "creating_client =
     \<lparr>dc_container = (\<lambda>_ made. (Inr (if made then Some sample_installed else None), made)),
      dc_network = (\<lambda>_ w. (Inr (Some (sample_network StartNode)), w)),
      dc_image = (\<lambda>_ w. (Inr (Some sample_image), w)), dc_volume = (\<lambda>_ w. (Inr None, w)),
      dc_artifact_digest = (\<lambda>_ w. (Inr None, w)), dc_secret_file = (\<lambda>_ w. (Inr None, w)),
      dc_local_socket = (\<lambda>_ w. (Inr True, w)), dc_facts = (\<lambda>w. (Inr None, w)),
      dc_config_volume = (\<lambda>_ gone. (Inr (if gone then None else Some sample_allocation), gone)), dc_volume_used = (\<lambda>_ w. (Inr False, w)),
      dc_config_file = (\<lambda>_ w. (Inr None, w)), dc_config_mount = (\<lambda>_ _ _ w. (Inr None, w)),
      dc_recipient = (\<lambda>_ w. (Inr (), w)), dc_probe = (\<lambda>_ w. (Inl ContractError, w)),
      dc_mutate = (\<lambda>_ _. (Inr created_identity, True)),
      dc_close = (\<lambda>w. (Inr (), w))\<rparr>"

definition creating_runtime :: "bool docker_runtime" where
  "creating_runtime =
     \<lparr>dr_client = creating_client, dr_socket_group = (\<lambda>w. (Inr 0, w)),
      dr_secrets = \<lparr>ss_grant = None, ss_reference = None, ss_permits = (\<lambda>_ _ _. False),
        ss_read_grant = (\<lambda>_ _. Inl (DkSecretError SECRET_MISSING)),
        ss_read_reference = (\<lambda>_ _. Inl (DkSecretError SECRET_MISSING))\<rparr>,
      dr_pull = None, dr_control = (\<lambda>_. False), dr_port_missing = False, dr_scheme = (\<lambda>p. p),
      dr_image_ok = (\<lambda>_ _ _. True), dr_loads = (\<lambda>_. Inl ContractError), dr_code_value = (\<lambda>_. ''x''),
      dr_pull_intent = ''pull'', dr_request_ok = (\<lambda>_. None)\<rparr>"

definition trivial_core :: configuration_core where
  "trivial_core =
     \<lparr>kc_completion = (\<lambda>_ _. Inr JNull), kc_installation = (\<lambda>_ _ _ _ _. Inr JNull), kc_resolution = (\<lambda>_ _. Inr JNull),
      kc_secret_installation = (\<lambda>_ _ _ _ _. Inr JNull), kc_refuses = (\<lambda>_. None), kc_cleanup = (\<lambda>rq _. Inr (effect_unsupported rq []))\<rparr>"

lemma creating_quiet: "quiet_resolvers creating_runtime"
  by (simp add: quiet_resolvers_def creating_runtime_def)

lemma sample_configured_simps [simp]:
  "rr_operation sample_configured = StartNode" "rr_products sample_configured = [sample_product]"
  "rr_deliveries sample_configured = []" "rr_kind sample_configured = CONFIGURATION_ACTIVITY_V1"
  "rr_fingerprint sample_configured = ''rf''" "rr_selection sample_configured = ''sf''" "rr_instances sample_configured = []"
  "rr_grants sample_configured = []"
  by (simp_all add: sample_configured_def) (simp_all add: sample_effect_def)

lemma sample_product_simps [simp]:
  "pm_node sample_product = ''api''" "pm_runtime sample_product = ''main''"
  "pm_image_reference sample_product = ''docker.io/library/api@sha256:1''" "pm_deliveries sample_product = []"
  "pm_pull sample_product = None" "pm_retained sample_product = []" "pm_artifacts sample_product = []"
  "pm_public_environment sample_product = []" "pm_socket_environment sample_product = []"
  by (simp_all add: sample_product_def)

lemma sample_resources:
  "network_name sample_configured = network_name (sample_effect StartNode)"
  "runtime_labels sample_configured = runtime_labels (sample_effect StartNode)"
  "ni_labels (sample_network StartNode) = runtime_labels (sample_effect StartNode) ''main''"
  "ii_digests sample_image = [''api@sha256:1'']" "ii_user sample_image = None" "ii_id sample_image = ''i''"
  "ci_identity sample_installed = Some created_identity" "ci_running sample_installed" "ci_image_id sample_installed = Some ''i''"
  "ci_labels sample_installed = configured_labels sample_attempt sample_configured sample_product"
  "ci_networks sample_installed = [network_name (sample_effect StartNode) ''main'']"
  "ci_binds sample_installed = Some []" "ci_groups sample_installed = Some []" "ci_addresses sample_installed = []"
  by (simp_all add: fun_eq_iff network_name_def runtime_labels_def sample_configured_def sample_network_def sample_image_def
      sample_installed_def sample_container_def)

lemma empty_environment:
  "dict_of [] = []" "binding_entries [] = []" "join_environment [] [] = Inr []"
  by code_simp+

lemma sample_attempt_made: "make_attempt sample_configured = Inr sample_attempt"
  by (simp add: make_attempt_def sample_attempt_def)

lemma creating_simps [simp]:
  "dr_client creating_runtime = creating_client" "dr_control creating_runtime e = False"
  "dr_image_ok creating_runtime = (\<lambda>_ _ _. True)" "dr_pull creating_runtime = None"
  "ss_grant (dr_secrets creating_runtime) = None" "ss_reference (dr_secrets creating_runtime) = None"
  "dc_container creating_client n made = (Inr (if made then Some sample_installed else None), made)"
  "dc_network creating_client n made = (Inr (Some (sample_network StartNode)), made)"
  "dc_image creating_client n made = (Inr (Some sample_image), made)"
  "dc_config_volume creating_client n gone = (Inr (if gone then None else Some sample_allocation), gone)"
  "dc_volume_used creating_client n w = (Inr False, w)"
  "dc_mutate creating_client mu made = (Inr created_identity, True)"
  by (simp_all add: creating_runtime_def creating_client_def)

lemma trivial_core_simps [simp]:
  "kc_completion trivial_core a b = Inr JNull" "kc_installation trivial_core a b c d f = Inr JNull"
  "kc_refuses trivial_core r = None"
  by (simp_all add: trivial_core_def)

lemma sample_attempt_simps [simp]:
  "at_config sample_attempt = Some (''rf'', ''sf'')" "at_secret sample_attempt = None" "at_old sample_attempt = None"
  "\<not> at_old_removed sample_attempt" "at_container sample_attempt = None" "\<not> at_unknown_created sample_attempt"
  by (simp_all add: sample_attempt_def)

lemma hex_identity: "hex64 created_identity" "hex64 (replicate 64 CHR ''e'')" "hex64 (replicate 64 CHR ''f'')"
  by code_simp+

lemma sample_reserved:
  "reserve_capacity trivial_core creating_runtime sample_configured sample_product sample_attempt = Inr ()"
  by (simp add: reserve_capacity_def largest_result_def installation_receipts_def secret_installation_evidence_def
      largest_attempt_def incarnation_fields_def incarnation_fingerprint_def hex_identity attempt_result_def
      completion_entry_def Let_def)


definition sample_spec :: container_spec where
  "sample_spec = node_spec sample_configured sample_product (configured_labels sample_attempt sample_configured sample_product)
     \<lparr>am_mounts = [], am_groups = []\<rparr> \<lparr>cr_environment = [], cr_volumes = [], cr_configurations = [], cr_secrets = []\<rparr>"

definition sample_configured_events :: "docker_event list" where
  "sample_configured_events =
     [ContainerRead (container_name sample_configured ''api'') (Inr None),
      ImageRead ''docker.io/library/api@sha256:1'' (Inr (Some sample_image)),
      NetworkRead (network_name sample_configured ''main'') (Inr (Some (sample_network StartNode))),
      Mutated (CreateContainer sample_spec) (Inr created_identity), Mutated (StartContainer created_identity) (Inr created_identity),
      ContainerRead created_identity (Inr (Some sample_installed))]"

lemmas sample_configured_runs =
  execute_configuration_node_def run_attempt_def sample_attempt_made configuration_node_def single_product_def
  attempt_now_def mark_def enter_def on_docker_def retain_mounts_def sample_reserved admit_existing_def product_secrets_def
  resolve_secret_deliveries_def image_pull_auth_def admit_image_def start_node_call_def preflight_secret_files_def
  ensure_network_def stage_configuration_def replace_installation_def attempt_container_material_def start_identity_def
  confirm_installation_def no_deliveries_def sample_image_matches sample_resources require_started_def
  require_correlation_def require_node_network_def require_container_authority_def authority_conformance_def
  installation_receipts_def secret_installation_evidence_def incarnation_fields_def incarnation_fingerprint_def
  retained_volumes_def container_environment_def empty_environment mutate_def perform_def sample_spec_def
  attempt_result_def completion_entry_def private_host_def hex_identity

lemma sample_configured_ends:
  "\<exists>r. execute_configuration_node trivial_core creating_runtime sample_configured \<lparr>trace = [], world = False\<rparr>
      = (Inr r, \<lparr>trace = sample_configured_events, world = True\<rparr>) \<and> re_kind r = SUCCEEDED"
  by (simp add: sample_configured_runs Let_def inspect_container_def inspect_image_def
      inspect_network_def eff_defs authority_delivery_material_def sample_configured_events_def)

section \<open>Properties\<close>



text \<open>
  C21: whatever the provider answers, each change of a configuration activity is one \<open>may_configure\<close>
  allows after the events before it: an existing container is removed only by the identity that was
  seen twice, unchanged and owned, in a reconciliation that delivers no authority; a container is
  created only when none was there or the old one was seen gone; it is started only by the identity
  its creation returned, or of the admitted one; and a configuration volume is created or filled
  only for an allocation of the request.
\<close>

theorem configuration_changes_allowed:
  assumes "execute_configuration_node core dr rq s = (r, s')"
    and "trace s' = trace s @ seen @ Mutated mu x # later"
    and "rr_operation rq \<in> {StartNode, ReconcileNode}" and "quiet_resolvers dr"
  shows "may_configure (dr_image_ok dr) rq seen mu"
  using emitsD[OF emits_execute_configuration[OF assms(4,3)] assms(1,2)] by (auto simp: guarded_def)

theorem configuration_changes_allowed_witness:
  "may_configure (\<lambda>_ _ _. True) sample_configured (take 4 sample_configured_events) (StartContainer created_identity)"
proof -
  obtain r where run: "execute_configuration_node trivial_core creating_runtime sample_configured \<lparr>trace = [], world = False\<rparr>
      = (Inr r, \<lparr>trace = sample_configured_events, world = True\<rparr>)"
    using sample_configured_ends by blast
  from configuration_changes_allowed[OF run, of "take 4 sample_configured_events" "StartContainer created_identity" "Inr created_identity"
      "drop 5 sample_configured_events"] creating_quiet
  show ?thesis by (simp add: sample_configured_events_def)
qed



text \<open>
  C23: a cleanup of configuration allocations reports exactly what it did, row by row: a volume is
  removed only when it was seen with the labels of its allocation, local and unused, and it is
  reported as removed only when it was seen gone afterwards; an allocation is absent, refused or in
  use only on the answers that say so; and after an uncertain row nothing more is attempted.
\<close>

theorem cleanup_reports_what_it_did:
  assumes "cleanup_configuration dc result rq s = (Inr r, s')" and "trace s' = trace s @ evs"
  shows "\<exists>rows. rows_explained False (rr_instances rq) rows evs \<and> result rq rows = Inr r"
proof -
  have "delivers (cleanup_configuration dc result rq)
      (\<lambda>r evs. \<exists>rows. rows_explained False (rr_instances rq) rows evs \<and> result rq rows = Inr r)"
    unfolding cleanup_configuration_def
    by (rule delivers_bind[OF delivers_cleanup_rows]) (auto intro!: delivers_lift)
  from deliversD[OF this assms] show ?thesis .
qed

definition sample_cleanup :: runtime_request where
  "sample_cleanup = sample_configured\<lparr>rr_instances := [sample_reference]\<rparr>"

definition sample_cleanup_events :: "docker_event list" where
  "sample_cleanup_events = seen_unused sample_reference sample_allocation
     @ [Mutated (RemoveConfigurationVolume sample_allocation) (Inr created_identity),
        ConfigurationVolumeRead (configuration_volume_name sample_reference) (Inr None)]"

theorem cleanup_reports_what_it_did_witness:
  "rows_explained False [sample_reference]
     [\<lparr>ko_reference = sample_reference, ko_status = CLEANUP_REMOVED, ko_reason = None\<rparr>] sample_cleanup_events"
proof -
  let ?rows = "[\<lparr>ko_reference = sample_reference, ko_status = CLEANUP_REMOVED, ko_reason = None\<rparr>]"
  let ?result = "\<lambda>rq rows. if rows = ?rows then Inr (effect_unsupported rq []) else Inl ContractError"
  have "cleanup_configuration creating_client ?result sample_cleanup \<lparr>trace = [], world = False\<rparr>
      = (Inr (effect_unsupported sample_cleanup []), \<lparr>trace = sample_cleanup_events, world = True\<rparr>)"
    by (simp add: cleanup_configuration_def sample_cleanup_def cleanup_one_def Let_def eff_defs inspect_configuration_volume_def
        configuration_volume_in_use_def perform_def mutate_def sample_allocation_owned sample_cleanup_events_def seen_unused_def)
  from cleanup_reports_what_it_did[OF this, of sample_cleanup_events] show ?thesis
    by (auto simp: sample_cleanup_def split: if_splits)
qed

end
