(* ===== verification/Docker_Health.thy ===== *)
theory Docker_Health
  imports Docker_Observer Docker_Nodes
begin

text \<open>
  Waiting for a healthy node (\<open>docker/runtime.py\<close>): the checks of a product, at the runtime-private
  endpoints of its owned container.  A private HTTP check is a probe of a helper container; the other
  checks are the verification interpreters, embedded with their own events.
\<close>

section \<open>Embedding\<close>

text \<open>What an exception of an interpreter is for the runtime; \<open>name\<close> is the name of its type.\<close>

fun fault_of :: "(probe_exn \<Rightarrow> string) \<Rightarrow> probe_exn \<Rightarrow> dk_exn" where
  "fault_of name (InvocationPortError message) = DkPortError message"
| "fault_of name (PortControl control) = DkControl control"
| "fault_of name Cancelled = DkCancelled"
| "fault_of name (BaseError kind) = DkBase kind"
| "fault_of name (SecretResolutionError code) = DkSecretError code"
| "fault_of name e = ProbeFault e (name e)"

definition embed :: "(probe_exn \<Rightarrow> string) \<Rightarrow> ('w, 'a) probe_eff \<Rightarrow> ('w, 'a) dk_eff" where
  "embed name m s =
     (case m \<lparr>trace = [], world = world s\<rparr> of
        (r, s') \<Rightarrow> (map_sum (fault_of name) id r, \<lparr>trace = trace s @ map Probed (trace s'), world = world s'\<rparr>))"

lemma emits_embed:
  assumes "emits m R"
  shows "emits (embed name m) (\<lambda>evs r. \<exists>ps r0. evs = map Probed ps \<and> R ps r0 \<and> r = map_sum (fault_of name) id r0)"
  unfolding emits_def
proof
  fix s :: "(docker_event, 'a) st"
  let ?s = "\<lparr>trace = [], world = world s\<rparr>"
  from assms obtain ps where ps: "trace (snd (m ?s)) = trace ?s @ ps" "R ps (fst (m ?s))"
    unfolding emits_def by blast
  then show "\<exists>evs. trace (snd (embed name m s)) = trace s @ evs
      \<and> (\<exists>ps r0. evs = map Probed ps \<and> R ps r0 \<and> fst (embed name m s) = map_sum (fault_of name) id r0)"
    by (auto simp: embed_def split: prod.splits intro!: exI[of _ ps] exI[of _ "fst (m ?s)"])
qed

section \<open>Ports\<close>

text \<open>
  The interpreters a runtime is configured with, the descriptors of the core and the value of
  \<open>SecretUseIntent.POSTGRES_PASSWORD\<close>.
\<close>

record ('w, 'res, 'v) health_setting =
  hs_check :: "'w check_setting"
  hs_send :: "probe_request \<Rightarrow> ('w, probe_exn, probe_response) port"
  hs_close :: "('w, probe_exn, unit) port"
  hs_postgres :: "('w, secret_grant, 'res, 'v) postgres_interpreter"
  hs_descriptor :: "completed \<Rightarrow> json"
  hs_fault_name :: "probe_exn \<Rightarrow> string"
  hs_password_intent :: string

text \<open>
  The child port of one check, as the runtime and as the interpreter use it: whether its control
  errors are those of the parent, and its grant when it has the attribute.
\<close>

record ('w, 'p) health_child =
  ch_port :: "('w, dk_exn, 'p) invocation_port"
  ch_probe :: "('w, probe_exn, 'p) invocation_port"
  ch_same_control :: bool
  ch_grant :: "secret_grant option option"

type_synonym ('w, 'p) child_ports = "string \<Rightarrow> dk_exn + ('w, 'p) health_child"

section \<open>Endpoints\<close>

text \<open>The runtime-private endpoints of a product, by their sockets.\<close>

definition require_graph_labels :: "container_inspection \<Rightarrow> labels \<Rightarrow> dk_exn + unit" where
  "require_graph_labels ci ls =
     requireR (list_all (\<lambda>k. label_of (ci_labels ci) k = label_of ls k) [''material-profile'', ''desired-graph''])
       (PreconditionError ''docker.container-ownership-conflict'' ''Docker container is not owned by this runtime effect'')"

definition owned_container_inspection ::
  "'w docker_client \<Rightarrow> runtime_request \<Rightarrow> product_material \<Rightarrow> ('w, container_inspection option) dk_eff" where
  "owned_container_inspection dc rq m =
     bindE (inspect_container dc (container_name rq (pm_node m))) (\<lambda>found.
     bindE (case found of
         None \<Rightarrow> returnE ()
       | Some ci \<Rightarrow>
           bindE (liftE (require_owned (ci_labels ci) (node_labels rq m) ''container'')) (\<lambda>_.
           liftE (require_graph_labels ci (node_labels rq m)))) (\<lambda>_.
     returnE found))"

definition private_endpoint_of :: "endpoint_observation \<Rightarrow> probe_endpoint" where
  "private_endpoint_of eo =
     \<lparr>ep_subject = eo_subject eo, ep_graph = eo_graph eo, ep_socket = eo_socket eo, ep_protocol = eo_protocol eo,
      ep_context = RUNTIME_PRIVATE, ep_address = LiteralEndpoint (eo_address eo)\<rparr>"

definition runtime_private_endpoints ::
  "'w docker_runtime \<Rightarrow> runtime_request \<Rightarrow> product_material \<Rightarrow> ('w, probe_endpoint list) dk_eff" where
  "runtime_private_endpoints dr rq m =
     bindE (owned_container_inspection (dr_client dr) rq m) (\<lambda>found.
     let host = (case found of None \<Rightarrow> pm_node m | Some ci \<Rightarrow> private_host rq m ci)
     in returnE (map private_endpoint_of (private_endpoints (dr_scheme dr) (pm_node m) (rr_graph rq) host (pm_ports m))))"

definition endpoint_of_socket :: "probe_endpoint list \<Rightarrow> string \<Rightarrow> probe_endpoint option" where
  "endpoint_of_socket eps socket = find (\<lambda>ep. ep_socket ep = socket) (rev eps)"

section \<open>HTTP checks\<close>

definition private_policy :: "string \<Rightarrow> probe_exn + address_policy" where
  "private_policy address =
     bindR (requireR (py_strip address \<noteq> []) (OrdinaryError ''TypeError'')) (\<lambda>_.
     Inr \<lparr>ap_private = [address], ap_public_hosts = [], ap_host_local = False, ap_plaintext = False\<rparr>)"

definition private_setting :: "('w, 'res, 'v) health_setting \<Rightarrow> address_policy \<Rightarrow> 'w check_setting" where
  "private_setting hs policy =
     (hs_check hs)\<lparr>cs_probe := (cs_probe (hs_check hs))\<lparr>se_policy := policy, se_secret := None\<rparr>\<rparr>"

text \<open>What a probe of the helper says: its evidence and its outcome.\<close>

definition probe_evidence :: "http_check \<Rightarrow> http_probe \<Rightarrow> evidence option" where
  "probe_evidence hc p =
     (case (hp_category p, hp_status p) of
        (COMPLETED, Some status) \<Rightarrow> Some (HttpEvidence status (nat (hp_size p)) (hc_sha256 hc) (hp_matches p))
      | _ \<Rightarrow> None)"

definition probe_verdict :: "http_check \<Rightarrow> http_probe \<Rightarrow> check_verdict" where
  "probe_verdict hc p =
     (case hp_category p of
        PROBE_TIMED_OUT \<Rightarrow> CHECK_TIMED_OUT
      | RESPONSE_REJECTED \<Rightarrow> REJECTED
      | RESPONSE_OVERSIZED \<Rightarrow> CHECK_MALFORMED
      | UNAVAILABLE_PROBE \<Rightarrow> FAILED
      | COMPLETED \<Rightarrow>
          (case hp_status p of
             None \<Rightarrow> FAILED
           | Some status \<Rightarrow>
               if status \<in> set (hc_statuses hc) \<and> (hc_sha256 hc = None \<or> hp_matches p = Some True) then PASSED else FAILED))"

text \<open>A result with the number of its attempts replaced is checked again.\<close>

definition counted :: "'w check_setting \<Rightarrow> completed \<Rightarrow> nat \<Rightarrow> ('w, completed) probe_eff" where
  "counted se c n =
     (let c' = c\<lparr>co_attempts := n\<rparr> in case cs_refuses se c' of None \<Rightarrow> returnE c' | Some e \<Rightarrow> raiseE e)"

definition health_probe :: "runtime_request \<Rightarrow> product_material \<Rightarrow> check_base \<Rightarrow> http_check \<Rightarrow> string \<Rightarrow> probe_arguments" where
  "health_probe rq m base hc address =
     \<lparr>pb_network = network_name rq (pm_runtime m), pb_url = address @ hc_path hc, pb_timeout = kp_timeout (kb_policy base),
      pb_maximum = int (kp_maximum (kb_policy base)), pb_expected = hc_sha256 hc\<rparr>"

definition probe_once :: "('w, 'res, 'v) health_setting \<Rightarrow> 'w docker_client \<Rightarrow> runtime_request \<Rightarrow> product_material
    \<Rightarrow> check_material \<Rightarrow> check_base \<Rightarrow> http_check \<Rightarrow> string \<Rightarrow> nat \<Rightarrow> ('w, completed) dk_eff" where
  "probe_once hs dc rq m km base hc address n =
     bindE (embed (hs_fault_name hs) (pause (hs_check hs) (kb_policy base) n)) (\<lambda>_.
     bindE (run_http_probe dc (health_probe rq m base hc address)) (\<lambda>p.
     bindE (case probe_evidence hc p of
         None \<Rightarrow> returnE None
       | Some ev \<Rightarrow> bindE (embed (hs_fault_name hs) (make_evidence (hs_check hs) ev)) (\<lambda>ev. returnE (Some ev))) (\<lambda>ev.
     embed (hs_fault_name hs) (check_observation (hs_check hs) km HTTP_CHECK (probe_verdict hc p) n ev))))"

fun probe_attempts :: "('w, 'res, 'v) health_setting \<Rightarrow> 'w docker_client \<Rightarrow> runtime_request \<Rightarrow> product_material
    \<Rightarrow> check_material \<Rightarrow> check_base \<Rightarrow> http_check \<Rightarrow> string \<Rightarrow> nat list \<Rightarrow> completed option \<Rightarrow> ('w, completed) dk_eff" where
  "probe_attempts hs dc rq m km base hc address [] None = raiseE (ProviderFault OtherClass ''AssertionError'')"
| "probe_attempts hs dc rq m km base hc address [] (Some c) =
     embed (hs_fault_name hs) (counted (hs_check hs) c (kp_attempts (kb_policy base)))"
| "probe_attempts hs dc rq m km base hc address (n # ns) last_one =
     bindE (probe_once hs dc rq m km base hc address n) (\<lambda>c.
     if co_outcome c = PASSED then returnE c else probe_attempts hs dc rq m km base hc address ns (Some c))"

definition private_http_check :: "('w, 'res, 'v) health_setting \<Rightarrow> 'w docker_client \<Rightarrow> runtime_request \<Rightarrow> product_material
    \<Rightarrow> check_base \<Rightarrow> http_check \<Rightarrow> probe_endpoint \<Rightarrow> string \<Rightarrow> ('w, check_result) dk_eff" where
  "private_http_check hs dc rq m base hc ep address =
     bindE (embed (hs_fault_name hs) (liftE (make_material (pm_node m) (rr_graph rq) (HttpCheck base hc) ep))) (\<lambda>km.
     bindE (probe_attempts hs dc rq m km base hc address (verification_attempts (kb_policy base)) None) (\<lambda>c.
     returnE (Completed c)))"

text \<open>At another endpoint, one attempt of the interpreter at a time.\<close>

fun interpreted_attempts :: "'w check_setting \<Rightarrow> ('w, 'res, 'v) health_setting \<Rightarrow> runtime_request \<Rightarrow> product_material
    \<Rightarrow> check_base \<Rightarrow> http_check \<Rightarrow> probe_endpoint \<Rightarrow> nat list \<Rightarrow> check_result option \<Rightarrow> ('w, check_result) probe_eff" where
  "interpreted_attempts se hs rq m base hc ep [] None = raiseE (OrdinaryError ''AssertionError'')"
| "interpreted_attempts se hs rq m base hc ep [] (Some (Completed c)) =
     bindE (counted se c (kp_attempts (kb_policy base))) (\<lambda>c. returnE (Completed c))"
| "interpreted_attempts se hs rq m base hc ep [] (Some (Unsupported i k)) = returnE (Unsupported i k)"
| "interpreted_attempts se hs rq m base hc ep (n # ns) last_one =
     (let single = base\<lparr>kb_policy := (kb_policy base)\<lparr>kp_attempts := 1\<rparr>\<rparr>
      in bindE (pause se (kb_policy base) n) (\<lambda>_.
         bindE (liftE (make_material (pm_node m) (rr_graph rq) (HttpCheck single hc) ep)) (\<lambda>km.
         bindE (http_execute se (hs_send hs) (hs_close hs) km) (\<lambda>r. case r of
             Completed c \<Rightarrow>
               if co_outcome c = PASSED then bindE (counted se c n) (\<lambda>c. returnE (Completed c))
               else interpreted_attempts se hs rq m base hc ep ns (Some r)
           | Unsupported _ _ \<Rightarrow> interpreted_attempts se hs rq m base hc ep ns (Some r)))))"

definition http_health_check :: "('w, 'res, 'v) health_setting \<Rightarrow> 'w docker_client \<Rightarrow> runtime_request \<Rightarrow> product_material
    \<Rightarrow> check_base \<Rightarrow> http_check \<Rightarrow> probe_endpoint \<Rightarrow> string \<Rightarrow> ('w, check_result) dk_eff" where
  "http_health_check hs dc rq m base hc ep address =
     (if ep_context ep = RUNTIME_PRIVATE then private_http_check hs dc rq m base hc ep address
      else embed (hs_fault_name hs)
        (bindE (liftE (private_policy address)) (\<lambda>policy.
         interpreted_attempts (private_setting hs policy) hs rq m base hc ep (verification_attempts (kb_policy base)) None)))"

section \<open>Postgres checks\<close>

definition optional_grant :: "'w docker_runtime \<Rightarrow> runtime_request \<Rightarrow> string \<Rightarrow> postgres_authentication option \<Rightarrow> secret_grant option" where
  "optional_grant dr rq intent auth =
     (case auth of
        None \<Rightarrow> None
      | Some pa \<Rightarrow>
          (case secret_resolution_grant_for (dr_secrets dr) (rr_grants rq) (pa_reference pa) intent of
             Inr g \<Rightarrow> Some g | Inl _ \<Rightarrow> None))"

definition postgres_health_check :: "('w, 'res, 'v) health_setting \<Rightarrow> 'w docker_runtime \<Rightarrow> runtime_request \<Rightarrow> product_material
    \<Rightarrow> check_base \<Rightarrow> postgres_authentication option \<Rightarrow> probe_endpoint \<Rightarrow> string \<Rightarrow> ('w, 'p) health_child option
    \<Rightarrow> ('w, check_result) dk_eff" where
  "postgres_health_check hs dr rq m base auth ep address child =
     (let pg = hs_postgres hs;
          grant = (case child of Some ch \<Rightarrow> the (ch_grant ch) | None \<Rightarrow> optional_grant dr rq (hs_password_intent hs) auth)
      in embed (hs_fault_name hs)
        (bindE (liftE (private_policy address)) (\<lambda>policy.
         bindE (liftE (make_material (pm_node m) (rr_graph rq) (PostgresQueryCheck base auth) ep)) (\<lambda>km.
         postgres_execute (private_setting hs policy)
           (pg\<lparr>pg_grant := grant, pg_credential := (if pg_authorized pg = None then pg_credential pg else None)\<rparr>)
           (map_option ch_probe child) km))))"

section \<open>Waiting\<close>

definition checked_child :: "('w, 'p) child_ports option \<Rightarrow> string \<Rightarrow> dk_exn + ('w, 'p) health_child option" where
  "checked_child ports check_id =
     (case ports of
        None \<Rightarrow> Inr None
      | Some for_check \<Rightarrow>
          bindR (for_check check_id) (\<lambda>ch.
          bindR (control_errors docker_vocabulary (Some (ch_port ch)) True) (\<lambda>_.
          bindR (requireR (ch_same_control ch \<and> ch_grant ch \<noteq> None)
            (DkPortError ''ordinary verification child port is invalid'')) (\<lambda>_.
          Inr (Some ch)))))"

definition run_check :: "('w, 'res, 'v) health_setting \<Rightarrow> 'w docker_runtime \<Rightarrow> runtime_request \<Rightarrow> product_material
    \<Rightarrow> check \<Rightarrow> probe_endpoint \<Rightarrow> string \<Rightarrow> ('w, 'p) health_child option \<Rightarrow> ('w, check_result) dk_eff" where
  "run_check hs dr rq m c ep address child =
     (case c of
        HttpCheck base hc \<Rightarrow>
          invoke docker_vocabulary (map_option ch_port child) ''ordinary-verification-check''
            (http_health_check hs (dr_client dr) rq m base hc ep address) None
      | PostgresQueryCheck base auth \<Rightarrow> postgres_health_check hs dr rq m base auth ep address child
      | RedisCheck base \<Rightarrow> raiseE (ProviderFault OtherClass ''UnboundLocalError''))"

text \<open>What the checks so far have shown: the descriptors of the others, and the results of the HTTP ones.\<close>

record health_progress =
  hg_completed :: "json list"
  hg_observed :: "runtime_observation list"

definition progressed :: "('w, 'res, 'v) health_setting \<Rightarrow> check \<Rightarrow> completed \<Rightarrow> health_progress \<Rightarrow> health_progress" where
  "progressed hs c r hg =
     (case c of
        HttpCheck _ _ \<Rightarrow> hg\<lparr>hg_observed := hg_observed hg @ [CheckSeen r]\<rparr>
      | _ \<Rightarrow> hg\<lparr>hg_completed := hg_completed hg @ [hs_descriptor hs r]\<rparr>)"

definition checks_entry :: "json list \<Rightarrow> (string \<times> json) list" where
  "checks_entry completed = (if completed = [] then [] else [(''checks'', JList completed)])"

definition health_failed :: "runtime_request \<Rightarrow> health_progress \<Rightarrow> runtime_observation runtime_result" where
  "health_failed rq hg =
     \<lparr>re_effect = rr_effect rq, re_kind = FAILED_EFFECT, re_evidence = [],
      re_failure = Some \<lparr>ef_code = ''docker.health-check-failed'', ef_message = ''health verification did not pass'',
        ef_details = checks_entry (hg_completed hg)\<rparr>,
      re_observations = hg_observed hg\<rparr>"

definition verified_healthy :: "runtime_request \<Rightarrow> product_material \<Rightarrow> health_progress \<Rightarrow> runtime_observation runtime_result" where
  "verified_healthy rq m hg =
     \<lparr>re_effect = rr_effect rq, re_kind = SUCCEEDED,
      re_evidence = [(''action'', JStr ''verified-healthy''), (''node_id'', JStr (pm_node m))] @ checks_entry (hg_completed hg),
      re_failure = None, re_observations = hg_observed hg\<rparr>"

fun is_supported_check :: "check \<Rightarrow> bool" where
  "is_supported_check (RedisCheck _) = False"
| "is_supported_check _ = True"

fun over_checks :: "('w, 'res, 'v) health_setting \<Rightarrow> 'w docker_runtime \<Rightarrow> runtime_request \<Rightarrow> product_material
    \<Rightarrow> ('w, 'p) child_ports option \<Rightarrow> probe_endpoint list \<Rightarrow> check list \<Rightarrow> health_progress
    \<Rightarrow> ('w, runtime_observation runtime_result) dk_eff" where
  "over_checks hs dr rq m ports eps [] hg = returnE (verified_healthy rq m hg)"
| "over_checks hs dr rq m ports eps (c # cs) hg =
     (case endpoint_of_socket eps (kb_socket (check_base_of c)) of
        None \<Rightarrow> returnE (effect_failed rq ''docker.health-endpoint-missing'' ''health check provider socket has no runtime endpoint'')
      | Some ep \<Rightarrow>
          (case ep_address ep of
             SecretEndpoint _ \<Rightarrow>
               returnE (effect_failed rq ''docker.health-endpoint-unresolved'' ''health endpoint is not literal runtime material'')
           | LiteralEndpoint address \<Rightarrow>
               if \<not> is_supported_check c then returnE (effect_unsupported rq ''docker.health-check-unsupported'')
               else bindE (liftE (checked_child ports (kb_id (check_base_of c)))) (\<lambda>child.
                    bindE (run_check hs dr rq m c ep address child) (\<lambda>r. case r of
                        Unsupported _ _ \<Rightarrow> returnE (effect_unsupported rq ''docker.health-check-unsupported'')
                      | Completed result \<Rightarrow>
                          if co_outcome result \<noteq> PASSED then returnE (health_failed rq (progressed hs c result hg))
                          else over_checks hs dr rq m ports eps cs (progressed hs c result hg)))))"

definition no_contract :: "runtime_request \<Rightarrow> product_material \<Rightarrow> runtime_observation runtime_result" where
  "no_contract rq m = effect_succeeded rq [(''action'', ''no-verification-contract''), (''node_id'', pm_node m)] []"

definition wait_for_healthy :: "('w, 'res, 'v) health_setting \<Rightarrow> 'w docker_runtime \<Rightarrow> runtime_request
    \<Rightarrow> probe_endpoint list option \<Rightarrow> ('w, 'p) child_ports option \<Rightarrow> ('w, runtime_observation runtime_result) dk_eff" where
  "wait_for_healthy hs dr rq endpoints ports =
     bindE (liftE (single_product rq)) (\<lambda>m.
     if pm_checks m = [] then returnE (no_contract rq m)
     else bindE (case endpoints of Some eps \<Rightarrow> returnE eps | None \<Rightarrow> runtime_private_endpoints dr rq m) (\<lambda>eps.
          over_checks hs dr rq m ports eps (pm_checks m) \<lparr>hg_completed = [], hg_observed = []\<rparr>))"

end
