(* ===== verification/Docker_Session.thy ===== *)
theory Docker_Session
  imports Docker_Health Docker_Configured
begin

text \<open>
  Executions of \<open>DockerRuntimeInterpreter\<close> (\<open>docker/runtime.py\<close>) as a whole: the operations that are
  passed on by a dispatch, and an execution with the authority of a runtime, on a connection that is
  made for it and closed after it.
\<close>

section \<open>The interpreter\<close>

text \<open>
  \<open>di_client\<close> is \<open>None\<close> for an interpreter with a local policy.  \<open>di_connect\<close> is
  \<open>DockerSdkClient.from_authority\<close>, \<open>di_intents\<close> the three uses of a TLS connection, \<open>di_cleanup\<close> the
  core's \<open>configuration_cleanup_result\<close>.
\<close>

record ('w, 'res, 'v) docker_interpreter =
  di_runtime :: "'w docker_runtime"
  di_client :: "'w docker_client option"
  di_connect :: "client_target \<Rightarrow> ('w, dk_exn, 'w docker_client) port"
  di_intents :: "string list"
  di_core :: configuration_core
  di_cleanup :: "runtime_request \<Rightarrow> configuration_cleanup_outcome list \<Rightarrow> dk_exn + runtime_observation runtime_result"
  di_health :: "('w, 'res, 'v) health_setting"

definition is_configuration :: "runtime_request \<Rightarrow> bool" where
  "is_configuration rq \<longleftrightarrow> rr_kind rq = CONFIGURATION_ACTIVITY_V1 \<or> has_selected_secrets rq"

definition run_other ::
  "('w, 'res, 'v) docker_interpreter \<Rightarrow> 'w docker_runtime \<Rightarrow> runtime_request \<Rightarrow> ('w, runtime_observation runtime_result) dk_eff" where
  "run_other di dr rq =
     (if rr_operation rq = CleanupConfigurationInstances then cleanup_configuration (dr_client dr) (di_cleanup di) rq
      else if is_configuration rq then execute_configuration_node (di_core di) dr rq
      else wait_for_healthy (di_health di) dr rq None (None :: ('w, unit) child_ports option))"

definition at_client :: "'w docker_runtime \<Rightarrow> 'w docker_client \<Rightarrow> 'w docker_runtime" where
  "at_client dr dc = dr\<lparr>dr_client := dc\<rparr>"

text \<open>\<open>execute\<close> of the interpreter whose client is \<open>dc\<close>, or that has a local policy.\<close>

definition execute_at ::
  "('w, 'res, 'v) docker_interpreter \<Rightarrow> 'w docker_runtime \<Rightarrow> 'w docker_client option \<Rightarrow> runtime_request
    \<Rightarrow> ('w, runtime_observation runtime_result) dk_eff" where
  "execute_at di dr client rq =
     (case client of
        None \<Rightarrow> execute dr (run_other di dr) True rq
      | Some dc \<Rightarrow> execute (at_client dr dc) (run_other di (at_client dr dc)) False rq)"

definition execute_request :: "('w, 'res, 'v) docker_interpreter \<Rightarrow> runtime_request \<Rightarrow> ('w, runtime_observation runtime_result) dk_eff" where
  "execute_request di rq = execute_at di (di_runtime di) (di_client di) rq"

section \<open>Runtime authorities\<close>

definition is_secret_fault :: "dk_exn \<Rightarrow> bool" where
  "is_secret_fault e = (case e of DkSecretError _ \<Rightarrow> True | _ \<Rightarrow> False)"

definition authority_secret_fault :: "'w docker_runtime \<Rightarrow> dk_exn \<Rightarrow> dk_exn" where
  "authority_secret_fault dr e =
     PreconditionError (''docker.runtime-authority-secret-'' @ (case e of DkSecretError code \<Rightarrow> dr_code_value dr code | _ \<Rightarrow> ''malformed''))
       ''remote Docker authority secret could not be resolved''"

definition authority_secret ::
  "'w docker_runtime \<Rightarrow> runtime_request \<Rightarrow> string option \<Rightarrow> string \<Rightarrow> ('w, string) dk_eff" where
  "authority_secret dr rq reference intent =
     (let ss = dr_secrets dr
      in case reference of
          None \<Rightarrow> raiseE (PreconditionError ''docker.runtime-authority-secret-reference-malformed''
                     ''remote Docker authority secret reference is malformed'')
        | Some ref \<Rightarrow>
            catchE (\<lambda>e. is_secret_fault e \<and> \<not> dr_control dr e)
              (case ss_grant ss of
                 Some resolve \<Rightarrow> granted_value ss resolve (rr_grants rq) ref intent
               | None \<Rightarrow>
                   (case ss_reference ss of
                      None \<Rightarrow> raiseE (ProviderFault OtherClass ''AssertionError'')
                    | Some legacy \<Rightarrow> bindE (legacy ref) (\<lambda>result. liftE (ss_read_reference ss ref result))))
              (\<lambda>e. raiseE (authority_secret_fault dr e)))"

fun authority_secrets ::
  "'w docker_runtime \<Rightarrow> runtime_request \<Rightarrow> (string option \<times> string) list \<Rightarrow> ('w, string list) dk_eff" where
  "authority_secrets dr rq [] = returnE []"
| "authority_secrets dr rq ((reference, intent) # uses) =
     bindE (authority_secret dr rq reference intent) (\<lambda>v.
     bindE (authority_secrets dr rq uses) (\<lambda>vs. returnE (v # vs)))"

definition authority_kind_unsupported :: dk_exn where
  "authority_kind_unsupported = UnsupportedAuthority ''docker.runtime-authority-kind-unsupported''"

text \<open>The connection material of a remote authority; nothing is connected yet.\<close>

definition remote_authority :: "'w docker_runtime \<Rightarrow> string list \<Rightarrow> authority_fact \<Rightarrow> runtime_request \<Rightarrow> ('w, client_target) dk_eff" where
  "remote_authority dr intents au rq =
     (if rr_deliveries rq \<noteq> [] then raiseE (UnsupportedAuthority ''docker.runtime-authority-delivery-unsupported'')
      else case au_endpoint au of
          None \<Rightarrow> raiseE (PreconditionError ''docker.runtime-authority-malformed'' ''remote Docker authority endpoint is malformed'')
        | Some endpoint \<Rightarrow>
            if \<not> py_startswith endpoint ''tcp://''
            then raiseE (PreconditionError ''docker.runtime-authority-malformed'' ''remote Docker authority endpoint is malformed'')
            else if ss_grant (dr_secrets dr) = None \<and> ss_reference (dr_secrets dr) = None
            then raiseE (PreconditionError ''docker.runtime-authority-secret-resolver-required''
                   ''remote Docker authority requires a configured secret resolver'')
            else bindE (authority_secrets dr rq (zip (au_references au) intents)) (\<lambda>secrets. case secrets of
                [ca, certificate, key] \<Rightarrow> returnE (TlsTarget endpoint ca certificate key)
              | _ \<Rightarrow> raiseE (ProviderFault MaterialClass ''TypeError'')))"

definition prepare_authority ::
  "'v docker_runtime \<Rightarrow> 'w docker_client option \<Rightarrow> string list \<Rightarrow> authority_fact \<Rightarrow> runtime_request \<Rightarrow> ('v, 'w acquisition) dk_eff" where
  "prepare_authority dr client intents au rq =
     (if au_runtime au \<noteq> ''docker'' then raiseE (UnsupportedAuthority ''docker.runtime-authority-runtime-unsupported'')
      else case client of
          None \<Rightarrow> if au_kind au \<noteq> ''local-docker-socket'' then raiseE authority_kind_unsupported else returnE (Connect UnixTarget)
        | Some dc \<Rightarrow>
            if au_kind au = ''local-docker-socket'' then returnE (UseClient dc)
            else if au_kind au \<noteq> ''remote-docker-tls'' then raiseE authority_kind_unsupported
            else bindE (remote_authority dr intents au rq) (\<lambda>target. returnE (Connect target)))"

text \<open>A client, and whether it is closed after the execution.\<close>

definition bind_authority ::
  "(client_target \<Rightarrow> ('w, dk_exn, 'w docker_client) port) \<Rightarrow> 'w acquisition \<Rightarrow> ('w, 'w docker_client \<times> bool) dk_eff" where
  "bind_authority connect a =
     (case a of
        UseClient dc \<Rightarrow> returnE (dc, False)
      | Connect target \<Rightarrow>
          bindE (callE (\<lambda>r. ClientOpened target (case r of Inl e \<Rightarrow> Some e | Inr _ \<Rightarrow> None)) (connect target))
            (\<lambda>dc. returnE (dc, True)))"

section \<open>Bound executions\<close>

definition receipts :: "string list" where
  "receipts = [''configuration_invocation_completion'', ''configuration_installation_receipt'', ''secret_resolution_receipt'',
     ''secret_installation_receipt'']"

definition put_entry :: "string \<Rightarrow> json \<Rightarrow> (string \<times> json) list \<Rightarrow> (string \<times> json) list" where
  "put_entry k v es = (if k \<in> set (map fst es) then map (\<lambda>e. if fst e = k then (k, v) else e) es else es @ [(k, v)])"

definition close_failure :: effect_failure where
  "close_failure = \<lparr>ef_code = ''docker.runtime-authority-client-close-uncertain'',
     ef_message = ''Docker runtime authority client cleanup failed'', ef_details = []\<rparr>"

text \<open>The evidence without its receipts, and with an attempt that says that its client was not closed.\<close>

definition unreceipted :: "(string \<times> json) list \<Rightarrow> dk_exn + (string \<times> json) list" where
  "unreceipted es =
     (let kept = filter (\<lambda>e. fst e \<notin> set receipts) es
      in case map_of kept ''secret_attempt'' of
          None \<Rightarrow> Inr kept
        | Some (JObj entries) \<Rightarrow>
            Inr (put_entry ''secret_attempt'' (JObj (put_entry ''authority_close_unknown'' (JBool True) entries)) kept)
        | Some _ \<Rightarrow> Inl (ProviderFault MaterialClass ''TypeError''))"

definition close_uncertain ::
  "runtime_request \<Rightarrow> runtime_observation runtime_result \<Rightarrow> dk_exn + runtime_observation runtime_result" where
  "close_uncertain rq res =
     (if is_configuration rq
      then bindR (unreceipted (re_evidence res)) (\<lambda>evidence.
           Inr (res\<lparr>re_kind := UNCERTAIN_EFFECT, re_evidence := evidence, re_observations := [], re_failure := Some close_failure\<rparr>))
      else Inr (effect_ended rq UNCERTAIN_EFFECT close_failure))"

text \<open>
  What is left of an execution and of the closing of its client.  An interruption of the closing
  passes; an exception of the closing is dropped when the execution raised one itself.
\<close>

definition bound_result ::
  "runtime_request \<Rightarrow> dk_exn + runtime_observation runtime_result \<Rightarrow> dk_exn + unit
    \<Rightarrow> dk_exn + runtime_observation runtime_result" where
  "bound_result rq result closing =
     (case closing of
        Inl e' \<Rightarrow>
          if \<not> dk_is_exception e' then Inl e'
          else (case result of Inl e \<Rightarrow> Inl e | Inr res \<Rightarrow> close_uncertain rq res)
      | Inr _ \<Rightarrow> result)"

definition execute_bound ::
  "('w, 'res, 'v) docker_interpreter \<Rightarrow> 'w docker_runtime \<Rightarrow> runtime_request \<Rightarrow> 'w docker_client \<times> bool
    \<Rightarrow> ('w, runtime_observation runtime_result) dk_eff" where
  "execute_bound di dr rq binding =
     (case binding of (dc, owned) \<Rightarrow>
        if \<not> owned then execute_at di dr (Some dc) rq
        else bindE (captured (execute_at di dr (Some dc) rq)) (\<lambda>result.
             bindE (captured (close_client dc)) (\<lambda>closed. liftE (bound_result rq result closed))))"

section \<open>Executions with an authority\<close>

definition authority_uncertain :: "runtime_request \<Rightarrow> string \<Rightarrow> runtime_observation runtime_result" where
  "authority_uncertain rq message =
     effect_ended rq UNCERTAIN_EFFECT \<lparr>ef_code = ''docker.runtime-authority-uncertain'', ef_message = message, ef_details = []\<rparr>"

text \<open>The handlers around a preparation; \<open>message\<close> is what they say of any other exception.\<close>

definition preparation_failure :: "runtime_request \<Rightarrow> (dk_exn \<Rightarrow> string) \<Rightarrow> dk_exn \<Rightarrow> runtime_observation runtime_result" where
  "preparation_failure rq message e =
     (case e of
        ContractError \<Rightarrow> effect_failed rq ''docker.runtime-request-invalid'' ''Docker runtime request is invalid''
      | UnsupportedAuthority code \<Rightarrow> effect_unsupported rq code
      | PreconditionError code text \<Rightarrow> effect_failed rq code text
      | _ \<Rightarrow> authority_uncertain rq (message e))"

definition cleanup_refused :: "authority_fact \<Rightarrow> runtime_request \<Rightarrow> bool" where
  "cleanup_refused au rq \<longleftrightarrow>
     rr_operation rq = CleanupConfigurationInstances \<and> (au_runtime au \<noteq> ''docker'' \<or> au_kind au \<noteq> ''local-docker-socket'')"

definition effect_kind_error :: "runtime_request \<Rightarrow> runtime_observation runtime_result option" where
  "effect_kind_error rq =
     (if rr_kind rq \<notin> {REALIZE_ACTIVITY, CONFIGURATION_ACTIVITY_V1}
      then Some (effect_unsupported rq ''docker.unsupported-effect-kind'')
      else if \<not> rr_docker rq then Some (effect_unsupported rq ''docker.unsupported-runtime-kind'')
      else None)"

definition bind_runtime_authority ::
  "('w, 'res, 'v) docker_interpreter \<Rightarrow> authority_fact \<Rightarrow> runtime_request
    \<Rightarrow> ('w, runtime_observation runtime_result + ('w docker_client \<times> bool)) dk_eff" where
  "bind_runtime_authority di au rq =
     (let dr = di_runtime di
      in bindE (case dr_request_ok dr rq of None \<Rightarrow> returnE () | Some e \<Rightarrow> raiseE e) (\<lambda>_.
         bindE (liftE (admit_selected_secrets dr rq)) (\<lambda>_.
         if cleanup_refused au rq then bindE (liftE (refused_cleanup_authority (di_cleanup di) rq)) (\<lambda>res. returnE (Inl res))
         else bindE (prepare_authority dr (di_client di) (di_intents di) au rq) (\<lambda>a.
              bindE (bind_authority (di_connect di) a) (\<lambda>binding. returnE (Inr binding))))))"

definition execute_with_authority ::
  "('w, 'res, 'v) docker_interpreter \<Rightarrow> authority_fact \<Rightarrow> runtime_request \<Rightarrow> ('w, runtime_observation runtime_result) dk_eff" where
  "execute_with_authority di au rq =
     (let dr = di_runtime di
      in if dr_port_missing dr then raiseE (DkPortError ''semantic invocation port is required'')
         else case effect_kind_error rq of
             Some res \<Rightarrow> returnE res
           | None \<Rightarrow>
               attemptE (bind_runtime_authority di au rq)
                 (\<lambda>e. if dr_control dr e \<or> \<not> dk_is_exception e then raiseE e
                       else returnE (preparation_failure rq bounded_error_message e))
                 (\<lambda>prepared. case prepared of
                     Inl res \<Rightarrow> returnE res
                   | Inr binding \<Rightarrow> execute_bound di dr rq binding))"

end
