(* ===== verification/Docker_Invoked.thy ===== *)
theory Docker_Invoked
  imports Docker_Session Computations
begin

text \<open>
  Executions under an invocation port (\<open>DockerRuntimeInterpreter._execute_invoked\<close> and
  \<open>_execute_ordinary_invoked\<close> of \<open>docker/runtime.py\<close>): every secret is resolved, under its own
  admission, before the dispatch is admitted; a dispatch has only the secrets that were prepared for it.
  A wait for a healthy node acquires its client under one admission and checks under the others.
\<close>

section \<open>Lifted ports\<close>

definition lift_client :: "'w docker_client \<Rightarrow> ('w \<times> 'c) docker_client" where
  "lift_client dc =
     \<lparr>dc_container = lift_port \<circ> dc_container dc, dc_network = lift_port \<circ> dc_network dc, dc_image = lift_port \<circ> dc_image dc,
      dc_volume = lift_port \<circ> dc_volume dc, dc_artifact_digest = lift_port \<circ> dc_artifact_digest dc,
      dc_secret_file = lift_port \<circ> dc_secret_file dc, dc_local_socket = lift_port \<circ> dc_local_socket dc,
      dc_facts = lift_port (dc_facts dc), dc_config_volume = lift_port \<circ> dc_config_volume dc,
      dc_volume_used = lift_port \<circ> dc_volume_used dc, dc_config_file = lift_port \<circ> dc_config_file dc,
      dc_config_mount = (\<lambda>ident a v. lift_port (dc_config_mount dc ident a v)), dc_recipient = lift_port \<circ> dc_recipient dc,
      dc_probe = lift_port \<circ> dc_probe dc, dc_mutate = lift_port \<circ> dc_mutate dc, dc_close = lift_port (dc_close dc)\<rparr>"

definition lift_invocation_port :: "('w, 'e, 'p) invocation_port \<Rightarrow> ('w \<times> 'c, 'e, 'p) invocation_port" where
  "lift_invocation_port p =
     \<lparr>ip_control_error = ip_control_error p,
      ip_admit = map_option (\<lambda>f kind authorization. lift_port (f kind authorization)) (ip_admit p),
      ip_record_outcome = map_option (\<lambda>f permit result. lift_port (f permit result)) (ip_record_outcome p),
      ip_record_result = map_option (\<lambda>f permit kind v. lift_port (f permit kind v)) (ip_record_result p)\<rparr>"

section \<open>Preparation\<close>

text \<open>The secrets while they are prepared, and the runtime of a preparation; it has no legacy resolver.\<close>

definition prepared_grant ::
  "('w, dk_exn, 'p) invocation_port \<Rightarrow> (secret_grant \<Rightarrow> ('w, secret_result) dk_eff) \<Rightarrow> secret_grant
    \<Rightarrow> secret_cache \<Rightarrow> ('w, secret_result \<times> secret_cache) dk_eff" where
  "prepared_grant port resolve g cache =
     prepared_resolve docker_vocabulary (Some port) (\<lambda>_. True) grant_authorization resolve cache g"

definition preparing_secrets ::
  "('w, dk_exn, 'p) invocation_port \<Rightarrow> 'w secret_ports \<Rightarrow> ('w \<times> secret_cache) secret_ports" where
  "preparing_secrets port ss =
     \<lparr>ss_grant = map_option (\<lambda>resolve g. with_local (prepared_grant port resolve g)) (ss_grant ss), ss_reference = None,
      ss_permits = ss_permits ss, ss_read_grant = ss_read_grant ss, ss_read_reference = ss_read_reference ss\<rparr>"

definition preparing_runtime ::
  "('w, dk_exn, 'p) invocation_port \<Rightarrow> (dk_exn \<Rightarrow> bool) list \<Rightarrow> 'w docker_runtime \<Rightarrow> ('w \<times> secret_cache) docker_runtime" where
  "preparing_runtime port controls dr =
     \<lparr>dr_client = lift_client (dr_client dr), dr_socket_group = lift_port (dr_socket_group dr),
      dr_secrets = preparing_secrets port (dr_secrets dr), dr_pull = None, dr_control = is_control controls, dr_port_missing = False,
      dr_scheme = dr_scheme dr, dr_image_ok = dr_image_ok dr, dr_loads = dr_loads dr, dr_code_value = dr_code_value dr,
      dr_pull_intent = dr_pull_intent dr, dr_request_ok = dr_request_ok dr\<rparr>"

text \<open>The secrets of a dispatch: a grant that was not prepared is refused.\<close>

definition sealed_secrets :: "('w, dk_exn, 'p) invocation_port \<Rightarrow> secret_cache \<Rightarrow> 'w secret_ports \<Rightarrow> 'w secret_ports" where
  "sealed_secrets port cache ss =
     ss\<lparr>ss_grant := map_option (\<lambda>resolve g. bindE (prepared_grant port resolve g (seal cache)) (\<lambda>(r, _). returnE r)) (ss_grant ss),
        ss_reference := None\<rparr>"

definition sealed_runtime ::
  "('w, dk_exn, 'p) invocation_port \<Rightarrow> (dk_exn \<Rightarrow> bool) list \<Rightarrow> secret_cache \<Rightarrow> 'w docker_runtime \<Rightarrow> 'w docker_runtime" where
  "sealed_runtime port controls cache dr =
     dr\<lparr>dr_secrets := sealed_secrets port cache (dr_secrets dr), dr_pull := None, dr_control := is_control controls,
        dr_port_missing := False\<rparr>"

definition configuration_unsupported :: "runtime_request \<Rightarrow> bool" where
  "configuration_unsupported rq \<longleftrightarrow>
     rr_kind rq = CONFIGURATION_ACTIVITY_V1 \<and> rr_operation rq \<notin> {StartNode, ReconcileNode, CleanupConfigurationInstances}"

definition prepare_acquisition ::
  "('w, 'res, 'v) docker_interpreter \<Rightarrow> ('w \<times> secret_cache) docker_runtime \<Rightarrow> authority_fact option \<Rightarrow> runtime_request
    \<Rightarrow> ('w \<times> secret_cache, runtime_observation runtime_result + 'w acquisition) dk_eff" where
  "prepare_acquisition di dr authority rq =
     (case authority of
        Some au \<Rightarrow>
          if cleanup_refused au rq then bindE (liftE (refused_cleanup_authority (di_cleanup di) rq)) (\<lambda>res. returnE (Inl res))
          else bindE (prepare_authority dr (di_client di) (di_intents di) au rq) (\<lambda>a. returnE (Inr a))
      | None \<Rightarrow>
          (case di_client di of
             None \<Rightarrow> returnE (Inl (effect_unsupported rq ''docker.runtime-authority-required''))
           | Some dc \<Rightarrow> returnE (Inr (UseClient dc))))"

definition prepare_material :: "'w docker_runtime \<Rightarrow> runtime_request \<Rightarrow> ('w, unit) dk_eff" where
  "prepare_material dr rq =
     (if rr_operation rq \<in> {StartNode, ReconcileNode}
      then bindE (liftE (single_product rq)) (\<lambda>m.
           bindE (product_secrets dr rq m) (\<lambda>_.
           bindE (image_pull_auth dr rq m) (\<lambda>_. returnE ())))
      else returnE ())"

definition prepare_invoked ::
  "('w, 'res, 'v) docker_interpreter \<Rightarrow> ('w \<times> secret_cache) docker_runtime \<Rightarrow> authority_fact option \<Rightarrow> runtime_request
    \<Rightarrow> ('w \<times> secret_cache, runtime_observation runtime_result + 'w acquisition) dk_eff" where
  "prepare_invoked di dr authority rq =
     bindE (case dr_request_ok dr rq of None \<Rightarrow> returnE () | Some e \<Rightarrow> raiseE e) (\<lambda>_.
     bindE (liftE (admit_selected_secrets dr rq)) (\<lambda>_.
     if configuration_unsupported rq then returnE (Inl (effect_unsupported rq ''docker.unsupported-activity-operation''))
     else bindE (prepare_acquisition di dr authority rq) (\<lambda>prepared. case prepared of
         Inl res \<Rightarrow> returnE (Inl res)
       | Inr a \<Rightarrow> bindE (prepare_material dr rq) (\<lambda>_. returnE (Inr a)))))"

section \<open>Dispatch\<close>

definition dispatch_prepared ::
  "('w, 'res, 'v) docker_interpreter \<Rightarrow> 'w docker_runtime \<Rightarrow> (dk_exn \<Rightarrow> bool) list \<Rightarrow> 'w acquisition \<Rightarrow> runtime_request
    \<Rightarrow> ('w, runtime_observation runtime_result) dk_eff" where
  "dispatch_prepared di dr controls a rq =
     attemptE (bind_authority (di_connect di) a)
       (\<lambda>e. if is_control controls e \<or> \<not> dk_is_exception e then raiseE e
             else returnE (authority_uncertain rq (bounded_error_message e)))
       (execute_bound di dr rq)"

section \<open>Ordinary verification\<close>

text \<open>The interpreter of a bound verification has no legacy resolver and no pull credentials.\<close>

definition without_legacy :: "'w docker_runtime \<Rightarrow> 'w docker_runtime" where
  "without_legacy dr = dr\<lparr>dr_secrets := (dr_secrets dr)\<lparr>ss_reference := None\<rparr>, dr_pull := None\<rparr>"

definition health_without_legacy :: "('w, 'res, 'v) health_setting \<Rightarrow> ('w, 'res, 'v) health_setting" where
  "health_without_legacy hs = hs\<lparr>hs_postgres := (hs_postgres hs)\<lparr>pg_credential := None\<rparr>\<rparr>"

definition bound_endpoints :: "'w docker_runtime \<Rightarrow> 'w docker_client \<Rightarrow> runtime_request \<Rightarrow> ('w, probe_endpoint list) dk_eff" where
  "bound_endpoints dr dc rq =
     bindE (liftE (single_product rq)) (\<lambda>m.
     if pm_checks m \<noteq> [] then runtime_private_endpoints (at_client (without_legacy dr) dc) rq m else returnE [])"

text \<open>The binding is kept as soon as it is acquired, before anything of it can fail.\<close>

definition acquire_ordinary ::
  "('w, 'res, 'v) docker_interpreter \<Rightarrow> 'w acquisition \<Rightarrow> runtime_request
    \<Rightarrow> ('w \<times> ('w docker_client \<times> bool) option, probe_endpoint list) dk_eff" where
  "acquire_ordinary di a rq =
     bindE (with_local (\<lambda>_. bindE (bind_authority (di_connect di) a) (\<lambda>b. returnE (b, Some b)))) (\<lambda>(dc, owned).
     hoist (bound_endpoints (di_runtime di) dc rq))"

definition close_binding :: "('w docker_client \<times> bool) option \<Rightarrow> ('w, dk_exn + unit) dk_eff" where
  "close_binding binding =
     (case binding of Some (dc, True) \<Rightarrow> captured (close_client dc) | _ \<Rightarrow> returnE (Inr ()))"

definition ordinary_result ::
  "runtime_request \<Rightarrow> (dk_exn \<Rightarrow> bool) list \<Rightarrow> dk_exn + runtime_observation runtime_result \<Rightarrow> dk_exn + unit
    \<Rightarrow> dk_exn + runtime_observation runtime_result" where
  "ordinary_result rq controls result closing =
     (let passes = (\<lambda>e. is_control controls e \<or> \<not> dk_is_exception e)
      in case result of
          Inl e \<Rightarrow>
            if passes e then Inl e
            else Inr (effect_ended rq UNCERTAIN_EFFECT
                   \<lparr>ef_code = ''docker.effect-uncertain'', ef_message = bounded_error_message e, ef_details = []\<rparr>)
        | Inr res \<Rightarrow>
            (case closing of
               Inl e \<Rightarrow> if passes e then Inl e else Inr (effect_ended rq UNCERTAIN_EFFECT close_failure)
             | Inr _ \<Rightarrow> Inr res))"

definition bound_wait ::
  "('w, 'res, 'v) docker_interpreter \<Rightarrow> ('w, 'p) child_ports \<Rightarrow> runtime_request \<Rightarrow> ('w docker_client \<times> bool) option
    \<Rightarrow> dk_exn + probe_endpoint list \<Rightarrow> ('w, runtime_observation runtime_result) dk_eff" where
  "bound_wait di for_check rq binding acquired =
     (case (acquired, binding) of
        (Inl e, _) \<Rightarrow> raiseE e
      | (Inr eps, Some (dc, owned)) \<Rightarrow>
          wait_for_healthy (health_without_legacy (di_health di)) (at_client (without_legacy (di_runtime di)) dc) rq (Some eps)
            (Some for_check)
      | (Inr eps, None) \<Rightarrow> raiseE (ProviderFault OtherClass ''AttributeError''))"

definition execute_ordinary_invoked ::
  "('w, 'res, 'v) docker_interpreter \<Rightarrow> ('w, dk_exn, 'p) invocation_port \<Rightarrow> (dk_exn \<Rightarrow> bool) list \<Rightarrow> ('w, 'p) child_ports
    \<Rightarrow> 'w acquisition \<Rightarrow> runtime_request \<Rightarrow> ('w, runtime_observation runtime_result) dk_eff" where
  "execute_ordinary_invoked di port controls for_check a rq =
     bindE (run_local None (invoke docker_vocabulary (Some (lift_invocation_port port)) ''ordinary-verification-acquisition''
              (acquire_ordinary di a rq) None)) (\<lambda>(acquired, binding).
     bindE (captured (bound_wait di for_check rq binding acquired)) (\<lambda>result.
     bindE (close_binding binding) (\<lambda>closing.
     liftE (ordinary_result rq controls result closing))))"

section \<open>Invoked executions\<close>

text \<open>\<open>authority\<close> is \<open>None\<close> for \<open>execute\<close>, \<open>for_check\<close> the attribute of the port that an ordinary verification needs.\<close>

definition execute_invoked ::
  "('w, 'res, 'v) docker_interpreter \<Rightarrow> ('w, dk_exn, 'p) invocation_port \<Rightarrow> ('w, 'p) child_ports option \<Rightarrow> authority_fact option
    \<Rightarrow> runtime_request \<Rightarrow> ('w, runtime_observation runtime_result) dk_eff" where
  "execute_invoked di port for_check authority rq =
     bindE (liftE (control_errors docker_vocabulary (Some port) False)) (\<lambda>controls.
     case effect_kind_error rq of
       Some res \<Rightarrow> returnE res
     | None \<Rightarrow>
         if rr_operation rq = WaitForHealthy \<and> for_check = None
         then raiseE (DkPortError ''ordinary verification requires a per-check invocation port'')
         else bindE (run_local fresh_prepared (prepare_invoked di (preparing_runtime port controls (di_runtime di)) authority rq))
           (\<lambda>(prepared, cache). case prepared of
               Inl e \<Rightarrow>
                 if is_control controls e \<or> \<not> dk_is_exception e then raiseE e
                 else returnE (preparation_failure rq (\<lambda>_. ''Docker runtime preparation is uncertain'') e)
             | Inr (Inl res) \<Rightarrow> returnE res
             | Inr (Inr a) \<Rightarrow>
                 (case (rr_operation rq = WaitForHealthy, for_check) of
                    (True, Some checks) \<Rightarrow> execute_ordinary_invoked di port controls checks a rq
                  | _ \<Rightarrow> invoke docker_vocabulary (Some port) ''prepared-runtime-dispatch''
                      (dispatch_prepared di (sealed_runtime port controls cache (di_runtime di)) controls a rq) None)))"

end
