(* ===== verification/Docker_Health_Props.thy ===== *)
theory Docker_Health_Props
  imports Docker_Health Docker_Observer_Props Verification_Props
begin

text \<open>
  Waiting for a healthy node: it only reads, it makes at most as many probes as the policies of the
  checks allow, and it succeeds only when every check of the product was shown to pass.
\<close>

section \<open>What a check shows\<close>

definition http_probed :: "runtime_request \<Rightarrow> product_material \<Rightarrow> check_base \<Rightarrow> http_check \<Rightarrow> string \<Rightarrow> docker_event list \<Rightarrow> bool" where
  "http_probed rq m base hc address seen \<longleftrightarrow>
     (\<exists>p status. HttpProbed (health_probe rq m base hc address) (Inr p) \<in> set seen
        \<and> hp_category p = COMPLETED \<and> hp_status p = Some status \<and> status \<in> set (hc_statuses hc)
        \<and> (hc_sha256 hc \<noteq> None \<longrightarrow> hp_matches p = Some True))"

text \<open>
  The events of an interpreter that passed, with the address policy that trusts only the address of
  the endpoint.
\<close>

definition interpreted :: "product_material \<Rightarrow> runtime_request \<Rightarrow> check \<Rightarrow> capability \<Rightarrow> (probe_event \<Rightarrow> bool) \<Rightarrow> probe_endpoint \<Rightarrow> string
    \<Rightarrow> docker_event list \<Rightarrow> bool" where
  "interpreted m rq c cap passed ep address seen \<longleftrightarrow>
     (\<exists>ps km policy result. Probed ` set ps \<subseteq> set seen \<and> private_policy address = Inr policy
        \<and> make_material (pm_node m) (rr_graph rq) c ep = Inr km
        \<and> verified policy (kb_policy (check_base_of c)) km cap (ep_context ep = PUBLIC \<and> cap = HTTP_CHECK) passed ps (Inr (Completed result))
        \<and> co_outcome result = PASSED)"

definition single_attempt :: "check_base \<Rightarrow> check_base" where
  "single_attempt base = base\<lparr>kb_policy := (kb_policy base)\<lparr>kp_attempts := 1\<rparr>\<rparr>"

fun passed_at :: "runtime_request \<Rightarrow> product_material \<Rightarrow> probe_endpoint \<Rightarrow> string \<Rightarrow> docker_event list \<Rightarrow> check \<Rightarrow> bool" where
  "passed_at rq m ep address seen (HttpCheck base hc) =
     (if ep_context ep = RUNTIME_PRIVATE then http_probed rq m base hc address seen
      else interpreted m rq (HttpCheck (single_attempt base) hc) HTTP_CHECK
             (http_passed (kb_policy (single_attempt base)) hc) ep address seen)"
| "passed_at rq m ep address seen (PostgresQueryCheck base auth) =
     interpreted m rq (PostgresQueryCheck base auth) POSTGRES_CHECK postgres_passed ep address seen"
| "passed_at rq m ep address seen (RedisCheck base) = False"

definition check_shown :: "runtime_request \<Rightarrow> product_material \<Rightarrow> probe_endpoint list \<Rightarrow> docker_event list \<Rightarrow> check \<Rightarrow> bool" where
  "check_shown rq m eps seen c \<longleftrightarrow>
     (\<exists>ep address. endpoint_of_socket eps (kb_socket (check_base_of c)) = Some ep \<and> ep_address ep = LiteralEndpoint address
        \<and> passed_at rq m ep address seen c)"

fun is_http_probe :: "docker_event \<Rightarrow> bool" where
  "is_http_probe (HttpProbed _ _) = True"
| "is_http_probe _ = False"

definition probes :: "docker_event list \<Rightarrow> nat" where
  "probes evs = length (filter is_http_probe evs)"

lemma probes_simps [simp]:
  "probes [] = 0" "probes (a @ b) = probes a + probes b" "probes (map Probed ps) = 0"
  "probes (ev # evs) = (if is_http_probe ev then 1 else 0) + probes evs"
  by (simp_all add: probes_def filter_empty_conv)

fun probe_budget :: "check \<Rightarrow> nat" where
  "probe_budget (HttpCheck base _) = kp_attempts (kb_policy base)"
| "probe_budget _ = 0"

definition plain :: "docker_event list \<Rightarrow> bool" where
  "plain evs \<longleftrightarrow> (\<forall>ev \<in> set evs. plain_event ev)"

lemma plain_simps [simp]:
  "plain []" "plain (a @ b) \<longleftrightarrow> plain a \<and> plain b" "plain (ev # evs) \<longleftrightarrow> plain_event ev \<and> plain evs"
  "plain (map Probed ps)"
  by (auto simp: plain_def)

lemma interpreted_later: "interpreted m rq c cap passed ep address h \<Longrightarrow> set h \<subseteq> set h' \<Longrightarrow> interpreted m rq c cap passed ep address h'"
  unfolding interpreted_def by (elim exE conjE, intro exI conjI) (erule (1) subset_trans, assumption+)

lemma http_probed_later: "http_probed rq m base hc address h \<Longrightarrow> set h \<subseteq> set h' \<Longrightarrow> http_probed rq m base hc address h'"
  unfolding http_probed_def by blast

lemma passed_at_later:
  assumes "passed_at rq m ep address h c" "set h \<subseteq> set h'"
  shows "passed_at rq m ep address h' c"
proof (cases c)
  case (HttpCheck base hc)
  with assms http_probed_later[OF _ assms(2)] interpreted_later[OF _ assms(2)] show ?thesis
    unfolding HttpCheck passed_at.simps by (metis (full_types))
next
  case (PostgresQueryCheck base auth)
  with assms interpreted_later[OF _ assms(2)] show ?thesis by simp
qed (use assms in simp)

lemma check_shown_later: "check_shown rq m eps h c \<Longrightarrow> set h \<subseteq> set h' \<Longrightarrow> check_shown rq m eps h' c"
  unfolding check_shown_def by (blast intro: passed_at_later)

lemma map_sum_returned [simp]:
  "map_sum f id r = Inr a \<longleftrightarrow> r = Inr a" "Inr a = map_sum f id r \<longleftrightarrow> r = Inr a"
  by (cases r; auto)+

section \<open>Checks\<close>

text \<open>What one check does: it reads, keeps to its budget, and passes only when it was shown.\<close>

definition check_run :: "nat \<Rightarrow> (docker_event list \<Rightarrow> bool) \<Rightarrow> docker_event list \<Rightarrow> dk_exn + check_result \<Rightarrow> bool" where
  "check_run budget shown evs r \<longleftrightarrow>
     plain evs \<and> probes evs \<le> budget
     \<and> (\<forall>res. r = Inr (Completed res) \<longrightarrow> co_outcome res = PASSED \<longrightarrow> shown evs)"

lemma emits_embed_plain:
  "emits m (\<lambda>ps r. \<forall>a. r = Inr a \<longrightarrow> Q ps a)
    \<Longrightarrow> emits (embed name m) (\<lambda>evs r. \<exists>ps. evs = map Probed ps \<and> (\<forall>a. r = Inr a \<longrightarrow> Q ps a))"
  by (rule emits_mono[OF emits_embed], assumption) (auto simp: inj_map_eq_map inj_def)

lemma emits_any: "emits m R \<Longrightarrow> emits m (\<lambda>ps r. \<forall>a. r = Inr a \<longrightarrow> True)"
  by (erule emits_mono) simp

lemma counted_outcome: "emits (counted se c n) (\<lambda>ps r. \<forall>a. r = Inr a \<longrightarrow> co_outcome a = co_outcome c)"
  by (auto simp: counted_def Let_def split: option.splits intro!: emit_intros)

lemma emits_pause: "emits (pause se policy n) (\<lambda>ps r. \<forall>a. r = Inr a \<longrightarrow> True)"
  by (auto simp: pause_def intro!: emit_intros)

lemma probe_verdict_passed:
  "probe_verdict hc p = PASSED \<longleftrightarrow>
     hp_category p = COMPLETED \<and> (\<exists>status. hp_status p = Some status \<and> status \<in> set (hc_statuses hc))
     \<and> (hc_sha256 hc \<noteq> None \<longrightarrow> hp_matches p = Some True)"
  by (auto simp: probe_verdict_def split: probe_category.splits option.splits)

lemma emits_probe_once:
  "emits (probe_once hs dc rq m km base hc address n) (\<lambda>evs r. plain evs \<and> probes evs \<le> 1
     \<and> (\<forall>c. r = Inr c \<longrightarrow> co_outcome c = PASSED \<longrightarrow> http_probed rq m base hc address evs))"
proof -
  have evidence: "emits (case x of None \<Rightarrow> returnE None
        | Some ev \<Rightarrow> bindE (embed (hs_fault_name hs) (make_evidence (hs_check hs) ev)) (\<lambda>ev. returnE (Some ev)))
      (\<lambda>evs r. \<exists>ps. evs = map Probed ps)" for x
    by (rule emits_case_option)
      (auto intro!: emits_returnE emits_bindE[OF emits_embed_plain[OF emits_any[OF emits_make_evidence]]])
  show ?thesis
    unfolding probe_once_def run_http_probe_def
  proof (rule emits_bindE[OF emits_embed_plain[OF emits_pause]], rule emits_bindE[OF emits_callE_eq], rule emits_bindE[OF evidence],
      rule emits_mono[OF emits_embed[OF emits_check_observation]], goal_cases)
    case (1 u evs p evs1 ev evs2 evs3 r)
    then have "HttpProbed (health_probe rq m base hc address) (Inr p) \<in> set (evs @ evs1 @ evs2 @ evs3)" by auto
    moreover have "co_outcome c = PASSED \<longrightarrow> probe_verdict hc p = PASSED" if "r = Inr c" for c
      using 1 that by auto
    ultimately show ?case
      using 1 unfolding http_probed_def probe_verdict_passed by fastforce
  qed auto
qed

lemma emits_counted_dk:
  "emits (embed name (counted se c n)) (\<lambda>evs r. plain evs \<and> probes evs = 0 \<and> (\<forall>a. r = Inr a \<longrightarrow> co_outcome a = co_outcome c))"
  by (rule emits_mono[OF emits_embed_plain[OF counted_outcome]]) auto

lemma emits_probe_attempts:
  "(\<And>c. last_one = Some c \<Longrightarrow> co_outcome c \<noteq> PASSED) \<Longrightarrow>
   emits (probe_attempts hs dc rq m km base hc address ns last_one) (\<lambda>evs r. plain evs \<and> probes evs \<le> length ns
     \<and> (\<forall>c. r = Inr c \<longrightarrow> co_outcome c = PASSED \<longrightarrow> http_probed rq m base hc address evs))"
proof (induction hs dc rq m km base hc address ns last_one rule: probe_attempts.induct)
  case (2 hs dc rq m km base hc address c)
  then show ?case
    unfolding probe_attempts.simps by (intro emits_mono[OF emits_counted_dk]) simp
next
  case (3 hs dc rq m km base hc address n ns last_one)
  show ?case
    unfolding probe_attempts.simps
  proof (rule emits_bindE[OF emits_probe_once], rule emits_if, goal_cases)
    case (1 c evs)
    then show ?case by (intro emits_returnE) auto
  next
    case (2 c evs)
    have "http_probed rq m base hc address evs' \<Longrightarrow> http_probed rq m base hc address (evs @ evs')" for evs'
      by (erule http_probed_later) simp
    with 2 show ?case
      by (intro emits_mono[OF "3.IH"]) auto
  qed auto
qed (simp add: emits_raiseE)

lemma length_verification_attempts [simp]: "length (verification_attempts policy) = kp_attempts policy"
  by (simp add: verification_attempts_def)

lemma emits_private_check:
  "emits (private_http_check hs dc rq m base hc ep address)
     (check_run (kp_attempts (kb_policy base)) (http_probed rq m base hc address))"
proof -
  have made: "emits (embed (hs_fault_name hs) (liftE v)) (\<lambda>evs r. \<exists>ps. evs = map Probed ps \<and> (\<forall>a. r = Inr a \<longrightarrow> True))"
    for v :: "probe_exn + check_material"
    by (rule emits_embed_plain, rule emits_liftE) simp
  show ?thesis
    unfolding private_http_check_def
  proof (rule emits_bindE[OF made], rule emits_bindE[OF emits_probe_attempts], goal_cases)
    case (2 km evs c evs1)
    then show ?case
      by (intro emits_returnE) (auto simp: check_run_def elim!: http_probed_later)
  qed (auto simp: check_run_def)
qed

text \<open>A run of an interpreter.\<close>

lemma emits_counted: "emits (counted se c n) (\<lambda>ps r. ps = [] \<and> (\<forall>a. r = Inr a \<longrightarrow> co_outcome a = co_outcome c))"
  by (auto simp: counted_def Let_def split: option.splits intro!: emit_intros)

lemma interpreted_run:
  assumes "make_material (pm_node m) (rr_graph rq) c ep = Inr km" "private_policy address = Inr policy"
    and "verified policy (kb_policy (check_base_of c)) km cap (ep_context ep = PUBLIC \<and> cap = HTTP_CHECK) passed ps (Inr (Completed result))"
    and "co_outcome result = PASSED" "Probed ` set ps \<subseteq> set seen"
  shows "interpreted m rq c cap passed ep address seen"
  using assms unfolding interpreted_def by blast

lemma make_material_Inr:
  "make_material node graph c ep = Inr km \<Longrightarrow> km_check km = c \<and> km_endpoint km = ep"
  by (auto simp: make_material_def bindR_Inr_iff)

lemma private_setting_policy [simp]: "se_policy (cs_probe (private_setting hs policy)) = policy"
  by (simp add: private_setting_def)

definition interpreter_passed :: "address_policy \<Rightarrow> runtime_request \<Rightarrow> product_material \<Rightarrow> check_base \<Rightarrow> http_check \<Rightarrow> probe_endpoint
    \<Rightarrow> probe_event list \<Rightarrow> bool" where
  "interpreter_passed policy rq m base hc ep ps \<longleftrightarrow>
     (\<exists>a b v km result. ps = a @ v @ b \<and> make_material (pm_node m) (rr_graph rq) (HttpCheck base hc) ep = Inr km
        \<and> verified policy (kb_policy base) km HTTP_CHECK (ep_context ep = PUBLIC) (http_passed (kb_policy base) hc) v (Inr (Completed result))
        \<and> co_outcome result = PASSED)"

lemma interpreter_passed_later: "interpreter_passed policy rq m base hc ep ps \<Longrightarrow> interpreter_passed policy rq m base hc ep (front @ ps)"
  unfolding interpreter_passed_def by (metis append.assoc)

lemma interpreter_passed_now:
  assumes "make_material (pm_node m) (rr_graph rq) (HttpCheck base hc) ep = Inr km" "co_outcome result = PASSED"
    and "verified policy (kb_policy base) km HTTP_CHECK (ep_context ep = PUBLIC) (http_passed (kb_policy base) hc) v (Inr (Completed result))"
  shows "interpreter_passed policy rq m base hc ep (a @ v)"
  unfolding interpreter_passed_def
  by (rule exI[of _ a], rule exI[of _ "[]"], rule exI[of _ v], rule exI[of _ km], rule exI[of _ result]) (use assms in simp)

lemma emits_interpreted_attempts:
  "(\<And>c. last_one = Some (Completed c) \<Longrightarrow> co_outcome c \<noteq> PASSED) \<Longrightarrow>
   emits (interpreted_attempts se hs rq m base hc ep ns last_one) (\<lambda>ps r. \<forall>c. r = Inr (Completed c) \<longrightarrow> co_outcome c = PASSED
     \<longrightarrow> interpreter_passed (se_policy (cs_probe se)) rq m (single_attempt base) hc ep ps)"
proof (induction ns arbitrary: last_one)
  case Nil
  show ?case
  proof (cases last_one)
    case (Some res)
    with Nil show ?thesis
      by (cases res) (auto intro!: emits_returnE emits_bindE[OF emits_counted] emits_raiseE)
  qed (simp add: emits_raiseE)
next
  case (Cons n ns)
    show ?case
    unfolding interpreted_attempts.simps Let_def single_attempt_def[symmetric]
  proof (rule emits_bindE[OF emits_pause], cases "make_material (pm_node m) (rr_graph rq) (HttpCheck (single_attempt base) hc) ep", goal_cases)
    case (1 u evs e)
    then show ?case by (simp add: emits_raiseE)
  next
    case (2 u evs km)
    note km = make_material_Inr[OF 2(2)]
    show ?case
      unfolding 2(2) liftE_simps bindE_returnE
    proof (rule emits_bindE[OF emits_http_execute], use km in simp, goal_cases)
      case (1 res ps)
      show ?case
      proof (cases res)
        case (Completed c)
        have now: "interpreter_passed (se_policy (cs_probe se)) rq m (single_attempt base) hc ep (evs @ ps)" if "co_outcome c = PASSED"
          using 1 2(2) km that Completed by (intro interpreter_passed_now) simp_all
        show ?thesis
          unfolding Completed check_result.case
          by (rule emits_if, rule emits_bindE[OF emits_counted])
            (auto intro!: emits_returnE emits_mono[OF Cons.IH] simp: now intro: interpreter_passed_later[where front = "evs @ ps", simplified])
      next
        case (Unsupported i k)
        show ?thesis
          unfolding Unsupported check_result.case
          by (rule emits_mono[OF Cons.IH]) (auto intro: interpreter_passed_later[where front = "evs @ ps", simplified])
      qed
    qed auto
  qed auto
qed

lemma emits_http_health:
  "emits (http_health_check hs dc rq m base hc ep address)
     (check_run (kp_attempts (kb_policy base)) (\<lambda>seen. passed_at rq m ep address seen (HttpCheck base hc)))"
proof (cases "ep_context ep = RUNTIME_PRIVATE")
  case True
  then show ?thesis
    unfolding http_health_check_def by (simp add: emits_private_check)
next
  case False
  show ?thesis
  proof (cases "private_policy address")
    case (Inl e)
    with False show ?thesis
      unfolding http_health_check_def
      by (simp, intro emits_mono[OF emits_embed[OF emits_raiseE[where R = "\<lambda>ps r. ps = [] \<and> isl r"]]]) (auto simp: check_run_def)
  next
    case (Inr policy)
    have "emits (embed (hs_fault_name hs) (interpreted_attempts (private_setting hs policy) hs rq m base hc ep ns None))
        (check_run (kp_attempts (kb_policy base)) (\<lambda>seen. passed_at rq m ep address seen (HttpCheck base hc)))" for ns
    proof (rule emits_mono[OF emits_embed[OF emits_interpreted_attempts]], simp, goal_cases)
      case (1 evs r)
      then obtain ps r0 where run: "evs = map Probed ps" "r = map_sum (fault_of (hs_fault_name hs)) id r0"
        "\<And>c. r0 = Inr (Completed c) \<Longrightarrow> co_outcome c = PASSED \<Longrightarrow> interpreter_passed policy rq m (single_attempt base) hc ep ps"
        by auto
      have "interpreted m rq (HttpCheck (single_attempt base) hc) HTTP_CHECK (http_passed (kb_policy (single_attempt base)) hc) ep address evs"
        if "interpreter_passed policy rq m (single_attempt base) hc ep ps"
        using that unfolding interpreter_passed_def
        by (elim exE conjE) (rule interpreted_run[OF _ Inr], assumption, auto simp: run(1))
      with run False show ?case by (auto simp: check_run_def)
    qed
    with False Inr show ?thesis
      unfolding http_health_check_def by simp
  qed
qed

lemma emits_postgres_health:
  "emits (postgres_health_check hs dr rq m base auth ep address child)
     (check_run 0 (\<lambda>seen. passed_at rq m ep address seen (PostgresQueryCheck base auth)))"
proof -
  let ?R = "\<lambda>ps r. \<forall>result. r = Inr (Completed result) \<longrightarrow> (\<exists>policy km. private_policy address = Inr policy
        \<and> make_material (pm_node m) (rr_graph rq) (PostgresQueryCheck base auth) ep = Inr km
        \<and> verified policy (kb_policy base) km POSTGRES_CHECK False postgres_passed ps (Inr (Completed result)))"
  have "emits (bindE (liftE (private_policy address)) (\<lambda>policy.
         bindE (liftE (make_material (pm_node m) (rr_graph rq) (PostgresQueryCheck base auth) ep)) (\<lambda>km.
         postgres_execute (private_setting hs policy) pg port km))) ?R" for pg port
  proof (cases "private_policy address")
    case (Inr policy)
    show ?thesis
    proof (cases "make_material (pm_node m) (rr_graph rq) (PostgresQueryCheck base auth) ep")
      case made: (Inr km)
      show ?thesis
        unfolding Inr made liftE_simps bindE_returnE
        by (rule emits_mono[OF emits_postgres_execute[of km base auth]]) (use make_material_Inr[OF made] in auto)
    qed (simp add: Inr emits_raiseE)
  qed (simp add: emits_raiseE)
  then show ?thesis
    unfolding postgres_health_check_def Let_def
  proof (rule emits_mono[OF emits_embed], goal_cases)
    case (1 evs r)
    then obtain ps r0 where run: "evs = map Probed ps" "r = map_sum (fault_of (hs_fault_name hs)) id r0" "?R ps r0" by blast
    have "passed_at rq m ep address evs (PostgresQueryCheck base auth)"
      if "r0 = Inr (Completed result)" "co_outcome result = PASSED" for result
    proof -
      from run(3) that(1) obtain policy km where "private_policy address = Inr policy"
        "make_material (pm_node m) (rr_graph rq) (PostgresQueryCheck base auth) ep = Inr km"
        "verified policy (kb_policy base) km POSTGRES_CHECK False postgres_passed ps (Inr (Completed result))" by blast
      then show ?thesis
        using that(2) by (auto simp: run(1) intro!: interpreted_run)
    qed
    with run show ?case by (auto simp: check_run_def)
  qed
qed

lemma check_run_invoke:
  assumes call: "emits call (check_run budget shown)"
    and later: "\<And>h h'. shown h \<Longrightarrow> set h \<subseteq> set h' \<Longrightarrow> shown h'"
  shows "emits (invoke docker_vocabulary port kind call authorization) (check_run budget shown)"
proof (cases port)
  case None
  with call show ?thesis by (simp add: invoke_def control_errors_def)
next
  case (Some p)
  have admit: "plain_event (vo_admit docker_vocabulary k x)" "\<not> is_http_probe (vo_admit docker_vocabulary k x)"
    and recorded: "plain_event b" "\<not> is_http_probe b" if "recorded_as docker_vocabulary r0 b" for k x b and r0 :: "dk_exn + check_result"
    using that by (auto simp: docker_vocabulary_def recorded_as_def)
  note events = admit recorded
  show ?thesis
    unfolding Some
  proof (rule emits_mono[OF invoke_bracket[OF call]], elim disjE exE conjE, goal_cases)
    case (4 evs r a inner r0 b x)
    from 4(4) have "shown inner \<Longrightarrow> shown evs" by (elim later) (auto simp: 4)
    with 4 show ?case by (auto simp: check_run_def events)
  qed (auto simp: check_run_def docker_vocabulary_def isl_def)
qed

lemma emits_run_check:
  "emits (run_check hs dr rq m c ep address child)
     (check_run (probe_budget c) (\<lambda>seen. passed_at rq m ep address seen c))"
proof (cases c)
  case (HttpCheck base hc)
  show ?thesis
    unfolding HttpCheck run_check_def check.case probe_budget.simps
    by (rule check_run_invoke[OF emits_http_health]) (rule passed_at_later)
next
  case (PostgresQueryCheck base auth)
  show ?thesis
    unfolding PostgresQueryCheck run_check_def check.case probe_budget.simps by (rule emits_postgres_health)
next
  case (RedisCheck base)
  show ?thesis
    unfolding RedisCheck run_check_def check.case by (rule emits_raiseE) (simp add: check_run_def)
qed

section \<open>Waiting\<close>

definition waited :: "nat \<Rightarrow> (docker_event list \<Rightarrow> bool) \<Rightarrow> docker_event list \<Rightarrow> dk_exn + runtime_observation runtime_result \<Rightarrow> bool" where
  "waited budget shown evs r \<longleftrightarrow>
     plain evs \<and> probes evs \<le> budget \<and> (\<forall>res. r = Inr res \<longrightarrow> re_kind res = SUCCEEDED \<longrightarrow> shown evs)"

lemma unsuccessful [simp]:
  "re_kind (effect_failed rq code message) \<noteq> SUCCEEDED" "re_kind (effect_unsupported rq code) \<noteq> SUCCEEDED"
  "re_kind (health_failed rq hg) \<noteq> SUCCEEDED"
  by (simp_all add: effect_failed_def effect_unsupported_def effect_ended_def health_failed_def)

lemma emits_over_checks:
  "emits (over_checks hs dr rq m ports eps cs hg)
     (waited (sum_list (map probe_budget cs)) (\<lambda>seen. \<forall>c \<in> set cs. check_shown rq m eps seen c))"
proof (induction cs arbitrary: hg)
  case Nil
  show ?case by (simp add: emits_returnE waited_def)
next
  case (Cons c cs)
  have stop: "emits (returnE res) (waited n shown)" if "re_kind res \<noteq> SUCCEEDED" for res n shown
    using that by (simp add: emits_returnE waited_def)
  show ?case
  proof (cases "endpoint_of_socket eps (kb_socket (check_base_of c))")
    case None
    then show ?thesis by (simp add: stop)
  next
    case (Some ep)
    show ?thesis
    proof (cases "ep_address ep")
      case (SecretEndpoint x)
      with Some show ?thesis by (simp add: stop)
    next
      case (LiteralEndpoint address)
      have shown: "check_shown rq m eps seen c" if "passed_at rq m ep address seen c" for seen
        using that Some LiteralEndpoint by (auto simp: check_shown_def)
      have checked: "emits (bindE (run_check hs dr rq m c ep address child) (\<lambda>r. case r of
              Unsupported _ _ \<Rightarrow> returnE (effect_unsupported rq ''docker.health-check-unsupported'')
            | Completed result \<Rightarrow>
                if co_outcome result \<noteq> PASSED then returnE (health_failed rq (progressed hs c result hg))
                else over_checks hs dr rq m ports eps cs (progressed hs c result hg)))
          (waited (sum_list (map probe_budget (c # cs))) (\<lambda>seen. \<forall>c \<in> set (c # cs). check_shown rq m eps seen c))" for child
      proof (rule emits_bindE[OF emits_run_check], goal_cases)
        case (1 r evs)
        show ?case
        proof (cases r)
          case (Completed result)
          have earlier: "check_shown rq m eps (evs @ evs') c" if "co_outcome result = PASSED" for evs'
            using 1 Completed that by (intro check_shown_later[OF shown]) (auto simp: check_run_def)
          have afterwards: "check_shown rq m eps (evs @ evs') d" if "check_shown rq m eps evs' d" for evs' d
            using that by (rule check_shown_later) simp
          show ?thesis
            unfolding Completed check_result.case
            by (rule emits_if, (rule emits_returnE, use 1 in \<open>simp add: waited_def check_run_def\<close>)[1],
                rule emits_mono[OF Cons.IH])
              (use 1 in \<open>auto simp: waited_def check_run_def intro: earlier afterwards\<close>)
        next
          case (Unsupported i k)
          with 1 show ?thesis by (auto simp: waited_def check_run_def intro: emits_returnE)
        qed
      qed (auto simp: waited_def check_run_def)
      show ?thesis
      proof (cases "checked_child ports (kb_id (check_base_of c))")
        case (Inl e)
        with Some LiteralEndpoint show ?thesis
          by (auto simp: emits_raiseE waited_def intro!: emits_returnE)
      next
        case (Inr child)
        with Some LiteralEndpoint show ?thesis
          using checked[of child] by (auto intro: stop)
      qed
    qed
  qed
qed

text \<open>The runtime-private endpoints that were read: of a container this effect owns, when there is one.\<close>

definition endpoints_read :: "'w docker_runtime \<Rightarrow> runtime_request \<Rightarrow> product_material \<Rightarrow> probe_endpoint list \<Rightarrow> docker_event list \<Rightarrow> bool" where
  "endpoints_read dr rq m eps seen \<longleftrightarrow>
     (\<exists>found. ContainerRead (container_name rq (pm_node m)) (Inr found) \<in> set seen
        \<and> (\<forall>ci. found = Some ci \<longrightarrow> require_owned (ci_labels ci) (node_labels rq m) ''container'' = Inr ()
             \<and> require_graph_labels ci (node_labels rq m) = Inr ())
        \<and> eps = map private_endpoint_of (private_endpoints (dr_scheme dr) (pm_node m) (rr_graph rq)
             (case found of None \<Rightarrow> pm_node m | Some ci \<Rightarrow> private_host rq m ci) (pm_ports m)))"

lemma emits_endpoints:
  "emits (runtime_private_endpoints dr rq m) (\<lambda>evs r. plain evs \<and> probes evs = 0 \<and> (\<forall>eps. r = Inr eps \<longrightarrow> endpoints_read dr rq m eps evs))"
  unfolding runtime_private_endpoints_def owned_container_inspection_def bindE_assoc inspect_container_def
proof (rule emits_bindE[OF emits_callE_eq], goal_cases)
  case (1 found evs)
  show ?case
  proof (cases found)
    case None
    with 1 show ?thesis by (auto simp: endpoints_read_def intro: emits_returnE)
  next
    case (Some ci)
    show ?thesis
    proof (cases "require_owned (ci_labels ci) (node_labels rq m) ''container''")
      case (Inl e)
      with 1 Some show ?thesis by (auto intro: emits_raiseE)
    next
      case owned: (Inr u)
      show ?thesis
      proof (cases "require_graph_labels ci (node_labels rq m)")
        case (Inl e)
        with 1 Some owned show ?thesis by (auto intro: emits_raiseE)
      next
        case (Inr u')
        with 1 Some owned show ?thesis
          by (auto simp: endpoints_read_def intro!: emits_returnE)
      qed
    qed
  qed
qed auto

definition health_shown :: "'w docker_runtime \<Rightarrow> runtime_request \<Rightarrow> probe_endpoint list option \<Rightarrow> product_material \<Rightarrow> docker_event list \<Rightarrow> bool" where
  "health_shown dr rq endpoints m seen \<longleftrightarrow>
     pm_checks m = []
     \<or> (\<exists>eps. (case endpoints of Some given \<Rightarrow> eps = given | None \<Rightarrow> endpoints_read dr rq m eps seen)
          \<and> (\<forall>c \<in> set (pm_checks m). check_shown rq m eps seen c))"

definition checks_of :: "runtime_request \<Rightarrow> check list" where
  "checks_of rq = (case single_product rq of Inr m \<Rightarrow> pm_checks m | Inl _ \<Rightarrow> [])"

lemma emits_wait:
  "emits (wait_for_healthy hs dr rq endpoints ports)
     (waited (sum_list (map probe_budget (checks_of rq)))
       (\<lambda>seen. \<exists>m. single_product rq = Inr m \<and> health_shown dr rq endpoints m seen))"
proof (cases "single_product rq")
  case (Inl e)
  then show ?thesis by (simp add: wait_for_healthy_def emits_raiseE waited_def)
next
  case (Inr m)
  let ?read = "\<lambda>evs r. plain evs \<and> probes evs = 0 \<and>
    (\<forall>eps. r = Inr eps \<longrightarrow> (case endpoints of Some given \<Rightarrow> eps = given | None \<Rightarrow> endpoints_read dr rq m eps evs))"
  have reading: "emits (case endpoints of Some eps \<Rightarrow> returnE eps | None \<Rightarrow> runtime_private_endpoints dr rq m) ?read"
    by (cases endpoints) (auto intro: emits_returnE emits_mono[OF emits_endpoints])
  have read_later: "endpoints_read dr rq m eps (evs @ evs')" if "endpoints_read dr rq m eps evs" for eps evs evs'
    using that unfolding endpoints_read_def by auto
  show ?thesis
  proof (cases "pm_checks m = []")
    case True
    with Inr show ?thesis
      by (auto simp: wait_for_healthy_def waited_def health_shown_def intro!: emits_returnE)
  next
    case False
    with Inr have start: "wait_for_healthy hs dr rq endpoints ports =
        bindE (case endpoints of Some eps \<Rightarrow> returnE eps | None \<Rightarrow> runtime_private_endpoints dr rq m) (\<lambda>eps.
          over_checks hs dr rq m ports eps (pm_checks m) \<lparr>hg_completed = [], hg_observed = []\<rparr>)"
      by (simp add: wait_for_healthy_def)
    show ?thesis
      unfolding start
    proof (rule emits_bindE[OF reading], rule emits_mono[OF emits_over_checks], goal_cases)
      case (1 eps evs evs' r)
      have "health_shown dr rq endpoints m (evs @ evs')" if "\<forall>c \<in> set (pm_checks m). check_shown rq m eps evs' c"
        unfolding health_shown_def using 1 that
        by (intro disjI2 exI[of _ eps]) (auto intro: read_later check_shown_later split: option.splits)
      with 1 Inr show ?case by (auto simp: waited_def checks_of_def)
    qed (auto simp: waited_def)
  qed
qed

text \<open>
  C29: a wait for a healthy node succeeds only when every check of its product was shown to pass at
  the literal address its provider socket has: with no endpoints given, an address of the container
  that this effect owns, as it was read.  A runtime-private HTTP check was shown by a probe of the
  helper that completed with an expected status and digest, every other check by its interpreter.
\<close>

theorem healthy_only_when_shown:
  assumes "wait_for_healthy hs dr rq endpoints ports s = (Inr res, s')" and "trace s' = trace s @ evs"
    and "re_kind res = SUCCEEDED"
  shows "\<exists>m. single_product rq = Inr m \<and> health_shown dr rq endpoints m evs"
  using emitsD[OF emits_wait assms(1,2)] assms(3) unfolding waited_def by blast

text \<open>
  C30: whatever the checks answer, waiting makes no change at the provider, opens and closes no
  client, and ends after at most as many probes as the policies of the HTTP checks have attempts.
\<close>

theorem waiting_is_bounded:
  assumes "wait_for_healthy hs dr rq endpoints ports s = (r, s')" and "trace s' = trace s @ evs"
  shows "plain evs \<and> probes evs \<le> sum_list (map probe_budget (checks_of rq))"
  using emitsD[OF emits_wait assms] unfolding waited_def by blast

section \<open>A sample\<close>

text \<open>A product with one HTTP check, whose container is absent, and a helper that reports 200.\<close>

definition sample_checked :: product_material where
  "sample_checked = sample_product\<lparr>pm_checks := [HttpCheck sample_base sample_http_check]\<rparr>"

definition sample_waiting :: runtime_request where
  "sample_waiting = (sample_effect WaitForHealthy)\<lparr>rr_products := [sample_checked]\<rparr>"

definition sample_up :: http_probe where
  "sample_up = \<lparr>hp_status = Some 200, hp_size = 2, hp_exit = 0, hp_category = COMPLETED, hp_matches = None\<rparr>"

definition sample_health_runtime :: "unit docker_runtime" where
  "sample_health_runtime = (sample_runtime WaitForHealthy (Inr []))\<lparr>dr_client :=
     (sample_docker_client WaitForHealthy (Inr []))\<lparr>dc_container := \<lambda>_ w. (Inr None, w), dc_probe := \<lambda>_ w. (Inr sample_up, w)\<rparr>\<rparr>"

definition sample_health_ports :: "(unit, string, string) health_setting" where
  "sample_health_ports = \<lparr>hs_check = sample_check_setting, hs_send = (\<lambda>_ w. (Inr sample_response, w)), hs_close = (\<lambda>w. (Inr (), w)),
     hs_postgres = \<lparr>pg_select = \<lambda>_ _ _ _ _ w. (Inr True, w), pg_credential = None, pg_authorized = None, pg_grant = None,
       pg_permits = \<lambda>_ _. True, pg_grant_ok = \<lambda>_. True, pg_authorization = (\<lambda>_. ''a''), pg_read = \<lambda>_. Inr,
       pg_read_reference = \<lambda>_. Inr\<rparr>,
     hs_descriptor = (\<lambda>_. JNull), hs_fault_name = (\<lambda>_. ''Error''), hs_password_intent = ''postgres-password''\<rparr>"

definition sample_address :: string where
  "sample_address = endpoint_url (\<lambda>p. p) ''http'' ''api'' 8080"

definition sample_wait_events :: "docker_event list" where
  "sample_wait_events =
     [ContainerRead (container_name sample_waiting ''api'') (Inr None),
      HttpProbed (health_probe sample_waiting sample_checked sample_base sample_http_check sample_address) (Inr sample_up)]"

definition sample_wait_result :: completed where
  "sample_wait_result = \<lparr>co_identity = (''api'', ''g'', ''c1''), co_capability = HTTP_CHECK, co_outcome = PASSED, co_attempts = 1,
     co_evidence = Some (HttpEvidence 200 2 None None)\<rparr>"

definition sample_wait where
  "sample_wait = wait_for_healthy sample_health_ports sample_health_runtime sample_waiting None (None :: (unit, unit) child_ports option) idle"

lemma sample_waiting_simps:
  "single_product sample_waiting = Inr sample_checked" "pm_checks sample_checked = [HttpCheck sample_base sample_http_check]"
  "pm_node sample_checked = ''api''" "rr_graph sample_waiting = ''g''" "rr_effect sample_waiting = ''e''"
  "pm_ports sample_checked = [\<lparr>pp_socket = ''http'', pp_protocol = ''http'', pp_port = 8080\<rparr>]"
  by (simp_all add: sample_waiting_def sample_checked_def single_product_def sample_effect_def sample_product_def)

lemma sample_stripped: "py_strip ''api'' = ''api''" "py_strip ''g'' = ''g''"
  by code_simp+

lemma sample_wait_runs:
  "sample_wait = (Inr (verified_healthy sample_waiting sample_checked \<lparr>hg_completed = [], hg_observed = [CheckSeen sample_wait_result]\<rparr>),
     \<lparr>trace = sample_wait_events, world = ()\<rparr>)"
  by (simp add: sample_wait_def wait_for_healthy_def sample_waiting_simps runtime_private_endpoints_def
      owned_container_inspection_def sample_health_runtime_def sample_runtime_def sample_docker_client_def
      inspect_container_def private_endpoints_def private_endpoint_of_def endpoint_of_socket_def checked_child_def
      run_check_def invoke_def control_errors_def http_health_check_def private_http_check_def make_material_def
      embed_def eff_defs probe_once_def sample_check_run run_http_probe_def probe_evidence_def sample_up_def probe_verdict_def
      sample_http_check_def sample_health_ports_def idle_def sample_base_def sample_wait_events_def sample_address_def
      progressed_def sample_wait_result_def sample_stripped)

lemma healthy_only_when_shown_witness:
  "\<exists>m. single_product sample_waiting = Inr m \<and> health_shown sample_health_runtime sample_waiting None m sample_wait_events"
  by (rule healthy_only_when_shown[OF sample_wait_runs[unfolded sample_wait_def]])
    (simp_all add: idle_def verified_healthy_def)

lemma waiting_is_bounded_witness: "plain sample_wait_events \<and> probes sample_wait_events \<le> 1"
  using waiting_is_bounded[OF sample_wait_runs[unfolded sample_wait_def], of sample_wait_events]
  by (simp add: idle_def checks_of_def sample_waiting_simps sample_base_def sample_check_policy_def)

end
