(* ===== verification/Docker_Session_Props.thy ===== *)
theory Docker_Session_Props
  imports Docker_Session Docker_Health_Props Docker_Configured_Props Docker_Props
begin

text \<open>
  The properties of executions as a whole: with the operations that a dispatch passes on, every change
  is allowed; an execution with an authority is one execution on the client it bound, which is closed
  exactly once when it was connected for it.
\<close>

section \<open>Changes of every operation\<close>

definition may_clean :: "runtime_request \<Rightarrow> docker_event list \<Rightarrow> mutation \<Rightarrow> bool" where
  "may_clean rq seen mu \<longleftrightarrow>
     (\<exists>ki \<in> set (rr_instances rq). \<exists>cv. mu = RemoveConfigurationVolume cv \<and> removable ki cv \<and> set (seen_unused ki cv) \<subseteq> set seen)"

definition may_effect ::
  "(string \<Rightarrow> string \<Rightarrow> string \<Rightarrow> bool) \<Rightarrow> runtime_request \<Rightarrow> docker_event list \<Rightarrow> mutation \<Rightarrow> bool" where
  "may_effect ok rq seen mu =
     (if rr_operation rq = CleanupConfigurationInstances then may_clean rq seen mu
      else if is_configuration rq then may_configure ok rq seen mu
      else rr_operation rq \<noteq> WaitForHealthy \<and> may_change ok rq seen mu)"

lemma may_change_later:
  assumes "may_change ok rq seen mu" "set seen \<subseteq> set seen'"
  shows "may_change ok rq seen' mu"
proof -
  have ex: "list_ex p seen'" if "list_ex p seen" for p
    using that assms(2) by (auto simp: list_ex_iff)
  have gone: "container_gone seen' name" if "container_gone seen name" for name
    using that assms(2) ex unfolding container_gone_def by blast
  have made: "container_made seen' name" if "container_made seen name" for name
    using that ex unfolding container_made_def by blast
  have admitted: "image_admitted ok seen' name" if "image_admitted ok seen name" for name
    using that ex unfolding image_admitted_def by blast
  have node: "may_change_node ok rq seen' m mu" if "may_change_node ok rq seen m mu" for m
    using that assms(2) by (cases mu) (auto simp only: may_change_node.simps intro: ex gone made admitted)
  have inner: "list_ex (\<lambda>r. q r \<and> list_ex (p r) seen') rs" if "list_ex (\<lambda>r. q r \<and> list_ex (p r) seen) rs"
    for p :: "string \<Rightarrow> docker_event \<Rightarrow> bool" and q and rs
    using that assms(2) unfolding list_ex_iff by blast
  have products: "(case rr_products rq of [m] \<Rightarrow> may_change_node ok rq seen' m mu | _ \<Rightarrow> False)"
    if "(case rr_products rq of [m] \<Rightarrow> may_change_node ok rq seen m mu | _ \<Rightarrow> False)"
    using that node by (auto split: list.splits)
  show ?thesis
    using assms(1) products unfolding may_change_def by (cases mu) (auto simp only: mutation.case intro: ex inner)
qed

lemma may_configure_later:
  assumes "may_configure ok rq seen mu" "set seen \<subseteq> set seen'"
  shows "may_configure ok rq seen' mu"
proof -
  note change = may_change_later[OF _ assms(2)]
  have admitted: "image_admitted ok seen' name" if "image_admitted ok seen name" for name
    using that assms(2) unfolding image_admitted_def list_ex_iff by blast
  have seen: "node_container_seen rq seen' identity q" if "node_container_seen rq seen identity p" "\<And>ci. p ci \<Longrightarrow> q ci" for identity p q
    using that assms(2) unfolding node_container_seen_def by blast
  have gone: "removed_gone identity seen'" if "removed_gone identity seen" for identity
    using that assms(2) unfolding removed_gone_def by blast
  show ?thesis
  proof (cases mu)
    case (RemoveContainer identity)
    with assms show ?thesis by (auto elim!: seen)
  next
    case (CreateContainer sp)
    with assms admitted show ?thesis by (auto intro: gone seen)
  next
    case (StartContainer identity)
    with assms show ?thesis by (auto intro: seen)
  next
    case (CreateVolume v ls)
    with assms change show ?thesis by auto
  next
    case (MaterializeArtifact v a)
    with assms change show ?thesis by (simp; blast)
  qed (use assms change in auto)
qed

lemma may_clean_later: "may_clean rq seen mu \<Longrightarrow> set seen \<subseteq> set seen' \<Longrightarrow> may_clean rq seen' mu"
  unfolding may_clean_def by blast

lemma guarded_later:
  "guarded P [] evs \<Longrightarrow> (\<And>seen seen' mu. P seen mu \<Longrightarrow> set seen \<subseteq> set seen' \<Longrightarrow> P seen' mu) \<Longrightarrow> guarded P h evs"
  unfolding guarded_def by (metis append_Nil set_append sup_ge2)

section \<open>The operations passed on\<close>

lemma hist_cleanup: "hist (may_clean rq) h (cleanup_configuration dc result rq) (\<lambda>_ _. True)"
proof -
  have reads: "hist P h (inspect_configuration_volume dc name) (\<lambda>found h'. h' = h @ [ConfigurationVolumeRead name (Inr found)])"
    "hist P h (configuration_volume_in_use dc name) (\<lambda>used h'. h' = h @ [VolumeUseRead name (Inr used)])" for P h name
    unfolding inspect_configuration_volume_def configuration_volume_in_use_def by (rule hist_call; simp)+
  have one: "hist (may_clean rq) h (cleanup_one dc ki) (\<lambda>_ _. True)" if "ki \<in> set (rr_instances rq)" for ki h
    unfolding cleanup_one_def Let_def
  proof (rule hist_bindE[OF reads(1)], goal_cases)
    case (1 found h1)
    show ?case
    proof (cases found)
      case (Some cv)
      show ?thesis
        unfolding Some option.case
      proof (intro hist_if hist_returnE TrueI, rule hist_bindE[OF reads(2)], intro hist_if hist_returnE TrueI, goal_cases)
        case (1 used h2)
        then have "may_clean rq h2 (RemoveConfigurationVolume cv)"
          using \<open>h1 = _\<close> Some that by (auto simp: may_clean_def removable_def seen_unused_def intro!: bexI[of _ ki])
        then show ?case
          by (intro hist_attemptE[where Q = "\<lambda>_ _. True"] hist_perform hist_if hist_returnE hist_raiseE hist_bindE[OF reads(1)] TrueI)
      qed
    qed (simp add: hist_returnE)
  qed
  have rows: "hist (may_clean rq) h (cleanup_rows dc unknown kis) (\<lambda>_ _. True)" if "set kis \<subseteq> set (rr_instances rq)" for unknown kis h
    using that
  proof (induction kis arbitrary: unknown h)
    case (Cons ki kis)
    then show ?case
      by (auto intro!: hist_bindE[where Q = "\<lambda>_ _. True"] hist_returnE hist_catchE one split: prod.splits)
  qed (simp add: hist_returnE)
  show ?thesis
    unfolding cleanup_configuration_def by (intro hist_bindE[OF rows] hist_liftE) simp_all
qed

lemma hist_wait: "hist P h (wait_for_healthy hs dr rq endpoints ports) (\<lambda>_ _. True)"
  unfolding hist_def
  by (rule emits_mono[OF emits_wait]) (fastforce simp: waited_def plain_def guarded_def)

lemma hist_configuration:
  assumes "quiet_resolvers dr"
  shows "hist (may_configure (dr_image_ok dr) rq) h (execute_configuration_node core dr rq) (\<lambda>_ _. True)"
proof (cases "rr_operation rq \<in> {StartNode, ReconcileNode}")
  case True
  show ?thesis
    unfolding hist_def
    by (rule emits_mono[OF emits_execute_configuration[OF assms True]])
      (auto intro: guarded_later[OF _ may_configure_later])
next
  case False
  then show ?thesis by (simp add: execute_configuration_node_def hist_returnE)
qed

section \<open>Executions\<close>

lemma dispatch_other: "\<not> runs_here rq \<Longrightarrow> dispatch dr other rq = other rq"
  by (auto simp: dispatch_def runs_here_def)

lemma hist_execute_other:
  assumes "\<not> runs_here rq" "\<And>h. hist P h (other rq) (\<lambda>_ _. True)"
  shows "hist P h (execute dr other has_local rq) (\<lambda>_ _. True)"
  unfolding execute_def dispatch_other[OF assms(1)]
  by (intro hist_if hist_raiseE hist_returnE hist_catchE[where Q = "\<lambda>_ _. True"] hist_bindE[where Q = "\<lambda>_ _. True"]
      hist_lift_bind assms(2) TrueI) (auto split: option.splits intro: hist_returnE hist_raiseE)

lemma quiet_at_client [simp]: "quiet_resolvers (at_client dr dc) = quiet_resolvers dr"
  by (simp add: quiet_resolvers_def at_client_def)

lemma at_client_simps [simp]:
  "dr_image_ok (at_client dr dc) = dr_image_ok dr" "dr_secrets (at_client dr dc) = dr_secrets dr"
  "dr_scheme (at_client dr dc) = dr_scheme dr" "dr_client (at_client dr dc) = dc"
  by (simp_all add: at_client_def)

lemma hist_run_other:
  assumes "quiet_resolvers dr" "\<not> runs_here rq"
  shows "hist (may_effect (dr_image_ok dr) rq) h (run_other di dr rq) (\<lambda>_ _. True)"
proof (cases "rr_operation rq = CleanupConfigurationInstances")
  case True
  then have "may_effect (dr_image_ok dr) rq = may_clean rq" by (intro ext) (simp add: may_effect_def)
  with True show ?thesis by (simp add: run_other_def hist_cleanup)
next
  case False
  show ?thesis
  proof (cases "is_configuration rq")
    case True
    with False have "may_effect (dr_image_ok dr) rq = may_configure (dr_image_ok dr) rq" by (intro ext) (simp add: may_effect_def)
    with True False show ?thesis by (simp add: run_other_def hist_configuration assms(1))
  qed (use False in \<open>simp add: run_other_def hist_wait\<close>)
qed

lemma hist_execution:
  assumes "quiet_resolvers dr"
  shows "hist (may_effect (dr_image_ok dr) rq) h (execute dr (run_other di dr) has_local rq) (\<lambda>_ _. True)"
proof (cases "runs_here rq")
  case True
  then have "may_effect (dr_image_ok dr) rq = may_change (dr_image_ok dr) rq"
    by (intro ext) (simp add: may_effect_def runs_here_def is_configuration_def)
  then show ?thesis using hist_mono[OF hist_execute[OF assms True]] by simp
qed (intro hist_execute_other hist_run_other assms)

lemma hist_execute_at:
  assumes "quiet_resolvers dr"
  shows "hist (may_effect (dr_image_ok dr) rq) h (execute_at di dr client rq) (\<lambda>_ _. True)"
proof (cases client)
  case None
  then show ?thesis by (simp add: execute_at_def hist_execution[OF assms])
next
  case (Some dc)
  then show ?thesis
    using hist_execution[of "at_client dr dc" rq h di False] assms by (simp add: execute_at_def)
qed

lemma hist_captured: "hist P h m Q \<Longrightarrow> hist P h (captured m) (\<lambda>_ _. True)"
  unfolding captured_def by (rule hist_attemptE[where Q = Q]) (simp_all add: hist_returnE)

lemma hist_execute_bound:
  assumes "quiet_resolvers dr"
  shows "hist (may_effect (dr_image_ok dr) rq) h (execute_bound di dr rq binding) (\<lambda>_ _. True)"
proof -
  have close: "quiet (captured (close_client dc))" for dc :: "'a docker_client"
    unfolding captured_def close_client_def by (intro quiet_attemptE quiet_callE quiet_ends) simp_all
  show ?thesis
    unfolding execute_bound_def
    by (cases binding)
      (auto intro!: hist_execute_at[OF assms] hist_bindE[OF hist_captured[OF hist_execute_at[OF assms]]]
        hist_bindE[OF hist_quiet[OF close]] hist_liftE)
qed

section \<open>Preparations\<close>

text \<open>The resolvers of an interpreter make no change and open no connection.\<close>

definition plain_resolvers :: "'w docker_runtime \<Rightarrow> bool" where
  "plain_resolvers dr \<longleftrightarrow>
     (\<forall>f g. ss_grant (dr_secrets dr) = Some f \<longrightarrow> only_emits plain_event (f g))
     \<and> (\<forall>f ref. ss_reference (dr_secrets dr) = Some f \<longrightarrow> only_emits plain_event (f ref))"

lemma plain_quiet: "only_emits plain_event m \<Longrightarrow> quiet m"
  unfolding quiet_def by (erule only_emits_mono) (auto elim: plain_event.elims)

lemma plain_resolvers_quiet: "plain_resolvers dr \<Longrightarrow> quiet_resolvers dr"
  unfolding plain_resolvers_def quiet_resolvers_def by (blast intro: plain_quiet)

lemma plain_authority_secrets:
  assumes "plain_resolvers dr"
  shows "only_emits plain_event (authority_secrets dr rq uses)"
proof (induction uses)
  case (Cons use uses)
  obtain reference intent where use: "use = (reference, intent)" by (cases use)
  have "only_emits plain_event (authority_secret dr rq reference intent)"
    using assms unfolding authority_secret_def plain_resolvers_def Let_def granted_value_def
    by (auto split: option.splits intro!: emit_intros)
  with Cons show ?case
    unfolding use authority_secrets.simps by (intro emit_intros)
qed simp

lemma plain_prepare:
  assumes "plain_resolvers dr"
  shows "only_emits plain_event (prepare_authority dr client intents au rq)"
proof -
  have "only_emits plain_event (remote_authority dr intents au rq)"
    unfolding remote_authority_def
    by (auto split: option.splits list.splits intro!: emit_intros plain_authority_secrets[OF assms])
  then show ?thesis
    unfolding prepare_authority_def by (auto split: option.splits intro!: emit_intros)
qed

lemma plain_request:
  "only_emits plain_event (case dr_request_ok dr rq of None \<Rightarrow> returnE () | Some e \<Rightarrow> raiseE e)"
  by (auto split: option.splits)

definition closed_by :: "dk_exn + unit \<Rightarrow> docker_event" where
  "closed_by c = ClientClosed (case c of Inl e \<Rightarrow> Some e | Inr _ \<Rightarrow> None)"

text \<open>A binding: what was prepared, and the connection that was made last, if any.\<close>

definition prepared :: "runtime_request \<Rightarrow> 'w docker_client option \<Rightarrow> docker_event list
    \<Rightarrow> dk_exn + (runtime_observation runtime_result + ('w docker_client \<times> bool)) \<Rightarrow> bool" where
  "prepared rq client evs r \<longleftrightarrow>
     (\<exists>pre. plain pre
        \<and> (case r of
            Inr (Inr (dc, owned)) \<Rightarrow> if owned then \<exists>t. evs = pre @ [ClientOpened t None] else evs = pre \<and> client = Some dc
          | Inr (Inl res) \<Rightarrow> evs = pre \<and> rr_operation rq = CleanupConfigurationInstances
          | Inl _ \<Rightarrow> evs = pre \<or> (\<exists>t e. evs = pre @ [ClientOpened t (Some e)])))"

lemma emits_plain_events: "only_emits plain_event m \<Longrightarrow> emits m (\<lambda>evs r. plain evs)"
  unfolding plain_def only_emits_def by (erule emits_mono) (simp add: list_all_iff)

lemma emits_prepare:
  assumes "plain_resolvers dr"
  shows "emits (prepare_authority dr client intents au rq) (\<lambda>evs r. plain evs \<and> (\<forall>dc. r = Inr (UseClient dc) \<longrightarrow> client = Some dc))"
proof (rule emits_conj[OF emits_plain_events[OF plain_prepare[OF assms]]])
  have remote: "emits (remote_authority dr intents au rq) (\<lambda>evs r. True)"
    using assms by (auto simp: remote_authority_def split: option.splits list.splits
        intro!: emit_intros emits_bindE[OF emits_plain_events[OF plain_authority_secrets[OF assms]]])
  show "emits (prepare_authority dr client intents au rq) (\<lambda>evs r. \<forall>dc. r = Inr (UseClient dc) \<longrightarrow> client = Some dc)"
    unfolding prepare_authority_def
    by (cases client) (auto intro!: emits_if emits_returnE emits_raiseE emits_bindE[OF remote])
qed

lemma emits_bind_authority:
  "emits (bind_authority connect a) (\<lambda>evs r. case a of
      UseClient dc \<Rightarrow> evs = [] \<and> r = Inr (dc, False)
    | Connect t \<Rightarrow> (case r of Inl e \<Rightarrow> evs = [ClientOpened t (Some e)] | Inr (dc, owned) \<Rightarrow> owned \<and> evs = [ClientOpened t None]))"
  unfolding bind_authority_def
  by (cases a) (auto intro!: emits_returnE emits_bindE[OF emits_callE_eq])

lemma prepared_plain: "plain evs \<Longrightarrow> prepared rq client evs (Inl e)"
  by (auto simp: prepared_def)

lemma emits_bind_runtime_authority:
  assumes "plain_resolvers (di_runtime di)"
  shows "emits (bind_runtime_authority di au rq) (prepared rq (di_client di))"
  unfolding bind_runtime_authority_def Let_def
proof (rule emits_bindE[OF emits_plain_events[OF plain_request]], rule emits_bindE[where P = "\<lambda>evs r. evs = []"], goal_cases)
  case (2 u evs u' evs')
  note outer = 2
  show ?case
  proof (rule emits_if, goal_cases)
    case 1
    show ?case
      by (cases "refused_cleanup_authority (di_cleanup di) rq")
        (use outer 1 in \<open>auto simp: prepared_def cleanup_refused_def intro!: emits_returnE emits_raiseE\<close>)
  next
    case 2
    show ?case
    proof (rule emits_bindE[OF emits_prepare[OF assms]], goal_cases)
      case (1 a evs2)
      show ?case
      proof (rule emits_bindE[OF emits_bind_authority], goal_cases)
        case (1 binding evs3)
        then show ?case
          using outer \<open>plain evs2 \<and> _\<close>
          by (cases a) (auto simp: prepared_def intro!: emits_returnE exI[of _ "evs @ evs2"] split: prod.splits)
      next
        case (2 e evs3)
        then show ?case
          using outer \<open>plain evs2 \<and> _\<close> by (cases a) (auto simp: prepared_def intro!: exI[of _ "evs @ evs2"])
      qed
    qed (use outer in \<open>auto intro: prepared_plain\<close>)
  qed
qed (auto simp: prepared_def intro: emits_liftE)

section \<open>Sessions\<close>

text \<open>The events and the result are those of a run.\<close>

definition ran :: "(('ev, 'w) st, 'e, 'a) eff \<Rightarrow> 'ev list \<Rightarrow> 'e + 'a \<Rightarrow> bool" where
  "ran m evs r \<longleftrightarrow> (\<exists>s s'. m s = (r, s') \<and> trace s' = trace s @ evs)"

lemma emits_ran: "emits m R \<Longrightarrow> emits m (ran m)"
  unfolding emits_def ran_def by (metis prod.collapse)

text \<open>
  The session of an execution with an authority: what it prepared, and one execution on a client,
  either the interpreter's own, or one that was connected for it and closed after it.
\<close>

definition ended_early :: "runtime_request \<Rightarrow> docker_event list \<Rightarrow> dk_exn + runtime_observation runtime_result \<Rightarrow> bool" where
  "ended_early rq evs r \<longleftrightarrow>
     (\<exists>pre. plain pre \<and> (evs = pre \<or> (\<exists>t e. evs = pre @ [ClientOpened t (Some e)])))
     \<and> (rr_operation rq \<noteq> CleanupConfigurationInstances \<longrightarrow> (\<forall>res. r = Inr res \<longrightarrow> re_kind res \<noteq> SUCCEEDED))"

definition on_ambient ::
  "('w, 'res, 'v) docker_interpreter \<Rightarrow> 'w docker_runtime \<Rightarrow> runtime_request \<Rightarrow> docker_event list
    \<Rightarrow> dk_exn + runtime_observation runtime_result \<Rightarrow> bool" where
  "on_ambient di dr rq evs r \<longleftrightarrow>
     (\<exists>pre dc inner. plain pre \<and> evs = pre @ inner \<and> di_client di = Some dc \<and> ran (execute_at di dr (Some dc) rq) inner r)"

definition on_connection ::
  "('w, 'res, 'v) docker_interpreter \<Rightarrow> 'w docker_runtime \<Rightarrow> runtime_request \<Rightarrow> docker_event list
    \<Rightarrow> dk_exn + runtime_observation runtime_result \<Rightarrow> bool" where
  "on_connection di dr rq evs r \<longleftrightarrow>
     (\<exists>pre t dc inner r0 c. plain pre \<and> evs = pre @ ClientOpened t None # inner @ [closed_by c]
        \<and> ran (execute_at di dr (Some dc) rq) inner r0 \<and> r = bound_result rq r0 c)"

lemma emits_execute_at: "quiet_resolvers dr \<Longrightarrow> emits (execute_at di dr client rq) (ran (execute_at di dr client rq))"
  using hist_execute_at[of dr rq "[]" di client] unfolding hist_def by (rule emits_ran)

lemma emits_captured: "emits m R \<Longrightarrow> emits (captured m) (\<lambda>evs r. \<exists>r0. r = Inr r0 \<and> R evs r0)"
  unfolding captured_def by (erule emits_attemptE) (auto intro: emits_returnE)

lemma emits_close_client: "emits (close_client dc) (\<lambda>evs c. evs = [closed_by c])"
  unfolding close_client_def closed_by_def by (rule emits_callE_eq)

lemma emits_execute_bound:
  assumes "quiet_resolvers dr"
  shows "emits (execute_bound di dr rq (dc, owned)) (\<lambda>evs r.
     if owned then \<exists>inner r0 c. evs = inner @ [closed_by c] \<and> ran (execute_at di dr (Some dc) rq) inner r0 \<and> r = bound_result rq r0 c
     else ran (execute_at di dr (Some dc) rq) evs r)"
proof (cases owned)
  case True
  have "emits (bindE (captured (execute_at di dr (Some dc) rq)) (\<lambda>result.
             bindE (captured (close_client dc)) (\<lambda>closed. liftE (bound_result rq result closed))))
      (\<lambda>evs r. \<exists>inner r0 c. evs = inner @ [closed_by c] \<and> ran (execute_at di dr (Some dc) rq) inner r0 \<and> r = bound_result rq r0 c)"
    by (rule emits_bindE[OF emits_captured[OF emits_execute_at[OF assms]]],
        rule emits_bindE[OF emits_captured[OF emits_close_client]], rule emits_liftE) auto
  with True show ?thesis by (simp add: execute_bound_def)
next
  case False
  then show ?thesis using emits_execute_at[OF assms] by (simp add: execute_bound_def)
qed

lemma emits_with_authority:
  assumes "plain_resolvers (di_runtime di)"
  shows "emits (execute_with_authority di au rq) (\<lambda>evs r.
     ended_early rq evs r \<or> on_ambient di (di_runtime di) rq evs r \<or> on_connection di (di_runtime di) rq evs r)"
proof -
  let ?S = "\<lambda>evs r. ended_early rq evs r \<or> on_ambient di (di_runtime di) rq evs r \<or> on_connection di (di_runtime di) rq evs r"
  have unsuccessful: "re_kind (preparation_failure rq f e) \<noteq> SUCCEEDED" for f e
    by (cases e) (simp_all add: preparation_failure_def authority_uncertain_def effect_ended_def)
  have no_events: "ended_early rq [] (Inl e)" for e by (auto simp: ended_early_def intro: exI[of _ "[]"])
  have wrong_kind: "ended_early rq [] (Inr res)" if "effect_kind_error rq = Some res" for res
    using that by (auto simp: ended_early_def effect_kind_error_def split: if_splits intro: exI[of _ "[]"])
  have bound: "emits (attemptE (bind_runtime_authority di au rq)
      (\<lambda>e. if dr_control (di_runtime di) e \<or> \<not> dk_is_exception e then raiseE e
            else returnE (preparation_failure rq bounded_error_message e))
      (\<lambda>prepared. case prepared of
          Inl res \<Rightarrow> returnE res
        | Inr binding \<Rightarrow> execute_bound di (di_runtime di) rq binding)) ?S"
  proof (rule emits_attemptE[OF emits_bind_runtime_authority[OF assms]], goal_cases)
    case (1 binding evs)
    show ?case
    proof (cases binding)
      case (Inl res)
      with 1 show ?thesis by (auto simp: prepared_def ended_early_def intro!: emits_returnE)
    next
      case (Inr b)
      obtain dc owned where b: "b = (dc, owned)" by (cases b)
      note made = 1[unfolded Inr b]
      show ?thesis
        unfolding Inr b sum.case
      proof (rule emits_mono[OF emits_execute_bound[OF plain_resolvers_quiet[OF assms]]], goal_cases)
        case (1 evs' r)
        then show ?case
          using made by (cases owned) (force simp: prepared_def on_connection_def, auto simp: prepared_def on_ambient_def)
      qed
    qed
  next
    case (2 e evs)
    then show ?case by (auto simp: prepared_def ended_early_def unsuccessful intro!: emits_if emits_returnE emits_raiseE)
  qed
  show ?thesis
    unfolding execute_with_authority_def Let_def
    by (intro emits_if emits_case_option emits_raiseE emits_returnE bound disjI1[OF no_events] disjI1[OF wrong_kind])
qed

lemma quiet_bind_runtime_authority:
  assumes "plain_resolvers (di_runtime di)"
  shows "quiet (bind_runtime_authority di au rq)"
proof -
  have "quiet (bind_authority connect a)" for connect and a :: "'a acquisition"
    unfolding bind_authority_def by (cases a) (auto intro!: hist_intros)
  then show ?thesis
    unfolding bind_runtime_authority_def Let_def
    by (auto intro!: hist_intros plain_quiet[OF plain_request] plain_quiet[OF plain_prepare[OF assms]])
qed

lemma hist_with_authority:
  assumes "plain_resolvers (di_runtime di)"
  shows "hist (may_effect (dr_image_ok (di_runtime di)) rq) h (execute_with_authority di au rq) (\<lambda>_ _. True)"
  unfolding execute_with_authority_def Let_def
  by (rule hist_if, rule hist_raiseE, cases "effect_kind_error rq")
    (auto intro!: hist_returnE hist_attemptE[OF hist_quiet[OF quiet_bind_runtime_authority[OF assms]]] hist_if hist_raiseE
      hist_execute_bound plain_resolvers_quiet[OF assms] split: sum.splits)

text \<open>
  whatever the provider answers, each change an execution with an authority makes is allowed, for
  the operation of the request, by the events before it: of an ordinary operation and of a
  configuration activity as for an execution on an ambient client, of a cleanup only the removal of
  a volume of an allocation of the request that was seen owned, local and unused; a wait for a healthy
  node changes nothing.
\<close>

theorem effect_changes_allowed:
  assumes "execute_with_authority di au rq s = (r, s')" and "trace s' = trace s @ seen @ Mutated mu x # later"
    and "plain_resolvers (di_runtime di)"
  shows "may_effect (dr_image_ok (di_runtime di)) rq seen mu"
  using hist_run(1)[OF hist_with_authority[OF assms(3)] assms(1,2)] by (auto simp: guarded_def)


lemma put_entry_keys: "k \<in> set (map fst es) \<Longrightarrow> map fst (put_entry k v es) = map fst es"
  by (auto simp: put_entry_def intro!: map_cong)

definition without_receipts :: "(string \<times> json) list \<Rightarrow> bool" where
  "without_receipts es \<longleftrightarrow> list_all (\<lambda>k. k \<notin> set receipts) (map fst es)"

lemma unreceipted_keys:
  assumes "unreceipted es = Inr es'"
  shows "without_receipts es'"
proof -
  define kept where "kept = filter (\<lambda>e. fst e \<notin> set receipts) es"
  have kept: "list_all (\<lambda>k. k \<notin> set receipts) (map fst kept)" by (auto simp: kept_def list_all_iff)
  note un = assms[unfolded unreceipted_def Let_def, folded kept_def]
  have "map fst es' = map fst kept"
  proof (cases "map_of kept ''secret_attempt''")
    case (Some v)
    then have "''secret_attempt'' \<in> set (map fst kept)"
      by (metis map_of_eq_None_iff option.distinct(1) set_map)
    note keys = put_entry_keys[OF this]
    show ?thesis
      using un unfolding Some by (cases v) (auto simp only: option.case json.case keys sum.inject sum.distinct)
  qed (use un in simp)
  with kept show ?thesis unfolding without_receipts_def by simp
qed

text \<open>
  when the client of an execution could not be closed, a result that is returned is uncertain, has
  no observation and no receipt or completion of an invocation in its evidence, and its failure says
  that the closing failed, whatever the execution had reported.
\<close>

theorem unclosed_client_is_uncertain:
  assumes "execute_bound di dr rq (dc, True) s = (Inr res, s')" and "trace s' = trace s @ evs @ [ClientClosed (Some e)]"
    and "quiet_resolvers dr"
  shows "re_kind res = UNCERTAIN_EFFECT \<and> re_observations res = [] \<and> re_failure res = Some close_failure
    \<and> without_receipts (re_evidence res)"
proof -
  from emitsD[OF emits_execute_bound[OF assms(3)] assms(1,2)] obtain r0 c
    where "closed_by c = ClientClosed (Some e)" "Inr res = bound_result rq r0 c" by auto
  then have "Inr res = bound_result rq r0 (Inl e)" by (cases c) (auto simp: closed_by_def)
  then obtain res0 where "close_uncertain rq res0 = Inr res"
    by (cases r0) (auto simp: bound_result_def split: if_splits)
  then show ?thesis
    by (auto simp: close_uncertain_def effect_ended_def bindR_Inr_iff without_receipts_def[of "[]"] dest: unreceipted_keys split: if_splits)
qed

lemma confirmed_at_client: "confirmed (at_client dr dc) rq m seen r \<Longrightarrow> confirmed dr rq m seen r"
  unfolding confirmed_def node_result_def by simp

text \<open>
  an execution with an authority that starts or reconciles a node succeeds only when the one
  execution it is made of confirmed the node: with a last inspection, as for an ambient client, and a
  connection that was closed without an error.
\<close>

theorem authorized_start_confirmed:
  assumes "execute_with_authority di au rq s = (Inr res, s')" and "trace s' = trace s @ evs"
    and "re_kind res = SUCCEEDED" and "rr_operation rq \<in> {StartNode, ReconcileNode}"
    and "plain_resolvers (di_runtime di)" and "runs_here rq"
  shows "\<exists>m pre inner later. rr_products rq = [m] \<and> evs = pre @ inner @ later
    \<and> confirmed (di_runtime di) rq m inner res \<and> (later = [] \<or> later = [ClientClosed None])"
proof -
  let ?dr = "di_runtime di"
  have confirms: "\<exists>m. rr_products rq = [m] \<and> confirmed ?dr rq m inner res"
    if "ran (execute_at di ?dr (Some dc) rq) inner (Inr res)" for dc inner
  proof -
    from that obtain t t' where run: "execute (at_client ?dr dc) (run_other di (at_client ?dr dc)) False rq t = (Inr res, t')"
      "trace t' = trace t @ inner"
      by (auto simp: ran_def execute_at_def)
    have "quiet_resolvers (at_client ?dr dc)" using assms(5) by (simp add: plain_resolvers_quiet)
    from hist_run(2)[OF hist_execute[OF this assms(6)] run refl] assms(3,4) confirmed_at_client show ?thesis
      by (auto simp: run_confirmed_def starts_node_def)
  qed
  from emitsD[OF emits_with_authority[OF assms(5)] assms(1,2)] show ?thesis
  proof (elim disjE)
    assume "on_ambient di ?dr rq evs (Inr res)"
    then show ?thesis
      unfolding on_ambient_def by (metis append_Nil2 confirms)
  next
    assume "on_connection di ?dr rq evs (Inr res)"
    then obtain pre t dc inner r0 c where evs: "evs = pre @ ClientOpened t None # inner @ [closed_by c]"
      and run: "ran (execute_at di ?dr (Some dc) rq) inner r0" and res: "Inr res = bound_result rq r0 c"
      unfolding on_connection_def by blast
    have "\<exists>u. c = Inr u"
      using res assms(3) by (cases c; cases r0)
        (auto simp: bound_result_def close_uncertain_def effect_ended_def bindR_Inr_iff dest!: sym[of "Inr res"] split: if_splits)
    with res have r0: "r0 = Inr res" and c: "closed_by c = ClientClosed None" by (auto simp: bound_result_def closed_by_def)
    obtain m where "rr_products rq = [m]" "confirmed ?dr rq m inner res" using confirms[OF run[unfolded r0]] by blast
    moreover have "evs = (pre @ [ClientOpened t None]) @ inner @ [ClientClosed None]" using evs c by simp
    ultimately show ?thesis by blast
  qed (use assms(3,6) in \<open>auto simp: ended_early_def runs_here_def\<close>)
qed

section \<open>Samples\<close>

text \<open>
  An interpreter with a local policy and the authority of the local socket, whose connection is the
  sample client and whose closing ends with \<open>c\<close>.
\<close>

definition sample_connection :: "runtime_operation \<Rightarrow> dk_exn + unit \<Rightarrow> unit docker_client" where
  "sample_connection op c = (sample_docker_client op (Inr []))\<lparr>dc_close := \<lambda>w. (c, w)\<rparr>"

definition sample_interpreter :: "runtime_operation \<Rightarrow> dk_exn + unit \<Rightarrow> (unit, string, string) docker_interpreter" where
  "sample_interpreter op c =
     \<lparr>di_runtime = sample_runtime op (Inr []), di_client = None, di_connect = (\<lambda>_ w. (Inr (sample_connection op c), w)),
      di_intents = [], di_core = trivial_core, di_cleanup = (\<lambda>_ _. Inl ContractError), di_health = sample_health_ports\<rparr>"

definition sample_authority_fact :: authority_fact where
  "sample_authority_fact = \<lparr>au_runtime = ''docker'', au_kind = ''local-docker-socket'', au_endpoint = None, au_references = []\<rparr>"

definition sample_stopped_result :: "runtime_observation runtime_result" where
  "sample_stopped_result = effect_succeeded (sample_effect StopNode) (stopped_evidence (sample_effect StopNode) sample_product ''stopped'') []"

definition sample_stop_events :: "docker_event list" where
  "sample_stop_events =
     [ContainerRead (container_name (sample_effect StopNode) ''api'') (Inr (Some (sample_container StopNode))),
      Mutated (StopContainer (container_name (sample_effect StopNode) ''api'')) (Inr [])]"

lemma sample_stop_at:
  "execute_at di (sample_runtime StopNode (Inr [])) (Some (sample_connection StopNode c)) (sample_effect StopNode) \<lparr>trace = tr, world = ()\<rparr>
     = (Inr sample_stopped_result, \<lparr>trace = tr @ sample_stop_events, world = ()\<rparr>)"
  by (simp add: execute_at_def at_client_def sample_connection_def sample_runs stop_node_def Let_def inspect_container_def perform_def
      mutate_def eff_defs sample_product_def[THEN arg_cong[where f = pm_node]] sample_stop_events_def sample_stopped_result_def)

lemma sample_start_at:
  "execute_at di (sample_runtime StartNode (Inr [])) (Some (sample_connection StartNode c)) (sample_effect StartNode) \<lparr>trace = tr, world = ()\<rparr>
     = (Inr (node_result (sample_runtime StartNode (Inr [])) (sample_effect StartNode) sample_product ''reused'' (sample_container StartNode)),
        \<lparr>trace = tr @ sample_started, world = ()\<rparr>)"
  by (simp add: execute_at_def at_client_def sample_connection_def sample_runs start_node_def Let_def inspect_container_def inspect_image_def
      inspect_network_def eff_defs authority_delivery_material_def start_node_call_def require_started_def
      require_correlation_def require_node_network_def require_container_authority_def authority_conformance_def
      product_secrets_def resolve_secret_deliveries_def image_pull_auth_def admit_image_def preflight_secret_files_def
      no_deliveries_def sample_started_def sample_image_matches
      sample_container_def sample_network_def sample_product_def sample_image_def node_result_def)

lemma sample_binding:
  assumes "op = StopNode \<or> op = StartNode"
  shows "bind_runtime_authority (sample_interpreter op c) sample_authority_fact (sample_effect op) idle
     = (Inr (Inr (sample_connection op c, True)), \<lparr>trace = [ClientOpened UnixTarget None], world = ()\<rparr>)"
  using assms
  by (auto simp: bind_runtime_authority_def sample_interpreter_def sample_authority_fact_def sample_runs cleanup_refused_def
      prepare_authority_def bind_authority_def eff_defs idle_def)

lemma sample_kind: "effect_kind_error (sample_effect op) = None" "dr_port_missing (sample_runtime op r) = False"
  by (simp_all add: effect_kind_error_def sample_runtime_def)

lemma sample_bound:
  "execute_bound (sample_interpreter StopNode c) (sample_runtime StopNode (Inr [])) (sample_effect StopNode) (sample_connection StopNode c, True)
      \<lparr>trace = tr, world = ()\<rparr>
    = (bound_result (sample_effect StopNode) (Inr sample_stopped_result) c, \<lparr>trace = tr @ sample_stop_events @ [closed_by c], world = ()\<rparr>)"
  "execute_bound (sample_interpreter StartNode c) (sample_runtime StartNode (Inr [])) (sample_effect StartNode) (sample_connection StartNode c, True)
      \<lparr>trace = tr, world = ()\<rparr>
    = (bound_result (sample_effect StartNode) (Inr (node_result (sample_runtime StartNode (Inr [])) (sample_effect StartNode) sample_product
        ''reused'' (sample_container StartNode))) c, \<lparr>trace = tr @ sample_started @ [closed_by c], world = ()\<rparr>)"
  by (cases c; simp add: execute_bound_def captured_def eff_defs sample_stop_at sample_start_at close_client_def closed_by_def
      sample_connection_def[THEN arg_cong[where f = dc_close]])+

lemma sample_session:
  "execute_with_authority (sample_interpreter StopNode (Inr ())) sample_authority_fact (sample_effect StopNode) idle
    = (Inr sample_stopped_result, \<lparr>trace = ClientOpened UnixTarget None # sample_stop_events @ [ClientClosed None], world = ()\<rparr>)"
  "execute_with_authority (sample_interpreter StartNode (Inr ())) sample_authority_fact (sample_effect StartNode) idle
    = (Inr (node_result (sample_runtime StartNode (Inr [])) (sample_effect StartNode) sample_product ''reused'' (sample_container StartNode)),
       \<lparr>trace = ClientOpened UnixTarget None # sample_started @ [ClientClosed None], world = ()\<rparr>)"
  using sample_binding[of StopNode "Inr ()"] sample_binding[of StartNode "Inr ()"]
  by (simp_all add: execute_with_authority_def sample_interpreter_def[THEN arg_cong[where f = di_runtime]] sample_kind attemptE_def Let_def
      sample_bound bound_result_def closed_by_def)

lemma sample_plain: "plain_resolvers (di_runtime (sample_interpreter op c))"
  by (simp add: plain_resolvers_def sample_interpreter_def sample_runtime_def)

lemma effect_changes_allowed_witness:
  "may_effect (\<lambda>_ _ _. True) (sample_effect StopNode)
     [ClientOpened UnixTarget None, ContainerRead (container_name (sample_effect StopNode) ''api'') (Inr (Some (sample_container StopNode)))]
     (StopContainer (container_name (sample_effect StopNode) ''api''))"
  using effect_changes_allowed[OF sample_session(1) _ sample_plain, of _ _ "Inr []" "[ClientClosed None]"]
  by (simp add: idle_def sample_stop_events_def sample_interpreter_def sample_runtime_def)


lemma unclosed_client_is_uncertain_witness:
  "re_kind (effect_ended (sample_effect StopNode) UNCERTAIN_EFFECT close_failure :: runtime_observation runtime_result) = UNCERTAIN_EFFECT"
proof -
  let ?e = "ProviderFault OtherClass ''OSError''"
  have "execute_bound (sample_interpreter StopNode (Inl ?e)) (sample_runtime StopNode (Inr [])) (sample_effect StopNode)
      (sample_connection StopNode (Inl ?e), True) idle
    = (Inr (effect_ended (sample_effect StopNode) UNCERTAIN_EFFECT close_failure),
       \<lparr>trace = sample_stop_events @ [ClientClosed (Some ?e)], world = ()\<rparr>)"
    using sample_bound(1)[of "Inl ?e" "[]"]
    by (simp add: idle_def bound_result_def close_uncertain_def is_configuration_def has_selected_secrets_def closed_by_def)
  from unclosed_client_is_uncertain[OF this _ sample_quiet, of sample_stop_events ?e] show ?thesis by (simp add: idle_def)
qed

lemma authorized_start_confirmed_witness:
  "\<exists>m pre inner later. rr_products (sample_effect StartNode) = [m]
     \<and> ClientOpened UnixTarget None # sample_started @ [ClientClosed None] = pre @ inner @ later
     \<and> confirmed (sample_runtime StartNode (Inr [])) (sample_effect StartNode) m inner
         (node_result (sample_runtime StartNode (Inr [])) (sample_effect StartNode) sample_product ''reused'' (sample_container StartNode))
     \<and> (later = [] \<or> later = [ClientClosed None])"
  using authorized_start_confirmed[OF sample_session(2) _ _ _ sample_plain, of "ClientOpened UnixTarget None # sample_started @ [ClientClosed None]"]
  by (simp add: idle_def sample_interpreter_def[THEN arg_cong[where f = di_runtime]] runs_here_def has_selected_secrets_def
      node_result_def effect_succeeded_def)

end
