(* ===== verification/Docker_Invoked_Props.thy ===== *)
theory Docker_Invoked_Props
  imports Docker_Invoked Docker_Session_Props
begin

text \<open>
  The properties of invoked executions: a dispatch resolves no secret that was not prepared and makes
  only changes that are allowed; an ordinary verification changes nothing, closes the connection it made
  and succeeds only when every check was shown.
\<close>

section \<open>Invocations\<close>

lemma docker_port_events [simp]: "plain_event (vo_admit docker_vocabulary k x)" "plain_event (vo_record docker_vocabulary k x)"
  "\<not> is_http_probe (vo_admit docker_vocabulary k x)" "\<not> is_http_probe (vo_record docker_vocabulary k x)"
  by (simp_all add: docker_vocabulary_def)

definition aside :: "'c \<Rightarrow> docker_event list \<Rightarrow> 'c \<Rightarrow> bool" where
  "aside c evs c' \<longleftrightarrow> plain evs \<and> probes evs = 0 \<and> c' = c"

lemma local_admit: "local_runs c (port_admit docker_vocabulary (lift_invocation_port p) kind a) (\<lambda>evs r c'. aside c evs c')"
  by (cases "ip_admit p")
    (auto simp: port_admit_def lift_invocation_port_def aside_def intro!: local_raiseE local_callE)

lemma local_record: "local_runs c (port_record docker_vocabulary (lift_invocation_port p) permit result) (\<lambda>evs r c'. aside c evs c')"
  by (cases "ip_record_outcome p")
    (auto simp: port_record_def lift_invocation_port_def aside_def intro!: local_raiseE local_callE)

lemma local_finish:
  "local_runs c (finish docker_vocabulary (lift_invocation_port p) permit x) (\<lambda>evs r c'. aside c evs c' \<and> (x \<noteq> None \<longrightarrow> isl r))"
proof (cases x)
  case None
  then show ?thesis by (simp add: finish_def local_record)
next
  case (Some e)
  have raised: "local_runs c' (raiseE e) (\<lambda>evs' r c''. aside c (evs @ evs') c'' \<and> isl r)" if "aside c evs c'" for evs c'
    using that by (auto intro: local_raiseE)
  show ?thesis
    unfolding finish_def Some option.case
  proof (cases "vo_is_cancelled docker_vocabulary e", goal_cases)
    case 1
    have "local_runs c (catchE (vo_is_exception docker_vocabulary) (port_record docker_vocabulary (lift_invocation_port p) permit ''unknown'')
        (\<lambda>_. returnE ())) (\<lambda>evs r c'. aside c evs c')"
      by (rule local_catchE[OF local_record]) (auto intro: local_returnE local_raiseE)
    with 1 show ?case by (auto intro!: local_bindE[where P = "\<lambda>evs r c'. aside c evs c'"] raised elim: local_mono)
  next
    case 2
    then show ?case by (auto intro!: local_bindE[OF local_record] raised)
  qed
qed

lemma local_invoke:
  assumes call: "local_runs c call R" and q: "q = lift_invocation_port p"
  shows "local_runs c (invoke docker_vocabulary (Some q) kind call a) (\<lambda>evs r c'.
     aside c evs c' \<and> isl r
     \<or> (\<exists>pre inner post r0. evs = pre @ inner @ post \<and> aside c pre c \<and> aside c post c \<and> R inner r0 c' \<and> (\<forall>v. r = Inr v \<longrightarrow> r0 = Inr v)))"
    (is "local_runs c _ ?S")
proof (cases "control_errors docker_vocabulary (Some q) False")
  case (Inl e)
  then show ?thesis by (auto simp: invoke_def aside_def intro!: local_raiseE)
next
  case (Inr controls)
  have start: "invoke docker_vocabulary (Some q) kind call a =
      bindE (port_admit docker_vocabulary q kind a) (\<lambda>permit.
         attemptE call
           (\<lambda>e. if matches_any controls e then raiseE e
                 else bindE (finish docker_vocabulary q permit (Some e)) (\<lambda>_. raiseE e))
           (\<lambda>result. bindE (finish docker_vocabulary q permit None) (\<lambda>_. returnE result)))"
    by (simp add: invoke_def Inr)
  have joined: "?S (pre @ inner @ post) r c'" if "aside c pre c" "aside c' post c''" "R inner r0 c'" "\<forall>v. r = Inr v \<longrightarrow> r0 = Inr v"
    for pre inner post r r0 c' c''
    using that by (intro disjI2 exI[of _ pre] exI[of _ inner] exI[of _ post] exI[of _ r0]) (auto simp: aside_def)
  show ?thesis
    unfolding start
  proof (rule local_bindE[OF local_admit[of c p, folded q]], goal_cases)
    case (1 permit pre c0)
    then have pre: "aside c pre c" and c0: "c0 = c" by (auto simp: aside_def)
    show ?case
      unfolding c0
    proof (rule local_attemptE[OF call], goal_cases)
      case (1 v inner c')
      show ?case
      proof (rule local_bindE[OF local_finish[of c' p, folded q]], goal_cases)
        case (1 u post c'')
        with \<open>R inner _ _\<close> pre show ?case
          by (intro local_returnE) (auto simp: aside_def intro!: joined[where r0 = "Inr v" and c'' = c', simplified])
      next
        case (2 e post c'')
        with \<open>R inner _ _\<close> pre show ?case by (auto simp: aside_def intro!: joined[where r0 = "Inr v" and c'' = c', simplified])
      qed
    next
      case (2 e inner c')
      show ?case
      proof (cases "matches_any controls e")
        case True
        have "?S (pre @ inner @ []) (Inl e) c'"
          by (rule joined[where r0 = "Inl e" and c'' = c']) (use 2 pre in \<open>simp_all add: aside_def\<close>)
        then have "local_runs c' (raiseE e) (\<lambda>evs'. ?S (pre @ inner @ evs'))" by (rule local_raiseE)
        with True show ?thesis by (simp only: if_True)
      next
        case False
        have "local_runs c' (bindE (finish docker_vocabulary q permit (Some e)) (\<lambda>_. raiseE e))
            (\<lambda>evs' r c''. ?S (pre @ inner @ evs') r c'')"
          by (rule local_bindE[OF local_finish[of c' p, folded q]]) (use 2 pre in \<open>auto simp: aside_def intro!: joined[where c'' = c', simplified] local_raiseE\<close>)
        with False show ?thesis by simp
      qed
    qed
  next
    case (2 e pre c0)
    then show ?case by (auto simp: aside_def)
  qed
qed

section \<open>Ordinary verification\<close>

lemma endpoints_read_at [simp]:
  "endpoints_read (at_client (without_legacy dr) dc) rq m eps seen = endpoints_read dr rq m eps seen"
  by (simp add: endpoints_read_def without_legacy_def)

text \<open>An acquisition: no binding when it could not connect, and otherwise the one it made, with the endpoints that were read.\<close>

definition connecting_events :: "bool \<Rightarrow> docker_event list \<Rightarrow> bool" where
  "connecting_events owned evs \<longleftrightarrow> (if owned then \<exists>t. evs = [ClientOpened t None] else evs = [])"

definition endpoints_known :: "'w docker_runtime \<Rightarrow> runtime_request \<Rightarrow> probe_endpoint list \<Rightarrow> docker_event list \<Rightarrow> bool" where
  "endpoints_known dr rq eps seen \<longleftrightarrow>
     (\<exists>m. single_product rq = Inr m \<and> (pm_checks m \<noteq> [] \<longrightarrow> endpoints_read dr rq m eps seen))"

definition acquired_as :: "'w docker_runtime \<Rightarrow> runtime_request \<Rightarrow> docker_event list \<Rightarrow> dk_exn + probe_endpoint list
    \<Rightarrow> ('w docker_client \<times> bool) option \<Rightarrow> bool" where
  "acquired_as dr rq evs r binding \<longleftrightarrow>
     (case binding of
        None \<Rightarrow> isl r \<and> (\<exists>t e. evs = [ClientOpened t (Some e)])
      | Some (dc, owned) \<Rightarrow>
          (\<exists>connecting reading. evs = connecting @ reading \<and> connecting_events owned connecting \<and> plain reading \<and> probes reading = 0
             \<and> (\<forall>eps. r = Inr eps \<longrightarrow> endpoints_known dr rq eps reading)))"

lemma emits_bound_endpoints:
  "emits (bound_endpoints dr dc rq) (\<lambda>evs r. plain evs \<and> probes evs = 0 \<and> (\<forall>eps. r = Inr eps \<longrightarrow> endpoints_known dr rq eps evs))"
proof (cases "single_product rq")
  case (Inl e)
  then show ?thesis by (simp add: bound_endpoints_def emits_raiseE)
next
  case (Inr m)
  show ?thesis
    unfolding bound_endpoints_def Inr liftE_simps bindE_returnE
    by (rule emits_if, rule emits_mono[OF emits_endpoints]) (auto simp: endpoints_known_def Inr intro: emits_returnE)
qed

lemma acquired_asI:
  "connecting_events owned connecting \<Longrightarrow> plain reading \<Longrightarrow> probes reading = 0
    \<Longrightarrow> (\<And>eps. r = Inr eps \<Longrightarrow> endpoints_known dr rq eps reading) \<Longrightarrow> acquired_as dr rq (connecting @ reading) r (Some (dc, owned))"
  unfolding acquired_as_def option.case prod.case by blast

lemma local_acquire: "local_runs None (acquire_ordinary di a rq) (acquired_as (di_runtime di) rq)"
proof -
  have bound: "emits (bindE (bind_authority (di_connect di) a) (\<lambda>b. returnE (b, Some b))) (\<lambda>evs x. case x of
      Inl e \<Rightarrow> \<exists>t. evs = [ClientOpened t (Some e)] | Inr (b, c) \<Rightarrow> c = Some b \<and> connecting_events (snd b) evs)"
    by (rule emits_bindE[OF emits_bind_authority]) (cases a; auto simp: connecting_events_def intro!: emits_returnE split: prod.splits)+
  show ?thesis
    unfolding acquire_ordinary_def
  proof (rule local_bindE[OF local_with[OF bound]], goal_cases)
    case (1 b evs c')
    obtain dc owned where b: "b = (dc, owned)" by (cases b)
    show ?case
      unfolding b prod.case
      by (rule local_mono[OF local_hoist[OF emits_bound_endpoints]])
        (use 1 b in \<open>auto intro: acquired_asI\<close>)
  qed (auto simp: acquired_as_def)
qed

definition left_open :: "('w docker_client \<times> bool) option \<Rightarrow> bool" where
  "left_open binding = (case binding of Some (dc, owned) \<Rightarrow> owned | None \<Rightarrow> False)"

lemma observing_plain_events: "plain evs \<Longrightarrow> observing_run st evs = Some st"
  by (rule observing_plain) (simp add: plain_def list_all_iff)

lemma plain_unclosed: "plain evs \<Longrightarrow> ClientClosed e \<notin> set evs"
  by (auto simp: plain_def)

lemma endpoints_read_later: "endpoints_read dr rq m eps seen \<Longrightarrow> set seen \<subseteq> set seen' \<Longrightarrow> endpoints_read dr rq m eps seen'"
  unfolding endpoints_read_def by blast

lemma health_shown_later: "health_shown dr rq None m seen \<Longrightarrow> set seen \<subseteq> set seen' \<Longrightarrow> health_shown dr rq None m seen'"
  unfolding health_shown_def option.case by (meson endpoints_read_later check_shown_later)

lemma endpoints_known_later: "endpoints_known dr rq eps seen \<Longrightarrow> set seen \<subseteq> set seen' \<Longrightarrow> endpoints_known dr rq eps seen'"
  unfolding endpoints_known_def endpoints_read_def by blast

lemma emits_acquisition:
  assumes q: "q = lift_invocation_port p"
  shows "emits (run_local None (invoke docker_vocabulary (Some q) kind (acquire_ordinary di a rq) None)) (\<lambda>evs x. \<exists>r binding.
    x = Inr (r, binding) \<and> probes evs = 0 \<and> observing_run False evs = Some (left_open binding) \<and> (\<forall>e. ClientClosed e \<notin> set evs)
    \<and> (\<forall>eps. r = Inr eps \<longrightarrow> binding \<noteq> None \<and> endpoints_known (di_runtime di) rq eps evs))"
proof (rule emits_mono[OF emits_run_local[OF local_invoke[OF local_acquire q]]], goal_cases)
  case (1 evs x)
  then obtain r binding where x: "x = Inr (r, binding)" and run: "aside None evs binding \<and> isl r \<or> (\<exists>pre inner post r0. evs = pre @ inner @ post
      \<and> aside None pre (None :: ('a docker_client \<times> bool) option) \<and> aside None post (None :: ('a docker_client \<times> bool) option)
      \<and> acquired_as (di_runtime di) rq inner r0 binding \<and> (\<forall>v. r = Inr v \<longrightarrow> r0 = Inr v))" by blast
  from run show ?case
  proof (elim disjE exE conjE)
    assume "aside None evs binding" "isl r"
    then show ?thesis using x by (auto simp: aside_def left_open_def observing_plain_events plain_unclosed)
  next
    fix pre inner post r0
    assume parts: "evs = pre @ inner @ post" "aside None pre (None :: ('a docker_client \<times> bool) option)"
      "aside None post (None :: ('a docker_client \<times> bool) option)" "acquired_as (di_runtime di) rq inner r0 binding"
      "\<forall>v. r = Inr v \<longrightarrow> r0 = Inr v"
    have known: "endpoints_known (di_runtime di) rq eps evs" if "endpoints_known (di_runtime di) rq eps reading" "set reading \<subseteq> set inner"
      for eps reading
      using that parts(1) by (auto elim!: endpoints_known_later)
    show ?thesis
    proof (cases binding)
      case None
      with parts x show ?thesis
        by (auto simp: acquired_as_def aside_def left_open_def observing_append observing_plain_events plain_unclosed)
    next
      case (Some b)
      obtain dc owned where b: "b = (dc, owned)" by (cases b)
      from parts(4) Some b obtain connecting reading where inner: "inner = connecting @ reading" "connecting_events owned connecting"
        "plain reading" "probes reading = 0" "\<forall>eps. r0 = Inr eps \<longrightarrow> endpoints_known (di_runtime di) rq eps reading"
        by (auto simp: acquired_as_def)
      have run: "observing_run False evs = Some owned" "probes evs = 0" "\<forall>e. ClientClosed e \<notin> set evs"
        using parts(1-3) inner
        by (auto simp: aside_def connecting_events_def observing_append observing_plain_events plain_unclosed split: if_splits)
      have "endpoints_known (di_runtime di) rq eps evs" if "r = Inr eps" for eps
        using that parts(5) inner by (intro known[of _ reading]) auto
      with run Some b x show ?thesis by (auto simp: left_open_def)
    qed
  qed
qed

lemma emits_bound_wait:
  assumes "\<forall>eps. acquired = Inr eps \<longrightarrow> binding \<noteq> None \<and> endpoints_known (di_runtime di) rq eps seen"
  shows "emits (bound_wait di for_check rq binding acquired) (\<lambda>evs r. plain evs \<and> probes evs \<le> sum_list (map probe_budget (checks_of rq))
     \<and> (\<forall>res. r = Inr res \<longrightarrow> re_kind res = SUCCEEDED \<longrightarrow>
          (\<exists>m. single_product rq = Inr m \<and> health_shown (di_runtime di) rq None m (seen @ evs))))"
proof (cases acquired)
  case (Inl e)
  then show ?thesis by (simp add: bound_wait_def emits_raiseE)
next
  case (Inr eps)
  with assms obtain dc owned where binding: "binding = Some (dc, owned)" and known: "endpoints_known (di_runtime di) rq eps seen" by auto
  have wait: "bound_wait di for_check rq binding acquired =
      wait_for_healthy (health_without_legacy (di_health di)) (at_client (without_legacy (di_runtime di)) dc) rq (Some eps) (Some for_check)"
    by (simp add: bound_wait_def Inr binding)
  have shown: "health_shown (di_runtime di) rq None m (seen @ evs)"
    if "single_product rq = Inr m" "health_shown (at_client (without_legacy (di_runtime di)) dc) rq (Some eps) m evs" for m evs
  proof (cases "pm_checks m = []")
    case False
    with that known have "endpoints_read (di_runtime di) rq m eps (seen @ evs)"
      unfolding endpoints_known_def by (auto elim: endpoints_read_later)
    moreover have "\<forall>c \<in> set (pm_checks m). check_shown rq m eps (seen @ evs) c"
      using that(2) False by (auto simp: health_shown_def intro: check_shown_later)
    ultimately show ?thesis unfolding health_shown_def by auto
  qed (simp add: health_shown_def)
  show ?thesis
    unfolding wait by (rule emits_mono[OF emits_wait]) (auto simp: waited_def intro: shown)
qed

text \<open>An ordinary verification as a whole.\<close>

definition verification_settled :: "'w docker_runtime \<Rightarrow> runtime_request \<Rightarrow> docker_event list \<Rightarrow> dk_exn + runtime_observation runtime_result \<Rightarrow> bool"
  where
  "verification_settled dr rq evs r \<longleftrightarrow>
     observing_run False evs = Some False
     \<and> (\<forall>res. r = Inr res \<longrightarrow> re_kind res = SUCCEEDED \<longrightarrow>
          (\<exists>m. single_product rq = Inr m \<and> health_shown dr rq None m evs) \<and> (\<forall>e. ClientClosed (Some e) \<notin> set evs))"

lemma emits_close_binding:
  "emits (close_binding binding) (\<lambda>evs x. \<exists>c. x = Inr c \<and> (if left_open binding then evs = [closed_by c] else evs = [] \<and> c = Inr ()))"
proof (cases "left_open binding")
  case True
  then obtain dc where "binding = Some (dc, True)" by (auto simp: left_open_def split: option.splits)
  then show ?thesis
    using emits_captured[OF emits_close_client] True by (auto simp: close_binding_def elim: emits_mono)
next
  case False
  then show ?thesis
    by (cases binding) (auto simp: close_binding_def left_open_def intro!: emits_returnE split: prod.splits bool.splits)
qed

lemma emits_ordinary:
  "emits (execute_ordinary_invoked di port controls for_check a rq) (verification_settled (di_runtime di) rq)"
  unfolding execute_ordinary_invoked_def
proof (rule emits_bindE[OF emits_acquisition[OF refl]], goal_cases)
  case (1 x evs)
  then obtain r binding where x: "x = (r, binding)" and acquired: "probes evs = 0" "observing_run False evs = Some (left_open binding)"
    "\<forall>e. ClientClosed e \<notin> set evs" "\<forall>eps. r = Inr eps \<longrightarrow> binding \<noteq> None \<and> endpoints_known (di_runtime di) rq eps evs" by auto
  show ?case
    unfolding x prod.case
  proof (rule emits_bindE[OF emits_captured[OF emits_bound_wait[OF acquired(4)]]], rule emits_bindE[OF emits_close_binding],
      rule emits_liftE, goal_cases)
    case (1 result evs2 closing evs3)
    then have waiting: "plain evs2" "probes evs2 \<le> sum_list (map probe_budget (checks_of rq))"
      "\<And>res. result = Inr res \<Longrightarrow> re_kind res = SUCCEEDED \<Longrightarrow> (\<exists>m. single_product rq = Inr m \<and> health_shown (di_runtime di) rq None m (evs @ evs2))"
      and closed: "if left_open binding then evs3 = [closed_by closing] else evs3 = [] \<and> closing = Inr ()" by auto
    have later: "health_shown (di_runtime di) rq None m (evs @ evs2 @ evs3)" if "health_shown (di_runtime di) rq None m (evs @ evs2)" for m
      using that by (rule health_shown_later) auto
    have run: "observing_run False (evs @ evs2 @ evs3) = Some False"
      using acquired waiting closed by (auto simp: observing_append observing_plain_events closed_by_def split: if_splits)
    have returned: "result = Inr res \<and> (\<exists>u. closing = Inr u)"
      if "ordinary_result rq controls result closing = Inr res" "re_kind res = SUCCEEDED" for res
      using that by (auto simp: ordinary_result_def Let_def effect_ended_def split: sum.splits if_splits)
    have unclosed: "ClientClosed (Some e) \<notin> set (evs @ evs2 @ evs3)" if "closing = Inr u" for e u
      using that acquired(3) waiting(1) closed by (auto simp: plain_unclosed closed_by_def split: if_splits)
    show ?case
      unfolding verification_settled_def append_Nil2
    proof (intro conjI allI impI run)
      fix res
      assume "ordinary_result rq controls result closing = Inr res" "re_kind res = SUCCEEDED"
      note ret = returned[OF this] and ok = this(2)
      from ret waiting(3)[OF _ ok] later show "\<exists>m. single_product rq = Inr m \<and> health_shown (di_runtime di) rq None m (evs @ evs2 @ evs3)"
        by metis
      show "ClientClosed (Some e) \<notin> set (evs @ evs2 @ evs3)" for e
        using ret unclosed by metis
    qed
  qed auto
qed auto

section \<open>Preparation\<close>

lemma only_with_local:
  assumes "\<And>c. only_emits P (f c)"
  shows "only_emits P (with_local f)"
  unfolding only_emits_def
proof (rule emitsI)
  note only = assms[unfolded only_emits_def]
  fix s r s'
  assume run: "with_local f s = (r, s')"
  let ?s = "\<lparr>trace = trace s, world = fst (world s)\<rparr>"
  obtain x t where x: "f (snd (world s)) ?s = (x, t)" by (cases "f (snd (world s)) ?s")
  obtain evs where "trace t = trace ?s @ evs" "\<forall>ev \<in> set evs. P ev"
    using emitsE[OF only x] by metis
  with x run show "\<exists>evs. trace s' = trace s @ evs \<and> (\<forall>ev \<in> set evs. P ev)"
    by (auto simp: with_local_def split: sum.splits prod.splits)
qed

lemma only_prepared_grant:
  "(\<And>g. only_emits plain_event (resolve g)) \<Longrightarrow> only_emits plain_event (prepared_grant port resolve g cache)"
  unfolding prepared_grant_def prepared_resolve_def
  by (auto intro!: emit_intros only_emits_invoke simp: docker_vocabulary_def split: option.splits)

lemma plain_preparing: "plain_resolvers dr \<Longrightarrow> plain_resolvers (preparing_runtime port controls dr)"
  by (auto simp: plain_resolvers_def preparing_runtime_def preparing_secrets_def intro!: only_with_local only_prepared_grant)

lemma preparing_simps [simp]:
  "dr_request_ok (preparing_runtime port controls dr) = dr_request_ok dr"
  by (simp add: preparing_runtime_def)

lemma plain_granted_value: "(\<And>g. only_emits plain_event (resolve g)) \<Longrightarrow> only_emits plain_event (granted_value ss resolve grants ref intent)"
  unfolding granted_value_def by (intro emit_intros)

lemma plain_authorized:
  "(\<And>g. only_emits plain_event (resolve g)) \<Longrightarrow> only_emits plain_event (resolve_authorized_secret_deliveries ss resolve grants ds acc)"
  by (induction ss resolve grants ds acc rule: resolve_authorized_secret_deliveries.induct)
    (simp_all add: emit_intros plain_granted_value)

lemma plain_selections: "(\<And>g. only_emits plain_event (resolve g)) \<Longrightarrow> only_emits plain_event (resolve_selections resolve grants sels acc)"
  by (induction resolve grants sels acc rule: resolve_selections.induct) (simp_all add: emit_intros)

lemma plain_legacy: "(\<And>g. only_emits plain_event (resolve g)) \<Longrightarrow> only_emits plain_event (legacy_deliveries ss resolve ds acc)"
  by (induction ss resolve ds acc rule: legacy_deliveries.induct) (simp_all add: emit_intros)

lemma plain_product_secrets:
  assumes "plain_resolvers dr"
  shows "only_emits plain_event (product_secrets dr rq m)"
proof -
  have selected: "only_emits plain_event (resolve_selected_secret_deliveries (ss_grant (dr_secrets dr)) grants sels ds)" for grants sels ds
    unfolding resolve_selected_secret_deliveries_def Let_def
    by (intro emit_intros plain_selections) (use assms in \<open>auto simp: plain_resolvers_def split: option.splits\<close>)
  have legacy: "only_emits plain_event (resolve_secret_deliveries (dr_secrets dr) ds)" for ds
    unfolding resolve_secret_deliveries_def
    by (intro emit_intros plain_legacy) (use assms in \<open>auto simp: plain_resolvers_def\<close>)
  show ?thesis
    unfolding product_secrets_def Let_def
    by (intro only_emits_catchE only_emits_if only_emits_case_option selected legacy plain_authorized)
      (use assms in \<open>auto simp: plain_resolvers_def split: dk_exn.splits\<close>)
qed

lemma plain_pull_auth: "plain_resolvers dr \<Longrightarrow> only_emits plain_event (image_pull_auth dr rq m)"
  unfolding image_pull_auth_def plain_resolvers_def
  by (auto split: option.splits dk_exn.splits pull_result.splits prod.splits intro!: emit_intros plain_granted_value)

lemma plain_prepare_material: "plain_resolvers dr \<Longrightarrow> only_emits plain_event (prepare_material dr rq)"
  unfolding prepare_material_def by (auto intro!: emit_intros plain_product_secrets plain_pull_auth)

text \<open>A preparation: plain events, and a result only of a refused request.\<close>

definition refused_result :: "runtime_request \<Rightarrow> runtime_observation runtime_result \<Rightarrow> bool" where
  "refused_result rq res \<longleftrightarrow> rr_operation rq \<noteq> CleanupConfigurationInstances \<longrightarrow> re_kind res \<noteq> SUCCEEDED"

definition preparation :: "runtime_request \<Rightarrow> 'w docker_client option \<Rightarrow> docker_event list
    \<Rightarrow> dk_exn + (runtime_observation runtime_result + 'w acquisition) \<Rightarrow> bool" where
  "preparation rq client evs r \<longleftrightarrow>
     plain evs \<and> (\<forall>res. r = Inr (Inl res) \<longrightarrow> refused_result rq res) \<and> (\<forall>dc. r = Inr (Inr (UseClient dc)) \<longrightarrow> client = Some dc)"

lemma emits_prepare_acquisition:
  assumes "plain_resolvers dr"
  shows "emits (prepare_acquisition di dr authority rq) (preparation rq (di_client di))"
proof (cases authority)
  case None
  then show ?thesis
    by (cases "di_client di") (auto simp: prepare_acquisition_def preparation_def refused_result_def effect_unsupported_def effect_ended_def
        intro!: emits_returnE)
next
  case (Some au)
  show ?thesis
  proof (cases "cleanup_refused au rq")
    case True
    then show ?thesis
      by (cases "refused_cleanup_authority (di_cleanup di) rq")
        (auto simp: Some prepare_acquisition_def preparation_def refused_result_def cleanup_refused_def intro!: emits_returnE emits_raiseE)
  next
    case False
    then show ?thesis
      by (auto simp: Some prepare_acquisition_def preparation_def intro!: emits_returnE emits_bindE[OF emits_prepare[OF assms]])
  qed
qed

lemma emits_prepare_invoked:
  assumes "plain_resolvers dr"
  shows "emits (prepare_invoked di dr authority rq) (preparation rq (di_client di))"
  unfolding prepare_invoked_def
proof (rule emits_bindE[OF emits_plain_events[OF plain_request]], rule emits_bindE[where P = "\<lambda>evs r. evs = []"], goal_cases)
  case (2 u evs u' evs')
  note outer = 2
  show ?case
  proof (rule emits_if, goal_cases)
    case 1
    from outer show ?case
      by (auto simp: preparation_def refused_result_def effect_unsupported_def effect_ended_def intro!: emits_returnE)
  next
    case 2
    show ?case
    proof (rule emits_bindE[OF emits_prepare_acquisition[OF assms]], goal_cases)
      case (1 p evs2)
      show ?case
      proof (cases p)
        case (Inl res)
        with 1 outer show ?thesis by (auto simp: preparation_def intro!: emits_returnE)
      next
        case (Inr a)
        show ?thesis
          unfolding Inr sum.case
          by (rule emits_bindE[OF emits_plain_events[OF plain_prepare_material[OF assms]]])
            (use 1 outer Inr in \<open>auto simp: preparation_def intro!: emits_returnE\<close>)
      qed
    qed (use outer in \<open>auto simp: preparation_def\<close>)
  qed
qed (auto simp: preparation_def intro: emits_liftE)

section \<open>Invoked executions\<close>

lemma emits_all: "(\<And>x. emits m (R x)) \<Longrightarrow> emits m (\<lambda>evs r. \<forall>x. R x evs r)"
  unfolding emits_def by (metis same_append_eq)

lemma hist_invoke:
  assumes "\<And>h. hist P h call (\<lambda>_ _. True)"
  shows "hist P h (invoke docker_vocabulary (Some p) kind call a) (\<lambda>_ _. True)"
proof -
  have call: "emits call (\<lambda>evs r. \<forall>h. guarded P h evs)"
    by (rule emits_all) (use assms in \<open>auto simp: hist_def\<close>)
  have port: "guarded P h [vo_admit docker_vocabulary k x]" "guarded P h [vo_record docker_vocabulary k x]" for h k x
    by (auto simp: docker_vocabulary_def intro!: guarded_single)
  show ?thesis
    unfolding hist_def
  proof (rule emits_mono[OF invoke_bracket[OF call]], elim disjE exE conjE, goal_cases)
    case (1 evs r)
    then show ?case by simp
  next
    case (2 evs r ad x)
    then show ?case by (simp add: port)
  next
    case (3 evs r ad inner e x)
    have "guarded P h ([ad] @ inner)" using 3 port by (intro guarded_joined) simp_all
    with 3 show ?case by simp
  next
    case (4 evs r ad inner r0 b x)
    then obtain k y where b: "b = vo_record docker_vocabulary k y" by (auto simp: recorded_as_def)
    have "guarded P h ([ad] @ (inner @ [b]))" using 4 port b by (intro guarded_joined) simp_all
    with 4 show ?case by simp
  qed
qed

lemma sealed_quiet: "quiet_resolvers (sealed_runtime port controls cache dr)"
  by (auto simp: quiet_resolvers_def sealed_runtime_def sealed_secrets_def prepared_grant_def prepared_resolve_def seal_def
      intro!: hist_intros split: option.splits)

lemma sealed_simps [simp]: "dr_image_ok (sealed_runtime port controls cache dr) = dr_image_ok dr"
  by (simp add: sealed_runtime_def)

lemma quiet_bind_authority: "quiet (bind_authority connect a)"
  unfolding bind_authority_def by (cases a) (auto intro!: hist_intros)

lemma hist_dispatch_prepared:
  "hist (may_effect (dr_image_ok dr) rq) h (dispatch_prepared di (sealed_runtime port controls cache dr) controls a rq) (\<lambda>_ _. True)"
  unfolding dispatch_prepared_def
  by (rule hist_attemptE[OF hist_quiet[OF quiet_bind_authority]])
    (auto intro!: hist_if hist_raiseE hist_returnE hist_execute_bound[OF sealed_quiet, simplified])

lemma emits_run_any: "emits m R \<Longrightarrow> emits (run_local c m) (\<lambda>evs x. \<exists>r c'. x = Inr (r, c') \<and> R evs r)"
  by (rule emits_run_local[OF local_of_emits])

lemma plain_no_mutation: "plain_event ev \<Longrightarrow> mutation_of ev = None"
  by (cases ev) simp_all

lemma guarded_plain: "plain evs \<Longrightarrow> guarded P h evs"
  by (rule guarded_quiet) (auto simp: plain_def plain_no_mutation)

lemma guarded_observing: "observing_run st evs \<noteq> None \<Longrightarrow> guarded P h evs"
proof (rule guarded_quiet, intro ballI)
  fix ev
  assume "observing_run st evs \<noteq> None" "ev \<in> set evs"
  then show "mutation_of ev = None"
  proof (induction evs arbitrary: st)
    case (Cons ev' evs)
    then show ?case by (cases ev') (auto split: option.splits if_splits)
  qed simp
qed

lemma hist_ordinary: "hist P h (execute_ordinary_invoked di port controls for_check a rq) (\<lambda>_ _. True)"
  unfolding hist_def
  by (rule emits_mono[OF emits_ordinary]) (auto simp: verification_settled_def intro: guarded_observing[of False])

lemma hist_execute_invoked:
  assumes "plain_resolvers (di_runtime di)"
  shows "hist (may_effect (dr_image_ok (di_runtime di)) rq) h (execute_invoked di port for_check authority rq) (\<lambda>_ _. True)"
proof -
  let ?may = "may_effect (dr_image_ok (di_runtime di)) rq"
  have prepared: "hist ?may h (run_local fresh_prepared (prepare_invoked di (preparing_runtime port controls (di_runtime di)) authority rq))
      (\<lambda>_ _. True)" for h controls
    unfolding hist_def
    by (rule emits_mono[OF emits_run_any[OF emits_prepare_invoked[OF plain_preparing[OF assms]]]])
      (auto simp: preparation_def guarded_plain)
  have dispatch: "hist ?may h (invoke docker_vocabulary (Some port) ''prepared-runtime-dispatch''
      (dispatch_prepared di (sealed_runtime port controls cache (di_runtime di)) controls a rq) None) (\<lambda>_ _. True)" for h controls cache a
    by (rule hist_invoke[OF hist_dispatch_prepared])
  show ?thesis
    unfolding execute_invoked_def
    by (rule hist_lift_bind, cases "effect_kind_error rq")
      (auto intro!: hist_returnE hist_raiseE hist_bindE[OF prepared] hist_if dispatch hist_ordinary
        split: sum.splits option.splits bool.splits)
qed

text \<open>
  the secrets of a dispatch under an invocation port were all prepared before it was admitted: its
  resolver gives back what was resolved for an equal grant, without any effect, and refuses every
  other grant as an error of the port.
\<close>

theorem dispatch_secrets_prepared:
  assumes "ss_grant (dr_secrets (sealed_runtime port controls cache dr)) = Some resolve"
  shows "resolve g s = (case map_of (pr_entries cache) g of
     Some res \<Rightarrow> Inr res | None \<Rightarrow> Inl (DkPortError ''secret grant was not prepared for this dispatch''), s)"
  using assms
  by (cases "map_of (pr_entries cache) g")
    (auto simp: sealed_runtime_def sealed_secrets_def prepared_grant_def prepared_resolve_def seal_def docker_vocabulary_def returnE_def raiseE_def)

text \<open>
  under an invocation port as without one, each change of an execution is allowed for the operation
  of the request by the events before it.
\<close>

theorem invoked_changes_allowed:
  assumes "execute_invoked di port for_check authority rq s = (r, s')" and "trace s' = trace s @ seen @ Mutated mu x # later"
    and "plain_resolvers (di_runtime di)"
  shows "may_effect (dr_image_ok (di_runtime di)) rq seen mu"
  using hist_run(1)[OF hist_execute_invoked[OF assms(3)] assms(1,2)] by (auto simp: guarded_def)

lemma settled_early:
  "plain evs \<Longrightarrow> (\<And>res. r = Inr res \<Longrightarrow> re_kind res \<noteq> SUCCEEDED) \<Longrightarrow> verification_settled dr rq evs r"
  by (auto simp: verification_settled_def observing_plain_events)

lemma unsuccessful_preparation: "re_kind (preparation_failure rq f e) \<noteq> SUCCEEDED"
  by (cases e) (simp_all add: preparation_failure_def authority_uncertain_def effect_ended_def)

lemma wrong_kind_unsuccessful: "effect_kind_error rq = Some res \<Longrightarrow> re_kind res \<noteq> SUCCEEDED"
  by (auto simp: effect_kind_error_def split: if_splits)

lemma settled_later:
  "plain pre \<Longrightarrow> verification_settled dr rq evs r \<Longrightarrow> verification_settled dr rq (pre @ evs) r"
  unfolding verification_settled_def
  by (auto simp: observing_append observing_plain_events plain_unclosed elim!: health_shown_later)

lemma emits_invoked_wait:
  assumes "plain_resolvers (di_runtime di)" and op: "rr_operation rq = WaitForHealthy"
  shows "emits (execute_invoked di port for_check authority rq) (verification_settled (di_runtime di) rq)"
proof (cases "control_errors docker_vocabulary (Some port) False")
  case (Inl e)
  then show ?thesis by (auto simp: execute_invoked_def intro!: emits_raiseE settled_early)
next
  case (Inr controls)
  have failed: "verification_settled (di_runtime di) rq evs (Inl e)" if "plain evs" for evs e
    using that by (rule settled_early) simp
  have run: "emits (bindE (run_local fresh_prepared (prepare_invoked di (preparing_runtime port controls (di_runtime di)) authority rq))
      (\<lambda>(prepared, cache). case prepared of
           Inl e \<Rightarrow>
             if is_control controls e \<or> \<not> dk_is_exception e then raiseE e
             else returnE (preparation_failure rq (\<lambda>_. ''Docker runtime preparation is uncertain'') e)
         | Inr (Inl res) \<Rightarrow> returnE res
         | Inr (Inr a) \<Rightarrow> execute_ordinary_invoked di port controls checks a rq))
      (verification_settled (di_runtime di) rq)" for checks
  proof (rule emits_bindE[OF emits_run_any[OF emits_prepare_invoked[OF plain_preparing[OF assms(1)]]]], goal_cases)
    case (1 x evs)
    then obtain r cache where x: "x = (r, cache)" and prep: "preparation rq (di_client di) evs r" by auto
    then have plain: "plain evs" by (simp add: preparation_def)
    show ?case
    proof (cases r)
      case (Inl e)
      then show ?thesis
        unfolding x by (auto intro!: emits_raiseE emits_returnE failed plain settled_early simp: unsuccessful_preparation)
    next
      case r: (Inr y)
      show ?thesis
      proof (cases y)
        case (Inl res)
        with r prep op have "re_kind res \<noteq> SUCCEEDED" by (simp add: preparation_def refused_result_def)
        with r Inl show ?thesis unfolding x by (auto intro!: emits_returnE settled_early plain)
      next
        case (Inr a)
        with r show ?thesis
          unfolding x by (auto intro: emits_mono[OF emits_ordinary] settled_later[OF plain])
      qed
    qed
  qed auto
  show ?thesis
  proof (cases "effect_kind_error rq")
    case (Some res)
    with Inr show ?thesis
      by (auto simp: execute_invoked_def intro!: emits_returnE settled_early dest: wrong_kind_unsuccessful)
  next
    case None
    show ?thesis
    proof (cases for_check)
      case fc: None
      with Inr None op show ?thesis by (auto simp: execute_invoked_def intro!: emits_raiseE failed)
    next
      case (Some checks)
      show ?thesis
        unfolding execute_invoked_def Inr None Some op liftE_simps bindE_returnE option.case simp_thms(6) bool.case prod.case
        using run[of checks] by simp
    qed
  qed
qed

text \<open>
  C28: under an invocation port a wait for a healthy node makes no change, closes the connection it made
  before it ends, exactly once, however the acquisition, the checks or the recordings end; and it
  succeeds only when every check of its product was shown at the endpoints of the container that was
  read, and its connection was closed without an error.
\<close>

theorem invoked_wait_settled:
  assumes "execute_invoked di port for_check authority rq s = (r, s')" and "trace s' = trace s @ evs"
    and "plain_resolvers (di_runtime di)" and "rr_operation rq = WaitForHealthy"
  shows "verification_settled (di_runtime di) rq evs r"
  by (rule emitsD[OF emits_invoked_wait[OF assms(3,4)] assms(1,2)])

section \<open>Samples\<close>

definition sample_invocations :: "(unit, dk_exn, unit) invocation_port" where
  "sample_invocations =
     \<lparr>ip_control_error = Some (\<lambda>_. False), ip_admit = Some (\<lambda>_ _ w. (Inr (), w)), ip_record_outcome = Some (\<lambda>_ _ w. (Inr (), w)),
      ip_record_result = None\<rparr>"

definition sample_child :: "(unit, unit) child_ports" where
  "sample_child _ =
     Inr \<lparr>ch_port = sample_invocations,
       ch_probe = \<lparr>ip_control_error = Some (\<lambda>_. False), ip_admit = Some (\<lambda>_ _ w. (Inr (), w)),
         ip_record_outcome = Some (\<lambda>_ _ w. (Inr (), w)), ip_record_result = None\<rparr>,
       ch_same_control = True, ch_grant = Some None\<rparr>"

definition sample_health_interpreter :: "(unit, string, string) docker_interpreter" where
  "sample_health_interpreter =
     (sample_interpreter WaitForHealthy (Inr ()))\<lparr>di_connect := (\<lambda>_ w. (Inr (dr_client sample_health_runtime), w))\<rparr>"

definition admitted_event :: "string \<Rightarrow> docker_event" where
  "admitted_event kind = InvocationAdmitted kind (Inr ())"

definition sample_invoked_events :: "docker_event list" where
  "sample_invoked_events =
     [admitted_event ''ordinary-verification-acquisition'', ClientOpened UnixTarget None,
      ContainerRead (container_name sample_waiting ''api'') (Inr None), OutcomeRecorded ''returned'' (Inr ()),
      admitted_event ''ordinary-verification-check'',
      HttpProbed (health_probe sample_waiting sample_checked sample_base sample_http_check sample_address) (Inr sample_up),
      OutcomeRecorded ''returned'' (Inr ()), ClientClosed None]"

lemma sample_plain_resolvers: "plain_resolvers (di_runtime sample_health_interpreter)"
  by (simp add: plain_resolvers_def sample_health_interpreter_def sample_interpreter_def sample_runtime_def)

lemma dispatch_secrets_prepared_witness:
  "bindE (prepared_grant sample_invocations (\<lambda>_. raiseE ContractError) (UseGrant ''a'' [])
      (seal \<lparr>pr_entries = [(UseGrant ''a'' [], ResultMissing)], pr_sealed = False\<rparr>)) (\<lambda>(r, _). returnE r) idle = (Inr ResultMissing, idle)"
proof -
  let ?cache = "\<lparr>pr_entries = [(UseGrant ''a'' [], ResultMissing)], pr_sealed = False\<rparr>"
  let ?dr = "(sample_runtime StartNode (Inr []))\<lparr>dr_secrets := (dr_secrets (sample_runtime StartNode (Inr [])))\<lparr>ss_grant := Some (\<lambda>_. raiseE ContractError)\<rparr>\<rparr>"
  from dispatch_secrets_prepared[of sample_invocations "[]" ?cache ?dr _ "UseGrant ''a'' []" idle] show ?thesis
    by (simp add: sealed_runtime_def sealed_secrets_def)
qed

text \<open>A port that admits and records everything.\<close>

definition open_port :: "('w, dk_exn, unit) invocation_port \<Rightarrow> bool" where
  "open_port q \<longleftrightarrow> ip_control_error q = Some (\<lambda>_. False) \<and> ip_admit q = Some (\<lambda>_ _ w. (Inr (), w)) \<and> ip_record_outcome q = Some (\<lambda>_ _ w. (Inr (), w))"

lemma open_ports: "open_port sample_invocations" "open_port (lift_invocation_port sample_invocations)"
  by (simp_all add: open_port_def sample_invocations_def lift_invocation_port_def lift_port_def fun_eq_iff)

lemma open_port_invoke:
  assumes "open_port q" "call \<lparr>trace = tr @ [admitted_event kind], world = w\<rparr> = (Inr v, s2)"
  shows "invoke docker_vocabulary (Some q) kind call None \<lparr>trace = tr, world = w\<rparr>
    = (Inr v, s2\<lparr>trace := trace s2 @ [OutcomeRecorded ''returned'' (Inr ())]\<rparr>)"
  using assms
  by (simp add: open_port_def invoke_def control_errors_def port_admit_def port_record_def finish_def eff_defs docker_vocabulary_def
      admitted_event_def unit_outcome_def)

lemma sample_acquired:
  "acquire_ordinary sample_health_interpreter (Connect UnixTarget) sample_waiting \<lparr>trace = tr, world = ((), None)\<rparr>
    = (Inr (map private_endpoint_of (private_endpoints (\<lambda>p. p) ''api'' ''g'' ''api'' (pm_ports sample_checked))),
       \<lparr>trace = tr @ [ClientOpened UnixTarget None, ContainerRead (container_name sample_waiting ''api'') (Inr None)],
        world = ((), Some (dr_client sample_health_runtime, True))\<rparr>)"
  by (simp add: acquire_ordinary_def with_local_def hoist_def bind_authority_def sample_health_interpreter_def sample_interpreter_def
      eff_defs bound_endpoints_def sample_waiting_simps runtime_private_endpoints_def owned_container_inspection_def inspect_container_def
      sample_health_runtime_def sample_runtime_def sample_docker_client_def without_legacy_def)

definition sample_endpoints :: "probe_endpoint list" where
  "sample_endpoints = map private_endpoint_of (private_endpoints (\<lambda>p. p) ''api'' ''g'' ''api'' (pm_ports sample_checked))"

definition sample_verified :: "runtime_observation runtime_result" where
  "sample_verified = verified_healthy sample_waiting sample_checked \<lparr>hg_completed = [], hg_observed = [CheckSeen sample_wait_result]\<rparr>"

lemma sample_bound_wait:
  "bound_wait sample_health_interpreter sample_child sample_waiting (Some (dr_client sample_health_runtime, True)) (Inr sample_endpoints)
      \<lparr>trace = tr, world = ()\<rparr>
    = (Inr sample_verified, \<lparr>trace = tr @ [admitted_event ''ordinary-verification-check'',
        HttpProbed (health_probe sample_waiting sample_checked sample_base sample_http_check sample_address) (Inr sample_up),
        OutcomeRecorded ''returned'' (Inr ())], world = ()\<rparr>)"
  by (simp add: bound_wait_def sample_health_interpreter_def sample_interpreter_def health_without_legacy_def without_legacy_def at_client_def
      wait_for_healthy_def sample_waiting_simps sample_endpoints_def sample_verified_def admitted_event_def sample_child_def
      sample_invocations_def sample_health_runtime_def sample_runtime_def sample_docker_client_def
      private_endpoints_def private_endpoint_of_def endpoint_of_socket_def checked_child_def
      run_check_def invoke_def control_errors_def http_health_check_def private_http_check_def make_material_def
      port_admit_def port_record_def finish_def docker_vocabulary_def unit_outcome_def
      embed_def eff_defs probe_once_def sample_check_run run_http_probe_def probe_evidence_def sample_up_def probe_verdict_def
      sample_http_check_def sample_health_ports_def sample_base_def sample_address_def progressed_def sample_wait_result_def
      sample_stripped)

lemma sample_closes: "dc_close (dr_client sample_health_runtime) = (\<lambda>w. (Inr (), w))"
  by (simp add: sample_health_runtime_def sample_runtime_def sample_docker_client_def fun_eq_iff)

lemma sample_ordinary:
  "execute_ordinary_invoked sample_health_interpreter sample_invocations [\<lambda>_. False] sample_child (Connect UnixTarget) sample_waiting
      \<lparr>trace = [], world = ()\<rparr>
    = (Inr sample_verified, \<lparr>trace = sample_invoked_events, world = ()\<rparr>)"
  by (simp add: execute_ordinary_invoked_def run_local_def open_port_invoke[where call = "acquire_ordinary sample_health_interpreter (Connect UnixTarget) sample_waiting", OF open_ports(2) sample_acquired] bindE_def captured_def
      sample_endpoints_def[symmetric] sample_bound_wait close_binding_def close_client_def eff_defs ordinary_result_def
      sample_invoked_events_def sample_closes)

lemma sample_prepared:
  "prepare_invoked sample_health_interpreter (preparing_runtime sample_invocations [\<lambda>_. False] (di_runtime sample_health_interpreter))
      (Some sample_authority_fact) sample_waiting s = (Inr (Inr (Connect UnixTarget)), s)"
  by (simp add: prepare_invoked_def preparing_runtime_def sample_health_interpreter_def sample_interpreter_def sample_runtime_def
      eff_defs admit_selected_secrets_def validate_selected_secret_grants_def has_selected_secrets_def configuration_unsupported_def prepare_acquisition_def cleanup_refused_def
      prepare_authority_def sample_authority_fact_def prepare_material_def sample_waiting_def sample_effect_def)

lemma sample_invoked:
  "execute_invoked sample_health_interpreter sample_invocations (Some sample_child) (Some sample_authority_fact) sample_waiting idle
     = (Inr sample_verified, \<lparr>trace = sample_invoked_events, world = ()\<rparr>)"
proof -
  have controls: "control_errors docker_vocabulary (Some sample_invocations) False = Inr [\<lambda>_. False]"
    by (simp add: control_errors_def sample_invocations_def docker_vocabulary_def)
  have plain: "effect_kind_error sample_waiting = None" "rr_operation sample_waiting = WaitForHealthy"
    by (simp_all add: effect_kind_error_def sample_waiting_def sample_effect_def)
  show ?thesis
    by (simp add: execute_invoked_def controls plain bindE_def run_local_def sample_prepared idle_def sample_ordinary liftE_def)
qed

lemma invoked_wait_settled_witness: "verification_settled (di_runtime sample_health_interpreter) sample_waiting sample_invoked_events (Inr sample_verified)"
  by (rule invoked_wait_settled[OF sample_invoked _ sample_plain_resolvers])
    (simp_all add: idle_def sample_waiting_def sample_effect_def)

end
