(* ===== verification/Recovery_Metadata.thy ===== *)
theory Recovery_Metadata
  imports Computations Docker_Observer Docker_Acquisition Docker_Configuration
begin

text \<open>
  Observation of current Docker metadata (\<open>docker/recovery_metadata.py\<close>): the addresses a request
  selects are read twice through one verified local connection, within a budget of 30 seconds.  The
  rows say what was seen; none of them says how the past effect ended.
\<close>

section \<open>Values\<close>

datatype metadata_role = ContainerRole | NetworkRole | ImageRole | ConfigurationVolumeRole | SecretVolumeRole

fun metadata_role_value :: "metadata_role \<Rightarrow> string" where
  "metadata_role_value ContainerRole = ''container''"
| "metadata_role_value NetworkRole = ''network''"
| "metadata_role_value ImageRole = ''image''"
| "metadata_role_value ConfigurationVolumeRole = ''configuration-volume''"
| "metadata_role_value SecretVolumeRole = ''secret-volume''"

definition volume_role :: "metadata_role \<Rightarrow> bool" where
  "volume_role r \<longleftrightarrow> r = ConfigurationVolumeRole \<or> r = SecretVolumeRole"

datatype metadata_state = UnknownState | PresentState | AbsentState | UnsupportedState
datatype metadata_ownership = Unestablished | OwnershipNotApplicable | MatchingOwner | ConflictingOwner
datatype metadata_attachment = AttachmentUnknown | AttachmentNotApplicable | AttachmentObserved | AttachmentNotObserved
datatype metadata_reason =
    NoReason | ProviderUnavailable | SelectorUnavailable | ResourceNotFound | OwnershipConflict | MalformedAnswer
  | DriftSeen | BindingUnavailable | UnsupportedSelection

text \<open>A file of a target: its path, reference, intent and mode.\<close>

record metadata_target =
  mt_role :: metadata_role
  mt_index :: nat
  mt_coordinate :: "string option"
  mt_labels :: labels
  mt_file :: "(string \<times> string \<times> string \<times> string) option"
  mt_destination :: string

record metadata_row =
  mw_role :: metadata_role
  mw_index :: nat
  mw_selector :: "string option"
  mw_state :: metadata_state
  mw_ownership :: metadata_ownership
  mw_identity :: "string option"
  mw_attachment :: metadata_attachment
  mw_reason :: metadata_reason

datatype metadata_exn =
    MdStopped
  | MdMalformed
  | MdUnavailable metadata_reason
  | MdResource metadata_row
  | MdRaised dk_exn

type_synonym mount_fact = "string \<times> string \<times> string \<times> bool"

record container_facts =
  cf_name :: string
  cf_image :: string
  cf_networks :: "(string \<times> string) list"
  cf_mounts :: "mount_fact list"
  cf_running :: bool
  cf_status :: string

datatype metadata_facts = NoFacts | ImageFacts string "nat option" bool | ContainerFacts container_facts

record metadata_context =
  mc_image :: "string option"
  mc_network :: string
  mc_mounts :: "mount_fact list"
  mc_complete :: bool

record metadata_result =
  md_effect :: string
  md_fingerprint :: string
  md_binding :: "string option"
  md_complete :: bool
  md_rows :: "metadata_row list"
  md_unsupported :: bool

text \<open>
  The observer: its local policy and client, the Docker module with its low-level reads (a read of an
  absent resource answers \<open>None\<close>), the clock (\<open>None\<close> is a value that is no finite number), and what it
  uses of other packages: the canonical bytes of \<open>rfc8785\<close>, the target path of a configuration
  reference, and the carrier of the evidence, which may refuse it.
\<close>

record 'w metadata_setting =
  ms_policy :: "(string \<times> rat) option"
  ms_has_client :: bool
  ms_module :: "'w docker_module"
  ms_clock :: "('w, dk_exn, rat option) port"
  ms_info :: "string \<Rightarrow> ('w, dk_exn, json) port"
  ms_inspect :: "string \<Rightarrow> metadata_role \<Rightarrow> string \<Rightarrow> ('w, dk_exn, json option) port"
  ms_holders :: "string \<Rightarrow> string \<Rightarrow> ('w, dk_exn, json) port"
  ms_foreign :: "string \<Rightarrow> bool"
  ms_image_ok :: "string \<Rightarrow> string \<Rightarrow> string \<Rightarrow> bool"
  ms_canonical :: "json \<Rightarrow> nat list"
  ms_target_path :: "configuration_reference \<Rightarrow> string"
  ms_admit :: "metadata_result \<Rightarrow> dk_exn option"

section \<open>Rows\<close>

definition domain_commitment :: "'w metadata_setting \<Rightarrow> string \<Rightarrow> json \<Rightarrow> string" where
  "domain_commitment ms domain v = sha256_hex (utf8_bytes (domain @ [CHR 0x00]) @ ms_canonical ms v)"

definition selector_domain :: string where
  "selector_domain = ''control-plane-kit.docker-recovery-selector.v1''"

definition volume_domain :: string where
  "volume_domain = ''control-plane-kit.docker-recovery-volume.v1''"

definition binding_domain :: string where
  "binding_domain = ''control-plane-kit.docker-provider-binding.v1''"

definition unknown_attachment :: "metadata_target \<Rightarrow> metadata_attachment" where
  "unknown_attachment t = (if volume_role (mt_role t) then AttachmentUnknown else AttachmentNotApplicable)"

definition unread_row :: "'w metadata_setting \<Rightarrow> metadata_target \<Rightarrow> metadata_reason \<Rightarrow> metadata_row" where
  "unread_row ms t reason =
     \<lparr>mw_role = mt_role t, mw_index = mt_index t,
      mw_selector = map_option (\<lambda>c. domain_commitment ms selector_domain (JList [JStr (metadata_role_value (mt_role t)), JStr c]))
        (mt_coordinate t),
      mw_state = UnknownState, mw_ownership = Unestablished, mw_identity = None, mw_attachment = unknown_attachment t,
      mw_reason = reason\<rparr>"

definition initial_rows :: "'w metadata_setting \<Rightarrow> metadata_reason \<Rightarrow> metadata_target list \<Rightarrow> metadata_row list" where
  "initial_rows ms reason ts =
     map (\<lambda>t. unread_row ms t (if mt_coordinate t = None then SelectorUnavailable else reason)) ts"

section \<open>Targets\<close>

definition expected_node_labels :: "runtime_request \<Rightarrow> product_material \<Rightarrow> labels" where
  "expected_node_labels rq m =
     (if rr_kind rq = CONFIGURATION_ACTIVITY_V1
      then labelled [(''configuration.selection'', rr_selection rq)] @ node_labels rq m else node_labels rq m)"

definition daemon_char :: "char \<Rightarrow> bool" where
  "daemon_char c \<longleftrightarrow> is_lower_alpha c \<or> is_upper_alpha c \<or> is_digit c"

definition is_daemon_id :: "string \<Rightarrow> bool" where
  "is_daemon_id s \<longleftrightarrow>
     s \<noteq> [] \<and> daemon_char (hd s) \<and> list_all (\<lambda>c. daemon_char c \<or> c \<in> set '':_.-'') (tl s) \<and> length s \<le> 128"

definition file_deliveries :: "secret_delivery list \<Rightarrow> (nat \<times> (string \<times> string \<times> string \<times> string)) list" where
  "file_deliveries ds =
     enumerate 0 (concat (map (\<lambda>d. case d of SecretFileDelivery target reference intent mode _ \<Rightarrow> [(target, reference, intent, mode)] | _ \<Rightarrow> []) ds))"

definition file_selections :: "product_material \<Rightarrow> string \<times> string \<times> string \<times> string \<Rightarrow> secret_selection list" where
  "file_selections m f =
     (case f of (target, reference, intent, mode) \<Rightarrow>
        filter (\<lambda>s. sel_reference s = reference \<and> sel_intent s = intent) (map fst (pm_selections m)))"

definition metadata_admitted :: "'w metadata_setting \<Rightarrow> observation_request \<Rightarrow> authority_fact option \<Rightarrow> string option \<Rightarrow> bool" where
  "metadata_admitted ms oq authority expected \<longleftrightarrow>
     (case (ms_policy ms, authority, expected) of
        (Some (path, timeout), Some au, Some daemon) \<Rightarrow>
          \<not> ms_has_client ms \<and> timeout \<le> 10 \<and> is_daemon_id daemon
          \<and> au_runtime au = ''docker'' \<and> au_kind au = ''local-docker-socket'' \<and> oq_admission oq = None
          \<and> rr_docker (oq_request oq) \<and> rr_kind (oq_request oq) \<in> {REALIZE_ACTIVITY, CONFIGURATION_ACTIVITY_V1}
          \<and> rr_operation (oq_request oq) = StartNode \<and> rr_grants (oq_request oq) = [] \<and> rr_deliveries (oq_request oq) = []
      | _ \<Rightarrow> False)"

text \<open>A request without a selection of configuration instances has none.\<close>

definition material_admitted :: "observation_request \<Rightarrow> product_material \<Rightarrow> bool" where
  "material_admitted oq m \<longleftrightarrow>
     pm_node m = oq_target oq \<and> pm_retained m = [] \<and> (pm_artifacts m \<noteq> [] \<longrightarrow> rr_instances (oq_request oq) \<noteq> [])
     \<and> length (rr_instances (oq_request oq)) + length (file_deliveries (pm_deliveries m)) \<le> 8
     \<and> list_all (\<lambda>(i, f). length (file_selections m f) = 1) (file_deliveries (pm_deliveries m))"

definition selected_targets :: "'w metadata_setting \<Rightarrow> runtime_request \<Rightarrow> product_material \<Rightarrow> metadata_target list" where
  "selected_targets ms rq m =
     [\<lparr>mt_role = ContainerRole, mt_index = 0, mt_coordinate = Some (container_name rq (pm_node m)),
       mt_labels = expected_node_labels rq m, mt_file = None, mt_destination = []\<rparr>,
      \<lparr>mt_role = NetworkRole, mt_index = 0, mt_coordinate = Some (network_name rq (pm_runtime m)),
       mt_labels = runtime_labels rq (pm_runtime m), mt_file = None, mt_destination = []\<rparr>,
      \<lparr>mt_role = ImageRole, mt_index = 0, mt_coordinate = Some (pm_image_reference m),
       mt_labels = [], mt_file = None, mt_destination = []\<rparr>]
     @ map (\<lambda>(i, ki). \<lparr>mt_role = ConfigurationVolumeRole, mt_index = i, mt_coordinate = Some (configuration_volume_name ki),
         mt_labels = configuration_volume_labels ki, mt_file = None, mt_destination = ms_target_path ms ki\<rparr>)
         (enumerate 0 (rr_instances rq))
     @ map (\<lambda>(i, f). \<lparr>mt_role = SecretVolumeRole, mt_index = i, mt_coordinate = None, mt_labels = [],
         mt_file = Some f, mt_destination = fst f\<rparr>)
         (file_deliveries (pm_deliveries m))"

definition known_coordinates :: "metadata_target list \<Rightarrow> string list" where
  "known_coordinates ts = concat (map (\<lambda>t. case mt_coordinate t of None \<Rightarrow> [] | Some c \<Rightarrow> [c]) ts)"

definition metadata_targets ::
  "'w metadata_setting \<Rightarrow> observation_request \<Rightarrow> authority_fact option \<Rightarrow> string option \<Rightarrow> metadata_target list option" where
  "metadata_targets ms oq authority expected =
     (case rr_products (oq_request oq) of
        [m] \<Rightarrow>
          (let ts = selected_targets ms (oq_request oq) m
           in if metadata_admitted ms oq authority expected \<and> material_admitted oq m \<and> distinct (known_coordinates (drop 3 ts))
              then Some ts else None)
      | _ \<Rightarrow> None)"

section \<open>Projections\<close>

definition md_mapping :: "nat \<Rightarrow> json \<Rightarrow> metadata_exn + (string \<times> json) list" where
  "md_mapping limit j = (case j of JObj kvs \<Rightarrow> if length kvs \<le> limit then Inr kvs else Inl MdMalformed | _ \<Rightarrow> Inl MdMalformed)"

definition md_text :: "nat \<Rightarrow> json \<Rightarrow> metadata_exn + string" where
  "md_text limit j = (case j of JStr s \<Rightarrow> if length s \<le> limit then Inr s else Inl MdMalformed | _ \<Rightarrow> Inl MdMalformed)"

definition md_get :: "(string \<times> json) list \<Rightarrow> string \<Rightarrow> json" where
  "md_get kvs k = json_get (JObj kvs) k"

fun md_each :: "('a \<Rightarrow> metadata_exn + 'b) \<Rightarrow> 'a list \<Rightarrow> metadata_exn + 'b list" where
  "md_each f [] = Inr []"
| "md_each f (x # xs) = bindR (f x) (\<lambda>y. bindR (md_each f xs) (\<lambda>ys. Inr (y # ys)))"

fun md_label_entries :: "nat \<Rightarrow> (string \<times> json) list \<Rightarrow> metadata_exn + labels" where
  "md_label_entries used [] = Inr []"
| "md_label_entries used ((key, item) # rest) =
     bindR (md_text 256 (JStr key)) (\<lambda>_.
     bindR (md_text 2048 item) (\<lambda>v.
     let used' = used + length key + length v
     in if 16384 < used' then Inl MdMalformed
        else bindR (md_label_entries used' rest) (\<lambda>ls. Inr ((key, v) # ls))))"

definition md_labels :: "json \<Rightarrow> metadata_exn + labels" where
  "md_labels j = bindR (md_mapping 64 j) (md_label_entries 0)"

definition md_identity :: "bool \<Rightarrow> json \<Rightarrow> metadata_exn + string" where
  "md_identity image_id j =
     (case j of
        JStr s \<Rightarrow>
          if (image_id \<longrightarrow> py_startswith s ''sha256:'') \<and> hex64 (if image_id then drop 7 s else s) then Inr s else Inl MdMalformed
      | _ \<Rightarrow> Inl MdMalformed)"

text \<open>Mounts are compared as Python compares tuples.\<close>

definition mount_fact_le :: "mount_fact \<Rightarrow> mount_fact \<Rightarrow> bool" where
  "mount_fact_le a b \<longleftrightarrow>
     (case (a, b) of ((k, n, d, w), (k', n', d', w')) \<Rightarrow>
        if k \<noteq> k' then str_le k k' else if n \<noteq> n' then str_le n n' else if d \<noteq> d' then str_le d d' else (w \<longrightarrow> w'))"

definition md_mount :: "json \<Rightarrow> metadata_exn + mount_fact" where
  "md_mount j =
     bindR (md_mapping 16 j) (\<lambda>mount.
     bindR (md_text 32 (md_get mount ''Type'')) (\<lambda>kind.
     bindR (md_text 256 (json_get_or (JObj mount) ''Name'' (JStr []))) (\<lambda>name.
     bindR (md_text 1024 (md_get mount ''Destination'')) (\<lambda>destination.
     case md_get mount ''RW'' of
       JBool rw \<Rightarrow> Inr (kind, name, destination, rw)
     | _ \<Rightarrow> Inl MdMalformed))))"

definition md_holder_mount :: "json \<Rightarrow> metadata_exn + string \<times> string" where
  "md_holder_mount j =
     bindR (md_mapping 16 j) (\<lambda>mount.
     bindR (md_text 32 (md_get mount ''Type'')) (\<lambda>kind.
     bindR (md_text 256 (json_get_or (JObj mount) ''Name'' (JStr []))) (\<lambda>name. Inr (kind, name))))"

definition md_entries :: "(json \<Rightarrow> metadata_exn + 'b) \<Rightarrow> json \<Rightarrow> metadata_exn + 'b list" where
  "md_entries f j =
     (case j of
        JList xs \<Rightarrow>
          if 64 < length xs then Inl MdMalformed
          else bindR (md_each f xs) (\<lambda>ys. if distinct ys then Inr ys else Inl MdMalformed)
      | _ \<Rightarrow> Inl MdMalformed)"

definition md_mounts :: "json \<Rightarrow> metadata_exn + mount_fact list" where
  "md_mounts j = bindR (md_entries md_mount j) (\<lambda>ms. Inr (sort_by mount_fact_le ms))"

definition md_network :: "string \<times> json \<Rightarrow> metadata_exn + string \<times> string" where
  "md_network nd =
     bindR (md_text 256 (JStr (fst nd))) (\<lambda>name.
     bindR (md_mapping 64 (snd nd)) (\<lambda>data.
     bindR (md_identity False (md_get data ''NetworkID'')) (\<lambda>ident. Inr (name, ident))))"

definition md_container_facts :: "(string \<times> json) list \<Rightarrow> metadata_exn + container_facts" where
  "md_container_facts raw =
     bindR (md_identity True (md_get raw ''Image'')) (\<lambda>img.
     bindR (md_text 256 (md_get raw ''Name'')) (\<lambda>name.
     bindR (md_mapping 64 (md_get raw ''NetworkSettings'')) (\<lambda>settings.
     bindR (md_mapping 32 (md_get settings ''Networks'')) (\<lambda>networks.
     bindR (md_each md_network networks) (\<lambda>ids.
     bindR (md_mounts (md_get raw ''Mounts'')) (\<lambda>mounts.
     bindR (md_mapping 64 (md_get raw ''State'')) (\<lambda>state.
     bindR (md_text 32 (md_get state ''Status'')) (\<lambda>status.
     case md_get state ''Running'' of
       JBool running \<Rightarrow>
         if status = [] then Inl MdMalformed
         else Inr \<lparr>cf_name = name, cf_image = img, cf_networks = ids, cf_mounts = mounts, cf_running = running, cf_status = status\<rparr>
     | _ \<Rightarrow> Inl MdMalformed))))))))"

text \<open>A row of a resource that was read.\<close>

definition seen_row :: "'w metadata_setting \<Rightarrow> metadata_target \<Rightarrow> bool \<Rightarrow> metadata_ownership \<Rightarrow> string \<Rightarrow> metadata_row" where
  "seen_row ms t matches owner ident =
     (unread_row ms t (if matches then NoReason else OwnershipConflict))\<lparr>mw_state := PresentState,
        mw_ownership := (if matches then owner else ConflictingOwner), mw_identity := Some ident\<rparr>"

definition project_image :: "'w metadata_setting \<Rightarrow> metadata_target \<Rightarrow> (string \<times> json) list
    \<Rightarrow> metadata_exn + metadata_row \<times> nat option \<times> metadata_facts" where
  "project_image ms t raw =
     bindR (md_identity True (md_get raw ''Id'')) (\<lambda>ident.
     bindR (case md_get raw ''RepoDigests'' of
         JList ds \<Rightarrow> if 32 < length ds then Inl MdMalformed else md_each (md_text 1024) ds
       | _ \<Rightarrow> Inl MdMalformed) (\<lambda>digests.
     bindR (md_mapping 64 (md_get raw ''Config'')) (\<lambda>config.
     let matches = matches_image_reference (ms_image_ok ms) (the (mt_coordinate t)) digests;
         user = (case json_get_or (JObj config) ''User'' (JStr []) of JStr u \<Rightarrow> Some u | _ \<Rightarrow> None);
         uid = (if matches then secret_file_owner_uid user else None)
     in Inr (seen_row ms t matches OwnershipNotApplicable ident, uid, ImageFacts ident uid matches))))"

definition container_placed :: "metadata_target \<Rightarrow> metadata_context \<Rightarrow> container_facts \<Rightarrow> bool" where
  "container_placed t ctx cf \<longleftrightarrow>
     cf_name cf = CHR ''/'' # the (mt_coordinate t) \<and> map fst (cf_networks cf) = [mc_network ctx]
     \<and> list_all (\<lambda>mount. mount \<in> set (cf_mounts cf)) (mc_mounts ctx)
     \<and> (case mc_image ctx of None \<Rightarrow> True | Some img \<Rightarrow> cf_image cf = img)
     \<and> (mc_complete ctx \<longrightarrow> cf_mounts cf = mc_mounts ctx)"

definition project_container :: "'w metadata_setting \<Rightarrow> metadata_target \<Rightarrow> metadata_context \<Rightarrow> (string \<times> json) list
    \<Rightarrow> metadata_exn + metadata_row \<times> nat option \<times> metadata_facts" where
  "project_container ms t ctx raw =
     bindR (md_mapping 64 (md_get raw ''Config'')) (\<lambda>config.
     bindR (md_labels (md_get config ''Labels'')) (\<lambda>ls.
     bindR (md_identity False (md_get raw ''Id'')) (\<lambda>ident.
     bindR (md_container_facts raw) (\<lambda>cf.
     let matches = container_placed t ctx cf \<and> same_labels (cpk_labels ls) (mt_labels t);
         row = seen_row ms t matches MatchingOwner ident
     in Inr (if matches \<and> \<not> mc_complete ctx
             then row\<lparr>mw_ownership := Unestablished, mw_reason := SelectorUnavailable\<rparr> else row,
             None, ContainerFacts cf)))))"

definition project_network :: "'w metadata_setting \<Rightarrow> metadata_target \<Rightarrow> (string \<times> json) list
    \<Rightarrow> metadata_exn + metadata_row \<times> nat option \<times> metadata_facts" where
  "project_network ms t raw =
     bindR (md_labels (md_get raw ''Labels'')) (\<lambda>ls.
     bindR (md_identity False (md_get raw ''Id'')) (\<lambda>ident.
     bindR (md_text 256 (md_get raw ''Name'')) (\<lambda>name.
     Inr (seen_row ms t (name = the (mt_coordinate t) \<and> same_labels (cpk_labels ls) (mt_labels t)) MatchingOwner ident, None, NoFacts))))"

definition volume_commitment :: "'w metadata_setting \<Rightarrow> string \<Rightarrow> labels \<Rightarrow> string \<Rightarrow> string \<Rightarrow> string \<Rightarrow> string" where
  "volume_commitment ms name ls driver scope created =
     domain_commitment ms volume_domain
       (JObj [(''name'', JStr name), (''labels'', JObj (text_entries ls)), (''driver'', JStr driver), (''scope'', JStr scope),
              (''created_at'', JStr created)])"

definition project_volume :: "'w metadata_setting \<Rightarrow> metadata_target \<Rightarrow> (string \<times> json) list
    \<Rightarrow> metadata_exn + metadata_row \<times> nat option \<times> metadata_facts" where
  "project_volume ms t raw =
     bindR (md_labels (md_get raw ''Labels'')) (\<lambda>ls.
     bindR (md_text 256 (md_get raw ''Name'')) (\<lambda>name.
     bindR (md_text 128 (md_get raw ''Driver'')) (\<lambda>driver.
     bindR (md_text 128 (md_get raw ''Scope'')) (\<lambda>scope.
     bindR (md_text 128 (md_get raw ''CreatedAt'')) (\<lambda>created.
     if created = [] \<or> CHR 0x00 \<in> set created \<or> name \<noteq> the (mt_coordinate t) then Inl MdMalformed
     else Inr (seen_row ms t (same_labels (cpk_labels ls) (mt_labels t)) MatchingOwner
                 (volume_commitment ms name ls driver scope created), None, NoFacts))))))"

definition project_resource :: "'w metadata_setting \<Rightarrow> metadata_target \<Rightarrow> metadata_context \<Rightarrow> json
    \<Rightarrow> metadata_exn + metadata_row \<times> nat option \<times> metadata_facts" where
  "project_resource ms t ctx j =
     bindR (md_mapping 64 j) (\<lambda>raw. case mt_role t of
         ImageRole \<Rightarrow> project_image ms t raw
       | ContainerRole \<Rightarrow> project_container ms t ctx raw
       | NetworkRole \<Rightarrow> project_network ms t raw
       | _ \<Rightarrow> project_volume ms t raw)"

section \<open>Reading\<close>

datatype metadata_event =
    ClientStep client_event
  | DaemonRead "metadata_exn + json"
  | ResourceRead metadata_role string "metadata_exn + json option"
  | HoldersRead string "metadata_exn + json"

text \<open>The variables of one observation: the budget, the rows of the current sweep, the client.\<close>

record metadata_local =
  ml_started :: rat
  ml_previous :: rat
  ml_rows :: "metadata_row list"
  ml_client :: "sdk_client option"

type_synonym ('w, 'a) md_eff = "((metadata_event, 'w \<times> metadata_local) st, metadata_exn, 'a) eff"

text \<open>\<open>_Stopped\<close> as it passes through the methods of the client.\<close>

definition stopped_fault :: dk_exn where
  "stopped_fault = ProviderFault OtherClass ''_Stopped''"

definition md_of :: "dk_exn \<Rightarrow> metadata_exn" where
  "md_of e = (if e = stopped_fault then MdStopped else MdRaised e)"

definition budget_now :: "'w metadata_setting \<Rightarrow> ('w \<times> metadata_local, dk_exn, rat) port" where
  "budget_now ms w =
     (case lift_port (ms_clock ms) w of
        (Inl e, w') \<Rightarrow> (Inl (if dk_is_exception e then stopped_fault else e), w')
      | (Inr None, w') \<Rightarrow> (Inl stopped_fault, w')
      | (Inr (Some now), w') \<Rightarrow> (Inr now, w'))"

definition budget_check :: "'w metadata_setting \<Rightarrow> ('w \<times> metadata_local, dk_exn, unit) port" where
  "budget_check ms w =
     (case budget_now ms w of
        (Inl e, w') \<Rightarrow> (Inl e, w')
      | (Inr now, (w', l)) \<Rightarrow>
          if now < ml_previous l \<or> 30 \<le> now - ml_started l then (Inl stopped_fault, (w', l))
          else (Inr (), (w', l\<lparr>ml_previous := now\<rparr>)))"

definition budget_start :: "'w metadata_setting \<Rightarrow> ('w \<times> metadata_local, dk_exn, unit) port" where
  "budget_start ms w =
     (case budget_now ms w of
        (Inl e, w') \<Rightarrow> (Inl e, w')
      | (Inr now, (w', l)) \<Rightarrow> (Inr (), (w', l\<lparr>ml_started := now, ml_previous := now\<rparr>)))"

text \<open>The Docker module of an observation checks the budget before the provider is called.\<close>

definition budgeted_module :: "'w metadata_setting \<Rightarrow> ('w \<times> metadata_local) docker_module" where
  "budgeted_module ms =
     (let mo = ms_module ms
      in \<lparr>mo_open = lift_port \<circ> mo_open mo, mo_transport = lift_port \<circ> mo_transport mo, mo_version = lift_port \<circ> mo_version mo,
          mo_close = lift_port \<circ> mo_close mo, mo_make_directory = lift_port (mo_make_directory mo),
          mo_write_files = (\<lambda>a b c. lift_port (mo_write_files mo a b c)),
          mo_remove_directory = lift_port (mo_remove_directory mo), mo_before = Some (budget_check ms)\<rparr>)"

definition client_step :: "('w \<times> metadata_local, 'a) client_eff \<Rightarrow> ('w, 'a) md_eff" where
  "client_step m s =
     (case m \<lparr>trace = [], world = world s\<rparr> of
        (r, s') \<Rightarrow> (map_sum md_of id r, \<lparr>trace = trace s @ map ClientStep (trace s'), world = world s'\<rparr>))"

definition put_row :: "nat \<Rightarrow> metadata_row \<Rightarrow> ('w, unit) md_eff" where
  "put_row i row = on_local (\<lambda>l. ((), l\<lparr>ml_rows := (ml_rows l)[i := row]\<rparr>))"

definition put_rows :: "metadata_row list \<Rightarrow> ('w, unit) md_eff" where
  "put_rows rows = on_local (\<lambda>l. ((), l\<lparr>ml_rows := rows\<rparr>))"

definition get_rows :: "('w, metadata_row list) md_eff" where
  "get_rows = on_local (\<lambda>l. (ml_rows l, l))"

definition check_budget :: "'w metadata_setting \<Rightarrow> ('w, unit) md_eff" where
  "check_budget ms = client_step (before_call (budgeted_module ms))"

definition md_port :: "('w, dk_exn, 'a) port \<Rightarrow> ('w \<times> metadata_local, metadata_exn, 'a) port" where
  "md_port p w = (case lift_port p w of (r, w') \<Rightarrow> (map_sum md_of id r, w'))"

definition budgeted_call :: "'w metadata_setting \<Rightarrow> (metadata_exn + 'a \<Rightarrow> metadata_event) \<Rightarrow> ('w, dk_exn, 'a) port \<Rightarrow> ('w, 'a) md_eff" where
  "budgeted_call ms mk p = bindE (check_budget ms) (\<lambda>_. callE mk (md_port p))"

definition md_provider_error :: "'w metadata_setting \<Rightarrow> metadata_exn \<Rightarrow> bool" where
  "md_provider_error ms e = (case e of MdRaised d \<Rightarrow> docker_provider_error (ms_foreign ms) d | _ \<Rightarrow> False)"

text \<open>At most one holder is asked for; it must have the volume mounted.\<close>

definition holder_of :: "string \<Rightarrow> json \<Rightarrow> metadata_exn + bool" where
  "holder_of coordinate j =
     (case j of
        JList [] \<Rightarrow> Inr False
      | JList [h] \<Rightarrow>
          bindR (md_mapping 64 h) (\<lambda>holder.
          bindR (md_identity False (md_get holder ''Id'')) (\<lambda>_.
          bindR (md_entries md_holder_mount (md_get holder ''Mounts'')) (\<lambda>mounts.
          if (''volume'', coordinate) \<in> set mounts then Inr True else Inl MdMalformed)))
      | _ \<Rightarrow> Inl MdMalformed)"

definition read_holders :: "'w metadata_setting \<Rightarrow> string \<Rightarrow> metadata_target \<Rightarrow> metadata_row \<Rightarrow> ('w, metadata_row) md_eff" where
  "read_holders ms h t row =
     (let c = the (mt_coordinate t)
      in attemptE (bindE (budgeted_call ms (HoldersRead c) (ms_holders ms h c)) (\<lambda>j. liftE (holder_of c j)))
           (\<lambda>e. if e = MdMalformed
                 then raiseE (MdResource (row\<lparr>mw_attachment := AttachmentUnknown, mw_reason := MalformedAnswer\<rparr>))
                 else if md_provider_error ms e
                 then raiseE (MdResource (row\<lparr>mw_attachment := AttachmentUnknown, mw_reason := ProviderUnavailable\<rparr>))
                 else raiseE e)
           (\<lambda>held.
              if held \<and> mw_state row = AbsentState
              then raiseE (MdResource ((unread_row ms t DriftSeen)\<lparr>mw_attachment := AttachmentObserved\<rparr>))
              else returnE (row\<lparr>mw_attachment := (if held then AttachmentObserved else AttachmentNotObserved)\<rparr>)))"

definition absent_row :: "'w metadata_setting \<Rightarrow> metadata_target \<Rightarrow> metadata_row" where
  "absent_row ms t = (unread_row ms t ResourceNotFound)\<lparr>mw_state := AbsentState, mw_ownership := OwnershipNotApplicable\<rparr>"

definition read_resource ::
  "'w metadata_setting \<Rightarrow> string \<Rightarrow> metadata_context \<Rightarrow> metadata_target \<Rightarrow> ('w, metadata_row \<times> nat option \<times> metadata_facts) md_eff" where
  "read_resource ms h ctx t =
     (let c = the (mt_coordinate t)
      in bindE (attemptE (budgeted_call ms (ResourceRead (mt_role t) c) (ms_inspect ms h (mt_role t) c))
              (\<lambda>e. if md_provider_error ms e then raiseE (MdResource (unread_row ms t ProviderUnavailable)) else raiseE e)
              (\<lambda>found. case found of
                  None \<Rightarrow> returnE (absent_row ms t, None, NoFacts)
                | Some raw \<Rightarrow>
                    (case project_resource ms t ctx raw of
                       Inl e \<Rightarrow> raiseE (if e = MdMalformed then MdResource (unread_row ms t MalformedAnswer) else e)
                     | Inr seen \<Rightarrow> returnE seen)))
           (\<lambda>(row, uid, facts).
              if volume_role (mt_role t)
              then bindE (read_holders ms h t row) (\<lambda>row'. returnE (row', uid, facts))
              else returnE (row, uid, facts)))"

section \<open>Sweeps\<close>

definition read_daemon :: "'w metadata_setting \<Rightarrow> string \<Rightarrow> string \<Rightarrow> ('w, unit) md_eff" where
  "read_daemon ms h expected =
     attemptE (bindE (budgeted_call ms DaemonRead (ms_info ms h)) (\<lambda>j. liftE (md_mapping 64 j)))
       (\<lambda>e. if e = MdMalformed \<or> md_provider_error ms e then raiseE (MdUnavailable BindingUnavailable) else raiseE e)
       (\<lambda>info. case md_get info ''ID'' of
           JStr daemon \<Rightarrow> requireE (is_daemon_id daemon \<and> daemon = expected) (MdUnavailable BindingUnavailable)
         | _ \<Rightarrow> raiseE (MdUnavailable BindingUnavailable))"

definition metadata_file :: "product_material \<Rightarrow> string \<times> string \<times> string \<times> string \<Rightarrow> secret_material" where
  "metadata_file m f =
     (case f of (target, reference, intent, mode) \<Rightarrow>
        \<lparr>fm_reference = reference, fm_target = target, fm_value = [], fm_mode = mode, fm_path_name = None,
         fm_selection = Some (hd (file_selections m f))\<rparr>)"

text \<open>The volume of a secret file is known once the user of the image is.\<close>

definition concrete_target :: "runtime_request \<Rightarrow> product_material \<Rightarrow> nat option \<Rightarrow> metadata_target \<Rightarrow> metadata_target" where
  "concrete_target rq m uid t =
     (case (mt_file t, uid) of
        (Some f, Some u) \<Rightarrow>
          (let secret = metadata_file m f
           in t\<lparr>mt_coordinate := Some (secret_volume_name rq m secret u),
                mt_labels := labelled [(''volume.kind'', ''secret-file''), (''secret.target'', fm_target secret),
                    (''secret.reference'', fm_reference secret),
                    (''secret.identity'', selected_secret_identity rq m secret (hd (file_selections m f)) u)] @ expected_node_labels rq m\<rparr>)
      | _ \<Rightarrow> t)"

definition volume_rows :: "'w metadata_setting \<Rightarrow> metadata_target list \<Rightarrow> metadata_row list" where
  "volume_rows ms ts =
     map (\<lambda>t. if mt_coordinate t = None then (unread_row ms t SelectorUnavailable)\<lparr>mw_state := UnsupportedState\<rparr>
               else unread_row ms t ProviderUnavailable) ts"

definition expected_mounts :: "metadata_target list \<Rightarrow> mount_fact list" where
  "expected_mounts ts =
     sort_by mount_fact_le (concat (map (\<lambda>t. case mt_coordinate t of None \<Rightarrow> [] | Some c \<Rightarrow> [(''volume'', c, mt_destination t, False)]) ts))"

definition sweep_context :: "metadata_row \<Rightarrow> metadata_target list \<Rightarrow> metadata_context" where
  "sweep_context img ts =
     \<lparr>mc_image = (if mw_ownership img = OwnershipNotApplicable then mw_identity img else None),
      mc_network = the (mt_coordinate (ts ! 1)), mc_mounts = expected_mounts (drop 3 ts),
      mc_complete = (mw_state img = PresentState \<and> mw_ownership img = OwnershipNotApplicable
        \<and> list_all (\<lambda>t. mt_coordinate t \<noteq> None) (drop 3 ts))\<rparr>"

fun read_targets :: "'w metadata_setting \<Rightarrow> string \<Rightarrow> metadata_context \<Rightarrow> (nat \<times> metadata_target) list \<Rightarrow> metadata_facts list
    \<Rightarrow> ('w, metadata_facts list) md_eff" where
  "read_targets ms h ctx [] facts = returnE facts"
| "read_targets ms h ctx ((i, t) # rest) facts =
     (if i = 2 \<or> mt_coordinate t = None then read_targets ms h ctx rest facts
      else attemptE (read_resource ms h ctx t)
             (\<lambda>e. case e of
                 MdResource row \<Rightarrow> bindE (put_row i row) (\<lambda>_. raiseE e)
               | _ \<Rightarrow> raiseE e)
             (\<lambda>(row, _, seen). bindE (put_row i row) (\<lambda>_. read_targets ms h ctx rest (facts[i := seen]))))"

text \<open>What the rows of one sweep say of each other.\<close>

definition conflicting_network :: "string \<Rightarrow> container_facts \<Rightarrow> metadata_row list \<Rightarrow> bool" where
  "conflicting_network network cf rows \<longleftrightarrow>
     mw_state (rows ! 1) = PresentState \<and> map_of (cf_networks cf) network \<noteq> mw_identity (rows ! 1)"

definition reconciled_rows :: "'w metadata_setting \<Rightarrow> metadata_target list \<Rightarrow> metadata_facts list \<Rightarrow> metadata_row list \<Rightarrow> metadata_row list" where
  "reconciled_rows ms ts facts rows =
     (case facts ! 0 of
        ContainerFacts cf \<Rightarrow>
          (let rows' = (if conflicting_network (the (mt_coordinate (ts ! 1))) cf rows
                        then rows[0 := (rows ! 0)\<lparr>mw_ownership := ConflictingOwner, mw_reason := OwnershipConflict\<rparr>] else rows)
           in map (\<lambda>(i, t, row).
                 if 3 \<le> i \<and> mw_state row = AbsentState
                    \<and> (case mt_coordinate t of None \<Rightarrow> False | Some c \<Rightarrow> list_ex (\<lambda>(k, n, _, _). k = ''volume'' \<and> n = c) (cf_mounts cf))
                 then unread_row ms t DriftSeen else row)
               (enumerate 0 (zip ts rows')))
      | _ \<Rightarrow> rows)"

definition metadata_sweep ::
  "'w metadata_setting \<Rightarrow> string \<Rightarrow> metadata_target list \<Rightarrow> runtime_request \<Rightarrow> product_material \<Rightarrow> string
    \<Rightarrow> ('w, metadata_facts list) md_eff" where
  "metadata_sweep ms h ts rq m expected =
     bindE (read_daemon ms h expected) (\<lambda>_.
     attemptE (read_resource ms h \<lparr>mc_image = None, mc_network = [], mc_mounts = [], mc_complete = False\<rparr> (ts ! 2))
       (\<lambda>e. case e of MdResource row \<Rightarrow> bindE (put_row 2 row) (\<lambda>_. raiseE e) | _ \<Rightarrow> raiseE e)
       (\<lambda>(img, uid, seen).
          let concrete = map (concrete_target rq m uid) ts;
              facts = (replicate (length ts) NoFacts)[2 := seen]
          in bindE (put_row 2 img) (\<lambda>_.
             bindE (requireE (distinct (known_coordinates (drop 3 concrete))) (MdUnavailable UnsupportedSelection)) (\<lambda>_.
             bindE get_rows (\<lambda>rows.
             bindE (put_rows (take 3 rows @ volume_rows ms (drop 3 concrete))) (\<lambda>_.
             bindE (read_targets ms h (sweep_context img concrete) (enumerate 0 concrete) facts) (\<lambda>facts'.
             bindE get_rows (\<lambda>rows'.
             bindE (put_rows (reconciled_rows ms concrete facts' rows')) (\<lambda>_. returnE facts')))))))))"

section \<open>The observation\<close>

text \<open>Facts are compared as Python compares them: the networks of a container as a dictionary.\<close>

fun same_facts :: "metadata_facts \<Rightarrow> metadata_facts \<Rightarrow> bool" where
  "same_facts (ContainerFacts a) (ContainerFacts b) \<longleftrightarrow>
     same_labels (cf_networks a) (cf_networks b) \<and> a\<lparr>cf_networks := []\<rparr> = b\<lparr>cf_networks := []\<rparr>"
| "same_facts a b \<longleftrightarrow> a = b"

definition drifted_row :: "metadata_row \<Rightarrow> metadata_row" where
  "drifted_row row =
     row\<lparr>mw_state := UnknownState, mw_ownership := Unestablished, mw_identity := None,
         mw_attachment := (if volume_role (mw_role row) then AttachmentUnknown else AttachmentNotApplicable), mw_reason := DriftSeen\<rparr>"

definition compared_rows :: "metadata_row list \<Rightarrow> metadata_facts list \<Rightarrow> metadata_row list \<Rightarrow> metadata_facts list \<Rightarrow> metadata_row list" where
  "compared_rows first first_facts rows facts =
     map (\<lambda>((a, fa), (b, fb)). if a \<noteq> b \<or> \<not> same_facts fa fb then drifted_row b else b)
       (zip (zip first first_facts) (zip rows facts))"

definition row_complete :: "metadata_row \<Rightarrow> bool" where
  "row_complete row \<longleftrightarrow>
     mw_state row \<in> {PresentState, AbsentState} \<and> mw_attachment row \<noteq> AttachmentUnknown \<and> mw_ownership row \<noteq> Unestablished"

text \<open>The handle of the client, whose fields are kept also when connecting fails.\<close>

definition metadata_handle :: "'w metadata_setting \<Rightarrow> sdk_client \<Rightarrow> ('w, string) md_eff" where
  "metadata_handle ms sc =
     bindE (client_step (client_handle (budgeted_module ms) sc)) (\<lambda>(sc', r).
     bindE (on_local (\<lambda>l. ((), l\<lparr>ml_client := Some sc'\<rparr>))) (\<lambda>_.
     liftE (map_sum md_of id r)))"

definition metadata_body ::
  "'w metadata_setting \<Rightarrow> string \<times> rat \<Rightarrow> metadata_target list \<Rightarrow> runtime_request \<Rightarrow> product_material \<Rightarrow> string \<Rightarrow> ('w, string \<times> bool) md_eff" where
  "metadata_body ms policy ts rq m expected =
     bindE (client_step (callE (\<lambda>_. BudgetChecked) (budget_start ms))) (\<lambda>_.
     bindE (check_budget ms) (\<lambda>_.
     bindE (on_local (\<lambda>l. ((), l\<lparr>ml_client := Some (new_client (UnixConnection (fst policy) (snd policy)))\<rparr>))) (\<lambda>_.
     bindE (metadata_handle ms (new_client (UnixConnection (fst policy) (snd policy)))) (\<lambda>h.
     bindE (metadata_sweep ms h ts rq m expected) (\<lambda>first_facts.
     bindE get_rows (\<lambda>first.
     bindE (put_rows (initial_rows ms ProviderUnavailable ts)) (\<lambda>_.
     bindE (metadata_sweep ms h ts rq m expected) (\<lambda>facts.
     bindE get_rows (\<lambda>rows.
     let final = compared_rows first first_facts rows facts
     in bindE (put_rows final) (\<lambda>_.
        returnE (sha256_hex (utf8_bytes (binding_domain @ [CHR 0x00] @ expected)), list_all row_complete final)))))))))))"

definition close_metadata_client :: "'w metadata_setting \<Rightarrow> ('w, metadata_exn + unit) md_eff" where
  "close_metadata_client ms =
     bindE (on_local (\<lambda>l. (ml_client l, l))) (\<lambda>client. case client of
         None \<Rightarrow> returnE (Inr ())
       | Some sc \<Rightarrow>
           bindE (client_step (close_sdk_client (budgeted_module ms) sc)) (\<lambda>(sc', r).
           bindE (on_local (\<lambda>l. ((), l\<lparr>ml_client := Some sc'\<rparr>))) (\<lambda>_.
           returnE (map_sum md_of id r))))"

definition metadata_result_of ::
  "observation_request \<Rightarrow> metadata_row list \<Rightarrow> string option \<Rightarrow> bool \<Rightarrow> bool \<Rightarrow> metadata_result" where
  "metadata_result_of oq rows binding whole unsupported =
     \<lparr>md_effect = oq_effect oq, md_fingerprint = oq_fingerprint oq, md_binding = binding, md_complete = whole,
      md_rows = rows, md_unsupported = unsupported\<rparr>"

definition admit_metadata :: "'w metadata_setting \<Rightarrow> metadata_result \<Rightarrow> metadata_exn + metadata_result" where
  "admit_metadata ms res = (case ms_admit ms res of None \<Rightarrow> Inr res | Some e \<Rightarrow> Inl (MdRaised e))"

text \<open>How the body ended: the binding and completeness, and an exception that is left.\<close>

definition metadata_outcome ::
  "'w metadata_setting \<Rightarrow> metadata_target list \<Rightarrow> metadata_exn + string \<times> bool
    \<Rightarrow> ('w, string option \<times> bool \<times> metadata_exn option) md_eff" where
  "metadata_outcome ms ts outcome =
     (case outcome of
        Inr (binding, whole) \<Rightarrow> returnE (Some binding, whole, None)
      | Inl (MdResource _) \<Rightarrow> returnE (None, False, None)
      | Inl MdStopped \<Rightarrow> bindE (put_rows (initial_rows ms ProviderUnavailable ts)) (\<lambda>_. returnE (None, False, None))
      | Inl (MdUnavailable reason) \<Rightarrow> bindE (put_rows (initial_rows ms reason ts)) (\<lambda>_. returnE (None, False, None))
      | Inl e \<Rightarrow> returnE (None, False, Some e))"

definition passed_errors :: "'w metadata_setting \<Rightarrow> metadata_exn option \<Rightarrow> metadata_exn + unit \<Rightarrow> metadata_exn + bool" where
  "passed_errors ms read_error closing =
     (case read_error of
        Some e \<Rightarrow> if \<not> md_provider_error ms e then Inl e
                  else (case closing of Inl e' \<Rightarrow> if \<not> md_provider_error ms e' then Inl e' else Inr False | Inr _ \<Rightarrow> Inr False)
      | None \<Rightarrow> (case closing of Inl e' \<Rightarrow> if \<not> md_provider_error ms e' then Inl e' else Inr False | Inr _ \<Rightarrow> Inr True))"

definition fresh_metadata :: metadata_local where
  "fresh_metadata = \<lparr>ml_started = 0, ml_previous = 0, ml_rows = [], ml_client = None\<rparr>"

definition observe_targets ::
  "'w metadata_setting \<Rightarrow> observation_request \<Rightarrow> string \<times> rat \<Rightarrow> metadata_target list \<Rightarrow> product_material \<Rightarrow> string
    \<Rightarrow> ('w, metadata_result) md_eff" where
  "observe_targets ms oq policy ts m daemon =
     bindE (put_rows (initial_rows ms ProviderUnavailable ts)) (\<lambda>_.
     bindE (attemptE (metadata_body ms policy ts (oq_request oq) m daemon) (\<lambda>e. returnE (Inl e)) (\<lambda>a. returnE (Inr a))) (\<lambda>outcome.
     bindE (metadata_outcome ms ts outcome) (\<lambda>(binding, whole, read_error).
     bindE (close_metadata_client ms) (\<lambda>closing.
     bindE (liftE (passed_errors ms read_error closing)) (\<lambda>unfailed.
     bindE get_rows (\<lambda>rows.
     liftE (admit_metadata ms (metadata_result_of oq rows binding (whole \<and> unfailed) False))))))))"

definition observe_metadata ::
  "'w metadata_setting \<Rightarrow> observation_request \<Rightarrow> authority_fact option \<Rightarrow> string option
    \<Rightarrow> ((metadata_event, 'w) st, metadata_exn, metadata_result) eff" where
  "observe_metadata ms oq authority expected =
     (case (metadata_targets ms oq authority expected, ms_policy ms, expected, rr_products (oq_request oq)) of
        (Some ts, Some policy, Some daemon, m # _) \<Rightarrow>
          bindE (run_local fresh_metadata (observe_targets ms oq policy ts m daemon)) (\<lambda>(r, _). liftE r)
      | _ \<Rightarrow> liftE (admit_metadata ms (metadata_result_of oq [] None False True)))"

end
