(* ===== verification/Recovery_Metadata_Props.thy ===== *)
theory Recovery_Metadata_Props
  imports Recovery_Metadata Computations Docker_Props
begin

text \<open>
  The properties of the observation of metadata: it calls the provider only within its budget and a
  bounded number of times, closes what it opened, and reports complete coverage only when both of its
  sweeps saw the same resources of the expected daemon.
\<close>

section \<open>Variables\<close>

text \<open>\<open>preserves f m\<close>: a run of \<open>m\<close> leaves \<open>f\<close> of the world as it was.\<close>

definition preserves :: "('w \<Rightarrow> 'v) \<Rightarrow> (('ev, 'w) st, 'e, 'a) eff \<Rightarrow> bool" where
  "preserves f m \<longleftrightarrow> (\<forall>s. f (world (snd (m s))) = f (world s))"

named_theorems keep_intros "computations that preserve a part of the world"

lemma preserves_return [keep_intros]: "preserves f (returnE a)"
  and preserves_raise [keep_intros]: "preserves f (raiseE e)"
  and preserves_lift [keep_intros]: "preserves f (liftE r)"
  by (simp_all add: preserves_def returnE_def raiseE_def liftE_def)

lemma preserves_require [keep_intros]: "preserves f (requireE b e)"
  by (cases b) (simp_all add: keep_intros)

lemma preserves_call [keep_intros]: "(\<And>w. f (snd (p w)) = f w) \<Longrightarrow> preserves f (callE mk p)"
  by (auto simp: preserves_def callE_def split: prod.splits) (metis snd_conv)

lemma preserves_bind [keep_intros]: "preserves f m \<Longrightarrow> (\<And>a. preserves f (k a)) \<Longrightarrow> preserves f (bindE m k)"
  unfolding preserves_def bindE_def by (auto split: prod.splits sum.splits) (metis snd_conv)+

lemma preserves_attempt [keep_intros]:
  "preserves f m \<Longrightarrow> (\<And>e. preserves f (h e)) \<Longrightarrow> (\<And>a. preserves f (k a)) \<Longrightarrow> preserves f (attemptE m h k)"
  unfolding preserves_def attemptE_def by (auto split: prod.splits sum.splits) (metis snd_conv)+

lemma preserves_if [keep_intros]: "preserves f m \<Longrightarrow> preserves f n \<Longrightarrow> preserves f (if b then m else n)"
  by simp

lemma preserves_local:
  assumes "emits m R" "preserves (f \<circ> snd) m"
  shows "local_runs c m (\<lambda>evs r c'. R evs r \<and> f c' = f c)"
  using assms unfolding emits_def local_runs_def preserves_def by auto

text \<open>The rows and the client.\<close>

definition kept_vars :: "metadata_local \<Rightarrow> metadata_row list \<times> sdk_client option" where
  "kept_vars l = (ml_rows l, ml_client l)"

lemma lift_keeps: "snd (snd (lift_port p w)) = snd w"
  by (simp add: lift_port_def split: prod.splits)

lemma budget_keeps: "kept_vars (snd (snd (budget_check ms w))) = kept_vars (snd w)"
proof -
  have now: "snd (snd (budget_now ms w)) = snd w"
    using lift_keeps[of "ms_clock ms" w] by (auto simp: budget_now_def split: prod.splits sum.splits option.splits)
  obtain r v l where "budget_now ms w = (r, v, l)" by (cases "budget_now ms w") auto
  with now show ?thesis by (cases r) (auto simp: budget_check_def kept_vars_def)
qed

lemma budget_keeps_client: "ml_client (snd (snd (budget_check ms w))) = ml_client (snd w)"
  using budget_keeps[of ms w] by (simp add: kept_vars_def)

lemma module_keeps:
  "snd (snd (mo_open (budgeted_module ms) c w)) = snd w" "snd (snd (mo_transport (budgeted_module ms) h w)) = snd w"
  "snd (snd (mo_version (budgeted_module ms) h w)) = snd w" "snd (snd (mo_close (budgeted_module ms) h w)) = snd w"
  "snd (snd (mo_remove_directory (budgeted_module ms) w)) = snd w"
  "mo_before (budgeted_module ms) = Some (budget_check ms)"
  by (simp_all add: budgeted_module_def Let_def lift_keeps)

lemma before_keeps: "preserves (kept_vars \<circ> snd) (before_call (budgeted_module ms))"
  by (auto simp: before_call_def module_keeps budget_keeps intro!: keep_intros)

lemma try_keeps: "preserves f m \<Longrightarrow> preserves f (try_call m)"
  unfolding try_call_def by (intro keep_intros)

lemma handle_keeps:
  "sc_connection sc = UnixConnection path t \<Longrightarrow> preserves (kept_vars \<circ> snd) (client_handle (budgeted_module ms) sc)"
  by (auto simp: client_handle_def connect_client_def unix_client_def Let_def unix_checks_def open_handle_def close_handle_def module_keeps
      intro!: keep_intros try_keeps before_keeps split: option.splits sum.splits prod.splits)

lemma close_keeps: "preserves (kept_vars \<circ> snd) (close_sdk_client (budgeted_module ms) sc)"
  by (auto simp: close_sdk_client_def Let_def close_handle_def remove_directory_def module_keeps
      intro!: keep_intros try_keeps split: option.splits sum.splits)

lemma client_step_keeps: "preserves f m \<Longrightarrow> preserves f (client_step m)"
  unfolding preserves_def client_step_def by (auto split: prod.splits) (metis select_convs(2) snd_conv st.select_convs(2))

lemma emits_client_step:
  assumes "emits m R"
  shows "emits (client_step m) (\<lambda>evs r. \<exists>cs r0. evs = map ClientStep cs \<and> R cs r0 \<and> r = map_sum md_of id r0)"
  unfolding emits_def
proof
  fix s :: "(metadata_event, 'a \<times> metadata_local) st"
  let ?s = "\<lparr>trace = [], world = world s\<rparr>"
  from assms obtain cs where cs: "trace (snd (m ?s)) = trace ?s @ cs" "R cs (fst (m ?s))"
    unfolding emits_def by blast
  then show "\<exists>evs. trace (snd (client_step m s)) = trace s @ evs
      \<and> (\<exists>cs r0. evs = map ClientStep cs \<and> R cs r0 \<and> fst (client_step m s) = map_sum md_of id r0)"
    by (auto simp: client_step_def split: prod.splits intro!: exI[of _ cs] exI[of _ "fst (m ?s)"])
qed

lemma call_keeps: "preserves (kept_vars \<circ> snd) (budgeted_call ms mk p)"
proof -
  have "snd (snd (md_port p w)) = snd w" for w :: "'a \<times> metadata_local"
    using lift_keeps[of p w] by (auto simp: md_port_def split: prod.splits)
  then show ?thesis
    unfolding budgeted_call_def check_budget_def by (intro keep_intros client_step_keeps before_keeps) simp
qed

lemma holders_keep: "preserves (kept_vars \<circ> snd) (read_holders ms h t row)"
  unfolding read_holders_def Let_def by (intro keep_intros call_keeps)

lemma resource_keeps: "preserves (kept_vars \<circ> snd) (read_resource ms h ctx t)"
  unfolding read_resource_def Let_def
  by (auto intro!: keep_intros call_keeps holders_keep split: option.splits sum.splits prod.splits)

lemma daemon_keeps: "preserves (kept_vars \<circ> snd) (read_daemon ms h expected)"
  unfolding read_daemon_def by (auto intro!: keep_intros call_keeps split: json.splits)

section \<open>Calls\<close>

text \<open>Every call of the provider follows a check of the budget directly; \<open>calls\<close> counts them.\<close>

fun is_provider_call :: "metadata_event \<Rightarrow> bool" where
  "is_provider_call (ClientStep (HandleOpened _ _)) = True"
| "is_provider_call (ClientStep (VersionRead _ _)) = True"
| "is_provider_call (ClientStep _) = False"
| "is_provider_call _ = True"

fun paced_from :: "bool \<Rightarrow> metadata_event list \<Rightarrow> bool" where
  "paced_from b [] = True"
| "paced_from b (ev # evs) \<longleftrightarrow> (is_provider_call ev \<longrightarrow> b) \<and> paced_from (ev = ClientStep BudgetChecked) evs"

definition paced :: "nat \<Rightarrow> metadata_event list \<Rightarrow> bool" where
  "paced n evs \<longleftrightarrow> paced_from False evs \<and> length (filter is_provider_call evs) \<le> n"

lemma paced_from_mono: "paced_from False evs \<Longrightarrow> paced_from b evs"
  by (cases evs) auto

lemma paced_from_append: "paced_from b xs \<Longrightarrow> paced_from False ys \<Longrightarrow> paced_from b (xs @ ys)"
  by (induction b xs rule: paced_from.induct) (auto intro: paced_from_mono)

lemma paced_append: "paced a xs \<Longrightarrow> paced b ys \<Longrightarrow> paced (a + b) (xs @ ys)"
  by (auto simp: paced_def intro: paced_from_append)

definition stepped :: "nat \<Rightarrow> client_event list \<Rightarrow> bool" where
  "stepped n cs \<longleftrightarrow> paced n (map ClientStep cs)"

interpretation calls: call_budget paced
  by unfold_locales (auto simp: paced_def intro: paced_from_append)

interpretation steps: call_budget stepped
  by unfold_locales (auto simp: stepped_def paced_append, auto simp: paced_def)

abbreviation costs where "costs \<equiv> spends paced"
abbreviation step_costs where "step_costs \<equiv> spends stepped"

lemma costs_on_local: "costs n (on_local f)"
  by (auto simp: spends_def emits_def on_local_def paced_def split: prod.splits)

lemma step_try: "step_costs n m \<Longrightarrow> step_costs n (try_call m)"
  unfolding try_call_def by (rule steps.free_handling) (simp_all add: steps.ends)

text \<open>The client: connecting makes two calls, closing none.\<close>

lemma step_quiet: "(\<And>r. \<not> is_provider_call (ClientStep (mk r))) \<Longrightarrow> step_costs 0 (callE mk p)"
  by (rule steps.one_call) (simp add: stepped_def paced_def)

lemma step_checked:
  assumes "mo_before mo = Some b"
  shows "step_costs 1 (bindE (before_call mo) (\<lambda>_. callE mk p))"
  unfolding spends_def before_call_def assms option.case
  by (rule emits_bindE[OF emits_callE_eq], rule emits_callE) (auto simp: stepped_def paced_def)

lemma step_then:
  assumes "mo_before mo = Some b" "\<And>x. step_costs n (k x)"
  shows "step_costs (1 + n) (bindE (before_call mo) (\<lambda>_. bindE (callE mk p) k))"
  using steps.in_turn[OF step_checked[OF assms(1)] assms(2)] by (simp add: bindE_assoc)

lemma step_close_handle: "step_costs 0 (close_handle mo h)" "step_costs 0 (remove_directory mo)"
  by (simp_all add: close_handle_def remove_directory_def step_quiet)

lemma step_unix_checks:
  assumes "mo_before mo = Some b"
  shows "step_costs 1 (unix_checks mo path h)"
  unfolding unix_checks_def
  by (rule steps.free_first[OF step_quiet], simp, rule steps.free_first[OF steps.ends(4)], rule steps.more[OF step_then[OF assms, where n = 0]])
    (simp_all add: steps.ends)

lemma step_handle:
  assumes "mo_before mo = Some b" "sc_connection sc = UnixConnection path t"
  shows "step_costs 2 (client_handle mo sc)"
proof -
  have checked: "step_costs 1 (bindE (try_call (unix_checks mo path h)) (\<lambda>checked. case checked of
      Inr _ \<Rightarrow> returnE (sc, Inr h)
    | Inl e \<Rightarrow> bindE (try_call (close_handle mo h)) (\<lambda>shut.
        returnE (sc\<lparr>sc_closed := True, sc_handle := None\<rparr>, Inl (failed_acquisition e shut)))))" for h
    by (rule steps.free_rest[OF step_try[OF step_unix_checks[OF assms(1)]]])
      (auto intro!: steps.ends steps.free_first step_try step_close_handle split: sum.splits)
  have "step_costs (1 + 1) (unix_client mo path t sc)"
    unfolding unix_client_def Let_def open_handle_def
    by (rule steps.in_turn[OF step_try[OF step_checked[OF assms(1)]]])
      (auto intro!: checked[unfolded One_nat_def] steps.ends split: sum.splits)
  then have "step_costs 2 (unix_client mo path t sc)" by (simp add: numeral_2_eq_2)
  then have "step_costs (2 + 0) (bindE (unix_client mo path t sc) (\<lambda>(sc', r). returnE (case r of
      Inr h \<Rightarrow> (sc'\<lparr>sc_handle := Some h\<rparr>, Inr h) | Inl e \<Rightarrow> (sc', Inl e))))"
    by (intro steps.in_turn) (auto intro: steps.ends split: prod.splits)
  then show ?thesis
    by (auto simp: client_handle_def connect_client_def assms(2) intro: steps.ends split: option.splits)
qed

lemma step_close: "step_costs 0 (close_sdk_client mo sc)"
  unfolding close_sdk_client_def Let_def
  by (auto intro!: steps.ends steps.free_first step_try step_close_handle split: sum.splits option.splits)

lemma costs_client_step: "step_costs n m \<Longrightarrow> costs n (client_step m)"
  unfolding spends_def
  by (drule emits_client_step) (auto elim!: emits_mono simp: stepped_def)

lemma costs_check: "costs 0 (check_budget ms)"
  unfolding check_budget_def
  by (rule costs_client_step) (auto simp: before_call_def module_keeps intro!: step_quiet)

lemma costs_call: "costs 1 (budgeted_call ms mk p)"
proof -
  have "emits (check_budget ms) (\<lambda>evs r. evs = [ClientStep BudgetChecked])"
    unfolding check_budget_def before_call_def module_keeps option.case
    by (rule emits_mono[OF emits_client_step[OF emits_callE_eq]]) auto
  then show ?thesis
    unfolding budgeted_call_def spends_def
    by (rule emits_bindE) (auto simp: paced_def intro!: emits_callE)
qed

lemma costs_holders: "costs 1 (read_holders ms h t row)"
  unfolding read_holders_def Let_def
  by (intro calls.free_handling calls.free_rest costs_call) (auto intro!: calls.ends)

text \<open>A resource costs one call, a volume two.\<close>

definition cost_of :: "metadata_target \<Rightarrow> nat" where
  "cost_of t = (if volume_role (mt_role t) then 2 else 1)"

lemma costs_resource: "costs (cost_of t) (read_resource ms h ctx t)"
proof -
  have "costs (1 + (if volume_role (mt_role t) then 1 else 0)) (read_resource ms h ctx t)"
    unfolding read_resource_def Let_def
    by (rule calls.in_turn[OF calls.free_handling[OF costs_call]])
      (auto intro!: calls.ends calls.free_rest costs_holders[unfolded One_nat_def] split: option.splits sum.splits prod.splits)
  then show ?thesis by (simp add: cost_of_def numeral_2_eq_2 split: if_splits)
qed

lemma costs_targets: "costs (sum_list (map (\<lambda>(i, t). if i = 2 then 0 else cost_of t) its)) (read_targets ms h ctx its facts)"
proof (induction its arbitrary: facts)
  case Nil
  show ?case by (simp add: calls.ends)
next
  case (Cons it its)
  obtain i t where it: "it = (i, t)" by (cases it)
  have "costs (cost_of t + sum_list (map (\<lambda>(i, t). if i = 2 then 0 else cost_of t) its))
     (attemptE (read_resource ms h ctx t)
        (\<lambda>e. case e of MdResource row \<Rightarrow> bindE (put_row i row) (\<lambda>_. raiseE e) | _ \<Rightarrow> raiseE e)
        (\<lambda>(row, _, seen). bindE (put_row i row) (\<lambda>_. read_targets ms h ctx its (facts[i := seen]))))"
    by (rule calls.attempted[OF costs_resource])
      (auto simp: put_row_def intro!: calls.ends calls.free_first costs_on_local Cons.IH split: metadata_exn.splits prod.splits)
  then show ?case
    using calls.more[OF Cons.IH] by (auto simp: it)
qed

lemma costs_daemon: "costs 1 (read_daemon ms h expected)"
  unfolding read_daemon_def
  by (intro calls.free_handling calls.free_rest costs_call) (auto intro!: calls.ends split: json.splits)

definition sweep_cost :: "metadata_target list \<Rightarrow> nat" where
  "sweep_cost ts = 1 + (cost_of (ts ! 2) + sum_list (map (\<lambda>(i, t). if i = 2 then 0 else cost_of t) (enumerate 0 ts)))"

lemma concrete_role [simp]: "mt_role (concrete_target rq m uid t) = mt_role t"
  by (simp add: concrete_target_def Let_def split: option.splits)

lemma concrete_costs:
  "map (\<lambda>(i, t). if i = 2 then 0 else cost_of t) (enumerate n (map (concrete_target rq m uid) ts))
    = map (\<lambda>(i, t). if i = 2 then 0 else cost_of t) (enumerate n ts)"
  by (induction ts arbitrary: n) (simp_all add: cost_of_def)

lemma costs_rows: "costs n (put_row i row)" "costs n (put_rows rows)" "costs n get_rows"
  by (simp_all add: put_row_def put_rows_def get_rows_def costs_on_local)

lemma costs_sweep: "costs (sweep_cost ts) (metadata_sweep ms h ts rq m expected)"
  unfolding metadata_sweep_def sweep_cost_def
proof (rule calls.in_turn[OF costs_daemon], rule calls.attempted[OF costs_resource], goal_cases)
  case (1 _ e)
  show ?case by (cases e) (auto intro!: calls.ends calls.free_first costs_rows)
next
  case (2 _ seen)
  obtain img uid facts where seen: "seen = (img, uid, facts)" by (cases seen)
  let ?concrete = "map (concrete_target rq m uid) ts"
  have targets: "costs (sum_list (map (\<lambda>(i, t). if i = 2 then 0 else cost_of t) (enumerate 0 ts)))
      (read_targets ms h (sweep_context img ?concrete) (enumerate 0 ?concrete) facts')" for facts'
    using costs_targets[of "enumerate 0 ?concrete" ms h "sweep_context img ?concrete" facts'] unfolding concrete_costs .
  show ?case
    unfolding seen prod.case Let_def
    by (rule calls.free_first[OF costs_rows(1)], rule calls.free_first[OF calls.ends(4)], rule calls.free_first[OF costs_rows(3)],
        rule calls.free_first[OF costs_rows(2)], rule calls.free_rest[OF targets], rule calls.free_first[OF costs_rows(3)],
        rule calls.free_first[OF costs_rows(2)], rule calls.ends)
qed

lemma costs_handle: "sc_connection sc = UnixConnection path t \<Longrightarrow> costs 2 (metadata_handle ms sc)"
  unfolding metadata_handle_def
  by (rule calls.free_rest[OF costs_client_step[OF step_handle[OF module_keeps(6)]]])
    (auto intro!: calls.free_first costs_on_local calls.ends)

lemma costs_close: "costs 0 (close_metadata_client ms)"
  unfolding close_metadata_client_def
  by (rule calls.free_first[OF costs_on_local])
    (auto intro!: calls.free_first costs_client_step step_close costs_on_local calls.ends split: option.splits)

lemma costs_body: "costs (2 + (sweep_cost ts + sweep_cost ts)) (metadata_body ms policy ts rq m expected)"
  unfolding metadata_body_def Let_def
  apply (rule calls.free_first)
   apply (rule costs_client_step, rule step_quiet, simp)
  apply (rule calls.free_first[OF costs_check], rule calls.free_first[OF costs_on_local])
  apply (rule calls.in_turn[OF costs_handle], simp add: new_client_def)
  apply (rule calls.in_turn[OF costs_sweep], rule calls.free_first[OF costs_rows(3)], rule calls.free_first[OF costs_rows(2)])
  apply (rule calls.free_rest[OF costs_sweep], rule calls.free_first[OF costs_rows(3)], rule calls.free_first[OF costs_rows(2)], rule calls.ends)
  done

lemma costs_observe: "costs (2 + (sweep_cost ts + sweep_cost ts)) (observe_targets ms oq policy ts m daemon)"
proof -
  have outcome: "costs 0 (metadata_outcome ms ts x)" for x
    by (auto simp: metadata_outcome_def intro!: calls.ends calls.free_first costs_rows split: sum.splits metadata_exn.splits)
  show ?thesis
    unfolding observe_targets_def
    by (rule calls.free_first[OF costs_rows(2)], rule calls.free_rest[OF calls.free_handling[OF costs_body]])
      (auto intro!: calls.ends calls.free_first outcome costs_close costs_rows split: prod.splits)
qed

text \<open>A selection has at most eight volumes.\<close>

lemma enumerated_cost: "sum_list (map (\<lambda>(i, t). if i = 2 then 0 else cost_of t) (enumerate n ts)) \<le> 2 * length ts"
proof (induction ts arbitrary: n)
  case (Cons t ts)
  show ?case using Cons.IH[of "Suc n"] by (auto simp: cost_of_def)
qed simp

lemma selected_cost:
  assumes "metadata_targets ms oq authority expected = Some ts"
  shows "sweep_cost ts \<le> 20"
proof -
  from assms obtain m where ts: "ts = selected_targets ms (oq_request oq) m" and m: "material_admitted oq m"
    by (auto simp: metadata_targets_def Let_def split: list.splits if_splits)
  define volumes where "volumes = drop 3 ts"
  have "length volumes = length (rr_instances (oq_request oq)) + length (file_deliveries (pm_deliveries m))"
    by (simp add: volumes_def ts selected_targets_def)
  with m have "length volumes \<le> 8" by (simp add: material_admitted_def)
  moreover have "sweep_cost ts = 4 + sum_list (map (\<lambda>(i, t). if i = 2 then 0 else cost_of t) (enumerate 3 volumes))"
    by (simp add: sweep_cost_def ts selected_targets_def volumes_def cost_of_def volume_role_def eval_nat_numeral)
  ultimately show ?thesis using enumerated_cost[of 3 volumes] by linarith
qed

section \<open>The client\<close>

definition client_steps :: "metadata_event list \<Rightarrow> client_event list" where
  "client_steps evs = concat (map (\<lambda>ev. case ev of ClientStep c \<Rightarrow> [c] | _ \<Rightarrow> []) evs)"

lemma client_steps_simps [simp]:
  "client_steps [] = []" "client_steps (xs @ ys) = client_steps xs @ client_steps ys" "client_steps (map ClientStep cs) = cs"
  "client_steps (ev # evs) = (case ev of ClientStep c \<Rightarrow> [c] | _ \<Rightarrow> []) @ client_steps evs"
  by (simp_all add: client_steps_def comp_def)

text \<open>The handles a client holds after the events: the ones before them and the opened ones, without the closed ones.\<close>

definition held_by :: "metadata_local \<Rightarrow> string list" where
  "held_by l = (case ml_client l of None \<Rightarrow> [] | Some sc \<Rightarrow> held_handles sc)"

definition usable :: "metadata_local \<Rightarrow> bool" where
  "usable l \<longleftrightarrow> (\<forall>sc. ml_client l = Some sc \<longrightarrow> sc_closed sc \<longrightarrow> sc_handle sc = None)"

definition balanced :: "metadata_local \<Rightarrow> metadata_event list \<Rightarrow> metadata_local \<Rightarrow> bool" where
  "balanced l evs l' \<longleftrightarrow>
     usable l' \<and> held_by l @ opened_handles (client_steps evs) = closed_handles (client_steps evs) @ held_by l'"

fun handle_event :: "metadata_event \<Rightarrow> bool" where
  "handle_event (ClientStep ev) \<longleftrightarrow> handle_opened ev \<noteq> [] \<or> handle_closed ev \<noteq> []"
| "handle_event _ = False"

definition keeps_client :: "((metadata_event, 'w \<times> metadata_local) st, 'e, 'a) eff \<Rightarrow> bool" where
  "keeps_client m \<longleftrightarrow> (\<forall>l. usable l \<longrightarrow> local_runs l m (\<lambda>evs r l'. balanced l evs l'))"

lemma balanced_append: "balanced l xs l' \<Longrightarrow> balanced l' ys l'' \<Longrightarrow> balanced l (xs @ ys) l''"
  unfolding balanced_def by (metis append.assoc client_steps_simps(2) handles_simps(5,6))

lemma handleless: "\<forall>ev \<in> set evs. \<not> handle_event ev \<Longrightarrow> opened_handles (client_steps evs) = [] \<and> closed_handles (client_steps evs) = []"
proof (induction evs)
  case (Cons ev evs)
  then show ?case by (cases ev) auto
qed simp

lemma keeps_quiet:
  assumes "only_emits (\<lambda>ev. \<not> handle_event ev) m" "preserves (ml_client \<circ> snd) m"
  shows "keeps_client m"
  unfolding keeps_client_def
proof (intro allI impI)
  fix l
  assume "usable l"
  show "local_runs l m (\<lambda>evs r l'. balanced l evs l')"
    by (rule local_mono[OF preserves_local[OF assms(1)[unfolded only_emits_def] assms(2)]])
      (use \<open>usable l\<close> in \<open>auto simp: balanced_def usable_def held_by_def dest: handleless\<close>)
qed

lemma keeps_after:
  assumes "keeps_client m" "balanced l evs l'"
  shows "local_runs l' m (\<lambda>evs' r. balanced l (evs @ evs'))"
proof -
  have "usable l'" using assms(2) by (simp add: balanced_def)
  with assms(1) have "local_runs l' m (\<lambda>evs r. balanced l' evs)" by (simp add: keeps_client_def)
  then show ?thesis by (rule local_mono) (rule balanced_append[OF assms(2)])
qed

lemma keeps_bind:
  assumes "keeps_client m" "\<And>a. keeps_client (k a)"
  shows "keeps_client (bindE m k)"
  unfolding keeps_client_def
  by (intro allI impI, rule local_bindE[OF assms(1)[unfolded keeps_client_def, rule_format]])
    (assumption, rule keeps_after[OF assms(2)], assumption)

lemma keeps_attempt:
  assumes "keeps_client m" "\<And>e. keeps_client (h e)" "\<And>a. keeps_client (k a)"
  shows "keeps_client (attemptE m h k)"
  unfolding keeps_client_def
  by (intro allI impI, rule local_attemptE[OF assms(1)[unfolded keeps_client_def, rule_format]])
    (assumption, rule keeps_after[OF assms(3)], assumption, rule keeps_after[OF assms(2)], assumption)

text \<open>The reads keep the client as it is.\<close>

lemma quiet_call: "(\<And>r. \<not> handle_event (mk r)) \<Longrightarrow> only_emits (\<lambda>ev. \<not> handle_event ev) (budgeted_call ms mk p)"
proof -
  assume mk: "\<And>r. \<not> handle_event (mk r)"
  have "only_emits (\<lambda>ev. \<not> handle_event ev) (check_budget ms)"
    unfolding check_budget_def before_call_def module_keeps option.case only_emits_def
    by (rule emits_mono[OF emits_client_step[OF emits_callE_eq]]) auto
  then show ?thesis
    unfolding budgeted_call_def by (intro emit_intros) (simp_all add: mk)
qed

lemma client_of_vars: "preserves (kept_vars \<circ> snd) m \<Longrightarrow> preserves (ml_client \<circ> snd) m"
  by (simp add: preserves_def kept_vars_def)

lemma keeps_resource: "keeps_client (read_resource ms h ctx t)"
proof (rule keeps_quiet[OF _ client_of_vars[OF resource_keeps]])
  have "only_emits (\<lambda>ev. \<not> handle_event ev) (read_holders ms h t row)" for row
    unfolding read_holders_def Let_def by (intro emit_intros quiet_call) simp_all
  then show "only_emits (\<lambda>ev. \<not> handle_event ev) (read_resource ms h ctx t)"
    unfolding read_resource_def Let_def
    by (auto intro!: emit_intros quiet_call split: option.splits sum.splits prod.splits)
qed

lemma keeps_daemon: "keeps_client (read_daemon ms h expected)"
proof (rule keeps_quiet[OF _ client_of_vars[OF daemon_keeps]])
  show "only_emits (\<lambda>ev. \<not> handle_event ev) (read_daemon ms h expected)"
    unfolding read_daemon_def by (auto intro!: emit_intros quiet_call split: json.splits)
qed

lemma keeps_ends: "keeps_client (returnE a)" "keeps_client (raiseE e)" "keeps_client (liftE r)" "keeps_client (requireE b f)"
  by (auto intro!: keeps_quiet keep_intros emit_intros)

lemma keeps_on_local: "(\<And>l. ml_client (snd (f l)) = ml_client l) \<Longrightarrow> keeps_client (on_local f)"
  unfolding keeps_client_def
  by (intro allI impI local_on_local) (simp add: balanced_def usable_def held_by_def)

lemma keeps_rows: "keeps_client (put_row i row)" "keeps_client (put_rows rows)" "keeps_client get_rows"
  by (auto simp: put_row_def put_rows_def get_rows_def intro!: keeps_on_local)

lemma keeps_targets: "keeps_client (read_targets ms h ctx its facts)"
proof (induction its arbitrary: facts)
  case (Cons it its)
  obtain i t where it: "it = (i, t)" by (cases it)
  show ?case
    by (auto simp: it intro!: Cons.IH keeps_attempt keeps_resource keeps_bind keeps_rows keeps_ends split: metadata_exn.splits prod.splits)
qed (simp add: keeps_ends)

lemma keeps_sweep: "keeps_client (metadata_sweep ms h ts rq m expected)"
  unfolding metadata_sweep_def Let_def
  by (auto intro!: keeps_bind keeps_attempt keeps_daemon keeps_resource keeps_rows keeps_targets keeps_ends
      split: metadata_exn.splits prod.splits)

lemma delivers_returned: "delivers m Q \<Longrightarrow> raises_only (\<lambda>_. False) m \<Longrightarrow> emits m (\<lambda>evs r. \<exists>a. r = Inr a \<and> Q a evs)"
  unfolding delivers_def raises_only_def emits_def by (metis Inl_Inr_False old.sum.exhaust prod.collapse)

lemma try_returns: "raises_only (\<lambda>_. False) (try_call m)"
  unfolding try_call_def by (intro raise_intros)

lemma client_returns: "raises_only (\<lambda>_. False) (client_handle mo sc)" "raises_only (\<lambda>_. False) (close_sdk_client mo sc)"
proof -
  have "raises_only (\<lambda>_. False) (connect_client mo sc)"
    unfolding connect_client_def unix_client_def remote_tls_client_def Let_def
    by (auto intro!: raise_intros try_returns split: connection.splits sum.splits)
  then show "raises_only (\<lambda>_. False) (client_handle mo sc)"
    unfolding client_handle_def by (auto intro!: raise_intros split: option.splits prod.splits)
  show "raises_only (\<lambda>_. False) (close_sdk_client mo sc)"
    unfolding close_sdk_client_def Let_def by (auto intro!: raise_intros try_returns split: option.splits sum.splits)
qed

lemma closes_client: "close_sdk_client mo sc s = (Inr (sc', r), s') \<Longrightarrow> sc_closed sc'"
  by (auto simp: close_sdk_client_def Let_def bindE_def returnE_def split: if_splits option.splits prod.splits sum.splits)

lemma emits_also: "emits m R \<Longrightarrow> (\<And>s a s'. m s = (Inr a, s') \<Longrightarrow> Q a) \<Longrightarrow> emits m (\<lambda>evs r. R evs r \<and> (\<forall>a. r = Inr a \<longrightarrow> Q a))"
  unfolding emits_def by (metis prod.collapse)

section \<open>The observation\<close>

lemma handle_balanced:
  assumes "usable l" "ml_client l = Some sc" "sc_connection sc = UnixConnection path t"
  shows "local_runs l (metadata_handle ms sc) (\<lambda>evs r l'. balanced l evs l')"
proof -
  have ok: "sc_closed sc \<longrightarrow> sc_handle sc = None" using assms by (auto simp: usable_def)
  have used: "local_runs l (client_step (client_handle (budgeted_module ms) sc)) (\<lambda>evs r l'.
      (\<exists>cs r0. evs = map ClientStep cs \<and> (\<exists>a. r0 = Inr a \<and> (case a of (sc', x) \<Rightarrow> \<lambda>evs. kept_handles sc sc' evs) cs) \<and> r = map_sum md_of id r0)
      \<and> kept_vars l' = kept_vars l)"
    by (rule preserves_local[OF emits_client_step[OF delivers_returned[OF delivers_client_handle[OF ok] client_returns(1)]]
        client_step_keeps[OF handle_keeps[OF assms(3)]]])
  show ?thesis
    unfolding metadata_handle_def
  proof (rule local_bindE[OF used], goal_cases)
    case (1 x evs c')
    obtain sc' r where x: "x = (sc', r)" by (cases x)
    from 1 x obtain cs where cs: "evs = map ClientStep cs" "kept_handles sc sc' cs" by auto
    have "balanced l evs (c'\<lparr>ml_client := Some sc'\<rparr>)"
      using assms(2) cs by (auto simp: balanced_def usable_def held_by_def kept_handles_def)
    then show ?case
      unfolding x prod.case
      by (intro local_bindE[OF local_on_local[where R = "\<lambda>evs' r c''. evs' = [] \<and> c'' = c'\<lparr>ml_client := Some sc'\<rparr>"]])
        (auto intro!: local_liftE)
  qed auto
qed

lemma body_balanced:
  assumes "ml_client l = None"
  shows "local_runs l (metadata_body ms policy ts rq m expected) (\<lambda>evs r l'. balanced l evs l')"
proof -
  let ?sc = "new_client (UnixConnection (fst policy) (snd policy))"
  have start: "preserves (ml_client \<circ> snd) (client_step (callE (\<lambda>_. BudgetChecked) (budget_start ms)))"
  proof (rule client_step_keeps, rule preserves_call)
    fix w :: "'a \<times> metadata_local"
    obtain r v k where "budget_now ms w = (r, v, k)" by (cases "budget_now ms w") auto
    moreover have "snd (snd (budget_now ms w)) = snd w"
      using lift_keeps[of "ms_clock ms" w] by (auto simp: budget_now_def split: prod.splits sum.splits option.splits)
    ultimately show "(ml_client \<circ> snd) (snd (budget_start ms w)) = (ml_client \<circ> snd) w"
      by (cases r) (auto simp: budget_start_def)
  qed
  have start_quiet: "only_emits (\<lambda>ev. \<not> handle_event ev) (client_step (callE (\<lambda>_. BudgetChecked) (budget_start ms)))"
    unfolding only_emits_def by (rule emits_mono[OF emits_client_step[OF emits_callE_eq]]) auto
  have checked: "local_runs l1 (check_budget ms) (\<lambda>evs r l'. evs = [ClientStep BudgetChecked] \<and> ml_client l' = ml_client l1)" for l1
    unfolding check_budget_def before_call_def module_keeps option.case
    by (rule preserves_local, rule emits_mono[OF emits_client_step[OF emits_callE_eq]])
      (auto intro!: client_step_keeps preserves_call simp: budget_keeps_client)
  have sweeps: "keeps_client (bindE (metadata_sweep ms h ts rq m expected) (\<lambda>first_facts.
     bindE get_rows (\<lambda>first.
     bindE (put_rows (initial_rows ms ProviderUnavailable ts)) (\<lambda>_.
     bindE (metadata_sweep ms h ts rq m expected) (\<lambda>facts.
     bindE get_rows (\<lambda>rows.
     bindE (put_rows (compared_rows first first_facts rows facts)) (\<lambda>_.
        returnE (sha256_hex (utf8_bytes (binding_domain @ [CHR 0x00] @ expected)), list_all row_complete (compared_rows first first_facts rows facts)))))))))" for h
    by (intro keeps_bind keeps_sweep keeps_rows keeps_ends)
  have quiet: "\<not> held_by l \<noteq> []" "usable l" using assms by (auto simp: held_by_def usable_def)
  show ?thesis
    unfolding metadata_body_def Let_def
  proof (rule local_bindE[OF preserves_local[OF start_quiet[unfolded only_emits_def] start]], goal_cases)
    case (1 _ evs l1)
    then have l1: "ml_client l1 = None" "balanced l evs l1"
      using assms handleless[of evs] by (auto simp: balanced_def usable_def held_by_def)
    show ?case
    proof (rule local_bindE[OF checked], goal_cases)
      case (1 _ evs' l2)
      then have l2: "ml_client l2 = None" "balanced l (evs @ evs') l2"
        using l1 by (auto simp: balanced_def usable_def held_by_def)
      let ?l = "l2\<lparr>ml_client := Some ?sc\<rparr>"
      have l3: "usable ?l" "balanced l (evs @ evs') ?l"
        using l2 by (auto simp: balanced_def usable_def held_by_def new_client_def held_handles_def)
      show ?case
      proof (rule local_bindE[OF local_on_local[where R = "\<lambda>evs r c''. evs = [] \<and> c'' = ?l"]], goal_cases)
        case (2 _ evs2 l3')
        then have now: "l3' = ?l" "evs2 = []" by auto
        show ?case
          unfolding now append_Nil
        proof (rule local_bindE[OF handle_balanced[OF l3(1)]], goal_cases)
          case (3 h evs3 l4)
          show ?case using keeps_after[OF sweeps[of h] balanced_append[OF l3(2) 3]] by simp
        next
          case (4 e evs3 l4)
          show ?case using balanced_append[OF l3(2) 4] by simp
        qed (simp_all add: new_client_def)
      qed (use l3 in auto)
    qed (use l1 in \<open>auto simp: balanced_def usable_def held_by_def\<close>)
  qed (use assms quiet in \<open>auto simp: balanced_def usable_def held_by_def dest: handleless\<close>)
qed

lemma close_balanced:
  assumes "usable l"
  shows "local_runs l (close_metadata_client ms) (\<lambda>evs r l'. balanced l evs l' \<and> held_by l' = [])"
proof (cases "ml_client l")
  case None
  then show ?thesis
    unfolding close_metadata_client_def
    by (intro local_bindE[OF local_on_local[where R = "\<lambda>evs r c''. evs = [] \<and> r = Inr None \<and> c'' = l"]])
      (auto simp: balanced_def usable_def held_by_def intro!: local_returnE)
next
  case (Some sc)
  have ok: "sc_closed sc \<longrightarrow> sc_handle sc = None" using assms Some by (auto simp: usable_def)
  have closed: "local_runs l (client_step (close_sdk_client (budgeted_module ms) sc)) (\<lambda>evs r l'.
      (\<exists>cs r0. evs = map ClientStep cs \<and> ((\<exists>a. r0 = Inr a \<and> (case a of (sc', x) \<Rightarrow> \<lambda>evs. kept_handles sc sc' evs) cs)
          \<and> (\<forall>a. r0 = Inr a \<longrightarrow> sc_closed (fst a))) \<and> r = map_sum md_of id r0)
      \<and> kept_vars l' = kept_vars l)"
    by (rule preserves_local[OF emits_client_step[OF emits_also[OF
          delivers_returned[OF delivers_close_client[OF ok] client_returns(2)]]] client_step_keeps[OF close_keeps]])
      (auto dest: closes_client)
  show ?thesis
    unfolding close_metadata_client_def
  proof (rule local_bindE[OF local_on_local[where R = "\<lambda>evs r c''. evs = [] \<and> r = Inr (Some sc) \<and> c'' = l"]], simp add: Some, goal_cases)
    case (1 client evs0 l0)
    then have now: "client = Some sc" "evs0 = []" "l0 = l" by auto
    show ?case
      unfolding now option.case append_Nil
    proof (rule local_bindE[OF closed], goal_cases)
      case (1 x evs l1)
      obtain sc' r where x: "x = (sc', r)" by (cases x)
      from 1 x obtain cs where cs: "evs = map ClientStep cs" "kept_handles sc sc' cs" "sc_closed sc'" by auto
      have "balanced l evs (l1\<lparr>ml_client := Some sc'\<rparr>) \<and> held_by (l1\<lparr>ml_client := Some sc'\<rparr>) = []"
        using Some cs by (auto simp: balanced_def usable_def held_by_def kept_handles_def held_handles_def)
      then show ?case
        unfolding x prod.case
        by (intro local_bindE[OF local_on_local[where R = "\<lambda>evs' r c''. evs' = [] \<and> c'' = l1\<lparr>ml_client := Some sc'\<rparr>"]])
          (auto intro!: local_returnE)
    qed auto
  qed auto
qed

lemma outcome_keeps: "keeps_client (metadata_outcome ms ts x)"
  by (auto simp: metadata_outcome_def intro!: keeps_ends keeps_bind keeps_rows split: sum.splits metadata_exn.splits)

lemma outcome_returns: "raises_only (\<lambda>_. False) (metadata_outcome ms ts x)"
proof -
  have "raises_only (\<lambda>_. False) (put_rows rows)" for rows
    by (simp add: raises_only_def put_rows_def on_local_def)
  then show ?thesis
    by (auto simp: metadata_outcome_def intro!: raise_intros split: sum.splits metadata_exn.splits)
qed

lemma local_returned: "local_runs l m R \<Longrightarrow> raises_only (\<lambda>_. False) m \<Longrightarrow> local_runs l m (\<lambda>evs r l'. R evs r l' \<and> (\<exists>a. r = Inr a))"
  unfolding local_runs_def raises_only_def by (metis old.sum.exhaust prod.collapse)

lemma local_get_rows: "local_runs l (k (ml_rows l)) R \<Longrightarrow> local_runs l (bindE get_rows k) R"
  unfolding get_rows_def
  by (rule local_bindE[OF local_on_local[where R = "\<lambda>evs r c. evs = [] \<and> c = l \<and> r = Inr (ml_rows l)"]]) auto

lemma observe_balanced:
  "local_runs fresh_metadata (observe_targets ms oq policy ts m daemon)
     (\<lambda>evs r l'. opened_handles (client_steps evs) = closed_handles (client_steps evs))"
proof -
  have fresh: "usable fresh_metadata" "held_by fresh_metadata = []" by (simp_all add: usable_def held_by_def fresh_metadata_def)
  have even: "opened_handles (client_steps evs) = closed_handles (client_steps evs)" if "balanced fresh_metadata evs l'" "held_by l' = []" for evs l'
    using that fresh by (simp add: balanced_def)
  show ?thesis
    unfolding observe_targets_def put_rows_def
  proof (rule local_bindE[OF local_on_local[where R = "\<lambda>evs r c''. evs = [] \<and> ml_client c'' = None"]], simp add: fresh_metadata_def, goal_cases)
    case (1 _ evs l1)
    then have l1: "ml_client l1 = None" "evs = []" "balanced fresh_metadata [] l1"
      by (auto simp: balanced_def usable_def held_by_def fresh_metadata_def)
    show ?case
      unfolding l1(2) append_Nil
    proof (rule local_bindE[OF local_attemptE[OF body_balanced[OF l1(1)], where R = "\<lambda>evs r l'. (\<exists>x. r = Inr x) \<and> balanced l1 evs l'"]],
        goal_cases)
      case (3 outcome evs1 l2)
      then have l2: "balanced fresh_metadata evs1 l2" using balanced_append[OF l1(3)] by auto
      show ?case
      proof (rule local_bindE[OF local_returned[OF keeps_after[OF outcome_keeps l2] outcome_returns]], goal_cases)
        case (1 x evs2 l3)
        obtain binding whole read_error where x: "x = (binding, whole, read_error)" by (cases x)
        from 1 have usable: "usable l3" by (simp add: balanced_def)
        have settled: "opened_handles (client_steps (evs1 @ evs2 @ evs3)) = closed_handles (client_steps (evs1 @ evs2 @ evs3))"
          if "balanced l3 evs3 l4" "held_by l4 = []" for evs3 l4
          using even[of "evs1 @ evs2 @ evs3" l4] that balanced_append[OF conjunct1[OF 1] that(1)] by simp
        show ?case
          unfolding x prod.case
        proof (rule local_bindE[OF close_balanced[OF usable]], goal_cases)
          case (1 closing evs3 l4)
          show ?case
            by (cases "passed_errors ms read_error closing")
              (use settled 1 in \<open>auto intro!: local_raiseE local_get_rows local_liftE\<close>)
        qed (use settled in auto)
      qed (auto)
    qed (auto intro!: local_returnE)
  qed auto
qed

text \<open>
  C36: whatever the daemon, the clock and the socket answer, an observation of metadata makes at most
  42 calls to the provider, each directly after a check of its budget, and it closes every handle it
  opened before it ends, also when it raises; a request whose addresses it does not select makes no
  call at all.
\<close>

theorem metadata_observation_settled:
  assumes "observe_metadata ms oq authority expected s = (r, s')" and "trace s' = trace s @ evs"
  shows "paced 42 evs \<and> opened_handles (client_steps evs) = closed_handles (client_steps evs)
    \<and> (metadata_targets ms oq authority expected = None \<longrightarrow> evs = [])"
proof -
  have "emits (observe_metadata ms oq authority expected) (\<lambda>evs r. paced 42 evs
      \<and> opened_handles (client_steps evs) = closed_handles (client_steps evs)
      \<and> (metadata_targets ms oq authority expected = None \<longrightarrow> evs = []))"
  proof (cases "metadata_targets ms oq authority expected")
    case None
    then show ?thesis
      by (auto simp: observe_metadata_def paced_def intro!: emits_liftE)
  next
    case (Some ts)
    have run: "emits (bindE (run_local fresh_metadata (observe_targets ms oq policy ts m daemon)) (\<lambda>(r, _). liftE r))
        (\<lambda>evs r. paced 42 evs \<and> opened_handles (client_steps evs) = closed_handles (client_steps evs))" for policy m daemon
    proof -
      have "local_runs fresh_metadata (observe_targets ms oq policy ts m daemon) (\<lambda>evs r l'. paced (2 + (sweep_cost ts + sweep_cost ts)) evs)"
        by (rule local_of_emits[OF costs_observe[unfolded spends_def]])
      from local_conj[OF this observe_balanced]
      have "local_runs fresh_metadata (observe_targets ms oq policy ts m daemon) (\<lambda>evs r l'. paced 42 evs
          \<and> opened_handles (client_steps evs) = closed_handles (client_steps evs))"
        by (rule local_mono) (use selected_cost[OF Some] in \<open>auto elim: calls.within_more\<close>)
      then show ?thesis
        by (intro emits_bindE[OF emits_run_local]) (auto intro!: emits_liftE split: prod.splits)
    qed
    have quiet: "emits (liftE (admit_metadata ms res)) (\<lambda>evs r. paced 42 evs
        \<and> opened_handles (client_steps evs) = closed_handles (client_steps evs))" for res
      by (rule emits_liftE) (simp add: calls.within_none)
    show ?thesis
      unfolding observe_metadata_def Some
      by (cases "ms_policy ms"; cases expected; cases "rr_products (oq_request oq)") (simp_all add: run quiet)
  qed
  from emitsD[OF this assms] show ?thesis .
qed

section \<open>What complete coverage means\<close>

text \<open>
  \<open>resource_shown ms evs t row\<close>: what a row says of its target was answered in \<open>evs\<close>: a present
  resource was read with this identity and is matching only when its projection is; an absent one was not
  found; a volume is attached when a holder with it mounted was listed, and not attached when none was.
\<close>

definition holders_shown :: "metadata_event list \<Rightarrow> string \<Rightarrow> metadata_attachment \<Rightarrow> bool" where
  "holders_shown evs c att \<longleftrightarrow>
     (att = AttachmentObserved \<longrightarrow> (\<exists>j. HoldersRead c (Inr j) \<in> set evs \<and> holder_of c j = Inr True))
     \<and> (att = AttachmentNotObserved \<longrightarrow> (\<exists>j. HoldersRead c (Inr j) \<in> set evs \<and> holder_of c j = Inr False))"

definition present_as :: "'w metadata_setting \<Rightarrow> metadata_target \<Rightarrow> json \<Rightarrow> metadata_row \<Rightarrow> bool" where
  "present_as ms t raw row \<longleftrightarrow>
     (\<exists>ctx seen uid facts. project_resource ms t ctx raw = Inr (seen, uid, facts) \<and> mw_identity row = mw_identity seen
        \<and> (mw_ownership row = mw_ownership seen \<or> mw_ownership row = ConflictingOwner))"

definition resource_shown :: "'w metadata_setting \<Rightarrow> metadata_event list \<Rightarrow> metadata_target \<Rightarrow> metadata_row \<Rightarrow> bool" where
  "resource_shown ms evs t row \<longleftrightarrow>
     (mw_state row = PresentState \<or> mw_state row = AbsentState \<longrightarrow>
        (\<exists>c. mt_coordinate t = Some c
           \<and> (mw_state row = PresentState \<longrightarrow> (\<exists>raw. ResourceRead (mt_role t) c (Inr (Some raw)) \<in> set evs \<and> present_as ms t raw row))
           \<and> (mw_state row = AbsentState \<longrightarrow> ResourceRead (mt_role t) c (Inr None) \<in> set evs)
           \<and> (volume_role (mt_role t) \<longrightarrow> holders_shown evs c (mw_attachment row))))"

lemma present_as_attachment [simp]: "present_as ms t raw (row\<lparr>mw_attachment := att\<rparr>) = present_as ms t raw row"
  by (simp add: present_as_def)

lemma holders_shown_later: "holders_shown evs c att \<Longrightarrow> set evs \<subseteq> set evs' \<Longrightarrow> holders_shown evs' c att"
  unfolding holders_shown_def by blast

lemma resource_shown_later: "resource_shown ms evs t row \<Longrightarrow> set evs \<subseteq> set evs' \<Longrightarrow> resource_shown ms evs' t row"
  unfolding resource_shown_def holders_shown_def by blast

lemma unseen_shown: "mw_state row \<noteq> PresentState \<Longrightarrow> mw_state row \<noteq> AbsentState \<Longrightarrow> resource_shown ms evs t row"
  by (simp add: resource_shown_def)

lemma unread_state [simp]: "mw_state (unread_row ms t reason) = UnknownState"
  by (simp add: unread_row_def)

lemma emits_call: "emits (budgeted_call ms mk p) (\<lambda>evs r. \<forall>a. r = Inr a \<longrightarrow> mk (Inr a) \<in> set evs)"
proof -
  have "emits (check_budget ms) (\<lambda>evs r. True)"
    unfolding check_budget_def before_call_def module_keeps option.case
    by (rule emits_mono[OF emits_client_step[OF emits_callE_eq]]) simp
  then show ?thesis
    unfolding budgeted_call_def by (rule emits_bindE) (auto intro!: emits_callE)
qed

lemma delivers_holders:
  assumes "mt_coordinate t = Some c"
  shows "delivers (read_holders ms h t row) (\<lambda>row' evs. holders_shown evs c (mw_attachment row')
     \<and> row'\<lparr>mw_attachment := mw_attachment row\<rparr> = row)"
proof -
  have asked: "emits (bindE (budgeted_call ms (HoldersRead c) p) (\<lambda>j. liftE (holder_of c j)))
      (\<lambda>evs r. \<forall>held. r = Inr held \<longrightarrow> (\<exists>j. HoldersRead c (Inr j) \<in> set evs \<and> holder_of c j = Inr held))" for p
    by (rule emits_bindE[OF emits_call]) (auto intro!: emits_liftE)
  show ?thesis
    unfolding read_holders_def Let_def assms option.sel
    by (rule delivers_attempt[OF asked]) (auto simp: holders_shown_def intro!: delivers_if delivers_return)
qed

lemma seen_row_simps [simp]:
  "mw_state (seen_row ms t b owner ident) = PresentState" "mw_attachment (seen_row ms t b owner ident) = unknown_attachment t"
  by (simp_all add: seen_row_def unread_row_def)

lemma projected_present:
  assumes "project_resource ms t ctx raw = Inr (seen, uid, facts)"
  shows "mw_state seen = PresentState \<and> mw_attachment seen = unknown_attachment t"
proof -
  have image: "mw_state seen = PresentState \<and> mw_attachment seen = unknown_attachment t"
    if "project_image ms t kvs = Inr (seen, uid, facts)" for kvs
    using that unfolding project_image_def bindR_Inr_iff Let_def by (elim exE conjE) auto
  have container: "mw_state seen = PresentState \<and> mw_attachment seen = unknown_attachment t"
    if "project_container ms t ctx kvs = Inr (seen, uid, facts)" for kvs
    using that unfolding project_container_def bindR_Inr_iff Let_def by (elim exE conjE) (auto split: if_splits)
  have network: "mw_state seen = PresentState \<and> mw_attachment seen = unknown_attachment t"
    if "project_network ms t kvs = Inr (seen, uid, facts)" for kvs
    using that unfolding project_network_def bindR_Inr_iff by (elim exE conjE) auto
  have volume: "mw_state seen = PresentState \<and> mw_attachment seen = unknown_attachment t"
    if "project_volume ms t kvs = Inr (seen, uid, facts)" for kvs
    using that unfolding project_volume_def bindR_Inr_iff by (elim exE conjE) (auto split: if_splits)
  from assms obtain kvs where "(case mt_role t of
      ImageRole \<Rightarrow> project_image ms t kvs | ContainerRole \<Rightarrow> project_container ms t ctx kvs | NetworkRole \<Rightarrow> project_network ms t kvs
    | _ \<Rightarrow> project_volume ms t kvs) = Inr (seen, uid, facts)"
    unfolding project_resource_def bindR_Inr_iff by blast
  then show ?thesis
    using image container network volume by (cases "mt_role t") simp_all
qed

lemma delivers_resource:
  assumes "mt_coordinate t = Some c"
  shows "delivers (read_resource ms h ctx t) (\<lambda>(row, uid, facts) evs. resource_shown ms evs t row)"
proof -
  define seen_as where "seen_as evs row \<longleftrightarrow> mw_attachment row = unknown_attachment t
      \<and> (mw_state row = AbsentState \<and> ResourceRead (mt_role t) c (Inr None) \<in> set evs
         \<or> mw_state row = PresentState \<and> (\<exists>raw. ResourceRead (mt_role t) c (Inr (Some raw)) \<in> set evs \<and> present_as ms t raw row))"
    for evs row
  have read: "delivers (attemptE (budgeted_call ms (ResourceRead (mt_role t) c) (ms_inspect ms h (mt_role t) c))
      (\<lambda>e. if md_provider_error ms e then raiseE (MdResource (unread_row ms t ProviderUnavailable)) else raiseE e)
      (\<lambda>found. case found of
          None \<Rightarrow> returnE (absent_row ms t, None, NoFacts)
        | Some raw \<Rightarrow>
            (case project_resource ms t ctx raw of
               Inl e \<Rightarrow> raiseE (if e = MdMalformed then MdResource (unread_row ms t MalformedAnswer) else e)
             | Inr seen \<Rightarrow> returnE seen))) (\<lambda>(row, uid, facts) evs. seen_as evs row)"
  proof (rule delivers_attempt[OF emits_call], goal_cases)
    case (1 found evs)
    show ?case
    proof (cases found)
      case None
      with 1 show ?thesis by (auto simp: seen_as_def absent_row_def unread_row_def intro!: delivers_return)
    next
      case (Some raw)
      show ?thesis
      proof (cases "project_resource ms t ctx raw")
        case (Inr seen)
        obtain row uid facts where seen: "seen = (row, uid, facts)" by (cases seen)
        have "present_as ms t raw row"
          unfolding present_as_def using Inr seen by blast
        with 1 Some projected_present[OF Inr[unfolded seen]] Inr seen show ?thesis
          by (auto simp: seen_as_def intro!: delivers_return)
      qed (simp add: Some)
    qed
  qed (auto intro!: delivers_if)
  show ?thesis
    unfolding read_resource_def Let_def assms option.sel
  proof (rule delivers_bind[OF read], goal_cases)
    case (1 a evs)
    obtain row uid facts where a: "a = (row, uid, facts)" by (cases a)
    with 1 have row: "seen_as evs row" by simp
    show ?case
      unfolding a prod.case
    proof (rule delivers_if, goal_cases)
      case 1
      show ?case
      proof (rule delivers_bind[OF delivers_holders[OF assms]], goal_cases)
        case (1 row' evs')
        then obtain att where row': "row' = row\<lparr>mw_attachment := att\<rparr>" "holders_shown evs' c att"
          by (cases row; cases row') auto
        from row have "resource_shown ms (evs @ evs') t row'"
          unfolding row'(1) using holders_shown_later[OF row'(2), of "evs @ evs'"] assms
          by (auto simp: seen_as_def resource_shown_def)
        then show ?case by (auto intro!: delivers_return)
      qed
    next
      case 2
      with row show ?case by (auto simp: seen_as_def resource_shown_def assms intro!: delivers_return)
    qed
  qed
qed

text \<open>A loop over the targets: the rows it read are shown, the others are as they were.\<close>

definition rows_shown :: "'w metadata_setting \<Rightarrow> metadata_event list \<Rightarrow> metadata_target list \<Rightarrow> metadata_row list \<Rightarrow> bool" where
  "rows_shown ms evs ts rows \<longleftrightarrow> length rows = length ts \<and> (\<forall>i < length ts. resource_shown ms evs (ts ! i) (rows ! i))"

lemma rows_shown_later: "rows_shown ms evs ts rows \<Longrightarrow> set evs \<subseteq> set evs' \<Longrightarrow> rows_shown ms evs' ts rows"
  unfolding rows_shown_def by (auto intro: resource_shown_later)

lemma rows_shown_put:
  "rows_shown ms evs ts rows \<Longrightarrow> (i < length ts \<Longrightarrow> resource_shown ms evs (ts ! i) row) \<Longrightarrow> rows_shown ms evs ts (rows[i := row])"
  unfolding rows_shown_def by (cases "i < length ts") (auto simp: nth_list_update)

lemma local_put_row: "local_runs l (put_row i row) (\<lambda>evs r l'. evs = [] \<and> ml_rows l' = (ml_rows l)[i := row])"
  unfolding put_row_def by (rule local_on_local) simp

lemma local_put_rows: "local_runs l (put_rows rows) (\<lambda>evs r l'. evs = [] \<and> ml_rows l' = rows)"
  unfolding put_rows_def by (rule local_on_local) simp

text \<open>When it starts with shown rows and returns, the rows are still shown.\<close>

definition returns_shown :: "'w metadata_setting \<Rightarrow> metadata_event list \<Rightarrow> metadata_target list \<Rightarrow> metadata_event list
    \<Rightarrow> metadata_exn + 'a \<Rightarrow> metadata_local \<Rightarrow> bool" where
  "returns_shown ms pre ts evs r l \<longleftrightarrow> (\<forall>a. r = Inr a \<longrightarrow> rows_shown ms (pre @ evs) ts (ml_rows l))"

lemma rows_of_vars: "preserves (kept_vars \<circ> snd) m \<Longrightarrow> preserves (ml_rows \<circ> snd) m"
  by (simp add: preserves_def kept_vars_def)

lemma targets_shown:
  assumes "rows_shown ms pre ts (ml_rows l)" "\<forall>(i, t) \<in> set its. i < length ts \<longrightarrow> ts ! i = t"
  shows "local_runs l (read_targets ms h ctx its facts) (returns_shown ms pre ts)"
  using assms
proof (induction its arbitrary: l pre facts)
  case Nil
  then show ?case by (auto simp: returns_shown_def intro!: local_returnE)
next
  case (Cons it its)
  obtain i t where it: "it = (i, t)" by (cases it)
  show ?case
  proof (cases "i = 2 \<or> mt_coordinate t = None")
    case True
    with Cons show ?thesis by (simp add: it)
  next
    case False
    then obtain c where c: "mt_coordinate t = Some c" by auto
    have read: "local_runs l (read_resource ms h ctx t) (\<lambda>evs r l'.
        (\<forall>a. r = Inr a \<longrightarrow> (case a of (row, uid, seen) \<Rightarrow> \<lambda>evs. resource_shown ms evs t row) evs) \<and> ml_rows l' = ml_rows l)"
      by (rule preserves_local[OF delivers_resource[OF c, unfolded delivers_def] rows_of_vars[OF resource_keeps]])
    have "local_runs l (attemptE (read_resource ms h ctx t)
             (\<lambda>e. case e of MdResource row \<Rightarrow> bindE (put_row i row) (\<lambda>_. raiseE e) | _ \<Rightarrow> raiseE e)
             (\<lambda>(row, _, seen). bindE (put_row i row) (\<lambda>_. read_targets ms h ctx its (facts[i := seen])))) (returns_shown ms pre ts)"
    proof (rule local_attemptE[OF read], goal_cases)
      case (1 a evs l1)
      obtain row uid seen where a: "a = (row, uid, seen)" by (cases a)
      show ?case
        unfolding a prod.case
      proof (rule local_bindE[OF local_put_row], goal_cases)
        case (1 _ evs1 l2)
        have "rows_shown ms (pre @ evs) ts (ml_rows l2)"
          using 1 \<open>_ \<and> ml_rows l1 = ml_rows l\<close> a Cons.prems it
          by (auto intro!: rows_shown_put elim: rows_shown_later resource_shown_later)
        from Cons.IH[OF this, of "facts[i := seen]"] Cons.prems(2)
        have "local_runs l2 (read_targets ms h ctx its (facts[i := seen])) (returns_shown ms (pre @ evs) ts)" by simp
        then show ?case by (rule local_mono) (use 1 in \<open>auto simp: returns_shown_def\<close>)
      qed (auto simp: returns_shown_def)
    next
      case (2 e evs l1)
      show ?case
        by (cases e) (auto simp: returns_shown_def intro!: local_raiseE local_bindE[OF local_put_row])
    qed
    with False c show ?thesis by (simp add: it)
  qed
qed

lemma reconciled_shown:
  assumes "rows_shown ms evs ts rows"
  shows "rows_shown ms evs ts (reconciled_rows ms ts facts rows)"
proof (cases "facts ! 0")
  case (ContainerFacts cf)
  define rows' where "rows' = (if conflicting_network (the (mt_coordinate (ts ! 1))) cf rows
      then rows[0 := (rows ! 0)\<lparr>mw_ownership := ConflictingOwner, mw_reason := OwnershipConflict\<rparr>] else rows)"
  have conflicting: "resource_shown ms evs t (row\<lparr>mw_ownership := ConflictingOwner, mw_reason := OwnershipConflict\<rparr>)"
    if "resource_shown ms evs t row" for t row
  proof -
    have "present_as ms t raw (row\<lparr>mw_ownership := ConflictingOwner, mw_reason := OwnershipConflict\<rparr>)" if "present_as ms t raw row" for raw
      using that unfolding present_as_def by simp blast
    with that show ?thesis unfolding resource_shown_def by auto
  qed
  have rows': "rows_shown ms evs ts rows'"
    using assms conflicting unfolding rows'_def
    by (auto intro!: rows_shown_put) (simp add: rows_shown_def)
  have "reconciled_rows ms ts facts rows = map (\<lambda>(i, t, row).
      if 3 \<le> i \<and> mw_state row = AbsentState
         \<and> (case mt_coordinate t of None \<Rightarrow> False | Some c \<Rightarrow> list_ex (\<lambda>(k, n, _, _). k = ''volume'' \<and> n = c) (cf_mounts cf))
      then unread_row ms t DriftSeen else row) (enumerate 0 (zip ts rows'))"
    by (simp add: reconciled_rows_def ContainerFacts rows'_def Let_def)
  then show ?thesis
    using rows' by (auto simp: rows_shown_def nth_enumerate_eq intro: unseen_shown)
qed (use assms in \<open>simp_all add: reconciled_rows_def\<close>)

definition swept :: "'w metadata_setting \<Rightarrow> runtime_request \<Rightarrow> product_material \<Rightarrow> string \<Rightarrow> metadata_target list
    \<Rightarrow> metadata_event list \<Rightarrow> metadata_row list \<Rightarrow> bool" where
  "swept ms rq m daemon ts evs rows \<longleftrightarrow>
     (\<exists>j. DaemonRead (Inr j) \<in> set evs \<and> json_get j ''ID'' = JStr daemon)
     \<and> (\<exists>uid. rows_shown ms evs (map (concrete_target rq m uid) ts) rows)"

lemma delivers_daemon:
  "delivers (read_daemon ms h expected) (\<lambda>_ evs. \<exists>j. DaemonRead (Inr j) \<in> set evs \<and> json_get j ''ID'' = JStr expected)"
proof -
  have info: "emits (bindE (budgeted_call ms DaemonRead p) (\<lambda>j. liftE (md_mapping 64 j)))
      (\<lambda>evs r. \<forall>kvs. r = Inr kvs \<longrightarrow> DaemonRead (Inr (JObj kvs)) \<in> set evs)" for p
    by (rule emits_bindE[OF emits_call], rule emits_liftE) (auto simp: md_mapping_def split: json.splits if_splits)
  show ?thesis
    unfolding read_daemon_def
  proof (rule delivers_attempt[OF info], goal_cases)
    case (1 kvs evs)
    show ?case
      by (cases "md_get kvs ''ID''") (use 1 in \<open>auto simp: md_get_def intro!: delivers_require exI[of _ "JObj kvs"]\<close>)
  qed (auto intro!: delivers_if)
qed

lemma volume_rows_shown: "i < length vts \<Longrightarrow> resource_shown ms evs t (volume_rows ms vts ! i)"
  by (rule unseen_shown) (auto simp: volume_rows_def unread_row_def)

lemma sweep_shown:
  assumes "length ts = length (ml_rows l)" "3 \<le> length ts" "list_all (\<lambda>row. mw_state row = UnknownState) (ml_rows l)"
    and "mt_coordinate (ts ! 2) \<noteq> None" "mt_file (ts ! 2) = None"
  shows "local_runs l (metadata_sweep ms h ts rq m expected) (\<lambda>evs r l'. \<forall>a. r = Inr a \<longrightarrow> swept ms rq m expected ts evs (ml_rows l'))"
  unfolding metadata_sweep_def
proof (rule local_bindE[OF preserves_local[OF delivers_daemon[unfolded delivers_def] rows_of_vars[OF daemon_keeps]]], goal_cases)
  case (1 u evs0 l0)
  then have daemon: "\<exists>j. DaemonRead (Inr j) \<in> set evs0 \<and> json_get j ''ID'' = JStr expected" and l0: "ml_rows l0 = ml_rows l" by auto
  obtain c where c: "mt_coordinate (ts ! 2) = Some c" using assms(4) by auto
  show ?case
  proof (rule local_attemptE[OF preserves_local[OF delivers_resource[OF c, unfolded delivers_def] rows_of_vars[OF resource_keeps]]], goal_cases)
    case (1 a evs1 l1)
    obtain img uid seen where a: "a = (img, uid, seen)" by (cases a)
    with 1 have img: "resource_shown ms evs1 (ts ! 2) img" and l1: "ml_rows l1 = ml_rows l" using l0 by auto
    let ?concrete = "map (concrete_target rq m uid) ts"
    let ?pre = "evs0 @ evs1"
    have same: "?concrete ! 2 = ts ! 2" using assms by (simp add: concrete_target_def)
    show ?case
      unfolding a prod.case Let_def
    proof (rule local_bindE[OF local_put_row], goal_cases)
      case (1 _ evs2 l2)
      then have l2: "evs2 = []" "ml_rows l2 = (ml_rows l)[2 := img]" using l1 by auto
      have start: "rows_shown ms ?pre ?concrete (take 3 (ml_rows l2) @ volume_rows ms (drop 3 ?concrete))"
        unfolding rows_shown_def
      proof (intro conjI allI impI, goal_cases)
        case 1
        show ?case using assms l2 by (simp add: volume_rows_def)
      next
        case (2 i)
        have len: "length (take 3 (ml_rows l2)) = 3" using assms l2 by simp
        consider "i = 2" | "i < 2" | "3 \<le> i" by linarith
        then show ?case
        proof cases
          case 1
          with assms l2 len img same show ?thesis by (auto simp: nth_append elim: resource_shown_later)
        next
          case 2
          with assms l2 len show ?thesis by (intro unseen_shown) (auto simp: nth_append list_all_length)
        next
          case 3
          then have "i - 3 < length (drop 3 ?concrete)" using 2 by simp
          from volume_rows_shown[OF this] 3 len show ?thesis by (simp add: nth_append)
        qed
      qed
      show ?case
      proof (cases "distinct (known_coordinates (drop 3 ?concrete))")
        case True
        have passed: "requireE (distinct (known_coordinates (drop 3 ?concrete))) (MdUnavailable UnsupportedSelection) = returnE ()"
          using True by simp
        show ?thesis
          unfolding l2(1) append_Nil passed bindE_returnE
        proof (rule local_get_rows, rule local_bindE[OF local_put_rows], goal_cases)
          case (1 _ evs3 l3)
          then have l3: "evs3 = []" "rows_shown ms ?pre ?concrete (ml_rows l3)" using start by auto
          show ?case
            unfolding l3(1) append_Nil
          proof (rule local_bindE[OF targets_shown[OF l3(2)]], goal_cases)
            case 1
            show ?case by (auto simp: enumerate_eq_zip in_set_zip)
          next
            case (2 facts evs4 l4)
            then have "rows_shown ms (?pre @ evs4) ?concrete (ml_rows l4)" by (simp add: returns_shown_def)
            from reconciled_shown[OF this] daemon
            have "swept ms rq m expected ts (?pre @ evs4) (reconciled_rows ms ?concrete facts (ml_rows l4))"
              unfolding swept_def by auto
            then show ?case
              by (auto intro!: local_get_rows local_bindE[OF local_put_rows] local_returnE)
          qed auto
        qed auto
      next
        case False
        then show ?thesis by (auto intro: local_raiseE)
      qed
    qed auto
  next
    case (2 e evs l1)
    show ?case by (cases e) (auto intro!: local_raiseE local_bindE[OF local_put_row])
  qed
qed auto

lemma local_also:
  assumes "local_runs l m R" "\<And>s a s'. m s = (Inr a, s') \<Longrightarrow> Q a"
  shows "local_runs l m (\<lambda>evs r l'. R evs r l' \<and> (\<forall>a. r = Inr a \<longrightarrow> Q a))"
  using assms unfolding local_runs_def by (metis prod.collapse)

lemma targets_length: "read_targets ms h ctx its facts s = (Inr facts', s') \<Longrightarrow> length facts' = length facts"
proof (induction its arbitrary: facts s)
  case (Cons it its)
  obtain i t where it: "it = (i, t)" by (cases it)
  have put: "put_row i row s = (Inr (), snd (put_row i row s))" for row and s :: "(metadata_event, 'a \<times> metadata_local) st"
    by (simp add: put_row_def on_local_def)
  show ?case
  proof (cases "i = 2 \<or> mt_coordinate t = None")
    case True
    with Cons show ?thesis by (auto simp: it)
  next
    case False
    with Cons.prems obtain row uid seen s1 where "read_resource ms h ctx t s = (Inr (row, uid, seen), s1)"
      "read_targets ms h ctx its (facts[i := seen]) (snd (put_row i row s1)) = (Inr facts', s')"
      by (auto simp: it attemptE_def bindE_def raiseE_def put_row_def on_local_def split: prod.splits sum.splits metadata_exn.splits)
    with Cons.IH show ?thesis by fastforce
  qed
qed (simp add: returnE_def)

lemma sweep_length: "metadata_sweep ms h ts rq m expected s = (Inr facts, s') \<Longrightarrow> length facts = length ts"
  by (auto simp: metadata_sweep_def attemptE_def bindE_def raiseE_def returnE_def requireE_def Let_def put_row_def on_local_def
      split: prod.splits sum.splits metadata_exn.splits if_splits dest!: targets_length)

lemma drifted_incomplete: "\<not> row_complete (drifted_row row)"
  by (simp add: row_complete_def drifted_row_def)

text \<open>When the compared rows are complete, both sweeps ended with exactly these rows.\<close>

lemma compared_complete:
  assumes "list_all row_complete (compared_rows first first_facts rows facts)"
    and "length first = n" "length first_facts = n" "length rows = n" "length facts = n"
  shows "compared_rows first first_facts rows facts = rows \<and> first = rows"
proof -
  have row: "compared_rows first first_facts rows facts ! i = rows ! i \<and> first ! i = rows ! i" if "i < n" for i
  proof -
    have "row_complete (compared_rows first first_facts rows facts ! i)"
      using assms that by (simp add: list_all_length compared_rows_def)
    with that assms(2-5) show ?thesis
      by (auto simp: compared_rows_def drifted_incomplete split: if_splits)
  qed
  have len: "length (compared_rows first first_facts rows facts) = n" using assms by (simp add: compared_rows_def)
  from row len assms show ?thesis by (metis nth_equalityI)
qed

lemma preserves_on_local [keep_intros]: "(\<And>l. g (snd (f l)) = g l) \<Longrightarrow> preserves (g \<circ> snd) (on_local f)"
  by (auto simp: preserves_def on_local_def split: prod.splits) (metis snd_conv)

definition selectable :: "metadata_target list \<Rightarrow> bool" where
  "selectable ts \<longleftrightarrow> 3 \<le> length ts \<and> mt_coordinate (ts ! 2) \<noteq> None \<and> mt_file (ts ! 2) = None"

lemma selected_selectable: "metadata_targets ms oq authority expected = Some ts \<Longrightarrow> selectable ts"
  by (auto simp: metadata_targets_def Let_def selectable_def selected_targets_def nth_append eval_nat_numeral split: list.splits if_splits)

lemma initial_sweep:
  assumes "selectable ts" "ml_rows l = initial_rows ms reason ts"
  shows "local_runs l (metadata_sweep ms h ts rq m expected) (\<lambda>evs r l'.
    (\<forall>a. r = Inr a \<longrightarrow> swept ms rq m expected ts evs (ml_rows l')) \<and> (\<forall>a. r = Inr a \<longrightarrow> length a = length ts))"
proof (rule local_also[OF sweep_shown])
  show "list_all (\<lambda>row. mw_state row = UnknownState) (ml_rows l)"
    by (auto simp: assms(2) initial_rows_def list_all_iff)
qed (use assms sweep_length in \<open>auto simp: selectable_def initial_rows_def\<close>)

definition shown_twice :: "'w metadata_setting \<Rightarrow> runtime_request \<Rightarrow> product_material \<Rightarrow> string \<Rightarrow> metadata_target list
    \<Rightarrow> metadata_event list \<Rightarrow> metadata_row list \<Rightarrow> bool" where
  "shown_twice ms rq m daemon ts evs rows \<longleftrightarrow>
     list_all row_complete rows
     \<and> (\<exists>pre s1 s2 post. evs = pre @ s1 @ s2 @ post \<and> swept ms rq m daemon ts s1 rows \<and> swept ms rq m daemon ts s2 rows)"

definition binding_of :: "string \<Rightarrow> string" where
  "binding_of daemon = sha256_hex (utf8_bytes (binding_domain @ [CHR 0x00] @ daemon))"

definition body_shown :: "'w metadata_setting \<Rightarrow> runtime_request \<Rightarrow> product_material \<Rightarrow> string \<Rightarrow> metadata_target list
    \<Rightarrow> metadata_event list \<Rightarrow> metadata_exn + string \<times> bool \<Rightarrow> metadata_local \<Rightarrow> bool" where
  "body_shown ms rq m daemon ts evs r l \<longleftrightarrow>
     (\<forall>binding. r = Inr (binding, True) \<longrightarrow> binding = binding_of daemon \<and> shown_twice ms rq m daemon ts evs (ml_rows l))"

lemma swept_length: "swept ms rq m daemon ts evs rows \<Longrightarrow> length rows = length ts"
  by (auto simp: swept_def rows_shown_def)

lemma shown_twice_later: "shown_twice ms rq m daemon ts evs rows \<Longrightarrow> shown_twice ms rq m daemon ts (evs @ evs') rows"
  unfolding shown_twice_def by (metis append.assoc)

lemma shown_twice_after: "shown_twice ms rq m daemon ts evs rows \<Longrightarrow> shown_twice ms rq m daemon ts (evs' @ evs) rows"
  unfolding shown_twice_def by (metis append.assoc)

lemma body_complete:
  assumes "selectable ts" "ml_rows l = initial_rows ms ProviderUnavailable ts"
  shows "local_runs l (metadata_body ms policy ts rq m daemon) (body_shown ms rq m daemon ts)"
proof -
  have start: "preserves (ml_rows \<circ> snd) (client_step (callE (\<lambda>_. BudgetChecked) (budget_start ms)))"
  proof (rule client_step_keeps, rule preserves_call)
    fix w :: "'a \<times> metadata_local"
    obtain r v k where "budget_now ms w = (r, v, k)" by (cases "budget_now ms w") auto
    moreover have "snd (snd (budget_now ms w)) = snd w"
      using lift_keeps[of "ms_clock ms" w] by (auto simp: budget_now_def split: prod.splits sum.splits option.splits)
    ultimately show "(ml_rows \<circ> snd) (snd (budget_start ms w)) = (ml_rows \<circ> snd) w"
      by (cases r) (auto simp: budget_start_def)
  qed
  have start_runs: "emits (client_step (callE (\<lambda>_. BudgetChecked) (budget_start ms))) (\<lambda>evs r. paced 0 evs)"
    unfolding spends_def[symmetric] by (rule costs_client_step, rule step_quiet) simp
  have check: "preserves (ml_rows \<circ> snd) (check_budget ms)"
    unfolding check_budget_def by (rule rows_of_vars[OF client_step_keeps[OF before_keeps]])
  have handle: "preserves (ml_rows \<circ> snd) (metadata_handle ms (new_client (UnixConnection a b)))" for a b
    unfolding metadata_handle_def
    by (rule preserves_bind[OF rows_of_vars[OF client_step_keeps[OF handle_keeps]]])
      (auto simp: new_client_def intro!: keep_intros split: prod.splits)
  have ended: "body_shown ms rq m daemon ts evs (Inl e) l'" for evs e l'
    by (simp add: body_shown_def)
  show ?thesis
    unfolding metadata_body_def Let_def
  proof (rule local_bindE[OF preserves_local[OF start_runs start]], goal_cases)
    case (1 _ evs0 l0)
    then have l0: "ml_rows l0 = initial_rows ms ProviderUnavailable ts" using assms by simp
    show ?case
    proof (rule local_bindE[OF preserves_local[OF costs_check[unfolded spends_def] check]], goal_cases)
      case (1 _ evs1 l1)
      then have l1: "ml_rows l1 = initial_rows ms ProviderUnavailable ts" using l0 by simp
      show ?case
      proof (rule local_bindE[OF local_on_local[where R = "\<lambda>evs r l'. ml_rows l' = ml_rows l1"]], simp, goal_cases)
        case (1 _ evs2 l2)
        then have l2: "ml_rows l2 = initial_rows ms ProviderUnavailable ts" using l1 by simp
        show ?case
        proof (rule local_bindE[OF preserves_local[OF costs_handle[unfolded spends_def] handle]], simp add: new_client_def, goal_cases)
          case (1 h evs3 l3)
          then have l3: "ml_rows l3 = initial_rows ms ProviderUnavailable ts" using l2 by simp
          show ?case
          proof (rule local_bindE[OF initial_sweep[OF assms(1) l3]], goal_cases)
            case (1 first_facts s1 l4)
            note first = 1
            show ?case
            proof (rule local_get_rows, rule local_bindE[OF local_put_rows], goal_cases)
              case (1 _ evs5 l5)
              show ?case
              proof (rule local_bindE[OF initial_sweep[OF assms(1)]], use 1 in simp, goal_cases)
                case (1 facts s2 l6)
                note second = 1
                let ?final = "compared_rows (ml_rows l4) first_facts (ml_rows l6) facts"
                have twice: "?final = ml_rows l6 \<and> ml_rows l4 = ml_rows l6" if "list_all row_complete ?final"
                  using first second swept_length by (intro compared_complete[OF that, of "length ts"]) auto
                have "shown_twice ms rq m daemon ts (s1 @ s2) ?final" if "list_all row_complete ?final"
                  unfolding shown_twice_def
                  using that twice[OF that] first second by (metis append_Nil append_Nil2)
                then have placed: "shown_twice ms rq m daemon ts (pre @ s1 @ s2) ?final" if "list_all row_complete ?final" for pre
                  using that shown_twice_after[where evs = "s1 @ s2" and evs' = pre] by simp
                show ?case
                  using placed[of "evs0 @ evs1 @ evs2 @ evs3"] \<open>evs5 = [] \<and> _\<close>
                  by (auto simp: body_shown_def binding_of_def intro!: local_get_rows local_bindE[OF local_put_rows] local_returnE)
              qed (simp add: ended)
            qed (simp add: ended)
          qed (simp add: ended)
        qed (simp add: ended)
      qed (simp add: ended)
    qed (simp add: ended)
  qed (simp add: ended)
qed

lemma close_keeps_rows: "preserves (ml_rows \<circ> snd) (close_metadata_client ms)"
  unfolding close_metadata_client_def
  by (rule preserves_bind, rule preserves_on_local, simp)
    (auto intro!: preserves_bind[OF rows_of_vars[OF client_step_keeps[OF close_keeps]]] keep_intros split: option.splits prod.splits)

definition completely_shown :: "'w metadata_setting \<Rightarrow> runtime_request \<Rightarrow> product_material \<Rightarrow> string \<Rightarrow> metadata_target list
    \<Rightarrow> metadata_event list \<Rightarrow> metadata_result \<Rightarrow> bool" where
  "completely_shown ms rq m daemon ts evs res \<longleftrightarrow>
     \<not> md_unsupported res \<and> md_binding res = Some (binding_of daemon) \<and> shown_twice ms rq m daemon ts evs (md_rows res)"

lemma outcome_complete:
  assumes "body_shown ms rq m daemon ts evs r0 l"
  shows "local_runs l (metadata_outcome ms ts r0) (\<lambda>evs' r l'. \<forall>binding read_error. r = Inr (binding, True, read_error) \<longrightarrow>
     binding = Some (binding_of daemon) \<and> shown_twice ms rq m daemon ts (evs @ evs') (ml_rows l'))"
  using assms
  by (auto simp: metadata_outcome_def body_shown_def intro!: local_returnE local_bindE[OF local_put_rows] shown_twice_later
      split: sum.splits metadata_exn.splits)

lemma observe_complete:
  assumes "selectable ts"
  shows "local_runs fresh_metadata (observe_targets ms oq policy ts m daemon)
     (\<lambda>evs r l'. \<forall>res. r = Inr res \<longrightarrow> md_complete res \<longrightarrow> completely_shown ms (oq_request oq) m daemon ts evs res)"
  unfolding observe_targets_def
proof (rule local_bindE[OF local_put_rows], goal_cases)
  case (1 _ evs0 l0)
  then have l0: "evs0 = []" "ml_rows l0 = initial_rows ms ProviderUnavailable ts" by auto
  show ?case
    unfolding l0(1) append_Nil
  proof (rule local_bindE[OF local_attemptE[OF body_complete[OF assms l0(2)],
        where R = "\<lambda>evs r l'. \<forall>x. r = Inr x \<longrightarrow> body_shown ms (oq_request oq) m daemon ts evs x l'"]], goal_cases)
    case (3 outcome evs1 l1)
    then have body: "body_shown ms (oq_request oq) m daemon ts evs1 outcome l1" by simp
    show ?case
    proof (rule local_bindE[OF outcome_complete[OF body]], goal_cases)
      case (1 x evs2 l2)
      obtain binding whole read_error where x: "x = (binding, whole, read_error)" by (cases x)
      note known = 1
      show ?case
        unfolding x prod.case
      proof (rule local_bindE[OF preserves_local[OF costs_close[unfolded spends_def] close_keeps_rows]], goal_cases)
        case (1 closing evs3 l3)
        then have l3: "ml_rows l3 = ml_rows l2" by simp
        have "completely_shown ms (oq_request oq) m daemon ts (evs1 @ evs2 @ evs3) (metadata_result_of oq (ml_rows l3) binding (whole \<and> unfailed) False)"
          if "whole \<and> unfailed" for unfailed
          using that known x shown_twice_later[of ms "oq_request oq" m daemon ts "evs1 @ evs2" "ml_rows l2" evs3]
          by (simp add: completely_shown_def metadata_result_of_def l3)
        then show ?case
          by (cases "passed_errors ms read_error closing")
            (auto simp: admit_metadata_def metadata_result_of_def intro!: local_raiseE local_get_rows local_liftE split: option.splits)
      qed auto
    qed auto
  qed (auto intro!: local_returnE simp: body_shown_def)
qed auto


section \<open>A sample\<close>

text \<open>An observation of a node with no volumes, none of whose resources exists.\<close>

definition sample_metadata_setting :: "unit metadata_setting" where
  "sample_metadata_setting =
     \<lparr>ms_policy = Some (''/s'', 5), ms_has_client = False, ms_module = sample_module, ms_clock = (\<lambda>w. (Inr (Some 0), w)),
      ms_info = (\<lambda>_ w. (Inr (JObj [(''ID'', JStr ''D'')]), w)), ms_inspect = (\<lambda>_ _ _ w. (Inr None, w)),
      ms_holders = (\<lambda>_ _ w. (Inr (JList []), w)), ms_foreign = (\<lambda>_. False), ms_image_ok = (\<lambda>_ _ _. True), ms_canonical = (\<lambda>_. []),
      ms_target_path = (\<lambda>_. []), ms_admit = (\<lambda>_. None)\<rparr>"

definition sample_metadata_request :: observation_request where
  "sample_metadata_request =
     \<lparr>oq_effect = ''e'', oq_fingerprint = ''f'', oq_request = sample_effect StartNode, oq_target = ''api'', oq_authority_ref = True,
      oq_admission = None\<rparr>"

definition sample_metadata_authority :: authority_fact where
  "sample_metadata_authority = \<lparr>au_runtime = ''docker'', au_kind = ''local-docker-socket'', au_endpoint = None, au_references = []\<rparr>"

definition sample_targets :: "metadata_target list" where
  "sample_targets = selected_targets sample_metadata_setting (sample_effect StartNode) sample_product"

lemma sample_selected:
  "metadata_targets sample_metadata_setting sample_metadata_request (Some sample_metadata_authority) (Some ''D'') = Some sample_targets"
  by (simp add: metadata_targets_def metadata_admitted_def material_admitted_def sample_metadata_request_def sample_metadata_authority_def
      sample_targets_def selected_targets_def sample_effect_def sample_product_def sample_metadata_setting_def file_deliveries_def
      known_coordinates_def is_daemon_id_def daemon_char_def is_upper_alpha_def in_range_def code_of_def)

text \<open>Variables in which no time has passed.\<close>

definition at_start :: "metadata_local \<Rightarrow> bool" where
  "at_start l \<longleftrightarrow> ml_started l = 0 \<and> ml_previous l = 0"

lemma sample_budget: "at_start l \<Longrightarrow> budget_check sample_metadata_setting ((), l) = (Inr (), (), l)"
  by (cases l) (simp add: at_start_def budget_check_def budget_now_def lift_port_def sample_metadata_setting_def)

lemma sample_check:
  "at_start l \<Longrightarrow> check_budget sample_metadata_setting \<lparr>trace = tr, world = ((), l)\<rparr>
     = (Inr (), \<lparr>trace = tr @ [ClientStep BudgetChecked], world = ((), l)\<rparr>)"
  by (simp add: check_budget_def client_step_def before_call_def module_keeps callE_def sample_budget)

lemma sample_call:
  "at_start l \<Longrightarrow> p () = (Inr v, ()) \<Longrightarrow> budgeted_call sample_metadata_setting mk p \<lparr>trace = tr, world = ((), l)\<rparr>
     = (Inr v, \<lparr>trace = tr @ [ClientStep BudgetChecked, mk (Inr v)], world = ((), l)\<rparr>)"
  by (simp add: budgeted_call_def bindE_def sample_check callE_def md_port_def lift_port_def)

lemma sample_answers:
  "ms_info sample_metadata_setting h () = (Inr (JObj [(''ID'', JStr ''D'')]), ())"
  "ms_inspect sample_metadata_setting h role c () = (Inr None, ())"
  by (simp_all add: sample_metadata_setting_def)

lemma sample_daemon:
  "at_start l \<Longrightarrow> read_daemon sample_metadata_setting h ''D'' \<lparr>trace = tr, world = ((), l)\<rparr>
     = (Inr (), \<lparr>trace = tr @ [ClientStep BudgetChecked, DaemonRead (Inr (JObj [(''ID'', JStr ''D'')]))], world = ((), l)\<rparr>)"
  by (simp add: read_daemon_def attemptE_def bindE_def liftE_def md_mapping_def md_get_def requireE_def returnE_def is_daemon_id_def
      daemon_char_def is_upper_alpha_def in_range_def code_of_def
      sample_call[where p = "ms_info sample_metadata_setting h", OF _ sample_answers(1)])

lemma sample_absent:
  "at_start l \<Longrightarrow> mt_coordinate t = Some c \<Longrightarrow> \<not> volume_role (mt_role t)
    \<Longrightarrow> read_resource sample_metadata_setting h ctx t \<lparr>trace = tr, world = ((), l)\<rparr>
     = (Inr (absent_row sample_metadata_setting t, None, NoFacts),
        \<lparr>trace = tr @ [ClientStep BudgetChecked, ResourceRead (mt_role t) c (Inr None)], world = ((), l)\<rparr>)"
  by (simp add: read_resource_def attemptE_def bindE_def returnE_def
      sample_call[where p = "ms_inspect sample_metadata_setting h (mt_role t) c", OF _ sample_answers(2)])

definition sample_rows :: "metadata_row list" where
  "sample_rows = map (absent_row sample_metadata_setting) sample_targets"

definition absent_read :: "metadata_target \<Rightarrow> metadata_event list" where
  "absent_read t = [ClientStep BudgetChecked, ResourceRead (mt_role t) (the (mt_coordinate t)) (Inr None)]"

definition sample_sweep :: "metadata_event list" where
  "sample_sweep = [ClientStep BudgetChecked, DaemonRead (Inr (JObj [(''ID'', JStr ''D'')]))]
     @ absent_read (sample_targets ! 2) @ absent_read (sample_targets ! 0) @ absent_read (sample_targets ! 1)"

lemma sample_three:
  obtains a b c where "sample_targets = [a, b, c]" "mt_file a = None" "mt_file b = None" "mt_file c = None"
    "mt_coordinate a \<noteq> None" "mt_coordinate b \<noteq> None" "mt_coordinate c \<noteq> None"
    "\<not> volume_role (mt_role a)" "\<not> volume_role (mt_role b)" "\<not> volume_role (mt_role c)"
proof -
  obtain a b c where ts: "sample_targets = [a, b, c]"
    by (simp add: sample_targets_def selected_targets_def sample_effect_def sample_product_def file_deliveries_def)
  then show ?thesis
    by (intro that[OF ts]) (auto simp: sample_targets_def selected_targets_def sample_effect_def sample_product_def file_deliveries_def
        volume_role_def)
qed

lemma sample_sweeps:
  assumes "at_start l" "length (ml_rows l) = 3"
  shows "metadata_sweep sample_metadata_setting h sample_targets rq m ''D'' \<lparr>trace = tr, world = ((), l)\<rparr>
    = (Inr [NoFacts, NoFacts, NoFacts], \<lparr>trace = tr @ sample_sweep, world = ((), l\<lparr>ml_rows := sample_rows\<rparr>)\<rparr>)"
proof -
  obtain a b c where ts: "sample_targets = [a, b, c]" and parts: "mt_file a = None" "mt_file b = None" "mt_file c = None"
    "mt_coordinate a \<noteq> None" "mt_coordinate b \<noteq> None" "mt_coordinate c \<noteq> None"
    "\<not> volume_role (mt_role a)" "\<not> volume_role (mt_role b)" "\<not> volume_role (mt_role c)" by (rule sample_three)
  obtain x y z where rows: "ml_rows l = [x, y, z]"
    using assms(2) by (auto simp: eval_nat_numeral length_Suc_conv)
  have concrete: "concrete_target rq m uid t = t" if "mt_file t = None" for uid t
    using that by (simp add: concrete_target_def)
  have start: "at_start (l\<lparr>ml_rows := r\<rparr>)" for r using assms(1) by (simp add: at_start_def)
  have read: "read_resource sample_metadata_setting h ctx t \<lparr>trace = tr, world = ((), l')\<rparr>
     = (Inr (absent_row sample_metadata_setting t, None, NoFacts), \<lparr>trace = tr @ absent_read t, world = ((), l')\<rparr>)"
    if "at_start l'" "mt_coordinate t \<noteq> None" "\<not> volume_role (mt_role t)" for ctx t tr l'
    using that sample_absent[of l' t "the (mt_coordinate t)" h ctx tr] by (auto simp: absent_read_def)
  show ?thesis
    using parts
    by (simp add: metadata_sweep_def bindE_def sample_daemon[OF assms(1)] attemptE_def ts read start assms(1) put_row_def put_rows_def
        get_rows_def on_local_def requireE_def known_coordinates_def returnE_def Let_def rows concrete volume_rows_def reconciled_rows_def
        sample_sweep_def sample_rows_def eval_nat_numeral del: not_None_eq)
qed

definition sample_connected :: "client_event list" where
  "sample_connected =
     [BudgetChecked, HandleOpened (UnixConnection ''/s'' 5) (Inr ''h''), TransportRead ''h'' (Inr (Some ''/s'')), BudgetChecked,
      VersionRead ''h'' (Inr (JObj [(''MinAPIVersion'', JStr ''1.24''), (''ApiVersion'', JStr ''1.47'')]))]"

definition sample_metadata_client :: sdk_client where
  "sample_metadata_client = (new_client (UnixConnection ''/s'' 5))\<lparr>sc_handle := Some ''h''\<rparr>"

lemma sample_handle:
  assumes "at_start l"
  shows "metadata_handle sample_metadata_setting (new_client (UnixConnection ''/s'' 5)) \<lparr>trace = tr, world = ((), l)\<rparr>
    = (Inr ''h'', \<lparr>trace = tr @ map ClientStep sample_connected, world = ((), l\<lparr>ml_client := Some sample_metadata_client\<rparr>)\<rparr>)"
proof -
  let ?mo = "budgeted_module sample_metadata_setting"
  have ports: "mo_open ?mo c ((), k) = (Inr ''h'', (), k)" "mo_transport ?mo h ((), k) = (Inr (Some ''/s''), (), k)"
    "mo_version ?mo h ((), k) = (Inr (JObj [(''MinAPIVersion'', JStr ''1.24''), (''ApiVersion'', JStr ''1.47'')]), (), k)" for c h k
    by (simp_all add: budgeted_module_def sample_metadata_setting_def sample_module_def Let_def lift_port_def)
  show ?thesis
    by (simp add: metadata_handle_def client_step_def client_handle_def connect_client_def new_client_def unix_client_def Let_def try_call_def
        before_call_def open_handle_def unix_checks_def eff_defs sample_range module_keeps ports sample_budget[OF assms] on_local_def
        sample_connected_def sample_metadata_client_def)
qed

lemma sample_metadata_closes:
  "ml_client l = Some sample_metadata_client \<Longrightarrow> close_metadata_client sample_metadata_setting \<lparr>trace = tr, world = ((), l)\<rparr>
    = (Inr (Inr ()), \<lparr>trace = tr @ [ClientStep (HandleClosed ''h'' (Inr ()))],
        world = ((), l\<lparr>ml_client := Some (sample_metadata_client\<lparr>sc_handle := None, sc_closed := True\<rparr>)\<rparr>)\<rparr>)"
  by (simp add: close_metadata_client_def on_local_def bindE_def client_step_def close_sdk_client_def sample_metadata_client_def new_client_def Let_def
      try_call_def close_handle_def eff_defs budgeted_module_def sample_metadata_setting_def sample_module_def lift_port_def)

definition sample_metadata_events :: "metadata_event list" where
  "sample_metadata_events =
     [ClientStep BudgetChecked, ClientStep BudgetChecked] @ map ClientStep sample_connected @ sample_sweep @ sample_sweep
     @ [ClientStep (HandleClosed ''h'' (Inr ()))]"

definition sample_metadata_result :: metadata_result where
  "sample_metadata_result = metadata_result_of sample_metadata_request sample_rows (Some (binding_of ''D'')) True False"

lemma sample_rows_complete: "list_all row_complete sample_rows"
  by (simp add: sample_rows_def sample_targets_def selected_targets_def sample_effect_def sample_product_def file_deliveries_def
      row_complete_def absent_row_def unread_row_def unknown_attachment_def volume_role_def)

lemma sample_compared: "compared_rows sample_rows [NoFacts, NoFacts, NoFacts] sample_rows [NoFacts, NoFacts, NoFacts] = sample_rows"
proof -
  obtain a b c where ts: "sample_targets = [a, b, c]" by (rule sample_three)
  show ?thesis unfolding compared_rows_def sample_rows_def ts by simp
qed

lemma sample_initial: "length (initial_rows sample_metadata_setting ProviderUnavailable sample_targets) = 3"
proof -
  obtain a b c where ts: "sample_targets = [a, b, c]" by (rule sample_three)
  show ?thesis unfolding initial_rows_def ts by simp
qed

lemma sample_body:
  assumes "length (ml_rows l) = 3"
  shows "metadata_body sample_metadata_setting (''/s'', 5) sample_targets rq m ''D'' \<lparr>trace = [], world = ((), l)\<rparr>
    = (Inr (binding_of ''D'', True),
       \<lparr>trace = [ClientStep BudgetChecked, ClientStep BudgetChecked] @ map ClientStep sample_connected @ sample_sweep @ sample_sweep,
        world = ((), l\<lparr>ml_started := 0, ml_previous := 0, ml_client := Some sample_metadata_client, ml_rows := sample_rows\<rparr>)\<rparr>)"
proof -
  let ?l0 = "l\<lparr>ml_started := 0, ml_previous := 0\<rparr>"
  let ?l1 = "?l0\<lparr>ml_client := Some (new_client (UnixConnection ''/s'' 5))\<rparr>"
  let ?l2 = "?l1\<lparr>ml_client := Some sample_metadata_client\<rparr>"
  have started: "client_step (callE (\<lambda>_. BudgetChecked) (budget_start sample_metadata_setting)) \<lparr>trace = tr, world = ((), l)\<rparr>
      = (Inr (), \<lparr>trace = tr @ [ClientStep BudgetChecked], world = ((), ?l0)\<rparr>)" for tr
    by (simp add: client_step_def callE_def budget_start_def budget_now_def lift_port_def sample_metadata_setting_def)
  have zero: "at_start ?l0" "at_start ?l1" "at_start (?l0\<lparr>ml_client := Some sample_metadata_client\<rparr>)"
    "at_start (?l0\<lparr>ml_client := Some sample_metadata_client, ml_rows := rows\<rparr>)" for rows
    by (simp_all add: at_start_def)
  show ?thesis
    by (simp add: metadata_body_def bindE_def started sample_check zero on_local_def sample_handle sample_sweeps assms sample_initial get_rows_def put_rows_def
        Let_def sample_compared returnE_def sample_rows_complete binding_of_def)
qed

lemma sample_observed:
  "observe_metadata sample_metadata_setting sample_metadata_request (Some sample_metadata_authority) (Some ''D'') \<lparr>trace = [], world = ()\<rparr>
     = (Inr sample_metadata_result, \<lparr>trace = sample_metadata_events, world = ()\<rparr>)"
proof -
  have policy: "ms_policy sample_metadata_setting = Some (''/s'', 5)" "rr_products (oq_request sample_metadata_request) = [sample_product]"
    "ms_admit sample_metadata_setting res = None" for res
    by (simp_all add: sample_metadata_setting_def sample_metadata_request_def sample_effect_def)
  show ?thesis
    by (simp add: observe_metadata_def sample_selected policy run_local_def bindE_def observe_targets_def put_rows_def on_local_def
        attemptE_def sample_body sample_initial metadata_outcome_def returnE_def sample_metadata_closes passed_errors_def liftE_def get_rows_def
        admit_metadata_def sample_metadata_result_def sample_metadata_events_def)
qed


lemma metadata_observation_settled_witness:
  "paced 42 sample_metadata_events \<and> opened_handles (client_steps sample_metadata_events) = closed_handles (client_steps sample_metadata_events)"
  using metadata_observation_settled[OF sample_observed, of sample_metadata_events] by simp

end
