(* ===== verification/Probe_Gateway.thy ===== *)
theory Probe_Gateway
  imports Computations Runtime_Types
begin

text \<open>
  \<open>probes/gateway.py\<close>: the delegated probe of a runtime gateway.  A probe is signed with a key that an
  exact grant allows to be resolved, and sent once to the control socket of the gateway.  Grants and
  requests of the core are records of the fields the code reads; their descriptors are values.  The
  cryptographic library, \<open>jwt.encode\<close>, \<open>json.loads\<close> and the transport are parameters.
\<close>

section \<open>Values\<close>

datatype gateway_code =
    PROBE_SUCCEEDED | GATEWAY_REJECTED | GATEWAY_TIMED_OUT | GATEWAY_TRANSPORT_FAILED | GATEWAY_MALFORMED | GATEWAY_OVERSIZED

record gateway_result =
  gp_code :: gateway_code
  gp_evidence :: "(string \<times> json) list"

record delegated_grant =
  dg_issuer :: string
  dg_audience :: string
  dg_issued :: int
  dg_expires :: int
  dg_jti :: string
  dg_key_id :: string
  dg_kind :: string
  dg_target :: string
  dg_digest :: string
  dg_gateway :: string
  dg_workspace :: string
  dg_operation :: string
  dg_descriptor :: json

record delegated_request =
  dq_kind :: string
  dq_target :: string
  dq_digest :: string
  dq_descriptor :: json

text \<open>A grant to resolve one secret; \<open>kg_permits\<close> is its \<open>permits\<close> for the use of a signing key.\<close>

record key_grant =
  kg_workspace :: string
  kg_operation :: string
  kg_probe :: "string option"
  kg_permits :: "string \<Rightarrow> bool"

record delegation_key =
  pk_key_id :: string
  pk_algorithm :: string
  pk_fingerprint :: string

datatype gateway_exn = GatewayClientError string | GatewayRaised probe_exn

record gateway_request =
  gx_url :: string
  gx_headers :: "(string \<times> string) list"
  gx_body :: string
  gx_sni :: "string option"
  gx_timeouts :: "rat list"

datatype gateway_event =
    EndpointStep probe_event
  | KeyResolved "gateway_exn + unit"
  | GatewaySent gateway_request "gateway_exn + probe_response"
  | GatewayClosed "gateway_exn option"

type_synonym ('w, 'a) gateway_eff = "((gateway_event, 'w) st, gateway_exn, 'a) eff"

text \<open>
  The client and its signer.  \<open>gs_resolve\<close> is \<open>require_authorized_secret\<close> and \<open>reveal\<close> on the resolver,
  \<open>gs_load\<close> the loading of a private key (\<open>None\<close> when it is no Ed25519 key), \<open>gs_derive\<close> the algorithm and
  fingerprint of the public key of a key under an identity, \<open>gs_encode\<close> is \<open>jwt.encode\<close> of claims and
  headers, and \<open>gs_loads\<close> is \<open>json.loads\<close>, with \<open>None\<close> for the two decoding errors the code catches.
\<close>

record ('w, 'k) gateway_setting =
  gs_schemes :: "string \<Rightarrow> string list"
  gs_policy :: address_policy
  gs_public :: "(string \<Rightarrow> ('w, probe_exn, string list) port) option"
  gs_reference :: string
  gs_key :: delegation_key
  gs_resolve :: "key_grant \<Rightarrow> ('w, gateway_exn, string) port"
  gs_load :: "string \<Rightarrow> gateway_exn + 'k option"
  gs_derive :: "string \<Rightarrow> string \<Rightarrow> 'k \<Rightarrow> gateway_exn + string \<times> string"
  gs_encode :: "json \<Rightarrow> 'k \<Rightarrow> json \<Rightarrow> gateway_exn + string"
  gs_send :: "gateway_request \<Rightarrow> ('w, gateway_exn, probe_response) port"
  gs_close :: "('w, gateway_exn, unit) port"
  gs_loads :: "nat list \<Rightarrow> gateway_exn + json option"
  gs_maximum :: nat
  gs_timeout :: rat

definition gateway_ordinary :: "gateway_exn \<Rightarrow> bool" where
  "gateway_ordinary e = (case e of GatewayClientError _ \<Rightarrow> True | GatewayRaised p \<Rightarrow> is_ordinary p)"

text \<open>\<open>__post_init__\<close> of the client and of its results.\<close>

definition gateway_client_ok :: "('w, 'k) gateway_setting \<Rightarrow> bool" where
  "gateway_client_ok gs \<longleftrightarrow>
     1 \<le> gs_maximum gs \<and> gs_maximum gs \<le> 65536 \<and> 0 < gs_timeout gs \<and> gs_timeout gs \<le> 30"

fun bounded_scalar :: "json \<Rightarrow> bool" where
  "bounded_scalar (JStr _) = True"
| "bounded_scalar (JInt _) = True"
| "bounded_scalar _ = False"

definition make_gateway_result :: "gateway_code \<Rightarrow> (string \<times> json) list \<Rightarrow> gateway_exn + gateway_result" where
  "make_gateway_result code evidence =
     (if list_all (\<lambda>(_, v). bounded_scalar v) evidence
      then Inr \<lparr>gp_code = code, gp_evidence = foldr insert_entry evidence []\<rparr>
      else Inl (GatewayRaised (OrdinaryError ''TypeError'')))"

section \<open>Authority\<close>

definition exact_grant :: "delegated_grant \<Rightarrow> delegated_request \<Rightarrow> bool" where
  "exact_grant g q \<longleftrightarrow> dg_kind g = dq_kind q \<and> dg_target g = dq_target q \<and> dg_digest g = dq_digest q"

definition gateway_endpoint :: "delegated_grant \<Rightarrow> probe_endpoint \<Rightarrow> bool" where
  "gateway_endpoint g ep \<longleftrightarrow>
     ep_subject ep = dg_gateway g \<and> ep_socket ep = ''control'' \<and> ep_protocol ep = ''http''
     \<and> ep_context ep \<in> {RUNTIME_PRIVATE, PUBLIC}"

definition signing_key_grant :: "delegated_grant \<Rightarrow> key_grant \<Rightarrow> string \<Rightarrow> bool" where
  "signing_key_grant g kg reference \<longleftrightarrow>
     kg_workspace kg = dg_workspace g \<and> kg_operation kg = dg_operation g \<and> kg_probe kg = Some (dg_operation g)
     \<and> kg_permits kg reference"

definition gateway_error :: "string \<Rightarrow> gateway_exn" where
  "gateway_error what = GatewayClientError what"

definition require_exact_grant :: "delegated_grant \<Rightarrow> delegated_request \<Rightarrow> gateway_exn + unit" where
  "require_exact_grant g q =
     requireR (exact_grant g q) (gateway_error ''gateway capability does not authorize the probe request'')"

definition require_gateway_endpoint :: "delegated_grant \<Rightarrow> probe_endpoint \<Rightarrow> gateway_exn + unit" where
  "require_gateway_endpoint g ep =
     requireR (gateway_endpoint g ep) (gateway_error ''gateway endpoint observation does not match delegated authority'')"

definition require_signing_key_grant :: "delegated_grant \<Rightarrow> key_grant \<Rightarrow> string \<Rightarrow> gateway_exn + unit" where
  "require_signing_key_grant g kg reference =
     requireR (signing_key_grant g kg reference)
       (gateway_error ''gateway signing requires exact committed secret authorization'')"

section \<open>Signing\<close>

definition gateway_claims :: "delegated_grant \<Rightarrow> json" where
  "gateway_claims g =
     JObj [(''iss'', JStr (dg_issuer g)), (''aud'', JStr (dg_audience g)), (''iat'', JInt (dg_issued g)),
           (''exp'', JInt (dg_expires g)), (''jti'', JStr (dg_jti g)), (''gateway_probe'', dg_descriptor g)]"

definition gateway_headers :: "delegated_grant \<Rightarrow> json" where
  "gateway_headers g = JObj [(''kid'', JStr (dg_key_id g)), (''typ'', JStr ''CPK-GATEWAY-PROBE+JWT'')]"

text \<open>What is made of the revealed key: it must be the private key of the signer's public key.\<close>

definition signed_with :: "('w, 'k) gateway_setting \<Rightarrow> delegated_grant \<Rightarrow> string \<Rightarrow> gateway_exn + string" where
  "signed_with gs g pem =
     bindR (requireR (is_ascii pem) (GatewayRaised (OrdinaryError ''UnicodeEncodeError''))) (\<lambda>_.
     bindR (gs_load gs pem) (\<lambda>loaded. case loaded of
         None \<Rightarrow> Inl (gateway_error ''gateway signing key algorithm is inconsistent'')
       | Some key \<Rightarrow>
           bindR (gs_derive gs (dg_key_id g) (pk_algorithm (gs_key gs)) key) (\<lambda>(algorithm, fingerprint).
           if algorithm \<noteq> pk_algorithm (gs_key gs) \<or> fingerprint \<noteq> pk_fingerprint (gs_key gs)
           then Inl (gateway_error ''gateway signing key material is inconsistent'')
           else gs_encode gs (gateway_claims g) key (gateway_headers g))))"

definition redacted_signing :: "gateway_exn \<Rightarrow> gateway_exn" where
  "redacted_signing e =
     (case e of
        GatewayClientError _ \<Rightarrow> e
      | GatewayRaised p \<Rightarrow> if is_ordinary p then gateway_error ''gateway capability signing failed'' else e)"

definition sign_probe ::
  "('w, 'k) gateway_setting \<Rightarrow> delegated_grant \<Rightarrow> delegated_request \<Rightarrow> key_grant \<Rightarrow> ('w, string) gateway_eff" where
  "sign_probe gs g q kg =
     bindE (liftE (require_exact_grant g q)) (\<lambda>_.
     bindE (requireE (dg_key_id g = pk_key_id (gs_key gs)) (gateway_error ''gateway signing key identity is inconsistent'')) (\<lambda>_.
     bindE (liftE (require_signing_key_grant g kg (gs_reference gs))) (\<lambda>_.
     attemptE (bindE (callE (\<lambda>r. KeyResolved (unit_outcome r)) (gs_resolve gs kg)) (\<lambda>pem. liftE (signed_with gs g pem)))
       (\<lambda>e. raiseE (redacted_signing e)) returnE)))"

section \<open>The exchange\<close>

text \<open>
  The body as it is collected: \<open>None\<close> when it passes the bound, otherwise all of it, unless the stream
  ends with an exception.
\<close>

fun collect_body :: "nat \<Rightarrow> nat list \<Rightarrow> nat list list \<Rightarrow> probe_exn option \<Rightarrow> gateway_exn + nat list option" where
  "collect_body maximum content [] fault = (case fault of None \<Rightarrow> Inr (Some content) | Some e \<Rightarrow> Inl (GatewayRaised e))"
| "collect_body maximum content (chunk # rest) fault =
     (let content' = content @ chunk
      in if maximum < length content' then Inr None else collect_body maximum content' rest fault)"

definition gateway_keys :: "delegated_request \<Rightarrow> string set" where
  "gateway_keys q =
     {''outcome'', ''target_id'', ''probe''} \<union> (if dq_kind q = ''http-status'' then {''status'', ''body_size''} else {})"

definition malformed_gateway :: "gateway_exn + gateway_result" where
  "malformed_gateway = make_gateway_result GATEWAY_MALFORMED []"

definition gateway_evidence :: "json \<Rightarrow> (string \<times> json) list" where
  "gateway_evidence raw =
     [(''outcome'', json_get raw ''outcome''), (''target_id'', json_get raw ''target_id''), (''probe'', json_get raw ''probe'')]"

definition decoded_gateway :: "delegated_request \<Rightarrow> json \<Rightarrow> gateway_exn + gateway_result" where
  "decoded_gateway q raw =
     (if \<not> is_mapping raw then malformed_gateway
      else if json_keys raw \<noteq> gateway_keys q then malformed_gateway
      else if json_get raw ''outcome'' \<notin> {JStr ''passed'', JStr ''failed''} \<or> json_get raw ''target_id'' \<noteq> JStr (dq_target q)
          \<or> json_get raw ''probe'' \<noteq> JStr (dq_kind q)
      then malformed_gateway
      else if dq_kind q = ''http-status''
      then (case (json_get raw ''status'', json_get raw ''body_size'') of
              (JInt status, JInt size_read) \<Rightarrow>
                if status < 100 \<or> 599 < status \<or> size_read < 0 \<or> 65536 < size_read then malformed_gateway
                else make_gateway_result PROBE_SUCCEEDED
                       (gateway_evidence raw @ [(''http_status'', JInt status), (''body_size'', JInt size_read)])
            | _ \<Rightarrow> malformed_gateway)
      else make_gateway_result PROBE_SUCCEEDED (gateway_evidence raw))"

definition decode_gateway :: "('w, 'k) gateway_setting \<Rightarrow> nat list \<Rightarrow> delegated_request \<Rightarrow> gateway_exn + gateway_result" where
  "decode_gateway gs content q =
     bindR (gs_loads gs content) (\<lambda>decoded. case decoded of
         None \<Rightarrow> malformed_gateway
       | Some raw \<Rightarrow> decoded_gateway q raw)"

definition gateway_answer ::
  "('w, 'k) gateway_setting \<Rightarrow> delegated_request \<Rightarrow> int \<Rightarrow> nat list \<Rightarrow> gateway_exn + gateway_result" where
  "gateway_answer gs q status content =
     (if redirected status then malformed_gateway
      else if status \<in> {401, 403, 409} then make_gateway_result GATEWAY_REJECTED [(''http_status'', JInt status)]
      else if \<not> (200 \<le> status \<and> status < 300)
      then make_gateway_result GATEWAY_TRANSPORT_FAILED [(''http_status'', JInt status)]
      else decode_gateway gs content q)"

definition gateway_outbound ::
  "('w, 'k) gateway_setting \<Rightarrow> delegated_request \<Rightarrow> probe_target \<Rightarrow> string \<Rightarrow> string \<Rightarrow> gateway_request" where
  "gateway_outbound gs q target token url =
     \<lparr>gx_url = url,
      gx_headers = [(''Accept'', ''application/json''), (''Authorization'', ''CPK-Gateway '' @ token),
          (''Content-Type'', ''application/json'')]
        @ (case pt_host_header target of None \<Rightarrow> [] | Some h \<Rightarrow> [(''Host'', h)]),
      gx_body = canonical_json (dq_descriptor q), gx_sni = pt_sni target, gx_timeouts = health_timeouts (gs_timeout gs)\<rparr>"

text \<open>One request, and the body of its response, which is closed however its reading ends.\<close>

definition gateway_exchange ::
  "('w, 'k) gateway_setting \<Rightarrow> delegated_request \<Rightarrow> probe_target \<Rightarrow> string \<Rightarrow> ('w, int \<times> nat list option) gateway_eff" where
  "gateway_exchange gs q target token =
     bindE (liftE (map_sum GatewayRaised id (request_url target ''/cpk/probes''))) (\<lambda>url.
     let rq = gateway_outbound gs q target token url
     in bindE (callE (GatewaySent rq) (gs_send gs rq)) (\<lambda>response.
        bindE (callE (\<lambda>r. GatewayClosed (case r of Inl e \<Rightarrow> Some e | Inr _ \<Rightarrow> None)) (gs_close gs)) (\<lambda>_.
        bindE (liftE (collect_body (gs_maximum gs) [] (hr_chunks response) (hr_fault response))) (\<lambda>content.
        returnE (hr_status response, content)))))"

fun gateway_failure :: "gateway_exn \<Rightarrow> gateway_code option" where
  "gateway_failure (GatewayRaised HttpTimeout) = Some GATEWAY_TIMED_OUT"
| "gateway_failure (GatewayRaised (HttpConnect _)) = Some GATEWAY_TRANSPORT_FAILED"
| "gateway_failure (GatewayRaised HttpProtocol) = Some GATEWAY_TRANSPORT_FAILED"
| "gateway_failure (GatewayRaised OtherHttpError) = Some GATEWAY_TRANSPORT_FAILED"
| "gateway_failure _ = None"

definition dispatch_probe ::
  "('w, 'k) gateway_setting \<Rightarrow> delegated_grant \<Rightarrow> delegated_request \<Rightarrow> probe_endpoint \<Rightarrow> key_grant
    \<Rightarrow> ('w, gateway_result) gateway_eff" where
  "dispatch_probe gs g q ep kg =
     bindE (liftE (require_exact_grant g q)) (\<lambda>_.
     bindE (liftE (require_gateway_endpoint g ep)) (\<lambda>_.
     bindE (via EndpointStep GatewayRaised
        (authorize_probe_endpoint (gs_schemes gs) ep (gs_policy gs) None (gs_public gs))) (\<lambda>target.
     bindE (sign_probe gs g q kg) (\<lambda>token.
     attemptE (gateway_exchange gs q target token)
       (\<lambda>e. case gateway_failure e of
           None \<Rightarrow> raiseE e
         | Some code \<Rightarrow> liftE (make_gateway_result code []))
       (\<lambda>(status, content). case content of
           None \<Rightarrow> liftE (make_gateway_result GATEWAY_OVERSIZED [])
         | Some body \<Rightarrow> liftE (gateway_answer gs q status body))))))"

end
