(* ===== verification/Probe_Gateway_Props.thy ===== *)
theory Probe_Gateway_Props
  imports Probe_Gateway Probe_Security_Props
begin

text \<open>
  What a delegated probe does: it resolves the signing key only for an exact grant, sends one request to
  an authorized target, and reports success only for an answer it read completely.
\<close>

section \<open>Reading the body\<close>

lemma collect_body_whole:
  "collect_body maximum content cs fault = Inr (Some body) \<Longrightarrow>
     body = content @ concat cs \<and> fault = None \<and> (cs = [] \<or> length body \<le> maximum)"
  by (induction maximum content cs fault rule: collect_body.induct)
    (force simp: Let_def split: option.splits if_splits)+

section \<open>Results\<close>

text \<open>What a successful result says of the answer.\<close>

definition probe_shown :: "('w, 'k) gateway_setting \<Rightarrow> delegated_request \<Rightarrow> probe_response \<Rightarrow> gateway_result \<Rightarrow> bool" where
  "probe_shown gs q response res \<longleftrightarrow>
     200 \<le> hr_status response \<and> hr_status response < 300 \<and> hr_fault response = None
     \<and> (hr_chunks response = [] \<or> length (concat (hr_chunks response)) \<le> gs_maximum gs)
     \<and> (\<exists>raw. gs_loads gs (concat (hr_chunks response)) = Inr (Some raw)
          \<and> json_keys raw = gateway_keys q \<and> json_get raw ''outcome'' \<in> {JStr ''passed'', JStr ''failed''}
          \<and> json_get raw ''target_id'' = JStr (dq_target q) \<and> json_get raw ''probe'' = JStr (dq_kind q)
          \<and> map_of (gp_evidence res) ''outcome'' = Some (json_get raw ''outcome''))"

lemma make_gateway_code: "make_gateway_result code evidence = Inr res \<Longrightarrow> gp_code res = code"
  by (auto simp: make_gateway_result_def split: if_splits)

lemma map_of_insert_entry:
  "k \<noteq> fst e \<Longrightarrow> map_of (insert_entry e es) k = map_of es k"
  by (induction e es rule: insert_entry.induct) auto

lemma map_of_inserted: "k \<notin> set (map fst es) \<Longrightarrow> map_of (insert_entry (k, v) es) k = Some v"
  by (induction "(k, v)" es rule: insert_entry.induct) auto

lemma set_insert_entry: "set (insert_entry e es) = insert e (set es)"
  by (induction e es rule: insert_entry.induct) auto

lemma map_of_sorted_entries:
  "distinct (map fst es) \<Longrightarrow> map_of (foldr insert_entry es []) k = map_of es k"
proof (induction es)
  case (Cons e es)
  have "set (foldr insert_entry es []) = set es" by (induction es) (auto simp: set_insert_entry)
  then have new: "fst e \<notin> set (map fst (foldr insert_entry es []))" using Cons.prems by auto
  show ?case
  proof (cases "k = fst e")
    case True
    with map_of_inserted[OF new, of "snd e"] show ?thesis by (cases e) simp
  next
    case False
    with Cons show ?thesis by (cases e) (simp add: map_of_insert_entry)
  qed
qed simp

lemma evidence_outcome:
  assumes "make_gateway_result code (gateway_evidence raw @ extra) = Inr res" "set (map fst extra) \<subseteq> {''http_status'', ''body_size''}"
    "distinct (map fst extra)"
  shows "map_of (gp_evidence res) ''outcome'' = Some (json_get raw ''outcome'')"
proof -
  have keys: "distinct (map fst (gateway_evidence raw @ extra))"
    using assms(2,3) by (auto simp: gateway_evidence_def)
  have "gp_evidence res = foldr insert_entry (gateway_evidence raw @ extra) []"
    using assms(1) by (auto simp: make_gateway_result_def simp del: foldr_append split: if_splits)
  then have "map_of (gp_evidence res) ''outcome'' = map_of (gateway_evidence raw @ extra) ''outcome''"
    using map_of_sorted_entries[OF keys] by simp
  then show ?thesis by (simp add: gateway_evidence_def)
qed

lemma decoded_gateway_shown:
  assumes "decoded_gateway q raw = Inr res" "gp_code res = PROBE_SUCCEEDED"
  shows "json_keys raw = gateway_keys q \<and> json_get raw ''outcome'' \<in> {JStr ''passed'', JStr ''failed''}
     \<and> json_get raw ''target_id'' = JStr (dq_target q) \<and> json_get raw ''probe'' = JStr (dq_kind q)
     \<and> map_of (gp_evidence res) ''outcome'' = Some (json_get raw ''outcome'')"
proof -
  have failed: False if "malformed_gateway = Inr res"
    using make_gateway_code[OF that[unfolded malformed_gateway_def]] assms(2) by simp
  have extra: "map_of (gp_evidence res) ''outcome'' = Some (json_get raw ''outcome'')"
    if "make_gateway_result PROBE_SUCCEEDED (gateway_evidence raw @ [(''http_status'', a), (''body_size'', b)]) = Inr res" for a b
    by (rule evidence_outcome[OF that]) simp_all
  have plain: "map_of (gp_evidence res) ''outcome'' = Some (json_get raw ''outcome'')"
    if "make_gateway_result PROBE_SUCCEEDED (gateway_evidence raw) = Inr res"
    by (rule evidence_outcome[where extra = "[]"]) (use that in simp_all)
  show ?thesis
    using assms(1) unfolding decoded_gateway_def
    by (auto split: if_splits json.splits dest: failed extra plain)
qed

lemma gateway_answer_shown:
  assumes "gateway_answer gs q (hr_status response) body = Inr res" "gp_code res = PROBE_SUCCEEDED"
    and "collect_body (gs_maximum gs) [] (hr_chunks response) (hr_fault response) = Inr (Some body)"
  shows "probe_shown gs q response res"
proof -
  have body: "body = concat (hr_chunks response)" "hr_fault response = None"
    "hr_chunks response = [] \<or> length body \<le> gs_maximum gs"
    using collect_body_whole[OF assms(3)] by auto
  have no: False if "malformed_gateway = Inr res"
    using make_gateway_code[OF that[unfolded malformed_gateway_def]] assms(2) by simp
  have not_success: False if "make_gateway_result code evidence = Inr res" "code \<noteq> PROBE_SUCCEEDED" for code evidence
    using make_gateway_code[OF that(1)] assms(2) that(2) by simp
  from assms(1) have range: "200 \<le> hr_status response" "hr_status response < 300" "decode_gateway gs body q = Inr res"
    by (auto simp: gateway_answer_def dest: no not_success split: if_splits)
  then obtain raw where raw: "gs_loads gs body = Inr (Some raw)" "decoded_gateway q raw = Inr res"
    by (auto simp: decode_gateway_def bindR_Inr_iff dest: no split: option.splits)
  from decoded_gateway_shown[OF raw(2) assms(2)] raw(1) range(1,2) body show ?thesis
    unfolding probe_shown_def by auto
qed

section \<open>The exchange\<close>

text \<open>What follows the signing: nothing, or the one request and at most one close of its response.\<close>

definition probe_exchanged ::
  "('w, 'k) gateway_setting \<Rightarrow> delegated_request \<Rightarrow> probe_target \<Rightarrow> string \<Rightarrow> gateway_event list \<Rightarrow> gateway_exn + gateway_result \<Rightarrow> bool" where
  "probe_exchanged gs q t token evs r \<longleftrightarrow>
     evs = [] \<and> isl r
     \<or> (\<exists>url ans closes. request_url t ''/cpk/probes'' = Inr url
          \<and> evs = GatewaySent (gateway_outbound gs q t token url) ans # closes
          \<and> (isl ans \<and> closes = [] \<or> (\<exists>c. \<not> isl ans \<and> closes = [GatewayClosed c]))
          \<and> (\<forall>res. r = Inr res \<and> gp_code res = PROBE_SUCCEEDED \<longrightarrow>
               (\<exists>response. ans = Inr response \<and> probe_shown gs q response res)))"

definition exchange_run ::
  "('w, 'k) gateway_setting \<Rightarrow> delegated_request \<Rightarrow> probe_target \<Rightarrow> string \<Rightarrow> gateway_event list
    \<Rightarrow> gateway_exn + (int \<times> nat list option) \<Rightarrow> bool" where
  "exchange_run gs q t token evs r \<longleftrightarrow>
     evs = [] \<and> (\<exists>e. r = Inl (GatewayRaised e) \<and> request_url t ''/cpk/probes'' = Inl e)
     \<or> (\<exists>url ans closes. request_url t ''/cpk/probes'' = Inr url
          \<and> evs = GatewaySent (gateway_outbound gs q t token url) ans # closes
          \<and> (isl ans \<and> closes = [] \<or> (\<exists>c. \<not> isl ans \<and> closes = [GatewayClosed c]))
          \<and> (\<forall>status content. r = Inr (status, content) \<longrightarrow>
               (\<exists>response. ans = Inr response \<and> status = hr_status response
                  \<and> collect_body (gs_maximum gs) [] (hr_chunks response) (hr_fault response) = Inr content)))"

lemma emits_gateway_exchange: "emits (gateway_exchange gs q t token) (exchange_run gs q t token)"
proof (cases "request_url t ''/cpk/probes''")
  case (Inl e)
  then show ?thesis by (auto simp: gateway_exchange_def exchange_run_def intro: emits_raiseE)
next
  case (Inr url)
  show ?thesis
    unfolding gateway_exchange_def Inr Let_def
    apply (simp only: map_sum.simps id_apply liftE_simps bindE_returnE)
    apply (rule emits_bindE[OF emits_callE_eq])
     apply (rule emits_bindE[OF emits_callE_eq])
      apply (rule emits_validated)
       apply (rule emits_returnE)
       apply (fastforce simp: exchange_run_def Inr)
      apply (fastforce simp: exchange_run_def Inr)
     apply (fastforce simp: exchange_run_def Inr)
    apply (fastforce simp: exchange_run_def Inr)
    done
qed

lemma gateway_failure_none: "gateway_failure (GatewayRaised e) = None \<or> make_gateway_result code [] = Inr \<lparr>gp_code = code, gp_evidence = []\<rparr>"
  by (simp add: make_gateway_result_def)

lemma request_url_not_http: "request_url t path = Inl e \<Longrightarrow> gateway_failure (GatewayRaised e) = None"
  by (auto simp: request_url_def unsafe_endpoint_def split: option.splits if_splits)

lemma emits_exchange_answered:
  "emits (attemptE (gateway_exchange gs q t token)
       (\<lambda>e. case gateway_failure e of None \<Rightarrow> raiseE e | Some code \<Rightarrow> liftE (make_gateway_result code []))
       (\<lambda>(status, content). case content of
           None \<Rightarrow> liftE (make_gateway_result GATEWAY_OVERSIZED [])
         | Some body \<Rightarrow> liftE (gateway_answer gs q status body)))
     (probe_exchanged gs q t token)"
proof (rule emits_attemptE[OF emits_gateway_exchange])
  fix a evs assume run: "exchange_run gs q t token evs (Inr a)"
  obtain status content where a: "a = (status, content)" by fastforce
  have "probe_exchanged gs q t token evs r"
    if "r = (case content of None \<Rightarrow> make_gateway_result GATEWAY_OVERSIZED [] | Some body \<Rightarrow> gateway_answer gs q status body)" for r
    using run a that unfolding exchange_run_def probe_exchanged_def
    by (fastforce dest: make_gateway_code gateway_answer_shown split: option.splits)
  then show "emits (case a of (status, content) \<Rightarrow> (case content of
           None \<Rightarrow> liftE (make_gateway_result GATEWAY_OVERSIZED [])
         | Some body \<Rightarrow> liftE (gateway_answer gs q status body))) (\<lambda>evs'. probe_exchanged gs q t token (evs @ evs'))"
    unfolding a by (auto split: option.splits intro!: emits_liftE)
next
  fix e evs assume run: "exchange_run gs q t token evs (Inl e)"
  have failed: "probe_exchanged gs q t token evs r"
    if "isl r \<or> (\<exists>code. gateway_failure e = Some code \<and> r = make_gateway_result code [])" for r
  proof -
    have "gp_code res \<noteq> PROBE_SUCCEEDED" if "r = Inr res" for res
      using \<open>isl r \<or> _\<close> that by (cases e rule: gateway_failure.cases) (auto dest!: make_gateway_code sym[of "Inr _"])
    moreover have "isl r" if "evs = []"
      using run that \<open>isl r \<or> _\<close> unfolding exchange_run_def by (auto dest: request_url_not_http)
    ultimately show ?thesis
      using run unfolding exchange_run_def probe_exchanged_def by fastforce
  qed
  then show "emits (case gateway_failure e of None \<Rightarrow> raiseE e | Some code \<Rightarrow> liftE (make_gateway_result code []))
      (\<lambda>evs'. probe_exchanged gs q t token (evs @ evs'))"
    by (auto split: option.splits intro!: emits_raiseE emits_liftE)
qed

section \<open>Signing\<close>

text \<open>A token is made by the key of the signer's public key, over the claims of the grant.\<close>

definition token_of :: "('w, 'k) gateway_setting \<Rightarrow> delegated_grant \<Rightarrow> string \<Rightarrow> bool" where
  "token_of gs g token \<longleftrightarrow>
     (\<exists>pem key. gs_load gs pem = Inr (Some key)
        \<and> gs_derive gs (dg_key_id g) (pk_algorithm (gs_key gs)) key = Inr (pk_algorithm (gs_key gs), pk_fingerprint (gs_key gs))
        \<and> gs_encode gs (gateway_claims g) key (gateway_headers g) = Inr token)"

lemma signed_with_token: "signed_with gs g pem = Inr token \<Longrightarrow> token_of gs g token"
  by (force simp: signed_with_def token_of_def bindR_Inr_iff split: option.splits if_splits)

definition sign_run ::
  "('w, 'k) gateway_setting \<Rightarrow> delegated_grant \<Rightarrow> delegated_request \<Rightarrow> key_grant \<Rightarrow> gateway_event list \<Rightarrow> gateway_exn + string \<Rightarrow> bool" where
  "sign_run gs g q kg evs r \<longleftrightarrow>
     evs = [] \<and> isl r
     \<or> exact_grant g q \<and> dg_key_id g = pk_key_id (gs_key gs) \<and> signing_key_grant g kg (gs_reference gs)
       \<and> (\<exists>resolved. evs = [KeyResolved resolved]) \<and> (\<forall>token. r = Inr token \<longrightarrow> token_of gs g token)"

lemma emits_sign_probe: "emits (sign_probe gs g q kg) (sign_run gs g q kg)"
  unfolding sign_probe_def require_exact_grant_def require_signing_key_grant_def
  apply (rule emits_validated)
   apply (rule emits_required)
    apply (rule emits_validated)
     apply (rule emits_attemptE[where P = "\<lambda>evs r. (\<exists>resolved. evs = [KeyResolved resolved]) \<and> (\<forall>token. r = Inr token \<longrightarrow> token_of gs g token)"])
       apply (rule emits_bindE[OF emits_callE_eq])
        apply (rule emits_liftE, auto dest: signed_with_token)[1]
       apply fastforce
      apply (rule emits_returnE, simp add: sign_run_def)
     apply (rule emits_raiseE, simp add: sign_run_def)
    apply (simp_all add: sign_run_def)
  done

text \<open>No exception of a provider or of the cryptography passes the signing: an ordinary failure has a fixed message.\<close>

lemma signing_redacts: "raises_only (\<lambda>e. (\<exists>what. e = GatewayClientError what) \<or> \<not> gateway_ordinary e) (sign_probe gs g q kg)"
  unfolding sign_probe_def
  by (intro raises_only_bindE raises_only_liftE raises_only_requireE
      raises_only_attemptE[where P = "\<lambda>_. True"] raises_only_returnE raises_only_raiseE)
    (auto simp: require_exact_grant_def require_signing_key_grant_def gateway_error_def redacted_signing_def
      gateway_ordinary_def raises_only_def split: gateway_exn.splits)

section \<open>The dispatch\<close>

definition signed_and_sent ::
  "('w, 'k) gateway_setting \<Rightarrow> delegated_grant \<Rightarrow> delegated_request \<Rightarrow> key_grant \<Rightarrow> probe_target \<Rightarrow> gateway_event list
    \<Rightarrow> gateway_exn + gateway_result \<Rightarrow> bool" where
  "signed_and_sent gs g q kg t evs r \<longleftrightarrow>
     evs = [] \<and> isl r
     \<or> dg_key_id g = pk_key_id (gs_key gs) \<and> signing_key_grant g kg (gs_reference gs)
       \<and> (\<exists>resolved sent. evs = KeyResolved resolved # sent
            \<and> (sent = [] \<and> isl r
               \<or> (\<exists>token. token_of gs g token \<and> probe_exchanged gs q t token sent r)))"

definition dispatched ::
  "('w, 'k) gateway_setting \<Rightarrow> delegated_grant \<Rightarrow> delegated_request \<Rightarrow> probe_endpoint \<Rightarrow> key_grant \<Rightarrow> gateway_event list
    \<Rightarrow> gateway_exn + gateway_result \<Rightarrow> bool" where
  "dispatched gs g q ep kg evs r \<longleftrightarrow>
     evs = [] \<and> isl r
     \<or> exact_grant g q \<and> gateway_endpoint g ep
       \<and> (\<exists>front x rest. evs = map EndpointStep front @ rest \<and> trusted_outcome (gs_policy gs) ep front x
            \<and> (case x of Inl e \<Rightarrow> rest = [] \<and> r = Inl (GatewayRaised e) | Inr t \<Rightarrow> signed_and_sent gs g q kg t rest r))"

lemma map_sum_Inr_iff: "map_sum f id x = Inr a \<longleftrightarrow> x = Inr a"
  by (cases x) auto

lemma map_sum_Inl_iff: "map_sum f id x = Inl a \<longleftrightarrow> (\<exists>e. x = Inl e \<and> a = f e)"
  by (cases x) auto

lemma dispatched_on:
  "exact_grant g q \<Longrightarrow> gateway_endpoint g ep \<Longrightarrow> trusted_outcome (gs_policy gs) ep front (Inr t)
    \<Longrightarrow> signed_and_sent gs g q kg t rest r \<Longrightarrow> dispatched gs g q ep kg (map EndpointStep front @ rest) r"
  unfolding dispatched_def by (intro disjI2 conjI exI[of _ front] exI[of _ "Inr t"] exI[of _ rest]) simp_all

lemma dispatched_refused:
  "exact_grant g q \<Longrightarrow> gateway_endpoint g ep \<Longrightarrow> trusted_outcome (gs_policy gs) ep front (Inl e)
    \<Longrightarrow> dispatched gs g q ep kg (map EndpointStep front) (Inl (GatewayRaised e))"
  unfolding dispatched_def by (intro disjI2 conjI exI[of _ front] exI[of _ "Inl e"] exI[of _ "[]"]) simp_all

lemma emits_dispatch_probe: "emits (dispatch_probe gs g q ep kg) (dispatched gs g q ep kg)"
proof -
  have sent: "emits (bindE (sign_probe gs g q kg) (\<lambda>token.
     attemptE (gateway_exchange gs q t token)
       (\<lambda>e. case gateway_failure e of None \<Rightarrow> raiseE e | Some code \<Rightarrow> liftE (make_gateway_result code []))
       (\<lambda>(status, content). case content of
           None \<Rightarrow> liftE (make_gateway_result GATEWAY_OVERSIZED [])
         | Some body \<Rightarrow> liftE (gateway_answer gs q status body)))) (signed_and_sent gs g q kg t)" for t
  proof (rule emits_bindE[OF emits_sign_probe])
    fix token evs assume "sign_run gs g q kg evs (Inr token)"
    then obtain resolved where s: "dg_key_id g = pk_key_id (gs_key gs)" "signing_key_grant g kg (gs_reference gs)"
      "evs = [KeyResolved resolved]" "token_of gs g token"
      by (auto simp: sign_run_def)
    show "emits (attemptE (gateway_exchange gs q t token)
       (\<lambda>e. case gateway_failure e of None \<Rightarrow> raiseE e | Some code \<Rightarrow> liftE (make_gateway_result code []))
       (\<lambda>(status, content). case content of
           None \<Rightarrow> liftE (make_gateway_result GATEWAY_OVERSIZED [])
         | Some body \<Rightarrow> liftE (gateway_answer gs q status body))) (\<lambda>evs'. signed_and_sent gs g q kg t (evs @ evs'))"
      by (rule emits_mono[OF emits_exchange_answered]) (use s in \<open>auto simp: signed_and_sent_def\<close>)
  qed (auto simp: sign_run_def signed_and_sent_def)
  show ?thesis
    unfolding dispatch_probe_def require_exact_grant_def require_gateway_endpoint_def
    apply (rule emits_validated)
     apply (rule emits_validated)
      apply (rule emits_bindE[OF emits_via[OF emits_authorize_probe_endpoint]])
       apply (rule emits_mono[OF sent])
    subgoal for u1 u2 t evs evs' r by (auto dest!: sym[of "Inr t"] simp: map_sum_Inr_iff intro: dispatched_on)
    subgoal for u1 u2 e evs by (auto dest!: sym[of "Inl e"] simp: map_sum_Inl_iff intro: dispatched_refused)
     apply (simp_all add: dispatched_def)
    done
qed


text \<open>A gateway that is asked at its private address and answers that the probe passed.\<close>

definition sample_delegated :: delegated_grant where
  "sample_delegated = \<lparr>dg_issuer = ''cpk'', dg_audience = ''gw'', dg_issued = 1, dg_expires = 2, dg_jti = ''j'', dg_key_id = ''k1'',
     dg_kind = ''tcp'', dg_target = ''db'', dg_digest = ''d'', dg_gateway = ''n1'', dg_workspace = ''w'', dg_operation = ''op'',
     dg_descriptor = JObj []\<rparr>"

definition sample_delegated_request :: delegated_request where
  "sample_delegated_request = \<lparr>dq_kind = ''tcp'', dq_target = ''db'', dq_digest = ''d'', dq_descriptor = JObj []\<rparr>"

definition sample_gateway_endpoint :: probe_endpoint where
  "sample_gateway_endpoint = (sample_endpoint ''http://gw:8080'' RUNTIME_PRIVATE)\<lparr>ep_socket := ''control''\<rparr>"

definition sample_key_grant :: key_grant where
  "sample_key_grant = \<lparr>kg_workspace = ''w'', kg_operation = ''op'', kg_probe = Some ''op'', kg_permits = (\<lambda>reference. reference = ''key'')\<rparr>"

definition sample_gateway_answer :: probe_response where
  "sample_gateway_answer = \<lparr>hr_status = 200, hr_chunks = [[1], [2]], hr_fault = None\<rparr>"

definition sample_gateway :: "(unit, string) gateway_setting" where
  "sample_gateway = \<lparr>gs_schemes = (\<lambda>_. [''http'', ''https'']), gs_policy = sample_address_policy, gs_public = None,
     gs_reference = ''key'', gs_key = \<lparr>pk_key_id = ''k1'', pk_algorithm = ''EdDSA'', pk_fingerprint = ''f''\<rparr>,
     gs_resolve = (\<lambda>_ w. (Inr ''pem'', w)), gs_load = (\<lambda>pem. Inr (Some pem)), gs_derive = (\<lambda>_ algorithm _. Inr (algorithm, ''f'')),
     gs_encode = (\<lambda>_ _ _. Inr ''token''), gs_send = (\<lambda>_ w. (Inr sample_gateway_answer, w)), gs_close = (\<lambda>w. (Inr (), w)),
     gs_loads = (\<lambda>body. Inr (if body = [1, 2]
        then Some (JObj [(''outcome'', JStr ''passed''), (''target_id'', JStr ''db''), (''probe'', JStr ''tcp'')]) else None)),
     gs_maximum = 16384, gs_timeout = 5\<rparr>"

definition sample_gateway_target :: probe_target where
  "sample_gateway_target = \<lparr>pt_context = RUNTIME_PRIVATE, pt_base_url = ''http://gw:8080'', pt_host = ''gw'', pt_port = 8080,
     pt_host_header = None, pt_sni = None\<rparr>"

definition sample_gateway_request :: gateway_request where
  "sample_gateway_request = gateway_outbound sample_gateway sample_delegated_request sample_gateway_target ''token'' ''http://gw:8080/cpk/probes''"

definition sample_gateway_result :: gateway_result where
  "sample_gateway_result = \<lparr>gp_code = PROBE_SUCCEEDED,
     gp_evidence = [(''outcome'', JStr ''passed''), (''probe'', JStr ''tcp''), (''target_id'', JStr ''db'')]\<rparr>"

definition sample_gateway_events :: "gateway_event list" where
  "sample_gateway_events = [KeyResolved (Inr ()), GatewaySent sample_gateway_request (Inr sample_gateway_answer), GatewayClosed None]"

lemma sample_gateway_authorized:
  "authorize_probe_endpoint (gs_schemes sample_gateway) sample_gateway_endpoint (gs_policy sample_gateway) None (gs_public sample_gateway) s
     = (Inr sample_gateway_target, s)"
proof -
  have "netloc_ok ''gw:8080''" "\<forall>c \<in> set ''gw:8080''. \<not> authority_end c \<and> \<not> unsafe_char c"
    by (auto simp: netloc_ok_def authority_end_def unsafe_char_def code_of_def)
  from urlsplit_authority[OF _ this, of "''http''" "[]"]
  have "urlsplit ''http://gw:8080'' = Some \<lparr>su_scheme = ''http'', su_netloc = ''gw:8080'', su_path = [], su_query = [], su_fragment = []\<rparr>"
    by (simp add: no_delimiter_def)
  moreover have "host_info ''gw:8080'' = (''gw'', Some ''8080'')" by code_simp
  then have "url_hostname \<lparr>su_scheme = ''http'', su_netloc = ''gw:8080'', su_path = [], su_query = [], su_fragment = []\<rparr> = Some ''gw''"
    "validated_shape (\<lambda>_. [''http'', ''https'']) sample_gateway_endpoint
      \<lparr>su_scheme = ''http'', su_netloc = ''gw:8080'', su_path = [], su_query = [], su_fragment = []\<rparr> = Some (''gw'', 8080)"
    by (simp_all add: validated_shape_def url_hostname_def url_port_def has_username_def has_password_def sample_gateway_endpoint_def
        sample_endpoint_def rpartition_at_def is_digit_def in_range_def code_of_def py_lower_char_def is_upper_alpha_def)
  moreover have "char_of (48::nat) = CHR ''0''" by code_simp
  then have "origin_of ''http'' ''gw'' 8080 = ''http://gw:8080''"
    by (simp add: origin_of_def bracketed_def show_nat.simps sample_digits)
  ultimately show ?thesis
    by (simp add: authorize_probe_endpoint_def resolve_address_def sample_gateway_endpoint_def sample_endpoint_def sample_gateway_def
        authorize_target_def sample_address_policy_def sample_gateway_target_def eff_defs)
qed

lemma sample_gateway_signed: "signed_with sample_gateway sample_delegated ''pem'' = Inr ''token''"
  by (simp add: signed_with_def sample_gateway_def is_ascii_def code_of_def)

lemma sample_gateway_url: "request_url sample_gateway_target ''/cpk/probes'' = Inr ''http://gw:8080/cpk/probes''"
  by code_simp

lemma sample_gateway_decoded:
  "gateway_answer sample_gateway sample_delegated_request 200 [Suc 0, 2] = Inr sample_gateway_result"
  by code_simp

lemma sample_gateway_run:
  "dispatch_probe sample_gateway sample_delegated sample_delegated_request sample_gateway_endpoint sample_key_grant \<lparr>trace = [], world = ()\<rparr>
     = (Inr sample_gateway_result, \<lparr>trace = sample_gateway_events, world = ()\<rparr>)"
proof -
  have grants: "exact_grant sample_delegated sample_delegated_request" "gateway_endpoint sample_delegated sample_gateway_endpoint"
    "signing_key_grant sample_delegated sample_key_grant (gs_reference sample_gateway)"
    "dg_key_id sample_delegated = pk_key_id (gs_key sample_gateway)"
    by code_simp+
  have calls: "gs_resolve sample_gateway kg w = (Inr ''pem'', w)" "gs_send sample_gateway rq w = (Inr sample_gateway_answer, w)"
    "gs_close sample_gateway w = (Inr (), w)" "gs_maximum sample_gateway = 16384" for kg rq w
    by (simp_all add: sample_gateway_def)
  show ?thesis
    unfolding dispatch_probe_def require_exact_grant_def require_gateway_endpoint_def sign_probe_def require_signing_key_grant_def
      gateway_exchange_def via_def
    by (simp add: grants sample_gateway_authorized sample_gateway_url sample_gateway_signed sample_gateway_decoded calls eff_defs
        unit_outcome_def Let_def sample_gateway_answer_def sample_gateway_events_def sample_gateway_request_def)
qed


end
