(* ===== verification/Docker_Connector.thy ===== *)
theory Docker_Connector
  imports Docker_Inspect
begin

text \<open>
  The part of \<open>docker/sdk.py\<close> that reads the evidence of an ingress connector: its container with the latest
  sample of its health check, and its image.  Evidence is accepted only in one closed shape.
\<close>

section \<open>Values\<close>

datatype connector_profile = NATIVE_READER_V1 | MANAGED_WRAPPER_V1

datatype connector_reason = STATE_INELIGIBLE | EVIDENCE_SAMPLE_MISSING | EVIDENCE_SAMPLE_INVALID

text \<open>A rejection with its reason; any other exception of the decoding (\<open>ValueError\<close>, \<open>KeyError\<close>, \<open>TypeError\<close>).\<close>

datatype connector_fault = Rejection connector_reason | Unacceptable

record connector_sample =
  cs_start :: string
  cs_end :: string
  cs_exit :: int
  cs_output :: string

record connector_inspection =
  cn_container :: string
  cn_name :: string
  cn_image :: string
  cn_labels :: "(string \<times> string) list"
  cn_launch :: string
  cn_network :: string
  cn_secret :: secret_mount
  cn_started :: string
  cn_sample :: connector_sample
  cn_configuration :: "secret_mount option"

record connector_image =
  cg_image :: string
  cg_launch :: string
  cg_owner :: nat

definition managed_configuration_path :: string where
  "managed_configuration_path = ''/etc/cpk/cloudflared/control.json''"

section \<open>Bounded values\<close>

definition cn_text :: "nat \<Rightarrow> json \<Rightarrow> connector_fault + string" where
  "cn_text limit j =
     (case j of
        JStr s \<Rightarrow> if length s \<le> limit \<and> length (utf8_bytes s) \<le> limit \<and> CHR 0x00 \<notin> set s then Inr s else Inl Unacceptable
      | _ \<Rightarrow> Inl Unacceptable)"

definition cn_mapping :: "nat \<Rightarrow> json \<Rightarrow> connector_fault + json" where
  "cn_mapping limit j = (case j of JObj kvs \<Rightarrow> if length kvs \<le> limit then Inr j else Inl Unacceptable | _ \<Rightarrow> Inl Unacceptable)"

fun cn_each :: "('a \<Rightarrow> connector_fault + 'b) \<Rightarrow> 'a list \<Rightarrow> connector_fault + 'b list" where
  "cn_each f [] = Inr []"
| "cn_each f (x # xs) = bindR (f x) (\<lambda>y. bindR (cn_each f xs) (\<lambda>ys. Inr (y # ys)))"

definition cn_strings :: "nat \<Rightarrow> json \<Rightarrow> connector_fault + string list" where
  "cn_strings count j =
     (case j of JList xs \<Rightarrow> if length xs \<le> count then cn_each (cn_text 4096) xs else Inl Unacceptable | _ \<Rightarrow> Inl Unacceptable)"

text \<open>\<open>raw[key]\<close>, which raises when the key is absent.\<close>

definition cn_item :: "json \<Rightarrow> string \<Rightarrow> connector_fault + json" where
  "cn_item j k = (if json_has j k then Inr (json_get j k) else Inl Unacceptable)"

definition cn_require :: "bool \<Rightarrow> connector_fault + unit" where
  "cn_require b = requireR b Unacceptable"

definition cn_command :: "json \<Rightarrow> connector_fault + string list" where
  "cn_command j = (if j = JNull then Inr [] else cn_strings 64 j)"

section \<open>Launch\<close>

definition name_start :: "char \<Rightarrow> bool" where
  "name_start c \<longleftrightarrow> is_lower_alpha c \<or> is_upper_alpha c \<or> c = CHR ''_''"

definition environment_name :: "string \<Rightarrow> bool" where
  "environment_name s \<longleftrightarrow> s \<noteq> [] \<and> name_start (hd s) \<and> list_all (\<lambda>c. name_start c \<or> is_digit c) (tl s)"

fun cn_environment :: "(string \<times> string) list \<Rightarrow> string list \<Rightarrow> connector_fault + (string \<times> string) list" where
  "cn_environment env [] = Inr env"
| "cn_environment env (item # items) =
     (case partition_at CHR ''='' item of
        (name, separator, v) \<Rightarrow>
          if \<not> separator \<or> \<not> environment_name name \<or> name \<in> set (map fst env) then Inl Unacceptable
          else cn_environment (env @ [(name, v)]) items)"

definition timing_keys :: "string list" where
  "timing_keys = [''Interval'', ''Timeout'', ''Retries'', ''StartPeriod'', ''StartInterval'']"

definition cn_timing :: "json \<Rightarrow> string \<Rightarrow> connector_fault + int" where
  "cn_timing health key =
     (case json_get_or health key (JInt 0) of
        JInt v \<Rightarrow> if 0 \<le> v \<and> v \<le> 2 ^ 63 - 1 then Inr v else Inl Unacceptable
      | _ \<Rightarrow> Inl Unacceptable)"

record connector_launch =
  cl_entrypoint :: "string list"
  cl_command :: "string list"
  cl_user :: string
  cl_directory :: string
  cl_stop :: string
  cl_shell :: "string list"
  cl_environment :: "(string \<times> string) list"
  cl_probe :: "string list"
  cl_timing :: "int list"

definition cn_health :: "json \<Rightarrow> connector_fault + string list \<times> int list" where
  "cn_health config =
     bindR (cn_item config ''Healthcheck'') (\<lambda>h.
     bindR (cn_mapping 6 h) (\<lambda>health.
     bindR (cn_require ({''Test'', ''Interval'', ''Timeout'', ''Retries''} \<subseteq> json_keys health
         \<and> json_keys health \<subseteq> insert ''Test'' (set timing_keys))) (\<lambda>_.
     bindR (cn_strings 64 (json_get health ''Test'')) (\<lambda>probe.
     bindR (cn_each (cn_timing health) timing_keys) (\<lambda>timing. Inr (probe, timing))))))"

definition cn_config :: "json \<Rightarrow> connector_fault + connector_launch" where
  "cn_config raw =
     bindR (cn_mapping 128 raw) (\<lambda>config.
     bindR (bindR (cn_item config ''Entrypoint'') (cn_strings 64)) (\<lambda>entrypoint.
     bindR (bindR (cn_item config ''Cmd'') cn_command) (\<lambda>command.
     bindR (bindR (cn_item config ''User'') (cn_text 128)) (\<lambda>user.
     bindR (bindR (cn_item config ''WorkingDir'') (cn_text 4096)) (\<lambda>cwd.
     bindR (bindR (cn_item config ''StopSignal'') (cn_text 32)) (\<lambda>stop.
     bindR (cn_command (json_get config ''Shell'')) (\<lambda>shell.
     bindR (cn_require (json_get config ''Volumes'' \<in> {JNull, JObj []})) (\<lambda>_.
     bindR (bindR (bindR (cn_item config ''Env'') (cn_strings 128)) (cn_environment [])) (\<lambda>environment.
     bindR (cn_health config) (\<lambda>(probe, timing).
     Inr \<lparr>cl_entrypoint = entrypoint, cl_command = command, cl_user = user, cl_directory = cwd, cl_stop = stop,
          cl_shell = shell, cl_environment = environment, cl_probe = probe, cl_timing = timing\<rparr>))))))))))"

definition managed_profile :: "connector_profile \<Rightarrow> bool" where
  "managed_profile profile \<longleftrightarrow> profile = MANAGED_WRAPPER_V1"

definition expected_program :: "connector_profile \<Rightarrow> string list" where
  "expected_program profile =
     (if managed_profile profile then [''python'', ''-m'', ''control_plane_kit_servers_cloudflared_connector.entrypoint'']
      else [''cloudflared'', ''--no-autoupdate'', ''--metrics'', ''127.0.0.1:20241''])"

text \<open>The one program an image of the profile may have.\<close>

definition selected_program :: "connector_profile \<Rightarrow> connector_launch \<Rightarrow> bool" where
  "selected_program profile l \<longleftrightarrow>
     cl_entrypoint l = expected_program profile
     \<and> cl_command l = (if managed_profile profile then [] else [''tunnel'', ''run''])
     \<and> cl_user l = ''65532:65532'' \<and> cl_stop l = ''SIGTERM''
     \<and> cl_probe l = [''CMD'', ''python'', ''-m'', ''control_plane_kit_servers_cloudflared_connector.readiness'']
     \<and> cl_timing l = [5000000000, 3000000000, 1, 0, 0] \<and> cl_shell l = []
     \<and> cl_directory l = (if managed_profile profile then ''/app'' else [])
     \<and> ''TUNNEL_TOKEN'' \<notin> set (map fst (cl_environment l)) \<and> ''TUNNEL_TOKEN_FILE'' \<notin> set (map fst (cl_environment l))
     \<and> (managed_profile profile \<longrightarrow>
          map_of (cl_environment l) ''CPK_WRAPPER_CONFIGURATION_FILE'' = Some managed_configuration_path)"

definition launch_digest :: "connector_launch \<Rightarrow> string" where
  "launch_digest l =
     sha256_hex (utf8_bytes (canonical_json (JList
       [JList (map JStr (cl_entrypoint l)), JList (map JStr (cl_command l)), JStr (cl_user l), JStr (cl_directory l),
        JStr (cl_stop l), JList (map JStr (cl_shell l)), JObj (text_entries (cl_environment l)), JList (map JStr (cl_probe l)),
        JList (map JInt (cl_timing l))])))"

text \<open>The launch of a container, and that of an image with the path of the token.\<close>

definition container_launch :: "json \<Rightarrow> connector_fault + string" where
  "container_launch raw = bindR (cn_config raw) (\<lambda>l. Inr (launch_digest l))"

definition image_launch :: "connector_profile \<Rightarrow> string \<Rightarrow> json \<Rightarrow> connector_fault + string" where
  "image_launch profile token_path raw =
     bindR (cn_config raw) (\<lambda>l.
     bindR (cn_require (selected_program profile l)) (\<lambda>_.
     bindR (cn_text 4096 (JStr token_path)) (\<lambda>path.
     Inr (launch_digest (l\<lparr>cl_environment := cl_environment l @ [(''TUNNEL_TOKEN_FILE'', path)]\<rparr>)))))"

section \<open>The container\<close>

definition cn_flag :: "json \<Rightarrow> string \<Rightarrow> connector_fault + bool" where
  "cn_flag state key = (case json_get state key of JBool b \<Rightarrow> Inr b | _ \<Rightarrow> Inl Unacceptable)"

definition eligible_state :: "json \<Rightarrow> connector_fault + unit" where
  "eligible_state state =
     bindR (cn_flag state ''Running'') (\<lambda>running.
     bindR (cn_flag state ''Paused'') (\<lambda>paused.
     bindR (cn_flag state ''Restarting'') (\<lambda>restarting.
     requireR (running \<and> \<not> paused \<and> \<not> restarting) (Rejection STATE_INELIGIBLE))))"

definition cn_label :: "string \<times> json \<Rightarrow> connector_fault + string \<times> string" where
  "cn_label e = bindR (cn_text 256 (JStr (fst e))) (\<lambda>k. bindR (cn_text 4096 (snd e)) (\<lambda>v. Inr (k, v)))"

definition json_entries :: "json \<Rightarrow> (string \<times> json) list" where
  "json_entries j = (case j of JObj kvs \<Rightarrow> kvs | _ \<Rightarrow> [])"

definition cn_labels_of :: "json \<Rightarrow> connector_fault + (string \<times> string) list" where
  "cn_labels_of config =
     bindR (cn_item config ''Labels'') (\<lambda>raw.
     bindR (cn_mapping 128 raw) (\<lambda>labels.
     bindR (cn_each cn_label (json_entries labels)) (\<lambda>ls.
     Inr (sort_by (\<lambda>a b. str_le (fst a) (fst b)) ls))))"

text \<open>The program that runs is the configured one.\<close>

definition running_program :: "json \<Rightarrow> json \<Rightarrow> connector_fault + unit" where
  "running_program attrs config =
     bindR (cn_strings 64 (json_get config ''Entrypoint'')) (\<lambda>entrypoint.
     bindR (cn_command (json_get config ''Cmd'')) (\<lambda>command.
     case entrypoint @ command of
       [] \<Rightarrow> Inl Unacceptable
     | program # arguments \<Rightarrow>
         bindR (bindR (cn_item attrs ''Path'') (cn_text 4096)) (\<lambda>path.
         bindR (cn_require (path = program)) (\<lambda>_.
         bindR (bindR (cn_item attrs ''Args'') (cn_strings 64)) (\<lambda>args.
         cn_require (args = arguments))))))"

definition single_network :: "json \<Rightarrow> json \<Rightarrow> connector_fault + string" where
  "single_network attrs host =
     bindR (bindR (cn_item host ''NetworkMode'') (cn_text 256)) (\<lambda>network.
     bindR (bindR (cn_item attrs ''NetworkSettings'') (cn_mapping 128)) (\<lambda>settings.
     bindR (bindR (cn_item settings ''Networks'') (cn_mapping 1)) (\<lambda>networks.
     bindR (cn_require (map fst (json_entries networks) = [network])) (\<lambda>_. Inr network))))"

definition mount_count :: "connector_profile \<Rightarrow> nat" where
  "mount_count profile = (if managed_profile profile then 2 else 1)"

definition only_mounts :: "connector_profile \<Rightarrow> json \<Rightarrow> json \<Rightarrow> connector_fault + secret_mount list" where
  "only_mounts profile attrs host =
     bindR (cn_require (\<forall>key \<in> {''Binds'', ''Tmpfs'', ''VolumesFrom''}. json_get host key \<in> {JNull, JList [], JObj []})) (\<lambda>_.
     case (json_get host ''Mounts'', json_get attrs ''Mounts'') of
       (JList configured, JList observed) \<Rightarrow>
         if length configured \<noteq> mount_count profile \<or> length observed \<noteq> mount_count profile then Inl Unacceptable
         else bindR (cn_each (cn_mapping 128) (configured @ observed)) (\<lambda>_.
              let mounts = readonly_secret_mounts attrs
              in if length mounts \<noteq> mount_count profile then Inl Unacceptable else Inr mounts)
     | _ \<Rightarrow> Inl Unacceptable)"

definition nested_path :: "string \<Rightarrow> string \<Rightarrow> bool" where
  "nested_path left right \<longleftrightarrow> left = right \<or> py_startswith right (rstrip_char CHR ''/'' left @ ''/'')"

text \<open>The mount of the token and, of the managed profile, that of the configuration, which must be apart.\<close>

definition split_mounts :: "connector_profile \<Rightarrow> secret_mount list \<Rightarrow> connector_fault + secret_mount \<times> secret_mount option" where
  "split_mounts profile mounts =
     (if managed_profile profile
      then (case filter (\<lambda>v. sm_target v = managed_configuration_path) mounts of
              [configuration] \<Rightarrow>
                (case filter (\<lambda>v. v \<noteq> configuration) mounts of
                   [mount] \<Rightarrow>
                     if nested_path (sm_target mount) (sm_target configuration) \<or> nested_path (sm_target configuration) (sm_target mount)
                        \<or> sm_volume mount = sm_volume configuration
                     then Inl Unacceptable
                     else bindR (cn_text 4096 (JStr (sm_target configuration))) (\<lambda>_.
                          bindR (cn_text 256 (JStr (sm_volume configuration))) (\<lambda>_. Inr (mount, Some configuration)))
                 | _ \<Rightarrow> Inl Unacceptable)
            | _ \<Rightarrow> Inl Unacceptable)
      else (case mounts of [mount] \<Rightarrow> Inr (mount, None) | _ \<Rightarrow> Inl Unacceptable))"

definition latest_sample :: "json \<Rightarrow> connector_fault + connector_sample" where
  "latest_sample entries_of =
     (case entries_of of
        JList entries \<Rightarrow>
          if \<not> (1 \<le> length entries \<and> length entries \<le> 32) then Inl Unacceptable
          else bindR (cn_mapping 4 (last entries)) (\<lambda>latest.
            if json_keys latest \<noteq> {''Start'', ''End'', ''ExitCode'', ''Output''} then Inl Unacceptable
            else (case json_get latest ''ExitCode'' of
                JInt code \<Rightarrow>
                  if code \<notin> {0, 1} then Inl Unacceptable
                  else bindR (cn_text 40 (json_get latest ''Start'')) (\<lambda>start.
                       bindR (cn_text 40 (json_get latest ''End'')) (\<lambda>finish.
                       bindR (cn_text 256 (json_get latest ''Output'')) (\<lambda>output.
                       Inr \<lparr>cs_start = start, cs_end = finish, cs_exit = code, cs_output = output\<rparr>)))
              | _ \<Rightarrow> Inl Unacceptable))
      | _ \<Rightarrow> Inl Unacceptable)"

definition health_sample :: "json \<Rightarrow> connector_fault + connector_sample" where
  "health_sample state =
     (if \<not> json_has state ''Health'' then Inl (Rejection EVIDENCE_SAMPLE_MISSING)
      else bindR (cn_mapping 128 (json_get state ''Health'')) (\<lambda>health.
        if \<not> json_has health ''Log'' \<or> json_get health ''Log'' = JList [] then Inl (Rejection EVIDENCE_SAMPLE_MISSING)
        else latest_sample (json_get health ''Log'')))"

definition sample_of :: "json \<Rightarrow> connector_fault + connector_sample" where
  "sample_of state =
     (case health_sample state of
        Inl Unacceptable \<Rightarrow> Inl (Rejection EVIDENCE_SAMPLE_INVALID)
      | r \<Rightarrow> r)"

definition connector_identity :: "json \<Rightarrow> connector_fault + string \<times> string" where
  "connector_identity attrs =
     bindR (bindR (cn_item attrs ''Id'') (cn_text 64)) (\<lambda>ident.
     case json_get attrs ''Image'' of
       JStr img \<Rightarrow> if hex64 ident \<and> is_canonical_image_id (Some img) then Inr (ident, img) else Inl Unacceptable
     | _ \<Rightarrow> Inl Unacceptable)"

definition connector_container :: "connector_profile \<Rightarrow> json \<Rightarrow> connector_fault + connector_inspection" where
  "connector_container profile raw =
     bindR (cn_mapping 128 raw) (\<lambda>attrs.
     bindR (connector_identity attrs) (\<lambda>(ident, img).
     bindR (bindR (cn_item attrs ''Name'') (cn_text 256)) (\<lambda>name.
     bindR (bindR (cn_item attrs ''State'') (cn_mapping 128)) (\<lambda>state.
     bindR (eligible_state state) (\<lambda>_.
     bindR (bindR (cn_item state ''StartedAt'') (cn_text 40)) (\<lambda>started.
     bindR (bindR (cn_item attrs ''Config'') (cn_mapping 128)) (\<lambda>config.
     bindR (cn_labels_of config) (\<lambda>labels.
     bindR (container_launch config) (\<lambda>launch.
     bindR (running_program attrs config) (\<lambda>_.
     bindR (bindR (cn_item attrs ''HostConfig'') (cn_mapping 128)) (\<lambda>host.
     bindR (single_network attrs host) (\<lambda>network.
     bindR (bindR (only_mounts profile attrs host) (split_mounts profile)) (\<lambda>(mount, configuration).
     bindR (cn_text 4096 (JStr (sm_target mount))) (\<lambda>_.
     bindR (cn_text 256 (JStr (sm_volume mount))) (\<lambda>_.
     bindR (sample_of state) (\<lambda>sample.
     Inr \<lparr>cn_container = ident, cn_name = name, cn_image = img, cn_labels = labels, cn_launch = launch, cn_network = network,
          cn_secret = mount, cn_started = started, cn_sample = sample, cn_configuration = configuration\<rparr>))))))))))))))))"

section \<open>The image\<close>

definition connector_image_of ::
  "(string \<Rightarrow> string \<Rightarrow> string \<Rightarrow> bool) \<Rightarrow> connector_profile \<Rightarrow> string \<Rightarrow> string \<Rightarrow> json \<Rightarrow> connector_fault + connector_image" where
  "connector_image_of ok profile reference token_path raw =
     bindR (cn_mapping 128 raw) (\<lambda>attrs.
     bindR (case json_get attrs ''Id'' of
         JStr img \<Rightarrow> if is_canonical_image_id (Some img) then Inr img else Inl Unacceptable
       | _ \<Rightarrow> Inl Unacceptable) (\<lambda>ident.
     bindR (bindR (cn_item attrs ''RepoDigests'') (cn_strings 32)) (\<lambda>digests.
     bindR (cn_require (matches_image_reference ok reference digests)) (\<lambda>_.
     bindR (bindR (cn_item attrs ''Config'') (image_launch profile token_path)) (\<lambda>launch.
     case secret_file_owner_uid (case json_get (json_get attrs ''Config'') ''User'' of JStr u \<Rightarrow> Some u | _ \<Rightarrow> None) of
       None \<Rightarrow> Inl Unacceptable
     | Some uid \<Rightarrow> Inr \<lparr>cg_image = ident, cg_launch = launch, cg_owner = uid\<rparr>)))))"

end
