(* ===== verification/Connector_Qualification.thy ===== *)
theory Connector_Qualification
  imports Docker_Connector Docker_Attempt
begin

text \<open>
  The selection of \<open>docker/connector_connection.py\<close>: which observation steps of which plans the connector
  observer is made for.  Graphs, plans and contracts are core values; the model has the fields the code
  reads, and the rest of each value as JSON for the comparisons of whole values.  The functions of the
  core (resolving an observation, compiling plans, selecting slots, decoding) are parameters; \<open>None\<close> is
  one of the exceptions the code catches.
\<close>

section \<open>Core values\<close>

type_synonym environment = "(string \<times> string \<times> json) list"

record typed_artifact = configuration_artifact +
  ta_media :: string
  ta_source :: string

text \<open>Artifact, path, media type and mode of a declared configuration file.\<close>

type_synonym slot = "string \<times> string \<times> string \<times> string"

definition slot_fields :: "typed_artifact \<Rightarrow> slot" where
  "slot_fields a = (ca_id a, ca_target a, ta_media a, ca_mode a)"

record graph_node =
  gn_id :: string
  gn_runtime :: string
  gn_metadata :: "(string \<times> string) list"
  gn_public :: environment
  gn_socket :: environment
  gn_authorities :: "authority_delivery list"
  gn_artifacts :: "typed_artifact list"
  gn_secrets :: "secret_delivery list"
  gn_sockets :: json
  gn_surfaces :: "json list"
  gn_rest :: json

record graph_runtime =
  gr_docker :: bool
  gr_authority :: "string option"
  gr_rest :: json

record public_ingress =
  pi_id :: string
  pi_connector :: string
  pi_rest :: json

record control_graph =
  cgr_runtimes :: "(string \<times> graph_runtime) list"
  cgr_nodes :: "(string \<times> graph_node) list"
  cgr_ingresses :: "public_ingress list"
  cgr_rest :: json

text \<open>The operations of a plan; an observation of a bootstrap has its stage, side and runtime.\<close>

datatype bootstrap_stage = CONNECTOR_CONNECTED | OtherStage string

datatype graph_side = BASE_GRAPH | DESIRED_GRAPH

datatype plan_operation =
    PlanStartRuntime string
  | PlanStartNode string
  | PlanReconcileNode string
  | PlanAllocateIngress string
  | PlanObserveBootstrap bootstrap_stage graph_side string json
  | PlanOther json

record activity_plan =
  ap_activities :: "(string \<times> plan_operation) list"
  ap_ready :: bool
  ap_rest :: json

record management_path =
  mp_connector :: graph_node
  mp_gateway :: graph_node
  mp_ingress :: public_ingress
  mp_graph :: control_graph

record contract =
  kc_public :: environment
  kc_artifacts :: "typed_artifact list"
  kc_requirements :: "slot list"
  kc_retained :: "(string \<times> string) list"
  kc_secrets :: "secret_delivery list"
  kc_surfaces :: "json list"
  kc_sockets :: json
  kc_ports :: "provider_port list"

text \<open>The configuration of a receiver: its declaration, workspace, runtime and node.\<close>

record receiver_configuration =
  rv_declaration :: json
  rv_workspace :: string
  rv_runtime :: string
  rv_node :: string

record product_document =
  pd_content :: json
  pd_key :: string
  pd_digest :: string
  pd_image :: string
  pd_contract :: contract

text \<open>The kinds of structural changes between graphs the code distinguishes.\<close>

datatype graph_change = ArtifactsModified string | OtherChange json

record connector_core =
  kk_resolve :: "plan_operation \<Rightarrow> control_graph \<Rightarrow> control_graph \<Rightarrow> management_path option"
  kk_compile :: "control_graph \<Rightarrow> control_graph \<Rightarrow> activity_plan option"
  kk_compile_image :: "control_graph \<Rightarrow> control_graph \<Rightarrow> activity_plan option"
  kk_compile_managed :: "control_graph \<Rightarrow> control_graph \<Rightarrow> activity_plan option"
  kk_diff :: "control_graph \<Rightarrow> control_graph \<Rightarrow> graph_change list option"
  kk_update_node :: "control_graph \<Rightarrow> graph_node \<Rightarrow> control_graph option"
  kk_slot :: "typed_artifact list \<Rightarrow> slot list \<Rightarrow> environment \<Rightarrow> json list \<Rightarrow> slot option"
  kk_artifact :: "typed_artifact list \<Rightarrow> environment \<Rightarrow> json list \<Rightarrow> typed_artifact option"
  kk_receiver :: "string \<Rightarrow> receiver_configuration option"
  kk_decode :: "json \<Rightarrow> product_document option"
  kk_whole_material :: "product_material \<Rightarrow> bool"
  kk_delivery_ok :: "secret_delivery \<Rightarrow> bool"
  kk_json_media :: string
  kk_read_only :: string
  kk_owner_read_only :: string
  kk_token_intent :: string
  kk_managed_declaration :: json
  kk_managed_surfaces :: "json list"
  kk_managed_sockets :: json
  kk_managed_environment :: environment

section \<open>The qualifier\<close>

datatype qualification = FRESH | RETAINED_CONTENT_UPDATE | RETAINED_IMAGE_INGRESS_UPDATE

text \<open>The product a qualifier is made for, as its identity and digest, its image and its profile.\<close>

record qualifier =
  qu_core :: connector_core
  qu_key :: string
  qu_digest :: string
  qu_image :: string
  qu_profile :: connector_profile

definition demand :: "bool \<Rightarrow> unit option" where
  "demand b = (if b then Some () else None)"

fun single :: "'a list \<Rightarrow> 'a option" where
  "single [x] = Some x"
| "single _ = None"

text \<open>A plan that creates the runtime, both nodes and the ingress, from a graph that has none of them.\<close>

definition created_by :: "activity_plan \<Rightarrow> string \<Rightarrow> string list \<Rightarrow> string \<Rightarrow> bool" where
  "created_by plan runtime nodes ingress \<longleftrightarrow>
     (let operations = map snd (ap_activities plan)
      in PlanStartRuntime runtime \<in> set operations \<and> list_all (\<lambda>n. PlanStartNode n \<in> set operations) nodes
         \<and> PlanAllocateIngress ingress \<in> set operations)"

definition fresh_path :: "control_graph \<Rightarrow> management_path \<Rightarrow> bool" where
  "fresh_path current path \<longleftrightarrow>
     map_of (cgr_nodes current) (gn_id (mp_gateway path)) = None
     \<and> map_of (cgr_nodes current) (gn_id (mp_connector path)) = None
     \<and> \<not> list_ex (\<lambda>i. pi_id i = pi_id (mp_ingress path)) (cgr_ingresses current)"

definition retained_path :: "control_graph \<Rightarrow> string \<Rightarrow> graph_runtime \<Rightarrow> management_path \<Rightarrow> bool" where
  "retained_path current runtime_id runtime path \<longleftrightarrow>
     map_of (cgr_runtimes current) runtime_id = Some runtime
     \<and> map_of (cgr_nodes current) (gn_id (mp_gateway path)) = Some (mp_gateway path)
     \<and> map_of (cgr_nodes current) (gn_id (mp_connector path)) = Some (mp_connector path)
     \<and> mp_ingress path \<in> set (cgr_ingresses current)"

text \<open>
  An update that changes the content of one JSON artifact, other than the one of its wrapper, of another
  node.  The digest of an artifact is computed from its content.
\<close>

definition artifact_map :: "typed_artifact list \<Rightarrow> (string \<times> typed_artifact) list" where
  "artifact_map as = rev (map (\<lambda>a. (ca_id a, a)) as)"

definition only_content_changed :: "connector_core \<Rightarrow> typed_artifact \<Rightarrow> typed_artifact \<Rightarrow> bool" where
  "only_content_changed core old new \<longleftrightarrow>
     ta_media old = kk_json_media core \<and> ca_content old \<noteq> ca_content new
     \<and> new\<lparr>ca_content := ca_content old, ca_digest := ca_digest old, ta_source := ta_source old\<rparr> = old"

definition changed_artifacts :: "typed_artifact list \<Rightarrow> typed_artifact list \<Rightarrow> string list" where
  "changed_artifacts before_artifacts after_artifacts =
     filter (\<lambda>k. map_of (artifact_map before_artifacts) k \<noteq> map_of (artifact_map after_artifacts) k)
       (remdups (map ca_id before_artifacts))"

definition content_change ::
  "connector_core \<Rightarrow> control_graph \<Rightarrow> control_graph \<Rightarrow> string \<Rightarrow> graph_node \<Rightarrow> graph_node \<Rightarrow> bool option" where
  "content_change core current desired runtime_id was will =
     (if gn_runtime will \<noteq> runtime_id then Some False
      else Option.bind (kk_update_node core desired (will\<lparr>gn_artifacts := gn_artifacts was\<rparr>)) (\<lambda>reverted.
     if reverted \<noteq> current then Some False
     else if set (map ca_id (gn_artifacts was)) \<noteq> set (map ca_id (gn_artifacts will)) then Some False
     else (case changed_artifacts (gn_artifacts was) (gn_artifacts will) of
         [key] \<Rightarrow>
           Option.bind (kk_artifact core (gn_artifacts was) (gn_public was @ gn_socket was) (gn_surfaces was)) (\<lambda>wrapper.
           if key = ca_id wrapper then Some False
           else (case (map_of (artifact_map (gn_artifacts was)) key, map_of (artifact_map (gn_artifacts will)) key) of
               (Some old, Some new) \<Rightarrow> Some (only_content_changed core old new)
             | _ \<Rightarrow> None))
       | _ \<Rightarrow> Some False)))"

definition retained_content_change ::
  "connector_core \<Rightarrow> control_graph \<Rightarrow> control_graph \<Rightarrow> string \<Rightarrow> string \<Rightarrow> string \<Rightarrow> bool option" where
  "retained_content_change core current desired runtime_id gateway connector =
     Option.bind (kk_diff core current desired) (\<lambda>changes. case changes of
         [ArtifactsModified node] \<Rightarrow>
           (case (map_of (cgr_nodes current) node, map_of (cgr_nodes desired) node) of
              (Some was, Some will) \<Rightarrow>
                if node = gateway \<or> node = connector then Some False
                else content_change core current desired runtime_id was will
            | _ \<Rightarrow> None)
       | _ \<Rightarrow> Some False)"

text \<open>The one node an image update replaces is another one of the same runtime.\<close>

definition replaced_elsewhere :: "activity_plan \<Rightarrow> control_graph \<Rightarrow> string \<Rightarrow> string \<Rightarrow> string \<Rightarrow> bool" where
  "replaced_elsewhere plan desired runtime_id gateway connector \<longleftrightarrow>
     (case single (List.map_filter (\<lambda>(_, op). case op of PlanReconcileNode n \<Rightarrow> Some n | _ \<Rightarrow> None) (ap_activities plan)) of
        None \<Rightarrow> False
      | Some n \<Rightarrow>
          (case map_of (cgr_nodes desired) n of
             None \<Rightarrow> False
           | Some affected \<Rightarrow> gn_runtime affected = runtime_id \<and> gn_id affected \<notin> {gateway, connector}))"

definition retained_mode ::
  "connector_core \<Rightarrow> activity_plan \<Rightarrow> control_graph \<Rightarrow> control_graph \<Rightarrow> string \<Rightarrow> management_path \<Rightarrow> qualification option" where
  "retained_mode core plan current desired runtime_id path =
     (let gateway = gn_id (mp_gateway path); connector = gn_id (mp_connector path)
      in Option.bind (kk_compile_image core current desired) (\<lambda>image_plan.
         if plan = image_plan \<and> ap_ready image_plan \<and> ap_activities image_plan \<noteq> []
         then (if replaced_elsewhere plan desired runtime_id gateway connector then Some RETAINED_IMAGE_INGRESS_UPDATE else None)
         else Option.bind (kk_compile_managed core current desired) (\<lambda>compiled.
              if plan \<noteq> compiled \<or> \<not> ap_ready compiled then None
              else Option.bind (retained_content_change core current desired runtime_id gateway connector) (\<lambda>changed.
                   if changed then Some RETAINED_CONTENT_UPDATE else None))))"

definition qualify_plan ::
  "qualifier \<Rightarrow> string \<Rightarrow> activity_plan \<Rightarrow> control_graph \<Rightarrow> control_graph \<Rightarrow> string
    \<Rightarrow> (qualification \<times> management_path) option" where
  "qualify_plan qu activity plan current desired authority =
     (case map_of (ap_activities plan) activity of
        Some (PlanObserveBootstrap stage side runtime_id rest) \<Rightarrow>
          (let op = PlanObserveBootstrap stage side runtime_id rest
           in if stage \<noteq> CONNECTOR_CONNECTED \<or> side \<noteq> DESIRED_GRAPH then None
              else Option.bind (kk_resolve (qu_core qu) op current desired) (\<lambda>path.
                   case map_of (cgr_runtimes (mp_graph path)) runtime_id of
                     None \<Rightarrow> None
                   | Some runtime \<Rightarrow>
                       if \<not> gr_docker runtime \<or> gr_authority runtime \<noteq> Some authority then None
                       else if map_of (cgr_runtimes current) runtime_id = None
                       then Option.bind (kk_compile (qu_core qu) current desired) (\<lambda>compiled.
                            if plan = compiled \<and> ap_ready compiled \<and> fresh_path current path
                               \<and> created_by compiled runtime_id [gn_id (mp_gateway path), gn_id (mp_connector path)] (pi_id (mp_ingress path))
                            then Some (FRESH, path) else None)
                       else if \<not> retained_path current runtime_id runtime path then None
                       else map_option (\<lambda>mode. (mode, path)) (retained_mode (qu_core qu) plan current desired runtime_id path)))
      | _ \<Rightarrow> None)"

section \<open>Contracts\<close>

definition managed_requirement :: "connector_core \<Rightarrow> slot" where
  "managed_requirement core = (''cloudflared-control'', managed_configuration_path, kk_json_media core, kk_read_only core)"

definition managed_slot :: "connector_core \<Rightarrow> contract \<Rightarrow> graph_node \<Rightarrow> slot option" where
  "managed_slot core c node =
     Option.bind (demand (kc_public c = kk_managed_environment core \<and> gn_public node = kk_managed_environment core
         \<and> gn_socket node = [] \<and> gn_authorities node = [] \<and> kc_surfaces c = kk_managed_surfaces core
         \<and> gn_surfaces node = kk_managed_surfaces core \<and> kc_sockets c = kk_managed_sockets core
         \<and> gn_sockets node = kc_sockets c \<and> map (\<lambda>p. (pp_socket p, pp_port p)) (kc_ports c) = [(''control'', 8000)]
         \<and> length (kc_artifacts c) + length (kc_requirements c) = 1 \<and> length (gn_artifacts node) = 1)) (\<lambda>_.
     Option.bind (kk_slot core (kc_artifacts c) (kc_requirements c) (kc_public c) (kk_managed_surfaces core)) (\<lambda>declared.
     Option.bind (kk_slot core (gn_artifacts node) [] (gn_public node) (kk_managed_surfaces core)) (\<lambda>authored.
     Option.bind (demand (declared = managed_requirement core \<and> authored = declared
         \<and> (kc_artifacts c = [] \<or> kc_artifacts c = gn_artifacts node))) (\<lambda>_.
     Some authored))))"

text \<open>The configuration of the managed profile, of this node, and of the given workspace if any.\<close>

definition managed_configuration ::
  "connector_core \<Rightarrow> product_material \<Rightarrow> contract \<Rightarrow> graph_node \<Rightarrow> string option \<Rightarrow> typed_artifact option" where
  "managed_configuration core m c node workspace =
     Option.bind (managed_slot core c node) (\<lambda>_.
     Option.bind (demand (kc_requirements c = [] \<and> pm_public_environment m = kk_managed_environment core
         \<and> kc_artifacts c = gn_artifacts node)) (\<lambda>_.
     Option.bind (kk_artifact core (kc_artifacts c) (pm_public_environment m) (kc_surfaces c)) (\<lambda>artifact.
     Option.bind (kk_receiver core (ca_content artifact)) (\<lambda>rv.
     Option.bind (demand (rv_declaration rv = kk_managed_declaration core \<and> rv_runtime rv = pm_runtime m
         \<and> rv_node rv = pm_node m \<and> (\<forall>w. workspace = Some w \<longrightarrow> rv_workspace rv = w))) (\<lambda>_.
     Some artifact)))))"

definition token_slot :: "connector_core \<Rightarrow> secret_delivery \<Rightarrow> (string \<times> string \<times> string \<times> string) option" where
  "token_slot core d =
     (case d of
        SecretFileDelivery target reference intent mode (Some binding) \<Rightarrow>
          if intent = kk_token_intent core \<and> mode = kk_owner_read_only core \<and> binding = ''TUNNEL_TOKEN_FILE'' \<and> kk_delivery_ok core d
          then Some (target, intent, mode, binding) else None
      | _ \<Rightarrow> None)"

definition token_selections :: "product_material \<Rightarrow> secret_delivery \<Rightarrow> secret_selection list" where
  "token_selections m d =
     (case d of
        SecretFileDelivery target reference intent mode binding \<Rightarrow>
          filter (\<lambda>s. sel_reference s = reference \<and> sel_intent s = intent) (map fst (pm_selections m))
      | _ \<Rightarrow> [])"

definition product_metadata :: "graph_node \<Rightarrow> string \<Rightarrow> string \<Rightarrow> bool" where
  "product_metadata node key digest \<longleftrightarrow>
     map_of (gn_metadata node) ''product_identity'' = Some key
     \<and> map_of (gn_metadata node) ''product_descriptor_digest'' = Some digest"

definition qualify_material ::
  "qualifier \<Rightarrow> string \<Rightarrow> activity_plan \<Rightarrow> control_graph \<Rightarrow> control_graph \<Rightarrow> product_material \<Rightarrow> contract \<Rightarrow> string
    \<Rightarrow> (qualification \<times> management_path \<times> secret_delivery) option" where
  "qualify_material qu activity plan current desired m c authority =
     Option.bind (qualify_plan qu activity plan current desired authority) (\<lambda>(mode, path).
     let node = mp_connector path
     in Option.bind (demand (kk_whole_material (qu_core qu) m \<and> pm_node m = gn_id node \<and> pm_product_key m = qu_key qu
            \<and> pm_descriptor m = qu_digest qu \<and> pm_image_reference m = qu_image qu
            \<and> (case map_of (ap_activities plan) activity of Some (PlanObserveBootstrap _ _ runtime_id _) \<Rightarrow> pm_runtime m = runtime_id | _ \<Rightarrow> False)
            \<and> product_metadata node (pm_product_key m) (pm_descriptor m) \<and> pm_socket_environment m = []
            \<and> pm_authority_descriptors m = [] \<and> kc_retained c = [])) (\<lambda>_.
        Option.bind (if managed_profile (qu_profile qu) then map_option (\<lambda>_. ()) (managed_configuration (qu_core qu) m c node None)
                     else demand (pm_public_environment m = [] \<and> kc_public c = [] \<and> kc_artifacts c = [])) (\<lambda>_.
        Option.bind (single (kc_secrets c)) (\<lambda>delivery.
        Option.bind (token_slot (qu_core qu) delivery) (\<lambda>_.
        Option.bind (demand (length (token_selections m delivery) = 1)) (\<lambda>_.
        Some (mode, path, delivery)))))))"

text \<open>The public queries answer with the mode only.\<close>

definition qualify ::
  "qualifier \<Rightarrow> string \<Rightarrow> activity_plan \<Rightarrow> control_graph \<Rightarrow> control_graph \<Rightarrow> product_material \<Rightarrow> contract \<Rightarrow> string
    \<Rightarrow> qualification option" where
  "qualify qu activity plan current desired m c authority =
     map_option fst (qualify_material qu activity plan current desired m c authority)"

definition shape_secrets :: "connector_core \<Rightarrow> contract \<Rightarrow> graph_node \<Rightarrow> unit option" where
  "shape_secrets core c node =
     (if gn_secrets node = [] then demand (kc_secrets c = [])
      else Option.bind (single (gn_secrets node)) (\<lambda>delivery.
           Option.bind (token_slot core delivery) (\<lambda>slot.
           if kc_secrets c = [] then Some ()
           else Option.bind (single (kc_secrets c)) (\<lambda>declared.
                Option.bind (token_slot core declared) (\<lambda>slot'. demand (slot' = slot))))))"

definition qualify_shape ::
  "qualifier \<Rightarrow> string \<Rightarrow> activity_plan \<Rightarrow> control_graph \<Rightarrow> control_graph \<Rightarrow> product_document \<Rightarrow> string \<Rightarrow> qualification option" where
  "qualify_shape qu activity plan current desired doc authority =
     Option.bind (kk_decode (qu_core qu) (pd_content doc)) (\<lambda>decoded.
     Option.bind (demand (decoded = doc)) (\<lambda>_.
     Option.bind (qualify_plan qu activity plan current desired authority) (\<lambda>(mode, path).
     let node = mp_connector path; c = pd_contract decoded
     in Option.bind (demand (pd_key decoded = qu_key qu \<and> pd_digest decoded = qu_digest qu \<and> pd_image decoded = qu_image qu
            \<and> product_metadata node (pd_key decoded) (pd_digest decoded) \<and> gn_socket node = [] \<and> gn_authorities node = []
            \<and> kc_retained c = [])) (\<lambda>_.
        Option.bind (if managed_profile (qu_profile qu) then map_option (\<lambda>_. ()) (managed_slot (qu_core qu) c node)
                     else demand (gn_public node = [] \<and> gn_artifacts node = [] \<and> kc_public c = [] \<and> kc_artifacts c = [])) (\<lambda>_.
        Option.bind (demand (filter (\<lambda>i. pi_connector i = gn_id node) (cgr_ingresses (mp_graph path)) = [mp_ingress path])) (\<lambda>_.
        Option.bind (shape_secrets (qu_core qu) c node) (\<lambda>_. Some mode)))))))"

end
