(* ===== verification/Connector_Connection.thy ===== *)
theory Connector_Connection
  imports Connector_Qualification Computations
begin

text \<open>
  The observation of \<open>docker/connector_connection.py\<close>: whether the ingress connector of a management path
  is connected.  The container of the connector is read twice, with its image and its configuration
  in between; the latest sample of its health check counts only when it is fresh at every step and
  everything the container shows is what the request determines.
\<close>

section \<open>Time\<close>

text \<open>
  RFC 3339 times as nanoseconds since 1970, with the calendar of \<open>datetime\<close> (up to Python 3.13, which has
  no hour 24): \<open>None\<close> is the exception of a malformed or unrepresentable time.
\<close>

definition leap_year :: "int \<Rightarrow> bool" where
  "leap_year y \<longleftrightarrow> y mod 4 = 0 \<and> (y mod 100 \<noteq> 0 \<or> y mod 400 = 0)"

definition month_days :: "int \<Rightarrow> nat \<Rightarrow> int" where
  "month_days y m = (if m = 2 then (if leap_year y then 29 else 28) else if m \<in> {4, 6, 9, 11} then 30 else 31)"

definition epoch_days :: "int \<Rightarrow> nat \<Rightarrow> int \<Rightarrow> int" where
  "epoch_days y m d =
     (y - 1) * 365 + (y - 1) div 4 - (y - 1) div 100 + (y - 1) div 400
     + sum_list (map (month_days y) [1..<m]) + (d - 1) - 719162"

definition number_at :: "nat \<Rightarrow> nat \<Rightarrow> string \<Rightarrow> int" where
  "number_at i n s = int (foldl (\<lambda>acc c. 10 * acc + (code_of c - 48)) 0 (take n (drop i s)))"

definition digits_at :: "nat list \<Rightarrow> string \<Rightarrow> bool" where
  "digits_at is s \<longleftrightarrow> list_all (\<lambda>i. i < length s \<and> is_digit (s ! i)) is"

definition marks_at :: "(nat \<times> char) list \<Rightarrow> string \<Rightarrow> bool" where
  "marks_at ms s \<longleftrightarrow> list_all (\<lambda>(i, c). i < length s \<and> s ! i = c) ms"

definition stamp_whole :: "string \<Rightarrow> bool" where
  "stamp_whole s \<longleftrightarrow>
     length s = 19 \<and> digits_at [0, 1, 2, 3, 5, 6, 8, 9, 11, 12, 14, 15, 17, 18] s
     \<and> marks_at [(4, CHR ''-''), (7, CHR ''-''), (10, CHR ''T''), (13, CHR '':''), (16, CHR '':'')] s"

definition stamp_zone :: "string \<Rightarrow> bool" where
  "stamp_zone s \<longleftrightarrow>
     s = ''Z''
     \<or> (length s = 6 \<and> (hd s = CHR ''+'' \<or> hd s = CHR ''-'') \<and> digits_at [1, 2, 4, 5] s \<and> marks_at [(3, CHR '':'')] s)"

definition split_fraction :: "string \<Rightarrow> (string \<times> string) option" where
  "split_fraction s =
     (case s of
        CHR ''.'' # rest \<Rightarrow>
          let fraction = takeWhile is_digit rest
          in if 1 \<le> length fraction \<and> length fraction \<le> 9 then Some (fraction, dropWhile is_digit rest) else None
      | _ \<Rightarrow> Some ([], s))"

definition zone_seconds :: "string \<Rightarrow> int option" where
  "zone_seconds zone =
     (if zone = ''Z'' then Some 0
      else if 23 < number_at 1 2 zone \<or> 59 < number_at 4 2 zone then None
      else Some ((if hd zone = CHR ''-'' then -1 else 1) * (number_at 1 2 zone * 3600 + number_at 4 2 zone * 60)))"

definition whole_seconds :: "string \<Rightarrow> int option" where
  "whole_seconds whole =
     (let y = number_at 0 4 whole; m = nat (number_at 5 2 whole); d = number_at 8 2 whole;
          h = number_at 11 2 whole; mi = number_at 14 2 whole; s = number_at 17 2 whole
      in if 1 \<le> y \<and> 1 \<le> m \<and> m \<le> 12 \<and> 1 \<le> d \<and> d \<le> month_days y m \<and> h \<le> 23 \<and> mi \<le> 59 \<and> s \<le> 59
         then Some (epoch_days y m d * 86400 + h * 3600 + mi * 60 + s) else None)"

definition fraction_ns :: "string \<Rightarrow> int" where
  "fraction_ns fraction = number_at 0 9 (fraction @ replicate (9 - length fraction) CHR ''0'')"

definition timestamp_ns :: "string \<Rightarrow> int option" where
  "timestamp_ns s =
     (case split_fraction (drop 19 s) of
        None \<Rightarrow> None
      | Some (fraction, zone) \<Rightarrow>
          if \<not> stamp_whole (take 19 s) \<or> \<not> stamp_zone zone then None
          else Option.bind (zone_seconds zone) (\<lambda>offset.
               Option.bind (whole_seconds (take 19 s)) (\<lambda>local_seconds.
               let seconds = local_seconds - offset
               in if epoch_days 1 1 1 * 86400 \<le> seconds \<and> seconds < epoch_days 10000 1 1 * 86400
                  then Some (seconds * 1000000000 + fraction_ns fraction) else None)))"

text \<open>The clock of the caller shows microseconds since 1970, or \<open>None\<close> for a value that is no aware \<open>datetime\<close>.\<close>

definition clock_ns :: "int option \<Rightarrow> int option" where
  "clock_ns reading = map_option (\<lambda>us. us * 1000) reading"

definition fresh_sample :: "connector_inspection \<Rightarrow> int option \<Rightarrow> bool" where
  "fresh_sample x reading \<longleftrightarrow>
     (case (timestamp_ns (cn_started x), timestamp_ns (cs_start (cn_sample x)), timestamp_ns (cs_end (cn_sample x)), clock_ns reading) of
        (Some started, Some begins, Some ends, Some now) \<Rightarrow>
          started \<le> begins \<and> begins \<le> ends \<and> ends \<le> now \<and> now - ends \<le> 10000000000
      | _ \<Rightarrow> False)"

section \<open>Samples\<close>

datatype connection_outcome = CONNECTED | DISCONNECTED | CONNECTION_UNKNOWN | CONNECTION_REFUSED

definition connection_outcome_of :: "json \<Rightarrow> connection_outcome option" where
  "connection_outcome_of j =
     (if j = JStr ''connected'' then Some CONNECTED else if j = JStr ''disconnected'' then Some DISCONNECTED
      else if j = JStr ''unknown'' then Some CONNECTION_UNKNOWN else if j = JStr ''refused'' then Some CONNECTION_REFUSED
      else None)"

text \<open>A UUID in its own spelling, not all zero.\<close>

definition canonical_uuid :: "string \<Rightarrow> bool" where
  "canonical_uuid s \<longleftrightarrow>
     length s = 36 \<and> marks_at [(8, CHR ''-''), (13, CHR ''-''), (18, CHR ''-''), (23, CHR ''-'')] s
     \<and> list_all (\<lambda>i. i \<in> {8, 13, 18, 23} \<or> lower_hex (s ! i)) [0..<36]
     \<and> list_ex (\<lambda>c. c \<noteq> CHR ''0'' \<and> c \<noteq> CHR ''-'') s"

definition unknown_reasons :: "string list" where
  "unknown_reasons = [''invalid_response'', ''invalid_http'', ''response_too_large'', ''timeout'', ''transport_unavailable'',
     ''invalid_invocation'']"

text \<open>\<open>loads\<close> is \<open>json.loads\<close> with every pair of an object kept; the hook of the code refuses repeated keys.\<close>

definition decode_value :: "json \<Rightarrow> int \<Rightarrow> (connection_outcome \<times> int option \<times> string option) option" where
  "decode_value v code =
     (if \<not> is_mapping v \<or> json_get v ''schema'' \<noteq> JStr ''cpk.cloudflared.connection/v1'' then None
      else Option.bind (connection_outcome_of (json_get v ''outcome'')) (\<lambda>outcome.
        if outcome = CONNECTION_UNKNOWN
        then (if json_keys v = {''schema'', ''outcome'', ''reason''} \<and> code = 1
                 \<and> json_get v ''reason'' \<in> JStr ` set unknown_reasons
              then Some (outcome, None, None) else None)
        else if json_keys v \<noteq> {''schema'', ''outcome'', ''readyConnections'', ''connectorId''} then None
        else (case (json_get v ''readyConnections'', json_get v ''connectorId'') of
            (JInt count, JStr identity) \<Rightarrow>
              if \<not> (0 \<le> count \<and> count < 2 ^ 64) \<or> \<not> canonical_uuid identity then None
              else if (outcome = CONNECTED \<and> 0 < count \<and> code = 0) \<or> (outcome = DISCONNECTED \<and> count = 0 \<and> code = 1)
              then Some (outcome, Some count, Some identity) else None
          | _ \<Rightarrow> None)))"

definition decode_sample ::
  "(string \<Rightarrow> json option) \<Rightarrow> connector_sample \<Rightarrow> (connection_outcome \<times> int option \<times> string option) option" where
  "decode_sample loads sample =
     Option.bind (loads (cs_output sample)) (\<lambda>v. if unique_keys v then decode_value v (cs_exit sample) else None)"

section \<open>Requests\<close>

datatype connection_diagnostic =
    INITIAL_EVIDENCE_UNAVAILABLE | CONTAINER_STATE_INELIGIBLE | SAMPLE_MISSING | BINDING_MISMATCH | FRESHNESS_REJECTED
  | IMAGE_EVIDENCE_UNAVAILABLE | IMAGE_OR_MOUNT_MISMATCH | CONFIGURATION_EVIDENCE_REJECTED | FINAL_EVIDENCE_UNAVAILABLE
  | SNAPSHOT_CHANGED | SAMPLE_INVALID

record connector_observation =
  oc_outcome :: connection_outcome
  oc_effect :: "string option"
  oc_activity :: "string option"
  oc_container :: "string option"
  oc_start :: "string option"
  oc_end :: "string option"
  oc_ready :: "int option"
  oc_connector :: "string option"
  oc_diagnostic :: "connection_diagnostic option"

text \<open>A request with its activity, its operation, its authority and the contract of its product.\<close>

record connector_request =
  cq_request :: runtime_request
  cq_activity :: string
  cq_operation :: plan_operation
  cq_authority :: string
  cq_contract :: contract

record installation_receipt =
  ir_request :: string
  ir_selection :: string
  ir_realization :: string

record installation_context =
  ic_workspace :: string
  ic_runtime :: string
  ic_node :: string
  ic_selected :: bool
  ic_fingerprint :: string

text \<open>
  The observer.  \<open>oz_request_ok\<close> and \<open>oz_receipt_ok\<close> are checks of the core's constructors, \<open>oz_context\<close> and
  \<open>oz_selection\<close> its correlation of an installation and fingerprint of a selection, and \<open>oz_instance\<close> the path,
  media type and mode of a configuration reference.  \<open>oz_timeout\<close> acquires the client and reads the
  timeout of its connection (\<open>None\<close> when it is no finite number); \<open>oz_mount\<close> is the client's
  \<open>inspect_configuration_mount\<close>.
\<close>

record 'w connector_observer =
  oz_qualifier :: qualifier
  oz_request_ok :: "connector_request \<Rightarrow> bool"
  oz_receipt_ok :: "installation_receipt \<Rightarrow> bool"
  oz_context :: "runtime_request \<Rightarrow> installation_context option"
  oz_selection :: "configuration_reference list \<Rightarrow> string"
  oz_instance :: "configuration_reference \<Rightarrow> string \<times> string \<times> string"
  oz_timeout :: "('w, dk_exn, rat option) port"
  oz_container :: "string \<Rightarrow> ('w, dk_exn, json) port"
  oz_image :: "string \<Rightarrow> ('w, dk_exn, json) port"
  oz_mount :: "string \<Rightarrow> configuration_artifact \<Rightarrow> string \<Rightarrow> ('w, dk_exn, configuration_mount option) port"
  oz_clock :: "('w, dk_exn, int option) port"
  oz_image_ok :: "string \<Rightarrow> string \<Rightarrow> string \<Rightarrow> bool"
  oz_loads :: "string \<Rightarrow> json option"

definition oz_profile :: "'w connector_observer \<Rightarrow> connector_profile" where
  "oz_profile oz = qu_profile (oz_qualifier oz)"

text \<open>What a request determines of its connector.\<close>

record connector_expectation =
  xp_name :: string
  xp_labels :: labels
  xp_network :: string
  xp_origin :: runtime_request
  xp_material :: product_material
  xp_delivery :: secret_delivery
  xp_incarnation :: "string option"
  xp_artifact :: "typed_artifact option"
  xp_volume :: "string option"
  xp_selection :: "string option"

definition installation_origin ::
  "'w connector_observer \<Rightarrow> runtime_request \<Rightarrow> product_material \<Rightarrow> runtime_request option \<Rightarrow> installation_receipt option
    \<Rightarrow> (runtime_request \<times> string) option" where
  "installation_origin oz rq m original receipt =
     (case (original, receipt) of
        (Some origin, Some ir) \<Rightarrow>
          if \<not> rr_docker origin \<or> rr_grants origin \<noteq> [] \<or> rr_deliveries origin \<noteq> [] then None
          else Option.bind (oz_context oz origin) (\<lambda>ic.
            if oz_receipt_ok oz ir \<and> rr_products origin = rr_products rq \<and> ic_workspace ic = rr_workspace rq
               \<and> ic_runtime ic = pm_runtime m \<and> ic_node ic = pm_node m \<and> ic_selected ic
               \<and> ir_request ir = ic_fingerprint ic \<and> ir_selection ir = rr_secret_selection origin
            then Some (origin, ir_realization ir) else None)
      | _ \<Rightarrow> None)"

definition installed_reference ::
  "'w connector_observer \<Rightarrow> runtime_request \<Rightarrow> product_material \<Rightarrow> runtime_request \<Rightarrow> typed_artifact \<Rightarrow> configuration_reference option" where
  "installed_reference oz rq m origin a =
     (if rr_kind origin \<noteq> CONFIGURATION_ACTIVITY_V1 then None
      else Option.bind (single (rr_instances origin)) (\<lambda>ki.
        if ki_workspace ki = rr_workspace rq \<and> ki_runtime ki = pm_runtime m \<and> ki_node ki = pm_node m \<and> ki_artifact ki = ca_id a
           \<and> oz_instance oz ki = (ca_target a, ta_media a, ca_mode a) \<and> ki_digest ki = ca_digest a
        then Some ki else None))"

text \<open>The configuration of the managed profile; that of a retained connector is the one its installation selected.\<close>

definition expected_configuration ::
  "'w connector_observer \<Rightarrow> connector_request \<Rightarrow> product_material \<Rightarrow> qualification \<Rightarrow> graph_node \<Rightarrow> runtime_request
    \<Rightarrow> (typed_artifact option \<times> string option \<times> string option) option" where
  "expected_configuration oz cq m mode node origin =
     (if \<not> managed_profile (oz_profile oz) then Some (None, None, None)
      else Option.bind (managed_configuration (qu_core (oz_qualifier oz)) m (cq_contract cq) node (Some (rr_workspace (cq_request cq)))) (\<lambda>a.
        if mode = FRESH then Some (Some a, None, None)
        else Option.bind (installed_reference oz (cq_request cq) m origin a) (\<lambda>ki.
             Some (Some a, Some (configuration_volume_name ki), Some (oz_selection oz (rr_instances origin))))))"

definition expected_connector ::
  "'w connector_observer \<Rightarrow> connector_request \<Rightarrow> activity_plan \<Rightarrow> control_graph \<Rightarrow> control_graph \<Rightarrow> runtime_request option
    \<Rightarrow> installation_receipt option \<Rightarrow> connector_expectation option" where
  "expected_connector oz cq plan current desired original receipt =
     (let rq = cq_request cq
      in Option.bind (demand (oz_request_ok oz cq \<and> rr_docker rq \<and> rr_deliveries rq = []
            \<and> map_of (ap_activities plan) (cq_activity cq) = Some (cq_operation cq))) (\<lambda>_.
         Option.bind (single (rr_products rq)) (\<lambda>m.
         Option.bind (qualify_material (oz_qualifier oz) (cq_activity cq) plan current desired m (cq_contract cq) (cq_authority cq))
           (\<lambda>(mode, path, delivery).
         Option.bind (if mode = FRESH then (if original = None \<and> receipt = None then Some (rq, None) else None)
                      else map_option (\<lambda>(origin, incarnation). (origin, Some incarnation)) (installation_origin oz rq m original receipt))
           (\<lambda>(origin, incarnation).
         Option.bind (expected_configuration oz cq m mode (mp_connector path) origin) (\<lambda>(artifact, volume, selection).
         Some \<lparr>xp_name = container_name origin (gn_id (mp_connector path)),
               xp_labels = correlation_labels False False (node_labels origin m), xp_network = network_name origin (pm_runtime m),
               xp_origin = origin, xp_material = m, xp_delivery = delivery, xp_incarnation = incarnation,
               xp_artifact = artifact, xp_volume = volume, xp_selection = selection\<rparr>))))))"

section \<open>Calls\<close>

datatype connector_exn =
    EvidenceRejected connector_reason
  | EvidenceError
  | Mismatch
  | ConnectorRaised dk_exn

datatype connector_event =
    ClientAcquired "connector_exn + rat option"
  | ConnectorRead string "connector_exn + json"
  | ConnectorImageRead string "connector_exn + json"
  | ConnectorMountRead string string "connector_exn + configuration_mount option"
  | ConnectorClock "connector_exn + int option"

type_synonym ('w, 'a) connector_eff = "((connector_event, 'w) st, connector_exn, 'a) eff"

definition cx_port :: "('w, dk_exn, 'a) port \<Rightarrow> ('w, connector_exn, 'a) port" where
  "cx_port p w = (case p w of (r, w') \<Rightarrow> (map_sum ConnectorRaised id r, w'))"

definition connector_ordinary :: "connector_exn \<Rightarrow> bool" where
  "connector_ordinary e = (case e of ConnectorRaised d \<Rightarrow> dk_is_exception d | _ \<Rightarrow> True)"

fun fault_exn :: "connector_fault \<Rightarrow> connector_exn" where
  "fault_exn (Rejection reason) = EvidenceRejected reason"
| "fault_exn Unacceptable = EvidenceError"

definition connector_api :: "'w connector_observer \<Rightarrow> ('w, unit) connector_eff" where
  "connector_api oz =
     bindE (callE ClientAcquired (cx_port (oz_timeout oz))) (\<lambda>timeout.
     requireE (case timeout of None \<Rightarrow> False | Some t \<Rightarrow> 0 < t \<and> t \<le> 60) EvidenceError)"

text \<open>\<open>inspect_connector_container\<close> and \<open>inspect_connector_image\<close>: any failure but a rejection is one closed error.\<close>

definition closed_evidence :: "('w, 'a) connector_eff \<Rightarrow> ('w, 'a) connector_eff" where
  "closed_evidence m =
     attemptE m (\<lambda>e. case e of
         EvidenceRejected reason \<Rightarrow> raiseE e
       | _ \<Rightarrow> raiseE (if connector_ordinary e then EvidenceError else e)) returnE"

definition inspect_connector_container :: "'w connector_observer \<Rightarrow> string \<Rightarrow> ('w, connector_inspection) connector_eff" where
  "inspect_connector_container oz ident =
     closed_evidence (bindE (connector_api oz) (\<lambda>_.
       bindE (callE (ConnectorRead ident) (cx_port (oz_container oz ident))) (\<lambda>raw.
       liftE (map_sum fault_exn id (connector_container (oz_profile oz) raw)))))"

definition inspect_connector_image :: "'w connector_observer \<Rightarrow> string \<Rightarrow> string \<Rightarrow> ('w, connector_image) connector_eff" where
  "inspect_connector_image oz reference token_path =
     closed_evidence (bindE (connector_api oz) (\<lambda>_.
       bindE (callE (ConnectorImageRead reference) (cx_port (oz_image oz reference))) (\<lambda>raw.
       liftE (map_sum (\<lambda>_. EvidenceError) id (connector_image_of (oz_image_ok oz) (oz_profile oz) reference token_path raw)))))"

definition require_fresh :: "'w connector_observer \<Rightarrow> connector_inspection \<Rightarrow> ('w, unit) connector_eff" where
  "require_fresh oz x =
     bindE (callE ConnectorClock (cx_port (oz_clock oz))) (\<lambda>reading. requireE (fresh_sample x reading) EvidenceError)"

section \<open>The observation\<close>

text \<open>\<open>at_stage d m\<close> runs \<open>m\<close> while the diagnostic of a failure is \<open>d\<close>.\<close>

type_synonym ('w, 'a) staged_eff = "((connector_event, 'w) st, connection_diagnostic \<times> connector_exn, 'a) eff"

definition at_stage :: "connection_diagnostic \<Rightarrow> ('w, 'a) connector_eff \<Rightarrow> ('w, 'a) staged_eff" where
  "at_stage d m = via id (\<lambda>e. (d, e)) m"

definition demanded :: "connection_diagnostic \<Rightarrow> bool \<Rightarrow> ('w, unit) staged_eff" where
  "demanded d b = requireE b (d, Mismatch)"

definition connector_selection_label :: string where
  "connector_selection_label = ''org.openj92.cpk.configuration.selection''"

definition observed_labels :: "connector_inspection \<Rightarrow> labels" where
  "observed_labels x = correlation_labels False False (cn_labels x)"

definition selection_shown :: "connector_expectation \<Rightarrow> connector_inspection \<Rightarrow> bool" where
  "selection_shown xp x \<longleftrightarrow>
     (xp_artifact xp \<noteq> None \<longrightarrow> (case map_of (observed_labels x) connector_selection_label of None \<Rightarrow> False | Some s \<Rightarrow> hex64 s))"

definition required_labels :: "connector_expectation \<Rightarrow> connector_inspection \<Rightarrow> labels" where
  "required_labels xp x =
     (if xp_artifact xp = None then xp_labels xp
      else (connector_selection_label, case xp_selection xp of Some s \<Rightarrow> s | None \<Rightarrow> the (map_of (observed_labels x) connector_selection_label)) # xp_labels xp)"

definition bound_to :: "connector_expectation \<Rightarrow> connector_inspection \<Rightarrow> bool" where
  "bound_to xp x \<longleftrightarrow>
     selection_shown xp x \<and> cn_name x = CHR ''/'' # xp_name xp \<and> cn_network x = xp_network xp
     \<and> same_labels (observed_labels x) (required_labels xp x)
     \<and> (\<forall>i. xp_incarnation xp = Some i \<longrightarrow> incarnation_fingerprint (Some (cn_container x)) = Inr i)"

definition delivery_target :: "secret_delivery \<Rightarrow> string" where
  "delivery_target d = (case d of SecretFileDelivery target _ _ _ _ \<Rightarrow> target | _ \<Rightarrow> [])"

definition delivered_file :: "product_material \<Rightarrow> secret_delivery \<Rightarrow> secret_material option" where
  "delivered_file m d =
     (case (d, token_selections m d) of
        (SecretFileDelivery target reference intent mode binding, [s]) \<Rightarrow>
          Some \<lparr>fm_reference = reference, fm_target = target, fm_value = [], fm_mode = mode, fm_path_name = binding, fm_selection = Some s\<rparr>
      | _ \<Rightarrow> None)"

definition expected_secret :: "connector_expectation \<Rightarrow> nat \<Rightarrow> secret_mount option" where
  "expected_secret xp uid =
     Option.bind (single (rr_products (xp_origin xp))) (\<lambda>m.
     map_option (\<lambda>f. \<lparr>sm_target = delivery_target (xp_delivery xp), sm_volume = secret_volume_name (xp_origin xp) m f uid\<rparr>)
       (delivered_file m (xp_delivery xp)))"

definition image_agrees :: "connector_expectation \<Rightarrow> connector_inspection \<Rightarrow> connector_image \<Rightarrow> bool" where
  "image_agrees xp x img \<longleftrightarrow>
     cn_image x = cg_image img \<and> cn_launch x = cg_launch img \<and> expected_secret xp (cg_owner img) = Some (cn_secret x)"

definition mount_agrees :: "connector_inspection \<Rightarrow> secret_mount \<Rightarrow> typed_artifact \<Rightarrow> configuration_mount \<Rightarrow> bool" where
  "mount_agrees x selected a mi \<longleftrightarrow>
     mi_container mi = cn_container x \<and> mi_volume mi = sm_volume selected \<and> mi_target mi = ca_target a
     \<and> mi_subpath mi = ''content'' \<and> mi_read_only mi"

definition observe_configuration ::
  "'w connector_observer \<Rightarrow> connector_expectation \<Rightarrow> connector_inspection \<Rightarrow> typed_artifact \<Rightarrow> ('w, unit) staged_eff" where
  "observe_configuration oz xp x a =
     (case cn_configuration x of
        None \<Rightarrow> raiseE (CONFIGURATION_EVIDENCE_REJECTED, Mismatch)
      | Some selected \<Rightarrow>
          bindE (demanded CONFIGURATION_EVIDENCE_REJECTED (sm_target selected = ca_target a
              \<and> (\<forall>v. xp_volume xp = Some v \<longrightarrow> sm_volume selected = v))) (\<lambda>_.
          bindE (at_stage CONFIGURATION_EVIDENCE_REJECTED (callE (ConnectorMountRead (cn_container x) (sm_volume selected))
              (cx_port (oz_mount oz (cn_container x) (configuration_artifact.truncate a) (sm_volume selected))))) (\<lambda>content.
          bindE (at_stage FRESHNESS_REJECTED (require_fresh oz x)) (\<lambda>_.
          case content of
            None \<Rightarrow> raiseE (CONFIGURATION_EVIDENCE_REJECTED, Mismatch)
          | Some mi \<Rightarrow>
              bindE (demanded CONFIGURATION_EVIDENCE_REJECTED (mount_agrees x selected a mi)) (\<lambda>_.
              at_stage CONFIGURATION_EVIDENCE_REJECTED
                (liftE (map_sum ConnectorRaised id (require_configuration_file (Some (mi_file mi)) (configuration_artifact.truncate a)))))))))"

definition observed_connection ::
  "'w connector_observer \<Rightarrow> connector_expectation \<Rightarrow> ('w, connector_inspection \<times> connection_outcome \<times> int option \<times> string option) staged_eff" where
  "observed_connection oz xp =
     bindE (at_stage INITIAL_EVIDENCE_UNAVAILABLE (inspect_connector_container oz (xp_name xp))) (\<lambda>x.
     bindE (demanded BINDING_MISMATCH (bound_to xp x)) (\<lambda>_.
     bindE (at_stage FRESHNESS_REJECTED (require_fresh oz x)) (\<lambda>_.
     bindE (at_stage IMAGE_EVIDENCE_UNAVAILABLE
         (inspect_connector_image oz (qu_image (oz_qualifier oz)) (delivery_target (xp_delivery xp)))) (\<lambda>img.
     bindE (demanded IMAGE_OR_MOUNT_MISMATCH (expected_secret xp (cg_owner img) \<noteq> None)) (\<lambda>_.
     bindE (at_stage FRESHNESS_REJECTED (require_fresh oz x)) (\<lambda>_.
     bindE (demanded IMAGE_OR_MOUNT_MISMATCH (image_agrees xp x img)) (\<lambda>_.
     bindE (case xp_artifact xp of None \<Rightarrow> returnE () | Some a \<Rightarrow> observe_configuration oz xp x a) (\<lambda>_.
     bindE (at_stage FINAL_EVIDENCE_UNAVAILABLE (inspect_connector_container oz (cn_container x))) (\<lambda>final.
     bindE (at_stage FRESHNESS_REJECTED (require_fresh oz final)) (\<lambda>_.
     bindE (demanded SNAPSHOT_CHANGED (final = x)) (\<lambda>_.
     bindE (case decode_sample (oz_loads oz) (cn_sample final) of
         None \<Rightarrow> raiseE (SAMPLE_INVALID, EvidenceError)
       | Some seen \<Rightarrow> returnE seen) (\<lambda>(outcome, count, identity).
     bindE (at_stage FRESHNESS_REJECTED (require_fresh oz final)) (\<lambda>_.
     returnE (final, outcome, count, identity))))))))))))))"

definition refused_connection :: connector_observation where
  "refused_connection = \<lparr>oc_outcome = CONNECTION_REFUSED, oc_effect = None, oc_activity = None, oc_container = None, oc_start = None,
     oc_end = None, oc_ready = None, oc_connector = None, oc_diagnostic = None\<rparr>"

definition unknown_connection :: "connector_request \<Rightarrow> connection_diagnostic \<Rightarrow> connector_observation" where
  "unknown_connection cq d =
     refused_connection\<lparr>oc_outcome := CONNECTION_UNKNOWN, oc_effect := Some (rr_effect (cq_request cq)), oc_activity := Some (cq_activity cq),
       oc_diagnostic := Some d\<rparr>"

definition seen_connection ::
  "connector_request \<Rightarrow> connector_inspection \<Rightarrow> connection_outcome \<Rightarrow> int option \<Rightarrow> string option \<Rightarrow> connector_observation" where
  "seen_connection cq x outcome count identity =
     \<lparr>oc_outcome = outcome, oc_effect = Some (rr_effect (cq_request cq)), oc_activity = Some (cq_activity cq),
      oc_container = Some (cn_container x), oc_start = Some (cs_start (cn_sample x)), oc_end = Some (cs_end (cn_sample x)),
      oc_ready = count, oc_connector = identity, oc_diagnostic = None\<rparr>"

fun reason_diagnostic :: "connector_reason \<Rightarrow> connection_diagnostic" where
  "reason_diagnostic STATE_INELIGIBLE = CONTAINER_STATE_INELIGIBLE"
| "reason_diagnostic EVIDENCE_SAMPLE_MISSING = SAMPLE_MISSING"
| "reason_diagnostic EVIDENCE_SAMPLE_INVALID = SAMPLE_INVALID"

definition diagnostic_of :: "connection_diagnostic \<Rightarrow> connector_exn \<Rightarrow> connection_diagnostic" where
  "diagnostic_of d e =
     (case e of
        EvidenceRejected reason \<Rightarrow> if d = INITIAL_EVIDENCE_UNAVAILABLE then reason_diagnostic reason else d
      | _ \<Rightarrow> d)"

definition observe_connection ::
  "'w connector_observer \<Rightarrow> connector_request \<Rightarrow> activity_plan \<Rightarrow> control_graph \<Rightarrow> control_graph \<Rightarrow> runtime_request option
    \<Rightarrow> installation_receipt option \<Rightarrow> ('w, connector_observation) connector_eff" where
  "observe_connection oz cq plan current desired original receipt =
     (case expected_connector oz cq plan current desired original receipt of
        None \<Rightarrow> returnE refused_connection
      | Some xp \<Rightarrow>
          attemptE (observed_connection oz xp)
            (\<lambda>(d, e). if connector_ordinary e then returnE (unknown_connection cq (diagnostic_of d e)) else raiseE e)
            (\<lambda>(x, outcome, count, identity). returnE (seen_connection cq x outcome count identity)))"

end
