(* ===== verification/Connector_Connection_Props.thy ===== *)
theory Connector_Connection_Props
  imports Connector_Connection Docker_Names Docker_Sdk_Props
begin

text \<open>
  A connector is reported connected or disconnected only when its container, read twice with the same
  content, is the one the request determines, and its sample was fresh at every step; every other end
  is an observation without evidence.
\<close>

section \<open>What the reads show\<close>

definition container_read :: "'w connector_observer \<Rightarrow> string \<Rightarrow> connector_inspection \<Rightarrow> connector_event list \<Rightarrow> bool" where
  "container_read oz ident x evs \<longleftrightarrow>
     (\<exists>raw. ConnectorRead ident (Inr raw) \<in> set evs \<and> connector_container (oz_profile oz) raw = Inr x)"

definition image_read :: "'w connector_observer \<Rightarrow> string \<Rightarrow> connector_image \<Rightarrow> connector_event list \<Rightarrow> bool" where
  "image_read oz token_path img evs \<longleftrightarrow>
     (\<exists>raw. ConnectorImageRead (qu_image (oz_qualifier oz)) (Inr raw) \<in> set evs
        \<and> connector_image_of (oz_image_ok oz) (oz_profile oz) (qu_image (oz_qualifier oz)) token_path raw = Inr img)"

text \<open>The sample is at most ten seconds old and lies within the life of the container.\<close>

definition timely :: "connector_inspection \<Rightarrow> int option \<Rightarrow> bool" where
  "timely x reading \<longleftrightarrow>
     (\<exists>us started begins ends. reading = Some us \<and> timestamp_ns (cn_started x) = Some started
        \<and> timestamp_ns (cs_start (cn_sample x)) = Some begins \<and> timestamp_ns (cs_end (cn_sample x)) = Some ends
        \<and> started \<le> begins \<and> begins \<le> ends \<and> ends \<le> us * 1000 \<and> us * 1000 - ends \<le> 10 * 1000000000)"

definition clocked :: "connector_inspection \<Rightarrow> connector_event list \<Rightarrow> bool" where
  "clocked x evs \<longleftrightarrow> (\<forall>r. ConnectorClock r \<in> set evs \<longrightarrow> (\<exists>reading. r = Inr reading \<and> timely x reading))"

definition configuration_read :: "connector_expectation \<Rightarrow> connector_inspection \<Rightarrow> typed_artifact \<Rightarrow> connector_event list \<Rightarrow> bool" where
  "configuration_read xp x a evs \<longleftrightarrow>
     (\<exists>selected mi. cn_configuration x = Some selected \<and> sm_target selected = ca_target a
        \<and> (\<forall>v. xp_volume xp = Some v \<longrightarrow> sm_volume selected = v)
        \<and> ConnectorMountRead (cn_container x) (sm_volume selected) (Inr (Some mi)) \<in> set evs
        \<and> mi_container mi = cn_container x \<and> mi_volume mi = sm_volume selected \<and> mi_target mi = ca_target a \<and> mi_read_only mi
        \<and> cf_regular (mi_file mi) \<and> cf_digest (mi_file mi) = ca_digest a)"

definition connection_shown ::
  "'w connector_observer \<Rightarrow> connector_expectation \<Rightarrow> connector_inspection \<Rightarrow> connector_event list \<Rightarrow> bool" where
  "connection_shown oz xp x evs \<longleftrightarrow>
     container_read oz (xp_name xp) x evs \<and> container_read oz (cn_container x) x evs
     \<and> cn_name x = ''/'' @ xp_name xp \<and> cn_network x = xp_network xp
     \<and> same_labels (observed_labels x) (required_labels xp x)
     \<and> (\<forall>i. xp_incarnation xp = Some i \<longrightarrow> incarnation_fingerprint (Some (cn_container x)) = Inr i)
     \<and> (\<exists>img. image_read oz (delivery_target (xp_delivery xp)) img evs \<and> cn_image x = cg_image img \<and> cn_launch x = cg_launch img
          \<and> expected_secret xp (cg_owner img) = Some (cn_secret x))
     \<and> (\<forall>a. xp_artifact xp = Some a \<longrightarrow> configuration_read xp x a evs)
     \<and> clocked x evs \<and> (\<exists>front reading. evs = front @ [ConnectorClock (Inr reading)])"

lemma fresh_timely: "fresh_sample x reading \<Longrightarrow> timely x reading"
  by (auto simp: fresh_sample_def timely_def clock_ns_def split: option.splits)

lemma clocked_append [simp]: "clocked x (xs @ ys) \<longleftrightarrow> clocked x xs \<and> clocked x ys"
  by (auto simp: clocked_def)

lemma container_read_mono: "container_read oz i x xs \<Longrightarrow> set xs \<subseteq> set ys \<Longrightarrow> container_read oz i x ys"
  by (auto simp: container_read_def)

lemma image_read_mono: "image_read oz p img xs \<Longrightarrow> set xs \<subseteq> set ys \<Longrightarrow> image_read oz p img ys"
  by (auto simp: image_read_def)

lemma configuration_read_mono: "configuration_read xp x a xs \<Longrightarrow> set xs \<subseteq> set ys \<Longrightarrow> configuration_read xp x a ys"
  unfolding configuration_read_def by (elim exE conjE, intro exI conjI) (assumption | blast)+

section \<open>The steps\<close>

lemma delivers_at_stage:
  assumes "delivers m Q"
  shows "delivers (at_stage d m) Q"
  unfolding delivers_def at_stage_def
proof (rule emits_mono[OF emits_via[OF assms[unfolded delivers_def]]])
  fix evs r
  assume "\<exists>inner r'. evs = map id inner \<and> r = map_sum (Pair d) id r' \<and> (\<forall>a. r' = Inr a \<longrightarrow> Q a inner)"
  then obtain inner r' where "evs = inner" "r = map_sum (Pair d) id r'" "\<forall>a. r' = Inr a \<longrightarrow> Q a inner" by auto
  then show "\<forall>a. r = Inr a \<longrightarrow> Q a evs" by (cases r') auto
qed

lemma delivers_closed_evidence: "delivers m Q \<Longrightarrow> delivers (closed_evidence m) Q"
  unfolding closed_evidence_def delivers_def
  by (rule emits_attemptE, assumption) (auto intro!: emit_intros split: connector_exn.splits)

lemma delivers_connector_api: "delivers (connector_api oz) (\<lambda>_ evs. \<exists>t. evs = [ClientAcquired t])"
  unfolding connector_api_def by (auto intro!: delivers_bind_call delivers_require)

lemma delivers_container:
  "delivers (at_stage d (inspect_connector_container oz i)) (\<lambda>x evs. container_read oz i x evs \<and> (\<forall>y. clocked y evs))"
  unfolding inspect_connector_container_def
  apply (rule delivers_at_stage, rule delivers_closed_evidence, rule delivers_bind[OF delivers_connector_api], rule delivers_bind_call)
  apply (rule delivers_lift)
  subgoal for u evs raw x
    by (cases "connector_container (oz_profile oz) raw") (auto simp: container_read_def clocked_def)
  done

lemma delivers_image:
  "delivers (at_stage d (inspect_connector_image oz (qu_image (oz_qualifier oz)) p)) (\<lambda>img evs. image_read oz p img evs \<and> (\<forall>y. clocked y evs))"
  unfolding inspect_connector_image_def
  apply (rule delivers_at_stage, rule delivers_closed_evidence, rule delivers_bind[OF delivers_connector_api], rule delivers_bind_call)
  apply (rule delivers_lift)
  subgoal for u evs raw img
    by (cases "connector_image_of (oz_image_ok oz) (oz_profile oz) (qu_image (oz_qualifier oz)) p raw") (auto simp: image_read_def clocked_def)
  done

lemma delivers_fresh:
  "delivers (at_stage d (require_fresh oz x)) (\<lambda>_ evs. \<exists>reading. evs = [ConnectorClock (Inr reading)] \<and> timely x reading)"
  unfolding require_fresh_def
  by (rule delivers_at_stage, rule delivers_bind_call) (auto intro!: delivers_require fresh_timely)

lemma delivers_demanded: "delivers (demanded d b) (\<lambda>_ evs. b \<and> evs = [])"
  unfolding demanded_def by (auto intro: delivers_require)

lemma delivers_mount: "delivers (at_stage d (callE mk p)) (\<lambda>r evs. evs = [mk (Inr r)])"
  by (rule delivers_at_stage) (auto intro: delivers_call)

lemma delivers_observe_configuration:
  "delivers (observe_configuration oz xp x a) (\<lambda>_ evs. configuration_read xp x a evs \<and> clocked x evs)"
proof (cases "cn_configuration x")
  case None
  then show ?thesis by (simp add: observe_configuration_def)
next
  case (Some selected)
  show ?thesis
    unfolding observe_configuration_def Some option.case
    apply (rule delivers_bind[OF delivers_demanded])
    apply (rule delivers_bind[OF delivers_mount])
    apply (rule delivers_bind[OF delivers_fresh])
    apply (rule delivers_option)
     apply (rule delivers_raise)
    apply (rule delivers_bind[OF delivers_demanded])
    apply (rule delivers_at_stage, rule delivers_lift)
    apply (auto simp: configuration_read_def Some clocked_def mount_agrees_def require_configuration_file_def
        configuration_file_matches_def configuration_artifact.truncate_def map_sum_def requireR_def split: sum.splits if_splits)
    done
qed

lemma bound_toD:
  "bound_to xp x \<Longrightarrow> cn_name x = ''/'' @ xp_name xp \<and> cn_network x = xp_network xp
     \<and> same_labels (observed_labels x) (required_labels xp x)
     \<and> (\<forall>i. xp_incarnation xp = Some i \<longrightarrow> incarnation_fingerprint (Some (cn_container x)) = Inr i)"
  by (auto simp: bound_to_def)

lemma delivers_if_configured:
  "delivers (case art of None \<Rightarrow> returnE () | Some a \<Rightarrow> observe_configuration oz xp x a)
     (\<lambda>_ evs. (\<forall>a. art = Some a \<longrightarrow> configuration_read xp x a evs) \<and> clocked x evs)"
  by (cases art) (auto intro!: delivers_return delivers_mono[OF delivers_observe_configuration] simp: clocked_def)

lemma delivers_decoded:
  "delivers (case decode_sample loads sample of None \<Rightarrow> raiseE e | Some seen \<Rightarrow> returnE seen)
     (\<lambda>seen evs. decode_sample loads sample = Some seen \<and> evs = [])"
  by (auto intro: delivers_return split: option.split)

lemma delivers_observed_connection:
  "delivers (observed_connection oz xp) (\<lambda>(x, outcome, ready, identity) evs.
     connection_shown oz xp x evs \<and> decode_sample (oz_loads oz) (cn_sample x) = Some (outcome, ready, identity))"
  unfolding observed_connection_def
  apply (rule delivers_bind[OF delivers_container])
  apply (rule delivers_bind[OF delivers_demanded])
  apply (rule delivers_bind[OF delivers_fresh])
  apply (rule delivers_bind[OF delivers_image])
  apply (rule delivers_bind[OF delivers_demanded])
  apply (rule delivers_bind[OF delivers_fresh])
  apply (rule delivers_bind[OF delivers_demanded])
  apply (rule delivers_bind[OF delivers_if_configured])
  apply (rule delivers_bind[OF delivers_container])
  apply (rule delivers_bind[OF delivers_fresh])
  apply (rule delivers_bind[OF delivers_demanded])
  apply (rule delivers_bind[OF delivers_decoded])
  apply (clarify, rule delivers_bind[OF delivers_fresh])
  apply (rule delivers_return)
  apply (clarsimp dest!: bound_toD simp: connection_shown_def image_agrees_def)
  apply (intro conjI allI impI)
       apply (erule container_read_mono, auto)[1]
      apply (erule container_read_mono, auto)[1]
     apply (intro exI conjI, erule image_read_mono, auto)[1]
    apply (drule spec, drule mp, assumption, erule configuration_read_mono, auto)[1]
   apply (auto simp: clocked_def)
  done

section \<open>The observation\<close>

definition observation_run ::
  "'w connector_observer \<Rightarrow> connector_request \<Rightarrow> connector_expectation option \<Rightarrow> connector_event list \<Rightarrow> connector_exn + connector_observation \<Rightarrow> bool" where
  "observation_run oz cq expected evs r \<longleftrightarrow>
     (case expected of
        None \<Rightarrow> evs = [] \<and> r = Inr refused_connection
      | Some xp \<Rightarrow>
          (case r of
             Inl e \<Rightarrow> \<not> connector_ordinary e
           | Inr obs \<Rightarrow>
               (\<exists>d. obs = unknown_connection cq d)
               \<or> (\<exists>x outcome ready identity. obs = seen_connection cq x outcome ready identity \<and> connection_shown oz xp x evs
                    \<and> decode_sample (oz_loads oz) (cn_sample x) = Some (outcome, ready, identity))))"

lemma emits_observe_connection:
  "emits (observe_connection oz cq plan current desired original receipt)
     (observation_run oz cq (expected_connector oz cq plan current desired original receipt))"
proof (cases "expected_connector oz cq plan current desired original receipt")
  case None
  then show ?thesis by (auto simp: observe_connection_def observation_run_def intro: emits_returnE)
next
  case (Some xp)
  show ?thesis
    unfolding observe_connection_def Some option.case
    by (rule emits_attemptE[OF delivers_observed_connection[unfolded delivers_def]])
      (auto simp: observation_run_def intro!: emits_returnE emits_if emits_raiseE)
qed

lemma decode_sample_shown:
  assumes "decode_sample loads sample = Some (outcome, ready, identity)"
  shows "outcome = CONNECTION_UNKNOWN \<and> ready = None \<and> identity = None \<and> cs_exit sample = 1
    \<or> (\<exists>n u. ready = Some n \<and> identity = Some u \<and> canonical_uuid u \<and> n < 2 ^ 64
         \<and> (outcome = CONNECTED \<and> 0 < n \<and> cs_exit sample = 0 \<or> outcome = DISCONNECTED \<and> n = 0 \<and> cs_exit sample = 1))"
proof -
  obtain v where v: "decode_value v (cs_exit sample) = Some (outcome, ready, identity)"
    using assms by (auto simp: decode_sample_def Option.bind_eq_Some_conv split: if_splits)
  then obtain out where out: "connection_outcome_of (json_get v ''outcome'') = Some out"
    by (cases "connection_outcome_of (json_get v ''outcome'')") (auto simp: decode_value_def split: if_splits)
  show ?thesis
  proof (cases "out = CONNECTION_UNKNOWN")
    case True
    with v out show ?thesis by (auto simp: decode_value_def split: if_splits)
  next
    case False
    from v out False obtain n u where nu: "json_get v ''readyConnections'' = JInt n" "json_get v ''connectorId'' = JStr u"
      by (cases "json_get v ''readyConnections''"; cases "json_get v ''connectorId''") (auto simp: decode_value_def split: if_splits)
    from v out False show ?thesis by (auto simp: decode_value_def nu split: if_splits)
  qed
qed


text \<open>The results of an observer, by their outcome.\<close>

definition observation_typed :: "connector_request \<Rightarrow> connector_observation \<Rightarrow> bool" where
  "observation_typed cq obs \<longleftrightarrow>
     (case oc_outcome obs of
        CONNECTION_REFUSED \<Rightarrow>
          oc_effect obs = None \<and> oc_activity obs = None \<and> oc_container obs = None \<and> oc_start obs = None \<and> oc_end obs = None
          \<and> oc_ready obs = None \<and> oc_connector obs = None \<and> oc_diagnostic obs = None
      | CONNECTION_UNKNOWN \<Rightarrow>
          oc_effect obs = Some (rr_effect (cq_request cq)) \<and> oc_activity obs = Some (cq_activity cq)
          \<and> oc_ready obs = None \<and> oc_connector obs = None
          \<and> (oc_diagnostic obs \<noteq> None \<longleftrightarrow> oc_container obs = None) \<and> (oc_start obs = None \<longleftrightarrow> oc_container obs = None)
          \<and> (oc_end obs = None \<longleftrightarrow> oc_container obs = None)
      | out \<Rightarrow>
          oc_effect obs = Some (rr_effect (cq_request cq)) \<and> oc_activity obs = Some (cq_activity cq)
          \<and> oc_container obs \<noteq> None \<and> oc_start obs \<noteq> None \<and> oc_end obs \<noteq> None \<and> oc_diagnostic obs = None
          \<and> (\<exists>n u. oc_ready obs = Some n \<and> oc_connector obs = Some u \<and> canonical_uuid u \<and> n < 2 ^ 64
               \<and> (if out = CONNECTED then 0 < n else n = 0)))"

text \<open>
  C34: whatever the provider and the clock answer, an observation ends with a well-formed result (refused
  ones carry nothing, unknown ones no connection, the others a connector with a count that fits the
  outcome) or with an exception that is none of \<open>Exception\<close>; and a refused one has made no call.
\<close>

theorem connection_result_typed:
  assumes "observe_connection oz cq plan current desired original receipt s = (r, s')" "trace s' = trace s @ evs"
  shows "case r of
      Inl e \<Rightarrow> \<not> connector_ordinary e
    | Inr obs \<Rightarrow> observation_typed cq obs \<and> (oc_outcome obs = CONNECTION_REFUSED \<longrightarrow> evs = [])"
proof -
  have run: "observation_run oz cq (expected_connector oz cq plan current desired original receipt) evs r"
    using emitsD[OF emits_observe_connection assms(1,2)] .
  have unknown: "observation_typed cq (unknown_connection cq d)" "oc_outcome (unknown_connection cq d) \<noteq> CONNECTION_REFUSED" for d
    by (simp_all add: observation_typed_def unknown_connection_def refused_connection_def)
  have refused: "observation_typed cq refused_connection"
    by (simp add: observation_typed_def refused_connection_def)
  have seen: "observation_typed cq (seen_connection cq x outcome ready identity) \<and> outcome \<noteq> CONNECTION_REFUSED"
    if "decode_sample (oz_loads oz) (cn_sample x) = Some (outcome, ready, identity)" for x outcome ready identity
    using decode_sample_shown[OF that] by (auto simp: observation_typed_def seen_connection_def)
  show ?thesis
    using run unfolding observation_run_def
    by (auto simp: unknown refused split: option.splits sum.splits dest!: seen) (auto simp: seen_connection_def)
qed

section \<open>A connected connector\<close>

text \<open>A fresh installation of the native reader, whose connector shows two connections.\<close>

definition sample_token :: secret_delivery where
  "sample_token = SecretFileDelivery ''/t'' ''t'' ''tok'' ''0400'' (Some ''TUNNEL_TOKEN_FILE'')"

definition sample_connector_product :: product_material where
  "sample_connector_product =
     \<lparr>pm_node = ''cf'', pm_runtime = ''main'', pm_product_key = ''p'', pm_descriptor = ''d'', pm_image_digest = ''sha256:1'',
      pm_image_reference = ''docker.io/cf/cf@sha256:1'', pm_contract_repr = ''c'', pm_public_environment = [],
      pm_socket_environment = [], pm_authority_descriptors = [], pm_artifacts = [], pm_retained = [], pm_deliveries = [sample_token],
      pm_selections = [(\<lparr>sel_reference = ''t'', sel_intent = ''tok'', sel_version = ''1''\<rparr>, JNull)], pm_ports = [], pm_pull = None,
      pm_checks = []\<rparr>"

definition sample_contract :: contract where
  "sample_contract = \<lparr>kc_public = [], kc_artifacts = [], kc_requirements = [], kc_retained = [], kc_secrets = [sample_token],
     kc_surfaces = [], kc_sockets = JNull, kc_ports = []\<rparr>"

definition sample_connector_effect :: runtime_request where
  "sample_connector_effect =
     \<lparr>rr_effect = ''e'', rr_kind = OTHER_EFFECT, rr_docker = True, rr_workspace = ''w'', rr_plan = ''p'', rr_graph = ''g'',
      rr_operation = OtherOperation, rr_products = [sample_connector_product], rr_grants = [], rr_deliveries = [],
      rr_fingerprint = ''rf'', rr_selection = ''sf'', rr_secret_selection = ''mf'', rr_instances = []\<rparr>"

definition sample_node :: "string \<Rightarrow> (string \<times> string) list \<Rightarrow> graph_node" where
  "sample_node i metadata = \<lparr>gn_id = i, gn_runtime = ''main'', gn_metadata = metadata, gn_public = [], gn_socket = [],
     gn_authorities = [], gn_artifacts = [], gn_secrets = [sample_token], gn_sockets = JNull, gn_surfaces = [], gn_rest = JNull\<rparr>"

definition sample_current :: control_graph where
  "sample_current = \<lparr>cgr_runtimes = [], cgr_nodes = [], cgr_ingresses = [], cgr_rest = JNull\<rparr>"

definition sample_path :: management_path where
  "sample_path =
     (let gateway = sample_node ''gw'' [];
          connector = sample_node ''cf'' [(''product_identity'', ''p''), (''product_descriptor_digest'', ''d'')];
          ingress = \<lparr>pi_id = ''i'', pi_connector = ''cf'', pi_rest = JNull\<rparr>
      in \<lparr>mp_connector = connector, mp_gateway = gateway, mp_ingress = ingress,
          mp_graph = \<lparr>cgr_runtimes = [(''main'', \<lparr>gr_docker = True, gr_authority = Some ''a'', gr_rest = JNull\<rparr>)],
            cgr_nodes = [(''gw'', gateway), (''cf'', connector)], cgr_ingresses = [ingress], cgr_rest = JNull\<rparr>\<rparr>)"

definition sample_plan_operation :: plan_operation where
  "sample_plan_operation = PlanObserveBootstrap CONNECTOR_CONNECTED DESIRED_GRAPH ''main'' JNull"

definition sample_plan :: activity_plan where
  "sample_plan = \<lparr>ap_activities = [(''a1'', PlanStartRuntime ''main''), (''a2'', PlanStartNode ''gw''), (''a3'', PlanStartNode ''cf''),
     (''a4'', PlanAllocateIngress ''i''), (''a5'', sample_plan_operation)], ap_ready = True, ap_rest = JNull\<rparr>"

definition sample_connector_core :: connector_core where
  "sample_connector_core = \<lparr>kk_resolve = (\<lambda>_ _ _. Some sample_path), kk_compile = (\<lambda>_ _. Some sample_plan),
     kk_compile_image = (\<lambda>_ _. None), kk_compile_managed = (\<lambda>_ _. None), kk_diff = (\<lambda>_ _. None), kk_update_node = (\<lambda>_ _. None),
     kk_slot = (\<lambda>_ _ _ _. None), kk_artifact = (\<lambda>_ _ _. None), kk_receiver = (\<lambda>_. None), kk_decode = (\<lambda>_. None),
     kk_whole_material = (\<lambda>_. True), kk_delivery_ok = (\<lambda>_. True), kk_json_media = ''json'', kk_read_only = ''0444'',
     kk_owner_read_only = ''0400'', kk_token_intent = ''tok'', kk_managed_declaration = JNull, kk_managed_surfaces = [],
     kk_managed_sockets = JNull, kk_managed_environment = []\<rparr>"

definition sample_connector_request :: connector_request where
  "sample_connector_request = \<lparr>cq_request = sample_connector_effect, cq_activity = ''a5'', cq_operation = sample_plan_operation,
     cq_authority = ''a'', cq_contract = sample_contract\<rparr>"

definition sample_secret_file :: secret_material where
  "sample_secret_file = \<lparr>fm_reference = ''t'', fm_target = ''/t'', fm_value = [], fm_mode = ''0400'', fm_path_name = Some ''TUNNEL_TOKEN_FILE'',
     fm_selection = Some \<lparr>sel_reference = ''t'', sel_intent = ''tok'', sel_version = ''1''\<rparr>\<rparr>"

definition sample_secret_volume :: string where
  "sample_secret_volume = secret_volume_name sample_connector_effect sample_connector_product sample_secret_file 65532"

definition sample_expectation :: connector_expectation where
  "sample_expectation = \<lparr>xp_name = container_name sample_connector_effect ''cf'',
     xp_labels = correlation_labels False False (node_labels sample_connector_effect sample_connector_product),
     xp_network = network_name sample_connector_effect ''main'', xp_origin = sample_connector_effect,
     xp_material = sample_connector_product, xp_delivery = sample_token, xp_incarnation = None, xp_artifact = None, xp_volume = None,
     xp_selection = None\<rparr>"

text \<open>The answers of the daemon.\<close>

definition sample_config :: "json \<Rightarrow> string list \<Rightarrow> json" where
  "sample_config ls env = JObj [(''Labels'', ls), (''Entrypoint'', JList (map JStr (expected_program NATIVE_READER_V1))),
     (''Cmd'', JList [JStr ''tunnel'', JStr ''run'']), (''User'', JStr ''65532:65532''), (''WorkingDir'', JStr []),
     (''StopSignal'', JStr ''SIGTERM''), (''Env'', JList (map JStr env)),
     (''Healthcheck'', JObj [(''Test'', JList (map JStr [''CMD'', ''python'', ''-m'', ''control_plane_kit_servers_cloudflared_connector.readiness''])),
        (''Interval'', JInt 5000000000), (''Timeout'', JInt 3000000000), (''Retries'', JInt 1)])]"

definition sample_launch :: "(string \<times> string) list \<Rightarrow> connector_launch" where
  "sample_launch env = \<lparr>cl_entrypoint = expected_program NATIVE_READER_V1, cl_command = [''tunnel'', ''run''], cl_user = ''65532:65532'',
     cl_directory = [], cl_stop = ''SIGTERM'', cl_shell = [], cl_environment = env,
     cl_probe = [''CMD'', ''python'', ''-m'', ''control_plane_kit_servers_cloudflared_connector.readiness''],
     cl_timing = [5000000000, 3000000000, 1, 0, 0]\<rparr>"

definition sample_connector_id :: string where
  "sample_connector_id = replicate 64 CHR ''a''"

definition sample_connector_image :: string where
  "sample_connector_image = ''sha256:'' @ sample_connector_id"

definition sample_uuid :: string where
  "sample_uuid = ''00000000-0000-0000-0000-000000000001''"

definition sample_tunnel_check :: connector_sample where
  "sample_tunnel_check = \<lparr>cs_start = ''2024-01-01T00:00:01Z'', cs_end = ''2024-01-01T00:00:02Z'', cs_exit = 0, cs_output = ''o''\<rparr>"

definition sample_state :: json where
  "sample_state = JObj [(''Running'', JBool True), (''Paused'', JBool False), (''Restarting'', JBool False),
     (''StartedAt'', JStr ''2024-01-01T00:00:00Z''),
     (''Health'', JObj [(''Log'', JList [JObj [(''Start'', JStr ''2024-01-01T00:00:01Z''), (''End'', JStr ''2024-01-01T00:00:02Z''),
        (''ExitCode'', JInt 0), (''Output'', JStr ''o'')]])])]"

definition sample_container_json :: "string \<Rightarrow> json \<Rightarrow> string \<Rightarrow> string \<Rightarrow> json" where
  "sample_container_json name ls network volume = JObj [(''Id'', JStr sample_connector_id), (''Image'', JStr sample_connector_image),
     (''Name'', JStr (CHR ''/'' # name)), (''State'', sample_state), (''Config'', sample_config ls [''TUNNEL_TOKEN_FILE=/t'']),
     (''Path'', JStr ''cloudflared''), (''Args'', JList (map JStr [''--no-autoupdate'', ''--metrics'', ''127.0.0.1:20241'', ''tunnel'', ''run''])),
     (''HostConfig'', JObj [(''NetworkMode'', JStr network), (''Mounts'', JList [JObj [(''Type'', JStr ''volume''), (''ReadOnly'', JBool True),
        (''VolumeOptions'', JObj [(''Subpath'', JStr ''content'')]), (''Source'', JStr volume), (''Target'', JStr ''/t'')]])]),
     (''NetworkSettings'', JObj [(''Networks'', JObj [(network, JNull)])]),
     (''Mounts'', JList [JObj [(''Type'', JStr ''volume''), (''Name'', JStr volume), (''Destination'', JStr ''/t''), (''RW'', JBool False)]])]"

definition sample_inspection :: "string \<Rightarrow> (string \<times> string) list \<Rightarrow> string \<Rightarrow> string \<Rightarrow> connector_inspection" where
  "sample_inspection name ls network volume = \<lparr>cn_container = sample_connector_id, cn_name = CHR ''/'' # name, cn_image = sample_connector_image,
     cn_labels = ls, cn_launch = launch_digest (sample_launch [(''TUNNEL_TOKEN_FILE'', ''/t'')]), cn_network = network,
     cn_secret = \<lparr>sm_target = ''/t'', sm_volume = volume\<rparr>, cn_started = ''2024-01-01T00:00:00Z'', cn_sample = sample_tunnel_check,
     cn_configuration = None\<rparr>"

lemma sample_cn_config:
  "cn_config (sample_config ls []) = Inr (sample_launch [])"
  "cn_config (sample_config ls [''TUNNEL_TOKEN_FILE=/t'']) = Inr (sample_launch [(''TUNNEL_TOKEN_FILE'', ''/t'')])"
  by code_simp+

lemma sample_times:
  "timestamp_ns ''2024-01-01T00:00:00Z'' = Some 1704067200000000000"
  "timestamp_ns ''2024-01-01T00:00:01Z'' = Some 1704067201000000000"
  "timestamp_ns ''2024-01-01T00:00:02Z'' = Some 1704067202000000000"
  by code_simp+

text \<open>Texts of visible ASCII characters.\<close>

definition connector_plain :: "string \<Rightarrow> bool" where
  "connector_plain s \<longleftrightarrow> list_all (\<lambda>c. c \<noteq> CHR 0x00 \<and> code_of c < 128) s"

lemma connector_plain_length: "connector_plain s \<Longrightarrow> length (utf8_bytes s) = length s"
  by (induction s) (auto simp: connector_plain_def utf8_bytes_def)

lemma cn_text_plain: "connector_plain s \<Longrightarrow> length s \<le> limit \<Longrightarrow> cn_text limit (JStr s) = Inr s"
  unfolding cn_text_def using connector_plain_length[of s] by (auto simp: connector_plain_def list_all_iff)

lemma resource_plain: "resource_char c \<Longrightarrow> c \<noteq> CHR 0x00 \<and> code_of c < 128"
  by (auto simp: resource_char_def is_lower_alpha_def is_digit_def in_range_def code_of_def)

lemma lower_hex_plain: "lower_hex c \<Longrightarrow> c \<noteq> CHR 0x00 \<and> code_of c < 128"
  by (auto simp: lower_hex_def is_digit_def in_range_def code_of_def)

lemma name_plain: "connector_plain (resource_name kind parts) \<and> length (resource_name kind parts) \<le> 63"
  using resource_name_shape[of kind parts] by (auto simp: connector_plain_def list_all_iff dest: resource_plain)

lemma hex_plain: "hex64 s \<Longrightarrow> connector_plain s \<and> length s = 64"
  by (auto simp: hex64_def connector_plain_def list_all_iff dest: lower_hex_plain)

lemma cn_each_inr: "list_all (\<lambda>x. f x = Inr (g x)) xs \<Longrightarrow> cn_each f xs = Inr (map g xs)"
  by (induction xs) auto

interpretation by_label: sorting "\<lambda>a b :: string \<times> 'a. str_le (fst a) (fst b)"
  by (rule sorting.intro) (rule str_le_total, erule (1) str_le_trans)

text \<open>Sorting labels keeps the dictionary.\<close>

lemma map_of_sort_by:
  assumes "distinct (map fst ls)"
  shows "map_of (sort_by (\<lambda>a b. str_le (fst a) (fst b)) ls) = map_of ls"
  using assms by_label.distinct_sort_by[OF assms] by_label.set_sort_by by (metis map_of_inject_set)

lemma cn_labels_read:
  assumes "list_all (\<lambda>(k, v). connector_plain k \<and> length k \<le> 256 \<and> connector_plain v \<and> length v \<le> 4096) ls" "length ls \<le> 128"
  shows "cn_labels_of (JObj [(''Labels'', JObj (text_entries ls)), e1, e2, e3, e4, e5, e6, e7]) = Inr (sort_by (\<lambda>a b. str_le (fst a) (fst b)) ls)"
proof -
  have "cn_each cn_label (text_entries ls) = Inr (map (\<lambda>e. (fst e, case snd e of JStr v \<Rightarrow> v)) (text_entries ls))"
    using assms(1) by (intro cn_each_inr) (auto simp: list_all_iff text_entries_def cn_label_def cn_text_plain)
  moreover have "map (\<lambda>e. (fst e, case snd e of JStr v \<Rightarrow> v)) (text_entries ls) = ls"
    by (induction ls) (auto simp: text_entries_def)
  ultimately show ?thesis
    using assms(2) by (simp add: cn_labels_of_def cn_item_def json_has_def cn_mapping_def json_entries_def text_entries_def)
qed

lemma connector_correlation:
  assumes "distinct (map fst ls)"
  shows "same_labels (correlation_labels False False (sort_by (\<lambda>a b. str_le (fst a) (fst b)) ls)) (correlation_labels False False ls)"
proof -
  let ?s = "sort_by (\<lambda>a b. str_le (fst a) (fst b)) ls"
  have "set (cpk_labels ?s) = set (cpk_labels ls)" "distinct (map fst (cpk_labels ?s))" "distinct (map fst (cpk_labels ls))"
    using assms by_label.distinct_sort_by[OF assms]
    by (auto simp: cpk_labels_def by_label.set_sort_by intro: distinct_map_filter)
  then have "map_of (cpk_labels ?s) = map_of (cpk_labels ls)"
    by (simp add: map_of_inject_set)
  then show ?thesis
    by (simp add: correlation_labels_def same_labels_def Let_def list_all_iff)
qed

lemma sample_container_decoded:
  assumes "cn_text 256 (JStr (CHR ''/'' # name)) = Inr (CHR ''/'' # name)" "cn_text 256 (JStr network) = Inr network"
    and "cn_text 256 (JStr volume) = Inr volume" "cn_labels_of (sample_config ls [''TUNNEL_TOKEN_FILE=/t'']) = Inr ls'"
  shows "connector_container NATIVE_READER_V1 (sample_container_json name ls network volume) = Inr (sample_inspection name ls' network volume)"
proof -
  let ?attrs = "sample_container_json name ls network volume" and ?config = "sample_config ls [''TUNNEL_TOKEN_FILE=/t'']"
  let ?host = "json_get ?attrs ''HostConfig''"
  have state: "eligible_state sample_state = Inr ()" "sample_of sample_state = Inr sample_tunnel_check"
    "cn_mapping 128 sample_state = Inr sample_state" "bindR (cn_item sample_state ''StartedAt'') (cn_text 40) = Inr ''2024-01-01T00:00:00Z''"
    by code_simp+
  have identity: "connector_identity ?attrs = Inr (sample_connector_id, sample_connector_image)"
    by code_simp
  have program: "running_program ?attrs ?config = Inr ()"
    by code_simp
  have items: "cn_mapping 128 ?attrs = Inr ?attrs" "cn_item ?attrs ''Name'' = Inr (JStr (CHR ''/'' # name))"
    "cn_item ?attrs ''State'' = Inr sample_state" "cn_item ?attrs ''Config'' = Inr ?config" "cn_item ?attrs ''HostConfig'' = Inr ?host"
    "cn_mapping 128 ?config = Inr ?config" "cn_mapping 128 ?host = Inr ?host"
    by (simp_all add: sample_container_json_def sample_config_def cn_mapping_def cn_item_def json_has_def)
  have network: "single_network ?attrs ?host = Inr network"
    by (simp add: single_network_def sample_container_json_def cn_item_def json_has_def cn_mapping_def cn_require_def requireR_def
        json_entries_def assms(2))
  have mounts: "only_mounts NATIVE_READER_V1 ?attrs ?host = Inr [\<lparr>sm_target = ''/t'', sm_volume = volume\<rparr>]"
    by (simp add: only_mounts_def sample_container_json_def cn_require_def requireR_def mount_count_def managed_profile_def
        cn_mapping_def readonly_secret_mounts_def confirmed_mount_def content_mount_def mounted_at_def readonly_volume_def
        List.map_filter_def)
  have target: "cn_text 4096 (JStr ''/t'') = Inr ''/t''" by code_simp
  show ?thesis
    unfolding connector_container_def
    by (simp add: items identity state assms program network mounts container_launch_def sample_cn_config split_mounts_def managed_profile_def
        target sample_inspection_def)
qed

lemma connector_plain_simps: "connector_plain []" "connector_plain (c # s) \<longleftrightarrow> (c \<noteq> CHR 0x00 \<and> code_of c < 128) \<and> connector_plain s"
  by (simp_all add: connector_plain_def)

lemma fingerprint_plain: "connector_plain (node_fingerprint rq m)" "length (node_fingerprint rq m) = 64"
  using hex_plain[OF hex64_sha256] by (simp_all add: node_fingerprint_def digest_of_def)

definition sample_node_labels :: labels where
  "sample_node_labels = node_labels sample_connector_effect sample_connector_product"

lemma sample_labels_distinct: "distinct (map fst sample_node_labels)"
  by (simp add: sample_node_labels_def node_labels_def labelled_def)

lemma sample_labels_read:
  "cn_labels_of (sample_config (JObj (text_entries sample_node_labels)) env) = Inr (sort_by (\<lambda>a b. str_le (fst a) (fst b)) sample_node_labels)"
proof -
  have "list_all (\<lambda>(k, v). connector_plain k \<and> length k \<le> 256 \<and> connector_plain v \<and> length v \<le> 4096) sample_node_labels" "length sample_node_labels \<le> 128"
    unfolding sample_node_labels_def node_labels_def labelled_def
    by (simp_all add: label_prefix_def connector_plain_simps code_of_def fingerprint_plain) (simp_all add: sample_connector_effect_def
        sample_connector_product_def node_material_profile_def connector_plain_simps code_of_def)
  then show ?thesis by (simp add: sample_config_def cn_labels_read)
qed

lemma sample_texts:
  "cn_text 256 (JStr (CHR ''/'' # container_name rq n)) = Inr (CHR ''/'' # container_name rq n)"
  "cn_text 256 (JStr (network_name rq n)) = Inr (network_name rq n)"
  "cn_text 256 (JStr sample_secret_volume) = Inr sample_secret_volume"
proof -
  have "connector_plain (CHR ''/'' # container_name rq n)" "length (CHR ''/'' # container_name rq n) \<le> 256"
    "connector_plain (network_name rq n)" "length (network_name rq n) \<le> 256"
    using name_plain[of "''node''" "[rr_workspace rq, n]"] name_plain[of "''net''" "[rr_workspace rq, n]"]
    by (simp_all add: container_name_def network_name_def connector_plain_simps code_of_def)
  then show "cn_text 256 (JStr (CHR ''/'' # container_name rq n)) = Inr (CHR ''/'' # container_name rq n)"
    "cn_text 256 (JStr (network_name rq n)) = Inr (network_name rq n)"
    by (simp_all only: cn_text_plain)
  have "connector_plain (take 55 t)" if "hex64 t" for t
    using hex_plain[OF that] by (auto simp: connector_plain_def list_all_iff dest: in_set_takeD)
  then have "connector_plain sample_secret_volume" "length sample_secret_volume \<le> 63"
    by (simp_all add: sample_secret_volume_def secret_volume_name_def sample_secret_file_def selected_secret_identity_def hex64_sha256
        connector_plain_simps code_of_def)
  then show "cn_text 256 (JStr sample_secret_volume) = Inr sample_secret_volume" by (intro cn_text_plain) auto
qed

definition sample_raw_container :: json where
  "sample_raw_container = sample_container_json (container_name sample_connector_effect ''cf'') (JObj (text_entries sample_node_labels))
     (network_name sample_connector_effect ''main'') sample_secret_volume"

definition sample_seen :: connector_inspection where
  "sample_seen = sample_inspection (container_name sample_connector_effect ''cf'')
     (sort_by (\<lambda>a b. str_le (fst a) (fst b)) sample_node_labels) (network_name sample_connector_effect ''main'') sample_secret_volume"

lemma sample_raw_decoded: "connector_container NATIVE_READER_V1 sample_raw_container = Inr sample_seen"
  unfolding sample_raw_container_def sample_seen_def
  by (rule sample_container_decoded) (rule sample_texts sample_labels_read)+

definition sample_raw_image :: json where
  "sample_raw_image = JObj [(''Id'', JStr sample_connector_image), (''RepoDigests'', JList [JStr ''docker.io/cf/cf@sha256:1'']),
     (''Config'', sample_config JNull [])]"

definition sample_image_seen :: connector_image where
  "sample_image_seen = \<lparr>cg_image = sample_connector_image, cg_launch = launch_digest (sample_launch [(''TUNNEL_TOKEN_FILE'', ''/t'')]),
     cg_owner = 65532\<rparr>"

lemma sample_image_decoded:
  "connector_image_of (\<lambda>_ _ _. True) NATIVE_READER_V1 ''docker.io/cf/cf@sha256:1'' ''/t'' sample_raw_image = Inr sample_image_seen"
proof -
  have config: "cn_item sample_raw_image ''Config'' = Inr (sample_config JNull [])" "json_get sample_raw_image ''Config'' = sample_config JNull []"
    "cn_mapping 128 sample_raw_image = Inr sample_raw_image" "json_get sample_raw_image ''Id'' = JStr sample_connector_image"
    by (simp_all add: sample_raw_image_def cn_item_def json_has_def cn_mapping_def)
  have f1: "is_canonical_image_id (Some sample_connector_image)" by code_simp
  have f2: "selected_program NATIVE_READER_V1 (sample_launch [])" by code_simp
  have f3: "cn_text 4096 (JStr ''/t'') = Inr ''/t''" by code_simp
  have f4: "bindR (cn_item sample_raw_image ''RepoDigests'') (cn_strings 32) = Inr [''docker.io/cf/cf@sha256:1'']"
    by code_simp
  have f5: "matches_image_reference (\<lambda>_ _ _. True) ''docker.io/cf/cf@sha256:1'' [''docker.io/cf/cf@sha256:1'']"
    by code_simp
  have f6: "json_get (sample_config JNull []) ''User'' = JStr ''65532:65532''" by (simp add: sample_config_def)
  have f7: "secret_file_owner_uid (Some ''65532:65532'') = Some 65532"
    by (simp add: secret_file_owner_uid_def uid_component_def is_digit_def in_range_def code_of_def)
  note facts = f1 f2 f3 f4 f5 f6 f7
  show ?thesis
    unfolding connector_image_of_def
    by (simp add: config facts image_launch_def sample_cn_config cn_require_def requireR_def) (simp add: sample_image_seen_def sample_launch_def)
qed

text \<open>The daemon always answers with that container and that image, and the clock one second after the sample.\<close>

definition sample_connection_json :: json where
  "sample_connection_json = JObj [(''schema'', JStr ''cpk.cloudflared.connection/v1''), (''outcome'', JStr ''connected''),
     (''readyConnections'', JInt 2), (''connectorId'', JStr sample_uuid)]"

definition sample_connector_observer :: "unit connector_observer" where
  "sample_connector_observer = \<lparr>oz_qualifier = \<lparr>qu_core = sample_connector_core, qu_key = ''p'', qu_digest = ''d'',
       qu_image = ''docker.io/cf/cf@sha256:1'', qu_profile = NATIVE_READER_V1\<rparr>,
     oz_request_ok = (\<lambda>_. True), oz_receipt_ok = (\<lambda>_. True), oz_context = (\<lambda>_. None), oz_selection = (\<lambda>_. []),
     oz_instance = (\<lambda>_. ([], [], [])), oz_timeout = (\<lambda>w. (Inr (Some 1), w)), oz_container = (\<lambda>_ w. (Inr sample_raw_container, w)),
     oz_image = (\<lambda>_ w. (Inr sample_raw_image, w)), oz_mount = (\<lambda>_ _ _ w. (Inr None, w)),
     oz_clock = (\<lambda>w. (Inr (Some 1704067203000000), w)), oz_image_ok = (\<lambda>_ _ _. True), oz_loads = (\<lambda>_. Some sample_connection_json)\<rparr>"

lemma sample_qualified:
  "qualify_material (oz_qualifier sample_connector_observer) ''a5'' sample_plan sample_current sample_current sample_connector_product sample_contract ''a''
     = Some (FRESH, sample_path, sample_token)"
proof -
  have plan: "qualify_plan (oz_qualifier sample_connector_observer) ''a5'' sample_plan sample_current sample_current ''a'' = Some (FRESH, sample_path)"
    by (simp add: qualify_plan_def sample_connector_observer_def sample_connector_core_def sample_plan_def sample_plan_operation_def sample_current_def
        sample_path_def sample_node_def Let_def created_by_def fresh_path_def)
  show ?thesis
    unfolding qualify_material_def plan
    by (simp add: demand_def sample_connector_observer_def sample_connector_core_def sample_path_def sample_node_def Let_def product_metadata_def
        sample_connector_product_def sample_contract_def managed_profile_def sample_plan_def sample_plan_operation_def token_slot_def
        sample_token_def token_selections_def)
qed

lemma sample_expected:
  "expected_connector sample_connector_observer sample_connector_request sample_plan sample_current sample_current None None = Some sample_expectation"
proof -
  have "cq_request sample_connector_request = sample_connector_effect" "cq_activity sample_connector_request = ''a5''"
    "cq_contract sample_connector_request = sample_contract" "cq_authority sample_connector_request = ''a''"
    "cq_operation sample_connector_request = sample_plan_operation" "oz_request_ok sample_connector_observer c"
    "rr_docker sample_connector_effect" "rr_deliveries sample_connector_effect = []" "oz_profile sample_connector_observer = NATIVE_READER_V1"
    "rr_products sample_connector_effect = [sample_connector_product]"
    "map_of (ap_activities sample_plan) ''a5'' = Some sample_plan_operation" for c
    by (simp_all add: sample_connector_request_def sample_connector_observer_def sample_connector_effect_def sample_plan_def oz_profile_def)
  then show ?thesis
    unfolding expected_connector_def
    by (simp add: Let_def demand_def sample_qualified expected_configuration_def managed_profile_def sample_expectation_def)
      (simp add: sample_path_def sample_node_def sample_connector_product_def Let_def)
qed

lemma sample_decoded: "decode_sample (oz_loads sample_connector_observer) sample_tunnel_check = Some (CONNECTED, Some 2, Some sample_uuid)"
proof -
  have uuid: "canonical_uuid sample_uuid" by code_simp
  show ?thesis
    by (simp add: decode_sample_def decode_value_def sample_connector_observer_def sample_connection_json_def connection_outcome_of_def uuid sample_tunnel_check_def)
qed

lemma sample_fresh: "fresh_sample sample_seen (Some 1704067203000000)"
  by (simp add: fresh_sample_def sample_seen_def sample_inspection_def sample_tunnel_check_def sample_times clock_ns_def)

lemma sample_connector_bound: "bound_to sample_expectation sample_seen"
  using connector_correlation[OF sample_labels_distinct]
  by (simp add: bound_to_def selection_shown_def sample_expectation_def sample_seen_def sample_inspection_def observed_labels_def
      required_labels_def sample_node_labels_def)

lemma sample_agrees: "image_agrees sample_expectation sample_seen sample_image_seen"
proof -
  have "delivered_file sample_connector_product sample_token = Some sample_secret_file"
    by (simp add: delivered_file_def sample_token_def token_selections_def sample_connector_product_def sample_secret_file_def)
  then have "expected_secret sample_expectation 65532 = Some \<lparr>sm_target = ''/t'', sm_volume = sample_secret_volume\<rparr>"
    by (simp add: expected_secret_def sample_expectation_def sample_connector_effect_def[THEN arg_cong, of rr_products] sample_token_def
        delivery_target_def sample_secret_volume_def)
  then show ?thesis
    by (simp add: image_agrees_def sample_image_seen_def sample_seen_def sample_inspection_def)
qed

text \<open>The run: one event per call.\<close>

definition sample_read :: "string \<Rightarrow> connector_event list" where
  "sample_read i = [ClientAcquired (Inr (Some 1)), ConnectorRead i (Inr sample_raw_container)]"

definition sample_reading :: connector_event where
  "sample_reading = ConnectorClock (Inr (Some 1704067203000000))"

definition sample_events :: "connector_event list" where
  "sample_events =
     sample_read (container_name sample_connector_effect ''cf'') @ [sample_reading, ClientAcquired (Inr (Some 1)),
       ConnectorImageRead ''docker.io/cf/cf@sha256:1'' (Inr sample_raw_image), sample_reading]
     @ sample_read sample_connector_id @ [sample_reading, sample_reading]"

lemma sample_inspect:
  "inspect_connector_container sample_connector_observer i s = (Inr sample_seen, s\<lparr>trace := trace s @ sample_read i\<rparr>)"
  by (simp add: inspect_connector_container_def closed_evidence_def attemptE_def bindE_def connector_api_def callE_def cx_port_def requireE_def
      returnE_def liftE_def sample_connector_observer_def oz_profile_def sample_raw_decoded sample_read_def)

lemma sample_inspect_image:
  "inspect_connector_image sample_connector_observer ''docker.io/cf/cf@sha256:1'' ''/t'' s
     = (Inr sample_image_seen, s\<lparr>trace := trace s @ [ClientAcquired (Inr (Some 1)),
          ConnectorImageRead ''docker.io/cf/cf@sha256:1'' (Inr sample_raw_image)]\<rparr>)"
  by (simp add: inspect_connector_image_def closed_evidence_def attemptE_def bindE_def connector_api_def callE_def cx_port_def requireE_def
      returnE_def liftE_def sample_connector_observer_def oz_profile_def sample_image_decoded)

lemma sample_require_fresh:
  "require_fresh sample_connector_observer sample_seen s = (Inr (), s\<lparr>trace := trace s @ [sample_reading]\<rparr>)"
  by (simp add: require_fresh_def bindE_def callE_def cx_port_def requireE_def returnE_def sample_connector_observer_def sample_fresh sample_reading_def)

definition sample_connector_observed :: connector_observation where
  "sample_connector_observed = seen_connection sample_connector_request sample_seen CONNECTED (Some 2) (Some sample_uuid)"

lemma sample_connector_run:
  "observe_connection sample_connector_observer sample_connector_request sample_plan sample_current sample_current None None \<lparr>trace = [], world = ()\<rparr>
     = (Inr sample_connector_observed, \<lparr>trace = sample_events, world = ()\<rparr>)"
proof -
  have facts: "xp_name sample_expectation = container_name sample_connector_effect ''cf''" "xp_artifact sample_expectation = None"
    "delivery_target (xp_delivery sample_expectation) = ''/t''" "qu_image (oz_qualifier sample_connector_observer) = ''docker.io/cf/cf@sha256:1''"
    "cn_container sample_seen = sample_connector_id" "cn_sample sample_seen = sample_tunnel_check"
    "cg_owner sample_image_seen = 65532"
    by (simp_all add: sample_expectation_def sample_token_def delivery_target_def sample_connector_observer_def sample_seen_def sample_inspection_def
        sample_image_seen_def)
  have secret: "expected_secret sample_expectation 65532 \<noteq> None"
    using sample_agrees by (simp add: image_agrees_def facts)
  have run: "observed_connection sample_connector_observer sample_expectation \<lparr>trace = [], world = ()\<rparr>
     = (Inr (sample_seen, CONNECTED, Some 2, Some sample_uuid), \<lparr>trace = sample_events, world = ()\<rparr>)"
    unfolding observed_connection_def
    by (simp add: at_stage_def via_def demanded_def bindE_def requireE_def returnE_def facts sample_inspect sample_inspect_image
        sample_require_fresh sample_connector_bound secret sample_agrees sample_decoded sample_events_def)
  show ?thesis
    by (simp add: observe_connection_def sample_expected attemptE_def run returnE_def sample_connector_observed_def)
qed


theorem connection_result_typed_witness:
  "observe_connection sample_connector_observer sample_connector_request sample_plan sample_current sample_current None None \<lparr>trace = [], world = ()\<rparr>
     = (Inr sample_connector_observed, \<lparr>trace = sample_events, world = ()\<rparr>)
   \<and> observation_typed sample_connector_request sample_connector_observed \<and> oc_outcome sample_connector_observed = CONNECTED"
  using connection_result_typed[OF sample_connector_run, of sample_events] sample_connector_run by (simp add: sample_connector_observed_def seen_connection_def)

end
