(* ===== verification/Spec2Isabelle.thy ===== *)
theory Spec2Isabelle
  imports Cloudflare_Policy Cloudflare_Custody_Props Provider_Claims Provider_Outcomes Verification_Props
    Docker_Names Docker_Sdk_Props Docker_Acquisition Docker_Observer_Props Docker_Configured_Props Docker_Invoked_Props
    Recovery_Metadata_Props Probe_Gateway_Props
    Connector_Connection_Props
begin

text \<open>
  A verification development for the control-plane interpreters
  (\<open>src/control_plane_kit_interpreters\<close> of the repository; file names below are relative to it).

  \<^bold>\<open>The program.\<close>  The core of the control plane describes what is wanted as closed values: runtime
  effect requests, health checks, secret grants, ingress capabilities.  The interpreters of this package
  carry them out at external providers and report what happened as closed results.  They have five parts.
  The \<^emph>\<open>Cloudflare interpreter\<close> creates, rebinds and removes named tunnels with their DNS records.  The
  \<^emph>\<open>secret provider client\<close> writes, generates, resolves and revokes secrets over HTTP, with a bootstrap
  registry, a grant resolver, a custodian and a policy client around it.  The \<^emph>\<open>probes and
  verifications\<close> authorize an endpoint against an address policy and check it.  The \<^emph>\<open>Docker runtime\<close>
  starts, reconciles, stops and removes nodes and their resources, delivers secrets and configuration to
  them, waits until they are healthy and observes them.  Around all of them, \<^emph>\<open>invocations\<close> bracket each
  external call with an admission and the recording of its outcome.

  \<^bold>\<open>How computations are modelled.\<close>  A function of the code that cannot touch anything outside is a HOL
  function; when it can raise, its result is a sum whose left side is the exception.  A function that calls
  a provider is a computation of \<^theory_text>\<open>Effects\<close>: from a state it gives an exception or a result, and the next
  state.  The state is the world of the ports (of any type: nothing is assumed of it) and a trace, the list
  of external calls made so far with their answers.  A provider, a transport, an SDK or a resolver of the
  caller is a port: a function from the world to an answer (or an exception) and the next world; whatever
  is proved holds for all ports.  A mutable variable captured by an inner function is a local variable
  added to the world (\<^theory_text>\<open>Computations\<close>, \<^theory_text>\<open>Docker_Attempt\<close>); the state of an object is passed along
  (the prepared resolver, the connection of the SDK client).  The trace is ghost state: no model reads it.

  \<^bold>\<open>The theories.\<close>
  \<^item> \<^theory_text>\<open>Prelude\<close>, \<^theory_text>\<open>Effects\<close>, \<^theory_text>\<open>Computations\<close>: text, computations, and the rules by which the
    components reason: \<open>emits m R\<close> (the events and the outcome of \<open>m\<close> are related by \<open>R\<close>), \<open>only_emits\<close>,
    \<open>raises_only\<close> and \<open>delivers\<close>, with the collections \<open>emit_intros\<close>, \<open>raise_intros\<close>, \<open>deliver_intros\<close>.
  \<^item> \<^theory_text>\<open>Encoding\<close>, \<^theory_text>\<open>Ip_Address\<close>, \<^theory_text>\<open>Url\<close>, \<^theory_text>\<open>Sha256\<close>: the parts of the Python standard library the code rests
    on (UTF-8, Base64 and percent encoding; \<open>ipaddress\<close>; \<open>urlsplit\<close>; \<open>hashlib.sha256\<close> on 32-bit words).
  \<^item> \<^theory_text>\<open>Invocations\<close> (\<open>invocations.py\<close>): the admission bracket, as the locale \<open>admission_bracket\<close>, and the
    prepared resolver of \<open>secrets.py\<close>.
  \<^item> \<open>cloudflare/client.py\<close>: \<^theory_text>\<open>Cloudflare_Types\<close> (values, validators, hostname policy), \<^theory_text>\<open>Cloudflare_Api\<close>
    (the HTTP client; the locales \<open>single_request\<close>, \<open>read_request\<close>, \<open>acknowledged_request\<close>, interpreted on
    every operation), \<^theory_text>\<open>Cloudflare_Ingress\<close>, \<^theory_text>\<open>Cloudflare_Create\<close> and
    \<^theory_text>\<open>Cloudflare_Retain\<close> (the interpreter).  \<^theory_text>\<open>Cloudflare_Trace\<close> has the vocabulary of the properties, the
    \<open>_Facts\<close> theories the laws of the stages and the \<open>_Props\<close> theories the properties: what is changed, what
    a return has established, what a failure has undone, and that its evidence is true.
  \<^item> \<open>secret_provider/\<close>: \<^theory_text>\<open>Provider_Client\<close> (values; one bounded exchange: the streaming reader,
    \<open>_request_json\<close>), \<^theory_text>\<open>Provider_Operations\<close> (\<open>client.py\<close>), \<^theory_text>\<open>Provider_Custody\<close> (\<open>bootstrap.py\<close>,
    \<open>resolver.py\<close>, \<open>custody.py\<close>, \<open>metadata.py\<close>), \<^theory_text>\<open>Provider_Policy\<close> (\<open>policy.py\<close>).  The locale
    \<open>provider_mutation\<close> of \<^theory_text>\<open>Provider_Props\<close> is the contract of the four changes; \<^theory_text>\<open>Provider_Answers\<close>,
    \<^theory_text>\<open>Provider_Claims\<close> and \<^theory_text>\<open>Provider_Outcomes\<close> show what results and failures mean.
  \<^item> \<open>probes/security.py\<close>, \<open>probes/clients.py\<close>, \<open>verification.py\<close>, \<open>timing.py\<close>: \<^theory_text>\<open>Probe_Security\<close>,
    \<^theory_text>\<open>Probe_Clients\<close>, \<^theory_text>\<open>Verification\<close>, with their \<open>_Props\<close>.  The locale \<open>check_attempts\<close> has the loop of
    attempts of a check; it is interpreted on the HTTP, Redis and Postgres checks.
  \<^item> \<open>probes/gateway.py\<close>: \<^theory_text>\<open>Probe_Gateway\<close>, the signed probe of a gateway; it runs the authorization of its
    endpoint through \<open>via\<close>.
  \<^item> \<open>docker/connector_connection.py\<close>: \<^theory_text>\<open>Docker_Connector\<close> (the evidence of a connector, from \<open>docker/sdk.py\<close>),
    \<^theory_text>\<open>Connector_Qualification\<close> (for which plans and products the observer is made), \<^theory_text>\<open>Connector_Connection\<close> (time
    stamps, samples, the staged observation, run through \<open>via\<close>), with
    \<^theory_text>\<open>Connector_Connection_Props\<close>.
  \<^item> \<open>docker/sdk.py\<close>: \<^theory_text>\<open>Docker_Client\<close> (its interface, as the runtime uses it, and its values),
    \<^theory_text>\<open>Docker_Inspect\<close> (the decoding of inspections), \<^theory_text>\<open>Docker_Sdk\<close>, \<^theory_text>\<open>Docker_Sdk_Client\<close>
    (its calls on the SDK), \<^theory_text>\<open>Docker_Acquisition\<close> (the life of its connection).  \<^theory_text>\<open>Docker_Sdk_Props\<close> shows that
    a change of the interface is refined by the SDK calls it stands for and that helpers are removed.
  \<^item> \<open>secrets.py\<close>: \<^theory_text>\<open>Secret_Delivery\<close>.  \<open>docker/configuration.py\<close>, \<open>docker/configuration_cleanup.py\<close>:
    \<^theory_text>\<open>Docker_Configuration\<close>, \<^theory_text>\<open>Docker_Attempt\<close>, \<^theory_text>\<open>Docker_Configured\<close>.
  \<^item> \<open>docker/runtime.py\<close>, \<open>docker/authority.py\<close>: \<^theory_text>\<open>Runtime_Types\<close> (requests, names, labels, fingerprints),
    \<^theory_text>\<open>Docker_Runtime\<close> (networks, images, secrets, the start of a node), \<^theory_text>\<open>Docker_Nodes\<close> (the node operations
    and \<open>execute\<close>), \<^theory_text>\<open>Docker_Health\<close> (\<open>_wait_for_healthy\<close>), \<^theory_text>\<open>Docker_Session\<close> (the dispatch, authorities,
    \<open>execute_with_authority\<close>), \<^theory_text>\<open>Docker_Invoked\<close> (executions under an invocation port).
    \<open>docker/observer.py\<close>: \<^theory_text>\<open>Docker_Observer\<close>.  \<open>docker/recovery_metadata.py\<close>: \<^theory_text>\<open>Recovery_Metadata\<close>, with the
    locale \<open>call_budget\<close> of \<^theory_text>\<open>Computations\<close> for the calls it may make.
    The reasoning is in \<^theory_text>\<open>Docker_Ownership\<close> (every change of a run is allowed by the history before it,
    with the abstract specification \<open>may_change\<close>), \<^theory_text>\<open>Docker_Owned\<close>, \<^theory_text>\<open>Docker_Node_Facts\<close>, \<^theory_text>\<open>Docker_Props\<close>, the
    \<open>Docker_Configured_\<close> theories (what an attempt says stays true, as the locale \<open>attempt_report\<close>) and the
    other \<open>_Props\<close> theories.

  \<^bold>\<open>Bounds and fuel.\<close>  No model has fuel: the loops of the code run over a list (checks, attempts of a
  policy, chunks of a body, deliveries, mounts), and their models are recursive functions over that list or
  over the number of attempts left.  Waiting is bounded by the attempts of the policies, reading by the
  size and the time limits; both bounds are properties.  SHA-256 works on 32-bit words with wrap-around.

  \<^bold>\<open>Abstractions.\<close>  Text is a list of characters with code points below 256; the limits of the code on text
  beyond that are not seen.  Type checks of the code on arguments (\<open>isinstance\<close>) are the types of the
  model, except where a wrong type is an answer of a provider.  Values of the core package (not part of
  this repository) that are only passed through are abstract; its constructors and validators that can
  reject are parameters.  The time of a monotonic clock is an answer of a port.

  \<^bold>\<open>Not modelled.\<close>  The default connectors (one socket, HTTP or driver call each; they are ports), the
  import of optional modules, \<open>repr\<close> methods, re-exports (\<open>__init__\<close> modules) and the packaging checks of
  \<open>test_support\<close>.  \<open>invoke_async\<close> is \<open>invoke\<close> with an awaited call.
\<close>

end
